(* ===== verification/Prelude.thy ===== *)
theory Prelude
  imports Main "HOL-Library.Word" "HOL-Library.Finite_Map" "HOL-Library.List_Lexorder"
    "HOL-Library.Char_ord" "HOL-Library.Product_Lexorder"
begin

text \<open>
  What the components share: the \<open>Result\<close> type and its \<open>?\<close> operator, Rust's checked and
  saturating integer operations, the string operations the sources call (\<open>trim\<close>,
  \<open>to_ascii_uppercase\<close>, \<open>strip_prefix\<close>, decimal formatting), the iterator folds
  \<open>max_by_key\<close> and \<open>min_by_key\<close>, and the operations of \<open>BTreeMap\<close> on finite maps.
  A \<open>BTreeMap\<close> is a finite map \<open>fmap\<close>, a \<open>BTreeSet\<close> a finite set \<open>fset\<close>; iteration in key
  order goes through \<open>sorted_list_of_fset\<close>. A \<open>String\<close> is the list of its UTF-8 bytes.
\<close>

section \<open>Collections of simplification rules\<close>

named_theorems result_simps \<open>results of fallible operations, read from their Ok branch\<close>
named_theorems int_ops \<open>checked and saturating machine arithmetic\<close>
named_theorems map_ops \<open>operations of ordered maps\<close>

section \<open>Results\<close>

type_synonym ('a, 'e) result = "'e + 'a"

abbreviation Ok :: "'a \<Rightarrow> ('a, 'e) result" where
  "Ok \<equiv> Inr"

abbreviation Err :: "'e \<Rightarrow> ('a, 'e) result" where
  "Err \<equiv> Inl"

text \<open>The \<open>?\<close> operator: go on with the value, or return the error.\<close>

definition and_then :: "('a, 'e) result \<Rightarrow> ('a \<Rightarrow> ('b, 'e) result) \<Rightarrow> ('b, 'e) result" where
  "and_then r f = (case r of Inl e \<Rightarrow> Inl e | Inr x \<Rightarrow> f x)"

definition ok_or :: "'e \<Rightarrow> 'a option \<Rightarrow> ('a, 'e) result" where
  "ok_or e x = (case x of None \<Rightarrow> Inl e | Some y \<Rightarrow> Inr y)"

definition map_err :: "('e \<Rightarrow> 'f) \<Rightarrow> ('a, 'e) result \<Rightarrow> ('a, 'f) result" where
  "map_err g r = (case r of Inl e \<Rightarrow> Inl (g e) | Inr x \<Rightarrow> Inr x)"

lemma and_then_simps [simp]:
  "and_then (Inl e) f = Inl e" "and_then (Inr x) f = f x"
  by (simp_all add: and_then_def)

lemma ok_or_simps [simp]:
  "ok_or e None = Inl e" "ok_or e (Some x) = Inr x"
  by (simp_all add: ok_or_def)

lemma map_err_simps [simp]:
  "map_err g (Inl e) = Inl (g e)" "map_err g (Inr x) = Inr x"
  by (simp_all add: map_err_def)

lemma and_then_Inr_iff [result_simps]:
  "and_then r f = Inr y \<longleftrightarrow> (\<exists>x. r = Inr x \<and> f x = Inr y)"
  by (cases r) auto

lemma ok_or_Inr_iff [result_simps]: "ok_or e x = Inr y \<longleftrightarrow> x = Some y"
  by (cases x) auto

lemma map_err_Inr_iff [result_simps]: "map_err g r = Inr y \<longleftrightarrow> r = Inr y"
  by (cases r) auto

lemma if_Err_Inr_iff [result_simps]: "(if b then Inl e else r) = Inr y \<longleftrightarrow> \<not> b \<and> r = Inr y"
  by simp

lemma if_Ok_Inr_iff [result_simps]: "(if b then r else Inl e) = Inr y \<longleftrightarrow> b \<and> r = Inr y"
  by simp

text \<open>A loop that stops at the first error, such as \<open>for x in xs { check(x)?; }\<close>.\<close>

fun try_all :: "('a \<Rightarrow> (unit, 'e) result) \<Rightarrow> 'a list \<Rightarrow> (unit, 'e) result" where
  "try_all f [] = Ok ()"
| "try_all f (x # xs) = and_then (f x) (\<lambda>_. try_all f xs)"

lemma try_all_Inr_iff [result_simps]: "try_all f xs = Inr u \<longleftrightarrow> (\<forall>x \<in> set xs. f x = Inr ())"
  by (induction xs) (auto simp: result_simps)

section \<open>Machine integers\<close>

text \<open>
  Signed and unsigned words share the type; a signed value is read with \<open>sint\<close>, an unsigned
  one with \<open>uint\<close> or \<open>unat\<close>. Lengths (\<open>usize\<close>) are natural numbers. A \<open>f64\<close> is carried as
  its bit pattern and never computed with.
\<close>

type_synonym u8 = "8 word"
type_synonym u16 = "16 word"
type_synonym u32 = "32 word"
type_synonym u64 = "64 word"
type_synonym i64 = "64 word"
type_synonym f64 = "64 word"

definition checked_i64 :: "int \<Rightarrow> i64 option" where
  "checked_i64 r = (if - (2 ^ 63) \<le> r \<and> r < 2 ^ 63 then Some (word_of_int r) else None)"

definition saturated_i64 :: "int \<Rightarrow> i64" where
  "saturated_i64 r = word_of_int (max (- (2 ^ 63)) (min (2 ^ 63 - 1) r))"

definition checked_add_i64 :: "i64 \<Rightarrow> i64 \<Rightarrow> i64 option" where
  "checked_add_i64 a b = checked_i64 (sint a + sint b)"

definition checked_sub_i64 :: "i64 \<Rightarrow> i64 \<Rightarrow> i64 option" where
  "checked_sub_i64 a b = checked_i64 (sint a - sint b)"

definition checked_mul_i64 :: "i64 \<Rightarrow> i64 \<Rightarrow> i64 option" where
  "checked_mul_i64 a b = checked_i64 (sint a * sint b)"

definition saturating_add_i64 :: "i64 \<Rightarrow> i64 \<Rightarrow> i64" where
  "saturating_add_i64 a b = saturated_i64 (sint a + sint b)"

definition saturating_mul_i64 :: "i64 \<Rightarrow> i64 \<Rightarrow> i64" where
  "saturating_mul_i64 a b = saturated_i64 (sint a * sint b)"

text \<open>\<open>i64::from(x)\<close> for an unsigned 32-bit \<open>x\<close>.\<close>

definition i64_from_u32 :: "u32 \<Rightarrow> i64" where
  "i64_from_u32 x = word_of_int (uint x)"

definition checked_add_u64 :: "u64 \<Rightarrow> u64 \<Rightarrow> u64 option" where
  "checked_add_u64 a b = (if unat a + unat b < 2 ^ 64 then Some (a + b) else None)"

definition saturating_add_u64 :: "u64 \<Rightarrow> u64 \<Rightarrow> u64" where
  "saturating_add_u64 a b = (if unat a + unat b < 2 ^ 64 then a + b else - 1)"

definition saturating_sub_u64 :: "u64 \<Rightarrow> u64 \<Rightarrow> u64" where
  "saturating_sub_u64 a b = (if b \<le> a then a - b else 0)"

definition saturating_mul_u64 :: "u64 \<Rightarrow> u64 \<Rightarrow> u64" where
  "saturating_mul_u64 a b = (if unat a * unat b < 2 ^ 64 then a * b else - 1)"

definition saturating_add_u32 :: "u32 \<Rightarrow> u32 \<Rightarrow> u32" where
  "saturating_add_u32 a b = (if unat a + unat b < 2 ^ 32 then a + b else - 1)"

definition saturating_add_usize :: "nat \<Rightarrow> nat \<Rightarrow> nat" where
  "saturating_add_usize a b = min (a + b) (2 ^ 64 - 1)"

lemma sint_i64_bounds: "- (2 ^ 63) \<le> sint (a :: i64)" "sint (a :: i64) < 2 ^ 63"
  using sint_greater_eq [of a] sint_less [of a] by simp_all

lemma sint_word_of_int_i64:
  assumes "- (2 ^ 63) \<le> r" "r < 2 ^ 63"
  shows "sint (word_of_int r :: i64) = r"
proof -
  have "sint (word_of_int r :: i64) = signed_take_bit 63 r"
    by (simp add: sint_sbintrunc')
  also have "\<dots> = r"
    using assms by (simp add: signed_take_bit_int_eq_self)
  finally show ?thesis .
qed

lemma checked_i64_Some_iff [int_ops]: "checked_i64 r = Some w \<longleftrightarrow> sint w = r"
proof
  assume "checked_i64 r = Some w"
  then show "sint w = r"
    by (auto simp: checked_i64_def sint_word_of_int_i64 split: if_splits)
next
  assume "sint w = r"
  moreover have "word_of_int (sint w) = w"
    by simp
  ultimately show "checked_i64 r = Some w"
    using sint_i64_bounds [of w] by (auto simp: checked_i64_def)
qed

lemma checked_i64_None_iff [int_ops]:
  "checked_i64 r = None \<longleftrightarrow> r < - (2 ^ 63) \<or> 2 ^ 63 \<le> r"
  by (auto simp: checked_i64_def)

lemma sint_saturated_i64 [int_ops]:
  "sint (saturated_i64 r) = max (- (2 ^ 63)) (min (2 ^ 63 - 1) r)"
  unfolding saturated_i64_def by (rule sint_word_of_int_i64) auto

lemma checked_add_i64_Some_iff [int_ops]:
  "checked_add_i64 a b = Some c \<longleftrightarrow> sint c = sint a + sint b"
  by (auto simp: checked_add_i64_def checked_i64_Some_iff)

lemma checked_sub_i64_Some_iff [int_ops]:
  "checked_sub_i64 a b = Some c \<longleftrightarrow> sint c = sint a - sint b"
  by (auto simp: checked_sub_i64_def checked_i64_Some_iff)

lemma checked_mul_i64_Some_iff [int_ops]:
  "checked_mul_i64 a b = Some c \<longleftrightarrow> sint c = sint a * sint b"
  by (auto simp: checked_mul_i64_def checked_i64_Some_iff)

lemma sint_i64_from_u32 [int_ops]: "sint (i64_from_u32 x) = uint x"
proof -
  have "uint x < 2 ^ 63"
    using uint_lt2p [of x] by simp
  moreover have "- (2 ^ 63) \<le> uint x"
    by (rule order_trans [of _ 0]) simp_all
  ultimately show ?thesis
    unfolding i64_from_u32_def by (intro sint_word_of_int_i64)
qed

lemma unat_u64_less: "unat (a :: u64) < 2 ^ 64"
  using unsigned_less [where 'a = nat and w = a] by simp

lemma checked_add_u64_Some_iff [int_ops]:
  "checked_add_u64 a b = Some c \<longleftrightarrow> unat c = unat a + unat b"
proof
  assume "checked_add_u64 a b = Some c"
  then show "unat c = unat a + unat b"
    by (auto simp: checked_add_u64_def unat_word_ariths split: if_splits)
next
  assume eq: "unat c = unat a + unat b"
  then have "unat a + unat b < 2 ^ 64"
    using unat_u64_less [of c] by simp
  moreover from this eq have "c = a + b"
    by (intro unsigned_word_eqI [where 'a = nat]) (simp add: unat_word_ariths)
  ultimately show "checked_add_u64 a b = Some c"
    by (simp add: checked_add_u64_def)
qed

lemma unat_saturating_add_u64 [int_ops]:
  "unat (saturating_add_u64 a b) = min (unat a + unat b) (2 ^ 64 - 1)"
  by (auto simp: saturating_add_u64_def unat_word_ariths unsigned_minus_1_eq_mask mask_eq_exp_minus_1)

lemma unat_saturating_sub_u64 [int_ops]:
  "unat (saturating_sub_u64 a b) = unat a - unat b"
  by (auto simp: saturating_sub_u64_def unat_sub word_le_nat_alt)

section \<open>Strings\<close>

text \<open>
  \<open>str::trim\<close> removes the characters with the Unicode property \<open>White_Space\<close> from both ends.
  In UTF-8 these are the bytes \<open>09\<close> to \<open>0D\<close> and \<open>20\<close>, the two-byte sequences of \<open>U+0085\<close> and
  \<open>U+00A0\<close>, and the three-byte sequences of \<open>U+1680\<close>, \<open>U+2000\<close> to \<open>U+200A\<close>, \<open>U+2028\<close>,
  \<open>U+2029\<close>, \<open>U+202F\<close>, \<open>U+205F\<close> and \<open>U+3000\<close>. In a UTF-8 string the last bytes of such a
  sequence cannot belong to another character, so matching from the end is exact too.
\<close>

definition ws1 :: "char \<Rightarrow> bool" where
  "ws1 a \<longleftrightarrow> a \<in> set [CHR 0x20, CHR 0x09, CHR 0x0A, CHR 0x0B, CHR 0x0C, CHR 0x0D]"

definition ws2 :: "char \<Rightarrow> char \<Rightarrow> bool" where
  "ws2 a b \<longleftrightarrow> a = CHR 0xC2 \<and> (b = CHR 0x85 \<or> b = CHR 0xA0)"

definition ws3 :: "char \<Rightarrow> char \<Rightarrow> char \<Rightarrow> bool" where
  "ws3 a b c \<longleftrightarrow>
     (a = CHR 0xE1 \<and> b = CHR 0x9A \<and> c = CHR 0x80)
   \<or> (a = CHR 0xE2 \<and> b = CHR 0x80 \<and>
        c \<in> set [CHR 0x80, CHR 0x81, CHR 0x82, CHR 0x83, CHR 0x84, CHR 0x85, CHR 0x86,
                 CHR 0x87, CHR 0x88, CHR 0x89, CHR 0x8A, CHR 0xA8, CHR 0xA9, CHR 0xAF])
   \<or> (a = CHR 0xE2 \<and> b = CHR 0x81 \<and> c = CHR 0x9F)
   \<or> (a = CHR 0xE3 \<and> b = CHR 0x80 \<and> c = CHR 0x80)"

fun trim_start :: "string \<Rightarrow> string" where
  "trim_start (a # b # c # s) =
     (if ws1 a then trim_start (b # c # s)
      else if ws2 a b then trim_start (c # s)
      else if ws3 a b c then trim_start s
      else a # b # c # s)"
| "trim_start [a, b] = (if ws1 a then trim_start [b] else if ws2 a b then [] else [a, b])"
| "trim_start [a] = (if ws1 a then [] else [a])"
| "trim_start [] = []"

text \<open>The same from the end, on the reversed bytes.\<close>

fun trim_rev :: "string \<Rightarrow> string" where
  "trim_rev (c # b # a # s) =
     (if ws1 c then trim_rev (b # a # s)
      else if ws2 b c then trim_rev (a # s)
      else if ws3 a b c then trim_rev s
      else c # b # a # s)"
| "trim_rev [b, a] = (if ws1 b then trim_rev [a] else if ws2 a b then [] else [b, a])"
| "trim_rev [a] = (if ws1 a then [] else [a])"
| "trim_rev [] = []"

definition trim :: "string \<Rightarrow> string" where
  "trim s = rev (trim_rev (rev (trim_start s)))"

definition is_blank :: "string \<Rightarrow> bool" where
  "is_blank s \<longleftrightarrow> trim s = []"

lemma is_blank_Nil [simp]: "is_blank []"
  by (simp add: is_blank_def trim_def)

definition ascii_upper :: "char \<Rightarrow> char" where
  "ascii_upper c = (if CHR ''a'' \<le> c \<and> c \<le> CHR ''z'' then char_of (of_char c - (32 :: nat)) else c)"

definition to_ascii_uppercase :: "string \<Rightarrow> string" where
  "to_ascii_uppercase s = map ascii_upper s"

definition is_ascii_uppercase :: "char \<Rightarrow> bool" where
  "is_ascii_uppercase c \<longleftrightarrow> CHR ''A'' \<le> c \<and> c \<le> CHR ''Z''"

definition ascii_lower :: "char \<Rightarrow> char" where
  "ascii_lower c = (if is_ascii_uppercase c then char_of (of_char c + (32 :: nat)) else c)"

definition is_ascii_lowercase :: "char \<Rightarrow> bool" where
  "is_ascii_lowercase c \<longleftrightarrow> CHR ''a'' \<le> c \<and> c \<le> CHR ''z''"

definition is_ascii_digit :: "char \<Rightarrow> bool" where
  "is_ascii_digit c \<longleftrightarrow> CHR ''0'' \<le> c \<and> c \<le> CHR ''9''"

definition is_ascii_alphanumeric :: "char \<Rightarrow> bool" where
  "is_ascii_alphanumeric c \<longleftrightarrow> is_ascii_digit c \<or> is_ascii_lowercase c \<or> is_ascii_uppercase c"

definition strip_prefix :: "string \<Rightarrow> string \<Rightarrow> string option" where
  "strip_prefix p s = (if take (length p) s = p then Some (drop (length p) s) else None)"

lemma strip_prefix_Some_iff: "strip_prefix p s = Some r \<longleftrightarrow> s = p @ r"
  by (auto simp: strip_prefix_def) (metis append_take_drop_id)

lemma ascii_upper_id: "is_ascii_uppercase c \<Longrightarrow> ascii_upper c = c"
  by (auto simp: ascii_upper_def is_ascii_uppercase_def less_eq_char_def)

lemma ascii_upper_idem: "ascii_upper (ascii_upper c) = ascii_upper c"
proof (cases "CHR ''a'' \<le> c \<and> c \<le> CHR ''z''")
  case True
  then have "(97 :: nat) \<le> of_char c" "of_char c \<le> (122 :: nat)"
    by (auto simp: less_eq_char_def)
  then show ?thesis
    using True by (auto simp: ascii_upper_def less_eq_char_def)
next
  case False
  then show ?thesis
    by (auto simp: ascii_upper_def)
qed

lemma ascii_upper_cases:
  "ascii_upper c = c \<or>
   ((65 :: nat) \<le> of_char (ascii_upper c) \<and> of_char (ascii_upper c) \<le> (90 :: nat) \<and>
    97 \<le> (of_char c :: nat) \<and> of_char c \<le> (122 :: nat))"
  by (auto simp: ascii_upper_def less_eq_char_def)

lemma not_letter_upper:
  "(of_char d :: nat) < 65 \<or> 122 < (of_char d :: nat) \<Longrightarrow> ascii_upper c = d \<longleftrightarrow> c = d"
  using ascii_upper_cases [of c] by (auto)

lemma ws_ascii_upper [simp]:
  "ws1 (ascii_upper a) = ws1 a"
  "ws2 (ascii_upper a) (ascii_upper b) = ws2 a b"
  "ws3 (ascii_upper a) (ascii_upper b) (ascii_upper c) = ws3 a b c"
  by (simp_all add: ws1_def ws2_def ws3_def not_letter_upper)

lemma trim_start_upper: "trim_start (map ascii_upper s) = map ascii_upper (trim_start s)"
  by (induction s rule: trim_start.induct) auto

lemma trim_rev_upper: "trim_rev (map ascii_upper s) = map ascii_upper (trim_rev s)"
  by (induction s rule: trim_rev.induct) auto

lemma trim_upper: "trim (to_ascii_uppercase s) = to_ascii_uppercase (trim s)"
  by (simp add: trim_def to_ascii_uppercase_def trim_start_upper trim_rev_upper rev_map)

lemma trim_start_idem: "trim_start (trim_start s) = trim_start s"
  by (induction s rule: trim_start.induct) auto

lemma trim_rev_idem: "trim_rev (trim_rev s) = trim_rev s"
  by (induction s rule: trim_rev.induct) auto

lemma trim_rev_suffix: "\<exists>p. s = p @ trim_rev s"
proof (induction s rule: trim_rev.induct)
  case (1 c b a s)
  then show ?case by (auto; metis append_Cons append_Nil)
qed auto

lemma length_trim_start: "length (trim_start s) \<le> length s"
  by (induction s rule: trim_start.induct) auto

lemma trim_start_no_ws:
  "trim_start (a # s) = a # s \<Longrightarrow> \<not> ws1 a"
  "trim_start (a # b # s) = a # b # s \<Longrightarrow> \<not> ws2 a b"
  "trim_start (a # b # c # s) = a # b # c # s \<Longrightarrow> \<not> ws3 a b c"
proof -
  show "trim_start (a # s) = a # s \<Longrightarrow> \<not> ws1 a"
    using length_trim_start [of s] by (cases "a # s" rule: trim_start.cases) auto
  show "trim_start (a # b # s) = a # b # s \<Longrightarrow> \<not> ws2 a b"
    using length_trim_start [of s] length_trim_start [of "b # s"] by (cases s) (auto split: if_splits)
  show "trim_start (a # b # c # s) = a # b # c # s \<Longrightarrow> \<not> ws3 a b c"
    using length_trim_start [of s] length_trim_start [of "b # c # s"] length_trim_start [of "c # s"]
    by (auto split: if_splits)
qed

text \<open>A prefix of a string that starts with no white space starts with none.\<close>

lemma trim_start_prefix: "trim_start (p @ q) = p @ q \<Longrightarrow> trim_start p = p"
proof (cases p rule: trim_start.cases)
  case (1 a b c s)
  moreover assume "trim_start (p @ q) = p @ q"
  ultimately have "\<not> ws1 a" "\<not> ws2 a b" "\<not> ws3 a b c"
    using trim_start_no_ws [of a] by (metis append_Cons trim_start_no_ws)+
  with 1 show ?thesis by simp
qed (auto dest: trim_start_no_ws)

lemma trim_idem: "trim (trim s) = trim s"
proof -
  obtain p where p: "rev (trim_start s) = p @ trim_rev (rev (trim_start s))"
    using trim_rev_suffix by blast
  let ?t = "rev (trim_rev (rev (trim_start s)))"
  have "trim_start s = ?t @ rev p"
    using arg_cong [OF p, of rev] by simp
  then have "trim_start ?t = ?t"
    by (metis trim_start_idem trim_start_prefix)
  then show ?thesis
    by (simp add: trim_def trim_rev_idem)
qed

section \<open>Decimal numbers\<close>

definition digit_char :: "nat \<Rightarrow> char" where
  "digit_char d = char_of (48 + d)"

fun show_nat :: "nat \<Rightarrow> string" where
  "show_nat n = (if n < 10 then [digit_char n] else show_nat (n div 10) @ [digit_char (n mod 10)])"

declare show_nat.simps [simp del]

definition show_int :: "int \<Rightarrow> string" where
  "show_int i = (if i < 0 then CHR ''-'' # show_nat (nat (- i)) else show_nat (nat i))"

fun read_nat :: "string \<Rightarrow> nat \<Rightarrow> nat" where
  "read_nat [] acc = acc"
| "read_nat (c # cs) acc = read_nat cs (10 * acc + (of_char c - 48))"

lemma read_nat_append: "read_nat (xs @ ys) acc = read_nat ys (read_nat xs acc)"
  by (induction xs arbitrary: acc) auto

lemma of_digit_char: "d < 10 \<Longrightarrow> of_char (digit_char d) = (48 :: nat) + d"
  by (simp add: digit_char_def)

lemma read_show_nat: "read_nat (show_nat n) 0 = n"
proof (induction n rule: show_nat.induct)
  case (1 n)
  show ?case
  proof (cases "n < 10")
    case True
    then show ?thesis by (subst show_nat.simps) (simp add: of_digit_char)
  next
    case False
    then show ?thesis
      using 1 by (subst show_nat.simps) (simp add: read_nat_append of_digit_char)
  qed
qed

lemma show_nat_inject [simp]: "show_nat m = show_nat n \<longleftrightarrow> m = n"
  by (metis read_show_nat)

lemma digit_char_digit: "k < 10 \<Longrightarrow> is_ascii_digit (digit_char k)"
  by (auto simp: is_ascii_digit_def digit_char_def less_eq_char_def)

lemma show_nat_digits: "list_all is_ascii_digit (show_nat n) \<and> show_nat n \<noteq> []"
proof (induction n rule: show_nat.induct)
  case (1 n)
  then show ?case
    by (cases "n < 10") (subst show_nat.simps, simp add: digit_char_digit)+
qed

text \<open>The characters of a UTF-8 string: a byte that is no continuation byte starts one.\<close>

definition continuation_byte :: "char \<Rightarrow> bool" where
  "continuation_byte c \<longleftrightarrow> CHR 0x80 \<le> c \<and> c \<le> CHR 0xBF"

fun utf8_chars :: "string \<Rightarrow> string list" where
  "utf8_chars [] = []"
| "utf8_chars (c # s) =
     (case utf8_chars s of
        [] \<Rightarrow> [[c]]
      | u # us \<Rightarrow> if u \<noteq> [] \<and> continuation_byte (hd u) then (c # u) # us else [c] # u # us)"

section \<open>Iterator folds\<close>

text \<open>
  \<open>Iterator::max_by_key\<close> returns the last of the greatest elements, \<open>min_by_key\<close> the first of
  the least.
\<close>

fun max_by_key :: "('a \<Rightarrow> 'k :: linorder) \<Rightarrow> 'a list \<Rightarrow> 'a option" where
  "max_by_key key [] = None"
| "max_by_key key (x # xs) =
     (case max_by_key key xs of
        None \<Rightarrow> Some x
      | Some y \<Rightarrow> Some (if key y < key x then x else y))"

fun min_by_key :: "('a \<Rightarrow> 'k :: linorder) \<Rightarrow> 'a list \<Rightarrow> 'a option" where
  "min_by_key key [] = None"
| "min_by_key key (x # xs) =
     (case min_by_key key xs of
        None \<Rightarrow> Some x
      | Some y \<Rightarrow> Some (if key y < key x then y else x))"

lemma max_by_key_None_iff [simp]: "max_by_key key xs = None \<longleftrightarrow> xs = []"
  by (cases xs) (auto split: option.splits)

lemma min_by_key_None_iff [simp]: "min_by_key key xs = None \<longleftrightarrow> xs = []"
  by (cases xs) (auto split: option.splits)

lemma max_by_key_Some:
  "max_by_key key xs = Some y \<Longrightarrow> y \<in> set xs \<and> (\<forall>x \<in> set xs. key x \<le> key y)"
proof (induction xs arbitrary: y)
  case Nil
  then show ?case by simp
next
  case (Cons x xs)
  then show ?case
    by (cases "max_by_key key xs") (fastforce split: if_splits)+
qed

lemma min_by_key_Some:
  "min_by_key key xs = Some y \<Longrightarrow> y \<in> set xs \<and> (\<forall>x \<in> set xs. key y \<le> key x)"
proof (induction xs arbitrary: y)
  case Nil
  then show ?case by simp
next
  case (Cons x xs)
  then show ?case
    by (cases "min_by_key key xs") (fastforce split: if_splits)+
qed

section \<open>Ordered maps\<close>

definition contains_key :: "('k, 'v) fmap \<Rightarrow> 'k \<Rightarrow> bool" where
  "contains_key m k \<longleftrightarrow> fmlookup m k \<noteq> None"

text \<open>\<open>if let Some(v) = m.get_mut(k) { *v = f(v) }\<close>\<close>

definition fm_modify :: "'k \<Rightarrow> ('v \<Rightarrow> 'v) \<Rightarrow> ('k, 'v) fmap \<Rightarrow> ('k, 'v) fmap" where
  "fm_modify k f m = (case fmlookup m k of None \<Rightarrow> m | Some v \<Rightarrow> fmupd k (f v) m)"

text \<open>\<open>m.get(k).unwrap_or(d)\<close>; with \<open>fmupd\<close> it is \<open>*m.entry(k).or_insert(d)\<close>.\<close>

definition get_or :: "'v \<Rightarrow> ('k, 'v) fmap \<Rightarrow> 'k \<Rightarrow> 'v" where
  "get_or d m k = (case fmlookup m k of None \<Rightarrow> d | Some v \<Rightarrow> v)"

definition map_len :: "('k, 'v) fmap \<Rightarrow> nat" where
  "map_len m = fcard (fmdom m)"

definition map_keys :: "('k :: linorder, 'v) fmap \<Rightarrow> 'k list" where
  "map_keys m = sorted_list_of_fset (fmdom m)"

definition map_values :: "('k :: linorder, 'v) fmap \<Rightarrow> 'v list" where
  "map_values m = map (\<lambda>k. the (fmlookup m k)) (map_keys m)"

lemma contains_key_simps [simp]:
  "\<not> contains_key fmempty k"
  "contains_key (fmupd k' v m) k \<longleftrightarrow> k = k' \<or> contains_key m k"
  "contains_key (fmdrop k' m) k \<longleftrightarrow> k \<noteq> k' \<and> contains_key m k"
  by (auto simp: contains_key_def)

lemma contains_key_iff_fmdom: "contains_key m k \<longleftrightarrow> k |\<in>| fmdom m"
  by (auto simp: contains_key_def fmlookup_dom_iff)

lemma fmlookup_fm_modify [simp]:
  "fmlookup (fm_modify k f m) k' = (if k = k' then map_option f (fmlookup m k) else fmlookup m k')"
  by (auto simp: fm_modify_def split: option.splits)

lemma fmdom_fm_modify [simp]: "fmdom (fm_modify k f m) = fmdom m"
  by (auto simp: fm_modify_def fmlookup_dom_iff split: option.splits)

lemma contains_key_fm_modify [simp]: "contains_key (fm_modify k f m) k' = contains_key m k'"
  by (simp add: contains_key_iff_fmdom)

lemma fmupd_same: "fmlookup m k = Some v \<Longrightarrow> fmupd k v m = m"
  by (auto intro!: fmap_ext)

lemma fmupd_twice: "fmupd k v (fmupd k u m) = fmupd k v m"
  by (auto intro!: fmap_ext)

lemma unat_of_nat_u64: "k < 2 ^ 64 \<Longrightarrow> unat (of_nat k :: u64) = k"
  by (simp add: unsigned_of_nat take_bit_nat_eq_self)

lemma set_map_keys [simp]: "set (map_keys m) = fset (fmdom m)"
  by (simp add: map_keys_def)

lemma distinct_map_keys [simp]: "distinct (map_keys m)"
  by (simp add: map_keys_def sorted_list_of_fset.rep_eq)

lemma sorted_map_keys [simp]: "sorted (map_keys m)"
  by (simp add: map_keys_def sorted_list_of_fset.rep_eq)

lemma map_values_iff: "v \<in> set (map_values m) \<longleftrightarrow> (\<exists>k. fmlookup m k = Some v)"
  by (force simp: map_values_def fmlookup_dom_iff)

lemma map_values_fmempty [simp]: "map_values fmempty = []"
  by (simp add: map_values_def map_keys_def sorted_list_of_fset.rep_eq)

lemma map_len_fmupd: "map_len (fmupd k v m) = (if contains_key m k then map_len m else Suc (map_len m))"
  by (auto simp: map_len_def contains_key_iff_fmdom fcard_finsert_if)

lemma map_len_fmempty [simp]: "map_len fmempty = 0"
  by (simp add: map_len_def)

section \<open>Sums over a map\<close>

definition fm_sum :: "('v \<Rightarrow> int) \<Rightarrow> ('k, 'v) fmap \<Rightarrow> int" where
  "fm_sum f m = (\<Sum>k \<in> fset (fmdom m). f (the (fmlookup m k)))"

lemma fm_sum_fmempty [simp]: "fm_sum f fmempty = 0"
  by (simp add: fm_sum_def)

lemma fm_sum_fmupd:
  "fm_sum f (fmupd k v m) = fm_sum f m - (case fmlookup m k of None \<Rightarrow> 0 | Some w \<Rightarrow> f w) + f v"
proof -
  let ?D = "fset (fmdom m) - {k}"
  have "fm_sum f (fmupd k v m) = f v + (\<Sum>x \<in> ?D. f (the (fmlookup (fmupd k v m) x)))"
    unfolding fm_sum_def by (simp add: sum.insert_remove)
  also have "(\<Sum>x \<in> ?D. f (the (fmlookup (fmupd k v m) x))) = (\<Sum>x \<in> ?D. f (the (fmlookup m x)))"
    by (rule sum.cong) auto
  also have "\<dots> = fm_sum f m - (case fmlookup m k of None \<Rightarrow> 0 | Some w \<Rightarrow> f w)"
    by (auto simp: fm_sum_def sum_diff1 fmlookup_dom_iff split: option.splits)
  finally show ?thesis by simp
qed

section \<open>Components and their invariants\<close>

text \<open>
  The contract of a component with state: every operation keeps the invariant, so every sequence
  of operations does.
\<close>

locale component =
  fixes step :: "'s \<Rightarrow> 'op \<Rightarrow> 's"
    and inv :: "'s \<Rightarrow> bool"
  assumes step_inv: "inv s \<Longrightarrow> inv (step s opn)"
begin

lemma run_inv: "inv s \<Longrightarrow> inv (foldl step s ops)"
  by (induction ops arbitrary: s) (simp_all add: step_inv)

text \<open>What one operation keeps in every state that satisfies the invariant, a run keeps.\<close>

lemma run_keeps:
  assumes "\<And>s opn. inv s \<Longrightarrow> P s \<Longrightarrow> P (step s opn)"
  shows "inv s \<Longrightarrow> P s \<Longrightarrow> P (foldl step s ops)"
  using assms by (induction ops arbitrary: s) (simp_all add: step_inv)

end

text \<open>
  The same for a component that keeps its invariant as long as a counter of it stays below a
  machine bound; an operation moves the counter by at most one.
\<close>

locale bounded_component =
  fixes step :: "'s \<Rightarrow> 'op \<Rightarrow> 's"
    and inv :: "'s \<Rightarrow> bool"
    and counter :: "'s \<Rightarrow> nat"
    and bound :: nat
  assumes step_inv: "inv s \<Longrightarrow> counter s < bound \<Longrightarrow> inv (step s opn)"
    and step_counter: "inv s \<Longrightarrow> counter s < bound \<Longrightarrow> counter (step s opn) \<le> Suc (counter s)"
begin

lemma run_inv:
  "inv s \<Longrightarrow> counter s + length ops \<le> bound \<Longrightarrow> inv (foldl step s ops)"
proof (induction ops arbitrary: s)
  case Nil
  then show ?case by simp
next
  case (Cons opn ops)
  then have "counter s < bound" by simp
  with Cons.prems have "inv (step s opn)" "counter (step s opn) \<le> Suc (counter s)"
    by (simp_all add: step_inv step_counter)
  with Cons.prems show ?case
    by (simp add: Cons.IH)
qed

text \<open>A quantity that each operation changes by at most its own contribution.\<close>

lemma run_sum_le:
  fixes amount :: "'s \<Rightarrow> int" and gain :: "'op \<Rightarrow> int"
  assumes "\<And>s opn. inv s \<Longrightarrow> counter s < bound \<Longrightarrow> amount (step s opn) \<le> amount s + gain opn"
  shows "inv s \<Longrightarrow> counter s + length ops \<le> bound \<Longrightarrow>
    amount (foldl step s ops) \<le> amount s + sum_list (map gain ops)"
proof (induction ops arbitrary: s)
  case Nil
  then show ?case by simp
next
  case (Cons opn ops)
  then have "counter s < bound" by simp
  with Cons.prems have st: "inv (step s opn)" "counter (step s opn) \<le> Suc (counter s)"
    and le: "amount (step s opn) \<le> amount s + gain opn"
    by (simp_all add: step_inv step_counter assms)
  have "amount (foldl step (step s opn) ops) \<le> amount (step s opn) + sum_list (map gain ops)"
    using st Cons.prems by (intro Cons.IH) simp_all
  with le show ?case by simp
qed

end

end
