(* ===== verification/Actors.thy ===== *)
theory Actors
  imports Prelude
begin

text \<open>
  The actors of \<open>src/native/mahayana-messaging/src/actor.rs\<close>: identifiers, presence, profiles and
  the participants of a conversation. A field \<open>f\<close> of a struct is the record field \<open>f\<close> with a
  prefix for the struct; the comparison of identifiers is that of their bytes.
\<close>

datatype ActorId = ActorId (actor_str: string)

instantiation ActorId :: linorder
begin

definition less_eq_ActorId :: "ActorId \<Rightarrow> ActorId \<Rightarrow> bool" where
  "less_eq_ActorId a b \<longleftrightarrow> actor_str a \<le> actor_str b"

definition less_ActorId :: "ActorId \<Rightarrow> ActorId \<Rightarrow> bool" where
  "less_ActorId a b \<longleftrightarrow> actor_str a < actor_str b"

instance
  by intro_classes
    (auto simp: less_eq_ActorId_def less_ActorId_def intro: ActorId.expand)

end

definition ActorId_is_valid :: "ActorId \<Rightarrow> bool" where
  "ActorId_is_valid a = (let value = trim (actor_str a) in value \<noteq> [] \<and> length value \<le> 160)"

datatype ActorKind = Human | Assistant | Bot | Service

datatype PresenceStatus = Offline | Online | Away | DoNotDisturb

record Presence =
  pr_status :: PresenceStatus
  pr_last_seen_at_ms :: "i64 option"
  pr_status_text :: "string option"

definition Presence_default :: Presence where
  "Presence_default = \<lparr>pr_status = Offline, pr_last_seen_at_ms = None, pr_status_text = None\<rparr>"

record Actor =
  a_id :: ActorId
  a_kind :: ActorKind
  a_display_name :: string
  a_username :: "string option"
  a_avatar_url :: "string option"
  a_bio :: "string option"
  a_capabilities :: "string list"
  a_presence :: Presence
  a_verified :: bool

definition Actor_new :: "string \<Rightarrow> ActorKind \<Rightarrow> string \<Rightarrow> Actor" where
  "Actor_new actor_id kind name =
     \<lparr>a_id = ActorId actor_id, a_kind = kind, a_display_name = name, a_username = None,
      a_avatar_url = None, a_bio = None, a_capabilities = [], a_presence = Presence_default,
      a_verified = False\<rparr>"

definition Actor_human :: "string \<Rightarrow> string \<Rightarrow> Actor" where
  "Actor_human actor_id name = Actor_new actor_id Human name"

definition Actor_bot :: "string \<Rightarrow> string \<Rightarrow> Actor" where
  "Actor_bot actor_id name = Actor_new actor_id Bot name"

definition Actor_assistant :: "string \<Rightarrow> string \<Rightarrow> Actor" where
  "Actor_assistant actor_id name = Actor_new actor_id Assistant name"

datatype ParticipantRole = RoleOwner | RoleAdmin | RoleMember | RoleRestricted

record Participant =
  p_actor_id :: ActorId
  p_role :: ParticipantRole
  p_joined_at_ms :: i64
  p_muted_until_ms :: "i64 option"

end
