(* ===== verification/Conversations.thy ===== *)
theory Conversations
  imports Actors
begin

text \<open>
  The conversations of \<open>src/native/mahayana-messaging/src/conversation.rs\<close>: kinds, settings,
  permissions, topics, drafts and folders, and the constructor of a direct conversation.
\<close>

datatype ConversationId = ConversationId (conversation_str: string)

instantiation ConversationId :: linorder
begin

definition less_eq_ConversationId :: "ConversationId \<Rightarrow> ConversationId \<Rightarrow> bool" where
  "less_eq_ConversationId a b \<longleftrightarrow> conversation_str a \<le> conversation_str b"

definition less_ConversationId :: "ConversationId \<Rightarrow> ConversationId \<Rightarrow> bool" where
  "less_ConversationId a b \<longleftrightarrow> conversation_str a < conversation_str b"

instance
  by intro_classes
    (auto simp: less_eq_ConversationId_def less_ConversationId_def intro: ConversationId.expand)

end

definition ConversationId_is_valid :: "ConversationId \<Rightarrow> bool" where
  "ConversationId_is_valid c =
     (let value = trim (conversation_str c) in value \<noteq> [] \<and> length value \<le> 200)"

datatype ConversationKind = Direct | Group | Channel | SavedMessages | Secret

datatype HistoryVisibility = NewMembersOnly | AllMembers

record NotificationSettings =
  ns_muted_until_ms :: "i64 option"
  ns_sound :: "string option"
  ns_show_preview :: bool
  ns_notify_mentions :: bool

definition NotificationSettings_default :: NotificationSettings where
  "NotificationSettings_default =
     \<lparr>ns_muted_until_ms = None, ns_sound = None, ns_show_preview = True,
      ns_notify_mentions = True\<rparr>"

record ConversationPermissions =
  can_send_messages :: bool
  can_send_media :: bool
  can_send_polls :: bool
  can_add_members :: bool
  can_pin_messages :: bool
  can_manage_topics :: bool
  can_manage_calls :: bool

definition ConversationPermissions_default :: ConversationPermissions where
  "ConversationPermissions_default =
     \<lparr>can_send_messages = True, can_send_media = True, can_send_polls = True,
      can_add_members = True, can_pin_messages = True, can_manage_topics = True,
      can_manage_calls = True\<rparr>"

record Topic =
  t_id :: string
  t_title :: string
  t_icon :: "string option"
  t_created_by :: ActorId
  t_closed :: bool
  t_hidden :: bool
  t_unread_count :: u32

record Conversation =
  c_id :: ConversationId
  c_kind :: ConversationKind
  c_title :: string
  c_description :: "string option"
  c_avatar_url :: "string option"
  c_participants :: "Participant list"
  c_owner_id :: "ActorId option"
  c_last_message_id :: "string option"
  c_last_read_message_id :: "string option"
  c_unread_count :: u32
  c_mention_count :: u32
  c_pinned_message_ids :: "string list"
  c_notification_settings :: NotificationSettings
  c_message_retention_seconds :: "u32 option"
  c_retention_revision :: u64
  c_permissions :: ConversationPermissions
  c_history_visibility :: HistoryVisibility
  c_topics :: "Topic list"
  c_folder_ids :: "string list"
  c_archived :: bool
  c_pinned :: bool
  c_marked_unread :: bool
  c_created_at_ms :: i64
  c_updated_at_ms :: i64

definition Conversation_direct ::
  "string \<Rightarrow> string \<Rightarrow> Participant list \<Rightarrow> i64 \<Rightarrow> Conversation"
where
  "Conversation_direct conversation_id title participants now_ms =
     \<lparr>c_id = ConversationId conversation_id,
      c_kind = Direct,
      c_title = title,
      c_description = None,
      c_avatar_url = None,
      c_participants = participants,
      c_owner_id = None,
      c_last_message_id = None,
      c_last_read_message_id = None,
      c_unread_count = 0,
      c_mention_count = 0,
      c_pinned_message_ids = [],
      c_notification_settings = NotificationSettings_default,
      c_message_retention_seconds = None,
      c_retention_revision = 0,
      c_permissions = ConversationPermissions_default,
      c_history_visibility = AllMembers,
      c_topics = [],
      c_folder_ids = [],
      c_archived = False,
      c_pinned = False,
      c_marked_unread = False,
      c_created_at_ms = now_ms,
      c_updated_at_ms = now_ms\<rparr>"

record ConversationDraft =
  d_conversation_id :: ConversationId
  d_actor_id :: ActorId
  d_text :: string
  d_reply_to_message_id :: "string option"
  d_updated_at_ms :: i64

record TopicDraft =
  td_conversation_id :: ConversationId
  td_topic_id :: string
  td_actor_id :: ActorId
  td_text :: string
  td_reply_to_message_id :: "string option"
  td_updated_at_ms :: i64

record ConversationFolder =
  f_id :: string
  f_title :: string
  f_icon :: "string option"
  f_conversation_ids :: "ConversationId list"
  f_include_contacts :: bool
  f_include_bots :: bool
  f_include_groups :: bool
  f_include_channels :: bool
  f_exclude_muted :: bool
  f_exclude_read :: bool
  f_exclude_archived :: bool

end
