(* ===== verification/Messages.thy ===== *)
theory Messages
  imports Conversations
begin

text \<open>
  The messages of \<open>src/native/mahayana-messaging/src/message.rs\<close> and the encrypted envelope of
  \<open>secret_chat.rs\<close> that a message can carry: formatted text, media references, polls, reply
  markup, the content of a message, its delivery state and the message itself.
\<close>

datatype MessageId = MessageId (message_str: string)

instantiation MessageId :: linorder
begin

definition less_eq_MessageId :: "MessageId \<Rightarrow> MessageId \<Rightarrow> bool" where
  "less_eq_MessageId a b \<longleftrightarrow> message_str a \<le> message_str b"

definition less_MessageId :: "MessageId \<Rightarrow> MessageId \<Rightarrow> bool" where
  "less_MessageId a b \<longleftrightarrow> message_str a < message_str b"

instance
  by intro_classes
    (auto simp: less_eq_MessageId_def less_MessageId_def intro: MessageId.expand)

end

datatype ClientMessageId = ClientMessageId (client_message_str: string)

datatype (plugins only: code size) TextEntityKind =
    Mention
  | MentionActor ActorId
  | Hashtag
  | Url
  | Email
  | PhoneNumber
  | BotCommandEntity
  | Bold
  | Italic
  | Underline
  | Strikethrough
  | Spoiler
  | Code
  | Pre "string option"
  | TextUrl string
  | CustomEmoji string

record TextEntity =
  te_offset_utf16 :: u32
  te_length_utf16 :: u32
  te_kind :: TextEntityKind

record FormattedText =
  ft_text :: string
  ft_entities :: "TextEntity list"

definition FormattedText_plain :: "string \<Rightarrow> FormattedText" where
  "FormattedText_plain text = \<lparr>ft_text = text, ft_entities = []\<rparr>"

record MediaRef =
  mr_id :: string
  mr_file_name :: "string option"
  mr_mime_type :: "string option"
  mr_size_bytes :: "u64 option"
  mr_width :: "u32 option"
  mr_height :: "u32 option"
  mr_duration_ms :: "u64 option"
  mr_thumbnail_id :: "string option"
  mr_local_path :: "string option"
  mr_remote_url :: "string option"
  mr_content_hash :: "string option"

record PollOption =
  po_id :: string
  po_text :: string
  po_voter_count :: u32
  po_chosen :: bool
  po_correct :: "bool option"

datatype InlineButtonAction =
    ActionCallback string
  | ActionUrl string
  | ActionMiniApp (action_mini_app_id: string) (action_start_parameter: "string option")
  | ActionPay string
  | ActionSwitchInline string

record InlineButton =
  ib_text :: string
  ib_action :: InlineButtonAction

record ReplyMarkup =
  rm_rows :: "InlineButton list list"

record EncryptedSecretMessage =
  es_version :: u16
  es_algorithm :: string
  es_conversation_id :: ConversationId
  es_epoch :: u64
  es_sender_id :: ActorId
  es_recipient_id :: ActorId
  es_counter :: u64
  es_nonce_base64 :: string
  es_ciphertext_base64 :: string

datatype (plugins only: code size) MessageContent =
    ContentText FormattedText
  | ContentPhoto MediaRef FormattedText bool
  | ContentVideo MediaRef FormattedText bool bool
  | ContentAnimation MediaRef FormattedText
  | ContentAudio MediaRef FormattedText "string option" "string option"
  | ContentVoice MediaRef FormattedText "u8 list"
  | ContentVideoNote MediaRef
  | ContentDocument MediaRef FormattedText
  | ContentSticker MediaRef "string option" "string option"
  | ContentContact "ActorId option" string "string option"
  | ContentLocation f64 f64 "i64 option"
  | ContentVenue f64 f64 string string
  | ContentPoll FormattedText "PollOption list" bool bool bool
  | ContentDice string u8
  | ContentStory string
  | ContentInvoice string
  | ContentMiniApp string string "string option"
  | ContentSecret EncryptedSecretMessage
  | ContentService string "string option"

text \<open>The arguments of \<open>ContentPoll\<close> are question, options, anonymous, multiple_answers and quiz.\<close>

datatype DeliveryState =
    Pending ClientMessageId
  | Sent
  | Delivered
  | Read
  | FailedDelivery string bool

record ReactionSummary =
  rs_reaction :: string
  rs_count :: u32
  rs_chosen_by_me :: bool
  rs_recent_actor_ids :: "ActorId list"

record Message =
  m_id :: MessageId
  m_conversation_id :: ConversationId
  m_sender_id :: ActorId
  m_content :: MessageContent
  m_reply_to_message_id :: "MessageId option"
  m_thread_root_message_id :: "MessageId option"
  m_forward_origin :: "string option"
  m_reply_markup :: "ReplyMarkup option"
  m_reactions :: "ReactionSummary list"
  m_delivery_state :: DeliveryState
  m_created_at_ms :: i64
  m_edited_at_ms :: "i64 option"
  m_scheduled_at_ms :: "i64 option"
  m_expires_at_ms :: "i64 option"
  m_silent :: bool
  m_protected_content :: bool
  m_pinned :: bool
  m_deleted :: bool

end
