(* ===== verification/Retention.thy ===== *)
theory Retention
  imports Prelude
begin

text \<open>
  The message-retention policy of \<open>src/native/mahayana-messaging/src/retention.rs\<close>: a policy is
  a positive number of seconds, expiry is computed with checked arithmetic, and a change of
  policy carries the revision it was based on.
\<close>

record MessageRetentionPolicy =
  mp_seconds :: u32

datatype MessageRetentionError =
    ZeroSeconds
  | ExpiryOverflow
  | StaleRevision (stale_expected: u64) (stale_actual: u64)
  | RevisionOverflow

definition MessageRetentionPolicy_new ::
  "u32 \<Rightarrow> (MessageRetentionPolicy, MessageRetentionError) result"
where
  "MessageRetentionPolicy_new seconds =
     (if seconds = 0 then Err ZeroSeconds else Ok \<lparr>mp_seconds = seconds\<rparr>)"

definition expires_at_ms ::
  "MessageRetentionPolicy \<Rightarrow> i64 \<Rightarrow> (i64, MessageRetentionError) result"
where
  "expires_at_ms policy server_time_ms =
     and_then (ok_or ExpiryOverflow (checked_mul_i64 (i64_from_u32 (mp_seconds policy)) 1000))
       (\<lambda>ttl_ms. ok_or ExpiryOverflow (checked_add_i64 server_time_ms ttl_ms))"

definition next_retention_revision ::
  "u64 \<Rightarrow> u64 \<Rightarrow> (u64, MessageRetentionError) result"
where
  "next_retention_revision actual_revision expected_revision =
     (if actual_revision \<noteq> expected_revision
      then Err (StaleRevision expected_revision actual_revision)
      else ok_or RevisionOverflow (checked_add_u64 actual_revision 1))"

record ConversationMessageRetention =
  cr_policy :: "MessageRetentionPolicy option"
  cr_revision :: u64

text \<open>\<open>seconds.map(MessageRetentionPolicy::new).transpose()\<close>\<close>

definition transpose_policy ::
  "u32 option \<Rightarrow> (MessageRetentionPolicy option, MessageRetentionError) result"
where
  "transpose_policy seconds =
     (case seconds of
        None \<Rightarrow> Ok None
      | Some s \<Rightarrow> and_then (MessageRetentionPolicy_new s) (\<lambda>p. Ok (Some p)))"

definition retention_change ::
  "ConversationMessageRetention \<Rightarrow> u32 option \<Rightarrow> u64 \<Rightarrow>
     (ConversationMessageRetention, MessageRetentionError) result"
where
  "retention_change self seconds expected_revision =
     and_then (transpose_policy seconds) (\<lambda>policy.
     and_then (next_retention_revision (cr_revision self) expected_revision) (\<lambda>revision.
     Ok \<lparr>cr_policy = policy, cr_revision = revision\<rparr>))"

section \<open>Properties\<close>

lemma policy_new_Ok_iff [result_simps]:
  "MessageRetentionPolicy_new s = Ok p \<longleftrightarrow> s \<noteq> 0 \<and> p = \<lparr>mp_seconds = s\<rparr>"
  by (auto simp: MessageRetentionPolicy_new_def)

text \<open>A \<open>u32\<close> number of seconds always fits an \<open>i64\<close> number of milliseconds.\<close>

lemma ttl_never_overflows:
  "\<exists>ttl. checked_mul_i64 (i64_from_u32 s) 1000 = Some ttl \<and> sint ttl = uint s * 1000"
proof -
  have "uint s * 1000 < 2 ^ 63"
    using uint_lt2p [of s] by simp
  moreover have "- (2 ^ 63) \<le> uint s * 1000"
    by (rule order_trans [of _ 0]) simp_all
  ultimately have "checked_i64 (uint s * 1000) \<noteq> None"
    by (simp only: checked_i64_def) simp
  then show ?thesis
    by (auto simp: checked_mul_i64_def sint_i64_from_u32 checked_i64_Some_iff)
qed

lemma expires_at_ms_eq:
  "expires_at_ms p t = ok_or ExpiryOverflow (checked_i64 (sint t + uint (mp_seconds p) * 1000))"
  using ttl_never_overflows [of "mp_seconds p"]
  by (auto simp: expires_at_ms_def checked_add_i64_def)

lemma expires_at_ms_Ok_iff [result_simps]:
  "expires_at_ms p t = Ok e \<longleftrightarrow> sint e = sint t + uint (mp_seconds p) * 1000"
  by (simp add: expires_at_ms_eq result_simps checked_i64_Some_iff)

lemma expires_at_ms_Err_iff:
  "expires_at_ms p t = Err x \<longleftrightarrow>
     x = ExpiryOverflow \<and> 2 ^ 63 \<le> sint t + uint (mp_seconds p) * 1000"
proof -
  have "- (2 ^ 63) \<le> sint t + uint (mp_seconds p) * 1000"
    using sint_i64_bounds(1) [of t] uint_ge_0 [of "mp_seconds p"] by linarith
  then show ?thesis
    by (auto simp: expires_at_ms_eq checked_i64_def not_le not_less split: if_splits)
qed

lemma next_retention_revision_Ok_iff [result_simps]:
  "next_retention_revision a e = Ok r \<longleftrightarrow> a = e \<and> unat r = unat a + 1"
  by (auto simp: next_retention_revision_def result_simps checked_add_u64_Some_iff)

lemma transpose_policy_Ok_iff [result_simps]:
  "transpose_policy s = Ok p \<longleftrightarrow> s \<noteq> Some 0 \<and> p = map_option (\<lambda>x. \<lparr>mp_seconds = x\<rparr>) s"
  by (cases s) (auto simp: transpose_policy_def result_simps)

lemma retention_change_Ok_iff [result_simps]:
  "retention_change c s e = Ok c' \<longleftrightarrow>
     s \<noteq> Some 0 \<and> e = cr_revision c \<and>
     cr_policy c' = map_option (\<lambda>x. \<lparr>mp_seconds = x\<rparr>) s \<and>
     unat (cr_revision c') = unat (cr_revision c) + 1"
  by (auto simp: retention_change_def result_simps)

end
