(* ===== verification/Payment.thy ===== *)
theory Payment
  imports Conversations
begin

text \<open>
  Money, invoices and orders of \<open>src/native/mahayana-messaging/src/payment.rs\<close>. Amounts are
  \<open>i64\<close> minor units; the total of an invoice is computed with checked additions.
\<close>

record Money =
  currency :: string
  amount_minor :: i64

text \<open>
  \<open>str::to_uppercase\<close> on the ASCII characters; other characters are kept. \<open>Money::new\<close> is applied
  to the currency of an invoice only, and \<open>Invoice_is_valid\<close> admits ASCII capitals alone.
\<close>

definition to_uppercase :: "string \<Rightarrow> string" where
  "to_uppercase s = to_ascii_uppercase s"

definition Money_new :: "string \<Rightarrow> i64 \<Rightarrow> Money" where
  "Money_new cur amount = \<lparr>currency = to_uppercase cur, amount_minor = amount\<rparr>"

definition Money_is_valid :: "Money \<Rightarrow> bool" where
  "Money_is_valid m \<longleftrightarrow>
     length (currency m) = 3 \<and> list_all is_ascii_uppercase (currency m) \<and> 0 \<le> sint (amount_minor m)"

record PriceLine =
  pl_label :: string
  pl_amount :: Money

datatype InvoiceKind = OneTime | Subscription | Donation | DigitalGoods

record Invoice =
  iv_id :: string
  iv_conversation_id :: ConversationId
  iv_seller_id :: ActorId
  iv_title :: string
  iv_description :: string
  iv_kind :: InvoiceKind
  iv_currency :: string
  iv_prices :: "PriceLine list"
  iv_payload :: string
  iv_provider_id :: string
  iv_start_parameter :: "string option"
  iv_request_name :: bool
  iv_request_email :: bool
  iv_request_phone :: bool
  iv_request_shipping_address :: bool
  iv_flexible_shipping :: bool
  iv_created_at_ms :: i64
  iv_expires_at_ms :: "i64 option"

text \<open>\<open>prices.iter().try_fold(0i64, ...)\<close> from a running total.\<close>

fun checked_total_from :: "i64 \<Rightarrow> PriceLine list \<Rightarrow> i64 option" where
  "checked_total_from acc [] = Some acc"
| "checked_total_from acc (line # lines) =
     (case checked_add_i64 acc (amount_minor (pl_amount line)) of
        None \<Rightarrow> None
      | Some t \<Rightarrow> checked_total_from t lines)"

definition checked_total_minor :: "Invoice \<Rightarrow> i64 option" where
  "checked_total_minor iv = checked_total_from 0 (iv_prices iv)"

definition total_minor :: "Invoice \<Rightarrow> i64" where
  "total_minor iv = (case checked_total_minor iv of None \<Rightarrow> 2 ^ 63 - 1 | Some t \<Rightarrow> t)"

definition Invoice_is_valid :: "Invoice \<Rightarrow> bool" where
  "Invoice_is_valid iv \<longleftrightarrow>
     \<not> is_blank (iv_id iv)
   \<and> \<not> is_blank (iv_title iv)
   \<and> length (iv_currency iv) = 3
   \<and> iv_prices iv \<noteq> []
   \<and> list_all (\<lambda>line. currency (pl_amount line) = iv_currency iv \<and> Money_is_valid (pl_amount line))
       (iv_prices iv)
   \<and> (case checked_total_minor iv of None \<Rightarrow> False | Some t \<Rightarrow> 0 < sint t)"

record ShippingAddress =
  sa_country_code :: string
  sa_state :: string
  sa_city :: string
  sa_street_line1 :: string
  sa_street_line2 :: "string option"
  sa_postal_code :: string

record CustomerInfo =
  ci_name :: "string option"
  ci_email :: "string option"
  ci_phone :: "string option"
  ci_shipping_address :: "ShippingAddress option"

datatype PaymentStatus =
    DraftPayment
  | PendingPayment
  | RequiresAction
  | Authorized
  | Paid
  | Refunded
  | PartiallyRefunded
  | CancelledPayment
  | FailedPayment

record PaymentOrder =
  o_id :: string
  o_invoice_id :: string
  o_buyer_id :: ActorId
  o_status :: PaymentStatus
  o_amount :: Money
  o_customer :: "CustomerInfo option"
  o_provider_payment_id :: "string option"
  o_provider_receipt_url :: "string option"
  o_created_at_ms :: i64
  o_updated_at_ms :: i64

section \<open>Properties\<close>

lemma checked_total_from_sum:
  "checked_total_from t ls = Some r \<Longrightarrow>
     sint r = sint t + (\<Sum>l \<leftarrow> ls. sint (amount_minor (pl_amount l)))"
proof (induction ls arbitrary: t)
  case Nil
  then show ?case by simp
next
  case (Cons l ls)
  then show ?case
    by (auto simp: checked_add_i64_Some_iff split: option.splits)
qed

text \<open>The total of an invoice whose total fits is the sum of its lines, with no wrap-around.\<close>

lemma checked_total_minor_sum:
  "checked_total_minor iv = Some r \<Longrightarrow>
     sint r = (\<Sum>l \<leftarrow> iv_prices iv. sint (amount_minor (pl_amount l)))"
  unfolding checked_total_minor_def by (drule checked_total_from_sum) simp

text \<open>With non-negative lines the checked fold fails exactly when the sum does not fit.\<close>

lemma checked_total_from_nonneg:
  assumes "\<forall>l \<in> set ls. 0 \<le> sint (amount_minor (pl_amount l))"
  shows "checked_total_from t ls = None \<longleftrightarrow>
     2 ^ 63 \<le> sint t + (\<Sum>l \<leftarrow> ls. sint (amount_minor (pl_amount l)))"
  using assms
proof (induction ls arbitrary: t)
  case Nil
  then show ?case using sint_i64_bounds [of t] by simp
next
  case (Cons l ls)
  let ?a = "sint (amount_minor (pl_amount l))"
  have nn: "0 \<le> (\<Sum>l \<leftarrow> ls. sint (amount_minor (pl_amount l)))"
    using Cons.prems by (intro sum_list_nonneg) auto
  show ?case
  proof (cases "checked_add_i64 t (amount_minor (pl_amount l))")
    case None
    then have "2 ^ 63 \<le> sint t + ?a"
      using Cons.prems sint_i64_bounds [of t] by (auto simp: checked_add_i64_def checked_i64_None_iff)
    with None nn show ?thesis by simp
  next
    case (Some t')
    then have "sint t' = sint t + ?a" by (simp add: checked_add_i64_Some_iff)
    with Some Cons show ?thesis by (simp add: add.assoc)
  qed
qed

lemma Invoice_is_valid_currency:
  "Invoice_is_valid iv \<Longrightarrow> list_all is_ascii_uppercase (iv_currency iv)"
  by (cases "iv_prices iv") (auto simp: Invoice_is_valid_def Money_is_valid_def)

lemma to_uppercase_id: "list_all is_ascii_uppercase s \<Longrightarrow> to_uppercase s = s"
  by (induction s) (auto simp: to_uppercase_def to_ascii_uppercase_def ascii_upper_id)

lemma Money_new_valid_currency:
  "Invoice_is_valid iv \<Longrightarrow> currency (Money_new (iv_currency iv) a) = iv_currency iv"
  by (simp add: Money_new_def to_uppercase_id Invoice_is_valid_currency)

end
