(* ===== verification/Wallet.thy ===== *)
theory Wallet
  imports Payment
begin

text \<open>
  The wallet ledger of \<open>src/native/mahayana-messaging/src/wallet.rs\<close>: accounts with a balance per
  currency, a journal of entries and an index from request ids to entries, which makes every
  operation idempotent. An operation takes the ledger and returns the ledger it leaves behind
  together with its result, so that what an error path has already written is part of the model.
\<close>

datatype WalletAccountId = WalletAccountId (wallet_account_str: string)

record WalletAccount =
  wa_id :: WalletAccountId
  wa_owner_id :: ActorId
  wa_balances_minor :: "(string, i64) fmap"
  wa_frozen :: bool
  wa_created_at_ms :: i64
  wa_updated_at_ms :: i64

definition normalize_currency :: "string \<Rightarrow> string" where
  "normalize_currency cur = to_ascii_uppercase (trim cur)"

definition balance :: "WalletAccount \<Rightarrow> string \<Rightarrow> i64" where
  "balance account cur = get_or 0 (wa_balances_minor account) (normalize_currency cur)"

datatype LedgerEntryKind = Credit | Transfer | Refund | Adjustment

record LedgerEntry =
  le_id :: string
  le_request_id :: string
  le_kind :: LedgerEntryKind
  le_from_account_id :: "WalletAccountId option"
  le_to_account_id :: "WalletAccountId option"
  le_amount :: Money
  le_reference :: "string option"
  le_created_at_ms :: i64

record WalletLedger =
  w_accounts :: "(WalletAccountId, WalletAccount) fmap"
  w_entries :: "(string, LedgerEntry) fmap"
  w_request_entries :: "(string, string) fmap"

definition WalletLedger_default :: WalletLedger where
  "WalletLedger_default =
     \<lparr>w_accounts = fmempty, w_entries = fmempty, w_request_entries = fmempty\<rparr>"

datatype WalletError =
    InvalidAccountId
  | DuplicateAccount WalletAccountId
  | AccountNotFound WalletAccountId
  | AccountFrozen WalletAccountId
  | InvalidAmount
  | SameAccountTransfer
  | BalanceOverflow
  | InsufficientFunds WalletAccountId string i64 i64
  | EntryNotFound string
  | NotRefundable string

definition validate_amount :: "Money \<Rightarrow> (unit, WalletError) result" where
  "validate_amount amount =
     (if length (trim (currency amount)) < 3 \<or> sint (amount_minor amount) \<le> 0
      then Err InvalidAmount else Ok ())"

definition create_account ::
  "WalletLedger \<Rightarrow> WalletAccountId \<Rightarrow> ActorId \<Rightarrow> i64 \<Rightarrow> WalletLedger \<times> (unit, WalletError) result"
where
  "create_account w account_id owner_id now_ms =
     (if is_blank (wallet_account_str account_id) then (w, Err InvalidAccountId)
      else if contains_key (w_accounts w) account_id then (w, Err (DuplicateAccount account_id))
      else
        (w\<lparr>w_accounts := fmupd account_id
              \<lparr>wa_id = account_id, wa_owner_id = owner_id, wa_balances_minor = fmempty,
               wa_frozen = False, wa_created_at_ms = now_ms, wa_updated_at_ms = now_ms\<rparr>
              (w_accounts w)\<rparr>,
         Ok ()))"

definition entry_for_request :: "WalletLedger \<Rightarrow> string \<Rightarrow> LedgerEntry option" where
  "entry_for_request w request_id =
     (case fmlookup (w_request_entries w) request_id of
        None \<Rightarrow> None
      | Some entry_id \<Rightarrow> fmlookup (w_entries w) entry_id)"

definition insert_entry :: "WalletLedger \<Rightarrow> LedgerEntry \<Rightarrow> WalletLedger" where
  "insert_entry w entry =
     w\<lparr>w_request_entries := fmupd (le_request_id entry) (le_id entry) (w_request_entries w),
       w_entries := fmupd (le_id entry) entry (w_entries w)\<rparr>"

text \<open>\<open>format!("ledger:{}", self.entries.len().saturating_add(1))\<close>\<close>

definition next_entry_id :: "WalletLedger \<Rightarrow> string" where
  "next_entry_id w = ''ledger:'' @ show_nat (saturating_add_usize (map_len (w_entries w)) 1)"

text \<open>
  The write to an account that \<open>credit\<close> and \<open>transfer\<close> share: \<open>entry(currency).or_default()\<close> puts
  a zero balance in place before the checked arithmetic may fail.
\<close>

definition set_balance :: "string \<Rightarrow> i64 \<Rightarrow> WalletAccount \<Rightarrow> WalletAccount" where
  "set_balance cur b account =
     account\<lparr>wa_balances_minor := fmupd cur b (wa_balances_minor account)\<rparr>"

definition credit ::
  "WalletLedger \<Rightarrow> string \<Rightarrow> WalletAccountId \<Rightarrow> Money \<Rightarrow> string option \<Rightarrow> i64 \<Rightarrow>
     WalletLedger \<times> (LedgerEntry, WalletError) result"
where
  "credit w request_id account_id amount reference now_ms =
     (case entry_for_request w request_id of
        Some existing \<Rightarrow> (w, Ok existing)
      | None \<Rightarrow>
     (case validate_amount amount of
        Inl e \<Rightarrow> (w, Err e)
      | Inr _ \<Rightarrow>
     (case fmlookup (w_accounts w) account_id of
        None \<Rightarrow> (w, Err (AccountNotFound account_id))
      | Some account \<Rightarrow>
          if wa_frozen account then (w, Err (AccountFrozen account_id))
          else
            let cur = normalize_currency (currency amount);
                old = get_or 0 (wa_balances_minor account) cur
            in case checked_add_i64 old (amount_minor amount) of
                 None \<Rightarrow>
                   (w\<lparr>w_accounts := fmupd account_id (set_balance cur old account) (w_accounts w)\<rparr>,
                    Err BalanceOverflow)
               | Some new \<Rightarrow>
                   let w' = w\<lparr>w_accounts := fmupd account_id
                                ((set_balance cur new account)\<lparr>wa_updated_at_ms := now_ms\<rparr>)
                                (w_accounts w)\<rparr>;
                       entry = \<lparr>le_id = next_entry_id w', le_request_id = request_id,
                                le_kind = Credit, le_from_account_id = None,
                                le_to_account_id = Some account_id,
                                le_amount = \<lparr>currency = cur, amount_minor = amount_minor amount\<rparr>,
                                le_reference = reference, le_created_at_ms = now_ms\<rparr>
                   in (insert_entry w' entry, Ok entry))))"

text \<open>
  The checks of \<open>transfer\<close> that come before the first write, in the order of the source; the
  result is the normalized currency and the two accounts.
\<close>

definition transfer_checks ::
  "WalletLedger \<Rightarrow> WalletAccountId \<Rightarrow> WalletAccountId \<Rightarrow> Money \<Rightarrow>
     (string \<times> WalletAccount \<times> WalletAccount, WalletError) result"
where
  "transfer_checks w from_id to_id amount =
     and_then (validate_amount amount) (\<lambda>_.
     if from_id = to_id then Err SameAccountTransfer
     else
       let cur = normalize_currency (currency amount) in
       and_then (ok_or (AccountNotFound from_id) (fmlookup (w_accounts w) from_id)) (\<lambda>from.
       let debit_balance = balance from cur in
       if wa_frozen from then Err (AccountFrozen from_id)
       else and_then (ok_or (AccountNotFound to_id) (fmlookup (w_accounts w) to_id)) (\<lambda>to.
       if wa_frozen to then Err (AccountFrozen to_id)
       else if sint debit_balance < sint (amount_minor amount)
       then Err (InsufficientFunds from_id cur debit_balance (amount_minor amount))
       else Ok (cur, from, to))))"

text \<open>The two writes and the journal entry. An overflow of the second leaves the first in place.\<close>

definition transfer_writes ::
  "WalletLedger \<Rightarrow> string \<Rightarrow> WalletAccountId \<Rightarrow> WalletAccountId \<Rightarrow> string \<Rightarrow> WalletAccount \<Rightarrow>
     WalletAccount \<Rightarrow> i64 \<Rightarrow> string option \<Rightarrow> i64 \<Rightarrow> WalletLedger \<times> (LedgerEntry, WalletError) result"
where
  "transfer_writes w request_id from_id to_id cur from to amount reference now_ms =
     (let from_old = get_or 0 (wa_balances_minor from) cur in
      case checked_sub_i64 from_old amount of
        None \<Rightarrow>
          (w\<lparr>w_accounts := fmupd from_id (set_balance cur from_old from) (w_accounts w)\<rparr>,
           Err BalanceOverflow)
      | Some from_new \<Rightarrow>
          let w1 = w\<lparr>w_accounts := fmupd from_id
                       ((set_balance cur from_new from)\<lparr>wa_updated_at_ms := now_ms\<rparr>)
                       (w_accounts w)\<rparr>;
              to_old = get_or 0 (wa_balances_minor to) cur
          in case checked_add_i64 to_old amount of
               None \<Rightarrow>
                 (w1\<lparr>w_accounts := fmupd to_id (set_balance cur to_old to) (w_accounts w1)\<rparr>,
                  Err BalanceOverflow)
             | Some to_new \<Rightarrow>
                 let w2 = w1\<lparr>w_accounts := fmupd to_id
                              ((set_balance cur to_new to)\<lparr>wa_updated_at_ms := now_ms\<rparr>)
                              (w_accounts w1)\<rparr>;
                     entry = \<lparr>le_id = next_entry_id w2, le_request_id = request_id,
                              le_kind = Transfer, le_from_account_id = Some from_id,
                              le_to_account_id = Some to_id,
                              le_amount = \<lparr>currency = cur, amount_minor = amount\<rparr>,
                              le_reference = reference, le_created_at_ms = now_ms\<rparr>
                 in (insert_entry w2 entry, Ok entry))"

definition transfer ::
  "WalletLedger \<Rightarrow> string \<Rightarrow> WalletAccountId \<Rightarrow> WalletAccountId \<Rightarrow> Money \<Rightarrow> string option \<Rightarrow> i64 \<Rightarrow>
     WalletLedger \<times> (LedgerEntry, WalletError) result"
where
  "transfer w request_id from_id to_id amount reference now_ms =
     (case entry_for_request w request_id of
        Some existing \<Rightarrow> (w, Ok existing)
      | None \<Rightarrow>
          (case transfer_checks w from_id to_id amount of
             Inl e \<Rightarrow> (w, Err e)
           | Inr (cur, from, to) \<Rightarrow>
               transfer_writes w request_id from_id to_id cur from to (amount_minor amount)
                 reference now_ms))"

definition refund_transfer ::
  "WalletLedger \<Rightarrow> string \<Rightarrow> string \<Rightarrow> i64 \<Rightarrow> WalletLedger \<times> (LedgerEntry, WalletError) result"
where
  "refund_transfer w request_id original_entry_id now_ms =
     (case entry_for_request w request_id of
        Some existing \<Rightarrow> (w, Ok existing)
      | None \<Rightarrow>
     (case fmlookup (w_entries w) original_entry_id of
        None \<Rightarrow> (w, Err (EntryNotFound original_entry_id))
      | Some original \<Rightarrow>
          if le_kind original \<noteq> Transfer then (w, Err (NotRefundable original_entry_id))
          else
     (case le_from_account_id original of
        None \<Rightarrow> (w, Err (NotRefundable original_entry_id))
      | Some original_from \<Rightarrow>
     (case le_to_account_id original of
        None \<Rightarrow> (w, Err (NotRefundable original_entry_id))
      | Some original_to \<Rightarrow>
     (case transfer w request_id original_to original_from (le_amount original)
             (Some (''refund:'' @ original_entry_id)) now_ms of
        (w', Inl e) \<Rightarrow> (w', Err e)
      | (w', Inr entry) \<Rightarrow>
          let entry' = entry\<lparr>le_kind := Refund\<rparr>
          in (w'\<lparr>w_entries := fmupd (le_id entry') entry' (w_entries w')\<rparr>, Ok entry'))))))"

definition freeze ::
  "WalletLedger \<Rightarrow> WalletAccountId \<Rightarrow> bool \<Rightarrow> WalletLedger \<times> (unit, WalletError) result"
where
  "freeze w account_id frozen =
     (case fmlookup (w_accounts w) account_id of
        None \<Rightarrow> (w, Err (AccountNotFound account_id))
      | Some account \<Rightarrow>
          (w\<lparr>w_accounts := fmupd account_id (account\<lparr>wa_frozen := frozen\<rparr>) (w_accounts w)\<rparr>,
           Ok ()))"

section \<open>What the ledger promises\<close>

text \<open>The balance of an account in a (normalized) currency, as an integer.\<close>

definition ledger_balance :: "WalletLedger \<Rightarrow> WalletAccountId \<Rightarrow> string \<Rightarrow> int" where
  "ledger_balance w a cur =
     (case fmlookup (w_accounts w) a of
        None \<Rightarrow> 0
      | Some account \<Rightarrow> sint (get_or 0 (wa_balances_minor account) cur))"

text \<open>All the money of a currency.\<close>

definition total_balance :: "WalletLedger \<Rightarrow> string \<Rightarrow> int" where
  "total_balance w cur =
     fm_sum (\<lambda>account. sint (get_or 0 (wa_balances_minor account) cur)) (w_accounts w)"

definition ledger_id :: "nat \<Rightarrow> string" where
  "ledger_id i = ''ledger:'' @ show_nat i"

text \<open>
  The invariant: no balance is negative, accounts and entries stand under their own id, the
  entries are numbered from 1 without gaps, and the request index lists exactly the entries.
\<close>

definition solvent :: "WalletLedger \<Rightarrow> bool" where
  "solvent w \<longleftrightarrow>
     (\<forall>a account cur b. fmlookup (w_accounts w) a = Some account \<longrightarrow>
        fmlookup (wa_balances_minor account) cur = Some b \<longrightarrow> 0 \<le> sint b)"

definition journal_ok :: "WalletLedger \<Rightarrow> bool" where
  "journal_ok w \<longleftrightarrow>
     (\<forall>a account. fmlookup (w_accounts w) a = Some account \<longrightarrow> wa_id account = a)
   \<and> (\<forall>k entry. fmlookup (w_entries w) k = Some entry \<longrightarrow> le_id entry = k)
   \<and> (\<forall>k. contains_key (w_entries w) k \<longleftrightarrow>
        (\<exists>i. 1 \<le> i \<and> i \<le> map_len (w_entries w) \<and> k = ledger_id i))
   \<and> (\<forall>r k. fmlookup (w_request_entries w) r = Some k \<longleftrightarrow>
        (\<exists>entry. fmlookup (w_entries w) k = Some entry \<and> le_request_id entry = r))"

definition ledger_inv :: "WalletLedger \<Rightarrow> bool" where
  "ledger_inv w \<longleftrightarrow> solvent w \<and> journal_ok w"

text \<open>\<open>usize\<close> cannot count more entries than this.\<close>

definition journal_room :: "WalletLedger \<Rightarrow> bool" where
  "journal_room w \<longleftrightarrow> map_len (w_entries w) < 2 ^ 64 - 1"

section \<open>Auxiliary facts\<close>

lemma ledger_id_inject [simp]: "ledger_id i = ledger_id j \<longleftrightarrow> i = j"
  by (simp add: ledger_id_def)

lemma normalize_currency_idem [simp]:
  "normalize_currency (normalize_currency cur) = normalize_currency cur"
  by (simp add: normalize_currency_def trim_upper trim_idem)
    (simp add: to_ascii_uppercase_def ascii_upper_idem)

lemma length_trim_normalize [simp]: "length (trim (normalize_currency cur)) = length (trim cur)"
  by (simp add: normalize_currency_def trim_upper trim_idem) (simp add: to_ascii_uppercase_def)

lemma validate_amount_Ok_iff [result_simps]:
  "validate_amount m = Ok u \<longleftrightarrow> 3 \<le> length (trim (currency m)) \<and> 0 < sint (amount_minor m)"
  by (auto simp: validate_amount_def)

lemma get_or_fmupd [simp]: "get_or d (fmupd k v m) k' = (if k' = k then v else get_or d m k')"
  by (simp add: get_or_def)

lemma get_or_balance: "sint (balance account cur) = sint (get_or 0 (wa_balances_minor account) (normalize_currency cur))"
  by (simp add: balance_def)

lemma solvent_get_or:
  "solvent w \<Longrightarrow> fmlookup (w_accounts w) a = Some account \<Longrightarrow>
     0 \<le> sint (get_or 0 (wa_balances_minor account) cur)"
  by (auto simp: solvent_def get_or_def split: option.splits)

text \<open>Writing a non-negative balance into one account keeps the ledger solvent.\<close>

lemma solvent_set_balance:
  assumes "solvent w" "fmlookup (w_accounts w) a = Some account" "0 \<le> sint b"
  shows "solvent (w\<lparr>w_accounts := fmupd a (set_balance cur b account) (w_accounts w)\<rparr>)"
    and "solvent (w\<lparr>w_accounts := fmupd a ((set_balance cur b account)\<lparr>wa_updated_at_ms := t\<rparr>)
           (w_accounts w)\<rparr>)"
  using assms by (auto simp: solvent_def set_balance_def split: if_splits)

lemma solvent_insert_entry [simp]: "solvent (insert_entry w e) = solvent w"
  by (simp add: solvent_def insert_entry_def)

lemma solvent_more_entries [simp]: "solvent (w\<lparr>w_entries := es\<rparr>) = solvent w"
  by (simp add: solvent_def)

lemma total_balance_write:
  assumes "fmlookup (w_accounts w) a = Some account"
  shows "total_balance (w\<lparr>w_accounts := fmupd a account' (w_accounts w)\<rparr>) cur =
     total_balance w cur - sint (get_or 0 (wa_balances_minor account) cur)
       + sint (get_or 0 (wa_balances_minor account') cur)"
  using assms by (simp add: total_balance_def fm_sum_fmupd)

lemma ledger_frame_simps [simp]:
  "total_balance (insert_entry w e) cur = total_balance w cur"
  "total_balance (w\<lparr>w_entries := es\<rparr>) cur = total_balance w cur"
  "ledger_balance (insert_entry w e) a cur = ledger_balance w a cur"
  "ledger_balance (w\<lparr>w_entries := es\<rparr>) a cur = ledger_balance w a cur"
  by (simp_all add: total_balance_def ledger_balance_def insert_entry_def)

lemma journal_ok_accounts:
  "journal_ok w \<Longrightarrow> \<forall>a account. fmlookup accounts a = Some account \<longrightarrow> wa_id account = a \<Longrightarrow>
     journal_ok (w\<lparr>w_accounts := accounts\<rparr>)"
  by (simp add: journal_ok_def)

lemma journal_okI:
  assumes "\<And>a account. fmlookup (w_accounts w) a = Some account \<Longrightarrow> wa_id account = a"
    and "\<And>k e. fmlookup (w_entries w) k = Some e \<Longrightarrow> le_id e = k"
    and "\<And>k. contains_key (w_entries w) k \<longleftrightarrow>
           (\<exists>i. 1 \<le> i \<and> i \<le> map_len (w_entries w) \<and> k = ledger_id i)"
    and "\<And>r k. fmlookup (w_request_entries w) r = Some k \<longleftrightarrow>
           (\<exists>e. fmlookup (w_entries w) k = Some e \<and> le_request_id e = r)"
  shows "journal_ok w"
  using assms unfolding journal_ok_def by blast

lemma journal_okD:
  assumes "journal_ok w"
  shows "fmlookup (w_accounts w) a = Some account \<Longrightarrow> wa_id account = a"
    and "fmlookup (w_entries w) k = Some e \<Longrightarrow> le_id e = k"
    and "contains_key (w_entries w) k \<longleftrightarrow>
           (\<exists>i. 1 \<le> i \<and> i \<le> map_len (w_entries w) \<and> k = ledger_id i)"
    and "fmlookup (w_request_entries w) r = Some k \<longleftrightarrow>
           (\<exists>e. fmlookup (w_entries w) k = Some e \<and> le_request_id e = r)"
  using assms unfolding journal_ok_def by blast+

lemma journal_ok_indexed:
  "journal_ok w \<Longrightarrow> fmlookup (w_entries w) k = Some e \<Longrightarrow>
     fmlookup (w_request_entries w) (le_request_id e) = Some k"
  using journal_okD(4) by blast

lemma next_entry_id_eq:
  "journal_room w \<Longrightarrow> next_entry_id w = ledger_id (Suc (map_len (w_entries w)))"
  by (simp add: next_entry_id_def ledger_id_def saturating_add_usize_def journal_room_def)

lemma next_entry_id_fresh:
  "journal_ok w \<Longrightarrow> journal_room w \<Longrightarrow> fmlookup (w_entries w) (next_entry_id w) = None"
proof (rule ccontr)
  assume ok: "journal_ok w" "journal_room w" and "fmlookup (w_entries w) (next_entry_id w) \<noteq> None"
  then have "contains_key (w_entries w) (ledger_id (Suc (map_len (w_entries w))))"
    by (simp add: contains_key_def next_entry_id_eq)
  then show False
    using journal_okD(3) [OF ok(1)] by auto
qed

lemma entry_for_request_iff:
  "journal_ok w \<Longrightarrow> entry_for_request w r = Some e \<longleftrightarrow>
     fmlookup (w_entries w) (le_id e) = Some e \<and> le_request_id e = r"
  unfolding entry_for_request_def
  by (auto split: option.splits dest: journal_okD(2) journal_ok_indexed)
    (metis journal_okD(2,4) option.inject)+

lemma entry_for_request_None:
  "journal_ok w \<Longrightarrow> entry_for_request w r = None \<longleftrightarrow> fmlookup (w_request_entries w) r = None"
  by (auto simp: entry_for_request_def split: option.splits) (metis journal_okD(4) option.distinct(1))

text \<open>A fresh entry under the next number, for a request not seen before, keeps the journal.\<close>

lemma journal_ok_insert_entry:
  assumes ok: "journal_ok w" and room: "journal_room w"
    and new: "entry_for_request w (le_request_id e) = None"
    and e: "le_id e = next_entry_id w"
  shows "journal_ok (insert_entry w e)"
proof -
  have fresh: "fmlookup (w_entries w) (le_id e) = None"
    using next_entry_id_fresh [OF ok room] e by simp
  have "fmlookup (w_request_entries w) (le_request_id e) = None"
    using ok new by (simp add: entry_for_request_None)
  then have unindexed: "\<And>k x. fmlookup (w_entries w) k = Some x \<Longrightarrow> le_request_id x \<noteq> le_request_id e"
    using journal_ok_indexed [OF ok] by fastforce
  have len: "map_len (fmupd (le_id e) e (w_entries w)) = Suc (map_len (w_entries w))"
    using fresh by (simp add: map_len_fmupd contains_key_def)
  have keys: "contains_key (w_entries w) k \<longleftrightarrow>
      (\<exists>i. 1 \<le> i \<and> i \<le> map_len (w_entries w) \<and> k = ledger_id i)" for k
    using ok by (simp add: journal_ok_def)
  have "contains_key (fmupd (le_id e) e (w_entries w)) k \<longleftrightarrow>
      (\<exists>i. 1 \<le> i \<and> i \<le> Suc (map_len (w_entries w)) \<and> k = ledger_id i)" for k
    using keys e next_entry_id_eq [OF room] by (auto simp: le_Suc_eq)
  moreover have "fmlookup (fmupd (le_request_id e) (le_id e) (w_request_entries w)) r = Some k \<longleftrightarrow>
      (\<exists>x. fmlookup (fmupd (le_id e) e (w_entries w)) k = Some x \<and> le_request_id x = r)" for r k
    using ok unindexed fresh unfolding journal_ok_def by auto
  ultimately show ?thesis
    using ok by (simp add: journal_ok_def insert_entry_def len)
qed

section \<open>Transfers\<close>

lemma transfer_checks_Ok_iff [result_simps]:
  "transfer_checks w f t m = Ok (cur, src, dst) \<longleftrightarrow>
     3 \<le> length (trim (currency m)) \<and> 0 < sint (amount_minor m) \<and> f \<noteq> t \<and>
     cur = normalize_currency (currency m) \<and>
     fmlookup (w_accounts w) f = Some src \<and> \<not> wa_frozen src \<and>
     fmlookup (w_accounts w) t = Some dst \<and> \<not> wa_frozen dst \<and>
     sint (amount_minor m) \<le> sint (get_or 0 (wa_balances_minor src) cur)"
  by (auto simp: transfer_checks_def Let_def result_simps balance_def not_less not_le)

text \<open>The debit of a checked transfer never overflows.\<close>

lemma checked_debit:
  assumes "0 < sint (x :: i64)" "sint x \<le> sint b"
  shows "\<exists>n. checked_sub_i64 b x = Some n \<and> sint n = sint b - sint x"
proof -
  have "checked_i64 (sint b - sint x) \<noteq> None"
    using assms sint_i64_bounds(2) [of b] by (auto simp: checked_i64_None_iff)
  then show ?thesis
    by (auto simp: checked_sub_i64_def checked_i64_Some_iff)
qed

text \<open>The ledger after the two balance writes of a transfer, before the journal entry.\<close>

definition moved ::
  "WalletLedger \<Rightarrow> WalletAccountId \<Rightarrow> WalletAccountId \<Rightarrow> string \<Rightarrow> WalletAccount \<Rightarrow> i64 \<Rightarrow>
     WalletAccount \<Rightarrow> i64 \<Rightarrow> i64 \<Rightarrow> WalletLedger"
where
  "moved w f t cur src src_new dst dst_new now =
     w\<lparr>w_accounts :=
         fmupd t ((set_balance cur dst_new dst)\<lparr>wa_updated_at_ms := now\<rparr>)
           (fmupd f ((set_balance cur src_new src)\<lparr>wa_updated_at_ms := now\<rparr>) (w_accounts w))\<rparr>"

text \<open>What an overflow of the second write leaves: the debit is in place, the credit is not.\<close>

definition half_moved ::
  "WalletLedger \<Rightarrow> WalletAccountId \<Rightarrow> WalletAccountId \<Rightarrow> string \<Rightarrow> WalletAccount \<Rightarrow> i64 \<Rightarrow>
     WalletAccount \<Rightarrow> i64 \<Rightarrow> WalletLedger"
where
  "half_moved w f t cur src src_new dst now =
     w\<lparr>w_accounts :=
         fmupd t (set_balance cur (get_or 0 (wa_balances_minor dst) cur) dst)
           (fmupd f ((set_balance cur src_new src)\<lparr>wa_updated_at_ms := now\<rparr>) (w_accounts w))\<rparr>"

definition transfer_entry ::
  "WalletLedger \<Rightarrow> string \<Rightarrow> WalletAccountId \<Rightarrow> WalletAccountId \<Rightarrow> string \<Rightarrow> i64 \<Rightarrow> string option \<Rightarrow>
     i64 \<Rightarrow> LedgerEntry"
where
  "transfer_entry w r f t cur a reference now =
     \<lparr>le_id = next_entry_id w, le_request_id = r, le_kind = Transfer,
      le_from_account_id = Some f, le_to_account_id = Some t,
      le_amount = \<lparr>currency = cur, amount_minor = a\<rparr>,
      le_reference = reference, le_created_at_ms = now\<rparr>"

lemma next_entry_id_accounts [simp]: "next_entry_id (w\<lparr>w_accounts := x\<rparr>) = next_entry_id w"
  by (simp add: next_entry_id_def)

text \<open>
  Every outcome of a transfer: a replay of a known request, a refused check, an overflow of the
  receiving account, or a posted transfer.
\<close>

lemma transfer_outcome:
  fixes w r f t m reference now
  defines "res \<equiv> transfer w r f t m reference now"
  obtains
    (replay) e where "entry_for_request w r = Some e" "res = (w, Ok e)"
  | (refused) x where "entry_for_request w r = None" "transfer_checks w f t m = Err x" "res = (w, Err x)"
  | (overflow) cur src dst src_new where "entry_for_request w r = None"
      "transfer_checks w f t m = Ok (cur, src, dst)"
      "sint src_new = sint (get_or 0 (wa_balances_minor src) cur) - sint (amount_minor m)"
      "2 ^ 63 \<le> sint (get_or 0 (wa_balances_minor dst) cur) + sint (amount_minor m)"
      "res = (half_moved w f t cur src src_new dst now, Err BalanceOverflow)"
  | (posted) cur src dst src_new dst_new where "entry_for_request w r = None"
      "transfer_checks w f t m = Ok (cur, src, dst)"
      "sint src_new = sint (get_or 0 (wa_balances_minor src) cur) - sint (amount_minor m)"
      "sint dst_new = sint (get_or 0 (wa_balances_minor dst) cur) + sint (amount_minor m)"
      "res = (insert_entry (moved w f t cur src src_new dst dst_new now)
                (transfer_entry w r f t cur (amount_minor m) reference now),
              Ok (transfer_entry w r f t cur (amount_minor m) reference now))"
proof (cases "entry_for_request w r")
  case (Some e)
  then show thesis using replay by (simp add: res_def transfer_def)
next
  case none: None
  show thesis
  proof (cases "transfer_checks w f t m")
    case (Inl x)
    with none show thesis using refused by (simp add: res_def transfer_def)
  next
    case (Inr z)
    then obtain cur src dst where ok: "transfer_checks w f t m = Ok (cur, src, dst)"
      by (cases z) auto
    then obtain src_new where
      sub: "checked_sub_i64 (get_or 0 (wa_balances_minor src) cur) (amount_minor m) = Some src_new"
      and fn: "sint src_new = sint (get_or 0 (wa_balances_minor src) cur) - sint (amount_minor m)"
      using checked_debit by (fastforce simp: result_simps)
    let ?dst = "get_or 0 (wa_balances_minor dst) cur"
    note eq = res_def transfer_def none ok transfer_writes_def sub Let_def
    show thesis
    proof (cases "checked_add_i64 ?dst (amount_minor m)")
      case None
      then have "2 ^ 63 \<le> sint ?dst + sint (amount_minor m)"
        using ok sint_i64_bounds(1) [of ?dst]
        by (auto simp: checked_add_i64_def checked_i64_None_iff result_simps)
      then show thesis
        by (intro overflow [OF none ok fn]) (simp_all add: eq None half_moved_def)
    next
      case (Some dst_new)
      then have dn: "sint dst_new = sint ?dst + sint (amount_minor m)"
        by (simp add: checked_add_i64_Some_iff)
      show thesis
        by (intro posted [OF none ok fn dn]) (simp add: eq Some moved_def transfer_entry_def)
    qed
  qed
qed

lemma moved_facts:
  assumes "transfer_checks w f t m = Ok (cur, src, dst)"
    and "sint src_new = sint (get_or 0 (wa_balances_minor src) cur) - sint (amount_minor m)"
    and "sint dst_new = sint (get_or 0 (wa_balances_minor dst) cur) + sint (amount_minor m)"
  shows "total_balance (moved w f t cur src src_new dst dst_new now) c = total_balance w c"
    and "ledger_balance (moved w f t cur src src_new dst dst_new now) a c =
      ledger_balance w a c
        - (if a = f \<and> c = cur then sint (amount_minor m) else 0)
        + (if a = t \<and> c = cur then sint (amount_minor m) else 0)"
    and "solvent w \<Longrightarrow> solvent (moved w f t cur src src_new dst dst_new now)"
    and "journal_ok w \<Longrightarrow> journal_ok (moved w f t cur src src_new dst dst_new now)"
proof -
  have ok: "f \<noteq> t" "fmlookup (w_accounts w) f = Some src" "fmlookup (w_accounts w) t = Some dst"
    "0 < sint (amount_minor m)"
    "sint (amount_minor m) \<le> sint (get_or 0 (wa_balances_minor src) cur)"
    using assms(1) by (auto simp: result_simps)
  show "total_balance (moved w f t cur src src_new dst dst_new now) c = total_balance w c"
    using ok assms(2,3) by (simp add: total_balance_def moved_def fm_sum_fmupd set_balance_def)
  show "ledger_balance (moved w f t cur src src_new dst dst_new now) a c =
      ledger_balance w a c
        - (if a = f \<and> c = cur then sint (amount_minor m) else 0)
        + (if a = t \<and> c = cur then sint (amount_minor m) else 0)"
    using ok assms(2,3) by (auto simp: ledger_balance_def moved_def set_balance_def)
  show "solvent w \<Longrightarrow> solvent (moved w f t cur src src_new dst dst_new now)"
    using ok assms(2,3) solvent_get_or [of w t dst cur]
    by (auto simp: solvent_def moved_def set_balance_def split: if_splits)
  show "journal_ok w \<Longrightarrow> journal_ok (moved w f t cur src src_new dst dst_new now)"
    unfolding moved_def using ok journal_okD(1) [of w]
    by (intro journal_ok_accounts) (auto simp: set_balance_def split: if_splits)
qed

lemma half_moved_facts:
  assumes "transfer_checks w f t m = Ok (cur, src, dst)"
    and "sint src_new = sint (get_or 0 (wa_balances_minor src) cur) - sint (amount_minor m)"
  shows "total_balance (half_moved w f t cur src src_new dst now) c =
      total_balance w c - (if c = cur then sint (amount_minor m) else 0)"
    and "solvent w \<Longrightarrow> solvent (half_moved w f t cur src src_new dst now)"
    and "journal_ok w \<Longrightarrow> journal_ok (half_moved w f t cur src src_new dst now)"
    and "ledger_balance (half_moved w f t cur src src_new dst now) a c =
      ledger_balance w a c - (if a = f \<and> c = cur then sint (amount_minor m) else 0)"
proof -
  have ok: "f \<noteq> t" "fmlookup (w_accounts w) f = Some src" "fmlookup (w_accounts w) t = Some dst"
    "0 < sint (amount_minor m)"
    "sint (amount_minor m) \<le> sint (get_or 0 (wa_balances_minor src) cur)"
    using assms(1) by (auto simp: result_simps)
  show "total_balance (half_moved w f t cur src src_new dst now) c =
      total_balance w c - (if c = cur then sint (amount_minor m) else 0)"
    using ok assms(2) by (simp add: total_balance_def half_moved_def fm_sum_fmupd set_balance_def)
  show "solvent w \<Longrightarrow> solvent (half_moved w f t cur src src_new dst now)"
    using ok assms(2) solvent_get_or [of w t dst cur]
    by (auto simp: solvent_def half_moved_def set_balance_def split: if_splits)
  show "journal_ok w \<Longrightarrow> journal_ok (half_moved w f t cur src src_new dst now)"
    unfolding half_moved_def using ok journal_okD(1) [of w]
    by (intro journal_ok_accounts) (auto simp: set_balance_def split: if_splits)
  show "ledger_balance (half_moved w f t cur src src_new dst now) a c =
      ledger_balance w a c - (if a = f \<and> c = cur then sint (amount_minor m) else 0)"
    using ok assms(2) by (auto simp: ledger_balance_def half_moved_def set_balance_def)
qed

lemma moved_frame [simp]:
  "w_entries (moved w f t cur src src_new dst dst_new now) = w_entries w"
  "w_request_entries (moved w f t cur src src_new dst dst_new now) = w_request_entries w"
  "entry_for_request (moved w f t cur src src_new dst dst_new now) r = entry_for_request w r"
  "next_entry_id (moved w f t cur src src_new dst dst_new now) = next_entry_id w"
  "journal_room (moved w f t cur src src_new dst dst_new now) = journal_room w"
  by (simp_all add: moved_def entry_for_request_def journal_room_def cong: option.case_cong)

lemma half_moved_frame [simp]:
  "w_entries (half_moved w f t cur src src_new dst now) = w_entries w"
  "w_request_entries (half_moved w f t cur src src_new dst now) = w_request_entries w"
  by (simp_all add: half_moved_def)

lemma transfer_entry_simps [simp]:
  "le_id (transfer_entry w r f t cur a reference now) = next_entry_id w"
  "le_request_id (transfer_entry w r f t cur a reference now) = r"
  "le_kind (transfer_entry w r f t cur a reference now) = Transfer"
  "le_from_account_id (transfer_entry w r f t cur a reference now) = Some f"
  "le_to_account_id (transfer_entry w r f t cur a reference now) = Some t"
  "le_amount (transfer_entry w r f t cur a reference now) = \<lparr>currency = cur, amount_minor = a\<rparr>"
  by (simp_all add: transfer_entry_def)

lemma insert_entry_simps [simp]:
  "w_accounts (insert_entry w e) = w_accounts w"
  "w_entries (insert_entry w e) = fmupd (le_id e) e (w_entries w)"
  "w_request_entries (insert_entry w e) = fmupd (le_request_id e) (le_id e) (w_request_entries w)"
  by (simp_all add: insert_entry_def)

lemma transfer_inv:
  assumes "ledger_inv w" "journal_room w"
  shows "ledger_inv (fst (transfer w r f t m reference now))"
proof (cases rule: transfer_outcome [of w r f t m reference now])
  case (posted cur src dst src_new dst_new)
  with assms show ?thesis
    by (simp add: ledger_inv_def moved_facts journal_ok_insert_entry)
next
  case (overflow cur src dst src_new)
  with assms show ?thesis
    by (simp add: ledger_inv_def half_moved_facts)
qed (use assms in simp_all)

lemma map_len_fmupd_le: "map_len (fmupd k v m) \<le> Suc (map_len m)"
  by (simp add: map_len_fmupd)

lemma transfer_len: "map_len (w_entries (fst (transfer w r f t m reference now))) \<le> Suc (map_len (w_entries w))"
  by (cases rule: transfer_outcome [of w r f t m reference now]) (simp_all add: map_len_fmupd_le)

text \<open>A posted entry is found again under its request.\<close>

lemma transfer_entry_found:
  assumes "ledger_inv w" "journal_room w" "transfer w r f t m reference now = (w', Ok e)"
  shows "entry_for_request w' r = Some e"
proof (cases rule: transfer_outcome [of w r f t m reference now])
  case (posted cur src dst src_new dst_new)
  then show ?thesis using assms by (auto simp: entry_for_request_def)
qed (use assms in auto)

lemma transfer_total:
  assumes "transfer w r f t m reference now = (w', Ok e)"
  shows "total_balance w' c = total_balance w c"
  by (cases rule: transfer_outcome [of w r f t m reference now])
    (use assms in \<open>auto simp: moved_facts\<close>)

lemma transfer_posted:
  assumes "transfer w r f t m reference now = (w', Ok e)" "entry_for_request w r = None"
  shows "f \<noteq> t" "0 < sint (amount_minor m)"
    "sint (amount_minor m) \<le> ledger_balance w f (normalize_currency (currency m))"
    "\<And>a c. ledger_balance w' a c = ledger_balance w a c
          - (if a = f \<and> c = normalize_currency (currency m) then sint (amount_minor m) else 0)
          + (if a = t \<and> c = normalize_currency (currency m) then sint (amount_minor m) else 0)"
    "le_kind e = Transfer" "le_request_id e = r" "le_from_account_id e = Some f"
    "le_to_account_id e = Some t" "fmlookup (w_entries w') (le_id e) = Some e"
    "le_amount e = \<lparr>currency = normalize_currency (currency m), amount_minor = amount_minor m\<rparr>"
proof -
  have "f \<noteq> t \<and> 0 < sint (amount_minor m)
    \<and> sint (amount_minor m) \<le> ledger_balance w f (normalize_currency (currency m))
    \<and> (\<forall>a c. ledger_balance w' a c = ledger_balance w a c
          - (if a = f \<and> c = normalize_currency (currency m) then sint (amount_minor m) else 0)
          + (if a = t \<and> c = normalize_currency (currency m) then sint (amount_minor m) else 0))
    \<and> e = transfer_entry w r f t (normalize_currency (currency m)) (amount_minor m) reference now
    \<and> fmlookup (w_entries w') (le_id e) = Some e"
  proof (cases rule: transfer_outcome [of w r f t m reference now])
    case (posted cur src dst src_new dst_new)
    then have "cur = normalize_currency (currency m)"
      and "f \<noteq> t \<and> 0 < sint (amount_minor m) \<and> sint (amount_minor m) \<le> ledger_balance w f cur"
      by (auto simp: result_simps ledger_balance_def)
    with posted assms show ?thesis by (auto simp: moved_facts)
  qed (use assms in auto)
  then show "f \<noteq> t" "0 < sint (amount_minor m)"
    "sint (amount_minor m) \<le> ledger_balance w f (normalize_currency (currency m))"
    "\<And>a c. ledger_balance w' a c = ledger_balance w a c
          - (if a = f \<and> c = normalize_currency (currency m) then sint (amount_minor m) else 0)
          + (if a = t \<and> c = normalize_currency (currency m) then sint (amount_minor m) else 0)"
    "le_kind e = Transfer" "le_request_id e = r" "le_from_account_id e = Some f"
    "le_to_account_id e = Some t" "fmlookup (w_entries w') (le_id e) = Some e"
    "le_amount e = \<lparr>currency = normalize_currency (currency m), amount_minor = amount_minor m\<rparr>"
    by (auto simp: transfer_entry_def)
qed

section \<open>Credits\<close>

lemma credit_outcome:
  fixes w r a m reference now
  defines "res \<equiv> credit w r a m reference now"
  obtains
    (replay) e where "entry_for_request w r = Some e" "res = (w, Ok e)"
  | (refused) x where "entry_for_request w r = None" "res = (w, Err x)" "x \<noteq> BalanceOverflow"
  | (overflow) account cur where "entry_for_request w r = None"
      "fmlookup (w_accounts w) a = Some account"
      "res = (w\<lparr>w_accounts := fmupd a
                (set_balance cur (get_or 0 (wa_balances_minor account) cur) account)
                (w_accounts w)\<rparr>, Err BalanceOverflow)"
  | (posted) account cur new e where "entry_for_request w r = None"
      "0 < sint (amount_minor m)" "cur = normalize_currency (currency m)"
      "fmlookup (w_accounts w) a = Some account" "\<not> wa_frozen account"
      "sint new = sint (get_or 0 (wa_balances_minor account) cur) + sint (amount_minor m)"
      "le_id e = next_entry_id w" "le_request_id e = r" "le_kind e = Credit"
      "res = (insert_entry (w\<lparr>w_accounts := fmupd a
                ((set_balance cur new account)\<lparr>wa_updated_at_ms := now\<rparr>) (w_accounts w)\<rparr>) e, Ok e)"
proof (cases "entry_for_request w r")
  case (Some e)
  then show thesis using replay by (simp add: res_def credit_def)
next
  case none: None
  show thesis
  proof (cases "validate_amount m")
    case (Inl x)
    with none show thesis
      using refused by (auto simp: res_def credit_def validate_amount_def split: if_splits)
  next
    case valid: (Inr u)
    show thesis
    proof (cases "fmlookup (w_accounts w) a")
      case None
      with none valid show thesis using refused by (auto simp: res_def credit_def)
    next
      case acc: (Some account)
      let ?cur = "normalize_currency (currency m)"
      let ?old = "get_or 0 (wa_balances_minor account) ?cur"
      note eq = res_def credit_def none valid acc Let_def
      show thesis
      proof (cases "wa_frozen account")
        case True
        then show thesis using refused [OF none] by (simp add: eq)
      next
        case active: False
        show thesis
        proof (cases "checked_add_i64 ?old (amount_minor m)")
          case None
          then show thesis
            by (intro overflow [OF none acc]) (simp add: eq active)
        next
          case (Some new)
          then have "sint new = sint ?old + sint (amount_minor m)"
            by (simp add: checked_add_i64_Some_iff)
          moreover have "0 < sint (amount_minor m)"
            using valid by (simp add: result_simps)
          ultimately show thesis
            using Some by (intro posted [OF none _ refl acc active]) (simp_all add: eq active)
        qed
      qed
    qed
  qed
qed

lemma credit_inv:
  assumes "ledger_inv w" "journal_room w"
  shows "ledger_inv (fst (credit w r a m reference now))"
proof (cases rule: credit_outcome [of w r a m reference now])
  case (overflow account cur)
  have "journal_ok (w\<lparr>w_accounts := fmupd a
      (set_balance cur (get_or 0 (wa_balances_minor account) cur) account) (w_accounts w)\<rparr>)"
    using overflow assms journal_okD(1) [of w]
    by (intro journal_ok_accounts) (auto simp: ledger_inv_def set_balance_def split: if_splits)
  moreover have "solvent (w\<lparr>w_accounts := fmupd a
      (set_balance cur (get_or 0 (wa_balances_minor account) cur) account) (w_accounts w)\<rparr>)"
    using overflow assms by (intro solvent_set_balance solvent_get_or) (auto simp: ledger_inv_def)
  ultimately show ?thesis
    using overflow by (simp add: ledger_inv_def)
next
  case (posted account cur new e)
  let ?w = "w\<lparr>w_accounts := fmupd a ((set_balance cur new account)\<lparr>wa_updated_at_ms := now\<rparr>) (w_accounts w)\<rparr>"
  have ok: "journal_ok ?w"
    using posted assms journal_okD(1) [of w]
    by (intro journal_ok_accounts) (auto simp: ledger_inv_def set_balance_def split: if_splits)
  have "0 \<le> sint new"
    using posted assms solvent_get_or [of w a account cur] by (simp add: ledger_inv_def)
  then have "solvent ?w"
    using posted assms by (intro solvent_set_balance) (simp_all add: ledger_inv_def)
  moreover have "journal_ok (insert_entry ?w e)"
    using posted assms ok
    by (intro journal_ok_insert_entry)
      (simp_all add: journal_room_def entry_for_request_def cong: option.case_cong)
  ultimately show ?thesis
    using posted by (simp add: ledger_inv_def)
qed (use assms in simp_all)

lemma credit_len: "map_len (w_entries (fst (credit w r a m reference now))) \<le> Suc (map_len (w_entries w))"
  by (cases rule: credit_outcome [of w r a m reference now]) (simp_all add: map_len_fmupd_le)

lemma credit_entry_found:
  assumes "credit w r a m reference now = (w', Ok e)"
  shows "entry_for_request w' r = Some e"
  by (cases rule: credit_outcome [of w r a m reference now])
    (use assms in \<open>auto simp: entry_for_request_def\<close>)

lemma credit_total:
  assumes "entry_for_request w r = None" "credit w r a m reference now = (w', Ok e)"
  shows "total_balance w' c =
    total_balance w c + (if c = normalize_currency (currency m) then sint (amount_minor m) else 0)"
  by (cases rule: credit_outcome [of w r a m reference now])
    (use assms in \<open>auto simp: total_balance_write set_balance_def\<close>)

section \<open>Refunds\<close>

lemma refund_outcome:
  fixes w r k now
  defines "res \<equiv> refund_transfer w r k now"
  obtains
    (replay) e where "entry_for_request w r = Some e" "res = (w, Ok e)"
  | (refused) x where "entry_for_request w r = None" "res = (w, Err x)" "x \<noteq> BalanceOverflow"
  | (failed) original f t w' x where "entry_for_request w r = None"
      "fmlookup (w_entries w) k = Some original" "le_kind original = Transfer"
      "le_from_account_id original = Some f" "le_to_account_id original = Some t"
      "transfer w r t f (le_amount original) (Some (''refund:'' @ k)) now = (w', Err x)"
      "res = (w', Err x)"
  | (refunded) original f t w' e where "entry_for_request w r = None"
      "fmlookup (w_entries w) k = Some original" "le_kind original = Transfer"
      "le_from_account_id original = Some f" "le_to_account_id original = Some t"
      "transfer w r t f (le_amount original) (Some (''refund:'' @ k)) now = (w', Ok e)"
      "res = (w'\<lparr>w_entries := fmupd (le_id e) (e\<lparr>le_kind := Refund\<rparr>) (w_entries w')\<rparr>,
              Ok (e\<lparr>le_kind := Refund\<rparr>))"
proof (cases "entry_for_request w r")
  case (Some e)
  then show thesis using replay by (simp add: res_def refund_transfer_def)
next
  case none: None
  note eq = res_def refund_transfer_def none Let_def
  show thesis
  proof (cases "fmlookup (w_entries w) k")
    case None
    then show thesis using refused [OF none] by (simp add: eq)
  next
    case orig: (Some original)
    show thesis
    proof (cases "le_kind original = Transfer \<and> le_from_account_id original \<noteq> None \<and>
        le_to_account_id original \<noteq> None")
      case False
      then have "res = (w, Err (NotRefundable k))"
        by (auto simp: eq orig split: option.splits)
      then show thesis
        using refused [OF none] by simp
    next
      case True
      then obtain f t where ft: "le_kind original = Transfer" "le_from_account_id original = Some f"
          "le_to_account_id original = Some t"
        by auto
      obtain w' q where tr: "transfer w r t f (le_amount original) (Some (''refund:'' @ k)) now = (w', q)"
        by fastforce
      show thesis
      proof (cases q)
        case (Inl x)
        then show thesis
          using tr ft by (intro failed [OF none orig]) (simp_all add: eq orig)
      next
        case (Inr e)
        then show thesis
          using tr ft by (intro refunded [OF none orig]) (simp_all add: eq orig)
      qed
    qed
  qed
qed

text \<open>Changing the kind of an entry leaves the journal as it is.\<close>

lemma journal_ok_relabel:
  assumes ok: "journal_ok w" and e: "fmlookup (w_entries w) (le_id e) = Some e"
    and same: "le_id e' = le_id e" "le_request_id e' = le_request_id e"
  shows "journal_ok (w\<lparr>w_entries := fmupd (le_id e') e' (w_entries w)\<rparr>)"
proof (rule journal_okI)
  fix k
  have "map_len (fmupd (le_id e) e' (w_entries w)) = map_len (w_entries w)"
    using e by (simp add: map_len_fmupd contains_key_def)
  moreover have "contains_key (fmupd (le_id e) e' (w_entries w)) k = contains_key (w_entries w) k"
    using e by (auto simp: contains_key_def)
  ultimately show "contains_key (w_entries (w\<lparr>w_entries := fmupd (le_id e') e' (w_entries w)\<rparr>)) k \<longleftrightarrow>
      (\<exists>i. 1 \<le> i \<and> i \<le> map_len (w_entries (w\<lparr>w_entries := fmupd (le_id e') e' (w_entries w)\<rparr>))
         \<and> k = ledger_id i)"
    using journal_okD(3) [OF ok] same by simp
next
  fix r k
  show "fmlookup (w_request_entries (w\<lparr>w_entries := fmupd (le_id e') e' (w_entries w)\<rparr>)) r = Some k \<longleftrightarrow>
      (\<exists>x. fmlookup (w_entries (w\<lparr>w_entries := fmupd (le_id e') e' (w_entries w)\<rparr>)) k = Some x
         \<and> le_request_id x = r)"
    using e same journal_okD(4) [OF ok, of r k] by auto
qed (use journal_okD(1,2) [OF ok] same in \<open>auto split: if_splits\<close>)

lemma refund_inv:
  assumes "ledger_inv w" "journal_room w"
  shows "ledger_inv (fst (refund_transfer w r k now))"
proof (cases rule: refund_outcome [of w r k now])
  case (failed original f t w' x)
  with assms transfer_inv [of w r t f "le_amount original" "Some (''refund:'' @ k)" now]
  show ?thesis by simp
next
  case (refunded original f t w' e)
  have inv: "ledger_inv w'"
    using assms refunded transfer_inv [of w r t f "le_amount original" "Some (''refund:'' @ k)" now]
    by simp
  moreover have "entry_for_request w' r = Some e"
    using assms refunded by (auto intro: transfer_entry_found)
  then have "fmlookup (w_entries w') (le_id e) = Some e"
    using inv by (simp add: ledger_inv_def entry_for_request_iff)
  ultimately show ?thesis
    using refunded journal_ok_relabel [of w' e "e\<lparr>le_kind := Refund\<rparr>"] by (simp add: ledger_inv_def)
qed (use assms in simp_all)

lemma fmdom_found: "fmlookup m k = Some v \<Longrightarrow> map_len (fmupd k v' m) = map_len m"
  by (simp add: map_len_fmupd contains_key_def)

lemma refund_len:
  assumes "ledger_inv w" "journal_room w"
  shows "map_len (w_entries (fst (refund_transfer w r k now))) \<le> Suc (map_len (w_entries w))"
proof (cases rule: refund_outcome [of w r k now])
  case (failed original f t w' x)
  with transfer_len [of w r t f "le_amount original" "Some (''refund:'' @ k)" now]
  show ?thesis by simp
next
  case (refunded original f t w' e)
  have "entry_for_request w' r = Some e" "ledger_inv w'"
    using assms refunded transfer_inv [of w r t f "le_amount original" "Some (''refund:'' @ k)" now]
    by (auto intro: transfer_entry_found)
  then have "fmlookup (w_entries w') (le_id e) = Some e"
    by (simp add: ledger_inv_def entry_for_request_iff)
  with refunded transfer_len [of w r t f "le_amount original" "Some (''refund:'' @ k)" now]
  show ?thesis by (simp add: fmdom_found)
qed simp_all

section \<open>The ledger as a component\<close>

text \<open>The public operations, and the ledger each leaves behind whatever its result.\<close>

datatype LedgerOp =
    OpCreateAccount WalletAccountId ActorId i64
  | OpCredit string WalletAccountId Money "string option" i64
  | OpTransfer string WalletAccountId WalletAccountId Money "string option" i64
  | OpRefund string string i64
  | OpFreeze WalletAccountId bool

primrec ledger_step :: "WalletLedger \<Rightarrow> LedgerOp \<Rightarrow> WalletLedger" where
  "ledger_step w (OpCreateAccount a owner now) = fst (create_account w a owner now)"
| "ledger_step w (OpCredit r a m reference now) = fst (credit w r a m reference now)"
| "ledger_step w (OpTransfer r f t m reference now) = fst (transfer w r f t m reference now)"
| "ledger_step w (OpRefund r k now) = fst (refund_transfer w r k now)"
| "ledger_step w (OpFreeze a b) = fst (freeze w a b)"

text \<open>What an operation may add to the money of a currency.\<close>

primrec ledger_gain :: "string \<Rightarrow> LedgerOp \<Rightarrow> int" where
  "ledger_gain c (OpCreateAccount a owner now) = 0"
| "ledger_gain c (OpCredit r a m reference now) =
     (if c = normalize_currency (currency m) then max 0 (sint (amount_minor m)) else 0)"
| "ledger_gain c (OpTransfer r f t m reference now) = 0"
| "ledger_gain c (OpRefund r k now) = 0"
| "ledger_gain c (OpFreeze a b) = 0"

lemma create_account_inv: "ledger_inv w \<Longrightarrow> ledger_inv (fst (create_account w a owner now))"
  unfolding ledger_inv_def create_account_def
  by (auto simp: solvent_def split: if_splits intro!: journal_ok_accounts dest: journal_okD(1))

lemma create_account_frame:
  "w_entries (fst (create_account w a owner now)) = w_entries w"
  "total_balance (fst (create_account w a owner now)) c = total_balance w c"
  by (auto simp: create_account_def total_balance_def fm_sum_fmupd contains_key_def get_or_def)

lemma freeze_inv: "ledger_inv w \<Longrightarrow> ledger_inv (fst (freeze w a b))"
  unfolding ledger_inv_def freeze_def
  by (auto simp: solvent_def split: option.splits if_splits intro!: journal_ok_accounts)
    (metis journal_okD(1))+

lemma freeze_frame:
  "w_entries (fst (freeze w a b)) = w_entries w"
  "total_balance (fst (freeze w a b)) c = total_balance w c"
  by (auto simp: freeze_def total_balance_write split: option.splits)

lemma transfer_total_le:
  "total_balance (fst (transfer w r f t m reference now)) c \<le> total_balance w c"
proof (cases rule: transfer_outcome [of w r f t m reference now])
  case (overflow cur src dst src_new)
  moreover from overflow(2) have "0 < sint (amount_minor m)"
    by (simp add: result_simps)
  ultimately show ?thesis by (simp add: half_moved_facts)
qed (simp_all add: moved_facts)

lemma refund_total_le: "total_balance (fst (refund_transfer w r k now)) c \<le> total_balance w c"
proof (cases rule: refund_outcome [of w r k now])
  case (failed original f t w' x)
  then show ?thesis
    using transfer_total_le [of w r t f "le_amount original" "Some (''refund:'' @ k)" now c] by simp
next
  case (refunded original f t w' e)
  then show ?thesis
    using transfer_total_le [of w r t f "le_amount original" "Some (''refund:'' @ k)" now c] by simp
qed simp_all

lemma credit_total_le:
  "total_balance (fst (credit w r a m reference now)) c \<le>
     total_balance w c + (if c = normalize_currency (currency m) then max 0 (sint (amount_minor m)) else 0)"
  by (cases rule: credit_outcome [of w r a m reference now])
    (auto simp: total_balance_write set_balance_def)

interpretation ledger: bounded_component ledger_step ledger_inv
  "\<lambda>w. map_len (w_entries w)" "2 ^ 64 - 1"
proof unfold_locales
  fix w opn
  assume "ledger_inv w" "map_len (w_entries w) < 2 ^ 64 - 1"
  then show "ledger_inv (ledger_step w opn)"
    by (cases opn)
      (simp_all add: create_account_inv credit_inv transfer_inv refund_inv freeze_inv journal_room_def)
next
  fix w opn
  assume "ledger_inv w" "map_len (w_entries w) < 2 ^ 64 - 1"
  then show "map_len (w_entries (ledger_step w opn)) \<le> Suc (map_len (w_entries w))"
    by (cases opn)
      (simp_all add: create_account_frame credit_len transfer_len refund_len freeze_frame journal_room_def)
qed

lemma ledger_inv_default: "ledger_inv WalletLedger_default"
  unfolding ledger_inv_def
  by (auto simp: WalletLedger_default_def solvent_def intro!: journal_okI)

section \<open>A ledger for the witnesses\<close>

definition alice :: WalletAccountId where
  "alice = WalletAccountId ''wallet:a''"

definition bob :: WalletAccountId where
  "bob = WalletAccountId ''wallet:b''"

definition demo_account :: "WalletAccountId \<Rightarrow> i64 \<Rightarrow> WalletAccount" where
  "demo_account a b =
     \<lparr>wa_id = a, wa_owner_id = ActorId ''human'', wa_balances_minor = fmupd ''USD'' b fmempty,
      wa_frozen = False, wa_created_at_ms = 0, wa_updated_at_ms = 0\<rparr>"

definition demo_ledger :: "i64 \<Rightarrow> i64 \<Rightarrow> WalletLedger" where
  "demo_ledger x y =
     \<lparr>w_accounts = fmupd alice (demo_account alice x) (fmupd bob (demo_account bob y) fmempty),
      w_entries = fmempty, w_request_entries = fmempty\<rparr>"

definition usd :: "i64 \<Rightarrow> Money" where
  "usd x = \<lparr>currency = ''usd'', amount_minor = x\<rparr>"

lemma usd_simps [simp]: "currency (usd x) = ''usd''" "amount_minor (usd x) = x"
  by (simp_all add: usd_def)

lemma demo_ledger_inv: "0 \<le> sint x \<Longrightarrow> 0 \<le> sint y \<Longrightarrow> ledger_inv (demo_ledger x y)"
  unfolding ledger_inv_def
  by (auto simp: demo_ledger_def demo_account_def solvent_def split: if_splits intro!: journal_okI)

lemma demo_ledger_frame:
  "journal_room (demo_ledger x y)" "entry_for_request (demo_ledger x y) r = None"
  by (simp_all add: demo_ledger_def journal_room_def entry_for_request_def)

lemma normalize_usd: "normalize_currency ''usd'' = ''USD''" "trim ''usd'' = ''usd''"
  "trim ''USD'' = ''USD''" "normalize_currency ''USD'' = ''USD''"
  by (simp_all add: normalize_currency_def trim_def to_ascii_uppercase_def ascii_upper_def
      ws1_def ws2_def ws3_def less_eq_char_def char_of_def bit_iff_odd)

lemma alice_bob: "alice \<noteq> bob" "bob \<noteq> alice"
  by (simp_all add: alice_def bob_def)

lemmas demo_eval = demo_ledger_def demo_account_def normalize_usd alice_bob
  transfer_def transfer_checks_def transfer_writes_def validate_amount_def entry_for_request_def
  balance_def get_or_def checked_sub_i64_def checked_add_i64_def checked_i64_def Let_def
  set_balance_def

lemma demo_transfer:
  "transfer (demo_ledger 1000 0) ''pay'' alice bob (usd 250) None 3 =
     (insert_entry (moved (demo_ledger 1000 0) alice bob ''USD'' (demo_account alice 1000) 750
        (demo_account bob 0) 250 3)
        (transfer_entry (demo_ledger 1000 0) ''pay'' alice bob ''USD'' 250 None 3),
      Ok (transfer_entry (demo_ledger 1000 0) ''pay'' alice bob ''USD'' 250 None 3))"
  by (simp add: demo_eval moved_def transfer_entry_def next_entry_id_def)

section \<open>Properties of the ledger\<close>

text \<open>
  A successful transfer conserves money. In every currency the sum of all balances after it
  is the sum before it, whether the transfer was posted now or replayed from an earlier request.
\<close>

theorem transfer_conserves:
  assumes "transfer w r f t m reference now = (w', Ok e)"
  shows "total_balance w' c = total_balance w c"
  using assms by (rule transfer_total)

theorem transfer_conserves_witness:
  "total_balance (fst (transfer (demo_ledger 1000 0) ''pay'' alice bob (usd 250) None 3)) ''USD''
     = total_balance (demo_ledger 1000 0) ''USD''"
  using transfer_conserves [OF demo_transfer, of "''USD''"] by (simp only: demo_transfer fst_conv)

text \<open>
  What a transfer under a new request does to the balances. It takes the amount from the
  sender and adds it to the receiver, in the normalized currency, and touches no other balance;
  the sender had the money, and neither side was frozen.
\<close>

theorem transfer_moves:
  assumes "transfer w r f t m reference now = (w', Ok e)" "entry_for_request w r = None"
  shows "f \<noteq> t \<and> 0 < sint (amount_minor m)
    \<and> sint (amount_minor m) \<le> ledger_balance w f (normalize_currency (currency m))
    \<and> (\<forall>a c. ledger_balance w' a c = ledger_balance w a c
          - (if a = f \<and> c = normalize_currency (currency m) then sint (amount_minor m) else 0)
          + (if a = t \<and> c = normalize_currency (currency m) then sint (amount_minor m) else 0))
    \<and> le_kind e = Transfer \<and> le_request_id e = r"
  using transfer_posted [OF assms] by simp

theorem transfer_moves_witness:
  "ledger_balance (fst (transfer (demo_ledger 1000 0) ''pay'' alice bob (usd 250) None 3)) bob ''USD''
     = ledger_balance (demo_ledger 1000 0) bob ''USD'' + 250"
  using transfer_moves [OF demo_transfer demo_ledger_frame(2)]
  by (simp add: demo_transfer normalize_usd alice_bob)

text \<open>
  The ledger keeps its invariant under every sequence of operations from the empty ledger,
  results ignored: no balance is ever negative, entries are numbered without gaps and never
  overwritten by another request, and the request index names exactly the entries. The bound is
  the number of entries a \<open>usize\<close> can count.
\<close>

theorem ledger_run_invariant:
  assumes "length ops \<le> 2 ^ 64 - 1"
  shows "ledger_inv (foldl ledger_step WalletLedger_default ops)"
  by (rule ledger.run_inv [OF ledger_inv_default])
    (use assms in \<open>simp add: WalletLedger_default_def\<close>)

theorem ledger_run_invariant_witness:
  "ledger_inv (foldl ledger_step WalletLedger_default
     [OpCreateAccount alice (ActorId ''human'') 1, OpCredit ''c'' alice (usd 5) None 2])"
  by (rule ledger_run_invariant) simp

text \<open>
  Requests are idempotent. Once a transfer has been accepted under a request id, any later
  credit, transfer or refund under the same id returns the recorded entry and leaves the ledger
  unchanged, whatever its other arguments.
\<close>

theorem request_idempotent:
  assumes "ledger_inv w" "journal_room w" "transfer w r f t m reference now = (w', Ok e)"
  shows "transfer w' r f' t' m' reference' now' = (w', Ok e)
    \<and> credit w' r a m' reference' now' = (w', Ok e)
    \<and> refund_transfer w' r k now' = (w', Ok e)"
  using transfer_entry_found [OF assms]
  by (simp add: transfer_def credit_def refund_transfer_def)

theorem request_idempotent_witness:
  "fst (credit (fst (transfer (demo_ledger 1000 0) ''pay'' alice bob (usd 250) None 3))
     ''pay'' bob (usd 9) None 4)
   = fst (transfer (demo_ledger 1000 0) ''pay'' alice bob (usd 250) None 3)"
  using request_idempotent [OF demo_ledger_inv demo_ledger_frame(1) demo_transfer,
      of alice bob "usd 9" None 4 bob "[]"]
  by (simp add: demo_transfer)

text \<open>
  The way back of a transfer: the transfer in the other direction passes every check, cannot
  overflow, and puts every balance back.
\<close>

lemma way_back_checks:
  assumes "solvent w" "transfer_checks w f t m = Ok (cur, src, dst)"
    and "sint dst_new = sint (get_or 0 (wa_balances_minor dst) cur) + sint (amount_minor m)"
    and "w1 = insert_entry (moved w f t cur src src_new dst dst_new now) e"
    and "e = transfer_entry w r f t cur (amount_minor m) reference now"
  shows "transfer_checks w1 t f (le_amount e) =
    Ok (cur, (set_balance cur dst_new dst)\<lparr>wa_updated_at_ms := now\<rparr>,
        (set_balance cur src_new src)\<lparr>wa_updated_at_ms := now\<rparr>)"
proof -
  have "0 \<le> sint (get_or 0 (wa_balances_minor dst) cur)"
    using assms(1,2) by (auto simp: result_simps intro: solvent_get_or)
  then show ?thesis
    using assms(2-) by (auto simp: result_simps moved_def set_balance_def)
qed

lemma way_back:
  assumes inv: "solvent w" and new: "entry_for_request w r = None" "entry_for_request w1 r' = None"
    and tr: "transfer w r f t m reference now = (w1, Ok e)"
  shows "\<exists>w2 e2. transfer w1 r' t f (le_amount e) reference' now' = (w2, Ok e2)
    \<and> (\<forall>a c. ledger_balance w2 a c = ledger_balance w a c)"
proof (cases rule: transfer_outcome [of w r f t m reference now])
  case (posted cur src dst src_new dst_new)
  have w1: "w1 = insert_entry (moved w f t cur src src_new dst dst_new now) e"
    and e: "e = transfer_entry w r f t cur (amount_minor m) reference now"
    using posted tr by auto
  note checks = way_back_checks [OF inv posted(2,4) w1 e]
  show ?thesis
  proof (cases rule: transfer_outcome [of w1 r' t f "le_amount e" reference' now'])
    case (overflow cur' src' dst' src_new')
    have "cur' = cur" "dst' = (set_balance cur src_new src)\<lparr>wa_updated_at_ms := now\<rparr>"
      using checks overflow(2) by auto
    with overflow(4) posted(3) have "2 ^ 63 \<le> sint (get_or 0 (wa_balances_minor src) cur)"
      by (simp add: e set_balance_def)
    then show ?thesis
      using sint_i64_bounds(2) [of "get_or 0 (wa_balances_minor src) cur"] by simp
  next
    case undo: (posted cur' src' dst' src_new' dst_new')
    have "ledger_balance w1 a c = ledger_balance (moved w f t cur src src_new dst dst_new now) a c" for a c
      by (simp add: w1)
    moreover have "cur' = cur" "amount_minor (le_amount e) = amount_minor m"
      using undo(2) checks by (simp_all add: e)
    ultimately show ?thesis
      using undo(5) moved_facts(2) [OF posted(2,3,4)] moved_facts(2) [OF undo(2,3,4)] by simp
  qed (use new checks in simp_all)
qed (use new tr in auto)

lemma entry_for_request_other:
  assumes "ledger_inv w" "transfer w r f t m reference now = (w1, Ok e)"
    and "entry_for_request w r = None" "entry_for_request w r' = None" "r' \<noteq> r"
  shows "entry_for_request w1 r' = None"
proof (cases rule: transfer_outcome [of w r f t m reference now])
  case (posted cur src dst src_new dst_new)
  moreover have "fmlookup (w_request_entries w) r' = None"
    using assms(1,4) by (simp add: entry_for_request_None ledger_inv_def)
  ultimately show ?thesis
    using assms(2,5) by (auto simp: entry_for_request_def)
qed (use assms in auto)

text \<open>
  A refund undoes its transfer. Right after a transfer under a new request, a refund of its
  entry under another new request succeeds and puts every balance back to what it was.
\<close>

theorem refund_undoes_transfer:
  assumes inv: "ledger_inv w"
    and new: "entry_for_request w r = None" "entry_for_request w r' = None" "r' \<noteq> r"
    and tr: "transfer w r f t m reference now = (w1, Ok e)"
  shows "\<exists>w2 e2. refund_transfer w1 r' (le_id e) now' = (w2, Ok e2) \<and> le_kind e2 = Refund
    \<and> (\<forall>a c. ledger_balance w2 a c = ledger_balance w a c)"
proof -
  have req: "entry_for_request w1 r' = None"
    using entry_for_request_other [OF inv tr new] .
  with inv new tr obtain w2 e2
    where undo: "transfer w1 r' t f (le_amount e) (Some (''refund:'' @ le_id e)) now' = (w2, Ok e2)"
      and "\<forall>a c. ledger_balance w2 a c = ledger_balance w a c"
    using way_back [of w r w1 r' f t m reference now e "Some (''refund:'' @ le_id e)" now']
    by (auto simp: ledger_inv_def)
  then show ?thesis
    using transfer_posted(5,7,8,9) [OF tr new(1)] req by (simp add: refund_transfer_def Let_def)
qed

theorem refund_undoes_transfer_witness:
  "\<exists>w2 e2. refund_transfer
      (fst (transfer (demo_ledger 1000 0) ''pay'' alice bob (usd 250) None 3)) ''back''
      (next_entry_id (demo_ledger 1000 0)) 5 = (w2, Ok e2)
    \<and> le_kind e2 = Refund
    \<and> (\<forall>a c. ledger_balance w2 a c = ledger_balance (demo_ledger 1000 0) a c)"
  using refund_undoes_transfer [OF demo_ledger_inv demo_ledger_frame(2) demo_ledger_frame(2) _
      demo_transfer, of "''back''" 5]
  by (simp add: demo_transfer)

text \<open>
  C25: what a refused transfer leaves behind. Every error but \<open>BalanceOverflow\<close> is raised before
  the first write and leaves the ledger as it was. \<open>BalanceOverflow\<close> is raised between the two
  writes: the sender's balance in that currency has fallen by the amount, every other balance of
  every account (the receiver's too) is what it was, the money of that currency has shrunk by the
  amount, and no entry records it.
\<close>

theorem transfer_error_effect:
  assumes "transfer w r f t m reference now = (w', Err x)"
  shows "if x = BalanceOverflow
    then (\<forall>a c. ledger_balance w' a c = ledger_balance w a c
            - (if a = f \<and> c = normalize_currency (currency m) then sint (amount_minor m) else 0))
      \<and> total_balance w' (normalize_currency (currency m)) =
           total_balance w (normalize_currency (currency m)) - sint (amount_minor m)
      \<and> 0 < sint (amount_minor m) \<and> f \<noteq> t
      \<and> w_entries w' = w_entries w \<and> w_request_entries w' = w_request_entries w
    else w' = w"
proof (cases rule: transfer_outcome [of w r f t m reference now])
  case (refused y)
  then have "y \<noteq> BalanceOverflow"
    by (auto simp: transfer_checks_def validate_amount_def Let_def and_then_def ok_or_def
        split: if_splits sum.splits option.splits)
  with refused assms show ?thesis by simp
next
  case (overflow cur src dst src_new)
  then have "cur = normalize_currency (currency m)" "0 < sint (amount_minor m)" "f \<noteq> t"
    by (auto simp: result_simps)
  with overflow assms show ?thesis by (auto simp: half_moved_facts)
qed (use assms in auto)

lemma demo_overflow:
  "transfer (demo_ledger 250 0x7FFFFFFFFFFFFFFF) ''pay'' alice bob (usd 250) None 3 =
     (half_moved (demo_ledger 250 0x7FFFFFFFFFFFFFFF) alice bob ''USD'' (demo_account alice 250) 0
        (demo_account bob 0x7FFFFFFFFFFFFFFF) 3, Err BalanceOverflow)"
  by (simp add: demo_eval half_moved_def)

theorem transfer_error_effect_witness:
  "snd (transfer (demo_ledger 250 0x7FFFFFFFFFFFFFFF) ''pay'' alice bob (usd 250) None 3) = Err BalanceOverflow
   \<and> (\<forall>a c. ledger_balance
          (fst (transfer (demo_ledger 250 0x7FFFFFFFFFFFFFFF) ''pay'' alice bob (usd 250) None 3)) a c
        = ledger_balance (demo_ledger 250 0x7FFFFFFFFFFFFFFF) a c
            - (if a = alice \<and> c = ''USD'' then 250 else 0))"
  using transfer_error_effect [OF demo_overflow] by (simp add: demo_overflow normalize_usd)

text \<open>
  Money comes from credits only. After any sequence of operations on a ledger, the money of
  a currency is at most what was there plus the amounts of the credits in that currency: no
  transfer, refund, freeze or new account makes money.
\<close>

theorem money_only_from_credits:
  assumes "ledger_inv w" "map_len (w_entries w) + length ops \<le> 2 ^ 64 - 1"
  shows "total_balance (foldl ledger_step w ops) c \<le>
    total_balance w c + (\<Sum>opn \<leftarrow> ops. ledger_gain c opn)"
proof (rule ledger.run_sum_le [OF _ assms(1,2)])
  fix w opn
  show "total_balance (ledger_step w opn) c \<le> total_balance w c + ledger_gain c opn"
    by (cases opn)
      (simp_all add: create_account_frame freeze_frame transfer_total_le refund_total_le credit_total_le)
qed

theorem money_only_from_credits_witness:
  "total_balance (foldl ledger_step (demo_ledger 1000 0)
      [OpTransfer ''pay'' alice bob (usd 250) None 3, OpRefund ''back'' ''ledger:1'' 4]) ''USD''
    \<le> total_balance (demo_ledger 1000 0) ''USD''"
  using money_only_from_credits [OF demo_ledger_inv [of 1000 0],
      of "[OpTransfer ''pay'' alice bob (usd 250) None 3, OpRefund ''back'' ''ledger:1'' 4]" "''USD''"]
  by (simp add: demo_ledger_def)

text \<open>
  A refund can be repeated. The ledger does not mark a transfer as refunded, so a second
  refund of the same entry under another request id moves the amount again: here the sender paid
  250 once and has 250 more than at the start.
\<close>

theorem refund_repeatable:
  "\<exists>w1 e w2 e2 w3 e3.
     transfer (demo_ledger 1000 1000) ''pay'' alice bob (usd 250) None 3 = (w1, Ok e)
   \<and> refund_transfer w1 ''back1'' (le_id e) 4 = (w2, Ok e2)
   \<and> refund_transfer w2 ''back2'' (le_id e) 5 = (w3, Ok e3)
   \<and> ledger_balance w3 alice ''USD'' = 1250 \<and> ledger_balance w3 bob ''USD'' = 750"
  by (simp add: demo_eval refund_transfer_def insert_entry_def ledger_balance_def next_entry_id_def
      saturating_add_usize_def map_len_fmupd show_nat.simps digit_char_def)

end
