(* ===== verification/Community.thy ===== *)
theory Community
  imports Conversations
begin

text \<open>
  Groups and channels of \<open>src/native/mahayana-messaging/src/community.rs\<close>: members with their
  status, rights and restrictions, subscribers, invite links, join requests, forum topics and
  the bounded audit log, with the paging of members and of the log. A method that changes the
  community returns the new one with its result.
\<close>

datatype MemberStatus =
  StatusOwner | StatusAdministrator | StatusMember | StatusRestricted | StatusLeft | StatusBanned

record AdminRights =
  ar_change_info :: bool
  ar_post_messages :: bool
  ar_edit_messages :: bool
  ar_delete_messages :: bool
  ar_ban_members :: bool
  ar_invite_members :: bool
  ar_pin_messages :: bool
  ar_manage_topics :: bool
  ar_manage_calls :: bool
  ar_add_admins :: bool
  ar_remain_anonymous :: bool

definition AdminRights_default :: AdminRights where
  "AdminRights_default =
     \<lparr>ar_change_info = False, ar_post_messages = False, ar_edit_messages = False,
      ar_delete_messages = False, ar_ban_members = False, ar_invite_members = False,
      ar_pin_messages = False, ar_manage_topics = False, ar_manage_calls = False,
      ar_add_admins = False, ar_remain_anonymous = False\<rparr>"

record MemberRestrictions =
  mx_send_messages :: bool
  mx_send_media :: bool
  mx_send_polls :: bool
  mx_embed_links :: bool
  mx_add_members :: bool
  mx_pin_messages :: bool
  mx_change_info :: bool
  mx_until_ms :: "i64 option"

definition MemberRestrictions_default :: MemberRestrictions where
  "MemberRestrictions_default =
     \<lparr>mx_send_messages = False, mx_send_media = False, mx_send_polls = False,
      mx_embed_links = False, mx_add_members = False, mx_pin_messages = False,
      mx_change_info = False, mx_until_ms = None\<rparr>"

record CommunityMember =
  cm_actor_id :: ActorId
  cm_status :: MemberStatus
  cm_admin_title :: "string option"
  cm_admin_rights :: AdminRights
  cm_restrictions :: MemberRestrictions
  cm_joined_at_ms :: i64
  cm_invited_by :: "ActorId option"

record InviteLink =
  il_id :: string
  il_conversation_id :: ConversationId
  il_creator_id :: ActorId
  il_token :: string
  il_name :: "string option"
  il_created_at_ms :: i64
  il_expires_at_ms :: "i64 option"
  il_member_limit :: "u32 option"
  il_join_request :: bool
  il_revoked :: bool
  il_joined_count :: u32

record JoinRequest =
  jr_conversation_id :: ConversationId
  jr_actor_id :: ActorId
  jr_invite_link_id :: "string option"
  jr_bio :: "string option"
  jr_requested_at_ms :: i64

record ForumTopicState =
  fts_id :: string
  fts_conversation_id :: ConversationId
  fts_title :: string
  fts_icon :: "string option"
  fts_creator_id :: ActorId
  fts_created_at_ms :: i64
  fts_pinned :: bool
  fts_closed :: bool
  fts_hidden :: bool
  fts_unread_count :: u32
  fts_last_message_id :: "string option"

record ChannelSubscription =
  cs_actor_id :: ActorId
  cs_subscribed_at_ms :: i64
  cs_muted :: bool

datatype CommunityAuditAction =
    CommunityUpdated
  | SubscriptionAdded
  | SubscriptionRemoved
  | MemberChanged
  | InviteCreated
  | InviteRevoked
  | JoinApproved
  | JoinRejected
  | TopicUpserted
  | TopicDeleted
  | SlowModeChanged

record CommunityAuditEntry =
  au_id :: string
  au_actor_id :: ActorId
  au_action :: CommunityAuditAction
  au_target_actor_id :: "ActorId option"
  au_target_id :: "string option"
  au_reason :: "string option"
  au_created_at_ms :: i64

record CommunityState =
  co_conversation_id :: ConversationId
  co_public_username :: "string option"
  co_linked_discussion_id :: "ConversationId option"
  co_signatures_enabled :: bool
  co_join_to_send :: bool
  co_join_request_required :: bool
  co_slow_mode_seconds :: "u32 option"
  co_members :: "(ActorId, CommunityMember) fmap"
  co_invite_links :: "(string, InviteLink) fmap"
  co_pending_join_requests :: "(ActorId, JoinRequest) fmap"
  co_topics :: "(string, ForumTopicState) fmap"
  co_banned_words :: "string fset"
  co_subscribers :: "(ActorId, ChannelSubscription) fmap"
  co_admin_log :: "CommunityAuditEntry list"

definition CommunityState_new :: "ConversationId \<Rightarrow> CommunityState" where
  "CommunityState_new conversation_id =
     \<lparr>co_conversation_id = conversation_id, co_public_username = None,
      co_linked_discussion_id = None, co_signatures_enabled = False, co_join_to_send = False,
      co_join_request_required = False, co_slow_mode_seconds = None, co_members = fmempty,
      co_invite_links = fmempty, co_pending_join_requests = fmempty, co_topics = fmempty,
      co_banned_words = {||}, co_subscribers = fmempty, co_admin_log = []\<rparr>"

datatype CommunityError =
    PermissionDenied
  | JoinRequestNotFound ActorId
  | InviteNotFound string
  | OwnerCannotUnsubscribe

definition is_subscriber :: "CommunityState \<Rightarrow> ActorId \<Rightarrow> bool" where
  "is_subscriber co a = contains_key (co_subscribers co) a"

definition is_owner :: "CommunityState \<Rightarrow> ActorId \<Rightarrow> bool" where
  "is_owner co a =
     (case fmlookup (co_members co) a of
        None \<Rightarrow> False
      | Some member \<Rightarrow> cm_status member = StatusOwner)"

definition subscribe_channel ::
  "CommunityState \<Rightarrow> ActorId \<Rightarrow> i64 \<Rightarrow> (CommunityState, CommunityError) result"
where
  "subscribe_channel co actor_id subscribed_at_ms =
     (if (case fmlookup (co_members co) actor_id of
            None \<Rightarrow> False
          | Some member \<Rightarrow> cm_status member = StatusBanned \<or> cm_status member = StatusLeft)
      then Err PermissionDenied
      else Ok (co\<lparr>co_subscribers :=
             fmupd actor_id
               (get_or \<lparr>cs_actor_id = actor_id, cs_subscribed_at_ms = subscribed_at_ms, cs_muted = False\<rparr>
                  (co_subscribers co) actor_id)
               (co_subscribers co)\<rparr>))"

definition unsubscribe_channel ::
  "CommunityState \<Rightarrow> ActorId \<Rightarrow> (CommunityState, CommunityError) result"
where
  "unsubscribe_channel co actor_id =
     (if is_owner co actor_id then Err OwnerCannotUnsubscribe
      else Ok (co\<lparr>co_subscribers := fmdrop actor_id (co_subscribers co)\<rparr>))"

definition MAX_AUDIT_ENTRIES :: nat where
  "MAX_AUDIT_ENTRIES = 1000"

definition append_audit :: "CommunityState \<Rightarrow> CommunityAuditEntry \<Rightarrow> CommunityState" where
  "append_audit co entry =
     (let log = co_admin_log co @ [entry] in
      co\<lparr>co_admin_log :=
           (if length log > MAX_AUDIT_ENTRIES then drop (length log - MAX_AUDIT_ENTRIES) log
            else log)\<rparr>)"

text \<open>\<open>limit.clamp(1, 100)\<close> and the window of a page.\<close>

definition page_end :: "nat \<Rightarrow> nat \<Rightarrow> nat \<Rightarrow> nat" where
  "page_end start limit len = min (saturating_add_usize start (max 1 (min 100 limit))) len"

fun position :: "('a \<Rightarrow> bool) \<Rightarrow> 'a list \<Rightarrow> nat option" where
  "position P [] = None"
| "position P (x # xs) = (if P x then Some 0 else map_option Suc (position P xs))"

definition page_by_actor_id ::
  "CommunityMember list \<Rightarrow> string option \<Rightarrow> nat \<Rightarrow> CommunityMember list \<times> string option"
where
  "page_by_actor_id members cursor limit =
     (let start = (case cursor of
                     None \<Rightarrow> 0
                   | Some value \<Rightarrow>
                       (case position (\<lambda>member. value < actor_str (cm_actor_id member)) members of
                          None \<Rightarrow> length members
                        | Some i \<Rightarrow> i));
          end = page_end start limit (length members);
          next = (if end < length members
                  then Some (actor_str (cm_actor_id (members ! (end - 1)))) else None)
      in (take (end - start) (drop start members), next))"

definition subscriber_member :: "ChannelSubscription \<Rightarrow> CommunityMember" where
  "subscriber_member subscription =
     \<lparr>cm_actor_id = cs_actor_id subscription, cm_status = StatusMember, cm_admin_title = None,
      cm_admin_rights = AdminRights_default, cm_restrictions = MemberRestrictions_default,
      cm_joined_at_ms = cs_subscribed_at_ms subscription, cm_invited_by = None\<rparr>"

text \<open>The members and the subscribers that are no members, sorted by actor id.\<close>

definition all_members :: "CommunityState \<Rightarrow> CommunityMember list" where
  "all_members co =
     sort_key cm_actor_id
       (map_values (co_members co) @
        map subscriber_member
          (filter (\<lambda>s. \<not> contains_key (co_members co) (cs_actor_id s))
             (map_values (co_subscribers co))))"

definition member_page ::
  "CommunityState \<Rightarrow> string option \<Rightarrow> nat \<Rightarrow> CommunityMember list \<times> string option"
where
  "member_page co cursor limit = page_by_actor_id (all_members co) cursor limit"

text \<open>\<open>str::parse::<usize>\<close>: an optional plus sign and decimal digits, within 64 bits.\<close>

definition parse_usize :: "string \<Rightarrow> nat option" where
  "parse_usize s =
     (let ds = (case s of c # cs \<Rightarrow> if c = CHR ''+'' then cs else s | [] \<Rightarrow> [])
      in if ds \<noteq> [] \<and> list_all is_ascii_digit ds \<and> read_nat ds 0 < 2 ^ 64
         then Some (read_nat ds 0) else None)"

definition audit_page ::
  "CommunityState \<Rightarrow> string option \<Rightarrow> nat \<Rightarrow> CommunityAuditEntry list \<times> string option"
where
  "audit_page co cursor limit =
     (let entries = sort_key (\<lambda>e. (sint (au_created_at_ms e), au_id e)) (co_admin_log co);
          start = min (case cursor of
                         None \<Rightarrow> 0
                       | Some value \<Rightarrow> (case parse_usize value of None \<Rightarrow> 0 | Some n \<Rightarrow> n))
                      (length entries);
          end = page_end start limit (length entries);
          next = (if end < length entries then Some (show_nat end) else None)
      in (take (end - start) (drop start entries), next))"

definition can_moderate :: "CommunityState \<Rightarrow> ActorId \<Rightarrow> bool" where
  "can_moderate co a =
     (case fmlookup (co_members co) a of
        None \<Rightarrow> False
      | Some member \<Rightarrow>
          cm_status member = StatusOwner
        \<or> (cm_status member = StatusAdministrator \<and> ar_delete_messages (cm_admin_rights member)))"

definition can_manage_invites :: "CommunityState \<Rightarrow> ActorId \<Rightarrow> bool" where
  "can_manage_invites co a =
     (case fmlookup (co_members co) a of
        None \<Rightarrow> False
      | Some member \<Rightarrow>
          cm_status member = StatusOwner
        \<or> (cm_status member = StatusAdministrator \<and> ar_invite_members (cm_admin_rights member)))"

definition upsert_member :: "CommunityState \<Rightarrow> CommunityMember \<Rightarrow> CommunityState" where
  "upsert_member co member =
     co\<lparr>co_pending_join_requests := fmdrop (cm_actor_id member) (co_pending_join_requests co),
        co_members := fmupd (cm_actor_id member) member (co_members co)\<rparr>"

definition request_join :: "CommunityState \<Rightarrow> JoinRequest \<Rightarrow> CommunityState" where
  "request_join co request =
     co\<lparr>co_pending_join_requests :=
          fmupd (jr_actor_id request) request (co_pending_join_requests co)\<rparr>"

definition approve_join ::
  "CommunityState \<Rightarrow> ActorId \<Rightarrow> ActorId \<Rightarrow> i64 \<Rightarrow> (CommunityState, CommunityError) result"
where
  "approve_join co actor_id approved_by now_ms =
     (if \<not> can_manage_invites co approved_by then Err PermissionDenied
      else
        and_then (ok_or (JoinRequestNotFound actor_id)
                    (fmlookup (co_pending_join_requests co) actor_id)) (\<lambda>request.
        Ok (upsert_member
              (co\<lparr>co_pending_join_requests := fmdrop actor_id (co_pending_join_requests co)\<rparr>)
              \<lparr>cm_actor_id = jr_actor_id request, cm_status = StatusMember, cm_admin_title = None,
               cm_admin_rights = AdminRights_default,
               cm_restrictions = MemberRestrictions_default, cm_joined_at_ms = now_ms,
               cm_invited_by = Some approved_by\<rparr>)))"

definition revoke_invite ::
  "CommunityState \<Rightarrow> string \<Rightarrow> (CommunityState, CommunityError) result"
where
  "revoke_invite co invite_id =
     and_then (ok_or (InviteNotFound invite_id) (fmlookup (co_invite_links co) invite_id)) (\<lambda>invite.
     Ok (co\<lparr>co_invite_links := fmupd invite_id (invite\<lparr>il_revoked := True\<rparr>) (co_invite_links co)\<rparr>))"

end
