(* ===== verification/Story.thy ===== *)
theory Story
  imports Messages
begin

text \<open>
  Stories of \<open>src/native/mahayana-messaging/src/story.rs\<close>: who may see a story, and the views and
  reactions recorded on it.
\<close>

datatype StoryId = StoryId (story_str: string)

instantiation StoryId :: linorder
begin

definition less_eq_StoryId :: "StoryId \<Rightarrow> StoryId \<Rightarrow> bool" where
  "less_eq_StoryId a b \<longleftrightarrow> story_str a \<le> story_str b"

definition less_StoryId :: "StoryId \<Rightarrow> StoryId \<Rightarrow> bool" where
  "less_StoryId a b \<longleftrightarrow> story_str a < story_str b"

instance
  by intro_classes
    (auto simp: less_eq_StoryId_def less_StoryId_def intro: StoryId.expand)

end

datatype StoryPrivacyKind = StoryEveryone | StoryContacts | StoryCloseFriends | StorySelected

record StoryPrivacy =
  sp_kind :: StoryPrivacyKind
  sp_included_actor_ids :: "ActorId fset"
  sp_excluded_actor_ids :: "ActorId fset"

record StoryView =
  sv_actor_id :: ActorId
  sv_viewed_at_ms :: i64
  sv_reaction :: "string option"
  sv_forwarded :: bool

record Story =
  st_id :: StoryId
  st_owner_id :: ActorId
  st_media :: MediaRef
  st_caption :: FormattedText
  st_privacy :: StoryPrivacy
  st_created_at_ms :: i64
  st_expires_at_ms :: i64
  st_edited_at_ms :: "i64 option"
  st_pinned_to_profile :: bool
  st_protected_content :: bool
  st_allow_replies :: bool
  st_views :: "(ActorId, StoryView) fmap"

datatype StoryError = Expired StoryId | ViewerNotFound ActorId

definition is_visible_to :: "Story \<Rightarrow> ActorId \<Rightarrow> bool \<Rightarrow> bool \<Rightarrow> bool" where
  "is_visible_to story actor_id is_contact is_close_friend =
     (if st_owner_id story = actor_id then True
      else if actor_id |\<in>| sp_excluded_actor_ids (st_privacy story) then False
      else if actor_id |\<in>| sp_included_actor_ids (st_privacy story) then True
      else (case sp_kind (st_privacy story) of
              StoryEveryone \<Rightarrow> True
            | StoryContacts \<Rightarrow> is_contact
            | StoryCloseFriends \<Rightarrow> is_close_friend
            | StorySelected \<Rightarrow> False))"

definition record_view :: "Story \<Rightarrow> ActorId \<Rightarrow> i64 \<Rightarrow> (Story, StoryError) result" where
  "record_view story actor_id viewed_at_ms =
     (if sint (st_expires_at_ms story) < sint viewed_at_ms \<and> \<not> st_pinned_to_profile story
      then Err (Expired (st_id story))
      else
        let view = (case fmlookup (st_views story) actor_id of
              Some view \<Rightarrow> view\<lparr>sv_viewed_at_ms :=
                (if sint viewed_at_ms < sint (sv_viewed_at_ms view) then viewed_at_ms
                 else sv_viewed_at_ms view)\<rparr>
            | None \<Rightarrow> \<lparr>sv_actor_id = actor_id, sv_viewed_at_ms = viewed_at_ms, sv_reaction = None,
                       sv_forwarded = False\<rparr>)
        in Ok (story\<lparr>st_views := fmupd actor_id view (st_views story)\<rparr>))"

definition react :: "Story \<Rightarrow> ActorId \<Rightarrow> string option \<Rightarrow> (Story, StoryError) result" where
  "react story actor_id reaction =
     and_then (ok_or (ViewerNotFound actor_id) (fmlookup (st_views story) actor_id)) (\<lambda>view.
     Ok (story\<lparr>st_views := fmupd actor_id (view\<lparr>sv_reaction := reaction\<rparr>) (st_views story)\<rparr>))"

end
