(* ===== verification/Bots.thy ===== *)
theory Bots
  imports Messages
begin

text \<open>
  The bot registry of \<open>src/native/mahayana-messaging/src/bot.rs\<close>: profiles with their commands,
  and the executions of invocations.
\<close>

record BotCommand =
  bc_command :: string
  bc_description :: string
  bc_scopes :: "string fset"

record BotProfile =
  bp_actor_id :: ActorId
  bp_description :: string
  bp_about :: string
  bp_commands :: "BotCommand list"
  bp_inline_mode_enabled :: bool
  bp_inline_placeholder :: "string option"
  bp_groups_allowed :: bool
  bp_privacy_mode :: bool
  bp_mini_app_id :: "string option"
  bp_payment_provider_ids :: "string list"
  bp_business_mode :: bool

record BotInvocation =
  bi_id :: string
  bi_bot_id :: ActorId
  bi_sender_id :: ActorId
  bi_conversation_id :: ConversationId
  bi_command :: "string option"
  bi_text :: FormattedText
  bi_reply_to_message_id :: "string option"
  bi_metadata :: "(string, string) fmap"
  bi_created_at_ms :: i64

datatype BotExecutionState =
  Queued | Running | WaitingForApproval | Completed | FailedExecution | CancelledExecution

record BotExecution =
  be_id :: string
  be_bot_id :: ActorId
  be_invocation_id :: string
  be_state :: BotExecutionState
  be_started_at_ms :: "i64 option"
  be_finished_at_ms :: "i64 option"
  be_error :: "string option"

record BotRegistry =
  br_bots :: "(ActorId, BotProfile) fmap"
  br_executions :: "(string, BotExecution) fmap"

definition BotRegistry_default :: BotRegistry where
  "BotRegistry_default = \<lparr>br_bots = fmempty, br_executions = fmempty\<rparr>"

datatype BotError =
    InvalidBotId
  | BotNotFound ActorId
  | InvalidCommand string
  | EmptyInvocation
  | ExecutionNotFound string

definition validate_command :: "BotCommand \<Rightarrow> (unit, BotError) result" where
  "validate_command command =
     (let value = dropWhile (\<lambda>c. c = CHR ''/'') (bc_command command) in
      if value = [] \<or> length value > 32
       \<or> \<not> list_all (\<lambda>b. is_ascii_lowercase b \<or> is_ascii_digit b \<or> b = CHR ''_'') value
      then Err (InvalidCommand (bc_command command)) else Ok ())"

definition register_bot :: "BotRegistry \<Rightarrow> BotProfile \<Rightarrow> (BotRegistry, BotError) result" where
  "register_bot reg profile =
     (if \<not> ActorId_is_valid (bp_actor_id profile) then Err InvalidBotId
      else
        and_then (try_all validate_command (bp_commands profile)) (\<lambda>_.
        Ok (reg\<lparr>br_bots := fmupd (bp_actor_id profile) profile (br_bots reg)\<rparr>)))"

definition begin_execution ::
  "BotRegistry \<Rightarrow> BotInvocation \<Rightarrow> i64 \<Rightarrow> (BotRegistry \<times> BotExecution, BotError) result"
where
  "begin_execution reg invocation now_ms =
     and_then (ok_or (BotNotFound (bi_bot_id invocation))
                 (fmlookup (br_bots reg) (bi_bot_id invocation))) (\<lambda>profile.
     if bi_command invocation \<noteq> None \<and> bp_privacy_mode profile \<and> is_blank (ft_text (bi_text invocation))
     then Err EmptyInvocation
     else
       let execution =
         \<lparr>be_id = ''bot-execution:'' @ bi_id invocation, be_bot_id = bi_bot_id invocation,
          be_invocation_id = bi_id invocation, be_state = Running,
          be_started_at_ms = Some now_ms, be_finished_at_ms = None, be_error = None\<rparr>
       in Ok (reg\<lparr>br_executions := fmupd (be_id execution) execution (br_executions reg)\<rparr>, execution))"

definition finish_execution ::
  "BotRegistry \<Rightarrow> string \<Rightarrow> bool \<Rightarrow> i64 \<Rightarrow> string option \<Rightarrow> (BotRegistry, BotError) result"
where
  "finish_execution reg execution_id success now_ms error =
     and_then (ok_or (ExecutionNotFound execution_id)
                 (fmlookup (br_executions reg) execution_id)) (\<lambda>execution.
     Ok (reg\<lparr>br_executions := fmupd execution_id
           (execution\<lparr>be_state := (if success then Completed else FailedExecution),
                      be_finished_at_ms := Some now_ms, be_error := error\<rparr>)
           (br_executions reg)\<rparr>))"

end
