(* ===== verification/Mini_Apps.thy ===== *)
theory Mini_Apps
  imports Conversations
begin

text \<open>
  Mini Apps of \<open>src/native/mahayana-messaging/src/miniapp.rs\<close>: manifests, grants, sessions, the
  requests a Mini App sends and the permissions each needs. The identifiers and inputs of service
  calls come from \<open>miniapp_service_call.rs\<close>.
\<close>

datatype (plugins only: code size) MiniAppPermission =
    PermIdentity
  | PermTheme
  | PermClipboardRead
  | PermClipboardWrite
  | PermCamera
  | PermMicrophone
  | PermLocation
  | PermContacts
  | PermFiles
  | PermNotifications
  | PermHaptics
  | PermPayments
  | PermOpenExternal
  | PermSendMessage
  | PermReadConversation
  | PermServiceCall

record MiniAppManifest =
  ma_id :: string
  ma_name :: string
  ma_version :: string
  ma_description :: string
  ma_icon_url :: "string option"
  ma_start_url :: string
  ma_allowed_origins :: "string list"
  ma_requested_permissions :: "MiniAppPermission list"
  ma_bot_actor_id :: "ActorId option"
  ma_verified :: bool

record MiniAppGrant =
  mg_mini_app_id :: string
  mg_actor_id :: ActorId
  mg_permissions :: "MiniAppPermission list"
  mg_granted_at_ms :: i64
  mg_expires_at_ms :: "i64 option"

record MiniAppSession =
  ms_id :: string
  ms_mini_app_id :: string
  ms_actor_id :: ActorId
  ms_conversation_id :: "ConversationId option"
  ms_start_parameter :: "string option"
  ms_granted_permissions :: "MiniAppPermission list"
  ms_opened_at_ms :: i64
  ms_expires_at_ms :: i64

datatype MiniAppServiceCallId = MiniAppServiceCallId (service_call_str: string)

datatype MiniAppServiceCallMode = ModeVoice | ModeText | ModeHybrid

datatype MiniAppServiceCallState =
  CallConnecting | CallActive | CallHeld | CallEnded | CallFailed

datatype MiniAppServiceCallInput =
    InputDtmf string
  | InputSpeechTranscript string bool "u16 option"
  | InputChatText string

datatype (plugins only: code size) MiniAppRequest =
    Ready
  | Expand
  | Close
  | SetHeaderColor string
  | SetBackgroundColor string
  | RequestTheme
  | RequestViewport
  | RequestIdentity
  | RequestLocation
  | RequestContact
  | RequestWriteAccess
  | ReadClipboard
  | WriteClipboard string
  | OpenExternal string
  | OpenInvoice string
  | SendData string
  | SendMessageRequest string
  | Haptic string
  | StartServiceCall MiniAppServiceCallId MiniAppServiceCallMode
  | SubmitServiceCallInput MiniAppServiceCallId MiniAppServiceCallInput
  | EndServiceCall MiniAppServiceCallId

datatype MiniAppResponse =
    ResponseOk
  | ResponseError string string
  | ResponseTheme string "(string \<times> string) list"
  | ResponseViewport f64 f64 f64 bool
  | ResponseIdentity ActorId string "string option"
  | ResponseLocation f64 f64
  | ResponseContact "ActorId option" string
  | ResponseClipboard "string option"
  | ResponseInvoiceStatus string string
  | ResponseServiceCallStatus MiniAppServiceCallId MiniAppServiceCallState

primrec required_permissions :: "MiniAppRequest \<Rightarrow> MiniAppPermission list" where
  "required_permissions RequestIdentity = [PermIdentity]"
| "required_permissions RequestLocation = [PermLocation]"
| "required_permissions RequestContact = [PermContacts]"
| "required_permissions RequestWriteAccess = [PermSendMessage]"
| "required_permissions ReadClipboard = [PermClipboardRead]"
| "required_permissions (WriteClipboard _) = [PermClipboardWrite]"
| "required_permissions (OpenExternal _) = [PermOpenExternal]"
| "required_permissions (OpenInvoice _) = [PermPayments]"
| "required_permissions (SendMessageRequest _) = [PermSendMessage]"
| "required_permissions (SendData _) = [PermSendMessage]"
| "required_permissions (Haptic _) = [PermHaptics]"
| "required_permissions (StartServiceCall _ mode) =
     (if mode = ModeVoice \<or> mode = ModeHybrid then [PermServiceCall, PermMicrophone]
      else [PermServiceCall])"
| "required_permissions (SubmitServiceCallInput _ input) =
     (case input of
        InputSpeechTranscript _ _ _ \<Rightarrow> [PermServiceCall, PermMicrophone]
      | _ \<Rightarrow> [PermServiceCall])"
| "required_permissions (EndServiceCall _) = [PermServiceCall]"
| "required_permissions Ready = []"
| "required_permissions Expand = []"
| "required_permissions Close = []"
| "required_permissions (SetHeaderColor _) = []"
| "required_permissions (SetBackgroundColor _) = []"
| "required_permissions RequestTheme = []"
| "required_permissions RequestViewport = []"

definition required_permission :: "MiniAppRequest \<Rightarrow> MiniAppPermission option" where
  "required_permission request =
     (case required_permissions request of [] \<Rightarrow> None | p # _ \<Rightarrow> Some p)"

end
