(* ===== verification/Engine_State.thy ===== *)
theory Engine_State
  imports Messages Retention Wallet Community Story Bots Mini_Apps
begin

text \<open>
  The vocabulary of the messaging engine, \<open>src/native/mahayana-messaging/src/engine.rs\<close>: the
  commands it decides, the events it applies, its state, its errors, and the lookups that every
  command starts with. The fields of a command or event stand in the order of the source.
\<close>

datatype (plugins only: code size) Command =
    UpsertActor Actor
  | SetPresence ActorId Presence
  | UpsertConversation Conversation
  | UpdateConversationInfo ConversationId string "string option"
  | SetConversationParticipant ConversationId Participant
  | RemoveConversationParticipant ConversationId ActorId
  | ArchiveConversation ConversationId bool
  | PinConversation ConversationId bool
  | SetMarkedUnread ConversationId ActorId bool
  | SetDraft ConversationDraft
  | SetConversationNotifications ConversationId NotificationSettings
  | SetConversationMessageRetention ConversationId "u32 option" u64
  | UpsertFolder ConversationFolder
  | DeleteFolder string
  | QueueMessage ConversationId MessageId ClientMessageId ActorId MessageContent
      "MessageId option" "MessageId option" i64 "i64 option" bool bool
  | ForwardMessage ConversationId MessageId ConversationId MessageId ClientMessageId ActorId i64
  | AcknowledgeMessage ConversationId MessageId MessageId i64
  | SetDeliveryState ConversationId MessageId DeliveryState
  | EditMessage ConversationId MessageId MessageContent i64
  | DeleteMessages ConversationId "MessageId list"
  | MarkRead ConversationId ActorId MessageId
  | MarkTopicRead ConversationId string ActorId MessageId
  | SetTopicDraft TopicDraft
  | SetReaction ConversationId MessageId ReactionSummary
  | PinMessage ConversationId MessageId bool
  | VotePoll ConversationId MessageId ActorId "string list"
  | CreateInvoice Invoice
  | UpsertOrder PaymentOrder
  | CheckoutInvoice string string ActorId "CustomerInfo option" i64
  | RefundOrder string ActorId string i64
  | CreditWalletSettlement string ActorId Money "string option" i64
  | PublishStory ActorId Story
  | DeleteStory ActorId StoryId
  | ViewStory ActorId StoryId i64
  | ReactStory ActorId StoryId "string option"
  | UpdateCommunity ActorId CommunityState
  | SubscribeChannel ActorId ConversationId i64
  | UnsubscribeChannel ActorId ConversationId i64
  | SetCommunitySlowMode ActorId ConversationId "u32 option" i64
  | ModerateCommunityMember ActorId ConversationId CommunityMember "string option" i64
  | SetCommunityMember ActorId ConversationId CommunityMember
  | CreateInviteLink ActorId InviteLink
  | RevokeInviteLink ActorId ConversationId string i64
  | RequestCommunityJoin ActorId JoinRequest
  | RespondCommunityJoin ActorId ConversationId ActorId bool i64
  | UpsertForumTopic ActorId ForumTopicState
  | DeleteForumTopic ActorId ConversationId string
  | RegisterBot ActorId BotProfile
  | BeginBotInvocation ActorId BotInvocation i64
  | FinishBotExecution ActorId string bool i64 "string option"
  | InstallMiniApp MiniAppManifest
  | GrantMiniApp MiniAppGrant
  | OpenMiniApp MiniAppSession
  | MiniAppCall string string MiniAppRequest

datatype (plugins only: code size) Event =
    ActorUpserted Actor
  | PresenceUpdated ActorId Presence
  | ConversationUpserted Conversation
  | ConversationInfoUpdated ConversationId string "string option"
  | ConversationParticipantUpserted ConversationId Participant
  | ConversationParticipantRemoved ConversationId ActorId
  | ConversationArchived ConversationId bool
  | ConversationPinned ConversationId bool
  | ConversationMarkedUnread ConversationId ActorId bool
  | DraftChanged ConversationDraft
  | ConversationNotificationsUpdated ConversationId NotificationSettings
  | ConversationMessageRetentionUpdated ConversationId ConversationMessageRetention
  | FolderUpserted ConversationFolder
  | FolderDeleted string
  | MessageQueued Message
  | MessageAcknowledged ConversationId MessageId MessageId i64
  | DeliveryStateUpdated ConversationId MessageId DeliveryState
  | MessageEdited ConversationId MessageId MessageContent i64
  | MessagesDeleted ConversationId "MessageId list"
  | ConversationRead ConversationId ActorId MessageId
  | TopicReadChanged ConversationId string ActorId MessageId
  | TopicDraftChanged TopicDraft
  | ReactionUpdated ConversationId MessageId ReactionSummary
  | MessagePinned ConversationId MessageId bool
  | PollVoteChanged ConversationId MessageId ActorId "string list"
  | InvoiceCreated Invoice
  | OrderUpserted PaymentOrder
  | WalletChanged WalletLedger LedgerEntry
  | StoryChanged Story
  | StoryDeleted StoryId
  | CommunityChanged CommunityState
  | BotRegistryChanged BotRegistry "BotProfile option" "BotExecution option"
  | MiniAppInstalled MiniAppManifest
  | MiniAppGrantUpdated MiniAppGrant
  | MiniAppOpened MiniAppSession
  | MiniAppResponded string string MiniAppResponse

record MessagingState =
  s_actors :: "(ActorId, Actor) fmap"
  s_conversations :: "(ConversationId, Conversation) fmap"
  s_folders :: "(string, ConversationFolder) fmap"
  s_messages :: "(ConversationId, (MessageId, Message) fmap) fmap"
  s_read_cursors :: "(ConversationId, (ActorId, MessageId) fmap) fmap"
  s_topic_read_cursors :: "(ConversationId, (ActorId, (string, MessageId) fmap) fmap) fmap"
  s_poll_votes :: "(ConversationId, (MessageId, (ActorId, string fset) fmap) fmap) fmap"
  s_marked_unread_by_actor :: "(ConversationId, ActorId fset) fmap"
  s_drafts :: "(ConversationId, (ActorId, ConversationDraft) fmap) fmap"
  s_topic_drafts :: "(ConversationId, (ActorId, (string, TopicDraft) fmap) fmap) fmap"
  s_invoices :: "(string, Invoice) fmap"
  s_orders :: "(string, PaymentOrder) fmap"
  s_wallet :: WalletLedger
  s_stories :: "(StoryId, Story) fmap"
  s_communities :: "(ConversationId, CommunityState) fmap"
  s_bots :: BotRegistry
  s_mini_apps :: "(string, MiniAppManifest) fmap"
  s_mini_app_grants :: "(string \<times> ActorId, MiniAppGrant) fmap"
  s_mini_app_sessions :: "(string, MiniAppSession) fmap"

definition MessagingState_default :: MessagingState where
  "MessagingState_default =
     \<lparr>s_actors = fmempty, s_conversations = fmempty, s_folders = fmempty, s_messages = fmempty,
      s_read_cursors = fmempty, s_topic_read_cursors = fmempty, s_poll_votes = fmempty,
      s_marked_unread_by_actor = fmempty, s_drafts = fmempty, s_topic_drafts = fmempty,
      s_invoices = fmempty, s_orders = fmempty, s_wallet = WalletLedger_default,
      s_stories = fmempty, s_communities = fmempty, s_bots = BotRegistry_default,
      s_mini_apps = fmempty, s_mini_app_grants = fmempty, s_mini_app_sessions = fmempty\<rparr>"

text \<open>
  \<open>EngineError::Bot\<close> carries a rendered message; the model carries the bot error it renders, or
  the text where the engine formats one itself.
\<close>

datatype BotFailure = BotDisplay BotError | BotText string

datatype (plugins only: code size) EngineError =
    InvalidActor
  | ActorNotFound ActorId
  | InvalidConversation
  | ConversationNotFound ConversationId
  | InvalidConversationParticipant
  | MessageNotFound ConversationId MessageId
  | DuplicateMessage ConversationId MessageId
  | InvalidClientMessageId
  | EmptyMessageList
  | InvalidPollVote
  | ProtectedContent
  | SenderNotParticipant ConversationId ActorId
  | MessageSendPermissionDenied ConversationId
  | MediaSendPermissionDenied ConversationId
  | PollSendPermissionDenied ConversationId
  | RetentionErr MessageRetentionError
  | InvalidSecretConversation
  | SecretPlaintextRejected
  | SecretContentOutsideSecretConversation
  | SecretEnvelopeMismatch
  | InvalidStory
  | StoryNotFound StoryId
  | StoryPermissionDenied StoryId
  | StoryErr StoryError
  | CommunityNotFound ConversationId
  | CommunityPermissionDenied
  | CommunitySendRestricted ConversationId
  | CommunityMediaRestricted ConversationId
  | CommunityPollRestricted ConversationId
  | CommunityAccessDenied ConversationId ActorId
  | SlowModeActive ConversationId i64
  | ForumTopicNotFound ConversationId string
  | ForumTopicClosed ConversationId string
  | TopicMessageMismatch string
  | CommunityErr CommunityError
  | BotPermissionDenied
  | BotErr BotFailure
  | InvalidInvoice
  | InvoiceNotFound string
  | OrderNotFound string
  | InvoiceExpired string
  | OrderConflict string
  | RefundForbidden string
  | OrderNotRefundable string
  | WalletErr WalletError
  | MiniAppNotFound string
  | MiniAppSessionNotFound string
  | MiniAppPermissionDenied MiniAppPermission
  | MiniAppHostActionRequired

type_synonym decision = "(Event list, EngineError) result"

section \<open>Lookups\<close>

definition require_actor :: "MessagingState \<Rightarrow> ActorId \<Rightarrow> (Actor, EngineError) result" where
  "require_actor s a = ok_or (ActorNotFound a) (fmlookup (s_actors s) a)"

definition require_conversation ::
  "MessagingState \<Rightarrow> ConversationId \<Rightarrow> (Conversation, EngineError) result"
where
  "require_conversation s c = ok_or (ConversationNotFound c) (fmlookup (s_conversations s) c)"

text \<open>\<open>self.state.messages.get(c).and_then(|messages| messages.get(m))\<close>\<close>

definition get_message :: "MessagingState \<Rightarrow> ConversationId \<Rightarrow> MessageId \<Rightarrow> Message option" where
  "get_message s c m =
     (case fmlookup (s_messages s) c of None \<Rightarrow> None | Some ms \<Rightarrow> fmlookup ms m)"

definition require_message ::
  "MessagingState \<Rightarrow> ConversationId \<Rightarrow> MessageId \<Rightarrow> (Message, EngineError) result"
where
  "require_message s c m = ok_or (MessageNotFound c m) (get_message s c m)"

definition require_community ::
  "MessagingState \<Rightarrow> ConversationId \<Rightarrow> (CommunityState, EngineError) result"
where
  "require_community s c = ok_or (CommunityNotFound c) (fmlookup (s_communities s) c)"

lemma require_Ok_iff [result_simps]:
  "require_actor s a = Ok x \<longleftrightarrow> fmlookup (s_actors s) a = Some x"
  "require_conversation s c = Ok y \<longleftrightarrow> fmlookup (s_conversations s) c = Some y"
  "require_message s c m = Ok z \<longleftrightarrow> get_message s c m = Some z"
  "require_community s c = Ok u \<longleftrightarrow> fmlookup (s_communities s) c = Some u"
  by (simp_all add: require_actor_def require_conversation_def require_message_def
      require_community_def result_simps)

definition is_community_kind :: "ConversationKind \<Rightarrow> bool" where
  "is_community_kind k \<longleftrightarrow> k = Group \<or> k = Channel"

end
