(* ===== verification/Decide_Conversations.thy ===== *)
theory Decide_Conversations
  imports Engine_State
begin

text \<open>
  The decisions of \<open>MessagingEngine::decide\<close> in \<open>src/native/mahayana-messaging/src/engine.rs\<close> on
  actors, conversations, drafts and folders, with the helpers of that file that several commands
  share. Each arm of the match is one definition that returns the events or the first error.
\<close>

section \<open>Helpers of the engine\<close>

datatype CommunityAdminAction =
  ActChangeInfo | ActInviteMembers | ActBanMembers | ActManageTopics | ActAddAdmins

definition is_community_owner :: "CommunityState \<Rightarrow> ActorId \<Rightarrow> bool" where
  "is_community_owner co a =
     (case fmlookup (co_members co) a of
        None \<Rightarrow> False
      | Some member \<Rightarrow> cm_status member = StatusOwner)"

definition admin_allowed :: "CommunityMember \<Rightarrow> CommunityAdminAction \<Rightarrow> bool" where
  "admin_allowed member action =
     (if cm_status member = StatusOwner then True
      else if cm_status member \<noteq> StatusAdministrator then False
      else (case action of
              ActChangeInfo \<Rightarrow> ar_change_info (cm_admin_rights member)
            | ActInviteMembers \<Rightarrow> ar_invite_members (cm_admin_rights member)
            | ActBanMembers \<Rightarrow> ar_ban_members (cm_admin_rights member)
            | ActManageTopics \<Rightarrow> ar_manage_topics (cm_admin_rights member)
            | ActAddAdmins \<Rightarrow> ar_add_admins (cm_admin_rights member)))"

definition require_community_admin ::
  "CommunityState \<Rightarrow> ActorId \<Rightarrow> CommunityAdminAction \<Rightarrow> (unit, EngineError) result"
where
  "require_community_admin co a action =
     (if (case fmlookup (co_members co) a of
            None \<Rightarrow> False
          | Some member \<Rightarrow> admin_allowed member action)
      then Ok () else Err CommunityPermissionDenied)"

definition topic_id_from_root :: "MessageId \<Rightarrow> string option" where
  "topic_id_from_root root =
     (case strip_prefix ''topic:'' (message_str root) of
        None \<Rightarrow> None
      | Some topic_id \<Rightarrow> if topic_id \<noteq> [] then Some topic_id else None)"

definition community_has_access :: "CommunityState \<Rightarrow> ActorId \<Rightarrow> bool" where
  "community_has_access co a \<longleftrightarrow>
     (case fmlookup (co_members co) a of
        None \<Rightarrow> False
      | Some member \<Rightarrow> cm_status member \<noteq> StatusLeft \<and> cm_status member \<noteq> StatusBanned)
   \<or> is_subscriber co a"

text \<open>\<open>format!("audit:{}:{}:{}:{}", actor, created_at, admin_log.len(), target or "community")\<close>\<close>

definition append_community_audit ::
  "CommunityState \<Rightarrow> ActorId \<Rightarrow> CommunityAuditAction \<Rightarrow> ActorId option \<Rightarrow> string option \<Rightarrow>
     string option \<Rightarrow> i64 \<Rightarrow> CommunityState"
where
  "append_community_audit co actor_id action target_actor_id target_id reason created_at_ms =
     append_audit co
       \<lparr>au_id = ''audit:'' @ actor_str actor_id @ '':'' @ show_int (sint created_at_ms) @ '':''
                 @ show_nat (length (co_admin_log co)) @ '':''
                 @ (case target_id of None \<Rightarrow> ''community'' | Some t \<Rightarrow> t),
        au_actor_id = actor_id,
        au_action = action,
        au_target_actor_id = target_actor_id,
        au_target_id = target_id,
        au_reason = reason,
        au_created_at_ms = created_at_ms\<rparr>"

definition message_content_uses_media :: "MessageContent \<Rightarrow> bool" where
  "message_content_uses_media content =
     (case content of
        ContentPhoto _ _ _ \<Rightarrow> True
      | ContentVideo _ _ _ _ \<Rightarrow> True
      | ContentAnimation _ _ \<Rightarrow> True
      | ContentAudio _ _ _ _ \<Rightarrow> True
      | ContentVoice _ _ _ \<Rightarrow> True
      | ContentVideoNote _ \<Rightarrow> True
      | ContentDocument _ _ \<Rightarrow> True
      | ContentSticker _ _ _ \<Rightarrow> True
      | _ \<Rightarrow> False)"

definition participant_for_community_member :: "CommunityMember \<Rightarrow> Participant option" where
  "participant_for_community_member member =
     (let participant = (\<lambda>role.
            \<lparr>p_actor_id = cm_actor_id member, p_role = role, p_joined_at_ms = cm_joined_at_ms member,
             p_muted_until_ms = mx_until_ms (cm_restrictions member)\<rparr>)
      in case cm_status member of
           StatusOwner \<Rightarrow> Some (participant RoleOwner)
         | StatusAdministrator \<Rightarrow> Some (participant RoleAdmin)
         | StatusMember \<Rightarrow> Some (participant RoleMember)
         | StatusRestricted \<Rightarrow> Some (participant RoleRestricted)
         | StatusLeft \<Rightarrow> None
         | StatusBanned \<Rightarrow> None)"

section \<open>Actors and conversations\<close>

definition decide_UpsertActor :: "MessagingState \<Rightarrow> Actor \<Rightarrow> decision" where
  "decide_UpsertActor s actor =
     (if \<not> ActorId_is_valid (a_id actor) \<or> is_blank (a_display_name actor) then Err InvalidActor
      else Ok [ActorUpserted actor])"

definition decide_SetPresence :: "MessagingState \<Rightarrow> ActorId \<Rightarrow> Presence \<Rightarrow> decision" where
  "decide_SetPresence s actor_id presence =
     and_then (require_actor s actor_id) (\<lambda>_. Ok [PresenceUpdated actor_id presence])"

definition decide_UpsertConversation :: "MessagingState \<Rightarrow> Conversation \<Rightarrow> decision" where
  "decide_UpsertConversation s conversation =
     (if \<not> ConversationId_is_valid (c_id conversation) \<or> is_blank (c_title conversation)
      then Err InvalidConversation
      else if (case fmlookup (s_conversations s) (c_id conversation) of
                 None \<Rightarrow> False
               | Some existing \<Rightarrow>
                   is_community_kind (c_kind existing)
                 \<and> (c_owner_id conversation \<noteq> c_owner_id existing
                    \<or> c_participants conversation \<noteq> c_participants existing
                    \<or> c_topics conversation \<noteq> c_topics existing))
      then Err InvalidConversationParticipant
      else
        and_then (try_all (\<lambda>p. and_then (require_actor s (p_actor_id p)) (\<lambda>_. Ok ()))
                    (c_participants conversation)) (\<lambda>_.
        if c_kind conversation = Secret \<and> length (c_participants conversation) \<noteq> 2
        then Err InvalidSecretConversation
        else Ok [ConversationUpserted conversation]))"

definition decide_UpdateConversationInfo ::
  "MessagingState \<Rightarrow> ConversationId \<Rightarrow> string \<Rightarrow> string option \<Rightarrow> decision"
where
  "decide_UpdateConversationInfo s conversation_id title description =
     and_then (require_conversation s conversation_id) (\<lambda>_.
     if is_blank title \<or> length (trim title) > 200 then Err InvalidConversationParticipant
     else Ok [ConversationInfoUpdated conversation_id (trim title)
                (case description of
                   None \<Rightarrow> None
                 | Some d \<Rightarrow> if trim d \<noteq> [] then Some (trim d) else None)])"

definition status_of_role :: "ParticipantRole \<Rightarrow> MemberStatus" where
  "status_of_role role =
     (case role of
        RoleOwner \<Rightarrow> StatusOwner
      | RoleAdmin \<Rightarrow> StatusAdministrator
      | RoleMember \<Rightarrow> StatusMember
      | RoleRestricted \<Rightarrow> StatusRestricted)"

definition decide_SetConversationParticipant ::
  "MessagingState \<Rightarrow> ConversationId \<Rightarrow> Participant \<Rightarrow> decision"
where
  "decide_SetConversationParticipant s conversation_id participant =
     and_then (require_conversation s conversation_id) (\<lambda>conversation.
     and_then (require_actor s (p_actor_id participant)) (\<lambda>_.
     if c_owner_id conversation = Some (p_actor_id participant) \<and> p_role participant \<noteq> RoleOwner
     then Err InvalidConversationParticipant
     else if is_community_kind (c_kind conversation) then
       and_then (require_community s conversation_id) (\<lambda>community.
       let member = get_or
             \<lparr>cm_actor_id = p_actor_id participant, cm_status = StatusMember, cm_admin_title = None,
              cm_admin_rights = AdminRights_default, cm_restrictions = MemberRestrictions_default,
              cm_joined_at_ms = p_joined_at_ms participant, cm_invited_by = None\<rparr>
             (co_members community) (p_actor_id participant);
           member = member\<lparr>cm_status := status_of_role (p_role participant),
                           cm_joined_at_ms := p_joined_at_ms participant\<rparr>
       in Ok [CommunityChanged (community\<lparr>co_members :=
                fmupd (p_actor_id participant) member (co_members community)\<rparr>),
              ConversationParticipantUpserted conversation_id participant])
     else Ok [ConversationParticipantUpserted conversation_id participant]))"

definition decide_RemoveConversationParticipant ::
  "MessagingState \<Rightarrow> ConversationId \<Rightarrow> ActorId \<Rightarrow> decision"
where
  "decide_RemoveConversationParticipant s conversation_id actor_id =
     and_then (require_conversation s conversation_id) (\<lambda>conversation.
     if c_owner_id conversation = Some actor_id then Err InvalidConversationParticipant
     else if is_community_kind (c_kind conversation) then
       and_then (require_community s conversation_id) (\<lambda>community.
       Ok [CommunityChanged
             (community\<lparr>co_members :=
                fm_modify actor_id (\<lambda>member. member\<lparr>cm_status := StatusLeft\<rparr>) (co_members community),
                co_subscribers := fmdrop actor_id (co_subscribers community)\<rparr>),
           ConversationParticipantRemoved conversation_id actor_id])
     else Ok [ConversationParticipantRemoved conversation_id actor_id])"

definition decide_ArchiveConversation :: "MessagingState \<Rightarrow> ConversationId \<Rightarrow> bool \<Rightarrow> decision" where
  "decide_ArchiveConversation s conversation_id archived =
     and_then (require_conversation s conversation_id) (\<lambda>_.
     Ok [ConversationArchived conversation_id archived])"

definition decide_PinConversation :: "MessagingState \<Rightarrow> ConversationId \<Rightarrow> bool \<Rightarrow> decision" where
  "decide_PinConversation s conversation_id pinned =
     and_then (require_conversation s conversation_id) (\<lambda>_.
     Ok [ConversationPinned conversation_id pinned])"

definition decide_SetMarkedUnread ::
  "MessagingState \<Rightarrow> ConversationId \<Rightarrow> ActorId \<Rightarrow> bool \<Rightarrow> decision"
where
  "decide_SetMarkedUnread s conversation_id actor_id marked_unread =
     and_then (require_conversation s conversation_id) (\<lambda>_.
     and_then (require_actor s actor_id) (\<lambda>_.
     Ok [ConversationMarkedUnread conversation_id actor_id marked_unread]))"

definition decide_SetDraft :: "MessagingState \<Rightarrow> ConversationDraft \<Rightarrow> decision" where
  "decide_SetDraft s draft =
     and_then (require_conversation s (d_conversation_id draft)) (\<lambda>_.
     and_then (require_actor s (d_actor_id draft)) (\<lambda>_.
     Ok [DraftChanged draft]))"

definition decide_SetConversationNotifications ::
  "MessagingState \<Rightarrow> ConversationId \<Rightarrow> NotificationSettings \<Rightarrow> decision"
where
  "decide_SetConversationNotifications s conversation_id settings =
     and_then (require_conversation s conversation_id) (\<lambda>_.
     Ok [ConversationNotificationsUpdated conversation_id settings])"

definition decide_SetConversationMessageRetention ::
  "MessagingState \<Rightarrow> ConversationId \<Rightarrow> u32 option \<Rightarrow> u64 \<Rightarrow> decision"
where
  "decide_SetConversationMessageRetention s conversation_id retention_seconds expected_revision =
     and_then (require_conversation s conversation_id) (\<lambda>conversation.
     and_then (map_err RetentionErr (transpose_policy (c_message_retention_seconds conversation)))
       (\<lambda>policy.
     let current = \<lparr>cr_policy = policy, cr_revision = c_retention_revision conversation\<rparr> in
     and_then (map_err RetentionErr (retention_change current retention_seconds expected_revision))
       (\<lambda>retention.
     Ok [ConversationMessageRetentionUpdated conversation_id retention])))"

text \<open>Folders are stored and removed without a check.\<close>

definition decide_UpsertFolder :: "MessagingState \<Rightarrow> ConversationFolder \<Rightarrow> decision" where
  "decide_UpsertFolder s folder = Ok [FolderUpserted folder]"

definition decide_DeleteFolder :: "MessagingState \<Rightarrow> string \<Rightarrow> decision" where
  "decide_DeleteFolder s folder_id = Ok [FolderDeleted folder_id]"

end
