(* ===== verification/Decide_Messages.thy ===== *)
theory Decide_Messages
  imports Decide_Conversations
begin

text \<open>
  The decisions of \<open>MessagingEngine::decide\<close> on messages: queueing with its checks in the order
  of the source, forwarding, acknowledgement, edits, deletion, read cursors, topic drafts,
  reactions, pins and poll votes.
\<close>

section \<open>Queueing a message\<close>

definition is_participant :: "Conversation \<Rightarrow> ActorId \<Rightarrow> bool" where
  "is_participant conversation a = list_ex (\<lambda>p. p_actor_id p = a) (c_participants conversation)"

definition is_poll :: "MessageContent \<Rightarrow> bool" where
  "is_poll content = (case content of ContentPoll _ _ _ _ _ \<Rightarrow> True | _ \<Rightarrow> False)"

definition is_secret_content :: "MessageContent \<Rightarrow> bool" where
  "is_secret_content content = (case content of ContentSecret _ \<Rightarrow> True | _ \<Rightarrow> False)"

definition is_service_content :: "MessageContent \<Rightarrow> bool" where
  "is_service_content content = (case content of ContentService _ _ \<Rightarrow> True | _ \<Rightarrow> False)"

text \<open>The sender is a participant or the owner, and the conversation lets such content in.\<close>

definition queue_check_permissions ::
  "Conversation \<Rightarrow> ConversationId \<Rightarrow> ActorId \<Rightarrow> MessageContent \<Rightarrow> (unit, EngineError) result"
where
  "queue_check_permissions conversation conversation_id sender_id content =
     (if \<not> (is_participant conversation sender_id \<or> c_owner_id conversation = Some sender_id)
      then Err (SenderNotParticipant conversation_id sender_id)
      else if \<not> can_send_messages (c_permissions conversation)
      then Err (MessageSendPermissionDenied conversation_id)
      else if message_content_uses_media content \<and> \<not> can_send_media (c_permissions conversation)
      then Err (MediaSendPermissionDenied conversation_id)
      else if is_poll content \<and> \<not> can_send_polls (c_permissions conversation)
      then Err (PollSendPermissionDenied conversation_id)
      else Ok ())"

text \<open>\<open>self.state.communities.get(c).and_then(|community| community.members.get(a))\<close>\<close>

definition community_member ::
  "MessagingState \<Rightarrow> ConversationId \<Rightarrow> ActorId \<Rightarrow> CommunityMember option"
where
  "community_member s c a =
     (case fmlookup (s_communities s) c of
        None \<Rightarrow> None
      | Some community \<Rightarrow> fmlookup (co_members community) a)"

definition queue_check_restrictions ::
  "MessagingState \<Rightarrow> ConversationId \<Rightarrow> ActorId \<Rightarrow> MessageContent \<Rightarrow> (unit, EngineError) result"
where
  "queue_check_restrictions s conversation_id sender_id content =
     (case community_member s conversation_id sender_id of
        None \<Rightarrow> Ok ()
      | Some member \<Rightarrow>
          if cm_status member = StatusLeft \<or> cm_status member = StatusBanned
           \<or> (cm_status member = StatusRestricted \<and> mx_send_messages (cm_restrictions member))
          then Err (CommunitySendRestricted conversation_id)
          else if message_content_uses_media content \<and> cm_status member = StatusRestricted
                \<and> mx_send_media (cm_restrictions member)
          then Err (CommunityMediaRestricted conversation_id)
          else if is_poll content \<and> cm_status member = StatusRestricted
                \<and> mx_send_polls (cm_restrictions member)
          then Err (CommunityPollRestricted conversation_id)
          else Ok ())"

definition can_post ::
  "MessagingState \<Rightarrow> Conversation \<Rightarrow> ConversationId \<Rightarrow> ActorId \<Rightarrow> bool"
where
  "can_post s conversation conversation_id sender_id \<longleftrightarrow>
     c_owner_id conversation = Some sender_id
   \<or> list_ex (\<lambda>p. p_actor_id p = sender_id \<and> (p_role p = RoleOwner \<or> p_role p = RoleAdmin))
       (c_participants conversation)
   \<or> (case community_member s conversation_id sender_id of
        None \<Rightarrow> False
      | Some member \<Rightarrow>
          cm_status member = StatusAdministrator \<and> ar_post_messages (cm_admin_rights member))"

definition queue_check_channel ::
  "MessagingState \<Rightarrow> Conversation \<Rightarrow> ConversationId \<Rightarrow> ActorId \<Rightarrow> (unit, EngineError) result"
where
  "queue_check_channel s conversation conversation_id sender_id =
     (if c_kind conversation = Channel \<and> \<not> can_post s conversation conversation_id sender_id
      then Err (CommunitySendRestricted conversation_id) else Ok ())"

definition queue_check_topic ::
  "CommunityState \<Rightarrow> ConversationId \<Rightarrow> MessageId option \<Rightarrow> (unit, EngineError) result"
where
  "queue_check_topic community conversation_id thread_root_message_id =
     (case thread_root_message_id of
        None \<Rightarrow> Ok ()
      | Some root \<Rightarrow>
     (case topic_id_from_root root of
        None \<Rightarrow> Ok ()
      | Some topic_id \<Rightarrow>
          and_then (ok_or (ForumTopicNotFound conversation_id topic_id)
                      (fmlookup (co_topics community) topic_id)) (\<lambda>topic.
          if fts_closed topic \<or> fts_hidden topic
          then Err (ForumTopicClosed conversation_id topic_id) else Ok ())))"

definition messages_of :: "MessagingState \<Rightarrow> ConversationId \<Rightarrow> Message list" where
  "messages_of s c = (case fmlookup (s_messages s) c of None \<Rightarrow> [] | Some ms \<Rightarrow> map_values ms)"

text \<open>The message of the sender that slow mode counts from.\<close>

definition counts_for_slow_mode :: "ActorId \<Rightarrow> i64 \<Rightarrow> Message \<Rightarrow> bool" where
  "counts_for_slow_mode sender_id created_at_ms message \<longleftrightarrow>
     m_sender_id message = sender_id \<and> \<not> m_deleted message
   \<and> (case m_scheduled_at_ms message of
        None \<Rightarrow> True
      | Some scheduled \<Rightarrow> sint scheduled \<le> sint created_at_ms)"

definition latest_sender_message ::
  "MessagingState \<Rightarrow> ConversationId \<Rightarrow> ActorId \<Rightarrow> i64 \<Rightarrow> Message option"
where
  "latest_sender_message s conversation_id sender_id created_at_ms =
     max_by_key (\<lambda>message. (sint (m_created_at_ms message), m_id message))
       (filter (counts_for_slow_mode sender_id created_at_ms) (messages_of s conversation_id))"

definition slow_mode_retry_at :: "Message \<Rightarrow> u32 \<Rightarrow> i64" where
  "slow_mode_retry_at message seconds =
     saturating_add_i64 (m_created_at_ms message) (saturating_mul_i64 (i64_from_u32 seconds) 1000)"

definition queue_check_slow_mode ::
  "MessagingState \<Rightarrow> CommunityState \<Rightarrow> ConversationId \<Rightarrow> ActorId \<Rightarrow> i64 \<Rightarrow> (unit, EngineError) result"
where
  "queue_check_slow_mode s community conversation_id sender_id created_at_ms =
     (case co_slow_mode_seconds community of
        None \<Rightarrow> Ok ()
      | Some seconds \<Rightarrow>
          if can_moderate community sender_id then Ok ()
          else
            (case latest_sender_message s conversation_id sender_id created_at_ms of
               None \<Rightarrow> Ok ()
             | Some message \<Rightarrow>
                 let retry_at = slow_mode_retry_at message seconds in
                 if sint created_at_ms < sint retry_at
                 then Err (SlowModeActive conversation_id retry_at) else Ok ()))"

definition queue_check_community ::
  "MessagingState \<Rightarrow> ConversationId \<Rightarrow> ActorId \<Rightarrow> MessageId option \<Rightarrow> i64 \<Rightarrow> (unit, EngineError) result"
where
  "queue_check_community s conversation_id sender_id thread_root_message_id created_at_ms =
     (case fmlookup (s_communities s) conversation_id of
        None \<Rightarrow> Ok ()
      | Some community \<Rightarrow>
          and_then (queue_check_topic community conversation_id thread_root_message_id) (\<lambda>_.
          queue_check_slow_mode s community conversation_id sender_id created_at_ms))"

definition queue_check_secret ::
  "Conversation \<Rightarrow> ConversationId \<Rightarrow> ActorId \<Rightarrow> MessageContent \<Rightarrow> (unit, EngineError) result"
where
  "queue_check_secret conversation conversation_id sender_id content =
     (if c_kind conversation = Secret \<and> \<not> is_secret_content content \<and> \<not> is_service_content content
      then Err SecretPlaintextRejected
      else if c_kind conversation \<noteq> Secret \<and> is_secret_content content
      then Err SecretContentOutsideSecretConversation
      else
        (case content of
           ContentSecret envelope \<Rightarrow>
             if es_conversation_id envelope \<noteq> conversation_id
              \<or> es_sender_id envelope \<noteq> sender_id
              \<or> \<not> is_participant conversation (es_sender_id envelope)
              \<or> \<not> is_participant conversation (es_recipient_id envelope)
              \<or> es_sender_id envelope = es_recipient_id envelope
             then Err SecretEnvelopeMismatch else Ok ()
         | _ \<Rightarrow> Ok ()))"

definition message_exists :: "MessagingState \<Rightarrow> ConversationId \<Rightarrow> MessageId \<Rightarrow> bool" where
  "message_exists s c m =
     (case fmlookup (s_messages s) c of None \<Rightarrow> False | Some ms \<Rightarrow> contains_key ms m)"

definition check_new_message ::
  "MessagingState \<Rightarrow> ConversationId \<Rightarrow> MessageId \<Rightarrow> ClientMessageId \<Rightarrow> (unit, EngineError) result"
where
  "check_new_message s conversation_id local_message_id client_message_id =
     (if is_blank (client_message_str client_message_id)
       \<or> length (client_message_str client_message_id) > 200
      then Err InvalidClientMessageId
      else if message_exists s conversation_id local_message_id
      then Err (DuplicateMessage conversation_id local_message_id)
      else Ok ())"

definition message_expiry ::
  "u32 option \<Rightarrow> i64 \<Rightarrow> (i64 option, EngineError) result"
where
  "message_expiry retention_seconds base_ms =
     (case retention_seconds of
        None \<Rightarrow> Ok None
      | Some seconds \<Rightarrow>
          map_err RetentionErr
            (and_then (MessageRetentionPolicy_new seconds) (\<lambda>policy.
             and_then (expires_at_ms policy base_ms) (\<lambda>t. Ok (Some t)))))"

definition decide_QueueMessage ::
  "MessagingState \<Rightarrow> ConversationId \<Rightarrow> MessageId \<Rightarrow> ClientMessageId \<Rightarrow> ActorId \<Rightarrow> MessageContent \<Rightarrow>
     MessageId option \<Rightarrow> MessageId option \<Rightarrow> i64 \<Rightarrow> i64 option \<Rightarrow> bool \<Rightarrow> bool \<Rightarrow> decision"
where
  "decide_QueueMessage s conversation_id local_message_id client_message_id sender_id content
       reply_to_message_id thread_root_message_id created_at_ms scheduled_at_ms silent
       protected_content =
     and_then (require_conversation s conversation_id) (\<lambda>conversation.
     and_then (require_actor s sender_id) (\<lambda>_.
     and_then (queue_check_permissions conversation conversation_id sender_id content) (\<lambda>_.
     and_then (queue_check_restrictions s conversation_id sender_id content) (\<lambda>_.
     and_then (queue_check_channel s conversation conversation_id sender_id) (\<lambda>_.
     and_then (queue_check_community s conversation_id sender_id thread_root_message_id
                 created_at_ms) (\<lambda>_.
     and_then (queue_check_secret conversation conversation_id sender_id content) (\<lambda>_.
     and_then (check_new_message s conversation_id local_message_id client_message_id) (\<lambda>_.
     and_then (message_expiry (c_message_retention_seconds conversation)
                 (case scheduled_at_ms of None \<Rightarrow> created_at_ms | Some t \<Rightarrow> t)) (\<lambda>expiry.
     Ok [MessageQueued
           \<lparr>m_id = local_message_id,
            m_conversation_id = conversation_id,
            m_sender_id = sender_id,
            m_content = content,
            m_reply_to_message_id = reply_to_message_id,
            m_thread_root_message_id = thread_root_message_id,
            m_forward_origin = None,
            m_reply_markup = None,
            m_reactions = [],
            m_delivery_state = Pending client_message_id,
            m_created_at_ms = created_at_ms,
            m_edited_at_ms = None,
            m_scheduled_at_ms = scheduled_at_ms,
            m_expires_at_ms = expiry,
            m_silent = silent,
            m_protected_content = (protected_content \<or> is_secret_content content),
            m_pinned = False,
            m_deleted = False\<rparr>])))))))))"

section \<open>Forwarding, acknowledgement, edits and deletion\<close>

definition decide_ForwardMessage ::
  "MessagingState \<Rightarrow> ConversationId \<Rightarrow> MessageId \<Rightarrow> ConversationId \<Rightarrow> MessageId \<Rightarrow> ClientMessageId \<Rightarrow>
     ActorId \<Rightarrow> i64 \<Rightarrow> decision"
where
  "decide_ForwardMessage s source_conversation_id message_id destination_conversation_id
       local_message_id client_message_id sender_id created_at_ms =
     and_then (require_conversation s destination_conversation_id) (\<lambda>destination.
     and_then (require_actor s sender_id) (\<lambda>_.
     and_then (check_new_message s destination_conversation_id local_message_id
                 client_message_id) (\<lambda>_.
     and_then (require_message s source_conversation_id message_id) (\<lambda>original.
     if m_deleted original then Err (MessageNotFound source_conversation_id message_id)
     else if m_protected_content original then Err ProtectedContent
     else
       and_then (message_expiry (c_message_retention_seconds destination) created_at_ms) (\<lambda>expiry.
       Ok [MessageQueued
             \<lparr>m_id = local_message_id,
              m_conversation_id = destination_conversation_id,
              m_sender_id = sender_id,
              m_content = m_content original,
              m_reply_to_message_id = None,
              m_thread_root_message_id = None,
              m_forward_origin =
                Some (case m_forward_origin original of
                        Some origin \<Rightarrow> origin
                      | None \<Rightarrow> conversation_str (m_conversation_id original) @ '':''
                                 @ message_str (m_id original)),
              m_reply_markup = m_reply_markup original,
              m_reactions = [],
              m_delivery_state = Pending client_message_id,
              m_created_at_ms = created_at_ms,
              m_edited_at_ms = None,
              m_scheduled_at_ms = None,
              m_expires_at_ms = expiry,
              m_silent = False,
              m_protected_content = m_protected_content original,
              m_pinned = False,
              m_deleted = False\<rparr>])))))"

definition decide_AcknowledgeMessage ::
  "MessagingState \<Rightarrow> ConversationId \<Rightarrow> MessageId \<Rightarrow> MessageId \<Rightarrow> i64 \<Rightarrow> decision"
where
  "decide_AcknowledgeMessage s conversation_id local_message_id server_message_id accepted_at_ms =
     and_then (require_message s conversation_id local_message_id) (\<lambda>_.
     if local_message_id \<noteq> server_message_id \<and> message_exists s conversation_id server_message_id
     then Err (DuplicateMessage conversation_id server_message_id)
     else Ok [MessageAcknowledged conversation_id local_message_id server_message_id accepted_at_ms])"

definition decide_SetDeliveryState ::
  "MessagingState \<Rightarrow> ConversationId \<Rightarrow> MessageId \<Rightarrow> DeliveryState \<Rightarrow> decision"
where
  "decide_SetDeliveryState s conversation_id message_id state =
     and_then (require_message s conversation_id message_id) (\<lambda>_.
     Ok [DeliveryStateUpdated conversation_id message_id state])"

definition decide_EditMessage ::
  "MessagingState \<Rightarrow> ConversationId \<Rightarrow> MessageId \<Rightarrow> MessageContent \<Rightarrow> i64 \<Rightarrow> decision"
where
  "decide_EditMessage s conversation_id message_id content edited_at_ms =
     and_then (require_message s conversation_id message_id) (\<lambda>_.
     Ok [MessageEdited conversation_id message_id content edited_at_ms])"

text \<open>Collecting into a \<open>BTreeSet\<close> and back: ascending, without duplicates.\<close>

definition btree_list :: "'a :: linorder list \<Rightarrow> 'a list" where
  "btree_list xs = sort (remdups xs)"

definition decide_DeleteMessages ::
  "MessagingState \<Rightarrow> ConversationId \<Rightarrow> MessageId list \<Rightarrow> decision"
where
  "decide_DeleteMessages s conversation_id message_ids =
     (let unique = btree_list message_ids in
      if unique = [] then Err EmptyMessageList
      else
        and_then (try_all (\<lambda>m. and_then (require_message s conversation_id m) (\<lambda>_. Ok ())) unique)
          (\<lambda>_. Ok [MessagesDeleted conversation_id unique]))"

section \<open>Read cursors, topic drafts, reactions, pins and polls\<close>

definition decide_MarkRead ::
  "MessagingState \<Rightarrow> ConversationId \<Rightarrow> ActorId \<Rightarrow> MessageId \<Rightarrow> decision"
where
  "decide_MarkRead s conversation_id actor_id message_id =
     and_then (require_actor s actor_id) (\<lambda>_.
     and_then (require_conversation s conversation_id) (\<lambda>conversation.
     let has_access =
       (case fmlookup (s_communities s) conversation_id of
          Some community \<Rightarrow>
            community_has_access community actor_id \<or> c_owner_id conversation = Some actor_id
        | None \<Rightarrow> c_owner_id conversation = Some actor_id \<or> is_participant conversation actor_id)
     in
     if \<not> has_access then Err (CommunityAccessDenied conversation_id actor_id)
     else
       and_then (require_message s conversation_id message_id) (\<lambda>_.
       Ok [ConversationRead conversation_id actor_id message_id])))"

definition conversation_owner :: "MessagingState \<Rightarrow> ConversationId \<Rightarrow> ActorId option" where
  "conversation_owner s c =
     (case fmlookup (s_conversations s) c of None \<Rightarrow> None | Some conversation \<Rightarrow> c_owner_id conversation)"

definition decide_MarkTopicRead ::
  "MessagingState \<Rightarrow> ConversationId \<Rightarrow> string \<Rightarrow> ActorId \<Rightarrow> MessageId \<Rightarrow> decision"
where
  "decide_MarkTopicRead s conversation_id topic_id actor_id message_id =
     and_then (require_actor s actor_id) (\<lambda>_.
     and_then (require_community s conversation_id) (\<lambda>community.
     if \<not> community_has_access community actor_id
      \<and> conversation_owner s conversation_id \<noteq> Some actor_id
     then Err (CommunityAccessDenied conversation_id actor_id)
     else
       and_then (ok_or (ForumTopicNotFound conversation_id topic_id)
                   (fmlookup (co_topics community) topic_id)) (\<lambda>topic.
       and_then (require_message s conversation_id message_id) (\<lambda>message.
       let belongs_to_topic =
         (case m_thread_root_message_id message of
            None \<Rightarrow> False
          | Some root \<Rightarrow> topic_id_from_root root = Some topic_id)
         \<or> fts_last_message_id topic = Some (message_str message_id)
       in
       if \<not> belongs_to_topic then Err (TopicMessageMismatch topic_id)
       else Ok [TopicReadChanged conversation_id topic_id actor_id message_id]))))"

definition decide_SetTopicDraft :: "MessagingState \<Rightarrow> TopicDraft \<Rightarrow> decision" where
  "decide_SetTopicDraft s draft =
     and_then (require_actor s (td_actor_id draft)) (\<lambda>_.
     and_then (require_community s (td_conversation_id draft)) (\<lambda>community.
     if \<not> community_has_access community (td_actor_id draft)
      \<and> conversation_owner s (td_conversation_id draft) \<noteq> Some (td_actor_id draft)
     then Err (CommunityAccessDenied (td_conversation_id draft) (td_actor_id draft))
     else if is_blank (td_topic_id draft) \<or> \<not> contains_key (co_topics community) (td_topic_id draft)
     then Err (ForumTopicNotFound (td_conversation_id draft) (td_topic_id draft))
     else Ok [TopicDraftChanged draft]))"

definition decide_SetReaction ::
  "MessagingState \<Rightarrow> ConversationId \<Rightarrow> MessageId \<Rightarrow> ReactionSummary \<Rightarrow> decision"
where
  "decide_SetReaction s conversation_id message_id reaction =
     and_then (require_message s conversation_id message_id) (\<lambda>_.
     if is_blank (rs_reaction reaction) then Err InvalidClientMessageId
     else Ok [ReactionUpdated conversation_id message_id reaction])"

definition decide_PinMessage ::
  "MessagingState \<Rightarrow> ConversationId \<Rightarrow> MessageId \<Rightarrow> bool \<Rightarrow> decision"
where
  "decide_PinMessage s conversation_id message_id pinned =
     and_then (require_message s conversation_id message_id) (\<lambda>_.
     Ok [MessagePinned conversation_id message_id pinned])"

definition decide_VotePoll ::
  "MessagingState \<Rightarrow> ConversationId \<Rightarrow> MessageId \<Rightarrow> ActorId \<Rightarrow> string list \<Rightarrow> decision"
where
  "decide_VotePoll s conversation_id message_id actor_id option_ids =
     and_then (require_actor s actor_id) (\<lambda>_.
     and_then (require_message s conversation_id message_id) (\<lambda>message.
     (case m_content message of
        ContentPoll _ options _ multiple_answers _ \<Rightarrow>
          (let selected = btree_list option_ids in
           if (\<not> multiple_answers \<and> length selected > 1)
            \<or> list_ex (\<lambda>i. \<not> list_ex (\<lambda>opt. po_id opt = i) options) selected
           then Err InvalidPollVote
           else Ok [PollVoteChanged conversation_id message_id actor_id selected])
      | _ \<Rightarrow> Err InvalidPollVote)))"

end
