(* ===== verification/Decide_Community.thy ===== *)
theory Decide_Community
  imports Decide_Conversations
begin

text \<open>
  The decisions of \<open>MessagingEngine::decide\<close> on groups and channels: community metadata,
  subscriptions, slow mode, moderation, invite links, join requests and forum topics.
\<close>

section \<open>Metadata\<close>

definition all_admin_rights :: AdminRights where
  "all_admin_rights =
     \<lparr>ar_change_info = True, ar_post_messages = True, ar_edit_messages = True,
      ar_delete_messages = True, ar_ban_members = True, ar_invite_members = True,
      ar_pin_messages = True, ar_manage_topics = True, ar_manage_calls = True,
      ar_add_admins = True, ar_remain_anonymous = True\<rparr>"

text \<open>The member that the first community state seeds for a participant.\<close>

definition seed_member ::
  "(ActorId, CommunityMember) fmap \<Rightarrow> Participant \<Rightarrow> CommunityMember"
where
  "seed_member requested_members participant =
     (let requested = fmlookup requested_members (p_actor_id participant);
          requested_rights = (case requested of
                                None \<Rightarrow> AdminRights_default
                              | Some member \<Rightarrow> cm_admin_rights member);
          (status, admin_rights) =
            (case p_role participant of
               RoleOwner \<Rightarrow> (StatusOwner, all_admin_rights)
             | RoleAdmin \<Rightarrow> (StatusAdministrator, requested_rights)
             | RoleRestricted \<Rightarrow> (StatusRestricted, requested_rights)
             | RoleMember \<Rightarrow> (StatusMember, AdminRights_default))
      in \<lparr>cm_actor_id = p_actor_id participant,
          cm_status = status,
          cm_admin_title = (case requested of None \<Rightarrow> None | Some member \<Rightarrow> cm_admin_title member),
          cm_admin_rights = admin_rights,
          cm_restrictions = (case requested of
                               None \<Rightarrow> MemberRestrictions_default
                             | Some member \<Rightarrow> cm_restrictions member),
          cm_joined_at_ms = p_joined_at_ms participant,
          cm_invited_by = (case requested of None \<Rightarrow> None | Some member \<Rightarrow> cm_invited_by member)\<rparr>)"

text \<open>Collecting pairs into a \<open>BTreeMap\<close>: a later pair replaces an earlier one with its key.\<close>

definition seed_members ::
  "Participant list \<Rightarrow> (ActorId, CommunityMember) fmap \<Rightarrow> (ActorId, CommunityMember) fmap"
where
  "seed_members participants requested_members =
     foldl (\<lambda>m p. fmupd (p_actor_id p) (seed_member requested_members p) m) fmempty participants"

definition decide_UpdateCommunity :: "MessagingState \<Rightarrow> ActorId \<Rightarrow> CommunityState \<Rightarrow> decision" where
  "decide_UpdateCommunity s actor_id community =
     and_then (require_conversation s (co_conversation_id community)) (\<lambda>conversation.
     if \<not> is_community_kind (c_kind conversation) then Err CommunityPermissionDenied
     else
       (case fmlookup (s_communities s) (co_conversation_id community) of
          Some existing \<Rightarrow>
            and_then (require_community_admin existing actor_id ActChangeInfo) (\<lambda>_.
            Ok [CommunityChanged
                  (community\<lparr>co_members := co_members existing,
                             co_invite_links := co_invite_links existing,
                             co_pending_join_requests := co_pending_join_requests existing,
                             co_topics := co_topics existing,
                             co_banned_words := co_banned_words existing,
                             co_slow_mode_seconds := co_slow_mode_seconds existing,
                             co_subscribers := co_subscribers existing,
                             co_admin_log := co_admin_log existing\<rparr>)])
        | None \<Rightarrow>
            if c_owner_id conversation \<noteq> Some actor_id
             \<and> \<not> list_ex (\<lambda>p. p_actor_id p = actor_id \<and> p_role p = RoleOwner)
                   (c_participants conversation)
            then Err CommunityPermissionDenied
            else
              Ok [CommunityChanged
                    (community\<lparr>co_subscribers := fmempty,
                               co_admin_log := [],
                               co_invite_links := fmempty,
                               co_pending_join_requests := fmempty,
                               co_topics := fmempty,
                               co_banned_words := {||},
                               co_members := seed_members (c_participants conversation)
                                               (co_members community)\<rparr>)]))"

section \<open>Subscriptions and slow mode\<close>

definition has_public_username :: "CommunityState \<Rightarrow> bool" where
  "has_public_username community =
     (case co_public_username community of None \<Rightarrow> False | Some username \<Rightarrow> \<not> is_blank username)"

definition decide_SubscribeChannel ::
  "MessagingState \<Rightarrow> ActorId \<Rightarrow> ConversationId \<Rightarrow> i64 \<Rightarrow> decision"
where
  "decide_SubscribeChannel s actor_id conversation_id subscribed_at_ms =
     and_then (require_actor s actor_id) (\<lambda>_.
     and_then (require_conversation s conversation_id) (\<lambda>conversation.
     if c_kind conversation \<noteq> Channel then Err CommunityPermissionDenied
     else
       and_then (require_community s conversation_id) (\<lambda>community.
       if \<not> has_public_username community
        \<and> \<not> is_subscriber community actor_id
        \<and> \<not> contains_key (co_members community) actor_id
       then Err CommunityPermissionDenied
       else
         and_then (map_err CommunityErr (subscribe_channel community actor_id subscribed_at_ms))
           (\<lambda>subscribed.
         Ok [CommunityChanged
               (if is_subscriber community actor_id then subscribed
                else append_community_audit subscribed actor_id SubscriptionAdded (Some actor_id)
                       None None subscribed_at_ms)]))))"

definition decide_UnsubscribeChannel ::
  "MessagingState \<Rightarrow> ActorId \<Rightarrow> ConversationId \<Rightarrow> i64 \<Rightarrow> decision"
where
  "decide_UnsubscribeChannel s actor_id conversation_id unsubscribed_at_ms =
     and_then (require_actor s actor_id) (\<lambda>_.
     and_then (require_conversation s conversation_id) (\<lambda>conversation.
     if c_kind conversation \<noteq> Channel then Err CommunityPermissionDenied
     else if c_owner_id conversation = Some actor_id then Err (CommunityErr OwnerCannotUnsubscribe)
     else
       and_then (require_community s conversation_id) (\<lambda>community.
       and_then (map_err CommunityErr (unsubscribe_channel community actor_id)) (\<lambda>unsubscribed.
       Ok [CommunityChanged
             (if is_subscriber community actor_id
              then append_community_audit unsubscribed actor_id SubscriptionRemoved (Some actor_id)
                     None None unsubscribed_at_ms
              else unsubscribed)]))))"

definition decide_SetCommunitySlowMode ::
  "MessagingState \<Rightarrow> ActorId \<Rightarrow> ConversationId \<Rightarrow> u32 option \<Rightarrow> i64 \<Rightarrow> decision"
where
  "decide_SetCommunitySlowMode s actor_id conversation_id seconds changed_at_ms =
     and_then (require_conversation s conversation_id) (\<lambda>conversation.
     if \<not> is_community_kind (c_kind conversation) then Err CommunityPermissionDenied
     else if (case seconds of None \<Rightarrow> False | Some n \<Rightarrow> 86400 < unat n)
     then Err CommunityPermissionDenied
     else
       and_then (require_community s conversation_id) (\<lambda>community.
       and_then (require_community_admin community actor_id ActChangeInfo) (\<lambda>_.
       Ok [CommunityChanged
             (append_community_audit (community\<lparr>co_slow_mode_seconds := seconds\<rparr>) actor_id
                SlowModeChanged None (Some ''slowMode'') None changed_at_ms)])))"

section \<open>Moderation\<close>

definition member_status_is ::
  "CommunityState \<Rightarrow> ActorId \<Rightarrow> MemberStatus \<Rightarrow> bool"
where
  "member_status_is community a status =
     (case fmlookup (co_members community) a of
        None \<Rightarrow> False
      | Some existing \<Rightarrow> cm_status existing = status)"

text \<open>
  The event that carries a member's new status into the participants of the conversation, where
  the conversation is a group or a channel.
\<close>

definition participant_events ::
  "MessagingState \<Rightarrow> ConversationId \<Rightarrow> CommunityState \<Rightarrow> ActorId \<Rightarrow> Event list"
where
  "participant_events s conversation_id community target =
     (if (case fmlookup (s_conversations s) conversation_id of
            None \<Rightarrow> False
          | Some conversation \<Rightarrow> is_community_kind (c_kind conversation))
      then
        [case (case fmlookup (co_members community) target of
                 None \<Rightarrow> None
               | Some member \<Rightarrow> participant_for_community_member member) of
           Some participant \<Rightarrow> ConversationParticipantUpserted conversation_id participant
         | None \<Rightarrow> ConversationParticipantRemoved conversation_id target]
      else [])"

text \<open>The change of a member that both moderation commands make, with its audit entry.\<close>

definition change_member ::
  "CommunityState \<Rightarrow> ActorId \<Rightarrow> CommunityMember \<Rightarrow> string option \<Rightarrow> i64 \<Rightarrow> CommunityState"
where
  "change_member community actor_id member reason decided_at_ms =
     (let target = cm_actor_id member;
          changed = upsert_member community member;
          changed =
            (if cm_status member = StatusLeft \<or> cm_status member = StatusBanned
             then changed\<lparr>co_subscribers := fmdrop target (co_subscribers changed)\<rparr> else changed)
      in append_community_audit changed actor_id MemberChanged (Some target)
           (Some (''member:'' @ actor_str target)) reason decided_at_ms)"

definition decide_ModerateCommunityMember ::
  "MessagingState \<Rightarrow> ActorId \<Rightarrow> ConversationId \<Rightarrow> CommunityMember \<Rightarrow> string option \<Rightarrow> i64 \<Rightarrow> decision"
where
  "decide_ModerateCommunityMember s actor_id conversation_id member reason decided_at_ms =
     and_then (require_actor s (cm_actor_id member)) (\<lambda>_.
     and_then (require_community s conversation_id) (\<lambda>community.
     and_then (require_community_admin community actor_id ActBanMembers) (\<lambda>_.
     if cm_actor_id member = actor_id
      \<or> member_status_is community (cm_actor_id member) StatusOwner
      \<or> cm_status member = StatusOwner
      \<or> cm_status member = StatusAdministrator
      \<or> member_status_is community (cm_actor_id member) StatusAdministrator
     then Err CommunityPermissionDenied
     else
       let changed = change_member community actor_id member reason decided_at_ms
       in Ok (CommunityChanged changed
              # participant_events s conversation_id changed (cm_actor_id member)))))"

definition set_member_action :: "CommunityState \<Rightarrow> CommunityMember \<Rightarrow> CommunityAdminAction" where
  "set_member_action community member =
     (if member_status_is community (cm_actor_id member) StatusOwner
       \<or> member_status_is community (cm_actor_id member) StatusAdministrator
      then ActAddAdmins
      else (case cm_status member of
              StatusOwner \<Rightarrow> ActAddAdmins
            | StatusAdministrator \<Rightarrow> ActAddAdmins
            | StatusRestricted \<Rightarrow> ActBanMembers
            | StatusLeft \<Rightarrow> ActBanMembers
            | StatusBanned \<Rightarrow> ActBanMembers
            | StatusMember \<Rightarrow> ActInviteMembers))"

definition decide_SetCommunityMember ::
  "MessagingState \<Rightarrow> ActorId \<Rightarrow> ConversationId \<Rightarrow> CommunityMember \<Rightarrow> decision"
where
  "decide_SetCommunityMember s actor_id conversation_id member =
     and_then (require_actor s (cm_actor_id member)) (\<lambda>_.
     and_then (require_community s conversation_id) (\<lambda>community.
     if (member_status_is community (cm_actor_id member) StatusOwner
         \<or> cm_status member = StatusOwner)
      \<and> \<not> is_community_owner community actor_id
     then Err CommunityPermissionDenied
     else
       and_then (require_community_admin community actor_id (set_member_action community member))
         (\<lambda>_.
       let changed = change_member community actor_id member None (cm_joined_at_ms member)
       in Ok (CommunityChanged changed
              # participant_events s conversation_id changed (cm_actor_id member)))))"

section \<open>Invite links, join requests and topics\<close>

definition decide_CreateInviteLink :: "MessagingState \<Rightarrow> ActorId \<Rightarrow> InviteLink \<Rightarrow> decision" where
  "decide_CreateInviteLink s actor_id invite =
     and_then (require_community s (il_conversation_id invite)) (\<lambda>community.
     and_then (require_community_admin community actor_id ActInviteMembers) (\<lambda>_.
     if il_creator_id invite \<noteq> actor_id \<or> is_blank (il_id invite) \<or> is_blank (il_token invite)
      \<or> il_revoked invite
     then Err CommunityPermissionDenied
     else
       Ok [CommunityChanged
             (append_community_audit
                (community\<lparr>co_invite_links := fmupd (il_id invite) invite (co_invite_links community)\<rparr>)
                actor_id InviteCreated None (Some (''invite:'' @ il_id invite)) None
                (il_created_at_ms invite))]))"

definition decide_RevokeInviteLink ::
  "MessagingState \<Rightarrow> ActorId \<Rightarrow> ConversationId \<Rightarrow> string \<Rightarrow> i64 \<Rightarrow> decision"
where
  "decide_RevokeInviteLink s actor_id conversation_id invite_id revoked_at_ms =
     and_then (require_community s conversation_id) (\<lambda>community.
     and_then (require_community_admin community actor_id ActInviteMembers) (\<lambda>_.
     and_then (map_err CommunityErr (revoke_invite community invite_id)) (\<lambda>revoked.
     Ok [CommunityChanged
           (append_community_audit revoked actor_id InviteRevoked None
              (Some (''invite:'' @ invite_id)) None revoked_at_ms)])))"

definition decide_RequestCommunityJoin :: "MessagingState \<Rightarrow> ActorId \<Rightarrow> JoinRequest \<Rightarrow> decision" where
  "decide_RequestCommunityJoin s actor_id request =
     (if jr_actor_id request \<noteq> actor_id then Err CommunityPermissionDenied
      else
        and_then (require_actor s actor_id) (\<lambda>_.
        and_then (require_conversation s (jr_conversation_id request)) (\<lambda>conversation.
        if \<not> is_community_kind (c_kind conversation) then Err CommunityPermissionDenied
        else
          and_then (require_community s (jr_conversation_id request)) (\<lambda>community.
          if member_status_is community actor_id StatusBanned then Err CommunityPermissionDenied
          else if \<not> has_public_username community then Err CommunityPermissionDenied
          else
            Ok [CommunityChanged
                  (append_community_audit (request_join community request) actor_id MemberChanged
                     (Some (jr_actor_id request)) (Some ''join-request'') None
                     (jr_requested_at_ms request))]))))"

definition decide_RespondCommunityJoin ::
  "MessagingState \<Rightarrow> ActorId \<Rightarrow> ConversationId \<Rightarrow> ActorId \<Rightarrow> bool \<Rightarrow> i64 \<Rightarrow> decision"
where
  "decide_RespondCommunityJoin s actor_id conversation_id requester_id approved decided_at_ms =
     and_then (require_community s conversation_id) (\<lambda>community.
     and_then (require_community_admin community actor_id ActInviteMembers) (\<lambda>_.
     and_then
       (if approved then
          and_then (map_err CommunityErr
                      (approve_join community requester_id actor_id decided_at_ms)) (\<lambda>changed.
          Ok (append_community_audit changed actor_id JoinApproved (Some requester_id) None None
                decided_at_ms))
        else
          and_then (ok_or (CommunityErr (JoinRequestNotFound requester_id))
                      (fmlookup (co_pending_join_requests community) requester_id)) (\<lambda>_.
          Ok (append_community_audit
                (community\<lparr>co_pending_join_requests :=
                   fmdrop requester_id (co_pending_join_requests community)\<rparr>)
                actor_id JoinRejected (Some requester_id) None None decided_at_ms)))
       (\<lambda>changed.
     let participant_event =
       (if approved
         \<and> (case fmlookup (s_conversations s) conversation_id of
              None \<Rightarrow> False
            | Some conversation \<Rightarrow> is_community_kind (c_kind conversation))
        then
          (case (case fmlookup (co_members changed) requester_id of
                   None \<Rightarrow> None
                 | Some member \<Rightarrow> participant_for_community_member member) of
             Some participant \<Rightarrow> [ConversationParticipantUpserted conversation_id participant]
           | None \<Rightarrow> [])
        else [])
     in Ok (CommunityChanged changed # participant_event))))"

definition decide_UpsertForumTopic :: "MessagingState \<Rightarrow> ActorId \<Rightarrow> ForumTopicState \<Rightarrow> decision" where
  "decide_UpsertForumTopic s actor_id topic =
     and_then (require_community s (fts_conversation_id topic)) (\<lambda>community.
     and_then (require_community_admin community actor_id ActManageTopics) (\<lambda>_.
     if is_blank (fts_id topic) \<or> is_blank (fts_title topic) \<or> length (trim (fts_title topic)) > 128
      \<or> fts_conversation_id topic \<noteq> co_conversation_id community
     then Err CommunityPermissionDenied
     else
       Ok [CommunityChanged
             (append_community_audit
                (community\<lparr>co_topics := fmupd (fts_id topic) topic (co_topics community)\<rparr>)
                actor_id TopicUpserted None (Some (''topic:'' @ fts_id topic)) None
                (fts_created_at_ms topic))]))"

definition decide_DeleteForumTopic ::
  "MessagingState \<Rightarrow> ActorId \<Rightarrow> ConversationId \<Rightarrow> string \<Rightarrow> decision"
where
  "decide_DeleteForumTopic s actor_id conversation_id topic_id =
     and_then (require_community s conversation_id) (\<lambda>community.
     and_then (require_community_admin community actor_id ActManageTopics) (\<lambda>_.
     Ok [CommunityChanged
           (append_community_audit
              (community\<lparr>co_topics := fmdrop topic_id (co_topics community)\<rparr>)
              actor_id TopicDeleted None (Some (''topic:'' @ topic_id)) None 0)]))"

end
