(* ===== verification/Decide_Services.thy ===== *)
theory Decide_Services
  imports Decide_Conversations
begin

text \<open>
  The decisions of \<open>MessagingEngine::decide\<close> on payments, stories, bots and Mini Apps. The ledger
  operations change a clone of the wallet, which a failing command drops; the event of a
  succeeding one carries the whole clone.
\<close>

section \<open>Payments\<close>

definition wallet_account_id :: "ActorId \<Rightarrow> WalletAccountId" where
  "wallet_account_id a = WalletAccountId (''wallet:'' @ actor_str a)"

definition ensure_wallet_account ::
  "WalletLedger \<Rightarrow> WalletAccountId \<Rightarrow> ActorId \<Rightarrow> i64 \<Rightarrow> WalletLedger \<times> (unit, WalletError) result"
where
  "ensure_wallet_account w account_id owner_id now_ms =
     (if contains_key (w_accounts w) account_id then (w, Ok ())
      else create_account w account_id owner_id now_ms)"

text \<open>\<open>let x = wallet.operation(...)?\<close> on the clone \<open>wallet\<close>.\<close>

definition on_wallet ::
  "WalletLedger \<times> ('a, WalletError) result \<Rightarrow> (WalletLedger \<times> 'a, EngineError) result"
where
  "on_wallet p = map_err WalletErr (and_then (snd p) (\<lambda>x. Ok (fst p, x)))"

lemma on_wallet_Ok_iff [result_simps]: "on_wallet p = Ok (w, x) \<longleftrightarrow> p = (w, Ok x)"
  by (cases p) (auto simp: on_wallet_def result_simps)

definition decide_CreateInvoice :: "MessagingState \<Rightarrow> Invoice \<Rightarrow> decision" where
  "decide_CreateInvoice s invoice =
     (if \<not> Invoice_is_valid invoice then Err InvalidInvoice
      else
        and_then (require_actor s (iv_seller_id invoice)) (\<lambda>_.
        and_then (require_conversation s (iv_conversation_id invoice)) (\<lambda>_.
        Ok [InvoiceCreated invoice])))"

definition decide_UpsertOrder :: "MessagingState \<Rightarrow> PaymentOrder \<Rightarrow> decision" where
  "decide_UpsertOrder s order =
     (if \<not> contains_key (s_invoices s) (o_invoice_id order)
      then Err (InvoiceNotFound (o_invoice_id order))
      else and_then (require_actor s (o_buyer_id order)) (\<lambda>_. Ok [OrderUpserted order]))"

definition checkout_order ::
  "Invoice \<Rightarrow> string \<Rightarrow> ActorId \<Rightarrow> CustomerInfo option \<Rightarrow> i64 \<Rightarrow> i64 \<Rightarrow> LedgerEntry \<Rightarrow> PaymentOrder"
where
  "checkout_order invoice order_id buyer_id customer created_at_ms amount entry =
     \<lparr>o_id = order_id,
      o_invoice_id = iv_id invoice,
      o_buyer_id = buyer_id,
      o_status = Paid,
      o_amount = Money_new (iv_currency invoice) amount,
      o_customer = customer,
      o_provider_payment_id = Some (le_id entry),
      o_provider_receipt_url = Some (''fabushi://payments/receipts/'' @ le_id entry),
      o_created_at_ms = created_at_ms,
      o_updated_at_ms = created_at_ms\<rparr>"

text \<open>The part of a checkout after its guards: accounts, transfer, order.\<close>

definition checkout_transfer ::
  "MessagingState \<Rightarrow> Invoice \<Rightarrow> string \<Rightarrow> ActorId \<Rightarrow> CustomerInfo option \<Rightarrow> i64 \<Rightarrow> i64 \<Rightarrow> decision"
where
  "checkout_transfer s invoice order_id buyer_id customer created_at_ms amount =
     (let buyer_account = wallet_account_id buyer_id;
          seller_account = wallet_account_id (iv_seller_id invoice)
      in
      and_then (on_wallet (ensure_wallet_account (s_wallet s) buyer_account buyer_id created_at_ms))
        (\<lambda>(wallet1, _).
      and_then (on_wallet (ensure_wallet_account wallet1 seller_account (iv_seller_id invoice)
                             created_at_ms)) (\<lambda>(wallet2, _).
      and_then (on_wallet (transfer wallet2 (''checkout:'' @ order_id) buyer_account seller_account
                  (Money_new (iv_currency invoice) amount) (Some (iv_id invoice)) created_at_ms))
        (\<lambda>(wallet, entry).
      Ok [WalletChanged wallet entry,
          OrderUpserted
            (checkout_order invoice order_id buyer_id customer created_at_ms amount entry)]))))"

definition decide_CheckoutInvoice ::
  "MessagingState \<Rightarrow> string \<Rightarrow> string \<Rightarrow> ActorId \<Rightarrow> CustomerInfo option \<Rightarrow> i64 \<Rightarrow> decision"
where
  "decide_CheckoutInvoice s invoice_id order_id buyer_id customer created_at_ms =
     and_then (ok_or (InvoiceNotFound invoice_id) (fmlookup (s_invoices s) invoice_id)) (\<lambda>invoice.
     and_then (require_actor s buyer_id) (\<lambda>_.
     if (case iv_expires_at_ms invoice of
           None \<Rightarrow> False
         | Some expires_at \<Rightarrow> sint expires_at \<le> sint created_at_ms)
     then Err (InvoiceExpired invoice_id)
     else
       (case fmlookup (s_orders s) order_id of
          Some existing \<Rightarrow>
            if o_invoice_id existing = iv_id invoice \<and> o_buyer_id existing = buyer_id
            then Ok [OrderUpserted existing]
            else Err (OrderConflict order_id)
        | None \<Rightarrow>
            and_then (ok_or InvalidInvoice (checked_total_minor invoice)) (\<lambda>amount.
            if sint amount \<le> 0 then Err InvalidInvoice
            else checkout_transfer s invoice order_id buyer_id customer created_at_ms amount))))"

definition decide_RefundOrder ::
  "MessagingState \<Rightarrow> string \<Rightarrow> ActorId \<Rightarrow> string \<Rightarrow> i64 \<Rightarrow> decision"
where
  "decide_RefundOrder s order_id seller_id request_id refunded_at_ms =
     and_then (ok_or (OrderNotFound order_id) (fmlookup (s_orders s) order_id)) (\<lambda>order.
     and_then (ok_or (InvoiceNotFound (o_invoice_id order))
                 (fmlookup (s_invoices s) (o_invoice_id order))) (\<lambda>invoice.
     if iv_seller_id invoice \<noteq> seller_id then Err (RefundForbidden order_id)
     else if o_status order = Refunded then Ok [OrderUpserted order]
     else if o_status order \<noteq> Paid then Err (OrderNotRefundable order_id)
     else
       and_then (ok_or (OrderNotRefundable (o_id order)) (o_provider_payment_id order))
         (\<lambda>original_entry_id.
       and_then (on_wallet (refund_transfer (s_wallet s) request_id original_entry_id
                              refunded_at_ms)) (\<lambda>(wallet, entry).
       Ok [WalletChanged wallet entry,
           OrderUpserted (order\<lparr>o_status := Refunded, o_updated_at_ms := refunded_at_ms\<rparr>)]))))"

definition decide_CreditWalletSettlement ::
  "MessagingState \<Rightarrow> string \<Rightarrow> ActorId \<Rightarrow> Money \<Rightarrow> string option \<Rightarrow> i64 \<Rightarrow> decision"
where
  "decide_CreditWalletSettlement s request_id owner_id amount reference settled_at_ms =
     and_then (require_actor s owner_id) (\<lambda>_.
     let account_id = wallet_account_id owner_id in
     and_then (on_wallet (ensure_wallet_account (s_wallet s) account_id owner_id settled_at_ms))
       (\<lambda>(wallet1, _).
     and_then (on_wallet (credit wallet1 request_id account_id amount reference settled_at_ms))
       (\<lambda>(wallet, entry).
     Ok [WalletChanged wallet entry])))"

section \<open>Stories\<close>

definition decide_PublishStory :: "MessagingState \<Rightarrow> ActorId \<Rightarrow> Story \<Rightarrow> decision" where
  "decide_PublishStory s actor_id story =
     and_then (require_actor s actor_id) (\<lambda>_.
     if st_owner_id story \<noteq> actor_id
      \<or> is_blank (story_str (st_id story))
      \<or> is_blank (mr_id (st_media story))
      \<or> sint (st_expires_at_ms story) \<le> sint (st_created_at_ms story)
     then Err InvalidStory
     else Ok [StoryChanged story])"

definition decide_DeleteStory :: "MessagingState \<Rightarrow> ActorId \<Rightarrow> StoryId \<Rightarrow> decision" where
  "decide_DeleteStory s actor_id story_id =
     and_then (ok_or (StoryNotFound story_id) (fmlookup (s_stories s) story_id)) (\<lambda>story.
     if st_owner_id story \<noteq> actor_id then Err (StoryPermissionDenied story_id)
     else Ok [StoryDeleted story_id])"

definition decide_ViewStory :: "MessagingState \<Rightarrow> ActorId \<Rightarrow> StoryId \<Rightarrow> i64 \<Rightarrow> decision" where
  "decide_ViewStory s actor_id story_id viewed_at_ms =
     and_then (require_actor s actor_id) (\<lambda>_.
     and_then (ok_or (StoryNotFound story_id) (fmlookup (s_stories s) story_id)) (\<lambda>story.
     if \<not> is_visible_to story actor_id False False then Err (StoryPermissionDenied story_id)
     else
       and_then (map_err StoryErr (record_view story actor_id viewed_at_ms)) (\<lambda>story.
       Ok [StoryChanged story])))"

definition decide_ReactStory ::
  "MessagingState \<Rightarrow> ActorId \<Rightarrow> StoryId \<Rightarrow> string option \<Rightarrow> decision"
where
  "decide_ReactStory s actor_id story_id reaction =
     and_then (ok_or (StoryNotFound story_id) (fmlookup (s_stories s) story_id)) (\<lambda>story.
     if \<not> is_visible_to story actor_id False False then Err (StoryPermissionDenied story_id)
     else
       and_then (map_err StoryErr (react story actor_id reaction)) (\<lambda>story.
       Ok [StoryChanged story]))"

section \<open>Bots\<close>

definition decide_RegisterBot :: "MessagingState \<Rightarrow> ActorId \<Rightarrow> BotProfile \<Rightarrow> decision" where
  "decide_RegisterBot s actor_id profile =
     and_then (require_actor s actor_id) (\<lambda>actor.
     if bp_actor_id profile \<noteq> actor_id \<or> \<not> (a_kind actor = Bot \<or> a_kind actor = Assistant)
     then Err BotPermissionDenied
     else
       and_then (map_err (\<lambda>e. BotErr (BotDisplay e)) (register_bot (s_bots s) profile))
         (\<lambda>registry.
       Ok [BotRegistryChanged registry (Some profile) None]))"

definition decide_BeginBotInvocation ::
  "MessagingState \<Rightarrow> ActorId \<Rightarrow> BotInvocation \<Rightarrow> i64 \<Rightarrow> decision"
where
  "decide_BeginBotInvocation s actor_id invocation created_at_ms =
     (if bi_sender_id invocation \<noteq> actor_id then Err BotPermissionDenied
      else
        and_then (require_actor s actor_id) (\<lambda>_.
        and_then (require_conversation s (bi_conversation_id invocation)) (\<lambda>_.
        and_then (map_err (\<lambda>e. BotErr (BotDisplay e))
                    (begin_execution (s_bots s) invocation created_at_ms)) (\<lambda>(registry, execution).
        Ok [BotRegistryChanged registry (fmlookup (br_bots registry) (be_bot_id execution))
              (Some execution)]))))"

definition decide_FinishBotExecution ::
  "MessagingState \<Rightarrow> ActorId \<Rightarrow> string \<Rightarrow> bool \<Rightarrow> i64 \<Rightarrow> string option \<Rightarrow> decision"
where
  "decide_FinishBotExecution s actor_id execution_id success finished_at_ms error =
     and_then (ok_or (BotErr (BotText (''execution not found: '' @ execution_id)))
                 (fmlookup (br_executions (s_bots s)) execution_id)) (\<lambda>execution.
     if be_bot_id execution \<noteq> actor_id then Err BotPermissionDenied
     else
       and_then (map_err (\<lambda>e. BotErr (BotDisplay e))
                   (finish_execution (s_bots s) execution_id success finished_at_ms error))
         (\<lambda>registry.
       let execution = fmlookup (br_executions registry) execution_id;
           profile = (case execution of
                        None \<Rightarrow> None
                      | Some e \<Rightarrow> fmlookup (br_bots registry) (be_bot_id e))
       in Ok [BotRegistryChanged registry profile execution]))"

section \<open>Mini Apps\<close>

definition decide_InstallMiniApp :: "MessagingState \<Rightarrow> MiniAppManifest \<Rightarrow> decision" where
  "decide_InstallMiniApp s manifest = Ok [MiniAppInstalled manifest]"

definition decide_GrantMiniApp :: "MessagingState \<Rightarrow> MiniAppGrant \<Rightarrow> decision" where
  "decide_GrantMiniApp s grant =
     (if \<not> contains_key (s_mini_apps s) (mg_mini_app_id grant)
      then Err (MiniAppNotFound (mg_mini_app_id grant))
      else and_then (require_actor s (mg_actor_id grant)) (\<lambda>_. Ok [MiniAppGrantUpdated grant]))"

definition decide_OpenMiniApp :: "MessagingState \<Rightarrow> MiniAppSession \<Rightarrow> decision" where
  "decide_OpenMiniApp s session =
     (if \<not> contains_key (s_mini_apps s) (ms_mini_app_id session)
      then Err (MiniAppNotFound (ms_mini_app_id session))
      else
        let grant = fmlookup (s_mini_app_grants s) (ms_mini_app_id session, ms_actor_id session);
            not_granted = (\<lambda>permission. \<not> (case grant of
                              None \<Rightarrow> False
                            | Some g \<Rightarrow> permission \<in> set (mg_permissions g)))
        in (case find not_granted (ms_granted_permissions session) of
              Some permission \<Rightarrow> Err (MiniAppPermissionDenied permission)
            | None \<Rightarrow> Ok [MiniAppOpened session]))"

definition pure_request :: "MiniAppRequest \<Rightarrow> bool" where
  "pure_request request =
     (case request of
        Ready \<Rightarrow> True
      | Expand \<Rightarrow> True
      | Close \<Rightarrow> True
      | SetHeaderColor _ \<Rightarrow> True
      | SetBackgroundColor _ \<Rightarrow> True
      | _ \<Rightarrow> False)"

definition decide_MiniAppCall ::
  "MessagingState \<Rightarrow> string \<Rightarrow> string \<Rightarrow> MiniAppRequest \<Rightarrow> decision"
where
  "decide_MiniAppCall s session_id request_id request =
     and_then (ok_or (MiniAppSessionNotFound session_id)
                 (fmlookup (s_mini_app_sessions s) session_id)) (\<lambda>session.
     and_then (case required_permission request of
                 None \<Rightarrow> Ok ()
               | Some permission \<Rightarrow>
                   if permission \<notin> set (ms_granted_permissions session)
                   then Err (MiniAppPermissionDenied permission) else Ok ()) (\<lambda>_.
     if pure_request request then Ok [MiniAppResponded session_id request_id ResponseOk]
     else Err MiniAppHostActionRequired))"

end
