(* ===== verification/Engine_Apply.thy ===== *)
theory Engine_Apply
  imports Decide_Messages Decide_Community Decide_Services
begin

text \<open>
  The total functions \<open>MessagingEngine::apply\<close>, one definition per event, and
  \<open>MessagingEngine::decide\<close> and \<open>apply\<close> as the matches that select them.
\<close>

section \<open>The command match\<close>

primrec decide :: "MessagingState \<Rightarrow> Command \<Rightarrow> decision" where
  "decide s (UpsertActor actor) = decide_UpsertActor s actor"
| "decide s (SetPresence actor_id presence) = decide_SetPresence s actor_id presence"
| "decide s (UpsertConversation conversation) = decide_UpsertConversation s conversation"
| "decide s (UpdateConversationInfo conversation_id title description) =
     decide_UpdateConversationInfo s conversation_id title description"
| "decide s (SetConversationParticipant conversation_id participant) =
     decide_SetConversationParticipant s conversation_id participant"
| "decide s (RemoveConversationParticipant conversation_id actor_id) =
     decide_RemoveConversationParticipant s conversation_id actor_id"
| "decide s (ArchiveConversation conversation_id archived) =
     decide_ArchiveConversation s conversation_id archived"
| "decide s (PinConversation conversation_id pinned) =
     decide_PinConversation s conversation_id pinned"
| "decide s (SetMarkedUnread conversation_id actor_id marked_unread) =
     decide_SetMarkedUnread s conversation_id actor_id marked_unread"
| "decide s (SetDraft draft) = decide_SetDraft s draft"
| "decide s (SetConversationNotifications conversation_id settings) =
     decide_SetConversationNotifications s conversation_id settings"
| "decide s (SetConversationMessageRetention conversation_id retention_seconds expected_revision) =
     decide_SetConversationMessageRetention s conversation_id retention_seconds expected_revision"
| "decide s (UpsertFolder folder) = decide_UpsertFolder s folder"
| "decide s (DeleteFolder folder_id) = decide_DeleteFolder s folder_id"
| "decide s (QueueMessage conversation_id local_message_id client_message_id sender_id
           content reply_to_message_id thread_root_message_id created_at_ms scheduled_at_ms
           silent protected_content) =
     decide_QueueMessage s conversation_id local_message_id client_message_id sender_id
           content reply_to_message_id thread_root_message_id created_at_ms scheduled_at_ms
           silent protected_content"
| "decide s (ForwardMessage source_conversation_id message_id destination_conversation_id
           local_message_id client_message_id sender_id created_at_ms) =
     decide_ForwardMessage s source_conversation_id message_id destination_conversation_id
           local_message_id client_message_id sender_id created_at_ms"
| "decide s (AcknowledgeMessage conversation_id local_message_id server_message_id accepted_at_ms) =
     decide_AcknowledgeMessage s conversation_id local_message_id server_message_id accepted_at_ms"
| "decide s (SetDeliveryState conversation_id message_id state) =
     decide_SetDeliveryState s conversation_id message_id state"
| "decide s (EditMessage conversation_id message_id content edited_at_ms) =
     decide_EditMessage s conversation_id message_id content edited_at_ms"
| "decide s (DeleteMessages conversation_id message_ids) =
     decide_DeleteMessages s conversation_id message_ids"
| "decide s (MarkRead conversation_id actor_id message_id) =
     decide_MarkRead s conversation_id actor_id message_id"
| "decide s (MarkTopicRead conversation_id topic_id actor_id message_id) =
     decide_MarkTopicRead s conversation_id topic_id actor_id message_id"
| "decide s (SetTopicDraft draft) = decide_SetTopicDraft s draft"
| "decide s (SetReaction conversation_id message_id reaction) =
     decide_SetReaction s conversation_id message_id reaction"
| "decide s (PinMessage conversation_id message_id pinned) =
     decide_PinMessage s conversation_id message_id pinned"
| "decide s (VotePoll conversation_id message_id actor_id option_ids) =
     decide_VotePoll s conversation_id message_id actor_id option_ids"
| "decide s (CreateInvoice invoice) = decide_CreateInvoice s invoice"
| "decide s (UpsertOrder order) = decide_UpsertOrder s order"
| "decide s (CheckoutInvoice invoice_id order_id buyer_id customer created_at_ms) =
     decide_CheckoutInvoice s invoice_id order_id buyer_id customer created_at_ms"
| "decide s (RefundOrder order_id seller_id request_id refunded_at_ms) =
     decide_RefundOrder s order_id seller_id request_id refunded_at_ms"
| "decide s (CreditWalletSettlement request_id owner_id amount reference settled_at_ms) =
     decide_CreditWalletSettlement s request_id owner_id amount reference settled_at_ms"
| "decide s (PublishStory actor_id story) = decide_PublishStory s actor_id story"
| "decide s (DeleteStory actor_id story_id) = decide_DeleteStory s actor_id story_id"
| "decide s (ViewStory actor_id story_id viewed_at_ms) =
     decide_ViewStory s actor_id story_id viewed_at_ms"
| "decide s (ReactStory actor_id story_id reaction) =
     decide_ReactStory s actor_id story_id reaction"
| "decide s (UpdateCommunity actor_id community) = decide_UpdateCommunity s actor_id community"
| "decide s (SubscribeChannel actor_id conversation_id subscribed_at_ms) =
     decide_SubscribeChannel s actor_id conversation_id subscribed_at_ms"
| "decide s (UnsubscribeChannel actor_id conversation_id unsubscribed_at_ms) =
     decide_UnsubscribeChannel s actor_id conversation_id unsubscribed_at_ms"
| "decide s (SetCommunitySlowMode actor_id conversation_id seconds changed_at_ms) =
     decide_SetCommunitySlowMode s actor_id conversation_id seconds changed_at_ms"
| "decide s (ModerateCommunityMember actor_id conversation_id member reason decided_at_ms) =
     decide_ModerateCommunityMember s actor_id conversation_id member reason decided_at_ms"
| "decide s (SetCommunityMember actor_id conversation_id member) =
     decide_SetCommunityMember s actor_id conversation_id member"
| "decide s (CreateInviteLink actor_id invite) = decide_CreateInviteLink s actor_id invite"
| "decide s (RevokeInviteLink actor_id conversation_id invite_id revoked_at_ms) =
     decide_RevokeInviteLink s actor_id conversation_id invite_id revoked_at_ms"
| "decide s (RequestCommunityJoin actor_id request) =
     decide_RequestCommunityJoin s actor_id request"
| "decide s (RespondCommunityJoin actor_id conversation_id requester_id approved decided_at_ms) =
     decide_RespondCommunityJoin s actor_id conversation_id requester_id approved decided_at_ms"
| "decide s (UpsertForumTopic actor_id topic) = decide_UpsertForumTopic s actor_id topic"
| "decide s (DeleteForumTopic actor_id conversation_id topic_id) =
     decide_DeleteForumTopic s actor_id conversation_id topic_id"
| "decide s (RegisterBot actor_id profile) = decide_RegisterBot s actor_id profile"
| "decide s (BeginBotInvocation actor_id invocation created_at_ms) =
     decide_BeginBotInvocation s actor_id invocation created_at_ms"
| "decide s (FinishBotExecution actor_id execution_id success finished_at_ms error) =
     decide_FinishBotExecution s actor_id execution_id success finished_at_ms error"
| "decide s (InstallMiniApp manifest) = decide_InstallMiniApp s manifest"
| "decide s (GrantMiniApp grant) = decide_GrantMiniApp s grant"
| "decide s (OpenMiniApp session) = decide_OpenMiniApp s session"
| "decide s (MiniAppCall session_id request_id request) =
     decide_MiniAppCall s session_id request_id request"

section \<open>Applying events\<close>

text \<open>\<open>if let Some(conversation) = self.state.conversations.get_mut(c) { ... }\<close>\<close>

definition modify_conversation ::
  "ConversationId \<Rightarrow> (Conversation \<Rightarrow> Conversation) \<Rightarrow> MessagingState \<Rightarrow> MessagingState"
where
  "modify_conversation c f s = s\<lparr>s_conversations := fm_modify c f (s_conversations s)\<rparr>"

text \<open>\<open>self.state.messages.get_mut(c).and_then(|messages| messages.get_mut(m))\<close>\<close>

definition modify_message ::
  "ConversationId \<Rightarrow> MessageId \<Rightarrow> (Message \<Rightarrow> Message) \<Rightarrow> MessagingState \<Rightarrow> MessagingState"
where
  "modify_message c m f s = s\<lparr>s_messages := fm_modify c (fm_modify m f) (s_messages s)\<rparr>"

definition apply_ActorUpserted :: "MessagingState \<Rightarrow> Actor \<Rightarrow> MessagingState" where
  "apply_ActorUpserted s actor = s\<lparr>s_actors := fmupd (a_id actor) actor (s_actors s)\<rparr>"

definition apply_PresenceUpdated :: "MessagingState \<Rightarrow> ActorId \<Rightarrow> Presence \<Rightarrow> MessagingState" where
  "apply_PresenceUpdated s actor_id presence =
     s\<lparr>s_actors := fm_modify actor_id (\<lambda>actor. actor\<lparr>a_presence := presence\<rparr>) (s_actors s)\<rparr>"

definition apply_ConversationUpserted :: "MessagingState \<Rightarrow> Conversation \<Rightarrow> MessagingState" where
  "apply_ConversationUpserted s conversation =
     s\<lparr>s_conversations := fmupd (c_id conversation) conversation (s_conversations s)\<rparr>"

definition apply_ConversationInfoUpdated ::
  "MessagingState \<Rightarrow> ConversationId \<Rightarrow> string \<Rightarrow> string option \<Rightarrow> MessagingState"
where
  "apply_ConversationInfoUpdated s conversation_id title description =
     modify_conversation conversation_id
       (\<lambda>conversation. conversation\<lparr>c_title := title, c_description := description\<rparr>) s"

text \<open>The first participant with the same actor is replaced; a new actor is appended.\<close>

fun upsert_participant :: "Participant \<Rightarrow> Participant list \<Rightarrow> Participant list" where
  "upsert_participant p [] = [p]"
| "upsert_participant p (q # qs) =
     (if p_actor_id q = p_actor_id p then p # qs else q # upsert_participant p qs)"

definition apply_ConversationParticipantUpserted ::
  "MessagingState \<Rightarrow> ConversationId \<Rightarrow> Participant \<Rightarrow> MessagingState"
where
  "apply_ConversationParticipantUpserted s conversation_id participant =
     modify_conversation conversation_id
       (\<lambda>conversation. conversation\<lparr>c_participants :=
          upsert_participant participant (c_participants conversation)\<rparr>) s"

definition apply_ConversationParticipantRemoved ::
  "MessagingState \<Rightarrow> ConversationId \<Rightarrow> ActorId \<Rightarrow> MessagingState"
where
  "apply_ConversationParticipantRemoved s conversation_id actor_id =
     (modify_conversation conversation_id
        (\<lambda>conversation. conversation\<lparr>c_participants :=
           filter (\<lambda>p. p_actor_id p \<noteq> actor_id) (c_participants conversation)\<rparr>) s)
       \<lparr>s_read_cursors := fm_modify conversation_id (fmdrop actor_id) (s_read_cursors s),
        s_drafts := fm_modify conversation_id (fmdrop actor_id) (s_drafts s),
        s_topic_read_cursors := fm_modify conversation_id (fmdrop actor_id) (s_topic_read_cursors s),
        s_topic_drafts := fm_modify conversation_id (fmdrop actor_id) (s_topic_drafts s),
        s_marked_unread_by_actor :=
          fm_modify conversation_id (\<lambda>marked. marked |-| {|actor_id|}) (s_marked_unread_by_actor s)\<rparr>"

definition apply_ConversationArchived ::
  "MessagingState \<Rightarrow> ConversationId \<Rightarrow> bool \<Rightarrow> MessagingState"
where
  "apply_ConversationArchived s conversation_id archived =
     modify_conversation conversation_id (\<lambda>conversation. conversation\<lparr>c_archived := archived\<rparr>) s"

definition apply_ConversationPinned ::
  "MessagingState \<Rightarrow> ConversationId \<Rightarrow> bool \<Rightarrow> MessagingState"
where
  "apply_ConversationPinned s conversation_id pinned =
     modify_conversation conversation_id (\<lambda>conversation. conversation\<lparr>c_pinned := pinned\<rparr>) s"

definition apply_ConversationMarkedUnread ::
  "MessagingState \<Rightarrow> ConversationId \<Rightarrow> ActorId \<Rightarrow> bool \<Rightarrow> MessagingState"
where
  "apply_ConversationMarkedUnread s conversation_id actor_id marked_unread =
     (let actors = get_or {||} (s_marked_unread_by_actor s) conversation_id;
          actors = (if marked_unread then finsert actor_id actors else actors |-| {|actor_id|})
      in modify_conversation conversation_id
           (\<lambda>conversation. conversation\<lparr>c_marked_unread := marked_unread\<rparr>)
           (s\<lparr>s_marked_unread_by_actor :=
                (if actors = {||} then fmdrop conversation_id (s_marked_unread_by_actor s)
                 else fmupd conversation_id actors (s_marked_unread_by_actor s))\<rparr>))"

definition apply_DraftChanged :: "MessagingState \<Rightarrow> ConversationDraft \<Rightarrow> MessagingState" where
  "apply_DraftChanged s draft =
     (let c = d_conversation_id draft; a = d_actor_id draft in
      if is_blank (d_text draft) \<and> d_reply_to_message_id draft = None then
        (case fmlookup (s_drafts s) c of
           None \<Rightarrow> s
         | Some by_actor \<Rightarrow>
             let by_actor = fmdrop a by_actor
             in s\<lparr>s_drafts := (if fmdom by_actor = {||} then fmdrop c (s_drafts s)
                               else fmupd c by_actor (s_drafts s))\<rparr>)
      else s\<lparr>s_drafts := fmupd c (fmupd a draft (get_or fmempty (s_drafts s) c)) (s_drafts s)\<rparr>)"

definition apply_ConversationNotificationsUpdated ::
  "MessagingState \<Rightarrow> ConversationId \<Rightarrow> NotificationSettings \<Rightarrow> MessagingState"
where
  "apply_ConversationNotificationsUpdated s conversation_id settings =
     modify_conversation conversation_id
       (\<lambda>conversation. conversation\<lparr>c_notification_settings := settings\<rparr>) s"

definition apply_ConversationMessageRetentionUpdated ::
  "MessagingState \<Rightarrow> ConversationId \<Rightarrow> ConversationMessageRetention \<Rightarrow> MessagingState"
where
  "apply_ConversationMessageRetentionUpdated s conversation_id retention =
     modify_conversation conversation_id
       (\<lambda>conversation. conversation
          \<lparr>c_message_retention_seconds := map_option mp_seconds (cr_policy retention),
           c_retention_revision := cr_revision retention\<rparr>) s"

definition apply_FolderUpserted :: "MessagingState \<Rightarrow> ConversationFolder \<Rightarrow> MessagingState" where
  "apply_FolderUpserted s folder = s\<lparr>s_folders := fmupd (f_id folder) folder (s_folders s)\<rparr>"

definition apply_FolderDeleted :: "MessagingState \<Rightarrow> string \<Rightarrow> MessagingState" where
  "apply_FolderDeleted s folder_id =
     s\<lparr>s_folders := fmdrop folder_id (s_folders s),
       s_conversations :=
         fmmap (\<lambda>conversation. conversation\<lparr>c_folder_ids :=
           filter (\<lambda>i. i \<noteq> folder_id) (c_folder_ids conversation)\<rparr>) (s_conversations s)\<rparr>"

subsection \<open>Messages\<close>

definition apply_MessageQueued :: "MessagingState \<Rightarrow> Message \<Rightarrow> MessagingState" where
  "apply_MessageQueued s message =
     (let c = m_conversation_id message;
          s1 = modify_conversation c
                 (\<lambda>conversation. conversation\<lparr>c_last_message_id := Some (message_str (m_id message)),
                                             c_updated_at_ms := m_created_at_ms message\<rparr>) s;
          s2 = s1\<lparr>s_messages := fmupd c (fmupd (m_id message) message
                                   (get_or fmempty (s_messages s1) c)) (s_messages s1)\<rparr>
      in (case m_thread_root_message_id message of
            None \<Rightarrow> s2
          | Some root \<Rightarrow>
         (case topic_id_from_root root of
            None \<Rightarrow> s2
          | Some topic_id \<Rightarrow>
              s2\<lparr>s_communities := fm_modify c
                   (\<lambda>community. community\<lparr>co_topics := fm_modify topic_id
                      (\<lambda>topic. topic\<lparr>fts_last_message_id := Some (message_str (m_id message))\<rparr>)
                      (co_topics community)\<rparr>)
                   (s_communities s2)\<rparr>)))"

definition acknowledge ::
  "MessageId \<Rightarrow> MessageId \<Rightarrow> i64 \<Rightarrow> (MessageId, Message) fmap \<Rightarrow> (MessageId, Message) fmap"
where
  "acknowledge local_message_id server_message_id accepted_at_ms messages =
     (case fmlookup messages local_message_id of
        None \<Rightarrow> messages
      | Some message \<Rightarrow>
          fmupd server_message_id
            (message\<lparr>m_id := server_message_id, m_delivery_state := Sent,
                     m_created_at_ms := accepted_at_ms\<rparr>)
            (fmdrop local_message_id messages))"

definition apply_MessageAcknowledged ::
  "MessagingState \<Rightarrow> ConversationId \<Rightarrow> MessageId \<Rightarrow> MessageId \<Rightarrow> i64 \<Rightarrow> MessagingState"
where
  "apply_MessageAcknowledged s conversation_id local_message_id server_message_id accepted_at_ms =
     modify_conversation conversation_id
       (\<lambda>conversation.
          if c_last_message_id conversation = Some (message_str local_message_id)
          then conversation\<lparr>c_last_message_id := Some (message_str server_message_id)\<rparr>
          else conversation)
       (s\<lparr>s_messages := fm_modify conversation_id
            (acknowledge local_message_id server_message_id accepted_at_ms) (s_messages s)\<rparr>)"

definition apply_DeliveryStateUpdated ::
  "MessagingState \<Rightarrow> ConversationId \<Rightarrow> MessageId \<Rightarrow> DeliveryState \<Rightarrow> MessagingState"
where
  "apply_DeliveryStateUpdated s conversation_id message_id state =
     modify_message conversation_id message_id
       (\<lambda>message. message\<lparr>m_delivery_state := state\<rparr>) s"

definition apply_MessageEdited ::
  "MessagingState \<Rightarrow> ConversationId \<Rightarrow> MessageId \<Rightarrow> MessageContent \<Rightarrow> i64 \<Rightarrow> MessagingState"
where
  "apply_MessageEdited s conversation_id message_id content edited_at_ms =
     modify_message conversation_id message_id
       (\<lambda>message. message\<lparr>m_content := content, m_edited_at_ms := Some edited_at_ms\<rparr>) s"

definition apply_MessagesDeleted ::
  "MessagingState \<Rightarrow> ConversationId \<Rightarrow> MessageId list \<Rightarrow> MessagingState"
where
  "apply_MessagesDeleted s conversation_id message_ids =
     s\<lparr>s_messages := fm_modify conversation_id
          (\<lambda>messages. foldl (\<lambda>ms i. fm_modify i (\<lambda>message. message\<lparr>m_deleted := True\<rparr>) ms)
             messages message_ids) (s_messages s)\<rparr>"

definition apply_ConversationRead ::
  "MessagingState \<Rightarrow> ConversationId \<Rightarrow> ActorId \<Rightarrow> MessageId \<Rightarrow> MessagingState"
where
  "apply_ConversationRead s conversation_id actor_id message_id =
     modify_conversation conversation_id
       (\<lambda>conversation. conversation
          \<lparr>c_last_read_message_id := Some (message_str message_id), c_unread_count := 0,
           c_marked_unread := False\<rparr>)
       (s\<lparr>s_read_cursors :=
            fmupd conversation_id
              (fmupd actor_id message_id (get_or fmempty (s_read_cursors s) conversation_id))
              (s_read_cursors s),
          s_marked_unread_by_actor :=
            (case fmlookup (s_marked_unread_by_actor s) conversation_id of
               None \<Rightarrow> s_marked_unread_by_actor s
             | Some actors \<Rightarrow>
                 let actors = actors |-| {|actor_id|}
                 in if actors = {||} then fmdrop conversation_id (s_marked_unread_by_actor s)
                    else fmupd conversation_id actors (s_marked_unread_by_actor s))\<rparr>)"

definition apply_TopicReadChanged ::
  "MessagingState \<Rightarrow> ConversationId \<Rightarrow> string \<Rightarrow> ActorId \<Rightarrow> MessageId \<Rightarrow> MessagingState"
where
  "apply_TopicReadChanged s conversation_id topic_id actor_id message_id =
     (let by_actor = get_or fmempty (s_topic_read_cursors s) conversation_id;
          by_topic = get_or fmempty by_actor actor_id
      in s\<lparr>s_topic_read_cursors :=
             fmupd conversation_id (fmupd actor_id (fmupd topic_id message_id by_topic) by_actor)
               (s_topic_read_cursors s)\<rparr>)"

definition apply_TopicDraftChanged :: "MessagingState \<Rightarrow> TopicDraft \<Rightarrow> MessagingState" where
  "apply_TopicDraftChanged s draft =
     (let c = td_conversation_id draft; a = td_actor_id draft; t = td_topic_id draft in
      if is_blank (td_text draft) \<and> td_reply_to_message_id draft = None then
        (case fmlookup (s_topic_drafts s) c of
           None \<Rightarrow> s
         | Some by_actor \<Rightarrow>
             let by_actor =
               (case fmlookup by_actor a of
                  None \<Rightarrow> by_actor
                | Some by_topic \<Rightarrow>
                    let by_topic = fmdrop t by_topic
                    in if fmdom by_topic = {||} then fmdrop a by_actor else fmupd a by_topic by_actor)
             in s\<lparr>s_topic_drafts := (if fmdom by_actor = {||} then fmdrop c (s_topic_drafts s)
                                     else fmupd c by_actor (s_topic_drafts s))\<rparr>)
      else
        let by_actor = get_or fmempty (s_topic_drafts s) c; by_topic = get_or fmempty by_actor a
        in s\<lparr>s_topic_drafts :=
               fmupd c (fmupd a (fmupd t draft by_topic) by_actor) (s_topic_drafts s)\<rparr>)"

definition set_reaction :: "ReactionSummary \<Rightarrow> ReactionSummary list \<Rightarrow> ReactionSummary list" where
  "set_reaction reaction items =
     filter (\<lambda>item. rs_reaction item \<noteq> rs_reaction reaction) items
       @ (if rs_count reaction \<noteq> 0 then [reaction] else [])"

definition apply_ReactionUpdated ::
  "MessagingState \<Rightarrow> ConversationId \<Rightarrow> MessageId \<Rightarrow> ReactionSummary \<Rightarrow> MessagingState"
where
  "apply_ReactionUpdated s conversation_id message_id reaction =
     modify_message conversation_id message_id
       (\<lambda>message. message\<lparr>m_reactions := set_reaction reaction (m_reactions message)\<rparr>) s"

definition apply_MessagePinned ::
  "MessagingState \<Rightarrow> ConversationId \<Rightarrow> MessageId \<Rightarrow> bool \<Rightarrow> MessagingState"
where
  "apply_MessagePinned s conversation_id message_id pinned =
     modify_conversation conversation_id
       (\<lambda>conversation. conversation\<lparr>c_pinned_message_ids :=
          filter (\<lambda>i. i \<noteq> message_str message_id) (c_pinned_message_ids conversation)
            @ (if pinned then [message_str message_id] else [])\<rparr>)
       (modify_message conversation_id message_id (\<lambda>message. message\<lparr>m_pinned := pinned\<rparr>) s)"

text \<open>\<open>u32::try_from(count).unwrap_or(u32::MAX)\<close>\<close>

definition u32_of_count :: "nat \<Rightarrow> u32" where
  "u32_of_count n = (if n < 2 ^ 32 then of_nat n else - 1)"

definition votes_for :: "(ActorId, string fset) fmap \<Rightarrow> string \<Rightarrow> nat" where
  "votes_for by_actor option_id =
     length (filter (\<lambda>votes. option_id |\<in>| votes) (map_values by_actor))"

definition recount_poll :: "(ActorId, string fset) fmap \<Rightarrow> MessageContent \<Rightarrow> MessageContent" where
  "recount_poll by_actor content =
     (case content of
        ContentPoll question options anonymous multiple_answers quiz \<Rightarrow>
          ContentPoll question
            (map (\<lambda>opt. opt\<lparr>po_voter_count := u32_of_count (votes_for by_actor (po_id opt)),
                            po_chosen := False\<rparr>) options)
            anonymous multiple_answers quiz
      | _ \<Rightarrow> content)"

definition apply_PollVoteChanged ::
  "MessagingState \<Rightarrow> ConversationId \<Rightarrow> MessageId \<Rightarrow> ActorId \<Rightarrow> string list \<Rightarrow> MessagingState"
where
  "apply_PollVoteChanged s conversation_id message_id actor_id option_ids =
     (let selected = fset_of_list option_ids;
          by_message = get_or fmempty (s_poll_votes s) conversation_id;
          by_actor = get_or fmempty by_message message_id;
          by_actor = (if selected = {||} then fmdrop actor_id by_actor
                      else fmupd actor_id selected by_actor)
      in modify_message conversation_id message_id
           (\<lambda>message. message\<lparr>m_content := recount_poll by_actor (m_content message)\<rparr>)
           (s\<lparr>s_poll_votes := fmupd conversation_id (fmupd message_id by_actor by_message)
                (s_poll_votes s)\<rparr>))"

subsection \<open>Services\<close>

definition apply_InvoiceCreated :: "MessagingState \<Rightarrow> Invoice \<Rightarrow> MessagingState" where
  "apply_InvoiceCreated s invoice = s\<lparr>s_invoices := fmupd (iv_id invoice) invoice (s_invoices s)\<rparr>"

definition apply_OrderUpserted :: "MessagingState \<Rightarrow> PaymentOrder \<Rightarrow> MessagingState" where
  "apply_OrderUpserted s order = s\<lparr>s_orders := fmupd (o_id order) order (s_orders s)\<rparr>"

definition apply_WalletChanged :: "MessagingState \<Rightarrow> WalletLedger \<Rightarrow> LedgerEntry \<Rightarrow> MessagingState" where
  "apply_WalletChanged s wallet entry = s\<lparr>s_wallet := wallet\<rparr>"

definition apply_StoryChanged :: "MessagingState \<Rightarrow> Story \<Rightarrow> MessagingState" where
  "apply_StoryChanged s story = s\<lparr>s_stories := fmupd (st_id story) story (s_stories s)\<rparr>"

definition apply_StoryDeleted :: "MessagingState \<Rightarrow> StoryId \<Rightarrow> MessagingState" where
  "apply_StoryDeleted s story_id = s\<lparr>s_stories := fmdrop story_id (s_stories s)\<rparr>"

definition apply_CommunityChanged :: "MessagingState \<Rightarrow> CommunityState \<Rightarrow> MessagingState" where
  "apply_CommunityChanged s community =
     s\<lparr>s_communities := fmupd (co_conversation_id community) community (s_communities s)\<rparr>"

definition apply_BotRegistryChanged ::
  "MessagingState \<Rightarrow> BotRegistry \<Rightarrow> BotProfile option \<Rightarrow> BotExecution option \<Rightarrow> MessagingState"
where
  "apply_BotRegistryChanged s registry profile execution = s\<lparr>s_bots := registry\<rparr>"

definition apply_MiniAppInstalled :: "MessagingState \<Rightarrow> MiniAppManifest \<Rightarrow> MessagingState" where
  "apply_MiniAppInstalled s manifest =
     s\<lparr>s_mini_apps := fmupd (ma_id manifest) manifest (s_mini_apps s)\<rparr>"

definition apply_MiniAppGrantUpdated :: "MessagingState \<Rightarrow> MiniAppGrant \<Rightarrow> MessagingState" where
  "apply_MiniAppGrantUpdated s grant =
     s\<lparr>s_mini_app_grants :=
         fmupd (mg_mini_app_id grant, mg_actor_id grant) grant (s_mini_app_grants s)\<rparr>"

definition apply_MiniAppOpened :: "MessagingState \<Rightarrow> MiniAppSession \<Rightarrow> MessagingState" where
  "apply_MiniAppOpened s session =
     s\<lparr>s_mini_app_sessions := fmupd (ms_id session) session (s_mini_app_sessions s)\<rparr>"

definition apply_MiniAppResponded ::
  "MessagingState \<Rightarrow> string \<Rightarrow> string \<Rightarrow> MiniAppResponse \<Rightarrow> MessagingState"
where
  "apply_MiniAppResponded s session_id request_id response = s"

subsection \<open>The event match\<close>

primrec apply_event :: "MessagingState \<Rightarrow> Event \<Rightarrow> MessagingState" where
  "apply_event s (ActorUpserted actor) = apply_ActorUpserted s actor"
| "apply_event s (PresenceUpdated actor_id presence) = apply_PresenceUpdated s actor_id presence"
| "apply_event s (ConversationUpserted conversation) = apply_ConversationUpserted s conversation"
| "apply_event s (ConversationInfoUpdated conversation_id title description) =
     apply_ConversationInfoUpdated s conversation_id title description"
| "apply_event s (ConversationParticipantUpserted conversation_id participant) =
     apply_ConversationParticipantUpserted s conversation_id participant"
| "apply_event s (ConversationParticipantRemoved conversation_id actor_id) =
     apply_ConversationParticipantRemoved s conversation_id actor_id"
| "apply_event s (ConversationArchived conversation_id archived) =
     apply_ConversationArchived s conversation_id archived"
| "apply_event s (ConversationPinned conversation_id pinned) =
     apply_ConversationPinned s conversation_id pinned"
| "apply_event s (ConversationMarkedUnread conversation_id actor_id marked_unread) =
     apply_ConversationMarkedUnread s conversation_id actor_id marked_unread"
| "apply_event s (DraftChanged draft) = apply_DraftChanged s draft"
| "apply_event s (ConversationNotificationsUpdated conversation_id settings) =
     apply_ConversationNotificationsUpdated s conversation_id settings"
| "apply_event s (ConversationMessageRetentionUpdated conversation_id retention) =
     apply_ConversationMessageRetentionUpdated s conversation_id retention"
| "apply_event s (FolderUpserted folder) = apply_FolderUpserted s folder"
| "apply_event s (FolderDeleted folder_id) = apply_FolderDeleted s folder_id"
| "apply_event s (MessageQueued message) = apply_MessageQueued s message"
| "apply_event s (MessageAcknowledged conversation_id local_message_id server_message_id accepted_at_ms) =
     apply_MessageAcknowledged s conversation_id local_message_id server_message_id accepted_at_ms"
| "apply_event s (DeliveryStateUpdated conversation_id message_id state) =
     apply_DeliveryStateUpdated s conversation_id message_id state"
| "apply_event s (MessageEdited conversation_id message_id content edited_at_ms) =
     apply_MessageEdited s conversation_id message_id content edited_at_ms"
| "apply_event s (MessagesDeleted conversation_id message_ids) =
     apply_MessagesDeleted s conversation_id message_ids"
| "apply_event s (ConversationRead conversation_id actor_id message_id) =
     apply_ConversationRead s conversation_id actor_id message_id"
| "apply_event s (TopicReadChanged conversation_id topic_id actor_id message_id) =
     apply_TopicReadChanged s conversation_id topic_id actor_id message_id"
| "apply_event s (TopicDraftChanged draft) = apply_TopicDraftChanged s draft"
| "apply_event s (ReactionUpdated conversation_id message_id reaction) =
     apply_ReactionUpdated s conversation_id message_id reaction"
| "apply_event s (MessagePinned conversation_id message_id pinned) =
     apply_MessagePinned s conversation_id message_id pinned"
| "apply_event s (PollVoteChanged conversation_id message_id actor_id option_ids) =
     apply_PollVoteChanged s conversation_id message_id actor_id option_ids"
| "apply_event s (InvoiceCreated invoice) = apply_InvoiceCreated s invoice"
| "apply_event s (OrderUpserted order) = apply_OrderUpserted s order"
| "apply_event s (WalletChanged wallet entry) = apply_WalletChanged s wallet entry"
| "apply_event s (StoryChanged story) = apply_StoryChanged s story"
| "apply_event s (StoryDeleted story_id) = apply_StoryDeleted s story_id"
| "apply_event s (CommunityChanged community) = apply_CommunityChanged s community"
| "apply_event s (BotRegistryChanged registry profile execution) =
     apply_BotRegistryChanged s registry profile execution"
| "apply_event s (MiniAppInstalled manifest) = apply_MiniAppInstalled s manifest"
| "apply_event s (MiniAppGrantUpdated grant) = apply_MiniAppGrantUpdated s grant"
| "apply_event s (MiniAppOpened session) = apply_MiniAppOpened s session"
| "apply_event s (MiniAppResponded session_id request_id response) =
     apply_MiniAppResponded s session_id request_id response"

end
