(* ===== verification/Event_Sourcing.thy ===== *)
theory Event_Sourcing
  imports Prelude
begin

text \<open>
  The contract of an event-sourced engine, which the messaging engine, the engine of the Telegram
  client and its transfer queue share: a command is decided against the state, a refused command
  changes nothing, an accepted one changes the state by its events only, so the journal of events
  rebuilds the state, and what every event keeps every run keeps.
\<close>

text \<open>A sequence of commands, with the events of the accepted ones in order.\<close>

fun run_commands ::
  "('s \<Rightarrow> 'c \<Rightarrow> 's \<times> ('ev list, 'err) result) \<Rightarrow> 's \<Rightarrow> 'c list \<Rightarrow> 's \<times> 'ev list"
where
  "run_commands exec s [] = (s, [])"
| "run_commands exec s (c # cs) =
     (case exec s c of (s1, r) \<Rightarrow>
      case run_commands exec s1 cs of (s2, journal) \<Rightarrow>
        (s2, (case r of Inl _ \<Rightarrow> [] | Inr events \<Rightarrow> events) @ journal))"

section \<open>The contract of an event-sourced engine\<close>

locale event_sourced =
  fixes decide :: "'s \<Rightarrow> 'c \<Rightarrow> ('ev list, 'err) result"
    and apply_ev :: "'s \<Rightarrow> 'ev \<Rightarrow> 's"
    and exec :: "'s \<Rightarrow> 'c \<Rightarrow> 's \<times> ('ev list, 'err) result"
  assumes exec_refused: "decide s c = Err e \<Longrightarrow> exec s c = (s, Err e)"
    and exec_accepted: "decide s c = Ok events \<Longrightarrow> exec s c = (foldl apply_ev s events, Ok events)"
begin

lemma exec_result: "snd (exec s c) = decide s c"
  by (cases "decide s c") (simp_all add: exec_refused exec_accepted)

lemma exec_state:
  "fst (exec s c) = foldl apply_ev s (case decide s c of Inl _ \<Rightarrow> [] | Inr events \<Rightarrow> events)"
  by (cases "decide s c") (simp_all add: exec_refused exec_accepted)

text \<open>Replaying the journal rebuilds the state.\<close>

lemma run_replay: "fst (run_commands exec s cs) = foldl apply_ev s (snd (run_commands exec s cs))"
proof (induction cs arbitrary: s)
  case Nil
  then show ?case by simp
next
  case (Cons c cs)
  then show ?case
    using exec_state [of s c] exec_result [of s c]
    by (simp split: prod.splits) (metis fst_conv snd_conv)
qed

lemma run_state: "fst (run_commands exec s cs) = foldl (\<lambda>s c. fst (exec s c)) s cs"
proof (induction cs arbitrary: s)
  case (Cons c cs)
  then show ?case by (simp split: prod.splits) (metis fst_conv)
qed simp

end

text \<open>What holds of each event in the state it is applied to.\<close>

fun all_ok :: "('s \<Rightarrow> 'ev \<Rightarrow> bool) \<Rightarrow> ('s \<Rightarrow> 'ev \<Rightarrow> 's) \<Rightarrow> 's \<Rightarrow> 'ev list \<Rightarrow> bool" where
  "all_ok ok app s [] = True"
| "all_ok ok app s (ev # events) \<longleftrightarrow> ok s ev \<and> all_ok ok app (app s ev) events"

lemma all_ok_mono: "(\<And>s ev. ok s ev \<Longrightarrow> ok' s ev) \<Longrightarrow> all_ok ok app s events \<Longrightarrow> all_ok ok' app s events"
  by (induction events arbitrary: s) simp_all

lemma all_ok_conj:
  "all_ok ok app s events \<Longrightarrow> all_ok ok' app s events \<Longrightarrow>
     all_ok (\<lambda>s ev. ok s ev \<and> ok' s ev) app s events"
  by (induction events arbitrary: s) simp_all

text \<open>
  An invariant that accepted commands respect: \<open>ok\<close> is what a decision promises of its events
  in a state that satisfies the invariant, and such events keep the invariant.
\<close>

locale event_invariant = event_sourced decide apply_ev exec
  for decide :: "'s \<Rightarrow> 'c \<Rightarrow> ('ev list, 'err) result" and apply_ev and exec +
  fixes inv :: "'s \<Rightarrow> bool"
    and ok :: "'s \<Rightarrow> 'ev \<Rightarrow> bool"
  assumes decide_ok: "inv s \<Longrightarrow> decide s c = Ok events \<Longrightarrow> all_ok ok apply_ev s events"
    and apply_ok: "inv s \<Longrightarrow> ok s ev \<Longrightarrow> inv (apply_ev s ev)"
begin

lemma replay_inv: "inv s \<Longrightarrow> all_ok ok apply_ev s events \<Longrightarrow> inv (foldl apply_ev s events)"
  by (induction events arbitrary: s) (simp_all add: apply_ok)

lemma exec_inv: "inv s \<Longrightarrow> inv (fst (exec s c))"
  by (cases "decide s c") (auto simp: exec_state intro!: replay_inv dest: decide_ok)

text \<open>What such an event never breaks, no command breaks.\<close>

lemma exec_keeps:
  assumes "\<And>s ev. inv s \<Longrightarrow> ok s ev \<Longrightarrow> P s \<Longrightarrow> P (apply_ev s ev)"
  shows "inv s \<Longrightarrow> P s \<Longrightarrow> P (fst (exec s c))"
proof -
  have replay: "inv s \<Longrightarrow> all_ok ok apply_ev s events \<Longrightarrow> P s \<Longrightarrow> P (foldl apply_ev s events)" for s events
    by (induction events arbitrary: s) (simp_all add: apply_ok assms)
  assume "inv s" "P s"
  then show ?thesis
    by (cases "decide s c") (auto simp: exec_state intro!: replay dest: decide_ok)
qed

end

sublocale event_invariant \<subseteq> component "\<lambda>s c. fst (exec s c)" inv
  by unfold_locales (rule exec_inv)

end
