(* ===== verification/Engine.thy ===== *)
theory Engine
  imports Engine_Apply Event_Sourcing
begin

text \<open>
  \<open>MessagingEngine::execute\<close> of \<open>src/native/mahayana-messaging/src/engine.rs\<close> as an
  instance of the contract of \<open>Event_Sourcing\<close>.
\<close>

definition execute :: "MessagingState \<Rightarrow> Command \<Rightarrow> MessagingState \<times> decision" where
  "execute s command =
     (case decide s command of
        Inl e \<Rightarrow> (s, Err e)
      | Inr events \<Rightarrow> (foldl apply_event s events, Ok events))"

definition complete_paid_order :: "MessagingState \<Rightarrow> string \<Rightarrow> i64 \<Rightarrow> MessagingState \<times> decision" where
  "complete_paid_order s order_id updated_at_ms =
     (case fmlookup (s_orders s) order_id of
        None \<Rightarrow> (s, Err (OrderNotFound order_id))
      | Some order \<Rightarrow>
          execute s (UpsertOrder (order\<lparr>o_status := Paid, o_updated_at_ms := updated_at_ms\<rparr>)))"

section \<open>The engine keeps the contract\<close>

interpretation engine: event_sourced decide apply_event execute
  by unfold_locales (simp_all add: execute_def)

lemmas execute_state = engine.exec_state

lemma execute_Ok:
  "snd (execute s c) = Ok events \<Longrightarrow> fst (execute s c) = foldl apply_event s events"
  by (simp add: engine.exec_result engine.exec_state)

section \<open>Bundles\<close>

lemmas decide_conversation_defs =
  decide_UpsertActor_def decide_SetPresence_def decide_UpsertConversation_def
  decide_UpdateConversationInfo_def decide_SetConversationParticipant_def
  decide_RemoveConversationParticipant_def decide_ArchiveConversation_def
  decide_PinConversation_def decide_SetMarkedUnread_def decide_SetDraft_def
  decide_SetConversationNotifications_def decide_SetConversationMessageRetention_def
  decide_UpsertFolder_def decide_DeleteFolder_def

lemmas decide_message_defs =
  decide_QueueMessage_def decide_ForwardMessage_def decide_AcknowledgeMessage_def
  decide_SetDeliveryState_def decide_EditMessage_def decide_DeleteMessages_def
  decide_MarkRead_def decide_MarkTopicRead_def decide_SetTopicDraft_def decide_SetReaction_def
  decide_PinMessage_def decide_VotePoll_def

lemmas decide_community_defs =
  decide_UpdateCommunity_def decide_SubscribeChannel_def decide_UnsubscribeChannel_def
  decide_SetCommunitySlowMode_def decide_ModerateCommunityMember_def
  decide_SetCommunityMember_def decide_CreateInviteLink_def decide_RevokeInviteLink_def
  decide_RequestCommunityJoin_def decide_RespondCommunityJoin_def
  decide_UpsertForumTopic_def decide_DeleteForumTopic_def participant_events_def

lemmas decide_payment_defs =
  decide_CreateInvoice_def decide_UpsertOrder_def decide_CheckoutInvoice_def
  checkout_transfer_def decide_RefundOrder_def decide_CreditWalletSettlement_def

lemmas decide_service_defs =
  decide_PublishStory_def decide_DeleteStory_def decide_ViewStory_def decide_ReactStory_def
  decide_RegisterBot_def decide_BeginBotInvocation_def decide_FinishBotExecution_def
  decide_InstallMiniApp_def decide_GrantMiniApp_def decide_OpenMiniApp_def decide_MiniAppCall_def

lemmas decide_defs =
  decide_conversation_defs decide_message_defs decide_community_defs decide_payment_defs
  decide_service_defs

lemmas apply_defs =
  apply_ActorUpserted_def apply_PresenceUpdated_def apply_ConversationUpserted_def
  apply_ConversationInfoUpdated_def apply_ConversationParticipantUpserted_def
  apply_ConversationParticipantRemoved_def apply_ConversationArchived_def
  apply_ConversationPinned_def apply_ConversationMarkedUnread_def apply_DraftChanged_def
  apply_ConversationNotificationsUpdated_def apply_ConversationMessageRetentionUpdated_def
  apply_FolderUpserted_def apply_FolderDeleted_def apply_MessageQueued_def
  apply_MessageAcknowledged_def apply_DeliveryStateUpdated_def apply_MessageEdited_def
  apply_MessagesDeleted_def apply_ConversationRead_def apply_TopicReadChanged_def
  apply_TopicDraftChanged_def apply_ReactionUpdated_def apply_MessagePinned_def
  apply_PollVoteChanged_def apply_InvoiceCreated_def apply_OrderUpserted_def
  apply_WalletChanged_def apply_StoryChanged_def apply_StoryDeleted_def
  apply_CommunityChanged_def apply_BotRegistryChanged_def apply_MiniAppInstalled_def
  apply_MiniAppGrantUpdated_def apply_MiniAppOpened_def apply_MiniAppResponded_def
  modify_conversation_def modify_message_def

section \<open>What an event leaves alone\<close>

lemma apply_wallet:
  "s_wallet (apply_event s ev) = (case ev of WalletChanged w e \<Rightarrow> w | _ \<Rightarrow> s_wallet s)"
  by (cases ev) (simp_all add: apply_defs Let_def split: option.splits)

lemma apply_invoices:
  "s_invoices (apply_event s ev) =
     (case ev of InvoiceCreated iv \<Rightarrow> fmupd (iv_id iv) iv (s_invoices s) | _ \<Rightarrow> s_invoices s)"
  by (cases ev) (simp_all add: apply_defs Let_def split: option.splits)

lemma apply_orders:
  "s_orders (apply_event s ev) =
     (case ev of OrderUpserted x \<Rightarrow> fmupd (o_id x) x (s_orders s) | _ \<Rightarrow> s_orders s)"
  by (cases ev) (simp_all add: apply_defs Let_def split: option.splits)

lemma apply_actors:
  "s_actors (apply_event s ev) =
     (case ev of
        ActorUpserted a \<Rightarrow> fmupd (a_id a) a (s_actors s)
      | PresenceUpdated i p \<Rightarrow> fm_modify i (\<lambda>a. a\<lparr>a_presence := p\<rparr>) (s_actors s)
      | _ \<Rightarrow> s_actors s)"
  by (cases ev) (simp_all add: apply_defs Let_def split: option.splits)

lemma apply_sessions:
  "s_mini_app_sessions (apply_event s ev) =
     (case ev of MiniAppOpened x \<Rightarrow> fmupd (ms_id x) x (s_mini_app_sessions s)
      | _ \<Rightarrow> s_mini_app_sessions s)"
  by (cases ev) (simp_all add: apply_defs Let_def split: option.splits)

end
