(* ===== verification/Engine_Views.thy ===== *)
theory Engine_Views
  imports Engine
begin

text \<open>
  The state seen through its lookups. The nested maps of messages, drafts, topic drafts, read
  cursors and votes are read through one function each, and every event changes these functions at
  a few points only; the laws are what the invariants and the properties of the commands use.
\<close>

section \<open>Lookups in nested maps\<close>

definition get_draft :: "MessagingState \<Rightarrow> ConversationId \<Rightarrow> ActorId \<Rightarrow> ConversationDraft option" where
  "get_draft s c a = (case fmlookup (s_drafts s) c of None \<Rightarrow> None | Some ds \<Rightarrow> fmlookup ds a)"

definition get_topic_draft ::
  "MessagingState \<Rightarrow> ConversationId \<Rightarrow> ActorId \<Rightarrow> string \<Rightarrow> TopicDraft option"
where
  "get_topic_draft s c a t =
     (case fmlookup (s_topic_drafts s) c of
        None \<Rightarrow> None
      | Some ds \<Rightarrow> (case fmlookup ds a of None \<Rightarrow> None | Some ts \<Rightarrow> fmlookup ts t))"

definition get_cursor :: "MessagingState \<Rightarrow> ConversationId \<Rightarrow> ActorId \<Rightarrow> MessageId option" where
  "get_cursor s c a = (case fmlookup (s_read_cursors s) c of None \<Rightarrow> None | Some cs \<Rightarrow> fmlookup cs a)"

definition marked_unread :: "MessagingState \<Rightarrow> ConversationId \<Rightarrow> ActorId \<Rightarrow> bool" where
  "marked_unread s c a =
     (case fmlookup (s_marked_unread_by_actor s) c of None \<Rightarrow> False | Some as \<Rightarrow> a |\<in>| as)"

lemma lookup_dropped_empty: "fmdom m |-| {|a|} = {||} \<Longrightarrow> a' \<noteq> a \<Longrightarrow> fmlookup m a' = None"
  by (metis fempty_iff fminusI fmdomI fsingleton_iff not_Some_eq)

section \<open>Messages\<close>

lemma fmlookup_delete_all:
  "fmlookup (foldl (\<lambda>ms i. fm_modify i (\<lambda>message. message\<lparr>m_deleted := True\<rparr>) ms) ms is) m =
     map_option (\<lambda>x. if m \<in> set is then x\<lparr>m_deleted := True\<rparr> else x) (fmlookup ms m)"
  by (induction "is" arbitrary: ms) (auto simp: option.map_comp comp_def option.map_ident
      intro: option.map_cong)

lemma get_message_MessageQueued:
  "get_message (apply_MessageQueued s x) c m =
     (if c = m_conversation_id x \<and> m = m_id x then Some x else get_message s c m)"
  by (auto simp: get_message_def apply_MessageQueued_def modify_conversation_def Let_def get_or_def
      split: option.splits)

lemma get_message_MessageAcknowledged:
  "get_message (apply_MessageAcknowledged s c' l r t) c m =
     (if c = c' \<and> get_message s c' l \<noteq> None then
        (if m = r then
           map_option (\<lambda>x. x\<lparr>m_id := r, m_delivery_state := Sent, m_created_at_ms := t\<rparr>)
             (get_message s c' l)
         else if m = l then None else get_message s c m)
      else get_message s c m)"
  by (auto simp: get_message_def apply_MessageAcknowledged_def acknowledge_def
      modify_conversation_def split: option.splits)

lemma get_message_modify_message:
  "get_message (modify_message c' m' f s) c m =
     (if c = c' \<and> m = m' then map_option f (get_message s c m) else get_message s c m)"
  by (auto simp: get_message_def modify_message_def option.map_comp split: option.splits)

lemma get_message_MessagesDeleted:
  "get_message (apply_MessagesDeleted s c' is) c m =
     (if c = c' \<and> m \<in> set is then map_option (\<lambda>x. x\<lparr>m_deleted := True\<rparr>) (get_message s c m)
      else get_message s c m)"
  by (auto simp: get_message_def apply_MessagesDeleted_def fmlookup_delete_all option.map_ident
      split: option.splits)

lemma get_message_frame [simp]:
  "get_message (modify_conversation c' g s) c m = get_message s c m"
  "get_message (s\<lparr>s_poll_votes := v\<rparr>) c m = get_message s c m"
  by (simp_all add: get_message_def modify_conversation_def)

definition message_after :: "MessagingState \<Rightarrow> Event \<Rightarrow> ConversationId \<Rightarrow> MessageId \<Rightarrow> Message option" where
  "message_after s ev c m =
     (case ev of
        MessageQueued x \<Rightarrow>
          if c = m_conversation_id x \<and> m = m_id x then Some x else get_message s c m
      | MessageAcknowledged c' l r t \<Rightarrow>
          if c = c' \<and> get_message s c' l \<noteq> None then
            (if m = r then
               map_option (\<lambda>x. x\<lparr>m_id := r, m_delivery_state := Sent, m_created_at_ms := t\<rparr>)
                 (get_message s c' l)
             else if m = l then None else get_message s c m)
          else get_message s c m
      | DeliveryStateUpdated c' m' st \<Rightarrow>
          if c = c' \<and> m = m' then map_option (\<lambda>x. x\<lparr>m_delivery_state := st\<rparr>) (get_message s c m)
          else get_message s c m
      | MessageEdited c' m' content t \<Rightarrow>
          if c = c' \<and> m = m'
          then map_option (\<lambda>x. x\<lparr>m_content := content, m_edited_at_ms := Some t\<rparr>) (get_message s c m)
          else get_message s c m
      | MessagesDeleted c' is \<Rightarrow>
          if c = c' \<and> m \<in> set is then map_option (\<lambda>x. x\<lparr>m_deleted := True\<rparr>) (get_message s c m)
          else get_message s c m
      | ReactionUpdated c' m' r \<Rightarrow>
          if c = c' \<and> m = m'
          then map_option (\<lambda>x. x\<lparr>m_reactions := set_reaction r (m_reactions x)\<rparr>) (get_message s c m)
          else get_message s c m
      | MessagePinned c' m' b \<Rightarrow>
          if c = c' \<and> m = m' then map_option (\<lambda>x. x\<lparr>m_pinned := b\<rparr>) (get_message s c m)
          else get_message s c m
      | PollVoteChanged c' m' a is \<Rightarrow>
          if c = c' \<and> m = m'
          then map_option (\<lambda>x. x\<lparr>m_content := recount_poll
                 (let votes = get_or fmempty (get_or fmempty (s_poll_votes s) c') m' in
                  if fset_of_list is = {||} then fmdrop a votes
                  else fmupd a (fset_of_list is) votes)
                 (m_content x)\<rparr>) (get_message s c m)
          else get_message s c m
      | _ \<Rightarrow> get_message s c m)"

text \<open>Only the eight events of messages change a message.\<close>

lemma get_message_apply: "get_message (apply_event s ev) c m = message_after s ev c m"
proof (cases "\<exists>x. ev = MessageQueued x")
  case True
  then show ?thesis
    by (auto simp: get_message_MessageQueued message_after_def)
next
  case False
  then show ?thesis
    by (cases ev)
      (simp_all add: message_after_def get_message_MessageAcknowledged
        get_message_MessagesDeleted get_message_modify_message apply_DeliveryStateUpdated_def
        apply_MessageEdited_def apply_ReactionUpdated_def apply_MessagePinned_def
        apply_PollVoteChanged_def Let_def,
        simp_all add: get_message_def apply_defs Let_def split: option.splits)
qed

section \<open>Drafts, cursors and unread marks\<close>

lemma get_draft_apply:
  "get_draft (apply_event s ev) c a =
     (case ev of
        DraftChanged d \<Rightarrow>
          if c = d_conversation_id d \<and> a = d_actor_id d
          then (if is_blank (d_text d) \<and> d_reply_to_message_id d = None then None else Some d)
          else get_draft s c a
      | ConversationParticipantRemoved c' a' \<Rightarrow>
          if c = c' \<and> a = a' then None else get_draft s c a
      | _ \<Rightarrow> get_draft s c a)"
proof (cases "\<exists>d. ev = DraftChanged d")
  case True
  then show ?thesis
    by (auto simp: get_draft_def apply_DraftChanged_def Let_def get_or_def lookup_dropped_empty
        split: option.splits if_splits)
next
  case False
  then show ?thesis
    by (cases ev) (auto simp: get_draft_def apply_defs Let_def split: option.splits)
qed

lemma get_topic_draft_apply:
  "get_topic_draft (apply_event s ev) c a t =
     (case ev of
        TopicDraftChanged d \<Rightarrow>
          if c = td_conversation_id d \<and> a = td_actor_id d \<and> t = td_topic_id d
          then (if is_blank (td_text d) \<and> td_reply_to_message_id d = None then None else Some d)
          else get_topic_draft s c a t
      | ConversationParticipantRemoved c' a' \<Rightarrow>
          if c = c' \<and> a = a' then None else get_topic_draft s c a t
      | _ \<Rightarrow> get_topic_draft s c a t)"
proof (cases "\<exists>d. ev = TopicDraftChanged d")
  case True
  then show ?thesis
    by (auto simp: get_topic_draft_def apply_TopicDraftChanged_def Let_def get_or_def
        lookup_dropped_empty split: option.splits if_splits)
      (metis fmdomI fempty_iff fsubsetD fsingletonD option.inject not_None_eq)+
next
  case False
  then show ?thesis
    by (cases ev) (auto simp: get_topic_draft_def apply_defs Let_def split: option.splits)
qed

lemma get_cursor_apply:
  "get_cursor (apply_event s ev) c a =
     (case ev of
        ConversationRead c' a' m \<Rightarrow> if c = c' \<and> a = a' then Some m else get_cursor s c a
      | ConversationParticipantRemoved c' a' \<Rightarrow>
          if c = c' \<and> a = a' then None else get_cursor s c a
      | _ \<Rightarrow> get_cursor s c a)"
proof (cases "\<exists>c a m. ev = ConversationRead c a m")
  case True
  then show ?thesis
    by (auto simp: get_cursor_def apply_ConversationRead_def modify_conversation_def Let_def
        get_or_def split: option.splits if_splits)
next
  case False
  then show ?thesis
    by (cases ev) (auto simp: get_cursor_def apply_defs Let_def split: option.splits)
qed

lemma marked_unread_apply:
  "marked_unread (apply_event s ev) c a =
     (case ev of
        ConversationMarkedUnread c' a' b \<Rightarrow> if c = c' \<and> a = a' then b else marked_unread s c a
      | ConversationRead c' a' m \<Rightarrow> marked_unread s c a \<and> \<not> (c = c' \<and> a = a')
      | ConversationParticipantRemoved c' a' \<Rightarrow> marked_unread s c a \<and> \<not> (c = c' \<and> a = a')
      | _ \<Rightarrow> marked_unread s c a)"
proof (cases "(\<exists>c a b. ev = ConversationMarkedUnread c a b) \<or> (\<exists>c a m. ev = ConversationRead c a m)")
  case True
  then show ?thesis
    by (auto simp: marked_unread_def apply_ConversationMarkedUnread_def apply_ConversationRead_def
        modify_conversation_def Let_def get_or_def split: option.splits if_splits)
next
  case False
  then show ?thesis
    by (cases ev) (auto simp: marked_unread_def apply_defs Let_def split: option.splits)
qed

section \<open>Conversations, communities and the other tables\<close>

lemma conversations_apply:
  "s_conversations (apply_event s ev) =
     (case ev of
        ConversationUpserted x \<Rightarrow> fmupd (c_id x) x (s_conversations s)
      | ConversationInfoUpdated c t d \<Rightarrow>
          fm_modify c (\<lambda>x. x\<lparr>c_title := t, c_description := d\<rparr>) (s_conversations s)
      | ConversationParticipantUpserted c p \<Rightarrow>
          fm_modify c (\<lambda>x. x\<lparr>c_participants := upsert_participant p (c_participants x)\<rparr>)
            (s_conversations s)
      | ConversationParticipantRemoved c a \<Rightarrow>
          fm_modify c (\<lambda>x. x\<lparr>c_participants := filter (\<lambda>p. p_actor_id p \<noteq> a) (c_participants x)\<rparr>)
            (s_conversations s)
      | ConversationArchived c b \<Rightarrow> fm_modify c (\<lambda>x. x\<lparr>c_archived := b\<rparr>) (s_conversations s)
      | ConversationPinned c b \<Rightarrow> fm_modify c (\<lambda>x. x\<lparr>c_pinned := b\<rparr>) (s_conversations s)
      | ConversationMarkedUnread c a b \<Rightarrow>
          fm_modify c (\<lambda>x. x\<lparr>c_marked_unread := b\<rparr>) (s_conversations s)
      | ConversationNotificationsUpdated c n \<Rightarrow>
          fm_modify c (\<lambda>x. x\<lparr>c_notification_settings := n\<rparr>) (s_conversations s)
      | ConversationMessageRetentionUpdated c r \<Rightarrow>
          fm_modify c (\<lambda>x. x\<lparr>c_message_retention_seconds := map_option mp_seconds (cr_policy r),
                            c_retention_revision := cr_revision r\<rparr>) (s_conversations s)
      | FolderDeleted f \<Rightarrow>
          fmmap (\<lambda>x. x\<lparr>c_folder_ids := filter (\<lambda>i. i \<noteq> f) (c_folder_ids x)\<rparr>) (s_conversations s)
      | MessageQueued m \<Rightarrow>
          fm_modify (m_conversation_id m)
            (\<lambda>x. x\<lparr>c_last_message_id := Some (message_str (m_id m)),
                   c_updated_at_ms := m_created_at_ms m\<rparr>) (s_conversations s)
      | MessageAcknowledged c l r t \<Rightarrow>
          fm_modify c (\<lambda>x. if c_last_message_id x = Some (message_str l)
                           then x\<lparr>c_last_message_id := Some (message_str r)\<rparr> else x)
            (s_conversations s)
      | ConversationRead c a m \<Rightarrow>
          fm_modify c (\<lambda>x. x\<lparr>c_last_read_message_id := Some (message_str m), c_unread_count := 0,
                            c_marked_unread := False\<rparr>) (s_conversations s)
      | MessagePinned c m b \<Rightarrow>
          fm_modify c (\<lambda>x. x\<lparr>c_pinned_message_ids :=
              filter (\<lambda>i. i \<noteq> message_str m) (c_pinned_message_ids x)
                @ (if b then [message_str m] else [])\<rparr>) (s_conversations s)
      | _ \<Rightarrow> s_conversations s)"
  by (cases ev) (simp_all add: apply_defs Let_def split: option.splits)

lemma communities_apply:
  "s_communities (apply_event s ev) =
     (case ev of
        CommunityChanged x \<Rightarrow> fmupd (co_conversation_id x) x (s_communities s)
      | MessageQueued m \<Rightarrow>
          (case m_thread_root_message_id m of
             None \<Rightarrow> s_communities s
           | Some root \<Rightarrow>
          (case topic_id_from_root root of
             None \<Rightarrow> s_communities s
           | Some t \<Rightarrow>
               fm_modify (m_conversation_id m)
                 (\<lambda>co. co\<lparr>co_topics := fm_modify t
                    (\<lambda>topic. topic\<lparr>fts_last_message_id := Some (message_str (m_id m))\<rparr>) (co_topics co)\<rparr>)
                 (s_communities s)))
      | _ \<Rightarrow> s_communities s)"
  by (cases ev) (simp_all add: apply_defs Let_def split: option.splits)

lemma tables_apply:
  "s_folders (apply_event s ev) =
     (case ev of FolderUpserted f \<Rightarrow> fmupd (f_id f) f (s_folders s)
      | FolderDeleted i \<Rightarrow> fmdrop i (s_folders s) | _ \<Rightarrow> s_folders s)"
  "s_stories (apply_event s ev) =
     (case ev of StoryChanged x \<Rightarrow> fmupd (st_id x) x (s_stories s)
      | StoryDeleted i \<Rightarrow> fmdrop i (s_stories s) | _ \<Rightarrow> s_stories s)"
  "s_mini_apps (apply_event s ev) =
     (case ev of MiniAppInstalled x \<Rightarrow> fmupd (ma_id x) x (s_mini_apps s) | _ \<Rightarrow> s_mini_apps s)"
  "s_mini_app_grants (apply_event s ev) =
     (case ev of MiniAppGrantUpdated x \<Rightarrow>
        fmupd (mg_mini_app_id x, mg_actor_id x) x (s_mini_app_grants s) | _ \<Rightarrow> s_mini_app_grants s)"
  "s_bots (apply_event s ev) = (case ev of BotRegistryChanged r _ _ \<Rightarrow> r | _ \<Rightarrow> s_bots s)"
  by (cases ev; simp add: apply_defs Let_def split: option.splits)+

lemmas views_apply =
  get_message_apply message_after_def get_draft_apply get_topic_draft_apply get_cursor_apply
  marked_unread_apply conversations_apply communities_apply tables_apply apply_wallet apply_invoices
  apply_orders apply_actors apply_sessions

text \<open>From here on an event is known by these laws, not by its definition.\<close>

declare apply_event.simps [simp del]

end
