(* ===== verification/Engine_Contract.thy ===== *)
theory Engine_Contract
  imports Engine_Views
begin

text \<open>
  What every accepted command promises of its events, and the invariant that every map of the
  state holds its values under their own identifiers. \<open>event_ok\<close> is the contract between
  \<open>decide\<close> and \<open>apply\<close>: it is proved once, over all commands, and the invariants of the engine
  rest on it, event by event.
\<close>

section \<open>Values stand under their own keys\<close>

definition keyed :: "('v \<Rightarrow> 'k) \<Rightarrow> ('k, 'v) fmap \<Rightarrow> bool" where
  "keyed key m \<longleftrightarrow> (\<forall>k v. fmlookup m k = Some v \<longrightarrow> key v = k)"

lemma keyed_empty [simp]: "keyed key fmempty"
  by (simp add: keyed_def)

lemma keyed_fmupd [simp, intro]: "keyed key m \<Longrightarrow> key v = k \<Longrightarrow> keyed key (fmupd k v m)"
  by (auto simp: keyed_def)

lemma keyed_fmdrop [simp, intro]: "keyed key m \<Longrightarrow> keyed key (fmdrop k m)"
  by (auto simp: keyed_def)

lemma keyed_fm_modify [intro]:
  "keyed key m \<Longrightarrow> (\<And>v. key (f v) = key v) \<Longrightarrow> keyed key (fm_modify k f m)"
  by (auto simp: keyed_def)

lemma keyed_fmmap [intro]: "keyed key m \<Longrightarrow> (\<And>v. key (f v) = key v) \<Longrightarrow> keyed key (fmmap f m)"
  by (auto simp: keyed_def)

lemma keyed_lookup: "keyed key m \<Longrightarrow> fmlookup m k = Some v \<Longrightarrow> key v = k"
  by (auto simp: keyed_def)

definition tables_keyed :: "MessagingState \<Rightarrow> bool" where
  "tables_keyed s \<longleftrightarrow>
     keyed a_id (s_actors s) \<and> keyed c_id (s_conversations s) \<and> keyed f_id (s_folders s)
   \<and> keyed iv_id (s_invoices s) \<and> keyed o_id (s_orders s) \<and> keyed st_id (s_stories s)
   \<and> keyed co_conversation_id (s_communities s) \<and> keyed ma_id (s_mini_apps s)
   \<and> keyed (\<lambda>g. (mg_mini_app_id g, mg_actor_id g)) (s_mini_app_grants s)
   \<and> keyed ms_id (s_mini_app_sessions s)"

definition messages_keyed :: "MessagingState \<Rightarrow> bool" where
  "messages_keyed s \<longleftrightarrow>
     (\<forall>c m x. get_message s c m = Some x \<longrightarrow> m_id x = m \<and> m_conversation_id x = c)"

definition drafts_keyed :: "MessagingState \<Rightarrow> bool" where
  "drafts_keyed s \<longleftrightarrow>
     (\<forall>c a x. get_draft s c a = Some x \<longrightarrow> d_conversation_id x = c \<and> d_actor_id x = a)
   \<and> (\<forall>c a t x. get_topic_draft s c a t = Some x \<longrightarrow>
        td_conversation_id x = c \<and> td_actor_id x = a \<and> td_topic_id x = t)"

definition keys_ok :: "MessagingState \<Rightarrow> bool" where
  "keys_ok s \<longleftrightarrow> tables_keyed s \<and> messages_keyed s \<and> drafts_keyed s"

lemma keys_ok_default: "keys_ok MessagingState_default"
  by (simp add: keys_ok_def tables_keyed_def messages_keyed_def drafts_keyed_def get_message_def
      get_draft_def get_topic_draft_def MessagingState_default_def)

lemma tables_keyed_apply: "tables_keyed s \<Longrightarrow> tables_keyed (apply_event s ev)"
  unfolding tables_keyed_def conversations_apply communities_apply tables_apply apply_invoices
    apply_orders apply_actors apply_sessions
  by (cases ev) (auto split: option.splits)

lemma messages_keyed_apply: "messages_keyed s \<Longrightarrow> messages_keyed (apply_event s ev)"
  unfolding messages_keyed_def get_message_apply message_after_def
  by (cases ev) (auto split: if_splits)

lemma drafts_keyed_apply: "drafts_keyed s \<Longrightarrow> drafts_keyed (apply_event s ev)"
  unfolding drafts_keyed_def get_draft_apply get_topic_draft_apply
  by (cases ev) (auto split: if_splits)

lemma keys_ok_apply: "keys_ok s \<Longrightarrow> keys_ok (apply_event s ev)"
  by (simp add: keys_ok_def tables_keyed_apply messages_keyed_apply drafts_keyed_apply)

lemma all_ok_trivial: "all_ok (\<lambda>_ _. True) app s events"
  by (induction events arbitrary: s) simp_all

interpretation keys: event_invariant decide apply_event execute keys_ok "\<lambda>_ _. True"
  by unfold_locales (auto simp: all_ok_trivial keys_ok_apply)

section \<open>The contract of the events\<close>

text \<open>The log of a community is kept, or one entry is appended to it.\<close>

definition audit_kept_or_appended :: "CommunityState \<Rightarrow> CommunityState \<Rightarrow> bool" where
  "audit_kept_or_appended old new \<longleftrightarrow>
     co_admin_log new = co_admin_log old
   \<or> (\<exists>entry. co_admin_log new = co_admin_log (append_audit old entry))"

text \<open>A wallet made from the present one by opening accounts and one ledger operation.\<close>

inductive opens_accounts :: "WalletLedger \<Rightarrow> WalletLedger \<Rightarrow> bool" where
  none: "opens_accounts w w"
| one: "opens_accounts w w1 \<Longrightarrow> opens_accounts w (fst (create_account w1 i a t))"

definition ledger_changed :: "WalletLedger \<Rightarrow> WalletLedger \<Rightarrow> bool" where
  "ledger_changed w w' \<longleftrightarrow> (\<exists>w1 opn. opens_accounts w w1 \<and> w' = ledger_step w1 opn)"

primrec event_ok :: "MessagingState \<Rightarrow> Event \<Rightarrow> bool" where
  "event_ok s (ActorUpserted a) \<longleftrightarrow> ActorId_is_valid (a_id a) \<and> \<not> is_blank (a_display_name a)"
| "event_ok s (PresenceUpdated a p) \<longleftrightarrow> contains_key (s_actors s) a"
| "event_ok s (ConversationUpserted x) \<longleftrightarrow>
     ConversationId_is_valid (c_id x) \<and> \<not> is_blank (c_title x)
   \<and> (\<forall>p \<in> set (c_participants x). contains_key (s_actors s) (p_actor_id p))
   \<and> (c_kind x = Secret \<longrightarrow> length (c_participants x) = 2)"
| "event_ok s (ConversationInfoUpdated c t d) \<longleftrightarrow> contains_key (s_conversations s) c \<and> t \<noteq> []"
| "event_ok s (ConversationParticipantUpserted c p) \<longleftrightarrow> contains_key (s_conversations s) c"
| "event_ok s (ConversationParticipantRemoved c a) \<longleftrightarrow> contains_key (s_conversations s) c"
| "event_ok s (ConversationArchived c b) \<longleftrightarrow> contains_key (s_conversations s) c"
| "event_ok s (ConversationPinned c b) \<longleftrightarrow> contains_key (s_conversations s) c"
| "event_ok s (ConversationMarkedUnread c a b) \<longleftrightarrow>
     contains_key (s_conversations s) c \<and> contains_key (s_actors s) a"
| "event_ok s (DraftChanged d) \<longleftrightarrow>
     contains_key (s_conversations s) (d_conversation_id d) \<and> contains_key (s_actors s) (d_actor_id d)"
| "event_ok s (ConversationNotificationsUpdated c n) \<longleftrightarrow> contains_key (s_conversations s) c"
| "event_ok s (ConversationMessageRetentionUpdated c r) \<longleftrightarrow>
     (\<exists>x. fmlookup (s_conversations s) c = Some x
        \<and> unat (cr_revision r) = unat (c_retention_revision x) + 1)
   \<and> cr_policy r \<noteq> Some \<lparr>mp_seconds = 0\<rparr>"
| "event_ok s (FolderUpserted f) \<longleftrightarrow> True"
| "event_ok s (FolderDeleted i) \<longleftrightarrow> True"
| "event_ok s (MessageQueued x) \<longleftrightarrow>
     contains_key (s_conversations s) (m_conversation_id x) \<and> contains_key (s_actors s) (m_sender_id x)
   \<and> get_message s (m_conversation_id x) (m_id x) = None \<and> \<not> m_deleted x \<and> m_reactions x = []"
| "event_ok s (MessageAcknowledged c l r t) \<longleftrightarrow>
     get_message s c l \<noteq> None \<and> (l = r \<or> get_message s c r = None)"
| "event_ok s (DeliveryStateUpdated c m st) \<longleftrightarrow> get_message s c m \<noteq> None"
| "event_ok s (MessageEdited c m content t) \<longleftrightarrow> get_message s c m \<noteq> None"
| "event_ok s (MessagesDeleted c is) \<longleftrightarrow> is \<noteq> [] \<and> (\<forall>m \<in> set is. get_message s c m \<noteq> None)"
| "event_ok s (ConversationRead c a m) \<longleftrightarrow>
     contains_key (s_conversations s) c \<and> contains_key (s_actors s) a \<and> get_message s c m \<noteq> None"
| "event_ok s (TopicReadChanged c t a m) \<longleftrightarrow>
     contains_key (s_communities s) c \<and> contains_key (s_actors s) a \<and> get_message s c m \<noteq> None"
| "event_ok s (TopicDraftChanged d) \<longleftrightarrow>
     contains_key (s_communities s) (td_conversation_id d) \<and> contains_key (s_actors s) (td_actor_id d)
   \<and> \<not> is_blank (td_topic_id d)"
| "event_ok s (ReactionUpdated c m r) \<longleftrightarrow> get_message s c m \<noteq> None \<and> \<not> is_blank (rs_reaction r)"
| "event_ok s (MessagePinned c m b) \<longleftrightarrow> get_message s c m \<noteq> None"
| "event_ok s (PollVoteChanged c m a is) \<longleftrightarrow>
     contains_key (s_actors s) a \<and> (\<exists>x. get_message s c m = Some x \<and> is_poll (m_content x))"
| "event_ok s (InvoiceCreated x) \<longleftrightarrow>
     Invoice_is_valid x \<and> contains_key (s_actors s) (iv_seller_id x)
   \<and> contains_key (s_conversations s) (iv_conversation_id x)"
| "event_ok s (OrderUpserted x) \<longleftrightarrow> contains_key (s_invoices s) (o_invoice_id x)"
| "event_ok s (WalletChanged w e) \<longleftrightarrow> ledger_changed (s_wallet s) w"
| "event_ok s (StoryChanged x) \<longleftrightarrow>
     (case fmlookup (s_stories s) (st_id x) of
        None \<Rightarrow> contains_key (s_actors s) (st_owner_id x)
              \<and> sint (st_created_at_ms x) < sint (st_expires_at_ms x)
      | Some old \<Rightarrow> st_owner_id x = st_owner_id old \<or> contains_key (s_actors s) (st_owner_id x))"
| "event_ok s (StoryDeleted i) \<longleftrightarrow> contains_key (s_stories s) i"
| "event_ok s (CommunityChanged x) \<longleftrightarrow>
     (case fmlookup (s_communities s) (co_conversation_id x) of
        None \<Rightarrow> contains_key (s_conversations s) (co_conversation_id x)
              \<and> co_admin_log x = [] \<and> co_subscribers x = fmempty
      | Some old \<Rightarrow> audit_kept_or_appended old x)"
| "event_ok s (BotRegistryChanged r p e) \<longleftrightarrow> True"
| "event_ok s (MiniAppInstalled x) \<longleftrightarrow> True"
| "event_ok s (MiniAppGrantUpdated g) \<longleftrightarrow>
     contains_key (s_mini_apps s) (mg_mini_app_id g) \<and> contains_key (s_actors s) (mg_actor_id g)"
| "event_ok s (MiniAppOpened x) \<longleftrightarrow>
     contains_key (s_mini_apps s) (ms_mini_app_id x)
   \<and> (\<forall>p \<in> set (ms_granted_permissions x).
        \<exists>g. fmlookup (s_mini_app_grants s) (ms_mini_app_id x, ms_actor_id x) = Some g
          \<and> p \<in> set (mg_permissions g))"
| "event_ok s (MiniAppResponded i r x) \<longleftrightarrow> contains_key (s_mini_app_sessions s) i"

abbreviation events_ok :: "MessagingState \<Rightarrow> Event list \<Rightarrow> bool" where
  "events_ok \<equiv> all_ok event_ok apply_event"

subsection \<open>Conversations and messages\<close>

lemma contains_keyI: "fmlookup m k = Some v \<Longrightarrow> contains_key m k"
  by (simp add: contains_key_def)

lemma message_exists_iff [simp]: "message_exists s c m \<longleftrightarrow> get_message s c m \<noteq> None"
  by (auto simp: message_exists_def get_message_def contains_key_def split: option.splits)

lemma check_new_message_Ok_iff [result_simps]:
  "check_new_message s c m k = Ok u \<longleftrightarrow>
     \<not> is_blank (client_message_str k) \<and> length (client_message_str k) \<le> 200
   \<and> get_message s c m = None"
  by (auto simp: check_new_message_def)

lemma btree_list_facts [simp]:
  "set (btree_list xs) = set xs" "btree_list xs = [] \<longleftrightarrow> xs = []" "distinct (btree_list xs)"
  "sorted (btree_list xs)"
  by (simp_all add: btree_list_def) (metis set_empty set_remdups set_sort)

lemma audit_kept_refl [simp]: "co_admin_log x = co_admin_log old \<Longrightarrow> audit_kept_or_appended old x"
  by (simp add: audit_kept_or_appended_def)

lemma audit_appended:
  "co_admin_log x = co_admin_log old \<Longrightarrow>
     audit_kept_or_appended old (append_community_audit x a act ta ti r t)"
  by (auto simp: audit_kept_or_appended_def append_community_audit_def append_audit_def Let_def)

lemma conversation_events_ok:
  assumes "keys_ok s"
  shows
    "decide_UpsertActor s a = Ok evs \<Longrightarrow> events_ok s evs"
    "decide_SetPresence s i p = Ok evs \<Longrightarrow> events_ok s evs"
    "decide_UpsertConversation s x = Ok evs \<Longrightarrow> events_ok s evs"
    "decide_UpdateConversationInfo s c t d = Ok evs \<Longrightarrow> events_ok s evs"
    "decide_ArchiveConversation s c b = Ok evs \<Longrightarrow> events_ok s evs"
    "decide_PinConversation s c b = Ok evs \<Longrightarrow> events_ok s evs"
    "decide_SetMarkedUnread s c i b = Ok evs \<Longrightarrow> events_ok s evs"
    "decide_SetDraft s dr = Ok evs \<Longrightarrow> events_ok s evs"
    "decide_SetConversationNotifications s c n = Ok evs \<Longrightarrow> events_ok s evs"
    "decide_UpsertFolder s f = Ok evs \<Longrightarrow> events_ok s evs"
    "decide_DeleteFolder s fi = Ok evs \<Longrightarrow> events_ok s evs"
  by (auto simp: decide_conversation_defs result_simps is_blank_def contains_key_def
      split: if_splits)

lemma retention_events_ok:
  "decide_SetConversationMessageRetention s c r e = Ok evs \<Longrightarrow> events_ok s evs"
  by (auto simp: decide_SetConversationMessageRetention_def result_simps)

lemma participant_events_ok:
  assumes "keys_ok s"
  shows
    "decide_SetConversationParticipant s c p = Ok evs \<Longrightarrow> events_ok s evs"
    "decide_RemoveConversationParticipant s c i = Ok evs \<Longrightarrow> events_ok s evs"
proof -
  have key: "co_conversation_id co = c" if "fmlookup (s_communities s) c = Some co" for co
    using assms that by (auto simp: keys_ok_def tables_keyed_def dest: keyed_lookup)
  show "decide_SetConversationParticipant s c p = Ok evs \<Longrightarrow> events_ok s evs"
    by (auto simp: decide_SetConversationParticipant_def result_simps contains_key_def Let_def
        conversations_apply key split: if_splits)
  show "decide_RemoveConversationParticipant s c i = Ok evs \<Longrightarrow> events_ok s evs"
    by (auto simp: decide_RemoveConversationParticipant_def result_simps contains_key_def
        conversations_apply key split: if_splits)
qed

lemma queue_events_ok:
  "decide_QueueMessage s c m k a x rp rt t sc si pr = Ok evs \<Longrightarrow> events_ok s evs"
  by (auto simp: decide_QueueMessage_def result_simps contains_key_def)

lemma forward_events_ok: "decide_ForwardMessage s c1 m1 c2 m2 k a t = Ok evs \<Longrightarrow> events_ok s evs"
  by (auto simp: decide_ForwardMessage_def result_simps contains_key_def)

lemma decide_VotePoll_Ok_iff [result_simps]:
  "decide_VotePoll s c m a is = Ok evs \<longleftrightarrow>
     contains_key (s_actors s) a \<and>
     (\<exists>x q options an mult qz. get_message s c m = Some x \<and>
        m_content x = ContentPoll q options an mult qz \<and>
        (mult \<or> length (btree_list is) \<le> 1) \<and> (\<forall>i \<in> set is. \<exists>opt \<in> set options. po_id opt = i) \<and>
        evs = [PollVoteChanged c m a (btree_list is)])"
proof (cases "get_message s c m")
  case None
  then show ?thesis by (auto simp: decide_VotePoll_def result_simps)
next
  case (Some x)
  then show ?thesis
    by (cases "m_content x")
      (auto simp: decide_VotePoll_def result_simps contains_key_def list_ex_iff Let_def)
qed

lemma message_events_ok:
  "decide_AcknowledgeMessage s c l r t = Ok evs \<Longrightarrow> events_ok s evs"
  "decide_SetDeliveryState s c m st = Ok evs \<Longrightarrow> events_ok s evs"
  "decide_EditMessage s c m x t = Ok evs \<Longrightarrow> events_ok s evs"
  "decide_DeleteMessages s c ms = Ok evs \<Longrightarrow> events_ok s evs"
  "decide_MarkRead s c a m = Ok evs \<Longrightarrow> events_ok s evs"
  "decide_MarkTopicRead s c tp a m = Ok evs \<Longrightarrow> events_ok s evs"
  "decide_SetTopicDraft s d = Ok evs \<Longrightarrow> events_ok s evs"
  "decide_SetReaction s c m rs = Ok evs \<Longrightarrow> events_ok s evs"
  "decide_PinMessage s c m b = Ok evs \<Longrightarrow> events_ok s evs"
  "decide_VotePoll s c m a is = Ok evs \<Longrightarrow> events_ok s evs"
  apply (auto simp: decide_AcknowledgeMessage_def result_simps)[1]
  apply (auto simp: decide_SetDeliveryState_def result_simps)[1]
  apply (auto simp: decide_EditMessage_def result_simps)[1]
  apply (auto simp: decide_DeleteMessages_def result_simps Let_def)[1]
  apply (auto simp: decide_MarkRead_def result_simps contains_key_def Let_def)[1]
  apply (auto simp: decide_MarkTopicRead_def result_simps contains_key_def Let_def)[1]
  apply (auto simp: decide_SetTopicDraft_def result_simps contains_key_def)[1]
  apply (auto simp: decide_SetReaction_def result_simps)[1]
  apply (auto simp: decide_PinMessage_def result_simps)[1]
  apply (auto simp: result_simps is_poll_def)[1]
  done

subsection \<open>Communities\<close>

lemma community_keys [simp]:
  "co_conversation_id (append_community_audit x a act ta ti r t) = co_conversation_id x"
  "co_conversation_id (upsert_member x m) = co_conversation_id x"
  "co_conversation_id (change_member x a m r t) = co_conversation_id x"
  "co_conversation_id (request_join x j) = co_conversation_id x"
  by (simp_all add: append_community_audit_def append_audit_def upsert_member_def change_member_def
      request_join_def Let_def)

lemma change_member_audit [simp]: "audit_kept_or_appended x (change_member x a m r t)"
  by (auto simp: change_member_def Let_def upsert_member_def intro: audit_appended)

lemma keys_ok_community:
  "keys_ok s \<Longrightarrow> fmlookup (s_communities s) c = Some co \<Longrightarrow> co_conversation_id co = c"
  by (auto simp: keys_ok_def tables_keyed_def dest: keyed_lookup)

lemma participant_events_list_ok:
  "events_ok (apply_event s (CommunityChanged x)) (participant_events s c co a)"
  by (auto simp: participant_events_def conversations_apply contains_key_def split: option.splits)

lemma subscribe_channel_Ok:
  "subscribe_channel co a t = Ok co' \<Longrightarrow>
     co_conversation_id co' = co_conversation_id co \<and> co_admin_log co' = co_admin_log co"
  by (auto simp: subscribe_channel_def result_simps split: option.splits if_splits)

lemma unsubscribe_channel_Ok:
  "unsubscribe_channel co a = Ok co' \<Longrightarrow>
     co_conversation_id co' = co_conversation_id co \<and> co_admin_log co' = co_admin_log co"
  by (auto simp: unsubscribe_channel_def split: if_splits)

lemma approve_join_Ok:
  "approve_join co a b t = Ok co' \<Longrightarrow>
     co_conversation_id co' = co_conversation_id co \<and> co_admin_log co' = co_admin_log co"
  by (auto simp: approve_join_def result_simps upsert_member_def split: if_splits)

lemma revoke_invite_Ok:
  "revoke_invite co i = Ok co' \<Longrightarrow>
     co_conversation_id co' = co_conversation_id co \<and> co_admin_log co' = co_admin_log co"
  by (auto simp: revoke_invite_def result_simps)

lemma update_community_ok: "decide_UpdateCommunity s a x = Ok evs \<Longrightarrow> events_ok s evs"
  by (cases "fmlookup (s_communities s) (co_conversation_id x)")
    (auto simp: decide_UpdateCommunity_def result_simps contains_key_def split: if_split_asm)

lemma subscription_events_ok:
  assumes "keys_ok s"
  shows
    "decide_SubscribeChannel s a c t = Ok evs \<Longrightarrow> events_ok s evs"
    "decide_UnsubscribeChannel s a c t = Ok evs \<Longrightarrow> events_ok s evs"
    "decide_SetCommunitySlowMode s a c n t = Ok evs \<Longrightarrow> events_ok s evs"
  by (auto simp: decide_SubscribeChannel_def decide_UnsubscribeChannel_def
      decide_SetCommunitySlowMode_def result_simps keys_ok_community [OF assms]
      dest!: subscribe_channel_Ok unsubscribe_channel_Ok intro!: audit_appended split: if_splits)

lemma moderation_events_ok:
  assumes "keys_ok s"
  shows
    "decide_ModerateCommunityMember s a c m r t = Ok evs \<Longrightarrow> events_ok s evs"
    "decide_SetCommunityMember s a c m = Ok evs \<Longrightarrow> events_ok s evs"
  by (auto simp: decide_ModerateCommunityMember_def decide_SetCommunityMember_def result_simps Let_def
      keys_ok_community [OF assms] participant_events_list_ok)

lemma invite_events_ok:
  assumes "keys_ok s"
  shows
    "decide_CreateInviteLink s a iv = Ok evs \<Longrightarrow> events_ok s evs"
    "decide_RevokeInviteLink s a c i t = Ok evs \<Longrightarrow> events_ok s evs"
    "decide_RequestCommunityJoin s a j = Ok evs \<Longrightarrow> events_ok s evs"
    "decide_UpsertForumTopic s a tp = Ok evs \<Longrightarrow> events_ok s evs"
    "decide_DeleteForumTopic s a c i = Ok evs \<Longrightarrow> events_ok s evs"
proof -
  note key = keys_ok_community [OF assms]
  show "decide_CreateInviteLink s a iv = Ok evs \<Longrightarrow> events_ok s evs"
    by (auto simp: decide_CreateInviteLink_def result_simps key intro!: audit_appended)
  show "decide_RevokeInviteLink s a c i t = Ok evs \<Longrightarrow> events_ok s evs"
    by (auto simp: decide_RevokeInviteLink_def result_simps key
        dest!: revoke_invite_Ok intro!: audit_appended)
  show "decide_RequestCommunityJoin s a j = Ok evs \<Longrightarrow> events_ok s evs"
    by (auto simp: decide_RequestCommunityJoin_def request_join_def result_simps key
        intro!: audit_appended)
  show "decide_UpsertForumTopic s a tp = Ok evs \<Longrightarrow> events_ok s evs"
    by (auto simp: decide_UpsertForumTopic_def result_simps intro!: audit_appended)
  show "decide_DeleteForumTopic s a c i = Ok evs \<Longrightarrow> events_ok s evs"
    by (auto simp: decide_DeleteForumTopic_def result_simps key intro!: audit_appended)
qed

lemma respond_join_Ok:
  assumes "decide_RespondCommunityJoin s a c b ap t = Ok evs"
  obtains co x where "fmlookup (s_communities s) c = Some co"
    and "co_conversation_id x = co_conversation_id co" and "audit_kept_or_appended co x"
    and "evs = [CommunityChanged x]
       \<or> (\<exists>p. evs = [CommunityChanged x, ConversationParticipantUpserted c p]
            \<and> contains_key (s_conversations s) c)"
proof (cases ap)
  case True
  then obtain co y where "fmlookup (s_communities s) c = Some co" "approve_join co b a t = Ok y"
    and "evs = CommunityChanged (append_community_audit y a JoinApproved (Some b) None None t) # tl evs"
    and "tl evs = [] \<or> (\<exists>p. tl evs = [ConversationParticipantUpserted c p]
            \<and> contains_key (s_conversations s) c)"
    using assms
    by (auto simp: decide_RespondCommunityJoin_def result_simps Let_def contains_key_def
        split: option.split_asm if_split_asm)
  then show thesis
    by (intro that [of co "append_community_audit y a JoinApproved (Some b) None None t"])
      (auto intro!: audit_appended dest: approve_join_Ok)
next
  case False
  then obtain co where "fmlookup (s_communities s) c = Some co"
    and "evs = [CommunityChanged (append_community_audit
      (co\<lparr>co_pending_join_requests := fmdrop b (co_pending_join_requests co)\<rparr>)
      a JoinRejected (Some b) None None t)]"
    using assms by (auto simp: decide_RespondCommunityJoin_def result_simps)
  then show thesis
    by (intro that) (auto intro!: audit_appended)
qed

lemma respond_join_ok:
  assumes "keys_ok s" and "decide_RespondCommunityJoin s a c b ap t = Ok evs"
  shows "events_ok s evs"
  using assms(2)
  by (rule respond_join_Ok)
    (auto simp: keys_ok_community [OF assms(1)] conversations_apply contains_key_def)

subsection \<open>Payments and services\<close>

lemma ensure_opens_accounts:
  "opens_accounts w w1 \<Longrightarrow> ensure_wallet_account w1 i a t = (w2, r) \<Longrightarrow> opens_accounts w w2"
  by (auto simp: ensure_wallet_account_def split: if_splits intro: opens_accounts.one
      dest: arg_cong [where f = fst] simp del: fst_conv) (metis fst_conv opens_accounts.one)

lemma ledger_changedI: "opens_accounts w w1 \<Longrightarrow> ledger_step w1 opn = w2 \<Longrightarrow> ledger_changed w w2"
  by (auto simp: ledger_changed_def)

lemma opens_accounts_keeps:
  assumes "opens_accounts w w1"
  shows "ledger_inv w \<longrightarrow> ledger_inv w1" "w_entries w1 = w_entries w"
    "w_request_entries w1 = w_request_entries w" "total_balance w1 c = total_balance w c"
    "ledger_balance w1 x c = ledger_balance w x c"
  using assms
  by (induction)
    (auto simp: create_account_inv create_account_frame, auto simp: create_account_def
      ledger_balance_def contains_key_def get_or_def)

lemma ledger_changed_keeps:
  assumes "ledger_changed w w'" "ledger_inv w" "map_len (w_entries w) < 2 ^ 64 - 1"
  shows "ledger_inv w' \<and> map_len (w_entries w') \<le> Suc (map_len (w_entries w))"
proof -
  obtain w1 opn where w1: "opens_accounts w w1" "w' = ledger_step w1 opn"
    using assms(1) by (auto simp: ledger_changed_def)
  with assms show ?thesis
    using ledger.step_inv [of w1 opn] ledger.step_counter [of w1 opn] opens_accounts_keeps [OF w1(1)]
    by simp
qed

lemma operation_ledger_changed:
  "opens_accounts w w1 \<Longrightarrow> transfer w1 r f t m rf now = (w2, x) \<Longrightarrow> ledger_changed w w2"
  "opens_accounts w w1 \<Longrightarrow> credit w1 r i m rf now = (w2, x) \<Longrightarrow> ledger_changed w w2"
  "refund_transfer w r k now = (w2, x) \<Longrightarrow> ledger_changed w w2"
  using ledger_changedI [of w w1 "OpTransfer r f t m rf now" w2]
    ledger_changedI [of w w1 "OpCredit r i m rf now" w2]
    ledger_changedI [OF opens_accounts.none, of w "OpRefund r k now" w2]
  by simp_all

lemmas opens_accountsI = opens_accounts.none ensure_opens_accounts

lemma keys_ok_payment:
  "keys_ok s \<Longrightarrow> fmlookup (s_invoices s) i = Some iv \<Longrightarrow> iv_id iv = i"
  "keys_ok s \<Longrightarrow> fmlookup (s_orders s) k = Some x \<Longrightarrow> o_id x = k"
  by (auto simp: keys_ok_def tables_keyed_def dest: keyed_lookup)

lemma checkout_transfer_Ok:
  assumes "checkout_transfer s iv i b cu t n = Ok evs"
  obtains w1 w e where "opens_accounts (s_wallet s) w1"
    and "transfer w1 (''checkout:'' @ i) (wallet_account_id b) (wallet_account_id (iv_seller_id iv))
      (Money_new (iv_currency iv) n) (Some (iv_id iv)) t = (w, Ok e)"
    and "evs = [WalletChanged w e, OrderUpserted (checkout_order iv i b cu t n e)]"
proof -
  obtain w1 w2 w e
    where "ensure_wallet_account (s_wallet s) (wallet_account_id b) b t = (w1, Ok ())"
      and "ensure_wallet_account w1 (wallet_account_id (iv_seller_id iv)) (iv_seller_id iv) t
        = (w2, Ok ())"
      and *: "transfer w2 (''checkout:'' @ i) (wallet_account_id b)
        (wallet_account_id (iv_seller_id iv)) (Money_new (iv_currency iv) n) (Some (iv_id iv)) t
        = (w, Ok e)"
        "evs = [WalletChanged w e, OrderUpserted (checkout_order iv i b cu t n e)]"
    using assms by (auto simp: checkout_transfer_def result_simps Let_def)
  then have "opens_accounts (s_wallet s) w2"
    by (blast intro: opens_accountsI)
  with * show thesis by (rule that [rotated])
qed

lemma checkout_transfer_ok:
  assumes "checkout_transfer s iv i b cu t n = Ok evs" "contains_key (s_invoices s) (iv_id iv)"
  shows "events_ok s evs"
  using assms(1)
proof (rule checkout_transfer_Ok)
  fix w1 w e
  assume "opens_accounts (s_wallet s) w1"
    and "transfer w1 (''checkout:'' @ i) (wallet_account_id b) (wallet_account_id (iv_seller_id iv))
      (Money_new (iv_currency iv) n) (Some (iv_id iv)) t = (w, Ok e)"
    and "evs = [WalletChanged w e, OrderUpserted (checkout_order iv i b cu t n e)]"
  then show ?thesis
    using assms(2) operation_ledger_changed(1)
    by (fastforce simp: apply_invoices checkout_order_def)
qed

lemma credit_settlement_Ok:
  assumes "decide_CreditWalletSettlement s r a m rf t = Ok evs"
  obtains w1 w e where "opens_accounts (s_wallet s) w1"
    and "credit w1 r (wallet_account_id a) m rf t = (w, Ok e)" and "evs = [WalletChanged w e]"
  using assms
  by (auto simp: decide_CreditWalletSettlement_def result_simps Let_def)
    (blast intro: that opens_accountsI)

lemma payment_events_ok:
  assumes "keys_ok s"
  shows
    "decide_CreateInvoice s iv = Ok evs \<Longrightarrow> events_ok s evs"
    "decide_UpsertOrder s x = Ok evs \<Longrightarrow> events_ok s evs"
    "decide_CheckoutInvoice s i k b cu t = Ok evs \<Longrightarrow> events_ok s evs"
    "decide_RefundOrder s k a r t = Ok evs \<Longrightarrow> events_ok s evs"
    "decide_CreditWalletSettlement s r a m rf t = Ok evs \<Longrightarrow> events_ok s evs"
proof -
  show "decide_CreateInvoice s iv = Ok evs \<Longrightarrow> events_ok s evs"
    by (auto simp: decide_CreateInvoice_def result_simps contains_key_def)
  show "decide_UpsertOrder s x = Ok evs \<Longrightarrow> events_ok s evs"
    by (auto simp: decide_UpsertOrder_def result_simps)
  show "decide_CheckoutInvoice s i k b cu t = Ok evs \<Longrightarrow> events_ok s evs"
    by (auto simp: decide_CheckoutInvoice_def result_simps contains_key_def
        keys_ok_payment [OF assms] split: option.splits if_splits elim!: checkout_transfer_ok)
  show "decide_RefundOrder s k a r t = Ok evs \<Longrightarrow> events_ok s evs"
    by (auto simp: decide_RefundOrder_def result_simps apply_invoices contains_key_def
        split: if_splits intro: operation_ledger_changed(3))
  show "decide_CreditWalletSettlement s r a m rf t = Ok evs \<Longrightarrow> events_ok s evs"
    by (erule credit_settlement_Ok) (auto intro: operation_ledger_changed(2))
qed

lemma keys_ok_story: "keys_ok s \<Longrightarrow> fmlookup (s_stories s) i = Some x \<Longrightarrow> st_id x = i"
  by (auto simp: keys_ok_def tables_keyed_def dest: keyed_lookup)

lemma record_view_Ok:
  "record_view x a t = Ok y \<Longrightarrow> st_id y = st_id x \<and> st_owner_id y = st_owner_id x"
  by (auto simp: record_view_def Let_def split: if_splits)

lemma react_Ok: "react x a r = Ok y \<Longrightarrow> st_id y = st_id x \<and> st_owner_id y = st_owner_id x"
  by (auto simp: react_def result_simps)

lemma story_events_ok:
  assumes "keys_ok s"
  shows
    "decide_PublishStory s a x = Ok evs \<Longrightarrow> events_ok s evs"
    "decide_DeleteStory s a i = Ok evs \<Longrightarrow> events_ok s evs"
    "decide_ViewStory s a i t = Ok evs \<Longrightarrow> events_ok s evs"
    "decide_ReactStory s a i r = Ok evs \<Longrightarrow> events_ok s evs"
  by (auto simp: decide_PublishStory_def decide_DeleteStory_def decide_ViewStory_def
      decide_ReactStory_def result_simps contains_key_def keys_ok_story [OF assms]
      dest!: record_view_Ok react_Ok split: option.splits)

lemma service_events_ok:
  "decide_RegisterBot s a bp = Ok evs \<Longrightarrow> events_ok s evs"
  "decide_BeginBotInvocation s a bi t = Ok evs \<Longrightarrow> events_ok s evs"
  "decide_FinishBotExecution s a i b t er = Ok evs \<Longrightarrow> events_ok s evs"
  "decide_InstallMiniApp s ma = Ok evs \<Longrightarrow> events_ok s evs"
  "decide_GrantMiniApp s mg = Ok evs \<Longrightarrow> events_ok s evs"
  "decide_MiniAppCall s si ri rq = Ok evs \<Longrightarrow> events_ok s evs"
  by (auto simp: decide_RegisterBot_def decide_BeginBotInvocation_def decide_FinishBotExecution_def
      decide_InstallMiniApp_def decide_GrantMiniApp_def decide_MiniAppCall_def result_simps
      contains_key_def Let_def)

lemma open_mini_app_ok: "decide_OpenMiniApp s x = Ok evs \<Longrightarrow> events_ok s evs"
  by (cases "fmlookup (s_mini_app_grants s) (ms_mini_app_id x, ms_actor_id x)")
    (auto simp: decide_OpenMiniApp_def result_simps Let_def find_None_iff
      split: option.split_asm if_split_asm)

subsection \<open>Every command\<close>

lemma decide_events_ok:
  assumes "keys_ok s" and "decide s c = Ok evs"
  shows "events_ok s evs"
  using assms(2)
  by (cases c)
    (simp_all add: conversation_events_ok [OF assms(1)] retention_events_ok
      participant_events_ok [OF assms(1)] queue_events_ok forward_events_ok message_events_ok
      update_community_ok subscription_events_ok [OF assms(1)] moderation_events_ok [OF assms(1)]
      invite_events_ok [OF assms(1)] respond_join_ok [OF assms(1)] payment_events_ok [OF assms(1)]
      story_events_ok [OF assms(1)] service_events_ok open_mini_app_ok)

interpretation contract: event_invariant decide apply_event execute keys_ok event_ok
  by unfold_locales (auto simp: decide_events_ok keys_ok_apply)

end
