(* ===== verification/Engine_Footprint.thy ===== *)
theory Engine_Footprint
  imports Engine_Contract
begin

text \<open>
  Which tables of the state a command can touch. \<open>table\<close> names the table an event is about and
  \<open>footprint\<close> the tables of a command; the frame laws say that what is outside a command's
  footprint is the same after it, accepted or not.
\<close>

datatype Table =
    Actors_table | Conversations_table | Drafts_table | Folders_table | Messages_table
  | Cursors_table | Invoices_table | Orders_table | Wallet_table | Stories_table
  | Communities_table | Bots_table | Mini_Apps_table

primrec table :: "Event \<Rightarrow> Table" where
  "table (ActorUpserted _) = Actors_table"
| "table (PresenceUpdated _ _) = Actors_table"
| "table (ConversationUpserted _) = Conversations_table"
| "table (ConversationInfoUpdated _ _ _) = Conversations_table"
| "table (ConversationParticipantUpserted _ _) = Conversations_table"
| "table (ConversationParticipantRemoved _ _) = Conversations_table"
| "table (ConversationArchived _ _) = Conversations_table"
| "table (ConversationPinned _ _) = Conversations_table"
| "table (ConversationMarkedUnread _ _ _) = Conversations_table"
| "table (DraftChanged _) = Drafts_table"
| "table (ConversationNotificationsUpdated _ _) = Conversations_table"
| "table (ConversationMessageRetentionUpdated _ _) = Conversations_table"
| "table (FolderUpserted _) = Folders_table"
| "table (FolderDeleted _) = Folders_table"
| "table (MessageQueued _) = Messages_table"
| "table (MessageAcknowledged _ _ _ _) = Messages_table"
| "table (DeliveryStateUpdated _ _ _) = Messages_table"
| "table (MessageEdited _ _ _ _) = Messages_table"
| "table (MessagesDeleted _ _) = Messages_table"
| "table (ConversationRead _ _ _) = Cursors_table"
| "table (TopicReadChanged _ _ _ _) = Cursors_table"
| "table (TopicDraftChanged _) = Drafts_table"
| "table (ReactionUpdated _ _ _) = Messages_table"
| "table (MessagePinned _ _ _) = Messages_table"
| "table (PollVoteChanged _ _ _ _) = Messages_table"
| "table (InvoiceCreated _) = Invoices_table"
| "table (OrderUpserted _) = Orders_table"
| "table (WalletChanged _ _) = Wallet_table"
| "table (StoryChanged _) = Stories_table"
| "table (StoryDeleted _) = Stories_table"
| "table (CommunityChanged _) = Communities_table"
| "table (BotRegistryChanged _ _ _) = Bots_table"
| "table (MiniAppInstalled _) = Mini_Apps_table"
| "table (MiniAppGrantUpdated _) = Mini_Apps_table"
| "table (MiniAppOpened _) = Mini_Apps_table"
| "table (MiniAppResponded _ _ _) = Mini_Apps_table"

primrec footprint :: "Command \<Rightarrow> Table list" where
  "footprint (UpsertActor _) = [Actors_table]"
| "footprint (SetPresence _ _) = [Actors_table]"
| "footprint (UpsertConversation _) = [Conversations_table]"
| "footprint (UpdateConversationInfo _ _ _) = [Conversations_table]"
| "footprint (SetConversationParticipant _ _) = [Conversations_table, Communities_table]"
| "footprint (RemoveConversationParticipant _ _) = [Conversations_table, Communities_table]"
| "footprint (ArchiveConversation _ _) = [Conversations_table]"
| "footprint (PinConversation _ _) = [Conversations_table]"
| "footprint (SetMarkedUnread _ _ _) = [Conversations_table]"
| "footprint (SetDraft _) = [Drafts_table]"
| "footprint (SetConversationNotifications _ _) = [Conversations_table]"
| "footprint (SetConversationMessageRetention _ _ _) = [Conversations_table]"
| "footprint (UpsertFolder _) = [Folders_table]"
| "footprint (DeleteFolder _) = [Folders_table]"
| "footprint (QueueMessage _ _ _ _ _ _ _ _ _ _ _) = [Messages_table]"
| "footprint (ForwardMessage _ _ _ _ _ _ _) = [Messages_table]"
| "footprint (AcknowledgeMessage _ _ _ _) = [Messages_table]"
| "footprint (SetDeliveryState _ _ _) = [Messages_table]"
| "footprint (EditMessage _ _ _ _) = [Messages_table]"
| "footprint (DeleteMessages _ _) = [Messages_table]"
| "footprint (MarkRead _ _ _) = [Cursors_table]"
| "footprint (MarkTopicRead _ _ _ _) = [Cursors_table]"
| "footprint (SetTopicDraft _) = [Drafts_table]"
| "footprint (SetReaction _ _ _) = [Messages_table]"
| "footprint (PinMessage _ _ _) = [Messages_table]"
| "footprint (VotePoll _ _ _ _) = [Messages_table]"
| "footprint (CreateInvoice _) = [Invoices_table]"
| "footprint (UpsertOrder _) = [Orders_table]"
| "footprint (CheckoutInvoice _ _ _ _ _) = [Wallet_table, Orders_table]"
| "footprint (RefundOrder _ _ _ _) = [Wallet_table, Orders_table]"
| "footprint (CreditWalletSettlement _ _ _ _ _) = [Wallet_table]"
| "footprint (PublishStory _ _) = [Stories_table]"
| "footprint (DeleteStory _ _) = [Stories_table]"
| "footprint (ViewStory _ _ _) = [Stories_table]"
| "footprint (ReactStory _ _ _) = [Stories_table]"
| "footprint (UpdateCommunity _ _) = [Communities_table]"
| "footprint (SubscribeChannel _ _ _) = [Communities_table]"
| "footprint (UnsubscribeChannel _ _ _) = [Communities_table]"
| "footprint (SetCommunitySlowMode _ _ _ _) = [Communities_table]"
| "footprint (ModerateCommunityMember _ _ _ _ _) = [Communities_table, Conversations_table]"
| "footprint (SetCommunityMember _ _ _) = [Communities_table, Conversations_table]"
| "footprint (CreateInviteLink _ _) = [Communities_table]"
| "footprint (RevokeInviteLink _ _ _ _) = [Communities_table]"
| "footprint (RequestCommunityJoin _ _) = [Communities_table]"
| "footprint (RespondCommunityJoin _ _ _ _ _) = [Communities_table, Conversations_table]"
| "footprint (UpsertForumTopic _ _) = [Communities_table]"
| "footprint (DeleteForumTopic _ _ _) = [Communities_table]"
| "footprint (RegisterBot _ _) = [Bots_table]"
| "footprint (BeginBotInvocation _ _ _) = [Bots_table]"
| "footprint (FinishBotExecution _ _ _ _ _) = [Bots_table]"
| "footprint (InstallMiniApp _) = [Mini_Apps_table]"
| "footprint (GrantMiniApp _) = [Mini_Apps_table]"
| "footprint (OpenMiniApp _) = [Mini_Apps_table]"
| "footprint (MiniAppCall _ _ _) = [Mini_Apps_table]"

definition within :: "Command \<Rightarrow> Event list \<Rightarrow> bool" where
  "within c evs = list_all (\<lambda>ev. table ev \<in> set (footprint c)) evs"

lemma within_simps [simp]:
  "within c []" "within c (ev # evs) \<longleftrightarrow> table ev \<in> set (footprint c) \<and> within c evs"
  by (simp_all add: within_def)

lemma within_participant_events:
  "Conversations_table \<in> set (footprint c) \<Longrightarrow> within c (participant_events s i co a)"
  by (auto simp: participant_events_def split: option.splits)

lemma within_conversations:
  assumes "decide s c = Ok evs"
    and "set (footprint c) \<subseteq> {Actors_table, Conversations_table, Drafts_table, Folders_table,
      Messages_table, Cursors_table}"
  shows "within c evs"
  using assms
  by (cases c)
    (auto simp: decide_conversation_defs result_simps Let_def decide_QueueMessage_def
      decide_ForwardMessage_def decide_AcknowledgeMessage_def decide_SetDeliveryState_def
      decide_EditMessage_def decide_DeleteMessages_def decide_MarkRead_def decide_MarkTopicRead_def
      decide_SetTopicDraft_def decide_SetReaction_def decide_PinMessage_def split: if_split_asm)

lemma within_communities:
  assumes "decide s c = Ok evs" and "Communities_table \<in> set (footprint c)"
  shows "within c evs"
  using assms
  by (cases c)
    (auto simp: decide_SetConversationParticipant_def decide_RemoveConversationParticipant_def
      decide_UpdateCommunity_def decide_SubscribeChannel_def
      decide_UnsubscribeChannel_def decide_SetCommunitySlowMode_def
      decide_ModerateCommunityMember_def decide_SetCommunityMember_def decide_CreateInviteLink_def
      decide_RevokeInviteLink_def decide_RequestCommunityJoin_def decide_UpsertForumTopic_def
      decide_DeleteForumTopic_def result_simps Let_def within_participant_events
      elim!: respond_join_Ok split: if_split_asm option.split_asm)

lemma within_payments:
  assumes "decide s c = Ok evs"
    and "set (footprint c) \<subseteq> {Invoices_table, Orders_table, Wallet_table}"
  shows "within c evs"
  using assms
  by (cases c)
    (auto simp: decide_CreateInvoice_def decide_UpsertOrder_def decide_CheckoutInvoice_def
      decide_RefundOrder_def result_simps elim!: checkout_transfer_Ok credit_settlement_Ok
      split: if_split_asm option.split_asm)

lemma within_services:
  assumes "decide s c = Ok evs"
    and "set (footprint c) \<subseteq> {Stories_table, Bots_table, Mini_Apps_table}"
  shows "within c evs"
  using assms
  by (cases c)
    (auto simp: decide_service_defs result_simps Let_def split: if_split_asm option.split_asm)

lemma decide_within: "decide s c = Ok evs \<Longrightarrow> within c evs"
  using within_conversations [of s c evs] within_communities [of s c evs]
    within_payments [of s c evs] within_services [of s c evs]
  by (cases c) simp_all

section \<open>Frame laws\<close>

locale framed =
  fixes part :: "MessagingState \<Rightarrow> 'a" and tables :: "Table set"
  assumes apply_frame: "table ev \<notin> tables \<Longrightarrow> part (apply_event s ev) = part s"
begin

lemma replay_frame: "\<forall>ev \<in> set evs. table ev \<notin> tables \<Longrightarrow> part (foldl apply_event s evs) = part s"
  by (induction evs arbitrary: s) (simp_all add: apply_frame)

lemma execute_frame: "set (footprint c) \<inter> tables = {} \<Longrightarrow> part (fst (execute s c)) = part s"
proof (cases "decide s c")
  case (Inr evs)
  assume "set (footprint c) \<inter> tables = {}"
  then have "\<forall>ev \<in> set evs. table ev \<notin> tables"
    using decide_within [OF Inr] by (auto simp: within_def list_all_iff)
  with Inr show ?thesis
    by (simp add: engine.exec_state replay_frame)
qed (simp add: engine.exec_state)

end

interpretation wallet: framed s_wallet "{Wallet_table}"
  by unfold_locales (auto simp: apply_wallet split: Event.splits)

interpretation orders: framed s_orders "{Orders_table}"
  by unfold_locales (auto simp: apply_orders split: Event.splits)

interpretation invoices: framed s_invoices "{Invoices_table}"
  by unfold_locales (auto simp: apply_invoices split: Event.splits)

interpretation stories: framed s_stories "{Stories_table}"
  by unfold_locales (auto simp: tables_apply split: Event.splits)

interpretation bots: framed s_bots "{Bots_table}"
  by unfold_locales (auto simp: tables_apply split: Event.splits)

interpretation sessions: framed s_mini_app_sessions "{Mini_Apps_table}"
  by unfold_locales (auto simp: apply_sessions split: Event.splits)

interpretation communities: framed s_communities "{Communities_table, Messages_table}"
  by unfold_locales (auto simp: communities_apply split: Event.splits)

interpretation conversations: framed s_conversations
  "{Conversations_table, Messages_table, Cursors_table, Folders_table}"
  by unfold_locales (auto simp: conversations_apply split: Event.splits)

interpretation messages: framed get_message "{Messages_table}"
  by unfold_locales (auto simp: fun_eq_iff get_message_apply message_after_def split: Event.splits)

end
