(* ===== verification/Engine_Payments.thy ===== *)
theory Engine_Payments
  imports Engine_Footprint
begin

text \<open>
  Payments through the engine: the ledger invariant over runs of commands, the money a command can
  add, what a checkout and a refund do to the balances, and which of them can be repeated.
\<close>

section \<open>The ledger under commands\<close>

definition payments_inv :: "MessagingState \<Rightarrow> bool" where
  "payments_inv s \<longleftrightarrow> keys_ok s \<and> ledger_inv (s_wallet s)"

abbreviation journal_len :: "MessagingState \<Rightarrow> nat" where
  "journal_len s \<equiv> map_len (w_entries (s_wallet s))"

text \<open>What a command adds to the money of a currency: an accepted settlement, once per request.\<close>

definition settled :: "MessagingState \<Rightarrow> Command \<Rightarrow> string \<Rightarrow> int" where
  "settled s command cur =
     (case command of
        CreditWalletSettlement request_id owner_id amount reference settled_at_ms \<Rightarrow>
          if \<not> isl (snd (execute s command)) \<and> entry_for_request (s_wallet s) request_id = None
           \<and> cur = normalize_currency (currency amount)
          then sint (amount_minor amount) else 0
      | _ \<Rightarrow> 0)"

lemma payments_inv_default: "payments_inv MessagingState_default"
  using keys_ok_default ledger_inv_default
  by (simp add: payments_inv_def) (simp add: MessagingState_default_def)

lemma checkout_Ok:
  assumes "decide_CheckoutInvoice s i k b cu t = Ok evs"
  obtains (existing) x iv where "fmlookup (s_orders s) k = Some x" "evs = [OrderUpserted x]"
      "fmlookup (s_invoices s) i = Some iv" "o_invoice_id x = iv_id iv" "o_buyer_id x = b"
  | (paid) iv n w1 w e where "fmlookup (s_orders s) k = None"
      "fmlookup (s_invoices s) i = Some iv" "checked_total_minor iv = Some n" "0 < sint n"
      "opens_accounts (s_wallet s) w1"
      "transfer w1 (''checkout:'' @ k) (wallet_account_id b) (wallet_account_id (iv_seller_id iv))
         (Money_new (iv_currency iv) n) (Some (iv_id iv)) t = (w, Ok e)"
      "evs = [WalletChanged w e, OrderUpserted (checkout_order iv k b cu t n e)]"
proof (cases "fmlookup (s_orders s) k")
  case (Some x)
  then show thesis
    using assms existing by (auto simp: decide_CheckoutInvoice_def result_simps split: if_split_asm)
next
  case None
  then obtain iv n where iv: "fmlookup (s_invoices s) i = Some iv" "checked_total_minor iv = Some n"
    "0 < sint n" and tr: "checkout_transfer s iv k b cu t n = Ok evs"
    using assms by (auto simp: decide_CheckoutInvoice_def result_simps split: if_split_asm)
  show thesis
    using tr by (rule checkout_transfer_Ok) (rule paid [OF None iv])
qed

lemma refund_Ok:
  assumes "decide_RefundOrder s k a r t = Ok evs"
  obtains (refunded_before) x where "fmlookup (s_orders s) k = Some x" "o_status x = Refunded"
      "evs = [OrderUpserted x]"
  | (refunded) x iv i w e where "fmlookup (s_orders s) k = Some x" "o_status x = Paid"
      "fmlookup (s_invoices s) (o_invoice_id x) = Some iv" "iv_seller_id iv = a"
      "o_provider_payment_id x = Some i"
      "refund_transfer (s_wallet s) r i t = (w, Ok e)"
      "evs = [WalletChanged w e, OrderUpserted (x\<lparr>o_status := Refunded, o_updated_at_ms := t\<rparr>)]"
  using assms
  by (auto simp: decide_RefundOrder_def result_simps split: if_split_asm)

text \<open>The wallet after a command: as before, or changed once.\<close>

lemma execute_wallet:
  "s_wallet (fst (execute s c)) = s_wallet s
   \<or> ledger_changed (s_wallet s) (s_wallet (fst (execute s c)))"
proof (cases "decide s c")
  case (Inr evs)
  show ?thesis
  proof (cases "Wallet_table \<in> set (footprint c)")
    case True
    then show ?thesis
      using Inr
      by (cases c)
        (auto simp: engine.exec_state apply_wallet elim!: checkout_Ok refund_Ok credit_settlement_Ok
          intro: operation_ledger_changed)
  next
    case False
    then show ?thesis by (simp add: wallet.execute_frame)
  qed
qed (simp add: engine.exec_state)

interpretation payments: bounded_component "\<lambda>s c. fst (execute s c)" payments_inv journal_len "2 ^ 64 - 1"
proof unfold_locales
  fix s c
  assume *: "payments_inv s" "journal_len s < 2 ^ 64 - 1"
  then have "ledger_inv (s_wallet (fst (execute s c)))
    \<and> journal_len (fst (execute s c)) \<le> Suc (journal_len s)"
    using execute_wallet [of s c] ledger_changed_keeps [of "s_wallet s"]
    by (auto simp: payments_inv_def)
  with * show "payments_inv (fst (execute s c))" "journal_len (fst (execute s c)) \<le> Suc (journal_len s)"
    by (simp_all add: payments_inv_def keys.exec_inv)
qed

lemma opens_accounts_request:
  "opens_accounts w w1 \<Longrightarrow> entry_for_request w1 r = entry_for_request w r"
  by (simp add: entry_for_request_def opens_accounts_keeps cong: option.case_cong)

lemma refund_total:
  assumes "refund_transfer w r k now = (w', Ok e)"
  shows "total_balance w' c = total_balance w c"
  by (cases rule: refund_outcome [of w r k now])
    (use assms in \<open>auto dest: transfer_total [where c = c]\<close>)

lemma settlement_total:
  assumes "decide s (CreditWalletSettlement r a m rf t) = Ok evs"
  shows "total_balance (s_wallet (foldl apply_event s evs)) c = total_balance (s_wallet s) c
    + (if entry_for_request (s_wallet s) r = None \<and> c = normalize_currency (currency m)
       then sint (amount_minor m) else 0)"
proof -
  obtain w1 w e where w1: "opens_accounts (s_wallet s) w1"
      and w: "credit w1 r (wallet_account_id a) m rf t = (w, Ok e)" and evs: "evs = [WalletChanged w e]"
    using assms by (auto elim: credit_settlement_Ok)
  show ?thesis
  proof (cases "entry_for_request w1 r")
    case None
    with w have "total_balance w c = total_balance w1 c
        + (if c = normalize_currency (currency m) then sint (amount_minor m) else 0)"
      by (rule credit_total [rotated])
    with None w1 evs show ?thesis
      by (simp add: apply_wallet opens_accounts_request opens_accounts_keeps)
  next
    case (Some x)
    with w1 w evs show ?thesis
      by (simp add: credit_def apply_wallet opens_accounts_request opens_accounts_keeps)
  qed
qed

text \<open>The money of a currency after a command.\<close>

lemma execute_total:
  "total_balance (s_wallet (fst (execute s c))) cur = total_balance (s_wallet s) cur + settled s c cur"
proof (cases "decide s c")
  case (Inl e)
  then show ?thesis
    by (auto simp: engine.exec_state settled_def engine.exec_result split: Command.splits)
next
  case (Inr evs)
  show ?thesis
  proof (cases "Wallet_table \<in> set (footprint c)")
    case True
    then show ?thesis
      using Inr
      by (cases c)
        (auto simp: settled_def engine.exec_state engine.exec_result settlement_total apply_wallet
          opens_accounts_keeps refund_total dest: transfer_total [where c = cur]
          elim!: checkout_Ok refund_Ok simp del: decide.simps(31))
  next
    case False
    then show ?thesis
      by (cases c) (simp_all add: wallet.execute_frame settled_def)
  qed
qed

section \<open>Invoices\<close>

definition invoices_valid :: "MessagingState \<Rightarrow> bool" where
  "invoices_valid s \<longleftrightarrow> (\<forall>i iv. fmlookup (s_invoices s) i = Some iv \<longrightarrow> Invoice_is_valid iv)"

interpretation valid_invoices: event_invariant decide apply_event execute
  "\<lambda>s. keys_ok s \<and> invoices_valid s" event_ok
  by unfold_locales
    (auto simp: decide_events_ok keys_ok_apply invoices_valid_def apply_invoices
      split: Event.splits if_splits)

lemma uppercase_no_space:
  assumes "is_ascii_uppercase x"
  shows "\<not> ws1 x" "\<not> ws2 x b" "\<not> ws3 x b c" "\<not> ws2 a x" "\<not> ws3 a b x"
proof -
  have "65 \<le> (of_char x :: nat)" "(of_char x :: nat) \<le> 90"
    using assms by (simp_all add: is_ascii_uppercase_def less_eq_char_def)
  then show "\<not> ws1 x" "\<not> ws2 x b" "\<not> ws3 x b c" "\<not> ws2 a x" "\<not> ws3 a b x"
    by (auto simp: ws1_def ws2_def ws3_def)
qed

lemma trim_uppercase: "list_all is_ascii_uppercase u \<Longrightarrow> trim_start u = u \<and> trim_rev u = u"
  by (cases u rule: trim_start.cases) (simp_all add: uppercase_no_space)

lemma normalize_uppercase: "list_all is_ascii_uppercase u \<Longrightarrow> normalize_currency u = u"
  using to_uppercase_id [of u] trim_uppercase [of u] trim_uppercase [of "rev u"]
  by (simp add: normalize_currency_def trim_def to_uppercase_def list_all_iff)

lemma invoice_money:
  assumes "Invoice_is_valid iv"
  shows "normalize_currency (currency (Money_new (iv_currency iv) n)) = iv_currency iv"
    and "amount_minor (Money_new (iv_currency iv) n) = n"
  using assms by (simp_all add: Money_new_valid_currency normalize_uppercase Invoice_is_valid_currency
      Money_new_def to_uppercase_id)

section \<open>Storing an order twice\<close>

lemma order_upsert_same:
  assumes "keys_ok s" "fmlookup (s_orders s) k = Some x"
  shows "apply_event s (OrderUpserted x) = s"
  using assms keys_ok_payment(2) [OF assms]
  by (simp add: apply_event.simps apply_OrderUpserted_def fmupd_same)

section \<open>A state for the witnesses\<close>

definition shop_invoice :: Invoice where
  "shop_invoice =
     \<lparr>iv_id = ''inv'', iv_conversation_id = ConversationId ''c'', iv_seller_id = ActorId ''b'',
      iv_title = ''Book'', iv_description = [], iv_kind = OneTime, iv_currency = ''USD'',
      iv_prices = [\<lparr>pl_label = ''Book'', pl_amount = \<lparr>currency = ''USD'', amount_minor = 250\<rparr>\<rparr>],
      iv_payload = [], iv_provider_id = [], iv_start_parameter = None, iv_request_name = False,
      iv_request_email = False, iv_request_phone = False, iv_request_shipping_address = False,
      iv_flexible_shipping = False, iv_created_at_ms = 0, iv_expires_at_ms = None\<rparr>"

text \<open>The buyer \<open>a\<close> has 10.00, the seller \<open>b\<close> nothing, and one invoice over 2.50 is open.\<close>

definition shop :: MessagingState where
  "shop = MessagingState_default
     \<lparr>s_actors := fmupd (ActorId ''a'') (Actor_human ''a'' ''Ann'')
                    (fmupd (ActorId ''b'') (Actor_human ''b'' ''Bob'') fmempty),
      s_invoices := fmupd ''inv'' shop_invoice fmempty,
      s_wallet := demo_ledger 1000 0\<rparr>"

lemma shop_invoice_valid: "Invoice_is_valid shop_invoice"
  by (simp add: shop_invoice_def Invoice_is_valid_def checked_total_minor_def checked_add_i64_def
      checked_i64_def Money_is_valid_def is_ascii_uppercase_def less_eq_char_def is_blank_def
      trim_def ws1_def ws2_def ws3_def)

lemma shop_keys: "keys_ok shop"
  by (simp add: shop_def keys_ok_def tables_keyed_def messages_keyed_def drafts_keyed_def
      get_message_def get_draft_def get_topic_draft_def MessagingState_default_def
      shop_invoice_def Actor_human_def Actor_new_def)

lemma shop_payments: "payments_inv shop"
  using shop_keys demo_ledger_inv [of 1000 0] by (simp add: payments_inv_def shop_def)

lemma shop_accounts: "wallet_account_id (ActorId ''a'') = alice" "wallet_account_id (ActorId ''b'') = bob"
  by (simp_all add: wallet_account_id_def alice_def bob_def)

definition shop_entry :: LedgerEntry where
  "shop_entry = transfer_entry (demo_ledger 1000 0) ''checkout:o'' alice bob ''USD'' 250 (Some ''inv'') 3"

definition shop_wallet :: WalletLedger where
  "shop_wallet = insert_entry (moved (demo_ledger 1000 0) alice bob ''USD''
     (demo_account alice 1000) 750 (demo_account bob 0) 250 3) shop_entry"

lemma shop_transfer:
  "transfer (demo_ledger 1000 0) (''checkout:'' @ ''o'') alice bob (Money_new ''USD'' 250) (Some ''inv'') 3 =
     (shop_wallet, Ok shop_entry)"
  by (simp add: demo_eval moved_def transfer_entry_def next_entry_id_def shop_wallet_def shop_entry_def
      Money_new_def to_uppercase_def to_ascii_uppercase_def ascii_upper_def less_eq_char_def)

lemma shop_total: "checked_total_minor shop_invoice = Some 250"
  by (simp add: checked_total_minor_def shop_invoice_def checked_add_i64_def checked_i64_def)

lemma shop_fields [simp]:
  "s_wallet shop = demo_ledger 1000 0" "fmlookup (s_invoices shop) ''inv'' = Some shop_invoice"
  "fmlookup (s_orders shop) k = None" "contains_key (s_actors shop) (ActorId ''a'')"
  "iv_seller_id shop_invoice = ActorId ''b''" "iv_currency shop_invoice = ''USD''"
  "iv_id shop_invoice = ''inv''" "iv_expires_at_ms shop_invoice = None"
  by (simp_all add: shop_def shop_invoice_def MessagingState_default_def)

lemma shop_has_accounts [simp]:
  "contains_key (w_accounts (demo_ledger x y)) alice" "contains_key (w_accounts (demo_ledger x y)) bob"
  by (simp_all add: demo_ledger_def contains_key_def alice_bob)

lemma shop_checkout:
  "decide shop (CheckoutInvoice ''inv'' ''o'' (ActorId ''a'') None 3) =
     Ok [WalletChanged shop_wallet shop_entry,
         OrderUpserted (checkout_order shop_invoice ''o'' (ActorId ''a'') None 3 250 shop_entry)]"
proof -
  have "require_actor shop (ActorId ''a'') = Ok (Actor_human ''a'' ''Ann'')"
    by (simp add: require_actor_def shop_def)
  then show ?thesis
    using shop_transfer
    by (simp add: decide_CheckoutInvoice_def shop_total checkout_transfer_def Let_def shop_accounts
        ensure_wallet_account_def on_wallet_def)
qed

section \<open>Properties\<close>

text \<open>
  C23: the ledger stays sound under every run of commands. Whatever commands the engine executes from
  the empty state, accepted or refused, no balance is negative, ledger entries are numbered without
  gaps and the request index names exactly the entries. The bound is what a \<open>usize\<close> can count.
\<close>

theorem engine_ledger_invariant:
  assumes "length cs \<le> 2 ^ 64 - 1"
  shows "ledger_inv (s_wallet (fst (run_commands execute MessagingState_default cs)))"
proof -
  have "payments_inv (foldl (\<lambda>s c. fst (execute s c)) MessagingState_default cs)"
    by (rule payments.run_inv [OF payments_inv_default])
      (use assms in \<open>simp add: MessagingState_default_def WalletLedger_default_def\<close>)
  then show ?thesis by (simp add: payments_inv_def engine.run_state)
qed

theorem engine_ledger_invariant_witness:
  "ledger_inv (s_wallet (fst (run_commands execute MessagingState_default
     [UpsertActor (Actor_human ''a'' ''Ann''),
      CreditWalletSettlement ''r'' (ActorId ''a'') (usd 5) None 1])))"
  by (rule engine_ledger_invariant) simp

text \<open>
  C1: the only command that adds money is a settlement. After any command the money of every currency
  is what it was before, plus the amount of the command when it is a settlement in that currency
  that was accepted under a new request id. In particular the half-done transfer of an overflowing
  credit never reaches the state of the engine.
\<close>

theorem money_only_from_settlements:
  "total_balance (s_wallet (fst (execute s c))) cur = total_balance (s_wallet s) cur + settled s c cur"
  by (rule execute_total)

text \<open>
  C7: what a checkout does. When the engine accepts the checkout of a valid invoice under a new order,
  the order is stored as paid over the total of the invoice. If the ledger has no entry for the request of
  this checkout, the buyer is not the seller and could pay, exactly the total of the invoice moves from the
  wallet of the buyer to that of the seller, in the currency of the invoice, and no other balance changes.
  If the ledger has one already, which an earlier refund can leave there because it names its request
  freely, then no money moves although the order is stored as paid.
\<close>

theorem checkout_pays_seller:
  assumes "execute s (CheckoutInvoice i k b cu t) = (s', Ok evs)"
    and "fmlookup (s_invoices s) i = Some iv" "Invoice_is_valid iv" "checked_total_minor iv = Some n"
    and "fmlookup (s_orders s) k = None"
  shows "(\<exists>x. fmlookup (s_orders s') k = Some x \<and> o_status x = Paid \<and> o_buyer_id x = b
          \<and> o_amount x = \<lparr>currency = iv_currency iv, amount_minor = n\<rparr>)
    \<and> sint n = (\<Sum>l \<leftarrow> iv_prices iv. sint (amount_minor (pl_amount l)))
    \<and> (if entry_for_request (s_wallet s) (''checkout:'' @ k) = None
       then wallet_account_id b \<noteq> wallet_account_id (iv_seller_id iv)
          \<and> sint n \<le> ledger_balance (s_wallet s) (wallet_account_id b) (iv_currency iv)
          \<and> (\<forall>a c. ledger_balance (s_wallet s') a c = ledger_balance (s_wallet s) a c
                - (if a = wallet_account_id b \<and> c = iv_currency iv then sint n else 0)
                + (if a = wallet_account_id (iv_seller_id iv) \<and> c = iv_currency iv then sint n else 0))
       else (\<forall>a c. ledger_balance (s_wallet s') a c = ledger_balance (s_wallet s) a c))"
proof -
  have d: "decide_CheckoutInvoice s i k b cu t = Ok evs" and s': "s' = foldl apply_event s evs"
    using assms(1) engine.exec_result [of s "CheckoutInvoice i k b cu t"]
      execute_Ok [of s "CheckoutInvoice i k b cu t" evs] by simp_all
  from d show ?thesis
  proof (cases rule: checkout_Ok)
    case (paid iv' n' w1 w e)
    then have eq: "iv' = iv" "n' = n"
      using assms(2,4) by simp_all
    have known: "entry_for_request w1 (''checkout:'' @ k) = entry_for_request (s_wallet s) (''checkout:'' @ k)"
      by (rule opens_accounts_request [OF paid(5)])
    have "o_amount (checkout_order iv k b cu t n e) = \<lparr>currency = iv_currency iv, amount_minor = n\<rparr>"
      using assms(3) by (simp add: checkout_order_def Money_new_def to_uppercase_id Invoice_is_valid_currency)
    then have order: "\<exists>x. fmlookup (s_orders s') k = Some x \<and> o_status x = Paid \<and> o_buyer_id x = b
        \<and> o_amount x = \<lparr>currency = iv_currency iv, amount_minor = n\<rparr>"
      using paid(7) by (simp add: s' eq apply_orders checkout_order_def)
    have wallet: "s_wallet s' = w" using paid(7) by (simp add: s' eq apply_wallet)
    show ?thesis
    proof (cases "entry_for_request (s_wallet s) (''checkout:'' @ k)")
      case None
      note facts = transfer_posted [OF paid(6) [unfolded eq] known [unfolded None], unfolded invoice_money [OF assms(3)]]
      show ?thesis
        using order wallet facts checked_total_minor_sum [OF assms(4)] opens_accounts_keeps(5) [OF paid(5)] None by simp
    next
      case (Some x)
      then have "w = w1" using paid(6) known by (simp add: transfer_def)
      then show ?thesis
        using order wallet checked_total_minor_sum [OF assms(4)] opens_accounts_keeps(5) [OF paid(5)] Some by simp
    qed
  qed (use assms in simp)
qed

theorem checkout_pays_seller_witness:
  "\<exists>s'. execute shop (CheckoutInvoice ''inv'' ''o'' (ActorId ''a'') None 3) =
      (s', Ok [WalletChanged shop_wallet shop_entry,
         OrderUpserted (checkout_order shop_invoice ''o'' (ActorId ''a'') None 3 250 shop_entry)])
    \<and> ledger_balance (s_wallet s') bob ''USD'' = ledger_balance (s_wallet shop) bob ''USD'' + 250"
proof -
  obtain s' where s': "execute shop (CheckoutInvoice ''inv'' ''o'' (ActorId ''a'') None 3) =
      (s', Ok [WalletChanged shop_wallet shop_entry,
         OrderUpserted (checkout_order shop_invoice ''o'' (ActorId ''a'') None 3 250 shop_entry)])"
    by (simp only: execute_def shop_checkout sum.case)
  with checkout_pays_seller [OF s' _ shop_invoice_valid shop_total]
  show ?thesis by (simp add: demo_ledger_frame shop_accounts alice_bob)
qed

text \<open>
  A checkout can be sent again. After an accepted checkout, the same checkout, with any customer
  data and at any time before the invoice expires, is accepted and leaves the whole state as it is:
  nobody pays twice for one order.
\<close>

theorem checkout_idempotent:
  assumes "keys_ok s" "execute s (CheckoutInvoice i k b cu t) = (s1, Ok evs)"
    and "\<forall>iv. fmlookup (s_invoices s) i = Some iv \<longrightarrow>
      (case iv_expires_at_ms iv of None \<Rightarrow> True | Some e \<Rightarrow> sint t' < sint e)"
  shows "\<exists>x. fmlookup (s_orders s1) k = Some x
    \<and> execute s1 (CheckoutInvoice i k b cu' t') = (s1, Ok [OrderUpserted x])"
proof -
  have d: "decide_CheckoutInvoice s i k b cu t = Ok evs" and s1: "s1 = foldl apply_event s evs"
    using assms(2) engine.exec_result [of s "CheckoutInvoice i k b cu t"]
      execute_Ok [of s "CheckoutInvoice i k b cu t" evs] by simp_all
  have keys: "keys_ok s1"
    using keys.exec_inv [OF assms(1), of "CheckoutInvoice i k b cu t"] assms(2) by simp
  have same: "s_invoices s1 = s_invoices s" "s_actors s1 = s_actors s"
    using d invoices.execute_frame [of "CheckoutInvoice i k b cu t" s] assms(2)
    by (auto simp: s1 apply_actors elim!: checkout_Ok)
  obtain x iv where x: "fmlookup (s_orders s1) k = Some x" "o_buyer_id x = b" "o_invoice_id x = iv_id iv"
    and iv: "fmlookup (s_invoices s) i = Some iv"
    using d keys_ok_payment(2) [OF assms(1)]
    by (auto simp: s1 apply_orders checkout_order_def elim!: checkout_Ok)
  obtain a where "fmlookup (s_actors s) b = Some a"
    using d by (auto simp: decide_CheckoutInvoice_def result_simps)
  then have "decide s1 (CheckoutInvoice i k b cu' t') = Ok [OrderUpserted x]"
    using x iv same assms(3)
    by (simp add: decide_CheckoutInvoice_def require_actor_def not_le split: option.splits)
  then show ?thesis
    using x(1) order_upsert_same [OF keys x(1)] by (simp add: execute_def)
qed

theorem checkout_idempotent_witness:
  "\<exists>s1 evs x. execute shop (CheckoutInvoice ''inv'' ''o'' (ActorId ''a'') None 3) = (s1, Ok evs)
    \<and> execute s1 (CheckoutInvoice ''inv'' ''o'' (ActorId ''a'') None 99) = (s1, Ok [OrderUpserted x])"
proof -
  obtain s1 evs where s1: "execute shop (CheckoutInvoice ''inv'' ''o'' (ActorId ''a'') None 3) = (s1, Ok evs)"
    by (simp only: execute_def shop_checkout sum.case)
  with checkout_idempotent [OF shop_keys s1, of 99 None] show ?thesis by auto
qed

text \<open>
  A refund is final. Once the engine has accepted a refund of an order, the order is stored as
  refunded, and a further refund by the same seller under any request id is accepted and leaves the
  whole state as it is, so the ledger's own lack of a mark cannot be used to refund twice.
\<close>

theorem refund_final:
  assumes "keys_ok s" "execute s (RefundOrder k a r t) = (s1, Ok evs)"
  shows "\<exists>x. fmlookup (s_orders s1) k = Some x \<and> o_status x = Refunded
    \<and> execute s1 (RefundOrder k a r' t') = (s1, Ok [OrderUpserted x])"
proof -
  have d: "decide_RefundOrder s k a r t = Ok evs" and s1: "s1 = foldl apply_event s evs"
    using assms(2) engine.exec_result [of s "RefundOrder k a r t"]
      execute_Ok [of s "RefundOrder k a r t" evs] by simp_all
  have keys: "keys_ok s1"
    using keys.exec_inv [OF assms(1), of "RefundOrder k a r t"] assms(2) by simp
  have same: "s_invoices s1 = s_invoices s"
    using invoices.execute_frame [of "RefundOrder k a r t" s] assms(2) by simp
  obtain x iv where x: "fmlookup (s_orders s1) k = Some x" "o_status x = Refunded"
    and iv: "fmlookup (s_invoices s) (o_invoice_id x) = Some iv" "iv_seller_id iv = a"
    using d keys_ok_payment(2) [OF assms(1)]
    by (auto simp: s1 apply_orders decide_RefundOrder_def result_simps split: if_split_asm)
  then have "decide s1 (RefundOrder k a r' t') = Ok [OrderUpserted x]"
    by (simp add: decide_RefundOrder_def same)
  then show ?thesis
    using x order_upsert_same [OF keys x(1)] by (simp add: execute_def)
qed

text \<open>
  What an accepted refund does to the money. For a paid order whose payment is a transfer of the
  ledger, under a new request id, it moves exactly the transferred amount from the payee back to the
  payer and touches no other balance.
\<close>

theorem refund_returns_money:
  assumes "execute s (RefundOrder k a r t) = (s', Ok evs)"
    and "fmlookup (s_orders s) k = Some x" "o_status x = Paid" "o_provider_payment_id x = Some i"
    and "fmlookup (w_entries (s_wallet s)) i = Some e"
    and "le_from_account_id e = Some payer" "le_to_account_id e = Some payee"
    and "entry_for_request (s_wallet s) r = None"
  shows "ledger_balance (s_wallet s') acc c = ledger_balance (s_wallet s) acc c
    - (if acc = payee \<and> c = normalize_currency (currency (le_amount e)) then sint (amount_minor (le_amount e)) else 0)
    + (if acc = payer \<and> c = normalize_currency (currency (le_amount e)) then sint (amount_minor (le_amount e)) else 0)"
proof -
  have "decide_RefundOrder s k a r t = Ok evs" and s': "s' = foldl apply_event s evs"
    using assms(1) engine.exec_result [of s "RefundOrder k a r t"]
      execute_Ok [of s "RefundOrder k a r t" evs] by simp_all
  then obtain w y where w: "refund_transfer (s_wallet s) r i t = (w, Ok y)" and "s_wallet s' = w"
    using assms(2,3,4) by (auto simp: apply_wallet elim!: refund_Ok)
  show ?thesis
  proof (cases rule: refund_outcome [of "s_wallet s" r i t])
    case (refunded original f d w' z)
    then have "original = e" "f = payer" "d = payee"
      and same: "ledger_balance (s_wallet s') acc c = ledger_balance w' acc c"
      using assms(5-7) w \<open>s_wallet s' = w\<close> by (auto simp: ledger_balance_def)
    with transfer_posted(4) [OF refunded(6,1), of acc c] show ?thesis by simp
  qed (use w assms(8) in simp_all)
qed

definition sold :: MessagingState where
  "sold = fst (execute shop (CheckoutInvoice ''inv'' ''o'' (ActorId ''a'') None 3))"

lemma sold_eq:
  "sold = shop\<lparr>s_wallet := shop_wallet, s_orders := fmupd ''o''
     (checkout_order shop_invoice ''o'' (ActorId ''a'') None 3 250 shop_entry) (s_orders shop)\<rparr>"
  unfolding sold_def execute_def shop_checkout
  by (simp add: apply_event.simps apply_WalletChanged_def apply_OrderUpserted_def checkout_order_def)

lemma sold_keys: "keys_ok sold"
  unfolding sold_def by (rule keys.exec_inv [OF shop_keys])

lemma shop_entry_fields [simp]:
  "le_from_account_id shop_entry = Some alice" "le_to_account_id shop_entry = Some bob"
  "le_amount shop_entry = \<lparr>currency = ''USD'', amount_minor = 250\<rparr>" "le_kind shop_entry = Transfer"
  "le_id shop_entry = ''ledger:1''" "le_request_id shop_entry = ''checkout:o''"
  by (simp_all add: shop_entry_def transfer_entry_def next_entry_id_def demo_ledger_def
      saturating_add_usize_def show_nat.simps digit_char_def char_of_def bit_iff_odd)

lemma sold_refund:
  "\<exists>s1 evs. execute sold (RefundOrder ''o'' (ActorId ''b'') ''back'' 9) = (s1, Ok evs)"
proof -
  obtain w y where "refund_transfer shop_wallet ''back'' ''ledger:1'' 9 = (w, Ok y)"
    by (simp add: refund_transfer_def demo_eval shop_wallet_def moved_def insert_entry_def)
  then have "\<exists>evs. decide sold (RefundOrder ''o'' (ActorId ''b'') ''back'' 9) = Ok evs"
    by (simp add: decide_RefundOrder_def sold_eq checkout_order_def on_wallet_def)
  then show ?thesis by (auto simp: execute_def)
qed

theorem refund_final_witness:
  "\<exists>s1 evs x. execute sold (RefundOrder ''o'' (ActorId ''b'') ''back'' 9) = (s1, Ok evs)
    \<and> execute s1 (RefundOrder ''o'' (ActorId ''b'') ''again'' 10) = (s1, Ok [OrderUpserted x])"
  using sold_refund refund_final [OF sold_keys] by blast

theorem refund_returns_money_witness:
  "\<exists>s1 evs. execute sold (RefundOrder ''o'' (ActorId ''b'') ''back'' 9) = (s1, Ok evs)
    \<and> ledger_balance (s_wallet s1) alice ''USD'' = ledger_balance (s_wallet sold) alice ''USD'' + 250"
proof -
  obtain s1 evs where s1: "execute sold (RefundOrder ''o'' (ActorId ''b'') ''back'' 9) = (s1, Ok evs)"
    using sold_refund by blast
  have "entry_for_request shop_wallet ''back'' = None"
    by (simp add: shop_wallet_def entry_for_request_def demo_ledger_def)
  with refund_returns_money [OF s1, of _ "''ledger:1''" shop_entry alice bob alice "''USD''"] s1
  show ?thesis
    by (auto simp: sold_eq checkout_order_def shop_wallet_def normalize_usd alice_bob)
qed

text \<open>
  A refund under a used request id refunds nothing. When the request id of a refund already names
  a ledger entry, say that of the checkout itself, the engine stores the order as refunded and the
  wallet stays as it is: the buyer does not get the money back, and by the finality of refunds
  never will.
\<close>

theorem refund_with_used_request:
  assumes "fmlookup (s_orders s) k = Some x" "o_status x = Paid" "o_provider_payment_id x = Some i"
    and "fmlookup (s_invoices s) (o_invoice_id x) = Some iv"
    and "entry_for_request (s_wallet s) r = Some e" and "o_id x = k"
  shows "\<exists>s' evs. execute s (RefundOrder k (iv_seller_id iv) r t) = (s', Ok evs)
    \<and> s_wallet s' = s_wallet s
    \<and> fmlookup (s_orders s') k = Some (x\<lparr>o_status := Refunded, o_updated_at_ms := t\<rparr>)"
proof -
  have "decide s (RefundOrder k (iv_seller_id iv) r t) =
    Ok [WalletChanged (s_wallet s) e, OrderUpserted (x\<lparr>o_status := Refunded, o_updated_at_ms := t\<rparr>)]"
    using assms by (simp add: decide_RefundOrder_def refund_transfer_def on_wallet_def)
  with assms(6) show ?thesis
    by (simp add: execute_def apply_wallet apply_orders)
qed

theorem refund_with_used_request_witness:
  "\<exists>s' evs. execute sold (RefundOrder ''o'' (ActorId ''b'') ''checkout:o'' 9) = (s', Ok evs)
    \<and> s_wallet s' = s_wallet sold \<and> s' \<noteq> sold"
proof -
  have "entry_for_request shop_wallet ''checkout:o'' = Some shop_entry"
    by (simp add: shop_wallet_def entry_for_request_def demo_ledger_def)
  then obtain s' evs where s': "execute sold (RefundOrder ''o'' (ActorId ''b'') ''checkout:o'' 9) = (s', Ok evs)"
      "s_wallet s' = s_wallet sold"
    and "fmlookup (s_orders s') ''o'' = Some ((checkout_order shop_invoice ''o'' (ActorId ''a'') None 3 250 shop_entry)
       \<lparr>o_status := Refunded, o_updated_at_ms := 9\<rparr>)"
    using refund_with_used_request [of sold "''o''"
        "checkout_order shop_invoice ''o'' (ActorId ''a'') None 3 250 shop_entry" "''ledger:1''"
        shop_invoice "''checkout:o''" shop_entry 9]
    by (auto simp: sold_eq checkout_order_def)
  moreover then have "s' \<noteq> sold"
    by (auto simp: sold_eq checkout_order_def)
  ultimately show ?thesis by blast
qed

end
