(* ===== verification/Engine_Messages.thy ===== *)
theory Engine_Messages
  imports Engine_Footprint
begin

text \<open>
  Properties of messages: who may send, slow mode, secret conversations, expiry, the life of a
  message under all commands, acknowledgement, polls, drafts and read cursors.
\<close>

section \<open>Accepted messages\<close>

definition queued_message ::
  "ConversationId \<Rightarrow> MessageId \<Rightarrow> ClientMessageId \<Rightarrow> ActorId \<Rightarrow> MessageContent \<Rightarrow> MessageId option \<Rightarrow>
     MessageId option \<Rightarrow> i64 \<Rightarrow> i64 option \<Rightarrow> bool \<Rightarrow> bool \<Rightarrow> i64 option \<Rightarrow> Message"
where
  "queued_message c m k a x rp rt t sc si pr expiry =
     \<lparr>m_id = m, m_conversation_id = c, m_sender_id = a, m_content = x, m_reply_to_message_id = rp,
      m_thread_root_message_id = rt, m_forward_origin = None, m_reply_markup = None, m_reactions = [],
      m_delivery_state = Pending k, m_created_at_ms = t, m_edited_at_ms = None,
      m_scheduled_at_ms = sc, m_expires_at_ms = expiry, m_silent = si,
      m_protected_content = (pr \<or> is_secret_content x), m_pinned = False, m_deleted = False\<rparr>"

lemma queue_Ok:
  assumes "decide s (QueueMessage c m k a x rp rt t sc si pr) = Ok evs"
  obtains conv expiry where "fmlookup (s_conversations s) c = Some conv"
    and "contains_key (s_actors s) a"
    and "queue_check_permissions conv c a x = Ok ()" and "queue_check_restrictions s c a x = Ok ()"
    and "queue_check_channel s conv c a = Ok ()" and "queue_check_community s c a rt t = Ok ()"
    and "queue_check_secret conv c a x = Ok ()" and "get_message s c m = None"
    and "message_expiry (c_message_retention_seconds conv) (case sc of None \<Rightarrow> t | Some u \<Rightarrow> u) = Ok expiry"
    and "evs = [MessageQueued (queued_message c m k a x rp rt t sc si pr expiry)]"
  using assms that
  by (auto simp: decide_QueueMessage_def result_simps contains_key_def queued_message_def)

lemma execute_queue:
  assumes "execute s (QueueMessage c m k a x rp rt t sc si pr) = (s', Ok evs)"
  shows "decide s (QueueMessage c m k a x rp rt t sc si pr) = Ok evs" "s' = foldl apply_event s evs"
  using assms engine.exec_result [of s "QueueMessage c m k a x rp rt t sc si pr"]
    execute_Ok [of s "QueueMessage c m k a x rp rt t sc si pr" evs] by simp_all

lemma message_expiry_Ok_iff [result_simps]:
  "message_expiry r t = Ok e \<longleftrightarrow>
     (case r of
        None \<Rightarrow> e = None
      | Some n \<Rightarrow> n \<noteq> 0 \<and> (\<exists>u. e = Some u \<and> sint u = sint t + uint n * 1000))"
  by (auto simp: message_expiry_def result_simps split: option.splits)

subsection \<open>Slow mode\<close>

lemma messages_of_iff: "x \<in> set (messages_of s c) \<longleftrightarrow> (\<exists>m. get_message s c m = Some x)"
  by (cases "fmlookup (s_messages s) c") (auto simp: messages_of_def get_message_def map_values_iff)

lemma clamp_id: "- (2 ^ 63) \<le> v \<Longrightarrow> v < 2 ^ 63 \<Longrightarrow> max (- (2 ^ 63)) (min (2 ^ 63 - 1) v) = (v :: int)"
  by simp

lemma clamp_above: "- (2 ^ 63) \<le> v \<Longrightarrow> max (- (2 ^ 63)) (min (2 ^ 63 - 1) v) = min (2 ^ 63 - 1) (v :: int)"
  by simp

lemma sint_retry_at:
  "sint (slow_mode_retry_at x n) = min (2 ^ 63 - 1) (sint (m_created_at_ms x) + uint n * 1000)"
proof -
  have n: "- (2 ^ 63) \<le> uint n * 1000" "uint n * 1000 < 2 ^ 63"
    using uint_lt2p [of n] by (auto intro: order_trans [of _ 0])
  have "sint (saturating_mul_i64 (i64_from_u32 n) 1000) = uint n * 1000"
    using clamp_id [OF n] by (simp add: saturating_mul_i64_def sint_saturated_i64 sint_i64_from_u32)
  moreover have "- (2 ^ 63) \<le> sint (m_created_at_ms x) + uint n * 1000"
    using sint_i64_bounds(1) [of "m_created_at_ms x"] uint_ge_0 [of n] by linarith
  from clamp_above [OF this]
  have "sint (saturated_i64 (sint (m_created_at_ms x) + uint n * 1000)) =
      min (2 ^ 63 - 1) (sint (m_created_at_ms x) + uint n * 1000)"
    by (simp add: sint_saturated_i64)
  ultimately show ?thesis
    by (simp add: slow_mode_retry_at_def saturating_add_i64_def)
qed

lemma slow_mode_Ok:
  assumes "queue_check_slow_mode s co c a t = Ok ()" "co_slow_mode_seconds co = Some n"
    and "\<not> can_moderate co a" "get_message s c m = Some x" "counts_for_slow_mode a t x"
  shows "min (2 ^ 63 - 1) (sint (m_created_at_ms x) + uint n * 1000) \<le> sint t"
proof -
  let ?xs = "filter (counts_for_slow_mode a t) (messages_of s c)"
  have x: "x \<in> set ?xs"
    using assms(4,5) by (auto simp: messages_of_iff)
  then obtain y where y: "latest_sender_message s c a t = Some y"
    unfolding latest_sender_message_def by (metis max_by_key_None_iff empty_iff empty_set not_None_eq)
  have "(sint (m_created_at_ms x), m_id x) \<le> (sint (m_created_at_ms y), m_id y)"
    using max_by_key_Some [OF y [unfolded latest_sender_message_def]] x by blast
  then have "sint (m_created_at_ms x) \<le> sint (m_created_at_ms y)"
    by (auto simp: less_eq_prod_def)
  moreover have "sint (slow_mode_retry_at y n) \<le> sint t"
    using assms(1-3) y by (auto simp: queue_check_slow_mode_def Let_def not_less split: if_splits)
  ultimately show ?thesis
    by (auto simp: sint_retry_at)
qed

section \<open>A conversation for the witnesses\<close>

abbreviation olga :: ActorId where
  "olga \<equiv> ActorId ''o''"

abbreviation uma :: ActorId where
  "uma \<equiv> ActorId ''u''"

abbreviation room :: ConversationId where
  "room \<equiv> ConversationId ''g''"

abbreviation hello :: MessageContent where
  "hello \<equiv> ContentText (FormattedText_plain ''hello'')"

definition room_member :: "ActorId \<Rightarrow> MemberStatus \<Rightarrow> CommunityMember" where
  "room_member a st =
     \<lparr>cm_actor_id = a, cm_status = st, cm_admin_title = None, cm_admin_rights = AdminRights_default,
      cm_restrictions = MemberRestrictions_default, cm_joined_at_ms = 0, cm_invited_by = None\<rparr>"

text \<open>The owner \<open>o\<close> and \<open>u\<close>, who has the given status and wrote one message at time 0.\<close>

definition room_community :: "MemberStatus \<Rightarrow> u32 option \<Rightarrow> CommunityState" where
  "room_community st n =
     (CommunityState_new room)\<lparr>co_slow_mode_seconds := n,
        co_members := fmupd uma (room_member uma st) (fmupd olga (room_member olga StatusOwner) fmempty)\<rparr>"

definition first_message :: "MessageContent \<Rightarrow> Message" where
  "first_message x =
     queued_message room (MessageId ''m'') (ClientMessageId ''k'') uma x None None 0 None False False None"

definition chat :: "ConversationKind \<Rightarrow> CommunityState option \<Rightarrow> MessageContent \<Rightarrow> MessagingState" where
  "chat kind co x = MessagingState_default
     \<lparr>s_actors := fmupd olga (Actor_human ''o'' ''Olga'') (fmupd uma (Actor_human ''u'' ''Uma'') fmempty),
      s_conversations := fmupd room
        ((Conversation_direct ''g'' ''Room''
            [\<lparr>p_actor_id = olga, p_role = RoleOwner, p_joined_at_ms = 0, p_muted_until_ms = None\<rparr>,
             \<lparr>p_actor_id = uma, p_role = RoleMember, p_joined_at_ms = 0, p_muted_until_ms = None\<rparr>] 0)
           \<lparr>c_kind := kind, c_owner_id := Some olga\<rparr>) fmempty,
      s_communities := (case co of None \<Rightarrow> fmempty | Some y \<Rightarrow> fmupd room y fmempty),
      s_messages := fmupd room (fmupd (MessageId ''m'') (first_message x) fmempty) fmempty\<rparr>"

lemma map_values_single [simp]: "map_values (fmupd k v fmempty) = [v]"
  by (simp add: map_values_def map_keys_def sorted_list_of_fset.rep_eq)

lemma not_blank_k [simp]: "\<not> is_blank ''k''"
  by (simp add: is_blank_def trim_def ws1_def)

lemmas chat_eval =
  chat_def room_community_def room_member_def first_message_def queued_message_def
  Conversation_direct_def CommunityState_new_def ConversationPermissions_default_def
  MessagingState_default_def AdminRights_default_def MemberRestrictions_default_def

lemmas queue_eval =
  decide_QueueMessage_def queue_check_permissions_def queue_check_restrictions_def
  queue_check_channel_def queue_check_community_def queue_check_topic_def
  queue_check_slow_mode_def latest_sender_message_def counts_for_slow_mode_def messages_of_def
  slow_mode_retry_at_def queue_check_secret_def check_new_message_def message_expiry_def
  require_conversation_def require_actor_def community_member_def is_participant_def is_poll_def
  message_content_uses_media_def is_secret_content_def is_service_content_def can_moderate_def

lemma chat_keys: "co = None \<or> (\<exists>y. co = Some y \<and> co_conversation_id y = room) \<Longrightarrow> keys_ok (chat kind co x)"
  by (auto simp: keys_ok_def tables_keyed_def messages_keyed_def drafts_keyed_def get_message_def
      get_draft_def get_topic_draft_def chat_eval Actor_human_def Actor_new_def split: if_splits)

lemma chat_message [simp]: "get_message (chat kind co x) room (MessageId ''m'') = Some (first_message x)"
  by (simp add: get_message_def chat_def)

lemma room_queue_later:
  "\<exists>s' evs. execute (chat Group (Some (room_community StatusMember (Some 10))) hello)
     (QueueMessage room (MessageId ''n'') (ClientMessageId ''k'') uma hello None None 10000 None False False)
     = (s', Ok evs)"
  by (simp add: execute_def queue_eval chat_eval get_message_def saturating_add_i64_def
      saturating_mul_i64_def saturated_i64_def i64_from_u32_def)

text \<open>
  Slow mode keeps messages apart. When a community has slow mode of \<open>n\<close> seconds and the engine
  accepts a message of a sender who is no moderator, then every earlier message of that sender in
  the conversation that is not deleted and not scheduled for later was created at least \<open>n\<close> seconds
  before (or the sum left the 64-bit range and the new message carries the last instant).
\<close>

theorem slow_mode_spacing:
  assumes "execute s (QueueMessage c m k a x rp rt t sc si pr) = (s', Ok evs)"
    and "fmlookup (s_communities s) c = Some co" "co_slow_mode_seconds co = Some n" "\<not> can_moderate co a"
    and "get_message s c m' = Some y" "m_sender_id y = a" "\<not> m_deleted y"
    and "case m_scheduled_at_ms y of None \<Rightarrow> True | Some u \<Rightarrow> sint u \<le> sint t"
  shows "min (2 ^ 63 - 1) (sint (m_created_at_ms y) + uint n * 1000) \<le> sint t"
proof -
  have "queue_check_community s c a rt t = Ok ()"
    using execute_queue(1) [OF assms(1)] by (rule queue_Ok)
  then have "queue_check_slow_mode s co c a t = Ok ()"
    using assms(2) by (auto simp: queue_check_community_def result_simps)
  then show ?thesis
    by (rule slow_mode_Ok [OF _ assms(3,4,5)]) (use assms(6-8) in \<open>simp add: counts_for_slow_mode_def\<close>)
qed

theorem slow_mode_spacing_witness:
  "min (2 ^ 63 - 1) (sint (m_created_at_ms (first_message hello)) + uint (10 :: u32) * 1000) \<le> sint (10000 :: i64)"
proof -
  obtain s' evs where "execute (chat Group (Some (room_community StatusMember (Some 10))) hello)
     (QueueMessage room (MessageId ''n'') (ClientMessageId ''k'') uma hello None None 10000 None False False)
     = (s', Ok evs)"
    using room_queue_later by blast
  from slow_mode_spacing [OF this _ _ _ chat_message] show ?thesis
    by (simp add: chat_eval can_moderate_def)
qed

subsection \<open>Members who left or were banned\<close>

lemma removed_member_refused:
  assumes "fmlookup (s_communities s) c = Some co" "fmlookup (co_members co) a = Some mem"
    and "cm_status mem = StatusLeft \<or> cm_status mem = StatusBanned"
  shows "\<exists>e. execute s (QueueMessage c m k a x rp rt t sc si pr) = (s, Err e)"
proof (cases "decide s (QueueMessage c m k a x rp rt t sc si pr)")
  case (Inl e)
  then show ?thesis by (simp add: execute_def)
next
  case (Inr evs)
  then have "queue_check_restrictions s c a x = Ok ()" by (rule queue_Ok)
  then show ?thesis
    using assms by (auto simp: queue_check_restrictions_def community_member_def split: if_splits)
qed

text \<open>
  Nobody sends after leaving. In a conversation with a community, a message of an actor whose
  member record says left or banned is refused, whatever its content and however the actor is still
  listed among the participants, and the refusal changes nothing.
\<close>

theorem removed_member_cannot_send:
  assumes "fmlookup (s_communities s) c = Some co" "fmlookup (co_members co) a = Some mem"
    and "cm_status mem = StatusLeft \<or> cm_status mem = StatusBanned"
  shows "\<exists>e. execute s (QueueMessage c m k a x rp rt t sc si pr) = (s, Err e)"
  using assms by (rule removed_member_refused)

theorem removed_member_cannot_send_witness:
  "\<exists>e. execute (chat Group (Some (room_community StatusBanned None)) hello)
     (QueueMessage room (MessageId ''n'') (ClientMessageId ''k'') uma hello None None 10000 None False False)
     = (chat Group (Some (room_community StatusBanned None)) hello, Err e)"
  by (rule removed_member_cannot_send [of _ room "room_community StatusBanned None" uma
        "room_member uma StatusBanned"]) (simp_all add: chat_eval)

subsection \<open>Secret conversations\<close>

text \<open>
  What enters a secret conversation when it is sent. An accepted message of a secret conversation
  is a service message or carries an encrypted envelope made for this conversation, by its sender,
  for another participant; and secret content is only accepted in secret conversations and always
  stored protected.
\<close>

theorem secret_conversation_content:
  assumes "execute s (QueueMessage c m k a x rp rt t sc si pr) = (s', Ok evs)"
    and "fmlookup (s_conversations s) c = Some conv"
  shows "(c_kind conv = Secret \<longrightarrow> is_service_content x \<or> is_secret_content x)
    \<and> (\<forall>env. x = ContentSecret env \<longrightarrow>
        c_kind conv = Secret \<and> es_conversation_id env = c \<and> es_sender_id env = a
      \<and> is_participant conv a \<and> is_participant conv (es_recipient_id env) \<and> es_recipient_id env \<noteq> a
      \<and> (\<exists>y. get_message s' c m = Some y \<and> m_content y = x \<and> m_protected_content y))"
proof -
  obtain conv' expiry where "fmlookup (s_conversations s) c = Some conv'"
    and check: "queue_check_secret conv' c a x = Ok ()"
    and evs: "evs = [MessageQueued (queued_message c m k a x rp rt t sc si pr expiry)]"
    using execute_queue(1) [OF assms(1)] by (rule queue_Ok)
  then have conv: "conv' = conv" using assms(2) by simp
  have "get_message s' c m = Some (queued_message c m k a x rp rt t sc si pr expiry)"
    by (simp add: execute_queue(2) [OF assms(1)] evs get_message_apply message_after_def
        queued_message_def)
  then show ?thesis
    using check [unfolded conv]
    by (auto simp: queue_check_secret_def queued_message_def is_secret_content_def split: if_splits)
qed

definition room_envelope :: EncryptedSecretMessage where
  "room_envelope =
     \<lparr>es_version = 1, es_algorithm = ''x'', es_conversation_id = room, es_epoch = 0,
      es_sender_id = uma, es_recipient_id = olga, es_counter = 0, es_nonce_base64 = [],
      es_ciphertext_base64 = []\<rparr>"

lemma room_queue_secret:
  "\<exists>s' evs. execute (chat Secret None (ContentService ''s'' None))
     (QueueMessage room (MessageId ''n'') (ClientMessageId ''k'') uma (ContentSecret room_envelope)
        None None 10000 None False False) = (s', Ok evs)"
  by (simp add: execute_def queue_eval chat_eval get_message_def room_envelope_def)

theorem secret_conversation_content_witness:
  "\<exists>s' evs y. execute (chat Secret None (ContentService ''s'' None))
     (QueueMessage room (MessageId ''n'') (ClientMessageId ''k'') uma (ContentSecret room_envelope)
        None None 10000 None False False) = (s', Ok evs)
   \<and> get_message s' room (MessageId ''n'') = Some y \<and> m_protected_content y"
proof -
  obtain s' evs where s': "execute (chat Secret None (ContentService ''s'' None))
     (QueueMessage room (MessageId ''n'') (ClientMessageId ''k'') uma (ContentSecret room_envelope)
        None None 10000 None False False) = (s', Ok evs)"
    using room_queue_secret by blast
  with secret_conversation_content [OF s'] show ?thesis
    by (auto simp: chat_def)
qed

text \<open>
  Protected content is not forwarded. Whatever the destination and the sender, forwarding a
  protected message, such as an encrypted one, is refused and changes nothing.
\<close>

theorem protected_never_forwarded:
  assumes "get_message s c m = Some y" "m_protected_content y"
  shows "\<exists>e. execute s (ForwardMessage c m c' m' k a t) = (s, Err e)"
proof (cases "decide s (ForwardMessage c m c' m' k a t)")
  case (Inr evs)
  then show ?thesis
    using assms by (auto simp: decide_ForwardMessage_def result_simps)
qed (simp add: execute_def)

theorem protected_never_forwarded_witness:
  "\<exists>s' evs e. execute (chat Secret None (ContentService ''s'' None))
     (QueueMessage room (MessageId ''n'') (ClientMessageId ''k'') uma (ContentSecret room_envelope)
        None None 10000 None False False) = (s', Ok evs)
   \<and> execute s' (ForwardMessage room (MessageId ''n'') room (MessageId ''f'') (ClientMessageId ''k'') uma 1)
       = (s', Err e)"
proof -
  obtain s' evs y where s': "execute (chat Secret None (ContentService ''s'' None))
     (QueueMessage room (MessageId ''n'') (ClientMessageId ''k'') uma (ContentSecret room_envelope)
        None None 10000 None False False) = (s', Ok evs)"
    and y: "get_message s' room (MessageId ''n'') = Some y" "m_protected_content y"
  proof -
    obtain s' evs where s': "execute (chat Secret None (ContentService ''s'' None))
       (QueueMessage room (MessageId ''n'') (ClientMessageId ''k'') uma (ContentSecret room_envelope)
          None None 10000 None False False) = (s', Ok evs)"
      using room_queue_secret by blast
    obtain expiry where "evs = [MessageQueued (queued_message room (MessageId ''n'') (ClientMessageId ''k'') uma
        (ContentSecret room_envelope) None None 10000 None False False expiry)]"
      using execute_queue(1) [OF s'] by (rule queue_Ok)
    then show thesis
      by (intro that [OF s', of "queued_message room (MessageId ''n'') (ClientMessageId ''k'') uma
          (ContentSecret room_envelope) None None 10000 None False False expiry"])
        (simp_all add: execute_queue(2) [OF s'] get_message_apply message_after_def
          queued_message_def is_secret_content_def)
  qed
  with protected_never_forwarded [OF y] show ?thesis by blast
qed

text \<open>
  Editing is not covered by the rule for secret conversations. The edit of any message is
  accepted with any content and stored, so plain text can be put into a secret conversation after a
  message was accepted there.
\<close>

theorem edit_stores_any_content:
  assumes "get_message s c m = Some y"
  shows "\<exists>s' evs. execute s (EditMessage c m x t) = (s', Ok evs)
    \<and> s_conversations s' = s_conversations s
    \<and> get_message s' c m = Some (y\<lparr>m_content := x, m_edited_at_ms := Some t\<rparr>)"
proof -
  have "decide s (EditMessage c m x t) = Ok [MessageEdited c m x t]"
    using assms by (simp add: decide_EditMessage_def require_message_def)
  with assms show ?thesis
    by (simp add: execute_def conversations_apply get_message_apply message_after_def)
qed

theorem edit_stores_any_content_witness:
  "\<exists>s' evs y conv. execute (chat Secret None (ContentService ''s'' None))
      (EditMessage room (MessageId ''m'') hello 5) = (s', Ok evs)
    \<and> fmlookup (s_conversations s') room = Some conv \<and> c_kind conv = Secret
    \<and> get_message s' room (MessageId ''m'') = Some y \<and> m_content y = hello"
  using edit_stores_any_content [OF chat_message, of Secret None "ContentService ''s'' None" hello 5]
  by (auto simp: chat_def)

section \<open>The life of a message\<close>

text \<open>What no event takes from a message: its sender, its conversation, and that it was deleted.\<close>

definition same_message :: "Message \<Rightarrow> Message \<Rightarrow> bool" where
  "same_message x y \<longleftrightarrow>
     m_sender_id y = m_sender_id x \<and> m_conversation_id y = m_conversation_id x
   \<and> m_protected_content y = m_protected_content x \<and> (m_deleted x \<longrightarrow> m_deleted y)"

lemma same_message_refl [simp]: "same_message x x"
  by (simp add: same_message_def)

lemma same_message_trans: "same_message x y \<Longrightarrow> same_message y z \<Longrightarrow> same_message x z"
  by (auto simp: same_message_def)

lemma event_keeps_message:
  assumes "event_ok s ev" "get_message s c m = Some x"
    and "\<forall>r t. ev = MessageAcknowledged c m r t \<longrightarrow> r = m"
  shows "\<exists>y. get_message (apply_event s ev) c m = Some y \<and> same_message x y"
proof (cases ev)
  case (MessageAcknowledged c' l r t)
  with assms show ?thesis
    by (cases "c' = c \<and> l = m") (auto simp: get_message_apply message_after_def same_message_def)
next
  case (MessageQueued y)
  with assms(1,2) show ?thesis
    by (auto simp: get_message_apply message_after_def)
qed (use assms(2) in \<open>auto simp: get_message_apply message_after_def same_message_def\<close>)

lemma events_keep_message:
  assumes "all_ok event_ok apply_event s evs" "get_message s c m = Some x"
    and "\<forall>r t. MessageAcknowledged c m r t \<in> set evs \<longrightarrow> r = m"
  shows "\<exists>y. get_message (foldl apply_event s evs) c m = Some y \<and> same_message x y"
  using assms
proof (induction evs arbitrary: s x)
  case (Cons ev evs)
  then obtain y where "get_message (apply_event s ev) c m = Some y" "same_message x y"
    using event_keeps_message [of s ev c m x] by auto
  with Cons.IH [of "apply_event s ev" y] Cons.prems show ?case
    by (auto intro: same_message_trans)
qed simp

lemma acknowledge_only_by_command:
  assumes "decide s cmd = Ok evs" "MessageAcknowledged c m r t \<in> set evs"
  shows "cmd = AcknowledgeMessage c m r t"
proof -
  have "Messages_table \<in> set (footprint cmd)"
    using decide_within [OF assms(1)] assms(2) by (auto simp: within_def list_all_iff)
  then show ?thesis
    using assms
    by (cases cmd)
      (auto simp: decide_QueueMessage_def decide_ForwardMessage_def decide_AcknowledgeMessage_def
        decide_SetDeliveryState_def decide_EditMessage_def decide_DeleteMessages_def
        decide_SetReaction_def decide_PinMessage_def result_simps Let_def)
qed

text \<open>
  C12: no message is lost. Whatever command the engine executes, every message of the state is still
  there afterwards under its conversation and identifier, with the same sender and the same
  protection, and deleted if it was deleted; the one exception is the acknowledgement of the message
  itself, which moves it to the server's identifier. No command revives a deleted message or
  overwrites a message with another.
\<close>

theorem message_never_lost:
  assumes "keys_ok s" "get_message s c m = Some x"
  shows "\<exists>m' y. get_message (fst (execute s cmd)) c m' = Some y \<and> same_message x y
    \<and> (m' = m \<or> (\<exists>t. cmd = AcknowledgeMessage c m m' t))"
proof (cases "decide s cmd")
  case (Inl e)
  then show ?thesis
    using assms(2) same_message_refl [of x] by (auto simp: execute_def simp del: same_message_refl)
next
  case (Inr evs)
  show ?thesis
  proof (cases "\<exists>r t. cmd = AcknowledgeMessage c m r t \<and> r \<noteq> m")
    case True
    then obtain r t where cmd: "cmd = AcknowledgeMessage c m r t" "r \<noteq> m" by blast
    with Inr have "evs = [MessageAcknowledged c m r t]"
      by (auto simp: decide_AcknowledgeMessage_def result_simps)
    then have "get_message (fst (execute s cmd)) c r =
        Some (x\<lparr>m_id := r, m_delivery_state := Sent, m_created_at_ms := t\<rparr>)"
      using assms(2) Inr by (simp add: execute_def get_message_apply message_after_def)
    with cmd show ?thesis
      by (intro exI [of _ r] exI [of _ "x\<lparr>m_id := r, m_delivery_state := Sent, m_created_at_ms := t\<rparr>"])
        (simp add: same_message_def)
  next
    case False
    then have "\<forall>r t. MessageAcknowledged c m r t \<in> set evs \<longrightarrow> r = m"
      using acknowledge_only_by_command [OF Inr] by blast
    from events_keep_message [OF decide_events_ok [OF assms(1) Inr] assms(2) this]
    show ?thesis using Inr by (auto simp: execute_def)
  qed
qed

theorem message_never_lost_witness:
  "\<exists>m' y. get_message (fst (execute (chat Group None hello)
      (DeleteMessages room [MessageId ''m'']))) room m' = Some y \<and> same_message (first_message hello) y
    \<and> (m' = MessageId ''m'' \<or>
        (\<exists>t. DeleteMessages room [MessageId ''m''] = AcknowledgeMessage room (MessageId ''m'') m' t))"
  by (rule message_never_lost [OF chat_keys chat_message]) simp

text \<open>
  What an acknowledgement does. It renames exactly the acknowledged message: the message is found
  under the server's identifier with its content, sent and with the server's time, the local
  identifier is free, every other message is as it was, and the conversation's pointer to its last
  message follows the renaming.
\<close>

theorem acknowledge_renames:
  assumes "execute s (AcknowledgeMessage c l r t) = (s', Ok evs)" "l \<noteq> r"
  shows "\<exists>x. get_message s c l = Some x
    \<and> get_message s' c r = Some (x\<lparr>m_id := r, m_delivery_state := Sent, m_created_at_ms := t\<rparr>)
    \<and> get_message s' c l = None
    \<and> (\<forall>c' m. (c', m) \<notin> {(c, l), (c, r)} \<longrightarrow> get_message s' c' m = get_message s c' m)
    \<and> (\<forall>conv. fmlookup (s_conversations s) c = Some conv \<and> c_last_message_id conv = Some (message_str l)
         \<longrightarrow> map_option c_last_message_id (fmlookup (s_conversations s') c) = Some (Some (message_str r)))"
proof -
  have "decide s (AcknowledgeMessage c l r t) = Ok evs" and s': "s' = foldl apply_event s evs"
    using assms(1) engine.exec_result [of s "AcknowledgeMessage c l r t"]
      execute_Ok [of s "AcknowledgeMessage c l r t" evs] by simp_all
  then obtain x where "get_message s c l = Some x" "evs = [MessageAcknowledged c l r t]"
    by (auto simp: decide_AcknowledgeMessage_def result_simps)
  with assms(2) show ?thesis
    by (auto simp: s' get_message_apply message_after_def conversations_apply)
qed

lemma room_acknowledge:
  "\<exists>s' evs. execute (chat Group None hello)
     (AcknowledgeMessage room (MessageId ''m'') (MessageId ''srv'') 7) = (s', Ok evs)"
  by (simp add: execute_def decide_AcknowledgeMessage_def require_message_def)
    (simp add: get_message_def chat_def)

theorem acknowledge_renames_witness:
  "\<exists>s' evs. execute (chat Group None hello)
     (AcknowledgeMessage room (MessageId ''m'') (MessageId ''srv'') 7) = (s', Ok evs)
   \<and> get_message s' room (MessageId ''m'') = None"
proof -
  obtain s' evs where s': "execute (chat Group None hello)
      (AcknowledgeMessage room (MessageId ''m'') (MessageId ''srv'') 7) = (s', Ok evs)"
    using room_acknowledge by blast
  with acknowledge_renames [OF s'] show ?thesis by auto
qed

text \<open>
  The pointer of a forum topic does not follow. An acknowledgement leaves every community as it
  is, so a topic whose last message was queued under a local identifier keeps naming that
  identifier, under which there is no message any more.
\<close>

theorem acknowledge_leaves_topic_pointer:
  assumes "execute s (AcknowledgeMessage c l r t) = (s', Ok evs)" "l \<noteq> r"
    and "fmlookup (s_communities s) c = Some co" "fmlookup (co_topics co) tp = Some topic"
    and "fts_last_message_id topic = Some (message_str l)"
  shows "fmlookup (s_communities s') c = Some co \<and> get_message s' c l = None"
proof -
  have "decide s (AcknowledgeMessage c l r t) = Ok evs" and s': "s' = foldl apply_event s evs"
    using assms(1) engine.exec_result [of s "AcknowledgeMessage c l r t"]
      execute_Ok [of s "AcknowledgeMessage c l r t" evs] by simp_all
  then have "evs = [MessageAcknowledged c l r t] \<and> get_message s c l \<noteq> None"
    by (auto simp: decide_AcknowledgeMessage_def result_simps)
  with assms show ?thesis
    by (auto simp: s' communities_apply get_message_apply message_after_def)
qed

definition room_topic :: ForumTopicState where
  "room_topic =
     \<lparr>fts_id = ''t'', fts_conversation_id = room, fts_title = ''T'', fts_icon = None,
      fts_creator_id = olga, fts_created_at_ms = 0, fts_pinned = False, fts_closed = False,
      fts_hidden = False, fts_unread_count = 0, fts_last_message_id = Some ''m''\<rparr>"

definition topic_community :: CommunityState where
  "topic_community = (room_community StatusMember None)\<lparr>co_topics := fmupd ''t'' room_topic fmempty\<rparr>"

definition topic_room :: MessagingState where
  "topic_room = chat Group (Some topic_community) hello"

lemma topic_room_facts:
  "fmlookup (s_communities topic_room) room = Some topic_community"
  "fmlookup (co_topics topic_community) ''t'' = Some room_topic"
  "fts_last_message_id room_topic = Some ''m''"
  by (simp_all add: topic_room_def chat_def topic_community_def room_topic_def)

theorem acknowledge_leaves_topic_pointer_witness:
  "\<exists>s' evs co topic. execute topic_room (AcknowledgeMessage room (MessageId ''m'') (MessageId ''srv'') 7)
     = (s', Ok evs)
   \<and> fmlookup (s_communities s') room = Some co \<and> fmlookup (co_topics co) ''t'' = Some topic
   \<and> fts_last_message_id topic = Some ''m'' \<and> get_message s' room (MessageId ''m'') = None"
proof -
  have "get_message topic_room room (MessageId ''srv'') = None"
    by (simp add: topic_room_def get_message_def chat_def)
  then obtain s' evs where s': "execute topic_room
      (AcknowledgeMessage room (MessageId ''m'') (MessageId ''srv'') 7) = (s', Ok evs)"
    by (simp add: execute_def decide_AcknowledgeMessage_def require_message_def)
      (simp add: topic_room_def)
  with acknowledge_leaves_topic_pointer [OF s' _ topic_room_facts(1,2)] topic_room_facts(2,3)
  show ?thesis by simp
qed

section \<open>Polls\<close>

definition poll_options :: "MessageContent \<Rightarrow> PollOption list" where
  "poll_options x = (case x of ContentPoll _ options _ _ _ \<Rightarrow> options | _ \<Rightarrow> [])"

definition votes_of :: "MessagingState \<Rightarrow> ConversationId \<Rightarrow> MessageId \<Rightarrow> (ActorId, string fset) fmap" where
  "votes_of s c m = get_or fmempty (get_or fmempty (s_poll_votes s) c) m"

lemma votes_for_card:
  "votes_for by_actor i = card {a. \<exists>v. fmlookup by_actor a = Some v \<and> i |\<in>| v}"
proof -
  have "votes_for by_actor i =
      length (filter (\<lambda>a. i |\<in>| the (fmlookup by_actor a)) (map_keys by_actor))"
    by (simp add: votes_for_def map_values_def filter_map comp_def)
  also have "\<dots> = card (set (filter (\<lambda>a. i |\<in>| the (fmlookup by_actor a)) (map_keys by_actor)))"
    by (intro distinct_card [symmetric]) simp
  also have "set (filter (\<lambda>a. i |\<in>| the (fmlookup by_actor a)) (map_keys by_actor)) =
      {a. \<exists>v. fmlookup by_actor a = Some v \<and> i |\<in>| v}"
    by (auto simp: fmlookup_dom_iff)
  finally show ?thesis .
qed

lemma fset_of_list_empty_iff [simp]: "fset_of_list xs = {||} \<longleftrightarrow> xs = []"
  by (cases xs) auto

lemma poll_votes_apply:
  "votes_of (apply_event s (PollVoteChanged c m a is)) c m =
     (if is = [] then fmdrop a (votes_of s c m) else fmupd a (fset_of_list is) (votes_of s c m))"
  by (simp add: votes_of_def apply_event.simps apply_PollVoteChanged_def Let_def modify_message_def
      get_or_def)

text \<open>
  Polls count their voters. After an accepted vote every option shows the number of actors whose
  recorded vote contains it (up to the 32-bit maximum), the actor's record is exactly the chosen set,
  every chosen option is one of the poll, and in a poll with single answers it has at most one
  element; no other message changes.
\<close>

theorem poll_counts_voters:
  assumes "execute s (VotePoll c m a is) = (s', Ok evs)"
  shows "\<exists>x q options an mult qz x'. get_message s c m = Some x
    \<and> m_content x = ContentPoll q options an mult qz \<and> get_message s' c m = Some x'
    \<and> map po_id (poll_options (m_content x')) = map po_id options
    \<and> (\<forall>opt \<in> set (poll_options (m_content x')). po_voter_count opt =
         u32_of_count (card {b. \<exists>v. fmlookup (votes_of s' c m) b = Some v \<and> po_id opt |\<in>| v}))
    \<and> (is \<noteq> [] \<longrightarrow> fmlookup (votes_of s' c m) a = Some (fset_of_list is))
    \<and> (is = [] \<longrightarrow> fmlookup (votes_of s' c m) a = None)
    \<and> set is \<subseteq> set (map po_id options) \<and> (mult \<or> card (set is) \<le> 1)
    \<and> (\<forall>c' m'. (c', m') \<noteq> (c, m) \<longrightarrow> get_message s' c' m' = get_message s c' m')"
proof -
  have "decide s (VotePoll c m a is) = Ok evs" and s': "s' = foldl apply_event s evs"
    using assms engine.exec_result [of s "VotePoll c m a is"]
      execute_Ok [of s "VotePoll c m a is" evs] by simp_all
  then obtain x q options an mult qz where x: "get_message s c m = Some x"
      "m_content x = ContentPoll q options an mult qz"
    and ok: "mult \<or> length (btree_list is) \<le> 1" "\<forall>i \<in> set is. \<exists>opt \<in> set options. po_id opt = i"
    and evs: "evs = [PollVoteChanged c m a (btree_list is)]"
    by (auto simp: result_simps)
  have len: "length (btree_list is) = card (set is)"
    using distinct_card [of "btree_list is"] by simp
  have fs: "fset_of_list (btree_list is) = fset_of_list is"
    by (simp add: fset_of_list.rep_eq flip: fset_inject)
  let ?x = "x\<lparr>m_content := recount_poll (votes_of s' c m) (m_content x)\<rparr>"
  have votes: "votes_of s' c m =
      (if is = [] then fmdrop a (votes_of s c m) else fmupd a (fset_of_list is) (votes_of s c m))"
    by (simp add: s' evs poll_votes_apply fs)
  then have "get_message s' c m = Some ?x"
    by (simp add: s' evs get_message_apply message_after_def x Let_def fs flip: votes_of_def)
  moreover have "poll_options (m_content ?x) =
      map (\<lambda>opt. opt\<lparr>po_voter_count := u32_of_count (votes_for (votes_of s' c m) (po_id opt)),
                      po_chosen := False\<rparr>) options"
    by (simp add: poll_options_def recount_poll_def x)
  then have "map po_id (poll_options (m_content ?x)) = map po_id options"
    and "\<forall>opt \<in> set (poll_options (m_content ?x)). po_voter_count opt =
         u32_of_count (card {b. \<exists>v. fmlookup (votes_of s' c m) b = Some v \<and> po_id opt |\<in>| v})"
    by (simp_all add: votes_for_card)
  moreover have "is \<noteq> [] \<longrightarrow> fmlookup (votes_of s' c m) a = Some (fset_of_list is)"
    and "is = [] \<longrightarrow> fmlookup (votes_of s' c m) a = None"
    by (simp_all add: votes)
  moreover have "set is \<subseteq> set (map po_id options)" "mult \<or> card (set is) \<le> 1"
    using ok len by auto
  moreover have "\<forall>c' m'. (c', m') \<noteq> (c, m) \<longrightarrow> get_message s' c' m' = get_message s c' m'"
    by (auto simp: s' evs get_message_apply message_after_def)
  ultimately show ?thesis
    using x by blast
qed

definition poll_room :: MessagingState where
  "poll_room = chat Group None (ContentPoll (FormattedText_plain ''?'')
     [\<lparr>po_id = ''y'', po_text = ''yes'', po_voter_count = 0, po_chosen = False, po_correct = None\<rparr>]
     False False False)"

theorem poll_counts_voters_witness:
  "\<exists>s' evs. execute poll_room (VotePoll room (MessageId ''m'') uma [''y'']) = (s', Ok evs)
    \<and> fmlookup (votes_of s' room (MessageId ''m'')) uma = Some {|''y''|}"
proof -
  have "\<exists>evs. decide poll_room (VotePoll room (MessageId ''m'') uma [''y'']) = Ok evs"
    by (simp add: result_simps poll_room_def first_message_def queued_message_def btree_list_def)
      (auto simp: chat_def intro: exI [of _ False])
  then obtain s' evs where s': "execute poll_room (VotePoll room (MessageId ''m'') uma [''y'']) = (s', Ok evs)"
    by (auto simp: execute_def)
  with poll_counts_voters [OF s'] show ?thesis by auto
qed

section \<open>Expiry\<close>

text \<open>
  Messages expire by the policy of their conversation. An accepted message of a conversation with
  a retention of \<open>n\<close> seconds carries the instant \<open>n\<close> seconds after it is sent, or after it is
  scheduled to be sent, computed without overflow; without a retention it carries none.
\<close>

theorem queued_message_expiry:
  assumes "execute s (QueueMessage c m k a x rp rt t sc si pr) = (s', Ok evs)"
    and "fmlookup (s_conversations s) c = Some conv"
  shows "\<exists>y. get_message s' c m = Some y
    \<and> (case c_message_retention_seconds conv of
         None \<Rightarrow> m_expires_at_ms y = None
       | Some n \<Rightarrow> \<exists>u. m_expires_at_ms y = Some u
           \<and> sint u = sint (case sc of None \<Rightarrow> t | Some w \<Rightarrow> w) + uint n * 1000)"
proof -
  obtain conv' expiry where "fmlookup (s_conversations s) c = Some conv'"
    and expiry: "message_expiry (c_message_retention_seconds conv')
        (case sc of None \<Rightarrow> t | Some u \<Rightarrow> u) = Ok expiry"
    and evs: "evs = [MessageQueued (queued_message c m k a x rp rt t sc si pr expiry)]"
    using execute_queue(1) [OF assms(1)] by (rule queue_Ok)
  then have "conv' = conv" using assms(2) by simp
  moreover have "get_message s' c m = Some (queued_message c m k a x rp rt t sc si pr expiry)"
    by (simp add: execute_queue(2) [OF assms(1)] evs get_message_apply message_after_def
        queued_message_def)
  ultimately show ?thesis
    using expiry by (auto simp: result_simps queued_message_def split: option.splits)
qed

theorem queued_message_expiry_witness:
  "\<exists>s' evs y. execute (chat Group (Some (room_community StatusMember (Some 10))) hello)
     (QueueMessage room (MessageId ''n'') (ClientMessageId ''k'') uma hello None None 10000 None False False)
     = (s', Ok evs)
   \<and> get_message s' room (MessageId ''n'') = Some y \<and> m_expires_at_ms y = None"
proof -
  obtain s' evs where s': "execute (chat Group (Some (room_community StatusMember (Some 10))) hello)
     (QueueMessage room (MessageId ''n'') (ClientMessageId ''k'') uma hello None None 10000 None False False)
     = (s', Ok evs)"
    using room_queue_later by blast
  with queued_message_expiry [OF s'] show ?thesis
    by (auto simp: chat_eval)
qed

text \<open>
  A change of the retention is based on a revision. When a change based on revision \<open>e\<close> is
  accepted, the conversation has the new policy and the next revision, and every other change based
  on the same revision is refused as stale and changes nothing.
\<close>

theorem retention_optimistic:
  assumes "execute s (SetConversationMessageRetention c r e) = (s1, Ok evs)"
  shows "\<exists>conv. fmlookup (s_conversations s1) c = Some conv
    \<and> c_message_retention_seconds conv = r \<and> unat (c_retention_revision conv) = unat e + 1
    \<and> (r' \<noteq> Some 0 \<longrightarrow> execute s1 (SetConversationMessageRetention c r' e) =
         (s1, Err (RetentionErr (StaleRevision e (c_retention_revision conv)))))"
proof -
  have "decide s (SetConversationMessageRetention c r e) = Ok evs" and s1: "s1 = foldl apply_event s evs"
    using assms engine.exec_result [of s "SetConversationMessageRetention c r e"]
      execute_Ok [of s "SetConversationMessageRetention c r e" evs] by simp_all
  then obtain conv ret where conv: "fmlookup (s_conversations s) c = Some conv"
    and ret: "r \<noteq> Some 0" "e = c_retention_revision conv"
      "cr_policy ret = map_option (\<lambda>x. \<lparr>mp_seconds = x\<rparr>) r"
      "unat (cr_revision ret) = unat (c_retention_revision conv) + 1"
    and evs: "evs = [ConversationMessageRetentionUpdated c ret]"
    by (auto simp: decide_SetConversationMessageRetention_def result_simps)
  define conv1 where "conv1 = conv\<lparr>c_message_retention_seconds := r, c_retention_revision := cr_revision ret\<rparr>"
  have s1conv: "fmlookup (s_conversations s1) c = Some conv1"
    using conv ret(3) by (simp add: s1 evs conversations_apply conv1_def option.map_comp comp_def option.map_ident)
  have "cr_revision ret \<noteq> e"
    using ret(2,4) by auto
  then have "execute s1 (SetConversationMessageRetention c r' e) =
      (s1, Err (RetentionErr (StaleRevision e (cr_revision ret))))" if "r' \<noteq> Some 0"
    using that ret(1)
    by (cases r; cases r')
      (simp_all add: execute_def decide_SetConversationMessageRetention_def require_conversation_def s1conv
        conv1_def transpose_policy_def retention_change_def next_retention_revision_def
        MessageRetentionPolicy_new_def)
  with s1conv ret show ?thesis
    by (auto simp: conv1_def)
qed

lemma room_retention:
  "\<exists>s1 evs. execute (chat Group None hello) (SetConversationMessageRetention room (Some 60) 0) = (s1, Ok evs)"
  by (simp add: execute_def decide_SetConversationMessageRetention_def require_conversation_def
      chat_eval transpose_policy_def retention_change_def next_retention_revision_def
      MessageRetentionPolicy_new_def checked_add_u64_def)

theorem retention_optimistic_witness:
  "\<exists>s1 evs conv. execute (chat Group None hello) (SetConversationMessageRetention room (Some 60) 0) = (s1, Ok evs)
    \<and> fmlookup (s_conversations s1) room = Some conv \<and> c_message_retention_seconds conv = Some 60
    \<and> execute s1 (SetConversationMessageRetention room None 0) =
        (s1, Err (RetentionErr (StaleRevision 0 (c_retention_revision conv))))"
proof -
  obtain s1 evs where s1: "execute (chat Group None hello) (SetConversationMessageRetention room (Some 60) 0)
      = (s1, Ok evs)"
    using room_retention by blast
  with retention_optimistic [OF s1, of None] show ?thesis by auto
qed

section \<open>Leaving a conversation\<close>

text \<open>
  Removing a participant removes what the engine keeps for the actor there. After an accepted
  removal the actor is no participant, has no read cursor, no draft, no topic draft and no unread mark
  in the conversation, while the messages and what other actors have there are as they were.
\<close>

theorem removal_leaves_nothing:
  assumes "execute s (RemoveConversationParticipant c a) = (s', Ok evs)"
  shows "(\<exists>conv. fmlookup (s_conversations s') c = Some conv \<and> \<not> is_participant conv a)
    \<and> get_cursor s' c a = None \<and> get_draft s' c a = None \<and> (\<forall>t. get_topic_draft s' c a t = None)
    \<and> \<not> marked_unread s' c a \<and> get_message s' = get_message s
    \<and> (\<forall>c' b. (c', b) \<noteq> (c, a) \<longrightarrow> get_cursor s' c' b = get_cursor s c' b
         \<and> get_draft s' c' b = get_draft s c' b \<and> marked_unread s' c' b = marked_unread s c' b)"
proof -
  have d: "decide s (RemoveConversationParticipant c a) = Ok evs" and s': "s' = foldl apply_event s evs"
    using assms engine.exec_result [of s "RemoveConversationParticipant c a"]
      execute_Ok [of s "RemoveConversationParticipant c a" evs] by simp_all
  obtain conv where conv: "fmlookup (s_conversations s) c = Some conv"
    using d by (auto simp: decide_RemoveConversationParticipant_def result_simps)
  have "evs = [ConversationParticipantRemoved c a]
      \<or> (\<exists>x. evs = [CommunityChanged x, ConversationParticipantRemoved c a])"
    using d by (auto simp: decide_RemoveConversationParticipant_def result_simps split: if_split_asm)
  then show ?thesis
    using conv
    by (auto simp: s' views_apply is_participant_def list_ex_iff fun_eq_iff)
qed

lemma room_remove:
  "\<exists>s' evs. execute (chat Direct None hello) (RemoveConversationParticipant room uma) = (s', Ok evs)"
  by (simp add: execute_def decide_RemoveConversationParticipant_def require_conversation_def chat_eval
      is_community_kind_def)

theorem removal_leaves_nothing_witness:
  "\<exists>s' evs. execute (chat Direct None hello) (RemoveConversationParticipant room uma) = (s', Ok evs)
    \<and> get_message s' room (MessageId ''m'') = Some (first_message hello)
    \<and> (\<exists>conv. fmlookup (s_conversations s') room = Some conv \<and> \<not> is_participant conv uma)"
proof -
  obtain s' evs where s': "execute (chat Direct None hello) (RemoveConversationParticipant room uma) = (s', Ok evs)"
    using room_remove by blast
  with removal_leaves_nothing [OF s'] show ?thesis by auto
qed

end
