(* ===== verification/Community_Paging.thy ===== *)
theory Community_Paging
  imports Community
begin

text \<open>
  Paging through the members of a community with \<open>member_page\<close>: a client that follows the cursors
  sees every member exactly once, in the order of the identifiers.
\<close>

abbreviation member_key :: "CommunityMember \<Rightarrow> string" where
  "member_key x \<equiv> actor_str (cm_actor_id x)"

text \<open>A client that asks for pages until there is no further cursor; \<open>n\<close> bounds the requests.\<close>

fun walk_members :: "nat \<Rightarrow> CommunityState \<Rightarrow> string option \<Rightarrow> nat \<Rightarrow> CommunityMember list" where
  "walk_members 0 co cursor limit = []"
| "walk_members (Suc n) co cursor limit =
     (case member_page co cursor limit of
        (page, None) \<Rightarrow> page
      | (page, Some c) \<Rightarrow> page @ walk_members n co (Some c) limit)"

definition members_keyed :: "CommunityState \<Rightarrow> bool" where
  "members_keyed co \<longleftrightarrow>
     (\<forall>a x. fmlookup (co_members co) a = Some x \<longrightarrow> cm_actor_id x = a)
   \<and> (\<forall>a x. fmlookup (co_subscribers co) a = Some x \<longrightarrow> cs_actor_id x = a)"

section \<open>The list of all members\<close>

lemma position_eqI:
  "i < length xs \<Longrightarrow> P (xs ! i) \<Longrightarrow> (\<And>j. j < i \<Longrightarrow> \<not> P (xs ! j)) \<Longrightarrow> position P xs = Some i"
proof (induction xs arbitrary: i)
  case (Cons x xs)
  show ?case
  proof (cases i)
    case 0
    with Cons.prems show ?thesis by simp
  next
    case (Suc k)
    have "\<not> P x" using Cons.prems(3) [of 0] Suc by simp
    moreover have "\<not> P (xs ! j)" if "j < k" for j
      using Cons.prems(3) [of "Suc j"] that Suc by simp
    then have "position P xs = Some k"
      using Cons.prems(1,2) Suc by (intro Cons.IH) simp_all
    ultimately show ?thesis by (simp add: Suc)
  qed
qed simp

lemma distinct_map_values:
  assumes "\<And>k v. fmlookup m k = Some v \<Longrightarrow> f v = k"
  shows "map f (map_values m) = map_keys m"
proof -
  have "map (\<lambda>k. f (the (fmlookup m k))) (map_keys m) = map (\<lambda>k. k) (map_keys m)"
    by (intro map_cong) (auto simp: fmlookup_dom_iff dest: assms)
  then show ?thesis by (simp add: map_values_def comp_def)
qed

lemma all_members_ids:
  assumes "members_keyed co"
  shows "set (map cm_actor_id (all_members co)) = fset (fmdom (co_members co)) \<union> fset (fmdom (co_subscribers co))"
    and "distinct (map cm_actor_id (all_members co))"
    and "sorted (map cm_actor_id (all_members co))"
proof -
  let ?ms = "map_values (co_members co)"
  let ?ss = "filter (\<lambda>s. \<not> contains_key (co_members co) (cs_actor_id s)) (map_values (co_subscribers co))"
  have ms: "map cm_actor_id ?ms = map_keys (co_members co)"
    using assms by (intro distinct_map_values) (auto simp: members_keyed_def)
  have "map cs_actor_id (map_values (co_subscribers co)) = map_keys (co_subscribers co)"
    using assms by (intro distinct_map_values) (auto simp: members_keyed_def)
  moreover have "map cs_actor_id ?ss = filter (\<lambda>a. \<not> contains_key (co_members co) a)
      (map cs_actor_id (map_values (co_subscribers co)))"
    by (simp add: filter_map comp_def)
  ultimately have ss: "map (cm_actor_id \<circ> subscriber_member) ?ss =
      filter (\<lambda>a. \<not> contains_key (co_members co) a) (map_keys (co_subscribers co))"
    by (simp add: subscriber_member_def comp_def)
  have eq: "map cm_actor_id (?ms @ map subscriber_member ?ss) =
      map_keys (co_members co) @ filter (\<lambda>a. \<not> contains_key (co_members co) a) (map_keys (co_subscribers co))"
    using ms ss by simp
  have all: "all_members co = sort_key cm_actor_id (?ms @ map subscriber_member ?ss)"
    by (simp add: all_members_def)
  have "distinct (map cm_actor_id (?ms @ map subscriber_member ?ss))"
    unfolding eq by (auto simp: contains_key_iff_fmdom)
  then show "distinct (map cm_actor_id (all_members co))"
    unfolding all distinct_map by simp
  have "set (map cm_actor_id (all_members co)) = set (map cm_actor_id (?ms @ map subscriber_member ?ss))"
    unfolding all set_map by simp
  then show "set (map cm_actor_id (all_members co)) = fset (fmdom (co_members co)) \<union> fset (fmdom (co_subscribers co))"
    unfolding eq by (auto simp: contains_key_iff_fmdom)
  show "sorted (map cm_actor_id (all_members co))"
    by (simp add: all_members_def)
qed

lemma all_members_increasing:
  assumes "members_keyed co" "i < j" "j < length (all_members co)"
  shows "member_key (all_members co ! i) < member_key (all_members co ! j)"
proof -
  have "cm_actor_id (all_members co ! i) \<le> cm_actor_id (all_members co ! j)"
    using sorted_nth_mono [OF all_members_ids(3) [OF assms(1)], of i j] assms(2,3) by simp
  moreover have "cm_actor_id (all_members co ! i) \<noteq> cm_actor_id (all_members co ! j)"
    using nth_eq_iff_index_eq [OF all_members_ids(2) [OF assms(1)], of i j] assms(2,3) by simp
  ultimately have "cm_actor_id (all_members co ! i) < cm_actor_id (all_members co ! j)"
    by simp
  then show ?thesis by (simp add: less_ActorId_def)
qed

section \<open>One page\<close>

lemma page_end_bounds:
  assumes "i < n" "n \<le> 2 ^ 64 - 1"
  shows "i < page_end i limit n" "page_end i limit n \<le> n" "page_end i limit n \<le> i + 100"
  using assms by (auto simp: page_end_def saturating_add_usize_def min_def max_def)

lemma member_page_length: "length (fst (member_page co cursor limit)) \<le> 100"
  by (auto simp: member_page_def page_by_actor_id_def Let_def page_end_def saturating_add_usize_def)

definition cursor_at :: "CommunityState \<Rightarrow> nat \<Rightarrow> string option" where
  "cursor_at co i = (if i = 0 then None else Some (member_key (all_members co ! (i - 1))))"

lemma member_page_at:
  fixes limit :: nat
  assumes "members_keyed co" "i < length (all_members co)" "length (all_members co) \<le> 2 ^ 64 - 1"
  defines "e \<equiv> page_end i limit (length (all_members co))"
  shows "member_page co (cursor_at co i) limit =
    (take (e - i) (drop i (all_members co)), if e < length (all_members co) then cursor_at co e else None)"
proof -
  let ?ms = "all_members co"
  have "i < e" using page_end_bounds(1) [OF assms(2,3)] by (simp add: e_def)
  have pos: "position (\<lambda>m. member_key (?ms ! (i - 1)) < member_key m) ?ms = Some i" if "i \<noteq> 0"
  proof (rule position_eqI [OF assms(2)])
    show "member_key (?ms ! (i - 1)) < member_key (?ms ! i)"
      using that assms(2) by (intro all_members_increasing [OF assms(1)]) simp_all
    fix j
    assume "j < i"
    then consider "j < i - 1" | "j = i - 1" by linarith
    then show "\<not> member_key (?ms ! (i - 1)) < member_key (?ms ! j)"
      using all_members_increasing [OF assms(1), of j "i - 1"] assms(2)
      by cases (auto simp: not_less less_imp_le)
  qed
  then show ?thesis
    using \<open>i < e\<close>
    by (auto simp: member_page_def page_by_actor_id_def cursor_at_def Let_def e_def)
qed

lemma walk_from:
  assumes "members_keyed co" "length (all_members co) \<le> 2 ^ 64 - 1"
  shows "i < length (all_members co) \<Longrightarrow> length (all_members co) - i \<le> n \<Longrightarrow>
    walk_members n co (cursor_at co i) limit = drop i (all_members co)"
proof (induction n arbitrary: i)
  case (Suc n)
  let ?e = "page_end i limit (length (all_members co))"
  have e: "i < ?e" "?e \<le> length (all_members co)"
    using page_end_bounds [OF Suc.prems(1) assms(2)] by simp_all
  have split: "take (?e - i) (drop i (all_members co)) @ drop ?e (all_members co) = drop i (all_members co)"
    using e(1) by (metis append_take_drop_id drop_drop le_add_diff_inverse2 less_imp_le)
  show ?case
  proof (cases "?e < length (all_members co)")
    case True
    then have "walk_members n co (cursor_at co ?e) limit = drop ?e (all_members co)"
      using Suc.prems(2) e(1) by (intro Suc.IH) simp_all
    moreover have "cursor_at co ?e = Some (member_key (all_members co ! (?e - 1)))"
      using e(1) by (simp add: cursor_at_def)
    ultimately show ?thesis
      using True split by (simp add: member_page_at [OF assms(1) Suc.prems(1) assms(2)])
  next
    case False
    then show ?thesis
      using split e(2) by (simp add: member_page_at [OF assms(1) Suc.prems(1) assms(2)])
  qed
qed simp

text \<open>
  C24: paging is complete. A client that starts without a cursor and follows the cursors receives every
  member and every subscriber of the community exactly once and ordered by identifier, whatever page
  size it asks for, with at most one request more than there are members, and no page has more than
  100 members.
\<close>

theorem member_pages_complete:
  assumes "members_keyed co" "length (all_members co) \<le> 2 ^ 64 - 1"
  shows "walk_members (Suc (length (all_members co))) co None limit = all_members co
    \<and> set (map cm_actor_id (all_members co)) = fset (fmdom (co_members co)) \<union> fset (fmdom (co_subscribers co))
    \<and> distinct (map cm_actor_id (all_members co)) \<and> sorted (map cm_actor_id (all_members co))
    \<and> (\<forall>cursor. length (fst (member_page co cursor limit)) \<le> 100)"
proof (cases "all_members co")
  case Nil
  then show ?thesis
    using all_members_ids [OF assms(1)] member_page_length [of co]
    by (simp add: member_page_def page_by_actor_id_def page_end_def Let_def)
next
  case (Cons x xs)
  then have "walk_members (Suc (length (all_members co))) co (cursor_at co 0) limit = drop 0 (all_members co)"
    by (intro walk_from [OF assms]) simp_all
  then show ?thesis
    using all_members_ids [OF assms(1)] member_page_length [of co] by (simp add: cursor_at_def)
qed

definition pair_community :: CommunityState where
  "pair_community = (CommunityState_new (ConversationId ''c''))
     \<lparr>co_members := fmupd (ActorId ''b'') (subscriber_member
        \<lparr>cs_actor_id = ActorId ''b'', cs_subscribed_at_ms = 0, cs_muted = False\<rparr>) fmempty,
      co_subscribers := fmupd (ActorId ''a'')
        \<lparr>cs_actor_id = ActorId ''a'', cs_subscribed_at_ms = 0, cs_muted = False\<rparr> fmempty\<rparr>"

theorem member_pages_complete_witness:
  "walk_members (Suc (length (all_members pair_community))) pair_community None 1 = all_members pair_community"
proof -
  have keyed: "members_keyed pair_community"
    by (auto simp: members_keyed_def pair_community_def CommunityState_new_def subscriber_member_def
        split: if_splits)
  have "length (all_members pair_community) \<le> 2 ^ 64 - 1"
    by (simp add: all_members_def pair_community_def CommunityState_new_def map_values_def map_keys_def
        sorted_list_of_fset.rep_eq)
  from member_pages_complete [OF keyed this, of 1] show ?thesis by simp
qed

end
