(* ===== verification/Engine_Community.thy ===== *)
theory Engine_Community
  imports Engine_Messages Community_Paging
begin

text \<open>
  Properties of groups and channels: owners are protected, a ban takes effect everywhere, the audit
  log is bounded and complete, and what approving a join request can do.
\<close>

section \<open>Members under all commands\<close>

definition members_of :: "MessagingState \<Rightarrow> ConversationId \<Rightarrow> (ActorId, CommunityMember) fmap option" where
  "members_of s c = map_option co_members (fmlookup (s_communities s) c)"

definition owners :: "MessagingState \<Rightarrow> ConversationId \<Rightarrow> ActorId set" where
  "owners s c =
     {a. \<exists>ms x. members_of s c = Some ms \<and> fmlookup ms a = Some x \<and> cm_status x = StatusOwner}"

lemma members_of_apply:
  "members_of (apply_event s ev) c =
     (case ev of
        CommunityChanged x \<Rightarrow> if c = co_conversation_id x then Some (co_members x) else members_of s c
      | _ \<Rightarrow> members_of s c)"
  by (cases ev)
    (auto simp: members_of_def communities_apply option.map_comp comp_def split: option.splits)

interpretation members: framed members_of "{Communities_table}"
  by unfold_locales (auto simp: fun_eq_iff members_of_apply split: Event.splits)

lemma audit_members [simp]: "co_members (append_community_audit x a act ta ti r t) = co_members x"
  by (simp add: append_community_audit_def append_audit_def Let_def)

lemma change_member_members [simp]:
  "co_members (change_member x a m r t) = fmupd (cm_actor_id m) m (co_members x)"
  by (simp add: change_member_def Let_def upsert_member_def)

lemma participant_events_members:
  "members_of (foldl apply_event s (participant_events s0 c co a)) c' = members_of s c'"
  by (auto simp: participant_events_def members_of_apply split: option.splits)

lemma operation_members:
  "subscribe_channel co a t = Ok co' \<Longrightarrow>
     co_conversation_id co' = co_conversation_id co \<and> co_members co' = co_members co"
  "unsubscribe_channel co a = Ok co' \<Longrightarrow>
     co_conversation_id co' = co_conversation_id co \<and> co_members co' = co_members co"
  "revoke_invite co i = Ok co' \<Longrightarrow>
     co_conversation_id co' = co_conversation_id co \<and> co_members co' = co_members co"
  by (auto simp: subscribe_channel_def unsubscribe_channel_def revoke_invite_def result_simps
      split: if_splits)

text \<open>The commands that change the member table of an existing community.\<close>

definition changes_members :: "Command \<Rightarrow> bool" where
  "changes_members cmd =
     (case cmd of
        SetConversationParticipant _ _ \<Rightarrow> True
      | RemoveConversationParticipant _ _ \<Rightarrow> True
      | ModerateCommunityMember _ _ _ _ _ \<Rightarrow> True
      | SetCommunityMember _ _ _ \<Rightarrow> True
      | RespondCommunityJoin _ _ _ _ _ \<Rightarrow> True
      | _ \<Rightarrow> False)"

definition members_kept :: "MessagingState \<Rightarrow> Event list \<Rightarrow> bool" where
  "members_kept s evs \<longleftrightarrow>
     (\<exists>x. evs = [CommunityChanged x]
        \<and> (case fmlookup (s_communities s) (co_conversation_id x) of
             None \<Rightarrow> True
           | Some old \<Rightarrow> co_members x = co_members old))"

lemma members_kept_metadata:
  "decide_UpdateCommunity s a x = Ok evs \<Longrightarrow> members_kept s evs"
  by (cases "fmlookup (s_communities s) (co_conversation_id x)")
    (auto simp: decide_UpdateCommunity_def result_simps members_kept_def split: if_split_asm)

lemma members_kept_subscriptions:
  assumes "keys_ok s"
  shows "decide_SubscribeChannel s a c t = Ok evs \<Longrightarrow> members_kept s evs"
    "decide_UnsubscribeChannel s a c t = Ok evs \<Longrightarrow> members_kept s evs"
    "decide_SetCommunitySlowMode s a c n t = Ok evs \<Longrightarrow> members_kept s evs"
  by (auto simp: decide_SubscribeChannel_def decide_UnsubscribeChannel_def members_kept_def
      decide_SetCommunitySlowMode_def result_simps keys_ok_community [OF assms]
      dest!: operation_members split: if_splits)

lemma members_kept_invites:
  assumes "keys_ok s"
  shows "decide_CreateInviteLink s a iv = Ok evs \<Longrightarrow> members_kept s evs"
    "decide_RevokeInviteLink s a c i t = Ok evs \<Longrightarrow> members_kept s evs"
    "decide_RequestCommunityJoin s a j = Ok evs \<Longrightarrow> members_kept s evs"
    "decide_DeleteForumTopic s a c i = Ok evs \<Longrightarrow> members_kept s evs"
    "decide_UpsertForumTopic s a tp = Ok evs \<Longrightarrow> members_kept s evs"
proof -
  note key = keys_ok_community [OF assms]
  show "decide_CreateInviteLink s a iv = Ok evs \<Longrightarrow> members_kept s evs"
    by (auto simp: decide_CreateInviteLink_def result_simps members_kept_def key)
  show "decide_RevokeInviteLink s a c i t = Ok evs \<Longrightarrow> members_kept s evs"
    by (auto simp: decide_RevokeInviteLink_def result_simps members_kept_def key
        dest!: operation_members)
  show "decide_RequestCommunityJoin s a j = Ok evs \<Longrightarrow> members_kept s evs"
    by (auto simp: decide_RequestCommunityJoin_def request_join_def result_simps members_kept_def key)
  show "decide_DeleteForumTopic s a c i = Ok evs \<Longrightarrow> members_kept s evs"
    by (auto simp: decide_DeleteForumTopic_def result_simps members_kept_def key)
  show "decide_UpsertForumTopic s a tp = Ok evs \<Longrightarrow> members_kept s evs"
    by (auto simp: decide_UpsertForumTopic_def result_simps members_kept_def)
qed

lemma other_commands_keep_members:
  assumes "keys_ok s" "\<not> changes_members cmd" "members_of s c \<noteq> None"
  shows "members_of (fst (execute s cmd)) c = members_of s c"
proof (cases "Communities_table \<in> set (footprint cmd)")
  case False
  then show ?thesis by (simp add: members.execute_frame)
next
  case True
  show ?thesis
  proof (cases "decide s cmd")
    case (Inr evs)
    then have "members_kept s evs"
      using True assms(2)
      by (cases cmd)
        (simp_all add: changes_members_def members_kept_metadata
          members_kept_subscriptions [OF assms(1)] members_kept_invites [OF assms(1)])
    then show ?thesis
      using assms(3) Inr
      by (auto simp: execute_def members_of_def communities_apply members_kept_def split: option.splits)
  qed (simp add: execute_def)
qed

section \<open>Owners\<close>

lemma owners_eqI: "members_of s' c = members_of s c \<Longrightarrow> owners s' c = owners s c"
  by (simp add: owners_def)

lemma execute_eq_events:
  "decide s cmd = Ok evs \<Longrightarrow> fst (execute s cmd) = foldl apply_event s evs"
  by (simp add: execute_def)

lemma moderate_Ok:
  assumes "decide s (ModerateCommunityMember a c m r t) = Ok evs"
  obtains co where "fmlookup (s_communities s) c = Some co"
    and "require_community_admin co a ActBanMembers = Ok ()" and "cm_actor_id m \<noteq> a"
    and "\<not> member_status_is co (cm_actor_id m) StatusOwner"
    and "\<not> member_status_is co (cm_actor_id m) StatusAdministrator"
    and "cm_status m \<noteq> StatusOwner" and "cm_status m \<noteq> StatusAdministrator"
    and "evs = CommunityChanged (change_member co a m r t)
       # participant_events s c (change_member co a m r t) (cm_actor_id m)"
  using assms by (auto simp: decide_ModerateCommunityMember_def result_simps Let_def)

lemma set_member_Ok:
  assumes "decide s (SetCommunityMember a c m) = Ok evs"
  obtains co where "fmlookup (s_communities s) c = Some co"
    and "(member_status_is co (cm_actor_id m) StatusOwner \<or> cm_status m = StatusOwner)
       \<longrightarrow> is_community_owner co a"
    and "require_community_admin co a (set_member_action co m) = Ok ()"
    and "evs = CommunityChanged (change_member co a m None (cm_joined_at_ms m))
       # participant_events s c (change_member co a m None (cm_joined_at_ms m)) (cm_actor_id m)"
  using assms by (auto simp: decide_SetCommunityMember_def result_simps Let_def)

lemma members_change_member:
  assumes "keys_ok s" "fmlookup (s_communities s) c = Some co"
  shows "members_of (foldl apply_event s (CommunityChanged (change_member co a m r t)
      # participant_events s c (change_member co a m r t) (cm_actor_id m))) c' =
    (if c' = c then Some (fmupd (cm_actor_id m) m (co_members co)) else members_of s c')"
  using keys_ok_community [OF assms] by (simp add: participant_events_members members_of_apply)

lemma owners_change_member:
  assumes "keys_ok s" "fmlookup (s_communities s) c = Some co"
    and "\<not> member_status_is co (cm_actor_id m) StatusOwner" "cm_status m \<noteq> StatusOwner"
  shows "owners (foldl apply_event s (CommunityChanged (change_member co a m r t)
    # participant_events s c (change_member co a m r t) (cm_actor_id m))) c' = owners s c'"
proof -
  have "owners s c = {x. member_status_is co x StatusOwner}"
    using assms(2) by (auto simp: owners_def members_of_def member_status_is_def split: option.splits)
  then show ?thesis
    using assms(3,4) unfolding owners_def members_change_member [OF assms(1,2)]
    by (auto simp: member_status_is_def split: if_splits option.splits)
qed

lemma owners_moderation:
  assumes "keys_ok s" "decide s cmd = Ok evs" "fmlookup (s_communities s) c = Some co"
    and "(\<exists>a i m r t. cmd = ModerateCommunityMember a i m r t)
       \<or> (\<exists>a i m. cmd = SetCommunityMember a i m \<and> (i = c \<longrightarrow> \<not> is_community_owner co a))"
  shows "owners (foldl apply_event s evs) c = owners s c"
  using assms(4)
proof (elim disjE exE conjE)
  fix a i m r t
  assume cmd: "cmd = ModerateCommunityMember a i m r t"
  from assms(2) [unfolded cmd] show ?thesis
    by (rule moderate_Ok) (simp only: owners_change_member [OF assms(1)] simp_thms)
next
  fix a i m
  assume cmd: "cmd = SetCommunityMember a i m" and *: "i = c \<longrightarrow> \<not> is_community_owner co a"
  from assms(2) [unfolded cmd] obtain co' where co': "fmlookup (s_communities s) i = Some co'"
    and owner: "(member_status_is co' (cm_actor_id m) StatusOwner \<or> cm_status m = StatusOwner)
       \<longrightarrow> is_community_owner co' a"
    and evs: "evs = CommunityChanged (change_member co' a m None (cm_joined_at_ms m))
       # participant_events s i (change_member co' a m None (cm_joined_at_ms m)) (cm_actor_id m)"
    by (rule set_member_Ok)
  show ?thesis
  proof (cases "i = c")
    case True
    with * co' owner assms(3) have "\<not> member_status_is co' (cm_actor_id m) StatusOwner"
      "cm_status m \<noteq> StatusOwner" by auto
    from owners_change_member [OF assms(1) co' this] show ?thesis unfolding evs .
  next
    case False
    then show ?thesis
      unfolding evs owners_def members_change_member [OF assms(1) co'] by simp
  qed
qed

lemma owners_other_community:
  assumes "keys_ok s" "decide s cmd = Ok evs"
    and "(\<exists>a i b p t. cmd = RespondCommunityJoin a i b p t \<and> i \<noteq> c)
       \<or> (\<exists>i p. cmd = SetConversationParticipant i p \<and> i \<noteq> c)
       \<or> (\<exists>i a. cmd = RemoveConversationParticipant i a \<and> i \<noteq> c)"
  shows "owners (foldl apply_event s evs) c = owners s c"
  using assms(2,3)
  by (auto intro!: owners_eqI simp: members_of_apply keys_ok_community [OF assms(1)] Let_def result_simps
      decide_SetConversationParticipant_def decide_RemoveConversationParticipant_def
      elim!: respond_join_Ok split: if_split_asm)

text \<open>Rejecting a join request drops the request and leaves every member as it is.\<close>

lemma owners_rejected_join:
  assumes "keys_ok s" "decide s (RespondCommunityJoin a i b False t) = Ok evs"
  shows "owners (foldl apply_event s evs) c = owners s c"
  using assms(2)
  by (auto intro!: owners_eqI simp: members_of_def communities_apply keys_ok_community [OF assms(1)]
      decide_RespondCommunityJoin_def Let_def result_simps split: if_split_asm)

section \<open>Properties of owners\<close>

text \<open>
  C16: only owners make and unmake owners. Take any command other than the approval of a join request
  and the two commands on the conversation's participants, and other than a \<open>SetCommunityMember\<close> issued
  by an owner of that community. It leaves the owners of the community as they are: no administrator
  and no outsider can promote to owner, demote, ban or remove an owner.
\<close>

theorem owners_protected:
  assumes "keys_ok s" "fmlookup (s_communities s) c = Some co"
    and "\<forall>a b t. cmd \<noteq> RespondCommunityJoin a c b True t" "\<forall>p. cmd \<noteq> SetConversationParticipant c p"
    and "\<forall>a. cmd \<noteq> RemoveConversationParticipant c a"
    and "\<forall>a m. cmd = SetCommunityMember a c m \<longrightarrow> \<not> is_community_owner co a"
  shows "owners (fst (execute s cmd)) c = owners s c"
proof (cases "decide s cmd")
  case (Inr evs)
  show ?thesis
  proof (cases "changes_members cmd")
    case False
    then show ?thesis
      using other_commands_keep_members [OF assms(1), of cmd c] assms(2)
      by (intro owners_eqI) (simp add: members_of_def)
  next
    case True
    then have "owners (foldl apply_event s evs) c = owners s c"
      using owners_moderation [OF assms(1) Inr assms(2)] owners_other_community [OF assms(1) Inr, of c]
        owners_rejected_join [OF assms(1), of _ _ _ _ evs c] Inr assms(3-)
      by (cases cmd) (auto simp: changes_members_def simp del: decide.simps)
    with Inr show ?thesis by (simp add: execute_eq_events)
  qed
qed (simp add: execute_def)

theorem owners_protected_witness:
  "owners (fst (execute (chat Group (Some (room_community StatusAdministrator None)) hello)
      (SetCommunityMember uma room (room_member olga StatusBanned)))) room
   = owners (chat Group (Some (room_community StatusAdministrator None)) hello) room"
  by (rule owners_protected [OF chat_keys, where co = "room_community StatusAdministrator None"])
    (simp_all add: chat_eval is_community_owner_def)

text \<open>
  Approving a join request overwrites the member. The approval does not look at the record the
  requester already has: when an owner has a pending request, an administrator with invite rights who
  approves it turns the owner into a plain member without rights.
\<close>

theorem join_approval_demotes_owner:
  assumes "keys_ok s" "fmlookup (s_communities s) c = Some co"
    and "fmlookup (co_pending_join_requests co) b = Some req" "jr_actor_id req = b"
    and "fmlookup (co_members co) a = Some adm" "cm_status adm = StatusAdministrator"
    and "ar_invite_members (cm_admin_rights adm)" "b \<in> owners s c"
  shows "\<exists>s' evs. execute s (RespondCommunityJoin a c b True t) = (s', Ok evs) \<and> b \<notin> owners s' c"
proof -
  have "require_community_admin co a ActInviteMembers = Ok ()" "can_manage_invites co a"
    using assms(5-7) by (simp_all add: require_community_admin_def admin_allowed_def can_manage_invites_def)
  then obtain y evs where y: "approve_join co b a t = Ok y"
    and evs: "decide s (RespondCommunityJoin a c b True t) = Ok evs"
    using assms(2,3)
    by (simp add: decide_RespondCommunityJoin_def require_community_def approve_join_def Let_def)
  have mem: "cm_status (the (fmlookup (co_members y) b)) = StatusMember" "fmlookup (co_members y) b \<noteq> None"
    "co_conversation_id y = c"
    using y assms(3,4) keys_ok_community [OF assms(1,2)]
    by (auto simp: approve_join_def upsert_member_def result_simps split: if_splits)
  have "\<exists>rest. evs = CommunityChanged (append_community_audit y a JoinApproved (Some b) None None t) # rest
      \<and> (rest = [] \<or> (\<exists>p. rest = [ConversationParticipantUpserted c p]))"
    using evs assms(2) y
    by (auto simp: decide_RespondCommunityJoin_def result_simps Let_def split: option.split_asm if_split_asm)
  then have "members_of (foldl apply_event s evs) c = Some (co_members y)"
    using mem(3) by (auto simp: members_of_apply)
  then have "b \<notin> owners (foldl apply_event s evs) c"
    using mem by (auto simp: owners_def)
  with evs show ?thesis by (simp add: execute_def)
qed

definition join_community :: CommunityState where
  "join_community = (room_community StatusAdministrator None)
     \<lparr>co_members := fmupd uma ((room_member uma StatusAdministrator)\<lparr>cm_admin_rights := all_admin_rights\<rparr>)
        (fmupd olga (room_member olga StatusOwner) fmempty),
      co_pending_join_requests := fmupd olga
        \<lparr>jr_conversation_id = room, jr_actor_id = olga, jr_invite_link_id = None, jr_bio = None,
         jr_requested_at_ms = 0\<rparr> fmempty\<rparr>"

theorem join_approval_demotes_owner_witness:
  "olga \<in> owners (chat Group (Some join_community) hello) room
   \<and> (\<exists>s' evs. execute (chat Group (Some join_community) hello) (RespondCommunityJoin uma room olga True 5)
        = (s', Ok evs) \<and> olga \<notin> owners s' room)"
proof -
  let ?s = "chat Group (Some join_community) hello"
  have key: "co_conversation_id join_community = room"
    by (simp add: join_community_def chat_eval)
  have owner: "olga \<in> owners ?s room"
    by (simp add: owners_def members_of_def join_community_def chat_eval)
  have "\<exists>s' evs. execute ?s (RespondCommunityJoin uma room olga True 5) = (s', Ok evs) \<and> olga \<notin> owners s' room"
    by (rule join_approval_demotes_owner [OF chat_keys, where co = join_community
          and req = "\<lparr>jr_conversation_id = room, jr_actor_id = olga, jr_invite_link_id = None, jr_bio = None,
         jr_requested_at_ms = 0\<rparr>" and adm = "(room_member uma StatusAdministrator)\<lparr>cm_admin_rights := all_admin_rights\<rparr>"])
      (use owner key in \<open>simp_all add: join_community_def chat_eval all_admin_rights_def\<close>)
  with owner show ?thesis by blast
qed

section \<open>Moderation\<close>

lemma communities_change_member:
  assumes "keys_ok s" "fmlookup (s_communities s) c = Some co"
  shows "fmlookup (s_communities (foldl apply_event s (CommunityChanged (change_member co a m r t)
      # participant_events s c (change_member co a m r t) (cm_actor_id m)))) c = Some (change_member co a m r t)"
  using keys_ok_community [OF assms]
  by (auto simp: participant_events_def communities_apply split: option.splits)

lemma conversations_change_member:
  assumes "fmlookup (s_conversations s) c = Some conv" "is_community_kind (c_kind conv)"
    and "cm_status m = StatusLeft \<or> cm_status m = StatusBanned"
  shows "\<exists>conv'. fmlookup (s_conversations (foldl apply_event s (CommunityChanged (change_member co a m r t)
      # participant_events s c (change_member co a m r t) (cm_actor_id m)))) c = Some conv'
    \<and> \<not> is_participant conv' (cm_actor_id m)"
  using assms
  by (auto simp: participant_events_def conversations_apply is_participant_def list_ex_iff
      participant_for_community_member_def Let_def)

lemma banned_cannot_ask:
  assumes "fmlookup (s_communities s) c = Some co" "fmlookup (co_members co) b = Some m"
    and "cm_status m = StatusBanned" "jr_conversation_id j = c" "jr_actor_id j = b"
  shows "\<exists>e. execute s (RequestCommunityJoin b j) = (s, Err e)"
proof (cases "decide s (RequestCommunityJoin b j)")
  case (Inr es)
  then show ?thesis
    using assms by (auto simp: decide_RequestCommunityJoin_def result_simps member_status_is_def)
qed (simp add: execute_def)

lemma change_member_access:
  assumes "cm_status m = StatusBanned \<or> cm_status m = StatusLeft"
  shows "\<not> community_has_access (change_member co a m r t) (cm_actor_id m)"
  using assms
  by (auto simp: community_has_access_def change_member_def Let_def is_subscriber_def
      append_community_audit_def append_audit_def upsert_member_def)

text \<open>
  C15: a ban takes effect everywhere. When the engine accepts a moderation that bans or removes a member
  of a group or channel, the moderator had the right to ban, the target was neither owner nor
  administrator nor the moderator, and afterwards the target is no participant and no subscriber, has
  no access, and every message the target tries to send there is refused; a banned target cannot ask
  to join again either. Every other member is as before.
\<close>

theorem ban_takes_effect:
  assumes "keys_ok s" "execute s (ModerateCommunityMember a c m r t) = (s', Ok evs)"
    and "cm_status m = StatusBanned \<or> cm_status m = StatusLeft"
    and "fmlookup (s_conversations s) c = Some conv" "is_community_kind (c_kind conv)"
    and "fmlookup (s_communities s) c = Some co"
  shows "require_community_admin co a ActBanMembers = Ok () \<and> cm_actor_id m \<noteq> a
    \<and> \<not> member_status_is co (cm_actor_id m) StatusOwner
    \<and> \<not> member_status_is co (cm_actor_id m) StatusAdministrator
    \<and> (\<exists>conv'. fmlookup (s_conversations s') c = Some conv' \<and> \<not> is_participant conv' (cm_actor_id m))
    \<and> (\<exists>co'. fmlookup (s_communities s') c = Some co' \<and> \<not> community_has_access co' (cm_actor_id m)
         \<and> (\<forall>b. b \<noteq> cm_actor_id m \<longrightarrow> fmlookup (co_members co') b = fmlookup (co_members co) b))
    \<and> (\<exists>e. execute s' (QueueMessage c m1 k (cm_actor_id m) x rp rt t' sc si pr) = (s', Err e))
    \<and> (cm_status m = StatusBanned \<longrightarrow>
         (\<exists>e. execute s' (RequestCommunityJoin (cm_actor_id m)
            \<lparr>jr_conversation_id = c, jr_actor_id = cm_actor_id m, jr_invite_link_id = i, jr_bio = bio,
             jr_requested_at_ms = t''\<rparr>) = (s', Err e)))"
proof -
  have d: "decide s (ModerateCommunityMember a c m r t) = Ok evs" and s': "s' = foldl apply_event s evs"
    using assms(2) engine.exec_result [of s "ModerateCommunityMember a c m r t"]
      execute_Ok [of s "ModerateCommunityMember a c m r t" evs] by simp_all
  obtain co' where co': "fmlookup (s_communities s) c = Some co'"
    and guards: "require_community_admin co' a ActBanMembers = Ok ()" "cm_actor_id m \<noteq> a"
      "\<not> member_status_is co' (cm_actor_id m) StatusOwner"
      "\<not> member_status_is co' (cm_actor_id m) StatusAdministrator"
    and evs: "evs = CommunityChanged (change_member co' a m r t)
       # participant_events s c (change_member co' a m r t) (cm_actor_id m)"
    using d by (rule moderate_Ok)
  have co'_eq: "co' = co" using co' assms(6) by simp
  let ?co = "change_member co a m r t"
  have com: "fmlookup (s_communities s') c = Some ?co"
    using communities_change_member [OF assms(1,6), of a m r t] by (simp add: s' evs co'_eq)
  have conv: "\<exists>conv'. fmlookup (s_conversations s') c = Some conv' \<and> \<not> is_participant conv' (cm_actor_id m)"
    using conversations_change_member [OF assms(4,5), of m co a r t] assms(3) by (auto simp: s' evs co'_eq)
  have status: "fmlookup (co_members ?co) (cm_actor_id m) = Some m"
    by simp
  note access = change_member_access [OF assms(3), of co a r t]
  have queue: "\<exists>e. execute s' (QueueMessage c m1 k (cm_actor_id m) x rp rt t' sc si pr) = (s', Err e)"
    using assms(3) by (intro removed_member_refused [OF com status]) auto
  have join: "cm_status m = StatusBanned \<longrightarrow> (\<exists>e. execute s' (RequestCommunityJoin (cm_actor_id m)
            \<lparr>jr_conversation_id = c, jr_actor_id = cm_actor_id m, jr_invite_link_id = i, jr_bio = bio,
             jr_requested_at_ms = t''\<rparr>) = (s', Err e))"
    using banned_cannot_ask [OF com status] by simp
  show ?thesis
    using guards [unfolded co'_eq] conv com access queue join by auto
qed

lemma room_ban:
  "\<exists>s' evs. execute (chat Group (Some (room_community StatusMember None)) hello)
     (ModerateCommunityMember olga room (room_member uma StatusBanned) None 5) = (s', Ok evs)"
  by (simp add: execute_def decide_ModerateCommunityMember_def require_actor_def require_community_def
      require_community_admin_def admin_allowed_def member_status_is_def chat_eval Let_def)

theorem ban_takes_effect_witness:
  "\<exists>s' evs e. execute (chat Group (Some (room_community StatusMember None)) hello)
      (ModerateCommunityMember olga room (room_member uma StatusBanned) None 5) = (s', Ok evs)
    \<and> execute s' (QueueMessage room (MessageId ''n'') (ClientMessageId ''k'') uma hello None None 9 None
        False False) = (s', Err e)"
proof -
  let ?s = "chat Group (Some (room_community StatusMember None)) hello"
  obtain s' evs where s': "execute ?s
      (ModerateCommunityMember olga room (room_member uma StatusBanned) None 5) = (s', Ok evs)"
    using room_ban by blast
  have "keys_ok ?s"
    by (rule chat_keys) (simp add: chat_eval)
  moreover have "\<exists>conv. fmlookup (s_conversations ?s) room = Some conv \<and> is_community_kind (c_kind conv)"
    and "fmlookup (s_communities ?s) room = Some (room_community StatusMember None)"
    by (simp_all add: chat_def is_community_kind_def)
  moreover have "cm_actor_id (room_member uma StatusBanned) = uma" "cm_status (room_member uma StatusBanned) = StatusBanned"
    by (simp_all add: room_member_def)
  ultimately show ?thesis
    using ban_takes_effect [OF _ s', of _ "room_community StatusMember None" "MessageId ''n''"
        "ClientMessageId ''k''" hello None None 9 None False False None None 0] s'
    by auto
qed

section \<open>The audit log\<close>

definition audit_bounded :: "MessagingState \<Rightarrow> bool" where
  "audit_bounded s \<longleftrightarrow>
     (\<forall>c co. fmlookup (s_communities s) c = Some co \<longrightarrow> length (co_admin_log co) \<le> MAX_AUDIT_ENTRIES)"

lemma append_audit_length: "length (co_admin_log (append_audit co e)) \<le> MAX_AUDIT_ENTRIES"
  by (simp add: append_audit_def Let_def MAX_AUDIT_ENTRIES_def)

lemma append_audit_last: "last (co_admin_log (append_audit co e)) = e" "co_admin_log (append_audit co e) \<noteq> []"
  by (simp_all add: append_audit_def Let_def MAX_AUDIT_ENTRIES_def)

text \<open>The log only loses entries at its old end.\<close>

lemma append_audit_suffix:
  "\<exists>n. co_admin_log (append_audit co e) = drop n (co_admin_log co) @ [e]
     \<and> (length (co_admin_log co) < MAX_AUDIT_ENTRIES \<longrightarrow> n = 0)"
  by (rule exI [of _ "Suc (length (co_admin_log co)) - MAX_AUDIT_ENTRIES"])
    (auto simp: append_audit_def Let_def MAX_AUDIT_ENTRIES_def)

lemma audit_bounded_apply:
  assumes "audit_bounded s" "event_ok s ev"
  shows "audit_bounded (apply_event s ev)"
proof (cases "\<exists>x. ev = CommunityChanged x")
  case True
  then obtain x where ev: "ev = CommunityChanged x" by blast
  have "length (co_admin_log x) \<le> MAX_AUDIT_ENTRIES"
    using assms append_audit_length
    by (auto simp: ev audit_bounded_def audit_kept_or_appended_def split: option.splits)
  with assms(1) show ?thesis
    by (auto simp: ev audit_bounded_def communities_apply)
next
  case False
  then show ?thesis
    using assms(1) unfolding audit_bounded_def communities_apply
    by (cases ev) (auto split: option.splits if_splits)
qed

interpretation audit: event_invariant decide apply_event execute
  "\<lambda>s. keys_ok s \<and> audit_bounded s" event_ok
  by unfold_locales (auto simp: decide_events_ok keys_ok_apply audit_bounded_apply)

text \<open>The administrative commands with the actor, the community and the action they record.\<close>

definition admin_record :: "Command \<Rightarrow> (ActorId \<times> ConversationId \<times> CommunityAuditAction) option" where
  "admin_record cmd =
     (case cmd of
        SetCommunitySlowMode a c n t \<Rightarrow> Some (a, c, SlowModeChanged)
      | ModerateCommunityMember a c m r t \<Rightarrow> Some (a, c, MemberChanged)
      | SetCommunityMember a c m \<Rightarrow> Some (a, c, MemberChanged)
      | CreateInviteLink a iv \<Rightarrow> Some (a, il_conversation_id iv, InviteCreated)
      | RevokeInviteLink a c i t \<Rightarrow> Some (a, c, InviteRevoked)
      | RequestCommunityJoin a j \<Rightarrow> Some (a, jr_conversation_id j, MemberChanged)
      | RespondCommunityJoin a c b p t \<Rightarrow> Some (a, c, if p then JoinApproved else JoinRejected)
      | UpsertForumTopic a tp \<Rightarrow> Some (a, fts_conversation_id tp, TopicUpserted)
      | DeleteForumTopic a c i \<Rightarrow> Some (a, c, TopicDeleted)
      | _ \<Rightarrow> None)"

definition audited ::
  "MessagingState \<Rightarrow> Event list \<Rightarrow> ActorId \<Rightarrow> ConversationId \<Rightarrow> CommunityAuditAction \<Rightarrow> bool"
where
  "audited s evs a c act \<longleftrightarrow>
     (\<exists>co x ta ti r t. fmlookup (s_communities s) c = Some co \<and> co_conversation_id x = co_conversation_id co
        \<and> co_admin_log x = co_admin_log co \<and> evs \<noteq> []
        \<and> hd evs = CommunityChanged (append_community_audit x a act ta ti r t)
        \<and> (\<forall>ev \<in> set (tl evs). table ev = Conversations_table))"

lemma auditedI:
  "fmlookup (s_communities s) c = Some co \<Longrightarrow> co_conversation_id x = co_conversation_id co \<Longrightarrow>
   co_admin_log x = co_admin_log co \<Longrightarrow> \<forall>ev \<in> set rest. table ev = Conversations_table \<Longrightarrow>
   audited s (CommunityChanged (append_community_audit x a act ta ti r t) # rest) a c act"
  unfolding audited_def by fastforce

lemma participant_events_table: "\<forall>ev \<in> set (participant_events s c co b). table ev = Conversations_table"
  by (auto simp: participant_events_def split: option.splits)

lemma audited_change_member:
  "fmlookup (s_communities s) c = Some co \<Longrightarrow>
   audited s (CommunityChanged (change_member co a m r t)
     # participant_events s c (change_member co a m r t) (cm_actor_id m)) a c MemberChanged"
  unfolding change_member_def [of co a m r t] Let_def
  by (rule auditedI [where co = co, OF _ _ _ participant_events_table]) (auto simp: upsert_member_def)

lemma audited_commands:
  "decide_SetCommunitySlowMode s a c n t = Ok evs \<Longrightarrow> audited s evs a c SlowModeChanged"
  "decide_ModerateCommunityMember s a c m r t = Ok evs \<Longrightarrow> audited s evs a c MemberChanged"
  "decide_SetCommunityMember s a c m = Ok evs \<Longrightarrow> audited s evs a c MemberChanged"
  "decide_CreateInviteLink s a iv = Ok evs \<Longrightarrow> audited s evs a (il_conversation_id iv) InviteCreated"
  "decide_RevokeInviteLink s a c i t = Ok evs \<Longrightarrow> audited s evs a c InviteRevoked"
  "decide_RequestCommunityJoin s a j = Ok evs \<Longrightarrow> audited s evs a (jr_conversation_id j) MemberChanged"
  "decide_UpsertForumTopic s a tp = Ok evs \<Longrightarrow> audited s evs a (fts_conversation_id tp) TopicUpserted"
  "decide_DeleteForumTopic s a c i = Ok evs \<Longrightarrow> audited s evs a c TopicDeleted"
  by (auto simp: decide_SetCommunitySlowMode_def decide_ModerateCommunityMember_def
      decide_SetCommunityMember_def decide_CreateInviteLink_def decide_RevokeInviteLink_def
      decide_RequestCommunityJoin_def decide_UpsertForumTopic_def decide_DeleteForumTopic_def
      result_simps Let_def request_join_def dest: revoke_invite_Ok
      intro!: auditedI audited_change_member)

lemma audited_respond_join:
  "decide_RespondCommunityJoin s a c b p t = Ok evs \<Longrightarrow>
   audited s evs a c (if p then JoinApproved else JoinRejected)"
  by (cases p)
    (auto simp: decide_RespondCommunityJoin_def result_simps Let_def dest: approve_join_Ok
      intro!: auditedI split: option.splits)

text \<open>
  The audit log is bounded. After every run of commands from the empty state the log of every
  community has at most 1000 entries.
\<close>

theorem audit_log_bounded:
  "audit_bounded (fst (run_commands execute MessagingState_default cs))"
proof -
  have "keys_ok MessagingState_default \<and> audit_bounded MessagingState_default"
    using keys_ok_default by (simp add: audit_bounded_def) (simp add: MessagingState_default_def)
  then show ?thesis
    using audit.run_inv [of MessagingState_default cs] by (simp add: engine.run_state)
qed

text \<open>
  Administration leaves a trace. When the engine accepts an administrative command (slow mode,
  moderation, a change of a member, invite links, join requests, forum topics), the last entry of the
  community's log names the acting actor and the action, and all earlier entries are still there, but
  for old ones that the limit of 1000 pushed out.
\<close>

theorem administration_is_audited:
  assumes "keys_ok s" "execute s cmd = (s', Ok evs)" "admin_record cmd = Some (a, c, act)"
  shows "\<exists>co co' e n. fmlookup (s_communities s) c = Some co \<and> fmlookup (s_communities s') c = Some co'
    \<and> co_admin_log co' = drop n (co_admin_log co) @ [e]
    \<and> (length (co_admin_log co) < MAX_AUDIT_ENTRIES \<longrightarrow> n = 0)
    \<and> au_actor_id e = a \<and> au_action e = act"
proof -
  have d: "decide s cmd = Ok evs" and s': "s' = foldl apply_event s evs"
    using assms(2) engine.exec_result [of s cmd] execute_Ok [of s cmd evs] by simp_all
  have "audited s evs a c act"
    using d assms(3) by (cases cmd) (auto simp: admin_record_def audited_commands dest: audited_respond_join)
  then obtain co x ta ti r t rest where co: "fmlookup (s_communities s) c = Some co"
    and x: "co_conversation_id x = co_conversation_id co" "co_admin_log x = co_admin_log co"
    and evs: "evs = CommunityChanged (append_community_audit x a act ta ti r t) # rest"
    and rest: "\<forall>ev \<in> set rest. table ev = Conversations_table"
    unfolding audited_def by (metis list.collapse)
  have "s_communities s' = s_communities (apply_event s (CommunityChanged (append_community_audit x a act ta ti r t)))"
    using rest by (simp add: s' evs communities.replay_frame)
  then have "fmlookup (s_communities s') c = Some (append_community_audit x a act ta ti r t)"
    using x(1) keys_ok_community [OF assms(1) co] by (simp add: communities_apply)
  moreover obtain n e where "co_admin_log (append_community_audit x a act ta ti r t) = drop n (co_admin_log co) @ [e]"
    and "length (co_admin_log co) < MAX_AUDIT_ENTRIES \<longrightarrow> n = 0" "au_actor_id e = a" "au_action e = act"
    unfolding append_community_audit_def
    using append_audit_suffix [of x] x(2) by fastforce
  ultimately show ?thesis using co by blast
qed

theorem administration_is_audited_witness:
  "\<exists>s' evs co' e n. execute (chat Group (Some (room_community StatusMember None)) hello)
      (ModerateCommunityMember olga room (room_member uma StatusBanned) None 5) = (s', Ok evs)
    \<and> fmlookup (s_communities s') room = Some co' \<and> co_admin_log co' = [] @ [e]
    \<and> au_actor_id e = olga \<and> au_action e = MemberChanged"
proof -
  obtain s' evs where s': "execute (chat Group (Some (room_community StatusMember None)) hello)
      (ModerateCommunityMember olga room (room_member uma StatusBanned) None 5) = (s', Ok evs)"
    using room_ban by blast
  have "keys_ok (chat Group (Some (room_community StatusMember None)) hello)"
    by (rule chat_keys) (simp add: chat_eval)
  from administration_is_audited [OF this s', of olga room MemberChanged] s' show ?thesis
    by (auto simp: admin_record_def chat_eval)
qed

section \<open>Members stand under their own identifier\<close>

definition communities_keyed :: "MessagingState \<Rightarrow> bool" where
  "communities_keyed s \<longleftrightarrow> (\<forall>c co. fmlookup (s_communities s) c = Some co \<longrightarrow> members_keyed co)"

lemma members_keyed_audit [simp]: "members_keyed (append_community_audit x a act ta ti r t) = members_keyed x"
  by (simp add: members_keyed_def append_community_audit_def append_audit_def Let_def)

lemma members_keyed_change [simp]: "members_keyed co \<Longrightarrow> members_keyed (change_member co a m r t)"
  by (auto simp: members_keyed_def change_member_def Let_def upsert_member_def
      append_community_audit_def append_audit_def split: if_splits)

lemma seed_members_lookup:
  assumes "fmlookup (seed_members ps req) a = Some x"
  shows "cm_actor_id x = a"
proof -
  have id: "cm_actor_id (seed_member req p) = p_actor_id p" for p
    by (simp add: seed_member_def Let_def split: prod.splits ParticipantRole.splits)
  have "\<forall>x. fmlookup m0 a = Some x \<longrightarrow> cm_actor_id x = a \<Longrightarrow>
      \<forall>x. fmlookup (foldl (\<lambda>m p. fmupd (p_actor_id p) (seed_member req p) m) m0 ps) a = Some x
        \<longrightarrow> cm_actor_id x = a" for m0
  proof (induction ps arbitrary: m0)
    case (Cons p ps)
    show ?case
      unfolding foldl.simps by (rule Cons.IH) (use Cons.prems in \<open>simp add: id\<close>)
  qed simp
  from this [of fmempty] assms show ?thesis
    by (simp add: seed_members_def)
qed

lemma members_keyed_operations:
  "subscribe_channel co a t = Ok co' \<Longrightarrow> members_keyed co \<Longrightarrow> members_keyed co'"
  "unsubscribe_channel co a = Ok co' \<Longrightarrow> members_keyed co \<Longrightarrow> members_keyed co'"
  "revoke_invite co i = Ok co' \<Longrightarrow> members_keyed co \<Longrightarrow> members_keyed co'"
  "approve_join co a b t = Ok co' \<Longrightarrow> members_keyed co \<Longrightarrow> members_keyed co'"
  by (auto simp: subscribe_channel_def unsubscribe_channel_def revoke_invite_def approve_join_def
      upsert_member_def members_keyed_def result_simps get_or_def split: if_splits option.splits)

definition changed_keyed :: "Event list \<Rightarrow> bool" where
  "changed_keyed evs \<longleftrightarrow> (\<forall>x. CommunityChanged x \<in> set evs \<longrightarrow> members_keyed x)"

lemma changed_keyed_simps [simp]:
  "changed_keyed []" "changed_keyed (CommunityChanged x # evs) \<longleftrightarrow> members_keyed x \<and> changed_keyed evs"
  "changed_keyed (ConversationParticipantUpserted c p # evs) \<longleftrightarrow> changed_keyed evs"
  "changed_keyed (ConversationParticipantRemoved c a # evs) \<longleftrightarrow> changed_keyed evs"
  "changed_keyed (participant_events s c co a)"
  by (auto simp: changed_keyed_def participant_events_def split: option.splits)

lemma keyed_participants:
  assumes "communities_keyed s"
  shows "decide_SetConversationParticipant s c p = Ok evs \<Longrightarrow> changed_keyed evs"
    "decide_RemoveConversationParticipant s c a = Ok evs \<Longrightarrow> changed_keyed evs"
    "decide_UpdateCommunity s a x = Ok evs \<Longrightarrow> changed_keyed evs"
proof -
  show "decide_SetConversationParticipant s c p = Ok evs \<Longrightarrow> changed_keyed evs"
    using assms
    by (auto simp: decide_SetConversationParticipant_def result_simps Let_def communities_keyed_def
        members_keyed_def get_or_def split: if_split_asm option.splits)
  show "decide_RemoveConversationParticipant s c a = Ok evs \<Longrightarrow> changed_keyed evs"
    using assms
    by (auto simp: decide_RemoveConversationParticipant_def result_simps communities_keyed_def
        members_keyed_def split: if_split_asm)
  show "decide_UpdateCommunity s a x = Ok evs \<Longrightarrow> changed_keyed evs"
    using assms
    by (auto simp: decide_UpdateCommunity_def result_simps communities_keyed_def members_keyed_def
        dest: seed_members_lookup split: if_split_asm option.split_asm)
qed

lemma keyed_community_commands:
  assumes "communities_keyed s"
  shows "decide_SubscribeChannel s a c t = Ok evs \<Longrightarrow> changed_keyed evs"
    "decide_UnsubscribeChannel s a c t = Ok evs \<Longrightarrow> changed_keyed evs"
    "decide_RevokeInviteLink s a c i t = Ok evs \<Longrightarrow> changed_keyed evs"
    "decide_ModerateCommunityMember s a c m r t = Ok evs \<Longrightarrow> changed_keyed evs"
    "decide_SetCommunityMember s a c m = Ok evs \<Longrightarrow> changed_keyed evs"
    "decide_SetCommunitySlowMode s a c n t = Ok evs \<Longrightarrow> changed_keyed evs"
    "decide_CreateInviteLink s a iv = Ok evs \<Longrightarrow> changed_keyed evs"
    "decide_RequestCommunityJoin s a j = Ok evs \<Longrightarrow> changed_keyed evs"
    "decide_UpsertForumTopic s a tp = Ok evs \<Longrightarrow> changed_keyed evs"
    "decide_DeleteForumTopic s a c i = Ok evs \<Longrightarrow> changed_keyed evs"
proof -
  have key: "members_keyed co" if "fmlookup (s_communities s) c = Some co" for c co
    using assms that by (auto simp: communities_keyed_def)
  have frame: "members_keyed (co\<lparr>co_slow_mode_seconds := n\<rparr>) = members_keyed co"
    "members_keyed (co\<lparr>co_invite_links := l\<rparr>) = members_keyed co"
    "members_keyed (co\<lparr>co_topics := tps\<rparr>) = members_keyed co"
    "members_keyed (co\<lparr>co_pending_join_requests := js\<rparr>) = members_keyed co" for co n l tps js
    by (simp_all add: members_keyed_def)
  show "decide_SubscribeChannel s a c t = Ok evs \<Longrightarrow> changed_keyed evs"
    "decide_UnsubscribeChannel s a c t = Ok evs \<Longrightarrow> changed_keyed evs"
    "decide_RevokeInviteLink s a c i t = Ok evs \<Longrightarrow> changed_keyed evs"
    by (auto simp: decide_SubscribeChannel_def decide_UnsubscribeChannel_def
        decide_RevokeInviteLink_def result_simps dest: members_keyed_operations key)
  show "decide_ModerateCommunityMember s a c m r t = Ok evs \<Longrightarrow> changed_keyed evs"
    "decide_SetCommunityMember s a c m = Ok evs \<Longrightarrow> changed_keyed evs"
    by (auto simp: decide_ModerateCommunityMember_def decide_SetCommunityMember_def result_simps Let_def
        dest: key)
  show "decide_SetCommunitySlowMode s a c n t = Ok evs \<Longrightarrow> changed_keyed evs"
    "decide_CreateInviteLink s a iv = Ok evs \<Longrightarrow> changed_keyed evs"
    "decide_RequestCommunityJoin s a j = Ok evs \<Longrightarrow> changed_keyed evs"
    "decide_UpsertForumTopic s a tp = Ok evs \<Longrightarrow> changed_keyed evs"
    "decide_DeleteForumTopic s a c i = Ok evs \<Longrightarrow> changed_keyed evs"
    by (auto simp: decide_SetCommunitySlowMode_def decide_CreateInviteLink_def request_join_def
        decide_RequestCommunityJoin_def decide_UpsertForumTopic_def decide_DeleteForumTopic_def
        result_simps frame dest: key)
qed

lemma respond_join_shape:
  assumes "decide_RespondCommunityJoin s a c b p t = Ok evs"
  obtains co y rest act where "fmlookup (s_communities s) c = Some co"
    and "evs = CommunityChanged (append_community_audit y a act (Some b) None None t) # rest"
    and "rest = [] \<or> (\<exists>q. rest = [ConversationParticipantUpserted c q])"
    and "if p then approve_join co b a t = Ok y
         else y = co\<lparr>co_pending_join_requests := fmdrop b (co_pending_join_requests co)\<rparr>"
proof (cases p)
  case True
  then obtain co y where "fmlookup (s_communities s) c = Some co" "approve_join co b a t = Ok y"
    and "evs = CommunityChanged (append_community_audit y a JoinApproved (Some b) None None t) # tl evs"
    and "tl evs = [] \<or> (\<exists>q. tl evs = [ConversationParticipantUpserted c q])"
    using assms
    by (auto simp: decide_RespondCommunityJoin_def result_simps Let_def
        split: option.split_asm if_split_asm)
  with True show thesis using that by auto
next
  case False
  with assms show thesis
    using that by (auto simp: decide_RespondCommunityJoin_def result_simps)
qed

lemma keyed_respond_join:
  assumes "communities_keyed s" "decide_RespondCommunityJoin s a c b p t = Ok evs"
  shows "changed_keyed evs"
proof -
  obtain co y rest act where co: "fmlookup (s_communities s) c = Some co"
    and evs: "evs = CommunityChanged (append_community_audit y a act (Some b) None None t) # rest"
    and rest: "rest = [] \<or> (\<exists>q. rest = [ConversationParticipantUpserted c q])"
    and y: "if p then approve_join co b a t = Ok y
       else y = co\<lparr>co_pending_join_requests := fmdrop b (co_pending_join_requests co)\<rparr>"
    using assms(2) by (rule respond_join_shape)
  have "members_keyed co" using assms(1) co by (auto simp: communities_keyed_def)
  with y have "members_keyed y"
    by (cases p) (auto dest: members_keyed_operations(4), auto simp: members_keyed_def)
  with rest show ?thesis by (auto simp: evs)
qed

lemma decide_changed_keyed:
  assumes "communities_keyed s" "decide s cmd = Ok evs"
  shows "changed_keyed evs"
proof (cases "Communities_table \<in> set (footprint cmd)")
  case True
  then show ?thesis
    using assms(2)
    by (cases cmd)
      (simp_all add: keyed_participants [OF assms(1)] keyed_community_commands [OF assms(1)]
        keyed_respond_join [OF assms(1)])
next
  case False
  then show ?thesis
    using decide_within [OF assms(2)] by (auto simp: within_def list_all_iff changed_keyed_def)
qed

lemma communities_keyed_apply:
  assumes "communities_keyed s" "\<forall>x. ev = CommunityChanged x \<longrightarrow> members_keyed x"
  shows "communities_keyed (apply_event s ev)"
  using assms unfolding communities_keyed_def communities_apply
  by (cases ev) (auto simp: members_keyed_def split: option.splits if_splits)

lemma all_ok_changed:
  "changed_keyed evs \<Longrightarrow> all_ok (\<lambda>_ ev. \<forall>x. ev = CommunityChanged x \<longrightarrow> members_keyed x) apply_event s evs"
  by (induction evs arbitrary: s) (auto simp: changed_keyed_def)

interpretation member_keys: event_invariant decide apply_event execute communities_keyed
  "\<lambda>_ ev. \<forall>x. ev = CommunityChanged x \<longrightarrow> members_keyed x"
  by unfold_locales (auto intro: all_ok_changed decide_changed_keyed communities_keyed_apply)

text \<open>
  The member tables of every reachable state are consistent. After every run of commands from the
  empty state each member and each subscriber of each community stands under its own identifier, which
  is what makes the paging of members complete.
\<close>

theorem member_tables_consistent:
  "communities_keyed (fst (run_commands execute MessagingState_default cs))"
proof -
  have "communities_keyed MessagingState_default"
    by (simp add: communities_keyed_def MessagingState_default_def)
  then show ?thesis
    using member_keys.run_inv [of MessagingState_default cs] by (simp add: engine.run_state)
qed

end
