(* ===== verification/Engine_Services.thy ===== *)
theory Engine_Services
  imports Engine_Footprint
begin

text \<open>
  Properties of stories and Mini Apps through the engine.
\<close>

section \<open>Stories\<close>

definition earlier :: "i64 \<Rightarrow> i64 option \<Rightarrow> i64" where
  "earlier t u = (case u of None \<Rightarrow> t | Some v \<Rightarrow> if sint t < sint v then t else v)"

text \<open>
  What viewing a story does. An accepted view was made by an actor the story lets in, before the
  story expired unless it is pinned to the profile; it records the view at the earliest time the actor
  saw the story, keeps the actor's reaction, and leaves the views of all others and everything else of
  the story as they were.
\<close>

theorem story_view_recorded:
  assumes "keys_ok s" "execute s (ViewStory a i t) = (s', Ok evs)"
  shows "\<exists>x y v. fmlookup (s_stories s) i = Some x \<and> fmlookup (s_stories s') i = Some y
    \<and> is_visible_to x a False False
    \<and> (sint t \<le> sint (st_expires_at_ms x) \<or> st_pinned_to_profile x)
    \<and> y = x\<lparr>st_views := fmupd a v (st_views x)\<rparr>
    \<and> sv_viewed_at_ms v = earlier t (map_option sv_viewed_at_ms (fmlookup (st_views x) a))
    \<and> sv_reaction v = (case fmlookup (st_views x) a of None \<Rightarrow> None | Some w \<Rightarrow> sv_reaction w)"
proof -
  have "decide s (ViewStory a i t) = Ok evs" and s': "s' = foldl apply_event s evs"
    using assms(2) engine.exec_result [of s "ViewStory a i t"] execute_Ok [of s "ViewStory a i t" evs]
    by simp_all
  then obtain x y where x: "fmlookup (s_stories s) i = Some x" "is_visible_to x a False False"
    and y: "record_view x a t = Ok y" and evs: "evs = [StoryChanged y]"
    by (auto simp: decide_ViewStory_def result_simps)
  have "st_id y = i"
    using record_view_Ok [OF y] keys_ok_story [OF assms(1) x(1)] by simp
  then have "fmlookup (s_stories s') i = Some y"
    by (simp add: s' evs tables_apply)
  moreover have "\<exists>v. y = x\<lparr>st_views := fmupd a v (st_views x)\<rparr>
      \<and> sv_viewed_at_ms v = earlier t (map_option sv_viewed_at_ms (fmlookup (st_views x) a))
      \<and> sv_reaction v = (case fmlookup (st_views x) a of None \<Rightarrow> None | Some w \<Rightarrow> sv_reaction w)"
    using y by (auto simp: record_view_def Let_def earlier_def split: if_splits option.splits)
  moreover have "sint t \<le> sint (st_expires_at_ms x) \<or> st_pinned_to_profile x"
    using y by (auto simp: record_view_def split: if_splits)
  ultimately show ?thesis using x by blast
qed

text \<open>A public story of \<open>o\<close> and a reader \<open>u\<close>.\<close>

definition demo_story :: "StoryPrivacyKind \<Rightarrow> Story" where
  "demo_story kind =
     \<lparr>st_id = StoryId ''st'', st_owner_id = ActorId ''o'',
      st_media = \<lparr>mr_id = ''p'', mr_file_name = None, mr_mime_type = None, mr_size_bytes = None,
        mr_width = None, mr_height = None, mr_duration_ms = None, mr_thumbnail_id = None,
        mr_local_path = None, mr_remote_url = None, mr_content_hash = None\<rparr>,
      st_caption = FormattedText_plain [],
      st_privacy = \<lparr>sp_kind = kind, sp_included_actor_ids = {||}, sp_excluded_actor_ids = {||}\<rparr>,
      st_created_at_ms = 0, st_expires_at_ms = 100, st_edited_at_ms = None,
      st_pinned_to_profile = False, st_protected_content = False, st_allow_replies = True,
      st_views = fmempty\<rparr>"

definition story_state :: "StoryPrivacyKind \<Rightarrow> MessagingState" where
  "story_state kind = MessagingState_default
     \<lparr>s_actors := fmupd (ActorId ''u'') (Actor_human ''u'' ''Uma'') fmempty,
      s_stories := fmupd (StoryId ''st'') (demo_story kind) fmempty\<rparr>"

lemma story_state_keys: "keys_ok (story_state kind)"
  by (simp add: story_state_def keys_ok_def tables_keyed_def messages_keyed_def drafts_keyed_def
      get_message_def get_draft_def get_topic_draft_def MessagingState_default_def demo_story_def
      Actor_human_def Actor_new_def)

lemma story_state_view:
  "\<exists>s' evs. execute (story_state StoryEveryone) (ViewStory (ActorId ''u'') (StoryId ''st'') 50) = (s', Ok evs)"
  by (simp add: execute_def decide_ViewStory_def require_actor_def story_state_def is_visible_to_def
      record_view_def demo_story_def Let_def)

theorem story_view_recorded_witness:
  "\<exists>s' evs y v. execute (story_state StoryEveryone) (ViewStory (ActorId ''u'') (StoryId ''st'') 50) = (s', Ok evs)
    \<and> fmlookup (s_stories s') (StoryId ''st'') = Some y \<and> fmlookup (st_views y) (ActorId ''u'') = Some v
    \<and> sv_viewed_at_ms v = 50"
proof -
  obtain s' evs where s': "execute (story_state StoryEveryone) (ViewStory (ActorId ''u'') (StoryId ''st'') 50)
      = (s', Ok evs)"
    using story_state_view by blast
  from story_view_recorded [OF story_state_keys s'] s' show ?thesis
    by (auto simp: story_state_def demo_story_def earlier_def)
qed

text \<open>
  Stories for contacts are closed to contacts. The engine asks the story without knowing the
  relation of the actors, so a story for contacts or close friends lets in its owner and the actors
  named in it only, and a view by anyone else is refused.
\<close>

theorem contacts_story_refused:
  assumes "fmlookup (s_stories s) i = Some x"
    and "sp_kind (st_privacy x) = StoryContacts \<or> sp_kind (st_privacy x) = StoryCloseFriends"
    and "a \<noteq> st_owner_id x" "a |\<notin>| sp_included_actor_ids (st_privacy x)"
  shows "\<exists>e. execute s (ViewStory a i t) = (s, Err e)"
proof (cases "decide s (ViewStory a i t)")
  case (Inr evs)
  then show ?thesis
    using assms by (auto simp: decide_ViewStory_def result_simps is_visible_to_def split: if_splits)
qed (simp add: execute_def)

theorem contacts_story_refused_witness:
  "\<exists>e. execute (story_state StoryContacts) (ViewStory (ActorId ''u'') (StoryId ''st'') 50)
     = (story_state StoryContacts, Err e)"
  by (rule contacts_story_refused [where x = "demo_story StoryContacts"])
    (simp_all add: story_state_def demo_story_def)

section \<open>Mini Apps\<close>

text \<open>
  A session has granted permissions only. When the engine opens a session of a Mini App, the app is
  installed, and every permission of the session is in the grant that the session's actor gave this
  app; the session is stored under its identifier and no grant changes.
\<close>

theorem session_permissions_granted:
  assumes "execute s (OpenMiniApp x) = (s', Ok evs)"
  shows "contains_key (s_mini_apps s) (ms_mini_app_id x)
    \<and> fmlookup (s_mini_app_sessions s') (ms_id x) = Some x
    \<and> s_mini_app_grants s' = s_mini_app_grants s
    \<and> (\<forall>p \<in> set (ms_granted_permissions x). \<exists>g.
         fmlookup (s_mini_app_grants s) (ms_mini_app_id x, ms_actor_id x) = Some g \<and> p \<in> set (mg_permissions g))"
proof -
  have d: "decide s (OpenMiniApp x) = Ok evs" and s': "s' = foldl apply_event s evs"
    using assms engine.exec_result [of s "OpenMiniApp x"] execute_Ok [of s "OpenMiniApp x" evs]
    by simp_all
  have evs: "evs = [MiniAppOpened x]"
    using d by (auto simp: decide_OpenMiniApp_def Let_def split: if_splits option.splits)
  with d show ?thesis
    using open_mini_app_ok [of s x evs] by (simp add: s' apply_sessions tables_apply)
qed

definition app_state :: MessagingState where
  "app_state = MessagingState_default
     \<lparr>s_mini_apps := fmupd ''app'' \<lparr>ma_id = ''app'', ma_name = ''App'', ma_version = ''1'',
        ma_description = [], ma_icon_url = None, ma_start_url = [], ma_allowed_origins = [],
        ma_requested_permissions = [PermIdentity], ma_bot_actor_id = None, ma_verified = False\<rparr> fmempty,
      s_mini_app_grants := fmupd (''app'', ActorId ''u'') \<lparr>mg_mini_app_id = ''app'',
        mg_actor_id = ActorId ''u'', mg_permissions = [PermIdentity], mg_granted_at_ms = 0,
        mg_expires_at_ms = None\<rparr> fmempty\<rparr>"

definition app_session :: "MiniAppPermission list \<Rightarrow> MiniAppSession" where
  "app_session ps =
     \<lparr>ms_id = ''s'', ms_mini_app_id = ''app'', ms_actor_id = ActorId ''u'', ms_conversation_id = None,
      ms_start_parameter = None, ms_granted_permissions = ps, ms_opened_at_ms = 0, ms_expires_at_ms = 9\<rparr>"

theorem session_permissions_granted_witness:
  "\<exists>s' evs. execute app_state (OpenMiniApp (app_session [PermIdentity])) = (s', Ok evs)
    \<and> fmlookup (s_mini_app_sessions s') ''s'' = Some (app_session [PermIdentity])"
proof -
  obtain s' evs where s': "execute app_state (OpenMiniApp (app_session [PermIdentity])) = (s', Ok evs)"
    by (simp add: execute_def decide_OpenMiniApp_def app_state_def app_session_def Let_def)
  with session_permissions_granted [OF s'] show ?thesis by (auto simp: app_session_def)
qed

text \<open>
  Calls of Mini Apps are answered without effect. A call never changes the state of the engine; it
  is accepted exactly when the session exists and the request is one the engine answers itself (ready,
  expand, close, the two colours), and the answer is then \<open>Ok\<close>.
\<close>

theorem mini_app_call_effect:
  "fst (execute s (MiniAppCall i r rq)) = s
   \<and> (snd (execute s (MiniAppCall i r rq)) = Ok [MiniAppResponded i r ResponseOk]
        \<longleftrightarrow> contains_key (s_mini_app_sessions s) i \<and> pure_request rq)
   \<and> (\<forall>evs. snd (execute s (MiniAppCall i r rq)) = Ok evs \<longrightarrow> evs = [MiniAppResponded i r ResponseOk])"
proof -
  have none: "pure_request rq \<Longrightarrow> required_permission rq = None"
    by (cases rq) (simp_all add: pure_request_def required_permission_def)
  have Ok_iff: "decide s (MiniAppCall i r rq) = Ok evs \<longleftrightarrow>
      contains_key (s_mini_app_sessions s) i \<and> pure_request rq \<and> evs = [MiniAppResponded i r ResponseOk]" for evs
    using none by (auto simp: decide_MiniAppCall_def result_simps contains_key_def split: option.splits)
  have same: "apply_event s (MiniAppResponded i r ResponseOk) = s"
    by (simp add: apply_event.simps apply_MiniAppResponded_def)
  show ?thesis
  proof (cases "decide s (MiniAppCall i r rq)")
    case (Inl e)
    then have "\<not> (contains_key (s_mini_app_sessions s) i \<and> pure_request rq)"
      using Ok_iff [of "[MiniAppResponded i r ResponseOk]"] by (simp del: decide.simps)
    with Inl show ?thesis by (simp add: execute_def del: decide.simps)
  next
    case (Inr evs)
    with Ok_iff [of evs] show ?thesis by (simp add: execute_def same del: decide.simps)
  qed
qed

lemma app_opened:
  "\<exists>s' evs. execute app_state (OpenMiniApp (app_session [])) = (s', Ok evs)
    \<and> contains_key (s_mini_app_sessions s') ''s''"
proof -
  have "decide app_state (OpenMiniApp (app_session [])) = Ok [MiniAppOpened (app_session [])]"
    by (simp add: decide_OpenMiniApp_def app_state_def app_session_def Let_def)
  then show ?thesis
    by (simp add: execute_def apply_sessions app_session_def contains_key_def del: decide.simps)
qed

theorem mini_app_call_effect_witness:
  "\<exists>s' evs. execute app_state (OpenMiniApp (app_session [])) = (s', Ok evs)
    \<and> snd (execute s' (MiniAppCall ''s'' ''r'' Ready)) = Ok [MiniAppResponded ''s'' ''r'' ResponseOk]"
proof -
  obtain s' evs where s': "execute app_state (OpenMiniApp (app_session [])) = (s', Ok evs)"
    and "contains_key (s_mini_app_sessions s') ''s''"
    using app_opened by blast
  moreover have "pure_request Ready" by (simp add: pure_request_def)
  ultimately have "snd (execute s' (MiniAppCall ''s'' ''r'' Ready)) = Ok [MiniAppResponded ''s'' ''r'' ResponseOk]"
    using mini_app_call_effect [of s' "''s''" "''r''" Ready] by blast
  with s' show ?thesis by blast
qed

end
