(* ===== verification/Search.thy ===== *)
theory Search
  imports Messages "HOL-Library.Sublist"
begin

text \<open>
  The search index of \<open>src/native/mahayana-messaging/src/search.rs\<close>: terms of actors, conversations
  and messages, and the ranked search over them. The two Unicode tables that \<open>tokenize\<close> reads,
  \<open>str::to_lowercase\<close> and \<open>char::is_alphanumeric\<close>, are a parameter of the definitions; a character
  is the list of its UTF-8 bytes.
\<close>

record UnicodeTables =
  u_lowercase :: "string \<Rightarrow> string"
  u_alphanumeric :: "string \<Rightarrow> bool"

datatype SearchScope =
    ScopeGlobal | ScopeConversation | ScopeContacts | ScopeBots | ScopeGroups | ScopeChannels
  | ScopeMedia | ScopeFiles | ScopeLinks

record SearchQuery =
  q_text :: string
  q_scope :: SearchScope
  q_conversation_id :: "ConversationId option"
  q_sender_id :: "ActorId option"
  q_from_ms :: "i64 option"
  q_to_ms :: "i64 option"
  q_limit :: u32

datatype SearchResultKind = ResultActor | ResultConversation | ResultMessage

record SearchResult =
  sr_kind :: SearchResultKind
  sr_id :: string
  sr_conversation_id :: "ConversationId option"
  sr_title :: string
  sr_snippet :: string
  sr_timestamp_ms :: "i64 option"
  sr_score :: u32

record SearchIndex =
  ix_actor_terms :: "(ActorId, string fset) fmap"
  ix_conversation_terms :: "(ConversationId, string fset) fmap"
  ix_message_terms :: "(ConversationId \<times> MessageId, string fset) fmap"
  ix_actors :: "(ActorId, Actor) fmap"
  ix_conversations :: "(ConversationId, Conversation) fmap"
  ix_messages :: "(ConversationId \<times> MessageId, Message) fmap"

definition SearchIndex_default :: SearchIndex where
  "SearchIndex_default =
     \<lparr>ix_actor_terms = fmempty, ix_conversation_terms = fmempty, ix_message_terms = fmempty,
      ix_actors = fmempty, ix_conversations = fmempty, ix_messages = fmempty\<rparr>"

section \<open>Terms\<close>

definition is_word_char :: "UnicodeTables \<Rightarrow> string \<Rightarrow> bool" where
  "is_word_char uni ch \<longleftrightarrow> u_alphanumeric uni ch \<or> ch = ''_'' \<or> ch = ''@'' \<or> ch = ''#''"

text \<open>\<open>str::split\<close> at every character that is no word character.\<close>

fun split_words :: "(string \<Rightarrow> bool) \<Rightarrow> string list \<Rightarrow> string list" where
  "split_words word [] = [[]]"
| "split_words word (ch # chs) =
     (if word ch
      then (case split_words word chs of [] \<Rightarrow> [ch] | w # ws \<Rightarrow> (ch @ w) # ws)
      else [] # split_words word chs)"

definition tokenize :: "UnicodeTables \<Rightarrow> string \<Rightarrow> string fset" where
  "tokenize uni text =
     fset_of_list (filter (\<lambda>value. value \<noteq> [])
       (split_words (is_word_char uni) (utf8_chars (u_lowercase uni text))))"

definition score_term :: "string fset \<Rightarrow> string \<Rightarrow> u32" where
  "score_term indexed t =
     (if t |\<in>| indexed then 10
      else if fBex indexed (\<lambda>candidate. sublist t candidate) then 4
      else 0)"

definition score_terms :: "string fset \<Rightarrow> string fset \<Rightarrow> u32" where
  "score_terms query indexed = sum_list (map (score_term indexed) (sorted_list_of_fset query))"

definition or_default :: "string option \<Rightarrow> string" where
  "or_default x = (case x of None \<Rightarrow> [] | Some s \<Rightarrow> s)"

definition message_search_text :: "Message \<Rightarrow> string" where
  "message_search_text message =
     (case m_content message of
        ContentText text \<Rightarrow> ft_text text
      | ContentPhoto _ caption _ \<Rightarrow> ft_text caption
      | ContentVideo _ caption _ _ \<Rightarrow> ft_text caption
      | ContentAnimation _ caption \<Rightarrow> ft_text caption
      | ContentAudio _ caption _ _ \<Rightarrow> ft_text caption
      | ContentVoice _ caption _ \<Rightarrow> ft_text caption
      | ContentDocument _ caption \<Rightarrow> ft_text caption
      | ContentContact _ display_name phone_number \<Rightarrow> display_name @ '' '' @ or_default phone_number
      | ContentPoll question _ _ _ _ \<Rightarrow> ft_text question
      | ContentVenue _ _ title address \<Rightarrow> title @ '' '' @ address
      | ContentService action text \<Rightarrow> action @ '' '' @ or_default text
      | ContentInvoice invoice_id \<Rightarrow> invoice_id
      | ContentMiniApp mini_app_id title _ \<Rightarrow> title @ '' '' @ mini_app_id
      | _ \<Rightarrow> [])"

definition content_matches_scope :: "MessageContent \<Rightarrow> SearchScope \<Rightarrow> bool" where
  "content_matches_scope content scope =
     (case scope of
        ScopeMedia \<Rightarrow>
          (case content of
             ContentPhoto _ _ _ \<Rightarrow> True
           | ContentVideo _ _ _ _ \<Rightarrow> True
           | ContentAnimation _ _ \<Rightarrow> True
           | ContentAudio _ _ _ _ \<Rightarrow> True
           | ContentVoice _ _ _ \<Rightarrow> True
           | ContentVideoNote _ \<Rightarrow> True
           | ContentSticker _ _ _ \<Rightarrow> True
           | _ \<Rightarrow> False)
      | ScopeFiles \<Rightarrow> (case content of ContentDocument _ _ \<Rightarrow> True | _ \<Rightarrow> False)
      | ScopeLinks \<Rightarrow>
          (case content of
             ContentText text \<Rightarrow>
               list_ex (\<lambda>entity. case te_kind entity of
                                  Url \<Rightarrow> True | TextUrl _ \<Rightarrow> True | _ \<Rightarrow> False)
                 (ft_entities text)
           | _ \<Rightarrow> False)
      | _ \<Rightarrow> True)"

section \<open>Indexing\<close>

definition index_actor :: "UnicodeTables \<Rightarrow> SearchIndex \<Rightarrow> Actor \<Rightarrow> SearchIndex" where
  "index_actor uni ix actor =
     (let text = a_display_name actor
            @ (case a_username actor of None \<Rightarrow> [] | Some username \<Rightarrow> '' '' @ username)
            @ (case a_bio actor of None \<Rightarrow> [] | Some bio \<Rightarrow> '' '' @ bio)
      in ix\<lparr>ix_actor_terms := fmupd (a_id actor) (tokenize uni text) (ix_actor_terms ix),
            ix_actors := fmupd (a_id actor) actor (ix_actors ix)\<rparr>)"

definition index_conversation :: "UnicodeTables \<Rightarrow> SearchIndex \<Rightarrow> Conversation \<Rightarrow> SearchIndex" where
  "index_conversation uni ix conversation =
     (let text = c_title conversation @ '' '' @ or_default (c_description conversation)
      in ix\<lparr>ix_conversation_terms :=
              fmupd (c_id conversation) (tokenize uni text) (ix_conversation_terms ix),
            ix_conversations := fmupd (c_id conversation) conversation (ix_conversations ix)\<rparr>)"

definition index_message :: "UnicodeTables \<Rightarrow> SearchIndex \<Rightarrow> Message \<Rightarrow> SearchIndex" where
  "index_message uni ix message =
     (let terms = tokenize uni (message_search_text message);
          key = (m_conversation_id message, m_id message)
      in ix\<lparr>ix_message_terms := fmupd key terms (ix_message_terms ix),
            ix_messages := fmupd key message (ix_messages ix)\<rparr>)"

definition remove_message :: "SearchIndex \<Rightarrow> ConversationId \<Rightarrow> MessageId \<Rightarrow> SearchIndex" where
  "remove_message ix conversation_id message_id =
     (let key = (conversation_id, message_id)
      in ix\<lparr>ix_message_terms := fmdrop key (ix_message_terms ix),
            ix_messages := fmdrop key (ix_messages ix)\<rparr>)"

section \<open>Searching\<close>

definition actor_in_scope :: "SearchScope \<Rightarrow> Actor \<Rightarrow> bool" where
  "actor_in_scope scope actor =
     (case scope of
        ScopeContacts \<Rightarrow> a_kind actor = Human
      | ScopeBots \<Rightarrow> a_kind actor = Bot \<or> a_kind actor = Assistant
      | _ \<Rightarrow> True)"

definition search_actors :: "SearchIndex \<Rightarrow> SearchScope \<Rightarrow> string fset \<Rightarrow> SearchResult list" where
  "search_actors ix scope terms =
     (if scope = ScopeGlobal \<or> scope = ScopeContacts \<or> scope = ScopeBots then
        List.map_filter (\<lambda>i.
          case fmlookup (ix_actors ix) i of
            None \<Rightarrow> None
          | Some actor \<Rightarrow>
              let score = score_terms terms (the (fmlookup (ix_actor_terms ix) i)) in
              if actor_in_scope scope actor \<and> 0 < score then
                Some \<lparr>sr_kind = ResultActor, sr_id = actor_str i, sr_conversation_id = None,
                      sr_title = a_display_name actor, sr_snippet = or_default (a_bio actor),
                      sr_timestamp_ms = pr_last_seen_at_ms (a_presence actor), sr_score = score\<rparr>
              else None) (map_keys (ix_actor_terms ix))
      else [])"

definition conversation_in_scope :: "SearchScope \<Rightarrow> Conversation \<Rightarrow> bool" where
  "conversation_in_scope scope conversation =
     (case scope of
        ScopeGroups \<Rightarrow> c_kind conversation = Group
      | ScopeChannels \<Rightarrow> c_kind conversation = Channel
      | _ \<Rightarrow> True)"

definition search_conversations :: "SearchIndex \<Rightarrow> SearchScope \<Rightarrow> string fset \<Rightarrow> SearchResult list" where
  "search_conversations ix scope terms =
     (if scope = ScopeGlobal \<or> scope = ScopeGroups \<or> scope = ScopeChannels then
        List.map_filter (\<lambda>i.
          case fmlookup (ix_conversations ix) i of
            None \<Rightarrow> None
          | Some conversation \<Rightarrow>
              let score = score_terms terms (the (fmlookup (ix_conversation_terms ix) i)) in
              if conversation_in_scope scope conversation \<and> 0 < score then
                Some \<lparr>sr_kind = ResultConversation, sr_id = conversation_str i,
                      sr_conversation_id = Some i, sr_title = c_title conversation,
                      sr_snippet = or_default (c_description conversation),
                      sr_timestamp_ms = Some (c_updated_at_ms conversation), sr_score = score\<rparr>
              else None) (map_keys (ix_conversation_terms ix))
      else [])"

definition message_in_query :: "SearchQuery \<Rightarrow> ConversationId \<Rightarrow> Message \<Rightarrow> bool" where
  "message_in_query query conversation_id message \<longleftrightarrow>
     (case q_conversation_id query of None \<Rightarrow> True | Some i \<Rightarrow> i = conversation_id)
   \<and> (case q_sender_id query of None \<Rightarrow> True | Some i \<Rightarrow> i = m_sender_id message)
   \<and> (case q_from_ms query of None \<Rightarrow> True | Some t \<Rightarrow> sint t \<le> sint (m_created_at_ms message))
   \<and> (case q_to_ms query of None \<Rightarrow> True | Some t \<Rightarrow> sint (m_created_at_ms message) \<le> sint t)
   \<and> content_matches_scope (m_content message) (q_scope query)"

definition message_hit ::
  "SearchIndex \<Rightarrow> SearchQuery \<Rightarrow> string fset \<Rightarrow> ConversationId \<times> MessageId \<Rightarrow> SearchResult option"
where
  "message_hit ix query terms key =
     (case fmlookup (ix_messages ix) key of
        None \<Rightarrow> None
      | Some message \<Rightarrow>
          let score = score_terms terms (the (fmlookup (ix_message_terms ix) key)) in
          if message_in_query query (fst key) message \<and> 0 < score then
            Some \<lparr>sr_kind = ResultMessage, sr_id = message_str (snd key),
                  sr_conversation_id = Some (fst key),
                  sr_title = (case fmlookup (ix_conversations ix) (fst key) of
                                None \<Rightarrow> conversation_str (fst key)
                              | Some value \<Rightarrow> c_title value),
                  sr_snippet = message_search_text message,
                  sr_timestamp_ms = Some (m_created_at_ms message), sr_score = score\<rparr>
          else None)"

definition search_messages :: "SearchIndex \<Rightarrow> SearchQuery \<Rightarrow> string fset \<Rightarrow> SearchResult list" where
  "search_messages ix query terms =
     (if q_scope query = ScopeGlobal \<or> q_scope query = ScopeConversation \<or> q_scope query = ScopeMedia
       \<or> q_scope query = ScopeFiles \<or> q_scope query = ScopeLinks
      then List.map_filter (message_hit ix query terms) (map_keys (ix_message_terms ix))
      else [])"

text \<open>Highest score first, then the latest; an absent timestamp comes last.\<close>

definition result_rank :: "SearchResult \<Rightarrow> int \<times> (int \<times> int)" where
  "result_rank r =
     (- uint (sr_score r), case sr_timestamp_ms r of None \<Rightarrow> (1, 0) | Some t \<Rightarrow> (0, - sint t))"

definition search :: "UnicodeTables \<Rightarrow> SearchIndex \<Rightarrow> SearchQuery \<Rightarrow> SearchResult list" where
  "search uni ix query =
     (let terms = tokenize uni (q_text query) in
      if terms = {||} then []
      else
        let results = search_actors ix (q_scope query) terms
              @ search_conversations ix (q_scope query) terms @ search_messages ix query terms
        in take (max 1 (unat (q_limit query))) (sort_key result_rank results))"

section \<open>Properties\<close>

text \<open>A search for messages answers with indexed messages that satisfy every filter of the query.\<close>

lemma map_filter_iff: "y \<in> set (List.map_filter f xs) \<longleftrightarrow> (\<exists>x \<in> set xs. f x = Some y)"
  by (induction xs) (auto simp: List.map_filter_simps split: option.splits)

lemma search_result_cases:
  assumes "r \<in> set (search uni ix query)"
  shows "r \<in> set (search_actors ix (q_scope query) (tokenize uni (q_text query)))
    \<or> r \<in> set (search_conversations ix (q_scope query) (tokenize uni (q_text query)))
    \<or> r \<in> set (search_messages ix query (tokenize uni (q_text query)))"
  using assms by (auto simp: search_def Let_def split: if_splits dest: in_set_takeD)

lemma message_hit_Some:
  "message_hit ix query terms key = Some r \<Longrightarrow>
     \<exists>message. fmlookup (ix_messages ix) key = Some message \<and> message_in_query query (fst key) message
       \<and> sr_conversation_id r = Some (fst key) \<and> sr_id r = message_str (snd key)
       \<and> sr_snippet r = message_search_text message \<and> sr_kind r = ResultMessage"
  by (auto simp: message_hit_def Let_def split: option.splits if_splits)

lemma search_messages_hit:
  "r \<in> set (search_messages ix query terms) \<Longrightarrow>
     \<exists>c m message. fmlookup (ix_messages ix) (c, m) = Some message
       \<and> message_in_query query c message \<and> sr_conversation_id r = Some c \<and> sr_id r = message_str m
       \<and> sr_snippet r = message_search_text message"
proof -
  assume "r \<in> set (search_messages ix query terms)"
  then obtain c m where "message_hit ix query terms (c, m) = Some r"
    by (auto simp: search_messages_def map_filter_iff split: if_splits)
  from message_hit_Some [OF this] show ?thesis by auto
qed

lemma search_no_message:
  "r \<in> set (search_actors ix scope terms) \<Longrightarrow> sr_kind r = ResultActor"
  "r \<in> set (search_conversations ix scope terms) \<Longrightarrow> sr_kind r = ResultConversation"
  by (auto simp: search_actors_def search_conversations_def map_filter_iff Let_def
      split: if_splits option.splits)

lemma search_limit: "length (search uni ix query) \<le> max 1 (unat (q_limit query))"
  by (auto simp: search_def Let_def)

lemma search_sorted: "sorted (map result_rank (search uni ix query))"
  by (auto simp: search_def Let_def intro: sorted_wrt_take simp flip: take_map)

end
