(* ===== verification/Blob_Store.thy ===== *)
theory Blob_Store
  imports Prelude
begin

text \<open>
  The blob store of \<open>src/native/mahayana-messaging/src/blob_store.rs\<close>. The directory of the store is
  the state: the data files (\<open>.blob\<close> and \<open>.part\<close>) with their bytes, and the metadata files (\<open>.json\<close>
  and \<open>.part.json\<close>) with the metadata they serialize; the two groups cannot share a name. Failures
  of the operating system other than a missing file are not modelled. The digest of a file is the
  parameter \<open>sha256_hex\<close>, the lower-case hexadecimal SHA-256 of its bytes.
\<close>

definition MAX_BLOB_RANGE_BYTES :: u64 where
  "MAX_BLOB_RANGE_BYTES = 8 * 1024 * 1024"

datatype BlobId = BlobId (blob_str: string)

record BlobMetadata =
  bm_id :: BlobId
  bm_file_name :: string
  bm_mime_type :: string
  bm_size_bytes :: u64
  bm_content_hash :: "string option"
  bm_created_at_ms :: i64

record BlobUploadStatus =
  bu_id :: BlobId
  bu_size_bytes :: u64
  bu_uploaded_bytes :: u64
  bu_complete :: bool

datatype (plugins only: code size) BlobStoreError =
    InvalidBlobId string
  | InvalidFileName
  | InvalidMimeType
  | BlobAlreadyExists BlobId
  | BlobNotFound BlobId
  | MissingMetadata string
  | EmptyChunk
  | UnexpectedBlobOffset BlobId u64 u64
  | UploadTooLarge BlobId u64 u64
  | IncompleteUpload BlobId u64 u64
  | SizeOverflow
  | InvalidContentHash string
  | IntegrityMismatch string string
  | InvalidRangeLength u64
  | RangeOutOfBounds BlobId u64 u64
  | FileNotFound string

record BlobFiles =
  bf_data :: "(string, string) fmap"
  bf_meta :: "(string, BlobMetadata) fmap"

definition BlobId_new :: "string \<Rightarrow> (BlobId, BlobStoreError) result" where
  "BlobId_new value =
     (if value = [] \<or> length value > 128
       \<or> \<not> list_all (\<lambda>b. is_ascii_alphanumeric b \<or> b = CHR ''-'' \<or> b = CHR ''_'' \<or> b = CHR ''.'') value
       \<or> value = ''.'' \<or> value = ''..''
      then Err (InvalidBlobId value) else Ok (BlobId value))"

definition blob_path :: "BlobId \<Rightarrow> string" where
  "blob_path i = blob_str i @ ''.blob''"

definition metadata_path :: "BlobId \<Rightarrow> string" where
  "metadata_path i = blob_str i @ ''.json''"

definition part_path :: "BlobId \<Rightarrow> string" where
  "part_path i = blob_str i @ ''.part''"

definition part_metadata_path :: "BlobId \<Rightarrow> string" where
  "part_metadata_path i = blob_str i @ ''.part.json''"

definition read_metadata :: "BlobFiles \<Rightarrow> string \<Rightarrow> (BlobMetadata, BlobStoreError) result" where
  "read_metadata fs path = ok_or (MissingMetadata path) (fmlookup (bf_meta fs) path)"

text \<open>\<open>path.metadata()?.len()\<close>\<close>

definition file_len :: "BlobFiles \<Rightarrow> string \<Rightarrow> (u64, BlobStoreError) result" where
  "file_len fs path =
     and_then (ok_or (FileNotFound path) (fmlookup (bf_data fs) path)) (\<lambda>bytes. Ok (of_nat (length bytes)))"

definition write_metadata_atomic :: "BlobFiles \<Rightarrow> string \<Rightarrow> BlobMetadata \<Rightarrow> BlobFiles" where
  "write_metadata_atomic fs path metadata = fs\<lparr>bf_meta := fmupd path metadata (bf_meta fs)\<rparr>"

definition validate_metadata :: "BlobMetadata \<Rightarrow> (unit, BlobStoreError) result" where
  "validate_metadata metadata =
     and_then (BlobId_new (blob_str (bm_id metadata))) (\<lambda>_.
     if is_blank (bm_file_name metadata) then Err InvalidFileName
     else if is_blank (bm_mime_type metadata) then Err InvalidMimeType
     else Ok ())"

definition is_ascii_hexdigit :: "char \<Rightarrow> bool" where
  "is_ascii_hexdigit c \<longleftrightarrow> is_ascii_digit c \<or> (CHR ''a'' \<le> c \<and> c \<le> CHR ''f'') \<or> (CHR ''A'' \<le> c \<and> c \<le> CHR ''F'')"

definition normalize_sha256 :: "string \<Rightarrow> (string, BlobStoreError) result" where
  "normalize_sha256 value =
     (let trimmed = trim value;
          raw = (case strip_prefix ''sha256:'' trimmed of None \<Rightarrow> trimmed | Some r \<Rightarrow> r);
          normalized = map ascii_lower raw
      in if length normalized \<noteq> 64 \<or> \<not> list_all is_ascii_hexdigit normalized
         then Err (InvalidContentHash value) else Ok normalized)"

section \<open>Operations\<close>

definition begin_upload ::
  "BlobFiles \<Rightarrow> BlobMetadata \<Rightarrow> BlobFiles \<times> (BlobUploadStatus, BlobStoreError) result"
where
  "begin_upload fs metadata =
     (case validate_metadata metadata of
        Inl e \<Rightarrow> (fs, Err e)
      | Inr _ \<Rightarrow>
          let i = bm_id metadata in
          if contains_key (bf_data fs) (blob_path i) then
            (fs,
             and_then (read_metadata fs (metadata_path i)) (\<lambda>existing.
             if existing = metadata
             then Ok \<lparr>bu_id = i, bu_size_bytes = bm_size_bytes metadata,
                      bu_uploaded_bytes = bm_size_bytes metadata, bu_complete = True\<rparr>
             else Err (BlobAlreadyExists i)))
          else
            let fs = (if contains_key (bf_data fs) (part_path i) then fs
                      else fs\<lparr>bf_data := fmupd (part_path i) [] (bf_data fs)\<rparr>);
                fs = write_metadata_atomic fs (part_metadata_path i) metadata
            in (fs,
                and_then (file_len fs (part_path i)) (\<lambda>uploaded_bytes.
                if bm_size_bytes metadata < uploaded_bytes
                then Err (UploadTooLarge i (bm_size_bytes metadata) uploaded_bytes)
                else Ok \<lparr>bu_id = i, bu_size_bytes = bm_size_bytes metadata,
                         bu_uploaded_bytes = uploaded_bytes, bu_complete = False\<rparr>)))"

definition upload_status :: "BlobFiles \<Rightarrow> BlobId \<Rightarrow> (BlobUploadStatus, BlobStoreError) result" where
  "upload_status fs i =
     (if contains_key (bf_data fs) (blob_path i) then
        and_then (read_metadata fs (metadata_path i)) (\<lambda>metadata.
        and_then (file_len fs (blob_path i)) (\<lambda>len.
        Ok \<lparr>bu_id = i, bu_size_bytes = bm_size_bytes metadata, bu_uploaded_bytes = len,
            bu_complete = True\<rparr>))
      else
        and_then (read_metadata fs (part_metadata_path i)) (\<lambda>metadata.
        and_then (file_len fs (part_path i)) (\<lambda>uploaded_bytes.
        Ok \<lparr>bu_id = i, bu_size_bytes = bm_size_bytes metadata, bu_uploaded_bytes = uploaded_bytes,
            bu_complete = False\<rparr>)))"

definition append_chunk ::
  "BlobFiles \<Rightarrow> BlobId \<Rightarrow> u64 \<Rightarrow> string \<Rightarrow> BlobFiles \<times> (BlobUploadStatus, BlobStoreError) result"
where
  "append_chunk fs i offset bytes =
     (let checked =
        (if bytes = [] then Err EmptyChunk
         else
           and_then (read_metadata fs (part_metadata_path i)) (\<lambda>metadata.
           and_then (file_len fs (part_path i)) (\<lambda>current.
           if current \<noteq> offset then Err (UnexpectedBlobOffset i current offset)
           else
             and_then (ok_or SizeOverflow (checked_add_u64 current (of_nat (length bytes)))) (\<lambda>new_len.
             if bm_size_bytes metadata < new_len
             then Err (UploadTooLarge i (bm_size_bytes metadata) new_len)
             else Ok (metadata, new_len)))))
      in case checked of
           Inl e \<Rightarrow> (fs, Err e)
         | Inr (metadata, new_len) \<Rightarrow>
             (fs\<lparr>bf_data := fm_modify (part_path i) (\<lambda>old. old @ bytes) (bf_data fs)\<rparr>,
              Ok \<lparr>bu_id = i, bu_size_bytes = bm_size_bytes metadata, bu_uploaded_bytes = new_len,
                  bu_complete = False\<rparr>))"

text \<open>\<open>fs::rename\<close> on one of the two groups of files; it replaces an existing target.\<close>

definition rename_file :: "string \<Rightarrow> string \<Rightarrow> (string, 'a) fmap \<Rightarrow> (string, 'a) fmap" where
  "rename_file source target files =
     (case fmlookup files source of
        None \<Rightarrow> files
      | Some content \<Rightarrow> fmupd target content (fmdrop source files))"

definition finish_upload ::
  "(string \<Rightarrow> string) \<Rightarrow> BlobFiles \<Rightarrow> BlobId \<Rightarrow> BlobFiles \<times> (BlobMetadata, BlobStoreError) result"
where
  "finish_upload sha256_hex fs i =
     (let checked =
        and_then (read_metadata fs (part_metadata_path i)) (\<lambda>metadata.
        and_then (file_len fs (part_path i)) (\<lambda>actual.
        if actual \<noteq> bm_size_bytes metadata
        then Err (IncompleteUpload i (bm_size_bytes metadata) actual)
        else
          (case bm_content_hash metadata of
             None \<Rightarrow> Ok metadata
           | Some expected_hash \<Rightarrow>
               and_then (normalize_sha256 expected_hash) (\<lambda>expected.
               let actual = sha256_hex (the (fmlookup (bf_data fs) (part_path i))) in
               if actual \<noteq> expected then Err (IntegrityMismatch expected actual)
               else Ok metadata))))
      in case checked of
           Inl e \<Rightarrow> (fs, Err e)
         | Inr metadata \<Rightarrow>
             (fs\<lparr>bf_data := rename_file (part_path i) (blob_path i) (bf_data fs),
                 bf_meta := rename_file (part_metadata_path i) (metadata_path i) (bf_meta fs)\<rparr>,
              Ok metadata))"

definition read_range ::
  "BlobFiles \<Rightarrow> BlobId \<Rightarrow> u64 \<Rightarrow> u64 \<Rightarrow> (string, BlobStoreError) result"
where
  "read_range fs i offset len =
     (if len = 0 \<or> MAX_BLOB_RANGE_BYTES < len then Err (InvalidRangeLength len)
      else
        and_then (file_len fs (blob_path i)) (\<lambda>size.
        if size \<le> offset then Err (RangeOutOfBounds i offset size)
        else
          let readable = min len (saturating_sub_u64 size offset)
          in Ok (take (unat readable) (drop (unat offset) (the (fmlookup (bf_data fs) (blob_path i)))))))"

definition delete_blob :: "BlobFiles \<Rightarrow> BlobId \<Rightarrow> BlobFiles \<times> (unit, BlobStoreError) result" where
  "delete_blob fs i =
     (let found = contains_key (bf_data fs) (blob_path i) \<or> contains_key (bf_meta fs) (metadata_path i)
               \<or> contains_key (bf_data fs) (part_path i) \<or> contains_key (bf_meta fs) (part_metadata_path i)
      in (fs\<lparr>bf_data := fmdrop (part_path i) (fmdrop (blob_path i) (bf_data fs)),
             bf_meta := fmdrop (part_metadata_path i) (fmdrop (metadata_path i) (bf_meta fs))\<rparr>,
          if found then Ok () else Err (BlobNotFound i)))"

section \<open>Uploads\<close>

lemma path_simps [simp]:
  "part_path i \<noteq> blob_path j" "blob_path j \<noteq> part_path i" "blob_path i = blob_path j \<longleftrightarrow> i = j"
  "part_path i = part_path j \<longleftrightarrow> i = j"
proof -
  have "rev (part_path i) \<noteq> rev (blob_path j)" by (simp add: part_path_def blob_path_def)
  then show "part_path i \<noteq> blob_path j" "blob_path j \<noteq> part_path i" by auto
  show "blob_path i = blob_path j \<longleftrightarrow> i = j" "part_path i = part_path j \<longleftrightarrow> i = j"
    by (auto simp: blob_path_def part_path_def intro: BlobId.expand)
qed

text \<open>A client that uploads chunks one after the other, each at the offset the last answer gave.\<close>

fun upload_chunks ::
  "BlobFiles \<Rightarrow> BlobId \<Rightarrow> u64 \<Rightarrow> string list \<Rightarrow> BlobFiles \<times> (u64, BlobStoreError) result"
where
  "upload_chunks fs i offset [] = (fs, Ok offset)"
| "upload_chunks fs i offset (chunk # chunks) =
     (case append_chunk fs i offset chunk of
        (fs', Inl e) \<Rightarrow> (fs', Err e)
      | (fs', Inr status) \<Rightarrow> upload_chunks fs' i (bu_uploaded_bytes status) chunks)"

lemma append_chunk_Ok:
  assumes "append_chunk fs i offset bytes = (fs', Ok status)"
  obtains old metadata where "fmlookup (bf_data fs) (part_path i) = Some old"
    "fmlookup (bf_meta fs) (part_metadata_path i) = Some metadata" "offset = of_nat (length old)"
    "fs' = fs\<lparr>bf_data := fmupd (part_path i) (old @ bytes) (bf_data fs)\<rparr>"
    "unat (bu_uploaded_bytes status) = unat offset + unat (of_nat (length bytes) :: u64)"
    "bu_uploaded_bytes status \<le> bm_size_bytes metadata" "bytes \<noteq> []"
  using assms that
  by (auto simp: append_chunk_def Let_def result_simps read_metadata_def file_len_def fm_modify_def
      checked_add_u64_Some_iff not_less split: sum.splits option.splits if_splits)

lemma upload_chunks_Ok:
  assumes "upload_chunks fs i offset chunks = (fs', Ok n)"
    and "fmlookup (bf_data fs) (part_path i) = Some old" "offset = of_nat (length old)"
    and "length (old @ concat chunks) < 2 ^ 64"
  shows "fs' = fs\<lparr>bf_data := fmupd (part_path i) (old @ concat chunks) (bf_data fs)\<rparr>"
  using assms
proof (induction chunks arbitrary: fs offset old)
  case Nil
  then show ?case by (simp add: fmupd_same)
next
  case (Cons chunk chunks)
  obtain fs1 status where one: "append_chunk fs i offset chunk = (fs1, Ok status)"
    and rest: "upload_chunks fs1 i (bu_uploaded_bytes status) chunks = (fs', Ok n)"
    using Cons.prems(1) by (auto split: prod.splits sum.splits)
  have fs1: "fs1 = fs\<lparr>bf_data := fmupd (part_path i) (old @ chunk) (bf_data fs)\<rparr>"
    and len: "unat (bu_uploaded_bytes status) = unat offset + unat (of_nat (length chunk) :: u64)"
    using one Cons.prems(2) by (auto elim!: append_chunk_Ok)
  have small: "length old < 2 ^ 64" "length chunk < 2 ^ 64" "length (old @ chunk) < 2 ^ 64"
    using Cons.prems(4) by auto
  have "unat (bu_uploaded_bytes status) = unat (of_nat (length (old @ chunk)) :: u64)"
    unfolding unat_of_nat_u64 [OF small(3)] using len small by (simp add: Cons.prems(3) unat_of_nat_u64)
  then have "bu_uploaded_bytes status = of_nat (length (old @ chunk))"
    by (rule unsigned_word_eqI)
  from Cons.IH [OF rest _ this] fs1 Cons.prems(4) show ?case
    by (simp add: fmupd_twice)
qed

lemma finish_upload_Ok:
  assumes "finish_upload sha fs i = (fs', Ok metadata)" "fmlookup (bf_data fs) (part_path i) = Some bytes"
  shows "fmlookup (bf_meta fs) (part_metadata_path i) = Some metadata"
    "of_nat (length bytes) = bm_size_bytes metadata"
    "\<And>h. bm_content_hash metadata = Some h \<Longrightarrow> normalize_sha256 h = Ok (sha bytes)"
    "fmlookup (bf_data fs') (blob_path i) = Some bytes" "fmlookup (bf_data fs') (part_path i) = None"
  using assms
  by (auto simp: finish_upload_def Let_def result_simps read_metadata_def file_len_def rename_file_def
      split: sum.splits option.splits if_splits)

text \<open>
  C22: what was uploaded is what is stored and read. When an upload is begun afresh, its chunks are
  accepted one after the other and the upload is finished, then the blob is exactly the
  concatenation of the chunks: its size is the declared size, its digest is the declared one if one
  was declared, nothing is left of the partial upload, and every range that starts inside it reads
  the bytes of the chunks, cut off at its end.
\<close>

theorem upload_roundtrip:
  assumes "begin_upload fs metadata = (fs1, Ok status)" "\<not> contains_key (bf_data fs) (blob_path (bm_id metadata))"
    and "\<not> contains_key (bf_data fs) (part_path (bm_id metadata))"
    and "upload_chunks fs1 (bm_id metadata) 0 chunks = (fs2, Ok n)"
    and "finish_upload sha fs2 (bm_id metadata) = (fs3, Ok stored)"
    and "length (concat chunks) < 2 ^ 64"
  shows "stored = metadata \<and> fmlookup (bf_data fs3) (blob_path (bm_id metadata)) = Some (concat chunks)
    \<and> length (concat chunks) = unat (bm_size_bytes metadata)
    \<and> (\<forall>h. bm_content_hash metadata = Some h \<longrightarrow> normalize_sha256 h = Ok (sha (concat chunks)))
    \<and> \<not> contains_key (bf_data fs3) (part_path (bm_id metadata))
    \<and> (\<forall>offset len. len \<noteq> 0 \<and> len \<le> MAX_BLOB_RANGE_BYTES \<and> offset < bm_size_bytes metadata \<longrightarrow>
         read_range fs3 (bm_id metadata) offset len
           = Ok (take (unat len) (drop (unat offset) (concat chunks))))"
proof -
  let ?i = "bm_id metadata" and ?data = "concat chunks"
  have fs1: "fs1 = write_metadata_atomic (fs\<lparr>bf_data := fmupd (part_path ?i) [] (bf_data fs)\<rparr>)
      (part_metadata_path ?i) metadata"
    using assms(1-3) by (auto simp: begin_upload_def Let_def split: sum.splits)
  then have "fmlookup (bf_data fs1) (part_path ?i) = Some []"
    by (simp add: write_metadata_atomic_def)
  from upload_chunks_Ok [OF assms(4) this] assms(6)
  have fs2: "fs2 = fs1\<lparr>bf_data := fmupd (part_path ?i) ?data (bf_data fs1)\<rparr>" by simp
  note finish = finish_upload_Ok [OF assms(5), of ?data]
  have part: "fmlookup (bf_data fs2) (part_path ?i) = Some ?data" by (simp add: fs2)
  have stored: "stored = metadata"
    using finish(1) [OF part] by (simp add: fs2 fs1 write_metadata_atomic_def)
  have unat: "unat (of_nat (length ?data) :: u64) = length ?data"
    using assms(6) by (rule unat_of_nat_u64)
  have size: "bm_size_bytes metadata = of_nat (length ?data)"
    using finish(2) [OF part] stored by simp
  have size_nat: "unat (bm_size_bytes metadata) = length ?data"
    unfolding size by (rule unat)
  have "read_range fs3 ?i offset len = Ok (take (unat len) (drop (unat offset) ?data))"
    if "len \<noteq> 0" "len \<le> MAX_BLOB_RANGE_BYTES" "offset < bm_size_bytes metadata" for offset len
  proof -
    have "\<not> MAX_BLOB_RANGE_BYTES < len" "\<not> of_nat (length ?data) \<le> offset"
      using that by (simp_all add: size)
    then have "read_range fs3 ?i offset len = Ok (take (unat (min len (saturating_sub_u64 (of_nat (length ?data)) offset)))
        (drop (unat offset) ?data))"
      using that finish(4) [OF part] by (simp add: read_range_def file_len_def Let_def)
    moreover have "unat (min len (saturating_sub_u64 (of_nat (length ?data)) offset))
        = min (unat len) (length ?data - unat offset)"
      by (simp add: min_def word_le_nat_alt unat_saturating_sub_u64 unat)
    ultimately show ?thesis by (simp add: min_def)
  qed
  with stored size_nat finish(3,4,5) [OF part] show ?thesis by (auto simp: contains_key_def)
qed

definition demo_metadata :: BlobMetadata where
  "demo_metadata = \<lparr>bm_id = BlobId ''b'', bm_file_name = ''f'', bm_mime_type = ''m'', bm_size_bytes = 3,
     bm_content_hash = None, bm_created_at_ms = 0\<rparr>"

lemma demo_begin:
  "begin_upload \<lparr>bf_data = fmempty, bf_meta = fmempty\<rparr> demo_metadata =
     (\<lparr>bf_data = fmupd ''b.part'' [] fmempty, bf_meta = fmupd ''b.part.json'' demo_metadata fmempty\<rparr>,
      Ok \<lparr>bu_id = BlobId ''b'', bu_size_bytes = 3, bu_uploaded_bytes = 0, bu_complete = False\<rparr>)"
  by (simp add: begin_upload_def validate_metadata_def BlobId_new_def demo_metadata_def is_blank_def trim_def
      ws1_def is_ascii_alphanumeric_def is_ascii_lowercase_def less_eq_char_def contains_key_def
      write_metadata_atomic_def file_len_def blob_path_def part_path_def part_metadata_path_def Let_def)

lemma demo_chunks:
  "upload_chunks \<lparr>bf_data = fmupd ''b.part'' [] fmempty, bf_meta = fmupd ''b.part.json'' demo_metadata fmempty\<rparr>
     (BlobId ''b'') 0 [''xy'', ''z'']
   = (\<lparr>bf_data = fmupd ''b.part'' ''xyz'' fmempty, bf_meta = fmupd ''b.part.json'' demo_metadata fmempty\<rparr>, Ok 3)"
  by (simp add: append_chunk_def read_metadata_def file_len_def part_path_def part_metadata_path_def
      checked_add_u64_def demo_metadata_def fm_modify_def fmupd_twice Let_def)

lemma demo_finish:
  "\<exists>fs stored. finish_upload (\<lambda>bytes. bytes) \<lparr>bf_data = fmupd ''b.part'' ''xyz'' fmempty,
     bf_meta = fmupd ''b.part.json'' demo_metadata fmempty\<rparr> (BlobId ''b'') = (fs, Ok stored)"
  by (simp add: finish_upload_def read_metadata_def file_len_def part_path_def part_metadata_path_def
      demo_metadata_def Let_def)

theorem upload_roundtrip_witness:
  "\<exists>fs stored. finish_upload (\<lambda>bytes. bytes) \<lparr>bf_data = fmupd ''b.part'' ''xyz'' fmempty,
     bf_meta = fmupd ''b.part.json'' demo_metadata fmempty\<rparr> (BlobId ''b'') = (fs, Ok stored)
   \<and> fmlookup (bf_data fs) (blob_path (BlobId ''b'')) = Some ''xyz''"
proof -
  have [simp]: "bm_id demo_metadata = BlobId ''b''" by (simp add: demo_metadata_def)
  obtain fs stored where "finish_upload (\<lambda>bytes. bytes) \<lparr>bf_data = fmupd ''b.part'' ''xyz'' fmempty,
     bf_meta = fmupd ''b.part.json'' demo_metadata fmempty\<rparr> (BlobId ''b'') = (fs, Ok stored)"
    using demo_finish by blast
  with upload_roundtrip [OF demo_begin _ _ _ this [folded \<open>bm_id demo_metadata = BlobId ''b''\<close>], of "[''xy'', ''z'']" 3]
    demo_chunks
  show ?thesis by (auto simp: contains_key_def)
qed

end
