(* ===== verification/Protocol.thy ===== *)
theory Protocol
  imports Engine_State Search Blob_Store
begin

text \<open>
  The wire protocol of \<open>src/native/mahayana-messaging/src/protocol.rs\<close>: what a client asks for, and
  what the server answers. Constructors carry the prefix \<open>Cl\<close> or \<open>Sv\<close>, since the engine has
  commands and events of the same names; fields stand in the order of the source.
\<close>

definition FABUSHI_MESSAGING_PROTOCOL_VERSION :: u16 where
  "FABUSHI_MESSAGING_PROTOCOL_VERSION = 2"

record RequestContext =
  rc_request_id :: string
  rc_device_id :: string
  rc_actor_id :: ActorId
  rc_session_id :: string
  rc_sent_at_ms :: i64

datatype (plugins only: code size) ClientCommand =
    ClSync "string option" u32
  | ClSearch SearchQuery
  | ClUpsertProfile Actor
  | ClSetPresence Presence
  | ClCreateConversation Conversation
  | ClUpdateConversation Conversation
  | ClUpdateConversationInfo ConversationId string "string option"
  | ClSetConversationParticipant ConversationId Participant
  | ClRemoveConversationParticipant ConversationId ActorId
  | ClArchiveConversation ConversationId bool
  | ClPinConversation ConversationId bool
  | ClSetMarkedUnread ConversationId bool
  | ClSetDraft ConversationId string "MessageId option"
  | ClSetConversationNotifications ConversationId NotificationSettings
  | ClSetConversationMessageRetention ConversationId "u32 option" u64
  | ClUpsertFolder ConversationFolder
  | ClDeleteFolder string
  | ClSendMessage ConversationId ClientMessageId MessageContent "MessageId option"
      "MessageId option" "i64 option" bool bool
  | ClForwardMessage ConversationId MessageId ConversationId ClientMessageId
  | ClBeginBlobUpload BlobMetadata
  | ClAppendBlobChunk BlobId u64 string
  | ClFinishBlobUpload BlobId
  | ClDeleteBlob BlobId
  | ClEditMessage ConversationId MessageId MessageContent
  | ClDeleteMessages ConversationId "MessageId list" bool
  | ClMarkRead ConversationId MessageId
  | ClMarkTopicRead ConversationId string MessageId
  | ClSetTopicDraft ConversationId string string "MessageId option"
  | ClSetReaction ConversationId MessageId ReactionSummary
  | ClPinMessage ConversationId MessageId bool
  | ClVotePoll ConversationId MessageId "string list"
  | ClStartTyping ConversationId string
  | ClStopTyping ConversationId
  | ClCreateInvoice Invoice
  | ClCheckoutInvoice string string "CustomerInfo option"
  | ClRefundOrder string string
  | ClWalletStatus
  | ClPublishStory Story
  | ClDeleteStory StoryId
  | ClViewStory StoryId
  | ClReactStory StoryId "string option"
  | ClUpdateCommunity CommunityState
  | ClSubscribeChannel ConversationId
  | ClUnsubscribeChannel ConversationId
  | ClListCommunityMembers ConversationId "string option" u32
  | ClListCommunityAuditLog ConversationId "string option" u32
  | ClSetCommunitySlowMode ConversationId "u32 option"
  | ClModerateCommunityMember ConversationId CommunityMember "string option"
  | ClSetCommunityMember ConversationId CommunityMember
  | ClCreateInviteLink InviteLink
  | ClRevokeInviteLink ConversationId string
  | ClRequestCommunityJoin JoinRequest
  | ClRespondCommunityJoin ConversationId ActorId bool
  | ClUpsertForumTopic ForumTopicState
  | ClDeleteForumTopic ConversationId string
  | ClRegisterBot BotProfile
  | ClInvokeBot BotInvocation
  | ClFinishBotExecution string bool "string option"
  | ClInstallMiniApp MiniAppManifest
  | ClGrantMiniApp MiniAppGrant
  | ClOpenMiniApp MiniAppSession
  | ClMiniAppCall string string MiniAppRequest

record ClientEnvelope =
  ce_protocol_version :: u16
  ce_context :: RequestContext
  ce_command :: ClientCommand

definition ClientEnvelope_new :: "RequestContext \<Rightarrow> ClientCommand \<Rightarrow> ClientEnvelope" where
  "ClientEnvelope_new context command =
     \<lparr>ce_protocol_version = FABUSHI_MESSAGING_PROTOCOL_VERSION, ce_context = context,
      ce_command = command\<rparr>"

text \<open>The payload of \<open>ServerEvent::SyncBatch\<close>.\<close>

record SyncBatch =
  sb_actors :: "Actor list"
  sb_conversations :: "Conversation list"
  sb_messages :: "Message list"
  sb_folders :: "ConversationFolder list"
  sb_drafts :: "ConversationDraft list"
  sb_topic_drafts :: "TopicDraft list"
  sb_invoices :: "Invoice list"
  sb_orders :: "PaymentOrder list"
  sb_stories :: "Story list"
  sb_communities :: "CommunityState list"
  sb_bots :: "BotProfile list"
  sb_bot_executions :: "BotExecution list"
  sb_mini_apps :: "MiniAppManifest list"
  sb_next_cursor :: "string option"

datatype (plugins only: code size) ServerEvent =
    SvSyncBatch SyncBatch
  | SvSearchResults SearchQuery "SearchResult list"
  | SvActorChanged Actor
  | SvPresenceChanged ActorId Presence
  | SvConversationChanged Conversation
  | SvConversationMessageRetentionChanged ConversationId "u32 option" u64
  | SvConversationParticipantChanged Conversation "ActorId option"
  | SvMarkedUnreadChanged ConversationId ActorId bool
  | SvDraftChanged ConversationDraft
  | SvTopicDraftChanged TopicDraft
  | SvFolderChanged ConversationFolder
  | SvFolderDeleted string
  | SvMessageAdded Message
  | SvMessageChanged Message
  | SvBlobUploadChanged BlobUploadStatus
  | SvBlobReady BlobMetadata
  | SvBlobDeleted BlobId
  | SvMessagesDeleted ConversationId "MessageId list"
  | SvReadChanged ConversationId ActorId MessageId
  | SvTopicReadChanged ConversationId string ActorId MessageId
  | SvTypingChanged ConversationId ActorId "string option" "i64 option"
  | SvInvoiceChanged Invoice
  | SvOrderChanged PaymentOrder
  | SvWalletStatus "WalletAccount option" "LedgerEntry list"
  | SvStoryChanged Story
  | SvStoryDeleted StoryId
  | SvCommunityChanged CommunityState
  | SvCommunityMembersPage ConversationId "CommunityMember list" "string option"
  | SvCommunityAuditLogPage ConversationId "CommunityAuditEntry list" "string option"
  | SvBotChanged "BotProfile option" "BotExecution option"
  | SvBotInvocationRequested BotInvocation
  | SvMiniAppChanged MiniAppManifest
  | SvMiniAppOpened MiniAppSession
  | SvMiniAppResult string string MiniAppResponse
  | SvError "string option" string string bool

record ServerEnvelope =
  se_protocol_version :: u16
  se_cursor :: "string option"
  se_server_time_ms :: i64
  se_event :: ServerEvent

end
