(* ===== verification/Store.thy ===== *)
theory Store
  imports Protocol
begin

text \<open>
  The state store of \<open>src/native/mahayana-messaging/src/store.rs\<close>: snapshots, the journal of
  events with their audiences, the slice of the journal a client synchronizes with, and the store
  in memory. The trait \<open>MessagingStateStore\<close> is the record of its operations, so that the service
  takes any store; an operation that writes returns the store it leaves behind.
\<close>

definition MESSAGING_SNAPSHOT_SCHEMA_VERSION :: u32 where
  "MESSAGING_SNAPSHOT_SCHEMA_VERSION = 1"

definition MESSAGING_EVENT_JOURNAL_LIMIT :: nat where
  "MESSAGING_EVENT_JOURNAL_LIMIT = 10000"

record MessagingSnapshot =
  sn_schema_version :: u32
  sn_cursor :: u64
  sn_saved_at_ms :: i64
  sn_state :: MessagingState

definition MessagingSnapshot_new :: "MessagingState \<Rightarrow> u64 \<Rightarrow> i64 \<Rightarrow> MessagingSnapshot" where
  "MessagingSnapshot_new state cursor saved_at_ms =
     \<lparr>sn_schema_version = MESSAGING_SNAPSHOT_SCHEMA_VERSION, sn_cursor = cursor,
      sn_saved_at_ms = saved_at_ms, sn_state = state\<rparr>"

record JournalEntry =
  je_envelope :: ServerEnvelope
  je_audience :: "ActorId list"

record EventJournalSlice =
  js_floor_cursor :: u64
  js_current_cursor :: u64
  js_checkpoint_cursor :: u64
  js_has_more :: bool
  js_entries :: "JournalEntry list"

text \<open>The errors of the trait; a failure of the file system carries its description.\<close>

datatype StoreError =
    InvalidCursor
  | MissingEventCursor
  | UnsupportedSchema u32 u32
  | UnsupportedSqliteSchema u32 u32
  | StoreJsonFailed
  | StoreSqliteFailed
  | StoreFailed string

definition validate_snapshot_schema :: "u32 \<Rightarrow> (unit, StoreError) result" where
  "validate_snapshot_schema actual =
     (if actual \<noteq> MESSAGING_SNAPSHOT_SCHEMA_VERSION
      then Err (UnsupportedSchema MESSAGING_SNAPSHOT_SCHEMA_VERSION actual) else Ok ())"

text \<open>\<open>str::parse::<u64>\<close>; \<open>usize\<close> has the same range.\<close>

definition parse_u64 :: "string \<Rightarrow> u64 option" where
  "parse_u64 s = map_option of_nat (parse_usize s)"

definition show_u64 :: "u64 \<Rightarrow> string" where
  "show_u64 x = show_nat (unat x)"

definition journal_cursor :: "JournalEntry \<Rightarrow> (u64, StoreError) result" where
  "journal_cursor entry =
     and_then (ok_or MissingEventCursor (se_cursor (je_envelope entry))) (\<lambda>value.
     ok_or InvalidCursor (parse_u64 value))"

section \<open>Slices of the journal\<close>

text \<open>
  The loop over the entries: those after the requested cursor are selected until a further group
  of entries with the same cursor would exceed the limit. The state of the loop is the selection,
  the number of groups and the cursor of the last one; the result says whether the loop broke off.
\<close>

fun slice_loop ::
  "u64 \<Rightarrow> nat \<Rightarrow> JournalEntry list \<Rightarrow> JournalEntry list \<Rightarrow> nat \<Rightarrow> u64 option \<Rightarrow>
     (JournalEntry list \<times> u64 option \<times> bool, StoreError) result"
where
  "slice_loop requested limit [] selected groups last_cursor = Ok (selected, last_cursor, False)"
| "slice_loop requested limit (entry # entries) selected groups last_cursor =
     and_then (journal_cursor entry) (\<lambda>cursor.
     if cursor \<le> requested then slice_loop requested limit entries selected groups last_cursor
     else if last_cursor \<noteq> Some cursor then
       if limit \<le> groups then Ok (selected, last_cursor, True)
       else slice_loop requested limit entries (selected @ [entry]) (groups + 1) (Some cursor)
     else slice_loop requested limit entries (selected @ [entry]) groups last_cursor)"

definition slice_journal ::
  "JournalEntry list \<Rightarrow> u64 \<Rightarrow> u64 \<Rightarrow> u64 \<Rightarrow> nat \<Rightarrow> (EventJournalSlice, StoreError) result"
where
  "slice_journal entries floor_cursor current_cursor requested_cursor cursor_group_limit =
     and_then (slice_loop requested_cursor (max 1 cursor_group_limit) entries [] 0 None)
       (\<lambda>(selected, last_selected_cursor, has_more).
     let checkpoint_cursor =
       (if has_more
        then (case last_selected_cursor of None \<Rightarrow> requested_cursor | Some c \<Rightarrow> c)
        else if selected = [] \<and> requested_cursor < current_cursor then requested_cursor
        else current_cursor)
     in Ok \<lparr>js_floor_cursor = floor_cursor, js_current_cursor = current_cursor,
            js_checkpoint_cursor = checkpoint_cursor, js_has_more = has_more,
            js_entries = selected\<rparr>)"

section \<open>Stores\<close>

record 's StateStore =
  st_load :: "'s \<Rightarrow> (MessagingSnapshot option, StoreError) result"
  st_save :: "'s \<Rightarrow> MessagingSnapshot \<Rightarrow> 's \<times> (unit, StoreError) result"
  st_save_with_events ::
    "'s \<Rightarrow> MessagingSnapshot \<Rightarrow> JournalEntry list \<Rightarrow> 's \<times> (unit, StoreError) result"
  st_load_event_journal_after ::
    "'s \<Rightarrow> u64 \<Rightarrow> nat \<Rightarrow> (EventJournalSlice option, StoreError) result"

record MemoryStateStore =
  mem_snapshot :: "MessagingSnapshot option"
  mem_journal :: "JournalEntry list"
  mem_journal_floor_cursor :: u64

definition MemoryStateStore_default :: MemoryStateStore where
  "MemoryStateStore_default =
     \<lparr>mem_snapshot = None, mem_journal = [], mem_journal_floor_cursor = 0\<rparr>"

definition memory_load :: "MemoryStateStore \<Rightarrow> (MessagingSnapshot option, StoreError) result" where
  "memory_load m = Ok (mem_snapshot m)"

definition memory_save ::
  "MemoryStateStore \<Rightarrow> MessagingSnapshot \<Rightarrow> MemoryStateStore \<times> (unit, StoreError) result"
where
  "memory_save m snapshot =
     (case validate_snapshot_schema (sn_schema_version snapshot) of
        Inl e \<Rightarrow> (m, Err e)
      | Inr _ \<Rightarrow>
          (m\<lparr>mem_journal_floor_cursor :=
               (if mem_journal m = [] then max (mem_journal_floor_cursor m) (sn_cursor snapshot)
                else mem_journal_floor_cursor m),
             mem_snapshot := Some snapshot\<rparr>, Ok ()))"

definition prune_journal :: "MemoryStateStore \<Rightarrow> MemoryStateStore \<times> (unit, StoreError) result" where
  "prune_journal m =
     (if length (mem_journal m) > MESSAGING_EVENT_JOURNAL_LIMIT then
        let excess = length (mem_journal m) - MESSAGING_EVENT_JOURNAL_LIMIT in
        case journal_cursor (mem_journal m ! (excess - 1)) of
          Inl e \<Rightarrow> (m, Err e)
        | Inr prune_cursor \<Rightarrow>
            (m\<lparr>mem_journal := dropWhile (\<lambda>entry. case journal_cursor entry of
                                              Inl _ \<Rightarrow> False
                                            | Inr cursor \<Rightarrow> cursor \<le> prune_cursor) (mem_journal m),
               mem_journal_floor_cursor := prune_cursor\<rparr>, Ok ())
      else (m, Ok ()))"

definition memory_save_with_events ::
  "MemoryStateStore \<Rightarrow> MessagingSnapshot \<Rightarrow> JournalEntry list \<Rightarrow>
     MemoryStateStore \<times> (unit, StoreError) result"
where
  "memory_save_with_events m snapshot events =
     (case and_then (validate_snapshot_schema (sn_schema_version snapshot)) (\<lambda>_.
           try_all (\<lambda>event. and_then (journal_cursor event) (\<lambda>_. Ok ())) events) of
        Inl e \<Rightarrow> (m, Err e)
      | Inr _ \<Rightarrow>
          prune_journal (m\<lparr>mem_snapshot := Some snapshot, mem_journal := mem_journal m @ events\<rparr>))"

definition memory_load_event_journal_after ::
  "MemoryStateStore \<Rightarrow> u64 \<Rightarrow> nat \<Rightarrow> (EventJournalSlice option, StoreError) result"
where
  "memory_load_event_journal_after m cursor cursor_group_limit =
     (let current_cursor = (case mem_snapshot m of None \<Rightarrow> 0 | Some snapshot \<Rightarrow> sn_cursor snapshot) in
      and_then (slice_journal (mem_journal m) (mem_journal_floor_cursor m) current_cursor cursor
                  cursor_group_limit) (\<lambda>slice. Ok (Some slice)))"

definition MemoryStore :: "MemoryStateStore StateStore" where
  "MemoryStore =
     \<lparr>st_load = memory_load, st_save = memory_save, st_save_with_events = memory_save_with_events,
      st_load_event_journal_after = memory_load_event_journal_after\<rparr>"

end
