(* ===== verification/Service_Views.thy ===== *)
theory Service_Views
  imports Store Engine
begin

text \<open>
  What the service of \<open>src/native/mahayana-messaging/src/service.rs\<close> shows an actor: who sees a
  conversation, the projections of conversations, communities and messages for one actor, the
  batch of a full synchronization, search, the wallet, and the audience of an event. All of them
  only read the state of the engine.
\<close>

definition envelope :: "u64 \<Rightarrow> i64 \<Rightarrow> ServerEvent \<Rightarrow> ServerEnvelope" where
  "envelope cursor server_time_ms event =
     \<lparr>se_protocol_version = FABUSHI_MESSAGING_PROTOCOL_VERSION, se_cursor = Some (show_u64 cursor),
      se_server_time_ms = server_time_ms, se_event = event\<rparr>"

section \<open>Who sees a conversation\<close>

definition active_member :: "CommunityState \<Rightarrow> ActorId \<Rightarrow> bool" where
  "active_member community actor_id =
     (case fmlookup (co_members community) actor_id of
        None \<Rightarrow> False
      | Some member \<Rightarrow> cm_status member \<noteq> StatusLeft \<and> cm_status member \<noteq> StatusBanned)"

definition actor_can_see_conversation :: "MessagingState \<Rightarrow> ActorId \<Rightarrow> Conversation \<Rightarrow> bool" where
  "actor_can_see_conversation s actor_id conversation =
     (case fmlookup (s_communities s) (c_id conversation) of
        Some community \<Rightarrow>
          c_owner_id conversation = Some actor_id
        \<or> active_member community actor_id
        \<or> (c_kind conversation = Channel \<and> is_subscriber community actor_id)
      | None \<Rightarrow>
          c_owner_id conversation = Some actor_id \<or> is_participant conversation actor_id)"

text \<open>The identifiers of the conversations an actor sees, in order.\<close>

definition visible_conversation_ids :: "MessagingState \<Rightarrow> ActorId \<Rightarrow> ConversationId list" where
  "visible_conversation_ids s actor_id =
     btree_list (map c_id
       (filter (actor_can_see_conversation s actor_id) (map_values (s_conversations s))))"

section \<open>Projections\<close>

definition ordered_messages :: "MessagingState \<Rightarrow> ConversationId \<Rightarrow> Message list" where
  "ordered_messages s c =
     sort_key (\<lambda>message. (sint (m_created_at_ms message), m_id message)) (messages_of s c)"

text \<open>The messages after the one an actor has read, all of them when there is none.\<close>

definition after_read :: "Message list \<Rightarrow> MessageId option \<Rightarrow> Message list" where
  "after_read messages last_read =
     (case last_read of
        None \<Rightarrow> messages
      | Some message_id \<Rightarrow>
          (case position (\<lambda>message. m_id message = message_id) messages of
             None \<Rightarrow> messages
           | Some read_index \<Rightarrow> drop (read_index + 1) messages))"

definition counts_as_unread :: "ActorId \<Rightarrow> i64 \<Rightarrow> Message \<Rightarrow> bool" where
  "counts_as_unread actor_id server_time_ms message \<longleftrightarrow>
     (case m_scheduled_at_ms message of
        None \<Rightarrow> True
      | Some scheduled_at_ms \<Rightarrow> sint scheduled_at_ms \<le> sint server_time_ms)
   \<and> \<not> m_deleted message \<and> m_sender_id message \<noteq> actor_id"

definition topic_unread_count ::
  "MessagingState \<Rightarrow> ActorId \<Rightarrow> ConversationId \<Rightarrow> string \<Rightarrow> i64 \<Rightarrow> u32"
where
  "topic_unread_count s actor_id conversation_id topic_id server_time_ms =
     (let cursor = (case fmlookup (s_topic_read_cursors s) conversation_id of
                      None \<Rightarrow> None
                    | Some by_actor \<Rightarrow>
                   (case fmlookup by_actor actor_id of
                      None \<Rightarrow> None
                    | Some by_topic \<Rightarrow> fmlookup by_topic topic_id));
          in_topic = (\<lambda>message. case m_thread_root_message_id message of
                        None \<Rightarrow> False
                      | Some root \<Rightarrow> topic_id_from_root root = Some topic_id)
      in u32_of_count (length (filter
           (\<lambda>message. in_topic message \<and> counts_as_unread actor_id server_time_ms message)
           (after_read (ordered_messages s conversation_id) cursor))))"

definition project_topic ::
  "MessagingState \<Rightarrow> ActorId \<Rightarrow> ConversationId \<Rightarrow> i64 \<Rightarrow> ForumTopicState \<Rightarrow> Topic"
where
  "project_topic s actor_id conversation_id server_time_ms topic =
     \<lparr>t_id = fts_id topic, t_title = fts_title topic, t_icon = fts_icon topic,
      t_created_by = fts_creator_id topic, t_closed = fts_closed topic, t_hidden = fts_hidden topic,
      t_unread_count = topic_unread_count s actor_id conversation_id (fts_id topic) server_time_ms\<rparr>"

definition project_conversation_for_actor ::
  "MessagingState \<Rightarrow> ActorId \<Rightarrow> Conversation \<Rightarrow> i64 \<Rightarrow> Conversation"
where
  "project_conversation_for_actor s actor_id conversation server_time_ms =
     (let c = c_id conversation;
          last_read = (case fmlookup (s_read_cursors s) c of
                         None \<Rightarrow> None | Some cursors \<Rightarrow> fmlookup cursors actor_id);
          unread = length (filter (counts_as_unread actor_id server_time_ms)
                     (after_read (ordered_messages s c) last_read));
          projected = conversation
            \<lparr>c_last_read_message_id := map_option message_str last_read,
             c_unread_count := u32_of_count unread,
             c_marked_unread := (case fmlookup (s_marked_unread_by_actor s) c of
                                   None \<Rightarrow> False | Some actors \<Rightarrow> actor_id |\<in>| actors)\<rparr>
      in case fmlookup (s_communities s) c of
           None \<Rightarrow> projected
         | Some community \<Rightarrow>
             projected\<lparr>c_topics := map (project_topic s actor_id c server_time_ms)
                                     (map_values (co_topics community))\<rparr>)"

definition is_owner_or_admin :: "CommunityState \<Rightarrow> ActorId \<Rightarrow> bool" where
  "is_owner_or_admin community actor_id =
     (case fmlookup (co_members community) actor_id of
        None \<Rightarrow> False
      | Some member \<Rightarrow> cm_status member = StatusOwner \<or> cm_status member = StatusAdministrator)"

definition can_invite :: "CommunityState \<Rightarrow> ActorId \<Rightarrow> bool" where
  "can_invite community actor_id =
     (case fmlookup (co_members community) actor_id of
        None \<Rightarrow> False
      | Some member \<Rightarrow>
          cm_status member = StatusOwner
        \<or> (cm_status member = StatusAdministrator \<and> ar_invite_members (cm_admin_rights member)))"

definition project_community_for_actor ::
  "MessagingState \<Rightarrow> ActorId \<Rightarrow> CommunityState \<Rightarrow> i64 \<Rightarrow> CommunityState"
where
  "project_community_for_actor s actor_id community server_time_ms =
     (let projected = community;
          projected = (if is_owner_or_admin community actor_id then projected
                       else projected\<lparr>co_pending_join_requests := fmempty, co_admin_log := []\<rparr>);
          projected = (if can_invite community actor_id then projected
                       else projected
                         \<lparr>co_pending_join_requests := fmempty,
                          co_invite_links := fmmap (\<lambda>invite. invite\<lparr>il_token := []\<rparr>)
                                               (co_invite_links projected)\<rparr>)
      in projected\<lparr>co_topics := fmmap
           (\<lambda>topic. topic\<lparr>fts_unread_count :=
              topic_unread_count s actor_id (co_conversation_id community) (fts_id topic)
                server_time_ms\<rparr>) (co_topics projected)\<rparr>)"

definition project_message_for_actor :: "MessagingState \<Rightarrow> ActorId \<Rightarrow> Message \<Rightarrow> Message" where
  "project_message_for_actor s actor_id message =
     (case m_content message of
        ContentPoll question options anonymous multiple_answers quiz \<Rightarrow>
          let selected =
            (case fmlookup (s_poll_votes s) (m_conversation_id message) of
               None \<Rightarrow> None
             | Some messages \<Rightarrow>
            (case fmlookup messages (m_id message) of
               None \<Rightarrow> None
             | Some actors \<Rightarrow> fmlookup actors actor_id))
          in message\<lparr>m_content := ContentPoll question
               (map (\<lambda>opt. opt\<lparr>po_chosen := (case selected of
                                               None \<Rightarrow> False | Some ids \<Rightarrow> po_id opt |\<in>| ids)\<rparr>) options)
               anonymous multiple_answers quiz\<rparr>
      | _ \<Rightarrow> message)"

section \<open>Full synchronization\<close>

definition expired_at :: "i64 \<Rightarrow> Message \<Rightarrow> bool" where
  "expired_at server_time_ms message =
     (case m_expires_at_ms message of
        None \<Rightarrow> False
      | Some expiry \<Rightarrow> sint expiry \<le> sint server_time_ms)"

definition actors_of_conversation :: "MessagingState \<Rightarrow> Conversation \<Rightarrow> ActorId list" where
  "actors_of_conversation s conversation =
     filter (\<lambda>a. actor_can_see_conversation s a conversation)
       (map p_actor_id (c_participants conversation))
     @ (case fmlookup (s_communities s) (c_id conversation) of
          None \<Rightarrow> []
        | Some community \<Rightarrow>
            map cm_actor_id (filter (\<lambda>member. cm_status member \<noteq> StatusLeft
                                            \<and> cm_status member \<noteq> StatusBanned)
                               (map_values (co_members community)))
            @ map_keys (co_subscribers community))"

definition visible_actor_ids :: "MessagingState \<Rightarrow> ActorId \<Rightarrow> ActorId list" where
  "visible_actor_ids s actor_id =
     btree_list
       (concat (map (actors_of_conversation s)
          (List.map_filter (fmlookup (s_conversations s)) (visible_conversation_ids s actor_id)))
        @ [actor_id])"

definition sync_batch :: "MessagingState \<Rightarrow> ActorId \<Rightarrow> u32 \<Rightarrow> i64 \<Rightarrow> u64 \<Rightarrow> SyncBatch" where
  "sync_batch s actor_id limit server_time_ms cursor =
     (let max_items = max 1 (unat limit);
          visible = visible_conversation_ids s actor_id;
          visible_actors = visible_actor_ids s actor_id
      in
      \<lparr>sb_actors = List.map_filter (fmlookup (s_actors s)) visible_actors,
       sb_conversations =
         map (\<lambda>conversation. project_conversation_for_actor s actor_id conversation server_time_ms)
           (List.map_filter (fmlookup (s_conversations s)) visible),
       sb_messages =
         map (project_message_for_actor s actor_id)
           (take max_items
             (filter (\<lambda>message. \<not> (m_deleted message \<and> expired_at server_time_ms message))
               (concat (map map_values (List.map_filter (fmlookup (s_messages s)) visible))))),
       sb_folders =
         take max_items (filter (\<lambda>folder. list_ex (\<lambda>i. i \<in> set visible) (f_conversation_ids folder))
           (map_values (s_folders s))),
       sb_drafts =
         List.map_filter (\<lambda>by_actor. fmlookup by_actor actor_id)
           (List.map_filter (fmlookup (s_drafts s)) visible),
       sb_topic_drafts =
         concat (map map_values
           (List.map_filter (\<lambda>by_actor. fmlookup by_actor actor_id)
             (List.map_filter (fmlookup (s_topic_drafts s)) visible))),
       sb_invoices =
         take max_items (filter (\<lambda>invoice. iv_conversation_id invoice \<in> set visible)
           (map_values (s_invoices s))),
       sb_orders =
         take max_items
           (filter (\<lambda>order. o_buyer_id order = actor_id
                          \<or> (case fmlookup (s_invoices s) (o_invoice_id order) of
                               None \<Rightarrow> False | Some invoice \<Rightarrow> iv_seller_id invoice = actor_id))
             (map_values (s_orders s))),
       sb_stories =
         take max_items
           (filter (\<lambda>story. (st_pinned_to_profile story \<or> sint server_time_ms < sint (st_expires_at_ms story))
                          \<and> is_visible_to story actor_id False False)
             (map_values (s_stories s))),
       sb_communities =
         map (\<lambda>community. project_community_for_actor s actor_id community server_time_ms)
           (take max_items (List.map_filter (fmlookup (s_communities s)) visible)),
       sb_bots =
         take max_items (filter (\<lambda>profile. bp_actor_id profile \<in> set visible_actors)
           (map_values (br_bots (s_bots s)))),
       sb_bot_executions =
         take max_items (filter (\<lambda>execution. be_bot_id execution = actor_id
                                           \<or> be_bot_id execution \<in> set visible_actors)
           (map_values (br_executions (s_bots s)))),
       sb_mini_apps = take max_items (map_values (s_mini_apps s)),
       sb_next_cursor = Some (show_u64 cursor)\<rparr>)"

definition sync_envelope :: "MessagingState \<Rightarrow> u64 \<Rightarrow> ActorId \<Rightarrow> u32 \<Rightarrow> i64 \<Rightarrow> ServerEnvelope" where
  "sync_envelope s cursor actor_id limit server_time_ms =
     envelope cursor server_time_ms (SvSyncBatch (sync_batch s actor_id limit server_time_ms cursor))"

definition sync_checkpoint_envelope :: "u64 \<Rightarrow> i64 \<Rightarrow> ServerEnvelope" where
  "sync_checkpoint_envelope cursor server_time_ms =
     envelope cursor server_time_ms
       (SvSyncBatch \<lparr>sb_actors = [], sb_conversations = [], sb_messages = [], sb_folders = [],
          sb_drafts = [], sb_topic_drafts = [], sb_invoices = [], sb_orders = [], sb_stories = [],
          sb_communities = [], sb_bots = [], sb_bot_executions = [], sb_mini_apps = [],
          sb_next_cursor = Some (show_u64 cursor)\<rparr>)"

section \<open>Search and wallet\<close>

definition searchable_conversation_ids :: "MessagingState \<Rightarrow> ActorId \<Rightarrow> ConversationId list" where
  "searchable_conversation_ids s actor_id =
     btree_list (map c_id
       (filter (\<lambda>conversation. actor_can_see_conversation s actor_id conversation
                 \<or> (case fmlookup (s_communities s) (c_id conversation) of
                      None \<Rightarrow> False | Some community \<Rightarrow> co_public_username community \<noteq> None))
         (map_values (s_conversations s))))"

definition search_index :: "UnicodeTables \<Rightarrow> MessagingState \<Rightarrow> ActorId \<Rightarrow> SearchIndex" where
  "search_index uni s actor_id =
     (let visible = searchable_conversation_ids s actor_id;
          ix = foldl (index_actor uni) SearchIndex_default (map_values (s_actors s));
          ix = foldl (index_conversation uni) ix
                 (filter (\<lambda>conversation. c_id conversation \<in> set visible) (map_values (s_conversations s)))
      in foldl (index_message uni) ix
           (filter (\<lambda>message. \<not> m_deleted message)
             (concat (map map_values (List.map_filter (fmlookup (s_messages s)) visible)))))"

definition search_envelope ::
  "UnicodeTables \<Rightarrow> MessagingState \<Rightarrow> u64 \<Rightarrow> ActorId \<Rightarrow> SearchQuery \<Rightarrow> i64 \<Rightarrow> ServerEnvelope"
where
  "search_envelope uni s cursor actor_id query server_time_ms =
     envelope cursor server_time_ms (SvSearchResults query (search uni (search_index uni s actor_id) query))"

definition wallet_status_envelope :: "MessagingState \<Rightarrow> u64 \<Rightarrow> ActorId \<Rightarrow> i64 \<Rightarrow> ServerEnvelope" where
  "wallet_status_envelope s cursor actor_id server_time_ms =
     (let account_id = WalletAccountId (''wallet:'' @ actor_str actor_id);
          recent_entries = filter (\<lambda>entry. le_from_account_id entry = Some account_id
                                         \<or> le_to_account_id entry = Some account_id)
                             (map_values (w_entries (s_wallet s)))
      in envelope cursor server_time_ms
           (SvWalletStatus (fmlookup (w_accounts (s_wallet s)) account_id)
              (take 50 (sort_key (\<lambda>entry. - sint (le_created_at_ms entry)) recent_entries))))"

section \<open>Audiences and the journal\<close>

definition conversation_audience :: "Conversation \<Rightarrow> ActorId fset" where
  "conversation_audience conversation =
     fset_of_list (map p_actor_id (c_participants conversation))
     |\<union>| (case c_owner_id conversation of None \<Rightarrow> {||} | Some owner_id \<Rightarrow> {|owner_id|})"

definition conversation_id_audience :: "MessagingState \<Rightarrow> ConversationId \<Rightarrow> ActorId fset" where
  "conversation_id_audience s conversation_id =
     (case fmlookup (s_conversations s) conversation_id of
        None \<Rightarrow> {||}
      | Some conversation \<Rightarrow>
     (case fmlookup (s_communities s) conversation_id of
        None \<Rightarrow> conversation_audience conversation
      | Some community \<Rightarrow>
          fset_of_list (filter (\<lambda>a. c_owner_id conversation = Some a \<or> active_member community a
                                  \<or> (c_kind conversation = Channel \<and> is_subscriber community a))
                          (map p_actor_id (c_participants conversation)))
          |\<union>| fset_of_list (map cm_actor_id
                (filter (\<lambda>member. cm_status member \<noteq> StatusLeft \<and> cm_status member \<noteq> StatusBanned)
                   (map_values (co_members community))))
          |\<union>| (if c_kind conversation = Channel then fmdom (co_subscribers community) else {||})
          |\<union>| (case c_owner_id conversation of None \<Rightarrow> {||} | Some owner_id \<Rightarrow> {|owner_id|})))"

definition conversations_with :: "MessagingState \<Rightarrow> ActorId \<Rightarrow> ActorId fset" where
  "conversations_with s actor_id =
     ffUnion (fset_of_list (map conversation_audience
       (filter (\<lambda>conversation. is_participant conversation actor_id) (map_values (s_conversations s)))))"

definition optional_actor :: "ActorId option \<Rightarrow> ActorId fset" where
  "optional_actor a = (case a of None \<Rightarrow> {||} | Some b \<Rightarrow> {|b|})"

definition audience_set :: "MessagingState \<Rightarrow> ActorId \<Rightarrow> ServerEvent \<Rightarrow> ActorId fset" where
  "audience_set s initiator event =
     (case event of
        SvActorChanged actor \<Rightarrow> finsert initiator (finsert (a_id actor) (conversations_with s (a_id actor)))
      | SvPresenceChanged actor_id _ \<Rightarrow> finsert initiator (finsert actor_id (conversations_with s actor_id))
      | SvConversationChanged conversation \<Rightarrow> finsert initiator (conversation_audience conversation)
      | SvConversationParticipantChanged conversation removed_actor_id \<Rightarrow>
          finsert initiator (conversation_audience conversation |\<union>| optional_actor removed_actor_id)
      | SvMarkedUnreadChanged _ actor_id _ \<Rightarrow> {|actor_id|}
      | SvDraftChanged draft \<Rightarrow> {|d_actor_id draft|}
      | SvTopicDraftChanged draft \<Rightarrow> {|td_actor_id draft|}
      | SvMessageAdded message \<Rightarrow>
          finsert initiator (conversation_id_audience s (m_conversation_id message))
      | SvMessageChanged message \<Rightarrow>
          finsert initiator (conversation_id_audience s (m_conversation_id message))
      | SvMessagesDeleted conversation_id _ \<Rightarrow> conversation_id_audience s conversation_id
      | SvConversationMessageRetentionChanged conversation_id _ _ \<Rightarrow>
          finsert initiator (conversation_id_audience s conversation_id)
      | SvReadChanged conversation_id _ _ \<Rightarrow>
          finsert initiator (conversation_id_audience s conversation_id)
      | SvTypingChanged conversation_id _ _ _ \<Rightarrow>
          finsert initiator (conversation_id_audience s conversation_id)
      | SvTopicReadChanged _ _ actor_id _ \<Rightarrow> {|actor_id|}
      | SvInvoiceChanged invoice \<Rightarrow>
          finsert initiator (conversation_id_audience s (iv_conversation_id invoice))
      | SvOrderChanged order \<Rightarrow>
          finsert initiator (finsert (o_buyer_id order)
            (optional_actor (map_option iv_seller_id (fmlookup (s_invoices s) (o_invoice_id order)))))
      | SvStoryChanged story \<Rightarrow> finsert initiator {|st_owner_id story|}
      | SvCommunityChanged community \<Rightarrow>
          finsert initiator (conversation_id_audience s (co_conversation_id community))
      | SvBotChanged profile execution \<Rightarrow>
          finsert initiator (optional_actor (map_option bp_actor_id profile)
            |\<union>| optional_actor (map_option be_bot_id execution))
      | SvBotInvocationRequested invocation \<Rightarrow>
          finsert initiator (finsert (bi_sender_id invocation) (finsert (bi_bot_id invocation)
            (conversation_id_audience s (bi_conversation_id invocation))))
      | SvMiniAppOpened session \<Rightarrow> finsert initiator {|ms_actor_id session|}
      | SvMiniAppResult session_id _ _ \<Rightarrow>
          finsert initiator
            (optional_actor (map_option ms_actor_id (fmlookup (s_mini_app_sessions s) session_id)))
      | _ \<Rightarrow> {|initiator|})"

definition event_audience :: "MessagingState \<Rightarrow> ActorId \<Rightarrow> ServerEvent \<Rightarrow> ActorId list" where
  "event_audience s initiator event = sorted_list_of_fset (audience_set s initiator event)"

text \<open>Journal entries are shared by their audience, so they carry no tokens, log or requests.\<close>

definition public_community :: "CommunityState \<Rightarrow> CommunityState" where
  "public_community community = community
     \<lparr>co_admin_log := [], co_pending_join_requests := fmempty,
      co_topics := fmmap (\<lambda>topic. topic\<lparr>fts_unread_count := 0\<rparr>) (co_topics community),
      co_invite_links := fmmap (\<lambda>invite. invite\<lparr>il_token := []\<rparr>) (co_invite_links community)\<rparr>"

definition public_journal_envelope :: "ServerEnvelope \<Rightarrow> ServerEnvelope" where
  "public_journal_envelope response =
     (case se_event response of
        SvCommunityChanged community \<Rightarrow>
          response\<lparr>se_event := SvCommunityChanged (public_community community)\<rparr>
      | _ \<Rightarrow> response)"

definition is_sync_batch :: "ServerEvent \<Rightarrow> bool" where
  "is_sync_batch event = (case event of SvSyncBatch _ \<Rightarrow> True | _ \<Rightarrow> False)"

definition journal_envelope :: "MessagingState \<Rightarrow> ServerEnvelope \<Rightarrow> ServerEnvelope" where
  "journal_envelope s response =
     (case se_event response of
        SvCommunityChanged community \<Rightarrow>
          public_journal_envelope (response\<lparr>se_event := SvCommunityChanged
            (get_or community (s_communities s) (co_conversation_id community))\<rparr>)
      | _ \<Rightarrow> public_journal_envelope response)"

definition journal_entries ::
  "MessagingState \<Rightarrow> ActorId \<Rightarrow> ServerEnvelope list \<Rightarrow> JournalEntry list"
where
  "journal_entries s initiator responses =
     map (\<lambda>response. \<lparr>je_envelope = journal_envelope s response,
                      je_audience = event_audience s initiator (se_event response)\<rparr>)
       (filter (\<lambda>response. \<not> is_sync_batch (se_event response)) responses)"

definition project_journal_envelope_for_actor ::
  "MessagingState \<Rightarrow> ActorId \<Rightarrow> ServerEnvelope \<Rightarrow> i64 \<Rightarrow> ServerEnvelope"
where
  "project_journal_envelope_for_actor s actor_id env server_time_ms =
     (case se_event env of
        SvCommunityChanged community \<Rightarrow>
          env\<lparr>se_event := SvCommunityChanged
            (project_community_for_actor s actor_id community server_time_ms)\<rparr>
      | _ \<Rightarrow> public_journal_envelope env)"

end
