(* ===== verification/Settlement.thy ===== *)
theory Settlement
  imports Actors Payment
begin

text \<open>
  Signed settlements of \<open>src/native/mahayana-messaging/src/settlement.rs\<close>: the payment processor
  posts a timestamped, signed payload, and the verifier checks its age, its signature and its
  content. Three functions of other crates are parameters: \<open>hmac\<close>, the HMAC-SHA256 of a message
  under a key, \<open>unbase64\<close>, the URL-safe decoding without padding, and \<open>parse\<close>, the decoding of the
  JSON payload. Bytes are characters, as in strings.
\<close>

definition DEFAULT_SETTLEMENT_CLOCK_SKEW_MS :: i64 where
  "DEFAULT_SETTLEMENT_CLOCK_SKEW_MS = 5 * 60 * 1000"

record SettlementEvent =
  sl_provider_id :: string
  sl_event_id :: string
  sl_actor_id :: ActorId
  sl_amount :: Money
  sl_provider_reference :: string
  sl_occurred_at_ms :: i64

record SignedSettlement =
  ss_timestamp_ms :: i64
  ss_payload_base64 :: string
  ss_signature_hex :: string

record SettlementVerifier =
  vf_secret :: string
  vf_clock_skew_ms :: i64

datatype SettlementError =
    WeakSecret
  | InvalidClockSkew
  | TimestampOutOfRange
  | InvalidSignature
  | InvalidEncoding
  | InvalidEvent
  | SettlementJson string

definition settlement_validate :: "SettlementEvent \<Rightarrow> (unit, SettlementError) result" where
  "settlement_validate event =
     (if is_blank (sl_provider_id event) \<or> is_blank (sl_event_id event)
       \<or> is_blank (sl_provider_reference event) \<or> \<not> ActorId_is_valid (sl_actor_id event)
       \<or> \<not> Money_is_valid (sl_amount event) \<or> sint (amount_minor (sl_amount event)) \<le> 0
       \<or> sint (sl_occurred_at_ms event) \<le> 0
      then Err InvalidEvent else Ok ())"

definition idempotency_key :: "SettlementEvent \<Rightarrow> string" where
  "idempotency_key event = ''settlement:'' @ sl_provider_id event @ '':'' @ sl_event_id event"

definition with_clock_skew :: "string \<Rightarrow> i64 \<Rightarrow> (SettlementVerifier, SettlementError) result" where
  "with_clock_skew secret clock_skew_ms =
     (if length secret < 32 then Err WeakSecret
      else if sint clock_skew_ms \<le> 0 \<or> 60 * 60 * 1000 < sint clock_skew_ms then Err InvalidClockSkew
      else Ok \<lparr>vf_secret = secret, vf_clock_skew_ms = clock_skew_ms\<rparr>)"

definition SettlementVerifier_new :: "string \<Rightarrow> (SettlementVerifier, SettlementError) result" where
  "SettlementVerifier_new secret = with_clock_skew secret DEFAULT_SETTLEMENT_CLOCK_SKEW_MS"

definition hex_value :: "char \<Rightarrow> nat option" where
  "hex_value c =
     (if is_ascii_digit c then Some (of_char c - 48)
      else if CHR ''a'' \<le> c \<and> c \<le> CHR ''f'' then Some (of_char c - 87)
      else if CHR ''A'' \<le> c \<and> c \<le> CHR ''F'' then Some (of_char c - 55)
      else None)"

fun hex_pairs :: "string \<Rightarrow> string option" where
  "hex_pairs [] = Some []"
| "hex_pairs [a] = None"
| "hex_pairs (a # b # s) =
     (case (hex_value a, hex_value b, hex_pairs s) of
        (Some x, Some y, Some bytes) \<Rightarrow> Some (char_of (16 * x + y) # bytes)
      | _ \<Rightarrow> None)"

definition decode_hex :: "string \<Rightarrow> (string, SettlementError) result" where
  "decode_hex value =
     (if length value \<noteq> 64 then Err InvalidEncoding else ok_or InvalidEncoding (hex_pairs value))"

text \<open>
  The age is taken after a checked subtraction; \<open>abs\<close> of the least integer, which only a negative
  clock could give, wraps around.
\<close>

definition abs_i64 :: "i64 \<Rightarrow> i64" where
  "abs_i64 x = (if sint x < 0 then - x else x)"

definition settlement_verify ::
  "(string \<Rightarrow> string \<Rightarrow> string) \<Rightarrow> (string \<Rightarrow> string option) \<Rightarrow>
     (string \<Rightarrow> (SettlementEvent, string) result) \<Rightarrow>
     SettlementVerifier \<Rightarrow> SignedSettlement \<Rightarrow> i64 \<Rightarrow> (SettlementEvent, SettlementError) result"
where
  "settlement_verify hmac unbase64 parse verifier webhook now_ms =
     and_then (ok_or TimestampOutOfRange (checked_sub_i64 now_ms (ss_timestamp_ms webhook))) (\<lambda>difference.
     if sint (vf_clock_skew_ms verifier) < sint (abs_i64 difference) then Err TimestampOutOfRange
     else
       and_then (decode_hex (ss_signature_hex webhook)) (\<lambda>signature.
       if hmac (vf_secret verifier)
            (show_int (sint (ss_timestamp_ms webhook)) @ ''.'' @ ss_payload_base64 webhook) \<noteq> signature
       then Err InvalidSignature
       else
         and_then (ok_or InvalidEncoding (unbase64 (ss_payload_base64 webhook))) (\<lambda>payload.
         and_then (map_err SettlementJson (parse payload)) (\<lambda>event.
         and_then (settlement_validate event) (\<lambda>_. Ok event)))))"

section \<open>Properties\<close>

lemma settlement_validate_Ok:
  "settlement_validate event = Ok u \<Longrightarrow>
     ActorId_is_valid (sl_actor_id event) \<and> Money_is_valid (sl_amount event)
   \<and> 0 < sint (amount_minor (sl_amount event))"
  by (auto simp: settlement_validate_def split: if_splits)

lemma settlement_verify_Ok:
  assumes "settlement_verify hmac unbase64 parse v webhook now = Ok event"
  shows "\<exists>payload. unbase64 (ss_payload_base64 webhook) = Some payload \<and> parse payload = Ok event
    \<and> settlement_validate event = Ok ()
    \<and> decode_hex (ss_signature_hex webhook)
        = Ok (hmac (vf_secret v) (show_int (sint (ss_timestamp_ms webhook)) @ ''.'' @ ss_payload_base64 webhook))"
  using assms by (auto simp: settlement_verify_def result_simps)

text \<open>The accepted timestamps, for a clock that does not run before 1970.\<close>

lemma settlement_verify_fresh:
  assumes "settlement_verify hmac unbase64 parse v webhook now = Ok event" "0 \<le> sint now"
  shows "\<bar>sint now - sint (ss_timestamp_ms webhook)\<bar> \<le> sint (vf_clock_skew_ms v)"
proof -
  obtain d where d: "sint d = sint now - sint (ss_timestamp_ms webhook)"
    and le: "sint (abs_i64 d) \<le> sint (vf_clock_skew_ms v)"
    using assms(1) by (auto simp: settlement_verify_def result_simps checked_sub_i64_Some_iff not_less)
  have lb: "- (2 ^ 63) < sint d"
    using d assms(2) sint_i64_bounds(2) [of "ss_timestamp_ms webhook"] by linarith
  have "sint (- d) = - sint d" if "sint d < 0"
  proof -
    have "sint (word_of_int (- sint d) :: i64) = - sint d"
      using lb that by (intro sint_word_of_int_i64) simp_all
    then show ?thesis by simp
  qed
  then have "sint (abs_i64 d) = \<bar>sint d\<bar>"
    by (simp add: abs_i64_def)
  with le d show ?thesis by simp
qed

end
