(* ===== verification/Service_Auth.thy ===== *)
theory Service_Auth
  imports Service_Views Settlement
begin

text \<open>
  Authorization in \<open>src/native/mahayana-messaging/src/service.rs\<close>: the errors of the service, the
  checks that tie a command of a client to the authenticated actor, and the translation of the
  command into commands of the engine.
\<close>

datatype MessagingServiceError =
    ProtocolVersion u16 u16
  | EngineFailure EngineError
  | StoreFailure StoreError
  | BlobFailure BlobStoreError
  | BlobStoreUnavailable
  | InvalidBlobBase64 string
  | Invariant string
  | UnauthorizedCommand string
  | IdempotencyConflict string
  | SettlementFailure SettlementError

text \<open>Functions of other crates the service calls: SHA-256 and the decoding of base64.\<close>

record Externals =
  x_unicode :: UnicodeTables
  x_sha256 :: "string \<Rightarrow> string"
  x_unbase64 :: "string \<Rightarrow> (string, string) result"

definition hex_digit :: "nat \<Rightarrow> char" where
  "hex_digit n = (if n < 10 then char_of (48 + n) else char_of (87 + n))"

definition hex_byte :: "char \<Rightarrow> string" where
  "hex_byte c = [hex_digit (of_char c div 16), hex_digit (of_char c mod 16)]"

definition encode_hex :: "string \<Rightarrow> string" where
  "encode_hex bytes = concat (map hex_byte bytes)"

definition stable_message_id :: "Externals \<Rightarrow> ActorId \<Rightarrow> ClientMessageId \<Rightarrow> MessageId" where
  "stable_message_id ext actor_id client_message_id =
     MessageId (''msg:'' @ encode_hex (x_sha256 ext
       (actor_str actor_id @ [CHR 0x00] @ client_message_str client_message_id)))"

section \<open>Authorization\<close>

definition authorized_community ::
  "MessagingState \<Rightarrow> ActorId \<Rightarrow> ConversationId \<Rightarrow> (CommunityState, MessagingServiceError) result"
where
  "authorized_community s actor_id conversation_id =
     (let denied = UnauthorizedCommand
            ''community operation requires membership or channel subscription'' in
      and_then (ok_or denied (fmlookup (s_communities s) conversation_id)) (\<lambda>community.
      if active_member community actor_id \<or> is_subscriber community actor_id
       \<or> conversation_owner s conversation_id = Some actor_id
      then Ok community else Err denied))"

definition community_manage ::
  "CommunityState \<Rightarrow> ActorId \<Rightarrow> ClientCommand \<Rightarrow> (unit, MessagingServiceError) result"
where
  "community_manage community actor_id command =
     and_then (ok_or (UnauthorizedCommand ''community management requires membership'')
                 (fmlookup (co_members community) actor_id)) (\<lambda>caller.
     let caller_is_owner = cm_status caller = StatusOwner in
     if \<not> (caller_is_owner
            \<or> (cm_status caller = StatusAdministrator \<and> ar_add_admins (cm_admin_rights caller)))
     then Err (UnauthorizedCommand ''community management requires admin rights'')
     else
       (case command of
          ClSetConversationParticipant _ participant \<Rightarrow>
            if member_status_is community (p_actor_id participant) StatusOwner
             \<or> p_role participant = RoleOwner
            then Err (UnauthorizedCommand ''community owner cannot be changed'')
            else if \<not> caller_is_owner
                  \<and> member_status_is community (p_actor_id participant) StatusAdministrator
            then Err (UnauthorizedCommand ''admins cannot manage other administrators'')
            else Ok ()
        | ClRemoveConversationParticipant _ target \<Rightarrow>
            if (member_status_is community target StatusOwner
                \<or> member_status_is community target StatusAdministrator) \<and> \<not> caller_is_owner
            then Err (UnauthorizedCommand ''admins cannot remove owner/admin members'')
            else Ok ()
        | _ \<Rightarrow> Ok ()))"

definition find_participant :: "Conversation \<Rightarrow> ActorId \<Rightarrow> Participant option" where
  "find_participant conversation a = List.find (\<lambda>p. p_actor_id p = a) (c_participants conversation)"

definition manages_role :: "Participant option \<Rightarrow> bool" where
  "manages_role p = (case p of None \<Rightarrow> False | Some q \<Rightarrow> p_role q = RoleOwner \<or> p_role q = RoleAdmin)"

definition conversation_manage ::
  "Conversation \<Rightarrow> ActorId \<Rightarrow> ClientCommand \<Rightarrow> (unit, MessagingServiceError) result"
where
  "conversation_manage existing actor_id command =
     and_then (ok_or (UnauthorizedCommand ''conversation management requires membership'')
                 (find_participant existing actor_id)) (\<lambda>caller.
     if \<not> manages_role (Some caller)
     then Err (UnauthorizedCommand ''conversation management requires owner/admin role'')
     else
       (case command of
          ClSetConversationParticipant _ participant \<Rightarrow>
            if p_role participant = RoleOwner \<and> c_owner_id existing \<noteq> Some (p_actor_id participant)
            then Err (UnauthorizedCommand
              ''conversation owner cannot be reassigned through participant management'')
            else if p_role caller = RoleAdmin
                  \<and> (p_role participant = RoleOwner \<or> p_role participant = RoleAdmin
                     \<or> manages_role (find_participant existing (p_actor_id participant)))
            then Err (UnauthorizedCommand ''admins cannot manage owner/admin roles'')
            else Ok ()
        | ClRemoveConversationParticipant _ target \<Rightarrow>
            if c_owner_id existing = Some target
            then Err (UnauthorizedCommand ''conversation owner cannot be removed'')
            else if p_role caller = RoleAdmin \<and> manages_role (find_participant existing target)
            then Err (UnauthorizedCommand ''admins cannot remove owner/admin participants'')
            else Ok ()
        | _ \<Rightarrow> Ok ()))"

definition authorize_management ::
  "MessagingState \<Rightarrow> ActorId \<Rightarrow> ConversationId \<Rightarrow> ClientCommand \<Rightarrow> (unit, MessagingServiceError) result"
where
  "authorize_management s actor_id conversation_id command =
     (case fmlookup (s_communities s) conversation_id of
        Some community \<Rightarrow> community_manage community actor_id command
      | None \<Rightarrow>
          and_then (ok_or (UnauthorizedCommand ''conversation management target does not exist'')
                      (fmlookup (s_conversations s) conversation_id)) (\<lambda>existing.
          conversation_manage existing actor_id command))"

definition authorize_state_update ::
  "MessagingState \<Rightarrow> ActorId \<Rightarrow> ConversationId \<Rightarrow> (unit, MessagingServiceError) result"
where
  "authorize_state_update s actor_id conversation_id =
     and_then (ok_or (UnauthorizedCommand ''conversation state target does not exist'')
                 (fmlookup (s_conversations s) conversation_id)) (\<lambda>existing.
     if is_participant existing actor_id \<or> c_owner_id existing = Some actor_id
      \<or> (case fmlookup (s_communities s) conversation_id of
           None \<Rightarrow> False | Some community \<Rightarrow> is_subscriber community actor_id)
     then Ok () else Err (UnauthorizedCommand ''conversation state update requires membership''))"

definition authorize_update ::
  "MessagingState \<Rightarrow> ActorId \<Rightarrow> Conversation \<Rightarrow> (unit, MessagingServiceError) result"
where
  "authorize_update s actor_id conversation =
     (case fmlookup (s_communities s) (c_id conversation) of
        Some community \<Rightarrow>
          and_then (ok_or (UnauthorizedCommand ''community update requires membership'')
                      (fmlookup (co_members community) actor_id)) (\<lambda>member.
          if cm_status member \<noteq> StatusOwner
           \<and> \<not> (cm_status member = StatusAdministrator \<and> ar_change_info (cm_admin_rights member))
          then Err (UnauthorizedCommand ''community update requires change_info permission'')
          else Ok ())
      | None \<Rightarrow>
          and_then (ok_or (UnauthorizedCommand ''conversation update target does not exist'')
                      (fmlookup (s_conversations s) (c_id conversation))) (\<lambda>existing.
          and_then (ok_or (UnauthorizedCommand ''conversation update requires membership'')
                      (find_participant existing actor_id)) (\<lambda>caller.
          if \<not> manages_role (Some caller)
          then Err (UnauthorizedCommand ''conversation update requires owner/admin role'')
          else Ok ())))"

definition community_access ::
  "MessagingState \<Rightarrow> ActorId \<Rightarrow> ConversationId \<Rightarrow> (unit, MessagingServiceError) result"
where
  "community_access s actor_id conversation_id =
     and_then (authorized_community s actor_id conversation_id) (\<lambda>_. Ok ())"

definition validate_command_authorization ::
  "MessagingState \<Rightarrow> ActorId \<Rightarrow> ClientCommand \<Rightarrow> (unit, MessagingServiceError) result"
where
  "validate_command_authorization s actor_id command =
     (case command of
        ClUpsertProfile actor \<Rightarrow>
          if a_id actor \<noteq> actor_id
          then Err (UnauthorizedCommand ''profile actor id does not match authenticated actor'')
          else Ok ()
      | ClCreateConversation conversation \<Rightarrow>
          if \<not> is_participant conversation actor_id
           \<or> (case c_owner_id conversation of None \<Rightarrow> False | Some owner \<Rightarrow> owner \<noteq> actor_id)
          then Err (UnauthorizedCommand ''conversation creator must be an owner/participant'')
          else Ok ()
      | ClSetMarkedUnread conversation_id _ \<Rightarrow> authorize_state_update s actor_id conversation_id
      | ClSetDraft conversation_id _ _ \<Rightarrow> authorize_state_update s actor_id conversation_id
      | ClMarkTopicRead conversation_id _ _ \<Rightarrow> community_access s actor_id conversation_id
      | ClSetTopicDraft conversation_id _ _ _ \<Rightarrow> community_access s actor_id conversation_id
      | ClListCommunityMembers conversation_id _ _ \<Rightarrow> community_access s actor_id conversation_id
      | ClListCommunityAuditLog conversation_id _ _ \<Rightarrow> community_access s actor_id conversation_id
      | ClUpdateConversationInfo conversation_id _ _ \<Rightarrow>
          authorize_management s actor_id conversation_id command
      | ClSetConversationMessageRetention conversation_id _ _ \<Rightarrow>
          authorize_management s actor_id conversation_id command
      | ClSetConversationParticipant conversation_id _ \<Rightarrow>
          authorize_management s actor_id conversation_id command
      | ClRemoveConversationParticipant conversation_id _ \<Rightarrow>
          authorize_management s actor_id conversation_id command
      | ClUpdateConversation conversation \<Rightarrow> authorize_update s actor_id conversation
      | ClCreateInvoice invoice \<Rightarrow>
          if iv_seller_id invoice \<noteq> actor_id
          then Err (UnauthorizedCommand ''invoice seller id does not match authenticated actor'')
          else Ok ()
      | ClGrantMiniApp grant \<Rightarrow>
          if mg_actor_id grant \<noteq> actor_id
          then Err (UnauthorizedCommand ''Mini App grant actor does not match authenticated actor'')
          else Ok ()
      | ClOpenMiniApp session \<Rightarrow>
          if ms_actor_id session \<noteq> actor_id
          then Err (UnauthorizedCommand ''Mini App session actor does not match authenticated actor'')
          else Ok ()
      | _ \<Rightarrow> Ok ())"

section \<open>Commands of the engine for a command of a client\<close>

definition project_update_conversation :: "MessagingState \<Rightarrow> Conversation \<Rightarrow> Command list" where
  "project_update_conversation s conversation =
     (if contains_key (s_communities s) (c_id conversation)
      then [UpdateConversationInfo (c_id conversation) (c_title conversation) (c_description conversation)]
      else [UpsertConversation conversation])"

definition project_send ::
  "Externals \<Rightarrow> ActorId \<Rightarrow> i64 \<Rightarrow> ConversationId \<Rightarrow> ClientMessageId \<Rightarrow> MessageContent \<Rightarrow>
     MessageId option \<Rightarrow> MessageId option \<Rightarrow> i64 option \<Rightarrow> bool \<Rightarrow> bool \<Rightarrow> Command list"
where
  "project_send ext actor_id now_ms conversation_id client_message_id content reply_to thread_root
       scheduled_at_ms silent protected_content =
     (let message_id = stable_message_id ext actor_id client_message_id
      in [QueueMessage conversation_id message_id client_message_id actor_id content reply_to
            thread_root now_ms scheduled_at_ms silent protected_content,
          AcknowledgeMessage conversation_id message_id message_id now_ms])"

definition project_mark_read ::
  "MessagingState \<Rightarrow> ActorId \<Rightarrow> ConversationId \<Rightarrow> MessageId \<Rightarrow> Command list"
where
  "project_mark_read s actor_id conversation_id message_id =
     MarkRead conversation_id actor_id message_id
     # (if (case fmlookup (s_conversations s) conversation_id of
              None \<Rightarrow> False
            | Some conversation \<Rightarrow> c_kind conversation = Direct \<or> c_kind conversation = Secret)
         \<and> (case get_message s conversation_id message_id of
              None \<Rightarrow> False | Some message \<Rightarrow> m_sender_id message \<noteq> actor_id)
        then [SetDeliveryState conversation_id message_id Read] else [])"

primrec project_command ::
  "Externals \<Rightarrow> MessagingState \<Rightarrow> ActorId \<Rightarrow> i64 \<Rightarrow> ClientCommand \<Rightarrow> Command list"
where
  "project_command ext s actor_id now_ms (ClSync _ _) = []"
| "project_command ext s actor_id now_ms (ClSearch _) = []"
| "project_command ext s actor_id now_ms (ClUpsertProfile actor) = [UpsertActor actor]"
| "project_command ext s actor_id now_ms (ClSetPresence presence) = [SetPresence actor_id presence]"
| "project_command ext s actor_id now_ms (ClCreateConversation conversation) = [UpsertConversation conversation]"
| "project_command ext s actor_id now_ms (ClUpdateConversation conversation) =
     project_update_conversation s conversation"
| "project_command ext s actor_id now_ms (ClUpdateConversationInfo c title description) =
     [UpdateConversationInfo c title description]"
| "project_command ext s actor_id now_ms (ClSetConversationParticipant c participant) =
     [SetConversationParticipant c participant]"
| "project_command ext s actor_id now_ms (ClRemoveConversationParticipant c target) =
     [RemoveConversationParticipant c target]"
| "project_command ext s actor_id now_ms (ClArchiveConversation c archived) = [ArchiveConversation c archived]"
| "project_command ext s actor_id now_ms (ClPinConversation c pinned) = [PinConversation c pinned]"
| "project_command ext s actor_id now_ms (ClSetMarkedUnread c marked) = [SetMarkedUnread c actor_id marked]"
| "project_command ext s actor_id now_ms (ClSetDraft c text reply) =
     [SetDraft \<lparr>d_conversation_id = c, d_actor_id = actor_id, d_text = text,
        d_reply_to_message_id = map_option message_str reply, d_updated_at_ms = now_ms\<rparr>]"
| "project_command ext s actor_id now_ms (ClSetConversationNotifications c settings) =
     [SetConversationNotifications c settings]"
| "project_command ext s actor_id now_ms (ClSetConversationMessageRetention c seconds revision) =
     [SetConversationMessageRetention c seconds revision]"
| "project_command ext s actor_id now_ms (ClUpsertFolder folder) = [UpsertFolder folder]"
| "project_command ext s actor_id now_ms (ClDeleteFolder i) = [DeleteFolder i]"
| "project_command ext s actor_id now_ms (ClSendMessage c k content reply thread scheduled silent protected) =
     project_send ext actor_id now_ms c k content reply thread scheduled silent protected"
| "project_command ext s actor_id now_ms (ClForwardMessage source m destination k) =
     [ForwardMessage source m destination (MessageId (''local:'' @ client_message_str k)) k actor_id now_ms]"
| "project_command ext s actor_id now_ms (ClBeginBlobUpload _) = []"
| "project_command ext s actor_id now_ms (ClAppendBlobChunk _ _ _) = []"
| "project_command ext s actor_id now_ms (ClFinishBlobUpload _) = []"
| "project_command ext s actor_id now_ms (ClDeleteBlob _) = []"
| "project_command ext s actor_id now_ms (ClEditMessage c m content) = [EditMessage c m content now_ms]"
| "project_command ext s actor_id now_ms (ClDeleteMessages c ms _) = [DeleteMessages c ms]"
| "project_command ext s actor_id now_ms (ClMarkRead c m) = project_mark_read s actor_id c m"
| "project_command ext s actor_id now_ms (ClMarkTopicRead c topic m) = [MarkTopicRead c topic actor_id m]"
| "project_command ext s actor_id now_ms (ClSetTopicDraft c topic text reply) =
     [SetTopicDraft \<lparr>td_conversation_id = c, td_topic_id = topic, td_actor_id = actor_id,
        td_text = text, td_reply_to_message_id = map_option message_str reply,
        td_updated_at_ms = now_ms\<rparr>]"
| "project_command ext s actor_id now_ms (ClSetReaction c m reaction) = [SetReaction c m reaction]"
| "project_command ext s actor_id now_ms (ClPinMessage c m pinned) = [PinMessage c m pinned]"
| "project_command ext s actor_id now_ms (ClVotePoll c m options) = [VotePoll c m actor_id options]"
| "project_command ext s actor_id now_ms (ClStartTyping _ _) = []"
| "project_command ext s actor_id now_ms (ClStopTyping _) = []"
| "project_command ext s actor_id now_ms (ClCreateInvoice invoice) = [CreateInvoice invoice]"
| "project_command ext s actor_id now_ms (ClCheckoutInvoice i order customer) =
     [CheckoutInvoice i order actor_id customer now_ms]"
| "project_command ext s actor_id now_ms (ClRefundOrder order request) =
     [RefundOrder order actor_id request now_ms]"
| "project_command ext s actor_id now_ms ClWalletStatus = []"
| "project_command ext s actor_id now_ms (ClPublishStory story) = [PublishStory actor_id story]"
| "project_command ext s actor_id now_ms (ClDeleteStory i) = [DeleteStory actor_id i]"
| "project_command ext s actor_id now_ms (ClViewStory i) = [ViewStory actor_id i now_ms]"
| "project_command ext s actor_id now_ms (ClReactStory i reaction) = [ReactStory actor_id i reaction]"
| "project_command ext s actor_id now_ms (ClUpdateCommunity community) = [UpdateCommunity actor_id community]"
| "project_command ext s actor_id now_ms (ClSubscribeChannel c) = [SubscribeChannel actor_id c now_ms]"
| "project_command ext s actor_id now_ms (ClUnsubscribeChannel c) = [UnsubscribeChannel actor_id c now_ms]"
| "project_command ext s actor_id now_ms (ClListCommunityMembers _ _ _) = []"
| "project_command ext s actor_id now_ms (ClListCommunityAuditLog _ _ _) = []"
| "project_command ext s actor_id now_ms (ClSetCommunitySlowMode c seconds) =
     [SetCommunitySlowMode actor_id c seconds now_ms]"
| "project_command ext s actor_id now_ms (ClModerateCommunityMember c member reason) =
     [ModerateCommunityMember actor_id c member reason now_ms]"
| "project_command ext s actor_id now_ms (ClSetCommunityMember c member) = [SetCommunityMember actor_id c member]"
| "project_command ext s actor_id now_ms (ClCreateInviteLink invite) = [CreateInviteLink actor_id invite]"
| "project_command ext s actor_id now_ms (ClRevokeInviteLink c i) = [RevokeInviteLink actor_id c i now_ms]"
| "project_command ext s actor_id now_ms (ClRequestCommunityJoin request) = [RequestCommunityJoin actor_id request]"
| "project_command ext s actor_id now_ms (ClRespondCommunityJoin c requester approved) =
     [RespondCommunityJoin actor_id c requester approved now_ms]"
| "project_command ext s actor_id now_ms (ClUpsertForumTopic topic) = [UpsertForumTopic actor_id topic]"
| "project_command ext s actor_id now_ms (ClDeleteForumTopic c topic) = [DeleteForumTopic actor_id c topic]"
| "project_command ext s actor_id now_ms (ClRegisterBot profile) = [RegisterBot actor_id profile]"
| "project_command ext s actor_id now_ms (ClInvokeBot invocation) =
     [BeginBotInvocation actor_id invocation now_ms]"
| "project_command ext s actor_id now_ms (ClFinishBotExecution i success error) =
     [FinishBotExecution actor_id i success now_ms error]"
| "project_command ext s actor_id now_ms (ClInstallMiniApp manifest) = [InstallMiniApp manifest]"
| "project_command ext s actor_id now_ms (ClGrantMiniApp grant) = [GrantMiniApp grant]"
| "project_command ext s actor_id now_ms (ClOpenMiniApp session) = [OpenMiniApp session]"
| "project_command ext s actor_id now_ms (ClMiniAppCall i request_id request) =
     [MiniAppCall i request_id request]"

end
