(* ===== verification/Service.thy ===== *)
theory Service
  imports Service_Auth
begin

text \<open>
  The messaging service of \<open>src/native/mahayana-messaging/src/service.rs\<close>: the engine, a state store,
  an optional blob store and the cursor, and \<open>MessagingService::handle\<close>, which authorizes a command
  of a client, deletes what has expired, runs the command, answers, and saves the state together
  with the journal of the answers. An operation returns the service it leaves behind, also when it
  fails: what the engine, the blob store or the cursor had changed by then stays changed.
\<close>

definition TYPING_TTL_MS :: i64 where
  "TYPING_TTL_MS = 5000"

record 's MessagingService =
  sv_engine :: MessagingState
  sv_store :: 's
  sv_blob_store :: "BlobFiles option"
  sv_cursor :: u64

definition load_service :: "'s StateStore \<Rightarrow> 's \<Rightarrow> ('s MessagingService, MessagingServiceError) result" where
  "load_service ops store =
     and_then (map_err StoreFailure (st_load ops store)) (\<lambda>snapshot.
     let (engine, cursor) = (case snapshot of
           Some snapshot \<Rightarrow> (sn_state snapshot, sn_cursor snapshot)
         | None \<Rightarrow> (MessagingState_default, 0))
     in Ok \<lparr>sv_engine = engine, sv_store = store, sv_blob_store = None, sv_cursor = cursor\<rparr>)"

definition load_with_blob_store ::
  "'s StateStore \<Rightarrow> 's \<Rightarrow> BlobFiles \<Rightarrow> ('s MessagingService, MessagingServiceError) result"
where
  "load_with_blob_store ops store blob_store =
     and_then (load_service ops store) (\<lambda>sv. Ok (sv\<lparr>sv_blob_store := Some blob_store\<rparr>))"

section \<open>Invocations of bots\<close>

definition sanitize_char :: "string \<Rightarrow> char" where
  "sanitize_char ch =
     (case ch of
        [c] \<Rightarrow> if is_ascii_alphanumeric c \<or> c = CHR ''-'' \<or> c = CHR ''_'' \<or> c = CHR '':'' then c
               else CHR ''_''
      | _ \<Rightarrow> CHR ''_'')"

definition sanitize_invocation_component :: "string \<Rightarrow> string" where
  "sanitize_invocation_component value = take 160 (map sanitize_char (utf8_chars value))"

text \<open>\<open>split_whitespace().next()\<close>\<close>

fun take_word :: "string \<Rightarrow> string" where
  "take_word (a # b # c # s) =
     (if ws1 a \<or> ws2 a b \<or> ws3 a b c then [] else a # take_word (b # c # s))"
| "take_word [a, b] = (if ws1 a \<or> ws2 a b then [] else a # take_word [b])"
| "take_word [a] = (if ws1 a then [] else [a])"
| "take_word [] = []"

definition first_word :: "string \<Rightarrow> string option" where
  "first_word s = (if trim_start s = [] then None else Some (take_word (trim_start s)))"

definition bot_command :: "string \<Rightarrow> string option" where
  "bot_command text =
     (case strip_prefix ''/'' (trim text) of
        None \<Rightarrow> None
      | Some value \<Rightarrow>
     (case first_word value of
        None \<Rightarrow> None
      | Some word \<Rightarrow>
          let name = dropWhile (\<lambda>c. c = CHR ''@'') word in if name = [] then None else Some name))"

definition bot_invocation :: "Message \<Rightarrow> FormattedText \<Rightarrow> Actor \<Rightarrow> BotInvocation" where
  "bot_invocation message text actor =
     \<lparr>bi_id = ''invoke:auto:'' @ sanitize_invocation_component (message_str (m_id message)) @ '':''
                @ sanitize_invocation_component (actor_str (a_id actor)),
      bi_bot_id = a_id actor, bi_sender_id = m_sender_id message,
      bi_conversation_id = m_conversation_id message, bi_command = bot_command (ft_text text),
      bi_text = text, bi_reply_to_message_id = map_option message_str (m_reply_to_message_id message),
      bi_metadata = fmap_of_list [(''source'', ''messaging-service''),
                                  (''messageId'', message_str (m_id message))],
      bi_created_at_ms = m_created_at_ms message\<rparr>"

definition bot_invocations_for_message :: "MessagingState \<Rightarrow> Message \<Rightarrow> BotInvocation list" where
  "bot_invocations_for_message s message =
     (case fmlookup (s_actors s) (m_sender_id message) of
        None \<Rightarrow> []
      | Some sender \<Rightarrow>
          if a_kind sender = Bot \<or> a_kind sender = Assistant \<or> a_kind sender = Service then []
          else
     (case m_content message of
        ContentText text \<Rightarrow>
          (case fmlookup (s_conversations s) (m_conversation_id message) of
             None \<Rightarrow> []
           | Some conversation \<Rightarrow>
               List.map_filter (\<lambda>participant.
                 if p_actor_id participant = m_sender_id message then None
                 else
                   (case fmlookup (s_actors s) (p_actor_id participant) of
                      None \<Rightarrow> None
                    | Some actor \<Rightarrow>
                        if a_kind actor \<noteq> Bot \<and> a_kind actor \<noteq> Assistant then None
                        else Some (bot_invocation message text actor)))
                 (c_participants conversation))
      | _ \<Rightarrow> []))"

section \<open>Answers\<close>

definition conversation_changed ::
  "MessagingState \<Rightarrow> ActorId \<Rightarrow> i64 \<Rightarrow> (Conversation \<Rightarrow> ServerEvent) \<Rightarrow> ConversationId \<Rightarrow> ServerEvent option"
where
  "conversation_changed s actor_id server_time_ms event conversation_id =
     map_option (\<lambda>conversation.
         event (project_conversation_for_actor s actor_id conversation server_time_ms))
       (fmlookup (s_conversations s) conversation_id)"

definition message_changed ::
  "MessagingState \<Rightarrow> ConversationId \<Rightarrow> MessageId \<Rightarrow> ServerEvent option"
where
  "message_changed s conversation_id message_id =
     map_option SvMessageChanged (get_message s conversation_id message_id)"

primrec server_event :: "MessagingState \<Rightarrow> ActorId \<Rightarrow> i64 \<Rightarrow> Event \<Rightarrow> ServerEvent option" where
  "server_event s me now (ActorUpserted actor) = Some (SvActorChanged actor)"
| "server_event s me now (PresenceUpdated a presence) = Some (SvPresenceChanged a presence)"
| "server_event s me now (ConversationUpserted conversation) =
     Some (SvConversationChanged (project_conversation_for_actor s me conversation now))"
| "server_event s me now (ConversationInfoUpdated c _ _) =
     conversation_changed s me now SvConversationChanged c"
| "server_event s me now (ConversationParticipantUpserted c _) =
     conversation_changed s me now (\<lambda>conversation. SvConversationParticipantChanged conversation None) c"
| "server_event s me now (ConversationParticipantRemoved c removed) =
     conversation_changed s me now
       (\<lambda>conversation. SvConversationParticipantChanged conversation (Some removed)) c"
| "server_event s me now (ConversationArchived c _) =
     conversation_changed s me now SvConversationChanged c"
| "server_event s me now (ConversationPinned c _) =
     conversation_changed s me now SvConversationChanged c"
| "server_event s me now (ConversationMarkedUnread c a marked) = Some (SvMarkedUnreadChanged c a marked)"
| "server_event s me now (DraftChanged draft) = Some (SvDraftChanged draft)"
| "server_event s me now (ConversationNotificationsUpdated c _) =
     conversation_changed s me now SvConversationChanged c"
| "server_event s me now (ConversationMessageRetentionUpdated c retention) =
     Some (SvConversationMessageRetentionChanged c (map_option mp_seconds (cr_policy retention))
       (cr_revision retention))"
| "server_event s me now (FolderUpserted folder) = Some (SvFolderChanged folder)"
| "server_event s me now (FolderDeleted i) = Some (SvFolderDeleted i)"
| "server_event s me now (MessageQueued message) = Some (SvMessageAdded message)"
| "server_event s me now (MessageAcknowledged c _ m _) = message_changed s c m"
| "server_event s me now (DeliveryStateUpdated c m _) = message_changed s c m"
| "server_event s me now (MessageEdited c m _ _) = message_changed s c m"
| "server_event s me now (MessagesDeleted c ms) = Some (SvMessagesDeleted c ms)"
| "server_event s me now (ConversationRead c a m) = Some (SvReadChanged c a m)"
| "server_event s me now (TopicReadChanged c topic a m) = Some (SvTopicReadChanged c topic a m)"
| "server_event s me now (TopicDraftChanged draft) = Some (SvTopicDraftChanged draft)"
| "server_event s me now (ReactionUpdated c m _) = message_changed s c m"
| "server_event s me now (MessagePinned c m _) = message_changed s c m"
| "server_event s me now (PollVoteChanged c m _ _) = message_changed s c m"
| "server_event s me now (InvoiceCreated invoice) = Some (SvInvoiceChanged invoice)"
| "server_event s me now (OrderUpserted order) = Some (SvOrderChanged order)"
| "server_event s me now (WalletChanged _ _) = None"
| "server_event s me now (StoryChanged story) = Some (SvStoryChanged story)"
| "server_event s me now (StoryDeleted i) = Some (SvStoryDeleted i)"
| "server_event s me now (CommunityChanged community) =
     Some (SvCommunityChanged (project_community_for_actor s me community now))"
| "server_event s me now (BotRegistryChanged _ profile execution) = Some (SvBotChanged profile execution)"
| "server_event s me now (MiniAppInstalled manifest) = Some (SvMiniAppChanged manifest)"
| "server_event s me now (MiniAppGrantUpdated _) = None"
| "server_event s me now (MiniAppOpened session) = Some (SvMiniAppOpened session)"
| "server_event s me now (MiniAppResponded i request_id response) =
     Some (SvMiniAppResult i request_id response)"

definition project_event ::
  "'s MessagingService \<Rightarrow> ActorId \<Rightarrow> Event \<Rightarrow> i64 \<Rightarrow> ServerEnvelope option"
where
  "project_event sv actor_id event server_time_ms =
     map_option (envelope (sv_cursor sv) server_time_ms)
       (server_event (sv_engine sv) actor_id server_time_ms event)"

section \<open>Saving\<close>

definition snapshot_of :: "'s MessagingService \<Rightarrow> i64 \<Rightarrow> MessagingSnapshot" where
  "snapshot_of sv now_ms = MessagingSnapshot_new (sv_engine sv) (sv_cursor sv) now_ms"

definition persist_with_events ::
  "'s StateStore \<Rightarrow> 's MessagingService \<Rightarrow> i64 \<Rightarrow> JournalEntry list \<Rightarrow>
     's MessagingService \<times> (unit, MessagingServiceError) result"
where
  "persist_with_events ops sv now_ms events =
     (case st_save_with_events ops (sv_store sv) (snapshot_of sv now_ms) events of
        (store, r) \<Rightarrow> (sv\<lparr>sv_store := store\<rparr>, map_err StoreFailure r))"

definition persist ::
  "'s StateStore \<Rightarrow> 's MessagingService \<Rightarrow> i64 \<Rightarrow>
     's MessagingService \<times> (unit, MessagingServiceError) result"
where
  "persist ops sv now_ms =
     (case st_save ops (sv_store sv) (snapshot_of sv now_ms) of
        (store, r) \<Rightarrow> (sv\<lparr>sv_store := store\<rparr>, map_err StoreFailure r))"

text \<open>The answers are journalled for their audiences and saved with the state.\<close>

definition publish ::
  "'s StateStore \<Rightarrow> 's MessagingService \<Rightarrow> ActorId \<Rightarrow> i64 \<Rightarrow> ServerEnvelope list \<Rightarrow>
     's MessagingService \<times> (ServerEnvelope list, MessagingServiceError) result"
where
  "publish ops sv actor_id server_time_ms responses =
     (case persist_with_events ops sv server_time_ms (journal_entries (sv_engine sv) actor_id responses) of
        (sv, r) \<Rightarrow> (sv, and_then r (\<lambda>_. Ok responses)))"

text \<open>The cursor counts the events of the engine and the events of the service.\<close>

definition advance_cursor :: "'s MessagingService \<Rightarrow> nat \<Rightarrow> 's MessagingService" where
  "advance_cursor sv n = sv\<lparr>sv_cursor := saturating_add_u64 (sv_cursor sv) (of_nat n)\<rparr>"

text \<open>\<open>for command in commands { events.extend(self.engine.execute(command)?); }\<close>\<close>

fun execute_all ::
  "MessagingState \<Rightarrow> Command list \<Rightarrow> MessagingState \<times> (Event list, EngineError) result"
where
  "execute_all s [] = (s, Ok [])"
| "execute_all s (c # cs) =
     (case execute s c of
        (s1, Inl e) \<Rightarrow> (s1, Err e)
      | (s1, Inr events) \<Rightarrow>
          (case execute_all s1 cs of
             (s2, Inl e) \<Rightarrow> (s2, Err e)
           | (s2, Inr rest) \<Rightarrow> (s2, Ok (events @ rest))))"

text \<open>Commands of the service itself, whose answers only the journal sees.\<close>

definition run_maintenance ::
  "'s StateStore \<Rightarrow> 's MessagingService \<Rightarrow> ActorId \<Rightarrow> i64 \<Rightarrow> Command list \<Rightarrow>
     's MessagingService \<times> (unit, MessagingServiceError) result"
where
  "run_maintenance ops sv actor_id server_time_ms commands =
     (if commands = [] then (sv, Ok ())
      else
        (case execute_all (sv_engine sv) commands of
           (engine, Inl e) \<Rightarrow> (sv\<lparr>sv_engine := engine\<rparr>, Err (EngineFailure e))
         | (engine, Inr events) \<Rightarrow>
             let sv = advance_cursor (sv\<lparr>sv_engine := engine\<rparr>) (length events);
                 responses = List.map_filter (\<lambda>event. project_event sv actor_id event server_time_ms) events
             in case publish ops sv actor_id server_time_ms responses of
                  (sv, r) \<Rightarrow> (sv, and_then r (\<lambda>_. Ok ()))))"

definition expired_ids :: "i64 \<Rightarrow> (MessageId, Message) fmap \<Rightarrow> MessageId list" where
  "expired_ids server_time_ms messages =
     map m_id (filter (\<lambda>message. \<not> m_deleted message \<and> expired_at server_time_ms message)
       (map_values messages))"

definition expired_messages :: "MessagingState \<Rightarrow> i64 \<Rightarrow> (ConversationId \<times> MessageId list) list" where
  "expired_messages s server_time_ms =
     filter (\<lambda>(c, ids). ids \<noteq> [])
       (map (\<lambda>c. (c, expired_ids server_time_ms (the (fmlookup (s_messages s) c))))
         (map_keys (s_messages s)))"

definition settle_expired_messages ::
  "'s StateStore \<Rightarrow> 's MessagingService \<Rightarrow> ActorId \<Rightarrow> i64 \<Rightarrow>
     's MessagingService \<times> (unit, MessagingServiceError) result"
where
  "settle_expired_messages ops sv initiator server_time_ms =
     run_maintenance ops sv initiator server_time_ms
       (map (\<lambda>(c, ids). DeleteMessages c ids) (expired_messages (sv_engine sv) server_time_ms))"

definition pending_deliveries :: "MessagingState \<Rightarrow> ActorId \<Rightarrow> (ConversationId \<times> MessageId) list" where
  "pending_deliveries s actor_id =
     concat (map (\<lambda>conversation.
         map (\<lambda>message. (c_id conversation, m_id message))
           (filter (\<lambda>message. m_sender_id message \<noteq> actor_id \<and> m_delivery_state message = Sent)
             (messages_of s (c_id conversation))))
       (filter (\<lambda>conversation. (c_kind conversation = Direct \<or> c_kind conversation = Secret)
                             \<and> is_participant conversation actor_id)
         (map_values (s_conversations s))))"

definition mark_direct_messages_delivered ::
  "'s StateStore \<Rightarrow> 's MessagingService \<Rightarrow> ActorId \<Rightarrow> i64 \<Rightarrow>
     's MessagingService \<times> (unit, MessagingServiceError) result"
where
  "mark_direct_messages_delivered ops sv actor_id server_time_ms =
     run_maintenance ops sv actor_id server_time_ms
       (map (\<lambda>(c, m). SetDeliveryState c m Delivered) (pending_deliveries (sv_engine sv) actor_id))"

section \<open>Events of the service\<close>

definition single_service_event ::
  "'s StateStore \<Rightarrow> 's MessagingService \<Rightarrow> ActorId \<Rightarrow> ServerEvent \<Rightarrow> i64 \<Rightarrow>
     's MessagingService \<times> (ServerEnvelope list, MessagingServiceError) result"
where
  "single_service_event ops sv actor_id event server_time_ms =
     (let sv = advance_cursor sv 1
      in publish ops sv actor_id server_time_ms [envelope (sv_cursor sv) server_time_ms event])"

text \<open>A command of the blob store; \<open>op\<close> is the operation and \<open>answer\<close> the event of its result.\<close>

definition blob_command ::
  "'s StateStore \<Rightarrow> 's MessagingService \<Rightarrow> ActorId \<Rightarrow> i64 \<Rightarrow>
     (BlobFiles \<Rightarrow> BlobFiles \<times> ('a, BlobStoreError) result) \<Rightarrow> ('a \<Rightarrow> ServerEvent) \<Rightarrow>
     's MessagingService \<times> (ServerEnvelope list, MessagingServiceError) result"
where
  "blob_command ops sv actor_id server_time_ms op answer =
     (case sv_blob_store sv of
        None \<Rightarrow> (sv, Err BlobStoreUnavailable)
      | Some files \<Rightarrow>
     (case op files of
        (files, r) \<Rightarrow>
          let sv = sv\<lparr>sv_blob_store := Some files\<rparr> in
          case r of
            Inl e \<Rightarrow> (sv, Err (BlobFailure e))
          | Inr x \<Rightarrow> single_service_event ops sv actor_id (answer x) server_time_ms))"

definition typing_event ::
  "'s StateStore \<Rightarrow> 's MessagingService \<Rightarrow> ActorId \<Rightarrow> ConversationId \<Rightarrow> string option \<Rightarrow> i64 option \<Rightarrow>
     i64 \<Rightarrow> 's MessagingService \<times> (ServerEnvelope list, MessagingServiceError) result"
where
  "typing_event ops sv actor_id conversation_id action expiry server_time_ms =
     (case fmlookup (s_conversations (sv_engine sv)) conversation_id of
        None \<Rightarrow> (sv, Err (UnauthorizedCommand ''typing conversation does not exist''))
      | Some conversation \<Rightarrow>
          if \<not> is_participant conversation actor_id
          then (sv, Err (UnauthorizedCommand ''typing requires conversation membership''))
          else single_service_event ops sv actor_id
                 (SvTypingChanged conversation_id actor_id action expiry) server_time_ms)"

definition community_members_page ::
  "'s MessagingService \<Rightarrow> ActorId \<Rightarrow> ConversationId \<Rightarrow> string option \<Rightarrow> u32 \<Rightarrow> i64 \<Rightarrow>
     (ServerEnvelope, MessagingServiceError) result"
where
  "community_members_page sv actor_id conversation_id cursor limit server_time_ms =
     and_then (authorized_community (sv_engine sv) actor_id conversation_id) (\<lambda>community.
     let (members, next_cursor) = member_page community cursor (unat limit)
     in Ok (envelope (sv_cursor sv) server_time_ms
              (SvCommunityMembersPage conversation_id members next_cursor)))"

definition community_audit_page ::
  "'s MessagingService \<Rightarrow> ActorId \<Rightarrow> ConversationId \<Rightarrow> string option \<Rightarrow> u32 \<Rightarrow> i64 \<Rightarrow>
     (ServerEnvelope, MessagingServiceError) result"
where
  "community_audit_page sv actor_id conversation_id cursor limit server_time_ms =
     and_then (authorized_community (sv_engine sv) actor_id conversation_id) (\<lambda>community.
     if \<not> is_owner_or_admin community actor_id
     then Err (UnauthorizedCommand ''community audit log requires owner/admin access'')
     else
       let (entries, next_cursor) = audit_page community cursor (unat limit)
       in Ok (envelope (sv_cursor sv) server_time_ms
                (SvCommunityAuditLogPage conversation_id entries next_cursor)))"

section \<open>Synchronization\<close>

definition live_for :: "i64 \<Rightarrow> ServerEvent \<Rightarrow> bool" where
  "live_for server_time_ms event =
     (case event of
        SvTypingChanged _ _ _ expiry \<Rightarrow>
          (case expiry of None \<Rightarrow> True | Some t \<Rightarrow> sint server_time_ms < sint t)
      | _ \<Rightarrow> True)"

definition journal_response ::
  "'s MessagingService \<Rightarrow> ActorId \<Rightarrow> EventJournalSlice \<Rightarrow> i64 \<Rightarrow> ServerEnvelope list"
where
  "journal_response sv actor_id page server_time_ms =
     map (\<lambda>entry. project_journal_envelope_for_actor (sv_engine sv) actor_id (je_envelope entry)
                    server_time_ms)
       (filter (\<lambda>entry. live_for server_time_ms (se_event (je_envelope entry)))
         (filter (\<lambda>entry. actor_id \<in> set (je_audience entry)) (js_entries page)))
     @ [sync_checkpoint_envelope (js_checkpoint_cursor page) server_time_ms]"

definition sync_response ::
  "'s StateStore \<Rightarrow> 's MessagingService \<Rightarrow> ActorId \<Rightarrow> string option \<Rightarrow> u32 \<Rightarrow> i64 \<Rightarrow>
     (ServerEnvelope list, MessagingServiceError) result"
where
  "sync_response ops sv actor_id cursor limit server_time_ms =
     (let full = [sync_envelope (sv_engine sv) (sv_cursor sv) actor_id limit server_time_ms] in
      case (case cursor of None \<Rightarrow> None | Some value \<Rightarrow> parse_u64 value) of
        None \<Rightarrow> Ok full
      | Some requested_cursor \<Rightarrow>
          if sv_cursor sv < requested_cursor then Ok full
          else
            and_then (map_err StoreFailure (st_load_event_journal_after ops (sv_store sv)
                        requested_cursor (unat (max limit 1)))) (\<lambda>found.
            case found of
              None \<Rightarrow> Ok full
            | Some page \<Rightarrow>
                if requested_cursor < js_floor_cursor page
                 \<or> (js_entries page = [] \<and> requested_cursor < js_current_cursor page)
                then Ok full
                else Ok (journal_response sv actor_id page server_time_ms)))"

section \<open>Sending again\<close>

definition same_send ::
  "Message \<Rightarrow> ActorId \<Rightarrow> MessageContent \<Rightarrow> MessageId option \<Rightarrow> MessageId option \<Rightarrow> i64 option \<Rightarrow>
     bool \<Rightarrow> bool \<Rightarrow> bool"
where
  "same_send existing actor_id content reply_to thread_root scheduled_at_ms silent protected_content \<longleftrightarrow>
     m_sender_id existing = actor_id \<and> m_content existing = content
   \<and> m_reply_to_message_id existing = reply_to \<and> m_thread_root_message_id existing = thread_root
   \<and> m_scheduled_at_ms existing = scheduled_at_ms \<and> m_silent existing = silent
   \<and> m_protected_content existing = protected_content"

definition existing_send ::
  "Externals \<Rightarrow> MessagingState \<Rightarrow> ActorId \<Rightarrow> ConversationId \<Rightarrow> ClientMessageId \<Rightarrow> Message option"
where
  "existing_send ext s actor_id conversation_id client_message_id =
     (case get_message s conversation_id (stable_message_id ext actor_id client_message_id) of
        Some message \<Rightarrow> Some message
      | None \<Rightarrow>
          get_message s conversation_id (MessageId (''local:'' @ client_message_str client_message_id)))"

definition idempotent_send_replay ::
  "Externals \<Rightarrow> 's MessagingService \<Rightarrow> ActorId \<Rightarrow> ClientCommand \<Rightarrow> i64 \<Rightarrow>
     (ServerEnvelope list option, MessagingServiceError) result"
where
  "idempotent_send_replay ext sv actor_id command server_time_ms =
     (case command of
        ClSendMessage conversation_id client_message_id content reply_to thread_root scheduled_at_ms
            silent protected_content \<Rightarrow>
          (case existing_send ext (sv_engine sv) actor_id conversation_id client_message_id of
             None \<Rightarrow> Ok None
           | Some existing \<Rightarrow>
               if m_deleted existing \<and> expired_at server_time_ms existing
               then Ok (Some [envelope (sv_cursor sv) server_time_ms
                                (SvMessagesDeleted conversation_id [m_id existing])])
               else if \<not> same_send existing actor_id content reply_to thread_root scheduled_at_ms silent
                          protected_content
               then Err (IdempotencyConflict (client_message_str client_message_id))
               else Ok (Some [envelope (sv_cursor sv) server_time_ms (SvMessageChanged existing)]))
      | _ \<Rightarrow> Ok None)"

section \<open>Handling a command\<close>

definition queued_messages :: "Event list \<Rightarrow> Message list" where
  "queued_messages events =
     List.map_filter (\<lambda>event. case event of MessageQueued message \<Rightarrow> Some message | _ \<Rightarrow> None) events"

definition engine_responses ::
  "'s MessagingService \<Rightarrow> ActorId \<Rightarrow> BotInvocation list \<Rightarrow> Event list \<Rightarrow> i64 \<Rightarrow> ServerEnvelope list"
where
  "engine_responses sv actor_id invocations events server_time_ms =
     List.map_filter (\<lambda>event. project_event sv actor_id event server_time_ms) events
     @ map (\<lambda>invocation. envelope (sv_cursor sv) server_time_ms (SvBotInvocationRequested invocation))
         invocations"

definition engine_command ::
  "Externals \<Rightarrow> 's StateStore \<Rightarrow> 's MessagingService \<Rightarrow> ActorId \<Rightarrow> ClientCommand \<Rightarrow> i64 \<Rightarrow>
     's MessagingService \<times> (ServerEnvelope list, MessagingServiceError) result"
where
  "engine_command ext ops sv actor_id command server_time_ms =
     (case idempotent_send_replay ext sv actor_id command server_time_ms of
        Inl e \<Rightarrow> (sv, Err e)
      | Inr (Some replay) \<Rightarrow> (sv, Ok replay)
      | Inr None \<Rightarrow>
     (case execute_all (sv_engine sv)
             (project_command ext (sv_engine sv) actor_id server_time_ms command) of
        (engine, Inl e) \<Rightarrow> (sv\<lparr>sv_engine := engine\<rparr>, Err (EngineFailure e))
      | (engine, Inr events) \<Rightarrow>
          let sv = sv\<lparr>sv_engine := engine\<rparr> in
          if events = [] then (sv, Ok [])
          else
            let invocations =
                  concat (map (bot_invocations_for_message (sv_engine sv)) (queued_messages events));
                sv = advance_cursor sv (length events)
            in publish ops sv actor_id server_time_ms
                 (engine_responses sv actor_id invocations events server_time_ms)))"

definition handle_command ::
  "Externals \<Rightarrow> 's StateStore \<Rightarrow> 's MessagingService \<Rightarrow> ActorId \<Rightarrow> ClientCommand \<Rightarrow> i64 \<Rightarrow>
     's MessagingService \<times> (ServerEnvelope list, MessagingServiceError) result"
where
  "handle_command ext ops sv actor_id command server_time_ms =
     (case command of
        ClBeginBlobUpload metadata \<Rightarrow>
          blob_command ops sv actor_id server_time_ms (\<lambda>files. begin_upload files metadata)
            SvBlobUploadChanged
      | ClAppendBlobChunk blob_id offset data_base64 \<Rightarrow>
          (case x_unbase64 ext data_base64 of
             Inl e \<Rightarrow> (sv, Err (InvalidBlobBase64 e))
           | Inr bytes \<Rightarrow>
               blob_command ops sv actor_id server_time_ms
                 (\<lambda>files. append_chunk files blob_id offset bytes) SvBlobUploadChanged)
      | ClFinishBlobUpload blob_id \<Rightarrow>
          blob_command ops sv actor_id server_time_ms
            (\<lambda>files. finish_upload (\<lambda>bytes. encode_hex (x_sha256 ext bytes)) files blob_id) SvBlobReady
      | ClDeleteBlob blob_id \<Rightarrow>
          blob_command ops sv actor_id server_time_ms (\<lambda>files. delete_blob files blob_id)
            (\<lambda>_. SvBlobDeleted blob_id)
      | ClWalletStatus \<Rightarrow>
          (sv, Ok [wallet_status_envelope (sv_engine sv) (sv_cursor sv) actor_id server_time_ms])
      | ClSync cursor limit \<Rightarrow>
          (case mark_direct_messages_delivered ops sv actor_id server_time_ms of
             (sv, Inl e) \<Rightarrow> (sv, Err e)
           | (sv, Inr _) \<Rightarrow> (sv, sync_response ops sv actor_id cursor limit server_time_ms))
      | ClSearch query \<Rightarrow>
          (sv, Ok [search_envelope (x_unicode ext) (sv_engine sv) (sv_cursor sv) actor_id query
                     server_time_ms])
      | ClListCommunityMembers conversation_id cursor limit \<Rightarrow>
          (sv, and_then (community_members_page sv actor_id conversation_id cursor limit server_time_ms)
                 (\<lambda>page. Ok [page]))
      | ClListCommunityAuditLog conversation_id cursor limit \<Rightarrow>
          (sv, and_then (community_audit_page sv actor_id conversation_id cursor limit server_time_ms)
                 (\<lambda>page. Ok [page]))
      | ClStartTyping conversation_id action \<Rightarrow>
          typing_event ops sv actor_id conversation_id (Some action)
            (Some (saturating_add_i64 server_time_ms TYPING_TTL_MS)) server_time_ms
      | ClStopTyping conversation_id \<Rightarrow>
          typing_event ops sv actor_id conversation_id None
            (Some (saturating_add_i64 server_time_ms TYPING_TTL_MS)) server_time_ms
      | _ \<Rightarrow> engine_command ext ops sv actor_id command server_time_ms)"

definition handle ::
  "Externals \<Rightarrow> 's StateStore \<Rightarrow> 's MessagingService \<Rightarrow> ClientEnvelope \<Rightarrow> i64 \<Rightarrow>
     's MessagingService \<times> (ServerEnvelope list, MessagingServiceError) result"
where
  "handle ext ops sv env server_time_ms =
     (if ce_protocol_version env \<noteq> FABUSHI_MESSAGING_PROTOCOL_VERSION
      then (sv, Err (ProtocolVersion FABUSHI_MESSAGING_PROTOCOL_VERSION (ce_protocol_version env)))
      else
        let actor_id = rc_actor_id (ce_context env); command = ce_command env in
        case validate_command_authorization (sv_engine sv) actor_id command of
          Inl e \<Rightarrow> (sv, Err e)
        | Inr _ \<Rightarrow>
       (case settle_expired_messages ops sv actor_id server_time_ms of
          (sv, Inl e) \<Rightarrow> (sv, Err e)
        | (sv, Inr _) \<Rightarrow> handle_command ext ops sv actor_id command server_time_ms))"

section \<open>Settlements\<close>

definition wallet_entry :: "Event \<Rightarrow> LedgerEntry option" where
  "wallet_entry event = (case event of WalletChanged _ entry \<Rightarrow> Some entry | _ \<Rightarrow> None)"

definition credit_wallet_from_settlement ::
  "'s StateStore \<Rightarrow> 's MessagingService \<Rightarrow> string \<Rightarrow> ActorId \<Rightarrow> Money \<Rightarrow> string option \<Rightarrow> i64 \<Rightarrow>
     's MessagingService \<times> (LedgerEntry, MessagingServiceError) result"
where
  "credit_wallet_from_settlement ops sv request_id owner_id amount reference server_time_ms =
     (case execute (sv_engine sv)
             (CreditWalletSettlement request_id owner_id amount reference server_time_ms) of
        (engine, Inl e) \<Rightarrow> (sv\<lparr>sv_engine := engine\<rparr>, Err (EngineFailure e))
      | (engine, Inr events) \<Rightarrow>
          let sv = sv\<lparr>sv_engine := engine\<rparr> in
          case List.map_filter wallet_entry events of
            [] \<Rightarrow> (sv, Err (Invariant ''wallet settlement produced no ledger entry''))
          | entry # _ \<Rightarrow>
              (case persist ops (advance_cursor sv (length events)) server_time_ms of
                 (sv, r) \<Rightarrow> (sv, and_then r (\<lambda>_. Ok entry))))"

definition apply_signed_settlement ::
  "(string \<Rightarrow> string \<Rightarrow> string) \<Rightarrow> (string \<Rightarrow> string option) \<Rightarrow>
     (string \<Rightarrow> (SettlementEvent, string) result) \<Rightarrow> 's StateStore \<Rightarrow> 's MessagingService \<Rightarrow>
     SettlementVerifier \<Rightarrow> SignedSettlement \<Rightarrow> i64 \<Rightarrow>
     's MessagingService \<times> (LedgerEntry, MessagingServiceError) result"
where
  "apply_signed_settlement hmac unbase64 parse ops sv verifier webhook server_time_ms =
     (case settlement_verify hmac unbase64 parse verifier webhook server_time_ms of
        Inl e \<Rightarrow> (sv, Err (SettlementFailure e))
      | Inr event \<Rightarrow>
          credit_wallet_from_settlement ops sv (idempotency_key event) (sl_actor_id event)
            (sl_amount event) (Some (sl_provider_reference event)) server_time_ms)"

end
