(* ===== verification/Store_Journal.thy ===== *)
theory Store_Journal
  imports Store
begin

text \<open>
  What the stores of \<open>src/native/mahayana-messaging/src/store.rs\<close> promise. A page of the journal
  holds every entry up to its checkpoint and never splits the entries of one cursor, so a client
  that goes on from checkpoint to checkpoint reads every entry once. The store in memory keeps a
  bounded journal; it implements the log that is never cut for every cursor from its floor on.
\<close>

section \<open>Cursors\<close>

lemma parse_show_u64 [simp]: "parse_u64 (show_u64 x) = Some x"
proof -
  let ?s = "show_nat (unat x)"
  have "hd ?s \<noteq> CHR ''+''"
    using show_nat_digits [of "unat x"] by (cases ?s) (auto simp: is_ascii_digit_def less_eq_char_def)
  then have "(case ?s of c # cs \<Rightarrow> if c = CHR ''+'' then cs else ?s | [] \<Rightarrow> []) = ?s"
    by (cases ?s) auto
  then show ?thesis
    using show_nat_digits [of "unat x"] unat_u64_less [of x]
    by (simp add: parse_u64_def show_u64_def parse_usize_def Let_def read_show_nat)
qed

section \<open>Journals\<close>

definition entry_cursor :: "JournalEntry \<Rightarrow> u64" where
  "entry_cursor entry = (case journal_cursor entry of Inl _ \<Rightarrow> 0 | Inr cursor \<Rightarrow> cursor)"

definition has_cursor :: "JournalEntry \<Rightarrow> bool" where
  "has_cursor entry \<longleftrightarrow> journal_cursor entry = Ok (entry_cursor entry)"

definition ordered_journal :: "JournalEntry list \<Rightarrow> bool" where
  "ordered_journal entries \<longleftrightarrow> list_all has_cursor entries \<and> sorted (map entry_cursor entries)"

definition after_cursor :: "u64 \<Rightarrow> JournalEntry list \<Rightarrow> JournalEntry list" where
  "after_cursor cursor entries = filter (\<lambda>entry. cursor < entry_cursor entry) entries"

lemma after_cursor_append [simp]: "after_cursor r (xs @ ys) = after_cursor r xs @ after_cursor r ys"
  by (simp add: after_cursor_def)

lemma set_after_cursor [simp]: "e \<in> set (after_cursor r xs) \<longleftrightarrow> e \<in> set xs \<and> r < entry_cursor e"
  by (auto simp: after_cursor_def)

lemma after_cursor_mono: "q \<le> r \<Longrightarrow> after_cursor r (after_cursor q xs) = after_cursor r xs"
  by (auto simp: after_cursor_def intro!: filter_cong)

lemma after_cursor_Nil_iff: "after_cursor r xs = [] \<longleftrightarrow> (\<forall>e \<in> set xs. entry_cursor e \<le> r)"
  by (auto simp: after_cursor_def filter_empty_conv not_less)

lemma ordered_journal_Cons:
  "ordered_journal (e # es) \<longleftrightarrow>
     has_cursor e \<and> ordered_journal es \<and> (\<forall>x \<in> set es. entry_cursor e \<le> entry_cursor x)"
  by (auto simp: ordered_journal_def)

lemma ordered_journal_append:
  "ordered_journal (xs @ ys) \<longleftrightarrow>
     ordered_journal xs \<and> ordered_journal ys \<and> (\<forall>x \<in> set xs. \<forall>y \<in> set ys. entry_cursor x \<le> entry_cursor y)"
  by (auto simp: ordered_journal_def sorted_append)

lemma ordered_journal_after: "ordered_journal xs \<Longrightarrow> ordered_journal (after_cursor r xs)"
  by (induction xs) (auto simp: ordered_journal_Cons after_cursor_def) 

lemma has_cursor_iff: "has_cursor e \<longleftrightarrow> (\<exists>c. journal_cursor e = Ok c)"
  by (auto simp: has_cursor_def entry_cursor_def split: sum.splits)

section \<open>Pages\<close>

text \<open>The state of the loop: nothing selected yet, or a last group that the rest may still extend.\<close>

definition loop_ok :: "u64 \<Rightarrow> JournalEntry list \<Rightarrow> JournalEntry list \<Rightarrow> nat \<Rightarrow> u64 option \<Rightarrow> bool" where
  "loop_ok r es selected groups last_cursor \<longleftrightarrow>
     (case last_cursor of
        None \<Rightarrow> groups = 0 \<and> selected = []
      | Some l \<Rightarrow> r < l \<and> selected \<noteq> [] \<and> (\<forall>e \<in> set es. l \<le> entry_cursor e) \<and> (\<forall>e \<in> set selected. entry_cursor e \<le> l))"

lemma slice_loop_spec:
  assumes "ordered_journal es" "loop_ok r es selected groups last_cursor" "1 \<le> limit"
  shows "\<exists>pre post lc. slice_loop r limit es selected groups last_cursor
        = Ok (selected @ pre, lc, post \<noteq> [])
      \<and> after_cursor r es = pre @ post
      \<and> (post \<noteq> [] \<longrightarrow> selected @ pre \<noteq> [] \<and> (\<exists>l. lc = Some l \<and> r < l \<and> (\<forall>e \<in> set (selected @ pre). entry_cursor e \<le> l)
            \<and> (\<forall>e \<in> set post. l < entry_cursor e)))"
  using assms
proof (induction es arbitrary: selected groups last_cursor)
  case Nil
  then show ?case by (auto simp: after_cursor_def)
next
  case (Cons e es)
  let ?c = "entry_cursor e"
  have c: "journal_cursor e = Ok ?c" and ok: "ordered_journal es" and le: "\<forall>x \<in> set es. ?c \<le> entry_cursor x"
    using Cons.prems(1) by (auto simp: ordered_journal_Cons has_cursor_def)
  consider (skip) "?c \<le> r" | (more) "r < ?c" "last_cursor = Some ?c"
    | (group) "r < ?c" "last_cursor \<noteq> Some ?c" "groups < limit"
    | (full) "r < ?c" "last_cursor \<noteq> Some ?c" "limit \<le> groups"
    by (meson not_le)
  then show ?case
  proof cases
    case skip
    have "loop_ok r es selected groups last_cursor"
      using Cons.prems(2) by (auto simp: loop_ok_def split: option.splits)
    moreover have "after_cursor r (e # es) = after_cursor r es"
      using skip by (auto simp: after_cursor_def)
    ultimately show ?thesis
      using Cons.IH [OF ok _ Cons.prems(3)] skip c by simp
  next
    case more
    have "loop_ok r es (selected @ [e]) groups last_cursor"
      using Cons.prems(2) more by (auto simp: loop_ok_def)
    from Cons.IH [OF ok this Cons.prems(3)] obtain pre post lc where
      "slice_loop r limit es (selected @ [e]) groups last_cursor
         = Ok ((selected @ [e]) @ pre, lc, post \<noteq> [])" "after_cursor r es = pre @ post"
      "post \<noteq> [] \<longrightarrow> (\<exists>l. lc = Some l \<and> r < l \<and> (\<forall>x \<in> set ((selected @ [e]) @ pre). entry_cursor x \<le> l)
         \<and> (\<forall>x \<in> set post. l < entry_cursor x))"
      by blast
    moreover have "\<not> ?c \<le> r" using more by simp
    ultimately show ?thesis
      using more c by - (rule exI [of _ "e # pre"], rule exI [of _ post], rule exI [of _ lc],
        simp add: after_cursor_def)
  next
    case group
    have "loop_ok r es (selected @ [e]) (groups + 1) (Some ?c)"
      using Cons.prems(2) group le by (auto simp: loop_ok_def split: option.splits dest: order_trans)
    from Cons.IH [OF ok this Cons.prems(3)] obtain pre post lc where
      "slice_loop r limit es (selected @ [e]) (groups + 1) (Some ?c)
         = Ok ((selected @ [e]) @ pre, lc, post \<noteq> [])" "after_cursor r es = pre @ post"
      "post \<noteq> [] \<longrightarrow> (\<exists>l. lc = Some l \<and> r < l \<and> (\<forall>x \<in> set ((selected @ [e]) @ pre). entry_cursor x \<le> l)
         \<and> (\<forall>x \<in> set post. l < entry_cursor x))"
      by blast
    moreover have "\<not> ?c \<le> r" using group by simp
    ultimately show ?thesis
      using group c by - (rule exI [of _ "e # pre"], rule exI [of _ post], rule exI [of _ lc],
        simp add: after_cursor_def)
  next
    case full
    then obtain l where l: "last_cursor = Some l" "l \<noteq> ?c"
      using Cons.prems(2,3) by (cases last_cursor) (auto simp: loop_ok_def)
    with Cons.prems(2) have lt: "r < l" "l < ?c" "\<forall>x \<in> set selected. entry_cursor x \<le> l"
      by (auto simp: loop_ok_def)
    from lt(2) le have "\<forall>x \<in> set es. l < entry_cursor x" by (auto dest: order_less_le_trans)
    moreover have "\<not> ?c \<le> r" "selected \<noteq> []"
      using full l Cons.prems(2) by (auto simp: loop_ok_def)
    ultimately show ?thesis
      using full c l lt
      by - (rule exI [of _ "[]"], rule exI [of _ "after_cursor r (e # es)"],
        rule exI [of _ last_cursor], auto simp: after_cursor_def)
  qed
qed

lemma slice_journal_spec:
  assumes "ordered_journal es" "\<forall>e \<in> set es. entry_cursor e \<le> current"
  shows "\<exists>page. slice_journal es fl current r limit = Ok page
    \<and> after_cursor r es = js_entries page @ after_cursor (max r (js_checkpoint_cursor page)) es
    \<and> (js_has_more page \<longrightarrow> r < js_checkpoint_cursor page \<and> js_entries page \<noteq> [])
    \<and> (js_has_more page \<longleftrightarrow> js_entries page \<noteq> after_cursor r es)
    \<and> js_floor_cursor page = fl \<and> js_current_cursor page = current
    \<and> (js_entries page \<noteq> [] \<or> current \<le> r \<longrightarrow> js_checkpoint_cursor page \<le> max r current)"
proof -
  have "loop_ok r es [] 0 None" by (simp add: loop_ok_def)
  from slice_loop_spec [OF assms(1) this, of "max 1 limit"] obtain pre post lc where
    loop: "slice_loop r (max 1 limit) es [] 0 None = Ok (pre, lc, post \<noteq> [])"
    and split: "after_cursor r es = pre @ post"
    and last_group: "post \<noteq> [] \<longrightarrow> pre \<noteq> [] \<and> (\<exists>l. lc = Some l \<and> r < l \<and> (\<forall>e \<in> set pre. entry_cursor e \<le> l)
            \<and> (\<forall>e \<in> set post. l < entry_cursor e))"
    by auto
  show ?thesis
  proof (cases "post = []")
    case True
    define checkpoint where "checkpoint = (if pre = [] \<and> r < current then r else current)"
    have "after_cursor (max r checkpoint) es = []"
      using assms(2) split True by (auto simp: after_cursor_Nil_iff checkpoint_def le_max_iff_disj)
    with True split loop show ?thesis
      by (simp add: slice_journal_def Let_def checkpoint_def [symmetric])
        (auto simp: checkpoint_def)
  next
    case False
    then obtain l where l: "lc = Some l" "r < l" "\<forall>e \<in> set pre. entry_cursor e \<le> l"
      "\<forall>e \<in> set post. l < entry_cursor e"
      using last_group by blast
    have "pre \<noteq> []" using False last_group by blast
    have "after_cursor l (pre @ post) = post"
      using l(3,4) by (auto simp: after_cursor_def filter_id_conv filter_empty_conv not_less)
    then have rest: "after_cursor l es = post"
      using after_cursor_mono [of r l es] l(2) split by simp
    obtain e where "e \<in> set post" using False by (cases post) auto
    then have "e \<in> set es" "l < entry_cursor e"
      using l(4) split by (metis Un_iff set_after_cursor set_append, blast)
    then have "l \<le> current" using assms(2) by (auto dest: order_less_le_trans)
    with False split loop l rest \<open>pre \<noteq> []\<close> show ?thesis
      by (auto simp: slice_journal_def Let_def max_absorb2 less_imp_le)
  qed
qed

text \<open>A client that goes on from checkpoint to checkpoint; \<open>n\<close> bounds the pages it reads.\<close>

fun catch_up ::
  "nat \<Rightarrow> JournalEntry list \<Rightarrow> u64 \<Rightarrow> u64 \<Rightarrow> nat \<Rightarrow> u64 \<Rightarrow> JournalEntry list option"
where
  "catch_up 0 entries fl current limit requested = None"
| "catch_up (Suc n) entries fl current limit requested =
     (case slice_journal entries fl current requested limit of
        Inl _ \<Rightarrow> None
      | Inr page \<Rightarrow>
          if js_has_more page
          then map_option (\<lambda>later. js_entries page @ later)
                 (catch_up n entries fl current limit (js_checkpoint_cursor page))
          else Some (js_entries page))"

text \<open>
  C6: a client always catches up. On a journal in the order of its cursors, a client that asks again from
  every checkpoint it is given, whatever the size of a page, reads in finitely many pages, at most
  one more than there are entries, exactly the entries after the cursor it started from, each once
  and in order.
\<close>

theorem catch_up_complete:
  assumes "ordered_journal es" "\<forall>e \<in> set es. entry_cursor e \<le> current"
    and "length (after_cursor r es) < n"
  shows "catch_up n es fl current limit r = Some (after_cursor r es)"
  using assms(3)
proof (induction n arbitrary: r)
  case (Suc n)
  obtain page where page: "slice_journal es fl current r limit = Ok page"
    and split: "after_cursor r es = js_entries page @ after_cursor (max r (js_checkpoint_cursor page)) es"
    and more: "js_has_more page \<longrightarrow> r < js_checkpoint_cursor page \<and> js_entries page \<noteq> []"
    and all: "js_has_more page \<longleftrightarrow> js_entries page \<noteq> after_cursor r es"
    using slice_journal_spec [OF assms(1,2)] by metis
  show ?case
  proof (cases "js_has_more page")
    case True
    with more have m: "max r (js_checkpoint_cursor page) = js_checkpoint_cursor page" by simp
    from more True split m Suc.prems have "length (after_cursor (js_checkpoint_cursor page) es) < n"
      by (cases "js_entries page") auto
    from Suc.IH [OF this] True page split m show ?thesis by simp
  qed (use page all in simp)
qed simp

section \<open>The store in memory\<close>

text \<open>
  The log a store would keep if it were never cut: the snapshot and all entries ever saved. It is
  the specification of the store; \<open>log_ok\<close> says that cursors only grow.
\<close>

record EventLog =
  lg_snapshot :: "MessagingSnapshot option"
  lg_history :: "JournalEntry list"

definition log_cursor :: "MessagingSnapshot option \<Rightarrow> u64" where
  "log_cursor snapshot = (case snapshot of None \<Rightarrow> 0 | Some s \<Rightarrow> sn_cursor s)"

definition log_ok :: "EventLog \<Rightarrow> bool" where
  "log_ok lg \<longleftrightarrow>
     ordered_journal (lg_history lg) \<and> (\<forall>e \<in> set (lg_history lg). entry_cursor e \<le> log_cursor (lg_snapshot lg))"

text \<open>A save of the service: entries with the cursor of the snapshot, which does not fall behind.\<close>

definition next_save :: "MessagingSnapshot option \<Rightarrow> MessagingSnapshot \<Rightarrow> JournalEntry list \<Rightarrow> bool" where
  "next_save old snapshot entries \<longleftrightarrow>
     sn_schema_version snapshot = MESSAGING_SNAPSHOT_SCHEMA_VERSION
   \<and> log_cursor old \<le> sn_cursor snapshot
   \<and> (\<forall>e \<in> set entries. journal_cursor e = Ok (sn_cursor snapshot))"

definition log_append :: "EventLog \<Rightarrow> MessagingSnapshot \<Rightarrow> JournalEntry list \<Rightarrow> EventLog" where
  "log_append lg snapshot entries =
     \<lparr>lg_snapshot = Some snapshot, lg_history = lg_history lg @ entries\<rparr>"

text \<open>The store keeps every entry after its floor, and no more than its limit.\<close>

definition implements_log :: "EventLog \<Rightarrow> MemoryStateStore \<Rightarrow> bool" where
  "implements_log lg m \<longleftrightarrow>
     log_ok lg \<and> mem_snapshot m = lg_snapshot lg
   \<and> ordered_journal (mem_journal m)
   \<and> (\<forall>e \<in> set (mem_journal m). mem_journal_floor_cursor m \<le> entry_cursor e
        \<and> entry_cursor e \<le> log_cursor (mem_snapshot m))
   \<and> mem_journal_floor_cursor m \<le> log_cursor (mem_snapshot m)
   \<and> after_cursor (mem_journal_floor_cursor m) (mem_journal m)
       = after_cursor (mem_journal_floor_cursor m) (lg_history lg)
   \<and> length (mem_journal m) \<le> MESSAGING_EVENT_JOURNAL_LIMIT"

lemma entries_ordered:
  assumes "\<forall>e \<in> set entries. journal_cursor e = Ok c"
  shows "ordered_journal entries" "e \<in> set entries \<Longrightarrow> entry_cursor e = c"
proof -
  have eq: "\<forall>e \<in> set entries. entry_cursor e = c"
    using assms by (auto simp: entry_cursor_def)
  then have "map entry_cursor entries = replicate (length entries) c"
    by (intro nth_equalityI) auto
  then show "ordered_journal entries"
    using assms eq by (auto simp: ordered_journal_def list_all_iff has_cursor_def)
  show "e \<in> set entries \<Longrightarrow> entry_cursor e = c"
    using eq by blast
qed

lemma log_append_ok:
  assumes "log_ok lg" "next_save (lg_snapshot lg) snapshot entries"
  shows "log_ok (log_append lg snapshot entries)"
  using assms entries_ordered [of entries "sn_cursor snapshot"]
  by (auto simp: log_ok_def next_save_def log_append_def log_cursor_def ordered_journal_append
      dest: order_trans)

text \<open>Entries are in order, so what pruning drops is exactly what the new floor covers.\<close>

lemma dropWhile_after_cursor:
  "ordered_journal es \<Longrightarrow>
     dropWhile (\<lambda>e. case journal_cursor e of Inl _ \<Rightarrow> False | Inr c \<Rightarrow> c \<le> r) es = after_cursor r es"
proof (induction es)
  case (Cons e es)
  have c: "journal_cursor e = Ok (entry_cursor e)" and ok: "ordered_journal es"
    and le: "\<forall>x \<in> set es. entry_cursor e \<le> entry_cursor x"
    using Cons.prems by (auto simp: ordered_journal_Cons has_cursor_def)
  show ?case
  proof (cases "entry_cursor e \<le> r")
    case True
    with Cons.IH [OF ok] c show ?thesis by (auto simp: after_cursor_def)
  next
    case False
    with le have "\<forall>x \<in> set (e # es). r < entry_cursor x" by auto
    with False c show ?thesis by (auto simp: after_cursor_def filter_id_conv)
  qed
qed (simp add: after_cursor_def)

lemma prune_journal_spec:
  assumes "ordered_journal (mem_journal m)"
  shows "\<exists>m'. prune_journal m = (m', Ok ()) \<and> mem_snapshot m' = mem_snapshot m
    \<and> length (mem_journal m') \<le> MESSAGING_EVENT_JOURNAL_LIMIT
    \<and> (m' = m \<or> (\<exists>e \<in> set (mem_journal m). mem_journal_floor_cursor m' = entry_cursor e
          \<and> mem_journal m' = after_cursor (entry_cursor e) (mem_journal m)))"
proof (cases "length (mem_journal m) > MESSAGING_EVENT_JOURNAL_LIMIT")
  case True
  let ?es = "mem_journal m"
  define k where "k = length ?es - MESSAGING_EVENT_JOURNAL_LIMIT"
  have k: "0 < k" "k \<le> length ?es" using True by (auto simp: k_def)
  define e where "e = ?es ! (k - 1)"
  have e: "e \<in> set ?es" using k by (simp add: e_def)
  with assms have c: "journal_cursor e = Ok (entry_cursor e)"
    by (auto simp: ordered_journal_def list_all_iff has_cursor_def)
  have "take k ?es = take (k - 1) ?es @ [e]"
    using k by (simp add: e_def take_Suc_conv_app_nth [symmetric])
  moreover have "ordered_journal (take k ?es @ drop k ?es)" using assms by simp
  ultimately have "\<forall>x \<in> set (take k ?es). entry_cursor x \<le> entry_cursor e"
    by (auto simp: ordered_journal_append)
  then have "after_cursor (entry_cursor e) (take k ?es) = []"
    by (simp add: after_cursor_Nil_iff)
  then have "after_cursor (entry_cursor e) ?es = after_cursor (entry_cursor e) (drop k ?es)"
    by (metis after_cursor_append append_Nil append_take_drop_id)
  then have "length (after_cursor (entry_cursor e) ?es) \<le> length (drop k ?es)"
    by (simp only: after_cursor_def length_filter_le)
  then have "length (after_cursor (entry_cursor e) ?es) \<le> MESSAGING_EVENT_JOURNAL_LIMIT"
    using True by (simp add: k_def)
  then show ?thesis
    using True c e unfolding prune_journal_def Let_def k_def [symmetric] e_def [symmetric]
    by (auto simp: dropWhile_after_cursor [OF assms])
qed (auto simp: prune_journal_def)

lemma memory_save_with_events_Ok:
  assumes "implements_log lg m" "next_save (mem_snapshot m) snapshot entries"
  shows "\<exists>m'. memory_save_with_events m snapshot entries = (m', Ok ())
    \<and> implements_log (log_append lg snapshot entries) m'"
proof -
  note [simp] = log_append_def log_cursor_def
  note inv = assms(1) [unfolded implements_log_def] and nxt = assms(2) [unfolded next_save_def]
  note new = entries_ordered [of entries "sn_cursor snapshot"]
  let ?f = "mem_journal_floor_cursor m"
  let ?m = "m\<lparr>mem_snapshot := Some snapshot, mem_journal := mem_journal m @ entries\<rparr>"
  have ok: "ordered_journal (mem_journal ?m)"
    using inv nxt new by (auto simp: ordered_journal_append dest: order_trans)
  have bounds: "?f \<le> entry_cursor e \<and> entry_cursor e \<le> sn_cursor snapshot" if "e \<in> set (mem_journal ?m)" for e
    using inv nxt new(2) that by (auto dest: order_trans)
  have same: "after_cursor ?f (mem_journal ?m) = after_cursor ?f (lg_history lg @ entries)"
    using inv by simp
  have log: "log_ok (log_append lg snapshot entries)"
    using inv assms(2) by (intro log_append_ok) simp_all
  obtain m' where m': "prune_journal ?m = (m', Ok ())" "mem_snapshot m' = Some snapshot"
    "length (mem_journal m') \<le> MESSAGING_EVENT_JOURNAL_LIMIT"
    "m' = ?m \<or> (\<exists>e \<in> set (mem_journal ?m). mem_journal_floor_cursor m' = entry_cursor e
          \<and> mem_journal m' = after_cursor (entry_cursor e) (mem_journal ?m))"
    using prune_journal_spec [OF ok] by auto
  have "implements_log (log_append lg snapshot entries) m'"
    using m'(4)
  proof
    assume "m' = ?m"
    with m'(3) ok bounds same log inv nxt show ?thesis
      by (auto simp: implements_log_def dest: order_trans)
  next
    assume "\<exists>e \<in> set (mem_journal ?m). mem_journal_floor_cursor m' = entry_cursor e
          \<and> mem_journal m' = after_cursor (entry_cursor e) (mem_journal ?m)"
    then obtain e where e: "e \<in> set (mem_journal ?m)" "mem_journal_floor_cursor m' = entry_cursor e"
      "mem_journal m' = after_cursor (entry_cursor e) (mem_journal ?m)" by blast
    have "after_cursor (entry_cursor e) (mem_journal ?m)
        = after_cursor (entry_cursor e) (lg_history lg @ entries)"
      using after_cursor_mono [of ?f "entry_cursor e"] bounds [OF e(1)] same by metis
    then have "after_cursor (entry_cursor e) (mem_journal m')
        = after_cursor (entry_cursor e) (lg_history lg @ entries)"
      by (simp add: e(3) after_cursor_mono del: after_cursor_append)
    moreover have "ordered_journal (mem_journal m')"
      unfolding e(3) by (rule ordered_journal_after [OF ok])
    moreover have "x \<in> set (mem_journal m') \<Longrightarrow>
        entry_cursor e \<le> entry_cursor x \<and> entry_cursor x \<le> sn_cursor snapshot" for x
      using bounds [of x] by (simp add: e(3) less_imp_le del: after_cursor_append)
    ultimately show ?thesis
      using m'(2,3) log e(2) bounds [OF e(1)]
      by (simp add: implements_log_def del: after_cursor_append)
  qed
  moreover have "try_all (\<lambda>event. and_then (journal_cursor event) (\<lambda>_. Ok ())) entries = Ok ()"
    using nxt by (simp add: try_all_Inr_iff)
  then have "memory_save_with_events m snapshot entries = prune_journal ?m"
    using nxt by (simp add: memory_save_with_events_def validate_snapshot_schema_def)
  ultimately show ?thesis
    using m'(1) by auto
qed

lemma memory_save_Ok:
  assumes "implements_log lg m" "next_save (mem_snapshot m) snapshot []"
  shows "\<exists>m'. memory_save m snapshot = (m', Ok ()) \<and> implements_log (log_append lg snapshot []) m'"
proof -
  note inv = assms(1) [unfolded implements_log_def] and nxt = assms(2) [unfolded next_save_def]
  have log: "log_ok (log_append lg snapshot [])"
    using inv assms(2) by (intro log_append_ok) simp_all
  then have "after_cursor (sn_cursor snapshot) (lg_history lg) = []"
    by (simp add: log_ok_def log_append_def log_cursor_def after_cursor_Nil_iff)
  with inv nxt log show ?thesis
    by (auto simp: memory_save_def validate_snapshot_schema_def implements_log_def log_append_def
        log_cursor_def after_cursor_def [of _ "[]"] dest: order_trans)
qed

lemma slice_loop_after:
  "ordered_journal es \<Longrightarrow>
     slice_loop r limit es selected groups lc = slice_loop r limit (after_cursor r es) selected groups lc"
proof (induction es arbitrary: selected groups lc)
  case (Cons e es)
  then have c: "journal_cursor e = Ok (entry_cursor e)" and ok: "ordered_journal es"
    by (auto simp: ordered_journal_Cons has_cursor_def)
  show ?case
  proof (cases "entry_cursor e \<le> r")
    case True
    then have "after_cursor r (e # es) = after_cursor r es" by (auto simp: after_cursor_def)
    with True c Cons.IH [OF ok] show ?thesis by simp
  next
    case False
    then have "after_cursor r (e # es) = e # after_cursor r es" by (auto simp: after_cursor_def)
    with False c Cons.IH [OF ok] show ?thesis by simp
  qed
qed (simp add: after_cursor_def)

lemma slice_journal_after:
  assumes "ordered_journal xs" "ordered_journal ys" "after_cursor r xs = after_cursor r ys"
  shows "slice_journal xs fl current r limit = slice_journal ys fl current r limit"
  using slice_loop_after [OF assms(1)] slice_loop_after [OF assms(2)] assms(3)
  by (simp add: slice_journal_def)

text \<open>
  C4: the store in memory implements the log that is never cut. A store that represents a log saves
  the next snapshot with its entries without an error and then represents the longer log, however
  many entries it has to drop to keep its bound; and for every cursor that is not below its floor it
  returns the very page of the journal that the whole log would give.
\<close>

theorem memory_store_refines_log:
  assumes "implements_log lg m"
  shows "(next_save (mem_snapshot m) snapshot entries \<longrightarrow>
      (\<exists>m'. memory_save_with_events m snapshot entries = (m', Ok ())
         \<and> implements_log (log_append lg snapshot entries) m'
         \<and> length (mem_journal m') \<le> MESSAGING_EVENT_JOURNAL_LIMIT))
    \<and> (mem_journal_floor_cursor m \<le> r \<longrightarrow>
      memory_load_event_journal_after m r limit =
        and_then (slice_journal (lg_history lg) (mem_journal_floor_cursor m)
          (log_cursor (lg_snapshot lg)) r limit) (\<lambda>page. Ok (Some page)))"
proof (intro conjI impI)
  assume "next_save (mem_snapshot m) snapshot entries"
  from memory_save_with_events_Ok [OF assms this]
  show "\<exists>m'. memory_save_with_events m snapshot entries = (m', Ok ())
      \<and> implements_log (log_append lg snapshot entries) m'
      \<and> length (mem_journal m') \<le> MESSAGING_EVENT_JOURNAL_LIMIT"
    by (auto simp: implements_log_def)
next
  assume r: "mem_journal_floor_cursor m \<le> r"
  have "after_cursor r (mem_journal m) = after_cursor r (lg_history lg)"
    using after_cursor_mono [OF r] assms by (metis implements_log_def)
  then show "memory_load_event_journal_after m r limit =
      and_then (slice_journal (lg_history lg) (mem_journal_floor_cursor m)
        (log_cursor (lg_snapshot lg)) r limit) (\<lambda>page. Ok (Some page))"
    using assms slice_journal_after [of "mem_journal m" "lg_history lg" r]
    by (simp add: memory_load_event_journal_after_def implements_log_def log_ok_def log_cursor_def)
qed

definition demo_snapshot :: MessagingSnapshot where
  "demo_snapshot = MessagingSnapshot_new MessagingState_default 7 0"

definition demo_entry :: JournalEntry where
  "demo_entry = \<lparr>je_envelope = \<lparr>se_protocol_version = 2, se_cursor = Some ''7'', se_server_time_ms = 0,
     se_event = SvFolderDeleted ''f''\<rparr>, je_audience = [ActorId ''a'']\<rparr>"

lemma demo_entry_cursor [simp]: "journal_cursor demo_entry = Ok 7"
  by (simp add: journal_cursor_def demo_entry_def parse_u64_def parse_usize_def is_ascii_digit_def
      less_eq_char_def)

lemma empty_log: "implements_log \<lparr>lg_snapshot = None, lg_history = []\<rparr> MemoryStateStore_default"
  by (simp add: implements_log_def log_ok_def MemoryStateStore_default_def ordered_journal_def
      log_cursor_def)

lemma demo_save: "next_save (mem_snapshot MemoryStateStore_default) demo_snapshot [demo_entry]"
  by (simp add: next_save_def demo_snapshot_def MessagingSnapshot_new_def log_cursor_def
      MemoryStateStore_default_def)

theorem memory_store_refines_log_witness:
  "\<exists>m'. memory_save_with_events MemoryStateStore_default demo_snapshot [demo_entry] = (m', Ok ())
     \<and> implements_log (log_append \<lparr>lg_snapshot = None, lg_history = []\<rparr> demo_snapshot [demo_entry]) m'
     \<and> length (mem_journal m') \<le> MESSAGING_EVENT_JOURNAL_LIMIT"
  using memory_store_refines_log [OF empty_log, of demo_snapshot "[demo_entry]" 0 1] demo_save by blast

theorem catch_up_complete_witness:
  "catch_up 3 [demo_entry, demo_entry] 0 7 1 5 = Some [demo_entry, demo_entry]"
proof -
  have c: "entry_cursor demo_entry = 7" by (simp add: entry_cursor_def)
  then have "after_cursor 5 [demo_entry, demo_entry] = [demo_entry, demo_entry]"
    by (simp add: after_cursor_def)
  with c show ?thesis
    using catch_up_complete [of "[demo_entry, demo_entry]" 7 5 3 0 1]
    by (simp add: ordered_journal_def has_cursor_def)
qed

section \<open>What the service relies on\<close>

text \<open>
  The contract of a store that works: it loads, and it takes every next snapshot of the service,
  which it then loads.
\<close>

locale state_store =
  fixes ops :: "'s StateStore"
    and store_inv :: "'s \<Rightarrow> bool"
  assumes loads: "store_inv st \<Longrightarrow> \<exists>snapshot. st_load ops st = Ok snapshot"
    and saves_events: "store_inv st \<Longrightarrow> st_load ops st = Ok old \<Longrightarrow> next_save old snapshot entries \<Longrightarrow>
      \<exists>st'. st_save_with_events ops st snapshot entries = (st', Ok ()) \<and> store_inv st'
        \<and> st_load ops st' = Ok (Some snapshot)"
    and saves: "store_inv st \<Longrightarrow> st_load ops st = Ok old \<Longrightarrow> next_save old snapshot [] \<Longrightarrow>
      \<exists>st'. st_save ops st snapshot = (st', Ok ()) \<and> store_inv st'
        \<and> st_load ops st' = Ok (Some snapshot)"
    and reads: "store_inv st \<Longrightarrow> \<exists>page. st_load_event_journal_after ops st r limit = Ok page"

lemma memory_reads:
  assumes "implements_log lg m"
  shows "\<exists>page. memory_load_event_journal_after m r limit = Ok (Some page)"
proof -
  have "ordered_journal (mem_journal m)"
    "\<forall>e \<in> set (mem_journal m). entry_cursor e \<le> log_cursor (mem_snapshot m)"
    using assms by (auto simp: implements_log_def)
  from slice_journal_spec [OF this, of "mem_journal_floor_cursor m" r limit] show ?thesis
    by (auto simp: memory_load_event_journal_after_def log_cursor_def)
qed

lemma implements_log_snapshot:
  "implements_log (log_append lg snapshot entries) m \<Longrightarrow> mem_snapshot m = Some snapshot"
  by (simp add: implements_log_def log_append_def)

interpretation memory: state_store MemoryStore "\<lambda>m. \<exists>lg. implements_log lg m"
proof
  fix m :: MemoryStateStore and old snapshot and entries :: "JournalEntry list"
  assume inv: "\<exists>lg. implements_log lg m"
  show "\<exists>snapshot. st_load MemoryStore m = Ok snapshot"
    by (simp add: MemoryStore_def memory_load_def)
  assume "st_load MemoryStore m = Ok old"
  then have old: "old = mem_snapshot m" by (simp add: MemoryStore_def memory_load_def)
  show "\<exists>m'. st_save_with_events MemoryStore m snapshot entries = (m', Ok ())
      \<and> (\<exists>lg. implements_log lg m') \<and> st_load MemoryStore m' = Ok (Some snapshot)"
    if "next_save old snapshot entries"
    using memory_save_with_events_Ok [of _ m snapshot entries] inv that old
    by (simp add: MemoryStore_def memory_load_def) (metis implements_log_snapshot)
  show "\<exists>m'. st_save MemoryStore m snapshot = (m', Ok ())
      \<and> (\<exists>lg. implements_log lg m') \<and> st_load MemoryStore m' = Ok (Some snapshot)"
    if "next_save old snapshot []"
    using memory_save_Ok [of _ m snapshot] inv that old
    by (simp add: MemoryStore_def memory_load_def) (metis implements_log_snapshot)
next
  fix m :: MemoryStateStore and r limit
  assume "\<exists>lg. implements_log lg m"
  then show "\<exists>page. st_load_event_journal_after MemoryStore m r limit = Ok page"
    by (auto simp: MemoryStore_def dest: memory_reads)
qed

end
