(* ===== verification/Service_Run.thy ===== *)
theory Service_Run
  imports Service Store_Journal Engine_Messages
begin

text \<open>
  The service as a state machine over the engine and a store: a request leaves the invariants of the
  engine, a refused command leaves the engine and the store as they were, and a store that works
  always holds the state the service has in memory, so that loading it again loses nothing.
\<close>

declare apply_event.simps [simp del]

text \<open>Results read from their error branch.\<close>

lemma and_then_Inl_iff: "and_then r f = Inl e \<longleftrightarrow> r = Inl e \<or> (\<exists>x. r = Inr x \<and> f x = Inl e)"
  by (cases r) auto

lemma ok_or_Inl_iff: "ok_or e x = Inl d \<longleftrightarrow> x = None \<and> d = e"
  by (cases x) auto

lemmas error_simps = and_then_Inl_iff ok_or_Inl_iff

section \<open>Sequences of commands\<close>

lemma execute_all_keeps:
  assumes "\<And>s c. P s \<Longrightarrow> P (fst (execute s c))"
  shows "P s \<Longrightarrow> P (fst (execute_all s cs))"
proof (induction cs arbitrary: s)
  case (Cons c cs)
  obtain s1 r where ex: "execute s c = (s1, r)" by (cases "execute s c")
  with assms [OF Cons.prems, of c] have "P s1" by simp
  from Cons.IH [OF this] ex show ?case
    using \<open>P s1\<close> by (auto split: sum.splits prod.splits)
qed simp

lemma execute_all_keys: "keys_ok s \<Longrightarrow> keys_ok (fst (execute_all s cs))"
  by (rule execute_all_keeps) (rule keys.exec_inv)

lemma execute_all_single:
  "execute_all s [c] = (case execute s c of (s1, r) \<Rightarrow> (s1, and_then r (\<lambda>events. Ok events)))"
  by (auto split: sum.splits prod.splits)

lemma execute_refused: "execute s c = (s', Inl e) \<Longrightarrow> s' = s"
  by (auto simp: execute_def split: sum.splits)

lemma execute_all_first:
  "execute_all s (c # cs) = (s', Inl e) \<Longrightarrow>
     s' = s \<or> (\<exists>s1 events. execute s c = (s1, Inr events) \<and> execute_all s1 cs = (s', Inl e))"
  by (auto split: sum.splits prod.splits dest: execute_refused)

lemma execute_all_events:
  "execute_all s cs = (s', Inr events) \<Longrightarrow> s' = foldl apply_event s events"
proof (induction cs arbitrary: s events)
  case (Cons c cs)
  then obtain s1 evs rest where "execute s c = (s1, Inr evs)" "execute_all s1 cs = (s', Inr rest)"
    "events = evs @ rest"
    by (auto split: sum.splits prod.splits)
  with Cons.IH [of s1 rest] show ?case
    using execute_Ok [of s c evs] by simp
qed simp

text \<open>The commands of a client are all executed or none is.\<close>

lemma project_command_atomic:
  assumes "execute_all s (project_command ext s a now command) = (s', Inl e)"
  shows "s' = s"
proof -
  have single: "s' = s" if "execute_all s [c] = (s', Inl e)" for c
    using that by (auto split: sum.splits prod.splits dest: execute_refused)
  have send: "s' = s" if "execute_all s (project_send ext a now c k x rp rt sc si pr) = (s', Inl e)"
    for c k x rp rt sc si pr
  proof -
    let ?m = "stable_message_id ext a k"
    from that consider "s' = s" | s1 evs where
      "execute s (QueueMessage c ?m k a x rp rt now sc si pr) = (s1, Inr evs)"
      "execute_all s1 [AcknowledgeMessage c ?m ?m now] = (s', Inl e)"
      unfolding project_send_def Let_def by (blast dest: execute_all_first)
    then show ?thesis
    proof cases
      case 2
      note q = execute_queue [OF 2(1)]
      from q(1) obtain y where "evs = [MessageQueued y]" "m_conversation_id y = c" "m_id y = ?m"
        by (rule queue_Ok) (auto simp: queued_message_def)
      with q(2) have "get_message s1 c ?m = Some y"
        by (simp add: get_message_apply message_after_def)
      with 2(2) show ?thesis
        by (simp add: execute_def decide_AcknowledgeMessage_def require_message_def)
    qed simp
  qed
  have read: "s' = s" if "execute_all s (project_mark_read s a c m) = (s', Inl e)" for c m
  proof -
    obtain cs where cs: "project_mark_read s a c m = MarkRead c a m # cs"
      "cs = [] \<or> cs = [SetDeliveryState c m Read]"
      by (simp add: project_mark_read_def)
    from that consider "s' = s" | s1 evs where "execute s (MarkRead c a m) = (s1, Inr evs)"
      "execute_all s1 cs = (s', Inl e)"
      unfolding cs(1) by (blast dest: execute_all_first)
    then show ?thesis
    proof cases
      case 2
      from 2(1) have "evs = [ConversationRead c a m]" "s1 = apply_event s (ConversationRead c a m)"
        "\<exists>x. get_message s c m = Some x"
        by (auto simp: execute_def decide_MarkRead_def result_simps require_message_def Let_def
            split: sum.splits)
      then have "get_message s1 c m \<noteq> None"
        by (auto simp: get_message_apply message_after_def)
      with 2(2) cs(2) show ?thesis
        by (auto simp: execute_def decide_SetDeliveryState_def require_message_def)
    qed simp
  qed
  show ?thesis
    using assms by (cases command)
      (auto simp: project_update_conversation_def split: if_splits dest: single send read
        simp del: execute_all.simps(2))
qed

lemma validate_error:
  "validate_command_authorization s a command = Inl e \<Longrightarrow> \<exists>why. e = UnauthorizedCommand why"
  by (cases command)
    (auto simp: validate_command_authorization_def authorize_state_update_def community_access_def
      authorized_community_def authorize_management_def authorize_update_def community_manage_def
      conversation_manage_def Let_def error_simps split: if_splits option.splits ClientCommand.splits)

section \<open>Maintenance\<close>

text \<open>Deleting messages that exist succeeds and deletes them.\<close>

definition batch_exists :: "MessagingState \<Rightarrow> ConversationId \<times> MessageId list \<Rightarrow> bool" where
  "batch_exists s batch \<longleftrightarrow>
     (case batch of (c, ids) \<Rightarrow> ids \<noteq> [] \<and> (\<forall>m \<in> set ids. get_message s c m \<noteq> None))"

lemma btree_list_iff [simp]: "set (btree_list xs) = set xs" "btree_list xs = [] \<longleftrightarrow> xs = []"
proof -
  show "set (btree_list xs) = set xs" by (simp add: btree_list_def)
  then show "btree_list xs = [] \<longleftrightarrow> xs = []" by (metis set_empty)
qed

lemma execute_delete:
  assumes "batch_exists s (c, ids)"
  shows "execute s (DeleteMessages c ids)
    = (apply_event s (MessagesDeleted c (btree_list ids)), Ok [MessagesDeleted c (btree_list ids)])"
proof -
  have "try_all (\<lambda>m. and_then (require_message s c m) (\<lambda>_. Ok ())) (btree_list ids) = Ok ()"
    using assms by (auto simp: try_all_Inr_iff batch_exists_def require_message_def)
  then show ?thesis
    using assms by (simp add: execute_def decide_DeleteMessages_def batch_exists_def Let_def)
qed

lemma batch_exists_deleted: "batch_exists s b \<Longrightarrow> batch_exists (apply_event s (MessagesDeleted c ids)) b"
  by (cases b) (auto simp: batch_exists_def get_message_apply message_after_def)

lemma execute_all_delete:
  "list_all (batch_exists s) batches \<Longrightarrow>
   \<exists>s' events. execute_all s (map (\<lambda>(c, ids). DeleteMessages c ids) batches) = (s', Ok events)
     \<and> (\<forall>c m. get_message s' c m =
          (if \<exists>ids. (c, ids) \<in> set batches \<and> m \<in> set ids
           then map_option (\<lambda>x. x\<lparr>m_deleted := True\<rparr>) (get_message s c m) else get_message s c m))"
proof (induction batches arbitrary: s)
  case (Cons b batches)
  obtain c ids where b: "b = (c, ids)" by (cases b)
  let ?s = "apply_event s (MessagesDeleted c (btree_list ids))"
  have ex: "execute s (DeleteMessages c ids) = (?s, Ok [MessagesDeleted c (btree_list ids)])"
    using Cons.prems b by (simp add: execute_delete)
  have "list_all (batch_exists ?s) batches"
    using Cons.prems by (auto simp: list_all_iff batch_exists_deleted)
  from Cons.IH [OF this] obtain s' events where
    s': "execute_all ?s (map (\<lambda>(c, ids). DeleteMessages c ids) batches) = (s', Ok events)"
    and get: "\<And>c' m. get_message s' c' m =
          (if \<exists>ids. (c', ids) \<in> set batches \<and> m \<in> set ids
           then map_option (\<lambda>x. x\<lparr>m_deleted := True\<rparr>) (get_message ?s c' m) else get_message ?s c' m)"
    by auto
  have one: "get_message ?s c' m = (if c' = c \<and> m \<in> set ids
      then map_option (\<lambda>x. x\<lparr>m_deleted := True\<rparr>) (get_message s c' m) else get_message s c' m)" for c' m
    by (simp add: get_message_apply message_after_def)
  show ?case
    using b ex s' by (auto simp: get one option.map_comp comp_def)
qed simp

lemma expired_messages_set:
  "(c, ids) \<in> set (expired_messages s now) \<longleftrightarrow>
     (\<exists>ms. fmlookup (s_messages s) c = Some ms \<and> ids = expired_ids now ms \<and> ids \<noteq> [])"
  by (auto simp: expired_messages_def fmlookup_dom_iff image_iff)

lemma expired_ids_set:
  "m \<in> set (expired_ids now ms) \<longleftrightarrow>
     (\<exists>k x. fmlookup ms k = Some x \<and> \<not> m_deleted x \<and> expired_at now x \<and> m = m_id x)"
  by (auto simp: expired_ids_def map_values_iff)

lemma message_key: "keys_ok s \<Longrightarrow> get_message s c m = Some x \<Longrightarrow> m_id x = m \<and> m_conversation_id x = c"
  by (auto simp: keys_ok_def messages_keyed_def)

lemma expired_messages_exist:
  assumes "keys_ok s"
  shows "list_all (batch_exists s) (expired_messages s now)"
proof -
  have "get_message s c m \<noteq> None"
    if "fmlookup (s_messages s) c = Some ms" "m \<in> set (expired_ids now ms)" for c ms m
  proof -
    from that(2) obtain k x where "fmlookup ms k = Some x" "m = m_id x"
      by (auto simp: expired_ids_set)
    with that(1) message_key [OF assms, of c k x] show ?thesis
      by (auto simp: get_message_def)
  qed
  then show ?thesis
    by (auto simp: list_all_iff expired_messages_set batch_exists_def)
qed

lemma expired_messages_iff:
  assumes "keys_ok s"
  shows "(\<exists>ids. (c, ids) \<in> set (expired_messages s now) \<and> m \<in> set ids) \<longleftrightarrow>
    (\<exists>x. get_message s c m = Some x \<and> \<not> m_deleted x \<and> expired_at now x)"
proof -
  have key: "m_id x = k" if "fmlookup (s_messages s) c = Some ms" "fmlookup ms k = Some x" for ms k x
    using message_key [OF assms, of c k x] that by (simp add: get_message_def)
  have "(\<exists>ids. (c, ids) \<in> set (expired_messages s now) \<and> m \<in> set ids) \<longleftrightarrow>
    (\<exists>ms. fmlookup (s_messages s) c = Some ms \<and> m \<in> set (expired_ids now ms))"
    by (auto simp: expired_messages_set)
  also have "\<dots> \<longleftrightarrow> (\<exists>x. get_message s c m = Some x \<and> \<not> m_deleted x \<and> expired_at now x)"
  proof (cases "fmlookup (s_messages s) c")
    case (Some ms)
    with key [OF Some] show ?thesis
      by (simp add: get_message_def expired_ids_set) metis
  qed (simp add: get_message_def)
  finally show ?thesis .
qed

text \<open>What settling does to the messages: exactly the expired ones are deleted.\<close>

definition settled_message :: "i64 \<Rightarrow> Message \<Rightarrow> Message" where
  "settled_message now x = (if expired_at now x then x\<lparr>m_deleted := True\<rparr> else x)"

lemma settle_commands:
  assumes "keys_ok s"
  shows "\<exists>s' events.
      execute_all s (map (\<lambda>(c, ids). DeleteMessages c ids) (expired_messages s now)) = (s', Ok events)
    \<and> (\<forall>c m. get_message s' c m = map_option (settled_message now) (get_message s c m))"
proof -
  obtain s' events where
    s': "execute_all s (map (\<lambda>(c, ids). DeleteMessages c ids) (expired_messages s now)) = (s', Ok events)"
    and get: "\<And>c m. get_message s' c m =
          (if \<exists>ids. (c, ids) \<in> set (expired_messages s now) \<and> m \<in> set ids
           then map_option (\<lambda>x. x\<lparr>m_deleted := True\<rparr>) (get_message s c m) else get_message s c m)"
    using execute_all_delete [OF expired_messages_exist [OF assms]] by blast
  have "get_message s' c m = map_option (settled_message now) (get_message s c m)" for c m
    unfolding get expired_messages_iff [OF assms]
    by (cases "get_message s c m") (auto simp: settled_message_def)
  with s' show ?thesis by blast
qed

text \<open>Delivery states of messages that exist are set without an error.\<close>

lemma execute_all_deliver:
  "list_all (\<lambda>(c, m). get_message s c m \<noteq> None) batches \<Longrightarrow>
   \<exists>s' events. execute_all s (map (\<lambda>(c, m). SetDeliveryState c m st) batches) = (s', Ok events)
     \<and> (\<forall>c m. get_message s' c m =
          (if (c, m) \<in> set batches
           then map_option (\<lambda>x. x\<lparr>m_delivery_state := st\<rparr>) (get_message s c m) else get_message s c m))"
proof (induction batches arbitrary: s)
  case (Cons b batches)
  obtain c m where b: "b = (c, m)" by (cases b)
  let ?s = "apply_event s (DeliveryStateUpdated c m st)"
  have ex: "execute s (SetDeliveryState c m st) = (?s, Ok [DeliveryStateUpdated c m st])"
    using Cons.prems b by (auto simp: execute_def decide_SetDeliveryState_def require_message_def)
  have one: "get_message ?s c' m' = (if c' = c \<and> m' = m
      then map_option (\<lambda>x. x\<lparr>m_delivery_state := st\<rparr>) (get_message s c' m') else get_message s c' m')" for c' m'
    by (simp add: get_message_apply message_after_def)
  have "list_all (\<lambda>(c, m). get_message ?s c m \<noteq> None) batches"
    using Cons.prems by (auto simp: list_all_iff one)
  from Cons.IH [OF this] obtain s' events where
    s': "execute_all ?s (map (\<lambda>(c, m). SetDeliveryState c m st) batches) = (s', Ok events)"
    and get: "\<And>c' m'. get_message s' c' m' =
          (if (c', m') \<in> set batches
           then map_option (\<lambda>x. x\<lparr>m_delivery_state := st\<rparr>) (get_message ?s c' m') else get_message ?s c' m')"
    by auto
  show ?case
    using b ex s' by (auto simp: get one option.map_comp comp_def)
qed simp

lemma pending_exist: "keys_ok s \<Longrightarrow> list_all (\<lambda>(c, m). get_message s c m \<noteq> None) (pending_deliveries s a)"
  by (auto simp: list_all_iff pending_deliveries_def messages_of_iff dest: message_key)

section \<open>Saving\<close>

text \<open>Loading the store gives the service that is running, without its blob store.\<close>

definition saved :: "'s StateStore \<Rightarrow> 's MessagingService \<Rightarrow> bool" where
  "saved ops sv \<longleftrightarrow> load_service ops (sv_store sv) = Ok (sv\<lparr>sv_blob_store := None\<rparr>)"

lemma saved_iff:
  "saved ops sv \<longleftrightarrow>
     (\<exists>snapshot. st_load ops (sv_store sv) = Ok snapshot \<and> sv_cursor sv = log_cursor snapshot
        \<and> sv_engine sv = (case snapshot of None \<Rightarrow> MessagingState_default | Some s \<Rightarrow> sn_state s))"
  by (cases sv)
    (auto simp: saved_def load_service_def result_simps log_cursor_def split: option.splits)

text \<open>Every answer carries the cursor of the service, and so does what the journal keeps of it.\<close>

lemma journal_entries_cursor:
  assumes "\<forall>response \<in> set responses. se_cursor response = Some (show_u64 cursor)"
    and "e \<in> set (journal_entries s a responses)"
  shows "journal_cursor e = Ok cursor"
proof -
  have same: "se_cursor (journal_envelope s r) = se_cursor r" for r
    by (simp add: journal_envelope_def public_journal_envelope_def split: ServerEvent.splits)
  obtain r where "r \<in> set responses" "je_envelope e = journal_envelope s r"
    using assms(2) by (auto simp: journal_entries_def)
  with assms(1) same [of r] show ?thesis
    by (simp add: journal_cursor_def)
qed

lemma advance_cursor_simps [simp]:
  "sv_engine (advance_cursor sv n) = sv_engine sv" "sv_store (advance_cursor sv n) = sv_store sv"
  "sv_blob_store (advance_cursor sv n) = sv_blob_store sv"
  by (simp_all add: advance_cursor_def)

lemma advance_cursor_le: "sv_cursor sv \<le> sv_cursor (advance_cursor sv n)"
  using unat_u64_less [of "sv_cursor sv"]
  by (simp add: advance_cursor_def word_le_nat_alt unat_saturating_add_u64)

lemma envelope_cursor [simp]: "se_cursor (envelope cursor now event) = Some (show_u64 cursor)"
  by (simp add: envelope_def)

lemma project_event_cursor:
  "response \<in> set (List.map_filter (\<lambda>event. project_event sv a event now) events) \<Longrightarrow>
     se_cursor response = Some (show_u64 (sv_cursor sv))"
  by (auto simp: map_filter_iff project_event_def)

text \<open>A service whose engine is consistent and whose store works and is up to date.\<close>

definition service_ok :: "'s StateStore \<Rightarrow> ('s \<Rightarrow> bool) \<Rightarrow> 's MessagingService \<Rightarrow> bool" where
  "service_ok ops store_inv sv \<longleftrightarrow>
     keys_ok (sv_engine sv) \<and> store_inv (sv_store sv) \<and> saved ops sv"

text \<open>Two services that differ in their blob stores only.\<close>

definition same_but_blobs :: "'s MessagingService \<Rightarrow> 's MessagingService \<Rightarrow> bool" where
  "same_but_blobs sv sv' \<longleftrightarrow> sv'\<lparr>sv_blob_store := sv_blob_store sv\<rparr> = sv"

lemma same_but_blobs_refl [simp]: "same_but_blobs sv sv"
  by (simp add: same_but_blobs_def)

text \<open>
  The outcome of a request to a service that was in order: the service stays in order, and a refused
  request has changed nothing but perhaps the blob store, and was not refused by the store.
\<close>

definition outcome_ok ::
  "'s StateStore \<Rightarrow> ('s \<Rightarrow> bool) \<Rightarrow> 's MessagingService \<Rightarrow>
     's MessagingService \<times> ('a, MessagingServiceError) result \<Rightarrow> bool"
where
  "outcome_ok ops store_inv sv outcome \<longleftrightarrow>
     service_ok ops store_inv (fst outcome)
   \<and> (\<forall>e. snd outcome = Err e \<longrightarrow> same_but_blobs sv (fst outcome) \<and> (\<forall>f. e \<noteq> StoreFailure f))"

lemma outcome_unchanged:
  "service_ok ops store_ok sv \<Longrightarrow> (\<And>f. r \<noteq> Err (StoreFailure f)) \<Longrightarrow> outcome_ok ops store_ok sv (sv, r)"
  by (auto simp: outcome_ok_def)

lemma service_ok_blobs: "service_ok ops store_ok (sv\<lparr>sv_blob_store := b\<rparr>) = service_ok ops store_ok sv"
  by (simp add: service_ok_def saved_def)

context state_store
begin

text \<open>The store of a service that has nothing unsaved but its last step.\<close>

lemma publish_saved:
  assumes "store_inv (sv_store sv)" "st_load ops (sv_store sv) = Ok old" "log_cursor old \<le> sv_cursor sv"
    and "\<forall>response \<in> set responses. se_cursor response = Some (show_u64 (sv_cursor sv))"
  shows "\<exists>st. publish ops sv a now responses = (sv\<lparr>sv_store := st\<rparr>, Ok responses)
    \<and> store_inv st \<and> saved ops (sv\<lparr>sv_store := st\<rparr>)"
proof -
  have "next_save old (snapshot_of sv now) (journal_entries (sv_engine sv) a responses)"
    using assms(3) journal_entries_cursor [OF assms(4)]
    by (simp add: next_save_def snapshot_of_def MessagingSnapshot_new_def)
  from saves_events [OF assms(1,2) this] obtain st where
    "st_save_with_events ops (sv_store sv) (snapshot_of sv now)
       (journal_entries (sv_engine sv) a responses) = (st, Ok ())" "store_inv st"
    "st_load ops st = Ok (Some (snapshot_of sv now))"
    by blast
  then show ?thesis
    by (auto simp: publish_def persist_with_events_def saved_iff log_cursor_def snapshot_of_def
        MessagingSnapshot_new_def)
qed

lemma persist_saved:
  assumes "store_inv (sv_store sv)" "st_load ops (sv_store sv) = Ok old" "log_cursor old \<le> sv_cursor sv"
  shows "\<exists>st. persist ops sv now = (sv\<lparr>sv_store := st\<rparr>, Ok ())
    \<and> store_inv st \<and> saved ops (sv\<lparr>sv_store := st\<rparr>)"
proof -
  have "next_save old (snapshot_of sv now) []"
    using assms(3) by (simp add: next_save_def snapshot_of_def MessagingSnapshot_new_def)
  from saves [OF assms(1,2) this] show ?thesis
    by (auto simp: persist_def saved_iff log_cursor_def snapshot_of_def MessagingSnapshot_new_def)
qed

text \<open>The answers to changes of the engine are published from a service that was saved.\<close>

lemma publish_engine:
  assumes "service_ok ops store_inv sv" "keys_ok s"
    and sv1: "sv1 = advance_cursor (sv\<lparr>sv_engine := s\<rparr>) n"
    and "\<forall>response \<in> set responses. se_cursor response = Some (show_u64 (sv_cursor sv1))"
  shows "\<exists>st. publish ops sv1 a now responses = (sv1\<lparr>sv_store := st\<rparr>, Ok responses)
    \<and> service_ok ops store_inv (sv1\<lparr>sv_store := st\<rparr>)"
proof -
  from assms(1) obtain old where "st_load ops (sv_store sv) = Ok old" "log_cursor old = sv_cursor sv"
    by (auto simp: service_ok_def saved_iff)
  moreover have "sv_cursor sv \<le> sv_cursor sv1"
    using advance_cursor_le [of "sv\<lparr>sv_engine := s\<rparr>" n] by (simp add: sv1)
  ultimately have "st_load ops (sv_store sv1) = Ok old" "log_cursor old \<le> sv_cursor sv1"
    by (simp_all add: sv1)
  moreover have "store_inv (sv_store sv1)" "keys_ok (sv_engine sv1)"
    using assms(1,2) by (simp_all add: sv1 service_ok_def)
  ultimately show ?thesis
    using publish_saved [OF _ _ _ assms(4)] by (auto simp: service_ok_def)
qed

lemma maintenance_ok:
  assumes "service_ok ops store_inv sv"
    and "execute_all (sv_engine sv) commands = (s, Ok events)"
  shows "\<exists>sv'. run_maintenance ops sv a now commands = (sv', Ok ()) \<and> service_ok ops store_inv sv'
    \<and> sv_engine sv' = s \<and> sv_blob_store sv' = sv_blob_store sv \<and> sv_cursor sv \<le> sv_cursor sv'"
proof (cases "commands = []")
  case True
  with assms show ?thesis by (simp add: run_maintenance_def)
next
  case False
  have "keys_ok s"
    using assms execute_all_keys [of "sv_engine sv" commands] by (simp add: service_ok_def)
  let ?sv = "advance_cursor (sv\<lparr>sv_engine := s\<rparr>) (length events)"
  let ?rs = "List.map_filter (\<lambda>event. project_event ?sv a event now) events"
  from publish_engine [OF assms(1) \<open>keys_ok s\<close> refl, of ?rs] obtain st where
    "publish ops ?sv a now ?rs = (?sv\<lparr>sv_store := st\<rparr>, Ok ?rs)"
    "service_ok ops store_inv (?sv\<lparr>sv_store := st\<rparr>)"
    using project_event_cursor by metis
  with False assms(2) show ?thesis
    using advance_cursor_le [of "sv\<lparr>sv_engine := s\<rparr>" "length events"]
    by (simp add: run_maintenance_def Let_def)
qed

lemma settle_ok:
  assumes "service_ok ops store_inv sv"
  shows "\<exists>sv'. settle_expired_messages ops sv a now = (sv', Ok ()) \<and> service_ok ops store_inv sv'
    \<and> sv_blob_store sv' = sv_blob_store sv \<and> sv_cursor sv \<le> sv_cursor sv'
    \<and> sv_engine sv' = fst (execute_all (sv_engine sv)
        (map (\<lambda>(c, ids). DeleteMessages c ids) (expired_messages (sv_engine sv) now)))"
proof -
  have "keys_ok (sv_engine sv)" using assms by (simp add: service_ok_def)
  from settle_commands [OF this, of now] show ?thesis
    unfolding settle_expired_messages_def using maintenance_ok [OF assms] by fastforce
qed

lemma deliver_ok:
  assumes "service_ok ops store_inv sv"
  shows "\<exists>sv'. mark_direct_messages_delivered ops sv a now = (sv', Ok ()) \<and> service_ok ops store_inv sv'
    \<and> sv_blob_store sv' = sv_blob_store sv \<and> sv_cursor sv \<le> sv_cursor sv'
    \<and> sv_engine sv' = fst (execute_all (sv_engine sv)
        (map (\<lambda>(c, m). SetDeliveryState c m Delivered) (pending_deliveries (sv_engine sv) a)))"
proof -
  have "keys_ok (sv_engine sv)" using assms by (simp add: service_ok_def)
  from execute_all_deliver [OF pending_exist [OF this], of Delivered a] show ?thesis
    unfolding mark_direct_messages_delivered_def using maintenance_ok [OF assms] by fastforce
qed

lemma single_event_ok:
  assumes "service_ok ops store_inv sv"
  shows "\<exists>sv' rs. single_service_event ops sv a event now = (sv', Ok rs) \<and> service_ok ops store_inv sv'
    \<and> sv_engine sv' = sv_engine sv"
proof -
  let ?sv = "advance_cursor sv 1"
  have "keys_ok (sv_engine sv)" "sv\<lparr>sv_engine := sv_engine sv\<rparr> = sv"
    using assms by (simp_all add: service_ok_def)
  with publish_engine [OF assms, of "sv_engine sv" ?sv 1 "[envelope (sv_cursor ?sv) now event]" a now]
  show ?thesis by (auto simp: single_service_event_def Let_def)
qed

lemma single_outcome:
  "service_ok ops store_inv sv \<Longrightarrow> outcome_ok ops store_inv sv (single_service_event ops sv a event now)"
  using single_event_ok [of sv a event now] by (auto simp: outcome_ok_def)

lemma blob_outcome:
  assumes "service_ok ops store_inv sv"
  shows "outcome_ok ops store_inv sv (blob_command ops sv a now op answer)"
proof (cases "sv_blob_store sv")
  case None
  with assms show ?thesis by (simp add: blob_command_def outcome_ok_def)
next
  case (Some files)
  obtain files' r where op: "op files = (files', r)" by (cases "op files")
  let ?sv = "sv\<lparr>sv_blob_store := Some files'\<rparr>"
  have ok: "service_ok ops store_inv ?sv" using assms by (simp add: service_ok_blobs)
  show ?thesis
  proof (cases r)
    case (Inl e)
    with ok op Some show ?thesis by (auto simp: blob_command_def same_but_blobs_def outcome_ok_def)
  next
    case (Inr x)
    with single_event_ok [OF ok, of a "answer x" now] op Some show ?thesis
      by (auto simp: blob_command_def outcome_ok_def)
  qed
qed

lemma typing_outcome:
  "service_ok ops store_inv sv \<Longrightarrow> outcome_ok ops store_inv sv (typing_event ops sv a c action expiry now)"
  by (auto simp: typing_event_def intro: single_outcome outcome_unchanged split: option.splits)

lemma sync_outcome:
  assumes "service_ok ops store_inv sv"
  shows "outcome_ok ops store_inv sv0 (sv, sync_response ops sv a cursor limit now)"
proof -
  have "store_inv (sv_store sv)" using assms by (simp add: service_ok_def)
  then have "sync_response ops sv a cursor limit now \<noteq> Err e" for e
    using reads [of "sv_store sv" "the (parse_u64 (the cursor))" "unat (max limit 1)"]
    by (cases cursor; cases "parse_u64 (the cursor)")
      (auto simp: sync_response_def Let_def split: option.splits if_splits)
  with assms show ?thesis by (auto simp: outcome_ok_def)
qed

lemma engine_outcome:
  assumes ok: "service_ok ops store_inv sv"
  shows "outcome_ok ops store_inv sv (engine_command ext ops sv a command now)"
proof -
  let ?replay = "idempotent_send_replay ext sv a command now"
  let ?cs = "project_command ext (sv_engine sv) a now command"
  consider (conflict) e where "?replay = Inl e" | (replay) rs where "?replay = Inr (Some rs)"
    | (refused) s e where "?replay = Inr None" "execute_all (sv_engine sv) ?cs = (s, Inl e)"
    | (run) s events where "?replay = Inr None" "execute_all (sv_engine sv) ?cs = (s, Inr events)"
    by (metis obj_sumE option.exhaust surj_pair)
  then show ?thesis
  proof cases
    case conflict
    then have "e \<noteq> StoreFailure f" for f
      by (auto simp: idempotent_send_replay_def split: ClientCommand.splits option.splits if_splits)
    with ok conflict show ?thesis by (simp add: engine_command_def outcome_ok_def)
  next
    case replay
    with ok show ?thesis by (simp add: engine_command_def outcome_ok_def)
  next
    case refused
    with project_command_atomic [OF refused(2)] ok show ?thesis
      by (simp add: engine_command_def outcome_ok_def same_but_blobs_def)
  next
    case run
    have keys: "keys_ok s"
      using ok run(2) execute_all_keys [of "sv_engine sv" ?cs] by (simp add: service_ok_def)
    show ?thesis
    proof (cases "events = []")
      case True
      then have "s = sv_engine sv"
        using execute_all_events [OF run(2)] by simp
      with True run ok show ?thesis by (simp add: engine_command_def outcome_ok_def)
    next
      case False
      let ?sv = "advance_cursor (sv\<lparr>sv_engine := s\<rparr>) (length events)"
      let ?rs = "engine_responses ?sv a
        (concat (map (bot_invocations_for_message s) (queued_messages events))) events now"
      have "\<forall>response \<in> set ?rs. se_cursor response = Some (show_u64 (sv_cursor ?sv))"
        by (auto simp: engine_responses_def dest: project_event_cursor)
      from publish_engine [OF ok keys refl this, of a now] False run show ?thesis
        by (auto simp: engine_command_def outcome_ok_def Let_def)
    qed
  qed
qed

lemma handle_command_outcome:
  assumes ok: "service_ok ops store_inv sv"
  shows "outcome_ok ops store_inv sv (handle_command ext ops sv a command now)"
proof (cases command)
  case (ClSync cursor limit)
  from deliver_ok [OF ok, of a now] obtain sv' where
    "mark_direct_messages_delivered ops sv a now = (sv', Ok ())" "service_ok ops store_inv sv'" by blast
  with ClSync show ?thesis
    by (simp add: handle_command_def sync_outcome)
next
  case (ClListCommunityMembers c cursor limit)
  then show ?thesis
    by (auto simp: handle_command_def community_members_page_def authorized_community_def Let_def
        error_simps intro!: outcome_unchanged [OF ok] split: prod.splits if_splits)
next
  case (ClListCommunityAuditLog c cursor limit)
  then show ?thesis
    by (auto simp: handle_command_def community_audit_page_def authorized_community_def Let_def
        error_simps intro!: outcome_unchanged [OF ok] split: prod.splits if_splits)
next
  case (ClAppendBlobChunk i offset data)
  then show ?thesis
    by (auto simp: handle_command_def intro!: outcome_unchanged [OF ok] blob_outcome [OF ok]
        split: sum.splits)
qed (simp_all add: handle_command_def engine_outcome [OF ok] blob_outcome [OF ok] typing_outcome [OF ok]
      outcome_unchanged [OF ok])

text \<open>
  A request to a service in order: refused at the door, or settled first and then handled.
\<close>

lemma handle_cases:
  assumes "service_ok ops store_inv sv"
  obtains (refused) e where "handle ext ops sv env now = (sv, Err e)" "\<And>f. e \<noteq> StoreFailure f"
  | (handled) sv1 where "settle_expired_messages ops sv (rc_actor_id (ce_context env)) now = (sv1, Ok ())"
      "service_ok ops store_inv sv1"
      "handle ext ops sv env now = handle_command ext ops sv1 (rc_actor_id (ce_context env)) (ce_command env) now"
proof (cases "ce_protocol_version env \<noteq> FABUSHI_MESSAGING_PROTOCOL_VERSION")
  case True
  then show ?thesis by (intro refused) (auto simp: handle_def)
next
  case version: False
  let ?a = "rc_actor_id (ce_context env)"
  obtain sv1 where sv1: "settle_expired_messages ops sv ?a now = (sv1, Ok ())"
    "service_ok ops store_inv sv1"
    using settle_ok [OF assms] by blast
  show ?thesis
  proof (cases "validate_command_authorization (sv_engine sv) ?a (ce_command env)")
    case (Inl e)
    moreover have "e \<noteq> StoreFailure f" for f
      using validate_error [OF Inl] by auto
    ultimately show ?thesis using version by (intro refused) (auto simp: handle_def Let_def)
  next
    case (Inr u)
    with version sv1 show ?thesis by (intro handled) (auto simp: handle_def Let_def)
  qed
qed

lemma handle_ok:
  assumes "service_ok ops store_inv sv"
  shows "service_ok ops store_inv (fst (handle ext ops sv env now))"
  using assms
proof (rule handle_cases [where ext = ext and env = env and now = now])
  fix sv1
  assume "service_ok ops store_inv sv1" "handle ext ops sv env now =
    handle_command ext ops sv1 (rc_actor_id (ce_context env)) (ce_command env) now"
  then show ?thesis using handle_command_outcome [of sv1] by (simp add: outcome_ok_def)
qed (use assms in simp)

lemma credit_ok:
  assumes "service_ok ops store_inv sv"
  shows "service_ok ops store_inv (fst (credit_wallet_from_settlement ops sv i a x rf now))"
proof -
  let ?c = "CreditWalletSettlement i a x rf now"
  obtain s r where ex: "execute (sv_engine sv) ?c = (s, r)" by (cases "execute (sv_engine sv) ?c")
  show ?thesis
  proof (cases r)
    case (Inl e)
    with ex execute_refused [of "sv_engine sv" ?c s e] assms show ?thesis
      by (simp add: credit_wallet_from_settlement_def)
  next
    case (Inr events)
    with ex have dec: "decide (sv_engine sv) ?c = Ok events" "s = foldl apply_event (sv_engine sv) events"
      using engine.exec_result [of "sv_engine sv" ?c] execute_Ok [of "sv_engine sv" ?c events] by auto
    from dec(1) obtain w entry where "events = [WalletChanged w entry]"
      by (auto elim!: credit_settlement_Ok)
    then have entries: "List.map_filter wallet_entry events = [entry]"
      by (simp add: wallet_entry_def List.map_filter_def)
    let ?sv = "advance_cursor (sv\<lparr>sv_engine := s\<rparr>) (length events)"
    from assms obtain old where old: "st_load ops (sv_store sv) = Ok old" "log_cursor old = sv_cursor sv"
      by (auto simp: service_ok_def saved_iff)
    have "keys_ok s"
      using assms keys.exec_inv [of "sv_engine sv" ?c] ex by (simp add: service_ok_def)
    moreover obtain st where "persist ops ?sv now = (?sv\<lparr>sv_store := st\<rparr>, Ok ())" "store_inv st"
      "saved ops (?sv\<lparr>sv_store := st\<rparr>)"
      using persist_saved [of ?sv old now] assms old advance_cursor_le [of "sv\<lparr>sv_engine := s\<rparr>" "length events"]
      by (auto simp: service_ok_def)
    ultimately show ?thesis
      using ex Inr entries by (simp add: credit_wallet_from_settlement_def service_ok_def)
  qed
qed

end

section \<open>Reachable services\<close>

text \<open>A step of the service: a request of a client, or a settlement of a payment processor.\<close>

inductive service_step :: "Externals \<Rightarrow> 's StateStore \<Rightarrow> 's MessagingService \<Rightarrow> 's MessagingService \<Rightarrow> bool"
  for ext ops where
  request: "handle ext ops sv env now = (sv', r) \<Longrightarrow> service_step ext ops sv sv'"
| settlement: "apply_signed_settlement hmac unbase64 parse ops sv verifier webhook now = (sv', r) \<Longrightarrow>
    service_step ext ops sv sv'"

inductive service_reachable :: "Externals \<Rightarrow> 's StateStore \<Rightarrow> 's \<Rightarrow> 's MessagingService \<Rightarrow> bool"
  for ext ops store where
  start: "load_service ops store = Ok sv \<Longrightarrow> service_reachable ext ops store sv"
| with_blobs: "service_reachable ext ops store sv \<Longrightarrow>
    service_reachable ext ops store (sv\<lparr>sv_blob_store := blobs\<rparr>)"
| more: "service_reachable ext ops store sv \<Longrightarrow> service_step ext ops sv sv' \<Longrightarrow>
    service_reachable ext ops store sv'"

context state_store
begin

lemma step_ok: "service_step ext ops sv sv' \<Longrightarrow> service_ok ops store_inv sv \<Longrightarrow> service_ok ops store_inv sv'"
proof (induction rule: service_step.induct)
  case (request sv env now sv' r)
  then show ?case by (metis fst_conv handle_ok)
next
  case (settlement hmac unbase64 parse sv verifier webhook now sv' r)
  then show ?case
    by (auto simp: apply_signed_settlement_def split: sum.splits dest: credit_ok) (metis credit_ok fst_conv)
qed

lemma reachable_ok:
  assumes "service_reachable ext ops store sv" "store_inv store"
    and "\<And>snapshot. st_load ops store = Ok (Some snapshot) \<Longrightarrow> keys_ok (sn_state snapshot)"
  shows "service_ok ops store_inv sv"
  using assms(1)
proof induction
  case (start sv)
  then have "sv_store sv = store" "sv_blob_store sv = None"
    "sv_engine sv = MessagingState_default \<or> (\<exists>snapshot. st_load ops store = Ok (Some snapshot)
       \<and> sv_engine sv = sn_state snapshot)"
    by (auto simp: load_service_def result_simps split: option.splits)
  with start assms(2,3) show ?case
    by (auto simp: service_ok_def saved_def keys_ok_default)
next
  case (with_blobs sv blobs)
  then show ?case by (simp add: service_ok_blobs)
next
  case (more sv sv')
  then show ?case by (blast intro: step_ok)
qed

end

end
