(* ===== verification/Service_Safety.thy ===== *)
theory Service_Safety
  imports Service_Run Engine_Payments
begin

text \<open>
  What the service of \<open>src/native/mahayana-messaging/src/service.rs\<close> guarantees its clients: its
  state comes from commands of the engine only, messages carry the authenticated sender, expired
  messages are deleted before anything is answered, a refused request changes nothing, and a restart
  loses nothing.
\<close>

section \<open>The engine behind the service\<close>

text \<open>The engine of the service changes by commands of the engine only, whatever the store does.\<close>

lemma publish_engine_same [simp]: "sv_engine (fst (publish ops sv a now rs)) = sv_engine sv"
  by (simp add: publish_def persist_with_events_def split: prod.splits)

lemma persist_engine_same [simp]: "sv_engine (fst (persist ops sv now)) = sv_engine sv"
  by (simp add: persist_def split: prod.splits)

lemma single_event_engine [simp]:
  "sv_engine (fst (single_service_event ops sv a event now)) = sv_engine sv"
  by (simp add: single_service_event_def Let_def)

lemma blob_command_engine [simp]:
  "sv_engine (fst (blob_command ops sv a now op answer)) = sv_engine sv"
  by (simp add: blob_command_def Let_def split: option.splits prod.splits sum.splits)

lemma typing_event_engine [simp]:
  "sv_engine (fst (typing_event ops sv a c action expiry now)) = sv_engine sv"
  by (simp add: typing_event_def split: option.splits)

lemma maintenance_engine:
  "sv_engine (fst (run_maintenance ops sv a now commands)) = fst (execute_all (sv_engine sv) commands)"
proof (cases "execute_all (sv_engine sv) commands")
  case (Pair s r)
  then show ?thesis
    by (cases "commands = []"; cases r)
      (simp_all add: run_maintenance_def Let_def case_prod_beta)
qed

lemma engine_command_engine:
  "sv_engine (fst (engine_command ext ops sv a command now)) \<in>
     {sv_engine sv, fst (execute_all (sv_engine sv) (project_command ext (sv_engine sv) a now command))}"
  by (simp add: engine_command_def Let_def split: sum.splits option.splits prod.splits)

lemma handle_command_engine:
  "sv_engine (fst (handle_command ext ops sv a command now)) \<in>
     {sv_engine sv, fst (execute_all (sv_engine sv) (project_command ext (sv_engine sv) a now command)),
      fst (execute_all (sv_engine sv)
        (map (\<lambda>(c, m). SetDeliveryState c m Delivered) (pending_deliveries (sv_engine sv) a)))}"
proof (cases "\<exists>cursor limit. command = ClSync cursor limit")
  case True
  then obtain cursor limit where command: "command = ClSync cursor limit" by blast
  let ?out = "mark_direct_messages_delivered ops sv a now"
  have "sv_engine (fst (handle_command ext ops sv a command now)) = sv_engine (fst ?out)"
    by (simp add: handle_command_def command split: prod.splits sum.splits)
  then show ?thesis
    by (simp add: mark_direct_messages_delivered_def maintenance_engine)
next
  case False
  then show ?thesis
    using engine_command_engine [of ext ops sv a command now]
    by (cases command) (auto simp: handle_command_def split: sum.splits)
qed

lemma handle_engine:
  "sv_engine (fst (handle ext ops sv env now)) = sv_engine sv
   \<or> (\<exists>sv1 r. settle_expired_messages ops sv (rc_actor_id (ce_context env)) now = (sv1, r)
      \<and> (sv_engine (fst (handle ext ops sv env now)) = sv_engine sv1
       \<or> (\<exists>out. out = handle_command ext ops sv1 (rc_actor_id (ce_context env)) (ce_command env) now
           \<and> sv_engine (fst (handle ext ops sv env now)) = sv_engine (fst out))))"
  by (simp add: handle_def Let_def split: sum.splits prod.splits)

lemma handle_keeps:
  assumes exec: "\<And>s c. P s \<Longrightarrow> P (fst (execute s c))" and "P (sv_engine sv)"
  shows "P (sv_engine (fst (handle ext ops sv env now)))"
proof -
  have all: "P s \<Longrightarrow> P (fst (execute_all s cs))" for s cs
    using exec by (rule execute_all_keeps)
  have settled: "P (sv_engine sv1)" if "settle_expired_messages ops sv a now = (sv1, r)" for sv1 a r
    using maintenance_engine [of ops sv a now] that all [OF assms(2)]
    by (metis fst_conv settle_expired_messages_def)
  have "P (sv_engine (fst (handle_command ext ops sv1 a command now)))" if "P (sv_engine sv1)" for sv1 a command
    using handle_command_engine [of ext ops sv1 a command now] all [OF that] that by auto
  with settled assms(2) handle_engine [of ext ops sv env now] show ?thesis by metis
qed

text \<open>
  What relates the states before and after commands of one kind relates the states before and after
  a request, when the commands the service projects and those of its maintenance are of that kind.
\<close>

lemma handle_related:
  assumes "\<And>s. R s s" "\<And>s s1 s2. R s s1 \<Longrightarrow> R s1 s2 \<Longrightarrow> R s s2"
    and all: "\<And>s cs. list_all ok cs \<Longrightarrow> R s (fst (execute_all s cs))"
    and "\<And>c ids. ok (DeleteMessages c ids)" "\<And>c m st. ok (SetDeliveryState c m st)"
    and "\<And>s command. list_all ok (project_command ext s (rc_actor_id (ce_context env)) now command)"
  shows "R (sv_engine sv) (sv_engine (fst (handle ext ops sv env now)))"
proof -
  let ?a = "rc_actor_id (ce_context env)"
  have settled: "R (sv_engine sv) (sv_engine sv1)"
    if "settle_expired_messages ops sv ?a now = (sv1, r)" for sv1 r
  proof -
    have "sv_engine sv1 = fst (execute_all (sv_engine sv)
        (map (\<lambda>(c, ids). DeleteMessages c ids) (expired_messages (sv_engine sv) now)))"
      using that maintenance_engine [of ops sv ?a now] by (metis fst_conv settle_expired_messages_def)
    then show ?thesis using all assms(4) by (simp add: list_all_iff split: prod.splits)
  qed
  have handled: "R (sv_engine sv1) (sv_engine (fst (handle_command ext ops sv1 ?a command now)))" for sv1 command
    using handle_command_engine [of ext ops sv1 ?a command now] assms(1,5,6) all
    by (auto simp: list_all_iff split: prod.splits)
  show ?thesis
    using handle_engine [of ext ops sv env now]
  proof (elim disjE exE conjE)
    assume "sv_engine (fst (handle ext ops sv env now)) = sv_engine sv"
    then show ?thesis by (simp add: assms(1))
  next
    fix sv1 r
    assume "settle_expired_messages ops sv ?a now = (sv1, r)"
      "sv_engine (fst (handle ext ops sv env now)) = sv_engine sv1"
    then show ?thesis by (simp add: settled)
  next
    fix sv1 r out
    assume "settle_expired_messages ops sv ?a now = (sv1, r)"
      "out = handle_command ext ops sv1 ?a (ce_command env) now"
      "sv_engine (fst (handle ext ops sv env now)) = sv_engine (fst out)"
    then show ?thesis
      using assms(2) [OF settled handled] by simp
  qed
qed

lemma credit_engine:
  "sv_engine (fst (credit_wallet_from_settlement ops sv i a x rf now))
     = fst (execute (sv_engine sv) (CreditWalletSettlement i a x rf now))"
proof (cases "execute (sv_engine sv) (CreditWalletSettlement i a x rf now)")
  case (Pair s r)
  then show ?thesis
    by (cases r; cases "List.map_filter wallet_entry (projr r)")
      (simp_all add: credit_wallet_from_settlement_def Let_def case_prod_beta)
qed

lemma settlement_engine:
  "sv_engine (fst (apply_signed_settlement hmac unbase64 parse ops sv v webhook now)) = sv_engine sv
   \<or> (\<exists>event. settlement_verify hmac unbase64 parse v webhook now = Ok event
      \<and> sv_engine (fst (apply_signed_settlement hmac unbase64 parse ops sv v webhook now))
        = fst (execute (sv_engine sv) (CreditWalletSettlement (idempotency_key event) (sl_actor_id event)
            (sl_amount event) (Some (sl_provider_reference event)) now)))"
  by (cases "settlement_verify hmac unbase64 parse v webhook now")
    (simp_all add: apply_signed_settlement_def credit_engine)

lemma step_keeps:
  assumes "\<And>s c. P s \<Longrightarrow> P (fst (execute s c))"
  shows "service_step ext ops sv sv' \<Longrightarrow> P (sv_engine sv) \<Longrightarrow> P (sv_engine sv')"
proof (induction rule: service_step.induct)
  case (request sv env now sv' r)
  with handle_keeps [of P, OF assms] show ?case by (metis fst_conv)
next
  case (settlement hmac unbase64 parse sv verifier webhook now sv' r)
  with settlement_engine [of hmac unbase64 parse ops sv verifier webhook now] assms show ?case
    by (metis fst_conv)
qed

lemma reachable_keeps:
  assumes "\<And>s c. P s \<Longrightarrow> P (fst (execute s c))" "P MessagingState_default"
  shows "service_reachable ext MemoryStore MemoryStateStore_default sv \<Longrightarrow> P (sv_engine sv)"
proof (induction rule: service_reachable.induct)
  case (start sv)
  then show ?case
    using assms(2) by (auto simp: load_service_def MemoryStore_def memory_load_def MemoryStateStore_default_def)
qed (auto intro: step_keeps [of P, OF assms(1)])

section \<open>Senders\<close>

text \<open>
  Every message after a step was there before with the same sender, or has the actor as its sender.
  That a message which was there keeps its sender is the subject of the section on messages.
\<close>

definition senders_from :: "ActorId \<Rightarrow> MessagingState \<Rightarrow> MessagingState \<Rightarrow> bool" where
  "senders_from a s s' \<longleftrightarrow>
     (\<forall>c m y. get_message s' c m = Some y \<longrightarrow>
        m_sender_id y = a \<or> (\<exists>x. get_message s c m = Some x \<and> m_sender_id y = m_sender_id x))"

lemma senders_from_refl [simp]: "senders_from a s s"
  by (simp add: senders_from_def)

lemma senders_from_trans: "senders_from a s s1 \<Longrightarrow> senders_from a s1 s2 \<Longrightarrow> senders_from a s s2"
  by (simp add: senders_from_def) metis

definition authored_event :: "ActorId \<Rightarrow> Event \<Rightarrow> bool" where
  "authored_event a ev =
     (case ev of
        MessageQueued x \<Rightarrow> m_sender_id x = a
      | MessageAcknowledged _ l r _ \<Rightarrow> l = r
      | _ \<Rightarrow> True)"

definition authored :: "ActorId \<Rightarrow> Command \<Rightarrow> bool" where
  "authored a command =
     (case command of
        QueueMessage _ _ _ sender _ _ _ _ _ _ _ \<Rightarrow> sender = a
      | ForwardMessage _ _ _ _ _ sender _ \<Rightarrow> sender = a
      | AcknowledgeMessage _ l r _ \<Rightarrow> l = r
      | _ \<Rightarrow> True)"

lemma authored_maintenance [simp]:
  "authored a (DeleteMessages c ids)" "authored a (SetDeliveryState c m st)"
  by (simp_all add: authored_def)

lemma authored_event_senders: "authored_event a ev \<Longrightarrow> senders_from a s (apply_event s ev)"
  by (cases ev)
    (auto simp: senders_from_def authored_event_def get_message_apply message_after_def split: if_splits)

lemma authored_decide:
  assumes "decide s command = Ok events" "authored a command" "ev \<in> set events"
  shows "authored_event a ev"
proof (cases "Messages_table \<in> set (footprint command)")
  case True
  then show ?thesis
    using assms
    by (cases command)
      (auto simp: authored_def authored_event_def decide_ForwardMessage_def decide_AcknowledgeMessage_def
        decide_SetDeliveryState_def decide_EditMessage_def decide_DeleteMessages_def
        decide_SetReaction_def decide_PinMessage_def queued_message_def result_simps Let_def
        elim!: queue_Ok simp del: decide.simps(15))
next
  case False
  then show ?thesis
    using decide_within [OF assms(1)] assms(3)
    by (cases ev) (auto simp: within_def list_all_iff authored_event_def)
qed

lemma foldl_senders: "(\<And>ev. ev \<in> set events \<Longrightarrow> authored_event a ev) \<Longrightarrow> senders_from a s (foldl apply_event s events)"
proof (induction events arbitrary: s)
  case (Cons ev events)
  then have "senders_from a s (apply_event s ev)" by (simp add: authored_event_senders)
  moreover have "senders_from a (apply_event s ev) (foldl apply_event (apply_event s ev) events)"
    using Cons by simp
  ultimately show ?case by (auto intro: senders_from_trans)
qed simp

lemma execute_senders: "authored a command \<Longrightarrow> senders_from a s (fst (execute s command))"
  by (cases "decide s command") (auto simp: execute_def intro: foldl_senders authored_decide)

lemma execute_all_senders: "list_all (authored a) cs \<Longrightarrow> senders_from a s (fst (execute_all s cs))"
proof (induction cs arbitrary: s)
  case (Cons c cs)
  obtain s1 r where ex: "execute s c = (s1, r)" by (cases "execute s c")
  with Cons.prems execute_senders [of a c s] have "senders_from a s s1" by simp
  moreover have "senders_from a s1 (fst (execute_all s1 cs))" using Cons by simp
  ultimately show ?case
    using ex by (auto split: sum.splits prod.splits intro: senders_from_trans)
qed simp

lemma project_command_authored: "list_all (authored a) (project_command ext s a now command)"
  by (cases command)
    (simp_all add: authored_def project_send_def project_mark_read_def project_update_conversation_def Let_def)

section \<open>Messages\<close>

text \<open>Every message is still there, under its identifier, and deleted if it was deleted.\<close>

definition messages_kept :: "MessagingState \<Rightarrow> MessagingState \<Rightarrow> bool" where
  "messages_kept s s' \<longleftrightarrow>
     (keys_ok s \<longrightarrow> keys_ok s' \<and>
        (\<forall>c m x. get_message s c m = Some x \<longrightarrow> (\<exists>y. get_message s' c m = Some y \<and> same_message x y)))"

lemma messages_kept_refl [simp]: "messages_kept s s"
  by (auto simp: messages_kept_def)

lemma messages_kept_trans: "messages_kept s s1 \<Longrightarrow> messages_kept s1 s2 \<Longrightarrow> messages_kept s s2"
  unfolding messages_kept_def by (meson same_message_trans)

lemma execute_messages:
  assumes "authored a command"
  shows "messages_kept s (fst (execute s command))"
proof (cases "decide s command")
  case (Inl e)
  then show ?thesis by (simp add: execute_def)
next
  case (Inr events)
  have "\<exists>y. get_message (fst (execute s command)) c m = Some y \<and> same_message x y"
    if "keys_ok s" "get_message s c m = Some x" for c m x
  proof -
    have "\<forall>r t. MessageAcknowledged c m r t \<in> set events \<longrightarrow> r = m"
      using authored_decide [OF Inr assms, of "MessageAcknowledged c m _ _"]
      by (auto simp: authored_event_def)
    from events_keep_message [OF decide_events_ok [OF that(1) Inr] that(2) this] Inr show ?thesis
      by (simp add: execute_def)
  qed
  with keys.exec_inv [of s command] show ?thesis by (auto simp: messages_kept_def)
qed

lemma execute_all_messages: "list_all (authored a) cs \<Longrightarrow> messages_kept s (fst (execute_all s cs))"
proof (induction cs arbitrary: s)
  case (Cons c cs)
  obtain s1 r where ex: "execute s c = (s1, r)" by (cases "execute s c")
  with Cons.prems execute_messages [of a c s] have "messages_kept s s1" by simp
  moreover have "messages_kept s1 (fst (execute_all s1 cs))" using Cons by simp
  ultimately show ?case
    using ex by (auto split: sum.splits prod.splits intro: messages_kept_trans)
qed simp

lemma handle_messages:
  "messages_kept (sv_engine sv) (sv_engine (fst (handle ext ops sv env now)))"
  by (rule handle_related [where R = messages_kept and ok = "authored (rc_actor_id (ce_context env))"])
    (simp_all add: project_command_authored execute_all_messages messages_kept_trans)

lemma handle_senders:
  "senders_from (rc_actor_id (ce_context env)) (sv_engine sv) (sv_engine (fst (handle ext ops sv env now)))"
  by (rule handle_related [where R = "senders_from (rc_actor_id (ce_context env))"
        and ok = "authored (rc_actor_id (ce_context env))"])
    (simp_all add: project_command_authored execute_all_senders senders_from_trans)

text \<open>
  Every message that was there is still there with its own sender, and the messages that were not
  there have the actor as their sender.
\<close>

definition senders_kept :: "ActorId \<Rightarrow> MessagingState \<Rightarrow> MessagingState \<Rightarrow> bool" where
  "senders_kept a s s' \<longleftrightarrow>
     (\<forall>c m x. get_message s c m = Some x \<longrightarrow>
        (\<exists>y. get_message s' c m = Some y \<and> m_sender_id y = m_sender_id x)) \<and>
     (\<forall>c m y. get_message s c m = None \<longrightarrow> get_message s' c m = Some y \<longrightarrow> m_sender_id y = a)"

lemma senders_keptI:
  assumes "senders_from a s s'" "messages_kept s s'" "keys_ok s"
  shows "senders_kept a s s'"
  unfolding senders_kept_def
proof (intro conjI allI impI)
  fix c m x
  assume "get_message s c m = Some x"
  with assms(2,3) show "\<exists>y. get_message s' c m = Some y \<and> m_sender_id y = m_sender_id x"
    unfolding messages_kept_def same_message_def by blast
next
  fix c m y
  assume "get_message s c m = None" "get_message s' c m = Some y"
  with assms(1) show "m_sender_id y = a"
    unfolding senders_from_def by (metis option.distinct(1))
qed

lemma handle_command_messages:
  "messages_kept (sv_engine sv) (sv_engine (fst (handle_command ext ops sv a command now)))"
  using handle_command_engine [of ext ops sv a command now] execute_all_messages [of a]
    project_command_authored [of a ext "sv_engine sv" now command]
  by (auto simp: list_all_iff split: prod.splits)

section \<open>Money\<close>

definition no_settlement :: "Command \<Rightarrow> bool" where
  "no_settlement command = (case command of CreditWalletSettlement _ _ _ _ _ \<Rightarrow> False | _ \<Rightarrow> True)"

lemma no_settlement_maintenance [simp]:
  "no_settlement (DeleteMessages c ids)" "no_settlement (SetDeliveryState c m st)"
  by (simp_all add: no_settlement_def)

lemma execute_all_total:
  "list_all no_settlement cs \<Longrightarrow>
     total_balance (s_wallet (fst (execute_all s cs))) cur = total_balance (s_wallet s) cur"
proof (induction cs arbitrary: s)
  case (Cons c cs)
  obtain s1 r where ex: "execute s c = (s1, r)" by (cases "execute s c")
  have "settled s c cur = 0"
    using Cons.prems by (auto simp: settled_def no_settlement_def split: Command.splits)
  then have "total_balance (s_wallet s1) cur = total_balance (s_wallet s) cur"
    using execute_total [of s c cur] ex by simp
  with Cons.IH [of s1] Cons.prems ex show ?case by (auto split: sum.splits prod.splits)
qed simp

lemma project_command_no_settlement: "list_all no_settlement (project_command ext s a now command)"
  by (cases command)
    (simp_all add: no_settlement_def project_send_def project_mark_read_def project_update_conversation_def
      Let_def)

text \<open>A request the ledger has answered stays answered.\<close>

definition answered :: "string \<Rightarrow> WalletLedger \<Rightarrow> bool" where
  "answered r w \<longleftrightarrow> entry_for_request w r \<noteq> None"

lemma answered_insert: "answered r w \<Longrightarrow> le_request_id e \<noteq> r \<Longrightarrow> answered r (insert_entry w e)"
  by (auto simp: answered_def entry_for_request_def insert_entry_def split: option.splits)

lemma answered_accounts: "answered r (w\<lparr>w_accounts := x\<rparr>) = answered r w"
  by (simp add: answered_def entry_for_request_def cong: option.case_cong)

lemma answered_moved:
  "answered r (moved w f t cur src src_new dst dst_new now) = answered r w"
  "answered r (half_moved w f t cur src src_new dst now) = answered r w"
  by (simp_all add: answered_def entry_for_request_def moved_def half_moved_def cong: option.case_cong)

lemma answered_transfer: "answered r w \<Longrightarrow> answered r (fst (transfer w k f t m rf now))"
  by (cases rule: transfer_outcome [of w k f t m rf now])
    (auto simp: answered_moved intro!: answered_insert, auto simp: answered_def)

lemma answered_credit: "answered r w \<Longrightarrow> answered r (fst (credit w k a m rf now))"
  by (cases rule: credit_outcome [of w k a m rf now])
    (auto simp: answered_accounts intro!: answered_insert, auto simp: answered_def)

lemma answered_entry: "answered r w \<Longrightarrow> answered r (w\<lparr>w_entries := fmupd i e (w_entries w)\<rparr>)"
  by (auto simp: answered_def entry_for_request_def split: option.splits)

lemma answered_refund:
  assumes "answered r w"
  shows "answered r (fst (refund_transfer w k i now))"
  by (cases rule: refund_outcome [of w k i now])
    (use assms answered_transfer [OF assms] in \<open>auto intro: answered_entry, metis fst_conv,
      metis answered_entry fst_conv\<close>)

lemma answered_step: "answered r w \<Longrightarrow> answered r (ledger_step w opn)"
  by (cases opn)
    (auto simp: answered_transfer answered_credit answered_refund create_account_def freeze_def
      answered_accounts split: option.splits)

lemma answered_opens: "opens_accounts w w1 \<Longrightarrow> answered r w \<Longrightarrow> answered r w1"
  by (induction rule: opens_accounts.induct) (auto simp: create_account_def answered_accounts)

lemma answered_execute: "answered r (s_wallet s) \<Longrightarrow> answered r (s_wallet (fst (execute s c)))"
  using execute_wallet [of s c] answered_opens answered_step by (auto simp: ledger_changed_def)

section \<open>Properties\<close>

text \<open>
  C2: whatever a client asks for, every stored message is afterwards still stored under its
  identifier with the sender it had, and every message that was not there before carries the
  authenticated actor of the request as its sender. A client cannot speak for another actor or take
  over a message of another, and neither can the maintenance that runs before its command; a store
  that fails does not change this. The hypothesis says that every entity stands in its table under
  its own identifier, which holds in every state that commands reach from the empty one.
\<close>

theorem sender_is_authenticated:
  assumes "keys_ok (sv_engine sv)"
  shows "senders_kept (rc_actor_id (ce_context env)) (sv_engine sv)
    (sv_engine (fst (handle ext ops sv env now)))"
  using handle_senders handle_messages assms by (rule senders_keptI)

text \<open>
  C10: clients make no money. Whatever a client asks for, and whatever the store does, the money of
  every currency in the wallets is afterwards what it was before: only settlements that a verifier
  has accepted credit a wallet.
\<close>

theorem clients_create_no_money:
  "total_balance (s_wallet (sv_engine (fst (handle ext ops sv env now)))) cur
     = total_balance (s_wallet (sv_engine sv)) cur"
  by (rule handle_related [where R = "\<lambda>s s'. total_balance (s_wallet s') cur = total_balance (s_wallet s) cur"
        and ok = no_settlement])
    (simp_all add: project_command_no_settlement execute_all_total)

text \<open>
  The state of the service is the state of the engine. Whatever requests and settlements reach a
  service that was started on an empty store, its state is one that the engine reaches from its
  empty state by some sequence of commands; so every invariant of the engine is one of the service.
\<close>

theorem service_state_from_commands:
  assumes "service_reachable ext MemoryStore MemoryStateStore_default sv"
  shows "\<exists>cs. sv_engine sv = fst (run_commands execute MessagingState_default cs)"
proof (rule reachable_keeps [OF _ _ assms])
  show "\<exists>cs. MessagingState_default = fst (run_commands execute MessagingState_default cs)"
    by (intro exI [of _ "[]"]) simp
next
  fix s c
  assume "\<exists>cs. s = fst (run_commands execute MessagingState_default cs)"
  then obtain cs where "s = fst (run_commands execute MessagingState_default cs)" by blast
  then have "fst (execute s c) = fst (run_commands execute MessagingState_default (cs @ [c]))"
    by (simp add: engine.run_state)
  then show "\<exists>cs. fst (execute s c) = fst (run_commands execute MessagingState_default cs)" by blast
qed

definition fresh_service :: "MemoryStateStore MessagingService" where
  "fresh_service = \<lparr>sv_engine = MessagingState_default, sv_store = MemoryStateStore_default,
     sv_blob_store = None, sv_cursor = 0\<rparr>"

lemma fresh_reachable: "service_reachable ext MemoryStore MemoryStateStore_default fresh_service"
  by (rule service_reachable.start)
    (simp add: load_service_def MemoryStore_def memory_load_def MemoryStateStore_default_def fresh_service_def)

definition plain_externals :: Externals where
  "plain_externals = \<lparr>x_unicode = \<lparr>u_lowercase = (\<lambda>s. s), u_alphanumeric = (\<lambda>_. True)\<rparr>,
     x_sha256 = (\<lambda>s. s), x_unbase64 = (\<lambda>s. Ok s)\<rparr>"

definition request_of :: "ActorId \<Rightarrow> ClientCommand \<Rightarrow> ClientEnvelope" where
  "request_of a command = ClientEnvelope_new \<lparr>rc_request_id = ''r'', rc_device_id = ''d'',
     rc_actor_id = a, rc_session_id = ''s'', rc_sent_at_ms = 0\<rparr> command"

definition ann_service :: "MemoryStateStore MessagingService" where
  "ann_service = fst (handle plain_externals MemoryStore fresh_service
     (request_of (ActorId ''a'') (ClUpsertProfile (Actor_human ''a'' ''Ann''))) 1)"

lemma ann_reachable: "service_reachable plain_externals MemoryStore MemoryStateStore_default ann_service"
  by (rule service_reachable.more [OF fresh_reachable], rule service_step.request)
    (simp add: ann_service_def prod_eq_iff)

definition room_service :: "MemoryStateStore MessagingService" where
  "room_service = fresh_service\<lparr>sv_engine := chat Group None hello\<rparr>"

theorem sender_is_authenticated_witness:
  "\<exists>x y. get_message (sv_engine room_service) room (MessageId ''m'') = Some x
    \<and> get_message (sv_engine (fst (handle plain_externals MemoryStore room_service
          (request_of (ActorId ''stranger'') (ClDeleteMessages room [MessageId ''m''] True)) 1)))
        room (MessageId ''m'') = Some y
    \<and> m_sender_id y = m_sender_id x"
proof -
  have keys: "keys_ok (sv_engine room_service)"
    by (simp add: room_service_def chat_keys)
  obtain x where "get_message (sv_engine room_service) room (MessageId ''m'') = Some x"
    using chat_message by (auto simp: room_service_def)
  with sender_is_authenticated [OF keys, of _ plain_externals MemoryStore 1] show ?thesis
    unfolding senders_kept_def by blast
qed

theorem service_state_from_commands_witness:
  "\<exists>cs. sv_engine ann_service = fst (run_commands execute MessagingState_default cs)"
  by (rule service_state_from_commands [OF ann_reachable])

lemma memory_reachable_ok:
  assumes "service_reachable ext MemoryStore MemoryStateStore_default sv"
  shows "service_ok MemoryStore (\<lambda>m. \<exists>lg. implements_log lg m) sv"
proof (rule memory.reachable_ok [OF assms])
  show "\<exists>lg. implements_log lg MemoryStateStore_default" using empty_log by blast
qed (simp add: MemoryStore_def memory_load_def MemoryStateStore_default_def)

text \<open>
  C3: a restart loses nothing. In every state that a service on the store in memory reaches, after
  whatever requests and settlements, accepted or refused, loading the store again gives a service
  with the same state of the engine and the same cursor.
\<close>

theorem restart_loses_nothing:
  assumes "service_reachable ext MemoryStore MemoryStateStore_default sv"
  shows "load_with_blob_store MemoryStore (sv_store sv) blobs = Ok (sv\<lparr>sv_blob_store := Some blobs\<rparr>)"
  using memory_reachable_ok [OF assms] by (simp add: service_ok_def saved_def load_with_blob_store_def)

theorem restart_loses_nothing_witness:
  "load_with_blob_store MemoryStore (sv_store ann_service) \<lparr>bf_data = fmempty, bf_meta = fmempty\<rparr>
     = Ok (ann_service\<lparr>sv_blob_store := Some \<lparr>bf_data = fmempty, bf_meta = fmempty\<rparr>\<rparr>)"
  by (rule restart_loses_nothing [OF ann_reachable])

text \<open>
  C9: a refused request changes nothing. When a service on the store in memory refuses a request, it
  never refuses it because of its store, and what it leaves behind, blobs apart, is the service as it was or
  the service after the deletion of expired messages: no part of a refused command is kept, in
  memory or in the store.
\<close>

theorem refused_request_changes_nothing:
  assumes "service_reachable ext MemoryStore MemoryStateStore_default sv"
    and "handle ext MemoryStore sv env now = (sv', Err e)"
  shows "(\<forall>f. e \<noteq> StoreFailure f)
    \<and> (same_but_blobs sv sv'
       \<or> same_but_blobs (fst (settle_expired_messages MemoryStore sv (rc_actor_id (ce_context env)) now)) sv')"
  using memory_reachable_ok [OF assms(1)]
proof (rule memory.handle_cases [where ext = ext and env = env and now = now])
  fix d
  assume "handle ext MemoryStore sv env now = (sv, Err d)" "\<And>f. d \<noteq> StoreFailure f"
  with assms(2) show ?thesis by simp
next
  fix sv1
  assume "settle_expired_messages MemoryStore sv (rc_actor_id (ce_context env)) now = (sv1, Ok ())"
    "service_ok MemoryStore (\<lambda>m. \<exists>lg. implements_log lg m) sv1"
    "handle ext MemoryStore sv env now =
       handle_command ext MemoryStore sv1 (rc_actor_id (ce_context env)) (ce_command env) now"
  with assms(2) show ?thesis
    using memory.handle_command_outcome [of sv1 ext "rc_actor_id (ce_context env)" "ce_command env" now]
    by (simp add: outcome_ok_def)
qed

lemma map_keys_fmempty [simp]: "map_keys fmempty = []"
  by (simp add: map_keys_def sorted_list_of_fset.rep_eq)

lemma fresh_refuses:
  "handle ext MemoryStore fresh_service (request_of a (ClStopTyping (ConversationId ''c''))) 1
     = (fresh_service, Err (UnauthorizedCommand ''typing conversation does not exist''))"
  by (simp add: handle_def request_of_def ClientEnvelope_new_def fresh_service_def
      validate_command_authorization_def settle_expired_messages_def expired_messages_def
      run_maintenance_def handle_command_def typing_event_def MessagingState_default_def)

theorem refused_request_changes_nothing_witness:
  "same_but_blobs fresh_service fresh_service
   \<or> same_but_blobs (fst (settle_expired_messages MemoryStore fresh_service
        (rc_actor_id (ce_context (request_of (ActorId ''a'') (ClStopTyping (ConversationId ''c''))))) 1))
      fresh_service"
  using refused_request_changes_nothing [OF fresh_reachable fresh_refuses] by blast

text \<open>
  Nothing outlives its expiry. When a request passes the checks at the door, every message whose
  expiry has come by the time of the request is deleted in the state the request leaves behind, and
  the deletion is what the request's own command, a synchronization or a search among them, already
  sees. Other messages are not touched by this step.
\<close>

theorem expired_messages_deleted:
  assumes "keys_ok (sv_engine sv)" "get_message (sv_engine sv) c m = Some x" "expired_at now x"
    and "ce_protocol_version env = FABUSHI_MESSAGING_PROTOCOL_VERSION"
    and "validate_command_authorization (sv_engine sv) (rc_actor_id (ce_context env)) (ce_command env) = Ok u"
  shows "(\<exists>y. get_message (sv_engine (fst (settle_expired_messages ops sv (rc_actor_id (ce_context env)) now)))
        c m = Some y \<and> m_deleted y \<and> y = x\<lparr>m_deleted := True\<rparr>)
    \<and> (\<exists>y. get_message (sv_engine (fst (handle ext ops sv env now))) c m = Some y \<and> m_deleted y)"
proof -
  let ?a = "rc_actor_id (ce_context env)"
  let ?P = "\<lambda>s. keys_ok s \<and> (\<exists>y. get_message s c m = Some y \<and> m_deleted y)"
  let ?settle = "settle_expired_messages ops sv ?a now"
  obtain s' events where
    s': "execute_all (sv_engine sv) (map (\<lambda>(c, ids). DeleteMessages c ids)
        (expired_messages (sv_engine sv) now)) = (s', Ok events)"
    and get: "\<And>c m. get_message s' c m = map_option (settled_message now) (get_message (sv_engine sv) c m)"
    using settle_commands [OF assms(1)] by blast
  have eng: "sv_engine (fst ?settle) = s'"
    using s' by (simp add: settle_expired_messages_def maintenance_engine)
  have y: "get_message s' c m = Some (x\<lparr>m_deleted := True\<rparr>)"
    using get assms(2,3) by (simp add: settled_message_def)
  have "keys_ok s'" using execute_all_keys [OF assms(1)] s' by (metis fst_conv)
  with y have P: "?P s'" by simp
  have keeps: "?P (sv_engine (fst (handle_command ext ops sv1 ?a (ce_command env) now)))"
    if "?P (sv_engine sv1)" for sv1
    using handle_command_messages [of sv1 ext ops ?a "ce_command env" now] that
    unfolding messages_kept_def same_message_def by metis
  obtain sv1 r where st: "?settle = (sv1, r)" by (cases ?settle)
  have "?P (sv_engine sv1)" using eng P st by simp
  from this keeps [OF this] have "?P (sv_engine (fst (handle ext ops sv env now)))"
    using assms(4,5) st by (cases r) (simp_all add: handle_def Let_def)
  with eng y show ?thesis by simp
qed

definition timed_chat :: MessagingState where
  "timed_chat = (chat Group None hello)\<lparr>s_messages := fmupd room (fmupd (MessageId ''m'')
     ((first_message hello)\<lparr>m_expires_at_ms := Some 5\<rparr>) fmempty) (s_messages (chat Group None hello))\<rparr>"

definition timed_service :: "MemoryStateStore MessagingService" where
  "timed_service = fresh_service\<lparr>sv_engine := timed_chat\<rparr>"

lemma timed_keys: "keys_ok (sv_engine timed_service)"
  by (auto simp: keys_ok_def tables_keyed_def messages_keyed_def drafts_keyed_def get_message_def
      get_draft_def get_topic_draft_def timed_service_def timed_chat_def fresh_service_def chat_eval
      Actor_human_def Actor_new_def split: if_splits)

theorem expired_messages_deleted_witness:
  "\<exists>y. get_message (sv_engine (fst (handle plain_externals MemoryStore timed_service
      (request_of uma ClWalletStatus) 5))) room (MessageId ''m'') = Some y \<and> m_deleted y"
proof -
  have "get_message (sv_engine timed_service) room (MessageId ''m'')
      = Some ((first_message hello)\<lparr>m_expires_at_ms := Some 5\<rparr>)"
    by (simp add: timed_service_def timed_chat_def get_message_def)
  moreover have "expired_at 5 ((first_message hello)\<lparr>m_expires_at_ms := Some 5\<rparr>)"
    by (simp add: expired_at_def)
  moreover have "ce_protocol_version (request_of uma ClWalletStatus) = FABUSHI_MESSAGING_PROTOCOL_VERSION"
    by (simp add: request_of_def ClientEnvelope_new_def)
  moreover have "validate_command_authorization (sv_engine timed_service)
      (rc_actor_id (ce_context (request_of uma ClWalletStatus))) (ce_command (request_of uma ClWalletStatus)) = Ok ()"
    by (simp add: validate_command_authorization_def request_of_def ClientEnvelope_new_def)
  ultimately show ?thesis
    using expired_messages_deleted [OF timed_keys] by blast
qed

text \<open>
  C11: a settlement is credited once. When a signed settlement is accepted, exactly its amount is added
  to the money of its currency if its key was new, and nothing otherwise; and however the service
  goes on, a settlement with the same key adds nothing any more.
\<close>

theorem settlement_credits_once:
  assumes "apply_signed_settlement hmac unbase64 parse ops sv v webhook now = (sv1, Ok entry)"
    and "settlement_verify hmac unbase64 parse v webhook now = Ok event"
    and "rtranclp (service_step ext ops) sv1 sv2"
    and "settlement_verify hmac unbase64 parse v' webhook' now' = Ok event'"
    and "idempotency_key event' = idempotency_key event"
  shows "total_balance (s_wallet (sv_engine sv1)) cur = total_balance (s_wallet (sv_engine sv)) cur
      + (if entry_for_request (s_wallet (sv_engine sv)) (idempotency_key event) = None
          \<and> cur = normalize_currency (currency (sl_amount event))
         then sint (amount_minor (sl_amount event)) else 0)
    \<and> total_balance (s_wallet (sv_engine
        (fst (apply_signed_settlement hmac unbase64 parse ops sv2 v' webhook' now')))) cur
      = total_balance (s_wallet (sv_engine sv2)) cur"
proof -
  let ?k = "idempotency_key event"
  let ?c = "\<lambda>ev t. CreditWalletSettlement (idempotency_key ev) (sl_actor_id ev) (sl_amount ev)
    (Some (sl_provider_reference ev)) t"
  have eng1: "sv_engine sv1 = fst (execute (sv_engine sv) (?c event now))"
    using assms(1,2) credit_engine [of ops sv ?k "sl_actor_id event" "sl_amount event"
        "Some (sl_provider_reference event)" now]
    by (simp add: apply_signed_settlement_def)
  have "\<not> isl (snd (execute (sv_engine sv) (?c event now)))"
    using assms(1,2) by (auto simp: apply_signed_settlement_def credit_wallet_from_settlement_def
        split: prod.splits sum.splits)
  then obtain events where dec: "decide (sv_engine sv) (?c event now) = Ok events"
    by (auto simp: engine.exec_result isl_def) (metis obj_sumE)
  have first: "total_balance (s_wallet (sv_engine sv1)) cur = total_balance (s_wallet (sv_engine sv)) cur
      + (if entry_for_request (s_wallet (sv_engine sv)) ?k = None
          \<and> cur = normalize_currency (currency (sl_amount event))
         then sint (amount_minor (sl_amount event)) else 0)"
    using execute_total [of "sv_engine sv" "?c event now" cur] dec
    by (simp add: eng1 settled_def engine.exec_result)
  from dec obtain w1 w e where "credit w1 ?k (wallet_account_id (sl_actor_id event)) (sl_amount event)
      (Some (sl_provider_reference event)) now = (w, Ok e)" "events = [WalletChanged w e]"
    by (auto elim: credit_settlement_Ok)
  then have "answered ?k (s_wallet (sv_engine sv1))"
    using dec credit_entry_found by (fastforce simp: eng1 execute_def apply_wallet answered_def)
  with assms(3) have "answered ?k (s_wallet (sv_engine sv2))"
    by (induction rule: rtranclp_induct)
      (auto intro: step_keeps [where P = "\<lambda>s. answered ?k (s_wallet s)"] answered_execute)
  then have "settled (sv_engine sv2) (?c event' now') cur = 0"
    using assms(5) by (auto simp: settled_def answered_def)
  moreover have "sv_engine (fst (apply_signed_settlement hmac unbase64 parse ops sv2 v' webhook' now'))
      = fst (execute (sv_engine sv2) (?c event' now'))"
    using assms(4) by (simp add: apply_signed_settlement_def credit_engine)
  ultimately have "total_balance (s_wallet (sv_engine
        (fst (apply_signed_settlement hmac unbase64 parse ops sv2 v' webhook' now')))) cur
      = total_balance (s_wallet (sv_engine sv2)) cur"
    using execute_total [of "sv_engine sv2" "?c event' now'" cur] by simp
  with first show ?thesis by blast
qed

definition paying_service :: "MemoryStateStore MessagingService" where
  "paying_service = fresh_service\<lparr>sv_engine := MessagingState_default
     \<lparr>s_actors := fmupd (ActorId ''a'') (Actor_human ''a'' ''Ann'') fmempty\<rparr>\<rparr>"

definition demo_settlement :: SettlementEvent where
  "demo_settlement = \<lparr>sl_provider_id = ''p'', sl_event_id = ''e'', sl_actor_id = ActorId ''a'',
     sl_amount = \<lparr>currency = ''USD'', amount_minor = 5\<rparr>, sl_provider_reference = ''r'', sl_occurred_at_ms = 1\<rparr>"

definition demo_verifier :: SettlementVerifier where
  "demo_verifier = \<lparr>vf_secret = replicate 32 CHR ''k'', vf_clock_skew_ms = 1000\<rparr>"

definition demo_webhook :: SignedSettlement where
  "demo_webhook = \<lparr>ss_timestamp_ms = 1, ss_payload_base64 = [], ss_signature_hex = replicate 64 CHR ''0''\<rparr>"

definition demo_hmac :: "string \<Rightarrow> string \<Rightarrow> string" where
  "demo_hmac key message = replicate 32 CHR 0x00"

lemma demo_verify:
  "settlement_verify demo_hmac Some (\<lambda>_. Ok demo_settlement) demo_verifier demo_webhook 1 = Ok demo_settlement"
  by code_simp

lemma demo_fields:
  "sl_actor_id demo_settlement = ActorId ''a''" "sl_provider_reference demo_settlement = ''r''"
  "sl_amount demo_settlement = \<lparr>currency = ''USD'', amount_minor = 5\<rparr>"
  by (simp_all add: demo_settlement_def)

lemma demo_decide:
  "\<exists>w e. decide (sv_engine paying_service) (CreditWalletSettlement (idempotency_key demo_settlement)
      (ActorId ''a'') \<lparr>currency = ''USD'', amount_minor = 5\<rparr> (Some ''r'') 1) = Ok [WalletChanged w e]"
  by (simp add: paying_service_def fresh_service_def decide_CreditWalletSettlement_def
    require_actor_def MessagingState_default_def on_wallet_def ensure_wallet_account_def
    WalletLedger_default_def create_account_def credit_def entry_for_request_def validate_amount_def
    contains_key_def wallet_account_id_def is_blank_def trim_def ws1_def ws2_def ws3_def get_or_def
    checked_add_i64_def checked_i64_def Let_def)

theorem settlement_credits_once_witness:
  "\<exists>sv1 entry. apply_signed_settlement demo_hmac Some (\<lambda>_. Ok demo_settlement) MemoryStore paying_service
      demo_verifier demo_webhook 1 = (sv1, Ok entry)
    \<and> total_balance (s_wallet (sv_engine sv1)) ''USD'' = total_balance (s_wallet (sv_engine paying_service)) ''USD''
      + (if entry_for_request (s_wallet (sv_engine paying_service)) (idempotency_key demo_settlement) = None
          \<and> ''USD'' = normalize_currency (currency (sl_amount demo_settlement))
         then sint (amount_minor (sl_amount demo_settlement)) else 0)
    \<and> total_balance (s_wallet (sv_engine (fst (apply_signed_settlement demo_hmac Some
        (\<lambda>_. Ok demo_settlement) MemoryStore sv1 demo_verifier demo_webhook 1)))) ''USD''
      = total_balance (s_wallet (sv_engine sv1)) ''USD''"
proof -
  let ?apply = "apply_signed_settlement demo_hmac Some (\<lambda>_. Ok demo_settlement) MemoryStore paying_service
      demo_verifier demo_webhook 1"
  obtain w e where dec: "decide (sv_engine paying_service) (CreditWalletSettlement
      (idempotency_key demo_settlement) (ActorId ''a'') \<lparr>currency = ''USD'', amount_minor = 5\<rparr> (Some ''r'') 1)
      = Ok [WalletChanged w e]"
    using demo_decide by blast
  have "\<exists>sv'. persist MemoryStore sv now = (sv', Ok ())" for sv now
    by (simp add: persist_def MemoryStore_def memory_save_def validate_snapshot_schema_def
        snapshot_of_def MessagingSnapshot_new_def)
  moreover define s where "s = apply_event (sv_engine paying_service) (WalletChanged w e)"
  ultimately obtain sv1 where
    "persist MemoryStore (advance_cursor (paying_service\<lparr>sv_engine := s\<rparr>) 1) 1 = (sv1, Ok ())" by blast
  then have "?apply = (sv1, Ok e)"
    using dec by (simp add: apply_signed_settlement_def credit_wallet_from_settlement_def demo_verify
        demo_fields execute_def s_def wallet_entry_def List.map_filter_def)
  with settlement_credits_once [OF this demo_verify rtranclp.rtrancl_refl demo_verify refl] show ?thesis
    by blast
qed

end
