(* ===== verification/Service_Privacy.thy ===== *)
theory Service_Privacy
  imports Service_Safety Engine_Community
begin

text \<open>
  Who learns what from the service of \<open>src/native/mahayana-messaging/src/service.rs\<close>: what a full
  synchronization and a search show an actor, and to whom the journal sends the events of a message.
\<close>

declare apply_event.simps [simp del]

definition sees :: "MessagingState \<Rightarrow> ActorId \<Rightarrow> ConversationId \<Rightarrow> bool" where
  "sees s a c \<longleftrightarrow>
     (\<exists>conversation. fmlookup (s_conversations s) c = Some conversation
        \<and> actor_can_see_conversation s a conversation)"

lemma conversation_key: "keys_ok s \<Longrightarrow> fmlookup (s_conversations s) c = Some x \<Longrightarrow> c_id x = c"
  by (auto simp: keys_ok_def tables_keyed_def dest: keyed_lookup)

lemma visible_sees:
  assumes "keys_ok s"
  shows "c \<in> set (visible_conversation_ids s a) \<longleftrightarrow> sees s a c"
  using conversation_key [OF assms]
  by (fastforce simp: visible_conversation_ids_def sees_def map_values_iff)

section \<open>Synchronization\<close>

lemma project_message_keys [simp]:
  "m_conversation_id (project_message_for_actor s a x) = m_conversation_id x"
  "m_id (project_message_for_actor s a x) = m_id x"
  by (simp_all add: project_message_for_actor_def Let_def split: MessageContent.splits)

text \<open>The messages of conversations in a list are messages of the state.\<close>

lemma listed_message:
  assumes "keys_ok s" "x \<in> set (concat (map map_values (List.map_filter (fmlookup (s_messages s)) cs)))"
  shows "\<exists>c \<in> set cs. get_message s c (m_id x) = Some x \<and> m_conversation_id x = c"
proof -
  obtain c ms k where c: "c \<in> set cs" "fmlookup (s_messages s) c = Some ms" "fmlookup ms k = Some x"
    using assms(2) by (auto simp: map_filter_iff map_values_iff)
  then have "get_message s c k = Some x" by (simp add: get_message_def)
  with message_key [OF assms(1) this] c(1) show ?thesis by auto
qed

lemma sync_messages:
  assumes "keys_ok s" "y \<in> set (sb_messages (sync_batch s a limit now cursor))"
  shows "sees s a (m_conversation_id y)
    \<and> (\<exists>x. get_message s (m_conversation_id y) (m_id y) = Some x \<and> y = project_message_for_actor s a x
        \<and> \<not> (m_deleted x \<and> expired_at now x))"
proof -
  obtain x where x: "y = project_message_for_actor s a x" "\<not> (m_deleted x \<and> expired_at now x)"
    "x \<in> set (concat (map map_values
        (List.map_filter (fmlookup (s_messages s)) (visible_conversation_ids s a))))"
    using assms(2) by (auto simp: sync_batch_def Let_def dest!: in_set_takeD)
  with listed_message [OF assms(1) x(3)] visible_sees [OF assms(1)] show ?thesis by auto
qed

lemma sync_drafts:
  assumes "keys_ok s"
  shows "d \<in> set (sb_drafts (sync_batch s a limit now cursor)) \<Longrightarrow> d_actor_id d = a"
    and "t \<in> set (sb_topic_drafts (sync_batch s a limit now cursor)) \<Longrightarrow> td_actor_id t = a"
  using assms
  by (auto simp: sync_batch_def Let_def map_filter_iff map_values_iff keys_ok_def drafts_keyed_def
      get_draft_def get_topic_draft_def split: option.splits)

text \<open>
  C13: a full synchronization shows an actor only what the actor may see. In every reachable service
  each message of the batch belongs to a conversation the actor sees, is a message of the state,
  apart from the marks of a poll, and is not both deleted and expired; the drafts are the actor's
  own; and the communities of the batch carry no invite token unless the actor may invite, and no
  audit log and no join requests unless the actor is an owner or administrator.
\<close>

theorem sync_shows_visible_only:
  assumes "service_reachable ext MemoryStore MemoryStateStore_default sv"
    and "sync_envelope (sv_engine sv) (sv_cursor sv) a limit now = env" "se_event env = SvSyncBatch batch"
  shows "(\<forall>y \<in> set (sb_messages batch). sees (sv_engine sv) a (m_conversation_id y)
        \<and> (\<exists>x. get_message (sv_engine sv) (m_conversation_id y) (m_id y) = Some x
             \<and> y = project_message_for_actor (sv_engine sv) a x \<and> \<not> (m_deleted x \<and> expired_at now x)))
    \<and> (\<forall>d \<in> set (sb_drafts batch). d_actor_id d = a)
    \<and> (\<forall>d \<in> set (sb_topic_drafts batch). td_actor_id d = a)
    \<and> (\<forall>co \<in> set (sb_communities batch).
         (is_owner_or_admin co a \<or> (co_admin_log co = [] \<and> co_pending_join_requests co = fmempty))
       \<and> (can_invite co a \<or> (\<forall>i link. fmlookup (co_invite_links co) i = Some link \<longrightarrow> il_token link = [])))"
proof -
  let ?s = "sv_engine sv"
  have keys: "keys_ok ?s" using memory_reachable_ok [OF assms(1)] by (simp add: service_ok_def)
  have batch: "batch = sync_batch ?s a limit now (sv_cursor sv)"
    using assms(2,3) by (auto simp: sync_envelope_def envelope_def)
  have members: "is_owner_or_admin (project_community_for_actor ?s a co now) a = is_owner_or_admin co a"
    "can_invite (project_community_for_actor ?s a co now) a = can_invite co a" for co
    by (simp_all add: project_community_for_actor_def is_owner_or_admin_def can_invite_def Let_def)
  have "(is_owner_or_admin co a \<or> (co_admin_log co = [] \<and> co_pending_join_requests co = fmempty))
       \<and> (can_invite co a \<or> (\<forall>i link. fmlookup (co_invite_links co) i = Some link \<longrightarrow> il_token link = []))"
    if "co \<in> set (sb_communities batch)" for co
  proof -
    have "co \<in> (\<lambda>x. project_community_for_actor ?s a x now) ` set (take (max 1 (unat limit))
        (List.map_filter (fmlookup (s_communities ?s)) (visible_conversation_ids ?s a)))"
      using that by (simp add: batch sync_batch_def Let_def)
    then obtain x where co: "co = project_community_for_actor ?s a x now" by blast
    show ?thesis
      unfolding co members
      by (auto simp: project_community_for_actor_def Let_def)
  qed
  then show ?thesis
    using sync_messages [OF keys] sync_drafts [OF keys] by (auto simp: batch)
qed

theorem sync_shows_visible_only_witness:
  "\<exists>batch. se_event (sync_envelope (sv_engine ann_service) (sv_cursor ann_service) (ActorId ''a'') 1 1)
        = SvSyncBatch batch
    \<and> m_conversation_id ` set (sb_messages batch) \<subseteq> {c. sees (sv_engine ann_service) (ActorId ''a'') c}
    \<and> d_actor_id ` set (sb_drafts batch) \<subseteq> {ActorId ''a''}"
proof -
  have "se_event (sync_envelope (sv_engine ann_service) (sv_cursor ann_service) (ActorId ''a'') 1 1)
      = SvSyncBatch (sync_batch (sv_engine ann_service) (ActorId ''a'') 1 1 (sv_cursor ann_service))"
    by (simp add: sync_envelope_def envelope_def)
  with sync_shows_visible_only [OF ann_reachable refl this] show ?thesis by auto
qed

section \<open>Search\<close>

lemma index_fold:
  "ix_messages (foldl (index_actor uni) ix actors) = ix_messages ix"
  "ix_messages (foldl (index_conversation uni) ix conversations) = ix_messages ix"
  "fmlookup (ix_messages (foldl (index_message uni) ix messages)) key = Some x \<Longrightarrow>
     (x \<in> set messages \<and> key = (m_conversation_id x, m_id x)) \<or> fmlookup (ix_messages ix) key = Some x"
proof -
  show "ix_messages (foldl (index_actor uni) ix actors) = ix_messages ix"
    by (induction actors arbitrary: ix) (simp_all add: index_actor_def Let_def)
  show "ix_messages (foldl (index_conversation uni) ix conversations) = ix_messages ix"
    by (induction conversations arbitrary: ix) (simp_all add: index_conversation_def Let_def)
  show "fmlookup (ix_messages (foldl (index_message uni) ix messages)) key = Some x \<Longrightarrow>
     (x \<in> set messages \<and> key = (m_conversation_id x, m_id x)) \<or> fmlookup (ix_messages ix) key = Some x"
    by (induction messages arbitrary: ix) (fastforce simp: index_message_def Let_def split: if_splits)+
qed

definition searchable :: "MessagingState \<Rightarrow> ActorId \<Rightarrow> ConversationId \<Rightarrow> bool" where
  "searchable s a c \<longleftrightarrow>
     sees s a c \<or> (\<exists>co. fmlookup (s_communities s) c = Some co \<and> co_public_username co \<noteq> None)"

lemma searchable_ids:
  assumes "keys_ok s" "c \<in> set (searchable_conversation_ids s a)"
  shows "searchable s a c"
proof -
  obtain k x where "fmlookup (s_conversations s) k = Some x" "c_id x = c"
    "actor_can_see_conversation s a x \<or> (case fmlookup (s_communities s) (c_id x) of
       None \<Rightarrow> False | Some community \<Rightarrow> co_public_username community \<noteq> None)"
    using assms(2) by (auto simp: searchable_conversation_ids_def map_values_iff)
  with conversation_key [OF assms(1)] show ?thesis
    by (auto simp: searchable_def sees_def split: option.splits)
qed

text \<open>
  A search finds only what the actor may find. In a state whose tables are keyed, as they are in
  every reachable service, every message that the search of an actor returns belongs to a
  conversation the actor sees or to a community with a public name, exists, is not deleted, and
  satisfies every filter of the query.
\<close>

theorem search_finds_searchable_only:
  assumes keys: "keys_ok s"
    and "r \<in> set (search uni (search_index uni s a) query)" "sr_kind r = ResultMessage"
  shows "\<exists>c m x. sr_conversation_id r = Some c \<and> sr_id r = message_str m
    \<and> get_message s c m = Some x \<and> \<not> m_deleted x \<and> searchable s a c
    \<and> message_in_query query c x \<and> sr_snippet r = message_search_text x"
proof -
  have "r \<in> set (search_messages (search_index uni s a) query (tokenize uni (q_text query)))"
    using search_result_cases [OF assms(2)] assms(3)
    by (auto dest: search_no_message)
  from search_messages_hit [OF this] obtain c m x where
    x: "fmlookup (ix_messages (search_index uni s a)) (c, m) = Some x" "message_in_query query c x"
    "sr_conversation_id r = Some c" "sr_id r = message_str m" "sr_snippet r = message_search_text x"
    by blast
  have "x \<in> set (filter (\<lambda>message. \<not> m_deleted message) (concat (map map_values
      (List.map_filter (fmlookup (s_messages s)) (searchable_conversation_ids s a)))))
    \<and> (c, m) = (m_conversation_id x, m_id x)"
    using index_fold(3) [OF x(1) [unfolded search_index_def Let_def]]
    by (simp add: index_fold(1,2) SearchIndex_default_def)
  moreover from this listed_message [OF keys, of x "searchable_conversation_ids s a"]
  have "get_message s c m = Some x" "c \<in> set (searchable_conversation_ids s a)" by auto
  ultimately show ?thesis
    using x(2-5) searchable_ids [OF keys] by auto
qed

definition hello_query :: SearchQuery where
  "hello_query = \<lparr>q_text = ''hello'', q_scope = ScopeConversation, q_conversation_id = None,
     q_sender_id = None, q_from_ms = None, q_to_ms = None, q_limit = 5\<rparr>"

definition hello_result :: SearchResult where
  "hello_result = \<lparr>sr_kind = ResultMessage, sr_id = ''m'', sr_conversation_id = Some room,
     sr_title = ''Room'', sr_snippet = ''hello'', sr_timestamp_ms = Some 0, sr_score = 10\<rparr>"

lemma hello_terms: "tokenize (x_unicode plain_externals) ''hello'' = {|''hello''|}"
  by (simp add: tokenize_def plain_externals_def is_word_char_def continuation_byte_def less_eq_char_def)

lemma index_actors_other:
  "ix_conversations (foldl (index_actor uni) ix actors) = ix_conversations ix"
  "ix_message_terms (foldl (index_actor uni) ix actors) = ix_message_terms ix"
  by (induction actors arbitrary: ix) (simp_all add: index_actor_def Let_def)

lemma hello_index:
  fixes ix
  defines "ix \<equiv> search_index (x_unicode plain_externals) (chat Group None hello) olga"
  shows "ix_messages ix = fmupd (room, MessageId ''m'') (first_message hello) fmempty"
    "ix_message_terms ix = fmupd (room, MessageId ''m'') {|''hello''|} fmempty"
    "map_option c_title (fmlookup (ix_conversations ix) room) = Some ''Room''"
proof -
  have ids: "searchable_conversation_ids (chat Group None hello) olga = [room]"
    by (simp add: searchable_conversation_ids_def chat_eval actor_can_see_conversation_def btree_list_def)
  have ms: "fmlookup (s_messages (chat Group None hello)) room
      = Some (fmupd (MessageId ''m'') (first_message hello) fmempty)"
    by (simp add: chat_def)
  have first: "m_conversation_id (first_message hello) = room" "m_id (first_message hello) = MessageId ''m''"
    "message_search_text (first_message hello) = ''hello''" "\<not> m_deleted (first_message hello)"
    by (simp_all add: first_message_def queued_message_def message_search_text_def FormattedText_plain_def)
  note eval = ix_def search_index_def Let_def ids ms List.map_filter_simps first hello_terms index_message_def index_fold
    index_actors_other SearchIndex_default_def
  show "ix_messages ix = fmupd (room, MessageId ''m'') (first_message hello) fmempty"
    by (simp add: eval)
  have conv: "map_values (s_conversations (chat Group None hello))
      = [the (fmlookup (s_conversations (chat Group None hello)) room)]"
    by (simp add: chat_def)
  show "ix_message_terms ix = fmupd (room, MessageId ''m'') {|''hello''|} fmempty"
    by (simp add: eval conv index_conversation_def)
  show "map_option c_title (fmlookup (ix_conversations ix) room) = Some ''Room''"
    by (simp add: eval conv index_conversation_def) (simp add: chat_def Conversation_direct_def)
qed

lemma hello_found:
  "hello_result \<in> set (search (x_unicode plain_externals)
     (search_index (x_unicode plain_externals) (chat Group None hello) olga) hello_query)"
proof -
  let ?ix = "search_index (x_unicode plain_externals) (chat Group None hello) olga"
  obtain conversation where conv: "fmlookup (ix_conversations ?ix) room = Some conversation"
    "c_title conversation = ''Room''"
    using hello_index(3) by auto
  have "message_hit ?ix hello_query {|''hello''|} (room, MessageId ''m'') = Some hello_result"
    using conv
    by (simp add: message_hit_def hello_index hello_query_def message_in_query_def
        content_matches_scope_def score_terms_def score_term_def sorted_list_of_fset.rep_eq)
      (simp add: hello_result_def first_message_def queued_message_def message_search_text_def
        FormattedText_plain_def)
  moreover have "map_keys (fmupd k v fmempty) = [k]" for k :: "ConversationId \<times> MessageId" and v :: "string fset"
    by (simp add: map_keys_def sorted_list_of_fset.rep_eq)
  ultimately have "search_messages ?ix hello_query {|''hello''|} = [hello_result]"
    by (simp add: search_messages_def hello_query_def hello_index List.map_filter_simps)
  then show ?thesis
    by (simp add: search_def hello_query_def hello_terms search_actors_def search_conversations_def)
qed

theorem search_finds_searchable_only_witness:
  "\<exists>c m x. sr_conversation_id hello_result = Some c \<and> sr_id hello_result = message_str m
    \<and> get_message (chat Group None hello) c m = Some x \<and> \<not> m_deleted x
    \<and> searchable (chat Group None hello) olga c
    \<and> message_in_query hello_query c x \<and> sr_snippet hello_result = message_search_text x"
  by (rule search_finds_searchable_only [OF chat_keys hello_found]) (simp_all add: hello_result_def)

section \<open>The journal\<close>

lemma reachable_keyed:
  assumes "service_reachable ext MemoryStore MemoryStateStore_default sv"
  shows "keys_ok (sv_engine sv) \<and> communities_keyed (sv_engine sv)"
proof
  show "keys_ok (sv_engine sv)" using memory_reachable_ok [OF assms] by (simp add: service_ok_def)
  show "communities_keyed (sv_engine sv)"
  proof (rule reachable_keeps [OF _ _ assms])
    show "communities_keyed MessagingState_default"
      by (simp add: communities_keyed_def MessagingState_default_def)
  qed (rule member_keys.exec_inv)
qed

text \<open>The audience of a conversation is everyone who sees it.\<close>

lemma audience_iff_sees:
  assumes "keys_ok s" "communities_keyed s"
  shows "b |\<in>| conversation_id_audience s c \<longleftrightarrow> sees s b c"
proof (cases "fmlookup (s_conversations s) c")
  case None
  then show ?thesis by (simp add: conversation_id_audience_def sees_def)
next
  case conv: (Some x)
  then have key: "c_id x = c" by (rule conversation_key [OF assms(1)])
  show ?thesis
  proof (cases "fmlookup (s_communities s) c")
    case None
    then show ?thesis
      using conv key
      by (auto simp: conversation_id_audience_def conversation_audience_def sees_def
          actor_can_see_conversation_def is_participant_def list_ex_iff fset_of_list_elem split: option.splits)
  next
    case (Some co)
    then have "members_keyed co" using assms(2) by (auto simp: communities_keyed_def)
    then have members: "b \<in> set (map cm_actor_id (filter (\<lambda>member. cm_status member \<noteq> StatusLeft
        \<and> cm_status member \<noteq> StatusBanned) (map_values (co_members co)))) \<longleftrightarrow> active_member co b"
      by (auto simp: active_member_def members_keyed_def map_values_iff split: option.splits)
    have "b |\<in>| conversation_id_audience s c \<longleftrightarrow>
        b \<in> set (filter (\<lambda>a. c_owner_id x = Some a \<or> active_member co a
            \<or> (c_kind x = Channel \<and> is_subscriber co a)) (map p_actor_id (c_participants x)))
      \<or> active_member co b \<or> (c_kind x = Channel \<and> is_subscriber co b) \<or> c_owner_id x = Some b"
      unfolding conversation_id_audience_def Some conv option.case funion_iff fset_of_list_elem members
      by (auto simp: is_subscriber_def contains_key_def fmlookup_dom_iff split: option.splits if_splits)
    then have "b |\<in>| conversation_id_audience s c \<longleftrightarrow>
        c_owner_id x = Some b \<or> active_member co b \<or> (c_kind x = Channel \<and> is_subscriber co b)"
      by auto
    with conv key Some show ?thesis
      by (simp add: sees_def actor_can_see_conversation_def)
  qed
qed

text \<open>The conversation whose messages an event of the journal is about.\<close>

definition message_event_conversation :: "ServerEvent \<Rightarrow> ConversationId option" where
  "message_event_conversation event =
     (case event of
        SvMessageAdded message \<Rightarrow> Some (m_conversation_id message)
      | SvMessageChanged message \<Rightarrow> Some (m_conversation_id message)
      | SvReadChanged c _ _ \<Rightarrow> Some c
      | SvTypingChanged c _ _ _ \<Rightarrow> Some c
      | _ \<Rightarrow> None)"

text \<open>
  C14: the journal sends what happens in a conversation to those who see it. In every reachable
  service, the audience of a new or changed message, a read mark or a typing notice is exactly the
  actors who see its conversation, with the actor who caused it.
\<close>

theorem message_audience_is_viewers:
  assumes "service_reachable ext MemoryStore MemoryStateStore_default sv"
    and "message_event_conversation event = Some c"
  shows "set (event_audience (sv_engine sv) a event) = {b. b = a \<or> sees (sv_engine sv) b c}"
proof -
  have "audience_set (sv_engine sv) a event = finsert a (conversation_id_audience (sv_engine sv) c)"
    using assms(2) by (cases event) (simp_all add: message_event_conversation_def audience_set_def)
  then have "set (event_audience (sv_engine sv) a event)
      = insert a (fset (conversation_id_audience (sv_engine sv) c))"
    by (simp add: event_audience_def)
  then show ?thesis
    using audience_iff_sees reachable_keyed [OF assms(1)] by auto
qed

theorem message_audience_is_viewers_witness:
  "set (event_audience (sv_engine ann_service) (ActorId ''a'') (SvMessageAdded (first_message hello)))
     = {b. b = ActorId ''a'' \<or> sees (sv_engine ann_service) b room}"
  by (rule message_audience_is_viewers [OF ann_reachable])
    (simp add: message_event_conversation_def first_message_def queued_message_def)

text \<open>
  The journal carries no secrets of a community. Whatever the answers of the service are, no entry
  it writes to the journal contains the token of an invite link, an audit log or a join request.
\<close>

theorem journal_has_no_tokens:
  assumes "entry \<in> set (journal_entries s initiator responses)"
    and "se_event (je_envelope entry) = SvCommunityChanged co"
  shows "co_admin_log co = [] \<and> co_pending_join_requests co = fmempty
    \<and> (\<forall>i link. fmlookup (co_invite_links co) i = Some link \<longrightarrow> il_token link = [])"
proof -
  obtain response where "je_envelope entry = journal_envelope s response"
    using assms(1) by (auto simp: journal_entries_def)
  then obtain x where "co = public_community x"
    using assms(2)
    by (cases "se_event response") (auto simp: journal_envelope_def public_journal_envelope_def)
  then show ?thesis by (auto simp: public_community_def)
qed

theorem journal_has_no_tokens_witness:
  "co_admin_log (public_community (room_community StatusMember None)) = []
   \<and> co_pending_join_requests (public_community (room_community StatusMember None)) = fmempty"
  using journal_has_no_tokens [where s = MessagingState_default and initiator = olga
        and responses = "[envelope 1 0 (SvCommunityChanged (room_community StatusMember None))]"
        and entry = "\<lparr>je_envelope = envelope 1 0 (SvCommunityChanged
             (public_community (room_community StatusMember None))), je_audience = [olga]\<rparr>"]
  by (simp add: journal_entries_def is_sync_batch_def envelope_def journal_envelope_def get_or_def
      public_journal_envelope_def MessagingState_default_def event_audience_def audience_set_def
      conversation_id_audience_def sorted_list_of_fset.rep_eq)

end
