(* ===== verification/Service_Sending.thy ===== *)
theory Service_Sending
  imports Service_Safety
begin

text \<open>
  Sending through the service of \<open>src/native/mahayana-messaging/src/service.rs\<close>: what a send stores,
  what a repeated send answers, and what the service lets any actor do with a stored message.
\<close>

declare apply_event.simps [simp del]

abbreviation send_command where
  "send_command c k x rp rt sc si pr \<equiv> ClSendMessage c k x rp rt sc si pr"

text \<open>The message a send leaves in the conversation.\<close>

definition sent_message ::
  "Externals \<Rightarrow> ActorId \<Rightarrow> i64 \<Rightarrow> ConversationId \<Rightarrow> ClientMessageId \<Rightarrow> MessageContent \<Rightarrow> MessageId option \<Rightarrow>
     MessageId option \<Rightarrow> i64 option \<Rightarrow> bool \<Rightarrow> bool \<Rightarrow> i64 option \<Rightarrow> Message"
where
  "sent_message ext a now c k x rp rt sc si pr expiry =
     (queued_message c (stable_message_id ext a k) k a x rp rt now sc si pr expiry)\<lparr>m_delivery_state := Sent\<rparr>"

lemma execute_send:
  assumes "execute_all s (project_send ext a now c k x rp rt sc si pr) = (s', Inr events)"
  shows "events \<noteq> [] \<and> (\<exists>expiry. get_message s' c (stable_message_id ext a k)
      = Some (sent_message ext a now c k x rp rt sc si pr expiry))"
proof -
  let ?m = "stable_message_id ext a k"
  obtain s1 evs rest where q: "execute s (QueueMessage c ?m k a x rp rt now sc si pr) = (s1, Inr evs)"
    and ack: "execute s1 (AcknowledgeMessage c ?m ?m now) = (s', Inr rest)" and events: "events = evs @ rest"
    using assms by (auto simp: project_send_def Let_def split: sum.splits prod.splits)
  obtain expiry where evs: "evs = [MessageQueued (queued_message c ?m k a x rp rt now sc si pr expiry)]"
    using execute_queue(1) [OF q] by (blast elim: queue_Ok)
  have s1: "get_message s1 c ?m = Some (queued_message c ?m k a x rp rt now sc si pr expiry)"
    using execute_queue(2) [OF q] evs
    by (simp add: get_message_apply message_after_def queued_message_def)
  then have "s' = apply_event s1 (MessageAcknowledged c ?m ?m now)"
    using ack by (auto simp: execute_def decide_AcknowledgeMessage_def require_message_def)
  with s1 have "get_message s' c ?m = Some (sent_message ext a now c k x rp rt sc si pr expiry)"
    by (simp add: get_message_apply message_after_def sent_message_def queued_message_def)
  with evs events show ?thesis by auto
qed

lemma settle_nothing:
  assumes "expired_messages (sv_engine sv) now = []"
  shows "settle_expired_messages ops sv a now = (sv, Ok ())"
  using assms by (simp add: settle_expired_messages_def run_maintenance_def)

lemma publish_Ok: "publish ops sv a now rs = (sv', Ok rs') \<Longrightarrow> \<exists>st. sv' = sv\<lparr>sv_store := st\<rparr>"
  by (auto simp: publish_def persist_with_events_def split: prod.splits)

lemma handle_send:
  assumes "handle ext ops sv env now = (sv', Ok rs)"
    and "ce_command env = send_command c k x rp rt sc si pr" "rc_actor_id (ce_context env) = a"
  shows "\<exists>sv1. settle_expired_messages ops sv a now = (sv1, Ok ())
    \<and> engine_command ext ops sv1 a (ce_command env) now = (sv', Ok rs)
    \<and> ce_protocol_version env = FABUSHI_MESSAGING_PROTOCOL_VERSION"
  using assms
  by (auto simp: handle_def Let_def handle_command_def split: if_splits sum.splits prod.splits)

text \<open>The state after an accepted send of a new message.\<close>

lemma handle_send_stored:
  assumes "keys_ok (sv_engine sv)" "handle ext ops sv env now = (sv', Ok rs)"
    and cmd: "ce_command env = send_command c k x rp rt sc si pr" and a: "rc_actor_id (ce_context env) = a"
    and "existing_send ext (sv_engine sv) a c k = None"
  shows "\<exists>expiry. get_message (sv_engine sv') c (stable_message_id ext a k)
    = Some (sent_message ext a now c k x rp rt sc si pr expiry)"
proof -
  obtain sv1 where sv1: "settle_expired_messages ops sv a now = (sv1, Ok ())"
    "engine_command ext ops sv1 a (ce_command env) now = (sv', Ok rs)"
    using handle_send [OF assms(2) cmd a] by blast
  obtain s1 events where "execute_all (sv_engine sv) (map (\<lambda>(c, ids). DeleteMessages c ids)
        (expired_messages (sv_engine sv) now)) = (s1, Ok events)"
    and get: "\<And>c m. get_message s1 c m = map_option (settled_message now) (get_message (sv_engine sv) c m)"
    using settle_commands [OF assms(1)] by blast
  then have "sv_engine sv1 = s1"
    using maintenance_engine [of ops sv a now] sv1(1) by (metis fst_conv settle_expired_messages_def)
  with get assms(5) have "existing_send ext (sv_engine sv1) a c k = None"
    by (simp add: existing_send_def split: option.splits)
  then have "idempotent_send_replay ext sv1 a (ce_command env) now = Ok None"
    by (simp add: cmd idempotent_send_replay_def)
  with sv1(2) obtain s2 evs where
    ex: "execute_all (sv_engine sv1) (project_send ext a now c k x rp rt sc si pr) = (s2, Inr evs)"
    and "evs = [] \<or> (\<exists>sv2 rs2 rs3. publish ops (advance_cursor (sv1\<lparr>sv_engine := s2\<rparr>) (length evs)) a now rs2
        = (sv', Ok rs3))"
    by (auto simp: engine_command_def cmd Let_def split: sum.splits prod.splits if_splits)
  with execute_send [OF ex] have "sv_engine sv' = s2"
    by (auto dest: publish_Ok)
  with execute_send [OF ex] show ?thesis by auto
qed

text \<open>What a repeated send answers.\<close>

lemma handle_resend:
  assumes "ce_command env = send_command c k x rp rt sc si pr" "rc_actor_id (ce_context env) = a"
    and "ce_protocol_version env = FABUSHI_MESSAGING_PROTOCOL_VERSION"
    and "expired_messages (sv_engine sv) later = []"
    and "get_message (sv_engine sv) c (stable_message_id ext a k) = Some y" "\<not> m_deleted y"
  shows "handle ext ops sv env later = (sv,
    if same_send y a x rp rt sc si pr then Ok [envelope (sv_cursor sv) later (SvMessageChanged y)]
    else Err (IdempotencyConflict (client_message_str k)))"
  using assms(1-3,5,6)
  by (simp add: handle_def Let_def settle_nothing [OF assms(4)] validate_command_authorization_def
      handle_command_def engine_command_def idempotent_send_replay_def existing_send_def)

lemma same_send_sent:
  "same_send (sent_message ext a now c k x rp rt sc si pr expiry) a x rp rt sc si pr
     \<longleftrightarrow> pr \<or> \<not> is_secret_content x"
  by (auto simp: same_send_def sent_message_def queued_message_def)

text \<open>
  C21: what a send stores, and what sending again does. When the service accepts a new message, the
  conversation holds it under the identifier derived from the sender and the client's key, with the
  content sent, marked as sent. When the client repeats the request, at any later time at which the
  message is still stored as it was and nothing has expired, the service changes nothing: it answers with
  that message, except for encrypted content that was not asked to be protected. Such content is stored as
  protected, because the engine protects encrypted content always; the repetition of the very same
  request is then compared with the stored flag and refused as a conflict.
\<close>

theorem resend_changes_nothing:
  assumes "keys_ok (sv_engine sv)" "handle ext ops sv env now = (sv', Ok rs)"
    and "ce_command env = send_command c k x rp rt sc si pr" "rc_actor_id (ce_context env) = a"
    and "existing_send ext (sv_engine sv) a c k = None"
  shows "\<exists>y. get_message (sv_engine sv') c (stable_message_id ext a k) = Some y
    \<and> m_sender_id y = a \<and> m_content y = x \<and> m_delivery_state y = Sent \<and> \<not> m_deleted y
    \<and> (\<forall>sv2 later. get_message (sv_engine sv2) c (stable_message_id ext a k) = Some y \<longrightarrow>
         expired_messages (sv_engine sv2) later = [] \<longrightarrow>
         handle ext ops sv2 env later =
           (sv2, if pr \<or> \<not> is_secret_content x then Ok [envelope (sv_cursor sv2) later (SvMessageChanged y)]
                 else Err (IdempotencyConflict (client_message_str k))))"
proof -
  obtain expiry where y: "get_message (sv_engine sv') c (stable_message_id ext a k)
      = Some (sent_message ext a now c k x rp rt sc si pr expiry)"
    using handle_send_stored [OF assms(1-5)] by blast
  have version: "ce_protocol_version env = FABUSHI_MESSAGING_PROTOCOL_VERSION"
    using handle_send [OF assms(2-4)] by blast
  have fields: "m_sender_id (sent_message ext a now c k x rp rt sc si pr expiry) = a"
    "m_content (sent_message ext a now c k x rp rt sc si pr expiry) = x"
    "m_delivery_state (sent_message ext a now c k x rp rt sc si pr expiry) = Sent"
    "\<not> m_deleted (sent_message ext a now c k x rp rt sc si pr expiry)"
    by (simp_all add: sent_message_def queued_message_def)
  from handle_resend [OF assms(3,4) version _ _ fields(4), of _ _ ext ops, unfolded same_send_sent] y fields
  show ?thesis by blast
qed

section \<open>A service for the witnesses\<close>

text \<open>A service in order whose engine is in the given state.\<close>

definition service_at :: "MessagingState \<Rightarrow> MemoryStateStore MessagingService" where
  "service_at s = \<lparr>sv_engine = s, sv_store = MemoryStateStore_default\<lparr>mem_snapshot := Some (MessagingSnapshot_new s 0 0)\<rparr>,
     sv_blob_store = None, sv_cursor = 0\<rparr>"

lemma service_at_ok:
  assumes "keys_ok s"
  shows "service_ok MemoryStore (\<lambda>m. \<exists>lg. implements_log lg m) (service_at s)"
proof -
  have "implements_log \<lparr>lg_snapshot = Some (MessagingSnapshot_new s 0 0), lg_history = []\<rparr>
      (MemoryStateStore_default\<lparr>mem_snapshot := Some (MessagingSnapshot_new s 0 0)\<rparr>)"
    by (simp add: implements_log_def log_ok_def MemoryStateStore_default_def ordered_journal_def
        log_cursor_def MessagingSnapshot_new_def)
  with assms show ?thesis
    by (auto simp: service_ok_def service_at_def saved_iff MemoryStore_def memory_load_def log_cursor_def
        MessagingSnapshot_new_def)
qed

lemma no_expired:
  assumes "keys_ok s" "\<And>c m x. get_message s c m = Some x \<Longrightarrow> m_expires_at_ms x = None"
  shows "expired_messages s now = []"
proof (rule ccontr)
  assume "expired_messages s now \<noteq> []"
  then obtain c ids where "(c, ids) \<in> set (expired_messages s now)"
    by (metis list.set_intros(1) neq_Nil_conv surj_pair)
  moreover from this obtain m where "m \<in> set ids"
    by (auto simp: expired_messages_set) (metis list.set_intros(1) neq_Nil_conv)
  ultimately show False
    using expired_messages_iff [OF assms(1), of c now m] assms(2) by (auto simp: expired_at_def)
qed

text \<open>What the engine accepts, a service in order accepts, and stores.\<close>

lemma send_accepted:
  assumes keys: "keys_ok s" and expiry: "\<forall>c m x. get_message s c m = Some x \<longrightarrow> m_expires_at_ms x = None"
    and q: "execute s (QueueMessage c (stable_message_id ext a k) k a x rp rt now sc si pr) = (s1, Inr evs)"
    and new: "existing_send ext s a c k = None"
    and lives: "\<forall>conv. fmlookup (s_conversations s) c = Some conv \<longrightarrow> c_message_retention_seconds conv = None"
  shows "\<exists>sv' rs. handle ext MemoryStore (service_at s) (request_of a (send_command c k x rp rt sc si pr)) now
      = (sv', Ok rs) \<and> expired_messages (sv_engine sv') later = []"
proof -
  let ?m = "stable_message_id ext a k" and ?cmd = "send_command c k x rp rt sc si pr"
  let ?sv = "service_at s"
  from execute_queue(1) [OF q] obtain conv expiry where conv: "fmlookup (s_conversations s) c = Some conv"
    and none: "get_message s c ?m = None"
    and exp: "message_expiry (c_message_retention_seconds conv) (case sc of None \<Rightarrow> now | Some u \<Rightarrow> u) = Ok expiry"
    and evs: "evs = [MessageQueued (queued_message c ?m k a x rp rt now sc si pr expiry)]"
    by (rule queue_Ok)
  have "expiry = None" using exp lives conv by (simp add: message_expiry_def)
  define y where "y = queued_message c ?m k a x rp rt now sc si pr None"
  have fields: "m_conversation_id y = c" "m_id y = ?m" "m_expires_at_ms y = None"
    by (simp_all add: y_def queued_message_def)
  have evs': "evs = [MessageQueued y]" using evs by (simp add: y_def \<open>expiry = None\<close>)
  then have s1: "s1 = apply_event s (MessageQueued y)" using execute_queue(2) [OF q] by simp
  define s2 where "s2 = apply_event s1 (MessageAcknowledged c ?m ?m now)"
  have get1: "get_message s1 c' m' = (if c' = c \<and> m' = ?m then Some y else get_message s c' m')" for c' m'
    using fields by (simp add: s1 get_message_apply message_after_def)
  have get2: "get_message s2 c' m' = (if c' = c \<and> m' = ?m
      then Some (y\<lparr>m_delivery_state := Sent, m_created_at_ms := now\<rparr>) else get_message s c' m')" for c' m'
    using fields by (auto simp: s2_def get_message_apply message_after_def get1)
  have all: "execute_all s (project_send ext a now c k x rp rt sc si pr)
      = (s2, Inr [MessageQueued y, MessageAcknowledged c ?m ?m now])"
    using q evs' get1 [of c ?m]
    by (simp add: project_send_def Let_def s2_def execute_def [of s1] decide_AcknowledgeMessage_def
        require_message_def)
  have keys2: "keys_ok s2" using execute_all_keys [OF keys] all by (metis fst_conv)
  have sv: "sv_engine ?sv = s" by (simp add: service_at_def)
  have ok: "outcome_ok MemoryStore (\<lambda>m. \<exists>lg. implements_log lg m) ?sv (engine_command ext MemoryStore ?sv a ?cmd now)"
    using memory.engine_outcome [OF service_at_ok [OF keys]] by simp
  have eng: "sv_engine (fst (engine_command ext MemoryStore ?sv a ?cmd now)) = s2"
    using all new sv by (simp add: engine_command_def idempotent_send_replay_def Let_def)
  have "s2 \<noteq> s" using get2 [of c ?m] none by auto
  with ok eng sv obtain rs where r: "snd (engine_command ext MemoryStore ?sv a ?cmd now) = Ok rs"
    by (cases "snd (engine_command ext MemoryStore ?sv a ?cmd now)")
      (auto simp: outcome_ok_def same_but_blobs_def, metis MessagingService.select_convs(1)
        MessagingService.surjective MessagingService.update_convs(3))
  have "settle_expired_messages MemoryStore ?sv a now = (?sv, Ok ())"
    using expiry by (intro settle_nothing) (auto simp: sv intro: no_expired [OF keys])
  then have "handle ext MemoryStore ?sv (request_of a ?cmd) now = engine_command ext MemoryStore ?sv a ?cmd now"
    by (simp add: handle_def request_of_def ClientEnvelope_new_def validate_command_authorization_def
        handle_command_def)
  moreover have "expired_messages s2 later = []"
    using expiry fields by (intro no_expired [OF keys2]) (auto simp: get2 split: if_splits)
  ultimately show ?thesis
    using r eng by (metis prod.collapse)
qed

lemma chat_send:
  fixes kind first x
  defines "s \<equiv> chat kind None first"
    and "env \<equiv> request_of uma (send_command room (ClientMessageId ''k'') x None None None False False)"
  assumes "\<exists>s1 evs. execute s (QueueMessage room (stable_message_id plain_externals uma (ClientMessageId ''k''))
      (ClientMessageId ''k'') uma x None None 1 None False False) = (s1, Inr evs)"
  shows "keys_ok (sv_engine (service_at s))"
    "existing_send plain_externals (sv_engine (service_at s)) uma room (ClientMessageId ''k'') = None"
    "\<exists>sv' rs. handle plain_externals MemoryStore (service_at s) env 1 = (sv', Ok rs)
      \<and> expired_messages (sv_engine sv') 2 = []"
proof -
  have keys: "keys_ok s" unfolding s_def by (rule chat_keys) simp
  have new: "existing_send plain_externals s uma room (ClientMessageId ''k'') = None"
    by (simp add: s_def existing_send_def get_message_def chat_eval stable_message_id_def)
  have "\<forall>c m y. get_message s c m = Some y \<longrightarrow> m_expires_at_ms y = None"
    "\<forall>conv. fmlookup (s_conversations s) room = Some conv \<longrightarrow> c_message_retention_seconds conv = None"
    by (auto simp: s_def get_message_def chat_eval split: if_splits)
  then show "\<exists>sv' rs. handle plain_externals MemoryStore (service_at s) env 1 = (sv', Ok rs)
      \<and> expired_messages (sv_engine sv') 2 = []"
    using send_accepted [OF keys] new assms(3) by (auto simp: env_def)
  show "keys_ok (sv_engine (service_at s))"
    "existing_send plain_externals (sv_engine (service_at s)) uma room (ClientMessageId ''k'') = None"
    using keys new by (simp_all add: service_at_def)
qed

lemma request_of_simps [simp]:
  "ce_command (request_of a command) = command" "rc_actor_id (ce_context (request_of a command)) = a"
  "ce_protocol_version (request_of a command) = FABUSHI_MESSAGING_PROTOCOL_VERSION"
  by (simp_all add: request_of_def ClientEnvelope_new_def)

theorem resend_changes_nothing_witness:
  "(\<exists>sv' rs y. handle plain_externals MemoryStore (service_at (chat Group None hello))
      (request_of uma (send_command room (ClientMessageId ''k'') hello None None None False False)) 1 = (sv', Ok rs)
    \<and> m_content y = hello
    \<and> handle plain_externals MemoryStore sv'
        (request_of uma (send_command room (ClientMessageId ''k'') hello None None None False False)) 2
      = (sv', Ok [envelope (sv_cursor sv') 2 (SvMessageChanged y)]))
   \<and> (\<exists>sv' rs. handle plain_externals MemoryStore (service_at (chat Secret None (ContentService ''s'' None)))
      (request_of uma (send_command room (ClientMessageId ''k'') (ContentSecret room_envelope) None None None
        False False)) 1 = (sv', Ok rs)
    \<and> handle plain_externals MemoryStore sv'
        (request_of uma (send_command room (ClientMessageId ''k'') (ContentSecret room_envelope) None None None
          False False)) 2
      = (sv', Err (IdempotencyConflict ''k'')))"
proof
  let ?k = "ClientMessageId ''k''"
  have "\<exists>s1 evs. execute (chat Group None hello) (QueueMessage room (stable_message_id plain_externals uma ?k) ?k
      uma hello None None 1 None False False) = (s1, Inr evs)"
    by (simp add: execute_def queue_eval chat_eval get_message_def stable_message_id_def)
  note facts = chat_send [OF this]
  obtain sv' rs where h: "handle plain_externals MemoryStore (service_at (chat Group None hello))
      (request_of uma (send_command room ?k hello None None None False False)) 1 = (sv', Ok rs)"
    "expired_messages (sv_engine sv') 2 = []"
    using facts(3) by blast
  from resend_changes_nothing [OF facts(1) h(1) request_of_simps(1,2) facts(2)] h
  show "\<exists>sv' rs y. handle plain_externals MemoryStore (service_at (chat Group None hello))
      (request_of uma (send_command room (ClientMessageId ''k'') hello None None None False False)) 1 = (sv', Ok rs)
    \<and> m_content y = hello
    \<and> handle plain_externals MemoryStore sv'
        (request_of uma (send_command room (ClientMessageId ''k'') hello None None None False False)) 2
      = (sv', Ok [envelope (sv_cursor sv') 2 (SvMessageChanged y)])"
    by (auto simp: is_secret_content_def)
next
  let ?k = "ClientMessageId ''k''" and ?x = "ContentSecret room_envelope"
  have "\<exists>s1 evs. execute (chat Secret None (ContentService ''s'' None)) (QueueMessage room
      (stable_message_id plain_externals uma ?k) ?k uma ?x None None 1 None False False) = (s1, Inr evs)"
    by (simp add: execute_def queue_eval chat_eval get_message_def stable_message_id_def room_envelope_def)
  note facts = chat_send [OF this]
  obtain sv' rs where h: "handle plain_externals MemoryStore (service_at (chat Secret None (ContentService ''s'' None)))
      (request_of uma (send_command room ?k ?x None None None False False)) 1 = (sv', Ok rs)"
    "expired_messages (sv_engine sv') 2 = []"
    using facts(3) by blast
  from resend_changes_nothing [OF facts(1) h(1) request_of_simps(1,2) facts(2)] h
  show "\<exists>sv' rs. handle plain_externals MemoryStore (service_at (chat Secret None (ContentService ''s'' None)))
      (request_of uma (send_command room (ClientMessageId ''k'') (ContentSecret room_envelope) None None None
        False False)) 1 = (sv', Ok rs)
    \<and> handle plain_externals MemoryStore sv'
        (request_of uma (send_command room (ClientMessageId ''k'') (ContentSecret room_envelope) None None None
          False False)) 2
      = (sv', Err (IdempotencyConflict ''k''))"
    by (auto simp: is_secret_content_def)
qed

section \<open>Edits and deletions\<close>

lemma engine_command_single:
  assumes "idempotent_send_replay ext sv a command now = Ok None"
    and "project_command ext (sv_engine sv) a now command = [cmd]" "execute (sv_engine sv) cmd = (s, Ok (ev # evs))"
  shows "sv_engine (fst (engine_command ext ops sv a command now)) = s"
  using assms by (simp add: engine_command_def Let_def)

text \<open>
  The service lets every actor edit and delete every message. Nothing in the authorization of the
  service or in the engine asks who edits or deletes: for every actor, a member of the conversation
  or a stranger, the request to edit a stored message replaces its content under the name of its
  sender, and the request to delete it deletes it.
\<close>

theorem any_actor_edits_any_message:
  assumes "get_message (sv_engine sv) c m = Some x" "expired_messages (sv_engine sv) now = []"
  shows "get_message (sv_engine (fst (handle ext ops sv (request_of a (ClEditMessage c m new)) now))) c m
      = Some (x\<lparr>m_content := new, m_edited_at_ms := Some now\<rparr>)
    \<and> get_message (sv_engine (fst (handle ext ops sv (request_of a (ClDeleteMessages c [m] b)) now))) c m
      = Some (x\<lparr>m_deleted := True\<rparr>)"
proof -
  note settled = settle_nothing [OF assms(2)]
  have edit: "execute (sv_engine sv) (EditMessage c m new now)
      = (apply_event (sv_engine sv) (MessageEdited c m new now), Ok [MessageEdited c m new now])"
    using assms(1) by (simp add: execute_def decide_EditMessage_def require_message_def)
  have "handle ext ops sv (request_of a (ClEditMessage c m new)) now
      = engine_command ext ops sv a (ClEditMessage c m new) now"
    by (simp add: handle_def settled validate_command_authorization_def handle_command_def)
  moreover have "sv_engine (fst (engine_command ext ops sv a (ClEditMessage c m new) now))
      = apply_event (sv_engine sv) (MessageEdited c m new now)"
    by (rule engine_command_single [OF _ _ edit]) (simp_all add: idempotent_send_replay_def)
  moreover have delete: "execute (sv_engine sv) (DeleteMessages c [m])
      = (apply_event (sv_engine sv) (MessagesDeleted c [m]), Ok [MessagesDeleted c [m]])"
    using assms(1) by (subst execute_delete) (simp_all add: batch_exists_def btree_list_def)
  have "handle ext ops sv (request_of a (ClDeleteMessages c [m] b)) now
      = engine_command ext ops sv a (ClDeleteMessages c [m] b) now"
    by (simp add: handle_def settled validate_command_authorization_def handle_command_def)
  moreover have "sv_engine (fst (engine_command ext ops sv a (ClDeleteMessages c [m] b) now))
      = apply_event (sv_engine sv) (MessagesDeleted c [m])"
    by (rule engine_command_single [OF _ _ delete]) (simp_all add: idempotent_send_replay_def)
  ultimately show ?thesis
    using assms(1) by (simp add: get_message_apply message_after_def)
qed

theorem any_actor_edits_any_message_witness:
  "get_message (sv_engine (fst (handle plain_externals MemoryStore (service_at (chat Group None hello))
      (request_of (ActorId ''stranger'') (ClDeleteMessages room [MessageId ''m''] True)) 1))) room (MessageId ''m'')
    = Some ((first_message hello)\<lparr>m_deleted := True\<rparr>)"
proof -
  have "expired_messages (chat Group None hello) 1 = []"
  proof (rule no_expired)
    show "keys_ok (chat Group None hello)" by (rule chat_keys) simp
  qed (auto simp: get_message_def chat_eval split: if_splits)
  then show ?thesis
    using any_actor_edits_any_message [of "service_at (chat Group None hello)" room "MessageId ''m''"]
    by (simp add: service_at_def)
qed

end
