(* ===== verification/Secret_Chat.thy ===== *)
theory Secret_Chat
  imports Messages
begin

unbundle bit_operations_syntax

text \<open>
  End-to-end encrypted chats of \<open>src/native/mahayana-messaging/src/secret_chat.rs\<close>: sessions with a
  root key per epoch, messages with counters and a replay window, rotation of the key, and encrypted
  backups. The cryptography, the base64 of URLs and the JSON of a backup come from other crates and
  are the record \<open>SecretCrypto\<close>; the bytes of the operating system's random source are an argument.
  Byte arrays are strings; wiping memory has no counterpart.
\<close>

definition SECRET_CHAT_VERSION :: u16 where
  "SECRET_CHAT_VERSION = 1"

definition SECRET_CHAT_ALGORITHM :: string where
  "SECRET_CHAT_ALGORITHM = ''X25519+HKDF-SHA256+XChaCha20Poly1305''"

definition REPLAY_WINDOW_BITS :: nat where
  "REPLAY_WINDOW_BITS = 128"

record SecretPublicKey =
  pk_algorithm :: string
  pk_key_base64 :: string

datatype SecretPrivateKey = SecretPrivateKey (private_bytes: string)

record EncryptedSecretBackup =
  bk_version :: u16
  bk_algorithm :: string
  bk_conversation_id :: ConversationId
  bk_nonce_base64 :: string
  bk_ciphertext_base64 :: string

record SecretBackupPayload =
  bp_conversation_id :: ConversationId
  bp_local_actor_id :: ActorId
  bp_peer_actor_id :: ActorId
  bp_epoch :: u64
  bp_root_key_base64 :: string
  bp_send_counter :: u64
  bp_replay_highest :: u64
  bp_replay_bitmap_base64 :: string

datatype (plugins only: code size) SecretChatError =
    InvalidIdentity
  | EmptyPlaintext
  | RandomFailed string
  | InvalidPeerKey
  | InvalidKey
  | InvalidRecoveryKey
  | KdfFailed
  | EncryptionFailed
  | AuthenticationFailed
  | IdentityMismatch
  | InvalidCounter
  | CounterOverflow
  | ReplayDetected
  | StaleMessage
  | EpochMismatch u64 u64
  | NonMonotonicEpoch u64 u64
  | UnsupportedVersion u16
  | UnsupportedAlgorithm string
  | InvalidSecretEncoding string
  | SecretJson string

record SecretCrypto =
  sc_public :: "string \<Rightarrow> string"
  sc_diffie_hellman :: "string \<Rightarrow> string \<Rightarrow> string"
  sc_hkdf :: "string \<Rightarrow> string \<Rightarrow> string \<Rightarrow> string option"
  sc_encrypt :: "string \<Rightarrow> string \<Rightarrow> string \<Rightarrow> string \<Rightarrow> string option"
  sc_decrypt :: "string \<Rightarrow> string \<Rightarrow> string \<Rightarrow> string \<Rightarrow> string option"
  sc_base64 :: "string \<Rightarrow> string"
  sc_unbase64 :: "string \<Rightarrow> string option"
  sc_to_json :: "SecretBackupPayload \<Rightarrow> (string, string) result"
  sc_from_json :: "string \<Rightarrow> (SecretBackupPayload, string) result"

definition decode_array :: "SecretCrypto \<Rightarrow> nat \<Rightarrow> string \<Rightarrow> string \<Rightarrow> (string, SecretChatError) result" where
  "decode_array cr n value label =
     and_then (ok_or (InvalidSecretEncoding label) (sc_unbase64 cr value)) (\<lambda>bytes.
     if length bytes = n then Ok bytes else Err (InvalidSecretEncoding label))"

definition SecretPublicKey_from_bytes :: "SecretCrypto \<Rightarrow> string \<Rightarrow> SecretPublicKey" where
  "SecretPublicKey_from_bytes cr bytes = \<lparr>pk_algorithm = ''X25519'', pk_key_base64 = sc_base64 cr bytes\<rparr>"

definition SecretPublicKey_to_bytes :: "SecretCrypto \<Rightarrow> SecretPublicKey \<Rightarrow> (string, SecretChatError) result" where
  "SecretPublicKey_to_bytes cr key =
     (if pk_algorithm key \<noteq> ''X25519'' then Err (UnsupportedAlgorithm (pk_algorithm key))
      else decode_array cr 32 (pk_key_base64 key) ''public key'')"

definition generate :: "(string, string) result \<Rightarrow> (SecretPrivateKey, SecretChatError) result" where
  "generate random = and_then (map_err RandomFailed random) (\<lambda>bytes. Ok (SecretPrivateKey bytes))"

definition public_key :: "SecretCrypto \<Rightarrow> SecretPrivateKey \<Rightarrow> SecretPublicKey" where
  "public_key cr key = SecretPublicKey_from_bytes cr (sc_public cr (private_bytes key))"

section \<open>The replay window\<close>

record ReplayWindow =
  rw_highest :: u64
  rw_bitmap :: "128 word"

definition ReplayWindow_default :: ReplayWindow where
  "ReplayWindow_default = \<lparr>rw_highest = 0, rw_bitmap = 0\<rparr>"

definition replay_check :: "ReplayWindow \<Rightarrow> u64 \<Rightarrow> (unit, SecretChatError) result" where
  "replay_check w counter =
     (if counter = 0 then Err InvalidCounter
      else if rw_highest w = 0 \<or> rw_highest w < counter then Ok ()
      else
        let distance = unat (rw_highest w - counter) in
        if REPLAY_WINDOW_BITS \<le> distance then Err StaleMessage
        else if rw_bitmap w AND push_bit distance 1 \<noteq> 0 then Err ReplayDetected
        else Ok ())"

definition replay_mark :: "ReplayWindow \<Rightarrow> u64 \<Rightarrow> ReplayWindow" where
  "replay_mark w counter =
     (if rw_highest w = 0 then \<lparr>rw_highest = counter, rw_bitmap = 1\<rparr>
      else if rw_highest w < counter then
        let shift = unat (counter - rw_highest w) in
        \<lparr>rw_highest = counter,
         rw_bitmap = (if REPLAY_WINDOW_BITS \<le> shift then 1 else push_bit shift (rw_bitmap w) OR 1)\<rparr>
      else
        let distance = unat (rw_highest w - counter) in
        if distance < REPLAY_WINDOW_BITS
        then w\<lparr>rw_bitmap := rw_bitmap w OR push_bit distance 1\<rparr>
        else w)"

section \<open>Sessions\<close>

record SecretChatSession =
  ses_conversation_id :: ConversationId
  ses_local_actor_id :: ActorId
  ses_peer_actor_id :: ActorId
  ses_epoch :: u64
  ses_root_key :: string
  ses_send_counter :: u64
  ses_replay :: ReplayWindow

definition validate_identity ::
  "ConversationId \<Rightarrow> ActorId \<Rightarrow> ActorId \<Rightarrow> u64 \<Rightarrow> (unit, SecretChatError) result"
where
  "validate_identity conversation_id local_actor_id peer_actor_id epoch =
     (if \<not> ConversationId_is_valid conversation_id \<or> \<not> ActorId_is_valid local_actor_id
       \<or> \<not> ActorId_is_valid peer_actor_id \<or> local_actor_id = peer_actor_id \<or> epoch = 0
      then Err InvalidIdentity else Ok ())"

definition derive_root_key ::
  "SecretCrypto \<Rightarrow> ConversationId \<Rightarrow> ActorId \<Rightarrow> ActorId \<Rightarrow> SecretPrivateKey \<Rightarrow> SecretPublicKey \<Rightarrow> u64 \<Rightarrow>
     (string, SecretChatError) result"
where
  "derive_root_key cr conversation_id local_actor_id peer_actor_id local_private_key peer_public_key epoch =
     and_then (SecretPublicKey_to_bytes cr peer_public_key) (\<lambda>peer_public.
     let shared = sc_diffie_hellman cr (private_bytes local_private_key) peer_public in
     if list_all (\<lambda>byte. byte = CHR 0x00) shared then Err InvalidPeerKey
     else
       let (first_actor, second_actor) =
             (if actor_str local_actor_id \<le> actor_str peer_actor_id
              then (actor_str local_actor_id, actor_str peer_actor_id)
              else (actor_str peer_actor_id, actor_str local_actor_id));
           info = ''fabushi-secret-chat-v1|'' @ conversation_str conversation_id @ ''|'' @ first_actor
                    @ ''|'' @ second_actor @ ''|'' @ show_nat (unat epoch)
       in ok_or KdfFailed (sc_hkdf cr (conversation_str conversation_id) shared info))"

definition message_aad :: "ConversationId \<Rightarrow> u64 \<Rightarrow> ActorId \<Rightarrow> ActorId \<Rightarrow> u64 \<Rightarrow> string" where
  "message_aad conversation_id epoch sender_id recipient_id counter =
     ''fabushi-secret-chat-v1|'' @ conversation_str conversation_id @ ''|'' @ show_nat (unat epoch)
       @ ''|'' @ actor_str sender_id @ ''|'' @ actor_str recipient_id @ ''|'' @ show_nat (unat counter)"

definition backup_aad :: "ConversationId \<Rightarrow> string" where
  "backup_aad conversation_id = ''fabushi-secret-backup-v1|'' @ conversation_str conversation_id"

definition establish ::
  "SecretCrypto \<Rightarrow> ConversationId \<Rightarrow> ActorId \<Rightarrow> ActorId \<Rightarrow> SecretPrivateKey \<Rightarrow> SecretPublicKey \<Rightarrow> u64 \<Rightarrow>
     (SecretChatSession, SecretChatError) result"
where
  "establish cr conversation_id local_actor_id peer_actor_id local_private_key peer_public_key epoch =
     and_then (validate_identity conversation_id local_actor_id peer_actor_id epoch) (\<lambda>_.
     and_then (derive_root_key cr conversation_id local_actor_id peer_actor_id local_private_key
                 peer_public_key epoch) (\<lambda>root_key.
     Ok \<lparr>ses_conversation_id = conversation_id, ses_local_actor_id = local_actor_id,
         ses_peer_actor_id = peer_actor_id, ses_epoch = epoch, ses_root_key = root_key,
         ses_send_counter = 0, ses_replay = ReplayWindow_default\<rparr>))"

definition rotate_session ::
  "SecretCrypto \<Rightarrow> SecretChatSession \<Rightarrow> SecretPrivateKey \<Rightarrow> SecretPublicKey \<Rightarrow> u64 \<Rightarrow>
     SecretChatSession \<times> (unit, SecretChatError) result"
where
  "rotate_session cr ses local_private_key peer_public_key next_epoch =
     (if next_epoch \<le> ses_epoch ses
      then (ses, Err (NonMonotonicEpoch (ses_epoch ses) next_epoch))
      else
        (case derive_root_key cr (ses_conversation_id ses) (ses_local_actor_id ses) (ses_peer_actor_id ses)
                local_private_key peer_public_key next_epoch of
           Inl e \<Rightarrow> (ses, Err e)
         | Inr root \<Rightarrow>
             (ses\<lparr>ses_root_key := root, ses_epoch := next_epoch, ses_send_counter := 0,
                  ses_replay := ReplayWindow_default\<rparr>, Ok ())))"

text \<open>\<open>XChaCha20Poly1305::new_from_slice\<close> refuses keys that have not 32 bytes.\<close>

definition with_key :: "SecretChatError \<Rightarrow> string \<Rightarrow> (string, SecretChatError) result" where
  "with_key e key = (if length key = 32 then Ok key else Err e)"

definition encrypt_secret ::
  "SecretCrypto \<Rightarrow> SecretChatSession \<Rightarrow> (string, string) result \<Rightarrow> string \<Rightarrow>
     SecretChatSession \<times> (EncryptedSecretMessage, SecretChatError) result"
where
  "encrypt_secret cr ses random plaintext =
     (if plaintext = [] then (ses, Err EmptyPlaintext)
      else
     (case checked_add_u64 (ses_send_counter ses) 1 of
        None \<Rightarrow> (ses, Err CounterOverflow)
      | Some counter \<Rightarrow>
          let ses = ses\<lparr>ses_send_counter := counter\<rparr> in
          (ses,
           and_then (map_err RandomFailed random) (\<lambda>nonce.
           let aad = message_aad (ses_conversation_id ses) (ses_epoch ses) (ses_local_actor_id ses)
                       (ses_peer_actor_id ses) (ses_send_counter ses) in
           and_then (with_key InvalidKey (ses_root_key ses)) (\<lambda>key.
           and_then (ok_or EncryptionFailed (sc_encrypt cr key nonce aad plaintext)) (\<lambda>ciphertext.
           Ok \<lparr>es_version = SECRET_CHAT_VERSION, es_algorithm = SECRET_CHAT_ALGORITHM,
               es_conversation_id = ses_conversation_id ses, es_epoch = ses_epoch ses,
               es_sender_id = ses_local_actor_id ses, es_recipient_id = ses_peer_actor_id ses,
               es_counter = ses_send_counter ses, es_nonce_base64 = sc_base64 cr nonce,
               es_ciphertext_base64 = sc_base64 cr ciphertext\<rparr>))))))"

definition open_secret ::
  "SecretCrypto \<Rightarrow> SecretChatSession \<Rightarrow> EncryptedSecretMessage \<Rightarrow> (string, SecretChatError) result"
where
  "open_secret cr ses env =
     (if es_version env \<noteq> SECRET_CHAT_VERSION then Err (UnsupportedVersion (es_version env))
      else if es_algorithm env \<noteq> SECRET_CHAT_ALGORITHM then Err (UnsupportedAlgorithm (es_algorithm env))
      else if es_conversation_id env \<noteq> ses_conversation_id ses \<or> es_sender_id env \<noteq> ses_peer_actor_id ses
            \<or> es_recipient_id env \<noteq> ses_local_actor_id ses
      then Err IdentityMismatch
      else if es_epoch env \<noteq> ses_epoch ses then Err (EpochMismatch (ses_epoch ses) (es_epoch env))
      else
        and_then (replay_check (ses_replay ses) (es_counter env)) (\<lambda>_.
        and_then (decode_array cr 24 (es_nonce_base64 env) ''message nonce'') (\<lambda>nonce.
        and_then (ok_or (InvalidSecretEncoding ''ciphertext'') (sc_unbase64 cr (es_ciphertext_base64 env)))
          (\<lambda>ciphertext.
        let aad = message_aad (ses_conversation_id ses) (ses_epoch ses) (es_sender_id env)
                    (es_recipient_id env) (es_counter env) in
        and_then (with_key InvalidKey (ses_root_key ses)) (\<lambda>key.
        ok_or AuthenticationFailed (sc_decrypt cr key nonce aad ciphertext))))))"

definition decrypt_secret ::
  "SecretCrypto \<Rightarrow> SecretChatSession \<Rightarrow> EncryptedSecretMessage \<Rightarrow>
     SecretChatSession \<times> (string, SecretChatError) result"
where
  "decrypt_secret cr ses env =
     (case open_secret cr ses env of
        Inl e \<Rightarrow> (ses, Err e)
      | Inr plaintext \<Rightarrow>
          (ses\<lparr>ses_replay := replay_mark (ses_replay ses) (es_counter env)\<rparr>, Ok plaintext))"

section \<open>Backups\<close>

text \<open>\<open>u128::to_be_bytes\<close> and \<open>u128::from_be_bytes\<close>\<close>

fun be_bytes :: "nat \<Rightarrow> nat \<Rightarrow> string" where
  "be_bytes 0 n = []"
| "be_bytes (Suc k) n = be_bytes k (n div 256) @ [char_of (n mod 256)]"

definition of_be_bytes :: "string \<Rightarrow> nat" where
  "of_be_bytes bytes = foldl (\<lambda>acc byte. 256 * acc + of_char byte) 0 bytes"

definition backup_payload :: "SecretCrypto \<Rightarrow> SecretChatSession \<Rightarrow> SecretBackupPayload" where
  "backup_payload cr ses =
     \<lparr>bp_conversation_id = ses_conversation_id ses, bp_local_actor_id = ses_local_actor_id ses,
      bp_peer_actor_id = ses_peer_actor_id ses, bp_epoch = ses_epoch ses,
      bp_root_key_base64 = sc_base64 cr (ses_root_key ses), bp_send_counter = ses_send_counter ses,
      bp_replay_highest = rw_highest (ses_replay ses),
      bp_replay_bitmap_base64 = sc_base64 cr (be_bytes 16 (unat (rw_bitmap (ses_replay ses))))\<rparr>"

definition backup ::
  "SecretCrypto \<Rightarrow> SecretChatSession \<Rightarrow> (string, string) result \<Rightarrow> string \<Rightarrow>
     (EncryptedSecretBackup, SecretChatError) result"
where
  "backup cr ses random recovery_key =
     and_then (map_err SecretJson (sc_to_json cr (backup_payload cr ses))) (\<lambda>encoded.
     and_then (map_err RandomFailed random) (\<lambda>nonce.
     and_then (with_key InvalidRecoveryKey recovery_key) (\<lambda>key.
     and_then (ok_or EncryptionFailed
                 (sc_encrypt cr key nonce (backup_aad (ses_conversation_id ses)) encoded)) (\<lambda>encrypted.
     Ok \<lparr>bk_version = SECRET_CHAT_VERSION, bk_algorithm = ''XChaCha20Poly1305'',
         bk_conversation_id = ses_conversation_id ses, bk_nonce_base64 = sc_base64 cr nonce,
         bk_ciphertext_base64 = sc_base64 cr encrypted\<rparr>))))"

definition restore ::
  "SecretCrypto \<Rightarrow> EncryptedSecretBackup \<Rightarrow> string \<Rightarrow> (SecretChatSession, SecretChatError) result"
where
  "restore cr bk recovery_key =
     (if bk_version bk \<noteq> SECRET_CHAT_VERSION then Err (UnsupportedVersion (bk_version bk))
      else if bk_algorithm bk \<noteq> ''XChaCha20Poly1305'' then Err (UnsupportedAlgorithm (bk_algorithm bk))
      else
        and_then (decode_array cr 24 (bk_nonce_base64 bk) ''backup nonce'') (\<lambda>nonce.
        and_then (ok_or (InvalidSecretEncoding ''backup ciphertext'')
                    (sc_unbase64 cr (bk_ciphertext_base64 bk))) (\<lambda>encrypted.
        and_then (with_key InvalidRecoveryKey recovery_key) (\<lambda>key.
        and_then (ok_or AuthenticationFailed
                    (sc_decrypt cr key nonce (backup_aad (bk_conversation_id bk)) encrypted)) (\<lambda>plaintext.
        and_then (map_err SecretJson (sc_from_json cr plaintext)) (\<lambda>payload.
        if bp_conversation_id payload \<noteq> bk_conversation_id bk then Err IdentityMismatch
        else
          and_then (validate_identity (bp_conversation_id payload) (bp_local_actor_id payload)
                      (bp_peer_actor_id payload) (bp_epoch payload)) (\<lambda>_.
          and_then (decode_array cr 32 (bp_root_key_base64 payload) ''root key'') (\<lambda>root_key.
          and_then (decode_array cr 16 (bp_replay_bitmap_base64 payload) ''replay bitmap'') (\<lambda>bitmap.
          Ok \<lparr>ses_conversation_id = bp_conversation_id payload,
              ses_local_actor_id = bp_local_actor_id payload,
              ses_peer_actor_id = bp_peer_actor_id payload, ses_epoch = bp_epoch payload,
              ses_root_key = root_key, ses_send_counter = bp_send_counter payload,
              ses_replay = \<lparr>rw_highest = bp_replay_highest payload,
                            rw_bitmap = of_nat (of_be_bytes bitmap)\<rparr>\<rparr>)))))))))"

section \<open>The replay window is a set\<close>

text \<open>
  What the window stands for: the set of the counters it has accepted. The highest counter is the
  greatest of the set, and below it the bitmap has the 128 last counters of the set.
\<close>

definition window_of :: "nat set \<Rightarrow> ReplayWindow \<Rightarrow> bool" where
  "window_of seen w \<longleftrightarrow>
     0 \<notin> seen \<and> (\<forall>n \<in> seen. n \<le> unat (rw_highest w))
   \<and> (rw_highest w \<noteq> 0 \<longrightarrow> unat (rw_highest w) \<in> seen)
   \<and> (\<forall>d. d < 128 \<and> d < unat (rw_highest w) \<longrightarrow>
        bit (rw_bitmap w) d = (unat (rw_highest w) - d \<in> seen))"

text \<open>What the window accepts: new counters that are not further back than its 128 bits.\<close>

definition acceptable :: "nat set \<Rightarrow> u64 \<Rightarrow> bool" where
  "acceptable seen counter \<longleftrightarrow>
     counter \<noteq> 0 \<and> unat counter \<notin> seen \<and> (\<forall>n \<in> seen. n < unat counter + 128)"

lemma window_of_default [simp]: "window_of {} ReplayWindow_default"
  by (simp add: window_of_def ReplayWindow_default_def)

lemma unat_difference: "c \<le> h \<Longrightarrow> unat (h - c :: u64) = unat h - unat c"
  by (simp add: unat_sub)

lemma replay_check_acceptable:
  assumes "window_of seen w"
  shows "replay_check w c = Ok () \<longleftrightarrow> acceptable seen c"
proof -
  let ?h = "rw_highest w"
  note inv = assms [unfolded window_of_def]
  consider (zero) "c = 0" | (fresh) "c \<noteq> 0" "?h = 0" | (above) "c \<noteq> 0" "?h \<noteq> 0" "?h < c"
    | (within) "c \<noteq> 0" "?h \<noteq> 0" "c \<le> ?h" by fastforce
  then show ?thesis
  proof cases
    case fresh
    with inv have "seen = {}" by auto
    with fresh show ?thesis by (simp add: replay_check_def acceptable_def)
  next
    case above
    then have "unat ?h < unat c" by (simp add: word_less_nat_alt)
    with above inv show ?thesis
      by (fastforce simp: replay_check_def acceptable_def)
  next
    case within
    then have le: "unat c \<le> unat ?h" and pos: "0 < unat c"
      by (simp_all add: word_le_nat_alt unat_gt_0)
    then have d: "unat (?h - c) = unat ?h - unat c" using within by (simp add: unat_difference)
    have "\<not> ?h < c" using within by simp
    then have "replay_check w c = Ok () \<longleftrightarrow> unat ?h - unat c < 128 \<and> \<not> bit (rw_bitmap w) (unat ?h - unat c)"
      using within by (simp add: replay_check_def Let_def d REPLAY_WINDOW_BITS_def and_exp_eq_0_iff_not_bit not_le)
    also have "\<dots> \<longleftrightarrow> unat ?h - unat c < 128 \<and> unat c \<notin> seen"
      using inv le pos by (auto simp: diff_diff_cancel)
    also have "\<dots> \<longleftrightarrow> acceptable seen c"
    proof
      assume *: "unat ?h - unat c < 128 \<and> unat c \<notin> seen"
      have "n < unat c + 128" if "n \<in> seen" for n
        using inv that * le by fastforce
      with * within show "acceptable seen c" by (simp add: acceptable_def)
    next
      assume "acceptable seen c"
      with inv within le show "unat ?h - unat c < 128 \<and> unat c \<notin> seen"
        by (auto simp: acceptable_def)
    qed
    finally show ?thesis .
  qed (simp add: replay_check_def acceptable_def)
qed

lemma replay_mark_window:
  assumes "window_of seen w" "acceptable seen c"
  shows "window_of (insert (unat c) seen) (replay_mark w c)"
proof -
  let ?h = "rw_highest w"
  note inv = assms(1) [unfolded window_of_def]
  have c: "c \<noteq> 0" "0 < unat c" using assms(2) by (auto simp: acceptable_def unat_gt_0)
  consider (fresh) "?h = 0" | (above) "?h \<noteq> 0" "?h < c" | (within) "?h \<noteq> 0" "c \<le> ?h" by fastforce
  then show ?thesis
  proof cases
    case fresh
    with inv have "seen = {}" by auto
    with fresh c show ?thesis
      by (auto simp: replay_mark_def window_of_def bit_1_iff)
  next
    case above
    then have lt: "unat ?h < unat c" by (simp add: word_less_nat_alt)
    define k where "k = unat c - unat ?h"
    have k: "unat (c - ?h) = k" "0 < k" "unat c = unat ?h + k"
      using above lt by (simp_all add: k_def unat_difference)
    have mark: "replay_mark w c = \<lparr>rw_highest = c,
        rw_bitmap = (if 128 \<le> k then 1 else push_bit k (rw_bitmap w) OR 1)\<rparr>"
      using above by (simp add: replay_mark_def Let_def k REPLAY_WINDOW_BITS_def)
    have bits: "bit (if 128 \<le> k then 1 else push_bit k (rw_bitmap w) OR 1) d
        = (unat c - d \<in> insert (unat c) seen)" if "d < 128" "d < unat c" for d
    proof (cases "d = 0")
      case False
      then have "unat c - d \<in> insert (unat c) seen \<longleftrightarrow> unat c - d \<in> seen" using that by auto
      moreover have "unat c - d \<in> seen \<longleftrightarrow> k \<le> d \<and> bit (rw_bitmap w) (d - k)"
      proof (cases "k \<le> d")
        case True
        then have "unat c - d = unat ?h - (d - k)" "d - k < unat ?h" "d - k < 128"
          using k(3) that by auto
        with inv True show ?thesis by simp
      next
        case False
        then have "unat ?h < unat c - d" using k(3) that by auto
        with inv False show ?thesis by fastforce
      qed
      ultimately show ?thesis
        using False that by (auto simp: bit_simps)
    qed (auto simp: bit_simps)
    show ?thesis
      unfolding mark window_of_def using inv c lt bits by (auto dest: order_trans less_imp_le)
  next
    case within
    then have le: "unat c \<le> unat ?h" by (simp add: word_le_nat_alt)
    define k where "k = unat ?h - unat c"
    have k: "unat (?h - c) = k" "unat ?h = unat c + k" "k < unat ?h"
      using within le c by (simp_all add: k_def unat_difference)
    have "unat ?h \<in> seen" using inv within by simp
    then have "k < 128" using assms(2) k(2) by (auto simp: acceptable_def)
    then have mark: "replay_mark w c = w\<lparr>rw_bitmap := rw_bitmap w OR push_bit k 1\<rparr>"
      using within by (simp add: replay_mark_def Let_def k REPLAY_WINDOW_BITS_def)
    have "bit (rw_bitmap w OR push_bit k 1) d = (unat ?h - d \<in> insert (unat c) seen)"
      if "d < 128" "d < unat ?h" for d
      using inv that k(2) \<open>k < 128\<close> by (auto simp: bit_simps)
    with inv c le show ?thesis
      unfolding mark window_of_def by auto
  qed
qed

section \<open>Runs of a session\<close>

datatype SessionOp =
    Say "(string, string) result" string
  | Hear EncryptedSecretMessage
  | Rotate SecretPrivateKey SecretPublicKey u64

text \<open>A session with the epochs and counters of what it sent and of what it accepted.\<close>

record SessionRun =
  run_session :: SecretChatSession
  run_said :: "(u64 \<times> u64) list"
  run_heard :: "(u64 \<times> u64) list"

primrec session_step :: "SecretCrypto \<Rightarrow> SessionRun \<Rightarrow> SessionOp \<Rightarrow> SessionRun" where
  "session_step cr r (Say random plaintext) =
     (case encrypt_secret cr (run_session r) random plaintext of
        (ses, res) \<Rightarrow> r\<lparr>run_session := ses,
          run_said := (case res of Inl _ \<Rightarrow> [] | Inr env \<Rightarrow> [(es_epoch env, es_counter env)]) @ run_said r\<rparr>)"
| "session_step cr r (Hear env) =
     (case decrypt_secret cr (run_session r) env of
        (ses, res) \<Rightarrow> r\<lparr>run_session := ses,
          run_heard := (case res of Inl _ \<Rightarrow> [] | Inr _ \<Rightarrow> [(es_epoch env, es_counter env)]) @ run_heard r\<rparr>)"
| "session_step cr r (Rotate key peer epoch) =
     r\<lparr>run_session := fst (rotate_session cr (run_session r) key peer epoch)\<rparr>"

definition heard_in :: "SessionRun \<Rightarrow> nat set" where
  "heard_in r = {unat counter | counter. (ses_epoch (run_session r), counter) \<in> set (run_heard r)}"

definition run_inv :: "SessionRun \<Rightarrow> bool" where
  "run_inv r \<longleftrightarrow>
     distinct (run_said r) \<and> distinct (run_heard r)
   \<and> (\<forall>(epoch, counter) \<in> set (run_heard r). epoch \<le> ses_epoch (run_session r))
   \<and> (\<forall>(epoch, counter) \<in> set (run_said r). epoch < ses_epoch (run_session r)
        \<or> (epoch = ses_epoch (run_session r) \<and> counter \<le> ses_send_counter (run_session r)))
   \<and> window_of (heard_in r) (ses_replay (run_session r))"

lemma open_secret_Ok:
  "open_secret cr ses env = Ok p \<Longrightarrow>
     replay_check (ses_replay ses) (es_counter env) = Ok () \<and> es_epoch env = ses_epoch ses"
  by (auto simp: open_secret_def result_simps Let_def split: if_splits)

lemma encrypt_secret_cases:
  obtains (same) e where "encrypt_secret cr ses random p = (ses, Err e)"
  | (failed) counter e where "unat counter = unat (ses_send_counter ses) + 1"
      "encrypt_secret cr ses random p = (ses\<lparr>ses_send_counter := counter\<rparr>, Err e)"
  | (sent) counter env where "unat counter = unat (ses_send_counter ses) + 1"
      "encrypt_secret cr ses random p = (ses\<lparr>ses_send_counter := counter\<rparr>, Ok env)"
      "es_epoch env = ses_epoch ses" "es_counter env = counter"
proof (cases "p = [] \<or> checked_add_u64 (ses_send_counter ses) 1 = None")
  case True
  then have "\<exists>e. encrypt_secret cr ses random p = (ses, Err e)" by (auto simp: encrypt_secret_def)
  then show ?thesis using same by blast
next
  case False
  then obtain counter where c: "p \<noteq> []" "checked_add_u64 (ses_send_counter ses) 1 = Some counter" by auto
  then have n: "unat counter = unat (ses_send_counter ses) + 1"
    by (simp add: checked_add_u64_Some_iff)
  have ses: "fst (encrypt_secret cr ses random p) = ses\<lparr>ses_send_counter := counter\<rparr>"
    using c by (simp add: encrypt_secret_def Let_def)
  show ?thesis
  proof (cases "snd (encrypt_secret cr ses random p)")
    case (Inl e)
    with ses failed [OF n, of e] show ?thesis by (simp add: prod_eq_iff)
  next
    case (Inr env)
    then have "es_epoch env = ses_epoch ses" "es_counter env = counter"
      using c by (auto simp: encrypt_secret_def Let_def result_simps)
    with Inr ses sent [OF n, of env] show ?thesis by (simp add: prod_eq_iff)
  qed
qed

lemma run_inv_say:
  assumes "run_inv r"
  shows "run_inv (session_step cr r (Say random p))"
proof (cases rule: encrypt_secret_cases [of cr "run_session r" random p])
  case (failed counter e)
  then have le: "ses_send_counter (run_session r) \<le> counter" by (simp add: word_le_nat_alt)
  with assms failed show ?thesis
    by (auto simp: run_inv_def heard_in_def dest: order_trans)
next
  case (sent counter env)
  then have lt: "ses_send_counter (run_session r) < counter" by (simp add: word_less_nat_alt)
  with assms have "(ses_epoch (run_session r), counter) \<notin> set (run_said r)"
    by (auto simp: run_inv_def)
  with assms sent lt show ?thesis
    by (auto simp: run_inv_def heard_in_def dest: less_imp_le order_trans)
qed (use assms in simp)

lemma run_inv_hear:
  assumes "run_inv r"
  shows "run_inv (session_step cr r (Hear env))"
proof (cases "open_secret cr (run_session r) env")
  case (Inl e)
  with assms show ?thesis by (simp add: decrypt_secret_def)
next
  case (Inr p)
  let ?e = "ses_epoch (run_session r)" and ?c = "es_counter env"
  have ok: "replay_check (ses_replay (run_session r)) ?c = Ok ()" "es_epoch env = ?e"
    using open_secret_Ok [OF Inr] by auto
  have window: "window_of (heard_in r) (ses_replay (run_session r))"
    using assms by (simp add: run_inv_def)
  then have acc: "acceptable (heard_in r) ?c"
    using ok(1) replay_check_acceptable by blast
  then have new: "(?e, ?c) \<notin> set (run_heard r)"
    by (auto simp: acceptable_def heard_in_def)
  let ?r = "session_step cr r (Hear env)"
  have step: "?r = r\<lparr>run_session := (run_session r)\<lparr>ses_replay := replay_mark (ses_replay (run_session r)) ?c\<rparr>,
      run_heard := (?e, ?c) # run_heard r\<rparr>"
    using Inr ok(2) by (simp add: decrypt_secret_def)
  have "heard_in ?r = insert (unat ?c) (heard_in r)"
    unfolding step by (auto simp: heard_in_def)
  with replay_mark_window [OF window acc] have "window_of (heard_in ?r) (ses_replay (run_session ?r))"
    unfolding step by simp
  with assms new show ?thesis
    unfolding step run_inv_def by auto
qed

lemma run_inv_rotate:
  assumes "run_inv r"
  shows "run_inv (session_step cr r (Rotate key peer epoch))"
proof (cases "snd (rotate_session cr (run_session r) key peer epoch)")
  case (Inl e)
  then have "fst (rotate_session cr (run_session r) key peer epoch) = run_session r"
    by (auto simp: rotate_session_def split: if_splits sum.splits)
  with assms show ?thesis by simp
next
  case (Inr u)
  then obtain root where ses: "fst (rotate_session cr (run_session r) key peer epoch)
      = (run_session r)\<lparr>ses_root_key := root, ses_epoch := epoch, ses_send_counter := 0,
          ses_replay := ReplayWindow_default\<rparr>" "ses_epoch (run_session r) < epoch"
    by (auto simp: rotate_session_def split: if_splits sum.splits)
  let ?r = "session_step cr r (Rotate key peer epoch)"
  have "\<forall>(e, c) \<in> set (run_heard r). e < epoch" "\<forall>(e, c) \<in> set (run_said r). e < epoch"
    using assms ses(2) by (auto simp: run_inv_def)
  moreover from this have "heard_in ?r = {}" by (auto simp: heard_in_def ses)
  ultimately show ?thesis
    using assms by (auto simp: run_inv_def ses)
qed

interpretation secret: component "session_step cr" run_inv
proof
  fix r opn
  assume "run_inv r"
  then show "run_inv (session_step cr r opn)"
    by (cases opn) (auto simp del: session_step.simps intro: run_inv_say run_inv_hear run_inv_rotate)
qed

section \<open>Round trips\<close>

text \<open>What the sessions rely on in the crates they call: decryption undoes encryption, and decoding encoding.\<close>

definition crypto_laws :: "SecretCrypto \<Rightarrow> bool" where
  "crypto_laws cr \<longleftrightarrow>
     (\<forall>key nonce aad msg ct. sc_encrypt cr key nonce aad msg = Some ct \<longrightarrow>
        sc_decrypt cr key nonce aad ct = Some msg)
   \<and> (\<forall>bytes. sc_unbase64 cr (sc_base64 cr bytes) = Some bytes)
   \<and> (\<forall>payload json. sc_to_json cr payload = Ok json \<longrightarrow> sc_from_json cr json = Ok payload)"

text \<open>Diffie-Hellman: both sides compute the same secret, from public keys of 32 bytes.\<close>

definition agreement_laws :: "SecretCrypto \<Rightarrow> bool" where
  "agreement_laws cr \<longleftrightarrow>
     (\<forall>a b. sc_diffie_hellman cr a (sc_public cr b) = sc_diffie_hellman cr b (sc_public cr a))
   \<and> (\<forall>a. length (sc_public cr a) = 32)"

lemma of_be_bytes_snoc: "of_be_bytes (bytes @ [b]) = 256 * of_be_bytes bytes + of_char b"
  by (simp add: of_be_bytes_def)

lemma be_bytes_roundtrip: "of_be_bytes (be_bytes k n) = n mod 256 ^ k"
proof (induction k arbitrary: n)
  case (Suc k)
  have "n mod (256 * 256 ^ k) = 256 * (n div 256 mod 256 ^ k) + n mod 256"
    by (rule mod_mult2_eq)
  with Suc show ?case by (simp add: of_be_bytes_snoc)
qed (simp add: of_be_bytes_def)

lemma length_be_bytes [simp]: "length (be_bytes k n) = k"
  by (induction k arbitrary: n) simp_all

lemma bitmap_roundtrip: "of_nat (of_be_bytes (be_bytes 16 (unat (w :: 128 word)))) = w"
proof -
  have "unat w < 256 ^ 16"
    using unsigned_less [where 'a = nat and w = w] by simp
  then show ?thesis by (simp add: be_bytes_roundtrip)
qed

definition paired :: "SecretChatSession \<Rightarrow> SecretChatSession \<Rightarrow> bool" where
  "paired a b \<longleftrightarrow>
     ses_conversation_id b = ses_conversation_id a \<and> ses_local_actor_id b = ses_peer_actor_id a
   \<and> ses_peer_actor_id b = ses_local_actor_id a \<and> ses_epoch b = ses_epoch a
   \<and> ses_root_key b = ses_root_key a"

lemma open_encrypted:
  assumes "crypto_laws cr" "paired a b" "encrypt_secret cr a (Ok nonce) p = (a', Ok env)" "length nonce = 24"
  shows "open_secret cr b env = and_then (replay_check (ses_replay b) (es_counter env)) (\<lambda>_. Ok p)"
proof -
  obtain counter ct where env: "env = \<lparr>es_version = SECRET_CHAT_VERSION, es_algorithm = SECRET_CHAT_ALGORITHM,
      es_conversation_id = ses_conversation_id a, es_epoch = ses_epoch a,
      es_sender_id = ses_local_actor_id a, es_recipient_id = ses_peer_actor_id a,
      es_counter = counter, es_nonce_base64 = sc_base64 cr nonce, es_ciphertext_base64 = sc_base64 cr ct\<rparr>"
    and ct: "sc_encrypt cr (ses_root_key a) nonce (message_aad (ses_conversation_id a) (ses_epoch a)
        (ses_local_actor_id a) (ses_peer_actor_id a) counter) p = Some ct" "length (ses_root_key a) = 32"
    using assms(3)
    by (auto simp: encrypt_secret_def Let_def result_simps with_key_def split: if_splits option.splits)
  show ?thesis
    using assms(1,2,4) ct
    by (simp add: open_secret_def env paired_def decode_array_def crypto_laws_def with_key_def Let_def)
qed

section \<open>Crates for the witnesses\<close>

definition demo_session :: "ActorId \<Rightarrow> ActorId \<Rightarrow> SecretChatSession" where
  "demo_session a b = \<lparr>ses_conversation_id = ConversationId ''c'', ses_local_actor_id = a,
     ses_peer_actor_id = b, ses_epoch = 1, ses_root_key = replicate 32 CHR ''k'', ses_send_counter = 0,
     ses_replay = ReplayWindow_default\<rparr>"

definition demo_payload :: SecretBackupPayload where
  "demo_payload = \<lparr>bp_conversation_id = ConversationId ''c'', bp_local_actor_id = ActorId ''a'',
     bp_peer_actor_id = ActorId ''b'', bp_epoch = 1, bp_root_key_base64 = replicate 32 CHR ''k'',
     bp_send_counter = 0, bp_replay_highest = 0, bp_replay_bitmap_base64 = be_bytes 16 0\<rparr>"

definition demo_crypto :: SecretCrypto where
  "demo_crypto = \<lparr>sc_public = (\<lambda>_. replicate 32 CHR ''p''), sc_diffie_hellman = (\<lambda>_ _. replicate 32 CHR ''s''),
     sc_hkdf = (\<lambda>_ _ _. Some (replicate 32 CHR ''k'')), sc_encrypt = (\<lambda>_ _ _ msg. Some msg),
     sc_decrypt = (\<lambda>_ _ _ ct. Some ct), sc_base64 = (\<lambda>bytes. bytes), sc_unbase64 = Some,
     sc_to_json = (\<lambda>payload. if payload = demo_payload then Ok ''j'' else Err []),
     sc_from_json = (\<lambda>_. Ok demo_payload)\<rparr>"

lemma demo_laws: "crypto_laws demo_crypto" "agreement_laws demo_crypto"
  by (auto simp: crypto_laws_def agreement_laws_def demo_crypto_def split: if_splits)

lemma demo_valid: "validate_identity (ConversationId ''c'') (ActorId ''a'') (ActorId ''b'') 1 = Ok ()"
  by (simp add: validate_identity_def ConversationId_is_valid_def ActorId_is_valid_def trim_def ws1_def)

lemma demo_establish:
  "establish demo_crypto (ConversationId ''c'') (ActorId ''a'') (ActorId ''b'') (SecretPrivateKey [])
     (public_key demo_crypto (SecretPrivateKey [])) 1 = Ok (demo_session (ActorId ''a'') (ActorId ''b''))"
  by (simp add: establish_def demo_valid derive_root_key_def SecretPublicKey_to_bytes_def public_key_def
      SecretPublicKey_from_bytes_def decode_array_def demo_crypto_def demo_session_def Let_def list_all_iff)

lemma demo_encrypt:
  "\<exists>a' env. encrypt_secret demo_crypto (demo_session (ActorId ''a'') (ActorId ''b'')) (Ok (replicate 24 CHR ''n''))
     ''hi'' = (a', Ok env) \<and> es_counter env = 1"
  by (simp add: encrypt_secret_def demo_session_def checked_add_u64_def with_key_def demo_crypto_def Let_def)

section \<open>Properties\<close>

text \<open>
  C17: the replay window implements the set of accepted counters. A window that stands for a set of
  counters accepts exactly the counters that are not zero, not in the set, and less than 128 behind
  every counter of the set; and after accepting one it stands for the set with that counter added,
  whether the counter advanced the window, jumped past it or filled a gap.
\<close>

theorem replay_window_refines_set:
  assumes "window_of seen w"
  shows "(replay_check w c = Ok () \<longleftrightarrow> acceptable seen c)
    \<and> (replay_check w c = Ok () \<longrightarrow> window_of (insert (unat c) seen) (replay_mark w c))"
  using replay_check_acceptable [OF assms] replay_mark_window [OF assms] by blast

theorem replay_window_refines_set_witness:
  "replay_check ReplayWindow_default 5 = Ok () \<and> window_of {5} (replay_mark ReplayWindow_default 5)"
proof -
  have "replay_check ReplayWindow_default 5 = Ok ()"
    by (simp add: replay_check_def ReplayWindow_default_def)
  then show ?thesis using replay_window_refines_set [of "{}" ReplayWindow_default 5] by simp
qed

definition fresh_run :: "SecretChatSession \<Rightarrow> SessionRun" where
  "fresh_run ses = \<lparr>run_session = ses, run_said = [], run_heard = []\<rparr>"

text \<open>
  C18: no message is accepted twice and no counter is used twice. Whatever a session sends, receives
  and rotates after it was established, in whatever order, all messages it has accepted have
  different epochs or counters, and so have all messages it has sent. In particular the associated
  data of two messages of a session are never for the same epoch and counter.
\<close>

theorem secret_session_no_replay:
  assumes "establish cr c a b key peer epoch = Ok ses"
  shows "distinct (run_heard (foldl (session_step cr) (fresh_run ses) opns))
    \<and> distinct (run_said (foldl (session_step cr) (fresh_run ses) opns))"
proof -
  have "ses_replay ses = ReplayWindow_default"
    using assms by (auto simp: establish_def result_simps)
  then have "run_inv (fresh_run ses)"
    by (simp add: run_inv_def fresh_run_def heard_in_def)
  from secret.run_inv [OF this, of cr opns] show ?thesis by (simp add: run_inv_def)
qed

theorem secret_session_no_replay_witness:
  "distinct (run_heard (foldl (session_step demo_crypto)
      (fresh_run (demo_session (ActorId ''a'') (ActorId ''b''))) [Say (Ok (replicate 24 CHR ''n'')) ''hi'']))
   \<and> distinct (run_said (foldl (session_step demo_crypto)
      (fresh_run (demo_session (ActorId ''a'') (ActorId ''b''))) [Say (Ok (replicate 24 CHR ''n'')) ''hi'']))"
  by (rule secret_session_no_replay [OF demo_establish])

text \<open>
  C19: what one side encrypts, the other side decrypts, once. For paired sessions, over crates whose
  decryption undoes their encryption, a message is decrypted to its plaintext whenever the receiver
  has not yet accepted its counter and has accepted nothing 128 or more counters ahead, however many
  messages before it were lost; delivered a second time it is refused and changes nothing.
\<close>

theorem secret_message_roundtrip:
  assumes "crypto_laws cr" "paired a b" "encrypt_secret cr a (Ok nonce) p = (a', Ok env)" "length nonce = 24"
    and "window_of seen (ses_replay b)" "acceptable seen (es_counter env)"
  shows "\<exists>b'. decrypt_secret cr b env = (b', Ok p) \<and> paired a' b'
    \<and> (\<exists>e. decrypt_secret cr b' env = (b', Err e))"
proof -
  let ?b = "b\<lparr>ses_replay := replay_mark (ses_replay b) (es_counter env)\<rparr>"
  have "replay_check (ses_replay b) (es_counter env) = Ok ()"
    using replay_check_acceptable [OF assms(5)] assms(6) by blast
  then have first: "decrypt_secret cr b env = (?b, Ok p)"
    using open_encrypted [OF assms(1-4)] by (simp add: decrypt_secret_def)
  have pair: "paired a ?b" using assms(2) by (simp add: paired_def)
  have "window_of (insert (unat (es_counter env)) seen) (ses_replay ?b)"
    using replay_mark_window [OF assms(5,6)] by simp
  moreover have "\<not> acceptable (insert (unat (es_counter env)) seen) (es_counter env)"
    by (simp add: acceptable_def)
  ultimately have "replay_check (ses_replay ?b) (es_counter env) \<noteq> Ok ()"
    using replay_check_acceptable by blast
  then obtain e where "replay_check (ses_replay ?b) (es_counter env) = Err e"
    by (cases "replay_check (ses_replay ?b) (es_counter env)") auto
  then have "decrypt_secret cr ?b env = (?b, Err e)"
    using open_encrypted [OF assms(1) pair assms(3,4)] by (simp add: decrypt_secret_def)
  moreover have "paired a' ?b"
    using assms(3) pair
    by (cases rule: encrypt_secret_cases [of cr a "Ok nonce" p]) (auto simp: paired_def)
  ultimately show ?thesis using first by blast
qed

theorem secret_message_roundtrip_witness:
  "\<exists>a' env b'. encrypt_secret demo_crypto (demo_session (ActorId ''a'') (ActorId ''b''))
      (Ok (replicate 24 CHR ''n'')) ''hi'' = (a', Ok env)
    \<and> decrypt_secret demo_crypto (demo_session (ActorId ''b'') (ActorId ''a'')) env = (b', Ok ''hi'')"
proof -
  obtain a' env where env: "encrypt_secret demo_crypto (demo_session (ActorId ''a'') (ActorId ''b''))
      (Ok (replicate 24 CHR ''n'')) ''hi'' = (a', Ok env)" "es_counter env = 1"
    using demo_encrypt by blast
  have "paired (demo_session (ActorId ''a'') (ActorId ''b'')) (demo_session (ActorId ''b'') (ActorId ''a''))"
    "window_of {} (ses_replay (demo_session (ActorId ''b'') (ActorId ''a'')))" "acceptable {} (es_counter env)"
    using env(2) by (simp_all add: paired_def demo_session_def acceptable_def)
  from secret_message_roundtrip [OF demo_laws(1) this(1) env(1) _ this(2,3)] env(1) show ?thesis
    by auto
qed

text \<open>
  Both sides of a chat derive the same key. Over a Diffie-Hellman whose two sides agree, when one
  side establishes a session with the public key of the other, the other side's attempt with the
  keys exchanged succeeds too, and the two sessions are paired, whichever actor name is smaller.
\<close>

theorem establish_agrees:
  assumes "crypto_laws cr" "agreement_laws cr"
    and "establish cr c a b ka (public_key cr kb) epoch = Ok sa"
  shows "\<exists>sb. establish cr c b a kb (public_key cr ka) epoch = Ok sb \<and> paired sa sb"
proof -
  have key: "SecretPublicKey_to_bytes cr (public_key cr k) = Ok (sc_public cr (private_bytes k))" for k
    using assms(1,2) by (simp add: SecretPublicKey_to_bytes_def public_key_def SecretPublicKey_from_bytes_def
        decode_array_def crypto_laws_def agreement_laws_def)
  have dh: "sc_diffie_hellman cr (private_bytes kb) (sc_public cr (private_bytes ka))
      = sc_diffie_hellman cr (private_bytes ka) (sc_public cr (private_bytes kb))"
    using assms(2) by (simp add: agreement_laws_def)
  have order: "(if actor_str b \<le> actor_str a then (actor_str b, actor_str a) else (actor_str a, actor_str b))
      = (if actor_str a \<le> actor_str b then (actor_str a, actor_str b) else (actor_str b, actor_str a))"
    by auto
  have "derive_root_key cr c b a kb (public_key cr ka) epoch = derive_root_key cr c a b ka (public_key cr kb) epoch"
    by (simp only: derive_root_key_def key dh order and_then_simps)
  moreover have "validate_identity c b a epoch = validate_identity c a b epoch"
    by (auto simp: validate_identity_def)
  ultimately show ?thesis
    using assms(3) by (auto simp: establish_def result_simps paired_def)
qed

theorem establish_agrees_witness:
  "\<exists>sb. establish demo_crypto (ConversationId ''c'') (ActorId ''b'') (ActorId ''a'') (SecretPrivateKey [])
      (public_key demo_crypto (SecretPrivateKey [])) 1 = Ok sb
    \<and> paired (demo_session (ActorId ''a'') (ActorId ''b'')) sb"
  by (rule establish_agrees [OF demo_laws demo_establish])

text \<open>
  A backup restores the session. A session of a valid identity that is backed up under a recovery
  key is restored from the backup with the same key exactly, with its epoch, root key, send counter
  and replay window, so that nothing accepted before the backup is accepted again after it.
\<close>

theorem backup_roundtrip:
  assumes "crypto_laws cr" "backup cr ses (Ok nonce) key = Ok bk" "length nonce = 24"
    and "validate_identity (ses_conversation_id ses) (ses_local_actor_id ses) (ses_peer_actor_id ses)
      (ses_epoch ses) = Ok ()" "length (ses_root_key ses) = 32"
  shows "restore cr bk key = Ok ses"
proof -
  obtain json ct where "sc_to_json cr (backup_payload cr ses) = Ok json"
    "sc_encrypt cr key nonce (backup_aad (ses_conversation_id ses)) json = Some ct" "length key = 32"
    and bk: "bk = \<lparr>bk_version = SECRET_CHAT_VERSION, bk_algorithm = ''XChaCha20Poly1305'',
         bk_conversation_id = ses_conversation_id ses, bk_nonce_base64 = sc_base64 cr nonce,
         bk_ciphertext_base64 = sc_base64 cr ct\<rparr>"
    using assms(2) by (auto simp: backup_def result_simps with_key_def)
  then have "sc_decrypt cr key nonce (backup_aad (ses_conversation_id ses)) ct = Some json"
    "sc_from_json cr json = Ok (backup_payload cr ses)"
    using assms(1) by (auto simp: crypto_laws_def)
  moreover have "sc_unbase64 cr (sc_base64 cr bytes) = Some bytes" for bytes
    using assms(1) by (simp add: crypto_laws_def)
  ultimately show ?thesis
    using assms(3-5) \<open>length key = 32\<close>
    by (simp add: restore_def bk decode_array_def with_key_def backup_payload_def bitmap_roundtrip
        del: be_bytes.simps)
qed

theorem backup_roundtrip_witness:
  "\<exists>bk. backup demo_crypto (demo_session (ActorId ''a'') (ActorId ''b'')) (Ok (replicate 24 CHR ''n''))
      (replicate 32 CHR ''r'') = Ok bk
    \<and> restore demo_crypto bk (replicate 32 CHR ''r'') = Ok (demo_session (ActorId ''a'') (ActorId ''b''))"
proof -
  let ?ses = "demo_session (ActorId ''a'') (ActorId ''b'')"
  have "backup_payload demo_crypto ?ses = demo_payload"
    by (simp add: backup_payload_def demo_session_def demo_payload_def demo_crypto_def ReplayWindow_default_def
        del: be_bytes.simps)
  then have "\<exists>bk. backup demo_crypto ?ses (Ok (replicate 24 CHR ''n'')) (replicate 32 CHR ''r'') = Ok bk"
    by (simp add: backup_def with_key_def) (simp add: demo_crypto_def)
  then obtain bk where bk: "backup demo_crypto ?ses (Ok (replicate 24 CHR ''n'')) (replicate 32 CHR ''r'') = Ok bk"
    by blast
  from backup_roundtrip [OF demo_laws(1) bk] bk show ?thesis
    by (simp add: demo_session_def demo_valid)
qed

end
