(* ===== verification/Media_Transfer.thy ===== *)
theory Media_Transfer
  imports Prelude
begin

text \<open>
  The queue of media transfers of \<open>src/native/mahayana-messaging/src/media.rs\<close>: the states of a
  transfer, the operations of the queue, the step relation of a queue whose transfers start afresh,
  and what holds of every transfer it reaches.
\<close>

section \<open>Transfers\<close>

datatype TransferId = TransferId (transfer_str: string)

datatype TransferDirection = Upload | Download

datatype TransferState =
  Queued | Resolving | Transferring | Paused | Verifying | Completed | TransferFailed | Cancelled

record MediaDescriptor =
  md_id :: string
  md_file_name :: string
  md_mime_type :: string
  md_size_bytes :: u64
  md_content_hash :: "string option"
  md_width :: "u32 option"
  md_height :: "u32 option"
  md_duration_ms :: "u64 option"
  md_thumbnail_id :: "string option"

record MediaTransfer =
  mt_id :: TransferId
  mt_direction :: TransferDirection
  mt_media :: MediaDescriptor
  mt_state :: TransferState
  mt_local_path :: "string option"
  mt_remote_locator :: "string option"
  mt_chunk_size :: u32
  mt_transferred_bytes :: u64
  mt_verified_bytes :: u64
  mt_retry_count :: u32
  mt_created_at_ms :: i64
  mt_updated_at_ms :: i64
  mt_error :: "string option"

definition progress_percent :: "MediaTransfer \<Rightarrow> u8" where
  "progress_percent t =
     (if md_size_bytes (mt_media t) = 0 then if mt_state t = Completed then 100 else 0
      else
        let percent = saturating_mul_u64 (mt_transferred_bytes t) 100 div md_size_bytes (mt_media t)
        in ucast (min percent 100))"

definition remaining_bytes :: "MediaTransfer \<Rightarrow> u64" where
  "remaining_bytes t = saturating_sub_u64 (md_size_bytes (mt_media t)) (mt_transferred_bytes t)"

section \<open>The queue\<close>

record MediaTransferQueue =
  mq_transfers :: "(TransferId, MediaTransfer) fmap"

datatype MediaError =
    DuplicateTransfer TransferId
  | TransferNotFound TransferId
  | InvalidChunkSize
  | InvalidTransition TransferState TransferState
  | UnexpectedTransferOffset u64 u64
  | VerificationMismatch u64 u64
  | TerminalTransfer TransferId

definition enqueue :: "MediaTransferQueue \<Rightarrow> MediaTransfer \<Rightarrow> MediaTransferQueue \<times> (unit, MediaError) result" where
  "enqueue q t =
     (if mt_chunk_size t = 0 then (q, Err InvalidChunkSize)
      else if contains_key (mq_transfers q) (mt_id t) then (q, Err (DuplicateTransfer (mt_id t)))
      else (q\<lparr>mq_transfers := fmupd (mt_id t) t (mq_transfers q)\<rparr>, Ok ()))"

text \<open>
  The other methods look the transfer up with \<open>require_mut\<close>, check it and write the fields of this
  transfer alone; \<open>f\<close> is the check with the new value of the transfer.
\<close>

definition require_mut ::
  "MediaTransferQueue \<Rightarrow> TransferId \<Rightarrow> (MediaTransfer \<Rightarrow> (MediaTransfer, MediaError) result) \<Rightarrow>
     MediaTransferQueue \<times> (unit, MediaError) result"
where
  "require_mut q i f =
     (case fmlookup (mq_transfers q) i of
        None \<Rightarrow> (q, Err (TransferNotFound i))
      | Some t \<Rightarrow>
     (case f t of
        Inl e \<Rightarrow> (q, Err e)
      | Inr t' \<Rightarrow> (q\<lparr>mq_transfers := fmupd i t' (mq_transfers q)\<rparr>, Ok ())))"

definition start_transfer :: "MediaTransferQueue \<Rightarrow> TransferId \<Rightarrow> i64 \<Rightarrow> MediaTransferQueue \<times> (unit, MediaError) result" where
  "start_transfer q i now_ms = require_mut q i (\<lambda>t.
     if mt_state t \<in> {Queued, Paused, TransferFailed}
     then Ok (t\<lparr>mt_state := Transferring, mt_updated_at_ms := now_ms, mt_error := None\<rparr>)
     else Err (InvalidTransition (mt_state t) Transferring))"

definition acknowledge_chunk ::
  "MediaTransferQueue \<Rightarrow> TransferId \<Rightarrow> u64 \<Rightarrow> u32 \<Rightarrow> i64 \<Rightarrow> MediaTransferQueue \<times> (unit, MediaError) result"
where
  "acknowledge_chunk q i offset len now_ms = require_mut q i (\<lambda>t.
     if mt_state t \<noteq> Transferring then Err (InvalidTransition (mt_state t) Transferring)
     else if offset \<noteq> mt_transferred_bytes t
     then Err (UnexpectedTransferOffset (mt_transferred_bytes t) offset)
     else
       let transferred = min (saturating_add_u64 (mt_transferred_bytes t) (ucast len))
                             (md_size_bytes (mt_media t))
       in Ok (t\<lparr>mt_transferred_bytes := transferred, mt_updated_at_ms := now_ms,
                mt_state := (if transferred = md_size_bytes (mt_media t) then Verifying
                             else mt_state t)\<rparr>))"

definition complete_verification ::
  "MediaTransferQueue \<Rightarrow> TransferId \<Rightarrow> u64 \<Rightarrow> string option \<Rightarrow> i64 \<Rightarrow>
     MediaTransferQueue \<times> (unit, MediaError) result"
where
  "complete_verification q i verified_bytes remote_locator now_ms = require_mut q i (\<lambda>t.
     if mt_state t \<noteq> Verifying then Err (InvalidTransition (mt_state t) Completed)
     else if verified_bytes \<noteq> md_size_bytes (mt_media t)
     then Err (VerificationMismatch (md_size_bytes (mt_media t)) verified_bytes)
     else Ok (t\<lparr>mt_verified_bytes := verified_bytes,
                mt_remote_locator := (case remote_locator of
                                        None \<Rightarrow> mt_remote_locator t | Some l \<Rightarrow> Some l),
                mt_state := Completed, mt_updated_at_ms := now_ms\<rparr>))"

definition pause_transfer :: "MediaTransferQueue \<Rightarrow> TransferId \<Rightarrow> i64 \<Rightarrow> MediaTransferQueue \<times> (unit, MediaError) result" where
  "pause_transfer q i now_ms = require_mut q i (\<lambda>t.
     if mt_state t \<noteq> Transferring then Err (InvalidTransition (mt_state t) Paused)
     else Ok (t\<lparr>mt_state := Paused, mt_updated_at_ms := now_ms\<rparr>))"

definition fail_transfer ::
  "MediaTransferQueue \<Rightarrow> TransferId \<Rightarrow> string \<Rightarrow> i64 \<Rightarrow> MediaTransferQueue \<times> (unit, MediaError) result"
where
  "fail_transfer q i error now_ms = require_mut q i (\<lambda>t.
     if mt_state t = Completed \<or> mt_state t = Cancelled then Err (TerminalTransfer i)
     else Ok (t\<lparr>mt_state := TransferFailed, mt_retry_count := saturating_add_u32 (mt_retry_count t) 1,
                mt_error := Some error, mt_updated_at_ms := now_ms\<rparr>))"

definition cancel_transfer :: "MediaTransferQueue \<Rightarrow> TransferId \<Rightarrow> i64 \<Rightarrow> MediaTransferQueue \<times> (unit, MediaError) result" where
  "cancel_transfer q i now_ms = require_mut q i (\<lambda>t.
     if mt_state t = Completed then Err (TerminalTransfer i)
     else Ok (t\<lparr>mt_state := Cancelled, mt_updated_at_ms := now_ms\<rparr>))"

section \<open>Steps of a queue\<close>

text \<open>A transfer enters the queue before anything was transferred.\<close>

definition fresh_transfer :: "MediaTransfer \<Rightarrow> bool" where
  "fresh_transfer t \<longleftrightarrow> mt_state t = Queued \<and> mt_transferred_bytes t = 0 \<and> mt_verified_bytes t = 0"

inductive transfer_step :: "MediaTransferQueue \<Rightarrow> MediaTransferQueue \<Rightarrow> bool" where
  step_enqueue: "fresh_transfer t \<Longrightarrow> transfer_step q (fst (enqueue q t))"
| step_start: "transfer_step q (fst (start_transfer q i now))"
| step_acknowledge: "transfer_step q (fst (acknowledge_chunk q i offset len now))"
| step_complete: "transfer_step q (fst (complete_verification q i bytes locator now))"
| step_pause: "transfer_step q (fst (pause_transfer q i now))"
| step_fail: "transfer_step q (fst (fail_transfer q i error now))"
| step_cancel: "transfer_step q (fst (cancel_transfer q i now))"

text \<open>What the state of a transfer says about its bytes.\<close>

definition transfer_ok :: "MediaTransfer \<Rightarrow> bool" where
  "transfer_ok t \<longleftrightarrow>
     mt_transferred_bytes t \<le> md_size_bytes (mt_media t)
   \<and> (mt_state t = Verifying \<or> mt_state t = Completed \<longrightarrow> mt_transferred_bytes t = md_size_bytes (mt_media t))
   \<and> (mt_state t = Completed \<longrightarrow> mt_verified_bytes t = md_size_bytes (mt_media t))"

text \<open>
  What every operation keeps of a transfer: what is transferred, a completed transfer altogether,
  the state of a cancelled one, and the bytes that were acknowledged.
\<close>

definition continues :: "MediaTransfer \<Rightarrow> MediaTransfer \<Rightarrow> bool" where
  "continues t t' \<longleftrightarrow>
     mt_id t' = mt_id t \<and> mt_media t' = mt_media t \<and> mt_direction t' = mt_direction t
   \<and> mt_transferred_bytes t \<le> mt_transferred_bytes t'
   \<and> (mt_state t = Completed \<longrightarrow> t' = t) \<and> (mt_state t = Cancelled \<longrightarrow> mt_state t' = Cancelled)"

lemma continues_refl [simp]: "continues t t"
  by (simp add: continues_def)

lemma continues_trans: "continues t u \<Longrightarrow> continues u v \<Longrightarrow> continues t v"
  unfolding continues_def by (metis order_trans)

definition queue_ok :: "MediaTransferQueue \<Rightarrow> bool" where
  "queue_ok q \<longleftrightarrow> (\<forall>i t. fmlookup (mq_transfers q) i = Some t \<longrightarrow> transfer_ok t \<and> mt_id t = i)"

lemma require_mut_cases:
  obtains (unchanged) "fst (require_mut q i f) = q"
  | (changed) t t' where "fmlookup (mq_transfers q) i = Some t" "f t = Ok t'"
      "fst (require_mut q i f) = q\<lparr>mq_transfers := fmupd i t' (mq_transfers q)\<rparr>"
  by (cases "fmlookup (mq_transfers q) i"; cases "\<exists>t. fmlookup (mq_transfers q) i = Some t \<and> (\<exists>u. f t = Ok u)")
    (auto simp: require_mut_def split: sum.splits)

text \<open>An operation is right when its check yields a continuation that is right.\<close>

definition right_change :: "(MediaTransfer \<Rightarrow> (MediaTransfer, MediaError) result) \<Rightarrow> bool" where
  "right_change f \<longleftrightarrow> (\<forall>t t'. transfer_ok t \<longrightarrow> f t = Ok t' \<longrightarrow> transfer_ok t' \<and> continues t t')"

lemma right_changeD: "right_change f \<Longrightarrow> transfer_ok t \<Longrightarrow> f t = Ok t' \<Longrightarrow> transfer_ok t' \<and> continues t t'"
  unfolding right_change_def by blast

text \<open>What an operation may do to the transfers of a queue.\<close>

definition goes_on :: "MediaTransferQueue \<Rightarrow> MediaTransferQueue \<Rightarrow> bool" where
  "goes_on q q' \<longleftrightarrow> (\<forall>j t. fmlookup (mq_transfers q) j = Some t \<longrightarrow>
     (\<exists>t'. fmlookup (mq_transfers q') j = Some t' \<and> continues t t'))"

lemma goes_on_refl [simp]: "goes_on q q"
  by (auto simp: goes_on_def)

lemma goes_on_trans: "goes_on q r \<Longrightarrow> goes_on r s \<Longrightarrow> goes_on q s"
  unfolding goes_on_def by (meson continues_trans)

lemma require_mut_right:
  assumes "right_change f" "queue_ok q"
  shows "queue_ok (fst (require_mut q i f)) \<and> goes_on q (fst (require_mut q i f))"
proof (cases rule: require_mut_cases [of q i f])
  case unchanged
  then show ?thesis using assms(2) by simp
next
  case (changed u u')
  then have "transfer_ok u" "mt_id u = i" using assms(2) by (auto simp: queue_ok_def)
  with right_changeD [OF assms(1) _ changed(2)] have "transfer_ok u'" "continues u u'" by auto
  moreover from this have "mt_id u' = i" using \<open>mt_id u = i\<close> by (simp add: continues_def)
  ultimately have "queue_ok (fst (require_mut q i f))"
    using assms(2) changed(3) by (simp add: queue_ok_def)
  moreover have "goes_on q (fst (require_mut q i f))"
    using changed(1,3) \<open>continues u u'\<close> by (auto simp: goes_on_def)
  ultimately show ?thesis ..
qed

lemma transferred_grows: "a \<le> s \<Longrightarrow> a \<le> min (saturating_add_u64 a b) (s :: u64)"
  by (simp add: word_le_nat_alt unat_saturating_add_u64 min_def) (use unat_u64_less [of a] in auto)

text \<open>The checks of the operations, apart from \<open>enqueue\<close>, are right.\<close>

lemmas change_simps = right_change_def transfer_ok_def continues_def Let_def

lemma start_right:
  "queue_ok q \<Longrightarrow> queue_ok (fst (start_transfer q i now)) \<and> goes_on q (fst (start_transfer q i now))"
  unfolding start_transfer_def by (rule require_mut_right) (auto simp: change_simps split: if_splits)

lemma acknowledge_right:
  "queue_ok q \<Longrightarrow> queue_ok (fst (acknowledge_chunk q i offset len now))
     \<and> goes_on q (fst (acknowledge_chunk q i offset len now))"
  unfolding acknowledge_chunk_def using transferred_grows
  by (intro require_mut_right) (fastforce simp: change_simps split: if_splits)

lemma complete_right:
  "queue_ok q \<Longrightarrow> queue_ok (fst (complete_verification q i bytes locator now))
     \<and> goes_on q (fst (complete_verification q i bytes locator now))"
  unfolding complete_verification_def
  by (rule require_mut_right) (auto simp: change_simps split: if_splits)

lemma pause_right:
  "queue_ok q \<Longrightarrow> queue_ok (fst (pause_transfer q i now)) \<and> goes_on q (fst (pause_transfer q i now))"
  unfolding pause_transfer_def by (rule require_mut_right) (auto simp: change_simps split: if_splits)

lemma fail_right:
  "queue_ok q \<Longrightarrow> queue_ok (fst (fail_transfer q i error now)) \<and> goes_on q (fst (fail_transfer q i error now))"
  unfolding fail_transfer_def by (rule require_mut_right) (auto simp: change_simps split: if_splits)

lemma cancel_right:
  "queue_ok q \<Longrightarrow> queue_ok (fst (cancel_transfer q i now)) \<and> goes_on q (fst (cancel_transfer q i now))"
  unfolding cancel_transfer_def by (rule require_mut_right) (auto simp: change_simps split: if_splits)

lemma enqueue_right:
  "queue_ok q \<Longrightarrow> fresh_transfer t \<Longrightarrow> queue_ok (fst (enqueue q t)) \<and> goes_on q (fst (enqueue q t))"
  by (auto simp: enqueue_def queue_ok_def goes_on_def transfer_ok_def fresh_transfer_def contains_key_def)

lemma transfer_step_right: "transfer_step q q' \<Longrightarrow> queue_ok q \<Longrightarrow> queue_ok q' \<and> goes_on q q'"
  by (erule transfer_step.cases)
    (simp_all add: start_right acknowledge_right complete_right pause_right fail_right cancel_right
      enqueue_right)

section \<open>Properties\<close>

definition empty_queue :: MediaTransferQueue where
  "empty_queue = \<lparr>mq_transfers = fmempty\<rparr>"

lemma reachable_queue_ok: "rtranclp transfer_step empty_queue q \<Longrightarrow> queue_ok q"
proof (induction rule: rtranclp_induct)
  case base
  show ?case by (simp add: queue_ok_def empty_queue_def)
next
  case (step q q')
  then show ?case using transfer_step_right by blast
qed

lemma steps_go_on: "rtranclp transfer_step q q' \<Longrightarrow> queue_ok q \<Longrightarrow> queue_ok q' \<and> goes_on q q'"
proof (induction rule: rtranclp_induct)
  case (step r s)
  then show ?case using transfer_step_right goes_on_trans by blast
qed simp

text \<open>
  A completed transfer is whole and stays. In a queue that started empty, a transfer that is
  completed has had every byte of its media transferred and verified and reports its full progress;
  and however the queue goes on, it stays exactly as it is, while a cancelled transfer stays
  cancelled and no transfer ever loses bytes that were acknowledged.
\<close>

theorem completed_transfer_whole:
  assumes "rtranclp transfer_step empty_queue q" "fmlookup (mq_transfers q) i = Some t"
    and "rtranclp transfer_step q q'"
  shows "(mt_state t = Completed \<longrightarrow>
        mt_transferred_bytes t = md_size_bytes (mt_media t) \<and> mt_verified_bytes t = md_size_bytes (mt_media t)
      \<and> (unat (md_size_bytes (mt_media t)) * 100 < 2 ^ 64 \<longrightarrow> progress_percent t = 100)
      \<and> fmlookup (mq_transfers q') i = Some t)
    \<and> (\<exists>t'. fmlookup (mq_transfers q') i = Some t' \<and> mt_transferred_bytes t \<le> mt_transferred_bytes t'
         \<and> mt_transferred_bytes t' \<le> md_size_bytes (mt_media t)
         \<and> (mt_state t = Cancelled \<longrightarrow> mt_state t' = Cancelled))"
proof -
  have "queue_ok q" using reachable_queue_ok [OF assms(1)] .
  then have ok: "transfer_ok t" using assms(2) by (simp add: queue_ok_def)
  obtain t' where t': "fmlookup (mq_transfers q') i = Some t'" "continues t t'" "transfer_ok t'"
    using steps_go_on [OF assms(3) \<open>queue_ok q\<close>] assms(2) unfolding goes_on_def queue_ok_def by metis
  have "progress_percent t = 100" if "mt_state t = Completed" "unat (md_size_bytes (mt_media t)) * 100 < 2 ^ 64"
  proof (cases "md_size_bytes (mt_media t) = 0")
    case False
    have "(md_size_bytes (mt_media t) * 100) div md_size_bytes (mt_media t) = 100"
    proof (rule unsigned_word_eqI [where 'a = nat])
      show "unat (md_size_bytes (mt_media t) * 100 div md_size_bytes (mt_media t)) = unat (100 :: u64)"
        using that(2) False by (simp add: unat_div unat_word_ariths unat_eq_0)
    qed
    moreover have "mt_transferred_bytes t = md_size_bytes (mt_media t)"
      using ok that(1) by (simp add: transfer_ok_def)
    ultimately show ?thesis
      using that(2) False by (simp add: progress_percent_def saturating_mul_u64_def)
  qed (simp add: progress_percent_def that(1))
  with ok t' show ?thesis by (auto simp: transfer_ok_def continues_def)
qed

text \<open>A client that acknowledges one chunk of the size of the transfer after the other.\<close>

fun send_chunks :: "nat \<Rightarrow> MediaTransferQueue \<Rightarrow> TransferId \<Rightarrow> i64 \<Rightarrow> MediaTransferQueue" where
  "send_chunks 0 q i now = q"
| "send_chunks (Suc n) q i now =
     (case fmlookup (mq_transfers q) i of
        None \<Rightarrow> q
      | Some t \<Rightarrow>
          if mt_state t = Transferring
          then send_chunks n (fst (acknowledge_chunk q i (mt_transferred_bytes t) (mt_chunk_size t) now)) i now
          else q)"

definition being_sent :: "MediaTransferQueue \<Rightarrow> TransferId \<Rightarrow> u64 \<Rightarrow> nat \<Rightarrow> bool" where
  "being_sent q i whole_size bound \<longleftrightarrow> (\<exists>t. fmlookup (mq_transfers q) i = Some t \<and> md_size_bytes (mt_media t) = whole_size
     \<and> mt_chunk_size t \<noteq> 0 \<and> mt_transferred_bytes t \<le> whole_size
     \<and> (mt_state t = Transferring \<and> unat whole_size - unat (mt_transferred_bytes t) < bound
        \<or> mt_state t = Verifying \<and> mt_transferred_bytes t = whole_size))"

lemma unat_ucast_chunk: "unat (ucast (len :: u32) :: u64) = unat len"
  by (simp add: unsigned_ucast_eq take_bit_nat_eq_self_iff) (use unsigned_less [of len, where 'a = nat] in auto)

lemma being_sent_step:
  assumes "being_sent q i whole_size (Suc n)" "fmlookup (mq_transfers q) i = Some t" "mt_state t = Transferring"
  shows "being_sent (fst (acknowledge_chunk q i (mt_transferred_bytes t) (mt_chunk_size t) now)) i whole_size n"
proof -
  let ?next = "min (saturating_add_u64 (mt_transferred_bytes t) (ucast (mt_chunk_size t))) whole_size"
  have t: "md_size_bytes (mt_media t) = whole_size" "mt_chunk_size t \<noteq> 0" "mt_transferred_bytes t \<le> whole_size"
    "unat whole_size - unat (mt_transferred_bytes t) < Suc n"
    using assms by (auto simp: being_sent_def)
  have "0 < unat (mt_chunk_size t)" using t(2) by (simp add: unat_gt_0)
  moreover have "unat ?next = min (min (unat (mt_transferred_bytes t) + unat (mt_chunk_size t)) (2 ^ 64 - 1))
      (unat whole_size)"
    by (simp add: min_def word_le_nat_alt unat_saturating_add_u64 unat_ucast_chunk)
  ultimately have "?next \<noteq> whole_size \<Longrightarrow> unat (mt_transferred_bytes t) < unat ?next"
    using t(3) unat_u64_less [of whole_size] unsigned_word_eqI [where 'a = nat, of ?next whole_size]
    by (auto simp: word_le_nat_alt min_def split: if_splits)
  then have "?next \<noteq> whole_size \<Longrightarrow> unat whole_size - unat ?next < n"
    using t(4) by (simp add: word_le_nat_alt min_def split: if_splits)
  then show ?thesis
    using assms(2,3) t by (auto simp: being_sent_def acknowledge_chunk_def require_mut_def Let_def)
qed

lemma send_chunks_verifies: "being_sent q i whole_size n \<Longrightarrow> being_sent (send_chunks n q i now) i whole_size 0"
proof (induction n arbitrary: q)
  case (Suc n)
  obtain t where t: "fmlookup (mq_transfers q) i = Some t" "mt_state t = Transferring \<or> mt_state t = Verifying"
    using Suc.prems by (auto simp: being_sent_def)
  show ?case
  proof (cases "mt_state t = Transferring")
    case True
    with Suc.IH [OF being_sent_step [OF Suc.prems t(1) True]] t(1) show ?thesis by simp
  next
    case False
    with t Suc.prems show ?thesis by (auto simp: being_sent_def)
  qed
qed simp

text \<open>
  A transfer finishes. Whatever the sizes of the media and of the chunks, a fresh transfer that
  the queue takes is completed when it is started, its chunks are acknowledged one after the other,
  at most one more of them than it has bytes, and the verification reports its size.
\<close>

theorem transfer_finishes:
  assumes "enqueue q t = (q1, Ok ())" "fresh_transfer t"
    and "unat (md_size_bytes (mt_media t)) < n"
  shows "\<exists>q2 t'. complete_verification (send_chunks n (fst (start_transfer q1 (mt_id t) now)) (mt_id t) now)
        (mt_id t) (md_size_bytes (mt_media t)) locator now = (q2, Ok ())
      \<and> fmlookup (mq_transfers q2) (mt_id t) = Some t' \<and> mt_state t' = Completed"
proof -
  let ?sent = "send_chunks n (fst (start_transfer q1 (mt_id t) now)) (mt_id t) now"
  have "q1 = q\<lparr>mq_transfers := fmupd (mt_id t) t (mq_transfers q)\<rparr>" "mt_chunk_size t \<noteq> 0"
    using assms(1) by (auto simp: enqueue_def split: if_splits)
  then have "being_sent (fst (start_transfer q1 (mt_id t) now)) (mt_id t) (md_size_bytes (mt_media t)) n"
    using assms(2,3) by (auto simp: being_sent_def start_transfer_def require_mut_def fresh_transfer_def)
  from send_chunks_verifies [OF this] obtain u
    where "fmlookup (mq_transfers ?sent) (mt_id t) = Some u" "mt_state u = Verifying"
      "md_size_bytes (mt_media u) = md_size_bytes (mt_media t)"
    unfolding being_sent_def by auto
  then show ?thesis by (simp add: complete_verification_def require_mut_def)
qed

section \<open>Witnesses\<close>

definition demo_media_transfer :: MediaTransfer where
  "demo_media_transfer = \<lparr>mt_id = TransferId ''t'', mt_direction = Upload,
     mt_media = \<lparr>md_id = ''m'', md_file_name = ''f'', md_mime_type = ''x'', md_size_bytes = 3,
       md_content_hash = None, md_width = None, md_height = None, md_duration_ms = None, md_thumbnail_id = None\<rparr>,
     mt_state = Queued, mt_local_path = None, mt_remote_locator = None, mt_chunk_size = 2,
     mt_transferred_bytes = 0, mt_verified_bytes = 0, mt_retry_count = 0, mt_created_at_ms = 0,
     mt_updated_at_ms = 0, mt_error = None\<rparr>"

theorem transfer_finishes_witness:
  "\<exists>q2 t'. complete_verification (send_chunks 4 (fst (start_transfer (fst (enqueue empty_queue demo_media_transfer))
        (TransferId ''t'') 1)) (TransferId ''t'') 1) (TransferId ''t'') 3 None 1 = (q2, Ok ())
      \<and> fmlookup (mq_transfers q2) (TransferId ''t'') = Some t' \<and> mt_state t' = Completed"
proof -
  have "enqueue empty_queue demo_media_transfer = (fst (enqueue empty_queue demo_media_transfer), Ok ())"
    by (simp add: enqueue_def empty_queue_def demo_media_transfer_def)
  from transfer_finishes [OF this, of 4 1 None] show ?thesis
    by (simp add: demo_media_transfer_def fresh_transfer_def del: send_chunks.simps)
qed

theorem completed_transfer_whole_witness:
  "\<exists>t'. fmlookup (mq_transfers (fst (cancel_transfer (fst (enqueue empty_queue demo_media_transfer)) (TransferId ''t'') 1)))
        (TransferId ''t'') = Some t' \<and> mt_transferred_bytes t' \<le> 3"
proof -
  let ?q = "fst (enqueue empty_queue demo_media_transfer)"
  have "fresh_transfer demo_media_transfer" by (simp add: fresh_transfer_def demo_media_transfer_def)
  then have "rtranclp transfer_step empty_queue ?q" by (intro r_into_rtranclp step_enqueue)
  moreover have "rtranclp transfer_step ?q (fst (cancel_transfer ?q (TransferId ''t'') 1))"
    by (intro r_into_rtranclp step_cancel)
  moreover have "fmlookup (mq_transfers ?q) (TransferId ''t'') = Some demo_media_transfer"
    and size: "md_size_bytes (mt_media demo_media_transfer) = 3"
    by (simp_all add: enqueue_def empty_queue_def demo_media_transfer_def)
  ultimately have "\<exists>t'. fmlookup (mq_transfers (fst (cancel_transfer ?q (TransferId ''t'') 1))) (TransferId ''t'')
      = Some t' \<and> mt_transferred_bytes t' \<le> md_size_bytes (mt_media demo_media_transfer)"
    using completed_transfer_whole by blast
  then show ?thesis by (simp only: size)
qed

end
