(* ===== verification/Media_Cache.thy ===== *)
theory Media_Cache
  imports Messages
begin

text \<open>
  The bookkeeping of cached media, \<open>src/native/mahayana-messaging/src/media_cache.rs\<close>: entries under
  a byte budget, and the eviction of the least recently used ones. The loop of the eviction removes
  the entry under the identifier inside its media; that it ends is a theorem about caches whose
  entries stand under their own identifiers, so the loop is a partial function here.
\<close>

section \<open>The cache\<close>

record MediaCacheEntry =
  mce_media :: MediaRef
  mce_local_path :: string
  mce_size_bytes :: u64
  mce_last_accessed_ms :: i64
  mce_pinned :: bool

record MediaCache =
  mc_max_bytes :: u64
  mc_entries :: "(string, MediaCacheEntry) fmap"

datatype MediaCacheError =
    InvalidBudget
  | InvalidMediaId
  | InvalidLocalPath
  | EntryTooLarge u64 u64
  | PinnedEntriesExceedBudget
  | CacheEntryNotFound string

definition MediaCache_new :: "u64 \<Rightarrow> (MediaCache, MediaCacheError) result" where
  "MediaCache_new max_bytes =
     (if max_bytes = 0 then Err InvalidBudget
      else Ok \<lparr>mc_max_bytes = max_bytes, mc_entries = fmempty\<rparr>)"

definition total_bytes :: "MediaCache \<Rightarrow> u64" where
  "total_bytes c =
     foldl (\<lambda>total_size entry. saturating_add_u64 total_size (mce_size_bytes entry)) 0
       (map_values (mc_entries c))"

definition cache_get :: "MediaCache \<Rightarrow> string \<Rightarrow> i64 \<Rightarrow> MediaCache \<times> MediaCacheEntry option" where
  "cache_get c media_id now_ms =
     (case fmlookup (mc_entries c) media_id of
        None \<Rightarrow> (c, None)
      | Some entry \<Rightarrow>
          let entry = entry\<lparr>mce_last_accessed_ms := now_ms\<rparr>
          in (c\<lparr>mc_entries := fmupd media_id entry (mc_entries c)\<rparr>, Some entry))"

definition cache_remove :: "MediaCache \<Rightarrow> string \<Rightarrow> MediaCache \<times> MediaCacheEntry option" where
  "cache_remove c media_id =
     (c\<lparr>mc_entries := fmdrop media_id (mc_entries c)\<rparr>, fmlookup (mc_entries c) media_id)"

definition set_pinned :: "MediaCache \<Rightarrow> string \<Rightarrow> bool \<Rightarrow> MediaCache \<times> (unit, MediaCacheError) result" where
  "set_pinned c media_id pinned =
     (case fmlookup (mc_entries c) media_id of
        None \<Rightarrow> (c, Err (CacheEntryNotFound media_id))
      | Some entry \<Rightarrow>
          (c\<lparr>mc_entries := fmupd media_id (entry\<lparr>mce_pinned := pinned\<rparr>) (mc_entries c)\<rparr>, Ok ()))"

section \<open>Eviction\<close>

definition entry_id :: "MediaCacheEntry \<Rightarrow> string" where
  "entry_id entry = mr_id (mce_media entry)"

definition evictable :: "string option \<Rightarrow> MediaCacheEntry \<Rightarrow> bool" where
  "evictable protected_media_id entry \<longleftrightarrow>
     \<not> mce_pinned entry \<and> protected_media_id \<noteq> Some (entry_id entry)"

definition access_rank :: "MediaCacheEntry \<Rightarrow> int \<times> string" where
  "access_rank entry = (sint (mce_last_accessed_ms entry), entry_id entry)"

definition eviction_candidate :: "MediaCache \<Rightarrow> string option \<Rightarrow> string option" where
  "eviction_candidate c protected_media_id =
     map_option entry_id (min_by_key access_rank
       (filter (evictable protected_media_id) (map_values (mc_entries c))))"

partial_function (option) evict_loop ::
  "string option \<Rightarrow> MediaCache \<Rightarrow> MediaCacheEntry list \<Rightarrow>
     (MediaCache \<times> (MediaCacheEntry list, MediaCacheError) result) option"
where
  "evict_loop protected_media_id c evicted =
     (if mc_max_bytes c < total_bytes c then
        (case eviction_candidate c protected_media_id of
           None \<Rightarrow> Some (c, Err PinnedEntriesExceedBudget)
         | Some candidate \<Rightarrow>
        (case fmlookup (mc_entries c) candidate of
           None \<Rightarrow> evict_loop protected_media_id c evicted
         | Some entry \<Rightarrow>
             evict_loop protected_media_id (c\<lparr>mc_entries := fmdrop candidate (mc_entries c)\<rparr>)
               (evicted @ [entry])))
      else Some (c, Ok evicted))"

definition evict_to_budget ::
  "MediaCache \<Rightarrow> string option \<Rightarrow> (MediaCache \<times> (MediaCacheEntry list, MediaCacheError) result) option"
where
  "evict_to_budget c protected_media_id = evict_loop protected_media_id c []"

definition cache_insert ::
  "MediaCache \<Rightarrow> MediaRef \<Rightarrow> string \<Rightarrow> u64 \<Rightarrow> i64 \<Rightarrow> bool \<Rightarrow>
     (MediaCache \<times> (MediaCacheEntry list, MediaCacheError) result) option"
where
  "cache_insert c media local_path size_bytes now_ms pinned =
     (if is_blank (mr_id media) then Some (c, Err InvalidMediaId)
      else if is_blank local_path then Some (c, Err InvalidLocalPath)
      else if mc_max_bytes c < size_bytes then Some (c, Err (EntryTooLarge size_bytes (mc_max_bytes c)))
      else
        let key = mr_id media;
            previous = fmlookup (mc_entries c) key;
            entry = \<lparr>mce_media = media, mce_local_path = local_path, mce_size_bytes = size_bytes,
                     mce_last_accessed_ms = now_ms, mce_pinned = pinned\<rparr>
        in (case evict_to_budget (c\<lparr>mc_entries := fmupd key entry (mc_entries c)\<rparr>) (Some key) of
              None \<Rightarrow> None
            | Some (c', Inr evicted) \<Rightarrow> Some (c', Ok evicted)
            | Some (c', Inl error) \<Rightarrow>
                Some (c'\<lparr>mc_entries := (case previous of
                                         Some entry \<Rightarrow> fmupd key entry (mc_entries c')
                                       | None \<Rightarrow> fmdrop key (mc_entries c'))\<rparr>, Err error)))"

section \<open>What the eviction does\<close>

definition cache_keyed :: "MediaCache \<Rightarrow> bool" where
  "cache_keyed c \<longleftrightarrow> (\<forall>k e. fmlookup (mc_entries c) k = Some e \<longrightarrow> entry_id e = k)"

lemma cache_keyed_simps:
  "cache_keyed c \<Longrightarrow> cache_keyed (c\<lparr>mc_entries := fmdrop k (mc_entries c)\<rparr>)"
  "cache_keyed c \<Longrightarrow> entry_id e = k \<Longrightarrow> cache_keyed (c\<lparr>mc_entries := fmupd k e (mc_entries c)\<rparr>)"
  by (auto simp: cache_keyed_def split: if_splits)

text \<open>The candidate is an entry that may go and the least recently used of those.\<close>

lemma eviction_candidate_Some:
  assumes "eviction_candidate c p = Some k" "cache_keyed c"
  shows "\<exists>e. fmlookup (mc_entries c) k = Some e \<and> evictable p e \<and> entry_id e = k
     \<and> (\<forall>j f. fmlookup (mc_entries c) j = Some f \<longrightarrow> evictable p f \<longrightarrow> access_rank e \<le> access_rank f)"
proof -
  obtain e where e: "min_by_key access_rank (filter (evictable p) (map_values (mc_entries c))) = Some e"
    "entry_id e = k"
    using assms(1) by (auto simp: eviction_candidate_def)
  from min_by_key_Some [OF e(1)] obtain j where "fmlookup (mc_entries c) j = Some e" "evictable p e"
    by (auto simp: map_values_iff)
  moreover have "j = k" using assms(2) e(2) calculation(1) by (auto simp: cache_keyed_def)
  moreover have "access_rank e \<le> access_rank f"
    if "fmlookup (mc_entries c) i = Some f" "evictable p f" for i f
  proof -
    have "f \<in> set (filter (evictable p) (map_values (mc_entries c)))"
      using that by (auto simp: map_values_iff)
    with min_by_key_Some [OF e(1)] show ?thesis by blast
  qed
  ultimately show ?thesis using e(2) by blast
qed

lemma eviction_candidate_None:
  "eviction_candidate c p = None \<longleftrightarrow> (\<forall>k e. fmlookup (mc_entries c) k = Some e \<longrightarrow> \<not> evictable p e)"
  by (auto simp: eviction_candidate_def filter_empty_conv map_values_iff)

text \<open>
  \<open>c'\<close> is \<open>c\<close> without the entries \<open>del\<close>, which could all go and are the least recently used, and
  without the last of which the cache would still be over its budget.
\<close>

definition evicted_to :: "string option \<Rightarrow> MediaCache \<Rightarrow> MediaCacheEntry list \<Rightarrow> MediaCache \<Rightarrow> bool" where
  "evicted_to p c del c' \<longleftrightarrow>
     mc_max_bytes c' = mc_max_bytes c \<and> cache_keyed c'
   \<and> (\<forall>k. fmlookup (mc_entries c') k = (if k \<in> entry_id ` set del then None else fmlookup (mc_entries c) k))
   \<and> (\<forall>e \<in> set del. fmlookup (mc_entries c) (entry_id e) = Some e \<and> evictable p e
        \<and> (\<forall>k f. fmlookup (mc_entries c') k = Some f \<longrightarrow> evictable p f \<longrightarrow> access_rank e \<le> access_rank f))
   \<and> (del \<noteq> [] \<longrightarrow> mc_max_bytes c <
        total_bytes (c'\<lparr>mc_entries := fmupd (entry_id (last del)) (last del) (mc_entries c')\<rparr>))"

lemma evicted_to_Nil: "cache_keyed c \<Longrightarrow> evicted_to p c [] c"
  by (simp add: evicted_to_def)

lemma evicted_toD:
  "evicted_to p c del c' \<Longrightarrow> e \<in> set del \<Longrightarrow> fmlookup (mc_entries c) (entry_id e) = Some e \<and> evictable p e"
  unfolding evicted_to_def by blast

lemma fmupd_fmdrop_same: "fmlookup m k = Some v \<Longrightarrow> fmupd k v (fmdrop k m) = m"
  by (rule fmap_ext) auto

lemma evicted_to_Cons:
  assumes "evicted_to p (c\<lparr>mc_entries := fmdrop k (mc_entries c)\<rparr>) del c'"
    and e: "fmlookup (mc_entries c) k = Some e" "evictable p e" "entry_id e = k"
      "\<forall>j f. fmlookup (mc_entries c) j = Some f \<longrightarrow> evictable p f \<longrightarrow> access_rank e \<le> access_rank f"
    and over: "mc_max_bytes c < total_bytes c"
  shows "evicted_to p c (e # del) c'"
proof -
  have gone: "fmlookup (mc_entries c') j = (if j \<in> entry_id ` set (e # del) then None else fmlookup (mc_entries c) j)"
    for j using assms(1) e(3) by (simp add: evicted_to_def)
  have rest: "fmlookup (mc_entries c) (entry_id d) = Some d \<and> evictable p d
      \<and> (\<forall>j f. fmlookup (mc_entries c') j = Some f \<longrightarrow> evictable p f \<longrightarrow> access_rank d \<le> access_rank f)"
    if "d \<in> set del" for d
    using assms(1) that by (auto simp: evicted_to_def split: if_splits)
  have least: "access_rank e \<le> access_rank f" if "fmlookup (mc_entries c') j = Some f" "evictable p f" for j f
    using that gone [of j] e(4) by (auto split: if_splits)
  have last: "mc_max_bytes c < total_bytes (c'\<lparr>mc_entries :=
      fmupd (entry_id (last (e # del))) (last (e # del)) (mc_entries c')\<rparr>)"
  proof (cases "del = []")
    case True
    have max: "mc_max_bytes c' = mc_max_bytes c" using assms(1) by (simp add: evicted_to_def)
    have "mc_entries c' = fmdrop k (mc_entries c)"
      by (rule fmap_ext) (use gone True e(3) in auto)
    then have "c'\<lparr>mc_entries := fmupd k e (mc_entries c')\<rparr> = c"
      using max e(1) by (simp add: fmupd_fmdrop_same)
    with True over e(3) show ?thesis by simp
  next
    case False
    then show ?thesis using assms(1) by (simp add: evicted_to_def)
  qed
  show ?thesis
    using assms(1) gone rest least last e by (simp add: evicted_to_def)
qed

lemma evict_loop_spec:
  assumes "cache_keyed c"
  shows "\<exists>c' del r. evict_loop p c ev = Some (c', r) \<and> evicted_to p c del c'
    \<and> (r = Ok (ev @ del) \<and> total_bytes c' \<le> mc_max_bytes c
      \<or> r = Err PinnedEntriesExceedBudget \<and> (\<forall>k e. fmlookup (mc_entries c') k = Some e \<longrightarrow> \<not> evictable p e))"
  using assms
proof (induction "map_len (mc_entries c)" arbitrary: c ev rule: less_induct)
  case less
  show ?case
  proof (cases "mc_max_bytes c < total_bytes c")
    case False
    then show ?thesis using evicted_to_Nil [OF less.prems] by (subst evict_loop.simps) auto
  next
    case over: True
    show ?thesis
    proof (cases "eviction_candidate c p")
      case None
      then have "\<forall>k e. fmlookup (mc_entries c) k = Some e \<longrightarrow> \<not> evictable p e"
        using eviction_candidate_None by blast
      moreover have "evict_loop p c ev = Some (c, Err PinnedEntriesExceedBudget)"
        using over None by (subst evict_loop.simps) simp
      ultimately show ?thesis using evicted_to_Nil [OF less.prems] by blast
    next
      case (Some k)
      obtain e where e: "fmlookup (mc_entries c) k = Some e" "evictable p e" "entry_id e = k"
        "\<forall>j f. fmlookup (mc_entries c) j = Some f \<longrightarrow> evictable p f \<longrightarrow> access_rank e \<le> access_rank f"
        using eviction_candidate_Some [OF Some less.prems] by blast
      let ?c = "c\<lparr>mc_entries := fmdrop k (mc_entries c)\<rparr>"
      have "k |\<in>| fmdom (mc_entries c)" using e(1) by (simp add: fmlookup_dom_iff)
      then have "fcard (fmdom (mc_entries c) |-| {|k|}) < fcard (fmdom (mc_entries c))"
        by (rule fcard_fminus1_less)
      moreover have "mc_entries ?c = fmdrop k (mc_entries c)" by simp
      ultimately have "map_len (mc_entries ?c) < map_len (mc_entries c)"
        by (simp only: map_len_def fmdom_drop)
      from less.hyps [OF this, of "ev @ [e]"] cache_keyed_simps(1) [OF less.prems]
      obtain c' del r where "evict_loop p ?c (ev @ [e]) = Some (c', r)" "evicted_to p ?c del c'"
        "r = Ok (ev @ [e] @ del) \<and> total_bytes c' \<le> mc_max_bytes c
          \<or> r = Err PinnedEntriesExceedBudget \<and> (\<forall>k e. fmlookup (mc_entries c') k = Some e \<longrightarrow> \<not> evictable p e)"
        by auto
      moreover have "evict_loop p c ev = evict_loop p ?c (ev @ [e])"
        using over Some e(1) by (subst evict_loop.simps) simp
      ultimately show ?thesis
        using evicted_to_Cons [OF _ e over] by (metis append_Cons append_Nil)
    qed
  qed
qed

lemma cache_insert_spec:
  assumes "cache_keyed c" "cache_insert c media path bytes now pinned = Some (c', r)"
    and "\<not> is_blank (mr_id media)" "\<not> is_blank path" "bytes \<le> mc_max_bytes c"
  shows "\<exists>c1 del. evicted_to (Some (mr_id media)) (c\<lparr>mc_entries := fmupd (mr_id media)
          \<lparr>mce_media = media, mce_local_path = path, mce_size_bytes = bytes, mce_last_accessed_ms = now,
           mce_pinned = pinned\<rparr> (mc_entries c)\<rparr>) del c1
      \<and> (r = Ok del \<and> c' = c1 \<and> total_bytes c1 \<le> mc_max_bytes c
         \<or> r = Err PinnedEntriesExceedBudget
           \<and> (\<forall>k e. fmlookup (mc_entries c1) k = Some e \<longrightarrow> \<not> evictable (Some (mr_id media)) e)
           \<and> c' = c1\<lparr>mc_entries := (case fmlookup (mc_entries c) (mr_id media) of
                 Some entry \<Rightarrow> fmupd (mr_id media) entry (mc_entries c1)
               | None \<Rightarrow> fmdrop (mr_id media) (mc_entries c1))\<rparr>)"
proof -
  let ?k = "mr_id media"
  let ?e = "\<lparr>mce_media = media, mce_local_path = path, mce_size_bytes = bytes, mce_last_accessed_ms = now,
     mce_pinned = pinned\<rparr>"
  let ?c = "c\<lparr>mc_entries := fmupd ?k ?e (mc_entries c)\<rparr>"
  have "cache_keyed ?c" using assms(1) by (intro cache_keyed_simps(2)) (simp_all add: entry_id_def)
  from evict_loop_spec [OF this, of "Some ?k" "[]"]
  obtain c1 del r1 where ev: "evict_to_budget ?c (Some ?k) = Some (c1, r1)" "evicted_to (Some ?k) ?c del c1"
    "r1 = Ok del \<and> total_bytes c1 \<le> mc_max_bytes c
      \<or> r1 = Err PinnedEntriesExceedBudget
        \<and> (\<forall>k e. fmlookup (mc_entries c1) k = Some e \<longrightarrow> \<not> evictable (Some ?k) e)"
    by (auto simp: evict_to_budget_def)
  from assms(2-5) ev(1) ev(3) have
    "r = Ok del \<and> c' = c1 \<and> total_bytes c1 \<le> mc_max_bytes c
      \<or> r = Err PinnedEntriesExceedBudget
        \<and> (\<forall>k e. fmlookup (mc_entries c1) k = Some e \<longrightarrow> \<not> evictable (Some ?k) e)
        \<and> c' = c1\<lparr>mc_entries := (case fmlookup (mc_entries c) ?k of
                 Some entry \<Rightarrow> fmupd ?k entry (mc_entries c1) | None \<Rightarrow> fmdrop ?k (mc_entries c1))\<rparr>"
    by (auto simp: cache_insert_def Let_def not_less [symmetric] split: sum.splits)
  with ev(2) show ?thesis by blast
qed

section \<open>Properties\<close>

text \<open>
  C26: an insertion always ends and keeps the budget. On a cache whose entries stand under their
  identifiers, as every cache built by its operations has them, inserting returns; when it succeeds
  the cache holds the new entry and is within its budget, every other entry is still there or was
  returned as evicted, and no more than needed was evicted: only entries that were not pinned, each
  accessed no later than every entry that could have gone and stayed, and without evicting the last
  of them the cache would be over its budget.
\<close>

theorem cache_insert_within_budget:
  assumes "cache_keyed c"
  shows "\<exists>c' r. cache_insert c media path bytes now pinned = Some (c', r) \<and> cache_keyed c'
    \<and> (\<forall>del. r = Ok del \<longrightarrow>
         total_bytes c' \<le> mc_max_bytes c
       \<and> fmlookup (mc_entries c') (mr_id media) = Some \<lparr>mce_media = media, mce_local_path = path,
           mce_size_bytes = bytes, mce_last_accessed_ms = now, mce_pinned = pinned\<rparr>
       \<and> (\<forall>k. k \<noteq> mr_id media \<longrightarrow> k \<notin> entry_id ` set del \<longrightarrow> fmlookup (mc_entries c') k = fmlookup (mc_entries c) k)
       \<and> (\<forall>e \<in> set del. fmlookup (mc_entries c) (entry_id e) = Some e \<and> \<not> mce_pinned e
            \<and> fmlookup (mc_entries c') (entry_id e) = None
            \<and> (\<forall>k f. fmlookup (mc_entries c') k = Some f \<longrightarrow> \<not> mce_pinned f \<longrightarrow> k \<noteq> mr_id media \<longrightarrow>
                 access_rank e \<le> access_rank f))
       \<and> (del \<noteq> [] \<longrightarrow> mc_max_bytes c <
            total_bytes (c'\<lparr>mc_entries := fmupd (entry_id (last del)) (last del) (mc_entries c')\<rparr>)))"
proof (cases "is_blank (mr_id media) \<or> is_blank path \<or> mc_max_bytes c < bytes")
  case True
  then show ?thesis using assms by (auto simp: cache_insert_def)
next
  case valid: False
  let ?k = "mr_id media"
  have "\<exists>c' r. cache_insert c media path bytes now pinned = Some (c', r)"
  proof -
    have "cache_keyed (c\<lparr>mc_entries := fmupd ?k \<lparr>mce_media = media, mce_local_path = path,
        mce_size_bytes = bytes, mce_last_accessed_ms = now, mce_pinned = pinned\<rparr> (mc_entries c)\<rparr>)"
      using assms by (intro cache_keyed_simps(2)) (simp_all add: entry_id_def)
    from evict_loop_spec [OF this, of "Some ?k" "[]"] valid show ?thesis
      by (auto simp: cache_insert_def Let_def evict_to_budget_def split: sum.splits)
  qed
  then obtain c' r where ins: "cache_insert c media path bytes now pinned = Some (c', r)" by blast
  from cache_insert_spec [OF assms ins] valid obtain c1 del where
    to: "evicted_to (Some ?k) (c\<lparr>mc_entries := fmupd ?k \<lparr>mce_media = media, mce_local_path = path,
        mce_size_bytes = bytes, mce_last_accessed_ms = now, mce_pinned = pinned\<rparr> (mc_entries c)\<rparr>) del c1"
    and res: "r = Ok del \<and> c' = c1 \<and> total_bytes c1 \<le> mc_max_bytes c
      \<or> (\<exists>e. r = Err e) \<and> c' = c1\<lparr>mc_entries := (case fmlookup (mc_entries c) ?k of
            Some entry \<Rightarrow> fmupd ?k entry (mc_entries c1) | None \<Rightarrow> fmdrop ?k (mc_entries c1))\<rparr>"
    by (auto simp: not_less)
  have c1: "cache_keyed c1" using to by (simp add: evicted_to_def)
  have keyed: "cache_keyed c'"
  proof (cases "fmlookup (mc_entries c) ?k")
    case None
    then show ?thesis using res c1 cache_keyed_simps(1) [OF c1] by auto
  next
    case (Some old)
    then have "entry_id old = ?k" using assms by (simp add: cache_keyed_def)
    then show ?thesis using res Some c1 cache_keyed_simps(2) [OF c1, of old ?k] by auto
  qed
  have not_key: "e \<in> set del \<Longrightarrow> entry_id e \<noteq> ?k" for e
    using to by (auto simp: evicted_to_def evictable_def)
  show ?thesis
  proof (intro exI conjI allI impI, rule ins, rule keyed)
    fix ds assume "r = Ok ds"
    with res have r: "ds = del" "c' = c1" "total_bytes c1 \<le> mc_max_bytes c" by auto
    show "total_bytes c' \<le> mc_max_bytes c" using r by simp
    show "fmlookup (mc_entries c') ?k = Some \<lparr>mce_media = media, mce_local_path = path,
        mce_size_bytes = bytes, mce_last_accessed_ms = now, mce_pinned = pinned\<rparr>"
      using to r not_key by (force simp: evicted_to_def)
    show "fmlookup (mc_entries c') k = fmlookup (mc_entries c) k" if "k \<noteq> ?k" "k \<notin> entry_id ` set ds" for k
      using to r that by (simp add: evicted_to_def)
    show "\<forall>e \<in> set ds. fmlookup (mc_entries c) (entry_id e) = Some e \<and> \<not> mce_pinned e
        \<and> fmlookup (mc_entries c') (entry_id e) = None
        \<and> (\<forall>k f. fmlookup (mc_entries c') k = Some f \<longrightarrow> \<not> mce_pinned f \<longrightarrow> k \<noteq> ?k \<longrightarrow> access_rank e \<le> access_rank f)"
    proof
      fix e assume "e \<in> set ds"
      then have e: "e \<in> set del" using r(1) by simp
      then have "fmlookup (mc_entries c) (entry_id e) = Some e" "\<not> mce_pinned e"
        "fmlookup (mc_entries c') (entry_id e) = None"
        using to not_key [OF e] r(2) by (auto simp: evicted_to_def evictable_def)
      moreover have "access_rank e \<le> access_rank f"
        if "fmlookup (mc_entries c') k = Some f" "\<not> mce_pinned f" "k \<noteq> ?k" for k f
      proof -
        have "evictable (Some ?k) f" using that keyed by (auto simp: evictable_def cache_keyed_def)
        with to e that(1) r(2) show ?thesis unfolding evicted_to_def by blast
      qed
      ultimately show "fmlookup (mc_entries c) (entry_id e) = Some e \<and> \<not> mce_pinned e
        \<and> fmlookup (mc_entries c') (entry_id e) = None
        \<and> (\<forall>k f. fmlookup (mc_entries c') k = Some f \<longrightarrow> \<not> mce_pinned f \<longrightarrow> k \<noteq> ?k \<longrightarrow> access_rank e \<le> access_rank f)"
        by blast
    qed
    show "mc_max_bytes c < total_bytes (c'\<lparr>mc_entries := fmupd (entry_id (last ds)) (last ds) (mc_entries c')\<rparr>)"
      if "ds \<noteq> []" using to r that by (simp add: evicted_to_def)
  qed
qed

text \<open>
  What a failed insertion leaves. When the entries that cannot go exceed the budget, the
  insertion fails; the entry that stood under the identifier, if any, is back and the pinned entries
  are still there, but every other entry is gone: it was evicted and is not returned to the caller,
  who owns the files behind the entries.
\<close>

theorem failed_insert_drops_entries:
  assumes "cache_keyed c" "cache_insert c media path bytes now pinned = Some (c', Err PinnedEntriesExceedBudget)"
  shows "fmlookup (mc_entries c') k = (case fmlookup (mc_entries c) k of
      None \<Rightarrow> None | Some e \<Rightarrow> if k = mr_id media \<or> mce_pinned e then Some e else None)"
proof -
  let ?k = "mr_id media"
  have valid: "\<not> is_blank ?k" "\<not> is_blank path" "bytes \<le> mc_max_bytes c"
    using assms(2) by (auto simp: cache_insert_def split: if_splits)
  from cache_insert_spec [OF assms this] obtain c1 del where
    to: "evicted_to (Some ?k) (c\<lparr>mc_entries := fmupd ?k \<lparr>mce_media = media, mce_local_path = path,
        mce_size_bytes = bytes, mce_last_accessed_ms = now, mce_pinned = pinned\<rparr> (mc_entries c)\<rparr>) del c1"
    and stuck: "\<forall>k e. fmlookup (mc_entries c1) k = Some e \<longrightarrow> \<not> evictable (Some ?k) e"
    and c': "c' = c1\<lparr>mc_entries := (case fmlookup (mc_entries c) ?k of
            Some entry \<Rightarrow> fmupd ?k entry (mc_entries c1) | None \<Rightarrow> fmdrop ?k (mc_entries c1))\<rparr>"
    by auto
  show ?thesis
  proof (cases "k = ?k")
    case True
    then show ?thesis using c' by (simp split: option.splits)
  next
    case False
    then have same: "fmlookup (mc_entries c') k = fmlookup (mc_entries c1) k"
      using c' by (simp split: option.splits)
    have look: "fmlookup (mc_entries c1) k = (if k \<in> entry_id ` set del then None else fmlookup (mc_entries c) k)"
      using to False by (simp add: evicted_to_def)
    have gone: "\<exists>e. fmlookup (mc_entries c) k = Some e \<and> \<not> mce_pinned e" if del: "k \<in> entry_id ` set del"
    proof -
      obtain e where e: "e \<in> set del" "entry_id e = k" using del by blast
      from evicted_toD [OF to e(1)] e(2) False show ?thesis by (auto simp: evictable_def)
    qed
    have kept: "mce_pinned e" if "fmlookup (mc_entries c1) k = Some e" for e
    proof -
      have "cache_keyed c1" using to by (simp add: evicted_to_def)
      then have "entry_id e = k" using that by (simp add: cache_keyed_def)
      moreover have "\<not> evictable (Some ?k) e" using stuck that by blast
      ultimately show ?thesis using False by (auto simp: evictable_def)
    qed
    show ?thesis
    proof (cases "k \<in> entry_id ` set del")
      case True
      then obtain e where "fmlookup (mc_entries c) k = Some e" "\<not> mce_pinned e" using gone by blast
      with True False show ?thesis by (simp add: same look)
    next
      case stays: False
      then show ?thesis using same look kept by (cases "fmlookup (mc_entries c) k") simp_all
    qed
  qed
qed

section \<open>Witnesses\<close>

definition demo_media :: "string \<Rightarrow> MediaRef" where
  "demo_media k = \<lparr>mr_id = k, mr_file_name = None, mr_mime_type = None, mr_size_bytes = None, mr_width = None,
     mr_height = None, mr_duration_ms = None, mr_thumbnail_id = None, mr_local_path = None,
     mr_remote_url = None, mr_content_hash = None\<rparr>"

definition demo_cached :: "string \<Rightarrow> bool \<Rightarrow> MediaCacheEntry" where
  "demo_cached k pinned = \<lparr>mce_media = demo_media k, mce_local_path = ''p'', mce_size_bytes = 6,
     mce_last_accessed_ms = 1, mce_pinned = pinned\<rparr>"

definition demo_cache :: MediaCache where
  "demo_cache = \<lparr>mc_max_bytes = 10, mc_entries = fmupd ''b'' (demo_cached ''b'' True) fmempty\<rparr>"

lemma demo_cache_keyed: "cache_keyed demo_cache"
  by (simp add: cache_keyed_def demo_cache_def demo_cached_def demo_media_def entry_id_def)

lemma map_values_two: "map_values (fmupd ''a'' x (fmupd ''b'' y fmempty)) = [x, y]"
  by (simp add: map_values_def map_keys_def sorted_list_of_fset.rep_eq sorted_list_of_set_insert_remove less_char_def)

lemma demo_insert:
  "\<exists>c'. cache_insert demo_cache (demo_media ''a'') ''p'' 6 2 False = Some (c', Err PinnedEntriesExceedBudget)"
  by (simp add: cache_insert_def demo_cache_def demo_media_def demo_cached_def evict_to_budget_def is_blank_def
      trim_def ws1_def Let_def evict_loop.simps total_bytes_def map_values_two saturating_add_u64_def
      eviction_candidate_def evictable_def entry_id_def)

theorem cache_insert_within_budget_witness:
  "\<exists>c' r. cache_insert demo_cache (demo_media ''a'') ''p'' 6 2 False = Some (c', r) \<and> cache_keyed c'"
  using cache_insert_within_budget [OF demo_cache_keyed] by blast

theorem failed_insert_drops_entries_witness:
  "\<exists>c'. cache_insert demo_cache (demo_media ''a'') ''p'' 6 2 False = Some (c', Err PinnedEntriesExceedBudget)
     \<and> fmlookup (mc_entries c') ''b'' = Some (demo_cached ''b'' True)"
proof -
  obtain c' where c': "cache_insert demo_cache (demo_media ''a'') ''p'' 6 2 False
      = Some (c', Err PinnedEntriesExceedBudget)"
    using demo_insert by blast
  from failed_insert_drops_entries [OF demo_cache_keyed this, of "''b''"] c' show ?thesis
    by (simp add: demo_cache_def demo_cached_def)
qed

end
