(* ===== verification/Access.thy ===== *)
theory Access
  imports Actors
begin

text \<open>
  Access tokens of \<open>src/native/mahayana-messaging/src/access.rs\<close>: grants, the registry of their
  hashed tokens, and the store that keeps the registry in a file. The hash \<open>sha256\<close>, the encoding of
  random bytes and the bytes themselves are parameters; the file is the registry it holds, absent at
  first, and failures of the disk are not modelled.
\<close>

unbundle bit_operations_syntax

definition TOKEN_BYTES :: nat where
  "TOKEN_BYTES = 32"

definition TOKEN_PREFIX :: string where
  "TOKEN_PREFIX = ''fmsg_''"

datatype AccessScope =
  ScopeMessaging | ScopeCalls | ScopeBlobsRead | ScopeBlobsWrite | ScopePayments | ScopeMiniApps | ScopeAdministration

record AccessGrant =
  ag_id :: string
  ag_actor_id :: ActorId
  ag_device_id :: string
  ag_session_id :: string
  ag_scopes :: "AccessScope fset"
  ag_issued_at_ms :: i64
  ag_expires_at_ms :: "i64 option"
  ag_revoked_at_ms :: "i64 option"

definition grant_active_at :: "AccessGrant \<Rightarrow> i64 \<Rightarrow> bool" where
  "grant_active_at g now_ms \<longleftrightarrow>
     ag_revoked_at_ms g = None
   \<and> (case ag_expires_at_ms g of None \<Rightarrow> True | Some t \<Rightarrow> sint now_ms < sint t)"

definition grant_allows :: "AccessGrant \<Rightarrow> AccessScope \<Rightarrow> bool" where
  "grant_allows g scope \<longleftrightarrow> scope |\<in>| ag_scopes g \<or> ScopeAdministration |\<in>| ag_scopes g"

record AuthorizedAccess =
  aa_grant_id :: string
  aa_actor_id :: ActorId
  aa_device_id :: string
  aa_session_id :: string
  aa_scopes :: "AccessScope fset"

record IssuedAccessToken =
  it_token :: string
  it_grant :: AccessGrant

record SecretGrant =
  sg_token_sha256 :: string
  sg_grant :: AccessGrant

record AccessTokenRegistry =
  reg_grants :: "SecretGrant list"

definition AccessTokenRegistry_default :: AccessTokenRegistry where
  "AccessTokenRegistry_default = \<lparr>reg_grants = []\<rparr>"

datatype AccessError =
    WeakToken
  | InvalidGrant
  | EmptyScopes
  | DuplicateGrant
  | AccessUnauthorized
  | AccessIdentityMismatch
  | ExpiredOrRevoked
  | ScopeDenied AccessScope
  | GrantNotFound string
  | RandomFailure string

definition validate_token :: "string \<Rightarrow> (unit, AccessError) result" where
  "validate_token token = (if length token < TOKEN_BYTES then Err WeakToken else Ok ())"

definition validate_grant :: "AccessGrant \<Rightarrow> (unit, AccessError) result" where
  "validate_grant g =
     (if is_blank (ag_id g) \<or> is_blank (ag_device_id g) \<or> is_blank (ag_session_id g)
       \<or> \<not> ActorId_is_valid (ag_actor_id g)
      then Err InvalidGrant
      else if ag_scopes g = {||} then Err EmptyScopes
      else if (case ag_expires_at_ms g of None \<Rightarrow> False | Some t \<Rightarrow> sint t \<le> sint (ag_issued_at_ms g))
      then Err InvalidGrant
      else Ok ())"

text \<open>The comparison reads every byte and collects the differing bits.\<close>

definition byte_of :: "char \<Rightarrow> u8" where
  "byte_of c = of_nat (of_char c)"

definition constant_time_eq :: "string \<Rightarrow> string \<Rightarrow> bool" where
  "constant_time_eq xs ys \<longleftrightarrow>
     length xs = length ys
   \<and> foldl (\<lambda>difference (x, y). difference OR (byte_of x XOR byte_of y)) 0 (zip xs ys) = 0"

definition random_token :: "(string \<Rightarrow> string) \<Rightarrow> (string, string) result \<Rightarrow> (string, AccessError) result" where
  "random_token encode bytes =
     and_then (map_err RandomFailure bytes) (\<lambda>b. Ok (TOKEN_PREFIX @ encode b))"

section \<open>The registry\<close>

definition issue ::
  "(string \<Rightarrow> string) \<Rightarrow> AccessTokenRegistry \<Rightarrow> string \<Rightarrow> AccessGrant \<Rightarrow>
     AccessTokenRegistry \<times> (unit, AccessError) result"
where
  "issue sha reg token g =
     (case and_then (validate_token token) (\<lambda>_. validate_grant g) of
        Inl e \<Rightarrow> (reg, Err e)
      | Inr _ \<Rightarrow>
          if \<exists>x \<in> set (reg_grants reg).
               ag_id (sg_grant x) = ag_id g \<or> constant_time_eq (sg_token_sha256 x) (sha token)
          then (reg, Err DuplicateGrant)
          else (reg\<lparr>reg_grants := reg_grants reg @ [\<lparr>sg_token_sha256 = sha token, sg_grant = g\<rparr>]\<rparr>, Ok ()))"

definition issue_random ::
  "(string \<Rightarrow> string) \<Rightarrow> (string \<Rightarrow> string) \<Rightarrow> AccessTokenRegistry \<Rightarrow> (string, string) result \<Rightarrow> AccessGrant \<Rightarrow>
     AccessTokenRegistry \<times> (IssuedAccessToken, AccessError) result"
where
  "issue_random sha encode reg bytes g =
     (case random_token encode bytes of
        Inl e \<Rightarrow> (reg, Err e)
      | Inr token \<Rightarrow>
          (case issue sha reg token g of
             (reg, r) \<Rightarrow> (reg, and_then r (\<lambda>_. Ok \<lparr>it_token = token, it_grant = g\<rparr>))))"

definition authorize ::
  "(string \<Rightarrow> string) \<Rightarrow> AccessTokenRegistry \<Rightarrow> string \<Rightarrow> ActorId \<Rightarrow> string \<Rightarrow> string \<Rightarrow> AccessScope \<Rightarrow> i64 \<Rightarrow>
     (AuthorizedAccess, AccessError) result"
where
  "authorize sha reg token actor_id device_id session_id scope now_ms =
     and_then (validate_token token) (\<lambda>_.
     and_then (ok_or AccessUnauthorized
       (List.find (\<lambda>x. constant_time_eq (sg_token_sha256 x) (sha token)) (reg_grants reg))) (\<lambda>matching.
     let g = sg_grant matching in
     if ag_actor_id g \<noteq> actor_id \<or> ag_device_id g \<noteq> device_id \<or> ag_session_id g \<noteq> session_id
     then Err AccessIdentityMismatch
     else if \<not> grant_active_at g now_ms then Err ExpiredOrRevoked
     else if \<not> grant_allows g scope then Err (ScopeDenied scope)
     else Ok \<lparr>aa_grant_id = ag_id g, aa_actor_id = ag_actor_id g, aa_device_id = ag_device_id g,
              aa_session_id = ag_session_id g, aa_scopes = ag_scopes g\<rparr>))"

text \<open>The first entry that satisfies a test is changed (\<open>iter_mut().find\<close>).\<close>

fun update_first :: "('a \<Rightarrow> bool) \<Rightarrow> ('a \<Rightarrow> 'a) \<Rightarrow> 'a list \<Rightarrow> 'a list" where
  "update_first P f [] = []"
| "update_first P f (x # xs) = (if P x then f x # xs else x # update_first P f xs)"

definition revoke :: "AccessTokenRegistry \<Rightarrow> string \<Rightarrow> i64 \<Rightarrow> AccessTokenRegistry \<times> (unit, AccessError) result" where
  "revoke reg grant_id now_ms =
     (case List.find (\<lambda>x. ag_id (sg_grant x) = grant_id) (reg_grants reg) of
        None \<Rightarrow> (reg, Err (GrantNotFound grant_id))
      | Some _ \<Rightarrow>
          (reg\<lparr>reg_grants := update_first (\<lambda>x. ag_id (sg_grant x) = grant_id)
             (\<lambda>x. x\<lparr>sg_grant := sg_grant x\<lparr>ag_revoked_at_ms := Some now_ms\<rparr>\<rparr>) (reg_grants reg)\<rparr>, Ok ()))"

definition rotate_random ::
  "(string \<Rightarrow> string) \<Rightarrow> (string \<Rightarrow> string) \<Rightarrow> AccessTokenRegistry \<Rightarrow> string \<Rightarrow> string \<Rightarrow> (string, string) result \<Rightarrow>
     AccessTokenRegistry \<times> (IssuedAccessToken, AccessError) result"
where
  "rotate_random sha encode reg grant_id old_token bytes =
     (case and_then (validate_token old_token) (\<lambda>_.
           and_then (ok_or (GrantNotFound grant_id)
             (List.find (\<lambda>x. ag_id (sg_grant x) = grant_id) (reg_grants reg))) (\<lambda>entry.
           if \<not> constant_time_eq (sg_token_sha256 entry) (sha old_token) then Err AccessUnauthorized
           else and_then (random_token encode bytes) (\<lambda>token.
             Ok \<lparr>it_token = token, it_grant = sg_grant entry\<rparr>))) of
        Inl e \<Rightarrow> (reg, Err e)
      | Inr issued \<Rightarrow>
          (reg\<lparr>reg_grants := update_first (\<lambda>x. ag_id (sg_grant x) = grant_id)
             (\<lambda>x. x\<lparr>sg_token_sha256 := sha (it_token issued)\<rparr>) (reg_grants reg)\<rparr>, Ok issued))"

definition find_grant :: "AccessTokenRegistry \<Rightarrow> string \<Rightarrow> AccessGrant option" where
  "find_grant reg grant_id =
     map_option sg_grant (List.find (\<lambda>x. ag_id (sg_grant x) = grant_id) (reg_grants reg))"

definition active_grants_for_actor :: "AccessTokenRegistry \<Rightarrow> ActorId \<Rightarrow> i64 \<Rightarrow> AccessGrant list" where
  "active_grants_for_actor reg actor_id now_ms =
     filter (\<lambda>g. ag_actor_id g = actor_id \<and> grant_active_at g now_ms) (map sg_grant (reg_grants reg))"

section \<open>The store\<close>

type_synonym AccessFile = "AccessTokenRegistry option"

definition access_load :: "AccessFile \<Rightarrow> AccessTokenRegistry" where
  "access_load file = (case file of Some reg \<Rightarrow> reg | None \<Rightarrow> AccessTokenRegistry_default)"

definition store_issue_random ::
  "(string \<Rightarrow> string) \<Rightarrow> (string \<Rightarrow> string) \<Rightarrow> AccessFile \<Rightarrow> (string, string) result \<Rightarrow> AccessGrant \<Rightarrow>
     AccessFile \<times> (IssuedAccessToken, AccessError) result"
where
  "store_issue_random sha encode file bytes g =
     (case issue_random sha encode (access_load file) bytes g of
        (reg, Inl e) \<Rightarrow> (file, Err e)
      | (reg, Inr issued) \<Rightarrow> (Some reg, Ok issued))"

definition store_authorize ::
  "(string \<Rightarrow> string) \<Rightarrow> AccessFile \<Rightarrow> string \<Rightarrow> ActorId \<Rightarrow> string \<Rightarrow> string \<Rightarrow> AccessScope \<Rightarrow> i64 \<Rightarrow>
     (AuthorizedAccess, AccessError) result"
where
  "store_authorize sha file token actor_id device_id session_id scope now_ms =
     authorize sha (access_load file) token actor_id device_id session_id scope now_ms"

definition store_revoke :: "AccessFile \<Rightarrow> string \<Rightarrow> i64 \<Rightarrow> AccessFile \<times> (unit, AccessError) result" where
  "store_revoke file grant_id now_ms =
     (case revoke (access_load file) grant_id now_ms of
        (reg, Inl e) \<Rightarrow> (file, Err e)
      | (reg, Inr _) \<Rightarrow> (Some reg, Ok ()))"

section \<open>The comparison of hashes\<close>

lemma xor_zero_iff: "(a :: u8) XOR b = 0 \<longleftrightarrow> a = b"
  by (metis bit.xor_left_self xor.right_neutral xor_self_eq)

lemma or_fold_zero:
  "foldl (\<lambda>difference (x, y). difference OR (byte_of x XOR byte_of y)) d ps = 0
     \<longleftrightarrow> d = 0 \<and> (\<forall>(x, y) \<in> set ps. byte_of x = byte_of y)"
  by (induction ps arbitrary: d) (auto simp: or_eq_0_iff xor_zero_iff)

lemma byte_of_inject: "byte_of x = byte_of y \<longleftrightarrow> x = y"
proof
  assume "byte_of x = byte_of y"
  then have "unat (byte_of x) = unat (byte_of y)" by simp
  then have "(of_char x :: nat) = of_char y"
    by (simp add: byte_of_def unsigned_of_nat take_bit_nat_eq_self)
  then show "x = y" by (simp add: of_char_eq_iff)
qed simp

lemma constant_time_eq_iff [simp]: "constant_time_eq xs ys \<longleftrightarrow> xs = ys"
  by (auto simp: constant_time_eq_def or_fold_zero byte_of_inject list_eq_iff_zip_eq)

section \<open>Runs of the registry\<close>

datatype RegistryOp =
    OpIssue string AccessGrant
  | OpIssueRandom "(string, string) result" AccessGrant
  | OpRevoke string i64
  | OpRotate string string "(string, string) result"

primrec registry_step :: "(string \<Rightarrow> string) \<Rightarrow> (string \<Rightarrow> string) \<Rightarrow> AccessTokenRegistry \<Rightarrow> RegistryOp \<Rightarrow> AccessTokenRegistry" where
  "registry_step sha encode reg (OpIssue token g) = fst (issue sha reg token g)"
| "registry_step sha encode reg (OpIssueRandom bytes g) = fst (issue_random sha encode reg bytes g)"
| "registry_step sha encode reg (OpRevoke i now) = fst (revoke reg i now)"
| "registry_step sha encode reg (OpRotate i old bytes) = fst (rotate_random sha encode reg i old bytes)"

definition grant_ids :: "AccessTokenRegistry \<Rightarrow> string list" where
  "grant_ids reg = map (\<lambda>x. ag_id (sg_grant x)) (reg_grants reg)"

lemma map_update_first: "(\<And>x. h (f x) = h x) \<Longrightarrow> map h (update_first P f xs) = map h xs"
  by (induction xs) auto

lemma set_update_first: "y \<in> set (update_first P f xs) \<Longrightarrow> y \<in> set xs \<or> (\<exists>x \<in> set xs. P x \<and> y = f x)"
  by (induction xs) (auto split: if_splits)

text \<open>What an operation does to the list of grants.\<close>

lemma issue_cases:
  obtains (refused) "fst (issue sha reg token g) = reg"
  | (issued) "ag_id g \<notin> set (grant_ids reg)" "\<forall>x \<in> set (reg_grants reg). sg_token_sha256 x \<noteq> sha token"
      "issue sha reg token g =
         (reg\<lparr>reg_grants := reg_grants reg @ [\<lparr>sg_token_sha256 = sha token, sg_grant = g\<rparr>]\<rparr>, Ok ())"
proof (cases "and_then (validate_token token) (\<lambda>_. validate_grant g)")
  case (Inl e)
  then show ?thesis using refused by (simp add: issue_def)
next
  case (Inr u)
  then show ?thesis
  proof (cases "\<exists>x \<in> set (reg_grants reg). ag_id (sg_grant x) = ag_id g \<or> sg_token_sha256 x = sha token")
    case True
    with Inr have "fst (issue sha reg token g) = reg" by (simp add: issue_def)
    then show ?thesis by (rule refused)
  next
    case False
    with Inr have "issue sha reg token g =
        (reg\<lparr>reg_grants := reg_grants reg @ [\<lparr>sg_token_sha256 = sha token, sg_grant = g\<rparr>]\<rparr>, Ok ())"
      by (simp add: issue_def)
    with False show ?thesis by (intro issued) (auto simp: grant_ids_def)
  qed
qed

lemma issue_random_state:
  "fst (issue_random sha encode reg bytes g) = reg
   \<or> (\<exists>token. fst (issue_random sha encode reg bytes g) = fst (issue sha reg token g))"
proof (cases "random_token encode bytes")
  case (Inr token)
  then have "fst (issue_random sha encode reg bytes g) = fst (issue sha reg token g)"
    by (simp add: issue_random_def split: prod.splits)
  then show ?thesis by blast
qed (simp add: issue_random_def)

definition revoked_grant :: "string \<Rightarrow> AccessTokenRegistry \<Rightarrow> bool" where
  "revoked_grant i reg \<longleftrightarrow> i \<in> set (grant_ids reg)
     \<and> (\<forall>x \<in> set (reg_grants reg). ag_id (sg_grant x) = i \<longrightarrow> ag_revoked_at_ms (sg_grant x) \<noteq> None)"

lemma revoked_issue: "revoked_grant i reg \<Longrightarrow> revoked_grant i (fst (issue sha reg token g))"
  by (cases rule: issue_cases [of sha reg token g]) (auto simp: revoked_grant_def grant_ids_def)

lemma distinct_issue: "distinct (grant_ids reg) \<Longrightarrow> distinct (grant_ids (fst (issue sha reg token g)))"
  by (cases rule: issue_cases [of sha reg token g]) (auto simp: grant_ids_def)

lemma grant_ids_revoke: "grant_ids (fst (revoke reg i now)) = grant_ids reg"
  by (simp add: revoke_def grant_ids_def map_update_first split: option.splits)

lemma grant_ids_rotate: "grant_ids (fst (rotate_random sha encode reg i old bytes)) = grant_ids reg"
  by (simp add: rotate_random_def grant_ids_def map_update_first split: sum.splits)

lemma revoked_revoke: "revoked_grant i reg \<Longrightarrow> revoked_grant i (fst (revoke reg j now))"
  using grant_ids_revoke [of reg j now]
  by (auto simp: revoked_grant_def revoke_def split: option.splits dest!: set_update_first)

lemma revoked_rotate: "revoked_grant i reg \<Longrightarrow> revoked_grant i (fst (rotate_random sha encode reg j old bytes))"
  using grant_ids_rotate [of sha encode reg j old bytes]
  by (auto simp: revoked_grant_def rotate_random_def split: sum.splits dest!: set_update_first)

interpretation registry: component "registry_step sha encode" "\<lambda>reg. distinct (grant_ids reg)"
proof
  fix sha encode :: "string \<Rightarrow> string" and reg opn
  assume d: "distinct (grant_ids reg)"
  show "distinct (grant_ids (registry_step sha encode reg opn))"
  proof (cases opn)
    case (OpIssueRandom bytes g)
    then show ?thesis using issue_random_state [of sha encode reg bytes g] distinct_issue [OF d] d by auto
  qed (use d in \<open>simp_all add: distinct_issue grant_ids_revoke grant_ids_rotate\<close>)
qed

lemma revoked_step: "revoked_grant i reg \<Longrightarrow> revoked_grant i (registry_step sha encode reg opn)"
proof (cases opn)
  case (OpIssueRandom bytes g)
  assume "revoked_grant i reg"
  then show ?thesis
    using OpIssueRandom issue_random_state [of sha encode reg bytes g] revoked_issue by auto
qed (simp_all add: revoked_issue revoked_revoke revoked_rotate)

lemma revoke_revokes:
  assumes "distinct (grant_ids reg)" "revoke reg i now = (reg', Ok ())"
  shows "revoked_grant i reg'"
proof -
  have reg': "reg' = reg\<lparr>reg_grants := update_first (\<lambda>x. ag_id (sg_grant x) = i)
      (\<lambda>x. x\<lparr>sg_grant := sg_grant x\<lparr>ag_revoked_at_ms := Some now\<rparr>\<rparr>) (reg_grants reg)\<rparr>"
    and found: "i \<in> set (grant_ids reg)"
    using assms(2) by (auto simp: revoke_def grant_ids_def find_Some_iff split: option.splits)
  have "\<forall>x \<in> set (update_first (\<lambda>x. ag_id (sg_grant x) = i)
      (\<lambda>x. x\<lparr>sg_grant := sg_grant x\<lparr>ag_revoked_at_ms := Some now\<rparr>\<rparr>) xs).
      ag_id (sg_grant x) = i \<longrightarrow> ag_revoked_at_ms (sg_grant x) \<noteq> None"
    if "distinct (map (\<lambda>x. ag_id (sg_grant x)) xs)" for xs
    using that by (induction xs) (auto simp: image_iff)
  with assms(1) reg' found grant_ids_revoke [of reg i now] assms(2) show ?thesis
    by (simp add: revoked_grant_def grant_ids_def)
qed

lemma authorize_Ok:
  "authorize sha reg token a d s scope now = Ok access \<longleftrightarrow>
     TOKEN_BYTES \<le> length token \<and> (\<exists>x. List.find (\<lambda>x. sg_token_sha256 x = sha token) (reg_grants reg) = Some x
       \<and> ag_actor_id (sg_grant x) = a \<and> ag_device_id (sg_grant x) = d \<and> ag_session_id (sg_grant x) = s
       \<and> grant_active_at (sg_grant x) now \<and> grant_allows (sg_grant x) scope
       \<and> access = \<lparr>aa_grant_id = ag_id (sg_grant x), aa_actor_id = a, aa_device_id = d, aa_session_id = s,
           aa_scopes = ag_scopes (sg_grant x)\<rparr>)"
  by (auto simp: authorize_def validate_token_def result_simps Let_def split: if_splits)

section \<open>Properties\<close>

text \<open>
  A revocation is final. In a registry that started empty, once a grant is revoked no token is
  ever authorized under it again, whatever is issued, revoked and rotated afterwards and whatever
  time a request claims.
\<close>

theorem revocation_is_final:
  assumes "reg = foldl (registry_step sha encode) AccessTokenRegistry_default ops"
    and "revoke reg i now = (reg', Ok ())"
    and "authorize sha (foldl (registry_step sha encode) reg' later) token a d s scope t = Ok access"
  shows "aa_grant_id access \<noteq> i"
proof -
  have "distinct (grant_ids reg)"
    unfolding assms(1) by (rule registry.run_inv) (simp add: grant_ids_def AccessTokenRegistry_default_def)
  then have "revoked_grant i reg'" using assms(2) by (rule revoke_revokes)
  then have "revoked_grant i (foldl (registry_step sha encode) reg' later)"
    by (induction later arbitrary: reg') (simp_all add: revoked_step)
  with assms(3) show ?thesis
    by (auto simp: authorize_Ok revoked_grant_def grant_active_at_def find_Some_iff)
qed

text \<open>
  What a token opens. Right after a token is issued for a grant, a request with this token is
  accepted exactly when it comes from the actor, device and session of the grant, before its expiry,
  for a scope the grant has or any scope if it has administration; every other token, as long as its
  hash differs, opens what it opened before.
\<close>

theorem issued_token_opens_its_grant:
  assumes "issue sha reg token g = (reg', Ok ())"
  shows "(authorize sha reg' token a d s scope now = Ok access \<longleftrightarrow>
        a = ag_actor_id g \<and> d = ag_device_id g \<and> s = ag_session_id g \<and> grant_active_at g now
      \<and> grant_allows g scope
      \<and> access = \<lparr>aa_grant_id = ag_id g, aa_actor_id = a, aa_device_id = d, aa_session_id = s,
          aa_scopes = ag_scopes g\<rparr>)
    \<and> (sha other \<noteq> sha token \<longrightarrow>
        authorize sha reg' other a d s scope now = authorize sha reg other a d s scope now)"
proof -
  have long: "TOKEN_BYTES \<le> length token"
    using assms by (auto simp: issue_def validate_token_def split: sum.splits if_splits)
  have new: "\<forall>x \<in> set (reg_grants reg). sg_token_sha256 x \<noteq> sha token"
    "reg' = reg\<lparr>reg_grants := reg_grants reg @ [\<lparr>sg_token_sha256 = sha token, sg_grant = g\<rparr>]\<rparr>"
    using assms by (auto simp: issue_def split: sum.splits if_splits)
  have find: "List.find P (xs @ [y]) = (case List.find P xs of Some x \<Rightarrow> Some x | None \<Rightarrow> if P y then Some y else None)"
    for P xs and y :: SecretGrant by (induction xs) auto
  have "List.find (\<lambda>x. sg_token_sha256 x = sha token) (reg_grants reg) = None"
    using new(1) by (auto simp: find_None_iff)
  then have "authorize sha reg' token a d s scope now = Ok access \<longleftrightarrow>
        a = ag_actor_id g \<and> d = ag_device_id g \<and> s = ag_session_id g \<and> grant_active_at g now
      \<and> grant_allows g scope
      \<and> access = \<lparr>aa_grant_id = ag_id g, aa_actor_id = a, aa_device_id = d, aa_session_id = s,
          aa_scopes = ag_scopes g\<rparr>"
    using long new(2) by (auto simp: authorize_Ok find)
  moreover have "authorize sha reg' other a d s scope now = authorize sha reg other a d s scope now"
    if "sha other \<noteq> sha token"
  proof -
    have "List.find (\<lambda>x. sg_token_sha256 x = sha other) (reg_grants reg')
        = List.find (\<lambda>x. sg_token_sha256 x = sha other) (reg_grants reg)"
      using new(2) that by (simp add: find split: option.splits)
    then show ?thesis by (simp add: authorize_def)
  qed
  ultimately show ?thesis by blast
qed

section \<open>Witnesses\<close>

definition demo_grant :: AccessGrant where
  "demo_grant = \<lparr>ag_id = ''g'', ag_actor_id = ActorId ''a'', ag_device_id = ''d'', ag_session_id = ''s'',
     ag_scopes = {|ScopeCalls|}, ag_issued_at_ms = 1, ag_expires_at_ms = None, ag_revoked_at_ms = None\<rparr>"

definition demo_registry :: AccessTokenRegistry where
  "demo_registry = \<lparr>reg_grants = [\<lparr>sg_token_sha256 = replicate 32 CHR ''x'', sg_grant = demo_grant\<rparr>]\<rparr>"

lemma demo_issue: "issue (\<lambda>x. x) AccessTokenRegistry_default (replicate 32 CHR ''x'') demo_grant = (demo_registry, Ok ())"
  by (simp add: issue_def AccessTokenRegistry_default_def demo_registry_def demo_grant_def validate_token_def
      validate_grant_def TOKEN_BYTES_def is_blank_def trim_def ws1_def ActorId_is_valid_def)

theorem issued_token_opens_its_grant_witness:
  "\<exists>access. authorize (\<lambda>x. x) demo_registry (replicate 32 CHR ''x'') (ActorId ''a'') ''d'' ''s'' ScopeCalls 5 = Ok access"
  using issued_token_opens_its_grant [OF demo_issue, of "ActorId ''a''" "''d''" "''s''" ScopeCalls 5]
  by (simp add: demo_grant_def grant_active_at_def grant_allows_def)

theorem revocation_is_final_witness:
  "\<exists>access. authorize (\<lambda>x. x) (foldl (registry_step (\<lambda>x. x) (\<lambda>x. x)) (fst (revoke demo_registry ''g'' 3))
      [OpIssue (replicate 32 CHR ''y'') (demo_grant\<lparr>ag_id := ''h''\<rparr>)])
      (replicate 32 CHR ''y'') (ActorId ''a'') ''d'' ''s'' ScopeCalls 5 = Ok access
    \<and> aa_grant_id access \<noteq> ''g''"
proof -
  let ?reg = "foldl (registry_step (\<lambda>x. x) (\<lambda>x. x)) AccessTokenRegistry_default
      [OpIssue (replicate 32 CHR ''x'') demo_grant]"
  let ?later = "foldl (registry_step (\<lambda>x. x) (\<lambda>x. x)) (fst (revoke demo_registry ''g'' 3))
      [OpIssue (replicate 32 CHR ''y'') (demo_grant\<lparr>ag_id := ''h''\<rparr>)]"
  have reg: "demo_registry = ?reg" using demo_issue by simp
  have rev: "revoke demo_registry ''g'' 3 = (fst (revoke demo_registry ''g'' 3), Ok ())"
    by (simp add: revoke_def demo_registry_def demo_grant_def)
  have "\<exists>access. authorize (\<lambda>x. x) ?later (replicate 32 CHR ''y'') (ActorId ''a'') ''d'' ''s'' ScopeCalls 5 = Ok access"
    by (simp add: authorize_Ok revoke_def issue_def demo_registry_def demo_grant_def validate_token_def
        validate_grant_def TOKEN_BYTES_def is_blank_def trim_def ws1_def ActorId_is_valid_def
        grant_active_at_def grant_allows_def replicate_eq_replicate)
  then obtain access where acc: "authorize (\<lambda>x. x) ?later (replicate 32 CHR ''y'') (ActorId ''a'') ''d'' ''s'' ScopeCalls 5
      = Ok access" by blast
  from revocation_is_final [OF reg rev acc] acc show ?thesis by blast
qed

end
