(* ===== verification/Signaling.thy ===== *)
theory Signaling
  imports Conversations
begin

text \<open>
  Calls: the data and the realtime state of \<open>src/native/mahayana-messaging/src/realtime.rs\<close> and the
  hub of \<open>signaling.rs\<close> that routes the signals of calls between connected actors. A \<open>Sender\<close> of a
  channel is a handle into a store of channels, which holds what was sent and whether the receiver
  is still there; a client that connects again gets a new channel.
\<close>

section \<open>Calls\<close>

datatype CallId = CallId (call_str: string)

instantiation CallId :: linorder
begin

definition less_eq_CallId :: "CallId \<Rightarrow> CallId \<Rightarrow> bool" where
  "less_eq_CallId a b \<longleftrightarrow> call_str a \<le> call_str b"

definition less_CallId :: "CallId \<Rightarrow> CallId \<Rightarrow> bool" where
  "less_CallId a b \<longleftrightarrow> call_str a < call_str b"

instance
  by intro_classes (auto simp: less_eq_CallId_def less_CallId_def intro: CallId.expand)

end

datatype CallKind = CallVoice | CallVideo | CallGroupVoice | CallGroupVideo | CallLiveStream

datatype CallState = CallRinging | CallConnecting | CallActive | CallHeld | CallEnded | CallFailed

record CallParticipant =
  cp_actor_id :: ActorId
  cp_joined_at_ms :: "i64 option"
  cp_left_at_ms :: "i64 option"
  cp_muted :: bool
  cp_video_enabled :: bool
  cp_screen_sharing :: bool
  cp_speaking :: bool

record IceServer =
  ice_urls :: "string list"
  ice_username :: "string option"
  ice_credential :: "string option"

record CallRoute =
  cr_region :: string
  cr_signaling_url :: string
  cr_media_relay_urls :: "string list"
  cr_ice_servers :: "IceServer list"
  cr_end_to_end_encrypted :: bool

record CallSession =
  cs_id :: CallId
  cs_conversation_id :: ConversationId
  cs_kind :: CallKind
  cs_state :: CallState
  cs_initiator_id :: ActorId
  cs_participants :: "(ActorId, CallParticipant) fmap"
  cs_route :: "CallRoute option"
  cs_created_at_ms :: i64
  cs_connected_at_ms :: "i64 option"
  cs_ended_at_ms :: "i64 option"

datatype (plugins only: code size) CallSignal =
    SignalInvite CallId ConversationId CallKind ActorId "ActorId list"
  | SignalRinging CallId ActorId
  | SignalAccept CallId ActorId
  | SignalDecline CallId ActorId string
  | SignalSdpOffer CallId ActorId ActorId string
  | SignalSdpAnswer CallId ActorId ActorId string
  | SignalIceCandidate CallId ActorId "ActorId option" string "string option" "u16 option"
  | SignalMediaState CallId ActorId bool bool bool
  | SignalSpeaking CallId ActorId bool
  | SignalHangup CallId ActorId string

record TypingState =
  ts_conversation_id :: ConversationId
  ts_actor_id :: ActorId
  ts_action :: string
  ts_expires_at_ms :: i64

datatype RealtimeError =
    DuplicateCall CallId
  | CallNotFound CallId
  | CallParticipantNotFound CallId ActorId

record RealtimeState =
  rt_calls :: "(CallId, CallSession) fmap"
  rt_typing :: "(ConversationId \<times> ActorId, TypingState) fmap"

definition create_call :: "RealtimeState \<Rightarrow> CallSession \<Rightarrow> RealtimeState \<times> (unit, RealtimeError) result" where
  "create_call rt call =
     (if contains_key (rt_calls rt) (cs_id call) then (rt, Err (DuplicateCall (cs_id call)))
      else (rt\<lparr>rt_calls := fmupd (cs_id call) call (rt_calls rt)\<rparr>, Ok ()))"

definition set_participant_media ::
  "RealtimeState \<Rightarrow> CallId \<Rightarrow> ActorId \<Rightarrow> bool \<Rightarrow> bool \<Rightarrow> bool \<Rightarrow> RealtimeState \<times> (unit, RealtimeError) result"
where
  "set_participant_media rt call_id actor_id muted video_enabled screen_sharing =
     (case fmlookup (rt_calls rt) call_id of
        None \<Rightarrow> (rt, Err (CallNotFound call_id))
      | Some call \<Rightarrow>
     (case fmlookup (cs_participants call) actor_id of
        None \<Rightarrow> (rt, Err (CallParticipantNotFound call_id actor_id))
      | Some participant \<Rightarrow>
          let participant = participant\<lparr>cp_muted := muted, cp_video_enabled := video_enabled,
                                        cp_screen_sharing := screen_sharing\<rparr>
          in (rt\<lparr>rt_calls := fmupd call_id
                (call\<lparr>cs_participants := fmupd actor_id participant (cs_participants call)\<rparr>)
                (rt_calls rt)\<rparr>, Ok ())))"

definition set_typing :: "RealtimeState \<Rightarrow> TypingState \<Rightarrow> RealtimeState" where
  "set_typing rt state =
     rt\<lparr>rt_typing := fmupd (ts_conversation_id state, ts_actor_id state) state (rt_typing rt)\<rparr>"

definition expire_typing :: "RealtimeState \<Rightarrow> i64 \<Rightarrow> RealtimeState" where
  "expire_typing rt now_ms =
     rt\<lparr>rt_typing := fmfilter (\<lambda>k. case fmlookup (rt_typing rt) k of
          None \<Rightarrow> False | Some state \<Rightarrow> sint now_ms < sint (ts_expires_at_ms state)) (rt_typing rt)\<rparr>"

section \<open>The hub\<close>

record Channel =
  ch_sent :: "CallSignal list"
  ch_open :: bool

record SignalingHub =
  hub_clients :: "(ActorId, nat) fmap"
  hub_rooms :: "(CallId, ActorId fset) fmap"
  hub_channels :: "(nat, Channel) fmap"

record SignalingSnapshot =
  ss_connected_actor_ids :: "ActorId fset"
  ss_rooms :: "(CallId, ActorId fset) fmap"

datatype SignalingError = SenderMismatch ActorId ActorId

definition SignalingHub_default :: SignalingHub where
  "SignalingHub_default = \<lparr>hub_clients = fmempty, hub_rooms = fmempty, hub_channels = fmempty\<rparr>"

definition connect :: "SignalingHub \<Rightarrow> ActorId \<Rightarrow> SignalingHub \<times> nat" where
  "connect hub actor_id =
     (let channel = map_len (hub_channels hub)
      in (hub\<lparr>hub_clients := fmupd actor_id channel (hub_clients hub),
              hub_channels := fmupd channel \<lparr>ch_sent = [], ch_open = True\<rparr> (hub_channels hub)\<rparr>, channel))"

definition leave_rooms :: "ActorId \<Rightarrow> (CallId, ActorId fset) fmap \<Rightarrow> (CallId, ActorId fset) fmap" where
  "leave_rooms actor_id rooms =
     (let left_rooms = fmmap (\<lambda>members. members |-| {|actor_id|}) rooms
      in fmfilter (\<lambda>k. fmlookup left_rooms k \<noteq> Some {||}) left_rooms)"

definition disconnect :: "SignalingHub \<Rightarrow> ActorId \<Rightarrow> SignalingHub" where
  "disconnect hub actor_id =
     hub\<lparr>hub_clients := fmdrop actor_id (hub_clients hub), hub_rooms := leave_rooms actor_id (hub_rooms hub)\<rparr>"

definition hub_snapshot :: "SignalingHub \<Rightarrow> SignalingSnapshot" where
  "hub_snapshot hub = \<lparr>ss_connected_actor_ids = fmdom (hub_clients hub), ss_rooms = hub_rooms hub\<rparr>"

primrec signal_call_id :: "CallSignal \<Rightarrow> CallId" where
  "signal_call_id (SignalInvite c _ _ _ _) = c"
| "signal_call_id (SignalRinging c _) = c"
| "signal_call_id (SignalAccept c _) = c"
| "signal_call_id (SignalDecline c _ _) = c"
| "signal_call_id (SignalSdpOffer c _ _ _) = c"
| "signal_call_id (SignalSdpAnswer c _ _ _) = c"
| "signal_call_id (SignalIceCandidate c _ _ _ _ _) = c"
| "signal_call_id (SignalMediaState c _ _ _ _) = c"
| "signal_call_id (SignalSpeaking c _ _) = c"
| "signal_call_id (SignalHangup c _ _) = c"

primrec declared_sender :: "CallSignal \<Rightarrow> ActorId" where
  "declared_sender (SignalInvite _ _ _ a _) = a"
| "declared_sender (SignalRinging _ a) = a"
| "declared_sender (SignalAccept _ a) = a"
| "declared_sender (SignalDecline _ a _) = a"
| "declared_sender (SignalSdpOffer _ a _ _) = a"
| "declared_sender (SignalSdpAnswer _ a _ _) = a"
| "declared_sender (SignalIceCandidate _ a _ _ _ _) = a"
| "declared_sender (SignalMediaState _ a _ _ _) = a"
| "declared_sender (SignalSpeaking _ a _) = a"
| "declared_sender (SignalHangup _ a _) = a"

definition validate_sender :: "ActorId \<Rightarrow> CallSignal \<Rightarrow> (unit, SignalingError) result" where
  "validate_sender actor_id signal =
     (if declared_sender signal \<noteq> actor_id then Err (SenderMismatch actor_id (declared_sender signal)) else Ok ())"

definition room_members :: "SignalingHub \<Rightarrow> CallId \<Rightarrow> ActorId fset" where
  "room_members hub call_id = get_or {||} (hub_rooms hub) call_id"

definition open_room :: "SignalingHub \<Rightarrow> CallSignal \<Rightarrow> SignalingHub" where
  "open_room hub signal =
     (case signal of
        SignalInvite call_id _ _ sender participants \<Rightarrow>
          hub\<lparr>hub_rooms := fmupd call_id
                (finsert sender (room_members hub call_id |\<union>| fset_of_list participants)) (hub_rooms hub)\<rparr>
      | _ \<Rightarrow> hub)"

definition signal_targets :: "SignalingHub \<Rightarrow> ActorId \<Rightarrow> CallSignal \<Rightarrow> ActorId fset" where
  "signal_targets hub authenticated_actor_id signal =
     (let others = room_members hub (signal_call_id signal) |-| {|authenticated_actor_id|} in
      case signal of
        SignalInvite _ _ _ sender participants \<Rightarrow> fset_of_list participants |-| {|sender|}
      | SignalSdpOffer _ _ receiver _ \<Rightarrow> {|receiver|}
      | SignalSdpAnswer _ _ receiver _ \<Rightarrow> {|receiver|}
      | SignalIceCandidate _ _ (Some receiver) _ _ _ \<Rightarrow> {|receiver|}
      | _ \<Rightarrow> others)"

definition join_room :: "SignalingHub \<Rightarrow> ActorId \<Rightarrow> CallSignal \<Rightarrow> SignalingHub" where
  "join_room hub actor_id signal =
     (case signal of
        SignalAccept call_id _ \<Rightarrow>
          hub\<lparr>hub_rooms := fmupd call_id (finsert actor_id (room_members hub call_id)) (hub_rooms hub)\<rparr>
      | _ \<Rightarrow> hub)"

text \<open>\<open>Sender::send\<close> fails exactly when the receiver is gone.\<close>

definition send_signal :: "SignalingHub \<Rightarrow> nat \<Rightarrow> CallSignal \<Rightarrow> SignalingHub \<times> bool" where
  "send_signal hub channel signal =
     (case fmlookup (hub_channels hub) channel of
        None \<Rightarrow> (hub, False)
      | Some ch \<Rightarrow>
          if ch_open ch
          then (hub\<lparr>hub_channels := fmupd channel (ch\<lparr>ch_sent := ch_sent ch @ [signal]\<rparr>) (hub_channels hub)\<rparr>, True)
          else (hub, False))"

fun deliver_all ::
  "SignalingHub \<Rightarrow> CallSignal \<Rightarrow> ActorId list \<Rightarrow> nat \<Rightarrow> ActorId list \<Rightarrow> SignalingHub \<times> nat \<times> ActorId list"
where
  "deliver_all hub signal [] delivered stale = (hub, delivered, stale)"
| "deliver_all hub signal (target # targets) delivered stale =
     (case fmlookup (hub_clients hub) target of
        None \<Rightarrow> deliver_all hub signal targets delivered stale
      | Some channel \<Rightarrow>
          (case send_signal hub channel signal of
             (hub, True) \<Rightarrow> deliver_all hub signal targets (delivered + 1) stale
           | (hub, False) \<Rightarrow> deliver_all hub signal targets delivered (stale @ [target])))"

definition hang_up :: "SignalingHub \<Rightarrow> ActorId \<Rightarrow> CallSignal \<Rightarrow> SignalingHub" where
  "hang_up hub actor_id signal =
     (case signal of
        SignalHangup call_id _ _ \<Rightarrow>
          (case fmlookup (hub_rooms hub) call_id of
             None \<Rightarrow> hub
           | Some room \<Rightarrow>
               let room = room |-| {|actor_id|}
               in hub\<lparr>hub_rooms := (if fcard room < 2 then fmdrop call_id (hub_rooms hub)
                                   else fmupd call_id room (hub_rooms hub))\<rparr>)
      | _ \<Rightarrow> hub)"

definition route :: "SignalingHub \<Rightarrow> ActorId \<Rightarrow> CallSignal \<Rightarrow> SignalingHub \<times> (nat, SignalingError) result" where
  "route hub authenticated_actor_id signal =
     (case validate_sender authenticated_actor_id signal of
        Inl e \<Rightarrow> (hub, Err e)
      | Inr _ \<Rightarrow>
          let hub = open_room hub signal;
              targets = signal_targets hub authenticated_actor_id signal;
              hub = join_room hub authenticated_actor_id signal;
              (hub, delivered, stale) =
                deliver_all hub signal (sorted_list_of_fset targets) 0 [];
              hub = foldl disconnect hub stale
          in (hang_up hub authenticated_actor_id signal, Ok delivered))"

text \<open>A subscriber drops its receiver.\<close>

definition drop_receiver :: "SignalingHub \<Rightarrow> nat \<Rightarrow> SignalingHub" where
  "drop_receiver hub channel =
     hub\<lparr>hub_channels := fm_modify channel (\<lambda>ch. ch\<lparr>ch_open := False\<rparr>) (hub_channels hub)\<rparr>"

section \<open>The invariant of the hub\<close>

text \<open>
  Handles are numbered from zero, every client has a channel of its own, and no room is empty.
\<close>

definition hub_ok :: "SignalingHub \<Rightarrow> bool" where
  "hub_ok hub \<longleftrightarrow>
     (\<forall>h. h |\<in>| fmdom (hub_channels hub) \<longleftrightarrow> h < map_len (hub_channels hub))
   \<and> (\<forall>a h. fmlookup (hub_clients hub) a = Some h \<longrightarrow> h < map_len (hub_channels hub))
   \<and> (\<forall>a b h. fmlookup (hub_clients hub) a = Some h \<longrightarrow> fmlookup (hub_clients hub) b = Some h \<longrightarrow> a = b)
   \<and> (\<forall>c members. fmlookup (hub_rooms hub) c = Some members \<longrightarrow> members \<noteq> {||})"

definition listening :: "SignalingHub \<Rightarrow> ActorId \<Rightarrow> bool" where
  "listening hub a =
     (case fmlookup (hub_clients hub) a of
        None \<Rightarrow> False
      | Some h \<Rightarrow> (case fmlookup (hub_channels hub) h of None \<Rightarrow> False | Some ch \<Rightarrow> ch_open ch))"

definition gone :: "SignalingHub \<Rightarrow> ActorId \<Rightarrow> bool" where
  "gone hub a \<longleftrightarrow> contains_key (hub_clients hub) a \<and> \<not> listening hub a"

text \<open>The hub after a signal was put into the open channels of some actors.\<close>

definition delivered_to :: "SignalingHub \<Rightarrow> CallSignal \<Rightarrow> ActorId set \<Rightarrow> SignalingHub" where
  "delivered_to hub signal actors =
     hub\<lparr>hub_channels := fmmap_keys (\<lambda>h ch. if ch_open ch \<and> (\<exists>a \<in> actors. fmlookup (hub_clients hub) a = Some h)
        then ch\<lparr>ch_sent := ch_sent ch @ [signal]\<rparr> else ch) (hub_channels hub)\<rparr>"

lemma delivered_to_simps [simp]:
  "hub_clients (delivered_to hub signal actors) = hub_clients hub"
  "hub_rooms (delivered_to hub signal actors) = hub_rooms hub"
  "fmlookup (hub_channels (delivered_to hub signal actors)) h = map_option (\<lambda>ch.
     if ch_open ch \<and> (\<exists>a \<in> actors. fmlookup (hub_clients hub) a = Some h)
     then ch\<lparr>ch_sent := ch_sent ch @ [signal]\<rparr> else ch) (fmlookup (hub_channels hub) h)"
  "fmdom (hub_channels (delivered_to hub signal actors)) = fmdom (hub_channels hub)"
  by (simp_all add: delivered_to_def fmlookup_dom_iff fset_eqI)

lemma listening_delivered [simp]:
  "listening (delivered_to hub signal actors) = listening hub"
  by (simp add: listening_def fun_eq_iff split: option.splits)

lemma gone_delivered [simp]: "gone (delivered_to hub signal actors) = gone hub"
  by (simp add: gone_def fun_eq_iff)

lemma hub_ok_delivered [simp]: "hub_ok (delivered_to hub signal actors) = hub_ok hub"
  by (simp add: hub_ok_def map_len_def)

lemma hub_eqI:
  "hub_clients x = hub_clients y \<Longrightarrow> hub_rooms x = hub_rooms y \<Longrightarrow>
   (\<And>h. fmlookup (hub_channels x) h = fmlookup (hub_channels y) h) \<Longrightarrow> x = (y :: SignalingHub)"
  by (rule SignalingHub.equality) (auto intro: fmap_ext)

lemma delivered_to_empty: "\<forall>a \<in> actors. \<not> listening hub a \<Longrightarrow> delivered_to hub signal actors = hub"
  by (rule hub_eqI) (auto simp: listening_def option.map_ident_strong split: option.splits
      intro!: option.map_ident_strong)

lemma delivered_to_insert:
  assumes "hub_ok hub" "a \<notin> actors"
  shows "delivered_to (delivered_to hub signal {a}) signal actors = delivered_to hub signal (insert a actors)"
proof (rule hub_eqI)
  have inj: "fmlookup (hub_clients hub) b = Some h \<Longrightarrow> fmlookup (hub_clients hub) a = Some h \<Longrightarrow> b = a" for b h
    using assms(1) by (simp add: hub_ok_def)
  show "fmlookup (hub_channels (delivered_to (delivered_to hub signal {a}) signal actors)) h
      = fmlookup (hub_channels (delivered_to hub signal (insert a actors))) h" for h
  proof -
    have "fmlookup (hub_clients hub) a = Some h \<Longrightarrow> \<not> (\<exists>b \<in> actors. fmlookup (hub_clients hub) b = Some h)"
      using inj assms(2) by blast
    then show ?thesis
      by (cases "fmlookup (hub_channels hub) h"; cases "fmlookup (hub_clients hub) a = Some h") simp_all
  qed
qed simp_all

lemma send_signal_eq:
  assumes "hub_ok hub" "fmlookup (hub_clients hub) a = Some h"
  shows "send_signal hub h signal = (delivered_to hub signal {a}, listening hub a)"
proof -
  have inj: "fmlookup (hub_clients hub) a = Some k \<longleftrightarrow> k = h" for k using assms(2) by auto
  obtain ch where ch: "fmlookup (hub_channels hub) h = Some ch"
    using assms by (metis hub_ok_def fmdomE)
  show ?thesis
  proof (cases "ch_open ch")
    case True
    moreover have "hub\<lparr>hub_channels := fmupd h (ch\<lparr>ch_sent := ch_sent ch @ [signal]\<rparr>) (hub_channels hub)\<rparr>
        = delivered_to hub signal {a}"
      by (rule hub_eqI) (use ch True in \<open>auto simp: inj intro!: option.map_ident_strong [symmetric]\<close>)
    ultimately show ?thesis using ch assms(2) by (simp add: send_signal_def listening_def)
  next
    case False
    then have "\<not> listening hub a" using ch assms(2) by (simp add: listening_def)
    with False ch show ?thesis by (simp add: send_signal_def delivered_to_empty)
  qed
qed

lemma deliver_all_eq:
  assumes "hub_ok hub" "distinct targets"
  shows "deliver_all hub signal targets n stale =
     (delivered_to hub signal (set targets), n + length (filter (listening hub) targets),
      stale @ filter (gone hub) targets)"
  using assms
proof (induction targets arbitrary: hub n stale)
  case Nil
  then show ?case by (simp add: delivered_to_empty)
next
  case (Cons a targets)
  show ?case
  proof (cases "fmlookup (hub_clients hub) a")
    case None
    then have "\<not> listening hub a" "\<not> gone hub a" by (simp_all add: listening_def gone_def contains_key_def)
    moreover have "delivered_to hub signal (insert a (set targets)) = delivered_to hub signal (set targets)"
      using delivered_to_insert [OF Cons.prems(1), of a "set targets" signal]
        delivered_to_empty [of "{a}" hub signal] Cons.prems(2) calculation(1) by simp
    ultimately show ?thesis using Cons None by simp
  next
    case (Some h)
    have set: "delivered_to (delivered_to hub signal {a}) signal (set targets) = delivered_to hub signal (insert a (set targets))"
      using Cons.prems by (intro delivered_to_insert) simp_all
    have "gone hub a \<longleftrightarrow> \<not> listening hub a" using Some by (simp add: gone_def contains_key_def)
    with Cons.IH [of "delivered_to hub signal {a}"] Cons.prems Some set show ?thesis
      by (cases "listening hub a") (simp_all add: send_signal_eq)
  qed
qed

section \<open>Operations keep the invariant\<close>

lemma leave_rooms_lookup:
  "fmlookup (leave_rooms a rooms) c =
     (case fmlookup rooms c of
        None \<Rightarrow> None
      | Some members \<Rightarrow> if members |-| {|a|} = {||} then None else Some (members |-| {|a|}))"
  by (simp add: leave_rooms_def Let_def split: option.splits)

lemma hub_ok_rooms:
  assumes "hub_ok hub" "\<forall>c members. fmlookup rooms c = Some members \<longrightarrow> members \<noteq> {||}"
  shows "hub_ok (hub\<lparr>hub_rooms := rooms\<rparr>)"
  using assms unfolding hub_ok_def by simp

lemma hub_rooms_ok: "hub_ok hub \<Longrightarrow> fmlookup (hub_rooms hub) c = Some members \<Longrightarrow> members \<noteq> {||}"
  by (simp add: hub_ok_def)

lemma hub_ok_disconnect: "hub_ok hub \<Longrightarrow> hub_ok (disconnect hub a)"
  unfolding hub_ok_def disconnect_def by (simp add: leave_rooms_lookup split: option.splits if_splits)

lemma hub_ok_disconnects: "hub_ok hub \<Longrightarrow> hub_ok (foldl disconnect hub xs)"
  by (induction xs arbitrary: hub) (simp_all add: hub_ok_disconnect)

lemma hub_ok_open_room: "hub_ok hub \<Longrightarrow> hub_ok (open_room hub signal)"
  by (cases signal) (auto simp: open_room_def intro!: hub_ok_rooms dest: hub_rooms_ok split: if_splits)

lemma hub_ok_join_room: "hub_ok hub \<Longrightarrow> hub_ok (join_room hub a signal)"
  by (cases signal) (auto simp: join_room_def intro!: hub_ok_rooms dest: hub_rooms_ok split: if_splits)

lemma hub_ok_hang_up:
  assumes "hub_ok hub"
  shows "hub_ok (hang_up hub a signal)"
proof (cases signal)
  case (SignalHangup c b r)
  show ?thesis
  proof (cases "fmlookup (hub_rooms hub) c")
    case None
    then show ?thesis using SignalHangup assms by (simp add: hang_up_def)
  next
    case (Some room)
    let ?rest = "room |-| {|a|}"
    show ?thesis
    proof (cases "fcard ?rest < 2")
      case True
      have "hub_ok (hub\<lparr>hub_rooms := fmdrop c (hub_rooms hub)\<rparr>)"
        using hub_rooms_ok [OF assms] by (intro hub_ok_rooms [OF assms]) (auto split: if_splits)
      with True Some SignalHangup show ?thesis by (simp add: hang_up_def)
    next
      case False
      then have "?rest \<noteq> {||}" by (metis fcard_fempty zero_less_numeral)
      then have "hub_ok (hub\<lparr>hub_rooms := fmupd c ?rest (hub_rooms hub)\<rparr>)"
        using hub_rooms_ok [OF assms] by (intro hub_ok_rooms [OF assms]) (simp split: if_splits)
      with False Some SignalHangup show ?thesis by (simp add: hang_up_def Let_def)
    qed
  qed
qed (simp_all add: hang_up_def assms)

lemma hub_ok_connect:
  assumes "hub_ok hub"
  shows "hub_ok (fst (connect hub a))"
proof -
  let ?n = "map_len (hub_channels hub)"
  have fresh: "?n |\<notin>| fmdom (hub_channels hub)" using assms by (auto simp: hub_ok_def)
  then have "map_len (fmupd ?n ch (hub_channels hub)) = Suc ?n" for ch
    by (simp add: map_len_def fcard_finsert_disjoint)
  moreover have "fmlookup (hub_clients hub) b = Some h \<Longrightarrow> h < ?n" for b h
    using assms unfolding hub_ok_def by blast
  moreover have "fmlookup (hub_clients hub) b \<noteq> Some ?n" for b using calculation(2) [of b ?n] by auto
  ultimately show ?thesis
    using assms unfolding hub_ok_def connect_def Let_def by (auto simp: less_Suc_eq)
qed

lemma hub_ok_drop_receiver: "hub_ok hub \<Longrightarrow> hub_ok (drop_receiver hub h)"
  unfolding hub_ok_def drop_receiver_def by (simp add: map_len_def)

lemma sorted_fset [simp]: "distinct (sorted_list_of_fset A)" "set (sorted_list_of_fset A) = fset A"
  by (simp_all add: sorted_list_of_fset.rep_eq)

text \<open>What the route of an accepted signal is made of.\<close>

definition routed :: "SignalingHub \<Rightarrow> ActorId \<Rightarrow> CallSignal \<Rightarrow> SignalingHub" where
  "routed hub a signal = join_room (open_room hub signal) a signal"

definition signal_audience :: "SignalingHub \<Rightarrow> ActorId \<Rightarrow> CallSignal \<Rightarrow> ActorId fset" where
  "signal_audience hub a signal = signal_targets (open_room hub signal) a signal"

lemma routed_frame [simp]:
  "hub_clients (routed hub a signal) = hub_clients hub"
  "hub_channels (routed hub a signal) = hub_channels hub"
  by (cases signal; simp add: routed_def join_room_def open_room_def)+

lemma listening_routed [simp]: "listening (routed hub a signal) = listening hub" "gone (routed hub a signal) = gone hub"
  by (simp_all add: listening_def gone_def fun_eq_iff cong: option.case_cong)

lemma route_Ok:
  assumes "hub_ok hub" "declared_sender signal = a"
  shows "route hub a signal =
    (hang_up (foldl disconnect (delivered_to (routed hub a signal) signal (fset (signal_audience hub a signal)))
        (filter (gone hub) (sorted_list_of_fset (signal_audience hub a signal)))) a signal,
     Ok (length (filter (listening hub) (sorted_list_of_fset (signal_audience hub a signal)))))"
proof -
  have "hub_ok (routed hub a signal)"
    unfolding routed_def using assms(1) by (intro hub_ok_join_room hub_ok_open_room)
  from deliver_all_eq [OF this] assms(2) show ?thesis
    by (simp add: route_def validate_sender_def routed_def [symmetric] signal_audience_def [symmetric] Let_def)
qed

lemma hub_ok_route: "hub_ok hub \<Longrightarrow> hub_ok (fst (route hub a signal))"
proof (cases "declared_sender signal = a")
  case True
  assume "hub_ok hub"
  moreover from this have "hub_ok (routed hub a signal)"
    unfolding routed_def by (intro hub_ok_join_room hub_ok_open_room)
  ultimately show ?thesis
    using True by (simp add: route_Ok hub_ok_hang_up hub_ok_disconnects)
qed (simp add: route_def validate_sender_def)

datatype HubOp = Connect ActorId | Disconnect ActorId | Route ActorId CallSignal | DropReceiver nat

primrec hub_step :: "SignalingHub \<Rightarrow> HubOp \<Rightarrow> SignalingHub" where
  "hub_step hub (Connect a) = fst (connect hub a)"
| "hub_step hub (Disconnect a) = disconnect hub a"
| "hub_step hub (Route a signal) = fst (route hub a signal)"
| "hub_step hub (DropReceiver h) = drop_receiver hub h"

interpretation hub: component hub_step hub_ok
proof
  fix hub opn assume "hub_ok hub"
  then show "hub_ok (hub_step hub opn)"
    by (cases opn) (simp_all add: hub_ok_connect hub_ok_disconnect hub_ok_route hub_ok_drop_receiver)
qed

lemma hub_ok_default: "hub_ok SignalingHub_default"
  by (simp add: hub_ok_def SignalingHub_default_def)

section \<open>Properties\<close>

lemma disconnects_clients:
  "fmlookup (hub_clients (foldl disconnect hub xs)) b = (if b \<in> set xs then None else fmlookup (hub_clients hub) b)"
  "hub_channels (foldl disconnect hub xs) = hub_channels hub"
  by (induction xs arbitrary: hub) (auto simp: disconnect_def)

text \<open>Rooms only shrink when actors are disconnected, and lose those actors.\<close>

lemma disconnects_rooms:
  "fmlookup (hub_rooms (foldl disconnect hub xs)) c = Some members \<Longrightarrow>
     \<exists>old. fmlookup (hub_rooms hub) c = Some old \<and> members = old |-| fset_of_list xs"
proof (induction xs arbitrary: hub)
  case (Cons a xs)
  obtain mid where mid: "fmlookup (hub_rooms (disconnect hub a)) c = Some mid" "members = mid |-| fset_of_list xs"
    using Cons by auto
  then obtain old where "fmlookup (hub_rooms hub) c = Some old" "mid = old |-| {|a|}"
    by (auto simp: disconnect_def leave_rooms_lookup split: option.splits if_splits)
  with mid(2) show ?case by auto
qed simp

lemma hang_up_frame:
  "hub_clients (hang_up hub a signal) = hub_clients hub"
  "hub_channels (hang_up hub a signal) = hub_channels hub"
  "fmlookup (hub_rooms (hang_up hub a signal)) c = Some members \<Longrightarrow>
     \<exists>old. fmlookup (hub_rooms hub) c = Some old \<and> members |\<subseteq>| old"
  by (cases signal; auto simp: hang_up_def Let_def split: option.splits if_splits)+

text \<open>
  Signals reach exactly their audience. In every hub that started empty, a signal is routed only
  when its declared sender is the authenticated actor, and the answer counts the audience that
  listens; every actor that was listening stays connected on its channel and finds the signal
  appended to it once if it is in the audience, and nothing otherwise; and an actor of the audience
  whose receiver is gone is disconnected and in no room any more. A refused signal changes nothing.
\<close>

theorem signals_reach_audience:
  assumes "hub = foldl hub_step SignalingHub_default ops"
  shows "(declared_sender signal \<noteq> a \<longrightarrow>
        route hub a signal = (hub, Err (SenderMismatch a (declared_sender signal))))
    \<and> (declared_sender signal = a \<longrightarrow> (\<exists>hub' n. route hub a signal = (hub', Ok n)
       \<and> n = card {b. b |\<in>| signal_audience hub a signal \<and> listening hub b}
       \<and> (\<forall>b h ch. fmlookup (hub_clients hub) b = Some h \<longrightarrow> fmlookup (hub_channels hub) h = Some ch \<longrightarrow> ch_open ch \<longrightarrow>
            fmlookup (hub_clients hub') b = Some h
          \<and> fmlookup (hub_channels hub') h = Some (ch\<lparr>ch_sent := ch_sent ch
              @ (if b |\<in>| signal_audience hub a signal then [signal] else [])\<rparr>))
       \<and> (\<forall>b c members. b |\<in>| signal_audience hub a signal \<longrightarrow> gone hub b \<longrightarrow>
            fmlookup (hub_clients hub') b = None
          \<and> (fmlookup (hub_rooms hub') c = Some members \<longrightarrow> b |\<notin>| members))))"
proof (intro conjI impI)
  show "route hub a signal = (hub, Err (SenderMismatch a (declared_sender signal)))"
    if "declared_sender signal \<noteq> a" using that by (simp add: route_def validate_sender_def)
next
  assume sender: "declared_sender signal = a"
  let ?T = "signal_audience hub a signal" and ?hub' = "fst (route hub a signal)"
  have ok: "hub_ok hub" unfolding assms by (rule hub.run_inv [OF hub_ok_default])
  note route = route_Ok [OF ok sender]
  have n: "length (filter (listening hub) (sorted_list_of_fset ?T)) = card {b. b |\<in>| ?T \<and> listening hub b}"
    by (simp add: distinct_card [symmetric])
  have inj: "fmlookup (hub_clients hub) b = Some h \<Longrightarrow> fmlookup (hub_clients hub) b' = Some h \<Longrightarrow> b = b'" for b b' h
    using ok unfolding hub_ok_def by blast
  have listener: "fmlookup (hub_clients ?hub') b = Some h
      \<and> fmlookup (hub_channels ?hub') h = Some (ch\<lparr>ch_sent := ch_sent ch @ (if b |\<in>| ?T then [signal] else [])\<rparr>)"
    if "fmlookup (hub_clients hub) b = Some h" "fmlookup (hub_channels hub) h = Some ch" "ch_open ch" for b h ch
  proof -
    have "listening hub b" using that by (simp add: listening_def)
    moreover have "(\<exists>b' \<in> fset ?T. fmlookup (hub_clients hub) b' = Some h) \<longleftrightarrow> b |\<in>| ?T"
      using that(1) inj by blast
    ultimately show ?thesis
      using that by (auto simp: route hang_up_frame disconnects_clients gone_def)
  qed
  have dropped: "fmlookup (hub_clients ?hub') b = None
      \<and> (fmlookup (hub_rooms ?hub') c = Some members \<longrightarrow> b |\<notin>| members)"
    if "b |\<in>| ?T" "gone hub b" for b c members
  proof -
    have "b |\<notin>| members" if "fmlookup (hub_rooms ?hub') c = Some members"
      using hang_up_frame(3) [OF that [unfolded route fst_conv]] \<open>b |\<in>| ?T\<close> \<open>gone hub b\<close>
      by (auto dest!: disconnects_rooms simp: fset_of_list_elem)
    with that show ?thesis by (simp add: route hang_up_frame disconnects_clients)
  qed
  show "\<exists>hub' n. route hub a signal = (hub', Ok n) \<and> n = card {b. b |\<in>| ?T \<and> listening hub b}
      \<and> (\<forall>b h ch. fmlookup (hub_clients hub) b = Some h \<longrightarrow> fmlookup (hub_channels hub) h = Some ch \<longrightarrow> ch_open ch \<longrightarrow>
            fmlookup (hub_clients hub') b = Some h
          \<and> fmlookup (hub_channels hub') h = Some (ch\<lparr>ch_sent := ch_sent ch @ (if b |\<in>| ?T then [signal] else [])\<rparr>))
      \<and> (\<forall>b c members. b |\<in>| ?T \<longrightarrow> gone hub b \<longrightarrow> fmlookup (hub_clients hub') b = None
          \<and> (fmlookup (hub_rooms hub') c = Some members \<longrightarrow> b |\<notin>| members))"
    using route n listener dropped by (intro exI [of _ ?hub'] exI) auto
qed

theorem signals_reach_audience_witness:
  "\<exists>hub'. route (foldl hub_step SignalingHub_default [Connect (ActorId ''a''), Connect (ActorId ''b'')])
       (ActorId ''a'') (SignalSdpOffer (CallId ''c'') (ActorId ''a'') (ActorId ''b'') ''sdp'') = (hub', Ok 1)"
proof -
  let ?hub = "foldl hub_step SignalingHub_default [Connect (ActorId ''a''), Connect (ActorId ''b'')]"
  let ?signal = "SignalSdpOffer (CallId ''c'') (ActorId ''a'') (ActorId ''b'') ''sdp''"
  obtain hub' n where r: "route ?hub (ActorId ''a'') ?signal = (hub', Ok n)"
    "n = card {b. b |\<in>| signal_audience ?hub (ActorId ''a'') ?signal \<and> listening ?hub b}"
    using signals_reach_audience [of ?hub "[Connect (ActorId ''a''), Connect (ActorId ''b'')]" ?signal "ActorId ''a''"]
    by auto
  have "{b. b |\<in>| signal_audience ?hub (ActorId ''a'') ?signal \<and> listening ?hub b} = {ActorId ''b''}"
    by (auto simp: signal_audience_def signal_targets_def open_room_def Let_def listening_def connect_def
        SignalingHub_default_def map_len_fmupd)
  with r show ?thesis by simp
qed

end
