(* ===== verification/Service_Calls.thy ===== *)
theory Service_Calls
  imports Mini_Apps
begin

text \<open>
  Service calls of Mini Apps, \<open>src/native/mahayana-messaging/src/miniapp_service_call.rs\<close>: a caller
  speaks, types or dials, and the session routes the input to the tools the Mini App exposes. The
  types of the identifier, mode, state and input stand in \<open>Mini_Apps\<close>. A JSON value of a schema, an
  argument or a result is stored and passed on only; its type is the parameter \<open>'v\<close>. The two
  messages in Chinese are written as their bytes.
\<close>

section \<open>Inputs\<close>

definition MiniAppServiceCallId_is_valid :: "MiniAppServiceCallId \<Rightarrow> bool" where
  "MiniAppServiceCallId_is_valid i =
     (let value = trim (service_call_str i) in value \<noteq> [] \<and> length value \<le> 200)"

datatype MiniAppServiceCallInputSource = SourceDtmf | SourceSpeech | SourceChat

datatype MiniAppServiceCallError =
    InvalidServiceSession
  | InvalidServiceState MiniAppServiceCallState
  | ActorNotAllowed
  | InvalidDtmf
  | InvalidTranscript
  | InvalidConfidence
  | InvalidMcpTool
  | DuplicateMcpTool string
  | InvalidDtmfRoute
  | McpToolUnavailable string
  | TurnNotFound u64
  | TurnDoesNotRequireMcpResolution u64
  | InvalidMcpResolution
  | InvalidMcpResult

definition valid_dtmf :: "string \<Rightarrow> bool" where
  "valid_dtmf value \<longleftrightarrow>
     value \<noteq> [] \<and> length value \<le> 32
   \<and> list_all (\<lambda>c. is_ascii_digit c \<or> c = CHR ''*'' \<or> c = CHR ''#'') value"

primrec input_source :: "MiniAppServiceCallInput \<Rightarrow> MiniAppServiceCallInputSource" where
  "input_source (InputDtmf _) = SourceDtmf"
| "input_source (InputSpeechTranscript _ _ _) = SourceSpeech"
| "input_source (InputChatText _) = SourceChat"

primrec transcript_text :: "MiniAppServiceCallInput \<Rightarrow> string option" where
  "transcript_text (InputDtmf digits) = Some digits"
| "transcript_text (InputSpeechTranscript t _ _) = Some t"
| "transcript_text (InputChatText t) = Some t"

primrec normalized_dtmf_digits :: "MiniAppServiceCallInput \<Rightarrow> string option" where
  "normalized_dtmf_digits (InputDtmf digits) = Some digits"
| "normalized_dtmf_digits (InputSpeechTranscript _ _ _) = None"
| "normalized_dtmf_digits (InputChatText t) = (if valid_dtmf (trim t) then Some (trim t) else None)"

primrec requires_mcp_resolution :: "MiniAppServiceCallInput \<Rightarrow> bool" where
  "requires_mcp_resolution (InputDtmf _) = False"
| "requires_mcp_resolution (InputSpeechTranscript _ is_final _) = is_final"
| "requires_mcp_resolution (InputChatText t) = (\<not> valid_dtmf (trim t))"

primrec validate_input :: "MiniAppServiceCallInput \<Rightarrow> (unit, MiniAppServiceCallError) result" where
  "validate_input (InputDtmf digits) = (if \<not> valid_dtmf digits then Err InvalidDtmf else Ok ())"
| "validate_input (InputSpeechTranscript t _ confidence_bps) =
     (if is_blank t \<or> 16000 < length t then Err InvalidTranscript
      else if (case confidence_bps of None \<Rightarrow> False | Some value \<Rightarrow> 10000 < value) then Err InvalidConfidence
      else Ok ())"
| "validate_input (InputChatText t) =
     (if is_blank t \<or> 16000 < length t then Err InvalidTranscript else Ok ())"

section \<open>Tools, turns and effects\<close>

record MiniAppMcpToolAnnotations =
  ta_read_only_hint :: bool
  ta_destructive_hint :: bool
  ta_open_world_hint :: bool

record 'v MiniAppMcpToolCapability =
  tool_name :: string
  tool_title :: "string option"
  tool_description :: "string option"
  tool_input_schema :: "'v option"
  tool_annotations :: MiniAppMcpToolAnnotations

definition tool_is_valid :: "'v MiniAppMcpToolCapability \<Rightarrow> bool" where
  "tool_is_valid tool = (let name = trim (tool_name tool) in name \<noteq> [] \<and> length name \<le> 200)"

type_synonym 'v MiniAppMcpArguments = "(string, 'v) fmap"

record 'v MiniAppMcpDtmfRoute =
  dr_digits :: string
  dr_tool_name :: string
  dr_arguments :: "'v MiniAppMcpArguments"

record MiniAppServiceCallTurn =
  turn_sequence :: u64
  turn_actor_id :: ActorId
  turn_input :: MiniAppServiceCallInput
  turn_created_at_ms :: i64

record 'v MiniAppMcpResolveRequest =
  rr_call_id :: MiniAppServiceCallId
  rr_mini_app_id :: string
  rr_conversation_id :: ConversationId
  rr_turn_sequence :: u64
  rr_input :: MiniAppServiceCallInput
  rr_available_tools :: "'v MiniAppMcpToolCapability list"

datatype 'v MiniAppMcpToolResolution =
    ResolutionInvoke string "'v MiniAppMcpArguments"
  | ResolutionUnavailable string

record 'v MiniAppMcpInvocationRequest =
  ir_call_id :: MiniAppServiceCallId
  ir_mini_app_id :: string
  ir_conversation_id :: ConversationId
  ir_turn_sequence :: u64
  ir_tool_name :: string
  ir_arguments :: "'v MiniAppMcpArguments"

record 'v MiniAppMcpInvocationResult =
  mres_invocation_id :: string
  mres_tool_name :: string
  mres_success :: bool
  mres_structured_content :: "'v option"
  mres_error :: "string option"
  mres_spoken_response :: "string option"
  mres_display_response :: "string option"
  mres_completed_at_ms :: i64

datatype 'v MiniAppServiceCallEffect =
    ResolveMcpTool "'v MiniAppMcpResolveRequest"
  | InvokeMcpTool "'v MiniAppMcpInvocationRequest"
  | McpCapabilityUnavailable MiniAppServiceCallId string u64 string
  | AppendConversationTranscript ConversationId ActorId MiniAppServiceCallInputSource string bool u64

section \<open>Sessions\<close>

record 'v MiniAppServiceCallSession =
  sc_id :: MiniAppServiceCallId
  sc_mini_app_id :: string
  sc_mini_app_session_id :: "string option"
  sc_conversation_id :: ConversationId
  sc_caller_actor_id :: ActorId
  sc_service_actor_id :: "ActorId option"
  sc_mode :: MiniAppServiceCallMode
  sc_state :: MiniAppServiceCallState
  sc_mcp_tools :: "'v MiniAppMcpToolCapability list"
  sc_dtmf_routes :: "'v MiniAppMcpDtmfRoute list"
  sc_turns :: "MiniAppServiceCallTurn list"
  sc_mcp_results :: "'v MiniAppMcpInvocationResult list"
  sc_started_at_ms :: i64
  sc_updated_at_ms :: i64
  sc_ended_at_ms :: "i64 option"

fun check_tools :: "'v MiniAppMcpToolCapability list \<Rightarrow> string fset \<Rightarrow> (string fset, MiniAppServiceCallError) result" where
  "check_tools [] names = Ok names"
| "check_tools (tool # tools) names =
     (if \<not> tool_is_valid tool then Err InvalidMcpTool
      else if tool_name tool |\<in>| names then Err (DuplicateMcpTool (tool_name tool))
      else check_tools tools (finsert (tool_name tool) names))"

fun check_routes :: "string fset \<Rightarrow> 'v MiniAppMcpDtmfRoute list \<Rightarrow> string fset \<Rightarrow> (unit, MiniAppServiceCallError) result" where
  "check_routes names [] seen = Ok ()"
| "check_routes names (rt # rts) seen =
     (if \<not> valid_dtmf (dr_digits rt) \<or> dr_tool_name rt |\<notin>| names \<or> dr_digits rt |\<in>| seen
      then Err InvalidDtmfRoute
      else check_routes names rts (finsert (dr_digits rt) seen))"

definition service_call_new ::
  "MiniAppServiceCallId \<Rightarrow> string \<Rightarrow> string option \<Rightarrow> ConversationId \<Rightarrow> ActorId \<Rightarrow> ActorId option \<Rightarrow>
     MiniAppServiceCallMode \<Rightarrow> 'v MiniAppMcpToolCapability list \<Rightarrow> 'v MiniAppMcpDtmfRoute list \<Rightarrow> i64 \<Rightarrow>
     ('v MiniAppServiceCallSession, MiniAppServiceCallError) result"
where
  "service_call_new i mini_app_id session_id conversation_id caller service mode tools routes started_at_ms =
     (if \<not> MiniAppServiceCallId_is_valid i \<or> is_blank mini_app_id \<or> 200 < length mini_app_id
      then Err InvalidServiceSession
      else
        and_then (check_tools tools {||}) (\<lambda>names.
        and_then (check_routes names routes {||}) (\<lambda>_.
        Ok \<lparr>sc_id = i, sc_mini_app_id = mini_app_id, sc_mini_app_session_id = session_id,
            sc_conversation_id = conversation_id, sc_caller_actor_id = caller, sc_service_actor_id = service,
            sc_mode = mode, sc_state = CallConnecting, sc_mcp_tools = tools, sc_dtmf_routes = routes,
            sc_turns = [], sc_mcp_results = [], sc_started_at_ms = started_at_ms,
            sc_updated_at_ms = started_at_ms, sc_ended_at_ms = None\<rparr>)))"

definition activate ::
  "'v MiniAppServiceCallSession \<Rightarrow> i64 \<Rightarrow> 'v MiniAppServiceCallSession \<times> (unit, MiniAppServiceCallError) result"
where
  "activate ses now_ms =
     (if sc_state ses \<noteq> CallConnecting \<and> sc_state ses \<noteq> CallHeld
      then (ses, Err (InvalidServiceState (sc_state ses)))
      else (ses\<lparr>sc_state := CallActive, sc_updated_at_ms := now_ms\<rparr>, Ok ()))"

definition mcp_unavailable :: "'v MiniAppServiceCallSession \<Rightarrow> u64 \<Rightarrow> string \<Rightarrow> 'v MiniAppServiceCallEffect" where
  "mcp_unavailable ses sequence reason =
     McpCapabilityUnavailable (sc_id ses) (sc_mini_app_id ses) sequence reason"

definition no_tool_reason :: string where
  "no_tool_reason =
     [CHR 0xE5, CHR 0xBD, CHR 0x93, CHR 0xE5, CHR 0x89, CHR 0x8D] @ '' MiniApp '' @ [CHR 0xE6, CHR
     0xB2, CHR 0xA1, CHR 0xE6, CHR 0x9C, CHR 0x89, CHR 0xE6, CHR 0x9A, CHR 0xB4, CHR 0xE9, CHR 0x9C,
     CHR 0xB2, CHR 0xE4, CHR 0xBB, CHR 0xBB, CHR 0xE4, CHR 0xBD, CHR 0x95] @ '' MCP Tool'' @ [CHR
     0xEF, CHR 0xBC, CHR 0x8C, CHR 0xE6, CHR 0x97, CHR 0xA0, CHR 0xE6, CHR 0xB3, CHR 0x95, CHR 0xE6,
     CHR 0x89, CHR 0xA7, CHR 0xE8, CHR 0xA1, CHR 0x8C, CHR 0xE8, CHR 0xAF, CHR 0xA5, CHR 0xE9, CHR
     0x9C, CHR 0x80, CHR 0xE6, CHR 0xB1, CHR 0x82]"

definition no_route_reason :: "string \<Rightarrow> string" where
  "no_route_reason digits =
     [CHR 0xE5, CHR 0xBD, CHR 0x93, CHR 0xE5, CHR 0x89, CHR 0x8D] @ '' MiniApp '' @ [CHR 0xE6, CHR
     0xB2, CHR 0xA1, CHR 0xE6, CHR 0x9C, CHR 0x89, CHR 0xE4, CHR 0xB8, CHR 0xBA, CHR 0xE6, CHR 0x95,
     CHR 0xB0, CHR 0xE5, CHR 0xAD, CHR 0x97] @ '' ''
     @ digits @
     '' '' @ [CHR 0xE9, CHR 0x85, CHR 0x8D, CHR 0xE7, CHR 0xBD, CHR 0xAE, CHR 0xE5, CHR 0x8F, CHR
     0xAF, CHR 0xE8, CHR 0xB0, CHR 0x83, CHR 0xE7, CHR 0x94, CHR 0xA8, CHR 0xE7, CHR 0x9A, CHR 0x84]
     @ '' MCP Tool''"

definition route_dtmf_to_mcp :: "'v MiniAppServiceCallSession \<Rightarrow> u64 \<Rightarrow> string \<Rightarrow> 'v MiniAppServiceCallEffect" where
  "route_dtmf_to_mcp ses sequence digits =
     (case List.find (\<lambda>rt. dr_digits rt = digits) (sc_dtmf_routes ses) of
        Some rt \<Rightarrow>
          InvokeMcpTool \<lparr>ir_call_id = sc_id ses, ir_mini_app_id = sc_mini_app_id ses,
            ir_conversation_id = sc_conversation_id ses, ir_turn_sequence = sequence,
            ir_tool_name = dr_tool_name rt, ir_arguments = dr_arguments rt\<rparr>
      | None \<Rightarrow> mcp_unavailable ses sequence (no_route_reason digits))"

definition next_sequence :: "nat \<Rightarrow> u64" where
  "next_sequence turns = saturating_add_u64 (if turns < 2 ^ 64 then of_nat turns else - 1) 1"

definition transcript_effect ::
  "'v MiniAppServiceCallSession \<Rightarrow> ActorId \<Rightarrow> u64 \<Rightarrow> MiniAppServiceCallInput \<Rightarrow> 'v MiniAppServiceCallEffect"
where
  "transcript_effect ses actor_id sequence input =
     (case input of
        InputDtmf digits \<Rightarrow>
          AppendConversationTranscript (sc_conversation_id ses) actor_id SourceDtmf digits True sequence
      | InputSpeechTranscript t is_final _ \<Rightarrow>
          AppendConversationTranscript (sc_conversation_id ses) actor_id SourceSpeech t is_final sequence
      | InputChatText t \<Rightarrow>
          AppendConversationTranscript (sc_conversation_id ses) actor_id SourceChat t True sequence)"

definition resolution_effects ::
  "'v MiniAppServiceCallSession \<Rightarrow> u64 \<Rightarrow> MiniAppServiceCallInput \<Rightarrow> 'v MiniAppServiceCallEffect list"
where
  "resolution_effects ses sequence input =
     (case normalized_dtmf_digits input of
        Some digits \<Rightarrow> [route_dtmf_to_mcp ses sequence digits]
      | None \<Rightarrow>
          if requires_mcp_resolution input then
            if sc_mcp_tools ses = [] then [mcp_unavailable ses sequence no_tool_reason]
            else [ResolveMcpTool \<lparr>rr_call_id = sc_id ses, rr_mini_app_id = sc_mini_app_id ses,
                    rr_conversation_id = sc_conversation_id ses, rr_turn_sequence = sequence, rr_input = input,
                    rr_available_tools = sc_mcp_tools ses\<rparr>]
          else [])"

definition submit_input ::
  "'v MiniAppServiceCallSession \<Rightarrow> ActorId \<Rightarrow> MiniAppServiceCallInput \<Rightarrow> i64 \<Rightarrow>
     'v MiniAppServiceCallSession \<times> ('v MiniAppServiceCallEffect list, MiniAppServiceCallError) result"
where
  "submit_input ses actor_id input now_ms =
     (if sc_state ses \<noteq> CallActive then (ses, Err (InvalidServiceState (sc_state ses)))
      else if actor_id \<noteq> sc_caller_actor_id ses then (ses, Err ActorNotAllowed)
      else
        (case validate_input input of
           Inl e \<Rightarrow> (ses, Err e)
         | Inr _ \<Rightarrow>
             let sequence = next_sequence (length (sc_turns ses));
                 turn = \<lparr>turn_sequence = sequence, turn_actor_id = actor_id, turn_input = input,
                         turn_created_at_ms = now_ms\<rparr>;
                 ses = ses\<lparr>sc_turns := sc_turns ses @ [turn], sc_updated_at_ms := now_ms\<rparr>
             in (ses, Ok (transcript_effect ses actor_id sequence input
                          # resolution_effects ses sequence input))))"

definition prepare_mcp_invocation ::
  "'v MiniAppServiceCallSession \<Rightarrow> u64 \<Rightarrow> string \<Rightarrow> 'v MiniAppMcpArguments \<Rightarrow>
     ('v MiniAppServiceCallEffect, MiniAppServiceCallError) result"
where
  "prepare_mcp_invocation ses sequence name arguments =
     (if \<not> list_ex (\<lambda>tool. tool_name tool = name) (sc_mcp_tools ses) then Err (McpToolUnavailable name)
      else Ok (InvokeMcpTool \<lparr>ir_call_id = sc_id ses, ir_mini_app_id = sc_mini_app_id ses,
             ir_conversation_id = sc_conversation_id ses, ir_turn_sequence = sequence,
             ir_tool_name = name, ir_arguments = arguments\<rparr>))"

definition apply_mcp_resolution ::
  "'v MiniAppServiceCallSession \<Rightarrow> u64 \<Rightarrow> 'v MiniAppMcpToolResolution \<Rightarrow>
     ('v MiniAppServiceCallEffect, MiniAppServiceCallError) result"
where
  "apply_mcp_resolution ses sequence resolution =
     (if sc_state ses \<noteq> CallActive then Err (InvalidServiceState (sc_state ses))
      else
        and_then (ok_or (TurnNotFound sequence)
          (List.find (\<lambda>turn. turn_sequence turn = sequence) (sc_turns ses))) (\<lambda>turn.
        if \<not> requires_mcp_resolution (turn_input turn) then Err (TurnDoesNotRequireMcpResolution sequence)
        else
          (case resolution of
             ResolutionInvoke name arguments \<Rightarrow> prepare_mcp_invocation ses sequence name arguments
           | ResolutionUnavailable reason \<Rightarrow>
               if trim reason = [] then Err InvalidMcpResolution
               else Ok (mcp_unavailable ses sequence (trim reason)))))"

definition record_mcp_result ::
  "'v MiniAppServiceCallSession \<Rightarrow> 'v MiniAppMcpInvocationResult \<Rightarrow>
     'v MiniAppServiceCallSession \<times> (unit, MiniAppServiceCallError) result"
where
  "record_mcp_result ses res =
     (if sc_state ses = CallEnded \<or> sc_state ses = CallFailed
      then (ses, Err (InvalidServiceState (sc_state ses)))
      else if is_blank (mres_invocation_id res) \<or> is_blank (mres_tool_name res)
        \<or> \<not> list_ex (\<lambda>tool. tool_name tool = mres_tool_name res) (sc_mcp_tools ses)
      then (ses, Err InvalidMcpResult)
      else (ses\<lparr>sc_updated_at_ms := mres_completed_at_ms res, sc_mcp_results := sc_mcp_results ses @ [res]\<rparr>, Ok ()))"

definition end_call ::
  "'v MiniAppServiceCallSession \<Rightarrow> i64 \<Rightarrow> 'v MiniAppServiceCallSession \<times> (unit, MiniAppServiceCallError) result"
where
  "end_call ses now_ms =
     (if sc_state ses = CallEnded \<or> sc_state ses = CallFailed
      then (ses, Err (InvalidServiceState (sc_state ses)))
      else (ses\<lparr>sc_state := CallEnded, sc_updated_at_ms := now_ms, sc_ended_at_ms := Some now_ms\<rparr>, Ok ()))"

section \<open>Runs of a session\<close>

datatype 'v CallOp =
    OpActivate i64
  | OpInput ActorId MiniAppServiceCallInput i64
  | OpResult "'v MiniAppMcpInvocationResult"
  | OpEnd i64

primrec call_step :: "'v MiniAppServiceCallSession \<Rightarrow> 'v CallOp \<Rightarrow> 'v MiniAppServiceCallSession" where
  "call_step ses (OpActivate now) = fst (activate ses now)"
| "call_step ses (OpInput a input now) = fst (submit_input ses a input now)"
| "call_step ses (OpResult res) = fst (record_mcp_result ses res)"
| "call_step ses (OpEnd now) = fst (end_call ses now)"

definition exposed :: "'v MiniAppServiceCallSession \<Rightarrow> string \<Rightarrow> bool" where
  "exposed ses name \<longleftrightarrow> (\<exists>tool \<in> set (sc_mcp_tools ses). tool_name tool = name)"

text \<open>
  The routes and the results name exposed tools, the turns are those of the caller and numbered from
  one, and a session that has ended says when.
\<close>

definition call_ok :: "'v MiniAppServiceCallSession \<Rightarrow> bool" where
  "call_ok ses \<longleftrightarrow>
     (\<forall>rt \<in> set (sc_dtmf_routes ses). exposed ses (dr_tool_name rt))
   \<and> (\<forall>res \<in> set (sc_mcp_results ses). exposed ses (mres_tool_name res))
   \<and> (\<forall>k < length (sc_turns ses). turn_actor_id (sc_turns ses ! k) = sc_caller_actor_id ses
        \<and> turn_sequence (sc_turns ses ! k) = next_sequence k)
   \<and> (sc_state ses = CallEnded \<longleftrightarrow> sc_ended_at_ms ses \<noteq> None)"

lemma find_SomeD: "List.find P xs = Some x \<Longrightarrow> x \<in> set xs \<and> P x"
  by (auto simp: find_Some_iff)

lemma exposed_update [simp]:
  "exposed (ses\<lparr>sc_turns := ts\<rparr>) = exposed ses" "exposed (ses\<lparr>sc_state := st\<rparr>) = exposed ses"
  "exposed (ses\<lparr>sc_mcp_results := rs\<rparr>) = exposed ses" "exposed (ses\<lparr>sc_updated_at_ms := t\<rparr>) = exposed ses"
  "exposed (ses\<lparr>sc_ended_at_ms := e\<rparr>) = exposed ses"
  by (simp_all add: exposed_def fun_eq_iff)

lemma check_tools_names:
  "check_tools tools names = Ok names' \<Longrightarrow> fset names' = fset names \<union> tool_name ` set tools"
  by (induction tools arbitrary: names) (auto split: if_splits)

lemma check_routes_names:
  "check_routes names routes seen = Ok () \<Longrightarrow> rt \<in> set routes \<Longrightarrow> dr_tool_name rt |\<in>| names"
  by (induction routes arbitrary: seen) (auto split: if_splits)

lemma call_ok_new:
  assumes "service_call_new i app sid c caller srv mode tools routes t = Ok ses"
  shows "call_ok ses"
proof -
  obtain names where "check_tools tools {||} = Ok names" "check_routes names routes {||} = Ok ()"
    and ses: "sc_mcp_tools ses = tools" "sc_dtmf_routes ses = routes" "sc_turns ses = []" "sc_mcp_results ses = []"
      "sc_state ses = CallConnecting" "sc_ended_at_ms ses = None"
    using assms by (auto simp: service_call_new_def result_simps split: if_splits)
  with check_tools_names check_routes_names have "rt \<in> set routes \<Longrightarrow> dr_tool_name rt \<in> tool_name ` set tools" for rt
    by (metis bot_fset.rep_eq sup_bot_left)
  with ses show ?thesis by (force simp: call_ok_def exposed_def)
qed

lemma call_ok_input:
  assumes "call_ok ses"
  shows "call_ok (fst (submit_input ses a input now))"
proof (cases "sc_state ses = CallActive \<and> a = sc_caller_actor_id ses \<and> validate_input input = Ok ()")
  case True
  with assms show ?thesis
    by (simp add: submit_input_def Let_def call_ok_def nth_append less_Suc_eq)
qed (auto simp: submit_input_def assms split: sum.splits)

interpretation calls: component call_step call_ok
proof
  fix ses :: "'v MiniAppServiceCallSession" and opn
  assume ok: "call_ok ses"
  show "call_ok (call_step ses opn)"
  proof (cases opn)
    case (OpResult res)
    then show ?thesis
      using ok by (auto simp: record_mcp_result_def call_ok_def exposed_def list_ex_iff)
  next
    case (OpActivate t)
    then show ?thesis using ok by (cases "sc_ended_at_ms ses") (auto simp: activate_def call_ok_def)
  next
    case (OpEnd t)
    then show ?thesis using ok by (simp add: end_call_def call_ok_def)
  qed (simp add: call_ok_input ok)
qed

text \<open>The identity of a session and its tools never change.\<close>

definition same_call :: "'v MiniAppServiceCallSession \<Rightarrow> 'v MiniAppServiceCallSession \<Rightarrow> bool" where
  "same_call ses ses' \<longleftrightarrow>
     sc_id ses' = sc_id ses \<and> sc_mini_app_id ses' = sc_mini_app_id ses
   \<and> sc_conversation_id ses' = sc_conversation_id ses \<and> sc_caller_actor_id ses' = sc_caller_actor_id ses
   \<and> sc_mcp_tools ses' = sc_mcp_tools ses \<and> sc_dtmf_routes ses' = sc_dtmf_routes ses"

lemma same_call_step: "same_call ses (call_step ses opn)"
  by (cases opn) (simp_all add: same_call_def activate_def submit_input_def record_mcp_result_def end_call_def Let_def
      split: sum.splits)

lemma same_call_run: "same_call ses (foldl call_step ses ops)"
proof (induction ops arbitrary: ses)
  case (Cons opn ops)
  then have "same_call (call_step ses opn) (foldl call_step (call_step ses opn) ops)" by simp
  with same_call_step [of ses opn] show ?case by (simp add: same_call_def)
qed (simp add: same_call_def)

section \<open>Properties\<close>

text \<open>What a request for a tool says of the session it belongs to.\<close>

definition rightful_request :: "'v MiniAppServiceCallSession \<Rightarrow> 'v MiniAppMcpInvocationRequest \<Rightarrow> bool" where
  "rightful_request ses req \<longleftrightarrow>
     ir_call_id req = sc_id ses \<and> ir_mini_app_id req = sc_mini_app_id ses
   \<and> ir_conversation_id req = sc_conversation_id ses \<and> exposed ses (ir_tool_name req)
   \<and> (\<exists>turn \<in> set (sc_turns ses). turn_sequence turn = ir_turn_sequence req \<and> turn_actor_id turn = sc_caller_actor_id ses)"

lemma routed_request:
  assumes "call_ok ses" "InvokeMcpTool req \<in> set (resolution_effects ses sequence input)"
  shows "ir_call_id req = sc_id ses" "ir_mini_app_id req = sc_mini_app_id ses"
    "ir_conversation_id req = sc_conversation_id ses" "exposed ses (ir_tool_name req)"
    "ir_turn_sequence req = sequence"
proof -
  obtain rt where "rt \<in> set (sc_dtmf_routes ses)" and req: "req = \<lparr>ir_call_id = sc_id ses, ir_mini_app_id = sc_mini_app_id ses,
      ir_conversation_id = sc_conversation_id ses, ir_turn_sequence = sequence,
      ir_tool_name = dr_tool_name rt, ir_arguments = dr_arguments rt\<rparr>"
    using assms(2) by (auto simp: resolution_effects_def route_dtmf_to_mcp_def mcp_unavailable_def
        split: option.splits if_splits dest: find_SomeD)
  moreover from this have "exposed ses (dr_tool_name rt)" using assms(1) by (simp add: call_ok_def)
  ultimately show "ir_call_id req = sc_id ses" "ir_mini_app_id req = sc_mini_app_id ses"
    "ir_conversation_id req = sc_conversation_id ses" "exposed ses (ir_tool_name req)"
    "ir_turn_sequence req = sequence" by simp_all
qed

text \<open>
  A call reaches exposed tools only, and for its caller only. However a session that was opened
  goes on, a tool is asked for only by an input of the caller, dialled or resolved, that the session
  has recorded as a turn; the request names a tool the Mini App exposes and carries the session's
  identifiers and the number of that turn; and every accepted input is first written into the
  transcript of the conversation.
\<close>

theorem calls_use_exposed_tools:
  assumes "service_call_new i app sid c caller srv mode tools routes t = Ok ses0"
    and "ses = foldl call_step ses0 ops"
  shows "(submit_input ses a input now = (ses', Ok effects) \<longrightarrow>
        a = caller \<and> length (sc_turns ses') = Suc (length (sc_turns ses))
      \<and> (\<exists>rest. effects = transcript_effect ses' a (next_sequence (length (sc_turns ses))) input # rest
           \<and> length rest \<le> 1 \<and> (\<forall>req. InvokeMcpTool req \<in> set rest \<longrightarrow> rightful_request ses' req)))
    \<and> (apply_mcp_resolution ses n resolution = Ok (InvokeMcpTool req) \<longrightarrow> rightful_request ses req)"
proof (intro conjI impI)
  have ok: "call_ok ses" unfolding assms(2) by (rule calls.run_inv) (rule call_ok_new [OF assms(1)])
  have "sc_caller_actor_id ses0 = caller"
    using assms(1) by (auto simp: service_call_new_def result_simps split: if_splits)
  then have caller: "sc_caller_actor_id ses = caller"
    using same_call_run [of ses0 ops] by (simp add: same_call_def assms(2))
  show "rightful_request ses req" if res: "apply_mcp_resolution ses n resolution = Ok (InvokeMcpTool req)"
  proof -
    obtain turn where "turn \<in> set (sc_turns ses)" "turn_sequence turn = n"
      and name: "\<exists>name args. prepare_mcp_invocation ses n name args = Ok (InvokeMcpTool req)"
      using res by (auto simp: apply_mcp_resolution_def mcp_unavailable_def result_simps
          split: if_splits MiniAppMcpToolResolution.splits dest!: find_SomeD)
    moreover have "turn_actor_id turn = sc_caller_actor_id ses"
      using ok \<open>turn \<in> set (sc_turns ses)\<close> by (auto simp: call_ok_def in_set_conv_nth)
    ultimately show ?thesis
      by (auto simp: rightful_request_def prepare_mcp_invocation_def exposed_def list_ex_iff split: if_splits)
  qed
  assume sub: "submit_input ses a input now = (ses', Ok effects)"
  let ?n = "next_sequence (length (sc_turns ses))"
  have a: "a = caller" and ses': "ses' = ses\<lparr>sc_turns := sc_turns ses @ [\<lparr>turn_sequence = ?n, turn_actor_id = a,
      turn_input = input, turn_created_at_ms = now\<rparr>], sc_updated_at_ms := now\<rparr>"
    and eff: "effects = transcript_effect ses' a ?n input # resolution_effects ses' ?n input"
    using sub caller by (auto simp: submit_input_def Let_def split: if_splits sum.splits)
  then show "a = caller" "length (sc_turns ses') = Suc (length (sc_turns ses))" by simp_all
  have ok': "call_ok ses'" using call_ok_input [OF ok, of a input now] sub by simp
  have "rightful_request ses' req" if "InvokeMcpTool req \<in> set (resolution_effects ses' ?n input)" for req
    using routed_request [OF ok' that] ses' a caller by (auto simp: rightful_request_def)
  moreover have "length (resolution_effects ses' ?n input) \<le> 1"
    by (simp add: resolution_effects_def split: option.splits)
  ultimately show "\<exists>rest. effects = transcript_effect ses' a ?n input # rest
      \<and> length rest \<le> 1 \<and> (\<forall>req. InvokeMcpTool req \<in> set rest \<longrightarrow> rightful_request ses' req)"
    using eff by blast
qed

text \<open>
  An ended call stays ended. After a call was ended every further operation is refused and
  leaves the session as it is, and nothing is resolved any more.
\<close>

theorem ended_call_is_final:
  assumes "end_call ses now = (ses', Ok ())"
  shows "foldl call_step ses' ops = ses' \<and> sc_ended_at_ms ses' = Some now
    \<and> apply_mcp_resolution ses' n resolution = Err (InvalidServiceState CallEnded)"
proof -
  have ended: "sc_state ses' = CallEnded" "sc_ended_at_ms ses' = Some now"
    using assms by (auto simp: end_call_def split: if_splits)
  have "call_step ses' opn = ses'" for opn
    by (cases opn) (simp_all add: ended activate_def submit_input_def record_mcp_result_def end_call_def)
  then have "foldl call_step ses' ops = ses'" by (induction ops) simp_all
  with ended show ?thesis by (simp add: apply_mcp_resolution_def)
qed

section \<open>Witnesses\<close>

definition demo_tool :: "nat MiniAppMcpToolCapability" where
  "demo_tool = \<lparr>tool_name = ''book'', tool_title = None, tool_description = None, tool_input_schema = None,
     tool_annotations = \<lparr>ta_read_only_hint = False, ta_destructive_hint = False, ta_open_world_hint = False\<rparr>\<rparr>"

definition demo_call :: "nat MiniAppServiceCallSession" where
  "demo_call = \<lparr>sc_id = MiniAppServiceCallId ''k'', sc_mini_app_id = ''app'', sc_mini_app_session_id = None,
     sc_conversation_id = ConversationId ''c'', sc_caller_actor_id = ActorId ''a'', sc_service_actor_id = None,
     sc_mode = ModeVoice, sc_state = CallConnecting, sc_mcp_tools = [demo_tool],
     sc_dtmf_routes = [\<lparr>dr_digits = ''1'', dr_tool_name = ''book'', dr_arguments = fmempty\<rparr>],
     sc_turns = [], sc_mcp_results = [], sc_started_at_ms = 0, sc_updated_at_ms = 0, sc_ended_at_ms = None\<rparr>"

lemma demo_call_new:
  "service_call_new (MiniAppServiceCallId ''k'') ''app'' None (ConversationId ''c'') (ActorId ''a'') None ModeVoice
     [demo_tool] [\<lparr>dr_digits = ''1'', dr_tool_name = ''book'', dr_arguments = fmempty\<rparr>] 0 = Ok demo_call"
  by (simp add: service_call_new_def demo_call_def demo_tool_def MiniAppServiceCallId_is_valid_def tool_is_valid_def
      is_blank_def trim_def ws1_def ws2_def ws3_def valid_dtmf_def is_ascii_digit_def less_eq_char_def Let_def)

theorem calls_use_exposed_tools_witness:
  "\<exists>ses' effects. submit_input (foldl call_step demo_call [OpActivate 1]) (ActorId ''a'') (InputDtmf ''1'') 2
      = (ses', Ok effects) \<and> length (sc_turns ses') = 1"
proof -
  let ?ses = "foldl call_step demo_call [OpActivate 1]"
  have "\<exists>ses' effects. submit_input ?ses (ActorId ''a'') (InputDtmf ''1'') 2 = (ses', Ok effects)"
    by (simp add: demo_call_def activate_def submit_input_def Let_def valid_dtmf_def is_ascii_digit_def less_eq_char_def)
  then obtain ses' effects where sub: "submit_input ?ses (ActorId ''a'') (InputDtmf ''1'') 2 = (ses', Ok effects)"
    by blast
  have "sc_turns ?ses = []" by (simp add: demo_call_def activate_def)
  with sub calls_use_exposed_tools [OF demo_call_new refl, of "[OpActivate 1]" "ActorId ''a''" "InputDtmf ''1''" 2 ses' effects]
  show ?thesis by auto
qed

theorem ended_call_is_final_witness:
  "\<exists>ses'. end_call demo_call 5 = (ses', Ok ()) \<and> foldl call_step ses' [OpActivate 6] = ses'"
proof -
  obtain ses' where e: "end_call demo_call 5 = (ses', Ok ())"
    by (simp add: end_call_def demo_call_def)
  from ended_call_is_final [OF this] e show ?thesis by blast
qed

end
