(* ===== verification/Devices.thy ===== *)
theory Devices
  imports Actors
begin

text \<open>
  Sessions of devices, \<open>src/native/mahayana-messaging/src/device.rs\<close>: registration, the sync cursor a
  device acknowledges, revocation, and the least cursor of the active devices of an actor.
\<close>

datatype DevicePlatform = Macos | Windows | Linux | Ios | Android | Web

record DeviceSession =
  ds_id :: string
  ds_actor_id :: ActorId
  ds_device_id :: string
  ds_platform :: DevicePlatform
  ds_device_name :: string
  ds_app_version :: string
  ds_created_at_ms :: i64
  ds_last_active_at_ms :: i64
  ds_revoked_at_ms :: "i64 option"
  ds_push_token :: "string option"
  ds_sync_cursor :: u64
  ds_trusted :: bool

definition device_active :: "DeviceSession \<Rightarrow> bool" where
  "device_active session \<longleftrightarrow> ds_revoked_at_ms session = None"

record DeviceSyncCursor =
  dsc_session_id :: string
  dsc_cursor :: u64
  dsc_acknowledged_at_ms :: i64

record DeviceRegistry =
  dev_sessions :: "(string, DeviceSession) fmap"

datatype DeviceError =
    InvalidDeviceSession
  | DuplicateSession string
  | DeviceSessionNotFound string
  | DeviceRevoked string

definition register_device :: "DeviceRegistry \<Rightarrow> DeviceSession \<Rightarrow> DeviceRegistry \<times> (unit, DeviceError) result" where
  "register_device reg session =
     (if is_blank (ds_id session) \<or> is_blank (ds_device_id session) then (reg, Err InvalidDeviceSession)
      else if contains_key (dev_sessions reg) (ds_id session) then (reg, Err (DuplicateSession (ds_id session)))
      else (reg\<lparr>dev_sessions := fmupd (ds_id session) session (dev_sessions reg)\<rparr>, Ok ()))"

definition acknowledge_device ::
  "DeviceRegistry \<Rightarrow> string \<Rightarrow> u64 \<Rightarrow> i64 \<Rightarrow> DeviceRegistry \<times> (DeviceSyncCursor, DeviceError) result"
where
  "acknowledge_device reg session_id cursor now_ms =
     (case fmlookup (dev_sessions reg) session_id of
        None \<Rightarrow> (reg, Err (DeviceSessionNotFound session_id))
      | Some session \<Rightarrow>
          if \<not> device_active session then (reg, Err (DeviceRevoked session_id))
          else
            let session = session\<lparr>ds_sync_cursor := max (ds_sync_cursor session) cursor,
                                  ds_last_active_at_ms := now_ms\<rparr>
            in (reg\<lparr>dev_sessions := fmupd session_id session (dev_sessions reg)\<rparr>,
                Ok \<lparr>dsc_session_id = session_id, dsc_cursor = ds_sync_cursor session,
                    dsc_acknowledged_at_ms = now_ms\<rparr>))"

definition revoke_device :: "DeviceRegistry \<Rightarrow> string \<Rightarrow> i64 \<Rightarrow> DeviceRegistry \<times> (unit, DeviceError) result" where
  "revoke_device reg session_id now_ms =
     (case fmlookup (dev_sessions reg) session_id of
        None \<Rightarrow> (reg, Err (DeviceSessionNotFound session_id))
      | Some session \<Rightarrow>
          (reg\<lparr>dev_sessions := fmupd session_id
                 (session\<lparr>ds_revoked_at_ms := Some now_ms, ds_push_token := None\<rparr>) (dev_sessions reg)\<rparr>, Ok ()))"

definition active_for_actor :: "DeviceRegistry \<Rightarrow> ActorId \<Rightarrow> DeviceSession list" where
  "active_for_actor reg actor_id =
     filter (\<lambda>session. ds_actor_id session = actor_id \<and> device_active session) (map_values (dev_sessions reg))"

definition minimum_active_cursor :: "DeviceRegistry \<Rightarrow> ActorId \<Rightarrow> u64 option" where
  "minimum_active_cursor reg actor_id =
     min_by_key (\<lambda>cursor. cursor) (map ds_sync_cursor (active_for_actor reg actor_id))"

section \<open>Runs of the registry\<close>

datatype DeviceOp = OpRegister DeviceSession | OpAcknowledge string u64 i64 | OpRevokeDevice string i64

primrec device_step :: "DeviceRegistry \<Rightarrow> DeviceOp \<Rightarrow> DeviceRegistry" where
  "device_step reg (OpRegister session) = fst (register_device reg session)"
| "device_step reg (OpAcknowledge i cursor now) = fst (acknowledge_device reg i cursor now)"
| "device_step reg (OpRevokeDevice i now) = fst (revoke_device reg i now)"

text \<open>What becomes of a session: its cursor advances, a revoked one stays revoked.\<close>

definition device_goes_on :: "DeviceSession \<Rightarrow> DeviceSession \<Rightarrow> bool" where
  "device_goes_on x y \<longleftrightarrow>
     ds_id y = ds_id x \<and> ds_actor_id y = ds_actor_id x \<and> ds_sync_cursor x \<le> ds_sync_cursor y
   \<and> (\<not> device_active x \<longrightarrow> \<not> device_active y \<and> ds_sync_cursor y = ds_sync_cursor x)"

lemma device_step_goes_on:
  assumes "fmlookup (dev_sessions reg) i = Some x"
  shows "\<exists>y. fmlookup (dev_sessions (device_step reg opn)) i = Some y \<and> device_goes_on x y"
proof (cases opn)
  case (OpRegister session)
  with assms have "fmlookup (dev_sessions (device_step reg opn)) i = Some x"
    by (auto simp: register_device_def contains_key_def)
  then show ?thesis by (simp add: device_goes_on_def)
next
  case (OpAcknowledge j cursor now)
  with assms show ?thesis
    by (cases "j = i") (auto simp: acknowledge_device_def device_goes_on_def device_active_def Let_def split: option.splits)
next
  case (OpRevokeDevice j now)
  with assms show ?thesis
    by (cases "j = i") (auto simp: revoke_device_def device_goes_on_def device_active_def split: option.splits)
qed

lemma device_run_goes_on:
  "fmlookup (dev_sessions reg) i = Some x \<Longrightarrow>
   \<exists>y. fmlookup (dev_sessions (foldl device_step reg ops)) i = Some y \<and> device_goes_on x y"
proof (induction ops arbitrary: reg x)
  case Nil
  then show ?case by (simp add: device_goes_on_def)
next
  case (Cons opn ops)
  obtain y where y: "fmlookup (dev_sessions (device_step reg opn)) i = Some y" "device_goes_on x y"
    using device_step_goes_on [OF Cons.prems] by blast
  from Cons.IH [OF y(1)] y(2) show ?case by (auto simp: device_goes_on_def)
qed

text \<open>
  The least cursor of the active devices of an actor is a cursor of one of them and below all of
  them, and no later operation takes a device of the registry behind it.
\<close>

theorem minimum_cursor_is_safe:
  assumes "minimum_active_cursor reg a = Some m" "fmlookup (dev_sessions reg) i = Some x"
    and "ds_actor_id x = a" "device_active x"
  shows "\<exists>y. fmlookup (dev_sessions (foldl device_step reg ops)) i = Some y \<and> m \<le> ds_sync_cursor y"
proof -
  have "x \<in> set (active_for_actor reg a)" using assms(2-4) by (auto simp: active_for_actor_def map_values_iff)
  then have "m \<le> ds_sync_cursor x"
    using min_by_key_Some [OF assms(1) [unfolded minimum_active_cursor_def]] by auto
  with device_run_goes_on [OF assms(2), of ops] show ?thesis
    unfolding device_goes_on_def by (metis order_trans)
qed

end
