(* ===== verification/Notifications.thy ===== *)
theory Notifications
  imports Conversations
begin

text \<open>
  Decisions on notifications, \<open>src/native/mahayana-messaging/src/notification.rs\<close>: quiet hours on the
  clock of the day, rules of conversations, and the decision for a candidate.
\<close>

datatype NotificationImportance = ImportanceSilent | ImportanceNormal | ImportanceHigh | ImportanceUrgent

record QuietHours =
  qh_enabled :: bool
  qh_start_minute_local :: u16
  qh_end_minute_local :: u16
  qh_allow_mentions :: bool
  qh_allow_calls :: bool

definition quiet_active_at :: "QuietHours \<Rightarrow> u16 \<Rightarrow> bool" where
  "quiet_active_at quiet minute_local =
     (if \<not> qh_enabled quiet then False
      else
        let minute = minute_local mod (24 * 60);
            first = qh_start_minute_local quiet mod (24 * 60);
            until = qh_end_minute_local quiet mod (24 * 60)
        in if first = until then True
           else if first < until then first \<le> minute \<and> minute < until
           else first \<le> minute \<or> minute < until)"

record ConversationNotificationRule =
  nr_conversation_id :: ConversationId
  nr_muted_until_ms :: "i64 option"
  nr_sound :: "string option"
  nr_show_preview :: bool
  nr_notify_mentions :: bool
  nr_importance :: NotificationImportance

record NotificationCandidate =
  nc_id :: string
  nc_conversation_id :: ConversationId
  nc_sender_id :: ActorId
  nc_title :: string
  nc_body :: string
  nc_created_at_ms :: i64
  nc_mentioned_actor_ids :: "ActorId fset"
  nc_is_call :: bool
  nc_silent_message :: bool

record NotificationDecision =
  nd_deliver :: bool
  nd_show_preview :: bool
  nd_sound :: "string option"
  nd_importance :: NotificationImportance
  nd_reason :: string

record NotificationPolicy =
  np_quiet_hours :: "QuietHours option"
  np_conversation_rules :: "(ConversationId, ConversationNotificationRule) fmap"

definition suppressed :: "string \<Rightarrow> NotificationDecision" where
  "suppressed reason = \<lparr>nd_deliver = False, nd_show_preview = False, nd_sound = None,
     nd_importance = ImportanceSilent, nd_reason = reason\<rparr>"

definition muted_for :: "ConversationNotificationRule option \<Rightarrow> bool \<Rightarrow> i64 \<Rightarrow> bool" where
  "muted_for rule mentioned now_ms =
     (case rule of
        None \<Rightarrow> False
      | Some value \<Rightarrow>
          (case nr_muted_until_ms value of None \<Rightarrow> False | Some until \<Rightarrow> sint now_ms < sint until)
        \<and> \<not> (mentioned \<and> nr_notify_mentions value))"

definition quiet_for :: "QuietHours option \<Rightarrow> bool \<Rightarrow> bool \<Rightarrow> u16 \<Rightarrow> bool" where
  "quiet_for quiet_hours mentioned is_call minute_local =
     (case quiet_hours of
        None \<Rightarrow> False
      | Some quiet \<Rightarrow>
          quiet_active_at quiet minute_local
        \<and> \<not> (qh_allow_mentions quiet \<and> mentioned) \<and> \<not> (qh_allow_calls quiet \<and> is_call))"

definition decide_notification ::
  "NotificationPolicy \<Rightarrow> NotificationCandidate \<Rightarrow> ActorId \<Rightarrow> i64 \<Rightarrow> u16 \<Rightarrow> NotificationDecision"
where
  "decide_notification policy candidate current_actor_id now_ms minute_local =
     (let rule = fmlookup (np_conversation_rules policy) (nc_conversation_id candidate);
          importance = (case rule of None \<Rightarrow> ImportanceNormal | Some value \<Rightarrow> nr_importance value);
          show_preview = (case rule of None \<Rightarrow> True | Some value \<Rightarrow> nr_show_preview value);
          sound = (case rule of None \<Rightarrow> None | Some value \<Rightarrow> nr_sound value);
          mentioned = (current_actor_id |\<in>| nc_mentioned_actor_ids candidate)
      in if nc_silent_message candidate
         then \<lparr>nd_deliver = True, nd_show_preview = show_preview, nd_sound = None,
               nd_importance = ImportanceSilent, nd_reason = ''silent-message''\<rparr>
         else if muted_for rule mentioned now_ms then suppressed ''conversation-muted''
         else if quiet_for (np_quiet_hours policy) mentioned (nc_is_call candidate) minute_local
         then suppressed ''quiet-hours''
         else \<lparr>nd_deliver = True, nd_show_preview = show_preview, nd_sound = sound,
               nd_importance = importance, nd_reason = ''deliver''\<rparr>)"

section \<open>Quiet hours are an interval of the clock\<close>

lemma clock_interval:
  assumes "s < 1440" "e < 1440" "m < 1440" "s \<noteq> e"
  shows "(if s < e then s \<le> m \<and> m < e else s \<le> m \<or> m < e) \<longleftrightarrow> (m + 1440 - s) mod 1440 < (e + 1440 - s) mod (1440 :: nat)"
proof -
  have shift: "(x + 1440 - s) mod 1440 = (if s \<le> x then x - s else x + 1440 - s)" if "x < 1440" for x
    using assms(1) that by (auto simp: mod_if)
  show ?thesis using assms by (auto simp: shift [OF assms(2)] shift [OF assms(3)])
qed

text \<open>
  Quiet hours that are switched on are active in the minute \<open>m\<close> exactly when \<open>m\<close> is less far after
  their start, on the clock of 1440 minutes, than their end is; with start and end the same they
  last all day. Minutes beyond a day are read on the clock.
\<close>

theorem quiet_hours_interval:
  "quiet_active_at quiet m \<longleftrightarrow>
     qh_enabled quiet
   \<and> (let first = unat (qh_start_minute_local quiet) mod 1440; until = unat (qh_end_minute_local quiet) mod 1440
      in first = until \<or> (unat m mod 1440 + 1440 - first) mod 1440 < (until + 1440 - first) mod 1440)"
proof -
  let ?s = "unat (qh_start_minute_local quiet) mod 1440" and ?e = "unat (qh_end_minute_local quiet) mod 1440"
  have word: "unat (x mod 1440 :: u16) = unat x mod 1440" for x by (simp add: unat_mod)
  have active: "quiet_active_at quiet m \<longleftrightarrow> qh_enabled quiet \<and> (?s = ?e \<or>
      (if ?s < ?e then ?s \<le> unat m mod 1440 \<and> unat m mod 1440 < ?e else ?s \<le> unat m mod 1440 \<or> unat m mod 1440 < ?e))"
    by (simp add: quiet_active_at_def Let_def word_unat_eq_iff word_le_nat_alt word_less_nat_alt word)
  show ?thesis
  proof (cases "?s = ?e")
    case False
    from clock_interval [OF _ _ _ this, of "unat m mod 1440"] show ?thesis
      by (simp add: active Let_def False)
  qed (simp add: active)
qed

text \<open>A notification is held back exactly in a muted conversation or in quiet hours, silent messages apart.\<close>

lemma notification_held_back:
  "\<not> nd_deliver (decide_notification policy candidate a now m) \<longleftrightarrow>
     \<not> nc_silent_message candidate
   \<and> (muted_for (fmlookup (np_conversation_rules policy) (nc_conversation_id candidate))
        (a |\<in>| nc_mentioned_actor_ids candidate) now
      \<or> quiet_for (np_quiet_hours policy) (a |\<in>| nc_mentioned_actor_ids candidate) (nc_is_call candidate) m)"
  by (simp add: decide_notification_def Let_def suppressed_def)

end
