(* ===== verification/Privacy.thy ===== *)
theory Privacy
  imports Actors
begin

text \<open>
  Privacy settings, \<open>src/native/mahayana-messaging/src/privacy.rs\<close>: rules per kind of information,
  blocked actors, and who may write to an actor.
\<close>

datatype PrivacyAudience = AudienceEveryone | AudienceContacts | AudienceNobody | AudienceCustom

record PrivacyRule =
  pr_audience :: PrivacyAudience
  pr_always_allow :: "ActorId fset"
  pr_never_allow :: "ActorId fset"

definition PrivacyRule_default :: PrivacyRule where
  "PrivacyRule_default = \<lparr>pr_audience = AudienceContacts, pr_always_allow = {||}, pr_never_allow = {||}\<rparr>"

definition rule_allows :: "PrivacyRule \<Rightarrow> ActorId \<Rightarrow> bool \<Rightarrow> bool" where
  "rule_allows rule actor_id is_contact =
     (if actor_id |\<in>| pr_never_allow rule then False
      else if actor_id |\<in>| pr_always_allow rule then True
      else
        (case pr_audience rule of
           AudienceEveryone \<Rightarrow> True
         | AudienceContacts \<Rightarrow> is_contact
         | AudienceNobody \<Rightarrow> False
         | AudienceCustom \<Rightarrow> False))"

datatype PrivacyKey =
  LastSeen | ProfilePhoto | Bio | PhoneNumber | ForwardedMessages | PrivacyCalls | GroupInvites | VoiceMessages
  | PrivacyStories | ReadReceipts

record BlockEntry =
  be_actor_id :: ActorId
  be_blocked_at_ms :: i64
  be_reason :: "string option"
  be_report_spam :: bool

record PrivacySettings =
  ps_rules :: "(PrivacyKey, PrivacyRule) fmap"
  ps_blocked :: "(ActorId, BlockEntry) fmap"
  ps_auto_delete_account_after_days :: "u32 option"
  ps_hide_sensitive_content :: bool
  ps_require_mutual_contact_for_messages :: bool

definition privacy_rule :: "PrivacySettings \<Rightarrow> PrivacyKey \<Rightarrow> PrivacyRule" where
  "privacy_rule ps key = get_or PrivacyRule_default (ps_rules ps) key"

definition block_actor :: "PrivacySettings \<Rightarrow> BlockEntry \<Rightarrow> PrivacySettings" where
  "block_actor ps entry = ps\<lparr>ps_blocked := fmupd (be_actor_id entry) entry (ps_blocked ps)\<rparr>"

definition unblock_actor :: "PrivacySettings \<Rightarrow> ActorId \<Rightarrow> PrivacySettings \<times> BlockEntry option" where
  "unblock_actor ps actor_id =
     (ps\<lparr>ps_blocked := fmdrop actor_id (ps_blocked ps)\<rparr>, fmlookup (ps_blocked ps) actor_id)"

definition is_blocked :: "PrivacySettings \<Rightarrow> ActorId \<Rightarrow> bool" where
  "is_blocked ps actor_id = contains_key (ps_blocked ps) actor_id"

definition can_receive_message_from :: "PrivacySettings \<Rightarrow> ActorId \<Rightarrow> bool \<Rightarrow> bool \<Rightarrow> bool" where
  "can_receive_message_from ps actor_id is_contact is_mutual_contact =
     (if is_blocked ps actor_id then False
      else if ps_require_mutual_contact_for_messages ps \<and> \<not> is_mutual_contact then False
      else is_contact \<or> \<not> ps_require_mutual_contact_for_messages ps)"

section \<open>Blocking\<close>

lemma fmdrop_fmupd_new: "\<not> contains_key m k \<Longrightarrow> fmdrop k (fmupd k v m) = m"
  by (rule fmap_ext) (auto simp: contains_key_def)

text \<open>
  Blocking an actor closes the door to that actor alone, whatever the other settings are, and
  unblocking restores what was there before, for an actor that was not blocked.
\<close>

theorem block_closes_door:
  "\<not> can_receive_message_from (block_actor ps entry) (be_actor_id entry) contact mutual
   \<and> (b \<noteq> be_actor_id entry \<longrightarrow>
        can_receive_message_from (block_actor ps entry) b contact mutual
          = can_receive_message_from ps b contact mutual)
   \<and> (\<not> is_blocked ps (be_actor_id entry) \<longrightarrow>
        unblock_actor (block_actor ps entry) (be_actor_id entry) = (ps, Some entry))"
  by (auto simp: can_receive_message_from_def block_actor_def is_blocked_def unblock_actor_def fmdrop_fmupd_new)

end
