(* ===== verification/Bytes.thy ===== *)
theory Bytes
  imports Prelude
begin

text \<open>
  Byte strings and their reading as machine integers, for the wire formats of the Telegram client:
  \<open>to_le_bytes\<close> and \<open>from_le_bytes\<close> of the standard library, \<open>from_be_bytes\<close>, \<open>[T]::get\<close> with a
  range, the bytes of a \<open>str\<close> and the validation of UTF-8.
\<close>

unbundle bit_operations_syntax

type_synonym bytes = "u8 list"
type_synonym i32 = "32 word"

section \<open>Integers as bytes\<close>

text \<open>The \<open>n\<close> low bytes of a word, the least significant one first.\<close>

primrec to_le :: "nat \<Rightarrow> 'a :: len word \<Rightarrow> bytes" where
  "to_le 0 w = []"
| "to_le (Suc n) w = ucast w # to_le n (drop_bit 8 w)"

primrec from_le :: "bytes \<Rightarrow> 'a :: len word" where
  "from_le [] = 0"
| "from_le (b # bs) = ucast b OR push_bit 8 (from_le bs)"

definition from_be :: "bytes \<Rightarrow> 'a :: len word" where
  "from_be bs = from_le (rev bs)"

abbreviation to_le_u32 :: "u32 \<Rightarrow> bytes" where
  "to_le_u32 \<equiv> to_le 4"

abbreviation to_le_u64 :: "u64 \<Rightarrow> bytes" where
  "to_le_u64 \<equiv> to_le 8"

lemma length_to_le [simp]: "length (to_le n w) = n"
  by (induction n arbitrary: w) simp_all

lemma to_le_not_Nil [simp]: "to_le (Suc n) w \<noteq> []"
  by simp

lemma from_to_le: "from_le (to_le n w) = take_bit (8 * n) w"
proof (induction n arbitrary: w)
  case 0
  then show ?case by simp
next
  case (Suc n)
  show ?case
    by (rule bit_word_eqI) (auto simp: Suc.IH bit_simps)
qed

lemma from_to_le_u32 [simp]: "from_le (to_le 4 (w :: 32 word)) = w"
  by (simp add: from_to_le) (simp add: take_bit_word_eq_self)

lemma from_to_le_u64 [simp]: "from_le (to_le 8 (w :: 64 word)) = w"
  by (simp add: from_to_le) (simp add: take_bit_word_eq_self)

lemma bit_from_le:
  "bit (from_le bs :: 'a :: len word) k \<longleftrightarrow> k < LENGTH('a) \<and> k div 8 < length bs \<and> bit (bs ! (k div 8)) (k mod 8)"
proof (induction bs arbitrary: k)
  case Nil
  then show ?case by simp
next
  case (Cons b bs)
  show ?case
  proof (cases "k < 8")
    case True
    then show ?thesis by (auto simp: bit_simps)
  next
    case False
    then have "k div 8 = Suc ((k - 8) div 8)" "k mod 8 = (k - 8) mod 8"
      by (simp_all add: le_div_geq le_mod_geq)
    moreover have "\<not> bit b k" using False bit_imp_le_length [of b k] by auto
    ultimately show ?thesis using False Cons.IH [of "k - 8"] by (auto simp: bit_simps)
  qed
qed

lemma to_from_le: "8 * length bs \<le> LENGTH('a) \<Longrightarrow> to_le (length bs) (from_le bs :: 'a :: len word) = bs"
proof (induction bs)
  case Nil
  then show ?case by simp
next
  case (Cons b bs)
  let ?w = "from_le bs :: 'a word"
  have len: "8 \<le> LENGTH('a)" using Cons.prems by simp
  have "ucast (ucast b OR push_bit 8 ?w) = b"
    by (rule bit_word_eqI) (use len in \<open>auto simp: bit_simps\<close>)
  moreover have "drop_bit 8 (ucast b OR push_bit 8 ?w) = ?w"
  proof (rule bit_word_eqI)
    fix k
    assume "k < LENGTH('a)"
    have "k + 8 < LENGTH('a)" if "bit ?w k"
    proof -
      from that have "k div 8 < length bs" by (simp add: bit_from_le)
      then show ?thesis using Cons.prems by simp
    qed
    then show "bit (drop_bit 8 (ucast b OR push_bit 8 ?w)) k = bit ?w k"
      by (auto simp: bit_simps add.commute dest: bit_imp_le_length)
  qed
  ultimately show ?case using Cons by simp
qed

lemma high_bit_unset:
  assumes "k < 2 ^ n"
  shows "(of_nat k :: 'a :: len word) AND push_bit n 1 = 0"
proof (rule bit_word_eqI)
  have "\<not> bit k n" using assms by (simp add: bit_iff_odd)
  then show "bit ((of_nat k :: 'a word) AND push_bit n 1) m = bit 0 m" for m
    by (auto simp: bit_simps)
qed

lemma sint_word_of_int_i32:
  assumes "- (2 ^ 31) \<le> k" "k < 2 ^ 31"
  shows "sint (word_of_int k :: i32) = k"
proof -
  have "sint (word_of_int k :: i32) = signed_take_bit 31 k"
    by (simp add: sint_sbintrunc')
  also have "\<dots> = k" using assms by (simp add: signed_take_bit_int_eq_self)
  finally show ?thesis .
qed

lemma sint_nonneg_i32:
  assumes "0 \<le> sint (w :: i32)"
  shows "unat w < 2 ^ 31" "sint w = int (unat w)"
proof -
  have "\<not> bit w 31" using assms bit_last_iff [of w] by simp
  then have "\<not> bit (uint w) 31" by (simp add: bit_uint_iff)
  then have "even (uint w div 2 ^ 31)" by (simp only: bit_iff_odd not_not)
  moreover have "uint w div 2 ^ 31 < 2" using uint_lt2p [of w] by simp
  moreover have "0 \<le> uint w div 2 ^ 31" by (rule pos_imp_zdiv_nonneg_iff [THEN iffD2]) simp_all
  moreover have "q = 0" if "even q" "q < 2" "0 \<le> q" for q :: int using that by presburger
  ultimately have "uint w div 2 ^ 31 = 0" by blast
  then have small: "uint w < 2 ^ 31" using zdiv_eq_0_iff [of "uint w" "2 ^ 31"] by auto
  then have "int (unat w) < int (2 ^ 31)" by simp
  then show "unat w < 2 ^ 31" by (simp only: of_nat_less_iff)
  have "- (2 ^ 31) \<le> uint w" by (rule order_trans [of _ 0]) simp_all
  from sint_word_of_int_i32 [OF this small] have "sint w = uint w" by simp
  then show "sint w = int (unat w)" by simp
qed

text \<open>A length in three bytes, as the prefixes of the wire formats have it.\<close>

definition le24 :: "nat \<Rightarrow> bytes" where
  "le24 n = [of_nat (n AND 0xff), of_nat (drop_bit 8 n AND 0xff), of_nat (drop_bit 16 n AND 0xff)]"

definition from_le24 :: "bytes \<Rightarrow> nat" where
  "from_le24 bs = unat (bs ! 0) OR push_bit 8 (unat (bs ! 1)) OR push_bit 16 (unat (bs ! 2))"

lemma length_le24 [simp]: "length (le24 n) = 3"
  by (simp add: le24_def)

lemma from_le24_le24:
  assumes "n < 2 ^ 24"
  shows "from_le24 (le24 n) = n"
proof -
  have low: "unat (of_nat (m AND 0xff) :: u8) = take_bit 8 m" for m :: nat
  proof -
    have "m AND 0xff = take_bit 8 m" by (simp add: take_bit_eq_mask mask_eq_exp_minus_1)
    then show ?thesis by (simp add: unat_of_nat take_bit_eq_mod)
  qed
  have "from_le24 (le24 n) = take_bit 24 n"
  proof (rule bit_eqI)
    fix k
    show "bit (from_le24 (le24 n)) k = bit (take_bit 24 n) k"
      by (cases "k < 8"; cases "k < 16") (auto simp: from_le24_def le24_def low bit_simps)
  qed
  also have "\<dots> = n" using assms by (simp add: take_bit_eq_mod)
  finally show ?thesis .
qed

lemma from_le24_less: "from_le24 bs < 2 ^ 24"
proof -
  have "take_bit 24 (from_le24 bs) = from_le24 bs"
    by (rule bit_eqI) (auto simp: from_le24_def bit_simps dest: bit_imp_le_length)
  then show ?thesis by (metis take_bit_nat_less_exp)
qed

section \<open>Ranges of a slice\<close>

text \<open>\<open>xs.get(a..b)\<close>: nothing when the range does not lie inside.\<close>

definition get_range :: "'a list \<Rightarrow> nat \<Rightarrow> nat \<Rightarrow> 'a list option" where
  "get_range xs a b = (if a \<le> b \<and> b \<le> length xs then Some (take (b - a) (drop a xs)) else None)"

lemma get_range_Some_iff:
  "get_range xs a b = Some ys \<longleftrightarrow> a \<le> b \<and> b \<le> length xs \<and> ys = take (b - a) (drop a xs)"
  by (auto simp: get_range_def)

lemma get_range_append:
  "length xs = a \<Longrightarrow> length ys = n \<Longrightarrow> b = a + n \<Longrightarrow> get_range (xs @ ys @ zs) a b = Some ys"
  by (simp add: get_range_def)

lemma get_range_length: "get_range xs a b = Some ys \<Longrightarrow> length ys = b - a"
  by (auto simp: get_range_Some_iff)

lemma get_range_None_iff: "get_range xs a b = None \<longleftrightarrow> \<not> (a \<le> b \<and> b \<le> length xs)"
  by (simp add: get_range_def)

text \<open>The head of a byte string that is longer, and a byte string cut short.\<close>

lemma get_range_prefix: "b \<le> length xs \<Longrightarrow> get_range (xs @ ys) a b = get_range xs a b"
  by (auto simp: get_range_def)

section \<open>Strings\<close>

text \<open>A character that is no part of white space at either end of a string.\<close>

definition plain_char :: "char \<Rightarrow> bool" where
  "plain_char c \<longleftrightarrow> (33 :: nat) \<le> of_char c \<and> of_char c \<le> (126 :: nat)"

lemma trim_plain:
  assumes "s \<noteq> []" "plain_char (hd s)" "plain_char (last s)"
  shows "trim s = s"
proof -
  have no_ws: "\<not> ws1 c \<and> \<not> ws2 d c \<and> \<not> ws3 e d c \<and> \<not> ws2 c d \<and> \<not> ws3 c d e" if "plain_char c" for c d e
    using that by (auto simp: ws1_def ws2_def ws3_def plain_char_def)
  have front: "trim_start (x # xs) = x # xs" if "plain_char x" for x xs
    using no_ws [OF that] by (cases xs; cases "tl xs") auto
  have rear: "trim_rev (x # xs) = x # xs" if "plain_char x" for x xs
    using no_ws [OF that] by (cases xs; cases "tl xs") auto
  obtain x xs where s: "s = x # xs" using assms(1) by (cases s) auto
  obtain y ys where y: "rev s = y # ys" using assms(1) by (cases "rev s") auto
  have "y = last s" using y by (metis last_rev list.sel(1) rev_rev_ident hd_rev)
  then have "trim_rev (rev s) = rev s" using assms(3) rear [of y ys] by (simp only: y)
  moreover have "trim_start s = s" using assms(2) s front by simp
  ultimately show ?thesis by (simp add: trim_def)
qed

lemma digit_plain: "is_ascii_digit c \<Longrightarrow> plain_char c"
  by (auto simp: plain_char_def is_ascii_digit_def less_eq_char_def)

definition as_bytes :: "string \<Rightarrow> bytes" where
  "as_bytes s = map (\<lambda>c. of_nat (of_char c)) s"

definition of_bytes :: "bytes \<Rightarrow> string" where
  "of_bytes bs = map (\<lambda>b. char_of (unat b)) bs"

lemma length_as_bytes [simp]: "length (as_bytes s) = length s"
  by (simp add: as_bytes_def)

lemma length_of_bytes [simp]: "length (of_bytes bs) = length bs"
  by (simp add: of_bytes_def)

lemma of_char_less: "of_char c < (256 :: nat)"
  by (simp add: of_char_def)

lemma of_as_bytes [simp]: "of_bytes (as_bytes s) = s"
proof -
  have "char_of (unat (of_nat (of_char c) :: u8)) = c" for c
    using of_char_less [of c] by (simp add: unat_of_nat)
  then show ?thesis by (induction s) (simp_all add: as_bytes_def of_bytes_def)
qed

lemma as_of_bytes [simp]: "as_bytes (of_bytes bs) = bs"
proof -
  have "(of_nat (of_char (char_of (unat b) :: char)) :: u8) = b" for b :: u8
  proof -
    have "unat b < 256" using unsigned_less [where 'a = nat and w = b] by simp
    then show ?thesis by (simp add: of_char_of)
  qed
  then show ?thesis by (induction bs) (simp_all add: as_bytes_def of_bytes_def)
qed

text \<open>A continuation byte of UTF-8, and the ranges of its well-formed sequences.\<close>

definition utf8_cont :: "u8 \<Rightarrow> bool" where
  "utf8_cont b \<longleftrightarrow> 0x80 \<le> b \<and> b \<le> 0xBF"

definition utf8_second :: "u8 \<Rightarrow> u8 \<Rightarrow> bool" where
  "utf8_second a b \<longleftrightarrow>
     (if a = 0xE0 then 0xA0 \<le> b \<and> b \<le> 0xBF
      else if a = 0xED then 0x80 \<le> b \<and> b \<le> 0x9F
      else if a = 0xF0 then 0x90 \<le> b \<and> b \<le> 0xBF
      else if a = 0xF4 then 0x80 \<le> b \<and> b \<le> 0x8F
      else utf8_cont b)"

function valid_utf8 :: "bytes \<Rightarrow> bool" where
  "valid_utf8 [] = True"
| "valid_utf8 (a # s) =
     (if a < 0x80 then valid_utf8 s
      else if 0xC2 \<le> a \<and> a \<le> 0xDF then
        (case s of b # s \<Rightarrow> utf8_cont b \<and> valid_utf8 s | _ \<Rightarrow> False)
      else if 0xE0 \<le> a \<and> a \<le> 0xEF then
        (case s of b # c # s \<Rightarrow> utf8_second a b \<and> utf8_cont c \<and> valid_utf8 s | _ \<Rightarrow> False)
      else if 0xF0 \<le> a \<and> a \<le> 0xF4 then
        (case s of b # c # d # s \<Rightarrow> utf8_second a b \<and> utf8_cont c \<and> utf8_cont d \<and> valid_utf8 s | _ \<Rightarrow> False)
      else False)"
  by pat_completeness auto
termination by (relation "measure length") auto

lemmas [simp del] = valid_utf8.simps(2)

end
