(* ===== verification/Transport.thy ===== *)
theory Transport
  imports Bytes
begin

text \<open>
  The frames of \<open>telegram-protocol/src/transport.rs\<close>: the four transport modes, encoding with
  sequence numbers, checksums, padding and quick acknowledgements, and decoding of a buffer that may
  hold less or more than a frame. The checksum of the crate \<open>crc32fast\<close> is the parameter \<open>crc\<close>. The
  locale \<open>frame_stream\<close> states what the reader of a socket relies on; it is interpreted on the codec.
\<close>

section \<open>Codec\<close>

definition DEFAULT_MAX_FRAME_BYTES :: nat where
  "DEFAULT_MAX_FRAME_BYTES = 64 * 1024 * 1024"

definition FULL_FRAME_OVERHEAD :: nat where
  "FULL_FRAME_OVERHEAD = 12"

datatype TransportMode = FullMode | Abridged | Intermediate | PaddedIntermediate

primrec initial_header :: "TransportMode \<Rightarrow> bytes" where
  "initial_header FullMode = []"
| "initial_header Abridged = [0xef]"
| "initial_header Intermediate = [0xee, 0xee, 0xee, 0xee]"
| "initial_header PaddedIntermediate = [0xdd, 0xdd, 0xdd, 0xdd]"

record DecodedFrame =
  df_payload :: bytes
  df_sequence_number :: "u32 option"
  df_quick_ack_token :: "u32 option"
  df_consumed_bytes :: nat

datatype TransportError =
    EmptyPayload
  | AbridgedPayloadAlignment nat
  | FrameLengthLimit nat nat
  | InvalidFrameLength nat
  | FrameSequenceExhausted
  | CrcMismatch u32 u32
  | FrameLengthOutOfRange
  | QuickAckUnsupported
  | InvalidPaddingLength

record TransportFrameCodec =
  tf_mode :: TransportMode
  tf_next_sequence_number :: u32
  tf_max_frame_bytes :: nat

definition TransportFrameCodec_new :: "TransportMode \<Rightarrow> TransportFrameCodec" where
  "TransportFrameCodec_new mode =
     \<lparr>tf_mode = mode, tf_next_sequence_number = 0, tf_max_frame_bytes = DEFAULT_MAX_FRAME_BYTES\<rparr>"

definition with_max_frame_bytes :: "TransportMode \<Rightarrow> nat \<Rightarrow> TransportFrameCodec" where
  "with_max_frame_bytes mode max_frame_bytes =
     \<lparr>tf_mode = mode, tf_next_sequence_number = 0, tf_max_frame_bytes = max_frame_bytes\<rparr>"

section \<open>Encoding\<close>

definition encode_full ::
  "(bytes \<Rightarrow> u32) \<Rightarrow> TransportFrameCodec \<Rightarrow> bytes \<Rightarrow> TransportFrameCodec \<times> (bytes, TransportError) result"
where
  "encode_full crc c payload =
     (let frame_length = length payload + FULL_FRAME_OVERHEAD in
      if 2 ^ 32 \<le> frame_length then (c, Err FrameLengthOutOfRange)
      else
        let sequence_number = tf_next_sequence_number c in
        if sequence_number = - 1 then (c, Err FrameSequenceExhausted)
        else
          let frame = to_le_u32 (of_nat frame_length) @ to_le_u32 sequence_number @ payload
          in (c\<lparr>tf_next_sequence_number := sequence_number + 1\<rparr>, Ok (frame @ to_le_u32 (crc frame))))"

definition encode_abridged :: "bytes \<Rightarrow> bool \<Rightarrow> (bytes, TransportError) result" where
  "encode_abridged payload quick_ack =
     (if length payload mod 4 \<noteq> 0 then Err (AbridgedPayloadAlignment (length payload))
      else
        let nwords = length payload div 4 in
        if 2 ^ 24 \<le> nwords then Err FrameLengthOutOfRange
        else if nwords < 127 then Ok ((of_nat nwords OR (if quick_ack then 0x80 else 0)) # payload)
        else Ok ((if quick_ack then 0xff else 0x7f) # le24 nwords @ payload))"

definition encode_intermediate :: "bytes \<Rightarrow> bytes \<Rightarrow> bool \<Rightarrow> (bytes, TransportError) result" where
  "encode_intermediate payload padding quick_ack =
     (let total_payload_length = length payload + length padding in
      if 2 ^ 32 \<le> total_payload_length then Err FrameLengthOutOfRange
      else
        let len = of_nat total_payload_length :: u32;
            len = (if quick_ack then len OR push_bit 31 1 else len)
        in Ok (to_le_u32 len @ payload @ padding))"

definition encode_internal ::
  "(bytes \<Rightarrow> u32) \<Rightarrow> TransportFrameCodec \<Rightarrow> bytes \<Rightarrow> bytes \<Rightarrow> bool \<Rightarrow>
     TransportFrameCodec \<times> (bytes, TransportError) result"
where
  "encode_internal crc c payload padding quick_ack =
     (if payload = [] then (c, Err EmptyPayload)
      else
        let total_payload_length = length payload + length padding in
        if 2 ^ 64 \<le> total_payload_length then (c, Err FrameLengthOutOfRange)
        else if tf_max_frame_bytes c < total_payload_length
        then (c, Err (FrameLengthLimit total_payload_length (tf_max_frame_bytes c)))
        else if tf_mode c \<noteq> PaddedIntermediate \<and> padding \<noteq> []
        then (c, Err (InvalidFrameLength total_payload_length))
        else if tf_mode c = PaddedIntermediate \<and> 15 < length padding
        then (c, Err InvalidPaddingLength)
        else
          (case tf_mode c of
             FullMode \<Rightarrow> if quick_ack then (c, Err QuickAckUnsupported) else encode_full crc c payload
           | Abridged \<Rightarrow> (c, encode_abridged payload quick_ack)
           | Intermediate \<Rightarrow> (c, encode_intermediate payload padding quick_ack)
           | PaddedIntermediate \<Rightarrow> (c, encode_intermediate payload padding quick_ack)))"

definition encode :: "(bytes \<Rightarrow> u32) \<Rightarrow> TransportFrameCodec \<Rightarrow> bytes \<Rightarrow> TransportFrameCodec \<times> (bytes, TransportError) result" where
  "encode crc c payload = encode_internal crc c payload [] False"

definition encode_with_padding ::
  "(bytes \<Rightarrow> u32) \<Rightarrow> TransportFrameCodec \<Rightarrow> bytes \<Rightarrow> bytes \<Rightarrow> TransportFrameCodec \<times> (bytes, TransportError) result"
where
  "encode_with_padding crc c payload padding = encode_internal crc c payload padding False"

definition encode_requesting_quick_ack ::
  "(bytes \<Rightarrow> u32) \<Rightarrow> TransportFrameCodec \<Rightarrow> bytes \<Rightarrow> bytes \<Rightarrow> TransportFrameCodec \<times> (bytes, TransportError) result"
where
  "encode_requesting_quick_ack crc c payload padding = encode_internal crc c payload padding True"

section \<open>Decoding\<close>

definition validate_frame_length :: "TransportFrameCodec \<Rightarrow> nat \<Rightarrow> (unit, TransportError) result" where
  "validate_frame_length c payload_length =
     (if payload_length = 0 then Err EmptyPayload
      else if tf_max_frame_bytes c < payload_length
      then Err (FrameLengthLimit payload_length (tf_max_frame_bytes c))
      else Ok ())"

definition data_frame :: "bytes \<Rightarrow> u32 option \<Rightarrow> nat \<Rightarrow> DecodedFrame" where
  "data_frame payload sequence_number consumed_bytes =
     \<lparr>df_payload = payload, df_sequence_number = sequence_number, df_quick_ack_token = None,
      df_consumed_bytes = consumed_bytes\<rparr>"

definition ack_frame :: "u32 \<Rightarrow> nat \<Rightarrow> DecodedFrame" where
  "ack_frame token consumed_bytes =
     \<lparr>df_payload = [], df_sequence_number = None, df_quick_ack_token = Some token,
      df_consumed_bytes = consumed_bytes\<rparr>"

definition decode_full ::
  "(bytes \<Rightarrow> u32) \<Rightarrow> TransportFrameCodec \<Rightarrow> bytes \<Rightarrow> (DecodedFrame option, TransportError) result"
where
  "decode_full crc c input =
     (case get_range input 0 4 of
        None \<Rightarrow> Ok None
      | Some length_bytes \<Rightarrow>
          let frame_length = unat (from_le length_bytes :: u32) in
          if frame_length < FULL_FRAME_OVERHEAD then Err (InvalidFrameLength frame_length)
          else
            and_then (validate_frame_length c (frame_length - FULL_FRAME_OVERHEAD)) (\<lambda>_.
            case get_range input 0 frame_length of
              None \<Rightarrow> Ok None
            | Some frame \<Rightarrow>
                let sequence_number = from_le (take 4 (drop 4 frame));
                    crc_offset = frame_length - 4;
                    actual_crc = from_le (drop crc_offset frame);
                    expected_crc = crc (take crc_offset frame)
                in if actual_crc \<noteq> expected_crc then Err (CrcMismatch expected_crc actual_crc)
                   else Ok (Some (data_frame (drop 8 (take crc_offset frame)) (Some sequence_number) frame_length))))"

definition decode_abridged :: "TransportFrameCodec \<Rightarrow> bytes \<Rightarrow> (DecodedFrame option, TransportError) result" where
  "decode_abridged c input =
     (case input of
        [] \<Rightarrow> Ok None
      | prefix # _ \<Rightarrow>
          if prefix AND 0x80 \<noteq> 0 then
            (case get_range input 0 4 of
               None \<Rightarrow> Ok None
             | Some token_bytes \<Rightarrow> Ok (Some (ack_frame (from_be token_bytes) 4)))
          else
            (case (if prefix < 0x7f then Some (unat prefix, 1)
                   else map_option (\<lambda>length_bytes. (from_le24 length_bytes, 4)) (get_range input 1 4)) of
               None \<Rightarrow> Ok None
             | Some (nwords, header_length) \<Rightarrow>
                 let payload_length = nwords * 4 in
                 and_then (validate_frame_length c payload_length) (\<lambda>_.
                 let consumed_bytes = header_length + payload_length in
                 case get_range input header_length consumed_bytes of
                   None \<Rightarrow> Ok None
                 | Some payload \<Rightarrow> Ok (Some (data_frame payload None consumed_bytes)))))"

definition decode_intermediate :: "TransportFrameCodec \<Rightarrow> bytes \<Rightarrow> (DecodedFrame option, TransportError) result" where
  "decode_intermediate c input =
     (case get_range input 0 4 of
        None \<Rightarrow> Ok None
      | Some length_bytes \<Rightarrow>
          let encoded_length = from_le length_bytes :: u32 in
          if encoded_length AND push_bit 31 1 \<noteq> 0 then Ok (Some (ack_frame encoded_length 4))
          else
            let payload_length = unat encoded_length in
            and_then (validate_frame_length c payload_length) (\<lambda>_.
            let consumed_bytes = 4 + payload_length in
            case get_range input 4 consumed_bytes of
              None \<Rightarrow> Ok None
            | Some payload \<Rightarrow>
                if tf_mode c = PaddedIntermediate \<and> 8 \<le> length payload \<and> length payload \<le> 16
                  \<and> take 4 payload = [0xff, 0xff, 0xff, 0xff]
                then Ok (Some (ack_frame (from_le (take 4 (drop 4 payload))) consumed_bytes))
                else Ok (Some (data_frame payload None consumed_bytes))))"

definition decode ::
  "(bytes \<Rightarrow> u32) \<Rightarrow> TransportFrameCodec \<Rightarrow> bytes \<Rightarrow> (DecodedFrame option, TransportError) result"
where
  "decode crc c input =
     (case tf_mode c of
        FullMode \<Rightarrow> decode_full crc c input
      | Abridged \<Rightarrow> decode_abridged c input
      | Intermediate \<Rightarrow> decode_intermediate c input
      | PaddedIntermediate \<Rightarrow> decode_intermediate c input)"

section \<open>The contract of a stream of frames\<close>

text \<open>
  What a decoded frame hands to the reader: a payload, or \<open>None\<close> for a quick acknowledgement, which the
  reader skips.
\<close>

definition delivers :: "DecodedFrame \<Rightarrow> bytes option \<Rightarrow> bool" where
  "delivers d x \<longleftrightarrow>
     (case x of Some p \<Rightarrow> df_quick_ack_token d = None \<and> df_payload d = p | None \<Rightarrow> df_quick_ack_token d \<noteq> None)"

text \<open>
  What the reader of a socket relies on: a buffer that starts with a frame gives this frame and its
  length, whatever follows, and a buffer that ends inside a frame asks for more.
\<close>

locale frame_stream =
  fixes dec :: "bytes \<Rightarrow> (DecodedFrame option, TransportError) result"
    and frame :: "bytes \<Rightarrow> bytes option \<Rightarrow> bool"
  assumes dec_frame: "frame f x \<Longrightarrow>
      \<exists>d. dec (f @ rest) = Ok (Some d) \<and> df_consumed_bytes d = length f \<and> delivers d x"
    and dec_incomplete: "frame (pre @ post) x \<Longrightarrow> post \<noteq> [] \<Longrightarrow> dec pre = Ok None"

text \<open>
  What a peer sends to a codec of this mode and limit. First, the frames of payloads: what the code
  encodes, whatever the sequence number and, in the padded mode, with up to fifteen bytes of padding,
  which the receiver cannot tell from the payload and returns with it. Second, the quick
  acknowledgements of four bytes. A frame of the padded mode whose content looks like an
  acknowledgement is read as one.
\<close>

definition payload_frame :: "(bytes \<Rightarrow> u32) \<Rightarrow> TransportFrameCodec \<Rightarrow> bytes \<Rightarrow> bytes \<Rightarrow> bool" where
  "payload_frame crc c f q \<longleftrightarrow>
     tf_max_frame_bytes c < 2 ^ 31
   \<and> (\<exists>n p padding. q = p @ padding
        \<and> snd (encode_with_padding crc (c\<lparr>tf_next_sequence_number := n\<rparr>) p padding) = Ok f)"

definition ack_like :: "bytes \<Rightarrow> bool" where
  "ack_like payload \<longleftrightarrow> 8 \<le> length payload \<and> length payload \<le> 16 \<and> take 4 payload = [0xff, 0xff, 0xff, 0xff]"

definition read_as_ack :: "TransportFrameCodec \<Rightarrow> bytes \<Rightarrow> bool" where
  "read_as_ack c q \<longleftrightarrow> tf_mode c = PaddedIntermediate \<and> ack_like q"

definition quick_ack :: "TransportFrameCodec \<Rightarrow> bytes \<Rightarrow> bool" where
  "quick_ack c f \<longleftrightarrow> length f = 4 \<and>
     (case tf_mode c of
        FullMode \<Rightarrow> False
      | Abridged \<Rightarrow> hd f AND 0x80 \<noteq> 0
      | _ \<Rightarrow> (from_le f :: u32) AND push_bit 31 1 \<noteq> 0)"

definition wire_frame :: "(bytes \<Rightarrow> u32) \<Rightarrow> TransportFrameCodec \<Rightarrow> bytes \<Rightarrow> bytes option \<Rightarrow> bool" where
  "wire_frame crc c f x \<longleftrightarrow>
     (\<exists>q. payload_frame crc c f q \<and> x = (if read_as_ack c q then None else Some q))
   \<or> quick_ack c f \<and> x = None"

lemma wire_frameI:
  "payload_frame crc c f q \<Longrightarrow> \<not> read_as_ack c q \<Longrightarrow> wire_frame crc c f (Some q)"
  "payload_frame crc c f q \<Longrightarrow> read_as_ack c q \<Longrightarrow> wire_frame crc c f None"
  "quick_ack c f \<Longrightarrow> wire_frame crc c f None"
  by (auto simp: wire_frame_def)

lemma unat_of_nat_u32: "n < 2 ^ 32 \<Longrightarrow> unat (of_nat n :: u32) = n"
  by (simp add: unat_of_nat)

lemma decode_full_header:
  assumes "take 4 input = to_le 4 (of_nat k :: u32)" "4 \<le> length input" "12 < k" "k < 2 ^ 32"
    "k - 12 \<le> tf_max_frame_bytes c"
  shows "decode_full crc c input =
    (if length input < k then Ok None
     else let frame = take k input in
       if from_le (drop (k - 4) frame) \<noteq> crc (take (k - 4) frame)
       then Err (CrcMismatch (crc (take (k - 4) frame)) (from_le (drop (k - 4) frame)))
       else Ok (Some (data_frame (drop 8 (take (k - 4) frame)) (Some (from_le (take 4 (drop 4 frame)))) k)))"
  using assms
  by (simp add: decode_full_def get_range_def unat_of_nat_u32 validate_frame_length_def FULL_FRAME_OVERHEAD_def Let_def)

lemma decode_intermediate_header:
  assumes "take 4 input = to_le 4 (of_nat k :: u32)" "4 \<le> length input" "0 < k" "k < 2 ^ 31"
    "k \<le> tf_max_frame_bytes c"
  shows "decode_intermediate c input =
    (if length input < 4 + k then Ok None
     else let payload = take k (drop 4 input) in
       if tf_mode c = PaddedIntermediate \<and> ack_like payload
       then Ok (Some (ack_frame (from_le (take 4 (drop 4 payload))) (4 + k)))
       else Ok (Some (data_frame payload None (4 + k))))"
proof -
  have "(of_nat k :: u32) AND push_bit 31 1 = 0"
    using assms(4) by (rule high_bit_unset)
  then show ?thesis
    using assms
    by (simp add: decode_intermediate_def get_range_def unat_of_nat_u32 validate_frame_length_def Let_def ack_like_def)
qed

lemma decode_abridged_short:
  assumes "input = of_nat k # rest" "0 < k" "k < 127" "4 * k \<le> tf_max_frame_bytes c"
  shows "decode_abridged c input =
    (if length rest < 4 * k then Ok None else Ok (Some (data_frame (take (4 * k) rest) None (1 + 4 * k))))"
proof -
  have k: "unat (of_nat k :: u8) = k" using assms(3) by (simp add: unat_of_nat)
  have "(of_nat k :: u8) AND push_bit 7 1 = 0"
    using assms(3) by (intro high_bit_unset) simp
  moreover have "(of_nat k :: u8) < 0x7f" using assms(3) k by (simp add: word_less_nat_alt)
  ultimately show ?thesis
    using assms k by (simp add: decode_abridged_def get_range_def validate_frame_length_def Let_def mult.commute)
qed

lemma decode_abridged_long:
  assumes "input = 0x7f # hs @ rest" "length hs < 3 \<and> rest = [] \<or> hs = le24 k" "0 < k" "k < 2 ^ 24" "4 * k \<le> tf_max_frame_bytes c"
  shows "decode_abridged c input =
    (if length hs < 3 \<or> length rest < 4 * k then Ok None else Ok (Some (data_frame (take (4 * k) rest) None (4 + 4 * k))))"
  using assms(2)
proof
  assume "length hs < 3 \<and> rest = []"
  then show ?thesis using assms(1) by (simp add: decode_abridged_def get_range_def)
next
  assume hs: "hs = le24 k"
  then have "get_range input 1 4 = Some (le24 k)" using assms(1) by (simp add: get_range_def)
  then show ?thesis
    using assms hs from_le24_le24 [of k]
    by (simp add: decode_abridged_def validate_frame_length_def Let_def mult.commute get_range_def)
qed

text \<open>The shape of the frames of each mode.\<close>

lemma payload_frame_full:
  assumes "payload_frame crc c f p" "tf_mode c = FullMode"
  obtains n where "f = to_le_u32 (of_nat (length p + 12)) @ to_le_u32 n @ p
      @ to_le_u32 (crc (to_le_u32 (of_nat (length p + 12)) @ to_le_u32 n @ p))"
    "p \<noteq> []" "length p \<le> tf_max_frame_bytes c" "length p + 12 < 2 ^ 32"
  using assms
  by (auto simp: payload_frame_def encode_with_padding_def encode_internal_def encode_full_def FULL_FRAME_OVERHEAD_def Let_def
      split: if_splits)

lemma payload_frame_intermediate:
  assumes "payload_frame crc c f p" "tf_mode c = Intermediate \<or> tf_mode c = PaddedIntermediate"
  shows "f = to_le_u32 (of_nat (length p)) @ p" "p \<noteq> []" "length p \<le> tf_max_frame_bytes c" "length p < 2 ^ 31"
  using assms
  by (auto simp: payload_frame_def encode_with_padding_def encode_internal_def encode_intermediate_def Let_def split: if_splits)

lemma payload_frame_abridged:
  assumes "payload_frame crc c f p" "tf_mode c = Abridged"
  shows "0 < length p div 4" "length p = 4 * (length p div 4)" "length p \<le> tf_max_frame_bytes c" "length p div 4 < 2 ^ 24"
    "f = (if length p div 4 < 127 then [of_nat (length p div 4)] else 0x7f # le24 (length p div 4)) @ p"
proof -
  have p: "p \<noteq> []" "length p mod 4 = 0" "length p \<le> tf_max_frame_bytes c" "length p div 4 < 2 ^ 24"
    "f = (if length p div 4 < 127 then [of_nat (length p div 4)] else 0x7f # le24 (length p div 4)) @ p"
    using assms
    by (auto simp: payload_frame_def encode_with_padding_def encode_internal_def encode_abridged_def Let_def split: if_splits)
  then show "length p = 4 * (length p div 4)" by auto
  with p(1) show "0 < length p div 4" by (cases "length p div 4") auto
  show "length p \<le> tf_max_frame_bytes c" "length p div 4 < 2 ^ 24"
    "f = (if length p div 4 < 127 then [of_nat (length p div 4)] else 0x7f # le24 (length p div 4)) @ p"
    by (rule p)+
qed

lemma take_prefix: "pre @ post = f \<Longrightarrow> n \<le> length pre \<Longrightarrow> take n pre = take n f"
  by auto

lemma decode_wire_full:
  assumes "payload_frame crc c f p" "tf_mode c = FullMode"
  shows "\<exists>n. decode crc c (f @ rest) = Ok (Some (data_frame p n (length f)))"
    and "f = pre @ post \<Longrightarrow> post \<noteq> [] \<Longrightarrow> decode crc c pre = Ok None"
proof -
  obtain n where f: "f = to_le_u32 (of_nat (length p + 12)) @ to_le_u32 n @ p
      @ to_le_u32 (crc (to_le_u32 (of_nat (length p + 12)) @ to_le_u32 n @ p))"
    "p \<noteq> []" "length p \<le> tf_max_frame_bytes c" "length p + 12 < 2 ^ 32"
    using payload_frame_full [OF assms] by blast
  have len: "length f = length p + 12" by (simp add: f(1))
  have dec: "decode crc c input = decode_full crc c input" for input by (simp add: decode_def assms(2))
  note header = decode_full_header [of _ "length p + 12" c crc]
  have "decode_full crc c (f @ rest) = Ok (Some (data_frame p (Some n) (length f)))"
    using f(2-4) by (subst header) (simp_all add: f(1) Let_def add.commute)
  then show "\<exists>n. decode crc c (f @ rest) = Ok (Some (data_frame p n (length f)))" using dec by auto
  show "decode crc c pre = Ok None" if pre: "f = pre @ post" "post \<noteq> []"
  proof (cases "length pre < 4")
    case True
    then show ?thesis by (simp add: dec decode_full_def get_range_def)
  next
    case False
    have "take 4 pre = to_le 4 (of_nat (length p + 12) :: u32)"
      using take_prefix [OF pre(1) [symmetric], of 4] False by (simp add: f(1))
    moreover have "length pre < length p + 12" using len pre by (metis length_append length_greater_0_conv less_add_same_cancel1)
    ultimately show ?thesis using f(2-4) False unfolding dec by (subst header) simp_all
  qed
qed

lemma decode_wire_intermediate:
  assumes "payload_frame crc c f p" "tf_mode c = Intermediate \<or> tf_mode c = PaddedIntermediate"
  shows "\<exists>d. decode crc c (f @ rest) = Ok (Some d) \<and> df_consumed_bytes d = length f
      \<and> delivers d (if read_as_ack c p then None else Some p)"
    and "f = pre @ post \<Longrightarrow> post \<noteq> [] \<Longrightarrow> decode crc c pre = Ok None"
proof -
  note f = payload_frame_intermediate [OF assms]
  have dec: "decode crc c input = decode_intermediate c input" for input using assms(2) by (auto simp: decode_def)
  note header = decode_intermediate_header [of _ "length p" c]
  have "decode_intermediate c (f @ rest) = Ok (Some (if read_as_ack c p
      then ack_frame (from_le (take 4 (drop 4 p))) (length f) else data_frame p None (length f)))"
    using f(2-4) by (subst header) (auto simp: f(1) Let_def read_as_ack_def)
  then show "\<exists>d. decode crc c (f @ rest) = Ok (Some d) \<and> df_consumed_bytes d = length f
      \<and> delivers d (if read_as_ack c p then None else Some p)"
    using dec by (auto simp: delivers_def data_frame_def ack_frame_def)
  show "decode crc c pre = Ok None" if pre: "f = pre @ post" "post \<noteq> []"
  proof (cases "length pre < 4")
    case True
    then show ?thesis by (simp add: dec decode_intermediate_def get_range_def)
  next
    case False
    have "take 4 pre = to_le 4 (of_nat (length p) :: u32)"
      using take_prefix [OF pre(1) [symmetric], of 4] False by (simp add: f(1))
    moreover have "length f = 4 + length p" by (simp add: f(1))
    then have "length pre < 4 + length p" using pre by (metis length_append length_greater_0_conv less_add_same_cancel1)
    ultimately show ?thesis using f(2-4) False unfolding dec by (subst header) simp_all
  qed
qed

lemma decode_wire_abridged:
  assumes "payload_frame crc c f p" "tf_mode c = Abridged"
  shows "\<exists>n. decode crc c (f @ rest) = Ok (Some (data_frame p n (length f)))"
    and "f = pre @ post \<Longrightarrow> post \<noteq> [] \<Longrightarrow> decode crc c pre = Ok None"
proof -
  define k where "k = length p div 4"
  note f = payload_frame_abridged [OF assms, folded k_def]
  have dec: "decode crc c input = decode_abridged c input" for input using assms(2) by (simp add: decode_def)
  have max: "4 * k \<le> tf_max_frame_bytes c" using f(2,3) by simp
  have p: "take (4 * k) (p @ rest) = p" for rest using f(2) by simp
  show "\<exists>n. decode crc c (f @ rest) = Ok (Some (data_frame p n (length f)))"
  proof (cases "k < 127")
    case True
    then have "f @ rest = of_nat k # p @ rest" "length f = 1 + 4 * k" using f(2,5) by simp_all
    then show ?thesis using decode_abridged_short [OF _ f(1) True max] p f(2) by (auto simp: dec)
  next
    case False
    then have "f @ rest = 0x7f # le24 k @ p @ rest" "length f = 4 + 4 * k" using f(2,5) by simp_all
    then show ?thesis using decode_abridged_long [of _ "le24 k" "p @ rest" k c] f(1,4) max p f(2) by (auto simp: dec)
  qed
  show "decode crc c pre = Ok None" if pre: "f = pre @ post" "post \<noteq> []"
  proof (cases pre)
    case Nil
    then show ?thesis by (simp add: dec decode_abridged_def)
  next
    case (Cons b bs)
    show ?thesis
    proof (cases "k < 127")
      case True
      then have "b = of_nat k" "p = bs @ post" using f(5) pre(1) Cons by simp_all
      moreover from this pre(2) f(2) have "length bs < 4 * k" by (cases post) simp_all
      ultimately show ?thesis using decode_abridged_short [of pre k bs c] f(1) True max Cons by (simp add: dec)
    next
      case False
      then have bs: "b = 0x7f" "le24 k @ p = bs @ post" using f(5) pre(1) Cons by simp_all
      show ?thesis
      proof (cases "length bs < 3")
        case True
        then show ?thesis using decode_abridged_long [of pre bs "[]" k c] bs(1) Cons f(1,4) max by (simp add: dec)
      next
        case False
        let ?us = "drop 3 bs"
        have "take 3 (le24 k @ p) = take 3 (bs @ post)" "drop 3 (le24 k @ p) = drop 3 (bs @ post)"
          by (simp_all only: bs(2))
        with False have us: "take 3 bs = le24 k" "p = ?us @ post" by simp_all
        then have bs3: "bs = le24 k @ ?us" by (metis append_take_drop_id)
        from us(2) have "length ?us < 4 * k" using pre(2) f(2) by (cases post) simp_all
        moreover have "pre = 0x7f # le24 k @ ?us" using bs(1) bs3 Cons by simp
        ultimately show ?thesis using decode_abridged_long [of pre "le24 k" ?us k c] f(1,4) max by (simp add: dec)
      qed
    qed
  qed
qed

lemma decode_payload_frame:
  assumes "payload_frame crc c f q"
  shows "\<exists>d. decode crc c (f @ rest) = Ok (Some d) \<and> df_consumed_bytes d = length f
      \<and> delivers d (if read_as_ack c q then None else Some q)"
    and "f = pre @ post \<Longrightarrow> post \<noteq> [] \<Longrightarrow> decode crc c pre = Ok None"
proof -
  have data: "\<exists>d. decode crc c (f @ rest) = Ok (Some d) \<and> df_consumed_bytes d = length f
      \<and> delivers d (if read_as_ack c q then None else Some q)"
    if "tf_mode c \<noteq> PaddedIntermediate" "\<exists>n. decode crc c (f @ rest) = Ok (Some (data_frame q n (length f)))"
    using that by (auto simp: delivers_def data_frame_def read_as_ack_def)
  show "\<exists>d. decode crc c (f @ rest) = Ok (Some d) \<and> df_consumed_bytes d = length f
      \<and> delivers d (if read_as_ack c q then None else Some q)"
  proof (cases "tf_mode c")
    case FullMode
    with data decode_wire_full(1) [OF assms FullMode] show ?thesis by simp
  next
    case Abridged
    with data decode_wire_abridged(1) [OF assms Abridged] show ?thesis by simp
  qed (use decode_wire_intermediate(1) [OF assms] in simp_all)
  show "f = pre @ post \<Longrightarrow> post \<noteq> [] \<Longrightarrow> decode crc c pre = Ok None"
    using decode_wire_full(2) decode_wire_intermediate(2) decode_wire_abridged(2) assms by (cases "tf_mode c") metis+
qed

lemma decode_quick_ack:
  assumes "quick_ack c f"
  shows "\<exists>d. decode crc c (f @ rest) = Ok (Some d) \<and> df_consumed_bytes d = length f \<and> delivers d None"
    and "f = pre @ post \<Longrightarrow> post \<noteq> [] \<Longrightarrow> decode crc c pre = Ok None"
proof -
  obtain b bs where f: "f = b # bs" "length bs = 3" using assms by (cases f) (auto simp: quick_ack_def)
  show "\<exists>d. decode crc c (f @ rest) = Ok (Some d) \<and> df_consumed_bytes d = length f \<and> delivers d None"
    using assms f
    by (cases "tf_mode c")
      (auto simp: quick_ack_def decode_def decode_abridged_def decode_intermediate_def get_range_def Let_def
        delivers_def ack_frame_def)
  show "decode crc c pre = Ok None" if pre: "f = pre @ post" "post \<noteq> []"
  proof -
    have short: "length pre < 4" using assms pre by (cases post) (auto simp: quick_ack_def)
    have "pre = [] \<or> (\<exists>cs. pre = b # cs)" using pre(1) f(1) by (cases pre) auto
    with short assms f show ?thesis
      by (cases "tf_mode c")
        (auto simp: quick_ack_def decode_def decode_abridged_def decode_intermediate_def get_range_def)
  qed
qed

interpretation codec: frame_stream "decode crc c" "wire_frame crc c" for crc c
proof
  show "\<exists>d. decode crc c (f @ rest) = Ok (Some d) \<and> df_consumed_bytes d = length f \<and> delivers d x"
    if "wire_frame crc c f x" for f x rest
    using that decode_payload_frame(1) decode_quick_ack(1) unfolding wire_frame_def by blast
  show "decode crc c pre = Ok None" if "wire_frame crc c (pre @ post) x" "post \<noteq> []" for pre post x
    using that decode_payload_frame(2) decode_quick_ack(2) unfolding wire_frame_def by blast
qed

section \<open>Where payloads stand\<close>

text \<open>A payload stands as it is in the frame that carries it, on the way out and on the way in.\<close>

lemma encode_contains:
  assumes "encode crc c p = (c', Ok f)"
  shows "\<exists>before after. f = before @ p @ after"
proof (cases "tf_mode c")
  case FullMode
  with assms have "f = (to_le_u32 (of_nat (length p + FULL_FRAME_OVERHEAD)) @ to_le_u32 (tf_next_sequence_number c)) @ p
      @ to_le_u32 (crc (to_le_u32 (of_nat (length p + FULL_FRAME_OVERHEAD)) @ to_le_u32 (tf_next_sequence_number c) @ p))"
    by (auto simp: encode_def encode_internal_def encode_full_def Let_def split: if_splits)
  then show ?thesis by blast
next
  case Abridged
  with assms have "f = [of_nat (length p div 4)] @ p @ [] \<or> f = (0x7f # le24 (length p div 4)) @ p @ []"
    by (auto simp: encode_def encode_internal_def encode_abridged_def Let_def split: if_splits)
  then show ?thesis by blast
next
  case Intermediate
  with assms have "f = to_le_u32 (of_nat (length p)) @ p @ []"
    by (auto simp: encode_def encode_internal_def encode_intermediate_def Let_def split: if_splits)
  then show ?thesis by blast
next
  case PaddedIntermediate
  with assms have "f = to_le_u32 (of_nat (length p)) @ p @ []"
    by (auto simp: encode_def encode_internal_def encode_intermediate_def Let_def split: if_splits)
  then show ?thesis by blast
qed

lemma slice_split: "a + n \<le> length xs \<Longrightarrow> \<exists>before after. take (a + n + m) xs = before @ take n (drop a xs) @ after"
proof -
  have "take (a + n + m) xs = take a xs @ take n (drop a xs) @ take m (drop (a + n) xs)"
    by (simp only: take_add append_assoc)
  then show ?thesis by blast
qed

lemma decode_contained:
  assumes "decode crc c input = Ok (Some d)" "df_quick_ack_token d = None"
  shows "\<exists>before after. take (df_consumed_bytes d) input = before @ df_payload d @ after"
proof (cases "tf_mode c")
  case FullMode
  with assms obtain k where k: "12 \<le> k" "k \<le> length input" "df_consumed_bytes d = k"
      "df_payload d = drop 8 (take (k - 4) (take k input))"
    by (auto simp: decode_def decode_full_def Let_def get_range_Some_iff data_frame_def FULL_FRAME_OVERHEAD_def
        result_simps split: option.splits if_splits)
  then have "df_payload d = take (k - 12) (drop 8 input)" by (simp add: drop_take)
  with k show ?thesis using slice_split [of 8 "k - 12" input 4] by simp
next
  case Abridged
  let ?n = "df_consumed_bytes d"
  from Abridged assms have "1 \<le> ?n \<and> ?n \<le> length input \<and> df_payload d = take (?n - 1) (drop 1 input)
      \<or> 4 \<le> ?n \<and> ?n \<le> length input \<and> df_payload d = take (?n - 4) (drop 4 input)"
    by (auto simp: decode_def decode_abridged_def Let_def get_range_Some_iff data_frame_def ack_frame_def
        result_simps split: option.splits if_splits list.splits)
  then show ?thesis using slice_split [of 1 "?n - 1" input 0] slice_split [of 4 "?n - 4" input 0] by auto
qed (use assms slice_split [of 4 "df_consumed_bytes d - 4" input 0] in
    \<open>auto simp: decode_def decode_intermediate_def Let_def get_range_Some_iff data_frame_def ack_frame_def
        result_simps split: option.splits if_splits\<close>)

end
