(* ===== verification/Mtproto_Session.thy ===== *)
theory Mtproto_Session
  imports Bytes
begin

text \<open>
  Numbering in a session: the message identifiers and sequence numbers of
  \<open>telegram-protocol/src/session.rs\<close> and the request numbers of \<open>request.rs\<close>.
\<close>

section \<open>Message identifiers\<close>

definition FRACTION_SCALE :: int where
  "FRACTION_SCALE = 2 ^ 32"

definition NANOS_PER_SECOND :: int where
  "NANOS_PER_SECOND = 1000000000"

datatype MessageIdError =
  MessageIdOutOfRange | InvalidServerParity | OutsideTimeWindow | MessageReplay | InvalidFraction

text \<open>The identifiers of the server are kept as the signed numbers they are ordered by.\<close>

record MessageIdGuard =
  mg_last_client_message_id :: "i64 option"
  mg_recent_server_message_ids :: "int fset"
  mg_replay_window_size :: nat

definition MessageIdGuard_new :: "nat \<Rightarrow> MessageIdGuard" where
  "MessageIdGuard_new replay_window_size =
     \<lparr>mg_last_client_message_id = None, mg_recent_server_message_ids = {||},
      mg_replay_window_size = max replay_window_size 1\<rparr>"

definition MessageIdGuard_default :: MessageIdGuard where
  "MessageIdGuard_default = MessageIdGuard_new 300"

text \<open>The candidate for a new identifier is computed in 128 bits, which it cannot overflow.\<close>

definition client_candidate :: "i64 \<Rightarrow> u32 \<Rightarrow> int" where
  "client_candidate unix_seconds fractional_nanos =
     (let candidate = sint unix_seconds * FRACTION_SCALE
            + uint fractional_nanos * FRACTION_SCALE div NANOS_PER_SECOND;
          candidate = candidate AND NOT 3
      in if candidate AND 0xffffffff = 0 then candidate + 4 else candidate)"

definition generate_client_message_id ::
  "MessageIdGuard \<Rightarrow> i64 \<Rightarrow> u32 \<Rightarrow> MessageIdGuard \<times> (i64, MessageIdError) result"
where
  "generate_client_message_id g unix_seconds fractional_nanos =
     (if 1000000000 \<le> fractional_nanos then (g, Err InvalidFraction)
      else
        let candidate = client_candidate unix_seconds fractional_nanos;
            candidate = (case mg_last_client_message_id g of
              None \<Rightarrow> candidate
            | Some prev \<Rightarrow> max candidate (sint prev + 4))
        in (case checked_i64 candidate of
              None \<Rightarrow> (g, Err MessageIdOutOfRange)
            | Some candidate \<Rightarrow> (g\<lparr>mg_last_client_message_id := Some candidate\<rparr>, Ok candidate)))"

definition saturating_sub_i64 :: "i64 \<Rightarrow> i64 \<Rightarrow> i64" where
  "saturating_sub_i64 a b = saturated_i64 (sint a - sint b)"

definition is_replay :: "MessageIdGuard \<Rightarrow> int \<Rightarrow> bool" where
  "is_replay g message_id \<longleftrightarrow>
     message_id |\<in>| mg_recent_server_message_ids g
   \<or> mg_replay_window_size g \<le> fcard (mg_recent_server_message_ids g)
     \<and> mg_recent_server_message_ids g \<noteq> {||} \<and> message_id \<le> fMin (mg_recent_server_message_ids g)"

text \<open>The loop that takes the least identifier out while there are too many.\<close>

function pop_excess :: "nat \<Rightarrow> int fset \<Rightarrow> int fset" where
  "pop_excess n ids = (if n < fcard ids then pop_excess n (ids |-| {|fMin ids|}) else ids)"
  by auto
termination
proof (relation "measure (\<lambda>(n, ids). fcard ids)")
  show "((n, ids |-| {|fMin ids|}), n, ids) \<in> measure (\<lambda>(n, ids). fcard ids)" if "n < fcard ids" for n and ids :: "int fset"
  proof -
    have "ids \<noteq> {||}" using that by (auto simp: fcard_fempty)
    then have "fcard (ids |-| {|fMin ids|}) < fcard ids" by (intro fcard_fminus1_less fMin_in)
    then show ?thesis by simp
  qed
qed simp

declare pop_excess.simps [simp del]

definition validate_server_message_id ::
  "MessageIdGuard \<Rightarrow> i64 \<Rightarrow> i64 \<Rightarrow> MessageIdGuard \<times> (unit, MessageIdError) result"
where
  "validate_server_message_id g message_id now_unix_seconds =
     (if sint message_id mod 2 \<noteq> 1 then (g, Err InvalidServerParity)
      else
        let message_seconds = signed_drop_bit 32 message_id in
        if message_seconds <s saturating_sub_i64 now_unix_seconds 300
          \<or> saturating_add_i64 now_unix_seconds 30 <s message_seconds
        then (g, Err OutsideTimeWindow)
        else if is_replay g (sint message_id) then (g, Err MessageReplay)
        else
          (g\<lparr>mg_recent_server_message_ids := pop_excess (mg_replay_window_size g)
               (finsert (sint message_id) (mg_recent_server_message_ids g))\<rparr>, Ok ()))"

section \<open>Sequence numbers\<close>

datatype SequenceError = CounterExhausted

record SessionSequence =
  ss_content_related_count :: u32

definition SessionSequence_new :: SessionSequence where
  "SessionSequence_new = \<lparr>ss_content_related_count = 0\<rparr>"

definition next_sequence_number :: "SessionSequence \<Rightarrow> bool \<Rightarrow> SessionSequence \<times> (i32, SequenceError) result" where
  "next_sequence_number q content_related =
     (let count = unat (ss_content_related_count q);
          sequence = 2 * count + (if content_related then 1 else 0)
      in if 2 ^ 31 \<le> sequence then (q, Err CounterExhausted)
         else if content_related then
           if count + 1 < 2 ^ 32
           then (q\<lparr>ss_content_related_count := of_nat (count + 1)\<rparr>, Ok (of_nat sequence))
           else (q, Err CounterExhausted)
         else (q, Ok (of_nat sequence)))"

section \<open>Requests\<close>

datatype RequestId = RequestId u64

text \<open>JSON values are of any type; \<open>text_value\<close> makes a value of a string.\<close>

record 'v ProtocolRequest =
  pr_id :: RequestId
  pr_method :: string
  pr_parameters :: "(string, 'v) fmap"

primrec request_number :: "RequestId \<Rightarrow> u64" where
  "request_number (RequestId n) = n"

definition to_td_json :: "(string \<Rightarrow> 'v) \<Rightarrow> 'v ProtocolRequest \<Rightarrow> (string, 'v) fmap" where
  "to_td_json text_value q =
     fmupd ''@extra'' (text_value (show_nat (unat (request_number (pr_id q)))))
       (fmupd ''@type'' (text_value (pr_method q)) (pr_parameters q))"

datatype RequestError = EmptyMethod | RequestSequenceExhausted

record RequestSequencer =
  rs_next :: u64

definition RequestSequencer_default :: RequestSequencer where
  "RequestSequencer_default = \<lparr>rs_next = 1\<rparr>"

definition create_request ::
  "RequestSequencer \<Rightarrow> string \<Rightarrow> (string, 'v) fmap \<Rightarrow> RequestSequencer \<times> ('v ProtocolRequest, RequestError) result"
where
  "create_request s meth parameters =
     (if is_blank meth then (s, Err EmptyMethod)
      else
        (case checked_add_u64 (rs_next s) 1 of
           None \<Rightarrow> (s, Err RequestSequenceExhausted)
         | Some n \<Rightarrow> (s\<lparr>rs_next := n\<rparr>, Ok \<lparr>pr_id = RequestId (rs_next s), pr_method = meth, pr_parameters = parameters\<rparr>)))"

section \<open>A window of identifiers\<close>

text \<open>
  The identifiers accepted so far and those the guard still knows: at most as many as the window has
  places, and when some are forgotten the window is full of greater ones.
\<close>

definition window_ok :: "nat \<Rightarrow> int fset \<Rightarrow> int set \<Rightarrow> bool" where
  "window_ok n recent seen \<longleftrightarrow>
     fset recent \<subseteq> seen \<and> fcard recent \<le> n
   \<and> (\<forall>x \<in> seen - fset recent. fcard recent = n \<and> (\<forall>y \<in> fset recent. x < y))"

lemma pop_excess_small: "fcard ids \<le> n \<Longrightarrow> pop_excess n ids = ids"
  by (subst pop_excess.simps) simp

lemma pop_excess_one: "fcard ids = Suc n \<Longrightarrow> pop_excess n ids = ids |-| {|fMin ids|}"
proof -
  assume card: "fcard ids = Suc n"
  then have "ids \<noteq> {||}" by (auto simp: fcard_fempty)
  then have "fcard (ids |-| {|fMin ids|}) = n"
    using card by (simp add: fcard_fminus_fsingleton fMin_in)
  then show ?thesis using card by (subst pop_excess.simps) (simp add: pop_excess_small)
qed

lemma window_step:
  assumes "window_ok (mg_replay_window_size g) (mg_recent_server_message_ids g) seen"
    and "0 < mg_replay_window_size g" "\<not> is_replay g x"
  shows "x \<notin> seen"
    and "window_ok (mg_replay_window_size g)
      (pop_excess (mg_replay_window_size g) (finsert x (mg_recent_server_message_ids g))) (insert x seen)"
proof -
  let ?n = "mg_replay_window_size g" and ?R = "mg_recent_server_message_ids g"
  have w: "fset ?R \<subseteq> seen" "fcard ?R \<le> ?n"
    "\<And>y z. y \<in> seen \<Longrightarrow> y \<notin> fset ?R \<Longrightarrow> fcard ?R = ?n \<and> (z \<in> fset ?R \<longrightarrow> y < z)"
    using assms(1) by (auto simp: window_ok_def)
  have new: "x |\<notin>| ?R" using assms(3) by (simp add: is_replay_def)
  have above: "fMin ?R < x" if "fcard ?R = ?n"
    using assms(2,3) that by (auto simp: is_replay_def fcard_fempty)
  show "x \<notin> seen"
  proof
    assume "x \<in> seen"
    with w(3) [of x "fMin ?R"] new have "fcard ?R = ?n" "fMin ?R \<in> fset ?R \<longrightarrow> x < fMin ?R" by auto
    moreover from this(1) assms(2) have "?R \<noteq> {||}" by (auto simp: fcard_fempty)
    ultimately show False using above fMin_in [of ?R] by simp
  qed
  have card: "fcard (finsert x ?R) = Suc (fcard ?R)" using new by (simp add: fcard_finsert_disjoint)
  show "window_ok ?n (pop_excess ?n (finsert x ?R)) (insert x seen)"
  proof (cases "fcard ?R < ?n")
    case True
    then have "pop_excess ?n (finsert x ?R) = finsert x ?R" using card by (simp add: pop_excess_small)
    then show ?thesis using True w card by (auto simp: window_ok_def)
  next
    case False
    then have full: "fcard ?R = ?n" using w(2) by simp
    then have ne: "?R \<noteq> {||}" using assms(2) by (auto simp: fcard_fempty)
    let ?m = "fMin ?R"
    have m: "fMin (finsert x ?R) = ?m" using above [OF full] ne by (simp add: fMin_finsert)
    have rest: "?m < z" if "z |\<in>| ?R" "z \<noteq> ?m" for z using fMin_le [OF that(1)] that(2) by simp
    have popped: "pop_excess ?n (finsert x ?R) = finsert x ?R |-| {|?m|}"
      using card full m pop_excess_one [of "finsert x ?R" ?n] by simp
    have "fcard (finsert x ?R |-| {|?m|}) = ?n"
      using card full fMin_in [OF ne] by (simp add: fcard_fminus_fsingleton)
    then show ?thesis
      using w above [OF full] rest popped fMin_in [OF ne] full
      by (fastforce simp: window_ok_def intro: order_less_trans)
  qed
qed

section \<open>Runs of a session\<close>

datatype GuardOp = NewId i64 u32 | Received i64 i64

text \<open>A guard with the identifiers it has issued and accepted.\<close>

record GuardRun =
  gr_guard :: MessageIdGuard
  gr_issued :: "i64 list"
  gr_accepted :: "i64 list"

primrec guard_step :: "GuardRun \<Rightarrow> GuardOp \<Rightarrow> GuardRun" where
  "guard_step s (NewId seconds nanos) =
     (case generate_client_message_id (gr_guard s) seconds nanos of
        (g, Inl _) \<Rightarrow> s\<lparr>gr_guard := g\<rparr>
      | (g, Inr i) \<Rightarrow> s\<lparr>gr_guard := g, gr_issued := gr_issued s @ [i]\<rparr>)"
| "guard_step s (Received i now) =
     (case validate_server_message_id (gr_guard s) i now of
        (g, Inl _) \<Rightarrow> s\<lparr>gr_guard := g\<rparr>
      | (g, Inr _) \<Rightarrow> s\<lparr>gr_guard := g, gr_accepted := gr_accepted s @ [i]\<rparr>)"

definition guard_start :: "nat \<Rightarrow> GuardRun" where
  "guard_start n = \<lparr>gr_guard = MessageIdGuard_new n, gr_issued = [], gr_accepted = []\<rparr>"

definition issued_ok :: "MessageIdGuard \<Rightarrow> i64 list \<Rightarrow> bool" where
  "issued_ok g ids \<longleftrightarrow>
     sorted_wrt (\<lambda>a b. sint a < sint b) ids \<and> (\<forall>i \<in> set ids. sint i mod 4 = 0)
   \<and> mg_last_client_message_id g = (if ids = [] then None else Some (last ids))"

definition guard_ok :: "nat \<Rightarrow> GuardRun \<Rightarrow> bool" where
  "guard_ok n s \<longleftrightarrow>
     issued_ok (gr_guard s) (gr_issued s) \<and> mg_replay_window_size (gr_guard s) = max n 1
   \<and> distinct (map sint (gr_accepted s)) \<and> (\<forall>i \<in> set (gr_accepted s). sint i mod 2 = 1)
   \<and> window_ok (max n 1) (mg_recent_server_message_ids (gr_guard s)) (sint ` set (gr_accepted s))"

lemma and_not_3_mod_4: "(k AND NOT 3) mod 4 = (0 :: int)"
proof -
  have "(3 :: int) = mask 2" by (simp add: mask_eq_exp_minus_1)
  then have "take_bit 2 (k AND NOT 3) = 0"
    by (simp only:) (rule bit_eqI, auto simp: bit_simps)
  then show ?thesis by (simp add: take_bit_eq_mod)
qed

lemma client_candidate_mod_4: "client_candidate seconds nanos mod 4 = 0"
  using and_not_3_mod_4 by (auto simp: client_candidate_def Let_def mod_eq_0_iff_dvd)

lemma sorted_wrt_snoc:
  "sorted_wrt (\<lambda>a b. f a < (f b :: int)) xs \<Longrightarrow> (xs \<noteq> [] \<Longrightarrow> f (last xs) < f x) \<Longrightarrow>
   sorted_wrt (\<lambda>a b. f a < f b) (xs @ [x])"
  by (cases xs rule: rev_exhaust) (auto simp: sorted_wrt_append)

lemma generate_issued:
  assumes "generate_client_message_id g seconds nanos = (g', Ok i)" "issued_ok g ids"
  shows "issued_ok g' (ids @ [i])" "g' = g\<lparr>mg_last_client_message_id := Some i\<rparr>"
proof -
  let ?c = "client_candidate seconds nanos"
  have g': "g' = g\<lparr>mg_last_client_message_id := Some i\<rparr>"
    and i: "sint i = (case mg_last_client_message_id g of None \<Rightarrow> ?c | Some prev \<Rightarrow> max ?c (sint prev + 4))"
    using assms(1)
    by (auto simp: generate_client_message_id_def Let_def checked_i64_Some_iff split: if_splits option.splits)
  show "g' = g\<lparr>mg_last_client_message_id := Some i\<rparr>" by (rule g')
  have "sint i mod 4 = 0 \<and> (ids \<noteq> [] \<longrightarrow> sint (last ids) < sint i)"
  proof (cases "ids = []")
    case True
    then show ?thesis using i assms(2) client_candidate_mod_4 by (simp add: issued_ok_def)
  next
    case False
    then have "mg_last_client_message_id g = Some (last ids)" "sint (last ids) mod 4 = 0"
      using assms(2) by (auto simp: issued_ok_def)
    then show ?thesis using i client_candidate_mod_4 [of seconds nanos] by (auto simp: max_def mod_eq_0_iff_dvd)
  qed
  then show "issued_ok g' (ids @ [i])"
    using assms(2) by (auto simp: issued_ok_def g' intro: sorted_wrt_snoc)
qed

lemma validate_accepted:
  assumes "validate_server_message_id g i now = (g', Ok u)"
  shows "sint i mod 2 = 1" "\<not> is_replay g (sint i)"
    "g' = g\<lparr>mg_recent_server_message_ids := pop_excess (mg_replay_window_size g)
       (finsert (sint i) (mg_recent_server_message_ids g))\<rparr>"
    "sint now - 300 \<le> sint i div 2 ^ 32" "sint i div 2 ^ 32 \<le> sint now + 30"
proof -
  have v: "sint i mod 2 = 1" "\<not> is_replay g (sint i)"
    "g' = g\<lparr>mg_recent_server_message_ids := pop_excess (mg_replay_window_size g)
       (finsert (sint i) (mg_recent_server_message_ids g))\<rparr>"
    "\<not> signed_drop_bit 32 i <s saturating_sub_i64 now 300" "\<not> saturating_add_i64 now 30 <s signed_drop_bit 32 i"
    using assms by (auto simp: validate_server_message_id_def Let_def split: if_splits)
  show "sint i mod 2 = 1" "\<not> is_replay g (sint i)"
    "g' = g\<lparr>mg_recent_server_message_ids := pop_excess (mg_replay_window_size g)
       (finsert (sint i) (mg_recent_server_message_ids g))\<rparr>" by (rule v)+
  have q: "sint (signed_drop_bit 32 i) = sint i div 2 ^ 32" by (simp add: sint_signed_drop_bit_eq drop_bit_eq_div)
  have "sint (saturating_sub_i64 now 300) \<le> sint (signed_drop_bit 32 i)"
    and "sint (signed_drop_bit 32 i) \<le> sint (saturating_add_i64 now 30)"
    using v(4,5) by (simp_all only: word_sless_alt not_less)
  then show "sint now - 300 \<le> sint i div 2 ^ 32" "sint i div 2 ^ 32 \<le> sint now + 30"
    using sint_i64_bounds [of now] unfolding q
    by (simp_all add: saturating_sub_i64_def saturating_add_i64_def sint_saturated_i64 max_def min_def split: if_splits)
qed

interpretation guard: component guard_step "guard_ok n" for n
proof
  fix s opn
  assume ok: "guard_ok n s"
  show "guard_ok n (guard_step s opn)"
  proof (cases opn)
    case (NewId seconds nanos)
    obtain g r where gr: "generate_client_message_id (gr_guard s) seconds nanos = (g, r)" by fastforce
    show ?thesis
    proof (cases r)
      case (Inl e)
      then have "g = gr_guard s"
        using gr by (auto simp: generate_client_message_id_def Let_def split: if_splits option.splits)
      then show ?thesis using gr Inl ok NewId by simp
    next
      case (Inr i)
      have "issued_ok (gr_guard s) (gr_issued s)" using ok by (simp add: guard_ok_def)
      from generate_issued [OF gr [unfolded Inr] this] ok show ?thesis
        using gr Inr NewId by (simp add: guard_ok_def)
    qed
  next
    case (Received i now)
    obtain g r where gr: "validate_server_message_id (gr_guard s) i now = (g, r)" by fastforce
    show ?thesis
    proof (cases r)
      case (Inl e)
      then have "g = gr_guard s"
        using gr by (auto simp: validate_server_message_id_def Let_def split: if_splits)
      then show ?thesis using gr Inl ok Received by simp
    next
      case (Inr u)
      note v = validate_accepted [OF gr [unfolded Inr]]
      have w: "mg_replay_window_size (gr_guard s) = max n 1"
        and win: "window_ok (mg_replay_window_size (gr_guard s)) (mg_recent_server_message_ids (gr_guard s)) (sint ` set (gr_accepted s))"
        using ok by (simp_all add: guard_ok_def)
      from window_step [OF win _ v(2)] w have "sint i \<notin> sint ` set (gr_accepted s)"
        "window_ok (max n 1) (mg_recent_server_message_ids g) (insert (sint i) (sint ` set (gr_accepted s)))"
        by (simp_all add: v(3))
      then show ?thesis using gr Inr Received ok v(1,3) by (simp add: guard_ok_def issued_ok_def)
    qed
  qed
qed

text \<open>
  C33: identifiers are unique. Whatever the clock of the client does and whatever the server sends, the
  identifiers a guard issues grow strictly and are divisible by four; and of the messages of the
  server no identifier is accepted twice, though the guard remembers no more of them than its window
  has places.
\<close>

theorem message_ids_unique:
  assumes "s = foldl guard_step (guard_start n) ops"
  shows "sorted_wrt (\<lambda>a b. sint a < sint b) (gr_issued s) \<and> (\<forall>i \<in> set (gr_issued s). sint i mod 4 = 0)
    \<and> distinct (gr_accepted s) \<and> (\<forall>i \<in> set (gr_accepted s). sint i mod 2 = 1)
    \<and> fcard (mg_recent_server_message_ids (gr_guard s)) \<le> max n 1"
proof -
  have "guard_ok n (guard_start n)"
    by (simp add: guard_ok_def guard_start_def issued_ok_def window_ok_def MessageIdGuard_new_def fcard_fempty)
  then have "guard_ok n s" unfolding assms by (rule guard.run_inv)
  then show ?thesis
    by (auto simp: guard_ok_def issued_ok_def window_ok_def dest: distinct_map [THEN iffD1])
qed

theorem message_ids_unique_witness:
  "let s = foldl guard_step (guard_start 2) [NewId 1 0, NewId 0 5, Received 1 0, Received 1 0, Received 5 0]
   in sorted_wrt (\<lambda>a b. sint a < sint b) (gr_issued s) \<and> distinct (gr_accepted s)"
  using message_ids_unique [OF refl, of 2 "[NewId 1 0, NewId 0 5, Received 1 0, Received 1 0, Received 5 0]"]
  by (simp only: Let_def)

end
