(* ===== verification/Big_Numbers.thy ===== *)
theory Big_Numbers
  imports Bytes
begin

text \<open>
  The big integers of the key exchange (\<open>handshake.rs\<close>) and of the password check (\<open>srp.rs\<close>), and the prime
  both trust. A \<open>BigUint\<close> is a natural number; its conversions, its powers and \<open>hex::decode\<close> belong to other
  crates and are the parameter \<open>BigLibrary\<close>, and \<open>big_laws\<close> says what their documentation promises.
\<close>

section \<open>Numbers as bytes\<close>

text \<open>The number that a byte string denotes, the most significant byte first.\<close>

definition be_value :: "bytes \<Rightarrow> nat" where
  "be_value bs = foldl (\<lambda>v b. 256 * v + unat b) 0 bs"

lemma be_value_Nil [simp]: "be_value [] = 0"
  by (simp add: be_value_def)

lemma be_value_snoc: "be_value (bs @ [b]) = 256 * be_value bs + unat b"
  by (simp add: be_value_def)

lemma be_value_append: "be_value (xs @ ys) = be_value xs * 256 ^ length ys + be_value ys"
proof (induction ys rule: rev_induct)
  case Nil
  then show ?case by simp
next
  case (snoc y ys)
  have "be_value (xs @ ys @ [y]) = 256 * be_value (xs @ ys) + unat y"
    using be_value_snoc [of "xs @ ys" y] by simp
  then show ?case by (simp add: snoc be_value_snoc algebra_simps)
qed

lemma be_value_zeros [simp]: "be_value (replicate n 0) = 0"
proof (induction n)
  case 0
  then show ?case by simp
next
  case (Suc n)
  then show ?case using be_value_snoc [of "replicate n 0" 0] by (simp add: replicate_append_same)
qed

lemma unat_u8: "unat (b :: u8) < 256"
  using unsigned_less [of b, where ?'a = nat] by simp

lemma be_value_less: "be_value bs < 256 ^ length bs"
proof (induction bs rule: rev_induct)
  case Nil
  then show ?case by simp
next
  case (snoc b bs)
  with unat_u8 [of b] show ?case by (simp add: be_value_snoc)
qed

lemma be_value_inject: "length xs = length ys \<Longrightarrow> be_value xs = be_value ys \<Longrightarrow> xs = ys"
proof (induction xs arbitrary: ys rule: rev_induct)
  case Nil
  then show ?case by simp
next
  case (snoc x xs)
  then obtain y zs where ys: "ys = zs @ [y]" by (metis append_butlast_last_id length_greater_0_conv length_append_singleton zero_less_Suc)
  have small: "unat x < 256" "unat y < 256" by (simp_all add: unat_u8)
  have eq: "256 * be_value xs + unat x = 256 * be_value zs + unat y"
    using snoc.prems(2) by (simp add: ys be_value_snoc)
  then have "(256 * be_value xs + unat x) mod 256 = (256 * be_value zs + unat y) mod 256" by simp
  with small have "unat x = unat y" by simp
  with eq have "be_value xs = be_value zs" "x = y" by (simp_all add: word_unat_eq_iff)
  with snoc.IH [of zs] snoc.prems(1) ys show ?case by simp
qed

section \<open>The library of big integers\<close>

record BigLibrary =
  bl_from_bytes_be :: "bytes \<Rightarrow> nat"
  bl_to_bytes_be :: "nat \<Rightarrow> bytes"
  bl_to_bytes_le :: "nat \<Rightarrow> bytes"
  bl_modpow :: "nat \<Rightarrow> nat \<Rightarrow> nat \<Rightarrow> nat"
  bl_bits :: "nat \<Rightarrow> nat"
  bl_hex_decode :: "string \<Rightarrow> bytes option"

text \<open>Two digits of base 16 for each byte, in capital letters.\<close>

definition hex_digit_upper :: "nat \<Rightarrow> char" where
  "hex_digit_upper d = (if d < 10 then char_of (48 + d) else char_of (55 + d))"

definition hex_upper :: "bytes \<Rightarrow> string" where
  "hex_upper bs = concat (map (\<lambda>b. [hex_digit_upper (unat b div 16), hex_digit_upper (unat b mod 16)]) bs)"

definition big_laws :: "BigLibrary \<Rightarrow> bool" where
  "big_laws lib \<longleftrightarrow>
     (\<forall>bs. bl_from_bytes_be lib bs = be_value bs)
   \<and> (\<forall>n. be_value (bl_to_bytes_be lib n) = n)
   \<and> (\<forall>n k. 0 < k \<and> n < 256 ^ k \<longrightarrow> length (bl_to_bytes_be lib n) \<le> k)
   \<and> (\<forall>n. bl_to_bytes_le lib n = rev (bl_to_bytes_be lib n))
   \<and> (\<forall>b e m. 0 < m \<longrightarrow> bl_modpow lib b e m = b ^ e mod m)
   \<and> (\<forall>n k. bl_bits lib n \<le> k \<longleftrightarrow> n < 2 ^ k)
   \<and> (\<forall>bs. bl_hex_decode lib (hex_upper bs) = Some bs)"

lemma big_lawsD:
  assumes "big_laws lib"
  shows "bl_from_bytes_be lib bs = be_value bs" "be_value (bl_to_bytes_be lib n) = n"
    "0 < k \<Longrightarrow> n < 256 ^ k \<Longrightarrow> length (bl_to_bytes_be lib n) \<le> k"
    "bl_to_bytes_le lib n = rev (bl_to_bytes_be lib n)"
    "0 < m \<Longrightarrow> bl_modpow lib b e m = b ^ e mod m"
    "bl_bits lib n \<le> k \<longleftrightarrow> n < 2 ^ k" "bl_hex_decode lib (hex_upper bs) = Some bs"
  using assms by (simp_all add: big_laws_def)

section \<open>The trusted prime\<close>

definition KNOWN_DH_PRIME_HEX :: string where
  "KNOWN_DH_PRIME_HEX =
   ''C71CAEB9C6B1C9048E6C522F70F13F73980D40238E3E21C14934D037563D930F'' @
   ''48198A0AA7C14058229493D22530F4DBFA336F6E0AC925139543AED44CCE7C37'' @
   ''20FD51F69458705AC68CD4FE6B6B13ABDC9746512969328454F18FAF8C595F64'' @
   ''2477FE96BB2A941D5BCD1D4AC8CC49880708FA9B378E3C4F3A9060BEE67CF9A4'' @
   ''A4A695811051907E162753B56B0F6B410DBA74D8A84B2A14B3144E0EF1284754'' @
   ''FD17ED950D5965B4B9DD46582DB1178D169C6BC465B0D6FF9CA3928FEF5B9AE4'' @
   ''E418FC15E83EBEA0F87FA9FF5EED70050DED2849F47BF959D956850CE929851F'' @
   ''0D8115F635B105EE2E4E15D04B2454BF6F4FADF034B10403119CD8E3B92FCC5B''"

definition known_prime_bytes :: bytes where
  "known_prime_bytes =
     [199, 28, 174, 185, 198, 177, 201, 4, 142, 108, 82, 47, 112, 241, 63, 115, 152, 13, 64, 35, 142, 62, 
      33, 193, 73, 52, 208, 55, 86, 61, 147, 15, 72, 25, 138, 10, 167, 193, 64, 88, 34, 148, 147, 210, 
      37, 48, 244, 219, 250, 51, 111, 110, 10, 201, 37, 19, 149, 67, 174, 212, 76, 206, 124, 55, 32, 253, 
      81, 246, 148, 88, 112, 90, 198, 140, 212, 254, 107, 107, 19, 171, 220, 151, 70, 81, 41, 105, 50, 
      132, 84, 241, 143, 175, 140, 89, 95, 100, 36, 119, 254, 150, 187, 42, 148, 29, 91, 205, 29, 74, 
      200, 204, 73, 136, 7, 8, 250, 155, 55, 142, 60, 79, 58, 144, 96, 190, 230, 124, 249, 164, 164, 166, 
      149, 129, 16, 81, 144, 126, 22, 39, 83, 181, 107, 15, 107, 65, 13, 186, 116, 216, 168, 75, 42, 20, 
      179, 20, 78, 14, 241, 40, 71, 84, 253, 23, 237, 149, 13, 89, 101, 180, 185, 221, 70, 88, 45, 177, 
      23, 141, 22, 156, 107, 196, 101, 176, 214, 255, 156, 163, 146, 143, 239, 91, 154, 228, 228, 24, 
      252, 21, 232, 62, 190, 160, 248, 127, 169, 255, 94, 237, 112, 5, 13, 237, 40, 73, 244, 123, 249, 
      89, 217, 86, 133, 12, 233, 41, 133, 31, 13, 129, 21, 246, 53, 177, 5, 238, 46, 78, 21, 208, 75, 36, 
      84, 191, 111, 79, 173, 240, 52, 177, 4, 3, 17, 156, 216, 227, 185, 47, 204, 91]"

lemma length_known_prime [simp]: "length known_prime_bytes = 256"
  by (simp add: known_prime_bytes_def)

lemma known_prime_hex: "KNOWN_DH_PRIME_HEX = hex_upper known_prime_bytes"
  by (simp add: KNOWN_DH_PRIME_HEX_def known_prime_bytes_def hex_upper_def hex_digit_upper_def char_of_def bit_iff_odd)

lemma known_prime_decodes: "big_laws lib \<Longrightarrow> bl_hex_decode lib KNOWN_DH_PRIME_HEX = Some known_prime_bytes"
  by (simp add: known_prime_hex big_lawsD(7))

lemma known_prime_large: "2 ^ 2047 \<le> be_value known_prime_bytes"
proof -
  have "be_value known_prime_bytes = be_value (take 1 known_prime_bytes @ drop 1 known_prime_bytes)" by simp
  also have "\<dots> \<ge> be_value (take 1 known_prime_bytes) * 256 ^ 255"
    unfolding be_value_append by simp
  finally have "be_value (take 1 known_prime_bytes) * 256 ^ 255 \<le> be_value known_prime_bytes" .
  moreover have "be_value (take 1 known_prime_bytes) = 199"
    by (simp add: known_prime_bytes_def be_value_def)
  moreover have "(2 :: nat) ^ 2047 = 128 * 256 ^ 255"
    using power_mult [of 2 8 255] power_add [of "2 :: nat" 7 "8 * 255"] by simp
  ultimately show ?thesis by simp
qed

section \<open>A library that keeps the laws\<close>

fun minimal_be :: "nat \<Rightarrow> bytes" where
  "minimal_be n = (if n < 256 then [of_nat n] else minimal_be (n div 256) @ [of_nat (n mod 256)])"

fun bit_length :: "nat \<Rightarrow> nat" where
  "bit_length n = (if n = 0 then 0 else Suc (bit_length (n div 2)))"

definition hex_digit_of :: "char \<Rightarrow> nat" where
  "hex_digit_of c = (if is_ascii_digit c then of_char c - 48 else of_char c - 55)"

fun hex_decode_pairs :: "string \<Rightarrow> bytes option" where
  "hex_decode_pairs (a # b # cs) = map_option (\<lambda>bs. of_nat (16 * hex_digit_of a + hex_digit_of b) # bs) (hex_decode_pairs cs)"
| "hex_decode_pairs [] = Some []"
| "hex_decode_pairs [a] = None"

declare minimal_be.simps [simp del] bit_length.simps [simp del]

lemma unat_of_nat_u8: "n < 256 \<Longrightarrow> unat (of_nat n :: u8) = n"
  by (simp add: unat_of_nat)

lemma be_value_minimal_be: "be_value (minimal_be n) = n"
proof (induction n rule: minimal_be.induct)
  case (1 n)
  then show ?case
    using be_value_snoc [of "[]"] by (simp add: minimal_be.simps [of n] be_value_snoc unat_of_nat_u8)
qed

lemma length_minimal_be: "0 < k \<Longrightarrow> n < 256 ^ k \<Longrightarrow> length (minimal_be n) \<le> k"
proof (induction n arbitrary: k rule: minimal_be.induct)
  case (1 n)
  show ?case
  proof (cases "n < 256")
    case False
    obtain j where j: "k = Suc j" using "1.prems"(1) by (cases k) auto
    with False "1.prems"(2) have "0 < j" by (cases j) auto
    moreover have "n div 256 < 256 ^ j" using "1.prems"(2) j by (simp add: less_mult_imp_div_less mult.commute)
    ultimately show ?thesis using "1.IH" [OF False, of j] False j by (simp add: minimal_be.simps [of n])
  qed (use "1.prems" in \<open>simp add: minimal_be.simps [of n]\<close>)
qed

lemma bit_length_le: "bit_length n \<le> k \<longleftrightarrow> n < 2 ^ k"
proof (induction n arbitrary: k rule: bit_length.induct)
  case (1 n)
  show ?case
  proof (cases "n = 0")
    case True
    then show ?thesis by (simp add: bit_length.simps)
  next
    case False
    then show ?thesis
    proof (cases k)
      case (Suc j)
      have "n div 2 < 2 ^ j \<longleftrightarrow> n < 2 ^ Suc j" by (simp add: div_less_iff_less_mult mult.commute)
      then show ?thesis using "1.IH" [OF False, of j] False Suc by (simp add: bit_length.simps [of n])
    qed (simp add: bit_length.simps [of n])
  qed
qed

lemma hex_digit_of_upper: "d < 16 \<Longrightarrow> hex_digit_of (hex_digit_upper d) = d"
proof -
  have "\<forall>d \<in> set [0..<16]. hex_digit_of (hex_digit_upper d) = d" by code_simp
  then show "d < 16 \<Longrightarrow> hex_digit_of (hex_digit_upper d) = d" by simp
qed

lemma hex_decode_upper: "hex_decode_pairs (hex_upper bs) = Some bs"
proof (induction bs)
  case Nil
  then show ?case by (simp add: hex_upper_def)
next
  case (Cons b bs)
  have "16 * (unat b div 16) + unat b mod 16 = unat b" by simp
  then show ?case
    using Cons unat_u8 [of b]
    by (simp add: hex_upper_def hex_digit_of_upper less_mult_imp_div_less flip: of_nat_add of_nat_mult)
qed

definition plain_big :: BigLibrary where
  "plain_big =
     \<lparr>bl_from_bytes_be = be_value, bl_to_bytes_be = minimal_be, bl_to_bytes_le = (\<lambda>n. rev (minimal_be n)),
      bl_modpow = (\<lambda>b e m. b ^ e mod m), bl_bits = bit_length, bl_hex_decode = hex_decode_pairs\<rparr>"

lemma plain_big_laws: "big_laws plain_big"
  by (simp add: big_laws_def plain_big_def be_value_minimal_be length_minimal_be bit_length_le hex_decode_upper)

end
