(* ===== verification/Tl.thy ===== *)
theory Tl
  imports Bytes
begin

text \<open>
  The TL codec of \<open>telegram-protocol/src/tl.rs\<close>: the writer, the reader with its limits, and the
  round trips between them. The locale \<open>tl_codec\<close> states what a pair of a writing and a reading
  operation promises; it is interpreted on every pair of the file and gives the round trip of whole
  sequences of values.
\<close>

section \<open>Constants and errors\<close>

definition VECTOR_CONSTRUCTOR :: u32 where
  "VECTOR_CONSTRUCTOR = 0x1cb5c415"

definition BOOL_TRUE_CONSTRUCTOR :: u32 where
  "BOOL_TRUE_CONSTRUCTOR = 0x997275b5"

definition BOOL_FALSE_CONSTRUCTOR :: u32 where
  "BOOL_FALSE_CONSTRUCTOR = 0xbc799737"

definition SHORT_BYTES_LIMIT :: nat where
  "SHORT_BYTES_LIMIT = 254"

definition DEFAULT_MAX_BYTES :: nat where
  "DEFAULT_MAX_BYTES = 64 * 1024 * 1024"

definition DEFAULT_MAX_VECTOR_LENGTH :: nat where
  "DEFAULT_MAX_VECTOR_LENGTH = 1000000"

lemmas tl_constants =
  VECTOR_CONSTRUCTOR_def BOOL_TRUE_CONSTRUCTOR_def BOOL_FALSE_CONSTRUCTOR_def SHORT_BYTES_LIMIT_def
  DEFAULT_MAX_BYTES_def DEFAULT_MAX_VECTOR_LENGTH_def

datatype TlError =
    UnexpectedEof nat nat
  | InvalidBytesPrefix
  | BytesLengthLimit nat nat
  | VectorLengthLimit nat nat
  | NegativeVectorLength i32
  | UnexpectedConstructor u32 u32
  | InvalidBoolConstructor u32
  | TlLengthOutOfRange
  | InvalidUtf8 nat

definition padding_length :: "nat \<Rightarrow> nat" where
  "padding_length n = (4 - n mod 4) mod 4"

section \<open>Writer\<close>

record TlWriter =
  tw_bytes :: bytes

definition TlWriter_new :: TlWriter where
  "TlWriter_new = \<lparr>tw_bytes = []\<rparr>"

text \<open>\<open>extend_from_slice\<close> on the bytes of the writer.\<close>

definition push_slice :: "TlWriter \<Rightarrow> bytes \<Rightarrow> TlWriter" where
  "push_slice w bs = w\<lparr>tw_bytes := tw_bytes w @ bs\<rparr>"

definition write_i32 :: "TlWriter \<Rightarrow> i32 \<Rightarrow> TlWriter" where
  "write_i32 w v = push_slice w (to_le 4 v)"

definition write_u32 :: "TlWriter \<Rightarrow> u32 \<Rightarrow> TlWriter" where
  "write_u32 w v = push_slice w (to_le 4 v)"

definition write_i64 :: "TlWriter \<Rightarrow> i64 \<Rightarrow> TlWriter" where
  "write_i64 w v = push_slice w (to_le 8 v)"

definition write_u64 :: "TlWriter \<Rightarrow> u64 \<Rightarrow> TlWriter" where
  "write_u64 w v = push_slice w (to_le 8 v)"

definition write_f64 :: "TlWriter \<Rightarrow> f64 \<Rightarrow> TlWriter" where
  "write_f64 w v = push_slice w (to_le 8 v)"

text \<open>The arrays of 16 and 32 bytes are byte strings of that length.\<close>

definition write_i128_bytes :: "TlWriter \<Rightarrow> bytes \<Rightarrow> TlWriter" where
  "write_i128_bytes w v = push_slice w v"

definition write_i256_bytes :: "TlWriter \<Rightarrow> bytes \<Rightarrow> TlWriter" where
  "write_i256_bytes w v = push_slice w v"

definition write_bool :: "TlWriter \<Rightarrow> bool \<Rightarrow> TlWriter" where
  "write_bool w v = write_u32 w (if v then BOOL_TRUE_CONSTRUCTOR else BOOL_FALSE_CONSTRUCTOR)"

text \<open>The prefix of a byte string: its length in one byte, or the byte 254 and three bytes.\<close>

definition bytes_header :: "nat \<Rightarrow> (bytes, TlError) result" where
  "bytes_header n =
     (if n < SHORT_BYTES_LIMIT then Ok [of_nat n]
      else if n > 0x00ffffff then Err TlLengthOutOfRange
      else Ok (254 # le24 n))"

definition write_bytes :: "TlWriter \<Rightarrow> bytes \<Rightarrow> TlWriter \<times> (unit, TlError) result" where
  "write_bytes w value =
     (case bytes_header (length value) of
        Inl e \<Rightarrow> (w, Err e)
      | Inr header \<Rightarrow>
          (push_slice (push_slice (push_slice w header) value)
             (replicate (padding_length (length header + length value)) 0), Ok ()))"

definition write_string :: "TlWriter \<Rightarrow> string \<Rightarrow> TlWriter \<times> (unit, TlError) result" where
  "write_string w value = write_bytes w (as_bytes value)"

definition write_vector_length :: "TlWriter \<Rightarrow> nat \<Rightarrow> TlWriter \<times> (unit, TlError) result" where
  "write_vector_length w n =
     (if n < 2 ^ 31 then (write_i32 (write_u32 w VECTOR_CONSTRUCTOR) (of_nat n), Ok ())
      else (w, Err TlLengthOutOfRange))"

section \<open>Reader\<close>

record TlReader =
  tr_input :: bytes
  tr_offset :: nat
  tr_max_bytes :: nat
  tr_max_vector_length :: nat

definition TlReader_new :: "bytes \<Rightarrow> TlReader" where
  "TlReader_new input =
     \<lparr>tr_input = input, tr_offset = 0, tr_max_bytes = DEFAULT_MAX_BYTES,
      tr_max_vector_length = DEFAULT_MAX_VECTOR_LENGTH\<rparr>"

definition with_limits :: "bytes \<Rightarrow> nat \<Rightarrow> nat \<Rightarrow> TlReader" where
  "with_limits input max_bytes max_vector_length =
     \<lparr>tr_input = input, tr_offset = 0, tr_max_bytes = max_bytes,
      tr_max_vector_length = max_vector_length\<rparr>"

text \<open>A reading operation returns the reader it leaves behind beside its result.\<close>

type_synonym ('a, 'e) reading = "TlReader \<Rightarrow> TlReader \<times> ('a, 'e) result"

text \<open>The \<open>?\<close> operator on the result of a reading operation, and a plain result in its place.\<close>

definition and_read :: "('a, 'e) reading \<Rightarrow> ('a \<Rightarrow> ('b, 'e) reading) \<Rightarrow> ('b, 'e) reading" where
  "and_read p f r = (case p r of (r', Inl e) \<Rightarrow> (r', Inl e) | (r', Inr x) \<Rightarrow> f x r')"

definition reads :: "('a, 'e) result \<Rightarrow> ('a, 'e) reading" where
  "reads res r = (r, res)"

definition tl_take :: "nat \<Rightarrow> (bytes, TlError) reading" where
  "tl_take n r =
     (let until = tr_offset r + n in
      if 2 ^ 64 \<le> until then (r, Err (UnexpectedEof (tr_offset r) n))
      else
        (case get_range (tr_input r) (tr_offset r) until of
           None \<Rightarrow> (r, Err (UnexpectedEof (tr_offset r) (until - length (tr_input r))))
         | Some value \<Rightarrow> (r\<lparr>tr_offset := until\<rparr>, Ok value)))"

definition read_i32 :: "(i32, TlError) reading" where
  "read_i32 = and_read (tl_take 4) (\<lambda>bs. reads (Ok (from_le bs)))"

definition read_u32 :: "(u32, TlError) reading" where
  "read_u32 = and_read (tl_take 4) (\<lambda>bs. reads (Ok (from_le bs)))"

definition read_i64 :: "(i64, TlError) reading" where
  "read_i64 = and_read (tl_take 8) (\<lambda>bs. reads (Ok (from_le bs)))"

definition read_u64 :: "(u64, TlError) reading" where
  "read_u64 = and_read (tl_take 8) (\<lambda>bs. reads (Ok (from_le bs)))"

definition read_f64 :: "(f64, TlError) reading" where
  "read_f64 = and_read (tl_take 8) (\<lambda>bs. reads (Ok (from_le bs)))"

definition read_i128_bytes :: "(bytes, TlError) reading" where
  "read_i128_bytes = tl_take 16"

definition read_i256_bytes :: "(bytes, TlError) reading" where
  "read_i256_bytes = tl_take 32"

definition read_bool :: "(bool, TlError) reading" where
  "read_bool =
     and_read read_u32 (\<lambda>c. reads
       (if c = BOOL_TRUE_CONSTRUCTOR then Ok True
        else if c = BOOL_FALSE_CONSTRUCTOR then Ok False
        else Err (InvalidBoolConstructor c)))"

text \<open>The length of a byte string and the length of its prefix.\<close>

definition read_bytes_header :: "(nat \<times> nat, TlError) reading" where
  "read_bytes_header =
     and_read (tl_take 1) (\<lambda>bs. let prefix = hd bs in
       if prefix \<le> 253 then reads (Ok (unat prefix, 1))
       else if prefix = 254 then
         and_read (tl_take 3) (\<lambda>length_bytes. reads (Ok (from_le24 length_bytes, 4)))
       else reads (Err InvalidBytesPrefix))"

definition read_bytes :: "(bytes, TlError) reading" where
  "read_bytes =
     and_read read_bytes_header (\<lambda>(n, header_length) r.
       if tr_max_bytes r < n then (r, Err (BytesLengthLimit n (tr_max_bytes r)))
       else
         and_read (tl_take n) (\<lambda>value.
         and_read (tl_take (padding_length (header_length + n))) (\<lambda>_.
         reads (Ok value))) r)"

definition read_string :: "(string, TlError) reading" where
  "read_string r =
     and_read read_bytes (\<lambda>bs. reads
       (if valid_utf8 bs then Ok (of_bytes bs) else Err (InvalidUtf8 (tr_offset r)))) r"

definition read_vector_length :: "(nat, TlError) reading" where
  "read_vector_length =
     and_read read_u32 (\<lambda>constructor.
     if constructor \<noteq> VECTOR_CONSTRUCTOR
     then reads (Err (UnexpectedConstructor VECTOR_CONSTRUCTOR constructor))
     else
       and_read read_i32 (\<lambda>n r.
       if n <s 0 then (r, Err (NegativeVectorLength n))
       else if tr_max_vector_length r < unat n
       then (r, Err (VectorLengthLimit (unat n) (tr_max_vector_length r)))
       else (r, Ok (unat n))))"

definition reader_position :: "TlReader \<Rightarrow> nat" where
  "reader_position r = tr_offset r"

definition remaining :: "TlReader \<Rightarrow> nat" where
  "remaining r = length (tr_input r) - tr_offset r"

definition is_finished :: "TlReader \<Rightarrow> bool" where
  "is_finished r \<longleftrightarrow> remaining r = 0"

section \<open>What a reader has read\<close>

text \<open>
  The bytes still to read, and the state of a reader between two reads. A slice of Rust has less
  than \<open>2 ^ 63\<close> bytes.
\<close>

definition unread :: "TlReader \<Rightarrow> bytes" where
  "unread r = drop (tr_offset r) (tr_input r)"

definition reader_ok :: "TlReader \<Rightarrow> bool" where
  "reader_ok r \<longleftrightarrow> tr_offset r \<le> length (tr_input r) \<and> length (tr_input r) < 2 ^ 64"

definition advance :: "nat \<Rightarrow> TlReader \<Rightarrow> TlReader" where
  "advance n r = r\<lparr>tr_offset := tr_offset r + n\<rparr>"

lemma advance_simps [simp]:
  "tr_input (advance n r) = tr_input r" "tr_offset (advance n r) = tr_offset r + n"
  "tr_max_bytes (advance n r) = tr_max_bytes r"
  "tr_max_vector_length (advance n r) = tr_max_vector_length r"
  "advance 0 r = r" "advance m (advance n r) = advance (n + m) r"
  by (simp_all add: advance_def ac_simps)

lemma unread_advance: "unread r = bs @ rest \<Longrightarrow> unread (advance (length bs) r) = rest"
  by (simp add: unread_def add.commute flip: drop_drop)

lemma reader_ok_advance: "reader_ok r \<Longrightarrow> n \<le> length (unread r) \<Longrightarrow> reader_ok (advance n r)"
  by (auto simp: reader_ok_def unread_def)

lemma tl_take_outcome:
  assumes "reader_ok r"
  shows "tl_take n r =
    (if n \<le> length (unread r) then (advance n r, Ok (take n (unread r)))
     else (r, Err (UnexpectedEof (tr_offset r)
       (if tr_offset r + n < 2 ^ 64 then tr_offset r + n - length (tr_input r) else n))))"
  using assms by (auto simp: tl_take_def get_range_def reader_ok_def unread_def advance_def Let_def)

section \<open>Parsing what was written\<close>

text \<open>
  Under these limits an operation reads exactly the bytes \<open>bs\<close> and returns \<open>x\<close>, wherever they
  stand and whatever follows them.
\<close>

definition parses :: "nat \<Rightarrow> nat \<Rightarrow> ('a, 'e) reading \<Rightarrow> bytes \<Rightarrow> 'a \<Rightarrow> bool" where
  "parses mb mv p bs x \<longleftrightarrow>
     (\<forall>r rest. reader_ok r \<longrightarrow> tr_max_bytes r = mb \<longrightarrow> tr_max_vector_length r = mv \<longrightarrow> unread r = bs @ rest
        \<longrightarrow> p r = (advance (length bs) r, Ok x))"

named_theorems parses_intro \<open>reading operations on what was written\<close>

lemma parsesI:
  assumes "\<And>r rest. reader_ok r \<Longrightarrow> tr_max_bytes r = mb \<Longrightarrow> tr_max_vector_length r = mv \<Longrightarrow>
    unread r = bs @ rest \<Longrightarrow> p r = (advance (length bs) r, Ok x)"
  shows "parses mb mv p bs x"
  using assms by (simp add: parses_def)

lemma parses_take: "length bs = n \<Longrightarrow> parses mb mv (tl_take n) bs bs"
  by (rule parsesI) (simp add: tl_take_outcome)

lemma parses_reads: "parses mb mv (reads (Ok x)) [] x"
  by (rule parsesI) (simp add: reads_def)

lemma parses_and_read:
  assumes "parses mb mv p bs x" "parses mb mv (f x) bs' y"
  shows "parses mb mv (and_read p f) (bs @ bs') y"
proof (rule parsesI)
  fix r rest
  assume r: "reader_ok r" "tr_max_bytes r = mb" "tr_max_vector_length r = mv" "unread r = (bs @ bs') @ rest"
  then have p: "p r = (advance (length bs) r, Ok x)"
    using assms(1) by (simp add: parses_def)
  have "f x (advance (length bs) r) = (advance (length bs') (advance (length bs) r), Ok y)"
    using assms(2) r reader_ok_advance [OF r(1), of "length bs"] unread_advance [of r bs "bs' @ rest"]
    by (simp add: parses_def)
  with p show "and_read p f r = (advance (length (bs @ bs')) r, Ok y)"
    by (simp add: and_read_def)
qed

lemma parses_and_read_last:
  assumes "parses mb mv p bs x" "f x = reads (Ok y)"
  shows "parses mb mv (and_read p f) bs y"
  using parses_and_read [OF assms(1), of f "[]" y] assms(2) by (simp add: parses_reads)

text \<open>A whole input.\<close>

lemma parses_whole:
  assumes "parses mb mv p bs x" "length bs < 2 ^ 64"
  shows "p (with_limits bs mb mv) = (advance (length bs) (with_limits bs mb mv), Ok x)"
  using assms unfolding parses_def
  by (auto simp: with_limits_def reader_ok_def unread_def)

lemma TlReader_new_limits: "TlReader_new bs = with_limits bs DEFAULT_MAX_BYTES DEFAULT_MAX_VECTOR_LENGTH"
  by (simp add: TlReader_new_def with_limits_def)

lemma whole_finished [simp]: "is_finished (advance (length bs) (with_limits bs mb mv))"
  by (simp add: is_finished_def remaining_def with_limits_def)

section \<open>The contract of a codec\<close>

text \<open>
  A loop of the parsers: the operation is repeated as often as a count says, and the values are
  collected in order.
\<close>

primrec read_many :: "nat \<Rightarrow> ('a, 'e) reading \<Rightarrow> ('a list, 'e) reading" where
  "read_many 0 p = reads (Ok [])"
| "read_many (Suc n) p = and_read p (\<lambda>x. and_read (read_many n p) (\<lambda>xs. reads (Ok (x # xs))))"

text \<open>
  What a pair of writing and reading promises: under limits that admit the value, the operation
  reads back what was written.
\<close>

locale tl_codec =
  fixes enc :: "'a \<Rightarrow> bytes" and rd :: "('a, 'e) reading" and good :: "nat \<Rightarrow> nat \<Rightarrow> 'a \<Rightarrow> bool"
  assumes parses_enc: "good mb mv x \<Longrightarrow> parses mb mv rd (enc x) x"
begin

lemma parses_then:
  "good mb mv x \<Longrightarrow> parses mb mv (f x) bs y \<Longrightarrow> parses mb mv (and_read rd f) (enc x @ bs) y"
  by (rule parses_and_read [OF parses_enc])

lemma parses_many:
  "(\<And>x. x \<in> set xs \<Longrightarrow> good mb mv x) \<Longrightarrow>
   parses mb mv (read_many (length xs) rd) (concat (map enc xs)) xs"
proof (induction xs)
  case Nil
  then show ?case by (simp add: parses_reads)
next
  case (Cons x xs)
  then have "parses mb mv (and_read (read_many (length xs) rd) (\<lambda>xs. reads (Ok (x # xs))))
      (concat (map enc xs)) (x # xs)"
    by (intro parses_and_read_last [where x = xs]) simp_all
  then show ?case
    using Cons.prems by (simp add: parses_then)
qed

lemma whole_input:
  "good mb mv x \<Longrightarrow> length (enc x) < 2 ^ 64 \<Longrightarrow>
   \<exists>r. rd (with_limits (enc x) mb mv) = (r, Ok x) \<and> is_finished r"
  using parses_whole [OF parses_enc] by fastforce

end

text \<open>The bytes that each operation of the writer appends.\<close>

definition enc_bool :: "bool \<Rightarrow> bytes" where
  "enc_bool v = to_le 4 (if v then BOOL_TRUE_CONSTRUCTOR else BOOL_FALSE_CONSTRUCTOR)"

definition enc_bytes :: "bytes \<Rightarrow> bytes" where
  "enc_bytes v =
     (let header = (if length v < 254 then [of_nat (length v)] else 254 # le24 (length v))
      in header @ v @ replicate (padding_length (length header + length v)) 0)"

definition enc_vector_length :: "nat \<Rightarrow> bytes" where
  "enc_vector_length n = to_le 4 VECTOR_CONSTRUCTOR @ to_le 4 (of_nat n :: i32)"

lemma write_simps [simp]:
  "tw_bytes (push_slice w bs) = tw_bytes w @ bs"
  "tw_bytes (write_i32 w i) = tw_bytes w @ to_le 4 i"
  "tw_bytes (write_u32 w i) = tw_bytes w @ to_le 4 i"
  "tw_bytes (write_i64 w l) = tw_bytes w @ to_le 8 l"
  "tw_bytes (write_u64 w l) = tw_bytes w @ to_le 8 l"
  "tw_bytes (write_f64 w l) = tw_bytes w @ to_le 8 l"
  "tw_bytes (write_i128_bytes w bs) = tw_bytes w @ bs"
  "tw_bytes (write_i256_bytes w bs) = tw_bytes w @ bs"
  "tw_bytes (write_bool w b) = tw_bytes w @ enc_bool b"
  "tw_bytes TlWriter_new = []"
  by (simp_all add: push_slice_def write_i32_def write_u32_def write_i64_def write_u64_def write_f64_def
      write_i128_bytes_def write_i256_bytes_def write_bool_def enc_bool_def TlWriter_new_def)

lemma write_bytes_outcome:
  "write_bytes w v =
     (if length v < 2 ^ 24 then (w\<lparr>tw_bytes := tw_bytes w @ enc_bytes v\<rparr>, Ok ()) else (w, Err TlLengthOutOfRange))"
  by (auto simp: write_bytes_def bytes_header_def enc_bytes_def push_slice_def SHORT_BYTES_LIMIT_def Let_def)

lemma write_string_outcome:
  "write_string w s =
     (if length s < 2 ^ 24 then (w\<lparr>tw_bytes := tw_bytes w @ enc_bytes (as_bytes s)\<rparr>, Ok ())
      else (w, Err TlLengthOutOfRange))"
  by (simp add: write_string_def write_bytes_outcome)

lemma write_vector_length_outcome:
  "write_vector_length w n =
     (if n < 2 ^ 31 then (w\<lparr>tw_bytes := tw_bytes w @ enc_vector_length n\<rparr>, Ok ()) else (w, Err TlLengthOutOfRange))"
  by (simp add: write_vector_length_def enc_vector_length_def write_i32_def write_u32_def push_slice_def)

interpretation u32_codec: tl_codec "to_le 4" read_u32 "\<lambda>_ _ _. True"
  by unfold_locales (simp add: read_u32_def parses_and_read_last [OF parses_take])

interpretation i32_codec: tl_codec "to_le 4" read_i32 "\<lambda>_ _ _. True"
  by unfold_locales (simp add: read_i32_def parses_and_read_last [OF parses_take])

interpretation u64_codec: tl_codec "to_le 8" read_u64 "\<lambda>_ _ _. True"
  by unfold_locales (simp add: read_u64_def parses_and_read_last [OF parses_take])

interpretation i64_codec: tl_codec "to_le 8" read_i64 "\<lambda>_ _ _. True"
  by unfold_locales (simp add: read_i64_def parses_and_read_last [OF parses_take])

interpretation f64_codec: tl_codec "to_le 8" read_f64 "\<lambda>_ _ _. True"
  by unfold_locales (simp add: read_f64_def parses_and_read_last [OF parses_take])

interpretation i128_codec: tl_codec "\<lambda>bs. bs" read_i128_bytes "\<lambda>_ _ bs. length bs = 16"
  by unfold_locales (simp add: read_i128_bytes_def parses_take)

interpretation i256_codec: tl_codec "\<lambda>bs. bs" read_i256_bytes "\<lambda>_ _ bs. length bs = 32"
  by unfold_locales (simp add: read_i256_bytes_def parses_take)

interpretation bool_codec: tl_codec enc_bool read_bool "\<lambda>_ _ _. True"
proof
  show "parses mb mv read_bool (enc_bool b) b" for mb mv b
    unfolding read_bool_def enc_bool_def
    by (rule parses_and_read_last [OF u32_codec.parses_enc [OF TrueI]]) (cases b; simp add: tl_constants)
qed

lemma parses_bytes_header:
  "n < 2 ^ 24 \<Longrightarrow>
   parses mb mv read_bytes_header (if n < 254 then [of_nat n] else 254 # le24 n) (n, if n < 254 then 1 else 4)"
proof (cases "n < 254")
  case True
  then have "(of_nat n :: u8) \<le> 253" "unat (of_nat n :: u8) = n"
    by (simp_all add: word_le_nat_alt unat_of_nat)
  with True show ?thesis
    unfolding read_bytes_header_def
    by (simp add: parses_and_read_last [OF parses_take])
next
  case False
  assume n: "n < 2 ^ 24"
  have "parses mb mv (and_read (tl_take 3) (\<lambda>length_bytes. reads (Ok (from_le24 length_bytes, 4)))) (le24 n) (n, 4 :: nat)"
    by (rule parses_and_read_last [OF parses_take]) (simp_all add: from_le24_le24 [OF n])
  then have "parses mb mv read_bytes_header ([254] @ le24 n) (n, 4)"
    unfolding read_bytes_header_def by (intro parses_and_read [OF parses_take]) simp_all
  with False show ?thesis by simp
qed

interpretation bytes_codec: tl_codec enc_bytes read_bytes "\<lambda>mb _ v. length v < 2 ^ 24 \<and> length v \<le> mb"
proof
  fix mb mv and v :: bytes
  assume v: "length v < 2 ^ 24 \<and> length v \<le> mb"
  define header :: bytes where "header = (if length v < 254 then [of_nat (length v)] else 254 # le24 (length v))"
  define h where "h = length header"
  have h: "h = (if length v < 254 then 1 else 4)" by (simp add: h_def header_def)
  have head: "parses mb mv read_bytes_header header (length v, h)"
    using parses_bytes_header [of "length v" mb mv] v by (simp only: header_def h)
  let ?pad = "replicate (padding_length (h + length v)) (0 :: u8)"
  have rest: "parses mb mv (\<lambda>r. if tr_max_bytes r < length v then (r, Err (BytesLengthLimit (length v) (tr_max_bytes r)))
      else and_read (tl_take (length v)) (\<lambda>value. and_read (tl_take (padding_length (h + length v))) (\<lambda>_. reads (Ok value))) r)
      (v @ ?pad) v"
  proof -
    have "parses mb mv (and_read (tl_take (length v)) (\<lambda>value. and_read (tl_take (padding_length (h + length v))) (\<lambda>_. reads (Ok value))))
      (v @ ?pad) v"
      by (intro parses_and_read [OF parses_take] parses_and_read_last [OF parses_take]) simp_all
    then show ?thesis using v by (auto simp: parses_def)
  qed
  show "parses mb mv read_bytes (enc_bytes v) v"
    unfolding read_bytes_def enc_bytes_def header_def [symmetric] Let_def h_def [symmetric]
    by (rule parses_and_read [OF head]) (use rest in simp)
qed

interpretation string_codec: tl_codec "\<lambda>s. enc_bytes (as_bytes s)" read_string
  "\<lambda>mb _ s. length s < 2 ^ 24 \<and> length s \<le> mb \<and> valid_utf8 (as_bytes s)"
proof
  fix mb mv and s :: string
  assume s: "length s < 2 ^ 24 \<and> length s \<le> mb \<and> valid_utf8 (as_bytes s)"
  have "parses mb mv read_bytes (enc_bytes (as_bytes s)) (as_bytes s)"
    using s by (intro bytes_codec.parses_enc) simp
  then show "parses mb mv read_string (enc_bytes (as_bytes s)) s"
    using s by (auto simp: parses_def read_string_def and_read_def reads_def)
qed

interpretation vector_length_codec: tl_codec enc_vector_length read_vector_length
  "\<lambda>_ mv n. n < 2 ^ 31 \<and> n \<le> mv"
proof
  fix mb mv n
  assume n: "n < (2 :: nat) ^ 31 \<and> n \<le> mv"
  then have "unat (of_nat n :: i32) = n" by (simp add: unat_of_nat)
  moreover have "sint (of_nat n :: i32) = int n"
    using n sint_word_of_int_i32 [of "int n"] by simp
  ultimately have rest: "parses mb mv (and_read read_i32 (\<lambda>n r.
       if n <s 0 then (r, Err (NegativeVectorLength n))
       else if tr_max_vector_length r < unat n
       then (r, Err (VectorLengthLimit (unat n) (tr_max_vector_length r)))
       else (r, Ok (unat n)))) (to_le 4 (of_nat n :: i32) @ []) n"
    using n by (intro i32_codec.parses_then) (auto simp: parses_def word_sless_alt)
  show "parses mb mv read_vector_length (enc_vector_length n) n"
    unfolding read_vector_length_def enc_vector_length_def
    using rest by (intro u32_codec.parses_then) simp_all
qed

section \<open>Sequences of values\<close>

text \<open>The values of the wire format, written and read one after the other, up to the first error.\<close>

datatype TlValue =
    TlI32 i32 | TlU32 u32 | TlI64 i64 | TlU64 u64 | TlF64 f64 | TlI128 bytes | TlI256 bytes
  | TlBool bool | TlBytes bytes | TlString string | TlVectorLength nat

fun write_value :: "TlWriter \<Rightarrow> TlValue \<Rightarrow> TlWriter \<times> (unit, TlError) result" where
  "write_value w (TlI32 x) = (write_i32 w x, Ok ())"
| "write_value w (TlU32 x) = (write_u32 w x, Ok ())"
| "write_value w (TlI64 x) = (write_i64 w x, Ok ())"
| "write_value w (TlU64 x) = (write_u64 w x, Ok ())"
| "write_value w (TlF64 x) = (write_f64 w x, Ok ())"
| "write_value w (TlI128 x) = (write_i128_bytes w x, Ok ())"
| "write_value w (TlI256 x) = (write_i256_bytes w x, Ok ())"
| "write_value w (TlBool x) = (write_bool w x, Ok ())"
| "write_value w (TlBytes x) = write_bytes w x"
| "write_value w (TlString x) = write_string w x"
| "write_value w (TlVectorLength x) = write_vector_length w x"

fun write_values :: "TlWriter \<Rightarrow> TlValue list \<Rightarrow> TlWriter \<times> (unit, TlError) result" where
  "write_values w [] = (w, Ok ())"
| "write_values w (v # vs) =
     (case write_value w v of (w', Inl e) \<Rightarrow> (w', Inl e) | (w', Inr _) \<Rightarrow> write_values w' vs)"

text \<open>Reads a value of the same kind.\<close>

fun read_value :: "TlValue \<Rightarrow> (TlValue, TlError) reading" where
  "read_value (TlI32 _) = and_read read_i32 (\<lambda>x. reads (Ok (TlI32 x)))"
| "read_value (TlU32 _) = and_read read_u32 (\<lambda>x. reads (Ok (TlU32 x)))"
| "read_value (TlI64 _) = and_read read_i64 (\<lambda>x. reads (Ok (TlI64 x)))"
| "read_value (TlU64 _) = and_read read_u64 (\<lambda>x. reads (Ok (TlU64 x)))"
| "read_value (TlF64 _) = and_read read_f64 (\<lambda>x. reads (Ok (TlF64 x)))"
| "read_value (TlI128 _) = and_read read_i128_bytes (\<lambda>x. reads (Ok (TlI128 x)))"
| "read_value (TlI256 _) = and_read read_i256_bytes (\<lambda>x. reads (Ok (TlI256 x)))"
| "read_value (TlBool _) = and_read read_bool (\<lambda>x. reads (Ok (TlBool x)))"
| "read_value (TlBytes _) = and_read read_bytes (\<lambda>x. reads (Ok (TlBytes x)))"
| "read_value (TlString _) = and_read read_string (\<lambda>x. reads (Ok (TlString x)))"
| "read_value (TlVectorLength _) = and_read read_vector_length (\<lambda>x. reads (Ok (TlVectorLength x)))"

fun read_values :: "TlValue list \<Rightarrow> (TlValue list, TlError) reading" where
  "read_values [] = reads (Ok [])"
| "read_values (v # vs) = and_read (read_value v) (\<lambda>x. and_read (read_values vs) (\<lambda>xs. reads (Ok (x # xs))))"

text \<open>
  Values that a reader with these limits takes: arrays of their length, strings that are UTF-8 as
  every \<open>str\<close> is, and lengths below the limits.
\<close>

fun readable :: "nat \<Rightarrow> nat \<Rightarrow> TlValue \<Rightarrow> bool" where
  "readable mb mv (TlI128 bs) \<longleftrightarrow> length bs = 16"
| "readable mb mv (TlI256 bs) \<longleftrightarrow> length bs = 32"
| "readable mb mv (TlBytes bs) \<longleftrightarrow> length bs \<le> mb"
| "readable mb mv (TlString t) \<longleftrightarrow> length t \<le> mb \<and> valid_utf8 (as_bytes t)"
| "readable mb mv (TlVectorLength n) \<longleftrightarrow> n \<le> mv"
| "readable mb mv _ \<longleftrightarrow> True"

fun enc_value :: "TlValue \<Rightarrow> bytes" where
  "enc_value (TlI32 x) = to_le 4 x"
| "enc_value (TlU32 x) = to_le 4 x"
| "enc_value (TlI64 x) = to_le 8 x"
| "enc_value (TlU64 x) = to_le 8 x"
| "enc_value (TlF64 x) = to_le 8 x"
| "enc_value (TlI128 x) = x"
| "enc_value (TlI256 x) = x"
| "enc_value (TlBool x) = enc_bool x"
| "enc_value (TlBytes x) = enc_bytes x"
| "enc_value (TlString x) = enc_bytes (as_bytes x)"
| "enc_value (TlVectorLength x) = enc_vector_length x"

lemma padding_length_mod: "(n + padding_length n) mod 4 = 0"
proof -
  have "n mod 4 = 0 \<or> n mod 4 = 1 \<or> n mod 4 = 2 \<or> n mod 4 = 3" by linarith
  then have "(n mod 4 + padding_length n) mod 4 = 0" by (auto simp: padding_length_def)
  then show ?thesis by (simp add: mod_add_left_eq)
qed

lemma length_enc_bytes_mod: "length (enc_bytes bs) mod 4 = 0"
  using padding_length_mod [of "Suc (length bs)"] padding_length_mod [of "4 + length bs"]
  by (auto simp: enc_bytes_def Let_def add.assoc)

lemma length_enc_bytes_le: "length (enc_bytes bs) \<le> length bs + 8"
proof -
  have pad: "padding_length n \<le> 3" for n
    using mod_less_divisor [of 4 "4 - n mod 4"] by (simp add: padding_length_def)
  show ?thesis
    using pad [of "Suc (length bs)"] pad [of "4 + length bs"] by (auto simp: enc_bytes_def Let_def)
qed

lemma length_enc_value_mod: "readable mb mv v \<Longrightarrow> length (enc_value v) mod 4 = 0"
  by (cases v) (simp_all add: enc_bool_def enc_vector_length_def length_enc_bytes_mod)

lemma write_value_Ok:
  assumes "write_value w v = (w', Ok u)" "readable mb mv v"
  shows "tw_bytes w' = tw_bytes w @ enc_value v" "parses mb mv (read_value v) (enc_value v) v"
proof -
  show "tw_bytes w' = tw_bytes w @ enc_value v"
    using assms(1) by (cases v)
      (auto simp: write_bytes_outcome write_string_outcome write_vector_length_outcome split: if_splits)
  show "parses mb mv (read_value v) (enc_value v) v"
  proof (cases v)
    case (TlI32 x)
    then show ?thesis by (simp add: parses_and_read_last [OF i32_codec.parses_enc])
  next
    case (TlU32 x)
    then show ?thesis by (simp add: parses_and_read_last [OF u32_codec.parses_enc])
  next
    case (TlI64 x)
    then show ?thesis by (simp add: parses_and_read_last [OF i64_codec.parses_enc])
  next
    case (TlU64 x)
    then show ?thesis by (simp add: parses_and_read_last [OF u64_codec.parses_enc])
  next
    case (TlF64 x)
    then show ?thesis by (simp add: parses_and_read_last [OF f64_codec.parses_enc])
  next
    case (TlI128 x)
    with assms show ?thesis by (simp add: parses_and_read_last [OF i128_codec.parses_enc])
  next
    case (TlI256 x)
    with assms show ?thesis by (simp add: parses_and_read_last [OF i256_codec.parses_enc])
  next
    case (TlBool x)
    then show ?thesis by (simp add: parses_and_read_last [OF bool_codec.parses_enc])
  next
    case (TlBytes x)
    with assms show ?thesis
      by (auto intro!: parses_and_read_last [OF bytes_codec.parses_enc] simp: write_bytes_outcome split: if_splits)
  next
    case (TlString x)
    with assms show ?thesis
      by (auto intro!: parses_and_read_last [OF string_codec.parses_enc] simp: write_string_outcome split: if_splits)
  next
    case (TlVectorLength x)
    with assms show ?thesis
      by (auto intro!: parses_and_read_last [OF vector_length_codec.parses_enc]
          simp: write_vector_length_outcome split: if_splits)
  qed
qed

lemma write_values_Ok:
  "write_values w vs = (w', Ok u) \<Longrightarrow> \<forall>v \<in> set vs. readable mb mv v \<Longrightarrow>
   \<exists>bs. tw_bytes w' = tw_bytes w @ bs \<and> length bs mod 4 = 0 \<and> parses mb mv (read_values vs) bs vs"
proof (induction vs arbitrary: w)
  case Nil
  then show ?case by (simp add: parses_reads)
next
  case (Cons v vs)
  from Cons.prems(1) obtain w1 u' where w1: "write_value w v = (w1, Ok u')" "write_values w1 vs = (w', Ok u)"
    by (auto split: prod.splits sum.splits)
  from Cons.IH [OF w1(2)] Cons.prems(2) obtain bs where
    bs: "tw_bytes w' = tw_bytes w1 @ bs" "length bs mod 4 = 0" "parses mb mv (read_values vs) bs vs"
    by auto
  note v = write_value_Ok [OF w1(1), of mb mv]
  have "parses mb mv (read_values (v # vs)) (enc_value v @ bs) (v # vs)"
    unfolding read_values.simps
    using Cons.prems(2) by (intro parses_and_read [OF v(2)] parses_and_read_last [OF bs(3)]) simp_all
  moreover have "length (enc_value v @ bs) mod 4 = 0"
    using length_enc_value_mod [of mb mv v] Cons.prems(2) bs(2) by (simp add: mod_eq_0_iff_dvd)
  ultimately show ?case using v(1) bs(1) Cons.prems(2) by (intro exI [of _ "enc_value v @ bs"]) simp
qed

text \<open>
  C31: what is written is read back. If a fresh writer takes a sequence of values, a reader whose limits
  admit them returns exactly these values when asked for the same kinds in the same order, and has
  then read its whole input; and the number of bytes is a multiple of four.
\<close>

theorem tl_sequence_roundtrip:
  assumes "write_values TlWriter_new vs = (w, Ok ())"
    and "\<forall>v \<in> set vs. readable max_bytes max_vector_length v"
    and "length (tw_bytes w) < 2 ^ 64"
  shows "\<exists>r. read_values vs (with_limits (tw_bytes w) max_bytes max_vector_length) = (r, Ok vs)
    \<and> is_finished r \<and> length (tw_bytes w) mod 4 = 0"
proof -
  from write_values_Ok [OF assms(1,2)] have "length (tw_bytes w) mod 4 = 0"
    and "parses max_bytes max_vector_length (read_values vs) (tw_bytes w) vs"
    by auto
  from this(1) parses_whole [OF this(2) assms(3)] show ?thesis by auto
qed

section \<open>Whole bodies\<close>

text \<open>
  A body is written by one operation of a fresh writer after the other, up to the first error, and
  read by operations whose errors are wrapped by the error of the caller.
\<close>

definition written :: "TlValue list \<Rightarrow> (bytes, TlError) result" where
  "written vs = (case write_values TlWriter_new vs of (w, Inl e) \<Rightarrow> Err e | (w, Inr _) \<Rightarrow> Ok (tw_bytes w))"

definition lift_read :: "('e \<Rightarrow> 'f) \<Rightarrow> ('a, 'e) reading \<Rightarrow> ('a, 'f) reading" where
  "lift_read g p r = (case p r of (r', res) \<Rightarrow> (r', map_err g res))"

definition expect_finished :: "(nat \<Rightarrow> 'e) \<Rightarrow> (unit, 'e) reading" where
  "expect_finished e r = (r, if is_finished r then Ok () else Err (e (remaining r)))"

lemma written_Ok:
  assumes "written vs = Ok bs" "\<forall>v \<in> set vs. readable mb mv v"
  shows "parses mb mv (read_values vs) bs vs" "length bs mod 4 = 0"
proof -
  obtain w u where "write_values TlWriter_new vs = (w, Ok u)" "bs = tw_bytes w"
    using assms(1) by (auto simp: written_def split: prod.splits sum.splits)
  with write_values_Ok [OF this(1) assms(2)] show "parses mb mv (read_values vs) bs vs" "length bs mod 4 = 0"
    by auto
qed

text \<open>When a body can be written, and its bytes.\<close>

fun writable :: "TlValue \<Rightarrow> bool" where
  "writable (TlBytes bs) \<longleftrightarrow> length bs < 2 ^ 24"
| "writable (TlString t) \<longleftrightarrow> length t < 2 ^ 24"
| "writable (TlVectorLength n) \<longleftrightarrow> n < 2 ^ 31"
| "writable _ \<longleftrightarrow> True"

lemma write_value_outcome:
  "write_value w v = (if writable v then (w\<lparr>tw_bytes := tw_bytes w @ enc_value v\<rparr>, Ok ()) else (w, Err TlLengthOutOfRange))"
  by (cases v) (simp_all add: write_bytes_outcome write_string_outcome write_vector_length_outcome write_i32_def
      write_u32_def write_i64_def write_u64_def write_f64_def write_i128_bytes_def write_i256_bytes_def write_bool_def
      enc_bool_def push_slice_def)

lemma write_values_outcome:
  "write_values w vs =
     (if list_all writable vs then (w\<lparr>tw_bytes := tw_bytes w @ concat (map enc_value vs)\<rparr>, Ok ())
      else (w\<lparr>tw_bytes := tw_bytes w @ concat (map enc_value (takeWhile writable vs))\<rparr>, Err TlLengthOutOfRange))"
  by (induction vs arbitrary: w) (auto simp: write_value_outcome)

lemma written_outcome:
  "written vs = (if list_all writable vs then Ok (concat (map enc_value vs)) else Err TlLengthOutOfRange)"
  by (simp add: written_def write_values_outcome TlWriter_new_def)

lemma parses_lift: "parses mb mv p bs x \<Longrightarrow> parses mb mv (lift_read g p) bs x"
  by (simp add: parses_def lift_read_def)

section \<open>Reading arbitrary input\<close>

text \<open>
  On whatever input, an operation leaves the reader inside it, and a value it returns satisfies the
  condition together with the number of bytes that were read.
\<close>

definition yields :: "nat \<Rightarrow> nat \<Rightarrow> ('a, 'e) reading \<Rightarrow> (nat \<Rightarrow> 'a \<Rightarrow> bool) \<Rightarrow> bool" where
  "yields mb mv p Q \<longleftrightarrow>
     (\<forall>r. reader_ok r \<longrightarrow> tr_max_bytes r = mb \<longrightarrow> tr_max_vector_length r = mv \<longrightarrow>
        (\<exists>n. fst (p r) = advance n r \<and> n \<le> length (unread r) \<and> (\<forall>x. snd (p r) = Ok x \<longrightarrow> Q n x)))"

lemma yieldsI:
  assumes "\<And>r. reader_ok r \<Longrightarrow> tr_max_bytes r = mb \<Longrightarrow> tr_max_vector_length r = mv \<Longrightarrow>
    \<exists>n. fst (p r) = advance n r \<and> n \<le> length (unread r) \<and> (\<forall>x. snd (p r) = Ok x \<longrightarrow> Q n x)"
  shows "yields mb mv p Q"
  using assms by (simp add: yields_def)

lemma yieldsE:
  assumes "yields mb mv p Q" "reader_ok r" "tr_max_bytes r = mb" "tr_max_vector_length r = mv"
  obtains n where "fst (p r) = advance n r" "n \<le> length (unread r)" "\<forall>x. snd (p r) = Ok x \<longrightarrow> Q n x"
  using assms by (auto simp: yields_def)

lemma yields_mono:
  assumes "yields mb mv p Q" "\<And>n x. Q n x \<Longrightarrow> R n x"
  shows "yields mb mv p R"
proof (rule yieldsI)
  fix r
  assume "reader_ok r" "tr_max_bytes r = mb" "tr_max_vector_length r = mv"
  with assms(1) obtain n where "fst (p r) = advance n r" "n \<le> length (unread r)" "\<forall>x. snd (p r) = Ok x \<longrightarrow> Q n x"
    by (rule yieldsE)
  with assms(2) show "\<exists>n. fst (p r) = advance n r \<and> n \<le> length (unread r) \<and> (\<forall>x. snd (p r) = Ok x \<longrightarrow> R n x)"
    by blast
qed

lemma yields_take: "yields mb mv (tl_take k) (\<lambda>n bs. n = k \<and> length bs = k)"
proof (rule yieldsI)
  fix r
  assume r: "reader_ok r"
  show "\<exists>n. fst (tl_take k r) = advance n r \<and> n \<le> length (unread r)
      \<and> (\<forall>bs. snd (tl_take k r) = Ok bs \<longrightarrow> n = k \<and> length bs = k)"
    by (cases "k \<le> length (unread r)")
      (auto simp: tl_take_outcome [OF r] intro: exI [of _ k] exI [of _ "0 :: nat"])
qed

lemma yields_reads: "(\<And>x. res = Ok x \<Longrightarrow> Q 0 x) \<Longrightarrow> yields mb mv (reads res) Q"
  by (rule yieldsI) (auto simp: reads_def intro!: exI [of _ 0])

lemma yields_if:
  "(b \<Longrightarrow> yields mb mv p Q) \<Longrightarrow> (\<not> b \<Longrightarrow> yields mb mv q Q) \<Longrightarrow> yields mb mv (if b then p else q) Q"
  by simp

lemma yields_lift: "yields mb mv p Q \<Longrightarrow> yields mb mv (lift_read g p) Q"
  by (auto simp: yields_def lift_read_def split: prod.split) (metis fst_conv map_err_Inr_iff snd_conv)

lemma yields_finished: "yields mb mv (expect_finished e) (\<lambda>n _. n = 0)"
  by (rule yieldsI) (simp add: expect_finished_def exI [of _ 0])

lemma yields_and_read:
  assumes "yields mb mv p Q" "\<And>n x. Q n x \<Longrightarrow> yields mb mv (f x) (\<lambda>m y. R (n + m) y)"
  shows "yields mb mv (and_read p f) R"
proof (rule yieldsI)
  fix r
  assume r: "reader_ok r" "tr_max_bytes r = mb" "tr_max_vector_length r = mv"
  obtain n where n: "fst (p r) = advance n r" "n \<le> length (unread r)" "\<forall>x. snd (p r) = Ok x \<longrightarrow> Q n x"
    using assms(1) r by (rule yieldsE)
  obtain res where p: "p r = (advance n r, res)" using n(1) by (cases "p r") auto
  show "\<exists>k. fst (and_read p f r) = advance k r \<and> k \<le> length (unread r)
      \<and> (\<forall>y. snd (and_read p f r) = Ok y \<longrightarrow> R k y)"
  proof (cases res)
    case (Inl e)
    then show ?thesis using n(2) p by (auto simp: and_read_def intro: exI [of _ n])
  next
    case (Inr x)
    then have "yields mb mv (f x) (\<lambda>m y. R (n + m) y)" using assms(2) n(3) p by simp
    then obtain m where m: "fst (f x (advance n r)) = advance m (advance n r)"
        "m \<le> length (unread (advance n r))" "\<And>y. snd (f x (advance n r)) = Ok y \<Longrightarrow> R (n + m) y"
      using r reader_ok_advance [OF r(1) n(2)] by (auto simp: yields_def)
    have "n + m \<le> length (unread r)" using m(2) n(2) by (simp add: unread_def)
    then show ?thesis using m(1,3) p Inr by (auto simp: and_read_def intro!: exI [of _ "n + m"])
  qed
qed

lemma yields_u32: "yields mb mv read_u32 (\<lambda>n x. n = 4)"
  unfolding read_u32_def by (rule yields_and_read [OF yields_take]) (simp add: yields_reads)

lemma yields_i32: "yields mb mv read_i32 (\<lambda>n x. n = 4)"
  unfolding read_i32_def by (rule yields_and_read [OF yields_take]) (simp add: yields_reads)

lemma yields_u64: "yields mb mv read_u64 (\<lambda>n x. n = 8)"
  unfolding read_u64_def by (rule yields_and_read [OF yields_take]) (simp add: yields_reads)

lemma yields_i64: "yields mb mv read_i64 (\<lambda>n x. n = 8)"
  unfolding read_i64_def by (rule yields_and_read [OF yields_take]) (simp add: yields_reads)

lemma yields_f64: "yields mb mv read_f64 (\<lambda>n x. n = 8)"
  unfolding read_f64_def by (rule yields_and_read [OF yields_take]) (simp add: yields_reads)

lemma yields_bool: "yields mb mv read_bool (\<lambda>n x. n = 4)"
  unfolding read_bool_def by (rule yields_and_read [OF yields_u32]) (auto intro: yields_reads)

lemma yields_bytes_header: "yields mb mv read_bytes_header (\<lambda>n (len, header). n = header)"
  unfolding read_bytes_header_def Let_def
  by (rule yields_and_read [OF yields_take])
    (auto intro!: yields_if yields_reads yields_and_read [OF yields_take])

lemma yields_bytes: "yields mb mv read_bytes (\<lambda>n bs. length bs \<le> mb \<and> n mod 4 = 0)"
  unfolding read_bytes_def
proof (rule yields_and_read [OF yields_bytes_header])
  fix n :: nat and lh :: "nat \<times> nat"
  assume h: "case lh of (len, header) \<Rightarrow> n = header"
  obtain len where lh: "lh = (len, n)" using h by (cases lh) auto
  let ?inner = "and_read (tl_take len) (\<lambda>value. and_read (tl_take (padding_length (n + len))) (\<lambda>_. reads (Ok value)))"
  have "yields mb mv ?inner (\<lambda>m bs. length bs = len \<and> m = len + padding_length (n + len))"
    by (intro yields_and_read [OF yields_take]) (auto intro: yields_reads)
  then have inner: "yields mb mv ?inner (\<lambda>m bs. length bs = len \<and> (n + m) mod 4 = 0)"
    by (rule yields_mono) (use padding_length_mod [of "n + len"] in \<open>simp add: add.assoc\<close>)
  have "yields mb mv (\<lambda>r. if tr_max_bytes r < len then (r, Err (BytesLengthLimit len (tr_max_bytes r))) else ?inner r)
     (\<lambda>m bs. length bs \<le> mb \<and> (n + m) mod 4 = 0)"
  proof (rule yieldsI)
    fix r
    assume r: "reader_ok r" "tr_max_bytes r = mb" "tr_max_vector_length r = mv"
    obtain m where "fst (?inner r) = advance m r" "m \<le> length (unread r)"
      "\<forall>bs. snd (?inner r) = Ok bs \<longrightarrow> length bs = len \<and> (n + m) mod 4 = 0"
      using inner r by (rule yieldsE)
    with r(2) show "\<exists>m. fst (if tr_max_bytes r < len then (r, Err (BytesLengthLimit len (tr_max_bytes r))) else ?inner r) = advance m r
        \<and> m \<le> length (unread r)
        \<and> (\<forall>bs. snd (if tr_max_bytes r < len then (r, Err (BytesLengthLimit len (tr_max_bytes r))) else ?inner r) = Ok bs
             \<longrightarrow> length bs \<le> mb \<and> (n + m) mod 4 = 0)"
      by (cases "mb < len") (auto intro: exI [of _ 0] exI [of _ m])
  qed
  then show "yields mb mv (case lh of (n, header_length) \<Rightarrow> \<lambda>r.
       if tr_max_bytes r < n then (r, Err (BytesLengthLimit n (tr_max_bytes r)))
       else and_read (tl_take n) (\<lambda>value. and_read (tl_take (padding_length (header_length + n))) (\<lambda>_. reads (Ok value))) r)
     (\<lambda>m bs. length bs \<le> mb \<and> (n + m) mod 4 = 0)"
    by (simp add: lh)
qed

lemma yields_string:
  "yields mb mv read_string (\<lambda>n t. length t \<le> mb \<and> valid_utf8 (as_bytes t) \<and> n mod 4 = 0)"
proof -
  have "yields mb mv (\<lambda>r. and_read read_bytes (\<lambda>bs. reads
       (if valid_utf8 bs then Ok (of_bytes bs) else Err (InvalidUtf8 k))) r)
     (\<lambda>n t. length t \<le> mb \<and> valid_utf8 (as_bytes t) \<and> n mod 4 = 0)" for k
    by (rule yields_and_read [OF yields_bytes]) (auto intro!: yields_reads split: if_splits)
  then show ?thesis unfolding yields_def read_string_def by simp
qed

lemma yields_vector_length: "yields mb mv read_vector_length (\<lambda>n len. len \<le> mv \<and> n = 8)"
proof -
  have "yields mb mv (\<lambda>r. if len <s 0 then (r, Err (NegativeVectorLength len))
       else if tr_max_vector_length r < unat len then (r, Err (VectorLengthLimit (unat len) (tr_max_vector_length r)))
       else (r, Ok (unat len))) (\<lambda>n k. k \<le> mv \<and> n = 0)" for len
    by (rule yieldsI) (auto intro!: exI [of _ "0 :: nat"])
  from yields_mono [OF this] show ?thesis
    unfolding read_vector_length_def
    by (intro yields_and_read [OF yields_u32] yields_if yields_and_read [OF yields_i32])
      (auto intro!: yields_reads)
qed

lemma yields_value: "yields mb mv (read_value v) (\<lambda>n x. readable mb mv x \<and> n mod 4 = 0)"
proof (cases v)
  case (TlI128 bs)
  then show ?thesis
    by (auto simp: read_i128_bytes_def intro!: yields_and_read [OF yields_take] yields_reads)
next
  case (TlI256 bs)
  then show ?thesis
    by (auto simp: read_i256_bytes_def intro!: yields_and_read [OF yields_take] yields_reads)
qed (auto intro!: yields_reads yields_and_read [OF yields_i32] yields_and_read [OF yields_u32]
    yields_and_read [OF yields_u64] yields_and_read [OF yields_i64] yields_and_read [OF yields_f64]
    yields_and_read [OF yields_bool] yields_and_read [OF yields_bytes] yields_and_read [OF yields_string]
    yields_and_read [OF yields_vector_length])

lemma yields_values:
  "yields mb mv (read_values ks) (\<lambda>n xs. length xs = length ks \<and> (\<forall>x \<in> set xs. readable mb mv x) \<and> n mod 4 = 0)"
proof (induction ks)
  case Nil
  show ?case unfolding read_values.simps by (rule yields_reads) simp
next
  case (Cons k ks)
  show ?case unfolding read_values.simps
    by (rule yields_and_read [OF yields_value], rule yields_and_read [OF Cons.IH])
      (auto intro!: yields_reads simp: mod_eq_0_iff_dvd)
qed

text \<open>
  C32: foreign input stays within its bounds. Whatever bytes a reader is given and whatever values it is
  asked for, it ends inside its input; and what it returns respects its limits: byte strings and
  strings no longer than the limit, strings that are UTF-8, vector lengths no greater than theirs,
  arrays of their length, read from a number of bytes divisible by four.
\<close>

theorem reader_within_input:
  assumes "read_values kinds (with_limits input max_bytes max_vector_length) = (r, res)"
    and "length input < 2 ^ 64"
  shows "reader_position r \<le> length input \<and> reader_position r + remaining r = length input
    \<and> (\<forall>vs. res = Ok vs \<longrightarrow> length vs = length kinds
         \<and> (\<forall>v \<in> set vs. readable max_bytes max_vector_length v) \<and> reader_position r mod 4 = 0)"
proof -
  let ?r0 = "with_limits input max_bytes max_vector_length"
  have "reader_ok ?r0" "unread ?r0 = input" "tr_max_bytes ?r0 = max_bytes"
    "tr_max_vector_length ?r0 = max_vector_length" "tr_offset ?r0 = 0" "tr_input ?r0 = input"
    using assms(2) by (simp_all add: with_limits_def reader_ok_def unread_def)
  with yields_values [of max_bytes max_vector_length kinds] assms(1) show ?thesis
    unfolding yields_def by (fastforce simp: reader_position_def remaining_def)
qed

section \<open>Witnesses\<close>

definition demo_values :: "TlValue list" where
  "demo_values = [TlU32 0x1cb5c415, TlBytes [1, 2, 3, 4], TlString ''ok'', TlBool True, TlVectorLength 2]"

theorem tl_sequence_roundtrip_witness:
  "\<exists>w r. write_values TlWriter_new demo_values = (w, Ok ()) \<and> length (tw_bytes w) = 28
     \<and> read_values demo_values (with_limits (tw_bytes w) 16 2) = (r, Ok demo_values) \<and> is_finished r"
proof -
  obtain w u where w: "write_values TlWriter_new demo_values = (w, Ok u)"
    by (simp add: demo_values_def write_bytes_outcome write_string_outcome write_vector_length_outcome)
  have bytes: "length (tw_bytes w) = 28"
    using w by (auto simp: demo_values_def write_bytes_outcome write_string_outcome
        write_vector_length_outcome enc_bytes_def enc_bool_def enc_vector_length_def padding_length_def Let_def)
  have "\<forall>v \<in> set demo_values. readable 16 2 v"
    by (simp add: demo_values_def as_bytes_def valid_utf8.simps)
  from tl_sequence_roundtrip [OF _ this, of w] w bytes show ?thesis by auto
qed

theorem reader_within_input_witness:
  "\<exists>r res. read_values [TlBytes [], TlVectorLength 0] (with_limits [254, 1, 2] 16 2) = (r, res)
     \<and> reader_position r \<le> 3 \<and> reader_position r + remaining r = 3"
  using reader_within_input [of "[TlBytes [], TlVectorLength 0]" "[254, 1, 2]" 16 2]
  by (cases "read_values [TlBytes [], TlVectorLength 0] (with_limits [254, 1, 2] 16 2)") simp

end
