(* ===== verification/Srp.thy ===== *)
theory Srp
  imports Big_Numbers Tl
begin

text \<open>
  The check of the cloud password (\<open>srp.rs\<close>): the proof that a client computes from the password and the
  parameters of the server. SHA-256 and PBKDF2 are parameters beside the big integers; the random
  exponent is the outcome of the random source.
\<close>

record SrpHashes =
  sh_sha256 :: "bytes \<Rightarrow> bytes"
  sh_pbkdf2_sha512 :: "bytes \<Rightarrow> bytes \<Rightarrow> nat \<Rightarrow> nat \<Rightarrow> bytes"

definition INPUT_CHECK_PASSWORD_SRP_CONSTRUCTOR :: u32 where
  "INPUT_CHECK_PASSWORD_SRP_CONSTRUCTOR = 0xd27ff082"

record PasswordSrpParameters =
  sp_srp_id :: i64
  sp_salt1 :: bytes
  sp_salt2 :: bytes
  sp_generator :: i32
  sp_prime :: bytes
  sp_server_b :: bytes

record PasswordSrpProof =
  pp_srp_id :: i64
  pp_a :: bytes
  pp_m1 :: bytes

text \<open>\<open>SrpPanic\<close> is the panic of the \<open>expect\<close> on the constant, which is not an error of the code.\<close>

datatype SrpError =
    EmptyPassword | InvalidPrimeOrGenerator | InvalidServerB | InvalidRandomExponent | SrpRandomnessUnavailable
  | SrpTl TlError | SrpPanic

section \<open>Operations\<close>

definition encode_input_check_password :: "PasswordSrpProof \<Rightarrow> (bytes, SrpError) result" where
  "encode_input_check_password pf =
     map_err SrpTl (written [TlU32 INPUT_CHECK_PASSWORD_SRP_CONSTRUCTOR, TlI64 (pp_srp_id pf),
       TlBytes (pp_a pf), TlBytes (pp_m1 pf)])"

definition sha256_parts :: "SrpHashes \<Rightarrow> bytes list \<Rightarrow> bytes" where
  "sha256_parts hs parts = sh_sha256 hs (concat parts)"

definition padded_256 :: "BigLibrary \<Rightarrow> nat \<Rightarrow> bytes" where
  "padded_256 lib value =
     (let bytes = bl_to_bytes_be lib value
      in replicate (256 - length bytes) 0 @ drop (length bytes - 256) bytes)"

definition residue :: "BigLibrary \<Rightarrow> nat \<Rightarrow> nat \<Rightarrow> nat" where
  "residue lib prime modulus =
     (let bytes = bl_to_bytes_be lib (prime mod modulus)
      in if bytes = [] then 0 else unat (last bytes))"

definition generator_fits :: "(nat \<Rightarrow> nat) \<Rightarrow> i32 \<Rightarrow> bool" where
  "generator_fits rm generator \<longleftrightarrow>
     generator = 2 \<and> rm 8 = 7
   \<or> generator = 3 \<and> rm 3 = 2
   \<or> generator = 4
   \<or> generator = 5 \<and> rm 5 \<in> {1, 4}
   \<or> generator = 6 \<and> rm 24 \<in> {19, 23}
   \<or> generator = 7 \<and> rm 7 \<in> {3, 5, 6}"

definition validate_prime_generator :: "BigLibrary \<Rightarrow> bytes \<Rightarrow> i32 \<Rightarrow> (unit, SrpError) result" where
  "validate_prime_generator lib prime generator =
     (case bl_hex_decode lib KNOWN_DH_PRIME_HEX of
        None \<Rightarrow> Err SrpPanic
      | Some expected \<Rightarrow>
          if prime \<noteq> expected then Err InvalidPrimeOrGenerator
          else
            let p = bl_from_bytes_be lib prime
            in if generator_fits (residue lib p) generator then Ok () else Err InvalidPrimeOrGenerator)"

definition password_hash :: "SrpHashes \<Rightarrow> bytes \<Rightarrow> bytes \<Rightarrow> bytes \<Rightarrow> bytes" where
  "password_hash hs password salt1 salt2 =
     (let first = sha256_parts hs [salt1, password, salt1];
          second = sha256_parts hs [salt2, first, salt2];
          pbkdf = sh_pbkdf2_sha512 hs second salt1 100000 64
      in sha256_parts hs [salt2, pbkdf, salt2])"

text \<open>The digest that both sides compute from the values of the exchange.\<close>

definition srp_m1 ::
  "SrpHashes \<Rightarrow> bytes \<Rightarrow> bytes \<Rightarrow> bytes \<Rightarrow> bytes \<Rightarrow> bytes \<Rightarrow> bytes \<Rightarrow> bytes \<Rightarrow> bytes"
where
  "srp_m1 hs prime generator_padded salt1 salt2 a_padded b_padded session_key =
     sha256_parts hs
       [map2 (XOR) (sha256_parts hs [prime]) (sha256_parts hs [generator_padded]),
        sha256_parts hs [salt1], sha256_parts hs [salt2], a_padded, b_padded, session_key]"

definition compute_password_srp_proof_with_random ::
  "BigLibrary \<Rightarrow> SrpHashes \<Rightarrow> string \<Rightarrow> PasswordSrpParameters \<Rightarrow> (bytes, SrpError) result \<Rightarrow> (PasswordSrpProof, SrpError) result"
where
  "compute_password_srp_proof_with_random lib hs password parameters fill_random =
     (if password = [] then Err EmptyPassword
      else
        and_then (validate_prime_generator lib (sp_prime parameters) (sp_generator parameters)) (\<lambda>_.
        if length (sp_server_b parameters) < 248 \<or> 256 < length (sp_server_b parameters) then Err InvalidServerB
        else
          let prime = bl_from_bytes_be lib (sp_prime parameters);
              server_b = bl_from_bytes_be lib (sp_server_b parameters)
          in if server_b = 0 \<or> prime \<le> server_b then Err InvalidServerB
             else
               let generator = unat (sp_generator parameters);
                   generator_padded = padded_256 lib generator;
                   server_b_padded = padded_256 lib server_b;
                   x = bl_from_bytes_be lib (password_hash hs (as_bytes password) (sp_salt1 parameters) (sp_salt2 parameters))
               in and_then fill_random (\<lambda>exponent_bytes.
                    let exponent = bl_from_bytes_be lib exponent_bytes
                    in if exponent = 0 then Err InvalidRandomExponent
                       else
                         let client_a = bl_modpow lib generator exponent prime;
                             client_a_padded = padded_256 lib client_a;
                             u = bl_from_bytes_be lib (sha256_parts hs [client_a_padded, server_b_padded]);
                             k = bl_from_bytes_be lib (sha256_parts hs [sp_prime parameters, generator_padded]);
                             verifier = bl_modpow lib generator x prime;
                             kv = k * verifier mod prime;
                             base = (server_b + prime - kv) mod prime;
                             power = exponent + u * x;
                             shared_secret = bl_modpow lib base power prime;
                             session_key = sha256_parts hs [padded_256 lib shared_secret]
                         in Ok \<lparr>pp_srp_id = sp_srp_id parameters, pp_a = client_a_padded,
                                pp_m1 = srp_m1 hs (sp_prime parameters) generator_padded (sp_salt1 parameters)
                                  (sp_salt2 parameters) client_a_padded server_b_padded session_key\<rparr>)))"

definition compute_password_srp_proof ::
  "BigLibrary \<Rightarrow> SrpHashes \<Rightarrow> string \<Rightarrow> PasswordSrpParameters \<Rightarrow> bytes option \<Rightarrow> (PasswordSrpProof, SrpError) result"
where
  "compute_password_srp_proof lib hs password parameters getrandom =
     compute_password_srp_proof_with_random lib hs password parameters
       (case getrandom of None \<Rightarrow> Err SrpRandomnessUnavailable | Some bs \<Rightarrow> Ok bs)"

section \<open>Numbers of fixed length\<close>

lemma padded_256_value:
  assumes "big_laws lib" "n < 256 ^ 256"
  shows "length (padded_256 lib n) = 256" "be_value (padded_256 lib n) = n"
proof -
  have "length (bl_to_bytes_be lib n) \<le> 256" using assms big_lawsD(3) [of lib 256 n] by simp
  then show "length (padded_256 lib n) = 256" "be_value (padded_256 lib n) = n"
    by (simp_all add: padded_256_def Let_def be_value_append big_lawsD(2) [OF assms(1)])
qed

lemma residue_value: "big_laws lib \<Longrightarrow> 0 < m \<Longrightarrow> m \<le> 256 \<Longrightarrow> residue lib p m = p mod m"
proof -
  assume laws: "big_laws lib" and m: "0 < m" "m \<le> 256"
  let ?bs = "bl_to_bytes_be lib (p mod m)"
  have "length ?bs \<le> 1" using m mod_less_divisor [OF m(1), of p] by (intro big_lawsD(3) [OF laws]) simp_all
  then have "?bs = [] \<or> (\<exists>b. ?bs = [b])" by (cases ?bs) auto
  then show "residue lib p m = p mod m"
    using big_lawsD(2) [OF laws, of "p mod m"] be_value_snoc [of "[]"] by (auto simp: residue_def Let_def)
qed

section \<open>Both sides agree\<close>

text \<open>
  What the server does, from the description of the protocol: it knows \<open>v = g ^ x mod p\<close>, has sent
  \<open>B = (k v + g ^ b) mod p\<close> and accepts the proof that it computes itself from \<open>A\<close>.
\<close>

definition server_b_value :: "nat \<Rightarrow> nat \<Rightarrow> nat \<Rightarrow> nat \<Rightarrow> nat \<Rightarrow> nat" where
  "server_b_value p g k v b = (k * v + g ^ b) mod p"

definition server_m1 :: "BigLibrary \<Rightarrow> SrpHashes \<Rightarrow> PasswordSrpParameters \<Rightarrow> nat \<Rightarrow> nat \<Rightarrow> bytes \<Rightarrow> bytes" where
  "server_m1 lib hs parameters v b a_padded =
     (let p = be_value (sp_prime parameters);
          b_padded = padded_256 lib (be_value (sp_server_b parameters));
          u = be_value (sha256_parts hs [a_padded, b_padded]);
          secret = (be_value a_padded * v ^ u) ^ b mod p
      in srp_m1 hs (sp_prime parameters) (padded_256 lib (unat (sp_generator parameters))) (sp_salt1 parameters)
           (sp_salt2 parameters) a_padded b_padded (sha256_parts hs [padded_256 lib secret]))"

lemma difference_mod: "((t + w) mod p + p - t mod p) mod p = w mod (p :: int)"
proof -
  have "((t + w) mod p + p - t mod p) mod p = ((t + w) mod p - t mod p + p) mod p"
    by (simp add: algebra_simps)
  also have "\<dots> = ((t + w) mod p - t mod p) mod p" by (rule mod_add_self2)
  also have "\<dots> = w mod p" unfolding mod_diff_eq by simp
  finally show ?thesis .
qed

lemma srp_secret_agrees:
  fixes p g a b k u x :: nat
  assumes "0 < p" and B: "B = server_b_value p g k (g ^ x mod p) b"
  shows "((B + p - k * (g ^ x mod p) mod p) mod p) ^ (a + u * x) mod p
    = ((g ^ a mod p) * (g ^ x mod p) ^ u) ^ b mod p"
proof -
  let ?kv = "k * (g ^ x mod p) mod p"
  have kv: "?kv \<le> p" using assms(1) by (simp add: less_imp_le)
  have "int ((B + p - ?kv) mod p) = (int B + int p - int ?kv) mod int p"
    using kv by (simp add: zmod_int of_nat_diff)
  also have "\<dots> = int (g ^ b) mod int p"
    unfolding B server_b_value_def zmod_int of_nat_add by (rule difference_mod)
  also have "\<dots> = int (g ^ b mod p)" by (simp add: zmod_int)
  finally have base: "(B + p - ?kv) mod p = g ^ b mod p" by (simp only: of_nat_eq_iff)
  have "((B + p - ?kv) mod p) ^ (a + u * x) mod p = (g ^ b) ^ (a + u * x) mod p"
    unfolding base by (rule power_mod)
  also have "(g ^ b) ^ (a + u * x) = (g ^ a * (g ^ x) ^ u) ^ b"
    by (simp add: algebra_simps flip: power_mult power_add)
  also have "(g ^ a * (g ^ x) ^ u) ^ b mod p = ((g ^ a mod p) * (g ^ x mod p) ^ u) ^ b mod p"
  proof -
    have "(g ^ a mod p) * (g ^ x mod p) ^ u mod p = g ^ a * (g ^ x) ^ u mod p"
      by (rule mod_mult_cong [OF mod_mod_trivial power_mod])
    then have "((g ^ a mod p) * (g ^ x mod p) ^ u mod p) ^ b mod p = (g ^ a * (g ^ x) ^ u mod p) ^ b mod p"
      by (simp only:)
    then show ?thesis by (simp only: power_mod)
  qed
  finally show ?thesis .
qed

text \<open>
  C29: the right password is accepted. When the prime and the generator pass the check, the value of the
  server is the one the protocol prescribes for the verifier of this password, and the random source
  gives a number other than zero, then the client computes a proof, and it carries the digest that
  the server computes from its own secret.
\<close>

theorem srp_proof_accepted:
  assumes laws: "big_laws lib"
    and password: "password \<noteq> []"
    and good: "validate_prime_generator lib (sp_prime parameters) (sp_generator parameters) = Ok ()"
    and len: "248 \<le> length (sp_server_b parameters)" "length (sp_server_b parameters) \<le> 256"
    and v: "v = unat (sp_generator parameters)
        ^ be_value (password_hash hs (as_bytes password) (sp_salt1 parameters) (sp_salt2 parameters)) mod be_value (sp_prime parameters)"
    and B: "be_value (sp_server_b parameters)
        = server_b_value (be_value (sp_prime parameters)) (unat (sp_generator parameters))
            (be_value (sha256_parts hs [sp_prime parameters, padded_256 lib (unat (sp_generator parameters))])) v b"
    and B0: "be_value (sp_server_b parameters) \<noteq> 0" and random: "be_value exponent_bytes \<noteq> 0"
  shows "\<exists>pf. compute_password_srp_proof lib hs password parameters (Some exponent_bytes) = Ok pf
    \<and> pp_srp_id pf = sp_srp_id parameters \<and> length (pp_a pf) = 256
    \<and> pp_m1 pf = server_m1 lib hs parameters v b (pp_a pf)"
proof -
  let ?p = "be_value (sp_prime parameters)" and ?g = "unat (sp_generator parameters)"
  from good have prime: "sp_prime parameters = known_prime_bytes"
    by (simp add: validate_prime_generator_def known_prime_decodes [OF laws] split: if_splits)
  have p: "0 < ?p" "?p < 256 ^ 256"
    using known_prime_large be_value_less [of known_prime_bytes] unfolding prime
    by (auto intro: order.strict_trans2 [of 0 "2 ^ 2047"])
  have "be_value (sp_server_b parameters) < ?p" using p(1) B by (simp add: server_b_value_def)
  note pads = padded_256_value [OF laws, OF order.strict_trans [OF mod_less_divisor [OF p(1)] p(2)]]
  show ?thesis
    using password good len B0 random \<open>be_value (sp_server_b parameters) < ?p\<close>
    by (simp add: compute_password_srp_proof_def compute_password_srp_proof_with_random_def big_lawsD(1,5) [OF laws] p(1)
        Let_def server_m1_def pads srp_secret_agrees [OF p(1) B [unfolded v]] v)
qed

section \<open>Witness\<close>

definition zero_hashes :: SrpHashes where
  "zero_hashes = \<lparr>sh_sha256 = (\<lambda>_. replicate 32 0), sh_pbkdf2_sha512 = (\<lambda>_ _ _ n. replicate n 0)\<rparr>"

definition demo_srp :: PasswordSrpParameters where
  "demo_srp =
     \<lparr>sp_srp_id = 9, sp_salt1 = [1], sp_salt2 = [2], sp_generator = 4, sp_prime = known_prime_bytes,
      sp_server_b = replicate 255 0 @ [4]\<rparr>"

theorem srp_proof_accepted_witness:
  "\<exists>pf. compute_password_srp_proof plain_big zero_hashes ''pw'' demo_srp (Some [1]) = Ok pf
     \<and> pp_srp_id pf = 9 \<and> pp_m1 pf = server_m1 plain_big zero_hashes demo_srp 1 1 (pp_a pf)"
proof -
  have p: "4 < be_value known_prime_bytes"
    by (rule order.strict_trans2 [OF _ known_prime_large]) (rule order.strict_trans2 [of _ "2 ^ 3"], simp, rule power_increasing, simp_all)
  have "validate_prime_generator plain_big (sp_prime demo_srp) (sp_generator demo_srp) = Ok ()"
    by (simp add: validate_prime_generator_def known_prime_decodes [OF plain_big_laws] demo_srp_def generator_fits_def Let_def)
  moreover have b: "be_value (sp_server_b demo_srp) = 4"
    by (simp add: demo_srp_def be_value_append be_value_def [of "[4]"])
  moreover have "sha256_parts zero_hashes parts = replicate 32 0" for parts
    by (simp add: sha256_parts_def zero_hashes_def)
  ultimately have "\<exists>pf. compute_password_srp_proof plain_big zero_hashes ''pw'' demo_srp (Some [1]) = Ok pf
      \<and> pp_srp_id pf = sp_srp_id demo_srp \<and> length (pp_a pf) = 256
      \<and> pp_m1 pf = server_m1 plain_big zero_hashes demo_srp 1 1 (pp_a pf)"
    using p by (intro srp_proof_accepted [OF plain_big_laws])
      (simp_all add: password_hash_def Let_def server_b_value_def, simp_all add: demo_srp_def be_value_def [of "[1]"])
  then show ?thesis by (auto simp: demo_srp_def)
qed

end
