(* ===== verification/Pq_Factoring.thy ===== *)
theory Pq_Factoring
  imports Complex_Main Big_Numbers
begin

text \<open>
  The arithmetic on 64 bits with which the key exchange (\<open>handshake.rs\<close>) splits the number of the server
  into two primes: the greatest common divisor, powers, the test of Miller and Rabin with fixed bases
  and the walk of Pollard. Products are formed in 128 bits and so never wrap. The test is proved to
  accept every prime, and the walk to return a proper divisor.
\<close>

section \<open>Operations\<close>

definition u64_mod :: "u64 \<Rightarrow> u64 \<Rightarrow> u64" where
  "u64_mod a b = of_nat (unat a mod unat b)"

definition is_multiple_of :: "u64 \<Rightarrow> u64 \<Rightarrow> bool" where
  "is_multiple_of a b \<longleftrightarrow> (if b = 0 then a = 0 else unat a mod unat b = 0)"

lemma unat_u64_mod [simp]: "unat (u64_mod a b) = unat a mod unat b"
  using unsigned_less [of a, where ?'a = nat]
  by (simp add: u64_mod_def unat_of_nat order.strict_trans1 [OF mod_less_eq_dividend])

function greatest_common_divisor :: "u64 \<Rightarrow> u64 \<Rightarrow> u64" where
  "greatest_common_divisor a b = (if b = 0 then a else greatest_common_divisor b (u64_mod a b))"
  by pat_completeness auto
termination by (relation "measure (\<lambda>(a, b). unat b)") (auto simp: unat_gt_0)

definition multiply_mod :: "u64 \<Rightarrow> u64 \<Rightarrow> u64 \<Rightarrow> u64" where
  "multiply_mod a b modulus = of_nat (unat a * unat b mod unat modulus)"

definition rho_step :: "u64 \<Rightarrow> u64 \<Rightarrow> u64 \<Rightarrow> u64" where
  "rho_step value constant modulus =
     of_nat ((unat (multiply_mod value value modulus) + unat constant) mod unat modulus)"

function power_mod_loop :: "u64 \<Rightarrow> u64 \<Rightarrow> u64 \<Rightarrow> u64 \<Rightarrow> u64" where
  "power_mod_loop result base exponent modulus =
     (if exponent = 0 then result
      else
        power_mod_loop (if exponent AND 1 = 1 then multiply_mod result base modulus else result)
          (multiply_mod base base modulus) (drop_bit 1 exponent) modulus)"
  by pat_completeness auto
termination
  by (relation "measure (\<lambda>(result, base, exponent, modulus). unat exponent)")
    (auto simp: drop_bit_eq_div unat_div unat_gt_0)

definition power_mod_u64 :: "u64 \<Rightarrow> u64 \<Rightarrow> u64 \<Rightarrow> u64" where
  "power_mod_u64 base exponent modulus = power_mod_loop 1 (u64_mod base modulus) exponent modulus"

declare greatest_common_divisor.simps [simp del] power_mod_loop.simps [simp del]

text \<open>The number of zeros below the lowest bit that is set, 64 for zero.\<close>

primrec trailing_zeros_upto :: "nat \<Rightarrow> u64 \<Rightarrow> nat" where
  "trailing_zeros_upto 0 w = 0"
| "trailing_zeros_upto (Suc n) w = (if bit w 0 then 0 else Suc (trailing_zeros_upto n (drop_bit 1 w)))"

definition trailing_zeros :: "u64 \<Rightarrow> nat" where
  "trailing_zeros w = trailing_zeros_upto 64 w"

definition small_primes :: "u64 list" where
  "small_primes = [2, 3, 5, 7, 11, 13, 17, 19, 23, 29, 31, 37]"

definition miller_rabin_bases :: "u64 list" where
  "miller_rabin_bases = [2, 325, 9375, 28178, 450775, 9780504, 1795265022]"

text \<open>The first loop decides, or leaves the decision to the second.\<close>

fun small_prime_check :: "u64 list \<Rightarrow> u64 \<Rightarrow> bool option" where
  "small_prime_check [] value = None"
| "small_prime_check (prime # primes) value =
     (if value = prime then Some True
      else if is_multiple_of value prime then Some False
      else small_prime_check primes value)"

text \<open>The squarings of the inner loop: whether one of them is \<open>value - 1\<close>.\<close>

fun squares_reach :: "nat \<Rightarrow> u64 \<Rightarrow> u64 \<Rightarrow> bool" where
  "squares_reach 0 witness value = False"
| "squares_reach (Suc n) witness value =
     (let witness = multiply_mod witness witness value
      in witness = value - 1 \<or> squares_reach n witness value)"

definition base_passes :: "u64 \<Rightarrow> u64 \<Rightarrow> nat \<Rightarrow> u64 \<Rightarrow> bool" where
  "base_passes value odd_part powers_of_two base \<longleftrightarrow>
     u64_mod base value = 0
   \<or> (let witness = power_mod_u64 base odd_part value
      in witness = 1 \<or> witness = value - 1 \<or> squares_reach (powers_of_two - 1) witness value)"

definition is_prime :: "u64 \<Rightarrow> bool" where
  "is_prime value =
     (if value < 2 then False
      else
        (case small_prime_check small_primes value of
           Some answer \<Rightarrow> answer
         | None \<Rightarrow>
             let odd_part = value - 1;
                 powers_of_two = trailing_zeros odd_part;
                 odd_part = drop_bit powers_of_two odd_part
             in list_all (base_passes value odd_part powers_of_two) miller_rabin_bases))"

definition abs_diff :: "u64 \<Rightarrow> u64 \<Rightarrow> u64" where
  "abs_diff x y = (if x < y then y - x else x - y)"

text \<open>One walk with its constant: a divisor, or nothing after the last step or on a full cycle.\<close>

fun rho_walk :: "nat \<Rightarrow> u64 \<Rightarrow> u64 \<Rightarrow> u64 \<Rightarrow> u64 \<Rightarrow> u64 option" where
  "rho_walk 0 x y constant value = None"
| "rho_walk (Suc n) x y constant value =
     (let x = rho_step x constant value;
          y = rho_step y constant value;
          y = rho_step y constant value;
          divisor = greatest_common_divisor (abs_diff x y) value
      in if divisor = 1 then rho_walk n x y constant value
         else if divisor \<noteq> value then Some divisor
         else None)"

fun rho_constants :: "u64 list \<Rightarrow> u64 \<Rightarrow> u64 option" where
  "rho_constants [] value = None"
| "rho_constants (constant # constants) value =
     (case rho_walk 1000000 2 2 constant value of
        Some divisor \<Rightarrow> Some divisor
      | None \<Rightarrow> rho_constants constants value)"

definition pollard_rho_factor :: "u64 \<Rightarrow> u64 option" where
  "pollard_rho_factor value =
     (if is_multiple_of value 2 then Some 2
      else if is_multiple_of value 3 then Some 3
      else rho_constants (map of_nat [1..<129]) value)"

section \<open>Divisors and powers\<close>

lemma unat_u64: "unat (w :: u64) < 2 ^ 64"
  using unsigned_less [of w, where ?'a = nat] by simp

lemma unat_of_nat_mod: "0 < unat m \<Longrightarrow> unat (of_nat (k mod unat m) :: u64) = k mod unat (m :: u64)"
  using order.strict_trans [OF mod_less_divisor unat_u64] by (simp add: unat_of_nat)

lemma greatest_common_divisor_gcd: "unat (greatest_common_divisor a b) = gcd (unat a) (unat b)"
proof (induction a b rule: greatest_common_divisor.induct)
  case (1 a b)
  show ?case
  proof (cases "b = 0")
    case False
    then show ?thesis
      using 1 by (simp add: greatest_common_divisor.simps [of a b] gcd_red_nat [of "unat a"])
  qed (simp add: greatest_common_divisor.simps)
qed

lemma multiply_mod_value: "0 < unat m \<Longrightarrow> unat (multiply_mod a b m) = unat a * unat b mod unat m"
  by (simp add: multiply_mod_def unat_of_nat_mod)

lemma odd_unat: "odd (w :: u64) \<longleftrightarrow> odd (unat w)"
  using bit_unsigned_iff [of w 0, where ?'a = nat] by (simp add: bit_0)

lemma power_mod_loop_value:
  assumes "0 < unat m"
  shows "unat (power_mod_loop r b e m) mod unat m = unat r * unat b ^ unat e mod unat m"
  using assms
proof (induction r b e m rule: power_mod_loop.induct)
  case (1 r b e m)
  let ?b2 = "multiply_mod b b m" and ?r = "if e AND 1 = 1 then multiply_mod r b m else r"
  show ?case
  proof (cases "e = 0")
    case False
    have half: "unat (drop_bit (Suc 0) e) = unat e div 2" by (simp add: drop_bit_eq_div unat_div)
    have odd_iff: "e AND 1 = 1 \<longleftrightarrow> odd (unat e)"
      by (simp add: and_one_eq mod_2_eq_odd odd_unat)
    have b2: "unat ?b2 ^ (unat e div 2) mod unat m = unat b ^ (2 * (unat e div 2)) mod unat m"
      using 1(2) by (simp add: multiply_mod_value power_mod power_mult power2_eq_square)
    have "unat (power_mod_loop r b e m) mod unat m = unat ?r * unat ?b2 ^ (unat e div 2) mod unat m"
      using "1.IH" [OF False 1(2)] False by (simp add: power_mod_loop.simps [of r b e m] half)
    also have "\<dots> = unat ?r * unat b ^ (2 * (unat e div 2)) mod unat m"
      by (rule mod_mult_cong [OF refl b2])
    also have "\<dots> = unat r * unat b ^ unat e mod unat m"
    proof (cases "odd (unat e)")
      case True
      then have e: "unat e = Suc (2 * (unat e div 2))" by simp
      have "unat ?r mod unat m = unat r * unat b mod unat m"
        using True odd_iff 1(2) by (simp add: multiply_mod_value)
      then have "unat ?r * unat b ^ (2 * (unat e div 2)) mod unat m = (unat r * unat b) * unat b ^ (2 * (unat e div 2)) mod unat m"
        by (rule mod_mult_cong) simp
      also have "\<dots> = unat r * unat b ^ unat e mod unat m" by (subst (2) e) (simp add: ac_simps)
      finally show ?thesis .
    next
      case even: False
      then show ?thesis using odd_iff by simp
    qed
    finally show ?thesis .
  qed (simp add: power_mod_loop.simps)
qed

lemma power_mod_loop_less:
  "0 < unat m \<Longrightarrow> unat r < unat m \<Longrightarrow> unat (power_mod_loop r b e m) < unat m"
proof (induction r b e m rule: power_mod_loop.induct)
  case (1 r b e m)
  then show ?case by (auto simp: power_mod_loop.simps [of r b e m] multiply_mod_value)
qed

text \<open>The powers by repeated squaring are the powers.\<close>

lemma power_mod_u64_value: "1 < unat m \<Longrightarrow> unat (power_mod_u64 b e m) = unat b ^ unat e mod unat m"
  using power_mod_loop_value [of m 1 "u64_mod b m" e] power_mod_loop_less [of m 1 "u64_mod b m" e]
  by (simp add: power_mod_u64_def power_mod)

lemma is_multiple_of_dvd: "b \<noteq> 0 \<Longrightarrow> is_multiple_of a b \<longleftrightarrow> unat b dvd unat a"
  by (simp add: is_multiple_of_def dvd_eq_mod_eq_0)

section \<open>Primes\<close>

definition prime_number :: "nat \<Rightarrow> bool" where
  "prime_number p \<longleftrightarrow> 1 < p \<and> (\<forall>d. d dvd p \<longrightarrow> d = 1 \<or> d = p)"

lemma prime_coprime: "prime_number p \<Longrightarrow> \<not> p dvd a \<Longrightarrow> coprime p a"
  unfolding prime_number_def coprime_iff_gcd_eq_1 by (metis gcd_dvd1 gcd_dvd2)

lemma prime_dvd_mult: "prime_number p \<Longrightarrow> p dvd a * b \<Longrightarrow> p dvd a \<or> p dvd b"
  using coprime_dvd_mult_right_iff prime_coprime by blast

lemma prime_dvd_binomial:
  assumes "prime_number p" "0 < k" "k < p"
  shows "p dvd (p choose k)"
proof -
  have "k * (p choose k) = p * ((p - 1) choose (k - 1))" using assms(2) by (rule times_binomial_minus1_eq)
  then have "p dvd k * (p choose k)" by simp
  moreover have "\<not> p dvd k" using assms(2,3) by (auto dest: dvd_imp_le)
  ultimately show ?thesis using prime_dvd_mult [OF assms(1)] by blast
qed

lemma fermat_all:
  assumes "prime_number p"
  shows "a ^ p mod p = a mod p"
proof (induction a)
  case 0
  have "0 < p" using assms by (auto simp: prime_number_def)
  then show ?case by (simp add: zero_power)
next
  case (Suc a)
  have p: "1 < p" using assms by (simp add: prime_number_def)
  have "(a + 1) ^ p = (\<Sum>k\<le>p. (p choose k) * a ^ k)" using binomial_ring [of a 1 p] by simp
  also have "\<dots> = (\<Sum>k<p. (p choose k) * a ^ k) + a ^ p" by (simp add: lessThan_Suc_atMost [symmetric])
  also have "(\<Sum>k<p. (p choose k) * a ^ k) = (\<Sum>k\<in>{0<..<p}. (p choose k) * a ^ k) + 1"
  proof -
    have "{..<p} = insert 0 {0<..<p}" using p by auto
    then show ?thesis by simp
  qed
  finally have sum: "(a + 1) ^ p = (\<Sum>k\<in>{0<..<p}. (p choose k) * a ^ k) + 1 + a ^ p" .
  have "p dvd (\<Sum>k\<in>{0<..<p}. (p choose k) * a ^ k)"
    by (rule dvd_sum) (simp add: prime_dvd_binomial [OF assms])
  then have "(a + 1) ^ p mod p = (1 + a ^ p) mod p" unfolding sum
    by (metis add.assoc dvd_eq_mod_eq_0 mod_add_left_eq add_0)
  also have "\<dots> = (1 + a) mod p" using Suc by (metis mod_add_right_eq)
  finally show ?case by simp
qed

lemma prime_cancel:
  fixes a b c p :: nat
  assumes "prime_number p" "\<not> p dvd c" "c * a mod p = c * b mod p"
  shows "a mod p = b mod p"
proof -
  have "int p dvd int c * (int a - int b)"
    using assms(3) by (metis mod_eq_dvd_iff of_nat_mult right_diff_distrib zmod_int)
  moreover have "coprime (int p) (int c)" using prime_coprime [OF assms(1,2)] by simp
  ultimately have "int p dvd int a - int b" by (simp add: coprime_dvd_mult_right_iff)
  then have "int a mod int p = int b mod int p" by (simp add: mod_eq_dvd_iff)
  then show ?thesis by (simp only: flip: zmod_int)
qed

lemma fermat:
  assumes "prime_number p" "\<not> p dvd a"
  shows "a ^ (p - 1) mod p = 1"
proof -
  have p: "1 < p" using assms by (simp add: prime_number_def)
  then have "a * a ^ (p - 1) mod p = a * 1 mod p"
    using fermat_all [OF assms(1), of a] by (simp add: power_eq_if [of a p])
  from prime_cancel [OF assms this] p show ?thesis by simp
qed

lemma square_root_of_one:
  assumes "prime_number p" "y * y mod p = 1" "y < p"
  shows "y = 1 \<or> y = p - 1"
proof -
  have p: "1 < p" using assms by (simp add: prime_number_def)
  have y: "0 < y" using assms(2) by (cases y) auto
  have "(y - 1) * (y + 1) + 1 = y * y" using y by (cases y) (auto simp: algebra_simps)
  then have "p dvd (y - 1) * (y + 1)"
    using assms(2) p by (metis add_diff_cancel_right' dvd_minus_mod)
  then have "p dvd y - 1 \<or> p dvd y + 1" by (rule prime_dvd_mult [OF assms(1)])
  then show ?thesis using y assms(3) by (auto dest!: dvd_imp_le)
qed

section \<open>The test accepts every prime\<close>

lemma trailing_zeros_upto_split:
  assumes "w \<noteq> 0" "unat w < 2 ^ n"
  shows "unat w = 2 ^ trailing_zeros_upto n w * unat (drop_bit (trailing_zeros_upto n w) w)
    \<and> odd (unat (drop_bit (trailing_zeros_upto n w) w))"
  using assms
proof (induction n arbitrary: w)
  case 0
  then show ?case by (auto simp: word_unat_eq_iff)
next
  case (Suc n)
  show ?case
  proof (cases "bit w 0")
    case True
    then show ?thesis by (simp add: bit_0 odd_unat)
  next
    case False
    then have even: "even (unat w)" by (simp add: bit_0 odd_unat)
    have half: "unat (drop_bit 1 w) = unat w div 2" by (simp add: drop_bit_eq_div unat_div)
    with even Suc.prems have "drop_bit 1 w \<noteq> 0" "unat (drop_bit 1 w) < 2 ^ n"
      by (auto simp: word_unat_eq_iff elim!: evenE)
    from Suc.IH [OF this] have "unat w div 2 = 2 ^ trailing_zeros_upto n (drop_bit 1 w) * unat (drop_bit (trailing_zeros_upto n (drop_bit 1 w)) (drop_bit 1 w))"
      and odd: "odd (unat (drop_bit (trailing_zeros_upto n (drop_bit 1 w)) (drop_bit 1 w)))"
      unfolding half by blast+
    then show ?thesis using False even by (auto elim!: evenE simp: drop_bit_drop_bit)
  qed
qed

lemma trailing_zeros_split:
  "w \<noteq> 0 \<Longrightarrow> unat w = 2 ^ trailing_zeros w * unat (drop_bit (trailing_zeros w) w)"
  using trailing_zeros_upto_split [of w 64] unat_u64 [of w] by (simp add: trailing_zeros_def)

lemma squares_reach_iff:
  assumes "1 < unat p" "unat w = x mod unat p"
  shows "squares_reach n w p \<longleftrightarrow> (\<exists>i. 0 < i \<and> i \<le> n \<and> x ^ (2 ^ i) mod unat p = unat p - 1)"
  using assms(2)
proof (induction n arbitrary: w x)
  case 0
  then show ?case by auto
next
  case (Suc n)
  have one: "unat (p - 1) = unat p - 1" using assms(1) by (simp add: unat_sub_if_size word_le_nat_alt)
  have sq: "unat (multiply_mod w w p) = x ^ 2 mod unat p"
    using assms(1) Suc.prems by (simp add: multiply_mod_value power2_eq_square mod_mult_eq)
  from Suc.IH [OF this] have "squares_reach (Suc n) w p \<longleftrightarrow>
      x ^ 2 mod unat p = unat p - 1 \<or> (\<exists>i. 0 < i \<and> i \<le> n \<and> (x ^ 2) ^ (2 ^ i) mod unat p = unat p - 1)"
    by (simp add: Let_def word_unat_eq_iff sq one)
  also have "\<dots> \<longleftrightarrow> (\<exists>i. 0 < i \<and> i \<le> Suc n \<and> x ^ (2 ^ i) mod unat p = unat p - 1)" (is "?l \<longleftrightarrow> ?r")
  proof
    show "?l \<Longrightarrow> ?r"
    proof (elim disjE exE conjE)
      assume "x ^ 2 mod unat p = unat p - 1"
      then show ?r by (intro exI [of _ 1]) simp
    next
      fix i assume "0 < i" "i \<le> n" "(x ^ 2) ^ (2 ^ i) mod unat p = unat p - 1"
      then show ?r by (intro exI [of _ "Suc i"]) (simp add: power_mult)
    qed
    show "?r \<Longrightarrow> ?l"
    proof (elim exE conjE)
      fix i assume i: "0 < i" "i \<le> Suc n" "x ^ (2 ^ i) mod unat p = unat p - 1"
      then obtain j where j: "i = Suc j" by (cases i) auto
      show ?l
      proof (cases j)
        case 0
        then show ?thesis using i j by simp
      next
        case (Suc k)
        then show ?thesis using i j by (intro disjI2 exI [of _ j]) (simp add: power_mult)
      qed
    qed
  qed
  finally show ?case .
qed

lemma base_passes_prime:
  assumes prime: "prime_number (unat p)" and split: "unat p - 1 = 2 ^ s * unat d"
  shows "base_passes p d s b"
proof (cases "u64_mod b p = 0")
  case False
  let ?p = "unat p" and ?x = "unat b ^ unat d"
  have p: "1 < ?p" using prime by (simp add: prime_number_def)
  have nd: "\<not> ?p dvd unat b" using False by (auto simp: word_unat_eq_iff dvd_eq_mod_eq_0)
  have w: "unat (power_mod_u64 b d p) = ?x mod ?p" by (rule power_mod_u64_value [OF p])
  have one: "unat (p - 1) = ?p - 1" using p by (simp add: unat_sub_if_size word_le_nat_alt)
  have last: "?x ^ (2 ^ s) mod ?p = 1"
    using fermat [OF prime nd] unfolding split by (simp only: mult.commute [of "2 ^ s"] power_mult)
  define i where "i = (LEAST i. ?x ^ (2 ^ i) mod ?p = 1)"
  have i: "?x ^ (2 ^ i) mod ?p = 1" "i \<le> s"
    unfolding i_def using last by (auto intro: LeastI Least_le)
  show ?thesis
  proof (cases i)
    case 0
    then have "?x mod ?p = 1" using i(1) by simp
    then show ?thesis using w by (simp add: base_passes_def word_unat_eq_iff)
  next
    case (Suc j)
    let ?y = "?x ^ (2 ^ j) mod ?p"
    have "?y \<noteq> 1" using not_less_Least [of j "\<lambda>i. ?x ^ (2 ^ i) mod ?p = 1"] Suc by (simp add: i_def)
    moreover have "?y * ?y mod ?p = 1"
      using i(1) Suc by (simp add: mod_mult_eq power_add [symmetric] mult_2 [symmetric])
    ultimately have y: "?y = ?p - 1"
      using square_root_of_one [OF prime, of ?y] p by simp
    show ?thesis
    proof (cases j)
      case 0
      then show ?thesis using y w one by (simp add: base_passes_def word_unat_eq_iff)
    next
      case (Suc k)
      then have "squares_reach (s - 1) (power_mod_u64 b d p) p"
        unfolding squares_reach_iff [OF p w] using y i(2) \<open>i = Suc j\<close> by (intro exI [of _ j]) simp
      then show ?thesis by (simp add: base_passes_def)
    qed
  qed
qed (simp add: base_passes_def)

lemma small_prime_check_prime:
  "prime_number (unat v) \<Longrightarrow> \<forall>q \<in> set qs. 1 < unat q \<Longrightarrow> small_prime_check qs v \<noteq> Some False"
proof (induction qs)
  case Nil
  then show ?case by simp
next
  case (Cons q qs)
  have "v = q" if "is_multiple_of v q"
  proof -
    have "q \<noteq> 0" using Cons.prems(2) by auto
    then have "unat q dvd unat v" using that by (simp add: is_multiple_of_dvd)
    then show ?thesis using Cons.prems by (auto simp: prime_number_def word_unat_eq_iff)
  qed
  then show ?case using Cons by auto
qed

theorem is_prime_accepts_primes:
  assumes "prime_number (unat v)"
  shows "is_prime v"
proof -
  have v: "1 < unat v" using assms by (simp add: prime_number_def)
  have one: "unat (v - 1) = unat v - 1" using v by (simp add: unat_sub_if_size word_le_nat_alt)
  have "v - 1 \<noteq> 0" using v by (simp add: word_unat_eq_iff one)
  from trailing_zeros_split [OF this]
  have split: "unat v - 1 = 2 ^ trailing_zeros (v - 1) * unat (drop_bit (trailing_zeros (v - 1)) (v - 1))"
    by (simp only: one)
  have "small_prime_check small_primes v \<noteq> Some False"
    by (rule small_prime_check_prime [OF assms]) (simp add: small_primes_def)
  then show ?thesis
    using v base_passes_prime [OF assms split]
    by (auto simp: is_prime_def Let_def list_all_iff word_less_nat_alt split: option.split)
qed

section \<open>The walk finds a divisor\<close>

lemma rho_walk_divisor:
  "rho_walk n x y c v = Some d \<Longrightarrow> unat d dvd unat v \<and> d \<noteq> 1 \<and> d \<noteq> v"
proof (induction n arbitrary: x y)
  case (Suc n)
  then show ?case
    by (auto simp: Let_def greatest_common_divisor_gcd split: if_splits)
qed simp

lemma rho_constants_divisor:
  "rho_constants cs v = Some d \<Longrightarrow> unat d dvd unat v \<and> d \<noteq> 1 \<and> d \<noteq> v"
  by (induction cs) (auto split: option.splits dest: rho_walk_divisor simp del: rho_walk.simps)

lemma pollard_rho_divisor:
  assumes "pollard_rho_factor v = Some d" "4 \<le> unat v"
  shows "unat d dvd unat v" "1 < unat d" "unat d < unat v"
proof -
  have d: "unat d dvd unat v \<and> d \<noteq> 1 \<and> d \<noteq> v"
    using assms rho_constants_divisor [of "map of_nat [1..<129]" v d]
    by (auto simp: pollard_rho_factor_def is_multiple_of_dvd split: if_splits)
  then have "unat d \<noteq> 0" "unat d \<noteq> 1" "unat d \<noteq> unat v" "unat d \<le> unat v"
    using assms(2) by (auto simp: word_unat_eq_iff intro!: dvd_imp_le)
  with d show "unat d dvd unat v" "1 < unat d" "unat d < unat v" by auto
qed

end
