(* ===== verification/Mtproto_Crypto.thy ===== *)
theory Mtproto_Crypto
  imports Bytes
begin

text \<open>
  Encrypted messages of \<open>telegram-protocol/src/crypto.rs\<close>: the layout of the plaintext, the message
  key, the derivation of keys, the IGE mode and the checks of a received message. Hash functions and
  the block cipher come from other crates and are the parameter \<open>MtprotoPrimitives\<close>; what the code
  relies on is the hypothesis \<open>primitive_laws\<close>. Zeroing of keys in memory has no state here.
\<close>

definition AUTH_KEY_LENGTH :: nat where
  "AUTH_KEY_LENGTH = 256"

definition AES_BLOCK_LENGTH :: nat where
  "AES_BLOCK_LENGTH = 16"

definition MIN_PADDING_LENGTH :: nat where
  "MIN_PADDING_LENGTH = 12"

definition MAX_PADDING_LENGTH :: nat where
  "MAX_PADDING_LENGTH = 1024"

definition INTERNAL_HEADER_LENGTH :: nat where
  "INTERNAL_HEADER_LENGTH = 32"

lemmas crypto_lengths = AUTH_KEY_LENGTH_def AES_BLOCK_LENGTH_def MIN_PADDING_LENGTH_def
  MAX_PADDING_LENGTH_def INTERNAL_HEADER_LENGTH_def

record MtprotoPrimitives =
  mp_sha1 :: "bytes \<Rightarrow> bytes"
  mp_sha256 :: "bytes \<Rightarrow> bytes"
  mp_encrypt_block :: "bytes \<Rightarrow> bytes \<Rightarrow> bytes"
  mp_decrypt_block :: "bytes \<Rightarrow> bytes \<Rightarrow> bytes"

datatype CryptoError =
    InvalidAuthKeyLength nat
  | InvalidEnvelope
  | InvalidPlaintext
  | AuthenticationFailed
  | SessionMismatch
  | InvalidMessageId

section \<open>Keys\<close>

datatype AuthKey = AuthKey (auth_key_bytes: bytes)

definition AuthKey_from_slice :: "bytes \<Rightarrow> (AuthKey, CryptoError) result" where
  "AuthKey_from_slice value =
     (if length value = AUTH_KEY_LENGTH then Ok (AuthKey value) else Err (InvalidAuthKeyLength (length value)))"

definition AuthKey_id :: "MtprotoPrimitives \<Rightarrow> AuthKey \<Rightarrow> u64" where
  "AuthKey_id pr key = from_le (take 8 (drop 12 (mp_sha1 pr (auth_key_bytes key))))"

datatype CryptoDirection = ClientToServer | ServerToClient

primrec direction_x :: "CryptoDirection \<Rightarrow> nat" where
  "direction_x ClientToServer = 0"
| "direction_x ServerToClient = 8"

text \<open>\<open>xs[a..b]\<close> of a slice that is long enough.\<close>

definition sub_range :: "bytes \<Rightarrow> nat \<Rightarrow> nat \<Rightarrow> bytes" where
  "sub_range xs a b = take (b - a) (drop a xs)"

definition derive_aes_key_iv ::
  "MtprotoPrimitives \<Rightarrow> AuthKey \<Rightarrow> bytes \<Rightarrow> CryptoDirection \<Rightarrow> bytes \<times> bytes"
where
  "derive_aes_key_iv pr key message_key direction =
     (let x = direction_x direction;
          sha256_a = mp_sha256 pr (message_key @ sub_range (auth_key_bytes key) x (x + 36));
          sha256_b = mp_sha256 pr (sub_range (auth_key_bytes key) (40 + x) (76 + x) @ message_key)
      in (sub_range sha256_a 0 8 @ sub_range sha256_b 8 24 @ sub_range sha256_a 24 32,
          sub_range sha256_b 0 8 @ sub_range sha256_a 8 24 @ sub_range sha256_b 24 32))"

definition compute_message_key_large :: "MtprotoPrimitives \<Rightarrow> AuthKey \<Rightarrow> CryptoDirection \<Rightarrow> bytes \<Rightarrow> bytes" where
  "compute_message_key_large pr key direction plaintext =
     (let x = direction_x direction
      in mp_sha256 pr (sub_range (auth_key_bytes key) (88 + x) (120 + x) @ plaintext))"

definition compute_message_key :: "MtprotoPrimitives \<Rightarrow> AuthKey \<Rightarrow> CryptoDirection \<Rightarrow> bytes \<Rightarrow> bytes" where
  "compute_message_key pr key direction plaintext =
     sub_range (compute_message_key_large pr key direction plaintext) 8 24"

section \<open>Plaintext\<close>

record PlainMessage =
  pm_server_salt :: i64
  pm_session_id :: i64
  pm_message_id :: i64
  pm_sequence_number :: i32
  pm_body :: bytes
  pm_padding :: bytes

definition message_id_for :: "CryptoDirection \<Rightarrow> i64 \<Rightarrow> bool" where
  "message_id_for direction message_id =
     (case direction of
        ClientToServer \<Rightarrow> sint message_id mod 4 = 0
      | ServerToClient \<Rightarrow> sint message_id mod 2 = 1)"

definition validate_plain_message ::
  "PlainMessage \<Rightarrow> CryptoDirection option \<Rightarrow> i64 option \<Rightarrow> (unit, CryptoError) result"
where
  "validate_plain_message m direction expected_session_id =
     (if pm_body m = [] \<or> length (pm_body m) mod 4 \<noteq> 0
        \<or> length (pm_padding m) < MIN_PADDING_LENGTH \<or> MAX_PADDING_LENGTH < length (pm_padding m)
        \<or> (INTERNAL_HEADER_LENGTH + length (pm_body m) + length (pm_padding m)) mod AES_BLOCK_LENGTH \<noteq> 0
      then Err InvalidPlaintext
      else if \<exists>expected \<in> set_option expected_session_id. pm_session_id m \<noteq> expected then Err SessionMismatch
      else if \<exists>d \<in> set_option direction. \<not> message_id_for d (pm_message_id m) then Err InvalidMessageId
      else Ok ())"

definition encode_plain_message :: "PlainMessage \<Rightarrow> (bytes, CryptoError) result" where
  "encode_plain_message m =
     and_then (validate_plain_message m None None) (\<lambda>_.
     if 2 ^ 31 \<le> length (pm_body m) then Err InvalidPlaintext
     else Ok (to_le_u64 (pm_server_salt m) @ to_le_u64 (pm_session_id m) @ to_le_u64 (pm_message_id m)
       @ to_le_u32 (pm_sequence_number m) @ to_le_u32 (of_nat (length (pm_body m)))
       @ pm_body m @ pm_padding m))"

definition crypto_read_i64 :: "bytes \<Rightarrow> nat \<Rightarrow> (i64, CryptoError) result" where
  "crypto_read_i64 value offset = and_then (ok_or InvalidPlaintext (get_range value offset (offset + 8))) (\<lambda>bs. Ok (from_le bs))"

definition crypto_read_i32 :: "bytes \<Rightarrow> nat \<Rightarrow> (i32, CryptoError) result" where
  "crypto_read_i32 value offset = and_then (ok_or InvalidPlaintext (get_range value offset (offset + 4))) (\<lambda>bs. Ok (from_le bs))"

definition decode_plain_message :: "bytes \<Rightarrow> (PlainMessage, CryptoError) result" where
  "decode_plain_message plaintext =
     (if length plaintext < INTERNAL_HEADER_LENGTH + MIN_PADDING_LENGTH then Err InvalidPlaintext
      else
        and_then (crypto_read_i64 plaintext 0) (\<lambda>server_salt.
        and_then (crypto_read_i64 plaintext 8) (\<lambda>session_id.
        and_then (crypto_read_i64 plaintext 16) (\<lambda>message_id.
        and_then (crypto_read_i32 plaintext 24) (\<lambda>sequence_number.
        and_then (crypto_read_i32 plaintext 28) (\<lambda>body_length.
        if sint body_length < 0 \<or> sint body_length mod 4 \<noteq> 0 then Err InvalidPlaintext
        else
          let body_end = INTERNAL_HEADER_LENGTH + unat body_length in
          and_then (ok_or InvalidPlaintext (get_range plaintext INTERNAL_HEADER_LENGTH body_end)) (\<lambda>body.
          and_then (ok_or InvalidPlaintext (get_range plaintext body_end (length plaintext))) (\<lambda>padding.
          Ok \<lparr>pm_server_salt = server_salt, pm_session_id = session_id, pm_message_id = message_id,
              pm_sequence_number = sequence_number, pm_body = body, pm_padding = padding\<rparr>))))))))"

section \<open>The IGE mode\<close>

definition xor_bytes :: "bytes \<Rightarrow> bytes \<Rightarrow> bytes" where
  "xor_bytes xs ys = map2 (XOR) xs ys"

text \<open>\<open>chunks_exact(16)\<close>: the whole blocks, a remainder is left out.\<close>

function blocks :: "bytes \<Rightarrow> bytes list" where
  "blocks xs = (if length xs < AES_BLOCK_LENGTH then [] else take AES_BLOCK_LENGTH xs # blocks (drop AES_BLOCK_LENGTH xs))"
  by auto
termination by (relation "measure length") (auto simp: AES_BLOCK_LENGTH_def)

declare blocks.simps [simp del]

fun ige_encrypt_blocks :: "(bytes \<Rightarrow> bytes) \<Rightarrow> bytes \<Rightarrow> bytes \<Rightarrow> bytes list \<Rightarrow> bytes list" where
  "ige_encrypt_blocks encrypt_block previous_ciphertext previous_plaintext [] = []"
| "ige_encrypt_blocks encrypt_block previous_ciphertext previous_plaintext (b # bs) =
     (let c = xor_bytes (encrypt_block (xor_bytes b previous_ciphertext)) previous_plaintext
      in c # ige_encrypt_blocks encrypt_block c b bs)"

fun ige_decrypt_blocks :: "(bytes \<Rightarrow> bytes) \<Rightarrow> bytes \<Rightarrow> bytes \<Rightarrow> bytes list \<Rightarrow> bytes list" where
  "ige_decrypt_blocks decrypt_block previous_ciphertext previous_plaintext [] = []"
| "ige_decrypt_blocks decrypt_block previous_ciphertext previous_plaintext (c # cs) =
     (let b = xor_bytes (decrypt_block (xor_bytes c previous_plaintext)) previous_ciphertext
      in b # ige_decrypt_blocks decrypt_block c b cs)"

definition aes_ige_encrypt :: "MtprotoPrimitives \<Rightarrow> bytes \<Rightarrow> bytes \<Rightarrow> bytes \<Rightarrow> (bytes, CryptoError) result" where
  "aes_ige_encrypt pr plaintext key iv =
     (if plaintext = [] \<or> length plaintext mod AES_BLOCK_LENGTH \<noteq> 0 then Err InvalidPlaintext
      else Ok (concat (ige_encrypt_blocks (mp_encrypt_block pr key) (take 16 iv) (drop 16 iv) (blocks plaintext))))"

definition aes_ige_decrypt :: "MtprotoPrimitives \<Rightarrow> bytes \<Rightarrow> bytes \<Rightarrow> bytes \<Rightarrow> (bytes, CryptoError) result" where
  "aes_ige_decrypt pr ciphertext key iv =
     (if ciphertext = [] \<or> length ciphertext mod AES_BLOCK_LENGTH \<noteq> 0 then Err InvalidEnvelope
      else Ok (concat (ige_decrypt_blocks (mp_decrypt_block pr key) (take 16 iv) (drop 16 iv) (blocks ciphertext))))"

section \<open>Messages\<close>

record EncryptedEnvelope =
  ee_auth_key_id :: u64
  ee_message_key :: bytes
  ee_encrypted_data :: bytes

definition envelope_to_bytes :: "EncryptedEnvelope \<Rightarrow> bytes" where
  "envelope_to_bytes e = to_le_u64 (ee_auth_key_id e) @ ee_message_key e @ ee_encrypted_data e"

definition envelope_from_bytes :: "bytes \<Rightarrow> (EncryptedEnvelope, CryptoError) result" where
  "envelope_from_bytes value =
     (if length value < 24 \<or> (length value - 24) mod AES_BLOCK_LENGTH \<noteq> 0 then Err InvalidEnvelope
      else Ok \<lparr>ee_auth_key_id = from_le (take 8 value), ee_message_key = sub_range value 8 24,
               ee_encrypted_data = drop 24 value\<rparr>)"

definition encrypt_message ::
  "MtprotoPrimitives \<Rightarrow> AuthKey \<Rightarrow> CryptoDirection \<Rightarrow> PlainMessage \<Rightarrow> (EncryptedEnvelope, CryptoError) result"
where
  "encrypt_message pr key direction m =
     and_then (encode_plain_message m) (\<lambda>plaintext.
     let message_key = compute_message_key pr key direction plaintext;
         (aes_key, aes_iv) = derive_aes_key_iv pr key message_key direction
     in and_then (aes_ige_encrypt pr plaintext aes_key aes_iv) (\<lambda>encrypted_data.
        Ok \<lparr>ee_auth_key_id = AuthKey_id pr key, ee_message_key = message_key, ee_encrypted_data = encrypted_data\<rparr>))"

definition quick_ack_token ::
  "MtprotoPrimitives \<Rightarrow> AuthKey \<Rightarrow> CryptoDirection \<Rightarrow> PlainMessage \<Rightarrow> (u32, CryptoError) result"
where
  "quick_ack_token pr key direction m =
     and_then (encode_plain_message m) (\<lambda>plaintext.
     Ok (from_le (take 4 (compute_message_key_large pr key direction plaintext)) OR push_bit 31 1))"

definition decrypt_message ::
  "MtprotoPrimitives \<Rightarrow> AuthKey \<Rightarrow> CryptoDirection \<Rightarrow> EncryptedEnvelope \<Rightarrow> i64 \<Rightarrow> (PlainMessage, CryptoError) result"
where
  "decrypt_message pr key direction e expected_session_id =
     (if ee_auth_key_id e \<noteq> AuthKey_id pr key \<or> ee_encrypted_data e = []
        \<or> length (ee_encrypted_data e) mod AES_BLOCK_LENGTH \<noteq> 0
      then Err AuthenticationFailed
      else
        let (aes_key, aes_iv) = derive_aes_key_iv pr key (ee_message_key e) direction
        in and_then (map_err (\<lambda>_. AuthenticationFailed) (aes_ige_decrypt pr (ee_encrypted_data e) aes_key aes_iv)) (\<lambda>plaintext.
           if compute_message_key pr key direction plaintext \<noteq> ee_message_key e then Err AuthenticationFailed
           else
             and_then (decode_plain_message plaintext) (\<lambda>m.
             and_then (validate_plain_message m (Some direction) (Some expected_session_id)) (\<lambda>_.
             Ok m))))"

section \<open>Blocks\<close>

text \<open>
  What the code relies on: the lengths of the digests, and that the two directions of the block
  cipher undo each other under every key.
\<close>

definition primitive_laws :: "MtprotoPrimitives \<Rightarrow> bool" where
  "primitive_laws pr \<longleftrightarrow>
     (\<forall>x. length (mp_sha1 pr x) = 20) \<and> (\<forall>x. length (mp_sha256 pr x) = 32)
   \<and> (\<forall>k b. length k = 32 \<longrightarrow> length b = 16 \<longrightarrow>
        length (mp_encrypt_block pr k b) = 16 \<and> mp_decrypt_block pr k (mp_encrypt_block pr k b) = b
      \<and> length (mp_decrypt_block pr k b) = 16 \<and> mp_encrypt_block pr k (mp_decrypt_block pr k b) = b)"

lemma length_xor_bytes [simp]: "length (xor_bytes xs ys) = min (length xs) (length ys)"
  by (simp add: xor_bytes_def)

lemma xor_bytes_cancel: "length xs = length ys \<Longrightarrow> xor_bytes (xor_bytes xs ys) ys = xs"
  unfolding xor_bytes_def by (induction xs ys rule: list_induct2) (simp_all add: xor.assoc)

definition is_blocks :: "bytes list \<Rightarrow> bool" where
  "is_blocks bs \<longleftrightarrow> (\<forall>b \<in> set bs. length b = 16)"

lemma is_blocks_simps [simp]: "is_blocks []" "is_blocks (b # bs) \<longleftrightarrow> length b = 16 \<and> is_blocks bs"
  by (auto simp: is_blocks_def)

lemma blocks_concat: "is_blocks bs \<Longrightarrow> blocks (concat bs) = bs"
proof (induction bs)
  case Nil
  then show ?case by (simp add: blocks.simps AES_BLOCK_LENGTH_def)
next
  case (Cons b bs)
  then show ?case by (subst blocks.simps) (simp add: AES_BLOCK_LENGTH_def)
qed

lemma is_blocks_blocks: "is_blocks (blocks xs)"
proof (induction xs rule: blocks.induct)
  case (1 xs)
  then show ?case by (subst blocks.simps) (simp add: AES_BLOCK_LENGTH_def)
qed

lemma concat_blocks: "length xs mod 16 = 0 \<Longrightarrow> concat (blocks xs) = xs"
proof (induction xs rule: blocks.induct)
  case (1 xs)
  show ?case
  proof (cases "length xs < 16")
    case True
    with 1 show ?thesis by (subst blocks.simps) (simp add: AES_BLOCK_LENGTH_def)
  next
    case False
    then have "(length xs - 16) mod 16 = 0" using 1(2) by (simp add: le_mod_geq)
    with False 1 show ?thesis by (subst blocks.simps) (simp add: AES_BLOCK_LENGTH_def)
  qed
qed

lemma length_concat_blocks: "is_blocks bs \<Longrightarrow> length (concat bs) = 16 * length bs"
  by (induction bs) simp_all

lemma ige_decrypt_encrypt:
  assumes "\<And>b. length b = 16 \<Longrightarrow> length (e b) = 16 \<and> d (e b) = b"
  shows "is_blocks bs \<Longrightarrow> length pc = 16 \<Longrightarrow> length pp = 16 \<Longrightarrow>
    is_blocks (ige_encrypt_blocks e pc pp bs) \<and> length (ige_encrypt_blocks e pc pp bs) = length bs
    \<and> ige_decrypt_blocks d pc pp (ige_encrypt_blocks e pc pp bs) = bs"
proof (induction bs arbitrary: pc pp)
  case (Cons b bs)
  let ?c = "xor_bytes (e (xor_bytes b pc)) pp"
  have eb: "length (e (xor_bytes b pc)) = 16" "d (e (xor_bytes b pc)) = xor_bytes b pc"
    using assms [of "xor_bytes b pc"] Cons.prems by simp_all
  then have "xor_bytes ?c pp = e (xor_bytes b pc)" "xor_bytes (xor_bytes b pc) pc = b" "length ?c = 16"
    using Cons.prems by (simp_all add: xor_bytes_cancel)
  moreover from this(3) have "is_blocks (ige_encrypt_blocks e ?c b bs) \<and> length (ige_encrypt_blocks e ?c b bs) = length bs
      \<and> ige_decrypt_blocks d ?c b (ige_encrypt_blocks e ?c b bs) = bs"
    using Cons.prems by (intro Cons.IH) simp_all
  ultimately show ?case using eb(2) by (simp add: Let_def)
qed simp

text \<open>The two loops are the same with the roles of the texts and of the cipher exchanged.\<close>

lemma ige_duality: "ige_decrypt_blocks d pc pp cs = ige_encrypt_blocks d pp pc cs"
  by (induction cs arbitrary: pc pp) (simp_all add: Let_def)

lemma ige_encrypt_decrypt:
  assumes "\<And>b. length b = 16 \<Longrightarrow> length (d b) = 16 \<and> e (d b) = b"
  shows "is_blocks cs \<Longrightarrow> length pc = 16 \<Longrightarrow> length pp = 16 \<Longrightarrow>
    is_blocks (ige_decrypt_blocks d pc pp cs) \<and> length (ige_decrypt_blocks d pc pp cs) = length cs
    \<and> ige_encrypt_blocks e pc pp (ige_decrypt_blocks d pc pp cs) = cs"
  using ige_decrypt_encrypt [of d e cs pp pc] assms by (simp add: ige_duality)

lemma aes_ige_inverse:
  assumes "primitive_laws pr" "length key = 32" "length iv = 32"
  shows "aes_ige_encrypt pr p key iv = Ok c \<longleftrightarrow> aes_ige_decrypt pr c key iv = Ok p"
proof -
  let ?e = "mp_encrypt_block pr key" and ?d = "mp_decrypt_block pr key"
  have laws: "\<And>b. length b = 16 \<Longrightarrow> length (?e b) = 16 \<and> ?d (?e b) = b"
    "\<And>b. length b = 16 \<Longrightarrow> length (?d b) = 16 \<and> ?e (?d b) = b"
    using assms(1,2) by (auto simp: primitive_laws_def)
  have iv: "length (take 16 iv) = 16" "length (drop 16 iv) = 16" using assms(3) by simp_all
  note enc = ige_decrypt_encrypt [of ?e ?d, OF laws(1) is_blocks_blocks iv]
    and dec = ige_encrypt_decrypt [of ?d ?e, OF laws(2) is_blocks_blocks iv]
  have len: "length (blocks x) \<noteq> 0" if "x \<noteq> []" "length x mod 16 = 0" for x
    using concat_blocks [OF that(2)] that(1) by auto
  show ?thesis
  proof
    assume "aes_ige_encrypt pr p key iv = Ok c"
    then have p: "p \<noteq> []" "length p mod 16 = 0"
      and c: "c = concat (ige_encrypt_blocks ?e (take 16 iv) (drop 16 iv) (blocks p))"
      by (auto simp: aes_ige_encrypt_def AES_BLOCK_LENGTH_def split: if_splits)
    have "length c = 16 * length (blocks p)" unfolding c using enc [of p] by (simp add: length_concat_blocks)
    then have "c \<noteq> []" "length c mod 16 = 0" using len [OF p] by (cases c; simp)+
    moreover have "concat (ige_decrypt_blocks ?d (take 16 iv) (drop 16 iv) (blocks c)) = p"
      unfolding c using enc [of p] concat_blocks [OF p(2)] by (simp add: blocks_concat)
    ultimately show "aes_ige_decrypt pr c key iv = Ok p"
      by (simp add: aes_ige_decrypt_def AES_BLOCK_LENGTH_def)
  next
    assume "aes_ige_decrypt pr c key iv = Ok p"
    then have c: "c \<noteq> []" "length c mod 16 = 0"
      and p: "p = concat (ige_decrypt_blocks ?d (take 16 iv) (drop 16 iv) (blocks c))"
      by (auto simp: aes_ige_decrypt_def AES_BLOCK_LENGTH_def split: if_splits)
    have "length p = 16 * length (blocks c)" unfolding p using dec [of c] by (simp add: length_concat_blocks)
    then have "p \<noteq> []" "length p mod 16 = 0" using len [OF c] by (cases p; simp)+
    moreover have "concat (ige_encrypt_blocks ?e (take 16 iv) (drop 16 iv) (blocks p)) = c"
      unfolding p using dec [of c] concat_blocks [OF c(2)] by (simp add: blocks_concat)
    ultimately show "aes_ige_encrypt pr p key iv = Ok c"
      by (simp add: aes_ige_encrypt_def AES_BLOCK_LENGTH_def)
  qed
qed

lemma aes_ige_length:
  assumes "primitive_laws pr" "length key = 32" "length iv = 32" "aes_ige_encrypt pr p key iv = Ok c"
  shows "length c = length p"
proof -
  let ?e = "mp_encrypt_block pr key"
  have e: "length (?e b) = 16 \<and> mp_decrypt_block pr key (?e b) = b" if "length b = 16" for b
    using assms(1,2) that by (auto simp: primitive_laws_def)
  have "length (take 16 iv) = 16" "length (drop 16 iv) = 16" using assms(3) by simp_all
  note ige_decrypt_encrypt [of ?e _ "blocks p", OF e is_blocks_blocks this]
  then show ?thesis
    using assms(4) concat_blocks [of p] length_concat_blocks [OF is_blocks_blocks, of p]
    by (auto simp: aes_ige_encrypt_def AES_BLOCK_LENGTH_def length_concat_blocks split: if_splits)
qed

lemma derive_lengths:
  assumes "primitive_laws pr" "derive_aes_key_iv pr key mk d = (k, iv)"
  shows "length k = 32" "length iv = 32"
  using assms by (auto simp: primitive_laws_def derive_aes_key_iv_def sub_range_def Let_def)

section \<open>Plaintext layout\<close>

lemma encode_plain_Ok:
  "encode_plain_message m = Ok bs \<longleftrightarrow>
     validate_plain_message m None None = Ok () \<and> length (pm_body m) < 2 ^ 31
   \<and> bs = to_le_u64 (pm_server_salt m) @ to_le_u64 (pm_session_id m) @ to_le_u64 (pm_message_id m)
       @ to_le_u32 (pm_sequence_number m) @ to_le_u32 (of_nat (length (pm_body m))) @ pm_body m @ pm_padding m"
  by (auto simp: encode_plain_message_def result_simps)

lemma validate_plain_Ok:
  "validate_plain_message m d s = Ok () \<longleftrightarrow>
     validate_plain_message m None None = Ok () \<and> (\<forall>x. s = Some x \<longrightarrow> pm_session_id m = x)
   \<and> (\<forall>x. d = Some x \<longrightarrow> message_id_for x (pm_message_id m))"
  by (auto simp: validate_plain_message_def)

lemma decode_encode_plain:
  assumes "encode_plain_message m = Ok bs"
  shows "decode_plain_message bs = Ok m"
proof -
  have m: "validate_plain_message m None None = Ok ()" "length (pm_body m) < 2 ^ 31"
    and bs: "bs = to_le_u64 (pm_server_salt m) @ to_le_u64 (pm_session_id m) @ to_le_u64 (pm_message_id m)
       @ to_le_u32 (pm_sequence_number m) @ to_le_u32 (of_nat (length (pm_body m))) @ pm_body m @ pm_padding m"
    using assms by (simp_all add: encode_plain_Ok)
  from m(1) have v: "length (pm_body m) mod 4 = 0" "12 \<le> length (pm_padding m)"
    by (auto simp: validate_plain_message_def crypto_lengths split: if_splits)
  have "sint (of_nat (length (pm_body m)) :: i32) = int (length (pm_body m))"
    using m(2) sint_word_of_int_i32 [of "int (length (pm_body m))"] by simp
  moreover have "unat (of_nat (length (pm_body m)) :: i32) = length (pm_body m)"
    using m(2) by (simp add: unat_of_nat)
  moreover have "int (length (pm_body m)) mod 4 = 0" using v(1) zmod_int [of "length (pm_body m)" 4] by simp
  ultimately show ?thesis
    using v(2) unfolding bs
    by (simp add: decode_plain_message_def crypto_read_i64_def crypto_read_i32_def get_range_def crypto_lengths Let_def)
qed

lemma split_at: "take n xs @ drop n xs = xs"
  by simp

lemma encode_decode_plain:
  assumes "decode_plain_message bs = Ok m" "validate_plain_message m None None = Ok ()"
  shows "encode_plain_message m = Ok bs"
proof -
  let ?w = "from_le (take 4 (drop 28 bs)) :: i32"
  have len: "44 \<le> length bs" and w: "0 \<le> sint ?w" and b: "32 + unat ?w \<le> length bs"
    and m: "m = \<lparr>pm_server_salt = from_le (take 8 bs), pm_session_id = from_le (take 8 (drop 8 bs)),
        pm_message_id = from_le (take 8 (drop 16 bs)), pm_sequence_number = from_le (take 4 (drop 24 bs)),
        pm_body = take (unat ?w) (drop 32 bs), pm_padding = drop (32 + unat ?w) bs\<rparr>"
    using assms(1)
    by (auto simp: decode_plain_message_def crypto_read_i64_def crypto_read_i32_def get_range_def crypto_lengths
        Let_def result_simps split: if_splits)
  have to_le: "to_le 8 (from_le (take 8 (drop k bs)) :: i64) = take 8 (drop k bs)" if "k + 8 \<le> length bs" for k
    using to_from_le [of "take 8 (drop k bs)", where 'a = 64] that by simp
  have to_le4: "to_le 4 (from_le (take 4 (drop k bs)) :: i32) = take 4 (drop k bs)" if "k + 4 \<le> length bs" for k
    using to_from_le [of "take 4 (drop k bs)", where 'a = 32] that by simp
  have body: "length (pm_body m) = unat ?w" using b by (simp add: m)
  have "unat ?w < 2 ^ 31" using w by (rule sint_nonneg_i32)
  moreover have "bs = take 8 bs @ take 8 (drop 8 bs) @ take 8 (drop 16 bs) @ take 4 (drop 24 bs) @ take 4 (drop 28 bs)
      @ take (unat ?w) (drop 32 bs) @ drop (32 + unat ?w) bs"
    using split_at [of 8 bs] split_at [of 8 "drop 8 bs"] split_at [of 8 "drop 16 bs"] split_at [of 4 "drop 24 bs"]
      split_at [of 4 "drop 28 bs"] split_at [of "unat ?w" "drop 32 bs"] by (simp add: add.commute)
  ultimately show ?thesis
    using assms(2) body to_le [of 0] to_le [of 8] to_le [of 16] to_le4 [of 24] to_le4 [of 28] len
    by (simp add: encode_plain_Ok m)
qed

section \<open>Received messages\<close>

lemma envelope_roundtrip:
  assumes "length (ee_message_key e) = 16" "length (ee_encrypted_data e) mod 16 = 0"
  shows "envelope_from_bytes (envelope_to_bytes e) = Ok e"
  using assms by (simp add: envelope_from_bytes_def envelope_to_bytes_def sub_range_def AES_BLOCK_LENGTH_def)

lemma encrypt_message_Ok:
  assumes "derive_aes_key_iv pr key (ee_message_key e) d = (k, iv)"
  shows "encrypt_message pr key d m = Ok e \<longleftrightarrow>
    (\<exists>plaintext. encode_plain_message m = Ok plaintext \<and> ee_auth_key_id e = AuthKey_id pr key
       \<and> ee_message_key e = compute_message_key pr key d plaintext
       \<and> aes_ige_encrypt pr plaintext k iv = Ok (ee_encrypted_data e))"
  using assms by (cases e) (auto simp: encrypt_message_def result_simps Let_def case_prod_beta)

lemma decrypt_message_Ok:
  assumes "derive_aes_key_iv pr key (ee_message_key e) d = (k, iv)"
  shows "decrypt_message pr key d e s = Ok m \<longleftrightarrow>
    (\<exists>plaintext. aes_ige_decrypt pr (ee_encrypted_data e) k iv = Ok plaintext \<and> ee_auth_key_id e = AuthKey_id pr key
       \<and> compute_message_key pr key d plaintext = ee_message_key e
       \<and> decode_plain_message plaintext = Ok m \<and> validate_plain_message m (Some d) (Some s) = Ok ())"
  using assms by (auto simp: decrypt_message_def aes_ige_decrypt_def result_simps)

lemma encrypt_message_defined:
  assumes "encode_plain_message m = Ok p"
  shows "\<exists>e. encrypt_message pr key d m = Ok e"
proof -
  have "p \<noteq> []" "length p mod 16 = 0"
    using assms
    by (auto simp: encode_plain_Ok validate_plain_message_def crypto_lengths add.assoc split: if_splits)
  then show ?thesis using assms
    by (simp add: encrypt_message_def aes_ige_encrypt_def AES_BLOCK_LENGTH_def Let_def case_prod_beta)
qed

lemma decrypt_message_iff:
  assumes "primitive_laws pr"
  shows "decrypt_message pr key d e s = Ok m \<longleftrightarrow>
     encrypt_message pr key d m = Ok e \<and> pm_session_id m = s \<and> message_id_for d (pm_message_id m)"
proof -
  obtain k iv where k: "derive_aes_key_iv pr key (ee_message_key e) d = (k, iv)" by fastforce
  note ige = aes_ige_inverse [OF assms derive_lengths [OF assms k]]
  have plain: "decode_plain_message p = Ok m \<and> validate_plain_message m (Some d) (Some s) = Ok () \<longleftrightarrow>
      encode_plain_message m = Ok p \<and> pm_session_id m = s \<and> message_id_for d (pm_message_id m)" for p
    using decode_encode_plain [of m p] encode_decode_plain [of p m] validate_plain_Ok [of m "Some d" "Some s"]
    by (auto simp: encode_plain_Ok)
  show ?thesis
    unfolding decrypt_message_Ok [OF k] encrypt_message_Ok [OF k] ige using plain by metis
qed

lemma encrypted_lengths:
  assumes "primitive_laws pr" "encrypt_message pr key d m = Ok e"
  shows "length (ee_message_key e) = 16" "length (ee_encrypted_data e) mod 16 = 0"
proof -
  obtain k iv where k: "derive_aes_key_iv pr key (ee_message_key e) d = (k, iv)" by fastforce
  from assms(2) obtain p where p: "ee_message_key e = compute_message_key pr key d p"
      "aes_ige_decrypt pr (ee_encrypted_data e) k iv = Ok p"
    unfolding encrypt_message_Ok [OF k] aes_ige_inverse [OF assms(1) derive_lengths [OF assms(1) k]] by blast
  show "length (ee_message_key e) = 16"
    using assms by (simp add: p(1) compute_message_key_def compute_message_key_large_def sub_range_def primitive_laws_def Let_def)
  show "length (ee_encrypted_data e) mod 16 = 0"
    using p(2) by (simp add: aes_ige_decrypt_def AES_BLOCK_LENGTH_def split: if_splits)
qed

text \<open>
  C30: a message is accepted exactly when it is authentic. Whatever envelope arrives, decryption returns
  the message \<open>m\<close> if and only if the envelope is the one that encryption makes of \<open>m\<close> under this key
  and direction, \<open>m\<close> belongs to the expected session and its identifier fits the direction; and such
  an envelope survives the wire. So a change of a single bit of the envelope never gives the same
  message, and what the peer encrypts is received as it was.
\<close>

theorem decrypt_iff_encrypted:
  assumes "primitive_laws pr"
  shows "(decrypt_message pr key d e s = Ok m \<longleftrightarrow>
       encrypt_message pr key d m = Ok e \<and> pm_session_id m = s \<and> message_id_for d (pm_message_id m))
    \<and> (encrypt_message pr key d m = Ok e \<longrightarrow> envelope_from_bytes (envelope_to_bytes e) = Ok e)"
  by (auto simp: decrypt_message_iff [OF assms] intro!: envelope_roundtrip encrypted_lengths [OF assms])

section \<open>Witness\<close>

definition demo_primitives :: MtprotoPrimitives where
  "demo_primitives =
     \<lparr>mp_sha1 = (\<lambda>x. replicate 20 (of_nat (length x))), mp_sha256 = (\<lambda>x. replicate 32 (of_nat (length x))),
      mp_encrypt_block = (\<lambda>k b. rev b), mp_decrypt_block = (\<lambda>k b. rev b)\<rparr>"

definition demo_plain :: PlainMessage where
  "demo_plain =
     \<lparr>pm_server_salt = 7, pm_session_id = 5, pm_message_id = 4, pm_sequence_number = 1, pm_body = [1, 2, 3, 4],
      pm_padding = replicate 12 0\<rparr>"

lemma demo_encode: "\<exists>p. encode_plain_message demo_plain = Ok p"
  by (simp add: encode_plain_message_def validate_plain_message_def demo_plain_def crypto_lengths)

theorem decrypt_iff_encrypted_witness:
  "\<exists>e. encrypt_message demo_primitives (AuthKey (replicate 256 1)) ClientToServer demo_plain = Ok e
     \<and> decrypt_message demo_primitives (AuthKey (replicate 256 1)) ClientToServer e 5 = Ok demo_plain
     \<and> envelope_from_bytes (envelope_to_bytes e) = Ok e"
proof -
  have laws: "primitive_laws demo_primitives" by (simp add: primitive_laws_def demo_primitives_def)
  let ?key = "AuthKey (replicate 256 1)"
  obtain e where e: "encrypt_message demo_primitives ?key ClientToServer demo_plain = Ok e"
    using demo_encode encrypt_message_defined by blast
  moreover have "pm_session_id demo_plain = 5 \<and> message_id_for ClientToServer (pm_message_id demo_plain)"
    by (simp add: demo_plain_def message_id_for_def)
  ultimately show ?thesis
    using decrypt_iff_encrypted [OF laws, of ?key ClientToServer e 5 demo_plain] by blast
qed

end
