(* ===== verification/Handshake.thy ===== *)
theory Handshake
  imports Srp Pq_Factoring Mtproto_Crypto
begin

text \<open>
  The exchange of the authorization key (\<open>handshake.rs\<close>): plaintext envelopes, the answers of the server,
  the encryption of the inner data under the key of the server, the check of the parameters of the
  exchange, the key, and the state machine of the client. Big integers, hashes and the block cipher are
  parameters as in \<open>Srp\<close> and \<open>Mtproto_Crypto\<close>; the random source is a function that returns its next
  state beside the bytes or the error.
\<close>

section \<open>Data\<close>

definition REQ_PQ_MULTI_CONSTRUCTOR :: u32 where
  "REQ_PQ_MULTI_CONSTRUCTOR = 0xbe7e8ef1"

definition RES_PQ_CONSTRUCTOR :: u32 where
  "RES_PQ_CONSTRUCTOR = 0x05162463"

definition P_Q_INNER_DATA_DC_CONSTRUCTOR :: u32 where
  "P_Q_INNER_DATA_DC_CONSTRUCTOR = 0xa9f55f95"

definition REQ_DH_PARAMS_CONSTRUCTOR :: u32 where
  "REQ_DH_PARAMS_CONSTRUCTOR = 0xd712e4be"

definition SERVER_DH_PARAMS_OK_CONSTRUCTOR :: u32 where
  "SERVER_DH_PARAMS_OK_CONSTRUCTOR = 0xd0e8075c"

definition SERVER_DH_PARAMS_FAIL_CONSTRUCTOR :: u32 where
  "SERVER_DH_PARAMS_FAIL_CONSTRUCTOR = 0x79cb045d"

definition SERVER_DH_INNER_DATA_CONSTRUCTOR :: u32 where
  "SERVER_DH_INNER_DATA_CONSTRUCTOR = 0xb5890dba"

definition CLIENT_DH_INNER_DATA_CONSTRUCTOR :: u32 where
  "CLIENT_DH_INNER_DATA_CONSTRUCTOR = 0x6643b654"

definition SET_CLIENT_DH_PARAMS_CONSTRUCTOR :: u32 where
  "SET_CLIENT_DH_PARAMS_CONSTRUCTOR = 0xf5045f1f"

definition DH_GEN_OK_CONSTRUCTOR :: u32 where
  "DH_GEN_OK_CONSTRUCTOR = 0x3bcbf734"

definition DH_GEN_RETRY_CONSTRUCTOR :: u32 where
  "DH_GEN_RETRY_CONSTRUCTOR = 0x46dc1fb9"

definition DH_GEN_FAIL_CONSTRUCTOR :: u32 where
  "DH_GEN_FAIL_CONSTRUCTOR = 0xa69dae02"

definition TELEGRAM_MAIN_RSA_MODULUS_HEX :: string where
  "TELEGRAM_MAIN_RSA_MODULUS_HEX =
   ''E8BB3305C0B52C6CF2AFDF7637313489E63E05268E5BADB601AF417786472E5F'' @
   ''93B85438968E20E6729A301C0AFC121BF7151F834436F7FDA680847A66BF64AC'' @
   ''CEC78EE21C0B316F0EDAFE2F41908DA7BD1F4A5107638EEB67040ACE472A14F9'' @
   ''0D9F7C2B7DEF99688BA3073ADB5750BB02964902A359FE745D8170E36876D4FD'' @
   ''8A5D41B2A76CBFF9A13267EB9580B2D06D10357448D20D9DA2191CB5D8C93982'' @
   ''961CDFDEDA629E37F1FB09A0722027696032FE61ED663DB7A37F6F263D370F69'' @
   ''DB53A0DC0A1748BDAAFF6209D5645485E6E001D1953255757E4B8E42813347B1'' @
   ''1DA6AB500FD0ACE7E6DFA3736199CCAF9397ED0745A427DCFA6CD67BCB1ACFF3''"

definition TELEGRAM_TEST_RSA_MODULUS_HEX :: string where
  "TELEGRAM_TEST_RSA_MODULUS_HEX =
   ''C8C11D635691FAC091DD9489AEDCED2932AA8A0BCEFEF05FA800892D9B52ED03'' @
   ''200865C9E97211CB2EE6C7AE96D3FB0E15AEFFD66019B44A08A240CFDD2868A8'' @
   ''5E1F54D6FA5DEAA041F6941DDF302690D61DC476385C2FA655142353CB4E4B59'' @
   ''F6E5B6584DB76FE8B1370263246C010C93D011014113EBDF987D093F9D37C2BE'' @
   ''48352D69A1683F8F6E6C2167983C761E3AB169FDE5DAAA12123FA1BEAB621E4D'' @
   ''A5935E9C198F82F35EAE583A99386D8110EA6BD1ABB0F568759F62694419EA5F'' @
   ''69847C43462ABEF858B4CB5EDC84E7B9226CD7BD7E183AA974A712C079DDE85B'' @
   ''9DC063B8A5C08E8F859C0EE5DCD824C7807F20153361A7F63CFD2A433A1BE7F5''"

definition DEFAULT_MAX_PLAINTEXT_BODY :: nat where
  "DEFAULT_MAX_PLAINTEXT_BODY = 16 * 1024 * 1024"

record PlaintextEnvelope =
  pe_message_id :: i64
  pe_body :: bytes

record ResPq =
  rp_nonce :: bytes
  rp_server_nonce :: bytes
  rp_pq :: bytes
  rp_server_public_key_fingerprints :: "u64 list"

record FactoredPq =
  fp_pq :: u64
  fp_p :: u64
  fp_q :: u64

record RsaPublicKey =
  rk_modulus :: bytes
  rk_exponent :: bytes

datatype ServerDhParams = DhParamsOk bytes | DhParamsFail bytes

record ServerDhInnerData =
  sd_nonce :: bytes
  sd_server_nonce :: bytes
  sd_generator :: i32
  sd_dh_prime :: bytes
  sd_g_a :: bytes
  sd_server_time :: i32

record PreparedClientDh =
  pd_request_body :: bytes
  pd_auth_key :: AuthKey
  pd_auth_key_aux_hash :: u64
  pd_server_salt :: i64

record EstablishedAuthKey =
  ek_auth_key :: AuthKey
  ek_server_salt :: i64
  ek_server_time :: i32

datatype DhGenAction = Established EstablishedAuthKey | DhGenRetryRequest PlaintextEnvelope

datatype DhGenResult = DhGenOk | DhGenRetry | DhGenFail

datatype AuthKeyHandshakeState =
  HsReady | AwaitingResPq | ResPqReceived ResPq | AwaitingServerDh | AwaitingDhGen | HsComplete

record AuthKeyHandshake =
  hk_nonce :: bytes
  hk_state :: AuthKeyHandshakeState
  hk_server_nonce :: "bytes option"
  hk_new_nonce :: "bytes option"
  hk_server_dh :: "ServerDhInnerData option"
  hk_prepared_client_dh :: "PreparedClientDh option"

text \<open>\<open>HsPanic\<close> is the panic of the \<open>expect\<close> on the constant, which is not an error of the code.\<close>

datatype (plugins only: code size) HandshakeError =
    TruncatedEnvelope nat
  | UnexpectedAuthKeyId i64
  | InvalidBodyLength i64
  | BodyTooLarge nat nat
  | EnvelopeLengthMismatch nat nat
  | InvalidState string
  | MissingHandshakeData
  | HsUnexpectedConstructor u32
  | NonceMismatch
  | ServerNonceMismatch
  | EmptyPq
  | MissingServerKeyFingerprint
  | InvalidPqEncoding nat
  | PqFactorizationFailed u64
  | PqNotSemiprime u64
  | PqFactorsDoNotMatch
  | NoTrustedServerKey
  | EmptyEncryptedInnerData
  | InvalidRsaModulusLength nat
  | InvalidRsaExponent
  | InvalidRsaKey
  | RsaPadDataTooLong nat
  | HsRandomnessUnavailable
  | RsaPadRetryLimit
  | InvalidRsaResult
  | UnexpectedServerDhConstructor u32
  | UnexpectedServerDhInnerConstructor u32
  | InvalidServerDhCiphertext
  | InvalidServerDhAnswer
  | InvalidServerDhPadding nat
  | ServerDhHashMismatch
  | ServerDhRejected
  | InvalidServerDhParameters
  | UntrustedDhPrime
  | InvalidDhGenerator
  | InvalidDhPublicValue
  | UnexpectedDhGenConstructor u32
  | DhGenHashMismatch
  | DhGenRejected
  | TrailingBodyBytes nat
  | HsTl TlError
  | HsCrypto CryptoError
  | HsPanic

section \<open>Random bytes\<close>

text \<open>
  A computation that draws random bytes returns the source it leaves behind beside its result;
  \<open>and_draw\<close> is the \<open>?\<close> operator on it.
\<close>

type_synonym ('r, 'a) drawing = "'r \<Rightarrow> 'r \<times> ('a, HandshakeError) result"
type_synonym 'r filling = "nat \<Rightarrow> ('r, bytes) drawing"

definition and_draw ::
  "('r \<Rightarrow> 'r \<times> ('a, 'e) result) \<Rightarrow> ('a \<Rightarrow> 'r \<Rightarrow> 'r \<times> ('b, 'e) result) \<Rightarrow> 'r \<Rightarrow> 'r \<times> ('b, 'e) result"
where
  "and_draw p f r = (case p r of (r', Inl e) \<Rightarrow> (r', Inl e) | (r', Inr x) \<Rightarrow> f x r')"

definition draws :: "('a, 'e) result \<Rightarrow> 'r \<Rightarrow> 'r \<times> ('a, 'e) result" where
  "draws res r = (r, res)"

lemma and_draw_draws [simp]:
  "and_draw (draws (Inr x)) f = f x" "and_draw (draws (Inl e)) f = draws (Inl e)"
  by (simp_all add: and_draw_def draws_def fun_eq_iff)

lemma draws_apply [simp]: "draws res r = (r, res)"
  by (simp add: draws_def)

lemma and_draw_Ok:
  "and_draw p f r = (r', Inr y) \<longleftrightarrow> (\<exists>r1 x. p r = (r1, Inr x) \<and> f x r1 = (r', Inr y))"
  by (auto simp: and_draw_def split: prod.splits sum.splits)

definition secure_random_fill :: "('r \<Rightarrow> nat \<Rightarrow> 'r \<times> bytes option) \<Rightarrow> 'r filling" where
  "secure_random_fill getrandom n r =
     (case getrandom r n of (r', None) \<Rightarrow> (r', Err HsRandomnessUnavailable) | (r', Some bs) \<Rightarrow> (r', Ok bs))"

section \<open>Envelopes and keys\<close>

definition envelope_encode :: "PlaintextEnvelope \<Rightarrow> (bytes, HandshakeError) result" where
  "envelope_encode e =
     (if DEFAULT_MAX_PLAINTEXT_BODY < length (pe_body e)
      then Err (BodyTooLarge (length (pe_body e)) DEFAULT_MAX_PLAINTEXT_BODY)
      else if 2 ^ 31 \<le> length (pe_body e) then Err (InvalidBodyLength (2 ^ 63 - 1))
      else Ok (to_le_u64 0 @ to_le_u64 (pe_message_id e) @ to_le_u32 (of_nat (length (pe_body e))) @ pe_body e))"

definition decode_with_limit :: "bytes \<Rightarrow> nat \<Rightarrow> (PlaintextEnvelope, HandshakeError) result" where
  "decode_with_limit input maximum =
     (if length input < 20 then Err (TruncatedEnvelope (length input))
      else
        let auth_key_id = from_le (sub_range input 0 8) :: i64
        in if auth_key_id \<noteq> 0 then Err (UnexpectedAuthKeyId auth_key_id)
           else
             let message_id = from_le (sub_range input 8 16);
                 raw_length = from_le (sub_range input 16 20) :: i32
             in if raw_length <s 0 then Err (InvalidBodyLength (scast raw_length))
                else
                  let body_length = unat raw_length
                  in if maximum < body_length then Err (BodyTooLarge body_length maximum)
                     else if 2 ^ 64 \<le> 20 + body_length then Err (InvalidBodyLength (scast raw_length))
                     else if length input \<noteq> 20 + body_length
                     then Err (EnvelopeLengthMismatch body_length (length input - 20))
                     else Ok \<lparr>pe_message_id = message_id, pe_body = drop 20 input\<rparr>)"

definition envelope_decode :: "bytes \<Rightarrow> (PlaintextEnvelope, HandshakeError) result" where
  "envelope_decode input = decode_with_limit input DEFAULT_MAX_PLAINTEXT_BODY"

definition from_components :: "bytes \<Rightarrow> bytes \<Rightarrow> (RsaPublicKey, HandshakeError) result" where
  "from_components modulus exponent =
     (if length modulus \<noteq> 256 then Err (InvalidRsaModulusLength (length modulus))
      else if exponent = [] \<or> list_all (\<lambda>b. b = 0) exponent then Err InvalidRsaExponent
      else Ok \<lparr>rk_modulus = modulus, rk_exponent = exponent\<rparr>)"

definition fingerprint :: "MtprotoPrimitives \<Rightarrow> RsaPublicKey \<Rightarrow> (u64, HandshakeError) result" where
  "fingerprint pr key =
     and_then (map_err HsTl (written [TlBytes (rk_modulus key), TlBytes (rk_exponent key)])) (\<lambda>bs.
     Ok (from_le (sub_range (mp_sha1 pr bs) 12 20)))"

definition telegram_server_rsa_key :: "BigLibrary \<Rightarrow> bool \<Rightarrow> (RsaPublicKey, HandshakeError) result" where
  "telegram_server_rsa_key lib test_environment =
     and_then
       (ok_or InvalidRsaKey
         (bl_hex_decode lib (if test_environment then TELEGRAM_TEST_RSA_MODULUS_HEX else TELEGRAM_MAIN_RSA_MODULUS_HEX)))
       (\<lambda>modulus. from_components modulus [1, 0, 1])"

section \<open>The first answer and the factors\<close>

abbreviation hs_read :: "('a, TlError) reading \<Rightarrow> ('a, HandshakeError) reading" where
  "hs_read \<equiv> lift_read HsTl"

definition parse_res_pq :: "bytes \<Rightarrow> (ResPq, HandshakeError) result" where
  "parse_res_pq input =
     snd (and_read (hs_read read_u32) (\<lambda>constructor.
          if constructor \<noteq> RES_PQ_CONSTRUCTOR then reads (Err (HsUnexpectedConstructor constructor))
          else
            and_read (hs_read read_i128_bytes) (\<lambda>nonce.
            and_read (hs_read read_i128_bytes) (\<lambda>server_nonce.
            and_read (hs_read read_bytes) (\<lambda>pq.
            and_read (hs_read read_vector_length) (\<lambda>fingerprint_count.
            and_read (read_many fingerprint_count (hs_read read_u64)) (\<lambda>fingerprints.
            and_read (expect_finished TrailingBodyBytes) (\<lambda>_.
            reads (Ok \<lparr>rp_nonce = nonce, rp_server_nonce = server_nonce, rp_pq = pq,
                        rp_server_public_key_fingerprints = fingerprints\<rparr>))))))))
        (with_limits input 1024 64))"

definition decode_unsigned_be :: "bytes \<Rightarrow> (u64, HandshakeError) result" where
  "decode_unsigned_be bytes =
     (if bytes = [] \<or> 8 < length bytes then Err (InvalidPqEncoding (length bytes))
      else Ok (foldl (\<lambda>value b. push_bit 8 value OR ucast b) 0 bytes))"

definition unsigned_be_bytes :: "u64 \<Rightarrow> bytes" where
  "unsigned_be_bytes value =
     (let bytes = rev (to_le_u64 value);
          rest = dropWhile (\<lambda>b. b = 0) bytes
      in if rest = [] then [last bytes] else rest)"

definition p_bytes :: "FactoredPq \<Rightarrow> bytes" where
  "p_bytes f = unsigned_be_bytes (fp_p f)"

definition q_bytes :: "FactoredPq \<Rightarrow> bytes" where
  "q_bytes f = unsigned_be_bytes (fp_q f)"

definition factor_res_pq :: "ResPq \<Rightarrow> (FactoredPq, HandshakeError) result" where
  "factor_res_pq response =
     and_then (decode_unsigned_be (rp_pq response)) (\<lambda>pq.
     if pq < 4 \<or> is_prime pq then Err (PqNotSemiprime pq)
     else
       and_then (ok_or (PqFactorizationFailed pq) (pollard_rho_factor pq)) (\<lambda>factor.
       let other = pq div factor
       in if factor = 1 \<or> other = 1 \<or> saturating_mul_u64 factor other \<noteq> pq then Err (PqFactorizationFailed pq)
          else if \<not> is_prime factor \<or> \<not> is_prime other then Err (PqNotSemiprime pq)
          else
            let (p, q) = (if factor < other then (factor, other) else (other, factor))
            in Ok \<lparr>fp_pq = pq, fp_p = p, fp_q = q\<rparr>))"

definition select_server_key_fingerprint :: "ResPq \<Rightarrow> u64 list \<Rightarrow> (u64, HandshakeError) result" where
  "select_server_key_fingerprint response trusted_fingerprints =
     ok_or NoTrustedServerKey
       (find (\<lambda>f. f \<in> set trusted_fingerprints) (rp_server_public_key_fingerprints response))"

definition build_p_q_inner_data_dc ::
  "ResPq \<Rightarrow> FactoredPq \<Rightarrow> bytes \<Rightarrow> i32 \<Rightarrow> (bytes, HandshakeError) result"
where
  "build_p_q_inner_data_dc response factors new_nonce dc_id =
     and_then (decode_unsigned_be (rp_pq response)) (\<lambda>pq.
     if pq \<noteq> fp_pq factors \<or> saturating_mul_u64 (fp_p factors) (fp_q factors) \<noteq> fp_pq factors
     then Err PqFactorsDoNotMatch
     else
       map_err HsTl (written
         [TlU32 P_Q_INNER_DATA_DC_CONSTRUCTOR, TlBytes (rp_pq response), TlBytes (p_bytes factors),
          TlBytes (q_bytes factors), TlI128 (rp_nonce response), TlI128 (rp_server_nonce response),
          TlI256 new_nonce, TlI32 dc_id]))"

definition build_req_dh_params ::
  "ResPq \<Rightarrow> FactoredPq \<Rightarrow> u64 \<Rightarrow> bytes \<Rightarrow> (bytes, HandshakeError) result"
where
  "build_req_dh_params response factors public_key_fingerprint encrypted_inner_data =
     (if public_key_fingerprint \<notin> set (rp_server_public_key_fingerprints response) then Err NoTrustedServerKey
      else if encrypted_inner_data = [] then Err EmptyEncryptedInnerData
      else
        map_err HsTl (written
          [TlU32 REQ_DH_PARAMS_CONSTRUCTOR, TlI128 (rp_nonce response), TlI128 (rp_server_nonce response),
           TlBytes (p_bytes factors), TlBytes (q_bytes factors), TlU64 public_key_fingerprint,
           TlBytes encrypted_inner_data]))"

section \<open>Encryption under the key of the server\<close>

text \<open>The block that one round of the loop builds from the padding and the key it has drawn.\<close>

definition rsa_pad_block :: "MtprotoPrimitives \<Rightarrow> bytes \<Rightarrow> bytes \<Rightarrow> (bytes, HandshakeError) result" where
  "rsa_pad_block pr data_with_padding temp_key =
     (let digest = mp_sha256 pr (temp_key @ data_with_padding);
          data_pad_reversed = rev data_with_padding @ digest
      in and_then (map_err HsCrypto (aes_ige_encrypt pr data_pad_reversed temp_key (replicate 32 0))) (\<lambda>aes_encrypted.
         Ok (map2 (XOR) temp_key (mp_sha256 pr aes_encrypted) @ aes_encrypted)))"

primrec rsa_pad_loop ::
  "nat \<Rightarrow> BigLibrary \<Rightarrow> MtprotoPrimitives \<Rightarrow> bytes \<Rightarrow> nat \<Rightarrow> nat \<Rightarrow> 'r filling \<Rightarrow> ('r, bytes) drawing"
where
  "rsa_pad_loop 0 lib pr data modulus exponent fill_random = draws (Err RsaPadRetryLimit)"
| "rsa_pad_loop (Suc n) lib pr data modulus exponent fill_random =
     and_draw (fill_random (192 - length data)) (\<lambda>padding.
     and_draw (fill_random 32) (\<lambda>temp_key.
     and_draw (draws (rsa_pad_block pr (data @ padding) temp_key)) (\<lambda>key_aes_encrypted.
     let padded = bl_from_bytes_be lib key_aes_encrypted
     in if modulus \<le> padded then rsa_pad_loop n lib pr data modulus exponent fill_random
        else
          let encoded = bl_to_bytes_be lib (bl_modpow lib padded exponent modulus)
          in if 256 < length encoded then draws (Err InvalidRsaResult)
             else draws (Ok (replicate (256 - length encoded) 0 @ encoded)))))"

definition rsa_pad_with_random ::
  "BigLibrary \<Rightarrow> MtprotoPrimitives \<Rightarrow> bytes \<Rightarrow> RsaPublicKey \<Rightarrow> 'r filling \<Rightarrow> ('r, bytes) drawing"
where
  "rsa_pad_with_random lib pr data key fill_random =
     (if 144 < length data then draws (Err (RsaPadDataTooLong (length data)))
      else
        let modulus = bl_from_bytes_be lib (rk_modulus key);
            exponent = bl_from_bytes_be lib (rk_exponent key);
            le = bl_to_bytes_le lib exponent;
            exponent_is_odd = (le \<noteq> [] \<and> hd le AND 1 = 1)
        in if exponent < 3 \<or> \<not> exponent_is_odd \<or> bl_bits lib modulus \<noteq> 2048 then draws (Err InvalidRsaKey)
           else rsa_pad_loop 128 lib pr data modulus exponent fill_random)"

definition rsa_pad ::
  "BigLibrary \<Rightarrow> MtprotoPrimitives \<Rightarrow> ('r \<Rightarrow> nat \<Rightarrow> 'r \<times> bytes option) \<Rightarrow> bytes \<Rightarrow> RsaPublicKey \<Rightarrow> ('r, bytes) drawing"
where
  "rsa_pad lib pr getrandom data key = rsa_pad_with_random lib pr data key (secure_random_fill getrandom)"

section \<open>The parameters of the server\<close>

definition validate_nonce_pair :: "bytes \<Rightarrow> bytes \<Rightarrow> bytes \<Rightarrow> bytes \<Rightarrow> (unit, HandshakeError) result" where
  "validate_nonce_pair nonce server_nonce expected_nonce expected_server_nonce =
     (if nonce \<noteq> expected_nonce then Err NonceMismatch
      else if server_nonce \<noteq> expected_server_nonce then Err ServerNonceMismatch
      else Ok ())"

definition parse_server_dh_params :: "bytes \<Rightarrow> bytes \<Rightarrow> bytes \<Rightarrow> (ServerDhParams, HandshakeError) result" where
  "parse_server_dh_params input expected_nonce expected_server_nonce =
     snd (and_read (hs_read read_u32) (\<lambda>constructor.
          and_read (hs_read read_i128_bytes) (\<lambda>nonce.
          and_read (hs_read read_i128_bytes) (\<lambda>server_nonce.
          and_read (reads (validate_nonce_pair nonce server_nonce expected_nonce expected_server_nonce)) (\<lambda>_.
          and_read
            (if constructor = SERVER_DH_PARAMS_OK_CONSTRUCTOR
             then and_read (hs_read read_bytes) (\<lambda>encrypted_answer. reads (Ok (DhParamsOk encrypted_answer)))
             else if constructor = SERVER_DH_PARAMS_FAIL_CONSTRUCTOR
             then and_read (hs_read read_i128_bytes) (\<lambda>new_nonce_hash. reads (Ok (DhParamsFail new_nonce_hash)))
             else reads (Err (UnexpectedServerDhConstructor constructor))) (\<lambda>response.
          and_read (expect_finished TrailingBodyBytes) (\<lambda>_.
          reads (Ok response)))))))
        (with_limits input DEFAULT_MAX_PLAINTEXT_BODY 64))"

definition derive_tmp_aes_key_iv :: "MtprotoPrimitives \<Rightarrow> bytes \<Rightarrow> bytes \<Rightarrow> bytes \<times> bytes" where
  "derive_tmp_aes_key_iv pr new_nonce server_nonce =
     (let new_server = mp_sha1 pr (new_nonce @ server_nonce);
          server_new = mp_sha1 pr (server_nonce @ new_nonce);
          new_new = mp_sha1 pr (new_nonce @ new_nonce)
      in (new_server @ sub_range server_new 0 12,
          sub_range server_new 12 20 @ new_new @ sub_range new_nonce 0 4))"

definition validate_dh_public_value :: "nat \<Rightarrow> nat \<Rightarrow> (unit, HandshakeError) result" where
  "validate_dh_public_value prime value =
     (let lower_bound = 2 ^ (2048 - 64);
          upper_bound = prime - lower_bound
      in if value < lower_bound \<or> upper_bound < value then Err InvalidDhPublicValue else Ok ())"

definition remainder :: "BigLibrary \<Rightarrow> nat \<Rightarrow> nat \<Rightarrow> nat" where
  "remainder lib prime modulus =
     unat (foldl (\<lambda>value b. push_bit 8 value OR ucast b) (0 :: u32) (bl_to_bytes_be lib (prime mod modulus)))"

definition validate_server_dh_parameters :: "BigLibrary \<Rightarrow> ServerDhInnerData \<Rightarrow> (unit, HandshakeError) result" where
  "validate_server_dh_parameters lib d =
     (if length (sd_dh_prime d) \<noteq> 256 then Err InvalidServerDhParameters
      else
        let prime = bl_from_bytes_be lib (sd_dh_prime d)
        in if bl_bits lib prime \<noteq> 2048 then Err InvalidServerDhParameters
           else
             (case bl_hex_decode lib KNOWN_DH_PRIME_HEX of
                None \<Rightarrow> Err HsPanic
              | Some known_prime \<Rightarrow>
                  if sd_dh_prime d \<noteq> known_prime then Err UntrustedDhPrime
                  else if \<not> generator_fits (remainder lib prime) (sd_generator d) then Err InvalidDhGenerator
                  else validate_dh_public_value prime (bl_from_bytes_be lib (sd_g_a d))))"

definition decrypt_server_dh_inner_data ::
  "BigLibrary \<Rightarrow> MtprotoPrimitives \<Rightarrow> bytes \<Rightarrow> bytes \<Rightarrow> bytes \<Rightarrow> bytes \<Rightarrow> (ServerDhInnerData, HandshakeError) result"
where
  "decrypt_server_dh_inner_data lib pr encrypted_answer new_nonce expected_nonce expected_server_nonce =
     (if encrypted_answer = [] \<or> length encrypted_answer mod 16 \<noteq> 0 then Err InvalidServerDhCiphertext
      else
        let (key, iv) = derive_tmp_aes_key_iv pr new_nonce expected_server_nonce
        in and_then (map_err HsCrypto (aes_ige_decrypt pr encrypted_answer key iv)) (\<lambda>plaintext.
           if length plaintext < 20 + 4 + 16 + 16 + 4 + 4 + 4 + 4 then Err InvalidServerDhAnswer
           else
             let expected_hash = take 20 plaintext;
                 answer = drop 20 plaintext
             in snd (and_read (hs_read read_u32) (\<lambda>constructor.
                  if constructor \<noteq> SERVER_DH_INNER_DATA_CONSTRUCTOR
                  then reads (Err (UnexpectedServerDhInnerConstructor constructor))
                  else
                    and_read (hs_read read_i128_bytes) (\<lambda>nonce.
                    and_read (hs_read read_i128_bytes) (\<lambda>server_nonce.
                    and_read (reads (validate_nonce_pair nonce server_nonce expected_nonce expected_server_nonce)) (\<lambda>_.
                    and_read (hs_read read_i32) (\<lambda>generator.
                    and_read (hs_read read_bytes) (\<lambda>dh_prime.
                    and_read (hs_read read_bytes) (\<lambda>g_a.
                    and_read (hs_read read_i32) (\<lambda>server_time r.
                    let answer_length = reader_position r;
                        padding_length = length answer - answer_length
                    in if 15 < padding_length then (r, Err (InvalidServerDhPadding padding_length))
                       else if expected_hash \<noteq> mp_sha1 pr (take answer_length answer)
                       then (r, Err ServerDhHashMismatch)
                       else if generator <s 2 \<or> 7 <s generator \<or> length dh_prime \<noteq> 256 \<or> g_a = [] \<or> 256 < length g_a
                       then (r, Err InvalidServerDhParameters)
                       else
                         let result = \<lparr>sd_nonce = nonce, sd_server_nonce = server_nonce, sd_generator = generator,
                               sd_dh_prime = dh_prime, sd_g_a = g_a, sd_server_time = server_time\<rparr>
                         in (r, and_then (validate_server_dh_parameters lib result) (\<lambda>_. Ok result))))))))))
                (with_limits answer (1024 * 1024) 64))))"

section \<open>The key of the client\<close>

definition biguint_to_minimal_be :: "BigLibrary \<Rightarrow> nat \<Rightarrow> bytes" where
  "biguint_to_minimal_be lib value =
     (let bytes = bl_to_bytes_be lib value in if bytes = [] then [0] else bytes)"

definition biguint_to_fixed_256 :: "BigLibrary \<Rightarrow> nat \<Rightarrow> (bytes, HandshakeError) result" where
  "biguint_to_fixed_256 lib value =
     (let bytes = bl_to_bytes_be lib value
      in if 256 < length bytes then Err InvalidDhPublicValue else Ok (replicate (256 - length bytes) 0 @ bytes))"

text \<open>The exponent: what was drawn, or 2 if it is zero.\<close>

definition dh_exponent :: "BigLibrary \<Rightarrow> bytes \<Rightarrow> nat" where
  "dh_exponent lib exponent_bytes =
     (let exponent = bl_from_bytes_be lib exponent_bytes in if bl_bits lib exponent = 0 then 2 else exponent)"

definition aux_hash :: "MtprotoPrimitives \<Rightarrow> AuthKey \<Rightarrow> u64" where
  "aux_hash pr key = from_le (sub_range (mp_sha1 pr (auth_key_bytes key)) 0 8)"

definition initial_salt :: "bytes \<Rightarrow> bytes \<Rightarrow> i64" where
  "initial_salt new_nonce server_nonce = from_le (map2 (XOR) (take 8 new_nonce) (take 8 server_nonce))"

definition client_dh_inner :: "BigLibrary \<Rightarrow> ServerDhInnerData \<Rightarrow> u64 \<Rightarrow> nat \<Rightarrow> (bytes, HandshakeError) result" where
  "client_dh_inner lib d retry_id g_b =
     map_err HsTl (written
       [TlU32 CLIENT_DH_INNER_DATA_CONSTRUCTOR, TlI128 (sd_nonce d), TlI128 (sd_server_nonce d), TlU64 retry_id,
        TlBytes (biguint_to_minimal_be lib g_b)])"

definition prepare_client_dh ::
  "BigLibrary \<Rightarrow> MtprotoPrimitives \<Rightarrow> ServerDhInnerData \<Rightarrow> bytes \<Rightarrow> u64 \<Rightarrow> 'r filling \<Rightarrow> ('r, PreparedClientDh) drawing"
where
  "prepare_client_dh lib pr d new_nonce retry_id fill_random =
     and_draw (draws (validate_server_dh_parameters lib d)) (\<lambda>_.
     let prime = bl_from_bytes_be lib (sd_dh_prime d);
         g_a = bl_from_bytes_be lib (sd_g_a d)
     in and_draw (fill_random 256) (\<lambda>exponent_bytes.
        let exponent = dh_exponent lib exponent_bytes;
            generator = unat (sd_generator d);
            g_b = bl_modpow lib generator exponent prime
        in and_draw (draws (validate_dh_public_value prime g_b)) (\<lambda>_.
           let auth_key_number = bl_modpow lib g_a exponent prime
           in and_draw (draws (biguint_to_fixed_256 lib auth_key_number)) (\<lambda>auth_key_bytes.
              and_draw (draws (map_err HsCrypto (AuthKey_from_slice auth_key_bytes))) (\<lambda>auth_key.
              and_draw (draws (client_dh_inner lib d retry_id g_b)) (\<lambda>inner.
              let answer_with_hash = mp_sha1 pr inner @ inner;
                  padding_length = (16 - length answer_with_hash mod 16) mod 16
              in and_draw (if 0 < padding_length then fill_random padding_length else draws (Ok [])) (\<lambda>padding.
                 let (key, iv) = derive_tmp_aes_key_iv pr new_nonce (sd_server_nonce d)
                 in and_draw (draws (map_err HsCrypto (aes_ige_encrypt pr (answer_with_hash @ padding) key iv))) (\<lambda>encrypted_data.
                    and_draw (draws (map_err HsTl (written
                      [TlU32 SET_CLIENT_DH_PARAMS_CONSTRUCTOR, TlI128 (sd_nonce d), TlI128 (sd_server_nonce d),
                       TlBytes encrypted_data]))) (\<lambda>request.
                    draws (Ok \<lparr>pd_request_body = request, pd_auth_key = auth_key,
                               pd_auth_key_aux_hash = aux_hash pr auth_key,
                               pd_server_salt = initial_salt new_nonce (sd_server_nonce d)\<rparr>))))))))))"

definition new_nonce_hash :: "MtprotoPrimitives \<Rightarrow> bytes \<Rightarrow> u8 \<Rightarrow> u64 \<Rightarrow> bytes" where
  "new_nonce_hash pr new_nonce tag auth_key_aux_hash =
     sub_range (mp_sha1 pr (new_nonce @ [tag] @ to_le_u64 auth_key_aux_hash)) 4 20"

definition parse_dh_gen_result ::
  "MtprotoPrimitives \<Rightarrow> bytes \<Rightarrow> bytes \<Rightarrow> bytes \<Rightarrow> bytes \<Rightarrow> u64 \<Rightarrow> (DhGenResult, HandshakeError) result"
where
  "parse_dh_gen_result pr input expected_nonce expected_server_nonce new_nonce auth_key_aux_hash =
     snd (and_read (hs_read read_u32) (\<lambda>constructor.
          and_read (hs_read read_i128_bytes) (\<lambda>nonce.
          and_read (hs_read read_i128_bytes) (\<lambda>server_nonce.
          and_read (reads (validate_nonce_pair nonce server_nonce expected_nonce expected_server_nonce)) (\<lambda>_.
          and_read (hs_read read_i128_bytes) (\<lambda>actual_hash.
          and_read (expect_finished TrailingBodyBytes) (\<lambda>_.
          reads (and_then
            (if constructor = DH_GEN_OK_CONSTRUCTOR then Ok (DhGenOk, 1)
             else if constructor = DH_GEN_RETRY_CONSTRUCTOR then Ok (DhGenRetry, 2)
             else if constructor = DH_GEN_FAIL_CONSTRUCTOR then Ok (DhGenFail, 3)
             else Err (UnexpectedDhGenConstructor constructor)) (\<lambda>(result, tag).
            if actual_hash \<noteq> new_nonce_hash pr new_nonce tag auth_key_aux_hash then Err DhGenHashMismatch
            else Ok result))))))))
        (TlReader_new input))"

section \<open>The state machine\<close>

definition AuthKeyHandshake_new :: "bytes \<Rightarrow> AuthKeyHandshake" where
  "AuthKeyHandshake_new nonce =
     \<lparr>hk_nonce = nonce, hk_state = HsReady, hk_server_nonce = None, hk_new_nonce = None, hk_server_dh = None,
      hk_prepared_client_dh = None\<rparr>"

definition begin_handshake :: "AuthKeyHandshake \<Rightarrow> i64 \<Rightarrow> AuthKeyHandshake \<times> (PlaintextEnvelope, HandshakeError) result" where
  "begin_handshake h message_id =
     (if hk_state h \<noteq> HsReady then (h, Err (InvalidState ''req_pq_multi already sent''))
      else
        let w = write_u32 TlWriter_new REQ_PQ_MULTI_CONSTRUCTOR;
            w = write_i128_bytes w (hk_nonce h)
        in (h\<lparr>hk_state := AwaitingResPq\<rparr>, Ok \<lparr>pe_message_id = message_id, pe_body = tw_bytes w\<rparr>))"

definition receive_res_pq :: "AuthKeyHandshake \<Rightarrow> PlaintextEnvelope \<Rightarrow> AuthKeyHandshake \<times> (ResPq, HandshakeError) result" where
  "receive_res_pq h envelope =
     (if hk_state h \<noteq> AwaitingResPq then (h, Err (InvalidState ''not awaiting resPQ''))
      else
        (case parse_res_pq (pe_body envelope) of
           Inl e \<Rightarrow> (h, Err e)
         | Inr response \<Rightarrow>
             if rp_nonce response \<noteq> hk_nonce h then (h, Err NonceMismatch)
             else if rp_pq response = [] then (h, Err EmptyPq)
             else if rp_server_public_key_fingerprints response = [] then (h, Err MissingServerKeyFingerprint)
             else (h\<lparr>hk_server_nonce := Some (rp_server_nonce response), hk_state := ResPqReceived response\<rparr>, Ok response)))"

definition prepare_req_dh_params_with_random ::
  "BigLibrary \<Rightarrow> MtprotoPrimitives \<Rightarrow> AuthKeyHandshake \<Rightarrow> i64 \<Rightarrow> i32 \<Rightarrow> bool \<Rightarrow> 'r filling \<Rightarrow> 'r
     \<Rightarrow> AuthKeyHandshake \<times> 'r \<times> (PlaintextEnvelope, HandshakeError) result"
where
  "prepare_req_dh_params_with_random lib pr h message_id dc_id test_environment fill_random r =
     (case hk_state h of
        ResPqReceived response \<Rightarrow>
          (case and_draw (draws (factor_res_pq response)) (\<lambda>factors.
                and_draw (draws (telegram_server_rsa_key lib test_environment)) (\<lambda>key.
                and_draw (draws (fingerprint pr key)) (\<lambda>fp.
                if fp \<notin> set (rp_server_public_key_fingerprints response) then draws (Err NoTrustedServerKey)
                else
                  and_draw (fill_random 32) (\<lambda>new_nonce.
                  and_draw (draws (build_p_q_inner_data_dc response factors new_nonce dc_id)) (\<lambda>inner.
                  and_draw (rsa_pad_with_random lib pr inner key fill_random) (\<lambda>encrypted.
                  and_draw (draws (build_req_dh_params response factors fp encrypted)) (\<lambda>body.
                  draws (Ok (new_nonce, body))))))))) r of
             (r', Inl e) \<Rightarrow> (h, r', Err e)
           | (r', Inr (new_nonce, body)) \<Rightarrow>
               (h\<lparr>hk_new_nonce := Some new_nonce, hk_state := AwaitingServerDh\<rparr>, r',
                Ok \<lparr>pe_message_id = message_id, pe_body = body\<rparr>))
      | _ \<Rightarrow> (h, r, Err (InvalidState ''resPQ is not available'')))"

definition prepare_req_dh_params ::
  "BigLibrary \<Rightarrow> MtprotoPrimitives \<Rightarrow> ('r \<Rightarrow> nat \<Rightarrow> 'r \<times> bytes option) \<Rightarrow> AuthKeyHandshake \<Rightarrow> i64 \<Rightarrow> i32 \<Rightarrow> bool \<Rightarrow> 'r
     \<Rightarrow> AuthKeyHandshake \<times> 'r \<times> (PlaintextEnvelope, HandshakeError) result"
where
  "prepare_req_dh_params lib pr getrandom h message_id dc_id test_environment =
     prepare_req_dh_params_with_random lib pr h message_id dc_id test_environment (secure_random_fill getrandom)"

definition receive_server_dh_with_random ::
  "BigLibrary \<Rightarrow> MtprotoPrimitives \<Rightarrow> AuthKeyHandshake \<Rightarrow> PlaintextEnvelope \<Rightarrow> i64 \<Rightarrow> 'r filling \<Rightarrow> 'r
     \<Rightarrow> AuthKeyHandshake \<times> 'r \<times> (PlaintextEnvelope, HandshakeError) result"
where
  "receive_server_dh_with_random lib pr h envelope client_message_id fill_random r =
     (if hk_state h \<noteq> AwaitingServerDh then (h, r, Err (InvalidState ''not awaiting server_DH_params''))
      else
        (case and_draw (draws (ok_or MissingHandshakeData (hk_new_nonce h))) (\<lambda>new_nonce.
              and_draw (draws (ok_or MissingHandshakeData (hk_server_nonce h))) (\<lambda>server_nonce.
              and_draw (draws (parse_server_dh_params (pe_body envelope) (hk_nonce h) server_nonce)) (\<lambda>response.
              and_draw
                (draws (case response of
                   DhParamsOk encrypted_answer \<Rightarrow> Ok encrypted_answer
                 | DhParamsFail hash \<Rightarrow>
                     if hash \<noteq> sub_range (mp_sha1 pr new_nonce) 4 20 then Err ServerDhHashMismatch
                     else Err ServerDhRejected)) (\<lambda>encrypted_answer.
              and_draw (draws (decrypt_server_dh_inner_data lib pr encrypted_answer new_nonce (hk_nonce h) server_nonce)) (\<lambda>server_dh.
              and_draw (prepare_client_dh lib pr server_dh new_nonce 0 fill_random) (\<lambda>prepared.
              draws (Ok (server_dh, prepared)))))))) r of
           (r', Inl e) \<Rightarrow> (h, r', Err e)
         | (r', Inr (server_dh, prepared)) \<Rightarrow>
             (h\<lparr>hk_server_dh := Some server_dh, hk_prepared_client_dh := Some prepared, hk_state := AwaitingDhGen\<rparr>, r',
              Ok \<lparr>pe_message_id = client_message_id, pe_body = pd_request_body prepared\<rparr>)))"

definition receive_server_dh ::
  "BigLibrary \<Rightarrow> MtprotoPrimitives \<Rightarrow> ('r \<Rightarrow> nat \<Rightarrow> 'r \<times> bytes option) \<Rightarrow> AuthKeyHandshake \<Rightarrow> PlaintextEnvelope \<Rightarrow> i64 \<Rightarrow> 'r
     \<Rightarrow> AuthKeyHandshake \<times> 'r \<times> (PlaintextEnvelope, HandshakeError) result"
where
  "receive_server_dh lib pr getrandom h envelope client_message_id =
     receive_server_dh_with_random lib pr h envelope client_message_id (secure_random_fill getrandom)"

text \<open>
  The answer to the value of the client. When the key is established the prepared values are taken
  before the time of the server is looked up.
\<close>

definition receive_dh_gen ::
  "BigLibrary \<Rightarrow> MtprotoPrimitives \<Rightarrow> ('r \<Rightarrow> nat \<Rightarrow> 'r \<times> bytes option) \<Rightarrow> AuthKeyHandshake \<Rightarrow> PlaintextEnvelope \<Rightarrow> i64 \<Rightarrow> 'r
     \<Rightarrow> AuthKeyHandshake \<times> 'r \<times> (DhGenAction, HandshakeError) result"
where
  "receive_dh_gen lib pr getrandom h envelope retry_message_id r =
     (if hk_state h \<noteq> AwaitingDhGen then (h, r, Err (InvalidState ''not awaiting dh_gen result''))
      else
        (case (hk_new_nonce h, hk_prepared_client_dh h, hk_server_nonce h) of
           (Some new_nonce, Some prepared, Some server_nonce) \<Rightarrow>
             (case parse_dh_gen_result pr (pe_body envelope) (hk_nonce h) server_nonce new_nonce
                     (pd_auth_key_aux_hash prepared) of
                Inl e \<Rightarrow> (h, r, Err e)
              | Inr DhGenOk \<Rightarrow>
                  (case hk_server_dh h of
                     None \<Rightarrow> (h\<lparr>hk_prepared_client_dh := None\<rparr>, r, Err MissingHandshakeData)
                   | Some server_dh \<Rightarrow>
                       (h\<lparr>hk_prepared_client_dh := None, hk_state := HsComplete\<rparr>, r,
                        Ok (Established \<lparr>ek_auth_key = pd_auth_key prepared, ek_server_salt = pd_server_salt prepared,
                                          ek_server_time = sd_server_time server_dh\<rparr>)))
              | Inr DhGenRetry \<Rightarrow>
                  (case hk_server_dh h of
                     None \<Rightarrow> (h, r, Err MissingHandshakeData)
                   | Some server_dh \<Rightarrow>
                       (case prepare_client_dh lib pr server_dh new_nonce (pd_auth_key_aux_hash prepared)
                               (secure_random_fill getrandom) r of
                          (r', Inl e) \<Rightarrow> (h, r', Err e)
                        | (r', Inr following) \<Rightarrow>
                            (h\<lparr>hk_prepared_client_dh := Some following\<rparr>, r',
                             Ok (DhGenRetryRequest \<lparr>pe_message_id = retry_message_id, pe_body = pd_request_body following\<rparr>))))
              | Inr DhGenFail \<Rightarrow> (h, r, Err DhGenRejected))
         | _ \<Rightarrow> (h, r, Err MissingHandshakeData)))"

definition pending_auth_key_aux_hash :: "AuthKeyHandshake \<Rightarrow> u64 option" where
  "pending_auth_key_aux_hash h = map_option pd_auth_key_aux_hash (hk_prepared_client_dh h)"

end
