(* ===== verification/Handshake_Safety.thy ===== *)
theory Handshake_Safety
  imports Handshake
begin

text \<open>
  What the key exchange guarantees: the factors it sends are the factors of the number of the server,
  client and server compute the same key, and a key is established only once, for parameters of the
  trusted group, and after the server has confirmed exactly this key.
\<close>

section \<open>The factors\<close>

lemma semiprime_divisor:
  assumes "prime_number a" "prime_number b" "d dvd a * b" "1 < d" "d < a * b"
  shows "d = a \<or> d = b"
proof (cases "a dvd d")
  case True
  then obtain k where k: "d = a * k" by (elim dvdE)
  have "a \<noteq> 0" using assms(1) by (auto simp: prime_number_def)
  with assms(3) k have "k dvd b" by simp
  then have "k = 1 \<or> k = b" using assms(2) by (simp add: prime_number_def)
  then show ?thesis using k assms(5) by auto
next
  case False
  then have "d dvd b" using assms(3) prime_coprime [OF assms(1)] by (metis coprime_commute coprime_dvd_mult_right_iff)
  then show ?thesis using assms(2,4) by (auto simp: prime_number_def)
qed

lemma factor_res_pq_cases:
  assumes "decode_unsigned_be (rp_pq response) = Ok pq" "4 \<le> unat pq" "\<not> is_prime pq"
  shows "factor_res_pq response =
    (case pollard_rho_factor pq of
       None \<Rightarrow> Err (PqFactorizationFailed pq)
     | Some factor \<Rightarrow>
         let other = pq div factor
         in if \<not> is_prime factor \<or> \<not> is_prime other then Err (PqNotSemiprime pq)
            else Ok \<lparr>fp_pq = pq, fp_p = min factor other, fp_q = max factor other\<rparr>)"
proof (cases "pollard_rho_factor pq")
  case (Some d)
  have "\<not> pq < 4" using assms(2) by (simp add: word_less_nat_alt)
  note d = pollard_rho_divisor [OF Some assms(2)]
  let ?o = "pq div d"
  have prod: "unat d * unat ?o = unat pq" using d(1) by (simp add: unat_div)
  have "unat d \<noteq> 1" "unat ?o \<noteq> 1" using d(2,3) prod by auto
  then have ne: "d \<noteq> 1" "?o \<noteq> 1" by auto
  have "unat d * unat ?o < 2 ^ 64" using unat_u64 [of pq] by (simp only: prod)
  moreover from this have "unat (d * ?o) = unat pq" using unat_mult_lem [of d ?o] prod by simp
  then have "d * ?o = pq" by (simp only: word_unat_eq_iff)
  ultimately have "saturating_mul_u64 d ?o = pq" by (simp add: saturating_mul_u64_def)
  with assms Some ne show ?thesis
    by (simp add: factor_res_pq_def ok_or_def Let_def min_def max_def \<open>\<not> pq < 4\<close>) (auto simp: not_less)
next
  case None
  then show ?thesis using assms by (simp add: factor_res_pq_def ok_or_def word_less_nat_alt)
qed

text \<open>
  The factors are right. Whatever number the server sends, factors that are returned are greater
  than one, in ascending order and multiply to it; a prime is refused; and if the number is the
  product of two primes, and the probabilistic test does not take it for a prime, the result can only
  be these two primes or the report that no divisor was found.
\<close>

theorem pq_factored:
  assumes "decode_unsigned_be (rp_pq response) = Ok pq"
  shows "(\<forall>f. factor_res_pq response = Ok f \<longrightarrow>
       fp_pq f = pq \<and> unat (fp_p f) * unat (fp_q f) = unat pq \<and> 1 < unat (fp_p f) \<and> fp_p f \<le> fp_q f)
    \<and> (prime_number (unat pq) \<longrightarrow> factor_res_pq response = Err (PqNotSemiprime pq))
    \<and> (\<forall>a b. prime_number a \<and> prime_number b \<and> a \<le> b \<and> unat pq = a * b \<and> \<not> is_prime pq \<longrightarrow>
         factor_res_pq response = Ok \<lparr>fp_pq = pq, fp_p = of_nat a, fp_q = of_nat b\<rparr>
       \<or> factor_res_pq response = Err (PqFactorizationFailed pq))"
proof (intro conjI allI impI)
  fix f
  assume ok: "factor_res_pq response = Ok f"
  then have big: "4 \<le> unat pq" "\<not> is_prime pq"
    using assms by (auto simp: factor_res_pq_def word_less_nat_alt split: if_splits)
  then obtain d where d: "pollard_rho_factor pq = Some d"
      "f = \<lparr>fp_pq = pq, fp_p = min d (pq div d), fp_q = max d (pq div d)\<rparr>"
    using ok factor_res_pq_cases [OF assms big] by (auto simp: Let_def split: option.splits if_splits)
  note div = pollard_rho_divisor [OF d(1) big(1)]
  have prod: "unat d * unat (pq div d) = unat pq" using div(1) by (simp add: unat_div)
  moreover have "1 < unat (pq div d)" 
    using div(3) prod by (intro ccontr [of "1 < unat (pq div d)"]) (auto simp: not_less le_Suc_eq)
  ultimately show "fp_pq f = pq" "unat (fp_p f) * unat (fp_q f) = unat pq" "1 < unat (fp_p f)" "fp_p f \<le> fp_q f"
    using div(2) by (auto simp: d(2) min_def max_def mult.commute)
next
  assume "prime_number (unat pq)"
  from is_prime_accepts_primes [OF this] show "factor_res_pq response = Err (PqNotSemiprime pq)"
    using assms by (simp add: factor_res_pq_def)
next
  fix a b
  assume ab: "prime_number a \<and> prime_number b \<and> a \<le> b \<and> unat pq = a * b \<and> \<not> is_prime pq"
  then have "1 < a" "1 < b" by (auto simp: prime_number_def)
  then have "2 * 2 \<le> a * b" by (intro mult_le_mono) simp_all
  then have big: "4 \<le> unat pq" using ab by simp
  have small: "a < 2 ^ 64" "b < 2 ^ 64" using unat_u64 [of pq] \<open>1 < a\<close> \<open>1 < b\<close> ab
    by (auto intro: order.strict_trans1 [of _ "a * b"])
  then have words: "unat (of_nat a :: u64) = a" "unat (of_nat b :: u64) = b"
    by (simp_all add: unat_of_nat)
  show "factor_res_pq response = Ok \<lparr>fp_pq = pq, fp_p = of_nat a, fp_q = of_nat b\<rparr>
      \<or> factor_res_pq response = Err (PqFactorizationFailed pq)"
  proof (cases "pollard_rho_factor pq")
    case (Some d)
    note div = pollard_rho_divisor [OF Some big]
    have "unat d = a \<or> unat d = b"
      using semiprime_divisor [of a b "unat d"] div ab by simp
    then have cases: "d = of_nat a \<and> pq div d = of_nat b \<or> d = of_nat b \<and> pq div d = of_nat a"
      using ab words \<open>1 < a\<close> \<open>1 < b\<close> by (auto simp: word_unat_eq_iff unat_div)
    have "is_prime (of_nat a)" "is_prime (of_nat b)"
      using ab words by (auto intro: is_prime_accepts_primes)
    then show ?thesis
      using cases ab factor_res_pq_cases [OF assms big] Some words
      by (auto simp: Let_def min_def max_def word_le_nat_alt)
  qed (use factor_res_pq_cases [OF assms big] ab in simp)
qed

section \<open>Draws\<close>

text \<open>A random source fills the buffer it is given.\<close>

definition fills :: "'r filling \<Rightarrow> bool" where
  "fills fill \<longleftrightarrow> (\<forall>n r r' bs. fill n r = (r', Inr bs) \<longrightarrow> length bs = n)"

section \<open>Both sides compute the same key\<close>

text \<open>
  What the server does with the request of the client, from the description of the protocol: it reads
  the request, decrypts the inner data with the key made of the nonces, checks its digest and returns
  both nonces, the retry id and the public value of the client.
\<close>

definition server_opens ::
  "MtprotoPrimitives \<Rightarrow> bytes \<Rightarrow> bytes \<Rightarrow> bytes \<Rightarrow> (bytes \<times> bytes \<times> u64 \<times> nat) option"
where
  "server_opens pr new_nonce server_nonce body =
     (case read_values [TlU32 0, TlI128 [], TlI128 [], TlBytes []] (TlReader_new body) of
        (r, Inr [TlU32 c, TlI128 n, TlI128 s, TlBytes encrypted]) \<Rightarrow>
          if c \<noteq> SET_CLIENT_DH_PARAMS_CONSTRUCTOR \<or> \<not> is_finished r then None
          else
            let (key, iv) = derive_tmp_aes_key_iv pr new_nonce server_nonce
            in (case aes_ige_decrypt pr encrypted key iv of
                  Inl _ \<Rightarrow> None
                | Inr plaintext \<Rightarrow>
                    let answer = drop 20 plaintext
                    in (case read_values [TlU32 0, TlI128 [], TlI128 [], TlU64 0, TlBytes []] (TlReader_new answer) of
                          (r, Inr [TlU32 c, TlI128 n', TlI128 s', TlU64 retry, TlBytes g_b]) \<Rightarrow>
                            if c = CLIENT_DH_INNER_DATA_CONSTRUCTOR \<and> n' = n \<and> s' = s
                              \<and> take 20 plaintext = mp_sha1 pr (take (reader_position r) answer)
                            then Some (n, s, retry, be_value g_b) else None
                        | _ \<Rightarrow> None))
      | _ \<Rightarrow> None)"

text \<open>What a prepared exchange has gone through, for the exponent of the client.\<close>

definition prepared_with ::
  "BigLibrary \<Rightarrow> MtprotoPrimitives \<Rightarrow> ServerDhInnerData \<Rightarrow> bytes \<Rightarrow> u64 \<Rightarrow> PreparedClientDh \<Rightarrow> nat \<Rightarrow> bool"
where
  "prepared_with lib pr d new_nonce retry_id prepared x \<longleftrightarrow>
     (let prime = bl_from_bytes_be lib (sd_dh_prime d);
          g_b = bl_modpow lib (unat (sd_generator d)) x prime
      in validate_server_dh_parameters lib d = Ok () \<and> validate_dh_public_value prime g_b = Ok ()
       \<and> biguint_to_fixed_256 lib (bl_modpow lib (bl_from_bytes_be lib (sd_g_a d)) x prime)
           = Ok (auth_key_bytes (pd_auth_key prepared))
       \<and> length (auth_key_bytes (pd_auth_key prepared)) = 256
       \<and> pd_auth_key_aux_hash prepared = aux_hash pr (pd_auth_key prepared)
       \<and> pd_server_salt prepared = initial_salt new_nonce (sd_server_nonce d)
       \<and> (\<exists>inner padding encrypted key iv.
            client_dh_inner lib d retry_id g_b = Ok inner
          \<and> derive_tmp_aes_key_iv pr new_nonce (sd_server_nonce d) = (key, iv)
          \<and> aes_ige_encrypt pr (mp_sha1 pr inner @ inner @ padding) key iv = Ok encrypted
          \<and> written [TlU32 SET_CLIENT_DH_PARAMS_CONSTRUCTOR, TlI128 (sd_nonce d), TlI128 (sd_server_nonce d),
                TlBytes encrypted] = Ok (pd_request_body prepared)))"

lemma AuthKey_from_slice_Ok: "AuthKey_from_slice v = Inr k \<longleftrightarrow> k = AuthKey v \<and> length v = 256"
  by (auto simp: AuthKey_from_slice_def AUTH_KEY_LENGTH_def)

lemma prepare_client_dh_Ok:
  assumes "prepare_client_dh lib pr d new_nonce retry_id fill r = (r', Inr prepared)"
  shows "\<exists>x. prepared_with lib pr d new_nonce retry_id prepared x"
proof -
  obtain key iv where ki: "derive_tmp_aes_key_iv pr new_nonce (sd_server_nonce d) = (key, iv)" by fastforce
  let ?p = "bl_from_bytes_be lib (sd_dh_prime d)"
  obtain eb kb inner padding encrypted request where
    "validate_server_dh_parameters lib d = Ok ()"
    "validate_dh_public_value ?p (bl_modpow lib (unat (sd_generator d)) (dh_exponent lib eb) ?p) = Ok ()"
    "biguint_to_fixed_256 lib (bl_modpow lib (bl_from_bytes_be lib (sd_g_a d)) (dh_exponent lib eb) ?p) = Ok kb"
    "length kb = 256"
    "client_dh_inner lib d retry_id (bl_modpow lib (unat (sd_generator d)) (dh_exponent lib eb) ?p) = Ok inner"
    "aes_ige_encrypt pr (mp_sha1 pr inner @ inner @ padding) key iv = Ok encrypted"
    "written [TlU32 SET_CLIENT_DH_PARAMS_CONSTRUCTOR, TlI128 (sd_nonce d), TlI128 (sd_server_nonce d),
       TlBytes encrypted] = Ok request"
    "prepared = \<lparr>pd_request_body = request, pd_auth_key = AuthKey kb, pd_auth_key_aux_hash = aux_hash pr (AuthKey kb),
       pd_server_salt = initial_salt new_nonce (sd_server_nonce d)\<rparr>"
    using assms
    by (simp add: prepare_client_dh_def Let_def and_draw_Ok map_err_Inr_iff AuthKey_from_slice_Ok ki if_distrib [of "\<lambda>f. f _"])
      blast
  then show ?thesis unfolding prepared_with_def Let_def ki by (intro exI [of _ "dh_exponent lib eb"]) auto
qed

lemma tmp_lengths:
  assumes "primitive_laws pr" "length new_nonce = 32" "derive_tmp_aes_key_iv pr new_nonce server_nonce = (key, iv)"
  shows "length key = 32" "length iv = 32"
  using assms by (auto simp: derive_tmp_aes_key_iv_def Let_def primitive_laws_def sub_range_def)

lemma fixed_256_value:
  assumes "big_laws lib" "biguint_to_fixed_256 lib n = Ok bs"
  shows "be_value bs = n"
  using assms by (auto simp: biguint_to_fixed_256_def Let_def be_value_append big_lawsD(2) split: if_splits)

lemma minimal_be_value: "big_laws lib \<Longrightarrow> be_value (biguint_to_minimal_be lib n) = n"
  using big_lawsD(2) [of lib n] be_value_zeros [of 1] by (auto simp: biguint_to_minimal_be_def Let_def)

lemma server_reads_request:
  assumes "length n = 16" "length s = 16" and w: "written [TlU32 c, TlI128 n, TlI128 s, TlBytes encrypted] = Ok body"
  shows "\<exists>r. read_values [TlU32 0, TlI128 [], TlI128 [], TlBytes []] (TlReader_new body)
      = (r, Ok [TlU32 c, TlI128 n, TlI128 s, TlBytes encrypted]) \<and> is_finished r"
    "length encrypted < 2 ^ 24"
proof -
  have len: "length encrypted < 2 ^ 24" "body = to_le 4 c @ n @ s @ enc_bytes encrypted"
    using w by (auto simp: written_outcome split: if_splits)
  have "length body < 2 ^ 64" using len length_enc_bytes_le [of encrypted] assms(1,2) by simp
  moreover have "parses DEFAULT_MAX_BYTES DEFAULT_MAX_VECTOR_LENGTH
      (read_values [TlU32 0, TlI128 [], TlI128 [], TlBytes []]) body [TlU32 c, TlI128 n, TlI128 s, TlBytes encrypted]"
    using written_Ok(1) [OF w, of DEFAULT_MAX_BYTES DEFAULT_MAX_VECTOR_LENGTH] assms(1,2) len(1)
    by (simp add: DEFAULT_MAX_BYTES_def)
  ultimately show "\<exists>r. read_values [TlU32 0, TlI128 [], TlI128 [], TlBytes []] (TlReader_new body)
      = (r, Ok [TlU32 c, TlI128 n, TlI128 s, TlBytes encrypted]) \<and> is_finished r"
    unfolding TlReader_new_limits using parses_whole whole_finished by (metis (no_types, lifting))
  show "length encrypted < 2 ^ 24" by (rule len(1))
qed

lemma server_reads_inner:
  assumes "length n = 16" "length s = 16" "length (inner @ padding) < 2 ^ 64"
    and w: "written [TlU32 c, TlI128 n, TlI128 s, TlU64 retry, TlBytes g_b] = Ok inner"
  shows "\<exists>r. read_values [TlU32 0, TlI128 [], TlI128 [], TlU64 0, TlBytes []] (TlReader_new (inner @ padding))
      = (r, Ok [TlU32 c, TlI128 n, TlI128 s, TlU64 retry, TlBytes g_b]) \<and> reader_position r = length inner"
proof -
  let ?r = "TlReader_new (inner @ padding)"
  have "length g_b < 2 ^ 24" using w by (auto simp: written_outcome split: if_splits)
  then have "parses DEFAULT_MAX_BYTES DEFAULT_MAX_VECTOR_LENGTH
      (read_values [TlU32 0, TlI128 [], TlI128 [], TlU64 0, TlBytes []]) inner [TlU32 c, TlI128 n, TlI128 s, TlU64 retry, TlBytes g_b]"
    using written_Ok(1) [OF w, of DEFAULT_MAX_BYTES DEFAULT_MAX_VECTOR_LENGTH] assms(1,2)
    by (simp add: DEFAULT_MAX_BYTES_def)
  moreover have "reader_ok ?r" "unread ?r = inner @ padding" "tr_max_bytes ?r = DEFAULT_MAX_BYTES"
    "tr_max_vector_length ?r = DEFAULT_MAX_VECTOR_LENGTH" "tr_offset ?r = 0"
    using assms(3) by (simp_all add: TlReader_new_def reader_ok_def unread_def)
  ultimately have "read_values [TlU32 0, TlI128 [], TlI128 [], TlU64 0, TlBytes []] ?r
      = (advance (length inner) ?r, Ok [TlU32 c, TlI128 n, TlI128 s, TlU64 retry, TlBytes g_b])"
    unfolding parses_def by blast
  then show ?thesis using \<open>tr_offset ?r = 0\<close> by (auto simp: reader_position_def)
qed

lemma trusted_parameters:
  assumes "big_laws lib" "validate_server_dh_parameters lib d = Ok ()"
  shows "sd_dh_prime d = known_prime_bytes" "2 ^ 1984 \<le> be_value (sd_g_a d)"
    "be_value (sd_g_a d) \<le> be_value known_prime_bytes - 2 ^ 1984" "0 < be_value (sd_dh_prime d)"
proof -
  show "sd_dh_prime d = known_prime_bytes" and "2 ^ 1984 \<le> be_value (sd_g_a d)"
    "be_value (sd_g_a d) \<le> be_value known_prime_bytes - 2 ^ 1984"
    using assms(2) known_prime_decodes [OF assms(1)]
    by (auto simp: validate_server_dh_parameters_def validate_dh_public_value_def Let_def big_lawsD(1) [OF assms(1)] not_less
        simp del: power_numeral split: if_splits)
  then show "0 < be_value (sd_dh_prime d)"
    using known_prime_large by (auto intro: order.strict_trans2 [of 0 "2 ^ 2047"])
qed

lemma prepared_with_key:
  assumes "big_laws lib" "prepared_with lib pr d new_nonce retry_id prepared x"
  shows "be_value (auth_key_bytes (pd_auth_key prepared)) = be_value (sd_g_a d) ^ x mod be_value known_prime_bytes"
proof -
  have ok: "validate_server_dh_parameters lib d = Ok ()"
    "biguint_to_fixed_256 lib (bl_modpow lib (bl_from_bytes_be lib (sd_g_a d)) x (bl_from_bytes_be lib (sd_dh_prime d)))
       = Ok (auth_key_bytes (pd_auth_key prepared))"
    using assms(2) by (simp_all add: prepared_with_def Let_def)
  note t = trusted_parameters [OF assms(1) ok(1)]
  from fixed_256_value [OF assms(1) ok(2)] show ?thesis
    using t(4) by (simp add: big_lawsD(1,5) [OF assms(1)] t(1))
qed

text \<open>
  What the server reads in the request of a prepared exchange: it opens the request and finds the
  nonces, the retry id and \<open>g ^ x\<close> modulo the prime for the exponent of the client.
\<close>

lemma prepared_request_opens:
  assumes laws: "big_laws lib" "primitive_laws pr"
    and nonces: "length (sd_nonce d) = 16" "length (sd_server_nonce d) = 16" "length new_nonce = 32"
    and x: "prepared_with lib pr d new_nonce retry_id prepared x"
  shows "server_opens pr new_nonce (sd_server_nonce d) (pd_request_body prepared)
    = Some (sd_nonce d, sd_server_nonce d, retry_id, unat (sd_generator d) ^ x mod be_value known_prime_bytes)"
proof -
  let ?p = "be_value (sd_dh_prime d)" and ?g = "unat (sd_generator d)"
  define g_b where "g_b = ?g ^ x mod ?p"
  have ok: "validate_server_dh_parameters lib d = Ok ()"
    using x by (simp add: prepared_with_def Let_def)
  note t = trusted_parameters [OF laws(1) ok]
  have gb: "bl_modpow lib ?g x (bl_from_bytes_be lib (sd_dh_prime d)) = g_b"
    using t(4) by (simp add: g_b_def big_lawsD(1,5) [OF laws(1)])
  obtain inner padding encrypted key iv where
    inner: "written [TlU32 CLIENT_DH_INNER_DATA_CONSTRUCTOR, TlI128 (sd_nonce d), TlI128 (sd_server_nonce d),
        TlU64 retry_id, TlBytes (biguint_to_minimal_be lib g_b)] = Ok inner"
    and ki: "derive_tmp_aes_key_iv pr new_nonce (sd_server_nonce d) = (key, iv)"
    and enc: "aes_ige_encrypt pr (mp_sha1 pr inner @ inner @ padding) key iv = Ok encrypted"
    and request: "written [TlU32 SET_CLIENT_DH_PARAMS_CONSTRUCTOR, TlI128 (sd_nonce d), TlI128 (sd_server_nonce d),
        TlBytes encrypted] = Ok (pd_request_body prepared)"
    using x by (auto simp: prepared_with_def Let_def gb client_dh_inner_def map_err_Inr_iff)
  note lens = tmp_lengths [OF laws(2) nonces(3) ki]
  have dec: "aes_ige_decrypt pr encrypted key iv = Ok (mp_sha1 pr inner @ inner @ padding)"
    using aes_ige_inverse [OF laws(2) lens] enc by blast
  have sha: "length (mp_sha1 pr inner) = 20" using laws(2) by (simp add: primitive_laws_def)
  have "length (inner @ padding) < 2 ^ 64"
    using aes_ige_length [OF laws(2) lens enc] server_reads_request(2) [OF nonces(1,2) request] by simp
  from server_reads_inner [OF nonces(1,2) this inner] server_reads_request(1) [OF nonces(1,2) request]
  show ?thesis
    using ki dec sha by (auto simp: server_opens_def Let_def minimal_be_value [OF laws(1)] g_b_def t(1))
qed

text \<open>
  C28: client and server agree on the key. If the public value of the server is \<open>g ^ a\<close> modulo the prime of
  the exchange and the client prepares its answer, then the server, which knows the nonces, opens the
  request, finds the nonces, the retry id and a public value of the client, and the key of the client
  is this value to the power of \<open>a\<close>: the key that the server computes.
\<close>

theorem dh_key_agreed:
  assumes laws: "big_laws lib" "primitive_laws pr"
    and nonces: "length (sd_nonce d) = 16" "length (sd_server_nonce d) = 16" "length new_nonce = 32"
    and g_a: "be_value (sd_g_a d) = unat (sd_generator d) ^ a mod be_value (sd_dh_prime d)"
    and prepared: "prepare_client_dh lib pr d new_nonce retry_id fill r = (r', Ok prepared)"
  shows "\<exists>g_b. server_opens pr new_nonce (sd_server_nonce d) (pd_request_body prepared)
        = Some (sd_nonce d, sd_server_nonce d, retry_id, g_b)
      \<and> length (auth_key_bytes (pd_auth_key prepared)) = 256
      \<and> be_value (auth_key_bytes (pd_auth_key prepared)) = g_b ^ a mod be_value (sd_dh_prime d)"
proof -
  obtain x where x: "prepared_with lib pr d new_nonce retry_id prepared x"
    using prepare_client_dh_Ok [OF prepared] by blast
  let ?p = "be_value (sd_dh_prime d)" and ?g = "unat (sd_generator d)"
  define g_b where "g_b = ?g ^ x mod ?p"
  have ok: "validate_server_dh_parameters lib d = Ok ()" "length (auth_key_bytes (pd_auth_key prepared)) = 256"
    using x by (simp_all add: prepared_with_def Let_def)
  note t = trusted_parameters [OF laws(1) ok(1)]
  have opens: "server_opens pr new_nonce (sd_server_nonce d) (pd_request_body prepared)
      = Some (sd_nonce d, sd_server_nonce d, retry_id, g_b)"
    using prepared_request_opens [OF laws nonces x] by (simp add: g_b_def t(1))
  have "be_value (auth_key_bytes (pd_auth_key prepared)) = (?g ^ a mod ?p) ^ x mod ?p"
    using prepared_with_key [OF laws(1) x] by (simp add: t(1) g_a)
  also have "\<dots> = g_b ^ a mod ?p" by (simp add: g_b_def power_mod mult.commute flip: power_mult)
  finally show ?thesis using opens ok(2) by blast
qed

section \<open>The confirmation of the server\<close>

lemma and_read_Ok:
  "and_read p f r = (r', Inr y) \<longleftrightarrow> (\<exists>r1 x. p r = (r1, Inr x) \<and> f x r1 = (r', Inr y))"
  by (auto simp: and_read_def split: prod.splits sum.splits)

lemma lift_read_Ok: "lift_read g p r = (r', Inr y) \<longleftrightarrow> p r = (r', Inr y)"
  by (auto simp: lift_read_def map_err_def split: prod.splits sum.splits)

lemma reads_Ok: "reads res r = (r', Inr y) \<longleftrightarrow> r' = r \<and> res = Inr y"
  by (auto simp: reads_def)

lemma expect_finished_Ok: "expect_finished e r = (r', Inr y) \<longleftrightarrow> r' = r \<and> is_finished r"
  by (auto simp: expect_finished_def)

lemmas read_Ok = and_read_Ok lift_read_Ok reads_Ok expect_finished_Ok

lemma tl_take_Ok:
  assumes "reader_ok r" "tl_take n r = (r', Inr bs)"
  shows "unread r = bs @ unread r'" "length bs = n" "reader_ok r'"
  using assms reader_ok_advance [of r n] unread_advance [of r "take n (unread r)" "drop n (unread r)"]
  by (auto simp: tl_take_outcome min_def split: if_splits)

lemma read_u32_Ok:
  assumes "reader_ok r" "read_u32 r = (r', Inr v)"
  shows "unread r = to_le 4 v @ unread r'" "reader_ok r'"
proof -
  obtain bs where bs: "tl_take 4 r = (r', Inr bs)" "v = from_le bs"
    using assms(2) by (auto simp: read_u32_def read_Ok)
  note t = tl_take_Ok [OF assms(1) bs(1)]
  then show "unread r = to_le 4 v @ unread r'" "reader_ok r'"
    using to_from_le [of bs, where ?'a = 32] bs(2) by simp_all
qed

lemma finished_unread: "reader_ok r \<Longrightarrow> is_finished r \<Longrightarrow> unread r = []"
  by (simp add: is_finished_def remaining_def unread_def reader_ok_def)

lemma dh_gen_ok_body:
  assumes "length input < 2 ^ 64" "parse_dh_gen_result pr input nonce server_nonce new_nonce h = Ok DhGenOk"
  shows "input = to_le 4 DH_GEN_OK_CONSTRUCTOR @ nonce @ server_nonce @ new_nonce_hash pr new_nonce 1 h"
    and "length nonce = 16" "length server_nonce = 16"
proof -
  obtain c r1 r2 r3 r4 hash where
    c: "read_u32 (TlReader_new input) = (r1, Inr c)" and n: "tl_take 16 r1 = (r2, Inr nonce)"
    and s: "tl_take 16 r2 = (r3, Inr server_nonce)" and h: "tl_take 16 r3 = (r4, Inr hash)"
    and fin: "is_finished r4" and ok: "c = DH_GEN_OK_CONSTRUCTOR" "hash = new_nonce_hash pr new_nonce 1 h"
    using assms(2) unfolding parse_dh_gen_result_def
    by (auto simp: snd_def read_Ok validate_nonce_pair_def read_i128_bytes_def and_then_Inr_iff split: prod.splits if_splits)
  have "reader_ok (TlReader_new input)" "unread (TlReader_new input) = input"
    using assms(1) by (simp_all add: TlReader_new_def reader_ok_def unread_def)
  then show "input = to_le 4 DH_GEN_OK_CONSTRUCTOR @ nonce @ server_nonce @ new_nonce_hash pr new_nonce 1 h"
    "length nonce = 16" "length server_nonce = 16"
    using read_u32_Ok [OF _ c] tl_take_Ok [OF _ n] tl_take_Ok [OF _ s] tl_take_Ok [OF _ h] finished_unread [OF _ fin] ok
    by auto
qed

lemma decrypted_nonces:
  assumes "decrypt_server_dh_inner_data lib pr encrypted new_nonce nonce server_nonce = Ok d"
  shows "sd_nonce d = nonce" "sd_server_nonce d = server_nonce" "validate_server_dh_parameters lib d = Ok ()"
  using assms
  by (auto simp: decrypt_server_dh_inner_data_def Let_def and_then_Inr_iff snd_def read_Ok validate_nonce_pair_def
      split: prod.splits if_splits)

section \<open>Runs of the state machine\<close>

datatype HandshakeOp =
    HsBegin i64
  | HsResPq PlaintextEnvelope
  | HsPrepare i64 i32 bool
  | HsServerDh PlaintextEnvelope i64
  | HsDhGen PlaintextEnvelope i64

text \<open>
  The machine, the random source, the keys it has established, and the bodies of all answers it was
  given and of all requests it has returned for sending.
\<close>

record 'r HandshakeRun =
  hr_handshake :: AuthKeyHandshake
  hr_source :: 'r
  hr_established :: "EstablishedAuthKey list"
  hr_answers :: "bytes list"
  hr_sent :: "bytes list"

definition sent_body :: "(PlaintextEnvelope, HandshakeError) result \<Rightarrow> bytes list" where
  "sent_body res = (case res of Inr envelope \<Rightarrow> [pe_body envelope] | Inl _ \<Rightarrow> [])"

fun hs_step ::
  "BigLibrary \<Rightarrow> MtprotoPrimitives \<Rightarrow> ('r \<Rightarrow> nat \<Rightarrow> 'r \<times> bytes option) \<Rightarrow> 'r HandshakeRun \<Rightarrow> HandshakeOp \<Rightarrow> 'r HandshakeRun"
where
  "hs_step lib pr getrandom s (HsBegin message_id) =
     (case begin_handshake (hr_handshake s) message_id of
        (h, res) \<Rightarrow> s\<lparr>hr_handshake := h, hr_sent := hr_sent s @ sent_body res\<rparr>)"
| "hs_step lib pr getrandom s (HsResPq envelope) =
     s\<lparr>hr_handshake := fst (receive_res_pq (hr_handshake s) envelope),
       hr_answers := hr_answers s @ [pe_body envelope]\<rparr>"
| "hs_step lib pr getrandom s (HsPrepare message_id dc_id test_environment) =
     (case prepare_req_dh_params lib pr getrandom (hr_handshake s) message_id dc_id test_environment (hr_source s) of
        (h, r, res) \<Rightarrow> s\<lparr>hr_handshake := h, hr_source := r, hr_sent := hr_sent s @ sent_body res\<rparr>)"
| "hs_step lib pr getrandom s (HsServerDh envelope message_id) =
     (case receive_server_dh lib pr getrandom (hr_handshake s) envelope message_id (hr_source s) of
        (h, r, res) \<Rightarrow>
          s\<lparr>hr_handshake := h, hr_source := r, hr_answers := hr_answers s @ [pe_body envelope],
            hr_sent := hr_sent s @ sent_body res\<rparr>)"
| "hs_step lib pr getrandom s (HsDhGen envelope message_id) =
     (case receive_dh_gen lib pr getrandom (hr_handshake s) envelope message_id (hr_source s) of
        (h, r, res) \<Rightarrow>
          s\<lparr>hr_handshake := h, hr_source := r, hr_answers := hr_answers s @ [pe_body envelope],
            hr_established := hr_established s @ (case res of Inr (Established k) \<Rightarrow> [k] | _ \<Rightarrow> []),
            hr_sent := hr_sent s @ (case res of Inr (DhGenRetryRequest e) \<Rightarrow> [pe_body e] | _ \<Rightarrow> [])\<rparr>)"

definition hs_start :: "bytes \<Rightarrow> 'r \<Rightarrow> 'r HandshakeRun" where
  "hs_start nonce r = \<lparr>hr_handshake = AuthKeyHandshake_new nonce, hr_source = r, hr_established = [],
     hr_answers = [], hr_sent = []\<rparr>"

text \<open>
  What the machine knows of the server: the nonce of the server comes from an answer to its own nonce,
  and the parameters of the exchange are what it decrypts from an answer with both nonces.
\<close>

definition res_pq_received :: "bytes list \<Rightarrow> bytes \<Rightarrow> bytes \<Rightarrow> bool" where
  "res_pq_received answers nonce server_nonce \<longleftrightarrow>
     (\<exists>body response. body \<in> set answers \<and> parse_res_pq body = Ok response
        \<and> rp_nonce response = nonce \<and> rp_server_nonce response = server_nonce)"

definition server_dh_received ::
  "BigLibrary \<Rightarrow> MtprotoPrimitives \<Rightarrow> bytes list \<Rightarrow> bytes \<Rightarrow> ServerDhInnerData \<Rightarrow> bool"
where
  "server_dh_received lib pr answers new_nonce d \<longleftrightarrow>
     (\<exists>body encrypted. body \<in> set answers
        \<and> parse_server_dh_params body (sd_nonce d) (sd_server_nonce d) = Ok (DhParamsOk encrypted)
        \<and> decrypt_server_dh_inner_data lib pr encrypted new_nonce (sd_nonce d) (sd_server_nonce d) = Ok d)"

definition new_nonce_drawn :: "('r \<Rightarrow> nat \<Rightarrow> 'r \<times> bytes option) \<Rightarrow> bytes \<Rightarrow> bool" where
  "new_nonce_drawn getrandom n \<longleftrightarrow> (\<exists>r r'. getrandom r 32 = (r', Some n))"

text \<open>
  The exchange the machine has prepared: it belongs to the parameters, the nonces and the secret nonce
  that the machine holds, and its request has been returned for sending.
\<close>

definition dh_prepared ::
  "BigLibrary \<Rightarrow> MtprotoPrimitives \<Rightarrow> ('r \<Rightarrow> nat \<Rightarrow> 'r \<times> bytes option) \<Rightarrow> 'r HandshakeRun
     \<Rightarrow> ServerDhInnerData \<Rightarrow> bytes \<Rightarrow> PreparedClientDh \<Rightarrow> bool"
where
  "dh_prepared lib pr getrandom s d new_nonce prepared \<longleftrightarrow>
     hk_server_dh (hr_handshake s) = Some d \<and> hk_new_nonce (hr_handshake s) = Some new_nonce
   \<and> hk_server_nonce (hr_handshake s) = Some (sd_server_nonce d) \<and> sd_nonce d = hk_nonce (hr_handshake s)
   \<and> new_nonce_drawn getrandom new_nonce
   \<and> res_pq_received (hr_answers s) (hk_nonce (hr_handshake s)) (sd_server_nonce d)
   \<and> server_dh_received lib pr (hr_answers s) new_nonce d
   \<and> (\<exists>retry_id x. prepared_with lib pr d new_nonce retry_id prepared x)
   \<and> pd_request_body prepared \<in> set (hr_sent s)"

definition key_confirmed ::
  "BigLibrary \<Rightarrow> MtprotoPrimitives \<Rightarrow> ('r \<Rightarrow> nat \<Rightarrow> 'r \<times> bytes option) \<Rightarrow> 'r HandshakeRun
     \<Rightarrow> EstablishedAuthKey \<Rightarrow> bool"
where
  "key_confirmed lib pr getrandom s k \<longleftrightarrow>
     (\<exists>d new_nonce prepared body.
        dh_prepared lib pr getrandom s d new_nonce prepared
      \<and> k = \<lparr>ek_auth_key = pd_auth_key prepared, ek_server_salt = pd_server_salt prepared, ek_server_time = sd_server_time d\<rparr>
      \<and> body \<in> set (hr_answers s)
      \<and> parse_dh_gen_result pr body (hk_nonce (hr_handshake s)) (sd_server_nonce d) new_nonce
          (aux_hash pr (pd_auth_key prepared)) = Ok DhGenOk)"

text \<open>The invariant: what the machine holds in each of its states.\<close>

definition hs_holds ::
  "BigLibrary \<Rightarrow> MtprotoPrimitives \<Rightarrow> ('r \<Rightarrow> nat \<Rightarrow> 'r \<times> bytes option) \<Rightarrow> 'r HandshakeRun \<Rightarrow> bool"
where
  "hs_holds lib pr getrandom s \<longleftrightarrow>
     (let h = hr_handshake s
      in case hk_state h of
           ResPqReceived response \<Rightarrow>
             hk_server_nonce h = Some (rp_server_nonce response)
           \<and> res_pq_received (hr_answers s) (hk_nonce h) (rp_server_nonce response)
         | AwaitingServerDh \<Rightarrow>
             (\<exists>new_nonce server_nonce. hk_new_nonce h = Some new_nonce \<and> hk_server_nonce h = Some server_nonce
                \<and> new_nonce_drawn getrandom new_nonce \<and> res_pq_received (hr_answers s) (hk_nonce h) server_nonce)
         | AwaitingDhGen \<Rightarrow>
             (\<exists>d new_nonce prepared. hk_prepared_client_dh h = Some prepared
                \<and> dh_prepared lib pr getrandom s d new_nonce prepared)
         | _ \<Rightarrow> True)"

definition hs_ok ::
  "BigLibrary \<Rightarrow> MtprotoPrimitives \<Rightarrow> ('r \<Rightarrow> nat \<Rightarrow> 'r \<times> bytes option) \<Rightarrow> bytes \<Rightarrow> 'r HandshakeRun \<Rightarrow> bool"
where
  "hs_ok lib pr getrandom nonce s \<longleftrightarrow>
     hk_nonce (hr_handshake s) = nonce \<and> hs_holds lib pr getrandom s
   \<and> (hr_established s = [] \<and> hk_state (hr_handshake s) \<noteq> HsComplete
      \<or> (\<exists>k. hr_established s = [k] \<and> hk_state (hr_handshake s) = HsComplete
             \<and> key_confirmed lib pr getrandom s k))"

text \<open>More answers and more requests take nothing away from what the machine knows.\<close>

definition hs_longer :: "'r HandshakeRun \<Rightarrow> 'r HandshakeRun \<Rightarrow> bool" where
  "hs_longer s s' \<longleftrightarrow> set (hr_answers s) \<subseteq> set (hr_answers s') \<and> set (hr_sent s) \<subseteq> set (hr_sent s')"

lemma res_pq_received_mono: "res_pq_received as n m \<Longrightarrow> set as \<subseteq> set as' \<Longrightarrow> res_pq_received as' n m"
  unfolding res_pq_received_def by blast

lemma server_dh_received_mono:
  "server_dh_received lib pr as n d \<Longrightarrow> set as \<subseteq> set as' \<Longrightarrow> server_dh_received lib pr as' n d"
  unfolding server_dh_received_def by blast

lemma dh_prepared_longer:
  assumes "dh_prepared lib pr getrandom s d n p" "hs_longer s s'"
    and "hk_server_dh (hr_handshake s') = hk_server_dh (hr_handshake s)"
    and "hk_new_nonce (hr_handshake s') = hk_new_nonce (hr_handshake s)"
    and "hk_server_nonce (hr_handshake s') = hk_server_nonce (hr_handshake s)"
    and "hk_nonce (hr_handshake s') = hk_nonce (hr_handshake s)"
  shows "dh_prepared lib pr getrandom s' d n p"
  using assms res_pq_received_mono server_dh_received_mono unfolding dh_prepared_def hs_longer_def by auto

lemma hs_ok_same:
  assumes "hs_ok lib pr getrandom nonce s" "hs_longer s s'" "hr_handshake s' = hr_handshake s"
    and "hr_established s' = hr_established s"
  shows "hs_ok lib pr getrandom nonce s'"
proof -
  have d: "dh_prepared lib pr getrandom s d n p \<Longrightarrow> dh_prepared lib pr getrandom s' d n p" for d n p
    using dh_prepared_longer [OF _ assms(2)] assms(3) by simp
  have "hs_holds lib pr getrandom s'"
    using assms d res_pq_received_mono
    by (auto simp: hs_ok_def hs_holds_def hs_longer_def Let_def split: AuthKeyHandshakeState.splits) blast+
  moreover have "key_confirmed lib pr getrandom s k \<Longrightarrow> key_confirmed lib pr getrandom s' k" for k
    using d assms(2,3) unfolding key_confirmed_def hs_longer_def by (metis subsetD)
  ultimately show ?thesis using assms(1,3,4) by (auto simp: hs_ok_def)
qed

lemma hs_ok_moved:
  assumes "hs_ok lib pr getrandom nonce s" "hk_nonce (hr_handshake s') = hk_nonce (hr_handshake s)"
    and "hk_state (hr_handshake s) \<noteq> HsComplete" "hk_state (hr_handshake s') \<noteq> HsComplete"
    and "hr_established s' = hr_established s" "hs_holds lib pr getrandom s'"
  shows "hs_ok lib pr getrandom nonce s'"
  using assms by (auto simp: hs_ok_def)

subsection \<open>The outcomes of each operation\<close>

lemma begin_outcome:
  "fst (begin_handshake h i) = h \<or> hk_state h = HsReady \<and> fst (begin_handshake h i) = h\<lparr>hk_state := AwaitingResPq\<rparr>"
  by (auto simp: begin_handshake_def Let_def)

lemma res_pq_outcome:
  "fst (receive_res_pq h e) = h
   \<or> (\<exists>response. hk_state h = AwaitingResPq \<and> parse_res_pq (pe_body e) = Ok response \<and> rp_nonce response = hk_nonce h
        \<and> fst (receive_res_pq h e)
        = h\<lparr>hk_server_nonce := Some (rp_server_nonce response), hk_state := ResPqReceived response\<rparr>)"
  by (auto simp: receive_res_pq_def split: sum.splits)

lemma random_fill_Ok: "secure_random_fill g n r = (r', Inr bs) \<longleftrightarrow> g r n = (r', Some bs)"
  by (auto simp: secure_random_fill_def split: prod.splits option.splits)

lemma prepare_outcome:
  "fst (prepare_req_dh_params lib pr g h i dc t r) = h
   \<or> (\<exists>response n. hk_state h = ResPqReceived response \<and> new_nonce_drawn g n
        \<and> fst (prepare_req_dh_params lib pr g h i dc t r) = h\<lparr>hk_new_nonce := Some n, hk_state := AwaitingServerDh\<rparr>)"
  by (auto simp: prepare_req_dh_params_def prepare_req_dh_params_with_random_def and_draw_Ok random_fill_Ok
      new_nonce_drawn_def split: AuthKeyHandshakeState.splits prod.splits sum.splits if_splits)

lemma server_dh_refused: "receive_server_dh lib pr g h e i r = (h', r', Inl err) \<Longrightarrow> h' = h"
  by (auto simp: receive_server_dh_def receive_server_dh_with_random_def split: if_splits prod.splits sum.splits)

lemma server_dh_accepted:
  assumes "receive_server_dh lib pr g h e i r = (h', r', Inr envelope)"
  obtains n d prepared x where "hk_state h = AwaitingServerDh" "hk_new_nonce h = Some n"
    "hk_server_nonce h = Some (sd_server_nonce d)" "sd_nonce d = hk_nonce h"
    "server_dh_received lib pr [pe_body e] n d" "prepared_with lib pr d n 0 prepared x"
    "pe_body envelope = pd_request_body prepared"
    "h' = h\<lparr>hk_server_dh := Some d, hk_prepared_client_dh := Some prepared, hk_state := AwaitingDhGen\<rparr>"
proof -
  from assms obtain n s d prepared encrypted r1 where
    h: "hk_state h = AwaitingServerDh" "hk_new_nonce h = Some n" "hk_server_nonce h = Some s"
      "pe_body envelope = pd_request_body prepared"
      "h' = h\<lparr>hk_server_dh := Some d, hk_prepared_client_dh := Some prepared, hk_state := AwaitingDhGen\<rparr>"
    and b: "parse_server_dh_params (pe_body e) (hk_nonce h) s = Inr (DhParamsOk encrypted)"
    and d: "decrypt_server_dh_inner_data lib pr encrypted n (hk_nonce h) s = Inr d"
    and p: "prepare_client_dh lib pr d n 0 (secure_random_fill g) r1 = (r', Inr prepared)"
    unfolding receive_server_dh_def receive_server_dh_with_random_def
    by (auto simp: and_draw_Ok ok_or_Inr_iff split: if_splits prod.splits sum.splits ServerDhParams.splits)
  from prepare_client_dh_Ok [OF p] obtain x where x: "prepared_with lib pr d n 0 prepared x" by blast
  note nonces = decrypted_nonces [OF d]
  have "server_dh_received lib pr [pe_body e] n d"
    using b d nonces by (auto simp: server_dh_received_def)
  with x h nonces show thesis by (intro that) simp_all
qed

text \<open>The answer to the value of the client: nothing happens, a new exchange is prepared, or the key is established.\<close>

lemma dh_gen_outcome:
  assumes "receive_dh_gen lib pr g h e i r = (h', r', res)"
    and h: "hk_state h = AwaitingDhGen" "hk_server_dh h = Some d" "hk_prepared_client_dh h = Some prepared"
      "hk_new_nonce h = Some n" "hk_server_nonce h = Some (sd_server_nonce d)"
    and aux: "pd_auth_key_aux_hash prepared = aux_hash pr (pd_auth_key prepared)"
  obtains (refused) err where "res = Inl err" "h' = h"
  | (retry) following x envelope where "res = Inr (DhGenRetryRequest envelope)" "pe_body envelope = pd_request_body following"
      "h' = h\<lparr>hk_prepared_client_dh := Some following\<rparr>"
      "prepared_with lib pr d n (pd_auth_key_aux_hash prepared) following x"
  | (established) "res = Inr (Established \<lparr>ek_auth_key = pd_auth_key prepared, ek_server_salt = pd_server_salt prepared,
        ek_server_time = sd_server_time d\<rparr>)" "h' = h\<lparr>hk_prepared_client_dh := None, hk_state := HsComplete\<rparr>"
      "parse_dh_gen_result pr (pe_body e) (hk_nonce h) (sd_server_nonce d) n (aux_hash pr (pd_auth_key prepared)) = Ok DhGenOk"
proof (cases "parse_dh_gen_result pr (pe_body e) (hk_nonce h) (sd_server_nonce d) n (pd_auth_key_aux_hash prepared)")
  case (Inl err)
  then show thesis using assms(1) h by (intro refused) (auto simp: receive_dh_gen_def)
next
  case (Inr result)
  note eq = receive_dh_gen_def h Inr
  show thesis
  proof (cases result)
    case DhGenOk
    then show thesis using assms(1) Inr aux by (intro established) (simp_all add: eq)
  next
    case DhGenFail
    then show thesis using assms(1) by (intro refused [of DhGenRejected]) (simp_all add: eq)
  next
    case DhGenRetry
    obtain r1 out where out: "prepare_client_dh lib pr d n (pd_auth_key_aux_hash prepared) (secure_random_fill g) r = (r1, out)"
      by fastforce
    show thesis
    proof (cases out)
      case (Inl err)
      then show thesis using assms(1) DhGenRetry out by (intro refused [of err]) (simp_all add: eq)
    next
      case (Inr following)
      then obtain x where "prepared_with lib pr d n (pd_auth_key_aux_hash prepared) following x"
        using prepare_client_dh_Ok [of lib pr d n "pd_auth_key_aux_hash prepared"] out by fastforce
      then show thesis using assms(1) DhGenRetry out Inr
        by (intro retry [of "\<lparr>pe_message_id = i, pe_body = pd_request_body following\<rparr>" following x]) (simp_all add: eq)
    qed
  qed
qed

subsection \<open>Every operation keeps the invariant\<close>

lemma begin_keeps:
  assumes "hs_ok lib pr getrandom nonce s"
  shows "hs_ok lib pr getrandom nonce (hs_step lib pr getrandom s (HsBegin i))"
proof -
  obtain h res where step: "begin_handshake (hr_handshake s) i = (h, res)" by fastforce
  with begin_outcome [of "hr_handshake s" i] consider "h = hr_handshake s"
    | "hk_state (hr_handshake s) = HsReady" "h = (hr_handshake s)\<lparr>hk_state := AwaitingResPq\<rparr>" by auto
  then show ?thesis
  proof cases
    case 1
    with step show ?thesis by (intro hs_ok_same [OF assms]) (auto simp: hs_longer_def)
  next
    case 2
    with step show ?thesis by (intro hs_ok_moved [OF assms]) (simp_all add: hs_holds_def Let_def)
  qed
qed

lemma res_pq_keeps:
  assumes "hs_ok lib pr getrandom nonce s"
  shows "hs_ok lib pr getrandom nonce (hs_step lib pr getrandom s (HsResPq e))"
  using res_pq_outcome [of "hr_handshake s" e]
proof (elim disjE exE conjE)
  assume "fst (receive_res_pq (hr_handshake s) e) = hr_handshake s"
  then show ?thesis by (intro hs_ok_same [OF assms]) (auto simp: hs_longer_def)
next
  fix response
  assume "hk_state (hr_handshake s) = AwaitingResPq" "parse_res_pq (pe_body e) = Ok response"
    "rp_nonce response = hk_nonce (hr_handshake s)"
    "fst (receive_res_pq (hr_handshake s) e)
       = (hr_handshake s)\<lparr>hk_server_nonce := Some (rp_server_nonce response), hk_state := ResPqReceived response\<rparr>"
  then show ?thesis
    by (intro hs_ok_moved [OF assms]) (auto simp: hs_holds_def Let_def res_pq_received_def)
qed

lemma prepare_keeps:
  assumes "hs_ok lib pr getrandom nonce s"
  shows "hs_ok lib pr getrandom nonce (hs_step lib pr getrandom s (HsPrepare i dc t))"
proof -
  obtain h r res where step: "prepare_req_dh_params lib pr getrandom (hr_handshake s) i dc t (hr_source s) = (h, r, res)"
    by (metis prod_cases3)
  with prepare_outcome [of lib pr getrandom "hr_handshake s" i dc t "hr_source s"]
  consider "h = hr_handshake s" | response n where "hk_state (hr_handshake s) = ResPqReceived response"
      "new_nonce_drawn getrandom n" "h = (hr_handshake s)\<lparr>hk_new_nonce := Some n, hk_state := AwaitingServerDh\<rparr>"
    by auto
  then show ?thesis
  proof cases
    case 1
    with step show ?thesis by (intro hs_ok_same [OF assms]) (auto simp: hs_longer_def)
  next
    case 2
    with assms have "hk_server_nonce (hr_handshake s) = Some (rp_server_nonce response)"
      "res_pq_received (hr_answers s) (hk_nonce (hr_handshake s)) (rp_server_nonce response)"
      by (auto simp: hs_ok_def hs_holds_def Let_def)
    with 2 step show ?thesis by (intro hs_ok_moved [OF assms]) (auto simp: hs_holds_def Let_def)
  qed
qed

lemma server_dh_keeps:
  assumes "hs_ok lib pr getrandom nonce s"
  shows "hs_ok lib pr getrandom nonce (hs_step lib pr getrandom s (HsServerDh e i))"
proof -
  obtain h r res where step: "receive_server_dh lib pr getrandom (hr_handshake s) e i (hr_source s) = (h, r, res)"
    by (metis prod_cases3)
  show ?thesis
  proof (cases res)
    case (Inl err)
    with step server_dh_refused show ?thesis by (intro hs_ok_same [OF assms]) (fastforce simp: hs_longer_def)+
  next
    case (Inr envelope)
    from step [unfolded Inr] show ?thesis
    proof (cases rule: server_dh_accepted)
      case (1 n d prepared x)
      let ?s = "hs_step lib pr getrandom s (HsServerDh e i)"
      have known: "new_nonce_drawn getrandom n"
        "res_pq_received (hr_answers s) (hk_nonce (hr_handshake s)) (sd_server_nonce d)"
        using assms 1 by (auto simp: hs_ok_def hs_holds_def Let_def)
      have more: "res_pq_received (hr_answers s @ [pe_body e]) (hk_nonce (hr_handshake s)) (sd_server_nonce d)"
        "server_dh_received lib pr (hr_answers s @ [pe_body e]) n d"
        by (rule res_pq_received_mono [OF known(2)] server_dh_received_mono [OF 1(5)], force)+
      have "dh_prepared lib pr getrandom ?s d n prepared"
        unfolding dh_prepared_def using step Inr 1 known(1) more by (auto simp: sent_body_def)
      with step Inr 1 show ?thesis by (intro hs_ok_moved [OF assms]) (auto simp: hs_holds_def Let_def)
    qed
  qed
qed

lemma dh_gen_keeps:
  assumes "hs_ok lib pr getrandom nonce s"
  shows "hs_ok lib pr getrandom nonce (hs_step lib pr getrandom s (HsDhGen e i))"
proof -
  let ?s = "hs_step lib pr getrandom s (HsDhGen e i)"
  obtain h r res where step: "receive_dh_gen lib pr getrandom (hr_handshake s) e i (hr_source s) = (h, r, res)"
    by (metis prod_cases3)
  have longer: "hs_longer s ?s" using step by (auto simp: hs_longer_def)
  show ?thesis
  proof (cases "hk_state (hr_handshake s) = AwaitingDhGen")
    case False
    with step have "h = hr_handshake s" "\<exists>err. res = Inl err" by (auto simp: receive_dh_gen_def)
    with step longer show ?thesis by (intro hs_ok_same [OF assms]) auto
  next
    case True
    with assms obtain d n prepared where p: "hk_prepared_client_dh (hr_handshake s) = Some prepared"
        and d: "dh_prepared lib pr getrandom s d n prepared" and none: "hr_established s = []"
      by (auto simp: hs_ok_def hs_holds_def Let_def)
    then have h: "hk_server_dh (hr_handshake s) = Some d" "hk_new_nonce (hr_handshake s) = Some n"
      "hk_server_nonce (hr_handshake s) = Some (sd_server_nonce d)"
      "pd_auth_key_aux_hash prepared = aux_hash pr (pd_auth_key prepared)"
      by (auto simp: dh_prepared_def prepared_with_def Let_def)
    from step True h(1) p h(2,3,4) show ?thesis
    proof (cases rule: dh_gen_outcome)
      case (refused err)
      with step longer show ?thesis by (intro hs_ok_same [OF assms]) auto
    next
      case (retry following x envelope)
      have "dh_prepared lib pr getrandom ?s d n prepared"
        using retry step by (intro dh_prepared_longer [OF d longer]) simp_all
      then have "dh_prepared lib pr getrandom ?s d n following"
        using retry step by (auto simp: dh_prepared_def)
      with True retry step show ?thesis by (intro hs_ok_moved [OF assms]) (auto simp: hs_holds_def Let_def)
    next
      case established
      have "dh_prepared lib pr getrandom ?s d n prepared"
        using established step by (intro dh_prepared_longer [OF d longer]) simp_all
      then have "key_confirmed lib pr getrandom ?s \<lparr>ek_auth_key = pd_auth_key prepared,
          ek_server_salt = pd_server_salt prepared, ek_server_time = sd_server_time d\<rparr>"
        unfolding key_confirmed_def using established step by fastforce
      then show ?thesis using assms none established step by (auto simp: hs_ok_def hs_holds_def Let_def)
    qed
  qed
qed

interpretation hs_run: component "hs_step lib pr getrandom" "hs_ok lib pr getrandom nonce"
  for lib pr getrandom nonce
proof
  fix s :: "'a HandshakeRun" and opn
  assume ok: "hs_ok lib pr getrandom nonce s"
  show "hs_ok lib pr getrandom nonce (hs_step lib pr getrandom s opn)"
    by (cases opn)
      (simp_all only: begin_keeps [OF ok] res_pq_keeps [OF ok] prepare_keeps [OF ok] server_dh_keeps [OF ok] dh_gen_keeps [OF ok])
qed

text \<open>
  C27: a key is established once and for the right partner. Whatever answers a client is given in whatever
  order, it establishes at most one key, and only at the end. Then the machine holds the parameters of
  the server, which it has decrypted from an answer with both nonces under the secret nonce it has drawn, and
  which lie in the trusted group away from its ends; it has sent a request in which the server, knowing the
  secret nonce, finds the public value \<open>g ^ x\<close>; the key has 256 bytes and is the public value of the server to
  the power of this same \<open>x\<close>; and it has received the confirmation of the server, which carries its own nonce,
  the nonce of the server from the first answer, and the digest of the secret nonce with this very key.
  The random source fills the buffers it is given and an answer fits into memory.
\<close>

theorem established_key_confirmed:
  assumes laws: "big_laws lib" "primitive_laws pr"
    and source: "\<And>r m r' bs. getrandom r m = (r', Some bs) \<Longrightarrow> length bs = m"
    and s: "s = foldl (hs_step lib pr getrandom) (hs_start nonce r) ops"
    and fits: "\<forall>body \<in> set (hr_answers s). length body < 2 ^ 64"
  shows "length (hr_established s) \<le> 1
    \<and> (\<forall>k \<in> set (hr_established s).
         hk_state (hr_handshake s) = HsComplete \<and> length (auth_key_bytes (ek_auth_key k)) = 256
       \<and> (\<exists>d server_nonce new_nonce x retry_id request.
            hk_server_dh (hr_handshake s) = Some d \<and> hk_server_nonce (hr_handshake s) = Some server_nonce
          \<and> hk_new_nonce (hr_handshake s) = Some new_nonce \<and> new_nonce_drawn getrandom new_nonce
          \<and> res_pq_received (hr_answers s) nonce server_nonce
          \<and> server_dh_received lib pr (hr_answers s) new_nonce d
          \<and> sd_nonce d = nonce \<and> sd_server_nonce d = server_nonce \<and> sd_dh_prime d = known_prime_bytes
          \<and> 2 ^ 1984 \<le> be_value (sd_g_a d) \<and> be_value (sd_g_a d) \<le> be_value known_prime_bytes - 2 ^ 1984
          \<and> request \<in> set (hr_sent s)
          \<and> server_opens pr new_nonce server_nonce request
              = Some (nonce, server_nonce, retry_id, unat (sd_generator d) ^ x mod be_value known_prime_bytes)
          \<and> be_value (auth_key_bytes (ek_auth_key k)) = be_value (sd_g_a d) ^ x mod be_value known_prime_bytes
          \<and> ek_server_salt k = initial_salt new_nonce server_nonce \<and> ek_server_time k = sd_server_time d
          \<and> to_le 4 DH_GEN_OK_CONSTRUCTOR @ nonce @ server_nonce
              @ new_nonce_hash pr new_nonce 1 (aux_hash pr (ek_auth_key k)) \<in> set (hr_answers s)))"
proof -
  have "hs_ok lib pr getrandom nonce (hs_start nonce r)"
    by (simp add: hs_ok_def hs_start_def hs_holds_def AuthKeyHandshake_new_def)
  from hs_run.run_inv [OF this] have ok: "hs_ok lib pr getrandom nonce s" unfolding s .
  show ?thesis
  proof (cases "hr_established s = []")
    case False
    with ok obtain k where k: "hr_established s = [k]" "hk_state (hr_handshake s) = HsComplete"
        "hk_nonce (hr_handshake s) = nonce" "key_confirmed lib pr getrandom s k"
      by (auto simp: hs_ok_def)
    from k(4) obtain d new_nonce prepared body where
      d: "dh_prepared lib pr getrandom s d new_nonce prepared"
      and key: "ek_auth_key k = pd_auth_key prepared" "ek_server_salt k = pd_server_salt prepared"
        "ek_server_time k = sd_server_time d"
      and body: "body \<in> set (hr_answers s)" "parse_dh_gen_result pr body nonce (sd_server_nonce d) new_nonce
        (aux_hash pr (pd_auth_key prepared)) = Ok DhGenOk"
      unfolding key_confirmed_def k(3) by auto
    from d obtain retry_id x where x: "prepared_with lib pr d new_nonce retry_id prepared x"
      by (auto simp: dh_prepared_def)
    have v: "validate_server_dh_parameters lib d = Ok ()" "length (auth_key_bytes (pd_auth_key prepared)) = 256"
      "pd_server_salt prepared = initial_salt new_nonce (sd_server_nonce d)"
      using x by (simp_all add: prepared_with_def Let_def)
    note confirmed = dh_gen_ok_body [OF _ body(2)]
    have len: "length (sd_nonce d) = 16" "length (sd_server_nonce d) = 16" "length new_nonce = 32"
      using confirmed(2,3) fits body(1) d k(3) source by (auto simp: dh_prepared_def new_nonce_drawn_def)
    have "to_le 4 DH_GEN_OK_CONSTRUCTOR @ nonce @ sd_server_nonce d
        @ new_nonce_hash pr new_nonce 1 (aux_hash pr (ek_auth_key k)) \<in> set (hr_answers s)"
      using confirmed(1) fits body(1) key by simp
    then have "\<exists>retry_id x request. request \<in> set (hr_sent s)
          \<and> server_opens pr new_nonce (sd_server_nonce d) request
              = Some (nonce, sd_server_nonce d, retry_id, unat (sd_generator d) ^ x mod be_value known_prime_bytes)
          \<and> be_value (auth_key_bytes (ek_auth_key k)) = be_value (sd_g_a d) ^ x mod be_value known_prime_bytes
          \<and> ek_server_salt k = initial_salt new_nonce (sd_server_nonce d) \<and> ek_server_time k = sd_server_time d
          \<and> to_le 4 DH_GEN_OK_CONSTRUCTOR @ nonce @ sd_server_nonce d
              @ new_nonce_hash pr new_nonce 1 (aux_hash pr (ek_auth_key k)) \<in> set (hr_answers s)"
      using prepared_request_opens [OF laws len x] prepared_with_key [OF laws(1) x] key v(3) d k(3)
      by (auto simp: dh_prepared_def)
    then show ?thesis
      using k(1-3) v(2) key(1) d trusted_parameters(1-3) [OF laws(1) v(1)] unfolding dh_prepared_def by auto
  qed simp
qed

section \<open>An exchange that succeeds\<close>

lemma minimal_be_length: "big_laws lib \<Longrightarrow> n < 256 ^ 256 \<Longrightarrow> length (biguint_to_minimal_be lib n) \<le> 256"
  using big_lawsD(3) [of lib 256 n] by (simp add: biguint_to_minimal_be_def Let_def)

lemma fixed_256_defined:
  "big_laws lib \<Longrightarrow> n < 256 ^ 256 \<Longrightarrow> \<exists>bs. biguint_to_fixed_256 lib n = Ok bs \<and> length bs = 256"
  using big_lawsD(3) [of lib 256 n] by (simp add: biguint_to_fixed_256_def Let_def)

lemma padding_fills: "(k + (16 - k mod 16) mod 16) mod (16 :: nat) = 0"
proof -
  have "(k mod 16 + (16 - k mod 16)) mod 16 = 0" by simp
  then show ?thesis by (metis mod_add_left_eq mod_add_right_eq)
qed

text \<open>With a random source that works, valid parameters lead to an answer.\<close>

lemma prepare_client_dh_defined:
  assumes laws: "big_laws lib" "primitive_laws pr"
    and nonces: "length (sd_nonce d) = 16" "length (sd_server_nonce d) = 16" "length new_nonce = 32"
    and valid: "validate_server_dh_parameters lib d = Ok ()"
    and fill: "\<forall>n r. fill n r = (g n r, Ok (bytes_of n)) \<and> length (bytes_of n) = n"
    and g_b: "validate_dh_public_value (be_value known_prime_bytes)
        (unat (sd_generator d) ^ dh_exponent lib (bytes_of 256) mod be_value known_prime_bytes) = Ok ()"
  shows "\<exists>r' prepared. prepare_client_dh lib pr d new_nonce retry_id fill r = (r', Ok prepared)"
proof -
  let ?p = "be_value known_prime_bytes" and ?x = "dh_exponent lib (bytes_of 256)"
  define g_b where "g_b = unat (sd_generator d) ^ ?x mod ?p"
  note t = trusted_parameters [OF laws(1) valid]
  have p: "0 < ?p" "?p < 256 ^ 256" using t(1,4) be_value_less [of known_prime_bytes] by simp_all
  have small: "n mod ?p < 256 ^ 256" for n using mod_less_divisor [OF p(1)] p(2) by (rule order.strict_trans)
  obtain kb where kb: "biguint_to_fixed_256 lib (be_value (sd_g_a d) ^ ?x mod ?p) = Ok kb" "length kb = 256"
    using fixed_256_defined [OF laws(1) small] by blast
  have gb_len: "length (biguint_to_minimal_be lib g_b) \<le> 256"
    unfolding g_b_def by (rule minimal_be_length [OF laws(1) small])
  then obtain inner where inner: "client_dh_inner lib d retry_id g_b = Ok inner" "length inner \<le> 400"
    using nonces length_enc_bytes_le [of "biguint_to_minimal_be lib g_b"]
    by (simp add: client_dh_inner_def written_outcome)
  let ?a = "mp_sha1 pr inner @ inner" let ?n = "(16 - length ?a mod 16) mod 16"
  define padding where "padding = (if 0 < ?n then bytes_of ?n else [])"
  have sha: "length (mp_sha1 pr inner) = 20" using laws(2) by (simp add: primitive_laws_def)
  have pad: "length padding = ?n" using fill by (auto simp: padding_def)
  then have "length (?a @ padding) mod 16 = 0" using padding_fills [of "length ?a"] by (simp only: length_append)
  obtain key iv where ki: "derive_tmp_aes_key_iv pr new_nonce (sd_server_nonce d) = (key, iv)" by fastforce
  obtain encrypted where enc: "aes_ige_encrypt pr (?a @ padding) key iv = Ok encrypted"
    using \<open>length (?a @ padding) mod 16 = 0\<close> sha by (cases "mp_sha1 pr inner") (auto simp: aes_ige_encrypt_def AES_BLOCK_LENGTH_def)
  have "?n < 16" by simp
  then have "length encrypted < 2 ^ 24"
    using aes_ige_length [OF laws(2) tmp_lengths [OF laws(2) nonces(3) ki] enc] inner(2) pad sha
    by (simp only: length_append) simp
  then obtain request where request: "written [TlU32 SET_CLIENT_DH_PARAMS_CONSTRUCTOR, TlI128 (sd_nonce d),
      TlI128 (sd_server_nonce d), TlBytes encrypted] = Ok request"
    by (simp add: written_outcome)
  have draw: "\<exists>r1. (if 0 < ?n then fill ?n else draws (Ok [])) r = (r1, Ok padding)" for r
    using fill by (auto simp: padding_def)
  show ?thesis
    using valid g_b kb inner(1) ki enc request fill draw
    by (auto simp: prepare_client_dh_def Let_def and_draw_Ok big_lawsD(1,5) [OF laws(1)] t(1) p(1) AuthKey_from_slice_def
        AUTH_KEY_LENGTH_def
        simp flip: g_b_def)
qed

section \<open>Witnesses\<close>

definition demo_res_pq :: ResPq where
  "demo_res_pq = \<lparr>rp_nonce = replicate 16 1, rp_server_nonce = replicate 16 2, rp_pq = [15],
     rp_server_public_key_fingerprints = [7]\<rparr>"

lemma demo_primes: "prime_number 3" "prime_number 5"
proof -
  have "d = 1 \<or> d = 3" if "d dvd 3" for d :: nat
  proof -
    have "d \<le> 3" using that by (rule dvd_imp_le) simp
    then have "d = 0 \<or> d = 1 \<or> d = 2 \<or> d = 3" by linarith
    then show ?thesis using that by auto
  qed
  moreover have "d = 1 \<or> d = 5" if "d dvd 5" for d :: nat
  proof -
    have "d \<le> 5" using that by (rule dvd_imp_le) simp
    then have "d = 0 \<or> d = 1 \<or> d = 2 \<or> d = 3 \<or> d = 4 \<or> d = 5" by linarith
    then show ?thesis using that by auto
  qed
  ultimately show "prime_number 3" "prime_number 5" by (simp_all add: prime_number_def)
qed

theorem pq_factored_witness:
  "factor_res_pq demo_res_pq = Ok \<lparr>fp_pq = 15, fp_p = 3, fp_q = 5\<rparr>
   \<or> factor_res_pq demo_res_pq = Err (PqFactorizationFailed 15)"
proof -
  have "decode_unsigned_be (rp_pq demo_res_pq) = Ok 15" by (simp add: demo_res_pq_def decode_unsigned_be_def)
  moreover have "\<not> is_prime 15" by (simp add: is_prime_def small_primes_def is_multiple_of_def)
  ultimately have "prime_number 3 \<and> prime_number 5 \<and> 3 \<le> (5 :: nat) \<and> unat (15 :: u64) = 3 * 5 \<and> \<not> is_prime 15 \<longrightarrow>
      factor_res_pq demo_res_pq = Ok \<lparr>fp_pq = 15, fp_p = of_nat 3, fp_q = of_nat 5\<rparr>
    \<or> factor_res_pq demo_res_pq = Err (PqFactorizationFailed 15)"
    using pq_factored [of demo_res_pq 15] by blast
  then show ?thesis using demo_primes \<open>\<not> is_prime 15\<close> by simp
qed

definition demo_dh :: ServerDhInnerData where
  "demo_dh = \<lparr>sd_nonce = replicate 16 1, sd_server_nonce = replicate 16 2, sd_generator = 4,
     sd_dh_prime = known_prime_bytes, sd_g_a = 1 # replicate 250 0, sd_server_time = 9\<rparr>"

definition demo_fill :: "unit filling" where
  "demo_fill n r = (r, Ok (replicate (n - 2) 0 @ drop (2 - n) [3, 232]))"

definition demo_handshake_primitives :: MtprotoPrimitives where
  "demo_handshake_primitives =
     \<lparr>mp_sha1 = (\<lambda>x. replicate 20 (of_nat (length x))), mp_sha256 = (\<lambda>x. replicate 32 (of_nat (length x))),
      mp_encrypt_block = (\<lambda>k b. rev b), mp_decrypt_block = (\<lambda>k b. rev b)\<rparr>"

lemma demo_public_value:
  "(2 :: nat) ^ 2000 mod be_value known_prime_bytes = 2 ^ 2000"
  "validate_dh_public_value (be_value known_prime_bytes) (2 ^ 2000) = Ok ()"
proof -
  have "(2 :: nat) ^ 2000 < 2 ^ 2047" by (rule power_strict_increasing) simp_all
  then have "2 ^ 2000 < be_value known_prime_bytes" using known_prime_large by (rule order.strict_trans2)
  then show "(2 :: nat) ^ 2000 mod be_value known_prime_bytes = 2 ^ 2000" by (rule mod_less)
  have "(2 :: nat) ^ 2000 + 2 ^ 1984 \<le> 2 ^ 2000 + 2 ^ 2000" by (intro add_left_mono power_increasing) simp_all
  also have "\<dots> = 2 ^ 2001" using power_Suc [of "2 :: nat" 2000] by (simp only: mult_2 [symmetric]) simp
  also have "\<dots> \<le> 2 ^ 2047" by (rule power_increasing) simp_all
  finally have "2 ^ 2000 + 2 ^ 1984 \<le> be_value known_prime_bytes" using known_prime_large by (rule order.trans)
  moreover have "(2 :: nat) ^ 1984 \<le> 2 ^ 2000" by (rule power_increasing) simp_all
  ultimately show "validate_dh_public_value (be_value known_prime_bytes) (2 ^ 2000) = Ok ()"
    unfolding validate_dh_public_value_def Let_def
    by (simp add: not_less del: power_numeral)
qed

lemma demo_g_a: "be_value (1 # replicate 250 0) = 2 ^ 2000"
  using be_value_append [of "[1]" "replicate 250 0"] power_mult [of 2 8 250] by (simp add: be_value_def [of "[1]"])

lemma demo_dh_valid: "validate_server_dh_parameters plain_big demo_dh = Ok ()"
proof -
  have "bl_bits plain_big (be_value known_prime_bytes) = 2048"
  proof -
    have "be_value known_prime_bytes < 2 ^ 2048"
      using be_value_less [of known_prime_bytes] power_mult [of "2 :: nat" 8 256] by simp
    then have "bl_bits plain_big (be_value known_prime_bytes) \<le> 2048" by (simp only: big_lawsD(6) [OF plain_big_laws])
    moreover have "\<not> bl_bits plain_big (be_value known_prime_bytes) \<le> 2047"
      using known_prime_large by (simp only: big_lawsD(6) [OF plain_big_laws] not_less)
    ultimately show ?thesis by simp
  qed
  then show ?thesis
    using demo_public_value(2) demo_g_a
    by (simp add: validate_server_dh_parameters_def known_prime_decodes [OF plain_big_laws] big_lawsD(1) [OF plain_big_laws]
        demo_dh_def generator_fits_def Let_def del: power_numeral)
qed

theorem dh_key_agreed_witness:
  "\<exists>prepared g_b. prepare_client_dh plain_big demo_handshake_primitives demo_dh (replicate 32 3) 0 demo_fill ()
        = ((), Ok prepared)
     \<and> server_opens demo_handshake_primitives (replicate 32 3) (replicate 16 2) (pd_request_body prepared)
        = Some (replicate 16 1, replicate 16 2, 0, g_b)
     \<and> be_value (auth_key_bytes (pd_auth_key prepared)) = g_b ^ 1000 mod be_value known_prime_bytes"
proof -
  let ?pr = demo_handshake_primitives and ?n = "replicate 32 3" and ?b = "\<lambda>n. replicate (n - 2) 0 @ drop (2 - n) [3, 232 :: u8]"
  have laws: "primitive_laws ?pr" by (simp add: primitive_laws_def demo_handshake_primitives_def)
  have four: "(4 :: nat) ^ 1000 = 2 ^ 2000" using power_mult [of "2 :: nat" 2 1000] by simp
  have "be_value (?b 256) = 1000" by (simp add: be_value_append be_value_def [of "[3, 232]"])
  then have "dh_exponent plain_big (?b 256) = 1000"
    using big_lawsD(6) [OF plain_big_laws, of 1000 0] by (simp add: dh_exponent_def big_lawsD(1) [OF plain_big_laws] Let_def)
  moreover have "\<forall>n :: nat. Suc (Suc (n - 2)) - (2 - n) = n" by presburger
  ultimately obtain r' prepared where p: "prepare_client_dh plain_big ?pr demo_dh ?n 0 demo_fill () = (r', Ok prepared)"
    using prepare_client_dh_defined [OF plain_big_laws laws, of demo_dh ?n demo_fill "\<lambda>_ r. r" ?b 0] demo_dh_valid demo_public_value four
    by (auto simp: demo_fill_def demo_dh_def simp del: power_numeral)
  have "be_value (sd_g_a demo_dh) = unat (sd_generator demo_dh) ^ 1000 mod be_value (sd_dh_prime demo_dh)"
    using demo_g_a demo_public_value(1) four by (simp add: demo_dh_def del: power_numeral)
  from dh_key_agreed [OF plain_big_laws laws _ _ _ this p] show ?thesis
    using p by (auto simp: demo_dh_def)
qed

end
