(* ===== verification/Handshake_Exchange.thy ===== *)
theory Handshake_Exchange
  imports Handshake_Safety
begin

text \<open>
  A whole key exchange of \<open>handshake.rs\<close>, from the first request to the established key, evaluated for
  concrete answers of a server: the number 6 to factor, the main key of the server, parameters of the
  trusted group with generator 4, and a random source that always gives the same bytes.
\<close>

section \<open>Reading a known input\<close>

text \<open>Reading on where the reader stands, through an input that is known.\<close>

definition reading_at :: "nat \<Rightarrow> nat \<Rightarrow> TlReader \<Rightarrow> nat \<Rightarrow> bytes \<Rightarrow> bool" where
  "reading_at mb mv r k bs \<longleftrightarrow>
     reader_ok r \<and> tr_max_bytes r = mb \<and> tr_max_vector_length r = mv \<and> tr_offset r = k \<and> unread r = bs"

lemma reading_start: "length bs < 2 ^ 64 \<Longrightarrow> reading_at mb mv (with_limits bs mb mv) 0 bs"
  by (simp add: reading_at_def with_limits_def reader_ok_def unread_def)

lemma reading_end: "reading_at mb mv r k [] \<Longrightarrow> is_finished r"
  by (auto simp: reading_at_def is_finished_def remaining_def unread_def reader_ok_def)

lemma reading_step:
  assumes "reading_at mb mv r k (bs @ rest)" "parses mb mv p bs x"
    and "\<And>r'. reading_at mb mv r' (k + length bs) rest \<Longrightarrow> snd (f x r') = y"
  shows "snd (and_read p f r) = y"
proof -
  have "p r = (advance (length bs) r, Ok x)" using assms(1,2) by (auto simp: reading_at_def parses_def)
  moreover have "reading_at mb mv (advance (length bs) r) (k + length bs) rest"
    using assms(1) unread_advance [of r bs rest] by (auto simp: reading_at_def intro: reader_ok_advance)
  ultimately show ?thesis using assms(3) by (simp add: and_read_def)
qed

lemma reading_last:
  "reading_at mb mv r k bs \<Longrightarrow> parses mb mv p bs x \<Longrightarrow>
     (\<And>r'. reading_at mb mv r' (k + length bs) [] \<Longrightarrow> snd (f x r') = y) \<Longrightarrow> snd (and_read p f r) = y"
  using reading_step [of mb mv r k bs "[]" p x f y] by simp

lemma and_read_pure: "and_read (reads (Ok x)) f = f x"
  by (simp add: fun_eq_iff and_read_def reads_def)

lemma reading_finished: "reading_at mb mv r k [] \<Longrightarrow> snd (f () r) = y \<Longrightarrow> snd (and_read (expect_finished e) f r) = y"
  by (simp add: and_read_def expect_finished_def reading_end)

lemmas reading_values =
  parses_lift [OF u32_codec.parses_enc] parses_lift [OF i32_codec.parses_enc] parses_lift [OF u64_codec.parses_enc]
  parses_lift [OF i128_codec.parses_enc] parses_lift [OF bytes_codec.parses_enc]
  parses_lift [OF vector_length_codec.parses_enc]

section \<open>The first answer and the request for the parameters\<close>

definition exchange_random :: "unit \<Rightarrow> nat \<Rightarrow> unit \<times> bytes option" where
  "exchange_random r n = (r, Some (replicate (n - 2) 0 @ drop (2 - n) [3, 232]))"

lemma exchange_random_fill: "secure_random_fill exchange_random = demo_fill"
  by (simp add: fun_eq_iff secure_random_fill_def exchange_random_def demo_fill_def)

abbreviation "demo_nonce \<equiv> replicate 16 (1 :: u8)"
abbreviation "demo_server_nonce \<equiv> replicate 16 (2 :: u8)"
abbreviation "demo_new_nonce \<equiv> replicate 30 (0 :: u8) @ [3, 232]"
abbreviation "demo_fingerprint \<equiv> 0x0808080808080808 :: u64"

definition demo_first :: bytes where
  "demo_first = to_le 4 RES_PQ_CONSTRUCTOR @ demo_nonce @ demo_server_nonce @ enc_bytes [6]
     @ enc_vector_length 1 @ to_le 8 demo_fingerprint"

definition demo_first_answer :: ResPq where
  "demo_first_answer = \<lparr>rp_nonce = demo_nonce, rp_server_nonce = demo_server_nonce, rp_pq = [6],
     rp_server_public_key_fingerprints = [demo_fingerprint]\<rparr>"

lemma demo_first_read: "parse_res_pq demo_first = Ok demo_first_answer"
proof -
  have "length demo_first < 2 ^ 64"
    using length_enc_bytes_le [of "[6]"] by (simp add: demo_first_def enc_vector_length_def)
  then have start: "reading_at 1024 64 (with_limits demo_first 1024 64) 0 demo_first" by (rule reading_start)
  have many: "parses 1024 64 (read_many (Suc 0) (hs_read read_u64)) (to_le 8 demo_fingerprint) [demo_fingerprint]"
    using parses_and_read_last [OF parses_lift [OF u64_codec.parses_enc [OF TrueI]],
        of "\<lambda>x. reads (Ok [x])" demo_fingerprint "[demo_fingerprint]" 1024 64 HsTl]
    by (simp add: and_read_pure)
  show ?thesis
    unfolding parse_res_pq_def demo_first_def
    apply (rule reading_step [OF start [unfolded demo_first_def]], rule reading_values, simp)
    apply simp
    apply (rule reading_step, assumption, rule reading_values, simp)
    apply (rule reading_step, assumption, rule reading_values, simp)
    apply (rule reading_step, assumption, rule reading_values, simp)
    apply (rule reading_step, assumption, rule reading_values, simp)
    apply (rule reading_last, assumption, rule many)
    apply (rule reading_finished, assumption)
    apply (simp add: reads_def demo_first_answer_def)
    done
qed


lemma demo_factors: "factor_res_pq demo_first_answer = Ok \<lparr>fp_pq = 6, fp_p = 2, fp_q = 3\<rparr>"
  by (simp add: factor_res_pq_def demo_first_answer_def decode_unsigned_be_def is_prime_def small_primes_def
      is_multiple_of_def pollard_rho_factor_def saturating_mul_u64_def)

lemma hex_decode_even: "length cs = 2 * n \<Longrightarrow> \<exists>bs. hex_decode_pairs cs = Some bs \<and> length bs = n"
proof (induction cs arbitrary: n rule: hex_decode_pairs.induct)
  case (1 a b cs)
  from "1.prems" obtain m where "n = Suc m" "length cs = 2 * m" by (cases n) auto
  with "1.IH" show ?case by fastforce
qed simp_all

lemma demo_modulus:
  "\<exists>rest. telegram_server_rsa_key plain_big False = Ok \<lparr>rk_modulus = 0xE8 # rest, rk_exponent = [1, 0, 1]\<rparr>
     \<and> length rest = 255"
proof -
  obtain cs where cs: "TELEGRAM_MAIN_RSA_MODULUS_HEX = CHR ''E'' # CHR ''8'' # cs" "length cs = 2 * 255"
    by (simp add: TELEGRAM_MAIN_RSA_MODULUS_HEX_def)
  obtain rest where "hex_decode_pairs cs = Some rest" "length rest = 255"
    using hex_decode_even [OF cs(2)] by blast
  then have "bl_hex_decode plain_big TELEGRAM_MAIN_RSA_MODULUS_HEX = Some (0xE8 # rest)"
    by (simp add: plain_big_def cs(1) hex_digit_of_def is_ascii_digit_def)
  with \<open>length rest = 255\<close> show ?thesis
    by (simp add: telegram_server_rsa_key_def from_components_def)
qed


lemma demo_fingerprint_found:
  assumes "length rest = 255"
  shows "fingerprint demo_handshake_primitives \<lparr>rk_modulus = 0xE8 # rest, rk_exponent = [1, 0, 1]\<rparr> = Ok demo_fingerprint"
proof -
  have "from_le (replicate 8 (264 :: u8)) = demo_fingerprint" by code_simp
  then show ?thesis
    using assms
    by (simp add: fingerprint_def written_outcome demo_handshake_primitives_def enc_bytes_def padding_length_def
        sub_range_def Let_def)
qed

lemma demo_primitives_keep: "primitive_laws demo_handshake_primitives"
  by (simp add: primitive_laws_def demo_handshake_primitives_def)

lemma bits_2048: "128 * 256 ^ 255 \<le> m \<Longrightarrow> m < 256 ^ 256 \<Longrightarrow> bl_bits plain_big m = 2048"
proof -
  assume m: "128 * 256 ^ 255 \<le> m" "m < 256 ^ 256"
  have "(2 :: nat) ^ 2047 = 128 * 256 ^ 255" "(2 :: nat) ^ 2048 = 256 ^ 256"
    using power_mult [of "2 :: nat" 8 255] power_add [of "2 :: nat" 7 "8 * 255"] power_mult [of "2 :: nat" 8 256]
    by simp_all
  with m have "bl_bits plain_big m \<le> 2048" "\<not> bl_bits plain_big m \<le> 2047"
    by (simp_all only: big_lawsD(6) [OF plain_big_laws] not_less)
  then show ?thesis by simp
qed

lemma be_value_Cons: "be_value (b # bs) = unat b * 256 ^ length bs + be_value bs"
  using be_value_append [of "[b]" bs] by (simp add: be_value_def [of "[b]"])

lemma be_value_Cons_less: "unat b < c \<Longrightarrow> be_value (b # bs) < c * 256 ^ length bs"
proof -
  assume "unat b < c"
  then have "(unat b + 1) * 256 ^ length bs \<le> c * 256 ^ length bs" by (intro mult_right_mono) simp_all
  moreover have "be_value (b # bs) < (unat b + 1) * 256 ^ length bs"
    using be_value_less [of bs] by (simp only: be_value_Cons add_mult_distrib)
  ultimately show ?thesis by (rule order.strict_trans2 [rotated])
qed

lemma demo_block:
  assumes "length data = 192"
  shows "\<exists>block. rsa_pad_block demo_handshake_primitives data demo_new_nonce = Ok block
    \<and> be_value block < 232 * 256 ^ 255"
proof -
  let ?pr = demo_handshake_primitives and ?p = "rev data @ replicate 32 (224 :: u8)"
  obtain encrypted where enc: "aes_ige_encrypt ?pr ?p demo_new_nonce (replicate 32 0) = Ok encrypted"
    using assms by (simp add: aes_ige_encrypt_def AES_BLOCK_LENGTH_def)
  then have len: "length encrypted = 224"
    using aes_ige_length [OF demo_primitives_keep _ _ enc] assms by simp
  let ?block = "map2 (XOR) demo_new_nonce (replicate 32 224) @ encrypted"
  obtain t where t: "?block = 224 # t" "length t = 255"
    using len by (simp add: numeral_eq_Suc)
  have "be_value ?block < 232 * 256 ^ 255"
    using be_value_Cons_less [of "224 :: u8" 232 t] unfolding t by simp
  moreover have "rsa_pad_block ?pr data demo_new_nonce = Ok ?block"
    using enc assms len by (simp add: rsa_pad_block_def Let_def demo_handshake_primitives_def)
  ultimately show ?thesis by blast
qed

lemma demo_rsa:
  assumes "length rest = 255" "length data \<le> 144"
  shows "\<exists>encrypted. rsa_pad_with_random plain_big demo_handshake_primitives data
      \<lparr>rk_modulus = 0xE8 # rest, rk_exponent = [1, 0, 1]\<rparr> demo_fill () = ((), Ok encrypted) \<and> length encrypted = 256"
proof -
  let ?pr = demo_handshake_primitives
  define m where "m = be_value (0xE8 # rest)"
  let ?data = "data @ replicate (190 - length data) 0 @ [3, 232 :: u8]"
  have large: "232 * 256 ^ 255 \<le> m" unfolding m_def be_value_Cons assms(1) by simp
  then have "0 < m" by (rule order.strict_trans2 [rotated]) simp
  have small: "m < 256 ^ 256" using be_value_less [of "0xE8 # rest"] assms(1) by (simp add: m_def)
  have "128 * 256 ^ 255 \<le> m" by (rule order.trans [OF _ large]) (rule mult_right_mono, simp_all)
  then have bits: "bl_bits plain_big m = 2048" using small by (rule bits_2048)
  obtain block where block: "rsa_pad_block ?pr ?data demo_new_nonce = Ok block" "be_value block < m"
    using demo_block [of ?data] assms(2) large by (auto intro: order.strict_trans2)
  have e: "be_value [1, 0, 1] = 65537" "rev (minimal_be 65537) = [1, 0, 1]"
    by (simp_all add: be_value_def minimal_be.simps)
  have "be_value block ^ 65537 mod m < 256 ^ 256"
    using mod_less_divisor [OF \<open>0 < m\<close>] small by (rule order.strict_trans)
  then have len: "length (minimal_be (be_value block ^ 65537 mod m)) \<le> 256"
    by (intro length_minimal_be) simp_all
  have "demo_fill (192 - length data) () = ((), Ok (replicate (190 - length data) 0 @ [3, 232]))"
    "demo_fill 32 () = ((), Ok demo_new_nonce)"
    using assms(2) by (simp_all add: demo_fill_def)
  then have "rsa_pad_loop (Suc n) plain_big ?pr data m 65537 demo_fill ()
      = ((), Ok (replicate (256 - length (minimal_be (be_value block ^ 65537 mod m))) 0
          @ minimal_be (be_value block ^ 65537 mod m)))" for n
    using block len by (simp add: and_draw_def plain_big_def Let_def)
  from this [of 127] have loop: "rsa_pad_loop 128 plain_big ?pr data m 65537 demo_fill ()
      = ((), Ok (replicate (256 - length (minimal_be (be_value block ^ 65537 mod m))) 0
          @ minimal_be (be_value block ^ 65537 mod m)))" by simp
  have "rsa_pad_with_random plain_big ?pr data \<lparr>rk_modulus = 0xE8 # rest, rk_exponent = [1, 0, 1]\<rparr> demo_fill
      = rsa_pad_loop 128 plain_big ?pr data m 65537 demo_fill"
    using assms(2) bits e by (simp add: rsa_pad_with_random_def Let_def plain_big_def m_def)
  with loop show ?thesis using len by simp
qed


lemma demo_prepared:
  "\<exists>body. prepare_req_dh_params plain_big demo_handshake_primitives exchange_random
      \<lparr>hk_nonce = demo_nonce, hk_state = ResPqReceived demo_first_answer, hk_server_nonce = Some demo_server_nonce,
       hk_new_nonce = None, hk_server_dh = None, hk_prepared_client_dh = None\<rparr> 8 2 False ()
    = (\<lparr>hk_nonce = demo_nonce, hk_state = AwaitingServerDh, hk_server_nonce = Some demo_server_nonce,
       hk_new_nonce = Some demo_new_nonce, hk_server_dh = None, hk_prepared_client_dh = None\<rparr>, (),
       Ok \<lparr>pe_message_id = 8, pe_body = body\<rparr>)"
proof -
  let ?pr = demo_handshake_primitives and ?f = "\<lparr>fp_pq = 6, fp_p = 2, fp_q = 3\<rparr>"
  obtain rest where key: "telegram_server_rsa_key plain_big False = Ok \<lparr>rk_modulus = 0xE8 # rest, rk_exponent = [1, 0, 1]\<rparr>"
    and len: "length rest = 255" using demo_modulus by blast
  have "unsigned_be_bytes 2 = [2]" "unsigned_be_bytes 3 = [3]"
    by (simp_all add: unsigned_be_bytes_def Let_def) code_simp+
  then have bytes: "p_bytes ?f = [2]" "q_bytes ?f = [3]" by (simp_all add: p_bytes_def q_bytes_def)
  have fill: "demo_fill 32 () = ((), Ok demo_new_nonce)" by (simp add: demo_fill_def)
  obtain inner where inner: "build_p_q_inner_data_dc demo_first_answer ?f demo_new_nonce 2 = Ok inner" "length inner \<le> 144"
    by (simp add: build_p_q_inner_data_dc_def demo_first_answer_def decode_unsigned_be_def saturating_mul_u64_def
        written_outcome bytes enc_bytes_def padding_length_def Let_def)
  obtain encrypted where rsa: "rsa_pad_with_random plain_big ?pr inner \<lparr>rk_modulus = 0xE8 # rest, rk_exponent = [1, 0, 1]\<rparr>
      demo_fill () = ((), Ok encrypted)" "length encrypted = 256"
    using demo_rsa [OF len inner(2)] by blast
  then have "encrypted \<noteq> []" by auto
  with rsa(2) obtain body where body: "build_req_dh_params demo_first_answer ?f demo_fingerprint encrypted = Ok body"
    by (simp add: build_req_dh_params_def demo_first_answer_def written_outcome bytes)
  have "demo_fingerprint \<in> set (rp_server_public_key_fingerprints demo_first_answer)"
    by (simp add: demo_first_answer_def)
  with key fill inner(1) rsa(1) body demo_factors demo_fingerprint_found [OF len] show ?thesis
    by (simp add: prepare_req_dh_params_def prepare_req_dh_params_with_random_def exchange_random_fill and_draw_def)
qed


section \<open>The parameters and the confirmation\<close>

text \<open>The answer of the server with its parameters, and the encryption under the secret nonce.\<close>

definition demo_inner :: bytes where
  "demo_inner = to_le 4 SERVER_DH_INNER_DATA_CONSTRUCTOR @ demo_nonce @ demo_server_nonce @ to_le 4 (4 :: i32)
     @ enc_bytes known_prime_bytes @ enc_bytes (1 # replicate 250 0) @ to_le 4 (9 :: i32)"

lemma length_demo_inner: "length demo_inner = 556"
  by (simp add: demo_inner_def enc_bytes_def padding_length_def)

lemma demo_inner_read:
  assumes "aes_ige_decrypt demo_handshake_primitives encrypted key iv
      = Ok (mp_sha1 demo_handshake_primitives demo_inner @ demo_inner)"
    and "derive_tmp_aes_key_iv demo_handshake_primitives demo_new_nonce demo_server_nonce = (key, iv)"
    and "encrypted \<noteq> []" "length encrypted mod 16 = 0"
  shows "decrypt_server_dh_inner_data plain_big demo_handshake_primitives encrypted demo_new_nonce demo_nonce demo_server_nonce
    = Ok demo_dh"
proof -
  let ?pr = demo_handshake_primitives and ?in = demo_inner
  have sha: "length (mp_sha1 ?pr demo_inner) = 20" by (simp add: demo_handshake_primitives_def)
  have start: "reading_at 1048576 64 (with_limits ?in 1048576 64) 0 ?in"
    by (rule reading_start) (simp add: length_demo_inner)
  have read: "snd (and_read (hs_read read_u32) (\<lambda>constructor.
                  if constructor \<noteq> SERVER_DH_INNER_DATA_CONSTRUCTOR
                  then reads (Err (UnexpectedServerDhInnerConstructor constructor))
                  else
                    and_read (hs_read read_i128_bytes) (\<lambda>nonce.
                    and_read (hs_read read_i128_bytes) (\<lambda>server_nonce.
                    and_read (reads (validate_nonce_pair nonce server_nonce demo_nonce demo_server_nonce)) (\<lambda>_.
                    and_read (hs_read read_i32) (\<lambda>generator.
                    and_read (hs_read read_bytes) (\<lambda>dh_prime.
                    and_read (hs_read read_bytes) (\<lambda>g_a.
                    and_read (hs_read read_i32) (\<lambda>server_time r. check nonce server_nonce generator dh_prime g_a server_time r))))))))
                (with_limits ?in 1048576 64)) = y"
    if "\<And>r. reader_position r = 556 \<Longrightarrow> snd (check demo_nonce demo_server_nonce 4 known_prime_bytes (1 # replicate 250 0) 9 r) = y"
    for check and y :: "(ServerDhInnerData, HandshakeError) result"
    unfolding demo_inner_def append_assoc
    apply (rule reading_step [OF start [unfolded demo_inner_def append_assoc]], rule reading_values, simp)
    apply simp
    apply (rule reading_step, assumption, rule reading_values, simp)
    apply (rule reading_step, assumption, rule reading_values, simp)
    apply (simp add: validate_nonce_pair_def and_read_pure)
    apply (rule reading_step, assumption, rule reading_values, simp)
    apply (rule reading_step, assumption, rule reading_values, simp)
    apply (rule reading_step, assumption, rule reading_values, simp)
    apply (rule reading_last, assumption, rule reading_values, simp)
    apply (rule that)
    apply (simp add: reading_at_def reader_position_def enc_bytes_def padding_length_def)
    done
  have "demo_dh = \<lparr>sd_nonce = demo_nonce, sd_server_nonce = demo_server_nonce, sd_generator = 4,
      sd_dh_prime = known_prime_bytes, sd_g_a = 1 # replicate 250 0, sd_server_time = 9\<rparr>" by (simp add: demo_dh_def)
  then show ?thesis
    using assms sha demo_dh_valid
    by (simp add: decrypt_server_dh_inner_data_def Let_def length_demo_inner)
      (rule read, simp add: length_demo_inner Let_def word_sless_alt)
qed

definition demo_second :: "bytes \<Rightarrow> bytes" where
  "demo_second encrypted = to_le 4 SERVER_DH_PARAMS_OK_CONSTRUCTOR @ demo_nonce @ demo_server_nonce @ enc_bytes encrypted"

lemma demo_second_read:
  assumes "length encrypted < 2 ^ 24"
  shows "parse_server_dh_params (demo_second encrypted) demo_nonce demo_server_nonce = Ok (DhParamsOk encrypted)"
proof -
  have "length (demo_second encrypted) < 2 ^ 64"
    using assms length_enc_bytes_le [of encrypted] by (simp add: demo_second_def)
  then have start: "reading_at DEFAULT_MAX_PLAINTEXT_BODY 64 (with_limits (demo_second encrypted) DEFAULT_MAX_PLAINTEXT_BODY 64)
      0 (demo_second encrypted)" by (rule reading_start)
  have bytes: "parses DEFAULT_MAX_PLAINTEXT_BODY 64 (and_read (hs_read read_bytes) (\<lambda>e. reads (Ok (DhParamsOk e))))
      (enc_bytes encrypted) (DhParamsOk encrypted)"
    using assms by (intro parses_and_read_last [where x = encrypted] reading_values) (simp_all add: DEFAULT_MAX_PLAINTEXT_BODY_def)
  show ?thesis
    unfolding parse_server_dh_params_def demo_second_def
    apply (rule reading_step [OF start [unfolded demo_second_def]], rule reading_values, simp)
    apply (rule reading_step, assumption, rule reading_values, simp)
    apply (rule reading_step, assumption, rule reading_values, simp)
    apply (simp add: validate_nonce_pair_def and_read_pure)
    apply (rule reading_last, assumption, rule bytes)
    apply (rule reading_finished, assumption)
    apply (simp add: reads_def)
    done
qed

lemma demo_third_read:
  "parse_dh_gen_result demo_handshake_primitives
     (to_le 4 DH_GEN_OK_CONSTRUCTOR @ demo_nonce @ demo_server_nonce @ new_nonce_hash demo_handshake_primitives demo_new_nonce 1 h)
     demo_nonce demo_server_nonce demo_new_nonce h = Ok DhGenOk"
proof -
  let ?pr = demo_handshake_primitives
  let ?b = "to_le 4 DH_GEN_OK_CONSTRUCTOR @ demo_nonce @ demo_server_nonce @ new_nonce_hash ?pr demo_new_nonce 1 h"
  have len: "length (new_nonce_hash ?pr demo_new_nonce 1 h) = 16"
    by (simp add: new_nonce_hash_def demo_handshake_primitives_def sub_range_def)
  then have "length ?b < 2 ^ 64" by simp
  then have start: "reading_at DEFAULT_MAX_BYTES DEFAULT_MAX_VECTOR_LENGTH
      (with_limits ?b DEFAULT_MAX_BYTES DEFAULT_MAX_VECTOR_LENGTH) 0 ?b" by (rule reading_start)
  show ?thesis
    unfolding parse_dh_gen_result_def TlReader_new_limits
    apply (rule reading_step [OF start], rule reading_values, simp)
    apply (rule reading_step, assumption, rule reading_values, simp)
    apply (rule reading_step, assumption, rule reading_values, simp)
    apply (simp add: validate_nonce_pair_def and_read_pure)
    apply (rule reading_last, assumption, rule reading_values, rule len)
    apply (rule reading_finished, assumption)
    apply (simp add: reads_def)
    done
qed


section \<open>The run\<close>

definition demo_waiting :: AuthKeyHandshake where
  "demo_waiting = \<lparr>hk_nonce = demo_nonce, hk_state = AwaitingServerDh, hk_server_nonce = Some demo_server_nonce,
     hk_new_nonce = Some demo_new_nonce, hk_server_dh = None, hk_prepared_client_dh = None\<rparr>"

lemma demo_parameters_accepted:
  "\<exists>encrypted prepared. receive_server_dh plain_big demo_handshake_primitives exchange_random demo_waiting
       \<lparr>pe_message_id = 1, pe_body = demo_second encrypted\<rparr> 12 ()
     = (demo_waiting\<lparr>hk_server_dh := Some demo_dh, hk_prepared_client_dh := Some prepared, hk_state := AwaitingDhGen\<rparr>, (),
        Ok \<lparr>pe_message_id = 12, pe_body = pd_request_body prepared\<rparr>) \<and> length encrypted = 576"
proof -
  let ?pr = demo_handshake_primitives and ?b = "\<lambda>n. replicate (n - 2) 0 @ drop (2 - n) [3, 232 :: u8]"
  obtain key iv where ki: "derive_tmp_aes_key_iv ?pr demo_new_nonce demo_server_nonce = (key, iv)" by fastforce
  have "length demo_new_nonce = 32" by simp
  note lens = tmp_lengths [OF demo_primitives_keep this ki]
  let ?plain = "mp_sha1 ?pr demo_inner @ demo_inner"
  have len: "length ?plain = 576" by (simp add: length_demo_inner demo_handshake_primitives_def)
  then have "?plain \<noteq> []" by auto
  then obtain encrypted where enc: "aes_ige_encrypt ?pr ?plain key iv = Ok encrypted"
    using len by (simp add: aes_ige_encrypt_def AES_BLOCK_LENGTH_def)
  then have e: "length encrypted = 576" using aes_ige_length [OF demo_primitives_keep lens enc] len by simp
  have dec: "aes_ige_decrypt ?pr encrypted key iv = Ok ?plain"
    using aes_ige_inverse [OF demo_primitives_keep lens] enc by blast
  have "encrypted \<noteq> []" "length encrypted mod 16 = 0" using e by auto
  note read = demo_inner_read [OF dec ki this] demo_second_read [of encrypted]
  have "be_value (?b 256) = 1000" by (simp add: be_value_append be_value_def [of "[3, 232]"])
  then have "dh_exponent plain_big (?b 256) = 1000"
    using big_lawsD(6) [OF plain_big_laws, of 1000 0] by (simp add: dh_exponent_def big_lawsD(1) [OF plain_big_laws] Let_def)
  moreover have "\<forall>n :: nat. Suc (Suc (n - 2)) - (2 - n) = n" by presburger
  moreover have "(4 :: nat) ^ 1000 = 2 ^ 2000" using power_mult [of "2 :: nat" 2 1000] by simp
  ultimately obtain prepared where "prepare_client_dh plain_big ?pr demo_dh demo_new_nonce 0 demo_fill () = ((), Ok prepared)"
    using prepare_client_dh_defined [OF plain_big_laws demo_primitives_keep, of demo_dh demo_new_nonce demo_fill "\<lambda>_ r. r" ?b 0 "()"]
      demo_dh_valid demo_public_value
    by (auto simp: demo_fill_def demo_dh_def simp del: power_numeral)
  with read e show ?thesis
    by (intro exI [of _ encrypted] exI [of _ prepared])
      (simp add: receive_server_dh_def receive_server_dh_with_random_def exchange_random_fill demo_waiting_def and_draw_def)
qed

text \<open>
  The run reaches the end: the client begins, is given the first answer, prepares its request, is given
  the parameters and then the confirmation, and establishes one key.
\<close>

lemma exchange_run:
  "\<exists>ops s k. s = foldl (hs_step plain_big demo_handshake_primitives exchange_random) (hs_start demo_nonce ()) ops
     \<and> hr_established s = [k] \<and> hk_server_dh (hr_handshake s) = Some demo_dh
     \<and> (\<exists>a b c. hr_answers s = [a, b, c] \<and> length a < 1000 \<and> length b < 1000 \<and> length c < 1000)"
proof -
  let ?pr = demo_handshake_primitives and ?step = "hs_step plain_big demo_handshake_primitives exchange_random"
  obtain body where p: "prepare_req_dh_params plain_big ?pr exchange_random
      \<lparr>hk_nonce = demo_nonce, hk_state = ResPqReceived demo_first_answer, hk_server_nonce = Some demo_server_nonce,
       hk_new_nonce = None, hk_server_dh = None, hk_prepared_client_dh = None\<rparr> 8 2 False ()
    = (demo_waiting, (), Ok \<lparr>pe_message_id = 8, pe_body = body\<rparr>)"
    using demo_prepared by (auto simp: demo_waiting_def)
  obtain encrypted prepared where d: "receive_server_dh plain_big ?pr exchange_random demo_waiting
       \<lparr>pe_message_id = 1, pe_body = demo_second encrypted\<rparr> 12 ()
     = (demo_waiting\<lparr>hk_server_dh := Some demo_dh, hk_prepared_client_dh := Some prepared, hk_state := AwaitingDhGen\<rparr>, (),
        Ok \<lparr>pe_message_id = 12, pe_body = pd_request_body prepared\<rparr>)" "length encrypted = 576"
    using demo_parameters_accepted by blast
  let ?third = "to_le 4 DH_GEN_OK_CONSTRUCTOR @ demo_nonce @ demo_server_nonce
      @ new_nonce_hash ?pr demo_new_nonce 1 (pd_auth_key_aux_hash prepared)"
  let ?first = "[HsBegin 4, HsResPq \<lparr>pe_message_id = 1, pe_body = demo_first\<rparr>, HsPrepare 8 2 False]"
  let ?rest = "[HsServerDh \<lparr>pe_message_id = 1, pe_body = demo_second encrypted\<rparr> 12,
      HsDhGen \<lparr>pe_message_id = 1, pe_body = ?third\<rparr> 16]"
  define s where "s = foldl ?step (hs_start demo_nonce ()) ?first"
  have s: "hr_handshake s = demo_waiting" "hr_established s = []" "hr_answers s = [demo_first]"
    using p demo_first_read by (simp_all add: s_def hs_start_def begin_handshake_def receive_res_pq_def
        AuthKeyHandshake_new_def Let_def demo_first_answer_def)
  define t where "t = foldl ?step s ?rest"
  let ?k = "\<lparr>ek_auth_key = pd_auth_key prepared, ek_server_salt = pd_server_salt prepared, ek_server_time = 9\<rparr>"
  have "hr_established t = [?k]" "hr_answers t = [demo_first, demo_second encrypted, ?third]"
    "hk_server_dh (hr_handshake t) = Some demo_dh"
    using s d(1) demo_third_read [of "pd_auth_key_aux_hash prepared"]
    by (simp_all add: t_def receive_dh_gen_def demo_waiting_def demo_dh_def)
  moreover have "length demo_first < 1000" "length (demo_second encrypted) < 1000" "length ?third < 1000"
    using length_enc_bytes_le [of encrypted] length_enc_bytes_le [of "[6]"] d(2)
    by (simp_all add: demo_first_def demo_second_def enc_vector_length_def new_nonce_hash_def
        demo_handshake_primitives_def sub_range_def)
  moreover have "t = foldl ?step (hs_start demo_nonce ()) (?first @ ?rest)" by (simp add: t_def s_def)
  ultimately show ?thesis by blast
qed

theorem established_key_confirmed_witness:
  "\<exists>ops s k x request. s = foldl (hs_step plain_big demo_handshake_primitives exchange_random) (hs_start demo_nonce ()) ops
     \<and> hr_established s = [k] \<and> hk_state (hr_handshake s) = HsComplete
     \<and> request \<in> set (hr_sent s)
     \<and> (\<exists>new_nonce retry_id. server_opens demo_handshake_primitives new_nonce demo_server_nonce request
          = Some (demo_nonce, demo_server_nonce, retry_id, 4 ^ x mod be_value known_prime_bytes))
     \<and> be_value (auth_key_bytes (ek_auth_key k)) = (2 ^ 2000) ^ x mod be_value known_prime_bytes"
proof -
  obtain ops s k a b c where run: "s = foldl (hs_step plain_big demo_handshake_primitives exchange_random) (hs_start demo_nonce ()) ops"
    "hr_established s = [k]" "hk_server_dh (hr_handshake s) = Some demo_dh" "hr_answers s = [a, b, c]"
    "length a < 1000" "length b < 1000" "length c < 1000"
    using exchange_run by blast
  have "\<And>r m r' bs. exchange_random r m = (r', Some bs) \<Longrightarrow> length bs = m"
    by (auto simp: exchange_random_def)
  note confirmed = established_key_confirmed [OF plain_big_laws demo_primitives_keep this run(1)]
  have fits: "\<forall>body \<in> set (hr_answers s). length body < 2 ^ 64" using run(4-) by simp
  have d: "sd_server_nonce demo_dh = demo_server_nonce" "be_value (sd_g_a demo_dh) = 2 ^ 2000" "sd_generator demo_dh = 4"
    using demo_g_a by (simp_all add: demo_dh_def)
  from confirmed [OF _ fits] run(2,3) d show ?thesis
    using run(1) by (auto simp del: power_numeral) blast
qed

end
