(* ===== verification/Datacenters.thy ===== *)
theory Datacenters
  imports Bytes
begin

text \<open>
  Data centers of \<open>telegram-protocol/src/dc.rs\<close>: endpoints, the directory with its pinned addresses,
  the choice of candidates and the routing of errors of the server. Addresses are read as the parser
  of \<open>std::net\<close> reads them.
\<close>

section \<open>Addresses\<close>

datatype IpAddr = IpV4 "u8 list" | IpV6 "u16 list"

primrec is_ipv6 :: "IpAddr \<Rightarrow> bool" where
  "is_ipv6 (IpV4 _) = False"
| "is_ipv6 (IpV6 _) = True"

text \<open>The digits of a number in base 10 or 16.\<close>

definition digit_value :: "nat \<Rightarrow> char \<Rightarrow> nat option" where
  "digit_value radix c =
     (let v = (if is_ascii_digit c then Some (of_char c - 48)
               else if CHR ''a'' \<le> c \<and> c \<le> CHR ''f'' then Some (of_char c - 87)
               else if CHR ''A'' \<le> c \<and> c \<le> CHR ''F'' then Some (of_char c - 55)
               else None)
      in (case v of Some d \<Rightarrow> if d < radix then Some d else None | None \<Rightarrow> None))"

definition digits_of :: "nat \<Rightarrow> string \<Rightarrow> string" where
  "digits_of radix s = takeWhile (\<lambda>c. digit_value radix c \<noteq> None) s"

text \<open>\<open>Parser::read_number\<close>: a number of so many digits at most, below a bound.\<close>

definition read_number :: "nat \<Rightarrow> nat \<Rightarrow> bool \<Rightarrow> nat \<Rightarrow> string \<Rightarrow> (nat \<times> string) option" where
  "read_number radix max_digits allow_zero_prefix bound s =
     (let ds = digits_of radix s;
          value = foldl (\<lambda>acc c. radix * acc + the (digit_value radix c)) 0 ds
      in if ds = [] \<or> max_digits < length ds \<or> bound \<le> value then None
         else if \<not> allow_zero_prefix \<and> hd ds = CHR ''0'' \<and> 1 < length ds then None
         else Some (value, drop (length ds) s))"

definition read_given_char :: "char \<Rightarrow> string \<Rightarrow> string option" where
  "read_given_char c s = (case s of x # xs \<Rightarrow> if x = c then Some xs else None | [] \<Rightarrow> None)"

text \<open>\<open>Parser::read_separator\<close>: after the first item a separator comes before each.\<close>

definition after_separator :: "char \<Rightarrow> nat \<Rightarrow> (string \<Rightarrow> ('a \<times> string) option) \<Rightarrow> string \<Rightarrow> ('a \<times> string) option" where
  "after_separator sep i p s =
     (if i = 0 then p s else Option.bind (read_given_char sep s) p)"

fun read_octets :: "nat \<Rightarrow> nat \<Rightarrow> string \<Rightarrow> (u8 list \<times> string) option" where
  "read_octets i 0 s = Some ([], s)"
| "read_octets i (Suc n) s =
     (case after_separator CHR ''.'' i (read_number 10 3 False 256) s of
        None \<Rightarrow> None
      | Some (v, s) \<Rightarrow> map_option (\<lambda>(vs, s). (of_nat v # vs, s)) (read_octets (Suc i) n s))"

definition read_ipv4_addr :: "string \<Rightarrow> (u8 list \<times> string) option" where
  "read_ipv4_addr s = read_octets 0 4 s"

definition octet_pair :: "u8 \<Rightarrow> u8 \<Rightarrow> u16" where
  "octet_pair a b = of_nat (256 * unat a + unat b)"

text \<open>
  Groups of an IPv6 address from the position \<open>i\<close> on, with \<open>n\<close> places left: an embedded IPv4
  address takes two of them and ends the groups.
\<close>

fun read_groups :: "nat \<Rightarrow> nat \<Rightarrow> string \<Rightarrow> u16 list \<times> bool \<times> string" where
  "read_groups i 0 s = ([], False, s)"
| "read_groups i (Suc n) s =
     (case (if 0 < n then after_separator CHR '':'' i read_ipv4_addr s else None) of
        Some (os, s) \<Rightarrow> ([octet_pair (os ! 0) (os ! 1), octet_pair (os ! 2) (os ! 3)], True, s)
      | None \<Rightarrow>
          (case after_separator CHR '':'' i (read_number 16 4 True 65536) s of
             None \<Rightarrow> ([], False, s)
           | Some (g, s) \<Rightarrow> (case read_groups (Suc i) n s of (gs, v4, s) \<Rightarrow> (of_nat g # gs, v4, s))))"

definition read_ipv6_addr :: "string \<Rightarrow> (u16 list \<times> string) option" where
  "read_ipv6_addr s =
     (case read_groups 0 8 s of
        (head, head_ipv4, s) \<Rightarrow>
          if length head = 8 then Some (head, s)
          else if head_ipv4 then None
          else Option.bind (read_given_char CHR '':'' s) (\<lambda>s.
            Option.bind (read_given_char CHR '':'' s) (\<lambda>s.
            case read_groups 0 (8 - (length head + 1)) s of
              (tail, _, s) \<Rightarrow> Some (head @ replicate (8 - length head - length tail) 0 @ tail, s))))"

text \<open>\<open>str::parse\<close> for an \<open>IpAddr\<close>: the whole string has to be read.\<close>

definition parse_ip :: "string \<Rightarrow> IpAddr option" where
  "parse_ip s =
     (case (case read_ipv4_addr s of
              Some (os, t) \<Rightarrow> Some (IpV4 os, t)
            | None \<Rightarrow> map_option (\<lambda>(gs, t). (IpV6 gs, t)) (read_ipv6_addr s)) of
        Some (ip, []) \<Rightarrow> Some ip
      | _ \<Rightarrow> None)"

section \<open>Data\<close>

definition TELEGRAM_PORTS :: "u16 list" where
  "TELEGRAM_PORTS = [443, 80, 5222]"

definition TELEGRAM_PRODUCTION_IPV4 :: "(i32 \<times> string) list" where
  "TELEGRAM_PRODUCTION_IPV4 =
     [(1, ''149.154.175.50''), (2, ''149.154.167.51''), (2, ''95.161.76.100''), (3, ''149.154.175.100''),
      (4, ''149.154.167.91''), (5, ''149.154.171.5'')]"

definition TELEGRAM_PRODUCTION_IPV6 :: "(i32 \<times> string) list" where
  "TELEGRAM_PRODUCTION_IPV6 =
     [(1, ''2001:b28:f23d:f001::a''), (2, ''2001:67c:4e8:f002::a''), (3, ''2001:b28:f23d:f003::a''),
      (4, ''2001:67c:4e8:f004::a''), (5, ''2001:b28:f23f:f005::a'')]"

definition TELEGRAM_TEST_IPV4 :: "(i32 \<times> string) list" where
  "TELEGRAM_TEST_IPV4 = [(1, ''149.154.175.10''), (2, ''149.154.167.40''), (3, ''149.154.175.117'')]"

definition TELEGRAM_TEST_IPV6 :: "(i32 \<times> string) list" where
  "TELEGRAM_TEST_IPV6 =
     [(1, ''2001:b28:f23d:f001::e''), (2, ''2001:67c:4e8:f002::e''), (3, ''2001:b28:f23d:f003::e'')]"

datatype DcPurpose = PurposeMain | PurposeMedia | PurposeCdn

record DcEndpoint =
  ep_dc_id :: i32
  ep_ip_address :: IpAddr
  ep_port :: u16
  ep_media_only :: bool
  ep_tcpo_only :: bool
  ep_cdn :: bool
  ep_is_static :: bool
  ep_this_port_only :: bool
  ep_secret :: "bytes option"

record DcDirectory =
  dir_this_dc :: i32
  dir_test_mode :: bool
  dir_endpoints :: "DcEndpoint list"

datatype MigrationKind = MigratePhone | MigrateNetwork | MigrateUser | MigrateFile

record MigrationDirective =
  md_kind :: MigrationKind
  md_dc_id :: i32

datatype RpcErrorAction =
  ActionMigrate MigrationDirective | ActionWait u32 bool | ActionReauthorize | ActionRetryTransient | ActionFail

datatype DcRoute =
    SwitchMain i32 MigrationKind
  | RetryOn i32 DcPurpose
  | RouteWait u32 bool
  | RouteReauthorize
  | RouteRetryTransient
  | RouteFail

datatype DcError =
  InvalidDcId | InvalidDcPort | EmptyDirectory | DuplicateEndpoint | MissingEndpoint i32 DcPurpose

section \<open>Endpoints and directories\<close>

definition DcEndpoint_new ::
  "i32 \<Rightarrow> IpAddr \<Rightarrow> u16 \<Rightarrow> bool \<Rightarrow> bool \<Rightarrow> bool \<Rightarrow> bool \<Rightarrow> bool \<Rightarrow> bytes option \<Rightarrow> (DcEndpoint, DcError) result"
where
  "DcEndpoint_new dc_id ip_address port media_only tcpo_only cdn is_static this_port_only secret =
     (if sint dc_id \<le> 0 then Err InvalidDcId
      else if port = 0 then Err InvalidDcPort
      else Ok \<lparr>ep_dc_id = dc_id, ep_ip_address = ip_address, ep_port = port, ep_media_only = media_only,
               ep_tcpo_only = tcpo_only, ep_cdn = cdn, ep_is_static = is_static,
               ep_this_port_only = this_port_only, ep_secret = secret\<rparr>)"

definition supports :: "DcEndpoint \<Rightarrow> DcPurpose \<Rightarrow> bool" where
  "supports ep purpose =
     (case purpose of
        PurposeMain \<Rightarrow> \<not> ep_media_only ep \<and> \<not> ep_cdn ep
      | PurposeMedia \<Rightarrow> \<not> ep_cdn ep
      | PurposeCdn \<Rightarrow> ep_cdn ep)"

definition candidate_key :: "DcPurpose \<Rightarrow> bool \<Rightarrow> DcEndpoint \<Rightarrow> bool \<times> bool \<times> bool \<times> bool \<times> u16" where
  "candidate_key purpose prefer_ipv6 ep =
     (is_ipv6 (ep_ip_address ep) \<noteq> prefer_ipv6, purpose = PurposeMedia \<and> \<not> ep_media_only ep,
      ep_tcpo_only ep, \<not> ep_is_static ep, ep_port ep)"

definition candidates :: "DcDirectory \<Rightarrow> i32 \<Rightarrow> DcPurpose \<Rightarrow> bool \<Rightarrow> (DcEndpoint list, DcError) result" where
  "candidates dir dc_id purpose prefer_ipv6 =
     (if sint dc_id \<le> 0 then Err InvalidDcId
      else
        let found = sort_key (candidate_key purpose prefer_ipv6)
              (filter (\<lambda>ep. ep_dc_id ep = dc_id \<and> supports ep purpose) (dir_endpoints dir))
        in if found = [] then Err (MissingEndpoint dc_id purpose) else Ok found)"

definition endpoint_key :: "DcEndpoint \<Rightarrow> int \<times> bool \<times> bool \<times> bool \<times> u16" where
  "endpoint_key ep =
     (sint (ep_dc_id ep), ep_cdn ep, ep_media_only ep, is_ipv6 (ep_ip_address ep), ep_port ep)"

definition DcDirectory_new :: "i32 \<Rightarrow> bool \<Rightarrow> DcEndpoint list \<Rightarrow> (DcDirectory, DcError) result" where
  "DcDirectory_new this_dc test_mode endpoints =
     (if sint this_dc \<le> 0 then Err InvalidDcId
      else if endpoints = [] then Err EmptyDirectory
      else if \<not> distinct endpoints then Err DuplicateEndpoint
      else
        let dir = \<lparr>dir_this_dc = this_dc, dir_test_mode = test_mode, dir_endpoints = sort_key endpoint_key endpoints\<rparr>
        in and_then (candidates dir this_dc PurposeMain False) (\<lambda>_. Ok dir))"

text \<open>The endpoints of one pinned address, one for each port; an address that is no address panics.\<close>

definition pinned_endpoints :: "i32 \<times> string \<Rightarrow> (DcEndpoint, DcError) result list" where
  "pinned_endpoints pinned =
     (case parse_ip (snd pinned) of
        None \<Rightarrow> []
      | Some ip \<Rightarrow> map (\<lambda>port. DcEndpoint_new (fst pinned) ip port False False False True False None) TELEGRAM_PORTS)"

fun collect_results :: "('a, 'e) result list \<Rightarrow> ('a list, 'e) result" where
  "collect_results [] = Ok []"
| "collect_results (r # rs) = and_then r (\<lambda>x. and_then (collect_results rs) (\<lambda>xs. Ok (x # xs)))"

definition telegram_defaults :: "bool \<Rightarrow> i32 \<Rightarrow> (DcDirectory, DcError) result" where
  "telegram_defaults test_mode this_dc =
     (let pinned = (if test_mode then TELEGRAM_TEST_IPV4 @ TELEGRAM_TEST_IPV6
                    else TELEGRAM_PRODUCTION_IPV4 @ TELEGRAM_PRODUCTION_IPV6)
      in and_then (collect_results (concat (map pinned_endpoints pinned))) (\<lambda>endpoints.
         DcDirectory_new this_dc test_mode endpoints))"

definition update_directory :: "DcDirectory \<Rightarrow> i32 \<Rightarrow> bool \<Rightarrow> DcEndpoint list \<Rightarrow> DcDirectory \<times> (unit, DcError) result" where
  "update_directory dir this_dc test_mode endpoints =
     (case DcDirectory_new this_dc test_mode endpoints of
        Inl e \<Rightarrow> (dir, Err e)
      | Inr replacement \<Rightarrow> (replacement, Ok ()))"

section \<open>Errors of the server\<close>

definition parse_positive_suffix :: "string \<Rightarrow> string \<Rightarrow> u32 option" where
  "parse_positive_suffix message prefix =
     (case strip_prefix prefix message of
        None \<Rightarrow> None
      | Some suffix \<Rightarrow>
          if suffix = [] \<or> \<not> list_all is_ascii_digit suffix then None
          else
            let value = read_nat suffix 0 in
            if 2 ^ 32 \<le> value then None
            else if 0 < value then Some (of_nat value) else None)"

definition migration_of :: "string \<Rightarrow> string \<times> MigrationKind \<Rightarrow> MigrationDirective option" where
  "migration_of message pk =
     (case parse_positive_suffix message (fst pk) of
        None \<Rightarrow> None
      | Some dc_id \<Rightarrow> if unat dc_id < 2 ^ 31 then Some \<lparr>md_kind = snd pk, md_dc_id = dc_id\<rparr> else None)"

fun find_map :: "('a \<Rightarrow> 'b option) \<Rightarrow> 'a list \<Rightarrow> 'b option" where
  "find_map f [] = None"
| "find_map f (x # xs) = (case f x of None \<Rightarrow> find_map f xs | Some y \<Rightarrow> Some y)"

definition parse_migration :: "string \<Rightarrow> MigrationDirective option" where
  "parse_migration message =
     find_map (migration_of message)
       [(''PHONE_MIGRATE_'', MigratePhone), (''NETWORK_MIGRATE_'', MigrateNetwork),
        (''USER_MIGRATE_'', MigrateUser), (''FILE_MIGRATE_'', MigrateFile)]"

definition classify_rpc_error :: "i32 \<Rightarrow> string \<Rightarrow> RpcErrorAction" where
  "classify_rpc_error code message =
     (let message = trim message in
      if code = 303 then
        (case parse_migration message of Some directive \<Rightarrow> ActionMigrate directive | None \<Rightarrow> ActionFail)
      else if code = 420 then
        (case parse_positive_suffix message ''FLOOD_WAIT_'' of
           Some seconds \<Rightarrow> ActionWait seconds False
         | None \<Rightarrow>
             (case parse_positive_suffix message ''FLOOD_PREMIUM_WAIT_'' of
                Some seconds \<Rightarrow> ActionWait seconds True
              | None \<Rightarrow> ActionFail))
      else if code = 401 \<and> message \<in> set [''AUTH_KEY_UNREGISTERED'', ''AUTH_KEY_INVALID'', ''SESSION_REVOKED'',
          ''SESSION_EXPIRED'', ''AUTH_KEY_DUPLICATED'']
      then ActionReauthorize
      else if 500 \<le> sint code then ActionRetryTransient
      else ActionFail)"

definition route_rpc_error :: "DcDirectory \<Rightarrow> i32 \<Rightarrow> string \<Rightarrow> (DcRoute, DcError) result" where
  "route_rpc_error dir code message =
     (case classify_rpc_error code message of
        ActionMigrate directive \<Rightarrow>
          let purpose = (if md_kind directive = MigrateFile then PurposeMedia else PurposeMain) in
          and_then (candidates dir (md_dc_id directive) purpose False) (\<lambda>_.
          if md_kind directive = MigrateFile then Ok (RetryOn (md_dc_id directive) purpose)
          else Ok (SwitchMain (md_dc_id directive) (md_kind directive)))
      | ActionWait seconds premium \<Rightarrow> Ok (RouteWait seconds premium)
      | ActionReauthorize \<Rightarrow> Ok RouteReauthorize
      | ActionRetryTransient \<Rightarrow> Ok RouteRetryTransient
      | ActionFail \<Rightarrow> Ok RouteFail)"

section \<open>Candidates\<close>

lemma candidates_Ok:
  "candidates dir dc purpose v6 = Ok cs \<longleftrightarrow>
     0 < sint dc \<and> cs \<noteq> []
   \<and> cs = sort_key (candidate_key purpose v6)
       (filter (\<lambda>ep. ep_dc_id ep = dc \<and> supports ep purpose) (dir_endpoints dir))"
  by (auto simp: candidates_def Let_def)

lemma candidates_defined:
  "(\<exists>cs. candidates dir dc purpose v6 = Ok cs) \<longleftrightarrow>
     0 < sint dc \<and> (\<exists>ep \<in> set (dir_endpoints dir). ep_dc_id ep = dc \<and> supports ep purpose)"
proof -
  have "sort_key (candidate_key purpose v6) xs \<noteq> [] \<longleftrightarrow> xs \<noteq> []" for xs
    by (metis length_0_conv length_sort)
  then show ?thesis unfolding candidates_Ok by (auto simp: filter_empty_conv)
qed

section \<open>The pinned addresses\<close>

lemma digit_values:
  "map (digit_value 10) ''0123456789'' = map Some [0, 1, 2, 3, 4, 5, 6, 7, 8, 9]"
  "map (digit_value 16) ''0123456789abcdef'' = map Some [0, 1, 2, 3, 4, 5, 6, 7, 8, 9, 10, 11, 12, 13, 14, 15]"
  "map (digit_value 10) ''.:'' = [None, None]" "map (digit_value 16) ''.:'' = [None, None]"
  "map (digit_value 10) ''abcdef'' = [None, None, None, None, None, None]"
  by (simp_all add: digit_value_def is_ascii_digit_def less_eq_char_def)

lemmas address_reading = parse_ip_def read_ipv4_addr_def read_ipv6_addr_def after_separator_def read_number_def
  digits_of_def read_given_char_def digit_values [simplified] octet_pair_def
  read_octets.simps(2) [of _ "pred_numeral k" for k, folded numeral_eq_Suc]
  read_groups.simps(2) [of _ "pred_numeral k" for k, folded numeral_eq_Suc]
  replicate_Suc [of "pred_numeral k" for k, folded numeral_eq_Suc]

text \<open>The pinned addresses are addresses, so no start of a client panics on them.\<close>

lemma production_addresses:
  "map (map_prod id parse_ip) TELEGRAM_PRODUCTION_IPV4 =
     [(1, Some (IpV4 [149, 154, 175, 50])), (2, Some (IpV4 [149, 154, 167, 51])), (2, Some (IpV4 [95, 161, 76, 100])),
      (3, Some (IpV4 [149, 154, 175, 100])), (4, Some (IpV4 [149, 154, 167, 91])), (5, Some (IpV4 [149, 154, 171, 5]))]"
  "map (map_prod id parse_ip) TELEGRAM_PRODUCTION_IPV6 =
     [(1, Some (IpV6 [0x2001, 0xb28, 0xf23d, 0xf001, 0, 0, 0, 0xa])), (2, Some (IpV6 [0x2001, 0x67c, 0x4e8, 0xf002, 0, 0, 0, 0xa])),
      (3, Some (IpV6 [0x2001, 0xb28, 0xf23d, 0xf003, 0, 0, 0, 0xa])), (4, Some (IpV6 [0x2001, 0x67c, 0x4e8, 0xf004, 0, 0, 0, 0xa])),
      (5, Some (IpV6 [0x2001, 0xb28, 0xf23f, 0xf005, 0, 0, 0, 0xa]))]"
  by (simp_all add: TELEGRAM_PRODUCTION_IPV4_def TELEGRAM_PRODUCTION_IPV6_def address_reading)

lemma test_addresses:
  "map (map_prod id parse_ip) TELEGRAM_TEST_IPV4 =
     [(1, Some (IpV4 [149, 154, 175, 10])), (2, Some (IpV4 [149, 154, 167, 40])), (3, Some (IpV4 [149, 154, 175, 117]))]"
  "map (map_prod id parse_ip) TELEGRAM_TEST_IPV6 =
     [(1, Some (IpV6 [0x2001, 0xb28, 0xf23d, 0xf001, 0, 0, 0, 0xe])), (2, Some (IpV6 [0x2001, 0x67c, 0x4e8, 0xf002, 0, 0, 0, 0xe])),
      (3, Some (IpV6 [0x2001, 0xb28, 0xf23d, 0xf003, 0, 0, 0, 0xe]))]"
  by (simp_all add: TELEGRAM_TEST_IPV4_def TELEGRAM_TEST_IPV6_def address_reading)

definition pinned_addresses :: "bool \<Rightarrow> (i32 \<times> string) list" where
  "pinned_addresses test_mode =
     (if test_mode then TELEGRAM_TEST_IPV4 @ TELEGRAM_TEST_IPV6 else TELEGRAM_PRODUCTION_IPV4 @ TELEGRAM_PRODUCTION_IPV6)"

definition static_endpoint :: "i32 \<times> IpAddr option \<Rightarrow> u16 \<Rightarrow> DcEndpoint" where
  "static_endpoint pinned port =
     \<lparr>ep_dc_id = fst pinned, ep_ip_address = the (snd pinned), ep_port = port, ep_media_only = False, ep_tcpo_only = False,
      ep_cdn = False, ep_is_static = True, ep_this_port_only = False, ep_secret = None\<rparr>"

definition static_endpoints :: "bool \<Rightarrow> DcEndpoint list" where
  "static_endpoints test_mode =
     concat (map (\<lambda>pinned. map (static_endpoint pinned) TELEGRAM_PORTS) (map (map_prod id parse_ip) (pinned_addresses test_mode)))"

lemma pinned_facts:
  "distinct (map (map_prod id parse_ip) (pinned_addresses test_mode))"
  "(dc, ip) \<in> set (map (map_prod id parse_ip) (pinned_addresses test_mode)) \<Longrightarrow> ip \<noteq> None \<and> 0 < sint dc"
  "dc \<in> fst ` set (map (map_prod id parse_ip) (pinned_addresses test_mode)) \<longleftrightarrow> dc \<in> set (if test_mode then [1, 2, 3] else [1, 2, 3, 4, 5])"
  by (cases test_mode; simp add: pinned_addresses_def production_addresses test_addresses del: list.map set_map; fail)
    (cases test_mode; auto simp: pinned_addresses_def production_addresses test_addresses simp del: list.map set_map; fail)+

lemma distinct_pairs:
  assumes "distinct as" "distinct bs" "\<And>a b a' b'. a \<in> set as \<Longrightarrow> a' \<in> set as \<Longrightarrow> g a b = g a' b' \<Longrightarrow> a = a' \<and> b = b'"
  shows "distinct (concat (map (\<lambda>a. map (g a) bs) as))"
  using assms(1,3)
proof (induction as)
  case (Cons a as)
  have "inj (g a)" by (rule injI) (use Cons.prems(2) [of a a] in simp)
  then have "distinct (map (g a) bs)" using assms(2) by (simp add: distinct_map inj_on_subset [of _ UNIV])
  moreover have "distinct (concat (map (\<lambda>a. map (g a) bs) as))"
    using Cons.prems by (intro Cons.IH) auto
  ultimately show ?case using Cons.prems by fastforce
qed simp

lemma static_endpoints_distinct: "distinct (static_endpoints test_mode)"
  unfolding static_endpoints_def
proof (rule distinct_pairs [OF pinned_facts(1)])
  show "distinct TELEGRAM_PORTS" by (simp add: TELEGRAM_PORTS_def)
  show "a = a' \<and> b = b'"
    if "a \<in> set (map (map_prod id parse_ip) (pinned_addresses test_mode))"
      "a' \<in> set (map (map_prod id parse_ip) (pinned_addresses test_mode))" "static_endpoint a b = static_endpoint a' b'" for a a' b b'
  proof -
    obtain dc ip dc' ip' where a: "a = (dc, ip)" "a' = (dc', ip')" by (cases a, cases a') auto
    then have "ip \<noteq> None" "ip' \<noteq> None" using pinned_facts(2) that(1,2) by auto
    then show ?thesis using that(3) a by (auto simp: static_endpoint_def)
  qed
qed

lemma collect_map_Ok: "collect_results (map Inr xs) = Ok xs"
  by (induction xs) simp_all

lemma telegram_defaults_static:
  "telegram_defaults test_mode this_dc = DcDirectory_new this_dc test_mode (static_endpoints test_mode)"
proof -
  have "pinned_endpoints p = map Inr (map (static_endpoint (map_prod id parse_ip p)) TELEGRAM_PORTS)"
    if "p \<in> set (pinned_addresses test_mode)" for p
  proof -
    have "(fst p, parse_ip (snd p)) \<in> set (map (map_prod id parse_ip) (pinned_addresses test_mode))"
      using that by (force simp: map_prod_def case_prod_beta)
    from pinned_facts(2) [OF this] show ?thesis
      by (auto simp: pinned_endpoints_def DcEndpoint_new_def static_endpoint_def TELEGRAM_PORTS_def)
  qed
  then have "map pinned_endpoints (pinned_addresses test_mode)
      = map (map Inr) (map (\<lambda>p. map (static_endpoint (map_prod id parse_ip p)) TELEGRAM_PORTS) (pinned_addresses test_mode))"
    by simp
  then have "concat (map pinned_endpoints (pinned_addresses test_mode)) = map Inr (static_endpoints test_mode)"
    by (simp only: static_endpoints_def map_map map_concat comp_def)
  then show ?thesis
    by (simp add: telegram_defaults_def collect_map_Ok pinned_addresses_def [symmetric] Let_def)
qed

lemma small_dc:
  "dc \<in> set [1, 2, 3] \<longleftrightarrow> 0 < sint (dc :: i32) \<and> sint dc \<le> 3"
  "dc \<in> set [1, 2, 3, 4, 5] \<longleftrightarrow> 0 < sint (dc :: i32) \<and> sint dc \<le> 5"
proof -
  have word: "dc = word_of_int (sint dc)" by simp
  have "dc \<in> set [1, 2, 3]" if "0 < sint dc" "sint dc \<le> 3"
  proof -
    from that have "sint dc = 1 \<or> sint dc = 2 \<or> sint dc = 3" by linarith
    then show ?thesis using word by (metis list.set_intros of_int_1 of_int_numeral)
  qed
  then show "dc \<in> set [1, 2, 3] \<longleftrightarrow> 0 < sint dc \<and> sint dc \<le> 3" by auto
  have "dc \<in> set [1, 2, 3, 4, 5]" if "0 < sint dc" "sint dc \<le> 5"
  proof -
    from that have "sint dc = 1 \<or> sint dc = 2 \<or> sint dc = 3 \<or> sint dc = 4 \<or> sint dc = 5" by linarith
    then show ?thesis using word by (metis list.set_intros of_int_1 of_int_numeral)
  qed
  then show "dc \<in> set [1, 2, 3, 4, 5] \<longleftrightarrow> 0 < sint dc \<and> sint dc \<le> 5" by auto
qed

lemma static_endpoints_dc:
  "(\<exists>ep \<in> set (static_endpoints test_mode). ep_dc_id ep = dc) \<longleftrightarrow> 0 < sint dc \<and> sint dc \<le> (if test_mode then 3 else 5)"
proof -
  have "(\<exists>ep \<in> set (static_endpoints test_mode). ep_dc_id ep = dc)
      \<longleftrightarrow> dc \<in> fst ` set (map (map_prod id parse_ip) (pinned_addresses test_mode))"
    unfolding static_endpoints_def by (auto simp: static_endpoint_def TELEGRAM_PORTS_def image_iff)
  also have "\<dots> \<longleftrightarrow> 0 < sint dc \<and> sint dc \<le> (if test_mode then 3 else 5)"
    unfolding pinned_facts(3) using small_dc [of dc] by simp
  finally show ?thesis .
qed

lemma static_endpoints_support: "ep \<in> set (static_endpoints test_mode) \<Longrightarrow> supports ep purpose \<longleftrightarrow> purpose \<noteq> PurposeCdn"
  by (cases purpose) (auto simp: static_endpoints_def static_endpoint_def supports_def)

text \<open>
  A client can always start. For every data center that is pinned, one to five and one to three for
  tests, the pinned addresses give a directory, and in it every such data center has candidates for
  requests and for media, whatever family of addresses is preferred; for any other data center the
  directory is refused.
\<close>

theorem default_directory_complete:
  "(\<exists>dir. telegram_defaults test_mode dc = Ok dir) \<longleftrightarrow> 0 < sint dc \<and> sint dc \<le> (if test_mode then 3 else 5)"
  "telegram_defaults test_mode dc = Ok dir \<Longrightarrow> purpose \<noteq> PurposeCdn \<Longrightarrow>
     (\<exists>cs. candidates dir other purpose prefer_ipv6 = Ok cs) \<longleftrightarrow> 0 < sint other \<and> sint other \<le> (if test_mode then 3 else 5)"
proof -
  let ?dir = "\<lparr>dir_this_dc = dc, dir_test_mode = test_mode, dir_endpoints = sort_key endpoint_key (static_endpoints test_mode)\<rparr>"
  have found: "(\<exists>cs. candidates ?dir other purpose prefer_ipv6 = Ok cs) \<longleftrightarrow> 0 < sint other \<and> sint other \<le> (if test_mode then 3 else 5)"
    if "purpose \<noteq> PurposeCdn" for other purpose prefer_ipv6
    using that static_endpoints_dc [of test_mode other] static_endpoints_support [of _ test_mode purpose]
    unfolding candidates_defined by auto
  have ne: "static_endpoints test_mode \<noteq> []"
    using static_endpoints_dc [of test_mode 1] by (auto split: if_splits)
  have new: "telegram_defaults test_mode dc = Ok d \<longleftrightarrow> d = ?dir \<and> (\<exists>cs. candidates ?dir dc PurposeMain False = Ok cs)" for d
    using ne static_endpoints_distinct [of test_mode] candidates_defined [of ?dir dc PurposeMain False]
    by (auto simp: telegram_defaults_static DcDirectory_new_def result_simps Let_def)
  show "(\<exists>dir. telegram_defaults test_mode dc = Ok dir) \<longleftrightarrow> 0 < sint dc \<and> sint dc \<le> (if test_mode then 3 else 5)"
    unfolding new found [of PurposeMain dc False, simplified, symmetric] by auto
  show "(\<exists>cs. candidates dir other purpose prefer_ipv6 = Ok cs) \<longleftrightarrow> 0 < sint other \<and> sint other \<le> (if test_mode then 3 else 5)"
    if "telegram_defaults test_mode dc = Ok dir" "purpose \<noteq> PurposeCdn"
    using found [OF that(2)] that(1) unfolding new by simp
qed

section \<open>Routes\<close>

lemma parse_positive_suffix_Some:
  "parse_positive_suffix message prefix = Some n \<Longrightarrow> 0 < unat n"
  by (auto simp: parse_positive_suffix_def Let_def unat_of_nat split: option.splits if_splits)

lemma find_map_Some: "find_map f xs = Some y \<Longrightarrow> \<exists>x \<in> set xs. f x = Some y"
  by (induction xs) (auto split: option.splits)

text \<open>
  Where the server sends a client the client can go. A route that switches the main data center or
  retries on another one names a data center of the directory with at least one usable endpoint; a
  file is only ever fetched from another data center, every other migration moves the main one; and
  a wait is never for no time.
\<close>

theorem routes_lead_somewhere:
  assumes "route_rpc_error dir code message = Ok rt"
  shows "(\<forall>dc reason. rt = SwitchMain dc reason \<longrightarrow> code = 303 \<and> reason \<noteq> MigrateFile
        \<and> (\<exists>cs. candidates dir dc PurposeMain False = Ok cs \<and> cs \<noteq> []
             \<and> (\<forall>ep \<in> set cs. ep \<in> set (dir_endpoints dir) \<and> ep_dc_id ep = dc \<and> supports ep PurposeMain)))
    \<and> (\<forall>dc purpose. rt = RetryOn dc purpose \<longrightarrow> code = 303 \<and> purpose = PurposeMedia
        \<and> (\<exists>cs. candidates dir dc PurposeMedia False = Ok cs \<and> cs \<noteq> []
             \<and> (\<forall>ep \<in> set cs. ep \<in> set (dir_endpoints dir) \<and> ep_dc_id ep = dc \<and> supports ep PurposeMedia)))
    \<and> (\<forall>seconds premium. rt = RouteWait seconds premium \<longrightarrow> code = 420 \<and> 0 < unat seconds)"
proof -
  have wait: "code = 420 \<and> 0 < unat n" if "classify_rpc_error code message = ActionWait n p" for n p
    using that by (auto simp: classify_rpc_error_def Let_def split: if_splits option.splits dest: parse_positive_suffix_Some)
  have migrate: "code = 303" if "classify_rpc_error code message = ActionMigrate d" for d
    using that by (auto simp: classify_rpc_error_def Let_def split: if_splits option.splits)
  show ?thesis
  proof (cases "classify_rpc_error code message")
    case (ActionMigrate d)
    then show ?thesis using assms migrate [OF ActionMigrate]
      by (auto simp: route_rpc_error_def result_simps candidates_Ok Let_def split: if_splits)
  qed (use assms wait in \<open>auto simp: route_rpc_error_def\<close>)
qed

lemma parse_other_prefix: "c \<noteq> d \<Longrightarrow> parse_positive_suffix (c # m) (d # prefix) = None"
  by (simp add: parse_positive_suffix_def strip_prefix_def)

text \<open>What the server writes is what the client reads, for every data center it can name.\<close>

lemma migration_message_read:
  assumes "0 < n" "n < 2 ^ 31" "(prefix, kind) \<in> set [(''PHONE_MIGRATE_'', MigratePhone),
    (''NETWORK_MIGRATE_'', MigrateNetwork), (''USER_MIGRATE_'', MigrateUser), (''FILE_MIGRATE_'', MigrateFile)]"
  shows "classify_rpc_error 303 (prefix @ show_nat n) = ActionMigrate \<lparr>md_kind = kind, md_dc_id = of_nat n\<rparr>"
proof -
  let ?m = "prefix @ show_nat n"
  have digits: "list_all is_ascii_digit (show_nat n)" "show_nat n \<noteq> []" using show_nat_digits by auto
  have "trim ?m = ?m"
  proof (rule trim_plain)
    show "plain_char (hd ?m)" using assms(3) by (auto simp: plain_char_def)
    have "last (show_nat n) \<in> set (show_nat n)" using digits(2) by simp
    then show "plain_char (last ?m)" using digits digit_plain by (auto simp: list_all_iff)
  qed (use digits in simp)
  moreover have "parse_positive_suffix ?m prefix = Some (of_nat n)"
    using digits assms(1,2) by (simp add: parse_positive_suffix_def strip_prefix_def read_show_nat Let_def)
  moreover have "unat (of_nat n :: u32) < 2 ^ 31" using assms(2) by (simp add: unat_of_nat)
  ultimately show ?thesis
    using assms(3) unfolding classify_rpc_error_def parse_migration_def Let_def
    by (auto simp: migration_of_def parse_other_prefix)
qed

theorem routes_lead_somewhere_witness:
  "\<exists>dir cs. telegram_defaults False 2 = Ok dir \<and> route_rpc_error dir 303 ''USER_MIGRATE_4'' = Ok (SwitchMain 4 MigrateUser)
     \<and> candidates dir 4 PurposeMain False = Ok cs \<and> cs \<noteq> []"
proof -
  obtain dir where dir: "telegram_defaults False 2 = Ok dir"
    using default_directory_complete(1) [of False 2] by auto
  have "show_nat 4 = ''4''" by (subst show_nat.simps) (simp add: digit_char_def char_of_def bit_iff_odd)
  then have "classify_rpc_error 303 ''USER_MIGRATE_4'' = ActionMigrate \<lparr>md_kind = MigrateUser, md_dc_id = 4\<rparr>"
    using migration_message_read [of 4 "''USER_MIGRATE_''" MigrateUser] by simp
  moreover obtain cs where "candidates dir 4 PurposeMain False = Ok cs"
    using default_directory_complete(2) [OF dir, of PurposeMain 4 False] by auto
  ultimately have "route_rpc_error dir 303 ''USER_MIGRATE_4'' = Ok (SwitchMain 4 MigrateUser)"
    by (simp add: route_rpc_error_def)
  with routes_lead_somewhere [OF this] dir show ?thesis by auto
qed

end
