(* ===== verification/Telegram_Api.thy ===== *)
theory Telegram_Api
  imports Srp Datacenters
begin

text \<open>
  Requests and answers of the Telegram client (\<open>api.rs\<close>, \<open>updates.rs\<close>) over the codec of \<open>Tl\<close>: the bodies
  of requests with their checks, and the parsers of the answers, which stop at the first error.
\<close>

section \<open>Data\<close>

definition MTPROTO_LAYER :: i32 where
  "MTPROTO_LAYER = 227"

definition INVOKE_WITH_LAYER_CONSTRUCTOR :: u32 where
  "INVOKE_WITH_LAYER_CONSTRUCTOR = 0xda9b0d0d"

definition INIT_CONNECTION_CONSTRUCTOR :: u32 where
  "INIT_CONNECTION_CONSTRUCTOR = 0xc1cd5ea9"

definition HELP_GET_CONFIG_CONSTRUCTOR :: u32 where
  "HELP_GET_CONFIG_CONSTRUCTOR = 0xc4f9186b"

definition AUTH_SEND_CODE_CONSTRUCTOR :: u32 where
  "AUTH_SEND_CODE_CONSTRUCTOR = 0xa677244f"

definition CODE_SETTINGS_CONSTRUCTOR :: u32 where
  "CODE_SETTINGS_CONSTRUCTOR = 0xad253d78"

definition AUTH_SIGN_IN_CONSTRUCTOR :: u32 where
  "AUTH_SIGN_IN_CONSTRUCTOR = 0x8d52a951"

definition AUTH_SIGN_UP_CONSTRUCTOR :: u32 where
  "AUTH_SIGN_UP_CONSTRUCTOR = 0xaac7b717"

definition MSGS_ACK_CONSTRUCTOR :: u32 where
  "MSGS_ACK_CONSTRUCTOR = 0x62d6b459"

definition CONFIG_CONSTRUCTOR :: u32 where
  "CONFIG_CONSTRUCTOR = 0xcc1a241e"

definition DC_OPTION_CONSTRUCTOR :: u32 where
  "DC_OPTION_CONSTRUCTOR = 0x18b7a10d"

definition AUTH_SENT_CODE_CONSTRUCTOR :: u32 where
  "AUTH_SENT_CODE_CONSTRUCTOR = 0x5e002502"

definition AUTH_SENT_CODE_SUCCESS_CONSTRUCTOR :: u32 where
  "AUTH_SENT_CODE_SUCCESS_CONSTRUCTOR = 0x2390fe44"

definition AUTH_SENT_CODE_PAYMENT_REQUIRED_CONSTRUCTOR :: u32 where
  "AUTH_SENT_CODE_PAYMENT_REQUIRED_CONSTRUCTOR = 0xf8827ebf"

definition RPC_ERROR_CONSTRUCTOR :: u32 where
  "RPC_ERROR_CONSTRUCTOR = 0x2144ca19"

definition ACCOUNT_GET_PASSWORD_CONSTRUCTOR :: u32 where
  "ACCOUNT_GET_PASSWORD_CONSTRUCTOR = 0x548a30f5"

definition ACCOUNT_PASSWORD_CONSTRUCTOR :: u32 where
  "ACCOUNT_PASSWORD_CONSTRUCTOR = 0x957b50fb"

definition PASSWORD_KDF_ALGO_CONSTRUCTOR :: u32 where
  "PASSWORD_KDF_ALGO_CONSTRUCTOR = 0x3a912d4a"

definition AUTH_CHECK_PASSWORD_CONSTRUCTOR :: u32 where
  "AUTH_CHECK_PASSWORD_CONSTRUCTOR = 0xd18b4d16"

record InitConnection =
  ic_api_id :: i32
  ic_device_model :: string
  ic_system_version :: string
  ic_app_version :: string
  ic_system_lang_code :: string
  ic_lang_pack :: string
  ic_lang_code :: string

record ConfigDcDirectory =
  cd_flags :: i32
  cd_date :: i32
  cd_expires :: i32
  cd_directory :: DcDirectory

datatype SentCodeDelivery =
    DeliveryApp i32
  | DeliverySms i32
  | DeliveryCall i32
  | DeliveryFlashCall string
  | DeliveryMissedCall string i32
  | DeliveryEmail string i32
  | DeliverySetUpEmailRequired
  | DeliveryFragmentSms string i32
  | DeliveryFirebaseSms i32
  | DeliverySmsWord "string option"
  | DeliverySmsPhrase "string option"

datatype NextCodeType = NextSms | NextCall | NextFlashCall | NextMissedCall | NextFragmentSms

record SentCode =
  sc_phone_code_hash :: string
  sc_delivery :: SentCodeDelivery
  sc_next_type :: "NextCodeType option"
  sc_timeout_seconds :: "i32 option"

datatype SentCodeResult =
    SentCodeCode SentCode
  | SentCodeSuccess
  | SentCodePaymentRequired string string string string i32 string i64

record RpcErrorResponse =
  re_code :: i32
  re_message :: string

record AccountPasswordState =
  ap_has_recovery :: bool
  ap_hint :: "string option"
  ap_email_unconfirmed_pattern :: "string option"
  ap_srp :: "PasswordSrpParameters option"

datatype ApiRequestError =
    InvalidApiId
  | EmptyField string
  | ApiInvalidPhoneNumber
  | InvalidPhoneCode
  | ApiTl TlError
  | InvalidIpAddress string
  | InvalidPort i32
  | ApiDc DcError
  | ApiTrailingBytes nat
  | ApiSrp SrpError

section \<open>Requests\<close>

definition require_nonempty :: "string \<Rightarrow> string \<Rightarrow> (unit, ApiRequestError) result" where
  "require_nonempty value field = (if trim value = [] then Err (EmptyField field) else Ok ())"

definition validate_connection :: "InitConnection \<Rightarrow> (unit, ApiRequestError) result" where
  "validate_connection c =
     (if sint (ic_api_id c) \<le> 0 then Err InvalidApiId
      else
        and_then (require_nonempty (ic_device_model c) ''device_model'') (\<lambda>_.
        and_then (require_nonempty (ic_system_version c) ''system_version'') (\<lambda>_.
        and_then (require_nonempty (ic_app_version c) ''app_version'') (\<lambda>_.
        and_then (require_nonempty (ic_system_lang_code c) ''system_lang_code'') (\<lambda>_.
        require_nonempty (ic_lang_code c) ''lang_code'')))))"

definition validate_credentials :: "i32 \<Rightarrow> string \<Rightarrow> (unit, ApiRequestError) result" where
  "validate_credentials api_id api_hash =
     (if sint api_id \<le> 0 then Err InvalidApiId else require_nonempty api_hash ''api_hash'')"

definition validate_phone_number :: "string \<Rightarrow> (unit, ApiRequestError) result" where
  "validate_phone_number phone_number =
     (if length phone_number < 8 \<or> take 1 phone_number \<noteq> ''+'' \<or> \<not> list_all is_ascii_digit (drop 1 phone_number)
      then Err ApiInvalidPhoneNumber else Ok ())"

definition build_init_connection_get_config :: "InitConnection \<Rightarrow> (bytes, ApiRequestError) result" where
  "build_init_connection_get_config c =
     and_then (validate_connection c) (\<lambda>_.
     map_err ApiTl (written
       [TlU32 INVOKE_WITH_LAYER_CONSTRUCTOR, TlI32 MTPROTO_LAYER, TlU32 INIT_CONNECTION_CONSTRUCTOR, TlI32 0,
        TlI32 (ic_api_id c), TlString (ic_device_model c), TlString (ic_system_version c), TlString (ic_app_version c),
        TlString (ic_system_lang_code c), TlString (ic_lang_pack c), TlString (ic_lang_code c),
        TlU32 HELP_GET_CONFIG_CONSTRUCTOR]))"

definition build_auth_send_code :: "string \<Rightarrow> i32 \<Rightarrow> string \<Rightarrow> (bytes, ApiRequestError) result" where
  "build_auth_send_code phone_number api_id api_hash =
     and_then (validate_credentials api_id api_hash) (\<lambda>_.
     and_then (validate_phone_number phone_number) (\<lambda>_.
     map_err ApiTl (written
       [TlU32 AUTH_SEND_CODE_CONSTRUCTOR, TlString phone_number, TlI32 api_id, TlString api_hash,
        TlU32 CODE_SETTINGS_CONSTRUCTOR, TlI32 0])))"

definition build_auth_sign_in :: "string \<Rightarrow> string \<Rightarrow> string \<Rightarrow> (bytes, ApiRequestError) result" where
  "build_auth_sign_in phone_number phone_code_hash phone_code =
     and_then (validate_phone_number phone_number) (\<lambda>_.
     and_then (require_nonempty phone_code_hash ''phone_code_hash'') (\<lambda>_.
     if phone_code = [] \<or> \<not> list_all is_ascii_digit phone_code then Err InvalidPhoneCode
     else
       map_err ApiTl (written
         [TlU32 AUTH_SIGN_IN_CONSTRUCTOR, TlI32 1, TlString phone_number, TlString phone_code_hash,
          TlString phone_code])))"

definition build_auth_sign_up :: "string \<Rightarrow> string \<Rightarrow> string \<Rightarrow> string \<Rightarrow> (bytes, ApiRequestError) result" where
  "build_auth_sign_up phone_number phone_code_hash first_name last_name =
     and_then (validate_phone_number phone_number) (\<lambda>_.
     and_then (require_nonempty phone_code_hash ''phone_code_hash'') (\<lambda>_.
     and_then (require_nonempty first_name ''first_name'') (\<lambda>_.
     map_err ApiTl (written
       [TlU32 AUTH_SIGN_UP_CONSTRUCTOR, TlI32 0, TlString phone_number, TlString phone_code_hash,
        TlString (trim first_name), TlString (trim last_name)]))))"

definition build_account_get_password :: bytes where
  "build_account_get_password = to_le_u32 ACCOUNT_GET_PASSWORD_CONSTRUCTOR"

definition build_auth_check_password :: "PasswordSrpProof \<Rightarrow> (bytes, ApiRequestError) result" where
  "build_auth_check_password pf =
     and_then (map_err ApiSrp (encode_input_check_password pf)) (\<lambda>encoded_proof.
     Ok (to_le_u32 AUTH_CHECK_PASSWORD_CONSTRUCTOR @ encoded_proof))"

definition build_msgs_ack :: "i64 list \<Rightarrow> (bytes, ApiRequestError) result" where
  "build_msgs_ack message_ids =
     map_err ApiTl (written
       (TlU32 MSGS_ACK_CONSTRUCTOR # TlVectorLength (length message_ids) # map TlI64 message_ids))"

section \<open>Answers\<close>

abbreviation api_read :: "('a, TlError) reading \<Rightarrow> ('a, ApiRequestError) reading" where
  "api_read \<equiv> lift_read ApiTl"

text \<open>A constructor that has to be the expected one, and a field that a flag announces.\<close>

definition expect_constructor :: "u32 \<Rightarrow> (unit, ApiRequestError) reading" where
  "expect_constructor expected =
     and_read (api_read read_u32) (\<lambda>constructor.
     reads (if constructor \<noteq> expected then Err (ApiTl (UnexpectedConstructor expected constructor)) else Ok ()))"

definition when_flag :: "i32 \<Rightarrow> i32 \<Rightarrow> ('a, 'e) reading \<Rightarrow> ('a option, 'e) reading" where
  "when_flag flags bits p =
     (if flags AND bits \<noteq> 0 then and_read p (\<lambda>x. reads (Ok (Some x))) else reads (Ok None))"

definition port_of :: "i32 \<Rightarrow> (u16, ApiRequestError) result" where
  "port_of raw_port =
     (if sint raw_port \<le> 0 \<or> 65535 < sint raw_port then Err (InvalidPort raw_port) else Ok (ucast raw_port))"

text \<open>One round of the loop over the options of the data centers.\<close>

definition read_dc_option :: "(DcEndpoint, ApiRequestError) reading" where
  "read_dc_option =
     and_read (expect_constructor DC_OPTION_CONSTRUCTOR) (\<lambda>_.
     and_read (api_read read_i32) (\<lambda>option_flags.
     and_read (api_read read_i32) (\<lambda>dc_id.
     and_read (api_read read_string) (\<lambda>address.
     and_read (reads (ok_or (InvalidIpAddress address) (parse_ip address))) (\<lambda>ip_address.
     and_read (api_read read_i32) (\<lambda>raw_port.
     and_read (reads (port_of raw_port)) (\<lambda>port.
     and_read (when_flag option_flags (push_bit 10 1) (api_read read_bytes)) (\<lambda>secret.
     reads (map_err ApiDc
       (DcEndpoint_new dc_id ip_address port (option_flags AND 2 \<noteq> 0) (option_flags AND 4 \<noteq> 0)
          (option_flags AND 8 \<noteq> 0) (option_flags AND 16 \<noteq> 0) (option_flags AND 32 \<noteq> 0) secret))))))))))"

definition parse_config_dc_directory_prefix :: "bytes \<Rightarrow> (ConfigDcDirectory, ApiRequestError) result" where
  "parse_config_dc_directory_prefix input =
     snd (and_read (expect_constructor CONFIG_CONSTRUCTOR) (\<lambda>_.
          and_read (api_read read_i32) (\<lambda>flags.
          and_read (api_read read_i32) (\<lambda>date.
          and_read (api_read read_i32) (\<lambda>expires.
          and_read (api_read read_bool) (\<lambda>test_mode.
          and_read (api_read read_i32) (\<lambda>this_dc.
          and_read (api_read read_vector_length) (\<lambda>count.
          and_read (read_many count read_dc_option) (\<lambda>endpoints.
          and_read (reads (map_err ApiDc (DcDirectory_new this_dc test_mode endpoints))) (\<lambda>directory.
          reads (Ok \<lparr>cd_flags = flags, cd_date = date, cd_expires = expires, cd_directory = directory\<rparr>))))))))))
        (TlReader_new input))"

definition read_optional_beginning :: "(string option, ApiRequestError) reading" where
  "read_optional_beginning = and_read (api_read read_i32) (\<lambda>flags. when_flag flags 1 (api_read read_string))"

definition parse_next_code_type :: "(NextCodeType, ApiRequestError) reading" where
  "parse_next_code_type =
     and_read (api_read read_u32) (\<lambda>actual. reads
       (if actual = 0x72a3158c then Ok NextSms
        else if actual = 0x741cd3e3 then Ok NextCall
        else if actual = 0x226ccefb then Ok NextFlashCall
        else if actual = 0xd61ad6ee then Ok NextMissedCall
        else if actual = 0x06ed998c then Ok NextFragmentSms
        else Err (ApiTl (UnexpectedConstructor 0x72a3158c actual))))"

definition parse_sent_code_delivery :: "(SentCodeDelivery, ApiRequestError) reading" where
  "parse_sent_code_delivery =
     and_read (api_read read_u32) (\<lambda>actual.
       if actual = 0x3dbb5986 then and_read (api_read read_i32) (\<lambda>n. reads (Ok (DeliveryApp n)))
       else if actual = 0xc000bba2 then and_read (api_read read_i32) (\<lambda>n. reads (Ok (DeliverySms n)))
       else if actual = 0x5353e5a7 then and_read (api_read read_i32) (\<lambda>n. reads (Ok (DeliveryCall n)))
       else if actual = 0xab03c6d9 then and_read (api_read read_string) (\<lambda>pattern. reads (Ok (DeliveryFlashCall pattern)))
       else if actual = 0x82006484 then
         and_read (api_read read_string) (\<lambda>prefix.
         and_read (api_read read_i32) (\<lambda>n. reads (Ok (DeliveryMissedCall prefix n))))
       else if actual = 0xf450f59b then
         and_read (api_read read_i32) (\<lambda>flags.
         and_read (api_read read_string) (\<lambda>pattern.
         and_read (api_read read_i32) (\<lambda>n.
         and_read (when_flag flags 8 (api_read read_i32)) (\<lambda>_.
         and_read (when_flag flags 16 (api_read read_i32)) (\<lambda>_.
         reads (Ok (DeliveryEmail pattern n)))))))
       else if actual = 0xa5491dea then
         and_read (api_read read_i32) (\<lambda>_. reads (Ok DeliverySetUpEmailRequired))
       else if actual = 0xd9565c39 then
         and_read (api_read read_string) (\<lambda>url.
         and_read (api_read read_i32) (\<lambda>n. reads (Ok (DeliveryFragmentSms url n))))
       else if actual = 0x009fd736 then
         and_read (api_read read_i32) (\<lambda>flags.
         and_read (when_flag flags 1 (api_read read_bytes)) (\<lambda>_.
         and_read (when_flag flags 4 (and_read (api_read read_i64) (\<lambda>_. api_read read_bytes))) (\<lambda>_.
         and_read (when_flag flags 2 (and_read (api_read read_string) (\<lambda>_. api_read read_i32))) (\<lambda>_.
         and_read (api_read read_i32) (\<lambda>n. reads (Ok (DeliveryFirebaseSms n)))))))
       else if actual = 0xa416ac81 then
         and_read read_optional_beginning (\<lambda>beginning. reads (Ok (DeliverySmsWord beginning)))
       else if actual = 0xb37794af then
         and_read read_optional_beginning (\<lambda>beginning. reads (Ok (DeliverySmsPhrase beginning)))
       else reads (Err (ApiTl (UnexpectedConstructor 0x3dbb5986 actual))))"

definition parse_auth_sent_code :: "bytes \<Rightarrow> (SentCodeResult, ApiRequestError) result" where
  "parse_auth_sent_code input =
     snd (and_read (api_read read_u32) (\<lambda>constructor.
       if constructor = AUTH_SENT_CODE_CONSTRUCTOR then
         and_read (api_read read_i32) (\<lambda>flags.
         and_read parse_sent_code_delivery (\<lambda>delivery.
         and_read (api_read read_string) (\<lambda>phone_code_hash.
         and_read (when_flag flags 2 parse_next_code_type) (\<lambda>next_type.
         and_read (when_flag flags 4 (api_read read_i32)) (\<lambda>timeout_seconds.
         and_read (expect_finished ApiTrailingBytes) (\<lambda>_.
         reads (Ok (SentCodeCode \<lparr>sc_phone_code_hash = phone_code_hash, sc_delivery = delivery,
           sc_next_type = next_type, sc_timeout_seconds = timeout_seconds\<rparr>))))))))
       else if constructor = AUTH_SENT_CODE_SUCCESS_CONSTRUCTOR then reads (Ok SentCodeSuccess)
       else if constructor = AUTH_SENT_CODE_PAYMENT_REQUIRED_CONSTRUCTOR then
         and_read (api_read read_string) (\<lambda>store_product.
         and_read (api_read read_string) (\<lambda>phone_code_hash.
         and_read (api_read read_string) (\<lambda>support_email_address.
         and_read (api_read read_string) (\<lambda>support_email_subject.
         and_read (api_read read_i32) (\<lambda>premium_days.
         and_read (api_read read_string) (\<lambda>currency.
         and_read (api_read read_i64) (\<lambda>amount.
         and_read (expect_finished ApiTrailingBytes) (\<lambda>_.
         reads (Ok (SentCodePaymentRequired store_product phone_code_hash support_email_address support_email_subject
           premium_days currency amount))))))))))
       else reads (Err (ApiTl (UnexpectedConstructor AUTH_SENT_CODE_CONSTRUCTOR constructor))))
     (TlReader_new input))"

definition try_parse_rpc_error :: "bytes \<Rightarrow> (RpcErrorResponse option, ApiRequestError) result" where
  "try_parse_rpc_error input =
     (if length input < 4 then Err (ApiTl (UnexpectedEof (length input) (4 - length input)))
      else if from_le (take 4 input) \<noteq> RPC_ERROR_CONSTRUCTOR then Ok None
      else
        snd (and_read (api_read read_u32) (\<lambda>_.
             and_read (api_read read_i32) (\<lambda>code.
             and_read (api_read read_string) (\<lambda>message.
             and_read (expect_finished ApiTrailingBytes) (\<lambda>_.
             reads (Ok (Some \<lparr>re_code = code, re_message = message\<rparr>))))))
           (TlReader_new input)))"

definition parse_account_password_prefix :: "bytes \<Rightarrow> (AccountPasswordState, ApiRequestError) result" where
  "parse_account_password_prefix input =
     snd (and_read (expect_constructor ACCOUNT_PASSWORD_CONSTRUCTOR) (\<lambda>_.
          and_read (api_read read_i32) (\<lambda>flags.
          and_read (when_flag flags 4
            (and_read (expect_constructor PASSWORD_KDF_ALGO_CONSTRUCTOR) (\<lambda>_.
             and_read (api_read read_bytes) (\<lambda>salt1.
             and_read (api_read read_bytes) (\<lambda>salt2.
             and_read (api_read read_i32) (\<lambda>generator.
             and_read (api_read read_bytes) (\<lambda>prime.
             and_read (api_read read_bytes) (\<lambda>server_b.
             and_read (api_read read_i64) (\<lambda>srp_id.
             reads (Ok \<lparr>sp_srp_id = srp_id, sp_salt1 = salt1, sp_salt2 = salt2, sp_generator = generator,
                         sp_prime = prime, sp_server_b = server_b\<rparr>)))))))))) (\<lambda>srp.
          and_read (when_flag flags 8 (api_read read_string)) (\<lambda>hint.
          and_read (when_flag flags 16 (api_read read_string)) (\<lambda>email_unconfirmed_pattern.
          reads (Ok \<lparr>ap_has_recovery = (flags AND 1 \<noteq> 0), ap_hint = hint,
                      ap_email_unconfirmed_pattern = email_unconfirmed_pattern, ap_srp = srp\<rparr>))))))
        (TlReader_new input))"

section \<open>Updates\<close>

definition UPDATES_GET_STATE_CONSTRUCTOR :: u32 where
  "UPDATES_GET_STATE_CONSTRUCTOR = 0xedd4882a"

definition UPDATES_GET_DIFFERENCE_CONSTRUCTOR :: u32 where
  "UPDATES_GET_DIFFERENCE_CONSTRUCTOR = 0x19c2f763"

definition UPDATES_STATE_CONSTRUCTOR :: u32 where
  "UPDATES_STATE_CONSTRUCTOR = 0xa56c2a3e"

definition UPDATES_DIFFERENCE_EMPTY_CONSTRUCTOR :: u32 where
  "UPDATES_DIFFERENCE_EMPTY_CONSTRUCTOR = 0x5d75a138"

definition UPDATES_DIFFERENCE_TOO_LONG_CONSTRUCTOR :: u32 where
  "UPDATES_DIFFERENCE_TOO_LONG_CONSTRUCTOR = 0x4afe8f6d"

record UpdateState =
  us_pts :: i32
  us_qts :: i32
  us_date :: i32
  us_seq :: i32
  us_unread_count :: i32

record DifferenceRequest =
  df_state :: UpdateState
  df_pts_limit :: "i32 option"
  df_pts_total_limit :: "i32 option"
  df_qts_limit :: "i32 option"

datatype TerminalDifference = DifferenceEmpty i32 i32 | DifferenceTooLong i32

datatype UpdateError = InvalidLimit | UpdateUnexpectedConstructor u32 | UpdateTrailingBytes | UpdateTl TlError

definition build_updates_get_state :: bytes where
  "build_updates_get_state = to_le_u32 UPDATES_GET_STATE_CONSTRUCTOR"

definition limit_values :: "i32 option \<Rightarrow> TlValue list" where
  "limit_values limit = (case limit of None \<Rightarrow> [] | Some n \<Rightarrow> [TlI32 n])"

text \<open>Of the operations of this writer none fails, so the \<open>?\<close> of the code is not needed.\<close>

definition build_updates_get_difference :: "DifferenceRequest \<Rightarrow> (bytes, UpdateError) result" where
  "build_updates_get_difference request =
     (if list_ex (\<lambda>limit. sint limit \<le> 0)
           (concat (map (\<lambda>x. case x of None \<Rightarrow> [] | Some n \<Rightarrow> [n])
             [df_pts_limit request, df_pts_total_limit request, df_qts_limit request]))
      then Err InvalidLimit
      else
        let flags = (0 :: i32);
            flags = (if df_pts_total_limit request \<noteq> None then flags OR 1 else flags);
            flags = (if df_pts_limit request \<noteq> None then flags OR 2 else flags);
            flags = (if df_qts_limit request \<noteq> None then flags OR 4 else flags)
        in map_err UpdateTl (written
             ([TlU32 UPDATES_GET_DIFFERENCE_CONSTRUCTOR, TlI32 flags, TlI32 (us_pts (df_state request))]
              @ limit_values (df_pts_limit request) @ limit_values (df_pts_total_limit request)
              @ [TlI32 (us_date (df_state request)), TlI32 (us_qts (df_state request))]
              @ limit_values (df_qts_limit request))))"

definition parse_update_state :: "bytes \<Rightarrow> (UpdateState, UpdateError) result" where
  "parse_update_state input =
     snd (and_read (lift_read UpdateTl read_u32) (\<lambda>constructor.
          if constructor \<noteq> UPDATES_STATE_CONSTRUCTOR then reads (Err (UpdateUnexpectedConstructor constructor))
          else
            and_read (lift_read UpdateTl read_i32) (\<lambda>pts.
            and_read (lift_read UpdateTl read_i32) (\<lambda>qts.
            and_read (lift_read UpdateTl read_i32) (\<lambda>date.
            and_read (lift_read UpdateTl read_i32) (\<lambda>seq.
            and_read (lift_read UpdateTl read_i32) (\<lambda>unread_count.
            and_read (expect_finished (\<lambda>_. UpdateTrailingBytes)) (\<lambda>_.
            reads (Ok \<lparr>us_pts = pts, us_qts = qts, us_date = date, us_seq = seq, us_unread_count = unread_count\<rparr>))))))))
        (TlReader_new input))"

definition parse_terminal_difference :: "bytes \<Rightarrow> (TerminalDifference, UpdateError) result" where
  "parse_terminal_difference input =
     snd (and_read (lift_read UpdateTl read_u32) (\<lambda>constructor.
          and_read
            (if constructor = UPDATES_DIFFERENCE_EMPTY_CONSTRUCTOR then
               and_read (lift_read UpdateTl read_i32) (\<lambda>date.
               and_read (lift_read UpdateTl read_i32) (\<lambda>seq. reads (Ok (DifferenceEmpty date seq))))
             else if constructor = UPDATES_DIFFERENCE_TOO_LONG_CONSTRUCTOR then
               and_read (lift_read UpdateTl read_i32) (\<lambda>pts. reads (Ok (DifferenceTooLong pts)))
             else reads (Err (UpdateUnexpectedConstructor constructor))) (\<lambda>difference.
          and_read (expect_finished (\<lambda>_. UpdateTrailingBytes)) (\<lambda>_.
          reads (Ok difference))))
        (TlReader_new input))"

section \<open>Requests carry their fields\<close>

text \<open>A body that consists of these values and nothing else.\<close>

definition reads_back :: "bytes \<Rightarrow> TlValue list \<Rightarrow> bool" where
  "reads_back body vs \<longleftrightarrow> (\<exists>r. read_values vs (TlReader_new body) = (r, Ok vs) \<and> is_finished r)"

lemma written_length: "list_all writable vs \<Longrightarrow> list_all (readable mb mv) vs \<Longrightarrow>
  length (concat (map enc_value vs)) \<le> (2 ^ 24 + 8) * length vs"
proof (induction vs)
  case Nil
  then show ?case by simp
next
  case (Cons v vs)
  have "length (enc_value v) \<le> 2 ^ 24 + 8"
    using Cons.prems length_enc_bytes_le
    by (cases v) (auto simp: enc_bool_def enc_vector_length_def intro: order.trans [OF length_enc_bytes_le])
  with Cons show ?case by simp
qed

lemma written_reads_back:
  assumes "written vs = Ok body" "list_all (readable DEFAULT_MAX_BYTES DEFAULT_MAX_VECTOR_LENGTH) vs" "length vs < 2 ^ 32"
  shows "reads_back body vs"
proof -
  have w: "list_all writable vs" "body = concat (map enc_value vs)"
    using assms(1) by (auto simp: written_outcome split: if_splits)
  have "length body \<le> (2 ^ 24 + 8) * length vs" unfolding w(2) by (rule written_length [OF w(1) assms(2)])
  also have "\<dots> < 2 ^ 64" using assms(3) by simp
  finally have "length body < 2 ^ 64" .
  with written_Ok(1) [OF assms(1)] assms(2) show ?thesis
    unfolding reads_back_def TlReader_new_limits using parses_whole whole_finished by (metis list_all_iff)
qed

lemma short_strings_readable:
  "length t < 2 ^ 24 \<Longrightarrow> valid_utf8 (as_bytes t) \<Longrightarrow> readable DEFAULT_MAX_BYTES mv (TlString t)"
  by (simp add: DEFAULT_MAX_BYTES_def)

text \<open>
  Requests carry what they are made of. A request that is built for strings in UTF-8 passes its
  checks and, read back, consists of the constructors and exactly the given fields: for the start of a
  connection, the request of a code, the sign-in, the sign-up with trimmed names, and acknowledgements.
\<close>

theorem requests_carry_fields:
  assumes utf8: "\<forall>t \<in> {phone, hash, code, trim first_name, trim last_name}. valid_utf8 (as_bytes t)"
  shows "(\<forall>body. build_auth_send_code phone api_id hash = Ok body \<longrightarrow>
        0 < sint api_id \<and> trim hash \<noteq> [] \<and> reads_back body
          [TlU32 AUTH_SEND_CODE_CONSTRUCTOR, TlString phone, TlI32 api_id, TlString hash, TlU32 CODE_SETTINGS_CONSTRUCTOR, TlI32 0])
    \<and> (\<forall>body. build_auth_sign_in phone hash code = Ok body \<longrightarrow>
        code \<noteq> [] \<and> list_all is_ascii_digit code \<and> reads_back body
          [TlU32 AUTH_SIGN_IN_CONSTRUCTOR, TlI32 1, TlString phone, TlString hash, TlString code])
    \<and> (\<forall>body. build_auth_sign_up phone hash first_name last_name = Ok body \<longrightarrow>
        trim first_name \<noteq> [] \<and> reads_back body
          [TlU32 AUTH_SIGN_UP_CONSTRUCTOR, TlI32 0, TlString phone, TlString hash, TlString (trim first_name), TlString (trim last_name)])
    \<and> (\<forall>ids body. build_msgs_ack ids = Ok body \<and> length ids \<le> DEFAULT_MAX_VECTOR_LENGTH \<longrightarrow>
        reads_back body (TlU32 MSGS_ACK_CONSTRUCTOR # TlVectorLength (length ids) # map TlI64 ids))"
proof (intro conjI allI impI)
  fix body
  assume b: "build_auth_send_code phone api_id hash = Ok body"
  then show "0 < sint api_id" "trim hash \<noteq> []"
    by (auto simp: build_auth_send_code_def validate_credentials_def require_nonempty_def and_then_Inr_iff split: if_splits)
  from b have w: "written [TlU32 AUTH_SEND_CODE_CONSTRUCTOR, TlString phone, TlI32 api_id, TlString hash,
      TlU32 CODE_SETTINGS_CONSTRUCTOR, TlI32 0] = Ok body"
    by (auto simp: build_auth_send_code_def and_then_Inr_iff map_err_Inr_iff)
  then show "reads_back body
      [TlU32 AUTH_SEND_CODE_CONSTRUCTOR, TlString phone, TlI32 api_id, TlString hash, TlU32 CODE_SETTINGS_CONSTRUCTOR, TlI32 0]"
    by (rule written_reads_back)
      (use w utf8 in \<open>auto simp: written_outcome short_strings_readable simp del: readable.simps(4) split: if_splits\<close>)
next
  fix body
  assume b: "build_auth_sign_in phone hash code = Ok body"
  then show "code \<noteq> []" "list_all is_ascii_digit code"
    by (auto simp: build_auth_sign_in_def and_then_Inr_iff split: if_splits)
  from b have w: "written [TlU32 AUTH_SIGN_IN_CONSTRUCTOR, TlI32 1, TlString phone, TlString hash, TlString code] = Ok body"
    by (auto simp: build_auth_sign_in_def and_then_Inr_iff map_err_Inr_iff split: if_splits)
  then show "reads_back body [TlU32 AUTH_SIGN_IN_CONSTRUCTOR, TlI32 1, TlString phone, TlString hash, TlString code]"
    by (rule written_reads_back)
      (use w utf8 in \<open>auto simp: written_outcome short_strings_readable simp del: readable.simps(4) split: if_splits\<close>)
next
  fix body
  assume b: "build_auth_sign_up phone hash first_name last_name = Ok body"
  then show "trim first_name \<noteq> []"
    by (auto simp: build_auth_sign_up_def require_nonempty_def and_then_Inr_iff split: if_splits)
  from b have w: "written [TlU32 AUTH_SIGN_UP_CONSTRUCTOR, TlI32 0, TlString phone, TlString hash,
      TlString (trim first_name), TlString (trim last_name)] = Ok body"
    by (auto simp: build_auth_sign_up_def and_then_Inr_iff map_err_Inr_iff)
  then show "reads_back body [TlU32 AUTH_SIGN_UP_CONSTRUCTOR, TlI32 0, TlString phone, TlString hash,
      TlString (trim first_name), TlString (trim last_name)]"
    by (rule written_reads_back)
      (use w utf8 in \<open>auto simp: written_outcome short_strings_readable simp del: readable.simps(4) split: if_splits\<close>)
next
  fix ids body
  assume b: "build_msgs_ack ids = Ok body \<and> length ids \<le> DEFAULT_MAX_VECTOR_LENGTH"
  then have "written (TlU32 MSGS_ACK_CONSTRUCTOR # TlVectorLength (length ids) # map TlI64 ids) = Ok body"
    by (auto simp: build_msgs_ack_def map_err_Inr_iff)
  then show "reads_back body (TlU32 MSGS_ACK_CONSTRUCTOR # TlVectorLength (length ids) # map TlI64 ids)"
    by (rule written_reads_back) (use b in \<open>auto simp: list_all_iff DEFAULT_MAX_VECTOR_LENGTH_def\<close>)
qed

section \<open>The configuration of the server\<close>

text \<open>
  How a server encodes an endpoint, from the schema of \<open>dcOption\<close>: a string for the address, a bit of the
  flags for every property, and the secret when its bit is set.
\<close>

definition enc_dc_option :: "i32 \<Rightarrow> string \<Rightarrow> DcEndpoint \<Rightarrow> bytes" where
  "enc_dc_option flags address ep =
     to_le 4 DC_OPTION_CONSTRUCTOR @ to_le 4 flags @ to_le 4 (ep_dc_id ep) @ enc_bytes (as_bytes address)
     @ to_le 4 (ucast (ep_port ep) :: i32)
     @ (case ep_secret ep of None \<Rightarrow> [] | Some secret \<Rightarrow> enc_bytes secret)"

definition option_of :: "i32 \<Rightarrow> string \<Rightarrow> DcEndpoint \<Rightarrow> bool" where
  "option_of flags address ep \<longleftrightarrow>
     parse_ip address = Some (ep_ip_address ep) \<and> length address < 2 ^ 24 \<and> valid_utf8 (as_bytes address)
   \<and> 0 < sint (ep_dc_id ep) \<and> ep_port ep \<noteq> 0
   \<and> (flags AND 2 \<noteq> 0 \<longleftrightarrow> ep_media_only ep) \<and> (flags AND 4 \<noteq> 0 \<longleftrightarrow> ep_tcpo_only ep)
   \<and> (flags AND 8 \<noteq> 0 \<longleftrightarrow> ep_cdn ep) \<and> (flags AND 16 \<noteq> 0 \<longleftrightarrow> ep_is_static ep)
   \<and> (flags AND 32 \<noteq> 0 \<longleftrightarrow> ep_this_port_only ep)
   \<and> (flags AND push_bit 10 1 \<noteq> 0 \<longleftrightarrow> ep_secret ep \<noteq> None)
   \<and> (\<forall>secret. ep_secret ep = Some secret \<longrightarrow> length secret < 2 ^ 24)"

definition enc_config :: "i32 \<Rightarrow> i32 \<Rightarrow> i32 \<Rightarrow> bool \<Rightarrow> i32 \<Rightarrow> (i32 \<times> string \<times> DcEndpoint) list \<Rightarrow> bytes" where
  "enc_config flags date expires test_mode this_dc options =
     to_le 4 CONFIG_CONSTRUCTOR @ to_le 4 flags @ to_le 4 date @ to_le 4 expires @ enc_bool test_mode @ to_le 4 this_dc
     @ enc_vector_length (length options) @ concat (map (\<lambda>(f, address, ep). enc_dc_option f address ep) options)"

lemma parses_expect: "parses mb mv (expect_constructor c) (to_le 4 c) ()"
  unfolding expect_constructor_def
  by (rule parses_and_read_last [OF parses_lift [OF u32_codec.parses_enc [OF TrueI]]]) simp

lemma and_read_reads [simp]: "and_read (reads (Inr x)) f = f x"
  by (simp add: and_read_def reads_def fun_eq_iff)

lemma parses_when_flag:
  "flags AND bits \<noteq> 0 \<Longrightarrow> parses mb mv p bs x \<Longrightarrow> parses mb mv (when_flag flags bits p) bs (Some x)"
  "flags AND bits = 0 \<Longrightarrow> parses mb mv (when_flag flags bits p) [] None"
  by (simp_all add: when_flag_def parses_reads parses_and_read_last)

lemma port_of_port: "p \<noteq> 0 \<Longrightarrow> port_of (ucast p) = Ok p"
proof -
  assume "p \<noteq> 0"
  have p: "unat p < 65536" using unsigned_less [of p, where ?'a = nat] by simp
  have "sint (ucast p :: i32) = int (unat p)"
  proof -
    have "- (2 ^ 31) \<le> int (unat p)" by (rule order_trans [of _ 0]) simp_all
    moreover have "unat p < 2 ^ 31" using p by simp
    then have "int (unat p) < int (2 ^ 31)" by (simp only: of_nat_less_iff)
    then have "int (unat p) < 2 ^ 31" by simp
    ultimately have "- (2 ^ 31) \<le> int (unat p)" "int (unat p) < 2 ^ 31" .
    from sint_word_of_int_i32 [OF this] show ?thesis by simp
  qed
  moreover have "int 0 < int (unat p)" "int (unat p) < int 65536"
    using p \<open>p \<noteq> 0\<close> by (simp_all only: of_nat_less_iff unat_gt_0) simp
  ultimately have "\<not> sint (ucast p :: i32) \<le> 0" "\<not> 65535 < sint (ucast p :: i32)" by simp_all
  moreover have "ucast (ucast p :: i32) = p" by (rule bit_word_eqI) (simp add: bit_simps)
  ultimately show ?thesis by (simp add: port_of_def)
qed

lemma parses_dc_option:
  assumes "option_of flags address ep"
  shows "parses DEFAULT_MAX_BYTES mv read_dc_option (enc_dc_option flags address ep) ep"
proof -
  note o = assms [unfolded option_of_def]
  have small: "length (address :: string) \<le> DEFAULT_MAX_BYTES" using o by (simp add: DEFAULT_MAX_BYTES_def)
  have new: "DcEndpoint_new (ep_dc_id ep) (ep_ip_address ep) (ep_port ep) (flags AND 2 \<noteq> 0) (flags AND 4 \<noteq> 0)
      (flags AND 8 \<noteq> 0) (flags AND 16 \<noteq> 0) (flags AND 32 \<noteq> 0) (ep_secret ep) = Ok ep"
    using o by (simp add: DcEndpoint_new_def)
  have secret: "parses DEFAULT_MAX_BYTES mv (when_flag flags (push_bit 10 1) (api_read read_bytes))
      (case ep_secret ep of None \<Rightarrow> [] | Some secret \<Rightarrow> enc_bytes secret) (ep_secret ep)"
    using o by (cases "ep_secret ep")
      (auto intro!: parses_when_flag parses_lift bytes_codec.parses_enc simp: DEFAULT_MAX_BYTES_def)
  have addr: "parses DEFAULT_MAX_BYTES mv (api_read read_string) (enc_bytes (as_bytes address)) address"
    using o small by (intro parses_lift string_codec.parses_enc) simp
  have ip: "parse_ip address = Some (ep_ip_address ep)" and port: "port_of (ucast (ep_port ep)) = Ok (ep_port ep)"
    using o by (simp_all add: port_of_port)
  note i32 = parses_and_read [OF parses_lift [OF i32_codec.parses_enc [OF TrueI]]]
  show ?thesis
    unfolding read_dc_option_def enc_dc_option_def
    by (rule parses_and_read [OF parses_expect], rule i32, rule i32, rule parses_and_read [OF addr],
        unfold ip ok_or_simps and_read_reads, rule i32, unfold port and_read_reads, rule parses_and_read_last [OF secret])
      (simp only: new map_err_simps)
qed

lemma parses_read_many:
  "list_all2 (parses mb mv p) bss xs \<Longrightarrow> parses mb mv (read_many (length xs) p) (concat bss) xs"
proof (induction bss xs rule: list_all2_induct)
  case Nil
  then show ?case by (simp add: parses_reads)
next
  case (Cons bs bss x xs)
  have "parses mb mv (and_read (read_many (length xs) p) (\<lambda>xs. reads (Ok (x # xs)))) (concat bss) (x # xs)"
    by (rule parses_and_read_last [OF Cons(3)]) simp
  from parses_and_read [OF Cons(1), of "\<lambda>x. and_read (read_many (length xs) p) (\<lambda>xs. reads (Ok (x # xs)))", OF this]
  show ?case by simp
qed

lemma read_many_Ok: "read_many n p r = (r', Inr xs) \<Longrightarrow> \<forall>x \<in> set xs. \<exists>r r'. p r = (r', Inr x)"
proof (induction n arbitrary: r xs)
  case (Suc n)
  then obtain r1 x ys where "p r = (r1, Inr x)" "read_many n p r1 = (r', Inr ys)" "xs = x # ys"
    by (auto simp: and_read_def reads_def split: prod.splits sum.splits)
  with Suc.IH show ?case by auto
qed (simp add: reads_def)

lemma parsed_endpoint_valid:
  assumes "read_dc_option r = (r', Inr ep)"
  shows "0 < sint (ep_dc_id ep)" "ep_port ep \<noteq> 0"
  using assms
  by (auto simp: read_dc_option_def and_read_def reads_def DcEndpoint_new_def map_err_def split: prod.splits sum.splits if_splits)

lemma DcDirectory_new_Ok:
  assumes "DcDirectory_new this_dc test_mode endpoints = Ok dir"
  shows "set (dir_endpoints dir) = set endpoints" "distinct (dir_endpoints dir)"
    "\<exists>cs. candidates dir (dir_this_dc dir) PurposeMain False = Ok cs"
  using assms by (auto simp: DcDirectory_new_def and_then_Inr_iff Let_def split: if_splits)

lemma parses_config:
  assumes "\<forall>(f, address, ep) \<in> set options. option_of f address ep" "length options \<le> DEFAULT_MAX_VECTOR_LENGTH"
    and "DcDirectory_new this_dc test_mode (map (snd \<circ> snd) options) = Ok dir"
    and "length (enc_config flags date expires test_mode this_dc options @ rest) < 2 ^ 64"
  shows "parse_config_dc_directory_prefix (enc_config flags date expires test_mode this_dc options @ rest)
    = Ok \<lparr>cd_flags = flags, cd_date = date, cd_expires = expires, cd_directory = dir\<rparr>"
proof -
  let ?mb = DEFAULT_MAX_BYTES and ?mv = DEFAULT_MAX_VECTOR_LENGTH
  let ?c = "enc_config flags date expires test_mode this_dc options"
  let ?r = "TlReader_new (?c @ rest)"
  have "list_all2 (parses ?mb ?mv read_dc_option) (map (\<lambda>(f, address, ep). enc_dc_option f address ep) options)
      (map (snd \<circ> snd) options)"
    using assms(1) by (auto simp: list_all2_conv_all_nth intro!: parses_dc_option split: prod.split) (metis nth_mem snd_conv case_prodD)
  from parses_read_many [OF this] have many: "parses ?mb ?mv (read_many (length options) read_dc_option)
      (concat (map (\<lambda>(f, address, ep). enc_dc_option f address ep) options)) (map (snd \<circ> snd) options)"
    by simp
  have len: "length options < 2 ^ 31 \<and> length options \<le> ?mv" using assms(2) by (simp add: DEFAULT_MAX_VECTOR_LENGTH_def)
  note i32 = parses_and_read [OF parses_lift [OF i32_codec.parses_enc [OF TrueI]]]
  have "parses ?mb ?mv (and_read (expect_constructor CONFIG_CONSTRUCTOR) (\<lambda>_.
      and_read (api_read read_i32) (\<lambda>flags. and_read (api_read read_i32) (\<lambda>date. and_read (api_read read_i32) (\<lambda>expires.
      and_read (api_read read_bool) (\<lambda>test_mode. and_read (api_read read_i32) (\<lambda>this_dc.
      and_read (api_read read_vector_length) (\<lambda>count. and_read (read_many count read_dc_option) (\<lambda>endpoints.
      and_read (reads (map_err ApiDc (DcDirectory_new this_dc test_mode endpoints))) (\<lambda>directory.
      reads (Ok \<lparr>cd_flags = flags, cd_date = date, cd_expires = expires, cd_directory = directory\<rparr>))))))))))) ?c
      \<lparr>cd_flags = flags, cd_date = date, cd_expires = expires, cd_directory = dir\<rparr>"
    unfolding enc_config_def
    by (rule parses_and_read [OF parses_expect], rule i32, rule i32, rule i32,
        rule parses_and_read [OF parses_lift [OF bool_codec.parses_enc [OF TrueI]]], rule i32,
        rule parses_and_read [OF parses_lift [OF vector_length_codec.parses_enc [OF len]]], rule parses_and_read_last [OF many])
      (simp add: assms(3))
  moreover have "reader_ok ?r" "unread ?r = ?c @ rest" "tr_max_bytes ?r = ?mb" "tr_max_vector_length ?r = ?mv"
    using assms(4) by (simp_all add: TlReader_new_def reader_ok_def unread_def)
  ultimately show ?thesis unfolding parse_config_dc_directory_prefix_def parses_def by simp
qed

text \<open>
  The configuration of the server is understood. A configuration that encodes endpoints, with
  whatever fields after them, is parsed into the directory of exactly these endpoints; and whatever
  bytes arrive, a directory that is parsed has distinct endpoints with valid data centers and ports
  and can serve the main data center it names.
\<close>

theorem config_directory_parsed:
  "(\<forall>options dir. (\<forall>(f, address, ep) \<in> set options. option_of f address ep)
      \<and> length options \<le> DEFAULT_MAX_VECTOR_LENGTH
      \<and> DcDirectory_new this_dc test_mode (map (snd \<circ> snd) options) = Ok dir
      \<and> length (enc_config flags date expires test_mode this_dc options @ rest) < 2 ^ 64 \<longrightarrow>
      parse_config_dc_directory_prefix (enc_config flags date expires test_mode this_dc options @ rest)
        = Ok \<lparr>cd_flags = flags, cd_date = date, cd_expires = expires, cd_directory = dir\<rparr>)
   \<and> (\<forall>input c. parse_config_dc_directory_prefix input = Ok c \<longrightarrow>
        distinct (dir_endpoints (cd_directory c))
      \<and> (\<forall>ep \<in> set (dir_endpoints (cd_directory c)). 0 < sint (ep_dc_id ep) \<and> ep_port ep \<noteq> 0)
      \<and> (\<exists>cs. candidates (cd_directory c) (dir_this_dc (cd_directory c)) PurposeMain False = Ok cs))"
proof (intro conjI allI impI)
  fix input c
  assume "parse_config_dc_directory_prefix input = Ok c"
  then obtain this_dc test_mode endpoints n r r' where
    dir: "DcDirectory_new this_dc test_mode endpoints = Ok (cd_directory c)"
    and many: "read_many n read_dc_option r = (r', Inr endpoints)"
    unfolding parse_config_dc_directory_prefix_def snd_def
    by (auto simp: and_read_def reads_def map_err_def split: prod.splits sum.splits)
  note d = DcDirectory_new_Ok [OF dir]
  from d show "distinct (dir_endpoints (cd_directory c))"
    "\<exists>cs. candidates (cd_directory c) (dir_this_dc (cd_directory c)) PurposeMain False = Ok cs" by simp_all
  show "\<forall>ep \<in> set (dir_endpoints (cd_directory c)). 0 < sint (ep_dc_id ep) \<and> ep_port ep \<noteq> 0"
    unfolding d(1) using read_many_Ok [OF many] parsed_endpoint_valid by blast
qed (use parses_config in auto)

section \<open>Witnesses\<close>

theorem requests_carry_fields_witness:
  "\<exists>body. build_auth_sign_in ''+1234567'' ''h'' ''55'' = Ok body
     \<and> reads_back body [TlU32 AUTH_SIGN_IN_CONSTRUCTOR, TlI32 1, TlString ''+1234567'', TlString ''h'', TlString ''55'']"
proof -
  have "\<exists>body. build_auth_sign_in ''+1234567'' ''h'' ''55'' = Ok body"
    by (simp add: build_auth_sign_in_def validate_phone_number_def require_nonempty_def written_outcome trim_def ws1_def ws2_def
        ws3_def is_ascii_digit_def less_eq_char_def)
  moreover have "\<forall>t \<in> {''+1234567'', ''h'', ''55'', trim ''A'', trim []}. valid_utf8 (as_bytes t)"
    by (simp add: as_bytes_def valid_utf8.simps trim_def ws1_def ws2_def ws3_def)
  ultimately show ?thesis using requests_carry_fields [of "''+1234567''" "''h''" "''55''" "''A''" "[]" 1] by blast
qed

definition demo_endpoint :: DcEndpoint where
  "demo_endpoint = \<lparr>ep_dc_id = 2, ep_ip_address = IpV4 [1, 2, 3, 4], ep_port = 443, ep_media_only = False,
     ep_tcpo_only = False, ep_cdn = False, ep_is_static = False, ep_this_port_only = False, ep_secret = Some [7]\<rparr>"

definition demo_directory :: DcDirectory where
  "demo_directory = \<lparr>dir_this_dc = 2, dir_test_mode = False, dir_endpoints = [demo_endpoint]\<rparr>"

theorem config_directory_parsed_witness:
  "parse_config_dc_directory_prefix (enc_config 0 1 2 False 2 [(1024, ''1.2.3.4'', demo_endpoint)] @ [9, 9])
     = Ok \<lparr>cd_flags = 0, cd_date = 1, cd_expires = 2, cd_directory = demo_directory\<rparr>"
proof -
  have "parse_ip ''1.2.3.4'' = Some (IpV4 [1, 2, 3, 4])" by (simp add: address_reading)
  then have "option_of 1024 ''1.2.3.4'' demo_endpoint"
    by (simp add: option_of_def demo_endpoint_def as_bytes_def valid_utf8.simps)
  moreover have "DcDirectory_new 2 False [demo_endpoint] = Ok demo_directory"
    by (simp add: DcDirectory_new_def candidates_def demo_directory_def demo_endpoint_def supports_def Let_def)
  moreover have "length (enc_config 0 1 2 False 2 [(1024, ''1.2.3.4'', demo_endpoint)] @ [9, 9]) < 2 ^ 64"
    using length_enc_bytes_le [of "as_bytes ''1.2.3.4''"] length_enc_bytes_le [of "[7]"]
    by (simp add: enc_config_def enc_dc_option_def enc_bool_def enc_vector_length_def demo_endpoint_def)
  ultimately show ?thesis
    using config_directory_parsed [of 2 False 0 1 2 "[9, 9]"] by (simp add: DEFAULT_MAX_VECTOR_LENGTH_def)
qed

end
