(* ===== verification/Telegram_Network.thy ===== *)
theory Telegram_Network
  imports Handshake Transport Mtproto_Session Telegram_Api
begin

text \<open>
  The network layer of the Telegram client (\<open>telegram-network/src/lib.rs\<close>): frames over a socket, the
  exchange of the authorization key with retries, encrypted requests with acknowledgements, the search
  for the answer in the messages of the server, and pings. A socket of the standard library is the list
  of what the next reads return, where an empty read is the end of the stream and a read after the last
  one runs into the timeout, and the bytes written so far with the faults of the next writes. Clock,
  random source and new connections are functions of the number of the call. A failed connection attempt is kept as its
  address and error instead of the text made of them.
\<close>

section \<open>Sockets\<close>

datatype IoError = IoTimedOut | IoError string

record TcpStream =
  ts_reads :: "(bytes, IoError) result list"
  ts_written :: bytes
  ts_write_faults :: "(nat \<times> IoError) option list"

definition DEFAULT_READ_CHUNK_BYTES :: nat where
  "DEFAULT_READ_CHUNK_BYTES = 16 * 1024"

text \<open>\<open>Read::read\<close> into a buffer of the given size.\<close>

fun stream_read :: "nat \<Rightarrow> TcpStream \<Rightarrow> TcpStream \<times> (bytes, IoError) result" where
  "stream_read n s =
     (case ts_reads s of
        [] \<Rightarrow> (s, Err IoTimedOut)
      | Inl e # rs \<Rightarrow> (s\<lparr>ts_reads := rs\<rparr>, Err e)
      | Inr bs # rs \<Rightarrow>
          (s\<lparr>ts_reads := (if length bs \<le> n then rs else Inr (drop n bs) # rs)\<rparr>, Ok (take n bs)))"

declare stream_read.simps [simp del]

text \<open>\<open>Write::write_all\<close>: everything, or a part of it and an error.\<close>

definition stream_write_all :: "bytes \<Rightarrow> TcpStream \<Rightarrow> TcpStream \<times> (unit, IoError) result" where
  "stream_write_all bs s =
     (case ts_write_faults s of
        Some (n, e) # faults \<Rightarrow> (s\<lparr>ts_written := ts_written s @ take n bs, ts_write_faults := faults\<rparr>, Err e)
      | None # faults \<Rightarrow> (s\<lparr>ts_written := ts_written s @ bs, ts_write_faults := faults\<rparr>, Ok ())
      | [] \<Rightarrow> (s\<lparr>ts_written := ts_written s @ bs\<rparr>, Ok ()))"

section \<open>Data\<close>

definition DEFAULT_MAX_DH_RETRIES :: nat where
  "DEFAULT_MAX_DH_RETRIES = 3"

definition DEFAULT_MAX_SERVICE_MESSAGES :: nat where
  "DEFAULT_MAX_SERVICE_MESSAGES = 8"

definition DEFAULT_MAX_RPC_MESSAGES :: nat where
  "DEFAULT_MAX_RPC_MESSAGES = 64"

definition PING_CONSTRUCTOR :: u32 where
  "PING_CONSTRUCTOR = 0x7abe77ec"

definition PONG_CONSTRUCTOR :: u32 where
  "PONG_CONSTRUCTOR = 0x347773c5"

definition NEW_SESSION_CREATED_CONSTRUCTOR :: u32 where
  "NEW_SESSION_CREATED_CONSTRUCTOR = 0x9ec20908"

definition MESSAGE_CONTAINER_CONSTRUCTOR :: u32 where
  "MESSAGE_CONTAINER_CONSTRUCTOR = 0x73f1f8dc"

definition BAD_SERVER_SALT_CONSTRUCTOR :: u32 where
  "BAD_SERVER_SALT_CONSTRUCTOR = 0xedab447b"

definition BAD_MSG_NOTIFICATION_CONSTRUCTOR :: u32 where
  "BAD_MSG_NOTIFICATION_CONSTRUCTOR = 0xa7eff811"

definition RPC_RESULT_CONSTRUCTOR :: u32 where
  "RPC_RESULT_CONSTRUCTOR = 0xf35c6d01"

definition FUTURE_SALTS_CONSTRUCTOR :: u32 where
  "FUTURE_SALTS_CONSTRUCTOR = 0xae500895"

text \<open>The timeouts of the configuration belong to the sockets.\<close>

record NetworkConfig =
  nc_transport_mode :: TransportMode
  nc_prefer_ipv6 :: bool

definition NetworkConfig_default :: NetworkConfig where
  "NetworkConfig_default = \<lparr>nc_transport_mode = Abridged, nc_prefer_ipv6 = False\<rparr>"

type_synonym SocketAddr = "IpAddr \<times> u16"

record ConnectedEndpoint =
  ce_dc_id :: i32
  ce_address :: SocketAddr

datatype (plugins only: code size) NetworkError =
    NetDirectory DcError
  | ConnectFailed "(SocketAddr \<times> IoError) list"
  | NetIo IoError
  | NetTransport TransportError
  | NetHandshake HandshakeError
  | NetMessageId MessageIdError
  | NetSequence SequenceError
  | NetCrypto CryptoError
  | InvalidSystemClock
  | ConnectionClosed
  | DhRetryLimit
  | NetRandomnessUnavailable
  | InvalidServiceMessage
  | PingMismatch
  | PongTimeout
  | BadServerMessage i64 i32
  | RpcTimeout

record TcpTransport =
  tp_stream :: TcpStream
  tp_codec :: TransportFrameCodec
  tp_read_buffer :: bytes
  tp_initialized :: bool

record EstablishedSession =
  es_endpoint :: ConnectedEndpoint
  es_transport :: TcpTransport
  es_auth_key :: AuthKey
  es_server_salt :: i64
  es_server_time :: i32
  es_message_ids :: MessageIdGuard
  es_sequence :: SessionSequence
  es_session_id :: i64

record PingResult =
  pr_ping_id :: i64
  pr_response_message_id :: i64
  pr_server_salt :: i64

record RpcResult =
  rr_request_message_id :: i64
  rr_response_message_id :: i64
  rr_body :: bytes

datatype ServiceOutcome = ServicePong i64 | ServiceNewSalt | ServiceContinue

datatype RpcOutcome = RpcOutcomeResult RpcResult | RpcNewSalt | RpcContinue

text \<open>
  The parameters of the layer: the primitives of other crates, the clock as seconds and nanoseconds
  since the epoch (\<open>None\<close> before it), the bytes the random source fills a buffer with, and the
  connections that are made. The world counts the calls.
\<close>

record NetworkEnv =
  ne_crc :: "bytes \<Rightarrow> u32"
  ne_primitives :: MtprotoPrimitives
  ne_big :: BigLibrary
  ne_clock :: "nat \<Rightarrow> (u64 \<times> u32) option"
  ne_random :: "nat \<Rightarrow> (nat \<Rightarrow> u8) option"
  ne_connect :: "nat \<Rightarrow> SocketAddr \<Rightarrow> (TcpStream, IoError) result"

record World =
  wd_clock_calls :: nat
  wd_random_calls :: nat
  wd_connect_calls :: nat

type_synonym ('s, 'a) network = "'s \<Rightarrow> 's \<times> ('a, NetworkError) result"

text \<open>An operation on a part of the state.\<close>

definition zoom :: "('s \<Rightarrow> 'p) \<Rightarrow> ('p \<Rightarrow> 's \<Rightarrow> 's) \<Rightarrow> ('p \<Rightarrow> 'p \<times> 'x) \<Rightarrow> 's \<Rightarrow> 's \<times> 'x" where
  "zoom part put operation s = (case operation (part s) of (p, x) \<Rightarrow> (put p s, x))"

definition with_error :: "('e \<Rightarrow> NetworkError) \<Rightarrow> ('s \<Rightarrow> 's \<times> ('a, 'e) result) \<Rightarrow> ('s, 'a) network" where
  "with_error f operation s = (case operation s of (s', res) \<Rightarrow> (s', map_err f res))"

section \<open>Clock and random source\<close>

definition unix_time :: "NetworkEnv \<Rightarrow> (World, i64 \<times> u32) network" where
  "unix_time env w =
     (w\<lparr>wd_clock_calls := Suc (wd_clock_calls w)\<rparr>,
      case ne_clock env (wd_clock_calls w) of
        None \<Rightarrow> Err InvalidSystemClock
      | Some (seconds, nanos) \<Rightarrow> if 2 ^ 63 \<le> unat seconds then Err InvalidSystemClock else Ok (seconds, nanos))"

definition getrandom :: "NetworkEnv \<Rightarrow> World \<Rightarrow> nat \<Rightarrow> World \<times> bytes option" where
  "getrandom env w n =
     (w\<lparr>wd_random_calls := Suc (wd_random_calls w)\<rparr>,
      map_option (\<lambda>f. map f [0..<n]) (ne_random env (wd_random_calls w)))"

definition secure_random :: "NetworkEnv \<Rightarrow> nat \<Rightarrow> (World, bytes) network" where
  "secure_random env n w =
     (case getrandom env w n of (w', r) \<Rightarrow> (w', ok_or NetRandomnessUnavailable r))"

definition random_i64 :: "NetworkEnv \<Rightarrow> (World, i64) network" where
  "random_i64 env = and_draw (secure_random env 8) (\<lambda>bs. draws (Ok (from_le bs)))"

definition next_message_id :: "NetworkEnv \<Rightarrow> (MessageIdGuard \<times> World, i64) network" where
  "next_message_id env =
     and_draw (zoom snd (\<lambda>w (g, _). (g, w)) (unix_time env)) (\<lambda>(seconds, nanos).
     zoom fst (\<lambda>g (_, w). (g, w))
       (with_error NetMessageId (\<lambda>g. generate_client_message_id g seconds nanos)))"

definition check_server_id :: "NetworkEnv \<Rightarrow> i64 \<Rightarrow> (MessageIdGuard \<times> World, unit) network" where
  "check_server_id env message_id =
     and_draw (zoom snd (\<lambda>w (g, _). (g, w)) (unix_time env)) (\<lambda>(now, _).
     zoom fst (\<lambda>g (_, w). (g, w))
       (with_error NetMessageId (\<lambda>g. validate_server_message_id g message_id now)))"

section \<open>Transport\<close>

definition from_stream :: "TcpStream \<Rightarrow> TransportMode \<Rightarrow> TcpTransport" where
  "from_stream stream mode =
     \<lparr>tp_stream = stream, tp_codec = TransportFrameCodec_new mode, tp_read_buffer = [], tp_initialized = False\<rparr>"

definition transport_connect ::
  "NetworkEnv \<Rightarrow> SocketAddr \<Rightarrow> TransportMode \<Rightarrow> World \<Rightarrow> World \<times> (TcpTransport, IoError) result"
where
  "transport_connect env address mode w =
     (w\<lparr>wd_connect_calls := Suc (wd_connect_calls w)\<rparr>,
      and_then (ne_connect env (wd_connect_calls w) address) (\<lambda>stream. Ok (from_stream stream mode)))"

definition transport_write :: "bytes \<Rightarrow> (TcpTransport, unit) network" where
  "transport_write bs = zoom tp_stream (\<lambda>s t. t\<lparr>tp_stream := s\<rparr>) (with_error NetIo (stream_write_all bs))"

definition send_payload :: "NetworkEnv \<Rightarrow> bytes \<Rightarrow> (TcpTransport, unit) network" where
  "send_payload env payload =
     and_draw
       (\<lambda>t. if tp_initialized t then (t, Ok ())
            else and_draw (transport_write (initial_header (tf_mode (tp_codec t))))
                   (\<lambda>_ t. (t\<lparr>tp_initialized := True\<rparr>, Ok ())) t) (\<lambda>_.
     and_draw
       (zoom tp_codec (\<lambda>c t. t\<lparr>tp_codec := c\<rparr>) (with_error NetTransport (\<lambda>c. encode (ne_crc env) c payload))) (\<lambda>frame.
     transport_write frame))"

text \<open>
  The loop over the buffer and the stream. It ends because every round takes a frame out of the buffer
  or bytes out of what the stream still delivers.
\<close>

definition reads_left :: "TcpStream \<Rightarrow> nat" where
  "reads_left s = (\<Sum>r\<leftarrow>ts_reads s. Suc (case r of Inl _ \<Rightarrow> 0 | Inr bs \<Rightarrow> 2 * length bs))"

lemma stream_read_left:
  assumes "stream_read n s = (s', Ok bs)" "bs \<noteq> []"
  shows "reads_left s' + length bs < reads_left s"
proof -
  obtain cs rs where rs: "ts_reads s = Inr cs # rs" "bs = take n cs"
    "s' = s\<lparr>ts_reads := (if length cs \<le> n then rs else Inr (drop n cs) # rs)\<rparr>"
    using assms(1) by (auto simp: stream_read.simps split: list.splits sum.splits)
  have "0 < n" "cs \<noteq> []" using assms(2) rs(2) by auto
  then show ?thesis using rs by (auto simp: reads_left_def)
qed

lemma decode_consumes:
  assumes "decode crc c input = Ok (Some f)"
  shows "0 < df_consumed_bytes f \<and> df_consumed_bytes f \<le> length input"
proof (cases "tf_mode c")
  case FullMode
  with assms show ?thesis
    by (auto simp: decode_def decode_full_def Let_def get_range_Some_iff data_frame_def FULL_FRAME_OVERHEAD_def
        result_simps split: option.splits if_splits)
next
  case Abridged
  with assms show ?thesis
    by (auto simp: decode_def decode_abridged_def Let_def get_range_Some_iff data_frame_def ack_frame_def
        result_simps split: option.splits if_splits list.splits)
qed (use assms in \<open>auto simp: decode_def decode_intermediate_def Let_def get_range_Some_iff data_frame_def
        ack_frame_def result_simps split: option.splits if_splits\<close>)

function receive_payload :: "NetworkEnv \<Rightarrow> (TcpTransport, bytes) network" where
  "receive_payload env t =
     (case decode (ne_crc env) (tp_codec t) (tp_read_buffer t) of
        Inl e \<Rightarrow> (t, Err (NetTransport e))
      | Inr (Some frame) \<Rightarrow>
          let t' = t\<lparr>tp_read_buffer := drop (df_consumed_bytes frame) (tp_read_buffer t)\<rparr>
          in if df_quick_ack_token frame \<noteq> None then receive_payload env t' else (t', Ok (df_payload frame))
      | Inr None \<Rightarrow>
          (case stream_read DEFAULT_READ_CHUNK_BYTES (tp_stream t) of
             (s, Inl e) \<Rightarrow> (t\<lparr>tp_stream := s\<rparr>, Err (NetIo e))
           | (s, Inr chunk) \<Rightarrow>
               if chunk = [] then (t\<lparr>tp_stream := s\<rparr>, Err ConnectionClosed)
               else receive_payload env (t\<lparr>tp_stream := s, tp_read_buffer := tp_read_buffer t @ chunk\<rparr>)))"
  by pat_completeness auto
termination
  by (relation "measure (\<lambda>(env, t). reads_left (tp_stream t) + length (tp_read_buffer t))")
    (auto dest: decode_consumes stream_read_left [OF sym])

declare receive_payload.simps [simp del]

definition exchange_plaintext :: "NetworkEnv \<Rightarrow> PlaintextEnvelope \<Rightarrow> (TcpTransport, PlaintextEnvelope) network" where
  "exchange_plaintext env request =
     and_draw (draws (map_err NetHandshake (envelope_encode request))) (\<lambda>bs.
     and_draw (send_payload env bs) (\<lambda>_.
     and_draw (receive_payload env) (\<lambda>payload.
     draws (map_err NetHandshake (envelope_decode payload)))))"

section \<open>Reading the messages of the server\<close>

definition read_u32_at :: "bytes \<Rightarrow> nat \<Rightarrow> (u32, NetworkError) result" where
  "read_u32_at input offset =
     and_then (ok_or InvalidServiceMessage (get_range input offset (offset + 4))) (\<lambda>bs. Ok (from_le bs))"

definition read_i32_at :: "bytes \<Rightarrow> nat \<Rightarrow> (i32, NetworkError) result" where
  "read_i32_at input offset =
     and_then (ok_or InvalidServiceMessage (get_range input offset (offset + 4))) (\<lambda>bs. Ok (from_le bs))"

definition read_i64_at :: "bytes \<Rightarrow> nat \<Rightarrow> (i64, NetworkError) result" where
  "read_i64_at input offset =
     and_then (ok_or InvalidServiceMessage (get_range input offset (offset + 8))) (\<lambda>bs. Ok (from_le bs))"

definition checked_add_usize :: "nat \<Rightarrow> nat \<Rightarrow> nat option" where
  "checked_add_usize a b = (if a + b < 2 ^ 64 then Some (a + b) else None)"

text \<open>The entry of a container at an offset: identifier, sequence number, body and where it ends.\<close>

definition container_entry :: "bytes \<Rightarrow> nat \<Rightarrow> (i64 \<times> i32 \<times> bytes \<times> nat, NetworkError) result" where
  "container_entry body offset =
     and_then (read_i64_at body offset) (\<lambda>message_id.
     and_then (read_i32_at body (offset + 8)) (\<lambda>sequence_number.
     and_then (read_i32_at body (offset + 12)) (\<lambda>body_length.
     if sint body_length < 0 then Err InvalidServiceMessage
     else
       and_then (ok_or InvalidServiceMessage (checked_add_usize offset 16)) (\<lambda>body_start.
       and_then (ok_or InvalidServiceMessage (checked_add_usize body_start (unat body_length))) (\<lambda>body_end.
       and_then (ok_or InvalidServiceMessage (get_range body body_start body_end)) (\<lambda>inner.
       Ok (message_id, sequence_number, inner, body_end)))))))"

lemma container_entry_smaller:
  "container_entry body offset = Ok (message_id, sequence_number, inner, body_end) \<Longrightarrow>
     length inner < length body \<and> length inner + offset < body_end"
  by (auto simp: container_entry_def result_simps checked_add_usize_def get_range_Some_iff split: if_splits)

type_synonym session_state = "EstablishedSession \<times> World"

definition on_ids :: "(MessageIdGuard \<times> World, 'a) network \<Rightarrow> (session_state, 'a) network" where
  "on_ids = zoom (\<lambda>(e, w). (es_message_ids e, w)) (\<lambda>(g, w) (e, _). (e\<lparr>es_message_ids := g\<rparr>, w))"

definition on_transport :: "(TcpTransport, 'a) network \<Rightarrow> (session_state, 'a) network" where
  "on_transport = zoom (\<lambda>(e, w). es_transport e) (\<lambda>t (e, w). (e\<lparr>es_transport := t\<rparr>, w))"

definition set_salt :: "i64 \<Rightarrow> session_state \<Rightarrow> session_state" where
  "set_salt salt s = (case s of (e, w) \<Rightarrow> (e\<lparr>es_server_salt := salt\<rparr>, w))"

text \<open>What both scans do with a notice of a bad salt and with the start of a session.\<close>

definition new_session_created :: "bytes \<Rightarrow> 'o \<Rightarrow> (session_state, 'o) network" where
  "new_session_created body continue s =
     (case read_i64_at body 20 of Inl e \<Rightarrow> (s, Err e) | Inr salt \<Rightarrow> (set_salt salt s, Ok continue))"

definition bad_server_salt :: "bytes \<Rightarrow> i64 \<Rightarrow> 'o \<Rightarrow> (session_state, 'o) network" where
  "bad_server_salt body request_message_id new_salt =
     and_draw (draws (read_i64_at body 4)) (\<lambda>message_id.
     and_draw (draws (read_i32_at body 16)) (\<lambda>error_code.
     if message_id \<noteq> request_message_id then draws (Err (BadServerMessage message_id error_code))
     else new_session_created body new_salt))"

text \<open>An answer to the request: the body of \<open>rpc_result\<close>, or the whole of \<open>future_salts\<close>.\<close>

definition rpc_answer :: "bytes \<Rightarrow> i64 \<Rightarrow> i64 \<Rightarrow> bool \<Rightarrow> (RpcOutcome, NetworkError) result" where
  "rpc_answer body request_message_id response_message_id whole =
     and_then (read_i64_at body 4) (\<lambda>request_id.
     if request_id \<noteq> request_message_id then Ok RpcContinue
     else
       and_then
         (if whole then Ok body
          else (case get_range body 12 (length body) of
                  None \<Rightarrow> Err InvalidServiceMessage
                | Some value \<Rightarrow> if value = [] then Err InvalidServiceMessage else Ok value)) (\<lambda>result_body.
       Ok (RpcOutcomeResult
         \<lparr>rr_request_message_id = request_message_id, rr_response_message_id = response_message_id,
          rr_body = result_body\<rparr>)))"

text \<open>The acknowledgements that are collected on the way are a part of the state of the scan.\<close>

type_synonym scan_state = "session_state \<times> i64 list"

definition on_session :: "(session_state, 'a) network \<Rightarrow> (scan_state, 'a) network" where
  "on_session = zoom fst (\<lambda>s (_, acks). (s, acks))"

definition note_odd :: "i32 \<Rightarrow> i64 \<Rightarrow> i64 list \<Rightarrow> i64 list" where
  "note_odd sequence_number message_id acks = (if sint sequence_number mod 2 = 1 then acks @ [message_id] else acks)"

function (sequential) scan_rpc_body :: "NetworkEnv \<Rightarrow> bytes \<Rightarrow> i64 \<Rightarrow> i64 \<Rightarrow> (scan_state, RpcOutcome) network"
  and scan_rpc_container :: "NetworkEnv \<Rightarrow> nat \<Rightarrow> bytes \<Rightarrow> nat \<Rightarrow> i64 \<Rightarrow> RpcOutcome \<Rightarrow> (scan_state, RpcOutcome) network"
where
  "scan_rpc_body env body request_message_id response_message_id =
     (case read_u32_at body 0 of
        Inl e \<Rightarrow> draws (Err e)
      | Inr constructor \<Rightarrow>
          if constructor = RPC_RESULT_CONSTRUCTOR then
            draws (rpc_answer body request_message_id response_message_id False)
          else if constructor = FUTURE_SALTS_CONSTRUCTOR then
            draws (rpc_answer body request_message_id response_message_id True)
          else if constructor = NEW_SESSION_CREATED_CONSTRUCTOR then
            on_session (new_session_created body RpcContinue)
          else if constructor = BAD_SERVER_SALT_CONSTRUCTOR then
            on_session (bad_server_salt body request_message_id RpcNewSalt)
          else if constructor = BAD_MSG_NOTIFICATION_CONSTRUCTOR then
            draws (and_then (read_i64_at body 4) (\<lambda>message_id.
                   and_then (read_i32_at body 16) (\<lambda>code. Err (BadServerMessage message_id code))))
          else if constructor = MESSAGE_CONTAINER_CONSTRUCTOR then
            (case read_i32_at body 4 of
               Inl e \<Rightarrow> draws (Err e)
             | Inr count \<Rightarrow>
                 if sint count < 0 \<or> 1024 < sint count then draws (Err InvalidServiceMessage)
                 else scan_rpc_container env (unat count) body 8 request_message_id RpcContinue)
          else draws (Ok RpcContinue))"
| "scan_rpc_container env 0 body offset request_message_id outcome =
     draws (if offset \<noteq> length body then Err InvalidServiceMessage else Ok outcome)"
| "scan_rpc_container env (Suc n) body offset request_message_id outcome =
     (case container_entry body offset of
        Inl e \<Rightarrow> draws (Err e)
      | Inr (message_id, sequence_number, inner, body_end) \<Rightarrow>
          and_draw (on_session (on_ids (check_server_id env message_id))) (\<lambda>_.
          and_draw (\<lambda>(s, acks). ((s, note_odd sequence_number message_id acks), Ok ())) (\<lambda>_.
          and_draw (scan_rpc_body env inner request_message_id message_id) (\<lambda>inner_outcome.
          scan_rpc_container env n body body_end request_message_id
            (if inner_outcome = RpcContinue then outcome else inner_outcome)))))"
  by pat_completeness auto
termination
  by (relation "inv_image (less_than <*lex*> less_than <*lex*> less_than)
      (\<lambda>x. case x of Inl (env, body, _) \<Rightarrow> (length body, 1, 0)
        | Inr (env, n, body, _) \<Rightarrow> (length body, 0, n))")
    (auto dest: container_entry_smaller)

declare scan_rpc_body.simps [simp del]

function (sequential) process_service_body :: "NetworkEnv \<Rightarrow> bytes \<Rightarrow> i64 \<Rightarrow> i64 \<Rightarrow> (session_state, ServiceOutcome) network"
  and process_service_container ::
    "NetworkEnv \<Rightarrow> nat \<Rightarrow> bytes \<Rightarrow> nat \<Rightarrow> i64 \<Rightarrow> i64 \<Rightarrow> ServiceOutcome \<Rightarrow> (session_state, ServiceOutcome) network"
where
  "process_service_body env body ping_id request_message_id =
     (case read_u32_at body 0 of
        Inl e \<Rightarrow> draws (Err e)
      | Inr constructor \<Rightarrow>
          if constructor = PONG_CONSTRUCTOR then
            draws (and_then (read_i64_at body 4) (\<lambda>response_message_id.
                   and_then (read_i64_at body 12) (\<lambda>response_ping_id.
                   if response_message_id \<noteq> request_message_id \<or> response_ping_id \<noteq> ping_id then Err PingMismatch
                   else Ok (ServicePong response_message_id))))
          else if constructor = NEW_SESSION_CREATED_CONSTRUCTOR then
            new_session_created body ServiceContinue
          else if constructor = BAD_SERVER_SALT_CONSTRUCTOR then
            bad_server_salt body request_message_id ServiceNewSalt
          else if constructor = MESSAGE_CONTAINER_CONSTRUCTOR then
            (case read_i32_at body 4 of
               Inl e \<Rightarrow> draws (Err e)
             | Inr count \<Rightarrow>
                 if sint count < 0 \<or> 1024 < sint count then draws (Err InvalidServiceMessage)
                 else process_service_container env (unat count) body 8 ping_id request_message_id ServiceContinue)
          else draws (Ok ServiceContinue))"
| "process_service_container env 0 body offset ping_id request_message_id outcome =
     draws (if offset \<noteq> length body then Err InvalidServiceMessage else Ok outcome)"
| "process_service_container env (Suc n) body offset ping_id request_message_id outcome =
     (case container_entry body offset of
        Inl e \<Rightarrow> draws (Err e)
      | Inr (message_id, sequence_number, inner, body_end) \<Rightarrow>
          and_draw (on_ids (check_server_id env message_id)) (\<lambda>_.
          and_draw (process_service_body env inner ping_id request_message_id) (\<lambda>inner_outcome.
          process_service_container env n body body_end ping_id request_message_id
            (if inner_outcome = ServiceContinue then outcome else inner_outcome))))"
  by pat_completeness auto
termination
  by (relation "inv_image (less_than <*lex*> less_than <*lex*> less_than)
      (\<lambda>x. case x of Inl (env, body, _) \<Rightarrow> (length body, 1, 0)
        | Inr (env, n, body, _) \<Rightarrow> (length body, 0, n))")
    (auto dest: container_entry_smaller)

declare process_service_body.simps [simp del]

section \<open>Encrypted messages\<close>

definition next_multiple_of :: "nat \<Rightarrow> nat \<Rightarrow> nat" where
  "next_multiple_of n k = (n + k - 1) div k * k"

definition encrypted_padding_length :: "nat \<Rightarrow> nat" where
  "encrypted_padding_length body_length =
     (let unpadded = 32 + body_length; minimum = unpadded + 12 in next_multiple_of minimum 16 - unpadded)"

definition on_world :: "(World, 'a) network \<Rightarrow> (session_state, 'a) network" where
  "on_world = zoom snd (\<lambda>w (e, _). (e, w))"

definition on_sequence :: "(SessionSequence \<Rightarrow> SessionSequence \<times> ('a, SequenceError) result) \<Rightarrow> (session_state, 'a) network" where
  "on_sequence operation =
     zoom (\<lambda>(e, w). es_sequence e) (\<lambda>q (e, w). (e\<lparr>es_sequence := q\<rparr>, w)) (with_error NetSequence operation)"

definition send_encrypted_message :: "NetworkEnv \<Rightarrow> bytes \<Rightarrow> bool \<Rightarrow> (session_state, i64) network" where
  "send_encrypted_message env body content_related =
     and_draw (on_ids (next_message_id env)) (\<lambda>message_id.
     and_draw (on_world (secure_random env (encrypted_padding_length (length body)))) (\<lambda>padding.
     and_draw (on_sequence (\<lambda>q. next_sequence_number q content_related)) (\<lambda>sequence_number.
     and_draw (\<lambda>(e, w). ((e, w), map_err NetCrypto (encrypt_message (ne_primitives env) (es_auth_key e) ClientToServer
         \<lparr>pm_server_salt = es_server_salt e, pm_session_id = es_session_id e, pm_message_id = message_id,
          pm_sequence_number = sequence_number, pm_body = body, pm_padding = padding\<rparr>))) (\<lambda>envelope.
     and_draw (on_transport (send_payload env (envelope_to_bytes envelope))) (\<lambda>_.
     draws (Ok message_id))))))"

definition send_acknowledgements :: "NetworkEnv \<Rightarrow> i64 list \<Rightarrow> (session_state, unit) network" where
  "send_acknowledgements env message_ids =
     and_draw (draws (map_err (\<lambda>_. InvalidServiceMessage) (build_msgs_ack message_ids))) (\<lambda>body.
     and_draw (send_encrypted_message env body False) (\<lambda>_. draws (Ok ())))"

definition receive_message :: "NetworkEnv \<Rightarrow> (session_state, PlainMessage) network" where
  "receive_message env =
     and_draw (on_transport (receive_payload env)) (\<lambda>payload.
     and_draw (draws (map_err NetCrypto (envelope_from_bytes payload))) (\<lambda>envelope.
     and_draw (\<lambda>(e, w). ((e, w), map_err NetCrypto
         (decrypt_message (ne_primitives env) (es_auth_key e) ServerToClient envelope (es_session_id e)))) (\<lambda>response.
     and_draw (on_ids (check_server_id env (pm_message_id response))) (\<lambda>_.
     draws (Ok response)))))"

section \<open>Requests\<close>

text \<open>The messages of the server after a request; \<open>RpcContinue\<close> when their number is used up.\<close>

primrec receive_rpc :: "NetworkEnv \<Rightarrow> nat \<Rightarrow> i64 \<Rightarrow> (session_state, RpcOutcome) network" where
  "receive_rpc env 0 request_message_id = draws (Ok RpcContinue)"
| "receive_rpc env (Suc n) request_message_id =
     and_draw (receive_message env) (\<lambda>response s.
       case scan_rpc_body env (pm_body response) request_message_id (pm_message_id response)
              (s, note_odd (pm_sequence_number response) (pm_message_id response) []) of
         ((s', acks), Inl e) \<Rightarrow> (s', Err e)
       | ((s', acks), Inr outcome) \<Rightarrow>
           and_draw (if acks \<noteq> [] then send_acknowledgements env acks else draws (Ok ())) (\<lambda>_.
             if outcome = RpcContinue then receive_rpc env n request_message_id
             else draws (Ok outcome)) s')"

text \<open>The attempts that are left; only the first of the two is followed by another one.\<close>

primrec invoke_attempts :: "NetworkEnv \<Rightarrow> bytes \<Rightarrow> nat \<Rightarrow> (session_state, RpcResult) network" where
  "invoke_attempts env body 0 = draws (Err RpcTimeout)"
| "invoke_attempts env body (Suc n) =
     and_draw (send_encrypted_message env body True) (\<lambda>request_message_id.
     and_draw (receive_rpc env DEFAULT_MAX_RPC_MESSAGES request_message_id) (\<lambda>outcome.
       case outcome of
         RpcOutcomeResult result \<Rightarrow> draws (Ok result)
       | RpcNewSalt \<Rightarrow> if n = 1 then invoke_attempts env body n else draws (Err RpcTimeout)
       | RpcContinue \<Rightarrow> draws (Err RpcTimeout)))"

definition invoke_raw :: "NetworkEnv \<Rightarrow> bytes \<Rightarrow> (session_state, RpcResult) network" where
  "invoke_raw env body =
     (if body = [] \<or> length body mod 4 \<noteq> 0 then draws (Err InvalidServiceMessage)
      else invoke_attempts env body 2)"

section \<open>Pings\<close>

text \<open>Unlike the receiver of a request this one goes on after a notice of a bad salt.\<close>

primrec receive_pong :: "NetworkEnv \<Rightarrow> nat \<Rightarrow> i64 \<Rightarrow> i64 \<Rightarrow> bool \<Rightarrow> (session_state, ServiceOutcome) network" where
  "receive_pong env 0 ping_id request_message_id should_retry =
     draws (Ok (if should_retry then ServiceNewSalt else ServiceContinue))"
| "receive_pong env (Suc n) ping_id request_message_id should_retry =
     and_draw (receive_message env) (\<lambda>response.
     and_draw (process_service_body env (pm_body response) ping_id request_message_id) (\<lambda>outcome.
       case outcome of
         ServicePong response_message_id \<Rightarrow> draws (Ok outcome)
       | ServiceNewSalt \<Rightarrow> receive_pong env n ping_id request_message_id True
       | ServiceContinue \<Rightarrow> receive_pong env n ping_id request_message_id should_retry))"

primrec ping_attempts :: "NetworkEnv \<Rightarrow> i64 \<Rightarrow> nat \<Rightarrow> (session_state, PingResult) network" where
  "ping_attempts env ping_id 0 = draws (Err PongTimeout)"
| "ping_attempts env ping_id (Suc n) =
     and_draw (send_encrypted_message env (to_le_u32 PING_CONSTRUCTOR @ to_le_u64 ping_id) False) (\<lambda>request_message_id.
     and_draw (receive_pong env DEFAULT_MAX_SERVICE_MESSAGES ping_id request_message_id False) (\<lambda>outcome.
       case outcome of
         ServicePong response_message_id \<Rightarrow>
           (\<lambda>(e, w). ((e, w), Ok \<lparr>pr_ping_id = ping_id, pr_response_message_id = response_message_id,
              pr_server_salt = es_server_salt e\<rparr>))
       | ServiceNewSalt \<Rightarrow> if n = 1 then ping_attempts env ping_id n else draws (Err PongTimeout)
       | ServiceContinue \<Rightarrow> draws (Err PongTimeout)))"

definition send_ping :: "NetworkEnv \<Rightarrow> i64 \<Rightarrow> (session_state, PingResult) network" where
  "send_ping env ping_id = ping_attempts env ping_id 2"

definition ping :: "NetworkEnv \<Rightarrow> (session_state, PingResult) network" where
  "ping env = and_draw (on_world (random_i64 env)) (send_ping env)"

section \<open>Connections and the key exchange\<close>

primrec connect_candidates ::
  "NetworkEnv \<Rightarrow> i32 \<Rightarrow> NetworkConfig \<Rightarrow> DcEndpoint list \<Rightarrow> (SocketAddr \<times> IoError) list
     \<Rightarrow> (World, ConnectedEndpoint \<times> TcpTransport) network"
where
  "connect_candidates env dc_id config [] attempts = draws (Err (ConnectFailed attempts))"
| "connect_candidates env dc_id config (candidate # rest) attempts =
     (\<lambda>w. let address = (ep_ip_address candidate, ep_port candidate) in
       case transport_connect env address (nc_transport_mode config) w of
         (w', Inr transport) \<Rightarrow> (w', Ok (\<lparr>ce_dc_id = dc_id, ce_address = address\<rparr>, transport))
       | (w', Inl error) \<Rightarrow> connect_candidates env dc_id config rest (attempts @ [(address, error)]) w')"

definition connect_directory ::
  "NetworkEnv \<Rightarrow> DcDirectory \<Rightarrow> i32 \<Rightarrow> DcPurpose \<Rightarrow> NetworkConfig \<Rightarrow> (World, ConnectedEndpoint \<times> TcpTransport) network"
where
  "connect_directory env directory dc_id purpose config =
     and_draw (draws (map_err NetDirectory (candidates directory dc_id purpose (nc_prefer_ipv6 config)))) (\<lambda>found.
     connect_candidates env dc_id config found [])"

record HandshakeRun =
  hr_transport :: TcpTransport
  hr_handshake :: AuthKeyHandshake
  hr_message_ids :: MessageIdGuard
  hr_world :: World

definition run_ids :: "(MessageIdGuard \<times> World, 'a) network \<Rightarrow> (HandshakeRun, 'a) network" where
  "run_ids = zoom (\<lambda>s. (hr_message_ids s, hr_world s)) (\<lambda>(g, w) s. s\<lparr>hr_message_ids := g, hr_world := w\<rparr>)"

definition run_handshake ::
  "(AuthKeyHandshake \<Rightarrow> World \<Rightarrow> AuthKeyHandshake \<times> World \<times> ('a, HandshakeError) result) \<Rightarrow> (HandshakeRun, 'a) network"
where
  "run_handshake operation s =
     (case operation (hr_handshake s) (hr_world s) of
        (h, w, res) \<Rightarrow> (s\<lparr>hr_handshake := h, hr_world := w\<rparr>, map_err NetHandshake res))"

definition exchange_and_validate :: "NetworkEnv \<Rightarrow> PlaintextEnvelope \<Rightarrow> (HandshakeRun, PlaintextEnvelope) network" where
  "exchange_and_validate env request =
     and_draw (zoom hr_transport (\<lambda>t s. s\<lparr>hr_transport := t\<rparr>) (exchange_plaintext env request)) (\<lambda>response.
     and_draw (run_ids (check_server_id env (pe_message_id response))) (\<lambda>_.
     draws (Ok response)))"

definition established_session ::
  "NetworkEnv \<Rightarrow> ConnectedEndpoint \<Rightarrow> EstablishedAuthKey \<Rightarrow> (HandshakeRun, EstablishedSession) network"
where
  "established_session env endpoint established =
     and_draw (zoom hr_world (\<lambda>w s. s\<lparr>hr_world := w\<rparr>) (random_i64 env)) (\<lambda>session_id s.
       (s, Ok \<lparr>es_endpoint = endpoint, es_transport = hr_transport s, es_auth_key = ek_auth_key established,
               es_server_salt = ek_server_salt established, es_server_time = ek_server_time established,
               es_message_ids = hr_message_ids s, es_sequence = SessionSequence_new,
               es_session_id = session_id\<rparr>))"

definition dh_gen_step :: "NetworkEnv \<Rightarrow> PlaintextEnvelope \<Rightarrow> (HandshakeRun, DhGenAction) network" where
  "dh_gen_step env request =
     and_draw (exchange_and_validate env request) (\<lambda>response.
     and_draw (run_ids (next_message_id env)) (\<lambda>message_id.
     run_handshake (\<lambda>h w. receive_dh_gen (ne_big env) (ne_primitives env) (getrandom env) h response message_id w)))"

primrec continue_dh_retries ::
  "NetworkEnv \<Rightarrow> nat \<Rightarrow> ConnectedEndpoint \<Rightarrow> PlaintextEnvelope \<Rightarrow> (HandshakeRun, EstablishedSession) network"
where
  "continue_dh_retries env 0 endpoint request = draws (Err DhRetryLimit)"
| "continue_dh_retries env (Suc n) endpoint request =
     and_draw (dh_gen_step env request) (\<lambda>action.
       case action of
         Established established \<Rightarrow> established_session env endpoint established
       | DhGenRetryRequest retry \<Rightarrow> continue_dh_retries env n endpoint retry)"

definition exchange_key ::
  "NetworkEnv \<Rightarrow> DcDirectory \<Rightarrow> i32 \<Rightarrow> ConnectedEndpoint \<Rightarrow> (HandshakeRun, EstablishedSession) network"
where
  "exchange_key env directory dc_id endpoint =
     and_draw (run_ids (next_message_id env)) (\<lambda>message_id.
     and_draw (run_handshake (\<lambda>h w. case begin_handshake h message_id of (h', res) \<Rightarrow> (h', w, res))) (\<lambda>request.
     and_draw (exchange_and_validate env request) (\<lambda>response.
     and_draw (run_handshake (\<lambda>h w. case receive_res_pq h response of (h', res) \<Rightarrow> (h', w, res))) (\<lambda>_.
     and_draw (run_ids (next_message_id env)) (\<lambda>message_id.
     and_draw (run_handshake (\<lambda>h w. prepare_req_dh_params (ne_big env) (ne_primitives env) (getrandom env) h message_id
                 dc_id (dir_test_mode directory) w)) (\<lambda>request.
     and_draw (exchange_and_validate env request) (\<lambda>response.
     and_draw (run_ids (next_message_id env)) (\<lambda>message_id.
     and_draw (run_handshake (\<lambda>h w. receive_server_dh (ne_big env) (ne_primitives env) (getrandom env) h response message_id w)) (\<lambda>request.
     and_draw (dh_gen_step env request) (\<lambda>action.
       case action of
         Established established \<Rightarrow> established_session env endpoint established
       | DhGenRetryRequest retry \<Rightarrow> continue_dh_retries env DEFAULT_MAX_DH_RETRIES endpoint retry))))))))))"

definition establish_auth_key ::
  "NetworkEnv \<Rightarrow> DcDirectory \<Rightarrow> i32 \<Rightarrow> NetworkConfig \<Rightarrow> (World, EstablishedSession) network"
where
  "establish_auth_key env directory dc_id config =
     and_draw (connect_directory env directory dc_id PurposeMain config) (\<lambda>(endpoint, transport).
     and_draw (secure_random env 16) (\<lambda>nonce w.
       case exchange_key env directory dc_id endpoint
              \<lparr>hr_transport = transport, hr_handshake = AuthKeyHandshake_new nonce,
               hr_message_ids = MessageIdGuard_default, hr_world = w\<rparr> of
         (s, res) \<Rightarrow> (hr_world s, res)))"

end
