(* ===== verification/Network_Safety.thy ===== *)
theory Network_Safety
  imports Telegram_Network "HOL-Library.Sublist"
begin

text \<open>
  Properties of the network layer: frames are received in order however the stream is cut, a request
  is answered only by a message that decrypts under the key of the session and names the request, and
  the padding always fits.
\<close>

section \<open>Frames in order\<close>

text \<open>What the reader of a buffer sees, for every codec that keeps the contract of \<open>frame_stream\<close>.\<close>

context frame_stream
begin

lemma buffer_frame:
  assumes "frame f x" "buffer @ ahead = f @ rest" "length f \<le> length buffer"
  obtains d where "dec buffer = Ok (Some d)" "df_consumed_bytes d = length f" "delivers d x"
    "drop (length f) buffer @ ahead = rest"
proof -
  from assms have "buffer = f @ drop (length f) buffer"
    by (metis append_eq_append_conv_if append_take_drop_id)
  moreover from this assms(2) have "drop (length f) buffer @ ahead = rest"
    by (metis append.assoc same_append_eq)
  ultimately show thesis using dec_frame [OF assms(1), of "drop (length f) buffer"] that by metis
qed

lemma buffer_short:
  assumes "frame f x" "buffer @ ahead = f @ rest" "length buffer < length f"
  shows "dec buffer = Ok None" "ahead \<noteq> []"
proof -
  obtain post where f: "f = buffer @ post" "ahead = post @ rest"
    using assms(2,3) by (auto simp: append_eq_append_conv2)
  with assms(3) have "post \<noteq> []" by auto
  with f assms(1) show "dec buffer = Ok None" "ahead \<noteq> []" by (auto intro: dec_incomplete)
qed

end

definition stream_bytes :: "TcpStream \<Rightarrow> bytes" where
  "stream_bytes s = concat (map (\<lambda>r. case r of Inl _ \<Rightarrow> [] | Inr bs \<Rightarrow> bs) (ts_reads s))"

definition clean_stream :: "TcpStream \<Rightarrow> bool" where
  "clean_stream s \<longleftrightarrow> list_all (\<lambda>r. case r of Inl _ \<Rightarrow> False | Inr bs \<Rightarrow> bs \<noteq> []) (ts_reads s)"

lemma clean_read:
  assumes "clean_stream s" "stream_bytes s \<noteq> []" "0 < n"
  obtains s' bs where "stream_read n s = (s', Ok bs)" "bs \<noteq> []" "clean_stream s'" "bs @ stream_bytes s' = stream_bytes s"
proof -
  from assms obtain cs rs where rs: "ts_reads s = Inr cs # rs" "cs \<noteq> []"
    by (cases "ts_reads s") (auto simp: stream_bytes_def clean_stream_def split: sum.splits)
  let ?s = "s\<lparr>ts_reads := (if length cs \<le> n then rs else Inr (drop n cs) # rs)\<rparr>"
  show thesis
    by (rule that [of ?s "take n cs"])
      (use rs assms in \<open>auto simp: stream_read.simps clean_stream_def stream_bytes_def\<close>)
qed

text \<open>
  One frame: its payload is returned, or, when it is a quick acknowledgement, receiving goes on behind it.
\<close>

lemma receive_frame:
  assumes "wire_frame (ne_crc env) (tp_codec t) f x" "clean_stream (tp_stream t)"
    "tp_read_buffer t @ stream_bytes (tp_stream t) = f @ rest"
  shows "\<exists>t'. receive_payload env t = (case x of Some p \<Rightarrow> (t', Ok p) | None \<Rightarrow> receive_payload env t') \<and>
     tp_codec t' = tp_codec t \<and> clean_stream (tp_stream t') \<and> tp_read_buffer t' @ stream_bytes (tp_stream t') = rest"
  using assms
proof (induction env t rule: receive_payload.induct)
  case (1 env t)
  note frame = "1.prems"(1) and clean = "1.prems"(2) and stream = "1.prems"(3)
  show ?case
  proof (cases "length f \<le> length (tp_read_buffer t)")
    case True
    obtain d where "decode (ne_crc env) (tp_codec t) (tp_read_buffer t) = Ok (Some d)" "df_consumed_bytes d = length f"
      "delivers d x" "drop (length f) (tp_read_buffer t) @ stream_bytes (tp_stream t) = rest"
      using codec.buffer_frame [OF frame stream True] by metis
    with clean show ?thesis
      by (intro exI [of _ "t\<lparr>tp_read_buffer := drop (length f) (tp_read_buffer t)\<rparr>"])
        (auto simp: receive_payload.simps [of env t] delivers_def split: option.splits)
  next
    case False
    then have short: "decode (ne_crc env) (tp_codec t) (tp_read_buffer t) = Ok None" "stream_bytes (tp_stream t) \<noteq> []"
      using codec.buffer_short [OF frame stream] by simp_all
    obtain s bs where read: "stream_read DEFAULT_READ_CHUNK_BYTES (tp_stream t) = (s, Ok bs)" "bs \<noteq> []"
      "clean_stream s" "bs @ stream_bytes s = stream_bytes (tp_stream t)"
      using clean_read [OF clean short(2), of DEFAULT_READ_CHUNK_BYTES] by (auto simp: DEFAULT_READ_CHUNK_BYTES_def)
    let ?t = "t\<lparr>tp_stream := s, tp_read_buffer := tp_read_buffer t @ bs\<rparr>"
    have "\<exists>t'. receive_payload env ?t = (case x of Some p \<Rightarrow> (t', Ok p) | None \<Rightarrow> receive_payload env t') \<and>
        tp_codec t' = tp_codec ?t \<and> clean_stream (tp_stream t') \<and> tp_read_buffer t' @ stream_bytes (tp_stream t') = rest"
      by (rule "1.IH"(1) [OF short(1) refl read(1) [symmetric] refl read(2)])
        (use frame read stream in simp_all)
    with short(1) read(1,2) show ?thesis by (simp add: receive_payload.simps [of env t])
  qed
qed

primrec receive_payloads :: "NetworkEnv \<Rightarrow> nat \<Rightarrow> (TcpTransport, bytes list) network" where
  "receive_payloads env 0 = draws (Ok [])"
| "receive_payloads env (Suc n) =
     and_draw (receive_payload env) (\<lambda>p. and_draw (receive_payloads env n) (\<lambda>ps. draws (Ok (p # ps))))"

definition payloads_of :: "bytes option list \<Rightarrow> bytes list" where
  "payloads_of items = List.map_filter (\<lambda>x. x) items"

lemma payloads_of_simps [simp]:
  "payloads_of [] = []" "payloads_of (None # xs) = payloads_of xs" "payloads_of (Some p # xs) = p # payloads_of xs"
  by (simp_all add: payloads_of_def)

lemma payloads_of_last: "xs \<noteq> [] \<Longrightarrow> last xs \<noteq> None \<Longrightarrow> payloads_of xs \<noteq> []"
  by (induction xs) (auto simp: payloads_of_def split: option.splits if_splits)

lemma receive_frames:
  "list_all2 (wire_frame (ne_crc env) (tp_codec t)) frames items \<Longrightarrow> clean_stream (tp_stream t) \<Longrightarrow>
     (items \<noteq> [] \<longrightarrow> last items \<noteq> None) \<Longrightarrow>
     tp_read_buffer t @ stream_bytes (tp_stream t) = concat frames @ rest \<Longrightarrow>
     \<exists>t'. receive_payloads env (length (payloads_of items)) t = (t', Ok (payloads_of items)) \<and>
       tp_read_buffer t' @ stream_bytes (tp_stream t') = rest"
proof (induction frames arbitrary: t items)
  case (Cons f frames)
  then obtain x xs where xs: "items = x # xs" "wire_frame (ne_crc env) (tp_codec t) f x"
    "list_all2 (wire_frame (ne_crc env) (tp_codec t)) frames xs"
    by (auto simp: list_all2_Cons1)
  have more: "xs \<noteq> [] \<longrightarrow> last xs \<noteq> None" using Cons.prems(3) xs(1) by (auto split: if_splits)
  from Cons.prems(4) have "tp_read_buffer t @ stream_bytes (tp_stream t) = f @ (concat frames @ rest)" by simp
  from receive_frame [OF xs(2) Cons.prems(2) this] obtain t1 where
    t1: "receive_payload env t = (case x of Some p \<Rightarrow> (t1, Ok p) | None \<Rightarrow> receive_payload env t1)"
      "tp_codec t1 = tp_codec t" "clean_stream (tp_stream t1)"
      "tp_read_buffer t1 @ stream_bytes (tp_stream t1) = concat frames @ rest" by blast
  from Cons.IH [of t1 xs] xs(3) t1 more obtain t2 where
    t2: "receive_payloads env (length (payloads_of xs)) t1 = (t2, Ok (payloads_of xs))"
      "tp_read_buffer t2 @ stream_bytes (tp_stream t2) = rest"
    by auto
  show ?case
  proof (cases x)
    case None
    with Cons.prems(3) xs(1) more have "payloads_of xs \<noteq> []" by (intro payloads_of_last) auto
    then obtain n where n: "length (payloads_of xs) = Suc n" by (cases "payloads_of xs") auto
    have "receive_payloads env (Suc n) t = receive_payloads env (Suc n) t1"
      using t1(1) None by (simp add: and_draw_def)
    with t2 n None xs(1) show ?thesis by (intro exI [of _ t2]) simp
  next
    case (Some p)
    with t1(1) t2 xs(1) show ?thesis by (auto simp: and_draw_Ok)
  qed
qed simp

text \<open>
  C35: frames are received in order however the stream is cut. Take what a peer may send, in every
  transport mode: frames of payloads with any sequence number, in the padded mode with up to fifteen bytes
  of padding, and quick acknowledgements between them. When the stream delivers these bytes, split into
  whatever non-empty pieces the socket returns, then receiving as many payloads as there are returns
  exactly these in order, skips the acknowledgements, and leaves what follows the last payload. In the
  padded mode a payload is returned together with its padding, and content that looks like an
  acknowledgement, four bytes 255 at the start of eight to sixteen, is skipped as one.
\<close>

theorem frames_received_in_order:
  assumes "list_all2 (wire_frame (ne_crc env) (TransportFrameCodec_new mode)) frames items"
    and "items \<noteq> [] \<longrightarrow> last items \<noteq> None"
    and "list_all (\<lambda>piece. piece \<noteq> []) pieces" "concat pieces = concat frames @ rest"
  shows "\<exists>t. receive_payloads env (length (payloads_of items))
        (from_stream \<lparr>ts_reads = map Inr pieces, ts_written = [], ts_write_faults = faults\<rparr> mode)
        = (t, Ok (payloads_of items)) \<and>
     tp_read_buffer t @ stream_bytes (tp_stream t) = rest"
  by (rule receive_frames)
    (use assms in \<open>auto simp: from_stream_def clean_stream_def stream_bytes_def list_all_iff o_def\<close>)

section \<open>Padding\<close>

text \<open>The padding of a message is as short as the protocol allows and fills the last block.\<close>

lemma padding_fits:
  "12 \<le> encrypted_padding_length n" "encrypted_padding_length n < 28"
  "(32 + n + encrypted_padding_length n) mod 16 = 0"
proof -
  let ?m = "n + 44"
  have "(?m + 15) div 16 * 16 = ?m + 15 - (?m + 15) mod 16" by (simp add: minus_mod_eq_div_mult)
  moreover have "(?m + 15) mod 16 < 16" by simp
  ultimately have up: "?m \<le> (?m + 15) div 16 * 16" "(?m + 15) div 16 * 16 < ?m + 16" by linarith+
  have len: "encrypted_padding_length n = (?m + 15) div 16 * 16 - (32 + n)"
    by (simp add: encrypted_padding_length_def next_multiple_of_def)
  from up show "12 \<le> encrypted_padding_length n" "encrypted_padding_length n < 28"
    by (simp_all add: len)
  have "32 + n + encrypted_padding_length n = (?m + 15) div 16 * 16" using up by (simp add: len)
  then show "(32 + n + encrypted_padding_length n) mod 16 = 0" by simp
qed

section \<open>What operations of a session keep\<close>

definition keeps :: "('s \<Rightarrow> 's \<Rightarrow> bool) \<Rightarrow> ('s \<Rightarrow> 's \<times> 'x) \<Rightarrow> bool" where
  "keeps R operation \<longleftrightarrow> (\<forall>s. R s (fst (operation s)))"

lemma keepsD: "keeps R operation \<Longrightarrow> operation s = (s', x) \<Longrightarrow> R s s'"
  by (auto simp: keeps_def dest: spec [of _ s])

lemma keeps_apply: "keeps R operation \<Longrightarrow> R s (fst (operation s))"
  by (simp add: keeps_def)

lemma keeps_draws: "reflp R \<Longrightarrow> keeps R (draws res)"
  by (auto simp: keeps_def dest: reflpD)

lemma keeps_return [simp]: "reflp R \<Longrightarrow> keeps R (\<lambda>s. (s, res))"
  by (auto simp: keeps_def dest: reflpD)

lemma keeps_and_draw:
  assumes "transp R" "keeps R p" "\<And>x. keeps R (f x)"
  shows "keeps R (and_draw p f)"
  unfolding keeps_def
proof
  fix s
  obtain s1 r where p: "p s = (s1, r)" by fastforce
  then have "R s s1" using keepsD [OF assms(2)] by blast
  then show "R s (fst (and_draw p f s))"
    using assms(3) p transpD [OF assms(1)] by (cases r) (auto simp: and_draw_def keeps_def)
qed

text \<open>
  The bytes that a connection holds or will still deliver only get fewer from the front, and the bytes
  that were written to it only get more at the end.
\<close>

definition to_receive :: "TcpTransport \<Rightarrow> bytes" where
  "to_receive t = tp_read_buffer t @ stream_bytes (tp_stream t)"

definition sent_bytes :: "TcpTransport \<Rightarrow> bytes" where
  "sent_bytes t = ts_written (tp_stream t)"

definition moves :: "TcpTransport \<Rightarrow> TcpTransport \<Rightarrow> bool" where
  "moves t t' \<longleftrightarrow> suffix (to_receive t') (to_receive t) \<and> prefix (sent_bytes t) (sent_bytes t')"

lemma moves_refl [simp]: "moves t t"
  by (simp add: moves_def)

lemma moves_trans: "moves t t1 \<Longrightarrow> moves t1 t2 \<Longrightarrow> moves t t2"
  by (auto simp: moves_def intro: suffix_order.trans prefix_order.trans)

text \<open>What an operation has taken from the connection and what it has written to it.\<close>

definition received_in :: "TcpTransport \<Rightarrow> TcpTransport \<Rightarrow> bytes \<Rightarrow> bool" where
  "received_in t t' p \<longleftrightarrow> (\<exists>u. to_receive t = u @ to_receive t' \<and> sublist p u)"

definition written_in :: "TcpTransport \<Rightarrow> TcpTransport \<Rightarrow> bytes \<Rightarrow> bool" where
  "written_in t t' p \<longleftrightarrow> (\<exists>u. sent_bytes t' = sent_bytes t @ u \<and> sublist p u)"

lemma received_in_within: "moves t t1 \<Longrightarrow> received_in t1 t2 p \<Longrightarrow> moves t2 t3 \<Longrightarrow> received_in t t3 p"
  unfolding moves_def received_in_def suffix_def by (metis append.assoc sublist_append sublist_appendI)

lemma written_in_within: "moves t t1 \<Longrightarrow> written_in t1 t2 p \<Longrightarrow> moves t2 t3 \<Longrightarrow> written_in t t3 p"
  unfolding moves_def written_in_def prefix_def by (metis append.assoc sublist_append sublist_appendI)

lemma stream_read_bytes:
  assumes "stream_read n s = (s', r)"
  shows "stream_bytes s = (case r of Inl _ \<Rightarrow> [] | Inr bs \<Rightarrow> bs) @ stream_bytes s'" "ts_written s' = ts_written s"
  using assms by (auto simp: stream_read.simps stream_bytes_def split: list.splits sum.splits)

lemma receive_payload_moves:
  assumes "receive_payload env t = (t', res)"
  shows "moves t t'" "res = Ok p \<Longrightarrow> received_in t t' p"
proof -
  have "moves t t' \<and> (\<forall>p. res = Ok p \<longrightarrow> received_in t t' p)"
    using assms
  proof (induction env t rule: receive_payload.induct)
    case (1 env t)
    note out = "1.prems" [unfolded receive_payload.simps [of env t]]
    show ?case
    proof (cases "decode (ne_crc env) (tp_codec t) (tp_read_buffer t)")
      case (Inl e)
      with out show ?thesis by auto
    next
      case (Inr found)
      show ?thesis
      proof (cases found)
        case (Some d)
        let ?t = "t\<lparr>tp_read_buffer := drop (df_consumed_bytes d) (tp_read_buffer t)\<rparr>"
        have split: "to_receive t = take (df_consumed_bytes d) (tp_read_buffer t) @ to_receive ?t" by (simp add: to_receive_def)
        then have step: "moves t ?t" by (auto simp: moves_def suffix_def sent_bytes_def)
        show ?thesis
        proof (cases "df_quick_ack_token d = None")
          case True
          then have "t' = ?t" "res = Ok (df_payload d)" using out Inr Some by (simp_all add: Let_def)
          with split step show ?thesis
            using decode_contained [OF Inr [unfolded Some] True] by (auto simp: received_in_def sublist_def)
        next
          case False
          then have "receive_payload env ?t = (t', res)" using out Inr Some by (simp add: Let_def)
          from "1.IH"(2) [OF Inr Some refl False this] show ?thesis
            using moves_trans [OF step] received_in_within [OF step _ moves_refl] by blast
        qed
      next
        case None
        obtain s r where read: "stream_read DEFAULT_READ_CHUNK_BYTES (tp_stream t) = (s, r)" by fastforce
        note bytes = stream_read_bytes [OF read]
        show ?thesis
        proof (cases "\<exists>chunk. r = Inr chunk \<and> chunk \<noteq> []")
          case True
          then obtain chunk where chunk: "r = Inr chunk" "chunk \<noteq> []" by blast
          let ?t = "t\<lparr>tp_stream := s, tp_read_buffer := tp_read_buffer t @ chunk\<rparr>"
          have same: "moves t ?t" using bytes chunk(1) by (simp add: moves_def to_receive_def sent_bytes_def)
          have "receive_payload env ?t = (t', res)" using out Inr None read chunk by simp
          from "1.IH"(1) [OF Inr None read [unfolded chunk(1), symmetric] refl chunk(2) this] show ?thesis
            using moves_trans [OF same] received_in_within [OF same _ moves_refl] by blast
        next
          case False
          then have "t' = t\<lparr>tp_stream := s\<rparr>" "\<forall>p. res \<noteq> Ok p" "stream_bytes s = stream_bytes (tp_stream t)"
            using out Inr None read bytes(1) by (auto split: sum.splits if_splits)
          with bytes(2) show ?thesis by (simp add: moves_def to_receive_def sent_bytes_def)
        qed
      qed
    qed
  qed
  then show "moves t t'" "res = Ok p \<Longrightarrow> received_in t t' p" by blast+
qed

lemma transport_write_outcome:
  assumes "transport_write bs t = (t', res)"
  obtains u where "sent_bytes t' = sent_bytes t @ u" "to_receive t' = to_receive t" "tp_codec t' = tp_codec t"
    "res = Ok () \<longrightarrow> u = bs"
  using assms
  by (fastforce simp: transport_write_def zoom_def with_error_def stream_write_all_def sent_bytes_def to_receive_def
      stream_bytes_def split: prod.splits list.splits option.splits)

lemma send_payload_moves:
  assumes "send_payload env p t = (t', res)"
  shows "moves t t'" "res = Ok () \<Longrightarrow> written_in t t' p"
proof -
  let ?header = "\<lambda>t. if tp_initialized t then (t, Ok ())
            else and_draw (transport_write (initial_header (tf_mode (tp_codec t))))
                   (\<lambda>_ t. (t\<lparr>tp_initialized := True\<rparr>, Ok ())) t"
  obtain t1 r1 where head: "?header t = (t1, r1)" by fastforce
  have t1: "moves t t1"
  proof (cases "tp_initialized t")
    case False
    obtain t0 r0 where w: "transport_write (initial_header (tf_mode (tp_codec t))) t = (t0, r0)" by fastforce
    from w obtain u where u: "sent_bytes t0 = sent_bytes t @ u" "to_receive t0 = to_receive t"
      using transport_write_outcome by metis
    from head w False have "t1 = t0 \<or> t1 = t0\<lparr>tp_initialized := True\<rparr>" by (auto simp: and_draw_def split: sum.splits)
    with u show ?thesis by (auto simp: moves_def sent_bytes_def to_receive_def)
  qed (use head in simp)
  have "moves t t' \<and> (res = Ok () \<longrightarrow> written_in t t' p)"
  proof (cases r1)
    case (Inl e)
    with head t1 assms show ?thesis by (auto simp: send_payload_def and_draw_def)
  next
    case (Inr x)
    obtain c r2 where enc: "encode (ne_crc env) (tp_codec t1) p = (c, r2)" by fastforce
    let ?t = "t1\<lparr>tp_codec := c\<rparr>"
    have same: "moves t1 ?t" "moves t ?t" using t1 by (simp_all add: moves_def sent_bytes_def to_receive_def)
    show ?thesis
    proof (cases r2)
      case (Inl e)
      with head Inr enc same assms show ?thesis
        by (auto simp: send_payload_def and_draw_def zoom_def with_error_def)
    next
      case frame: (Inr frame)
      have w: "transport_write frame ?t = (t', res)"
        using assms head Inr enc frame by (simp add: send_payload_def and_draw_def zoom_def with_error_def)
      then obtain u where u: "sent_bytes t' = sent_bytes ?t @ u" "to_receive t' = to_receive ?t"
          "tp_codec t' = tp_codec ?t" "res = Ok () \<longrightarrow> u = frame"
        by (rule transport_write_outcome)
      then have last_write: "moves ?t t'" by (simp add: moves_def)
      have "res = Ok () \<Longrightarrow> written_in ?t t' p"
        using u encode_contains [OF enc [unfolded frame]] by (auto simp: written_in_def sublist_def)
      then show ?thesis
        using moves_trans [OF same(2) last_write] written_in_within [OF same(2) _ moves_refl] by blast
    qed
  qed
  then show "moves t t'" "res = Ok () \<Longrightarrow> written_in t t' p" by blast+
qed

text \<open>
  A session keeps its key and identifier, its message identifiers only grow, and its connection moves on.
\<close>

definition advances :: "session_state \<Rightarrow> session_state \<Rightarrow> bool" where
  "advances s s' \<longleftrightarrow>
     es_auth_key (fst s') = es_auth_key (fst s) \<and> es_session_id (fst s') = es_session_id (fst s) \<and>
     moves (es_transport (fst s)) (es_transport (fst s')) \<and>
     (\<forall>i. mg_last_client_message_id (es_message_ids (fst s)) = Some i \<longrightarrow>
        (\<exists>j. mg_last_client_message_id (es_message_ids (fst s')) = Some j \<and> sint i \<le> sint j))"

lemma reflp_advances [simp]: "reflp advances"
  by (auto simp: reflp_def advances_def)

lemma transp_advances [simp]: "transp advances"
proof (rule transpI)
  fix s t u
  assume st: "advances s t" and tu: "advances t u"
  show "advances s u"
    unfolding advances_def
  proof (intro conjI allI impI)
    fix i
    assume "mg_last_client_message_id (es_message_ids (fst s)) = Some i"
    then obtain j where j: "mg_last_client_message_id (es_message_ids (fst t)) = Some j" "sint i \<le> sint j"
      using st unfolding advances_def by blast
    then obtain k where "mg_last_client_message_id (es_message_ids (fst u)) = Some k" "sint j \<le> sint k"
      using tu unfolding advances_def by blast
    with j(2) show "\<exists>k. mg_last_client_message_id (es_message_ids (fst u)) = Some k \<and> sint i \<le> sint k" by force
  qed (use st tu in \<open>auto simp: advances_def intro: moves_trans\<close>)
qed

lemma generate_grows:
  assumes "generate_client_message_id g seconds nanos = (g', r)" "mg_last_client_message_id g = Some i"
  shows "\<exists>j. mg_last_client_message_id g' = Some j \<and> sint i \<le> sint j"
    and "r = Inr k \<Longrightarrow> mg_last_client_message_id g' = Some k \<and> sint i < sint k"
  using assms
  by (auto simp: generate_client_message_id_def Let_def checked_i64_Some_iff split: if_splits option.splits)

lemma check_server_id_last: "mg_last_client_message_id (fst (fst (check_server_id env i (g, w)))) = mg_last_client_message_id g"
  by (auto simp: check_server_id_def and_draw_def zoom_def with_error_def validate_server_message_id_def Let_def
      split: prod.splits sum.splits if_splits)

lemma keeps_on_transport: "keeps moves operation \<Longrightarrow> keeps advances (on_transport operation)"
  by (auto simp: keeps_def on_transport_def zoom_def advances_def split: prod.splits) (metis fst_conv)

lemma keeps_connection [simp]:
  "keeps advances (on_transport (receive_payload env))" "keeps advances (on_transport (send_payload env p))"
  by (intro keeps_on_transport; auto simp: keeps_def intro: receive_payload_moves(1) send_payload_moves(1)
      prod.collapse [symmetric])+

lemma keeps_on_world [simp]: "keeps advances (on_world operation)"
  by (auto simp: keeps_def on_world_def zoom_def advances_def split: prod.splits)

lemma keeps_on_sequence [simp]: "keeps advances (on_sequence operation)"
  by (auto simp: keeps_def on_sequence_def zoom_def advances_def split: prod.splits)

lemma keeps_pure [simp]: "keeps advances (\<lambda>(e, w). ((e, w), f e w))"
  by (auto simp: keeps_def advances_def)

text \<open>An operation on the identifiers advances the session when it never goes back.\<close>

lemma keeps_on_ids:
  assumes "\<And>g w g' w' r i. operation (g, w) = ((g', w'), r) \<Longrightarrow> mg_last_client_message_id g = Some i \<Longrightarrow>
     \<exists>j. mg_last_client_message_id g' = Some j \<and> sint i \<le> sint j"
  shows "keeps advances (on_ids operation)"
  unfolding keeps_def
proof
  fix s :: session_state
  obtain e w where s: "s = (e, w)" by (cases s)
  obtain g' w' r where op: "operation (es_message_ids e, w) = ((g', w'), r)" by (metis surj_pair)
  have "fst (on_ids operation s) = (e\<lparr>es_message_ids := g'\<rparr>, w')"
    using op by (simp add: s on_ids_def zoom_def)
  with assms [OF op] show "advances s (fst (on_ids operation s))"
    by (simp add: s advances_def)
qed

lemma keeps_check [simp]: "keeps advances (on_ids (check_server_id env i))"
proof (rule keeps_on_ids)
  fix g w g' w' r j
  assume "check_server_id env i (g, w) = ((g', w'), r)" "mg_last_client_message_id g = Some j"
  then have "mg_last_client_message_id g' = Some j" using check_server_id_last [of env i g w] by simp
  then show "\<exists>k. mg_last_client_message_id g' = Some k \<and> sint j \<le> sint k" by simp
qed

lemma next_message_id_cases:
  assumes "next_message_id env (g, w) = ((g', w'), r)"
  obtains (clock) e where "g' = g" "r = Inl e"
  | (made) seconds nanos r' where "generate_client_message_id g seconds nanos = (g', r')" "r = map_err NetMessageId r'"
proof -
  obtain w1 r1 where time: "unix_time env w = (w1, r1)" by fastforce
  show thesis
  proof (cases r1)
    case (Inl e)
    with time assms show ?thesis by (intro clock) (auto simp: next_message_id_def and_draw_def zoom_def)
  next
    case (Inr t)
    obtain g1 r2 where gen: "generate_client_message_id g (fst t) (snd t) = (g1, r2)" by fastforce
    with time Inr assms show ?thesis
      by (intro made [of "fst t" "snd t" r2])
        (auto simp: next_message_id_def and_draw_def zoom_def with_error_def split: prod.splits)
  qed
qed

lemma next_message_id_last:
  assumes "next_message_id env (g, w) = ((g', w'), r)" "mg_last_client_message_id g = Some i"
  shows "(\<exists>j. mg_last_client_message_id g' = Some j \<and> sint i \<le> sint j) \<and> (\<forall>k. r = Inr k \<longrightarrow> sint i < sint k)"
  using assms(1)
proof (cases rule: next_message_id_cases)
  case (made seconds nanos r')
  show ?thesis
    using generate_grows [OF made(1) assms(2)] made(2) by (auto simp: result_simps)
qed (use assms(2) in auto)

lemma keeps_next [simp]: "keeps advances (on_ids (next_message_id env))"
  by (rule keeps_on_ids) (blast dest: next_message_id_last)

lemma keeps_salt [simp]: "keeps advances (new_session_created body continue)"
  by (auto simp: keeps_def new_session_created_def set_salt_def advances_def split: sum.splits prod.splits)

lemma keeps_bad_salt [simp]: "keeps advances (bad_server_salt body i new_salt)"
  unfolding bad_server_salt_def
  by (intro keeps_and_draw keeps_draws transp_advances reflp_advances) (auto intro: keeps_draws)

lemmas keeps_rules = keeps_and_draw keeps_draws transp_advances reflp_advances

lemma keeps_send [simp]: "keeps advances (send_encrypted_message env body content_related)"
  unfolding send_encrypted_message_def by (intro keeps_rules) simp_all

lemma keeps_send_acks [simp]: "keeps advances (send_acknowledgements env ids)"
  unfolding send_acknowledgements_def by (intro keeps_rules) simp_all

lemma keeps_receive [simp]: "keeps advances (receive_message env)"
  unfolding receive_message_def by (intro keeps_rules) simp_all

text \<open>The same for a scan, whose state holds the acknowledgements too.\<close>

definition scan_advances :: "scan_state \<Rightarrow> scan_state \<Rightarrow> bool" where
  "scan_advances s s' \<longleftrightarrow> advances (fst s) (fst s')"

lemma reflp_scan [simp]: "reflp scan_advances"
  using reflp_advances by (auto simp: reflp_def scan_advances_def)

lemma transp_scan [simp]: "transp scan_advances"
  using transp_advances unfolding transp_def scan_advances_def by blast

lemma keeps_on_session [simp]: "keeps advances operation \<Longrightarrow> keeps scan_advances (on_session operation)"
  by (auto simp: keeps_def on_session_def zoom_def scan_advances_def split: prod.splits) (metis fst_conv surjective_pairing)

lemma keeps_note [simp]: "keeps scan_advances (\<lambda>(s, acks). ((s, g acks), Ok ()))"
  using reflp_advances by (auto simp: keeps_def scan_advances_def reflp_def)

lemma keeps_scan [simp]:
  "keeps scan_advances (scan_rpc_body env body i j)"
  "keeps scan_advances (scan_rpc_container env n body offset i outcome)"
proof (induction env body i j and env n body offset i outcome rule: scan_rpc_body_scan_rpc_container.induct)
  case (1 env body i j)
  then show ?case
    by (simp add: scan_rpc_body.simps keeps_draws split: sum.splits)
next
  case (2 env body offset i outcome)
  show ?case unfolding scan_rpc_container.simps(1) by (rule keeps_draws) simp
next
  case (3 env n body offset i outcome)
  show ?case
  proof (cases "container_entry body offset")
    case (Inr entry)
    obtain message_id sequence_number inner body_end where
      entry: "entry = (message_id, sequence_number, inner, body_end)" by (cases entry)
    show ?thesis
      unfolding scan_rpc_container.simps(2) Inr entry sum.case prod.case
      by (intro keeps_and_draw transp_scan)
        (use "3.IH" Inr entry in \<open>auto intro: keeps_on_session\<close>)
  qed (simp add: keeps_draws)
qed

section \<open>Answers\<close>

text \<open>A message answers a request with a value when it is the result, or a container holds one that does.\<close>

inductive answers :: "i64 \<Rightarrow> bytes \<Rightarrow> bytes \<Rightarrow> bool" where
  result: "read_u32_at body 0 = Ok RPC_RESULT_CONSTRUCTOR \<Longrightarrow> read_i64_at body 4 = Ok request \<Longrightarrow>
     drop 12 body = value \<Longrightarrow> value \<noteq> [] \<Longrightarrow> answers request body value"
| salts: "read_u32_at body 0 = Ok FUTURE_SALTS_CONSTRUCTOR \<Longrightarrow> read_i64_at body 4 = Ok request \<Longrightarrow>
     answers request body body"
| contained: "read_u32_at body 0 = Ok MESSAGE_CONTAINER_CONSTRUCTOR \<Longrightarrow>
     container_entry body offset = Ok (message_id, sequence_number, inner, body_end) \<Longrightarrow>
     answers request inner value \<Longrightarrow> answers request body value"

lemma rpc_answer_answers:
  assumes "rpc_answer body request response whole = Inr (RpcOutcomeResult r)"
    and "read_u32_at body 0 = Ok (if whole then FUTURE_SALTS_CONSTRUCTOR else RPC_RESULT_CONSTRUCTOR)"
  shows "rr_request_message_id r = request \<and> answers request body (rr_body r)"
  using assms
  by (auto simp: rpc_answer_def result_simps get_range_Some_iff intro: answers.intros split: if_splits option.splits)

lemmas network_constructors =
  RPC_RESULT_CONSTRUCTOR_def FUTURE_SALTS_CONSTRUCTOR_def NEW_SESSION_CREATED_CONSTRUCTOR_def
  BAD_SERVER_SALT_CONSTRUCTOR_def BAD_MSG_NOTIFICATION_CONSTRUCTOR_def MESSAGE_CONTAINER_CONSTRUCTOR_def
  PING_CONSTRUCTOR_def PONG_CONSTRUCTOR_def

lemma salt_outcome:
  "on_session (new_session_created body out) s = (s', Inr x) \<Longrightarrow> x = out"
  "on_session (bad_server_salt body request out) s = (s', Inr x) \<Longrightarrow> x = out"
  by (auto simp: on_session_def zoom_def new_session_created_def bad_server_salt_def and_draw_def
      split: prod.splits sum.splits if_splits)

text \<open>Only three kinds of messages can hold an answer.\<close>

lemma scan_result_cases:
  assumes "scan_rpc_body env body request response s = (s', Inr (RpcOutcomeResult r))"
  obtains (answer) whole where "rpc_answer body request response whole = Inr (RpcOutcomeResult r)"
      "read_u32_at body 0 = Ok (if whole then FUTURE_SALTS_CONSTRUCTOR else RPC_RESULT_CONSTRUCTOR)"
  | (container) count where "read_u32_at body 0 = Ok MESSAGE_CONTAINER_CONSTRUCTOR" "read_i32_at body 4 = Inr count"
      "\<not> (sint count < 0 \<or> 1024 < sint count)"
      "scan_rpc_container env (unat count) body 8 request RpcContinue s = (s', Inr (RpcOutcomeResult r))"
proof -
  obtain k where k: "read_u32_at body 0 = Inr k"
    using assms by (cases "read_u32_at body 0") (auto simp: scan_rpc_body.simps)
  consider "k = RPC_RESULT_CONSTRUCTOR" | "k = FUTURE_SALTS_CONSTRUCTOR" "k \<noteq> RPC_RESULT_CONSTRUCTOR"
    | "k = MESSAGE_CONTAINER_CONSTRUCTOR"
    using assms k
    by (auto simp: scan_rpc_body.simps and_then_Inr_iff dest!: salt_outcome split: if_splits)
  then show thesis
  proof cases
    case 1
    with assms k show ?thesis by (intro answer [of False]) (auto simp: scan_rpc_body.simps)
  next
    case 2
    with assms k show ?thesis by (intro answer [of True]) (auto simp: scan_rpc_body.simps)
  next
    case 3
    with assms k obtain count where count: "read_i32_at body 4 = Inr count"
      by (cases "read_i32_at body 4") (auto simp: scan_rpc_body.simps network_constructors)
    with assms k 3 show ?thesis
      by (intro container [of count]) (auto simp: scan_rpc_body.simps network_constructors split: if_splits)
  qed
qed

lemma scan_answers:
  "scan_rpc_body env body request response s = (s', Inr (RpcOutcomeResult r)) \<Longrightarrow>
     rr_request_message_id r = request \<and> answers request body (rr_body r)"
  "scan_rpc_container env n body offset request outcome s = (s', Inr (RpcOutcomeResult r)) \<Longrightarrow>
     outcome = RpcOutcomeResult r \<or>
     (\<exists>offset message_id sequence_number inner body_end.
        container_entry body offset = Ok (message_id, sequence_number, inner, body_end) \<and>
        rr_request_message_id r = request \<and> answers request inner (rr_body r))"
proof (induction env body request response and env n body offset request outcome arbitrary: s s' and s s'
    rule: scan_rpc_body_scan_rpc_container.induct)
  case (1 env body request response)
  from "1.prems" show ?case
  proof (cases rule: scan_result_cases)
    case (answer whole)
    then show ?thesis by (rule rpc_answer_answers)
  next
    case (container count)
    have "\<exists>offset message_id sequence_number inner body_end.
        container_entry body offset = Ok (message_id, sequence_number, inner, body_end) \<and>
        rr_request_message_id r = request \<and> answers request inner (rr_body r)"
      using "1.IH" [OF container(1) _ _ _ _ _ _ container(2,3,4)] by (simp add: network_constructors)
    with container(1) show ?thesis by (blast intro: answers.contained)
  qed
next
  case (2 env body offset request outcome)
  then show ?case by (simp split: if_splits)
next
  case (3 env n body offset request outcome)
  obtain message_id sequence_number inner body_end where
    entry: "container_entry body offset = Inr (message_id, sequence_number, inner, body_end)"
    using "3.prems" by (cases "container_entry body offset") auto
  from "3.prems" obtain s1 s2 inner_outcome where
    inner: "scan_rpc_body env inner request message_id s1 = (s2, Inr inner_outcome)"
    and rest: "scan_rpc_container env n body body_end request
      (if inner_outcome = RpcContinue then outcome else inner_outcome) s2 = (s', Inr (RpcOutcomeResult r))"
    by (auto simp: entry and_draw_Ok)
  from "3.IH"(2) [OF entry refl refl refl rest] consider
    "(if inner_outcome = RpcContinue then outcome else inner_outcome) = RpcOutcomeResult r"
  | "\<exists>offset message_id sequence_number inner body_end.
        container_entry body offset = Ok (message_id, sequence_number, inner, body_end) \<and>
        rr_request_message_id r = request \<and> answers request inner (rr_body r)" by blast
  then show ?case
  proof cases
    case 1
    then consider "outcome = RpcOutcomeResult r" | "inner_outcome = RpcOutcomeResult r" by (auto split: if_splits)
    then show ?thesis
      using "3.IH"(1) [OF entry refl refl refl] inner entry by cases blast+
  qed blast
qed

text \<open>
  A message of the server that arrived between two states: its bytes were taken from the connection, and
  they are an envelope that encryption under the key of the session makes of the message.
\<close>

definition arrived :: "NetworkEnv \<Rightarrow> session_state \<Rightarrow> session_state \<Rightarrow> PlainMessage \<Rightarrow> bool" where
  "arrived env s s' m \<longleftrightarrow>
     (\<exists>payload e. received_in (es_transport (fst s)) (es_transport (fst s')) payload
        \<and> envelope_from_bytes payload = Ok e
        \<and> encrypt_message (ne_primitives env) (es_auth_key (fst s)) ServerToClient m = Ok e
        \<and> pm_session_id m = es_session_id (fst s))"

lemma arrived_within:
  "advances s s1 \<Longrightarrow> arrived env s1 s2 m \<Longrightarrow> advances s2 s3 \<Longrightarrow> arrived env s s3 m"
  unfolding arrived_def advances_def by (metis received_in_within)

lemma advances_refl [simp]: "advances s s"
  using reflpD [OF reflp_advances] .

lemma receive_message_arrived:
  assumes "primitive_laws (ne_primitives env)" "receive_message env s = (s', Inr m)"
  shows "arrived env s s' m"
proof -
  obtain s1 payload envelope where payload: "on_transport (receive_payload env) s = (s1, Inr payload)"
    and e: "envelope_from_bytes payload = Inr envelope"
    and m: "decrypt_message (ne_primitives env) (es_auth_key (fst s1)) ServerToClient envelope (es_session_id (fst s1)) = Inr m"
    and checked: "on_ids (check_server_id env (pm_message_id m)) s1 = (s', Inr ())"
    using assms(2) by (auto simp: receive_message_def and_draw_Ok result_simps split: prod.splits)
  obtain t where t: "receive_payload env (es_transport (fst s)) = (t, Inr payload)" "es_transport (fst s1) = t"
    using payload by (cases s) (auto simp: on_transport_def zoom_def split: prod.splits)
  have adv: "advances s s1" "advances s1 s'"
    by (rule keepsD [OF keeps_connection(1) payload], rule keepsD [OF keeps_check checked])
  have "received_in (es_transport (fst s)) (es_transport (fst s1)) payload"
    using receive_payload_moves(2) [OF t(1)] t(2) by simp
  with e m adv(1) have "arrived env s s1 m"
    unfolding arrived_def decrypt_message_iff [OF assms(1)] by (auto simp: advances_def)
  then show ?thesis using adv(2) arrived_within advances_refl by blast
qed

lemma keeps_receive_rpc: "keeps advances (receive_rpc env n request)"
proof (induction n)
  case (Suc n)
  have step: "keeps advances (\<lambda>s. case scan_rpc_body env (pm_body m) request (pm_message_id m) (s, acks) of
       ((s', acks), Inl e) \<Rightarrow> (s', Err e)
     | ((s', acks), Inr outcome) \<Rightarrow>
         and_draw (if acks \<noteq> [] then send_acknowledgements env acks else draws (Ok ())) (\<lambda>_.
           if outcome = RpcContinue then receive_rpc env n request else draws (Ok outcome)) s')" for m acks
    unfolding keeps_def
  proof
    fix s
    obtain s1 acks1 r where scan: "scan_rpc_body env (pm_body m) request (pm_message_id m) (s, acks) = ((s1, acks1), r)"
      by (metis surj_pair)
    have adv: "advances s s1" using keepsD [OF keeps_scan(1) scan] by (simp add: scan_advances_def)
    have "keeps advances (and_draw (if acks1 \<noteq> [] then send_acknowledgements env acks1 else draws (Ok ())) (\<lambda>_.
        if outcome = RpcContinue then receive_rpc env n request else draws (Ok outcome)))" for outcome
      by (intro keeps_rules) (simp_all add: Suc.IH keeps_draws)
    from keeps_apply [OF this] have "advances s1 (fst (and_draw (if acks1 \<noteq> [] then send_acknowledgements env acks1 else draws (Ok ())) (\<lambda>_.
        if outcome = RpcContinue then receive_rpc env n request else draws (Ok outcome)) s1))" for outcome .
    from transpD [OF transp_advances adv this] adv show "advances s (fst (case scan_rpc_body env (pm_body m) request (pm_message_id m) (s, acks) of
       ((s', acks), Inl e) \<Rightarrow> (s', Err e)
     | ((s', acks), Inr outcome) \<Rightarrow>
         and_draw (if acks \<noteq> [] then send_acknowledgements env acks else draws (Ok ())) (\<lambda>_.
           if outcome = RpcContinue then receive_rpc env n request else draws (Ok outcome)) s'))"
      unfolding scan prod.case by (cases r) simp_all
  qed
  show ?case unfolding receive_rpc.simps by (intro keeps_and_draw transp_advances keeps_receive step)
qed simp

lemma receive_rpc_answers:
  assumes "primitive_laws (ne_primitives env)"
  shows "receive_rpc env n request s = (s', Inr (RpcOutcomeResult r)) \<Longrightarrow>
     rr_request_message_id r = request \<and> (\<exists>m. arrived env s s' m \<and> answers request (pm_body m) (rr_body r))"
proof (induction n arbitrary: s)
  case (Suc n)
  obtain s1 m where m: "receive_message env s = (s1, Inr m)"
    and scanned: "(case scan_rpc_body env (pm_body m) request (pm_message_id m)
              (s1, note_odd (pm_sequence_number m) (pm_message_id m) []) of
         ((s', acks), Inl e) \<Rightarrow> (s', Err e)
       | ((s', acks), Inr outcome) \<Rightarrow>
           and_draw (if acks \<noteq> [] then send_acknowledgements env acks else draws (Ok ())) (\<lambda>_.
             if outcome = RpcContinue then receive_rpc env n request
             else draws (Ok outcome)) s') = (s', Inr (RpcOutcomeResult r))"
    using Suc.prems by (auto simp: and_draw_Ok simp del: draws_apply)
  obtain s2 acks outcome where
    scan: "scan_rpc_body env (pm_body m) request (pm_message_id m)
              (s1, note_odd (pm_sequence_number m) (pm_message_id m) []) = ((s2, acks), Inr outcome)"
    using scanned by (auto split: prod.splits sum.splits)
  obtain s3 where acks: "(if acks \<noteq> [] then send_acknowledgements env acks else draws (Ok ())) s2 = (s3, Inr ())"
    and next_step: "(if outcome = RpcContinue then receive_rpc env n request else draws (Ok outcome)) s3
      = (s', Inr (RpcOutcomeResult r))"
    using scanned by (auto simp: scan and_draw_Ok simp del: draws_apply)
  have adv: "advances s s1" "advances s1 s2" "advances s2 s3"
    using keepsD [OF keeps_receive m] keepsD [OF keeps_scan(1) scan] keepsD [OF keeps_send_acks] acks
    by (auto simp: scan_advances_def split: if_splits)
  note adv13 = transpD [OF transp_advances adv(2,3)]
  show ?case
  proof (cases "outcome = RpcContinue")
    case True
    with next_step Suc.IH [of s3] have "rr_request_message_id r = request"
      "\<exists>m. arrived env s3 s' m \<and> answers request (pm_body m) (rr_body r)" by auto
    then show ?thesis using transpD [OF transp_advances adv(1) adv13] arrived_within advances_refl by blast
  next
    case False
    with next_step have "outcome = RpcOutcomeResult r" "s' = s3" by simp_all
    then have "rr_request_message_id r = request \<and> answers request (pm_body m) (rr_body r)"
      using scan_answers(1) scan by blast
    then show ?thesis
      using arrived_within [OF advances_refl receive_message_arrived [OF assms m] adv13] \<open>s' = s3\<close> by blast
  qed
qed simp

text \<open>
  A request that was sent between two states: its envelope, which encryption under the key of the session
  makes of a message with this body and identifier, was written to the connection.
\<close>

definition asked :: "NetworkEnv \<Rightarrow> session_state \<Rightarrow> session_state \<Rightarrow> bytes \<Rightarrow> i64 \<Rightarrow> bool" where
  "asked env s s' body request \<longleftrightarrow>
     (\<exists>q e. encrypt_message (ne_primitives env) (es_auth_key (fst s)) ClientToServer q = Ok e
        \<and> pm_message_id q = request \<and> pm_body q = body \<and> pm_session_id q = es_session_id (fst s)
        \<and> written_in (es_transport (fst s)) (es_transport (fst s')) (envelope_to_bytes e))"

lemma asked_within:
  assumes "advances s s1" "asked env s1 s2 body i" "advances s2 s3"
  shows "asked env s s3 body i"
proof -
  have moved: "moves (es_transport (fst s)) (es_transport (fst s1))" "moves (es_transport (fst s2)) (es_transport (fst s3))"
    "es_auth_key (fst s1) = es_auth_key (fst s)" "es_session_id (fst s1) = es_session_id (fst s)"
    using assms(1,3) by (auto simp: advances_def)
  from assms(2) written_in_within [OF moved(1) _ moved(2)] show ?thesis
    unfolding asked_def moved(3,4) by blast
qed

lemma send_asked:
  assumes "send_encrypted_message env body content_related s = (s', Inr request)"
  shows "asked env s s' body request"
proof -
  obtain s1 s2 s3 s4 padding number e where ids: "on_ids (next_message_id env) s = (s1, Inr request)"
    and pad: "on_world (secure_random env (encrypted_padding_length (length body))) s1 = (s2, Inr padding)"
    and number: "on_sequence (\<lambda>q. next_sequence_number q content_related) s2 = (s3, Inr number)"
    and e: "encrypt_message (ne_primitives env) (es_auth_key (fst s3)) ClientToServer
         \<lparr>pm_server_salt = es_server_salt (fst s3), pm_session_id = es_session_id (fst s3), pm_message_id = request,
          pm_sequence_number = number, pm_body = body, pm_padding = padding\<rparr> = Ok e"
    and sent: "on_transport (send_payload env (envelope_to_bytes e)) s3 = (s', Inr ())"
    using assms by (auto simp: send_encrypted_message_def and_draw_Ok result_simps split: prod.splits)
  have "advances s s1" "advances s1 s2" "advances s2 s3"
    by (rule keepsD [OF keeps_next ids], rule keepsD [OF keeps_on_world pad], rule keepsD [OF keeps_on_sequence number])
  then have adv: "advances s s3" using transpD [OF transp_advances] by blast
  obtain t where "send_payload env (envelope_to_bytes e) (es_transport (fst s3)) = (t, Inr ())" "es_transport (fst s') = t"
    using sent by (cases s3) (auto simp: on_transport_def zoom_def split: prod.splits)
  then have "written_in (es_transport (fst s3)) (es_transport (fst s')) (envelope_to_bytes e)"
    using send_payload_moves(2) by blast
  with e have "asked env s3 s' body request" unfolding asked_def by force
  then show ?thesis using asked_within [OF adv _ advances_refl] by blast
qed

lemma send_fresh:
  assumes "send_encrypted_message env body content_related s = (s', Inr request)"
    and "mg_last_client_message_id (es_message_ids (fst s)) = Some i"
  shows "sint i < sint request"
proof -
  obtain s1 where "on_ids (next_message_id env) s = (s1, Inr request)"
    using assms(1) by (auto simp: send_encrypted_message_def and_draw_Ok)
  then obtain g w where "next_message_id env (es_message_ids (fst s), snd s) = ((g, w), Inr request)"
    by (cases s) (auto simp: on_ids_def zoom_def split: prod.splits)
  from next_message_id_last [OF this assms(2)] show ?thesis by simp
qed

definition fresh_in :: "session_state \<Rightarrow> i64 \<Rightarrow> bool" where
  "fresh_in s request \<longleftrightarrow>
     (\<forall>i. mg_last_client_message_id (es_message_ids (fst s)) = Some i \<longrightarrow> sint i < sint request)"

lemma fresh_in_advances: "advances s s' \<Longrightarrow> fresh_in s' request \<Longrightarrow> fresh_in s request"
  by (fastforce simp: fresh_in_def advances_def)

lemma invoke_attempts_answers:
  assumes "primitive_laws (ne_primitives env)"
  shows "invoke_attempts env body n s = (s', Inr r) \<Longrightarrow>
     fresh_in s (rr_request_message_id r) \<and> asked env s s' body (rr_request_message_id r) \<and>
     (\<exists>m. arrived env s s' m \<and> answers (rr_request_message_id r) (pm_body m) (rr_body r))"
proof (induction n arbitrary: s)
  case (Suc n)
  obtain s1 request s2 outcome where sent: "send_encrypted_message env body True s = (s1, Inr request)"
    and received: "receive_rpc env DEFAULT_MAX_RPC_MESSAGES request s1 = (s2, Inr outcome)"
    and finish: "(case outcome of
         RpcOutcomeResult result \<Rightarrow> draws (Ok result)
       | RpcNewSalt \<Rightarrow> if n = 1 then invoke_attempts env body n else draws (Err RpcTimeout)
       | RpcContinue \<Rightarrow> draws (Err RpcTimeout)) s2 = (s', Inr r)"
    using Suc.prems unfolding invoke_attempts.simps and_draw_Ok by blast
  have adv: "advances s s1" "advances s1 s2"
    by (rule keepsD [OF keeps_send sent], rule keepsD [OF keeps_receive_rpc received])
  show ?case
  proof (cases outcome)
    case (RpcOutcomeResult result)
    with finish have eq: "result = r" "s2 = s'" by simp_all
    with received RpcOutcomeResult receive_rpc_answers [OF assms] have
      "rr_request_message_id r = request \<and> (\<exists>m. arrived env s1 s' m \<and> answers request (pm_body m) (rr_body r))"
      by blast
    moreover have "fresh_in s request" using send_fresh [OF sent] by (simp add: fresh_in_def)
    moreover have "asked env s s' body request"
      using asked_within [OF advances_refl send_asked [OF sent] adv(2)] eq(2) by simp
    ultimately show ?thesis using arrived_within [OF adv(1) _ advances_refl] by blast
  next
    case RpcNewSalt
    with finish have "invoke_attempts env body n s2 = (s', Inr r)" by (simp split: if_splits)
    from Suc.IH [OF this] show ?thesis
      using transpD [OF transp_advances adv] arrived_within asked_within fresh_in_advances advances_refl by blast
  next
    case RpcContinue
    with finish show ?thesis by simp
  qed
qed simp

text \<open>
  C34: a request is answered by the server alone. Whatever arrives on the socket, a result that
  \<open>invoke_raw\<close> returns was found in a message whose bytes this call has taken from the connection, and
  these bytes are what encryption under the authorization key, in the direction from the server, makes of
  this message of the session of the client; the message is the result of a request or a container that
  holds it. The request it names was sent by this call: the envelope of a message with the given body and
  this identifier was written to the connection, and the identifier is greater than every one the session
  had issued before. The hypothesis says of the hashes and the block cipher what they promise.
\<close>

theorem rpc_result_authentic:
  assumes "primitive_laws (ne_primitives env)" "invoke_raw env body s = (s', Ok r)"
  shows "(\<exists>m. arrived env s s' m \<and> answers (rr_request_message_id r) (pm_body m) (rr_body r)) \<and>
     asked env s s' body (rr_request_message_id r) \<and> fresh_in s (rr_request_message_id r)"
  using assms(2) invoke_attempts_answers [OF assms(1), of body 2 s s' r]
  by (auto simp: invoke_raw_def split: if_splits)

section \<open>Witnesses\<close>

text \<open>
  In the padded mode: a quick acknowledgement, a payload with two bytes of padding, and a payload that
  looks like an acknowledgement, before the last payload.
\<close>

theorem frames_received_in_order_witness:
  "\<exists>t. receive_payloads \<lparr>ne_crc = (\<lambda>_. 0), ne_primitives = demo_primitives, ne_big = plain_big,
        ne_clock = (\<lambda>_. None), ne_random = (\<lambda>_. None), ne_connect = (\<lambda>_ _. Err IoTimedOut)\<rparr> 2
      (from_stream \<lparr>ts_reads = map Inr [[1, 0, 0, 128, 6, 0], [0, 0, 1, 2, 3, 4, 9, 9, 8, 0, 0, 0, 255, 255, 255, 255],
         [0, 0, 0, 0, 4, 0, 0, 0, 5], [6, 7, 8, 9]], ts_written = [], ts_write_faults = []\<rparr> PaddedIntermediate) =
      (t, Ok [[1, 2, 3, 4, 9, 9], [5, 6, 7, 8]]) \<and>
    tp_read_buffer t @ stream_bytes (tp_stream t) = [9]"
proof -
  let ?env = "\<lparr>ne_crc = (\<lambda>_. 0), ne_primitives = demo_primitives, ne_big = plain_big,
        ne_clock = (\<lambda>_. None), ne_random = (\<lambda>_. None), ne_connect = (\<lambda>_ _. Err IoTimedOut)\<rparr>"
  let ?c = "TransportFrameCodec_new PaddedIntermediate"
  have frame: "payload_frame (ne_crc ?env) ?c (to_le_u32 (of_nat (length (p @ padding))) @ p @ padding) (p @ padding)"
    if "p \<noteq> []" "length p < 16" "length padding \<le> 15" for p padding
    using that unfolding payload_frame_def
    by (intro conjI exI [of _ 0] exI [of _ p] exI [of _ padding])
      (auto simp: encode_with_padding_def encode_internal_def encode_intermediate_def TransportFrameCodec_new_def
        DEFAULT_MAX_FRAME_BYTES_def)
  have "to_le_u32 4 = [4, 0, 0, 0]" "to_le_u32 6 = [6, 0, 0, 0]" "to_le_u32 8 = [8, 0, 0, 0]"
    by code_simp+
  with frame [of "[1, 2, 3, 4]" "[9, 9]"] frame [of "[255, 255, 255, 255, 0, 0, 0, 0]" "[]"] frame [of "[5, 6, 7, 8]" "[]"]
  have data: "payload_frame (ne_crc ?env) ?c [6, 0, 0, 0, 1, 2, 3, 4, 9, 9] [1, 2, 3, 4, 9, 9]"
    "payload_frame (ne_crc ?env) ?c [8, 0, 0, 0, 255, 255, 255, 255, 0, 0, 0, 0] [255, 255, 255, 255, 0, 0, 0, 0]"
    "payload_frame (ne_crc ?env) ?c [4, 0, 0, 0, 5, 6, 7, 8] [5, 6, 7, 8]"
    by simp_all
  have "(from_le [1, 0, 0, 128] :: u32) AND push_bit 31 1 \<noteq> 0" by code_simp
  then have ack: "quick_ack ?c [1, 0, 0, 128]" by (simp add: quick_ack_def TransportFrameCodec_new_def)
  have "list_all2 (wire_frame (ne_crc ?env) ?c)
      [[1, 0, 0, 128], [6, 0, 0, 0, 1, 2, 3, 4, 9, 9], [8, 0, 0, 0, 255, 255, 255, 255, 0, 0, 0, 0], [4, 0, 0, 0, 5, 6, 7, 8]]
      [None, Some [1, 2, 3, 4, 9, 9], None, Some [5, 6, 7, 8]]"
    using wire_frameI(3) [OF ack] wire_frameI(1) [OF data(1)] wire_frameI(2) [OF data(2)] wire_frameI(1) [OF data(3)]
    by (simp add: read_as_ack_def ack_like_def TransportFrameCodec_new_def)
  from frames_received_in_order [OF this, of "[[1, 0, 0, 128, 6, 0], [0, 0, 1, 2, 3, 4, 9, 9, 8, 0, 0, 0, 255, 255, 255, 255],
       [0, 0, 0, 0, 4, 0, 0, 0, 5], [6, 7, 8, 9]]" "[9]" "[]"]
  show ?thesis by (simp add: numeral_2_eq_2)
qed

definition demo_env :: NetworkEnv where
  "demo_env =
     \<lparr>ne_crc = (\<lambda>_. 0), ne_primitives = demo_primitives, ne_big = plain_big,
      ne_clock = (\<lambda>_. Some (1, 0)), ne_random = (\<lambda>_. Some (\<lambda>_. 0)), ne_connect = (\<lambda>_ _. Err IoTimedOut)\<rparr>"

definition demo_key :: AuthKey where
  "demo_key = AuthKey (replicate 256 1)"

text \<open>The identifier of the first request after one second, and the answer of the server to it.\<close>

definition demo_answer :: PlainMessage where
  "demo_answer =
     \<lparr>pm_server_salt = 0, pm_session_id = 0, pm_message_id = 0x100000001, pm_sequence_number = 0,
      pm_body = to_le_u32 RPC_RESULT_CONSTRUCTOR @ to_le_u64 0x100000004 @ [9, 0, 0, 0],
      pm_padding = replicate 16 0\<rparr>"

definition demo_question :: PlainMessage where
  "demo_question =
     \<lparr>pm_server_salt = 0, pm_session_id = 0, pm_message_id = 0x100000004, pm_sequence_number = 1,
      pm_body = [0, 0, 0, 0], pm_padding = replicate 12 0\<rparr>"

lemma demo_primitive_laws: "primitive_laws demo_primitives"
  by (simp add: primitive_laws_def demo_primitives_def)

lemma demo_encrypted:
  assumes "encode_plain_message m = Ok p"
  obtains e where "encrypt_message demo_primitives demo_key d m = Ok e"
    "length (envelope_to_bytes e) = 24 + length p" "envelope_from_bytes (envelope_to_bytes e) = Ok e"
proof -
  obtain e where e: "encrypt_message demo_primitives demo_key d m = Ok e"
    using encrypt_message_defined [OF assms] by blast
  obtain k iv where k: "derive_aes_key_iv demo_primitives demo_key (ee_message_key e) d = (k, iv)" by fastforce
  from e assms have "aes_ige_encrypt demo_primitives p k iv = Ok (ee_encrypted_data e)"
    unfolding encrypt_message_Ok [OF k] by auto
  then have "length (ee_encrypted_data e) = length p"
    by (rule aes_ige_length [OF demo_primitive_laws derive_lengths [OF demo_primitive_laws k]])
  with e show thesis
    using encrypted_lengths [OF demo_primitive_laws e] envelope_roundtrip [of e]
    by (intro that [of e]) (simp_all add: envelope_to_bytes_def)
qed

lemma demo_question_encode: "\<exists>p. encode_plain_message demo_question = Ok p \<and> length p = 48"
  by (simp add: encode_plain_message_def validate_plain_message_def demo_question_def crypto_lengths)

lemma demo_answer_encode: "\<exists>p. encode_plain_message demo_answer = Ok p \<and> length p = 64"
  by (simp add: encode_plain_message_def validate_plain_message_def demo_answer_def crypto_lengths)

definition demo_client_session :: "EncryptedEnvelope \<Rightarrow> EstablishedSession" where
  "demo_client_session e =
     \<lparr>es_endpoint = \<lparr>ce_dc_id = 2, ce_address = (IpV4 [127, 0, 0, 1], 443)\<rparr>,
      es_transport = from_stream
        \<lparr>ts_reads = [Inr (22 # envelope_to_bytes e)], ts_written = [], ts_write_faults = []\<rparr> Abridged,
      es_auth_key = demo_key, es_server_salt = 0, es_server_time = 0, es_message_ids = MessageIdGuard_default,
      es_sequence = SessionSequence_new, es_session_id = 0\<rparr>"

definition demo_world :: World where
  "demo_world = \<lparr>wd_clock_calls = 0, wd_random_calls = 0, wd_connect_calls = 0\<rparr>"

lemma demo_time: "unix_time demo_env w = (w\<lparr>wd_clock_calls := Suc (wd_clock_calls w)\<rparr>, Ok (1, 0))"
  by (simp add: unix_time_def demo_env_def)

lemma demo_random: "secure_random demo_env n w = (w\<lparr>wd_random_calls := Suc (wd_random_calls w)\<rparr>, Ok (replicate n 0))"
  by (simp add: secure_random_def getrandom_def demo_env_def map_replicate_const)

lemma demo_env_primitives: "ne_primitives demo_env = demo_primitives"
  by (simp add: demo_env_def)

lemma demo_request_id:
  "generate_client_message_id MessageIdGuard_default 1 0 =
     (MessageIdGuard_default\<lparr>mg_last_client_message_id := Some 0x100000004\<rparr>, Ok 0x100000004)"
  by (simp add: generate_client_message_id_def MessageIdGuard_default_def MessageIdGuard_new_def client_candidate_def
      FRACTION_SCALE_def NANOS_PER_SECOND_def checked_i64_def)

lemma demo_answer_id:
  "validate_server_message_id (MessageIdGuard_default\<lparr>mg_last_client_message_id := Some 0x100000004\<rparr>) 0x100000001 1 =
     (MessageIdGuard_default\<lparr>mg_last_client_message_id := Some 0x100000004, mg_recent_server_message_ids := {|0x100000001|}\<rparr>, Ok ())"
proof -
  have "sint (signed_drop_bit 32 (0x100000001 :: i64)) = 1"
    by (simp add: sint_signed_drop_bit_eq drop_bit_eq_div)
  moreover have "pop_excess 300 {|0x100000001|} = {|0x100000001|}"
    by (rule pop_excess_small) (simp add: fcard_finsert fcard_fempty)
  ultimately show ?thesis
    by (simp add: validate_server_message_id_def MessageIdGuard_default_def MessageIdGuard_new_def is_replay_def
      saturating_sub_i64_def saturating_add_i64_def saturated_i64_def word_sless_alt)
qed
lemma demo_send:
  obtains t where "send_encrypted_message demo_env [0, 0, 0, 0] True (demo_client_session e, demo_world) =
     (((demo_client_session e)\<lparr>es_transport := t,
        es_message_ids := MessageIdGuard_default\<lparr>mg_last_client_message_id := Some 0x100000004\<rparr>,
        es_sequence := \<lparr>ss_content_related_count = 1\<rparr>\<rparr>,
       demo_world\<lparr>wd_clock_calls := 1, wd_random_calls := 1\<rparr>), Ok 0x100000004)"
    "tp_codec t = TransportFrameCodec_new Abridged" "tp_read_buffer t = []"
    "ts_reads (tp_stream t) = [Inr (22 # envelope_to_bytes e)]"
proof -
  obtain p where "encode_plain_message demo_question = Ok p" "length p = 48" using demo_question_encode by blast
  then obtain q where q: "encrypt_message demo_primitives demo_key ClientToServer demo_question = Ok q"
    "length (envelope_to_bytes q) = 72"
    using demo_encrypted [of demo_question p ClientToServer] by auto
  let ?start = "es_transport (demo_client_session e)"
  let ?t = "\<lparr>tp_stream = \<lparr>ts_reads = [Inr (22 # envelope_to_bytes e)], ts_written = 0xef # 18 # envelope_to_bytes q, ts_write_faults = []\<rparr>,
      tp_codec = TransportFrameCodec_new Abridged, tp_read_buffer = [], tp_initialized = True\<rparr>"
  have "envelope_to_bytes q \<noteq> []" using q(2) by auto
  then have frame: "encode crc (TransportFrameCodec_new Abridged) (envelope_to_bytes q) =
      (TransportFrameCodec_new Abridged, Ok (18 # envelope_to_bytes q))" for crc
    using q(2) by (simp add: encode_def encode_internal_def encode_abridged_def TransportFrameCodec_new_def
        DEFAULT_MAX_FRAME_BYTES_def)
  have header: "initial_header (tf_mode (TransportFrameCodec_new Abridged)) = [0xef]"
    by (simp add: TransportFrameCodec_new_def)
  have sent: "send_payload demo_env (envelope_to_bytes q) ?start = (?t, Ok ())"
    by (simp add: send_payload_def and_draw_def zoom_def with_error_def transport_write_def stream_write_all_def
        demo_client_session_def from_stream_def frame header)
  have pad: "encrypted_padding_length (Suc (Suc (Suc (Suc 0)))) = 12" by (simp add: encrypted_padding_length_def next_multiple_of_def)
  have "send_encrypted_message demo_env [0, 0, 0, 0] True (demo_client_session e, demo_world) =
     (((demo_client_session e)\<lparr>es_transport := ?t,
        es_message_ids := MessageIdGuard_default\<lparr>mg_last_client_message_id := Some 0x100000004\<rparr>,
        es_sequence := \<lparr>ss_content_related_count = 1\<rparr>\<rparr>,
       demo_world\<lparr>wd_clock_calls := 1, wd_random_calls := 1\<rparr>), Ok 0x100000004)"
    using sent q(1)
    by (simp add: send_encrypted_message_def and_draw_def on_ids_def on_world_def on_sequence_def on_transport_def zoom_def
        with_error_def next_message_id_def demo_time demo_request_id demo_random pad demo_env_primitives
        next_sequence_number_def SessionSequence_new_def demo_question_def demo_client_session_def demo_world_def)
  then show thesis
    by (rule that) (simp_all add: demo_client_session_def from_stream_def)
qed

theorem rpc_result_authentic_witness:
  "\<exists>e s' r. invoke_raw demo_env [0, 0, 0, 0] (demo_client_session e, demo_world) = (s', Ok r) \<and> rr_body r = [9, 0, 0, 0] \<and>
     (\<exists>m. arrived demo_env (demo_client_session e, demo_world) s' m \<and> answers (rr_request_message_id r) (pm_body m) [9, 0, 0, 0]) \<and>
     asked demo_env (demo_client_session e, demo_world) s' [0, 0, 0, 0] (rr_request_message_id r)"
proof -
  obtain p where "encode_plain_message demo_answer = Ok p" "length p = 64" using demo_answer_encode by blast
  then obtain e where e: "encrypt_message demo_primitives demo_key ServerToClient demo_answer = Ok e"
    "length (envelope_to_bytes e) = 88" "envelope_from_bytes (envelope_to_bytes e) = Ok e"
    using demo_encrypted [of demo_answer p ServerToClient] by auto
  have decrypted: "decrypt_message demo_primitives demo_key ServerToClient e 0 = Ok demo_answer"
    using e(1) by (simp add: decrypt_message_iff [OF demo_primitive_laws] demo_answer_def message_id_for_def)
  obtain t where sent: "send_encrypted_message demo_env [0, 0, 0, 0] True (demo_client_session e, demo_world) =
     (((demo_client_session e)\<lparr>es_transport := t,
        es_message_ids := MessageIdGuard_default\<lparr>mg_last_client_message_id := Some 0x100000004\<rparr>,
        es_sequence := \<lparr>ss_content_related_count = 1\<rparr>\<rparr>,
       demo_world\<lparr>wd_clock_calls := 1, wd_random_calls := 1\<rparr>), Ok 0x100000004)"
    and t: "tp_codec t = TransportFrameCodec_new Abridged" "tp_read_buffer t = []"
      "ts_reads (tp_stream t) = [Inr (22 # envelope_to_bytes e)]"
    by (rule demo_send)
  define s1 where "s1 = ((demo_client_session e)\<lparr>es_transport := t,
        es_message_ids := MessageIdGuard_default\<lparr>mg_last_client_message_id := Some 0x100000004\<rparr>,
        es_sequence := \<lparr>ss_content_related_count = 1\<rparr>\<rparr>,
       demo_world\<lparr>wd_clock_calls := 1, wd_random_calls := 1\<rparr>)"
  note sent = sent [folded s1_def]
  have "envelope_to_bytes e \<noteq> []" using e(2) by auto
  then have "payload_frame (ne_crc demo_env) (tp_codec t) (22 # envelope_to_bytes e) (envelope_to_bytes e)"
    unfolding payload_frame_def using e(2)
    by (intro conjI exI [of _ 0] exI [of _ "envelope_to_bytes e"] exI [of _ "[]"])
      (auto simp: t encode_with_padding_def encode_internal_def encode_abridged_def TransportFrameCodec_new_def
        DEFAULT_MAX_FRAME_BYTES_def)
  then have "wire_frame (ne_crc demo_env) (tp_codec t) (22 # envelope_to_bytes e) (Some (envelope_to_bytes e))"
    by (intro wire_frameI(1)) (simp_all add: read_as_ack_def t TransportFrameCodec_new_def)
  then obtain t' where received: "receive_payload demo_env t = (t', Ok (envelope_to_bytes e))"
    using receive_frame [of demo_env t "22 # envelope_to_bytes e" "Some (envelope_to_bytes e)" "[]"] t by (auto simp: clean_stream_def stream_bytes_def)
  obtain s2 where message: "receive_message demo_env s1 = (s2, Ok demo_answer)"
    using e(3) decrypted received demo_answer_id
    by (simp add: receive_message_def and_draw_def on_transport_def on_ids_def zoom_def with_error_def check_server_id_def
        demo_time demo_env_primitives demo_client_session_def demo_answer_def s1_def)
  let ?r = "\<lparr>rr_request_message_id = 0x100000004, rr_response_message_id = 0x100000001, rr_body = [9, 0, 0, 0]\<rparr>"
  have scanned: "scan_rpc_body demo_env (pm_body demo_answer) 0x100000004 0x100000001 s = (s, Ok (RpcOutcomeResult ?r))" for s
    by (simp add: scan_rpc_body.simps demo_answer_def read_u32_at_def read_i64_at_def get_range_def rpc_answer_def)
  have fields: "pm_message_id demo_answer = 0x100000001" "pm_sequence_number demo_answer = 0"
    by (simp_all add: demo_answer_def)
  have "receive_rpc demo_env (Suc n) 0x100000004 s1 = (s2, Ok (RpcOutcomeResult ?r))" for n
    using scanned fields by (simp add: and_draw_def message note_odd_def)
  from this [of 63] sent have run: "invoke_raw demo_env [0, 0, 0, 0] (demo_client_session e, demo_world) = (s2, Ok ?r)"
    by (simp add: invoke_raw_def numeral_2_eq_2 DEFAULT_MAX_RPC_MESSAGES_def and_draw_def)
  have "primitive_laws (ne_primitives demo_env)" by (simp add: demo_env_primitives demo_primitive_laws)
  from rpc_result_authentic [OF this run] run show ?thesis
    by (intro exI [of _ e] exI [of _ s2] exI [of _ ?r]) auto
qed

end
