(* ===== verification/Telegram_Transfers.thy ===== *)
theory Telegram_Transfers
  imports Event_Sourcing Bytes
begin

text \<open>
  The transfer queue of the Telegram client (\<open>telegram-media/src/lib.rs\<close>): commands are decided
  against the queue and applied as events, as in the engines. The decoder of the crate \<open>hex\<close> is the
  parameter \<open>hex_decode\<close>.
\<close>

section \<open>Transfers\<close>

datatype TgTransferId = TgTransferId (tg_transfer_str: string)

instantiation TgTransferId :: linorder
begin

definition less_eq_TgTransferId :: "TgTransferId \<Rightarrow> TgTransferId \<Rightarrow> bool" where
  "less_eq_TgTransferId a b \<longleftrightarrow> tg_transfer_str a \<le> tg_transfer_str b"

definition less_TgTransferId :: "TgTransferId \<Rightarrow> TgTransferId \<Rightarrow> bool" where
  "less_TgTransferId a b \<longleftrightarrow> tg_transfer_str a < tg_transfer_str b"

instance
  by intro_classes (auto simp: less_eq_TgTransferId_def less_TgTransferId_def intro: TgTransferId.expand)

end

definition TgTransferId_is_valid :: "TgTransferId \<Rightarrow> bool" where
  "TgTransferId_is_valid i \<longleftrightarrow> trim (tg_transfer_str i) \<noteq> [] \<and> length (tg_transfer_str i) \<le> 128"

datatype MediaFileId = MediaFileId string

datatype TgTransferDirection = TgUpload | TgDownload

datatype TransferPriority = BackgroundPriority | NormalPriority | UserInitiated | RealtimePriority

primrec priority_rank :: "TransferPriority \<Rightarrow> nat" where
  "priority_rank BackgroundPriority = 0"
| "priority_rank NormalPriority = 1"
| "priority_rank UserInitiated = 2"
| "priority_rank RealtimePriority = 3"

lemma priority_rank_inject: "priority_rank a = priority_rank b \<Longrightarrow> a = b"
  by (cases a; cases b) simp_all

instantiation TransferPriority :: linorder
begin

definition less_eq_TransferPriority :: "TransferPriority \<Rightarrow> TransferPriority \<Rightarrow> bool" where
  "less_eq_TransferPriority a b \<longleftrightarrow> priority_rank a \<le> priority_rank b"

definition less_TransferPriority :: "TransferPriority \<Rightarrow> TransferPriority \<Rightarrow> bool" where
  "less_TransferPriority a b \<longleftrightarrow> priority_rank a < priority_rank b"

instance
  by intro_classes
    (auto simp: less_eq_TransferPriority_def less_TransferPriority_def intro: priority_rank_inject)

end

datatype TgTransferState =
    TsQueued
  | TsRunning
  | TsPaused
  | TsFailed (ts_code: string) (ts_retryable: bool)
  | TsCompleted (ts_sha256: "string option")
  | TsCanceled

definition occupies_slot :: "TgTransferState \<Rightarrow> bool" where
  "occupies_slot st \<longleftrightarrow> st = TsRunning"

primrec transfer_terminal :: "TgTransferState \<Rightarrow> bool" where
  "transfer_terminal TsQueued = False"
| "transfer_terminal TsRunning = False"
| "transfer_terminal TsPaused = False"
| "transfer_terminal (TsFailed _ _) = False"
| "transfer_terminal (TsCompleted _) = True"
| "transfer_terminal TsCanceled = True"

record TgMediaTransfer =
  tt_id :: TgTransferId
  tt_file_id :: MediaFileId
  tt_direction :: TgTransferDirection
  tt_priority :: TransferPriority
  tt_total_bytes :: u64
  tt_completed_bytes :: u64
  tt_chunk_size :: u32
  tt_expected_sha256 :: "string option"
  tt_state :: TgTransferState
  tt_enqueue_order :: u64
  tt_attempt :: u32

record ChunkPlan =
  cp_offset :: u64
  cp_length :: u32

definition next_chunk :: "TgMediaTransfer \<Rightarrow> ChunkPlan option" where
  "next_chunk t =
     (if transfer_terminal (tt_state t) \<or> tt_total_bytes t \<le> tt_completed_bytes t then None
      else let remaining = tt_total_bytes t - tt_completed_bytes t in
        Some \<lparr>cp_offset = tt_completed_bytes t, cp_length = ucast (min remaining (ucast (tt_chunk_size t)))\<rparr>)"

datatype TransferCommand =
    EnqueueTransfer TgTransferId MediaFileId TgTransferDirection TransferPriority u64 u32 "string option"
  | StartTransfer TgTransferId
  | RecordChunk TgTransferId u64 u32
  | PauseTransfer TgTransferId
  | ResumeTransfer TgTransferId
  | FailTransfer TgTransferId string bool
  | RetryTransfer TgTransferId
  | CompleteTransfer TgTransferId "string option"
  | CancelTransfer TgTransferId
  | SetPriority TgTransferId TransferPriority

datatype TransferEvent =
    TransferEnqueued TgMediaTransfer
  | TransferStarted TgTransferId
  | ChunkRecorded TgTransferId u64
  | TransferPaused TgTransferId
  | TransferResumed TgTransferId
  | TransferFailedWith TgTransferId string bool
  | TransferRetried TgTransferId u32
  | TransferCompleted TgTransferId "string option"
  | TransferCanceled TgTransferId
  | PriorityChanged TgTransferId TransferPriority

datatype TransferError =
    InvalidTransferId
  | DuplicateTransfer TgTransferId
  | TransferNotFound TgTransferId
  | InvalidSize
  | InvalidSha256
  | NoAvailableSlot
  | InvalidTransition TgTransferState string
  | UnexpectedChunkOffset u64 u64
  | InvalidChunkLength
  | IncompleteTransfer u64 u64
  | IntegrityMismatch string string
  | AttemptCounterExhausted

record TransferQueue =
  tq_transfers :: "(TgTransferId, TgMediaTransfer) fmap"
  tq_max_concurrent :: nat
  tq_next_enqueue_order :: u64

definition TransferQueue_new :: "nat \<Rightarrow> TransferQueue" where
  "TransferQueue_new max_concurrent =
     \<lparr>tq_transfers = fmempty, tq_max_concurrent = max max_concurrent 1, tq_next_enqueue_order = 0\<rparr>"

definition running_count :: "TransferQueue \<Rightarrow> nat" where
  "running_count q = length (filter (\<lambda>t. occupies_slot (tt_state t)) (map_values (tq_transfers q)))"

text \<open>The key \<open>(priority, Reverse(enqueue_order))\<close>.\<close>

definition readiness :: "TgMediaTransfer \<Rightarrow> TransferPriority \<times> int" where
  "readiness t = (tt_priority t, - uint (tt_enqueue_order t))"

definition next_ready :: "TransferQueue \<Rightarrow> TgMediaTransfer option" where
  "next_ready q =
     (if tq_max_concurrent q \<le> running_count q then None
      else max_by_key readiness (filter (\<lambda>t. tt_state t = TsQueued) (map_values (tq_transfers q))))"

section \<open>Decisions\<close>

definition tg_normalize_sha256 :: "(string \<Rightarrow> bytes option) \<Rightarrow> string \<Rightarrow> (string, TransferError) result" where
  "tg_normalize_sha256 hex_decode value =
     (let v = map ascii_lower (trim value) in
      if length v \<noteq> 64 \<or> hex_decode v = None then Err InvalidSha256 else Ok v)"

definition normalize_optional ::
  "(string \<Rightarrow> bytes option) \<Rightarrow> string option \<Rightarrow> (string option, TransferError) result"
where
  "normalize_optional hex_decode value =
     (case value of None \<Rightarrow> Ok None
      | Some v \<Rightarrow> and_then (tg_normalize_sha256 hex_decode v) (\<lambda>n. Ok (Some n)))"

definition require_transfer :: "TransferQueue \<Rightarrow> TgTransferId \<Rightarrow> (TgMediaTransfer, TransferError) result" where
  "require_transfer q i = ok_or (TransferNotFound i) (fmlookup (tq_transfers q) i)"

definition checked_add_u32 :: "u32 \<Rightarrow> u32 \<Rightarrow> u32 option" where
  "checked_add_u32 a b = (if unat a + unat b < 2 ^ 32 then Some (a + b) else None)"

definition decide_enqueue ::
  "(string \<Rightarrow> bytes option) \<Rightarrow> TransferQueue \<Rightarrow> TgTransferId \<Rightarrow> MediaFileId \<Rightarrow> TgTransferDirection \<Rightarrow>
   TransferPriority \<Rightarrow> u64 \<Rightarrow> u32 \<Rightarrow> string option \<Rightarrow> (TransferEvent, TransferError) result"
where
  "decide_enqueue hex_decode q i file direction priority total_size chunk sha =
     (if \<not> TgTransferId_is_valid i then Err InvalidTransferId
      else if contains_key (tq_transfers q) i then Err (DuplicateTransfer i)
      else if total_size = 0 \<or> chunk = 0 then Err InvalidSize
      else and_then (normalize_optional hex_decode sha) (\<lambda>expected.
        Ok (TransferEnqueued
          \<lparr>tt_id = i, tt_file_id = file, tt_direction = direction, tt_priority = priority,
           tt_total_bytes = total_size, tt_completed_bytes = 0, tt_chunk_size = chunk,
           tt_expected_sha256 = expected, tt_state = TsQueued,
           tt_enqueue_order = tq_next_enqueue_order q, tt_attempt = 0\<rparr>)))"

definition decide_start :: "TransferQueue \<Rightarrow> TgTransferId \<Rightarrow> (TransferEvent, TransferError) result" where
  "decide_start q i =
     and_then (require_transfer q i) (\<lambda>t.
       if tt_state t \<noteq> TsQueued then Err (InvalidTransition (tt_state t) ''start'')
       else if tq_max_concurrent q \<le> running_count q then Err NoAvailableSlot
       else Ok (TransferStarted i))"

definition decide_record ::
  "TransferQueue \<Rightarrow> TgTransferId \<Rightarrow> u64 \<Rightarrow> u32 \<Rightarrow> (TransferEvent, TransferError) result"
where
  "decide_record q i offset bytes_written =
     and_then (require_transfer q i) (\<lambda>t.
       if tt_state t \<noteq> TsRunning then Err (InvalidTransition (tt_state t) ''recordChunk'')
       else if offset \<noteq> tt_completed_bytes t then Err (UnexpectedChunkOffset (tt_completed_bytes t) offset)
       else case checked_add_u64 (tt_completed_bytes t) (ucast bytes_written) of
              None \<Rightarrow> Err InvalidChunkLength
            | Some n \<Rightarrow>
                if 0 < bytes_written \<and> n \<le> tt_total_bytes t then Ok (ChunkRecorded i n)
                else Err InvalidChunkLength)"

definition decide_resume :: "TransferQueue \<Rightarrow> TgTransferId \<Rightarrow> (TransferEvent, TransferError) result" where
  "decide_resume q i =
     and_then (require_transfer q i) (\<lambda>t.
       if tt_state t \<noteq> TsPaused then Err (InvalidTransition (tt_state t) ''resume'')
       else if tq_max_concurrent q \<le> running_count q then Err NoAvailableSlot
       else Ok (TransferResumed i))"

text \<open>Commands that a running transfer takes, and those that any unfinished one takes.\<close>

definition when_running ::
  "TransferQueue \<Rightarrow> TgTransferId \<Rightarrow> string \<Rightarrow> TransferEvent \<Rightarrow> (TransferEvent, TransferError) result"
where
  "when_running q i command ev =
     and_then (require_transfer q i) (\<lambda>t.
       if tt_state t \<noteq> TsRunning then Err (InvalidTransition (tt_state t) command) else Ok ev)"

definition when_unfinished ::
  "TransferQueue \<Rightarrow> TgTransferId \<Rightarrow> string \<Rightarrow> TransferEvent \<Rightarrow> (TransferEvent, TransferError) result"
where
  "when_unfinished q i command ev =
     and_then (require_transfer q i) (\<lambda>t.
       if transfer_terminal (tt_state t) then Err (InvalidTransition (tt_state t) command) else Ok ev)"

definition decide_retry :: "TransferQueue \<Rightarrow> TgTransferId \<Rightarrow> (TransferEvent, TransferError) result" where
  "decide_retry q i =
     and_then (require_transfer q i) (\<lambda>t.
       case tt_state t of
         TsFailed code True \<Rightarrow>
           and_then (ok_or AttemptCounterExhausted (checked_add_u32 (tt_attempt t) 1)) (\<lambda>attempt.
             Ok (TransferRetried i attempt))
       | st \<Rightarrow> Err (InvalidTransition st ''retry''))"

definition decide_complete ::
  "(string \<Rightarrow> bytes option) \<Rightarrow> TransferQueue \<Rightarrow> TgTransferId \<Rightarrow> string option \<Rightarrow>
   (TransferEvent, TransferError) result"
where
  "decide_complete hex_decode q i sha =
     and_then (require_transfer q i) (\<lambda>t.
       if tt_state t \<noteq> TsRunning then Err (InvalidTransition (tt_state t) ''complete'')
       else if tt_completed_bytes t \<noteq> tt_total_bytes t
            then Err (IncompleteTransfer (tt_completed_bytes t) (tt_total_bytes t))
       else and_then (normalize_optional hex_decode sha) (\<lambda>actual.
         case tt_expected_sha256 t of
           None \<Rightarrow> Ok (TransferCompleted i actual)
         | Some expected \<Rightarrow>
             (case actual of
                None \<Rightarrow> Err (IntegrityMismatch expected ''missing'')
              | Some a \<Rightarrow>
                  if a \<noteq> expected then Err (IntegrityMismatch expected a)
                  else Ok (TransferCompleted i actual))))"

primrec transfer_event ::
  "(string \<Rightarrow> bytes option) \<Rightarrow> TransferQueue \<Rightarrow> TransferCommand \<Rightarrow> (TransferEvent, TransferError) result"
where
  "transfer_event hex q (EnqueueTransfer i file direction priority total_size chunk sha) =
     decide_enqueue hex q i file direction priority total_size chunk sha"
| "transfer_event hex q (StartTransfer i) = decide_start q i"
| "transfer_event hex q (RecordChunk i offset n) = decide_record q i offset n"
| "transfer_event hex q (PauseTransfer i) = when_running q i ''pause'' (TransferPaused i)"
| "transfer_event hex q (ResumeTransfer i) = decide_resume q i"
| "transfer_event hex q (FailTransfer i code retryable) =
     when_running q i ''fail'' (TransferFailedWith i code retryable)"
| "transfer_event hex q (RetryTransfer i) = decide_retry q i"
| "transfer_event hex q (CompleteTransfer i sha) = decide_complete hex q i sha"
| "transfer_event hex q (CancelTransfer i) = when_unfinished q i ''cancel'' (TransferCanceled i)"
| "transfer_event hex q (SetPriority i priority) =
     when_unfinished q i ''setPriority'' (PriorityChanged i priority)"

definition decide_transfer ::
  "(string \<Rightarrow> bytes option) \<Rightarrow> TransferQueue \<Rightarrow> TransferCommand \<Rightarrow> (TransferEvent list, TransferError) result"
where
  "decide_transfer hex_decode q command = and_then (transfer_event hex_decode q command) (\<lambda>ev. Ok [ev])"

section \<open>Events\<close>

definition modify_transfer ::
  "TransferQueue \<Rightarrow> TgTransferId \<Rightarrow> (TgMediaTransfer \<Rightarrow> TgMediaTransfer) \<Rightarrow> TransferQueue"
where
  "modify_transfer q i f = q\<lparr>tq_transfers := fm_modify i f (tq_transfers q)\<rparr>"

primrec apply_transfer :: "TransferQueue \<Rightarrow> TransferEvent \<Rightarrow> TransferQueue" where
  "apply_transfer q (TransferEnqueued t) =
     q\<lparr>tq_next_enqueue_order := max (tq_next_enqueue_order q) (saturating_add_u64 (tt_enqueue_order t) 1),
       tq_transfers := fmupd (tt_id t) t (tq_transfers q)\<rparr>"
| "apply_transfer q (TransferStarted i) = modify_transfer q i (tt_state_update (\<lambda>_. TsRunning))"
| "apply_transfer q (TransferResumed i) = modify_transfer q i (tt_state_update (\<lambda>_. TsRunning))"
| "apply_transfer q (ChunkRecorded i n) = modify_transfer q i (tt_completed_bytes_update (\<lambda>_. n))"
| "apply_transfer q (TransferPaused i) = modify_transfer q i (tt_state_update (\<lambda>_. TsPaused))"
| "apply_transfer q (TransferFailedWith i code retryable) =
     modify_transfer q i (tt_state_update (\<lambda>_. TsFailed code retryable))"
| "apply_transfer q (TransferRetried i attempt) =
     modify_transfer q i (\<lambda>t. t\<lparr>tt_attempt := attempt, tt_state := TsQueued\<rparr>)"
| "apply_transfer q (TransferCompleted i sha) = modify_transfer q i (tt_state_update (\<lambda>_. TsCompleted sha))"
| "apply_transfer q (TransferCanceled i) = modify_transfer q i (tt_state_update (\<lambda>_. TsCanceled))"
| "apply_transfer q (PriorityChanged i priority) = modify_transfer q i (tt_priority_update (\<lambda>_. priority))"

definition execute_transfer ::
  "(string \<Rightarrow> bytes option) \<Rightarrow> TransferQueue \<Rightarrow> TransferCommand \<Rightarrow>
   TransferQueue \<times> (TransferEvent list, TransferError) result"
where
  "execute_transfer hex_decode q command =
     (case decide_transfer hex_decode q command of
        Inl e \<Rightarrow> (q, Err e)
      | Inr events \<Rightarrow> (foldl apply_transfer q events, Ok events))"

interpretation transfers:
  event_sourced "decide_transfer hex_decode" apply_transfer "execute_transfer hex_decode" for hex_decode
  by unfold_locales (simp_all add: execute_transfer_def)

section \<open>What a decision promises\<close>

definition transfer_at :: "TransferQueue \<Rightarrow> TgTransferId \<Rightarrow> TgMediaTransfer option" where
  "transfer_at q i = fmlookup (tq_transfers q) i"

definition digest_matches :: "TgMediaTransfer \<Rightarrow> string option \<Rightarrow> bool" where
  "digest_matches t sha \<longleftrightarrow> tt_expected_sha256 t = None \<or> sha = tt_expected_sha256 t"

primrec transfer_event_ok :: "TransferQueue \<Rightarrow> TransferEvent \<Rightarrow> bool" where
  "transfer_event_ok q (TransferEnqueued t) \<longleftrightarrow>
     transfer_at q (tt_id t) = None \<and> tt_state t = TsQueued \<and> tt_completed_bytes t = 0 \<and>
     0 < tt_total_bytes t \<and> 0 < tt_chunk_size t \<and> tt_enqueue_order t = tq_next_enqueue_order q"
| "transfer_event_ok q (TransferStarted i) \<longleftrightarrow>
     (\<exists>t. transfer_at q i = Some t \<and> tt_state t = TsQueued) \<and> running_count q < tq_max_concurrent q"
| "transfer_event_ok q (TransferResumed i) \<longleftrightarrow>
     (\<exists>t. transfer_at q i = Some t \<and> tt_state t = TsPaused) \<and> running_count q < tq_max_concurrent q"
| "transfer_event_ok q (ChunkRecorded i n) \<longleftrightarrow>
     (\<exists>t. transfer_at q i = Some t \<and> tt_state t = TsRunning \<and> tt_completed_bytes t < n \<and> n \<le> tt_total_bytes t)"
| "transfer_event_ok q (TransferPaused i) \<longleftrightarrow> (\<exists>t. transfer_at q i = Some t \<and> tt_state t = TsRunning)"
| "transfer_event_ok q (TransferFailedWith i code retryable) \<longleftrightarrow>
     (\<exists>t. transfer_at q i = Some t \<and> tt_state t = TsRunning)"
| "transfer_event_ok q (TransferRetried i attempt) \<longleftrightarrow>
     (\<exists>t code. transfer_at q i = Some t \<and> tt_state t = TsFailed code True \<and>
        unat attempt = Suc (unat (tt_attempt t)))"
| "transfer_event_ok q (TransferCompleted i sha) \<longleftrightarrow>
     (\<exists>t. transfer_at q i = Some t \<and> tt_state t = TsRunning \<and>
        tt_completed_bytes t = tt_total_bytes t \<and> digest_matches t sha)"
| "transfer_event_ok q (TransferCanceled i) \<longleftrightarrow>
     (\<exists>t. transfer_at q i = Some t \<and> \<not> transfer_terminal (tt_state t))"
| "transfer_event_ok q (PriorityChanged i priority) \<longleftrightarrow>
     (\<exists>t. transfer_at q i = Some t \<and> \<not> transfer_terminal (tt_state t))"

lemma require_transfer_Ok [result_simps]: "require_transfer q i = Inr t \<longleftrightarrow> transfer_at q i = Some t"
  by (simp add: require_transfer_def transfer_at_def result_simps)

lemma when_running_Ok [result_simps]:
  "when_running q i command ev = Inr ev' \<longleftrightarrow>
     ev' = ev \<and> (\<exists>t. transfer_at q i = Some t \<and> tt_state t = TsRunning)"
  by (auto simp: when_running_def result_simps)

lemma when_unfinished_Ok [result_simps]:
  "when_unfinished q i command ev = Inr ev' \<longleftrightarrow>
     ev' = ev \<and> (\<exists>t. transfer_at q i = Some t \<and> \<not> transfer_terminal (tt_state t))"
  by (auto simp: when_unfinished_def result_simps)

lemma enqueue_promise: "decide_enqueue hex q i file d p total_size chunk sha = Inr ev \<Longrightarrow> transfer_event_ok q ev"
  by (auto simp: decide_enqueue_def result_simps transfer_at_def contains_key_def word_neq_0_conv)

lemma unat_ucast_u32 [simp]: "unat (ucast (n :: u32) :: u64) = unat n"
  by (simp add: unsigned_ucast_eq unsigned_take_bit_eq take_bit_nat_eq_self unsigned_less [THEN less_trans])

lemma record_promise: "decide_record q i offset n = Inr ev \<Longrightarrow> transfer_event_ok q ev"
  by (auto simp: decide_record_def result_simps int_ops word_less_nat_alt
      split: option.splits if_splits)

lemma retry_promise:
  assumes "decide_retry q i = Inr ev"
  shows "transfer_event_ok q ev"
proof -
  from assms obtain t where t: "transfer_at q i = Some t"
    by (auto simp: decide_retry_def result_simps)
  with assms show ?thesis
    by (cases "tt_state t")
      (auto simp: decide_retry_def require_transfer_def transfer_at_def result_simps checked_add_u32_def
        unat_word_ariths split: bool.splits if_splits)
qed

lemma complete_promise:
  assumes "decide_complete hex q i sha = Inr ev"
  shows "transfer_event_ok q ev"
proof -
  from assms obtain t actual where t: "transfer_at q i = Some t"
    and actual: "normalize_optional hex sha = Inr actual"
    by (auto simp: decide_complete_def result_simps)
  with assms show ?thesis
    by (cases "tt_expected_sha256 t"; cases actual)
      (auto simp: decide_complete_def require_transfer_def transfer_at_def digest_matches_def
        split: if_splits)
qed

lemma transfer_event_promise: "transfer_event hex q c = Inr ev \<Longrightarrow> transfer_event_ok q ev"
  by (cases c)
    (auto simp: enqueue_promise record_promise retry_promise complete_promise result_simps
      decide_start_def decide_resume_def)

section \<open>Slots and the invariant of the queue\<close>

definition running_ids :: "TransferQueue \<Rightarrow> TgTransferId set" where
  "running_ids q = {i. \<exists>t. transfer_at q i = Some t \<and> tt_state t = TsRunning}"

lemma finite_running_ids [simp]: "finite (running_ids q)"
  by (rule finite_subset [of _ "fset (fmdom (tq_transfers q))"])
    (auto simp: running_ids_def transfer_at_def fmlookup_dom_iff)

lemma running_count_card: "running_count q = card (running_ids q)"
proof -
  let ?m = "tq_transfers q"
  have "running_count q = length (filter (\<lambda>i. tt_state (the (fmlookup ?m i)) = TsRunning) (map_keys ?m))"
    by (simp add: running_count_def map_values_def occupies_slot_def filter_map o_def)
  also have "\<dots> = card (set (filter (\<lambda>i. tt_state (the (fmlookup ?m i)) = TsRunning) (map_keys ?m)))"
    by (rule distinct_card [symmetric]) simp
  also have "set (filter (\<lambda>i. tt_state (the (fmlookup ?m i)) = TsRunning) (map_keys ?m)) = running_ids q"
    by (auto simp: running_ids_def transfer_at_def fmlookup_dom_iff)
  finally show ?thesis .
qed

definition tg_transfer_ok :: "TgTransferId \<Rightarrow> TgMediaTransfer \<Rightarrow> bool" where
  "tg_transfer_ok i t \<longleftrightarrow>
     tt_id t = i \<and> 0 < tt_chunk_size t \<and> 0 < tt_total_bytes t \<and> tt_completed_bytes t \<le> tt_total_bytes t \<and>
     (\<forall>sha. tt_state t = TsCompleted sha \<longrightarrow>
        tt_completed_bytes t = tt_total_bytes t \<and> digest_matches t sha)"

definition transfer_queue_ok :: "TransferQueue \<Rightarrow> bool" where
  "transfer_queue_ok q \<longleftrightarrow>
     running_count q \<le> tq_max_concurrent q \<and> (\<forall>i t. transfer_at q i = Some t \<longrightarrow> tg_transfer_ok i t)"

lemma transfer_at_modify [simp]:
  "transfer_at (modify_transfer q i f) j = (if i = j then map_option f (transfer_at q j) else transfer_at q j)"
  by (simp add: modify_transfer_def transfer_at_def)

lemma transfer_at_enqueued [simp]:
  "transfer_at (apply_transfer q (TransferEnqueued t)) j = (if tt_id t = j then Some t else transfer_at q j)"
  by (simp add: transfer_at_def)

lemma max_concurrent_kept [simp]: "tq_max_concurrent (apply_transfer q ev) = tq_max_concurrent q"
  by (cases ev) (simp_all add: modify_transfer_def)

text \<open>At most the transfer of the event takes a slot.\<close>

lemma running_ids_apply:
  "transfer_event_ok q ev \<Longrightarrow>
     running_ids (apply_transfer q ev) \<subseteq>
       running_ids q \<union> (case ev of TransferStarted i \<Rightarrow> {i} | TransferResumed i \<Rightarrow> {i} | _ \<Rightarrow> {})"
  by (cases ev) (auto simp: running_ids_def simp del: apply_transfer.simps(1) split: if_splits)

lemma slots_kept:
  assumes ok: "transfer_event_ok q ev" and slots: "running_count q \<le> tq_max_concurrent q"
  shows "running_count (apply_transfer q ev) \<le> tq_max_concurrent q"
proof (cases "\<exists>i. ev = TransferStarted i \<or> ev = TransferResumed i")
  case True
  then obtain i where i: "ev = TransferStarted i \<or> ev = TransferResumed i" by blast
  with ok have free: "card (running_ids q) < tq_max_concurrent q"
    by (auto simp: running_count_card)
  have "running_ids (apply_transfer q ev) \<subseteq> insert i (running_ids q)"
    using running_ids_apply [OF ok] i by auto
  then have "card (running_ids (apply_transfer q ev)) \<le> card (insert i (running_ids q))"
    by (intro card_mono) simp_all
  also have "\<dots> \<le> Suc (card (running_ids q))" by (rule card_insert_le_m1) simp_all
  finally show ?thesis using free by (simp add: running_count_card)
next
  case False
  then have "running_ids (apply_transfer q ev) \<subseteq> running_ids q"
    using running_ids_apply [OF ok] by (cases ev) simp_all
  then have "card (running_ids (apply_transfer q ev)) \<le> card (running_ids q)"
    by (rule card_mono [OF finite_running_ids])
  with slots show ?thesis by (simp add: running_count_card)
qed

lemma transfers_kept:
  assumes ok: "transfer_event_ok q ev" and all: "\<forall>i t. transfer_at q i = Some t \<longrightarrow> tg_transfer_ok i t"
    and at: "transfer_at (apply_transfer q ev) i = Some t"
  shows "tg_transfer_ok i t"
  using assms
  by (cases ev)
    (fastforce simp: tg_transfer_ok_def digest_matches_def simp del: apply_transfer.simps(1) split: if_splits)+

interpretation transfer_queue:
  event_invariant "decide_transfer hex_decode" apply_transfer "execute_transfer hex_decode" transfer_queue_ok transfer_event_ok
  for hex_decode
proof
  show "all_ok transfer_event_ok apply_transfer q events"
    if "decide_transfer hex_decode q c = Ok events" for q c events
    using that by (auto simp: decide_transfer_def result_simps transfer_event_promise)
  show "transfer_queue_ok (apply_transfer q ev)" if "transfer_queue_ok q" "transfer_event_ok q ev" for q ev
    using that slots_kept [of q ev] transfers_kept [of q ev] by (auto simp: transfer_queue_ok_def)
qed

lemma queue_ok_new: "transfer_queue_ok (TransferQueue_new n)"
  by (simp add: transfer_queue_ok_def TransferQueue_new_def running_count_def transfer_at_def)

section \<open>Progress\<close>

abbreviation run_transfers ::
  "(string \<Rightarrow> bytes option) \<Rightarrow> TransferQueue \<Rightarrow> TransferCommand list \<Rightarrow> TransferQueue"
where
  "run_transfers hex \<equiv> foldl (\<lambda>q c. fst (execute_transfer hex q c))"

lemma max_concurrent_run [simp]: "tq_max_concurrent (run_transfers hex q cs) = tq_max_concurrent q"
proof (induction cs arbitrary: q)
  case (Cons c cs)
  have "tq_max_concurrent (foldl apply_transfer q events) = tq_max_concurrent q" for events q
    by (induction events arbitrary: q) simp_all
  with Cons show ?case by (simp add: transfers.exec_state)
qed simp

text \<open>A finished transfer is not touched by what a decision promises.\<close>

lemma finished_kept:
  "transfer_event_ok q ev \<Longrightarrow> transfer_at q i = Some t \<Longrightarrow> transfer_terminal (tt_state t) \<Longrightarrow>
     transfer_at (apply_transfer q ev) i = Some t"
  by (cases ev) (auto simp del: apply_transfer.simps(1))

lemma finished_run:
  assumes "transfer_queue_ok q" "transfer_at q i = Some t" "transfer_terminal (tt_state t)"
  shows "transfer_at (run_transfers hex q cs) i = Some t"
proof -
  have step: "transfer_at (fst (execute_transfer hex q c)) i = Some t"
    if "transfer_queue_ok q" "transfer_at q i = Some t" for q c
    by (rule transfer_queue.exec_keeps [where P = "\<lambda>q. transfer_at q i = Some t"])
      (use that assms(3) in \<open>auto intro: finished_kept\<close>)
  show ?thesis
    by (rule transfer_queue.run_keeps [where P = "\<lambda>q. transfer_at q i = Some t"])
      (use step assms in auto)
qed

lemma next_ready_best:
  assumes "transfer_at q i = Some t" "tt_state t = TsQueued" "running_count q < tq_max_concurrent q"
  obtains r where "next_ready q = Some r" "\<exists>j. transfer_at q j = Some r" "tt_state r = TsQueued"
    "readiness t \<le> readiness r"
proof -
  let ?queued = "filter (\<lambda>t. tt_state t = TsQueued) (map_values (tq_transfers q))"
  have t: "t \<in> set ?queued"
    using assms by (auto simp: map_values_iff transfer_at_def)
  then obtain r where r: "max_by_key readiness ?queued = Some r"
    by (cases "max_by_key readiness ?queued") (auto simp: filter_empty_conv)
  with t max_by_key_Some [OF r] have "r \<in> set ?queued" "readiness t \<le> readiness r" by auto
  with r assms(3) show ?thesis
    by (intro that [of r]) (auto simp: next_ready_def map_values_iff transfer_at_def)
qed

lemma start_accepted:
  assumes "transfer_at q i = Some t" "tt_state t = TsQueued" "running_count q < tq_max_concurrent q"
  shows "execute_transfer hex q (StartTransfer i) =
     (modify_transfer q i (tt_state_update (\<lambda>_. TsRunning)), Ok [TransferStarted i])"
  using assms
  by (simp add: execute_transfer_def decide_transfer_def decide_start_def require_transfer_def transfer_at_def)

text \<open>The planned chunk of a running transfer is accepted and brings it forward.\<close>

lemma planned_chunk:
  assumes "0 < tt_chunk_size t" "next_chunk t = Some c"
  shows "cp_offset c = tt_completed_bytes t" "0 < unat (cp_length c)"
    "unat (tt_completed_bytes t) + unat (cp_length c) \<le> unat (tt_total_bytes t)"
proof -
  let ?rest = "tt_total_bytes t - tt_completed_bytes t"
  from assms have less: "unat (tt_completed_bytes t) < unat (tt_total_bytes t)"
    and c: "c = \<lparr>cp_offset = tt_completed_bytes t, cp_length = ucast (min ?rest (ucast (tt_chunk_size t)))\<rparr>"
    by (auto simp: next_chunk_def Let_def word_less_nat_alt word_le_nat_alt split: if_splits)
  have rest: "unat ?rest = unat (tt_total_bytes t) - unat (tt_completed_bytes t)"
    using less by (simp add: unat_sub word_le_nat_alt)
  have small: "unat (min ?rest (ucast (tt_chunk_size t))) = min (unat ?rest) (unat (tt_chunk_size t))"
    by (simp add: min_def word_le_nat_alt)
  have "unat (ucast (min ?rest (ucast (tt_chunk_size t))) :: u32) = min (unat ?rest) (unat (tt_chunk_size t))"
  proof -
    have "unat (ucast w :: u32) = unat w" if "unat w < 2 ^ 32" for w :: u64
      using that by (simp add: unsigned_ucast_eq unsigned_take_bit_eq take_bit_nat_eq_self)
    moreover have "unat (tt_chunk_size t) < 2 ^ 32"
      using unsigned_less [of "tt_chunk_size t"] by simp
    ultimately show ?thesis using small by simp
  qed
  with c rest less assms(1)
  show "cp_offset c = tt_completed_bytes t" "0 < unat (cp_length c)"
    "unat (tt_completed_bytes t) + unat (cp_length c) \<le> unat (tt_total_bytes t)"
    by (simp_all add: word_less_nat_alt)
qed

lemma record_accepted:
  assumes at: "transfer_at q i = Some t" and running: "tt_state t = TsRunning"
    and chunk: "0 < tt_chunk_size t" "next_chunk t = Some c"
  shows "execute_transfer hex q (RecordChunk i (cp_offset c) (cp_length c)) =
     (modify_transfer q i (tt_completed_bytes_update (\<lambda>_. tt_completed_bytes t + ucast (cp_length c))),
      Ok [ChunkRecorded i (tt_completed_bytes t + ucast (cp_length c))])"
    and "unat (tt_completed_bytes t + ucast (cp_length c)) = unat (tt_completed_bytes t) + unat (cp_length c)"
proof -
  note planned = planned_chunk [OF chunk]
  obtain n where n: "checked_add_u64 (tt_completed_bytes t) (ucast (cp_length c)) = Some n"
    "unat n = unat (tt_completed_bytes t) + unat (cp_length c)" "n = tt_completed_bytes t + ucast (cp_length c)"
    using planned(3) unat_u64_less [of "tt_total_bytes t"]
    by (auto simp: checked_add_u64_def unat_word_ariths)
  with planned have "n \<le> tt_total_bytes t" "0 < cp_length c"
    by (simp_all add: word_le_nat_alt word_less_nat_alt)
  with at running planned(1) n show
    "execute_transfer hex q (RecordChunk i (cp_offset c) (cp_length c)) =
     (modify_transfer q i (tt_completed_bytes_update (\<lambda>_. tt_completed_bytes t + ucast (cp_length c))),
      Ok [ChunkRecorded i (tt_completed_bytes t + ucast (cp_length c))])"
    "unat (tt_completed_bytes t + ucast (cp_length c)) = unat (tt_completed_bytes t) + unat (cp_length c)"
    by (simp_all add: execute_transfer_def decide_transfer_def decide_record_def require_transfer_def
        transfer_at_def)
qed

text \<open>The adapter of the network: it records the planned chunk until no chunk is planned.\<close>

fun record_planned ::
  "(string \<Rightarrow> bytes option) \<Rightarrow> nat \<Rightarrow> TransferQueue \<Rightarrow> TgTransferId \<Rightarrow> TransferQueue"
where
  "record_planned hex 0 q i = q"
| "record_planned hex (Suc n) q i =
     (case Option.bind (transfer_at q i) next_chunk of
        None \<Rightarrow> q
      | Some c \<Rightarrow>
          record_planned hex n (fst (execute_transfer hex q (RecordChunk i (cp_offset c) (cp_length c)))) i)"

lemma record_planned_all:
  "transfer_at q i = Some t \<Longrightarrow> tt_state t = TsRunning \<Longrightarrow> 0 < tt_chunk_size t \<Longrightarrow>
     tt_completed_bytes t \<le> tt_total_bytes t \<Longrightarrow>
     unat (tt_total_bytes t) - unat (tt_completed_bytes t) \<le> n \<Longrightarrow>
     transfer_at (record_planned hex n q i) i = Some (t\<lparr>tt_completed_bytes := tt_total_bytes t\<rparr>)"
proof (induction n arbitrary: q t)
  case 0
  then have "tt_completed_bytes t = tt_total_bytes t"
    by (simp add: word_le_nat_alt word_unat_eq_iff)
  with 0 show ?case by simp
next
  case (Suc n)
  show ?case
  proof (cases "next_chunk t")
    case None
    with Suc.prems have "tt_completed_bytes t = tt_total_bytes t"
      by (auto simp: next_chunk_def Let_def split: if_splits)
    with None Suc.prems(1) show ?thesis by simp
  next
    case (Some c)
    let ?n = "tt_completed_bytes t + ucast (cp_length c)"
    note rec = record_accepted(1) [OF Suc.prems(1-3) Some, of hex] record_accepted(2) [OF Suc.prems(1-3) Some]
    note planned = planned_chunk [OF Suc.prems(3) Some]
    have "transfer_at (record_planned hex n (modify_transfer q i (tt_completed_bytes_update (\<lambda>_. ?n))) i) i =
        Some ((t\<lparr>tt_completed_bytes := ?n\<rparr>)\<lparr>tt_completed_bytes := tt_total_bytes (t\<lparr>tt_completed_bytes := ?n\<rparr>)\<rparr>)"
      using Suc.prems rec(2) planned by (intro Suc.IH) (simp_all add: word_le_nat_alt)
    with Some Suc.prems(1) rec(1) show ?thesis by simp
  qed
qed

lemma complete_accepted:
  assumes "transfer_at q i = Some t" "tt_state t = TsRunning" "tt_completed_bytes t = tt_total_bytes t"
    "normalize_optional hex sha = Ok actual" "digest_matches t actual"
  shows "execute_transfer hex q (CompleteTransfer i sha) =
     (modify_transfer q i (tt_state_update (\<lambda>_. TsCompleted actual)), Ok [TransferCompleted i actual])"
  using assms
  by (cases "tt_expected_sha256 t")
    (auto simp: execute_transfer_def decide_transfer_def decide_complete_def require_transfer_def
      transfer_at_def digest_matches_def)

section \<open>Properties\<close>

text \<open>
  C37: the transfer queue keeps its slots and its promises. Whatever commands a queue of the Telegram
  client executes from its creation, at most as many transfers run as it has slots, no transfer has
  more bytes than its file, a completed one has all of them and the expected digest where one was
  given, and a completed or canceled transfer never changes again, whatever follows.
\<close>

theorem transfer_queue_sound:
  assumes q: "q = run_transfers hex (TransferQueue_new slots) cs" and t: "transfer_at q i = Some t"
  shows "running_count q \<le> max slots 1 \<and> tt_completed_bytes t \<le> tt_total_bytes t \<and>
     (\<forall>sha. tt_state t = TsCompleted sha \<longrightarrow>
        tt_completed_bytes t = tt_total_bytes t \<and>
        (\<forall>digest. tt_expected_sha256 t = Some digest \<longrightarrow> sha = Some digest)) \<and>
     (transfer_terminal (tt_state t) \<longrightarrow> transfer_at (run_transfers hex q later) i = Some t)"
proof -
  have ok: "transfer_queue_ok q" unfolding q by (rule transfer_queue.run_inv [OF queue_ok_new])
  then have "tg_transfer_ok i t" using t by (simp add: transfer_queue_ok_def)
  moreover have "tq_max_concurrent q = max slots 1" by (simp add: q TransferQueue_new_def)
  ultimately show ?thesis
    using ok finished_run [OF ok t] by (auto simp: transfer_queue_ok_def tg_transfer_ok_def digest_matches_def)
qed

text \<open>
  A queued transfer can be carried out. In every queue that commands reach, when a slot is free and
  a transfer is queued, \<open>next_ready\<close> names a queued transfer that none precedes by priority and order
  of arrival; it can be started, recording the chunks that are planned transfers all of its bytes
  within one step for each byte, and then it can be completed with the digest that is expected.
\<close>

theorem ready_transfer_completes:
  assumes q: "q = run_transfers hex (TransferQueue_new slots) cs"
    and free: "running_count q < max slots 1"
    and t: "transfer_at q i = Some t" "tt_state t = TsQueued"
  shows "\<exists>r. next_ready q = Some r \<and> tt_state r = TsQueued \<and> readiness t \<le> readiness r \<and>
     snd (execute_transfer hex q (StartTransfer (tt_id r))) = Ok [TransferStarted (tt_id r)] \<and>
     (\<forall>sha actual. normalize_optional hex sha = Ok actual \<and> digest_matches r actual \<longrightarrow>
        transfer_at (fst (execute_transfer hex
          (record_planned hex (unat (tt_total_bytes r))
             (fst (execute_transfer hex q (StartTransfer (tt_id r)))) (tt_id r))
          (CompleteTransfer (tt_id r) sha))) (tt_id r) =
        Some (r\<lparr>tt_completed_bytes := tt_total_bytes r, tt_state := TsCompleted actual\<rparr>))"
proof -
  have ok: "transfer_queue_ok q" unfolding q by (rule transfer_queue.run_inv [OF queue_ok_new])
  have slot: "running_count q < tq_max_concurrent q"
    using free by (simp add: q TransferQueue_new_def)
  obtain r j where r: "next_ready q = Some r" "transfer_at q j = Some r" "tt_state r = TsQueued"
    "readiness t \<le> readiness r"
    using next_ready_best [OF t slot] by metis
  with ok have rok: "tg_transfer_ok j r" by (simp add: transfer_queue_ok_def)
  then have j: "tt_id r = j" by (simp add: tg_transfer_ok_def)
  note start = start_accepted [OF r(2,3) slot, of hex]
  let ?s = "modify_transfer q j (tt_state_update (\<lambda>_. TsRunning))"
  have all: "transfer_at (record_planned hex (unat (tt_total_bytes r)) ?s j) j =
      Some (r\<lparr>tt_state := TsRunning, tt_completed_bytes := tt_total_bytes r\<rparr>)"
    using record_planned_all [of ?s j "r\<lparr>tt_state := TsRunning\<rparr>" "unat (tt_total_bytes r)" hex] r(2) rok
    by (simp add: tg_transfer_ok_def)
  have "transfer_at (fst (execute_transfer hex (record_planned hex (unat (tt_total_bytes r)) ?s j)
          (CompleteTransfer j sha))) j =
        Some (r\<lparr>tt_completed_bytes := tt_total_bytes r, tt_state := TsCompleted actual\<rparr>)"
    if "normalize_optional hex sha = Ok actual" "digest_matches r actual" for sha actual
    using complete_accepted [OF all, of hex sha actual] that all by (simp add: digest_matches_def)
  with r j start show ?thesis by auto
qed

section \<open>Witnesses\<close>

text \<open>A queue of one slot and two transfers, the second one more urgent; it is carried out.\<close>

definition demo_transfers :: "TransferCommand list" where
  "demo_transfers =
     [EnqueueTransfer (TgTransferId ''a'') (MediaFileId ''f'') TgUpload NormalPriority 3 2 None,
      EnqueueTransfer (TgTransferId ''b'') (MediaFileId ''g'') TgDownload RealtimePriority 1 2 None]"

definition demo_carried_out :: "TransferCommand list" where
  "demo_carried_out =
     demo_transfers @
     [StartTransfer (TgTransferId ''b''), RecordChunk (TgTransferId ''b'') 0 1,
      CompleteTransfer (TgTransferId ''b'') None]"

definition demo_transfer_b :: TgMediaTransfer where
  "demo_transfer_b =
     \<lparr>tt_id = TgTransferId ''b'', tt_file_id = MediaFileId ''g'', tt_direction = TgDownload,
      tt_priority = RealtimePriority, tt_total_bytes = 1, tt_completed_bytes = 0, tt_chunk_size = 2,
      tt_expected_sha256 = None, tt_state = TsQueued, tt_enqueue_order = 1, tt_attempt = 0\<rparr>"

lemmas demo_queue_eval =
  demo_transfers_def demo_carried_out_def demo_transfer_b_def execute_transfer_def decide_transfer_def
  decide_enqueue_def TgTransferId_is_valid_def trim_def ws1_def ws2_def ws3_def normalize_optional_def
  TransferQueue_new_def saturating_add_u64_def

lemma demo_queued:
  "transfer_at (run_transfers (\<lambda>_. None) (TransferQueue_new 1) demo_transfers) (TgTransferId ''b'') =
     Some demo_transfer_b"
  by (simp add: demo_queue_eval transfer_at_def)

lemma demo_idle: "running_count (run_transfers (\<lambda>_. None) (TransferQueue_new 1) demo_transfers) = 0"
  by (auto simp: running_count_card running_ids_def demo_queue_eval transfer_at_def split: if_splits)

lemma demo_completed:
  "transfer_at (run_transfers (\<lambda>_. None) (TransferQueue_new 1) demo_carried_out) (TgTransferId ''b'') =
     Some (demo_transfer_b\<lparr>tt_completed_bytes := 1, tt_state := TsCompleted None\<rparr>)"
proof -
  let ?q = "run_transfers (\<lambda>_. None) (TransferQueue_new 1) demo_transfers"
  have "fst (execute_transfer (\<lambda>_. None) ?q (StartTransfer (TgTransferId ''b''))) =
      modify_transfer ?q (TgTransferId ''b'') (tt_state_update (\<lambda>_. TsRunning))"
    using start_accepted [OF demo_queued, of "\<lambda>_. None"] demo_idle
    by (simp add: demo_transfer_b_def TransferQueue_new_def)
  with demo_queued show ?thesis
    by (simp add: demo_carried_out_def execute_transfer_def [of _ _ "RecordChunk _ _ _"]
        execute_transfer_def [of _ _ "CompleteTransfer _ _"] decide_transfer_def decide_record_def
        decide_complete_def require_transfer_def transfer_at_def modify_transfer_def demo_transfer_b_def
        checked_add_u64_def normalize_optional_def)
qed

theorem transfer_queue_sound_witness:
  "running_count (run_transfers (\<lambda>_. None) (TransferQueue_new 1) demo_carried_out) \<le> 1 \<and>
   transfer_at (run_transfers (\<lambda>_. None) (run_transfers (\<lambda>_. None) (TransferQueue_new 1) demo_carried_out)
      [CancelTransfer (TgTransferId ''b'')]) (TgTransferId ''b'') =
     Some (demo_transfer_b\<lparr>tt_completed_bytes := 1, tt_state := TsCompleted None\<rparr>)"
  using transfer_queue_sound [OF refl demo_completed, of "[CancelTransfer (TgTransferId ''b'')]"]
  by simp

theorem ready_transfer_completes_witness:
  "\<exists>r. next_ready (run_transfers (\<lambda>_. None) (TransferQueue_new 1) demo_transfers) = Some r \<and>
     readiness demo_transfer_b \<le> readiness r"
  using ready_transfer_completes [OF refl _ demo_queued] demo_idle
  by (auto simp: demo_transfer_b_def)

end
