(* ===== verification/Telegram_Core.thy ===== *)
theory Telegram_Core
  imports Event_Sourcing Bytes
begin

text \<open>
  The engine of the Telegram client (\<open>telegram-core/src/domain.rs\<close> and \<open>engine.rs\<close>): chats, folders,
  messages with their delivery, drafts, typing and the requests that wait for an acknowledgement. Like
  the messaging engine it decides a command against its state and applies the events. An \<open>f64\<close> is its
  64 bits: the engine only stores it.
\<close>

section \<open>Domain\<close>

datatype AccountId = AccountId i64
datatype UserId = UserId i64
datatype ChatId = ChatId i64
datatype TgMessageId = TgMessageId (tg_message_num: i64)
datatype TgStoryId = TgStoryId i64
datatype ChatFolderId = ChatFolderId i32

lemma tg_message_num_inject: "sint (tg_message_num a) = sint (tg_message_num b) \<Longrightarrow> a = b"
  by (rule TgMessageId.expand, rule signed_word_eqI [where 'a = int]) simp

instantiation TgMessageId :: linorder
begin

definition less_eq_TgMessageId :: "TgMessageId \<Rightarrow> TgMessageId \<Rightarrow> bool" where
  "less_eq_TgMessageId a b \<longleftrightarrow> sint (tg_message_num a) \<le> sint (tg_message_num b)"

definition less_TgMessageId :: "TgMessageId \<Rightarrow> TgMessageId \<Rightarrow> bool" where
  "less_TgMessageId a b \<longleftrightarrow> sint (tg_message_num a) < sint (tg_message_num b)"

instance
  by intro_classes (auto simp: less_eq_TgMessageId_def less_TgMessageId_def intro: tg_message_num_inject)

end

datatype ClientRequestId = ClientRequestId (client_request_str: string)

definition ClientRequestId_is_valid :: "ClientRequestId \<Rightarrow> bool" where
  "ClientRequestId_is_valid r \<longleftrightarrow>
     trim (client_request_str r) \<noteq> [] \<and> length (client_request_str r) \<le> 128"

datatype ChatKind = PrivateChat | BasicGroup | Supergroup | ChannelChat | SecretChat | SavedMessages

record TgNotificationSettings =
  tns_mute_until_unix_ms :: "i64 option"
  tns_sound_id :: "string option"
  tns_show_preview :: bool

definition TgNotificationSettings_default :: TgNotificationSettings where
  "TgNotificationSettings_default =
     \<lparr>tns_mute_until_unix_ms = None, tns_sound_id = None, tns_show_preview = True\<rparr>"

datatype TgTextEntityKind =
    EntityMention | EntityHashtag | EntityCashtag | EntityBotCommand | EntityUrl | EntityEmail
  | EntityPhoneNumber | EntityBold | EntityItalic | EntityUnderline | EntityStrikethrough
  | EntitySpoiler | EntityCode
  | EntityPre "string option"
  | EntityTextUrl string
  | EntityMentionUser UserId
  | EntityCustomEmoji string

record TgTextEntity =
  te_offset_utf16 :: u32
  te_length_utf16 :: u32
  te_kind :: TgTextEntityKind

record TgFormattedText =
  ft_text :: string
  ft_entities :: "TgTextEntity list"

definition TgFormattedText_plain :: "string \<Rightarrow> TgFormattedText" where
  "TgFormattedText_plain s = \<lparr>ft_text = s, ft_entities = []\<rparr>"

record ChatDraft =
  cd_content :: TgFormattedText
  cd_reply_to_message_id :: "TgMessageId option"
  cd_updated_at_unix_ms :: i64

record ChatFolder =
  cf_id :: ChatFolderId
  cf_title :: string
  cf_icon_name :: "string option"
  cf_included_chat_ids :: "ChatId list"
  cf_excluded_chat_ids :: "ChatId list"
  cf_include_contacts :: bool
  cf_include_non_contacts :: bool
  cf_include_groups :: bool
  cf_include_channels :: bool
  cf_include_bots :: bool
  cf_exclude_muted :: bool
  cf_exclude_read :: bool
  cf_exclude_archived :: bool

record Chat =
  ch_id :: ChatId
  ch_kind :: ChatKind
  ch_title :: string
  ch_last_message_id :: "TgMessageId option"
  ch_last_read_inbox_message_id :: "TgMessageId option"
  ch_last_read_outbox_message_id :: "TgMessageId option"
  ch_unread_count :: u32
  ch_pinned_message_id :: "TgMessageId option"
  ch_notification_settings :: TgNotificationSettings
  ch_is_archived :: bool
  ch_is_marked_unread :: bool
  ch_draft :: "ChatDraft option"
  ch_folder_ids :: "ChatFolderId list"

definition Chat_new :: "ChatId \<Rightarrow> ChatKind \<Rightarrow> string \<Rightarrow> Chat" where
  "Chat_new i kind title =
     \<lparr>ch_id = i, ch_kind = kind, ch_title = title, ch_last_message_id = None,
      ch_last_read_inbox_message_id = None, ch_last_read_outbox_message_id = None, ch_unread_count = 0,
      ch_pinned_message_id = None, ch_notification_settings = TgNotificationSettings_default,
      ch_is_archived = False, ch_is_marked_unread = False, ch_draft = None, ch_folder_ids = []\<rparr>"

datatype TypingActionKind =
    Typing | RecordingVoice | RecordingVideoNote | UploadingPhoto | UploadingVideo | UploadingDocument
  | ChoosingSticker | ChoosingLocation | WatchingAnimation | SpeakingInGroupCall

record TypingAction =
  ta_user_id :: UserId
  ta_kind :: TypingActionKind
  ta_progress_percent :: "u8 option"
  ta_expires_at_unix_ms :: i64

record FileRef =
  fr_id :: string
  fr_file_name :: "string option"
  fr_mime_type :: "string option"
  fr_size_bytes :: "u64 option"
  fr_local_path :: "string option"
  fr_remote_id :: "string option"

record TgPollOption =
  tpo_text :: string
  tpo_voter_count :: u32
  tpo_is_chosen :: bool
  tpo_is_correct :: "bool option"

datatype (plugins only: code size) TgMessageContent =
    TgText TgFormattedText
  | TgPhoto FileRef TgFormattedText u32 u32 bool
  | TgVideo FileRef TgFormattedText u32 u32 u32 bool
  | TgAnimation FileRef TgFormattedText u32
  | TgAudio FileRef TgFormattedText u32 "string option" "string option"
  | TgVoiceNote FileRef u32 "u8 list" TgFormattedText
  | TgVideoNote FileRef u32 u32
  | TgDocument FileRef TgFormattedText
  | TgSticker FileRef string "string option" bool bool
  | TgPoll TgFormattedText "TgPollOption list" bool bool "TgFormattedText option"
  | TgContact string string string "UserId option"
  | TgLocation f64 f64 "u32 option"
  | TgVenue f64 f64 string string "string option" "string option"
  | TgDice string u8
  | TgStory TgStoryId bool
  | TgInvoice string string string i64
  | TgService string
  | TgUnsupported string

datatype TgDeliveryState =
    TgPending ClientRequestId
  | TgSent
  | TgFailed string bool

record ReactionCount =
  rc_reaction :: string
  rc_total_count :: u32
  rc_chosen_by_me :: bool

record TgMessage =
  tm_id :: TgMessageId
  tm_chat_id :: ChatId
  tm_sender_user_id :: UserId
  tm_date_unix_ms :: i64
  tm_edit_date_unix_ms :: "i64 option"
  tm_content :: TgMessageContent
  tm_reply_to_message_id :: "TgMessageId option"
  tm_message_thread_id :: "TgMessageId option"
  tm_delivery_state :: TgDeliveryState
  tm_reactions :: "ReactionCount list"
  tm_is_outgoing :: bool
  tm_is_pinned :: bool
  tm_is_deleted :: bool

section \<open>Commands, events and state\<close>

datatype (plugins only: code size) TgCommand =
    UpsertChat Chat
  | UpsertChatFolder ChatFolder
  | DeleteChatFolder ChatFolderId
  | SetChatDraft ChatId "ChatDraft option"
  | SetChatMarkedUnread ChatId bool
  | SetTypingActions ChatId "TypingAction list"
  | UpsertRemoteMessage TgMessage
  | SetMessageReaction ChatId TgMessageId ReactionCount
  | TgQueueMessage ChatId TgMessageId UserId ClientRequestId i64 TgMessageContent
      "TgMessageId option" "TgMessageId option"
  | TgAcknowledgeMessage ClientRequestId TgMessageId i64
  | FailMessage ClientRequestId string bool
  | TgEditMessage ChatId TgMessageId TgMessageContent i64
  | TgDeleteMessages ChatId "TgMessageId list"
  | SetChatRead ChatId TgMessageId u32
  | SetPinnedMessage ChatId "TgMessageId option"

datatype (plugins only: code size) TgEvent =
    ChatUpserted Chat
  | ChatFolderUpserted ChatFolder
  | ChatFolderDeleted ChatFolderId
  | ChatDraftUpdated ChatId "ChatDraft option"
  | ChatMarkedUnreadUpdated ChatId bool
  | TypingActionsUpdated ChatId "TypingAction list"
  | RemoteMessageUpserted TgMessage
  | MessageReactionUpdated ChatId TgMessageId ReactionCount
  | TgMessageQueued TgMessage
  | TgMessageAcknowledged ChatId TgMessageId TgMessageId i64
  | TgMessageFailed ChatId TgMessageId string bool
  | TgMessageEdited ChatId TgMessageId TgMessageContent i64
  | TgMessagesDeleted ChatId "TgMessageId list"
  | ChatReadUpdated ChatId TgMessageId u32
  | PinnedMessageUpdated ChatId "TgMessageId option"

record TelegramState =
  tg_chats :: "(ChatId, Chat) fmap"
  tg_chat_folders :: "(ChatFolderId, ChatFolder) fmap"
  tg_messages :: "(ChatId \<times> TgMessageId, TgMessage) fmap"
  tg_pending_requests :: "(ClientRequestId, ChatId \<times> TgMessageId) fmap"
  tg_typing_actions :: "(ChatId, TypingAction list) fmap"

definition TelegramState_default :: TelegramState where
  "TelegramState_default =
     \<lparr>tg_chats = fmempty, tg_chat_folders = fmempty, tg_messages = fmempty,
      tg_pending_requests = fmempty, tg_typing_actions = fmempty\<rparr>"

datatype TgEngineError =
    ChatNotFound ChatId
  | TgMessageNotFound ChatId TgMessageId
  | TgDuplicateMessage ChatId TgMessageId
  | InvalidClientRequestId
  | DuplicateClientRequest ClientRequestId
  | PendingRequestNotFound ClientRequestId
  | DuplicateServerMessage ChatId TgMessageId
  | EmptyMessageList
  | ChatFolderNotFound ChatFolderId
  | InvalidRemoteMessageState
  | InvalidReaction

type_synonym tg_decision = "(TgEvent list, TgEngineError) result"

section \<open>Decisions\<close>

definition require_chat :: "TelegramState \<Rightarrow> ChatId \<Rightarrow> (Chat, TgEngineError) result" where
  "require_chat s c = ok_or (ChatNotFound c) (fmlookup (tg_chats s) c)"

definition require_tg_message :: "TelegramState \<Rightarrow> ChatId \<Rightarrow> TgMessageId \<Rightarrow> (TgMessage, TgEngineError) result" where
  "require_tg_message s c m = ok_or (TgMessageNotFound c m) (fmlookup (tg_messages s) (c, m))"

definition in_chat :: "TelegramState \<Rightarrow> ChatId \<Rightarrow> TgEvent \<Rightarrow> tg_decision" where
  "in_chat s c ev = and_then (require_chat s c) (\<lambda>_. Ok [ev])"

definition decide_remote_message :: "TelegramState \<Rightarrow> TgMessage \<Rightarrow> tg_decision" where
  "decide_remote_message s m =
     and_then (require_chat s (tm_chat_id m)) (\<lambda>_.
       if tm_delivery_state m \<noteq> TgSent then Err InvalidRemoteMessageState
       else Ok [RemoteMessageUpserted m])"

definition decide_message_reaction :: "TelegramState \<Rightarrow> ChatId \<Rightarrow> TgMessageId \<Rightarrow> ReactionCount \<Rightarrow> tg_decision" where
  "decide_message_reaction s c m r =
     and_then (require_tg_message s c m) (\<lambda>_.
       if is_blank (rc_reaction r) then Err InvalidReaction
       else Ok [MessageReactionUpdated c m r])"

definition decide_queue_message ::
  "TelegramState \<Rightarrow> ChatId \<Rightarrow> TgMessageId \<Rightarrow> UserId \<Rightarrow> ClientRequestId \<Rightarrow> i64 \<Rightarrow> TgMessageContent \<Rightarrow>
   TgMessageId option \<Rightarrow> TgMessageId option \<Rightarrow> tg_decision"
where
  "decide_queue_message s c m sender rid date content reply thread =
     and_then (require_chat s c) (\<lambda>_.
       if contains_key (tg_messages s) (c, m) then Err (TgDuplicateMessage c m)
       else if \<not> ClientRequestId_is_valid rid then Err InvalidClientRequestId
       else if contains_key (tg_pending_requests s) rid then Err (DuplicateClientRequest rid)
       else Ok [TgMessageQueued
         \<lparr>tm_id = m, tm_chat_id = c, tm_sender_user_id = sender, tm_date_unix_ms = date,
          tm_edit_date_unix_ms = None, tm_content = content, tm_reply_to_message_id = reply,
          tm_message_thread_id = thread, tm_delivery_state = TgPending rid, tm_reactions = [],
          tm_is_outgoing = True, tm_is_pinned = False, tm_is_deleted = False\<rparr>])"

definition decide_acknowledge :: "TelegramState \<Rightarrow> ClientRequestId \<Rightarrow> TgMessageId \<Rightarrow> i64 \<Rightarrow> tg_decision" where
  "decide_acknowledge s rid server date =
     and_then (ok_or (PendingRequestNotFound rid) (fmlookup (tg_pending_requests s) rid)) (\<lambda>(c, m).
       if server \<noteq> m \<and> contains_key (tg_messages s) (c, server) then Err (DuplicateServerMessage c server)
       else Ok [TgMessageAcknowledged c m server date])"

definition decide_fail :: "TelegramState \<Rightarrow> ClientRequestId \<Rightarrow> string \<Rightarrow> bool \<Rightarrow> tg_decision" where
  "decide_fail s rid code retryable =
     and_then (ok_or (PendingRequestNotFound rid) (fmlookup (tg_pending_requests s) rid)) (\<lambda>(c, m).
       Ok [TgMessageFailed c m code retryable])"

definition decide_edit :: "TelegramState \<Rightarrow> ChatId \<Rightarrow> TgMessageId \<Rightarrow> TgMessageContent \<Rightarrow> i64 \<Rightarrow> tg_decision" where
  "decide_edit s c m content date =
     and_then (require_tg_message s c m) (\<lambda>_. Ok [TgMessageEdited c m content date])"

definition decide_delete :: "TelegramState \<Rightarrow> ChatId \<Rightarrow> TgMessageId list \<Rightarrow> tg_decision" where
  "decide_delete s c ms =
     and_then (require_chat s c) (\<lambda>_.
       let unique = sorted_list_of_set (set ms) in
       if unique = [] then Err EmptyMessageList
       else and_then (try_all (\<lambda>m. and_then (require_tg_message s c m) (\<lambda>_. Ok ())) unique) (\<lambda>_.
         Ok [TgMessagesDeleted c unique]))"

definition decide_read :: "TelegramState \<Rightarrow> ChatId \<Rightarrow> TgMessageId \<Rightarrow> u32 \<Rightarrow> tg_decision" where
  "decide_read s c m unread =
     and_then (require_chat s c) (\<lambda>chat.
       if (case ch_last_read_inbox_message_id chat of None \<Rightarrow> False | Some current \<Rightarrow> m \<le> current) \<and>
          ch_unread_count chat = unread
       then Ok []
       else Ok [ChatReadUpdated c m unread])"

definition decide_pin :: "TelegramState \<Rightarrow> ChatId \<Rightarrow> TgMessageId option \<Rightarrow> tg_decision" where
  "decide_pin s c m =
     and_then (require_chat s c) (\<lambda>chat.
       and_then (case m of None \<Rightarrow> Ok () | Some i \<Rightarrow> and_then (require_tg_message s c i) (\<lambda>_. Ok ())) (\<lambda>_.
         if ch_pinned_message_id chat = m then Ok [] else Ok [PinnedMessageUpdated c m]))"

primrec tg_decide :: "TelegramState \<Rightarrow> TgCommand \<Rightarrow> tg_decision" where
  "tg_decide s (UpsertChat chat) = Ok [ChatUpserted chat]"
| "tg_decide s (UpsertChatFolder folder) = Ok [ChatFolderUpserted folder]"
| "tg_decide s (DeleteChatFolder f) =
     (if \<not> contains_key (tg_chat_folders s) f then Err (ChatFolderNotFound f) else Ok [ChatFolderDeleted f])"
| "tg_decide s (SetChatDraft c draft) = in_chat s c (ChatDraftUpdated c draft)"
| "tg_decide s (SetChatMarkedUnread c unread) = in_chat s c (ChatMarkedUnreadUpdated c unread)"
| "tg_decide s (SetTypingActions c actions) = in_chat s c (TypingActionsUpdated c actions)"
| "tg_decide s (UpsertRemoteMessage m) = decide_remote_message s m"
| "tg_decide s (SetMessageReaction c m r) = decide_message_reaction s c m r"
| "tg_decide s (TgQueueMessage c m sender rid date content reply thread) =
     decide_queue_message s c m sender rid date content reply thread"
| "tg_decide s (TgAcknowledgeMessage rid server date) = decide_acknowledge s rid server date"
| "tg_decide s (FailMessage rid code retryable) = decide_fail s rid code retryable"
| "tg_decide s (TgEditMessage c m content date) = decide_edit s c m content date"
| "tg_decide s (TgDeleteMessages c ms) = decide_delete s c ms"
| "tg_decide s (SetChatRead c m unread) = decide_read s c m unread"
| "tg_decide s (SetPinnedMessage c m) = decide_pin s c m"

section \<open>Events\<close>

definition modify_chat :: "TelegramState \<Rightarrow> ChatId \<Rightarrow> (Chat \<Rightarrow> Chat) \<Rightarrow> TelegramState" where
  "modify_chat s c f = s\<lparr>tg_chats := fm_modify c f (tg_chats s)\<rparr>"

definition modify_tg_message ::
  "TelegramState \<Rightarrow> ChatId \<Rightarrow> TgMessageId \<Rightarrow> (TgMessage \<Rightarrow> TgMessage) \<Rightarrow> TelegramState"
where
  "modify_tg_message s c m f = s\<lparr>tg_messages := fm_modify (c, m) f (tg_messages s)\<rparr>"

definition store_message :: "TelegramState \<Rightarrow> TgMessage \<Rightarrow> TelegramState" where
  "store_message s m = s\<lparr>tg_messages := fmupd (tm_chat_id m, tm_id m) m (tg_messages s)\<rparr>"

text \<open>\<open>if let Pending { client_request_id } = state { pending_requests.remove(client_request_id) }\<close>\<close>

definition release_request :: "TelegramState \<Rightarrow> TgDeliveryState \<Rightarrow> TelegramState" where
  "release_request s d =
     (case d of TgPending rid \<Rightarrow> s\<lparr>tg_pending_requests := fmdrop rid (tg_pending_requests s)\<rparr> | _ \<Rightarrow> s)"

definition tg_apply_folder_deleted :: "TelegramState \<Rightarrow> ChatFolderId \<Rightarrow> TelegramState" where
  "tg_apply_folder_deleted s f =
     s\<lparr>tg_chat_folders := fmdrop f (tg_chat_folders s),
       tg_chats := fmmap (ch_folder_ids_update (filter (\<lambda>i. i \<noteq> f))) (tg_chats s)\<rparr>"

definition tg_apply_reaction :: "TelegramState \<Rightarrow> ChatId \<Rightarrow> TgMessageId \<Rightarrow> ReactionCount \<Rightarrow> TelegramState" where
  "tg_apply_reaction s c m r =
     modify_tg_message s c m (tm_reactions_update (\<lambda>rs.
       filter (\<lambda>x. rc_reaction x \<noteq> rc_reaction r) rs @ (if 0 < rc_total_count r then [r] else [])))"

definition tg_apply_queued :: "TelegramState \<Rightarrow> TgMessage \<Rightarrow> TelegramState" where
  "tg_apply_queued s m =
     (let s1 = (case tm_delivery_state m of
            TgPending rid \<Rightarrow>
              s\<lparr>tg_pending_requests := fmupd rid (tm_chat_id m, tm_id m) (tg_pending_requests s)\<rparr>
          | _ \<Rightarrow> s)
      in store_message (modify_chat s1 (tm_chat_id m) (ch_last_message_id_update (\<lambda>_. Some (tm_id m)))) m)"

definition tg_apply_acknowledged ::
  "TelegramState \<Rightarrow> ChatId \<Rightarrow> TgMessageId \<Rightarrow> TgMessageId \<Rightarrow> i64 \<Rightarrow> TelegramState"
where
  "tg_apply_acknowledged s c loc server date =
     (case fmlookup (tg_messages s) (c, loc) of
        None \<Rightarrow> s
      | Some m \<Rightarrow>
          let s1 = release_request (s\<lparr>tg_messages := fmdrop (c, loc) (tg_messages s)\<rparr>) (tm_delivery_state m);
              m1 = m\<lparr>tm_id := server, tm_date_unix_ms := date, tm_delivery_state := TgSent\<rparr>;
              s2 = s1\<lparr>tg_messages := fmupd (c, server) m1 (tg_messages s1)\<rparr>
          in modify_chat s2 c (\<lambda>chat.
               if ch_last_message_id chat = Some loc then chat\<lparr>ch_last_message_id := Some server\<rparr> else chat))"

definition tg_apply_failed :: "TelegramState \<Rightarrow> ChatId \<Rightarrow> TgMessageId \<Rightarrow> string \<Rightarrow> bool \<Rightarrow> TelegramState" where
  "tg_apply_failed s c m code retryable =
     (case fmlookup (tg_messages s) (c, m) of
        None \<Rightarrow> s
      | Some msg \<Rightarrow>
          modify_tg_message (release_request s (tm_delivery_state msg)) c m
            (tm_delivery_state_update (\<lambda>_. TgFailed code retryable)))"

definition tg_apply_deleted_one :: "ChatId \<Rightarrow> TelegramState \<Rightarrow> TgMessageId \<Rightarrow> TelegramState" where
  "tg_apply_deleted_one c s m =
     (case fmlookup (tg_messages s) (c, m) of
        None \<Rightarrow> s
      | Some msg \<Rightarrow>
          release_request (modify_tg_message s c m (tm_is_deleted_update (\<lambda>_. True))) (tm_delivery_state msg))"

definition tg_apply_read :: "TelegramState \<Rightarrow> ChatId \<Rightarrow> TgMessageId \<Rightarrow> u32 \<Rightarrow> TelegramState" where
  "tg_apply_read s c m unread =
     modify_chat s c (\<lambda>chat.
       (if (case ch_last_read_inbox_message_id chat of None \<Rightarrow> True | Some current \<Rightarrow> current \<le> m)
        then chat\<lparr>ch_last_read_inbox_message_id := Some m\<rparr> else chat)\<lparr>ch_unread_count := unread\<rparr>)"

definition tg_set_pinned :: "TelegramState \<Rightarrow> ChatId \<Rightarrow> TgMessageId option \<Rightarrow> bool \<Rightarrow> TelegramState" where
  "tg_set_pinned s c m pinned =
     (case m of None \<Rightarrow> s | Some i \<Rightarrow> modify_tg_message s c i (tm_is_pinned_update (\<lambda>_. pinned)))"

definition tg_apply_pinned :: "TelegramState \<Rightarrow> ChatId \<Rightarrow> TgMessageId option \<Rightarrow> TelegramState" where
  "tg_apply_pinned s c m =
     (case fmlookup (tg_chats s) c of
        None \<Rightarrow> s
      | Some chat \<Rightarrow>
          tg_set_pinned
            (modify_chat (tg_set_pinned s c (ch_pinned_message_id chat) False) c (ch_pinned_message_id_update (\<lambda>_. m)))
            c m True)"

primrec tg_apply :: "TelegramState \<Rightarrow> TgEvent \<Rightarrow> TelegramState" where
  "tg_apply s (ChatUpserted chat) = s\<lparr>tg_chats := fmupd (ch_id chat) chat (tg_chats s)\<rparr>"
| "tg_apply s (ChatFolderUpserted f) = s\<lparr>tg_chat_folders := fmupd (cf_id f) f (tg_chat_folders s)\<rparr>"
| "tg_apply s (ChatFolderDeleted f) = tg_apply_folder_deleted s f"
| "tg_apply s (ChatDraftUpdated c draft) = modify_chat s c (ch_draft_update (\<lambda>_. draft))"
| "tg_apply s (ChatMarkedUnreadUpdated c unread) = modify_chat s c (ch_is_marked_unread_update (\<lambda>_. unread))"
| "tg_apply s (TypingActionsUpdated c actions) =
     (if actions = [] then s\<lparr>tg_typing_actions := fmdrop c (tg_typing_actions s)\<rparr>
      else s\<lparr>tg_typing_actions := fmupd c actions (tg_typing_actions s)\<rparr>)"
| "tg_apply s (RemoteMessageUpserted m) =
     store_message (modify_chat s (tm_chat_id m) (ch_last_message_id_update (\<lambda>_. Some (tm_id m)))) m"
| "tg_apply s (MessageReactionUpdated c m r) = tg_apply_reaction s c m r"
| "tg_apply s (TgMessageQueued m) = tg_apply_queued s m"
| "tg_apply s (TgMessageAcknowledged c m server date) = tg_apply_acknowledged s c m server date"
| "tg_apply s (TgMessageFailed c m code retryable) = tg_apply_failed s c m code retryable"
| "tg_apply s (TgMessageEdited c m content date) =
     modify_tg_message s c m (\<lambda>x. x\<lparr>tm_content := content, tm_edit_date_unix_ms := Some date\<rparr>)"
| "tg_apply s (TgMessagesDeleted c ms) = foldl (tg_apply_deleted_one c) s ms"
| "tg_apply s (ChatReadUpdated c m unread) = tg_apply_read s c m unread"
| "tg_apply s (PinnedMessageUpdated c m) = tg_apply_pinned s c m"

definition tg_execute :: "TelegramState \<Rightarrow> TgCommand \<Rightarrow> TelegramState \<times> tg_decision" where
  "tg_execute s command =
     (case tg_decide s command of
        Inl e \<Rightarrow> (s, Err e)
      | Inr events \<Rightarrow> (foldl tg_apply s events, Ok events))"

interpretation telegram: event_sourced tg_decide tg_apply tg_execute
  by unfold_locales (simp_all add: tg_execute_def)

end
