(* ===== verification/Telegram_Delivery.thy ===== *)
theory Telegram_Delivery
  imports Telegram_Core
begin

text \<open>
  Delivery of messages by the engine of \<open>Telegram_Core\<close>: the tables keep their keys, the requests
  that wait are exactly those of pending messages, an acknowledgement delivers one message once, and
  no message is lost. A request can become stale in two ways, which the condition \<open>careful\<close> names.
\<close>

section \<open>Keys\<close>

definition tg_keys_ok :: "TelegramState \<Rightarrow> bool" where
  "tg_keys_ok s \<longleftrightarrow>
     (\<forall>c chat. fmlookup (tg_chats s) c = Some chat \<longrightarrow> ch_id chat = c) \<and>
     (\<forall>f folder. fmlookup (tg_chat_folders s) f = Some folder \<longrightarrow> cf_id folder = f) \<and>
     (\<forall>c m msg. fmlookup (tg_messages s) (c, m) = Some msg \<longrightarrow>
        tm_chat_id msg = c \<and> tm_id msg = m \<and> contains_key (tg_chats s) c)"

text \<open>What a decision promises of its event.\<close>

definition pending_at :: "TelegramState \<Rightarrow> ClientRequestId \<Rightarrow> (ChatId \<times> TgMessageId) option" where
  "pending_at s rid = fmlookup (tg_pending_requests s) rid"

definition message_at :: "TelegramState \<Rightarrow> ChatId \<times> TgMessageId \<Rightarrow> TgMessage option" where
  "message_at s k = fmlookup (tg_messages s) k"

definition tg_event_ok :: "TelegramState \<Rightarrow> TgEvent \<Rightarrow> bool" where
  "tg_event_ok s ev =
     (case ev of
        RemoteMessageUpserted m \<Rightarrow> contains_key (tg_chats s) (tm_chat_id m) \<and> tm_delivery_state m = TgSent
      | TgMessageQueued m \<Rightarrow>
          contains_key (tg_chats s) (tm_chat_id m) \<and> message_at s (tm_chat_id m, tm_id m) = None \<and>
          \<not> tm_is_deleted m \<and> (\<exists>rid. tm_delivery_state m = TgPending rid \<and> pending_at s rid = None)
      | TgMessageAcknowledged c m server date \<Rightarrow>
          (\<exists>rid. pending_at s rid = Some (c, m)) \<and> (server = m \<or> message_at s (c, server) = None)
      | TgMessageFailed c m code retryable \<Rightarrow> \<exists>rid. pending_at s rid = Some (c, m)
      | TgMessagesDeleted c ms \<Rightarrow> distinct ms \<and> (\<forall>m \<in> set ms. message_at s (c, m) \<noteq> None)
      | _ \<Rightarrow> True)"

lemma require_chat_Ok [result_simps]: "require_chat s c = Inr chat \<longleftrightarrow> fmlookup (tg_chats s) c = Some chat"
  by (simp add: require_chat_def result_simps)

lemma require_tg_message_Ok [result_simps]: "require_tg_message s c m = Inr msg \<longleftrightarrow> message_at s (c, m) = Some msg"
  by (simp add: require_tg_message_def message_at_def result_simps)

lemma in_chat_Ok [result_simps]: "in_chat s c ev = Inr evs \<longleftrightarrow> contains_key (tg_chats s) c \<and> evs = [ev]"
  by (auto simp: in_chat_def contains_key_def result_simps)

lemma queue_promise:
  "decide_queue_message s c m sender rid date content reply thread = Inr evs \<Longrightarrow>
     all_ok tg_event_ok tg_apply s evs"
  by (auto simp: decide_queue_message_def tg_event_ok_def result_simps contains_key_def message_at_def pending_at_def
      simp del: not_None_eq)

lemma acknowledge_promise:
  "decide_acknowledge s rid server date = Inr evs \<Longrightarrow> all_ok tg_event_ok tg_apply s evs"
  by (auto simp: decide_acknowledge_def tg_event_ok_def result_simps contains_key_def message_at_def
      pending_at_def split: if_splits)

lemma delete_promise: "decide_delete s c ms = Inr evs \<Longrightarrow> all_ok tg_event_ok tg_apply s evs"
  by (auto simp: decide_delete_def tg_event_ok_def Let_def result_simps)

lemma tg_decide_promise:
  assumes "tg_decide s c = Inr evs"
  shows "all_ok tg_event_ok tg_apply s evs"
  using assms
  by (cases c)
    (auto simp: queue_promise acknowledge_promise delete_promise result_simps decide_remote_message_def
      decide_message_reaction_def decide_fail_def decide_edit_def decide_read_def decide_pin_def
      tg_event_ok_def pending_at_def contains_key_def split: if_splits)

lemma tg_messages_helpers [simp]:
  "tg_messages (modify_chat s c f) = tg_messages s"
  "tg_messages (release_request s d) = tg_messages s"
  "tg_messages (store_message s m) = fmupd (tm_chat_id m, tm_id m) m (tg_messages s)"
  "tg_messages (modify_tg_message s c i g) = fm_modify (c, i) g (tg_messages s)"
  by (simp_all add: modify_chat_def release_request_def store_message_def modify_tg_message_def
      split: TgDeliveryState.splits)

lemma tg_chats_helpers [simp]:
  "tg_chats (modify_chat s c f) = fm_modify c f (tg_chats s)"
  "tg_chats (release_request s d) = tg_chats s"
  "tg_chats (store_message s m) = tg_chats s"
  "tg_chats (modify_tg_message s c i g) = tg_chats s"
  "tg_chats (tg_set_pinned s c p b) = tg_chats s"
  by (simp_all add: modify_chat_def release_request_def store_message_def modify_tg_message_def tg_set_pinned_def
      split: TgDeliveryState.splits option.splits)

lemma tg_folders_helpers [simp]:
  "tg_chat_folders (modify_chat s c f) = tg_chat_folders s"
  "tg_chat_folders (release_request s d) = tg_chat_folders s"
  "tg_chat_folders (store_message s m) = tg_chat_folders s"
  "tg_chat_folders (modify_tg_message s c i g) = tg_chat_folders s"
  "tg_chat_folders (tg_set_pinned s c p b) = tg_chat_folders s"
  by (simp_all add: modify_chat_def release_request_def store_message_def modify_tg_message_def tg_set_pinned_def
      split: TgDeliveryState.splits option.splits)

lemma tg_pending_helpers [simp]:
  "tg_pending_requests (modify_chat s c f) = tg_pending_requests s"
  "tg_pending_requests (store_message s m) = tg_pending_requests s"
  "tg_pending_requests (modify_tg_message s c i g) = tg_pending_requests s"
  "tg_pending_requests (tg_set_pinned s c p b) = tg_pending_requests s"
  "tg_pending_requests (release_request s d) =
     (case d of TgPending rid \<Rightarrow> fmdrop rid (tg_pending_requests s) | _ \<Rightarrow> tg_pending_requests s)"
  by (simp_all add: modify_chat_def release_request_def store_message_def modify_tg_message_def tg_set_pinned_def
      split: TgDeliveryState.splits option.splits)

text \<open>Keys follow from what happens to the tables of chats and messages.\<close>

lemma tg_keys_modify_chat:
  "tg_keys_ok s \<Longrightarrow> (\<And>chat. ch_id (f chat) = ch_id chat) \<Longrightarrow> tg_keys_ok (modify_chat s c f)"
  by (auto simp: tg_keys_ok_def split: if_splits)

lemma tg_keys_modify_message:
  "tg_keys_ok s \<Longrightarrow> (\<And>m. tm_id (g m) = tm_id m \<and> tm_chat_id (g m) = tm_chat_id m) \<Longrightarrow>
     tg_keys_ok (modify_tg_message s c i g)"
  by (auto simp: tg_keys_ok_def split: if_splits)

lemma tg_keys_store:
  "tg_keys_ok s \<Longrightarrow> contains_key (tg_chats s) (tm_chat_id m) \<Longrightarrow> tg_keys_ok (store_message s m)"
  by (auto simp: tg_keys_ok_def)

lemma tg_keys_release: "tg_keys_ok s \<Longrightarrow> tg_keys_ok (release_request s d)"
  by (simp add: tg_keys_ok_def)

lemma tg_keys_set_pinned: "tg_keys_ok s \<Longrightarrow> tg_keys_ok (tg_set_pinned s c p b)"
  by (auto simp: tg_set_pinned_def intro: tg_keys_modify_message split: option.splits)

lemma tg_keys_acknowledged: "tg_keys_ok s \<Longrightarrow> tg_keys_ok (tg_apply_acknowledged s c m server date)"
  unfolding tg_apply_acknowledged_def Let_def
  by (auto split: option.splits intro!: tg_keys_modify_chat)
    (auto simp: tg_keys_ok_def)

lemma tg_keys_deleted_one: "tg_keys_ok s \<Longrightarrow> tg_keys_ok (tg_apply_deleted_one c s m)"
  by (auto simp: tg_apply_deleted_one_def intro!: tg_keys_release tg_keys_modify_message split: option.splits)

lemma tg_keys_deleted: "tg_keys_ok s \<Longrightarrow> tg_keys_ok (foldl (tg_apply_deleted_one c) s ms)"
  by (induction ms arbitrary: s) (simp_all add: tg_keys_deleted_one)

lemma tg_keys_folder_deleted: "tg_keys_ok s \<Longrightarrow> tg_keys_ok (tg_apply_folder_deleted s f)"
  by (auto simp: tg_keys_ok_def tg_apply_folder_deleted_def contains_key_def)

lemma tg_keys_queued:
  "tg_keys_ok s \<Longrightarrow> contains_key (tg_chats s) (tm_chat_id m) \<Longrightarrow> tg_keys_ok (tg_apply_queued s m)"
  unfolding tg_apply_queued_def Let_def
  by (intro tg_keys_store tg_keys_modify_chat) (auto simp: tg_keys_ok_def split: TgDeliveryState.splits)

lemmas tg_keys_rules =
  tg_keys_modify_chat tg_keys_modify_message tg_keys_store tg_keys_release tg_keys_set_pinned
  tg_keys_acknowledged tg_keys_deleted tg_keys_folder_deleted tg_keys_queued

lemma tg_keys_apply: "tg_keys_ok s \<Longrightarrow> tg_event_ok s ev \<Longrightarrow> tg_keys_ok (tg_apply s ev)"
  by (cases ev)
    (auto simp: tg_event_ok_def tg_apply_reaction_def tg_apply_failed_def tg_apply_read_def tg_apply_pinned_def
      intro!: tg_keys_rules split: option.splits,
     auto simp: tg_keys_ok_def)

interpretation telegram_keys: event_invariant tg_decide tg_apply tg_execute tg_keys_ok tg_event_ok
  by unfold_locales (simp_all add: tg_decide_promise tg_keys_apply)

lemma tg_keys_default: "tg_keys_ok TelegramState_default"
  by (simp add: tg_keys_ok_def TelegramState_default_def)

section \<open>Requests that wait\<close>

text \<open>What the requests depend on: the delivery of a message and whether it is deleted.\<close>

definition delivery_view :: "TelegramState \<Rightarrow> ChatId \<times> TgMessageId \<Rightarrow> (TgDeliveryState \<times> bool) option" where
  "delivery_view s k = map_option (\<lambda>m. (tm_delivery_state m, tm_is_deleted m)) (fmlookup (tg_messages s) k)"

definition requests_ok :: "TelegramState \<Rightarrow> bool" where
  "requests_ok s \<longleftrightarrow>
     (\<forall>rid k. fmlookup (tg_pending_requests s) rid = Some k \<longleftrightarrow> delivery_view s k = Some (TgPending rid, False))"

lemma requests_ok_cong:
  "requests_ok s \<Longrightarrow> tg_pending_requests t = tg_pending_requests s \<Longrightarrow>
     (\<And>k. delivery_view t k = delivery_view s k) \<Longrightarrow> requests_ok t"
  by (simp add: requests_ok_def)

lemma delivery_view_messages: "tg_messages t = tg_messages s \<Longrightarrow> delivery_view t = delivery_view s"
  by (rule ext) (simp add: delivery_view_def)

lemma delivery_view_modify:
  "(\<And>m. tm_delivery_state (g m) = tm_delivery_state m \<and> tm_is_deleted (g m) = tm_is_deleted m) \<Longrightarrow>
     delivery_view (modify_tg_message s c i g) k = delivery_view s k"
  by (simp add: delivery_view_def option.map_comp o_def)

lemma delivery_view_set_pinned: "delivery_view (tg_set_pinned s c p b) k = delivery_view s k"
  by (simp add: tg_set_pinned_def delivery_view_modify split: option.splits)

lemma requests_keep_request:
  "requests_ok s \<Longrightarrow> tg_pending_requests t = fmdrop rid (tg_pending_requests s) \<Longrightarrow>
     fmlookup (tg_pending_requests s) rid = Some k \<Longrightarrow>
     (\<And>j. j \<noteq> k \<Longrightarrow> delivery_view t j = delivery_view s j \<or>
        (\<exists>d b. delivery_view t j = Some (d, b) \<and> (\<forall>r. d \<noteq> TgPending r) \<and> delivery_view s j = None)) \<Longrightarrow>
     (\<And>r. delivery_view t k \<noteq> Some (TgPending r, False)) \<Longrightarrow> requests_ok t"
  unfolding requests_ok_def by (simp del: split_paired_All split_paired_Ex) (metis TgDeliveryState.inject(1) fst_conv option.distinct(1) option.inject prod.inject)

definition careful :: "TelegramState \<Rightarrow> TgCommand \<Rightarrow> bool" where
  "careful s c =
     (case c of
        UpsertRemoteMessage m \<Rightarrow> \<forall>rid. pending_at s rid \<noteq> Some (tm_chat_id m, tm_id m)
      | TgDeleteMessages chat ms \<Rightarrow>
          \<forall>m \<in> set ms. \<forall>msg. message_at s (chat, m) = Some msg \<longrightarrow> \<not> tm_is_deleted msg
      | _ \<Rightarrow> True)"

lemma requests_acknowledged:
  assumes ok: "requests_ok s" and ev: "tg_event_ok s (TgMessageAcknowledged c m server date)"
  shows "requests_ok (tg_apply_acknowledged s c m server date)"
proof -
  from ev obtain rid where rid: "fmlookup (tg_pending_requests s) rid = Some (c, m)"
    and server: "server = m \<or> fmlookup (tg_messages s) (c, server) = None"
    by (auto simp: tg_event_ok_def pending_at_def message_at_def)
  with ok obtain msg where msg: "fmlookup (tg_messages s) (c, m) = Some msg" "tm_delivery_state msg = TgPending rid"
    by (auto simp: requests_ok_def delivery_view_def)
  let ?t = "tg_apply_acknowledged s c m server date"
  show ?thesis
  proof (rule requests_keep_request [OF ok _ rid])
    show "tg_pending_requests ?t = fmdrop rid (tg_pending_requests s)"
      using msg by (simp add: tg_apply_acknowledged_def Let_def)
    show "delivery_view ?t (c, m) \<noteq> Some (TgPending r, False)" for r
      using msg by (simp add: tg_apply_acknowledged_def Let_def delivery_view_def)
    show "delivery_view ?t j = delivery_view s j \<or>
        (\<exists>d b. delivery_view ?t j = Some (d, b) \<and> (\<forall>r. d \<noteq> TgPending r) \<and> delivery_view s j = None)"
      if "j \<noteq> (c, m)" for j
      using msg server that by (cases "j = (c, server)") (auto simp: tg_apply_acknowledged_def Let_def delivery_view_def)
  qed
qed

lemma requests_failed:
  assumes ok: "requests_ok s" and ev: "tg_event_ok s (TgMessageFailed c m code retryable)"
  shows "requests_ok (tg_apply_failed s c m code retryable)"
proof -
  from ev obtain rid where rid: "fmlookup (tg_pending_requests s) rid = Some (c, m)"
    by (auto simp: tg_event_ok_def pending_at_def)
  with ok obtain msg where msg: "fmlookup (tg_messages s) (c, m) = Some msg" "tm_delivery_state msg = TgPending rid"
    by (auto simp: requests_ok_def delivery_view_def)
  show ?thesis
    by (rule requests_keep_request [OF ok _ rid]) (use msg in \<open>auto simp: tg_apply_failed_def delivery_view_def\<close>)
qed

lemma requests_deleted_one:
  assumes ok: "requests_ok s" and msg: "fmlookup (tg_messages s) (c, m) = Some msg" "\<not> tm_is_deleted msg"
  shows "requests_ok (tg_apply_deleted_one c s m)"
proof (cases "\<exists>rid. tm_delivery_state msg = TgPending rid")
  case True
  then obtain rid where d: "tm_delivery_state msg = TgPending rid" by blast
  with ok msg have rid: "fmlookup (tg_pending_requests s) rid = Some (c, m)"
    by (auto simp: requests_ok_def delivery_view_def)
  show ?thesis
    by (rule requests_keep_request [OF ok _ rid]) (use msg d in \<open>auto simp: tg_apply_deleted_one_def delivery_view_def\<close>)
next
  case False
  with msg ok show ?thesis
    by (cases "tm_delivery_state msg")
      (auto simp: requests_ok_def tg_apply_deleted_one_def delivery_view_def split: if_splits)
qed

lemma requests_deleted:
  "requests_ok s \<Longrightarrow> distinct ms \<Longrightarrow>
     \<forall>m \<in> set ms. \<exists>msg. fmlookup (tg_messages s) (c, m) = Some msg \<and> \<not> tm_is_deleted msg \<Longrightarrow>
     requests_ok (foldl (tg_apply_deleted_one c) s ms)"
proof (induction ms arbitrary: s)
  case (Cons m ms)
  have "requests_ok (tg_apply_deleted_one c s m)"
    using Cons.prems requests_deleted_one by auto
  moreover have "fmlookup (tg_messages (tg_apply_deleted_one c s m)) (c, i) = fmlookup (tg_messages s) (c, i)"
    if "i \<noteq> m" for i
    using that by (auto simp: tg_apply_deleted_one_def split: option.splits)
  ultimately show ?case
    using Cons.prems by (auto intro!: Cons.IH) metis
qed simp

lemma requests_queued:
  assumes "requests_ok s" "tg_event_ok s (TgMessageQueued m)"
  shows "requests_ok (tg_apply_queued s m)"
  using assms
  by (auto simp: requests_ok_def tg_event_ok_def pending_at_def message_at_def tg_apply_queued_def Let_def
      delivery_view_def split: if_splits)
    (metis option.distinct(1))+

lemma requests_remote:
  assumes ok: "requests_ok s" and ev: "tg_event_ok s (RemoteMessageUpserted m)"
    and care: "\<forall>rid. pending_at s rid \<noteq> Some (tm_chat_id m, tm_id m)"
  shows "requests_ok (tg_apply s (RemoteMessageUpserted m))"
  using assms by (auto simp: requests_ok_def tg_event_ok_def pending_at_def delivery_view_def)

text \<open>The events that touch neither a delivery nor a request.\<close>

lemma requests_other:
  assumes "requests_ok s"
    and "case ev of RemoteMessageUpserted _ \<Rightarrow> False | TgMessageQueued _ \<Rightarrow> False
      | TgMessageAcknowledged _ _ _ _ \<Rightarrow> False | TgMessageFailed _ _ _ _ \<Rightarrow> False
      | TgMessagesDeleted _ _ \<Rightarrow> False | _ \<Rightarrow> True"
  shows "requests_ok (tg_apply s ev)"
  by (rule requests_ok_cong [OF assms(1)])
    (use assms(2) in \<open>cases ev; auto simp: tg_apply_folder_deleted_def tg_apply_reaction_def tg_apply_read_def
        tg_apply_pinned_def delivery_view_modify delivery_view_set_pinned
        delivery_view_messages [of "modify_chat s c f" s for s c f]
        delivery_view_messages [of "s\<lparr>tg_chats := x\<rparr>" s for s x]
        delivery_view_messages [of "s\<lparr>tg_chat_folders := x\<rparr>" s for s x]
        delivery_view_messages [of "s\<lparr>tg_typing_actions := x\<rparr>" s for s x]
        delivery_view_messages [of "s\<lparr>tg_chat_folders := x, tg_chats := y\<rparr>" s for s x y]
      split: option.splits\<close>)+

lemma careful_event:
  assumes "tg_decide s c = Inr events" "careful s c"
  shows "events = [] \<or> (\<exists>ev. events = [ev] \<and>
     (case ev of
        RemoteMessageUpserted m \<Rightarrow> \<forall>rid. pending_at s rid \<noteq> Some (tm_chat_id m, tm_id m)
      | TgMessagesDeleted chat ms \<Rightarrow> \<forall>m \<in> set ms. \<forall>msg. message_at s (chat, m) = Some msg \<longrightarrow> \<not> tm_is_deleted msg
      | _ \<Rightarrow> True))"
  using assms
  by (cases c)
    (auto simp: careful_def result_simps Let_def decide_remote_message_def decide_message_reaction_def
      decide_queue_message_def decide_acknowledge_def decide_fail_def decide_edit_def decide_delete_def
      decide_read_def decide_pin_def split: if_splits)

lemma requests_step:
  assumes ok: "requests_ok s" and care: "careful s c"
  shows "requests_ok (fst (tg_execute s c))"
proof (cases "tg_decide s c")
  case (Inl e)
  with ok show ?thesis by (simp add: telegram.exec_refused)
next
  case (Inr events)
  show ?thesis
  proof (cases "events = []")
    case True
    with ok Inr show ?thesis by (simp add: telegram.exec_accepted)
  next
    case False
    with careful_event [OF Inr care] obtain ev where ev: "events = [ev]"
      and care_ev: "case ev of
        RemoteMessageUpserted m \<Rightarrow> \<forall>rid. pending_at s rid \<noteq> Some (tm_chat_id m, tm_id m)
      | TgMessagesDeleted chat ms \<Rightarrow> \<forall>m \<in> set ms. \<forall>msg. message_at s (chat, m) = Some msg \<longrightarrow> \<not> tm_is_deleted msg
      | _ \<Rightarrow> True" by blast
    have promise: "tg_event_ok s ev" using tg_decide_promise [OF Inr] ev by simp
    have "requests_ok (tg_apply s ev)"
    proof (cases ev)
      case (TgMessagesDeleted chat ms)
      with promise care_ev ok show ?thesis
        by (auto simp: tg_event_ok_def message_at_def intro!: requests_deleted)
    qed (use promise care_ev ok requests_other [OF ok, of ev] in
        \<open>auto simp: requests_remote requests_queued requests_acknowledged requests_failed
           simp del: tg_apply.simps(7)\<close>)
    with Inr ev show ?thesis by (simp add: telegram.exec_accepted)
  qed
qed

text \<open>Runs of commands that are careful in the state they meet.\<close>

inductive careful_run :: "TelegramState \<Rightarrow> TgCommand list \<Rightarrow> TelegramState \<Rightarrow> bool" where
  run_stop: "careful_run s [] s"
| run_more: "careful s c \<Longrightarrow> careful_run (fst (tg_execute s c)) cs t \<Longrightarrow> careful_run s (c # cs) t"

inductive_cases careful_run_Cons: "careful_run s (c # cs) t"

lemma requests_run: "careful_run s cs t \<Longrightarrow> requests_ok s \<Longrightarrow> requests_ok t"
  by (induction rule: careful_run.induct) (simp_all add: requests_step)

lemma requests_default: "requests_ok TelegramState_default"
  by (simp add: requests_ok_def delivery_view_def TelegramState_default_def)

section \<open>Properties\<close>

text \<open>
  The requests that wait are those of pending messages. However the engine of the Telegram client
  runs from the empty state, as long as no message of the server replaces a message that waits and no
  message is deleted twice, a request waits for a message exactly when this message is stored, is
  pending under this request and is not deleted; so a request stands for one message at most.
\<close>

theorem requests_match_pending:
  assumes "careful_run TelegramState_default cs s"
  shows "pending_at s rid = Some k \<longleftrightarrow>
     (\<exists>m. message_at s k = Some m \<and> tm_delivery_state m = TgPending rid \<and> \<not> tm_is_deleted m)"
  using requests_run [OF assms requests_default]
  by (auto simp: requests_ok_def pending_at_def message_at_def delivery_view_def simp del: split_paired_All)

text \<open>
  C36: an acknowledgement delivers its message, once. However the engine of the Telegram client runs
  from the empty state, as long as no message of the server replaces a message that waits and no
  message is deleted twice, an acknowledgement of a waiting request under an identifier of another
  stored message is refused and changes nothing; every other is accepted: the message stands under the
  identifier of the server as sent, otherwise as it was queued, its local identifier is vacated, every
  other message is as before, the request no longer waits, and the next acknowledgement or failure of
  it is refused.
\<close>

theorem acknowledge_delivers_once:
  assumes run: "careful_run TelegramState_default cs s"
    and rid: "pending_at s rid = Some (c, loc)"
  shows "\<exists>m. message_at s (c, loc) = Some m \<and>
     (if server \<noteq> loc \<and> message_at s (c, server) \<noteq> None
      then tg_execute s (TgAcknowledgeMessage rid server date) = (s, Err (DuplicateServerMessage c server))
      else \<exists>t. tg_execute s (TgAcknowledgeMessage rid server date) = (t, Ok [TgMessageAcknowledged c loc server date]) \<and>
        message_at t (c, server) =
          Some (m\<lparr>tm_id := server, tm_date_unix_ms := date, tm_delivery_state := TgSent\<rparr>) \<and>
        (\<forall>k. k \<noteq> (c, loc) \<and> k \<noteq> (c, server) \<longrightarrow> message_at t k = message_at s k) \<and>
        (server \<noteq> loc \<longrightarrow> message_at t (c, loc) = None) \<and>
        pending_at t rid = None \<and>
        tg_execute t (TgAcknowledgeMessage rid server2 date2) = (t, Err (PendingRequestNotFound rid)) \<and>
        tg_execute t (FailMessage rid code retryable) = (t, Err (PendingRequestNotFound rid)))"
proof -
  have ok: "requests_ok s" by (rule requests_run [OF run requests_default])
  with rid obtain m where m: "message_at s (c, loc) = Some m" "tm_delivery_state m = TgPending rid"
    by (auto simp: requests_ok_def pending_at_def message_at_def delivery_view_def)
  let ?t = "tg_apply_acknowledged s c loc server date"
  let ?taken = "server \<noteq> loc \<and> message_at s (c, server) \<noteq> None"
  have exec: "tg_execute s (TgAcknowledgeMessage rid server date) =
      (if ?taken then (s, Err (DuplicateServerMessage c server)) else (?t, Ok [TgMessageAcknowledged c loc server date]))"
    using rid by (auto simp: tg_execute_def decide_acknowledge_def pending_at_def message_at_def contains_key_def)
  have gone: "pending_at ?t rid = None"
    using m by (simp add: pending_at_def message_at_def tg_apply_acknowledged_def Let_def)
  then have refused: "tg_execute ?t (TgAcknowledgeMessage rid server2 date2) = (?t, Err (PendingRequestNotFound rid))"
    "tg_execute ?t (FailMessage rid code retryable) = (?t, Err (PendingRequestNotFound rid))"
    by (simp_all add: tg_execute_def decide_acknowledge_def decide_fail_def pending_at_def)
  have "message_at ?t k =
      (if k = (c, server) then Some (m\<lparr>tm_id := server, tm_date_unix_ms := date, tm_delivery_state := TgSent\<rparr>)
       else if k = (c, loc) then None else message_at s k)" for k
    using m by (simp add: message_at_def tg_apply_acknowledged_def Let_def)
  with exec gone refused m(1) show ?thesis
    by (cases ?taken) (simp_all only: if_True if_False simp_thms, auto)
qed

text \<open>
  A request can wait for ever. When a message of the server replaces a message whose request waits,
  under the same identifier, an acknowledgement of the request is accepted and the request still waits
  afterwards; its identifier can not be used for another message.
\<close>

theorem replaced_request_waits:
  assumes rid: "pending_at s rid = Some (tm_chat_id m, tm_id m)" "ClientRequestId_is_valid rid"
    and chat: "contains_key (tg_chats s) (tm_chat_id m)" and sent: "tm_delivery_state m = TgSent"
    and server: "server = tm_id m \<or> message_at s (tm_chat_id m, server) = None"
  shows "\<exists>t u. tg_execute s (UpsertRemoteMessage m) = (t, Ok [RemoteMessageUpserted m]) \<and>
     tg_execute t (TgAcknowledgeMessage rid server date) =
       (u, Ok [TgMessageAcknowledged (tm_chat_id m) (tm_id m) server date]) \<and>
     pending_at u rid = Some (tm_chat_id m, tm_id m) \<and>
     (message_at u (c, new) = None \<and> contains_key (tg_chats u) c \<longrightarrow>
        snd (tg_execute u (TgQueueMessage c new sender rid date2 content reply thread)) =
          Err (DuplicateClientRequest rid))"
proof -
  let ?t = "tg_apply s (RemoteMessageUpserted m)"
  let ?u = "tg_apply_acknowledged ?t (tm_chat_id m) (tm_id m) server date"
  have t: "tg_execute s (UpsertRemoteMessage m) = (?t, Ok [RemoteMessageUpserted m])"
    using chat sent by (auto simp: tg_execute_def decide_remote_message_def require_chat_def contains_key_def)
  moreover have "tg_execute ?t (TgAcknowledgeMessage rid server date) =
      (?u, Ok [TgMessageAcknowledged (tm_chat_id m) (tm_id m) server date])"
    using rid server by (auto simp: tg_execute_def decide_acknowledge_def pending_at_def message_at_def contains_key_def)
  moreover have u: "pending_at ?u rid = Some (tm_chat_id m, tm_id m)"
    using rid sent by (simp add: pending_at_def tg_apply_acknowledged_def Let_def)
  moreover have "snd (tg_execute ?u (TgQueueMessage c new sender rid date2 content reply thread)) =
      Err (DuplicateClientRequest rid)"
    if "message_at ?u (c, new) = None \<and> contains_key (tg_chats ?u) c"
    using that u rid(2)
    by (auto simp: telegram.exec_result decide_queue_message_def require_chat_def message_at_def pending_at_def
        contains_key_def)
  ultimately show ?thesis by blast
qed

text \<open>One message through one event: it stays, or moves to the identifier of the server.\<close>

lemma message_at_deleted:
  "message_at (foldl (tg_apply_deleted_one c) s ms) k =
     map_option (\<lambda>m. if fst k = c \<and> snd k \<in> set ms then m\<lparr>tm_is_deleted := True\<rparr> else m) (message_at s k)"
proof (induction ms arbitrary: s)
  case Nil
  then show ?case by (cases "message_at s k") simp_all
next
  case (Cons i ms)
  have "message_at (tg_apply_deleted_one c s i) k =
      map_option (\<lambda>m. if k = (c, i) then m\<lparr>tm_is_deleted := True\<rparr> else m) (message_at s k)"
    by (auto simp: message_at_def tg_apply_deleted_one_def option.map_ident split: option.splits)
  with Cons.IH show ?case
    by (cases "message_at s k"; cases k) auto
qed

lemma message_at_set_pinned:
  "message_at (tg_set_pinned s c p b) k =
     map_option (\<lambda>m. if Some (snd k) = p \<and> fst k = c then m\<lparr>tm_is_pinned := b\<rparr> else m) (message_at s k)"
  by (cases k; cases "message_at s k") (auto simp: tg_set_pinned_def message_at_def split: option.splits)

definition tg_same_message :: "TgMessage \<Rightarrow> TgMessage \<Rightarrow> bool" where
  "tg_same_message m m' \<longleftrightarrow>
     tm_sender_user_id m' = tm_sender_user_id m \<and> tm_reply_to_message_id m' = tm_reply_to_message_id m \<and>
     tm_message_thread_id m' = tm_message_thread_id m \<and> (tm_is_deleted m \<longrightarrow> tm_is_deleted m')"

lemma message_kept_apply:
  assumes m: "message_at s k = Some m" and ok: "tg_event_ok s ev"
    and remote: "\<forall>r. ev = RemoteMessageUpserted r \<longrightarrow> (tm_chat_id r, tm_id r) \<noteq> k"
  obtains j m' where "message_at (tg_apply s ev) j = Some m'" "tg_same_message m m'"
    "j = k \<or> (\<exists>server date. ev = TgMessageAcknowledged (fst k) (snd k) server date \<and> j = (fst k, server))"
    "tm_content m' = tm_content m \<or> (\<exists>date. ev = TgMessageEdited (fst k) (snd k) (tm_content m') date)"
proof -
  show thesis
  proof (cases "\<exists>server date. ev = TgMessageAcknowledged (fst k) (snd k) server date")
    case True
    then obtain server date where ev: "ev = TgMessageAcknowledged (fst k) (snd k) server date" by blast
    show ?thesis
      by (rule that [of "(fst k, server)" "m\<lparr>tm_id := server, tm_date_unix_ms := date, tm_delivery_state := TgSent\<rparr>"])
        (use m ev in \<open>simp_all add: message_at_def tg_apply_acknowledged_def Let_def tg_same_message_def\<close>)
  next
    case False
    have "\<exists>m'. message_at (tg_apply s ev) k = Some m' \<and> tg_same_message m m' \<and>
        (tm_content m' = tm_content m \<or> (\<exists>date. ev = TgMessageEdited (fst k) (snd k) (tm_content m') date))"
    proof (cases ev)
      case (TgMessagesDeleted c ms)
      with m show ?thesis by (auto simp: message_at_deleted tg_same_message_def)
    next
      case (PinnedMessageUpdated c p)
      have chat: "message_at (modify_chat s c f) k = message_at s k" for s c f by (simp add: message_at_def)
      from PinnedMessageUpdated m show ?thesis
        by (auto simp: tg_apply_pinned_def message_at_set_pinned chat tg_same_message_def split: option.splits)
    next
      case (TgMessageAcknowledged c i server date)
      with m ok False show ?thesis
        by (cases k) (auto simp: message_at_def tg_event_ok_def tg_apply_acknowledged_def Let_def tg_same_message_def
            split: option.splits)
    qed (use m ok remote in \<open>cases k; auto simp: message_at_def tg_event_ok_def tg_same_message_def
        tg_apply_folder_deleted_def tg_apply_reaction_def tg_apply_queued_def tg_apply_failed_def tg_apply_read_def
        split: option.splits TgDeliveryState.splits\<close>)+
    then show ?thesis using that by blast
  qed
qed

lemma tg_decide_origin:
  assumes "tg_decide s c = Inr events"
  shows "events = [] \<or> (\<exists>ev. events = [ev] \<and>
     (case ev of
        RemoteMessageUpserted m \<Rightarrow> c = UpsertRemoteMessage m
      | TgMessageAcknowledged chat m server date \<Rightarrow>
          \<exists>rid. c = TgAcknowledgeMessage rid server date \<and> pending_at s rid = Some (chat, m)
      | TgMessageEdited chat m content date \<Rightarrow> c = TgEditMessage chat m content date
      | _ \<Rightarrow> True))"
  using assms
  by (cases c)
    (auto simp: result_simps Let_def decide_remote_message_def decide_message_reaction_def pending_at_def
      decide_queue_message_def decide_acknowledge_def decide_fail_def decide_edit_def decide_delete_def
      decide_read_def decide_pin_def split: if_splits)

text \<open>
  The engine of the Telegram client loses no message. Whatever command is executed, accepted or
  refused, unless it is a message of the server under the same identifier, a stored message is still
  stored afterwards, with its sender, reply and thread, and stays deleted if it was; it stands where it
  was, or under the identifier of the server when its request was acknowledged, and only an edit of
  this message changes its content.
\<close>

theorem telegram_message_never_lost:
  assumes m: "message_at s k = Some m"
    and remote: "\<forall>r. c = UpsertRemoteMessage r \<longrightarrow> (tm_chat_id r, tm_id r) \<noteq> k"
  shows "\<exists>j m'. message_at (fst (tg_execute s c)) j = Some m' \<and> tg_same_message m m' \<and>
     (j = k \<or> (\<exists>rid server date. c = TgAcknowledgeMessage rid server date \<and> pending_at s rid = Some k \<and>
        j = (fst k, server))) \<and>
     (tm_content m' = tm_content m \<or> (\<exists>date. c = TgEditMessage (fst k) (snd k) (tm_content m') date))"
proof (cases "\<exists>ev. tg_decide s c = Inr [ev]")
  case True
  then obtain ev where ev: "tg_decide s c = Inr [ev]" by blast
  note origin = tg_decide_origin [OF ev]
  have ok: "tg_event_ok s ev" using tg_decide_promise [OF ev] by simp
  have "\<forall>r. ev = RemoteMessageUpserted r \<longrightarrow> (tm_chat_id r, tm_id r) \<noteq> k"
    using origin remote by auto
  then obtain j m' where kept: "message_at (tg_apply s ev) j = Some m'" "tg_same_message m m'"
    and place: "j = k \<or> (\<exists>server date. ev = TgMessageAcknowledged (fst k) (snd k) server date \<and> j = (fst k, server))"
    and content: "tm_content m' = tm_content m \<or> (\<exists>date. ev = TgMessageEdited (fst k) (snd k) (tm_content m') date)"
    using message_kept_apply [OF m ok] by blast
  from place origin have "j = k \<or> (\<exists>rid server date. c = TgAcknowledgeMessage rid server date \<and>
      pending_at s rid = Some k \<and> j = (fst k, server))" by auto
  moreover from content origin have
    "tm_content m' = tm_content m \<or> (\<exists>date. c = TgEditMessage (fst k) (snd k) (tm_content m') date)" by auto
  moreover have "fst (tg_execute s c) = tg_apply s ev" using ev by (simp add: telegram.exec_accepted)
  ultimately show ?thesis
    using kept by (intro exI [of _ j] exI [of _ m'] conjI) simp_all
next
  case False
  then have "fst (tg_execute s c) = s"
    using tg_decide_origin [of s c] by (cases "tg_decide s c") (auto simp: telegram.exec_state)
  with m show ?thesis
    by (intro exI [of _ k] exI [of _ m] conjI) (simp_all add: tg_same_message_def)
qed

section \<open>Witnesses\<close>

definition demo_request :: ClientRequestId where
  "demo_request = ClientRequestId ''r''"

definition demo_chat :: ChatId where
  "demo_chat = ChatId 1"

definition demo_commands :: "TgCommand list" where
  "demo_commands =
     [UpsertChat (Chat_new demo_chat PrivateChat ''t''),
      TgQueueMessage demo_chat (TgMessageId 7) (UserId 2) demo_request 5 (TgService ''x'') None None]"

definition demo_message :: TgMessage where
  "demo_message =
     \<lparr>tm_id = TgMessageId 7, tm_chat_id = demo_chat, tm_sender_user_id = UserId 2, tm_date_unix_ms = 5,
      tm_edit_date_unix_ms = None, tm_content = TgService ''x'', tm_reply_to_message_id = None,
      tm_message_thread_id = None, tm_delivery_state = TgPending demo_request, tm_reactions = [],
      tm_is_outgoing = True, tm_is_pinned = False, tm_is_deleted = False\<rparr>"

definition demo_state :: TelegramState where
  "demo_state = foldl (\<lambda>s c. fst (tg_execute s c)) TelegramState_default demo_commands"

lemma demo_request_valid: "ClientRequestId_is_valid demo_request"
  by (simp add: ClientRequestId_is_valid_def demo_request_def trim_def ws1_def ws2_def ws3_def)

lemma demo_state_eq:
  "demo_state =
     \<lparr>tg_chats = fm_modify demo_chat (ch_last_message_id_update (\<lambda>_. Some (TgMessageId 7)))
        (fmupd demo_chat (Chat_new demo_chat PrivateChat ''t'') fmempty),
      tg_chat_folders = fmempty, tg_messages = fmupd (demo_chat, TgMessageId 7) demo_message fmempty,
      tg_pending_requests = fmupd demo_request (demo_chat, TgMessageId 7) fmempty,
      tg_typing_actions = fmempty\<rparr>"
  by (simp add: demo_state_def demo_commands_def tg_execute_def decide_queue_message_def require_chat_def
      Chat_new_def TelegramState_default_def tg_apply_queued_def modify_chat_def store_message_def
      demo_message_def demo_request_valid)

lemma demo_run: "careful_run TelegramState_default demo_commands demo_state"
  by (simp add: demo_state_def demo_commands_def careful_def careful_run.intros)

lemma demo_pending: "pending_at demo_state demo_request = Some (demo_chat, TgMessageId 7)"
  by (simp add: demo_state_eq pending_at_def)

lemma demo_stored: "message_at demo_state k = (if k = (demo_chat, TgMessageId 7) then Some demo_message else None)"
  by (simp add: demo_state_eq message_at_def)

theorem requests_match_pending_witness:
  "\<exists>m. message_at demo_state (demo_chat, TgMessageId 7) = Some m \<and> tm_delivery_state m = TgPending demo_request"
  using requests_match_pending [OF demo_run, of demo_request "(demo_chat, TgMessageId 7)"] demo_pending by blast

theorem acknowledge_delivers_once_witness:
  "\<exists>t. fst (tg_execute demo_state (TgAcknowledgeMessage demo_request (TgMessageId 9) 6)) = t \<and>
     pending_at t demo_request = None \<and>
     message_at t (demo_chat, TgMessageId 9) =
       Some (demo_message\<lparr>tm_id := TgMessageId 9, tm_date_unix_ms := 6, tm_delivery_state := TgSent\<rparr>)"
  using acknowledge_delivers_once [OF demo_run demo_pending, of "TgMessageId 9" 6 "TgMessageId 9" 6 "[]" False]
  by (auto simp: demo_stored)

theorem replaced_request_waits_witness:
  "\<exists>t u. tg_execute demo_state (UpsertRemoteMessage (demo_message\<lparr>tm_delivery_state := TgSent\<rparr>)) =
       (t, Ok [RemoteMessageUpserted (demo_message\<lparr>tm_delivery_state := TgSent\<rparr>)]) \<and>
     u = fst (tg_execute t (TgAcknowledgeMessage demo_request (TgMessageId 9) 6)) \<and>
     pending_at u demo_request = Some (demo_chat, TgMessageId 7)"
proof -
  let ?m = "demo_message\<lparr>tm_delivery_state := TgSent\<rparr>"
  have key: "tm_chat_id ?m = demo_chat" "tm_id ?m = TgMessageId 7" by (simp_all add: demo_message_def)
  have "contains_key (tg_chats demo_state) demo_chat" by (simp add: demo_state_eq)
  then have "\<exists>t u. tg_execute demo_state (UpsertRemoteMessage ?m) = (t, Ok [RemoteMessageUpserted ?m]) \<and>
      tg_execute t (TgAcknowledgeMessage demo_request (TgMessageId 9) 6) =
        (u, Ok [TgMessageAcknowledged (tm_chat_id ?m) (tm_id ?m) (TgMessageId 9) 6]) \<and>
      pending_at u demo_request = Some (tm_chat_id ?m, tm_id ?m)"
    using replaced_request_waits [of demo_state demo_request ?m "TgMessageId 9" 6] demo_pending demo_request_valid
      demo_stored key by force
  then show ?thesis using key by force
qed

theorem telegram_message_never_lost_witness:
  "\<exists>j m'. message_at (fst (tg_execute demo_state (TgDeleteMessages demo_chat [TgMessageId 7]))) j = Some m' \<and>
     tg_same_message demo_message m'"
  using telegram_message_never_lost [of demo_state "(demo_chat, TgMessageId 7)" demo_message
      "TgDeleteMessages demo_chat [TgMessageId 7]"]
  by (auto simp: demo_stored)

end
