(* ===== verification/Telegram_Storage.thy ===== *)
theory Telegram_Storage
  imports Telegram_Core
begin

text \<open>
  The encrypted store of the Telegram client (\<open>telegram-storage/src/cipher.rs\<close> and \<open>sqlite.rs\<close>). The
  database is the record of its tables, whose integers are the integers SQLite stores: a transaction
  that fails leaves them as they were, the sequence of the event log is never used twice, and deleting
  a message from the index deletes its search tokens. Cipher, keyed hash, JSON and the tables of
  Unicode come from other crates and the standard library and are the parameter \<open>StorageLibrary\<close>;
  failures of the database itself are not modelled.
\<close>

section \<open>Cipher\<close>

record StorageLibrary =
  sl_encrypt :: "bytes \<Rightarrow> bytes \<Rightarrow> bytes \<Rightarrow> bytes \<Rightarrow> bytes option"
  sl_decrypt :: "bytes \<Rightarrow> bytes \<Rightarrow> bytes \<Rightarrow> bytes \<Rightarrow> bytes option"
  sl_hmac_sha256 :: "bytes \<Rightarrow> bytes \<Rightarrow> bytes"
  sl_random :: "nat \<Rightarrow> nat \<Rightarrow> u8"
  sl_state_to_vec :: "TelegramState \<Rightarrow> bytes option"
  sl_state_from_slice :: "bytes \<Rightarrow> TelegramState option"
  sl_event_to_vec :: "TgEvent \<Rightarrow> bytes option"
  sl_event_from_slice :: "bytes \<Rightarrow> TgEvent option"
  sl_message_to_vec :: "TgMessage \<Rightarrow> bytes option"
  sl_message_from_slice :: "bytes \<Rightarrow> TgMessage option"
  sl_lowercase :: "string \<Rightarrow> string"
  sl_alphanumeric :: "string \<Rightarrow> bool"

datatype StorageError =
    InvalidKeyLength
  | DecryptionFailed
  | UnsupportedPayloadVersion u8
  | UnsupportedSchemaVersion int
  | RevisionConflict u64 u64
  | IntegerOutOfRange
  | SqliteError
  | SerializationError

definition PAYLOAD_VERSION :: u8 where
  "PAYLOAD_VERSION = 1"

definition NONCE_LENGTH :: nat where
  "NONCE_LENGTH = 24"

definition StorageKey_from_slice :: "bytes \<Rightarrow> (bytes, StorageError) result" where
  "StorageKey_from_slice value = (if length value = 32 then Ok value else Err InvalidKeyLength)"

text \<open>The number of the call of the random source is passed in.\<close>

definition storage_encrypt :: "StorageLibrary \<Rightarrow> bytes \<Rightarrow> nat \<Rightarrow> bytes \<Rightarrow> bytes \<Rightarrow> (bytes, StorageError) result" where
  "storage_encrypt lib key call plaintext associated_data =
     (let nonce = map (sl_random lib call) [0..<NONCE_LENGTH] in
      and_then (ok_or DecryptionFailed (sl_encrypt lib key nonce associated_data plaintext)) (\<lambda>ciphertext.
      Ok (PAYLOAD_VERSION # nonce @ ciphertext)))"

definition storage_decrypt :: "StorageLibrary \<Rightarrow> bytes \<Rightarrow> bytes \<Rightarrow> bytes \<Rightarrow> (bytes, StorageError) result" where
  "storage_decrypt lib key payload associated_data =
     (case payload of
        [] \<Rightarrow> Err DecryptionFailed
      | version # rest \<Rightarrow>
          if version \<noteq> PAYLOAD_VERSION then Err (UnsupportedPayloadVersion version)
          else if length rest \<le> NONCE_LENGTH then Err DecryptionFailed
          else ok_or DecryptionFailed
            (sl_decrypt lib key (take NONCE_LENGTH rest) associated_data (drop NONCE_LENGTH rest)))"

definition blind_index_token :: "StorageLibrary \<Rightarrow> bytes \<Rightarrow> bytes \<Rightarrow> bytes \<Rightarrow> bytes" where
  "blind_index_token lib key namespace token = sl_hmac_sha256 lib key (namespace @ [0] @ token)"

section \<open>Tables\<close>

definition SCHEMA_VERSION :: int where
  "SCHEMA_VERSION = 2"

record StateSnapshot =
  sn_revision :: u64
  sn_state :: TelegramState
  sn_updated_at_unix_ms :: i64

record StoredEvent =
  se_sequence :: u64
  se_event :: TgEvent
  se_created_at_unix_ms :: i64

record PersistedTransition =
  pt_snapshot :: StateSnapshot
  pt_events :: "StoredEvent list"

record StorageTables =
  db_user_version :: int
  db_snapshot :: "(int \<times> bytes \<times> i64) option"
  db_event_log :: "(int, bytes \<times> i64) fmap"
  db_last_sequence :: int
  db_message_index :: "(ChatId \<times> TgMessageId, i64 \<times> bytes) fmap"
  db_search_tokens :: "(bytes \<times> ChatId \<times> TgMessageId) fset"

record EncryptedSqliteStore =
  st_tables :: StorageTables
  st_key :: bytes
  st_random_calls :: nat

definition to_i64 :: "u64 \<Rightarrow> (int, StorageError) result" where
  "to_i64 value = (if unat value < 2 ^ 63 then Ok (uint value) else Err IntegerOutOfRange)"

definition to_u64 :: "int \<Rightarrow> (u64, StorageError) result" where
  "to_u64 value = (if 0 \<le> value then Ok (word_of_int value) else Err IntegerOutOfRange)"

definition snapshot_associated_data :: "u64 \<Rightarrow> bytes" where
  "snapshot_associated_data revision = as_bytes (''fabushi.telegram.snapshot.v1:'' @ show_nat (unat revision))"

definition event_associated_data :: "u64 \<Rightarrow> bytes" where
  "event_associated_data sequence = as_bytes (''fabushi.telegram.event.v1:'' @ show_nat (unat sequence))"

primrec chat_number :: "ChatId \<Rightarrow> i64" where
  "chat_number (ChatId n) = n"

lemma chat_number_inject: "sint (chat_number a) = sint (chat_number b) \<Longrightarrow> a = b"
  by (cases a; cases b) (auto intro: signed_word_eqI [where 'a = int])

instantiation ChatId :: linorder
begin

definition less_eq_ChatId :: "ChatId \<Rightarrow> ChatId \<Rightarrow> bool" where
  "less_eq_ChatId a b \<longleftrightarrow> sint (chat_number a) \<le> sint (chat_number b)"

definition less_ChatId :: "ChatId \<Rightarrow> ChatId \<Rightarrow> bool" where
  "less_ChatId a b \<longleftrightarrow> sint (chat_number a) < sint (chat_number b)"

instance
  by intro_classes (auto simp: less_eq_ChatId_def less_ChatId_def intro: chat_number_inject)

end

definition message_associated_data :: "ChatId \<Rightarrow> TgMessageId \<Rightarrow> bytes" where
  "message_associated_data c m =
     as_bytes (''fabushi.telegram.message-index.v1:'' @ show_int (sint (chat_number c)) @ '':'' @ show_int (sint (tg_message_num m)))"

text \<open>A database of version 0 has no tables and one of version 1 has no tables of messages.\<close>

definition migrate :: "StorageTables \<Rightarrow> (StorageTables, StorageError) result" where
  "migrate db =
     (if SCHEMA_VERSION < db_user_version db then Err (UnsupportedSchemaVersion (db_user_version db))
      else if db_user_version db = 0 then
        Ok \<lparr>db_user_version = 2, db_snapshot = None, db_event_log = fmempty, db_last_sequence = 0,
            db_message_index = fmempty, db_search_tokens = {||}\<rparr>
      else if db_user_version db = 1 then
        Ok (db\<lparr>db_user_version := 2, db_message_index := fmempty, db_search_tokens := {||}\<rparr>)
      else Ok db)"

definition from_connection :: "StorageTables \<Rightarrow> bytes \<Rightarrow> (EncryptedSqliteStore, StorageError) result" where
  "from_connection db key =
     and_then (migrate db) (\<lambda>db. Ok \<lparr>st_tables = db, st_key = key, st_random_calls = 0\<rparr>)"

section \<open>Snapshots and events\<close>

definition load_snapshot :: "StorageLibrary \<Rightarrow> EncryptedSqliteStore \<Rightarrow> (StateSnapshot option, StorageError) result" where
  "load_snapshot lib store =
     (case db_snapshot (st_tables store) of
        None \<Rightarrow> Ok None
      | Some (revision, payload, updated_at_unix_ms) \<Rightarrow>
          and_then (to_u64 revision) (\<lambda>revision.
          and_then (storage_decrypt lib (st_key store) payload (snapshot_associated_data revision)) (\<lambda>plaintext.
          and_then (ok_or SerializationError (sl_state_from_slice lib plaintext)) (\<lambda>state.
          Ok (Some \<lparr>sn_revision = revision, sn_state = state, sn_updated_at_unix_ms = updated_at_unix_ms\<rparr>)))))"

definition current_revision :: "StorageTables \<Rightarrow> (u64, StorageError) result" where
  "current_revision db =
     (case db_snapshot db of None \<Rightarrow> Ok 0 | Some (revision, _, _) \<Rightarrow> to_u64 revision)"

text \<open>The write of a snapshot inside a transaction.\<close>

definition write_snapshot ::
  "StorageLibrary \<Rightarrow> bytes \<Rightarrow> nat \<Rightarrow> TelegramState \<Rightarrow> u64 \<Rightarrow> i64 \<Rightarrow> StorageTables
     \<Rightarrow> (StorageTables \<times> StateSnapshot, StorageError) result"
where
  "write_snapshot lib key call state current now db =
     and_then (ok_or IntegerOutOfRange (checked_add_u64 current 1)) (\<lambda>revision.
     and_then (ok_or SerializationError (sl_state_to_vec lib state)) (\<lambda>plaintext.
     and_then (storage_encrypt lib key call plaintext (snapshot_associated_data revision)) (\<lambda>payload.
     and_then (to_i64 revision) (\<lambda>row.
     Ok (db\<lparr>db_snapshot := Some (row, payload, now)\<rparr>,
         \<lparr>sn_revision = revision, sn_state = state, sn_updated_at_unix_ms = now\<rparr>)))))"

text \<open>The append of an event inside a transaction; the row is empty until its sequence is known.\<close>

definition insert_event ::
  "StorageLibrary \<Rightarrow> bytes \<Rightarrow> nat \<Rightarrow> TgEvent \<Rightarrow> i64 \<Rightarrow> StorageTables \<Rightarrow> (StorageTables \<times> StoredEvent, StorageError) result"
where
  "insert_event lib key call event now db =
     (if 2 ^ 63 - 1 \<le> db_last_sequence db then Err SqliteError
      else
        let row = db_last_sequence db + 1 in
        and_then (to_u64 row) (\<lambda>sequence.
        and_then (ok_or SerializationError (sl_event_to_vec lib event)) (\<lambda>plaintext.
        and_then (storage_encrypt lib key call plaintext (event_associated_data sequence)) (\<lambda>payload.
        and_then (to_i64 sequence) (\<lambda>row.
        Ok (db\<lparr>db_event_log := fmupd row (payload, now) (db_event_log db), db_last_sequence := row\<rparr>,
            \<lparr>se_sequence = sequence, se_event = event, se_created_at_unix_ms = now\<rparr>))))))"

primrec insert_events ::
  "StorageLibrary \<Rightarrow> bytes \<Rightarrow> nat \<Rightarrow> TgEvent list \<Rightarrow> i64 \<Rightarrow> StorageTables \<Rightarrow> (StorageTables \<times> StoredEvent list, StorageError) result"
where
  "insert_events lib key call [] now db = Ok (db, [])"
| "insert_events lib key call (event # events) now db =
     and_then (insert_event lib key call event now db) (\<lambda>(db, stored).
     and_then (insert_events lib key (Suc call) events now db) (\<lambda>(db, rest).
     Ok (db, stored # rest)))"

text \<open>
  A transaction: the tables it leaves behind, or those it started from. The random bytes it may have
  drawn are not used again, whether it fails or not.
\<close>

definition transaction ::
  "nat \<Rightarrow> (StorageTables \<Rightarrow> (StorageTables \<times> 'a, StorageError) result) \<Rightarrow> EncryptedSqliteStore
     \<Rightarrow> EncryptedSqliteStore \<times> ('a, StorageError) result"
where
  "transaction draws_at_most work store =
     (case work (st_tables store) of
        Inl e \<Rightarrow> (store\<lparr>st_random_calls := st_random_calls store + draws_at_most\<rparr>, Err e)
      | Inr (db, x) \<Rightarrow> (store\<lparr>st_tables := db, st_random_calls := st_random_calls store + draws_at_most\<rparr>, Ok x))"

definition save_snapshot ::
  "StorageLibrary \<Rightarrow> TelegramState \<Rightarrow> u64 \<Rightarrow> i64 \<Rightarrow> EncryptedSqliteStore
     \<Rightarrow> EncryptedSqliteStore \<times> (StateSnapshot, StorageError) result"
where
  "save_snapshot lib state expected now store =
     transaction 1 (\<lambda>db.
       and_then (current_revision db) (\<lambda>current.
       if current \<noteq> expected then Err (RevisionConflict expected current)
       else write_snapshot lib (st_key store) (st_random_calls store) state current now db)) store"

definition commit_transition ::
  "StorageLibrary \<Rightarrow> TelegramState \<Rightarrow> TgEvent list \<Rightarrow> u64 \<Rightarrow> i64 \<Rightarrow> EncryptedSqliteStore
     \<Rightarrow> EncryptedSqliteStore \<times> (PersistedTransition, StorageError) result"
where
  "commit_transition lib state events expected now store =
     transaction (Suc (length events)) (\<lambda>db.
       and_then (current_revision db) (\<lambda>current.
       if current \<noteq> expected then Err (RevisionConflict expected current)
       else
         and_then (insert_events lib (st_key store) (st_random_calls store) events now db) (\<lambda>(db, stored).
         and_then (write_snapshot lib (st_key store) (st_random_calls store + length events) state current now db) (\<lambda>(db, snapshot).
         Ok (db, \<lparr>pt_snapshot = snapshot, pt_events = stored\<rparr>))))) store"

definition append_event ::
  "StorageLibrary \<Rightarrow> TgEvent \<Rightarrow> i64 \<Rightarrow> EncryptedSqliteStore \<Rightarrow> EncryptedSqliteStore \<times> (StoredEvent, StorageError) result"
where
  "append_event lib event now store =
     transaction 1 (insert_event lib (st_key store) (st_random_calls store) event now) store"

fun read_events ::
  "StorageLibrary \<Rightarrow> bytes \<Rightarrow> (int, bytes \<times> i64) fmap \<Rightarrow> int list \<Rightarrow> (StoredEvent list, StorageError) result"
where
  "read_events lib key event_log [] = Ok []"
| "read_events lib key event_log (row # rows) =
     (case fmlookup event_log row of
        None \<Rightarrow> read_events lib key event_log rows
      | Some (payload, now) \<Rightarrow>
          and_then (to_u64 row) (\<lambda>sequence.
          and_then (storage_decrypt lib key payload (event_associated_data sequence)) (\<lambda>plaintext.
          and_then (ok_or SerializationError (sl_event_from_slice lib plaintext)) (\<lambda>event.
          and_then (read_events lib key event_log rows) (\<lambda>rest.
          Ok (\<lparr>se_sequence = sequence, se_event = event, se_created_at_unix_ms = now\<rparr> # rest))))))"

definition load_events_after :: "StorageLibrary \<Rightarrow> u64 \<Rightarrow> EncryptedSqliteStore \<Rightarrow> (StoredEvent list, StorageError) result" where
  "load_events_after lib sequence store =
     and_then (to_i64 sequence) (\<lambda>from_row.
     read_events lib (st_key store) (db_event_log (st_tables store))
       (filter (\<lambda>row. from_row < row) (map_keys (db_event_log (st_tables store)))))"

definition prune_events_through :: "u64 \<Rightarrow> EncryptedSqliteStore \<Rightarrow> EncryptedSqliteStore \<times> (nat, StorageError) result" where
  "prune_events_through sequence store =
     (case to_i64 sequence of
        Inl e \<Rightarrow> (store, Err e)
      | Inr through \<Rightarrow>
          let event_log = db_event_log (st_tables store);
              kept = fmfilter (\<lambda>row. through < row) event_log
          in (store\<lparr>st_tables := (st_tables store)\<lparr>db_event_log := kept\<rparr>\<rparr>, Ok (map_len event_log - map_len kept)))"

section \<open>Search tokens\<close>

text \<open>The number of a character of valid UTF-8.\<close>

fun code_point :: "string \<Rightarrow> nat" where
  "code_point [a] = of_char a"
| "code_point [a, b] = (of_char a - 0xC0) * 64 + (of_char b - 0x80)"
| "code_point [a, b, c] = ((of_char a - 0xE0) * 64 + (of_char b - 0x80)) * 64 + (of_char c - 0x80)"
| "code_point [a, b, c, d] =
     (((of_char a - 0xF0) * 64 + (of_char b - 0x80)) * 64 + (of_char c - 0x80)) * 64 + (of_char d - 0x80)"
| "code_point _ = 0"

definition is_cjk :: "string \<Rightarrow> bool" where
  "is_cjk ch =
     (let n = code_point ch in
      0x3400 \<le> n \<and> n \<le> 0x4dbf \<or> 0x4e00 \<le> n \<and> n \<le> 0x9fff \<or> 0xf900 \<le> n \<and> n \<le> 0xfaff
      \<or> 0x20000 \<le> n \<and> n \<le> 0x2fa1f)"

definition flush_word :: "string \<Rightarrow> string fset \<Rightarrow> string fset" where
  "flush_word word tokens = (if word \<noteq> [] then finsert (concat (take 128 (utf8_chars word))) tokens else tokens)"

definition flush_cjk :: "string list \<Rightarrow> string fset \<Rightarrow> string fset" where
  "flush_cjk run tokens =
     tokens |\<union>| fset_of_list run |\<union>| fset_of_list (map (\<lambda>(a, b). a @ b) (zip run (tl run)))"

fun token_step ::
  "StorageLibrary \<Rightarrow> string \<times> string list \<times> string fset \<Rightarrow> string \<Rightarrow> string \<times> string list \<times> string fset"
where
  "token_step lib (word, run, tokens) ch =
     (if is_cjk ch then ([], run @ [ch], flush_word word tokens)
      else if sl_alphanumeric lib ch then (word @ sl_lowercase lib ch, [], flush_cjk run tokens)
      else ([], [], flush_cjk run (flush_word word tokens)))"

definition search_tokens :: "StorageLibrary \<Rightarrow> string \<Rightarrow> nat \<Rightarrow> string list" where
  "search_tokens lib input maximum =
     (case foldl (token_step lib) ([], [], {||}) (utf8_chars input) of
        (word, run, tokens) \<Rightarrow> take maximum (sorted_list_of_fset (flush_cjk run (flush_word word tokens))))"

definition formatted_part :: "TgFormattedText \<Rightarrow> string list" where
  "formatted_part text = (if ft_text text \<noteq> [] then [ft_text text] else [])"

definition optional_part :: "string option \<Rightarrow> string list" where
  "optional_part value = (case value of None \<Rightarrow> [] | Some v \<Rightarrow> [v])"

primrec content_parts :: "TgMessageContent \<Rightarrow> string list" where
  "content_parts (TgText text) = formatted_part text"
| "content_parts (TgPhoto _ caption _ _ _) = formatted_part caption"
| "content_parts (TgVideo _ caption _ _ _ _) = formatted_part caption"
| "content_parts (TgAnimation _ caption _) = formatted_part caption"
| "content_parts (TgAudio _ caption _ title performer) =
     formatted_part caption @ optional_part title @ optional_part performer"
| "content_parts (TgVoiceNote _ _ _ caption) = formatted_part caption"
| "content_parts (TgVideoNote _ _ _) = []"
| "content_parts (TgDocument _ caption) = formatted_part caption"
| "content_parts (TgSticker _ emoji _ _ _) = [emoji]"
| "content_parts (TgPoll question options _ _ explanation) =
     formatted_part question @ map tpo_text options @
     (case explanation of None \<Rightarrow> [] | Some e \<Rightarrow> formatted_part e)"
| "content_parts (TgContact phone_number first_name last_name _) = [phone_number, first_name, last_name]"
| "content_parts (TgLocation _ _ _) = []"
| "content_parts (TgVenue _ _ title address _ _) = [title, address]"
| "content_parts (TgDice emoji _) = [emoji]"
| "content_parts (TgStory _ _) = []"
| "content_parts (TgInvoice title description currency _) = [title, description, currency]"
| "content_parts (TgService action) = [action]"
| "content_parts (TgUnsupported constructor) = [constructor]"

fun join_parts :: "string list \<Rightarrow> string" where
  "join_parts [] = []"
| "join_parts [p] = p"
| "join_parts (p # ps) = p @ '' '' @ join_parts ps"

definition tg_message_search_text :: "TgMessage \<Rightarrow> string" where
  "tg_message_search_text m = join_parts (content_parts (tm_content m))"

section \<open>The index of messages\<close>

definition search_namespace :: bytes where
  "search_namespace = as_bytes ''fabushi.telegram.message-search.v1''"

definition token_digest :: "StorageLibrary \<Rightarrow> bytes \<Rightarrow> string \<Rightarrow> bytes" where
  "token_digest lib key token = blind_index_token lib key search_namespace (as_bytes token)"

text \<open>\<open>DELETE FROM message_index\<close>, which takes the tokens of the message with it.\<close>

definition delete_index_row :: "ChatId \<Rightarrow> TgMessageId \<Rightarrow> StorageTables \<Rightarrow> StorageTables" where
  "delete_index_row c m db =
     db\<lparr>db_message_index := fmdrop (c, m) (db_message_index db),
        db_search_tokens := ffilter (\<lambda>(_, k). k \<noteq> (c, m)) (db_search_tokens db)\<rparr>"

definition upsert_message_index ::
  "StorageLibrary \<Rightarrow> TgMessage \<Rightarrow> EncryptedSqliteStore \<Rightarrow> EncryptedSqliteStore \<times> (unit, StorageError) result"
where
  "upsert_message_index lib message store =
     (let c = tm_chat_id message; m = tm_id message; key = st_key store in
      transaction 1 (\<lambda>db.
        if tm_is_deleted message then Ok (delete_index_row c m db, ())
        else
          and_then (ok_or SerializationError (sl_message_to_vec lib message)) (\<lambda>plaintext.
          and_then (storage_encrypt lib key (st_random_calls store) plaintext (message_associated_data c m)) (\<lambda>payload.
          Ok (db\<lparr>db_message_index := fmupd (c, m) (tm_date_unix_ms message, payload) (db_message_index db),
                 db_search_tokens :=
                   ffilter (\<lambda>(_, k). k \<noteq> (c, m)) (db_search_tokens db) |\<union>|
                   fset_of_list (map (\<lambda>token. (token_digest lib key token, c, m))
                     (search_tokens lib (tg_message_search_text message) 512))\<rparr>, ())))) store)"

definition remove_message_index ::
  "ChatId \<Rightarrow> TgMessageId \<Rightarrow> EncryptedSqliteStore \<Rightarrow> EncryptedSqliteStore \<times> (bool, StorageError) result"
where
  "remove_message_index c m store =
     (store\<lparr>st_tables := delete_index_row c m (st_tables store)\<rparr>,
      Ok (contains_key (db_message_index (st_tables store)) (c, m)))"

definition decrypt_indexed_message ::
  "StorageLibrary \<Rightarrow> EncryptedSqliteStore \<Rightarrow> ChatId \<Rightarrow> TgMessageId \<Rightarrow> bytes \<Rightarrow> (TgMessage, StorageError) result"
where
  "decrypt_indexed_message lib store c m payload =
     and_then (storage_decrypt lib (st_key store) payload (message_associated_data c m)) (\<lambda>plaintext.
     ok_or SerializationError (sl_message_from_slice lib plaintext))"

definition load_indexed_message ::
  "StorageLibrary \<Rightarrow> ChatId \<Rightarrow> TgMessageId \<Rightarrow> EncryptedSqliteStore \<Rightarrow> (TgMessage option, StorageError) result"
where
  "load_indexed_message lib c m store =
     (case fmlookup (db_message_index (st_tables store)) (c, m) of
        None \<Rightarrow> Ok None
      | Some (_, payload) \<Rightarrow> and_then (decrypt_indexed_message lib store c m payload) (\<lambda>message. Ok (Some message)))"

text \<open>
  The rows of the query: those whose distinct tokens among the digests are as many as the query has
  tokens, newest first. Rows that agree in date and identifier come in the order of their chats; the
  statement leaves that open.
\<close>

definition row_hits :: "bytes list \<Rightarrow> StorageTables \<Rightarrow> ChatId \<times> TgMessageId \<Rightarrow> bytes fset" where
  "row_hits digests db k =
     fset_of_list (filter (\<lambda>d. (d, k) |\<in>| db_search_tokens db) digests)"

definition row_key :: "StorageTables \<Rightarrow> ChatId \<times> TgMessageId \<Rightarrow> int \<times> int" where
  "row_key db k =
     (- sint (fst (the (fmlookup (db_message_index db) k))), - sint (tg_message_num (snd k)))"

definition in_scope :: "ChatId option \<Rightarrow> ChatId \<times> TgMessageId \<Rightarrow> bool" where
  "in_scope chat k = (case chat of None \<Rightarrow> True | Some c \<Rightarrow> fst k = c)"

definition search_rows ::
  "StorageTables \<Rightarrow> bytes list \<Rightarrow> ChatId option \<Rightarrow> nat \<Rightarrow> nat \<Rightarrow> (ChatId \<times> TgMessageId) list"
where
  "search_rows db digests chat count limit =
     take limit (sort_key (row_key db)
       (filter (\<lambda>k. in_scope chat k \<and> fcard (row_hits digests db k) = count) (map_keys (db_message_index db))))"

fun read_rows ::
  "StorageLibrary \<Rightarrow> EncryptedSqliteStore \<Rightarrow> (ChatId \<times> TgMessageId) list \<Rightarrow> (TgMessage list, StorageError) result"
where
  "read_rows lib store [] = Ok []"
| "read_rows lib store (k # ks) =
     (case fmlookup (db_message_index (st_tables store)) k of
        None \<Rightarrow> read_rows lib store ks
      | Some (_, payload) \<Rightarrow>
          and_then (decrypt_indexed_message lib store (fst k) (snd k) payload) (\<lambda>message.
          and_then (read_rows lib store ks) (\<lambda>rest. Ok (message # rest))))"

definition tg_search_messages ::
  "StorageLibrary \<Rightarrow> string \<Rightarrow> ChatId option \<Rightarrow> nat \<Rightarrow> EncryptedSqliteStore \<Rightarrow> (TgMessage list, StorageError) result"
where
  "tg_search_messages lib query chat limit store =
     (if limit = 0 then Ok []
      else
        let tokens = search_tokens lib query 64 in
        if tokens = [] then Ok []
        else read_rows lib store
          (search_rows (st_tables store) (map (token_digest lib (st_key store)) tokens) chat (length tokens) (min limit 100)))"

end
