(* ===== verification/Storage_Safety.thy ===== *)
theory Storage_Safety
  imports Telegram_Storage
begin

text \<open>
  What the encrypted store promises: a committed transition is what the next start of the client
  reads, a refused one changes nothing, and searching the index, which holds only keyed digests of
  words, finds what a search of the messages themselves would find. The cipher is asked for what an
  authenticated cipher is documented to do, and JSON to read back the values that were written.
\<close>

section \<open>What is expected of the library\<close>

definition cipher_sound :: "StorageLibrary \<Rightarrow> bool" where
  "cipher_sound lib \<longleftrightarrow>
     (\<forall>key nonce ad plaintext c. sl_encrypt lib key nonce ad plaintext = Some c \<longrightarrow>
        c \<noteq> [] \<and> sl_decrypt lib key nonce ad c = Some plaintext)"

definition state_reads_back :: "StorageLibrary \<Rightarrow> TelegramState \<Rightarrow> bool" where
  "state_reads_back lib s \<longleftrightarrow> (\<forall>b. sl_state_to_vec lib s = Some b \<longrightarrow> sl_state_from_slice lib b = Some s)"

definition event_reads_back :: "StorageLibrary \<Rightarrow> TgEvent \<Rightarrow> bool" where
  "event_reads_back lib e \<longleftrightarrow> (\<forall>b. sl_event_to_vec lib e = Some b \<longrightarrow> sl_event_from_slice lib b = Some e)"

definition message_reads_back :: "StorageLibrary \<Rightarrow> TgMessage \<Rightarrow> bool" where
  "message_reads_back lib m \<longleftrightarrow> (\<forall>b. sl_message_to_vec lib m = Some b \<longrightarrow> sl_message_from_slice lib b = Some m)"

lemma storage_decrypt_encrypt:
  assumes "cipher_sound lib" and "storage_encrypt lib key call plaintext ad = Ok payload"
  shows "storage_decrypt lib key payload ad = Ok plaintext"
  using assms
  by (auto simp: storage_encrypt_def storage_decrypt_def cipher_sound_def Let_def NONCE_LENGTH_def result_simps)

lemma to_i64_Ok_iff: "to_i64 w = Ok n \<longleftrightarrow> unat w < 2 ^ 63 \<and> n = uint w"
  by (auto simp: to_i64_def)

lemma to_u64_Ok_iff: "to_u64 n = Ok w \<longleftrightarrow> 0 \<le> n \<and> w = word_of_int n"
  by (auto simp: to_u64_def)

lemma to_u64_uint [simp]: "to_u64 (uint w) = Ok w"
  by (simp add: to_u64_def)

lemma uint_of_nonneg: "0 \<le> n \<Longrightarrow> n < 2 ^ 63 \<Longrightarrow> uint (word_of_int n :: u64) = n"
  by (simp add: uint_word_of_int_eq take_bit_int_eq_self del: of_int_add)

section \<open>Well-formed tables\<close>

text \<open>
  Sequences are positive and none is above the last one given out, a revision is positive, and a search
  token belongs to a message of the index.
\<close>

definition tables_wf :: "StorageTables \<Rightarrow> bool" where
  "tables_wf db \<longleftrightarrow>
     db_user_version db = SCHEMA_VERSION \<and>
     0 \<le> db_last_sequence db \<and> db_last_sequence db < 2 ^ 63 \<and>
     (\<forall>row. row |\<in>| fmdom (db_event_log db) \<longrightarrow> 0 < row \<and> row \<le> db_last_sequence db) \<and>
     (\<forall>revision payload t. db_snapshot db = Some (revision, payload, t) \<longrightarrow> 0 < revision \<and> revision < 2 ^ 63) \<and>
     (\<forall>d k. (d, k) |\<in>| db_search_tokens db \<longrightarrow> contains_key (db_message_index db) k)"

text \<open>The sequences an append gives out.\<close>

definition rows_after :: "int \<Rightarrow> nat \<Rightarrow> int list" where
  "rows_after n k = map (\<lambda>i. n + 1 + int i) [0..<k]"

lemma rows_after_0 [simp]: "rows_after n 0 = []"
  by (simp add: rows_after_def)

lemma rows_after_Suc [simp]: "rows_after n (Suc k) = (n + 1) # rows_after (n + 1) k"
  by (simp add: rows_after_def upt_conv_Cons map_Suc_upt[symmetric] del: upt_Suc) 

lemma set_rows_after: "set (rows_after n k) = {n + 1 .. n + int k}"
proof (induction k arbitrary: n)
  case (Suc k)
  have "{n + 1 .. n + int (Suc k)} = insert (n + 1) {n + 1 + 1 .. n + 1 + int k}"
    by auto
  then show ?case
    using Suc by simp
qed simp

lemma sorted_rows_after: "sorted_wrt (<) (rows_after n k)"
  by (induction k arbitrary: n) (auto simp: set_rows_after)

definition same_beside_log :: "StorageTables \<Rightarrow> StorageTables \<Rightarrow> bool" where
  "same_beside_log db db' \<longleftrightarrow>
     db_user_version db' = db_user_version db \<and> db_snapshot db' = db_snapshot db \<and>
     db_message_index db' = db_message_index db \<and> db_search_tokens db' = db_search_tokens db"

lemma tables_wf_log:
  assumes "tables_wf db" and "same_beside_log db db'" and "db_last_sequence db' = db_last_sequence db + int k"
    and "db_last_sequence db' < 2 ^ 63"
    and "fmdom (db_event_log db') = fmdom (db_event_log db) |\<union>| fset_of_list (rows_after (db_last_sequence db) k)"
  shows "tables_wf db'"
proof -
  have "0 < row \<and> row \<le> db_last_sequence db'" if "row |\<in>| fmdom (db_event_log db')" for row
  proof -
    have "row |\<in>| fmdom (db_event_log db) \<or> row \<in> set (rows_after (db_last_sequence db) k)"
      using that unfolding assms(5) by (simp add: fset_of_list_elem)
    then show ?thesis
      using assms(1,3) by (fastforce simp: tables_wf_def set_rows_after)
  qed
  then show ?thesis
    using assms(1-4) by (simp add: tables_wf_def same_beside_log_def)
qed

lemma tables_wf_snapshot:
  assumes "tables_wf db" and "0 < unat revision" and "unat revision < 2 ^ 63"
  shows "tables_wf (db\<lparr>db_snapshot := Some (uint revision, payload, t)\<rparr>)"
proof -
  have "0 < uint revision \<and> uint revision < 2 ^ 63"
    using assms(2,3) unfolding uint_nat by (simp only: of_nat_0_less_iff of_nat_less_numeral_power_cancel_iff)
  then show ?thesis
    using assms(1) by (simp add: tables_wf_def)
qed

text \<open>A row of the event log that reads as the given event.\<close>

definition row_reads :: "StorageLibrary \<Rightarrow> bytes \<Rightarrow> (int, bytes \<times> i64) fmap \<Rightarrow> StoredEvent \<Rightarrow> bool" where
  "row_reads lib key event_log s \<longleftrightarrow>
     (\<exists>payload plaintext. fmlookup event_log (uint (se_sequence s)) = Some (payload, se_created_at_unix_ms s) \<and>
        storage_decrypt lib key payload (event_associated_data (se_sequence s)) = Ok plaintext \<and>
        sl_event_from_slice lib plaintext = Some (se_event s))"

lemma read_events_stored:
  assumes "\<forall>s \<in> set stored. row_reads lib key event_log s"
  shows "read_events lib key event_log (map (\<lambda>s. uint (se_sequence s)) stored) = Ok stored"
  using assms by (induction stored) (auto simp: row_reads_def)

lemma insert_event_Ok:
  assumes "cipher_sound lib" and "event_reads_back lib event"
    and "0 \<le> db_last_sequence db" and "insert_event lib key call event now db = Ok (db', s)"
  shows "uint (se_sequence s) = db_last_sequence db + 1 \<and> se_event s = event \<and> db_last_sequence db + 1 < 2 ^ 63 \<and>
         (\<exists>payload. db' = db\<lparr>db_event_log := fmupd (db_last_sequence db + 1) (payload, now) (db_event_log db),
                             db_last_sequence := db_last_sequence db + 1\<rparr>) \<and>
         row_reads lib key (db_event_log db') s"
proof -
  let ?w = "word_of_int (db_last_sequence db + 1) :: u64"
  obtain plaintext payload where n: "db_last_sequence db + 1 < 2 ^ 63"
    and p: "sl_event_to_vec lib event = Some plaintext"
      "storage_encrypt lib key call plaintext (event_associated_data ?w) = Ok payload"
    and db: "db' = db\<lparr>db_event_log := fmupd (uint ?w) (payload, now) (db_event_log db), db_last_sequence := uint ?w\<rparr>"
    and s: "s = \<lparr>se_sequence = ?w, se_event = event, se_created_at_unix_ms = now\<rparr>"
    using assms(4) by (auto simp: insert_event_def Let_def to_i64_Ok_iff to_u64_Ok_iff result_simps split: if_splits)
  have w: "uint ?w = db_last_sequence db + 1"
    by (rule uint_of_nonneg) (use n assms(3) in simp_all)
  have "row_reads lib key (db_event_log db') s"
    using storage_decrypt_encrypt[OF assms(1) p(2)] p(1) assms(2)
    by (simp add: row_reads_def db s event_reads_back_def)
  moreover have "db' = db\<lparr>db_event_log := fmupd (db_last_sequence db + 1) (payload, now) (db_event_log db),
                            db_last_sequence := db_last_sequence db + 1\<rparr>"
    unfolding db w ..
  ultimately show ?thesis
    using n w s by (intro conjI exI[of _ payload]) simp_all
qed

lemma insert_events_Ok:
  assumes "cipher_sound lib" and "\<forall>event \<in> set events. event_reads_back lib event"
    and "0 \<le> db_last_sequence db" and "db_last_sequence db < 2 ^ 63"
    and "insert_events lib key call events now db = Ok (db', stored)"
  shows "map (\<lambda>s. uint (se_sequence s)) stored = rows_after (db_last_sequence db) (length events) \<and>
         map se_event stored = events \<and>
         same_beside_log db db' \<and> db_last_sequence db' = db_last_sequence db + int (length events) \<and>
         db_last_sequence db' < 2 ^ 63 \<and>
         fmdom (db_event_log db') = fmdom (db_event_log db) |\<union>| fset_of_list (rows_after (db_last_sequence db) (length events)) \<and>
         (\<forall>row \<le> db_last_sequence db. fmlookup (db_event_log db') row = fmlookup (db_event_log db) row) \<and>
         (\<forall>s \<in> set stored. row_reads lib key (db_event_log db') s)"
  using assms(2-)
proof (induction events arbitrary: call db stored)
  case Nil
  then show ?case by (auto simp: same_beside_log_def)
next
  case (Cons event events)
  obtain db1 s rest where one: "insert_event lib key call event now db = Ok (db1, s)"
    and more: "insert_events lib key (Suc call) events now db1 = Ok (db', rest)" and stored: "stored = s # rest"
    using Cons.prems(4) by (auto simp: result_simps)
  obtain payload where s: "uint (se_sequence s) = db_last_sequence db + 1" "se_event s = event"
      "db_last_sequence db + 1 < 2 ^ 63" "row_reads lib key (db_event_log db1) s"
    and db1: "db1 = db\<lparr>db_event_log := fmupd (db_last_sequence db + 1) (payload, now) (db_event_log db),
                       db_last_sequence := db_last_sequence db + 1\<rparr>"
    using insert_event_Ok[OF assms(1) _ Cons.prems(2) one] Cons.prems(1) by auto
  note IH = Cons.IH[OF _ _ _ more]
  have "row_reads lib key (db_event_log db') s"
    using IH s Cons.prems db1 by (auto simp: row_reads_def)
  then show ?case
    using IH s Cons.prems(1,2) db1 stored by (auto simp: same_beside_log_def)
qed

section \<open>Committed transitions\<close>

lemma transaction_Ok:
  "transaction n work store = (store', Ok x) \<longleftrightarrow>
     (\<exists>db. work (st_tables store) = Ok (db, x) \<and>
           store' = store\<lparr>st_tables := db, st_random_calls := st_random_calls store + n\<rparr>)"
  by (auto simp: transaction_def split: sum.splits)

lemma transaction_Err:
  "transaction n work store = (store', Err e) \<longleftrightarrow>
     work (st_tables store) = Err e \<and> store' = store\<lparr>st_random_calls := st_random_calls store + n\<rparr>"
  by (auto simp: transaction_def split: sum.splits)

lemma write_snapshot_Ok:
  assumes "cipher_sound lib" and "state_reads_back lib state"
    and "write_snapshot lib key call state current now db = Ok (db', sn)"
  shows "sn_state sn = state \<and> unat (sn_revision sn) = unat current + 1 \<and> unat (sn_revision sn) < 2 ^ 63 \<and>
         (\<exists>payload plaintext. db' = db\<lparr>db_snapshot := Some (uint (sn_revision sn), payload, sn_updated_at_unix_ms sn)\<rparr> \<and>
            storage_decrypt lib key payload (snapshot_associated_data (sn_revision sn)) = Ok plaintext \<and>
            sl_state_from_slice lib plaintext = Some state)"
  using assms storage_decrypt_encrypt[OF assms(1)]
  by (auto simp: write_snapshot_def to_i64_Ok_iff state_reads_back_def checked_add_u64_Some_iff result_simps)

lemma load_events_after_rows:
  assumes "0 \<le> n" and "n < 2 ^ 63" and "\<forall>row. row |\<in>| old \<longrightarrow> row \<le> n"
    and "fmdom (db_event_log (st_tables store)) = old |\<union>| fset_of_list (rows_after n k)"
  shows "load_events_after lib (word_of_int n) store =
         read_events lib (st_key store) (db_event_log (st_tables store)) (rows_after n k)"
proof -
  let ?rows = "filter (\<lambda>row. n < row) (map_keys (db_event_log (st_tables store)))"
  have "set ?rows = set (rows_after n k)"
    using assms(3,4) by (force simp: set_rows_after fset_of_list.rep_eq)
  moreover have "sorted (rows_after n k) \<and> distinct (rows_after n k)"
    using sorted_rows_after[of n k] by (simp add: strict_sorted_iff)
  ultimately have "?rows = rows_after n k"
    by (intro sorted_distinct_set_unique) (auto simp: sorted_wrt_filter)
  moreover have "to_i64 (word_of_int n) = Ok n"
    using uint_of_nonneg[OF assms(1,2)] assms(1,2) by (simp add: to_i64_def unat_eq_nat_uint nat_less_iff)
  ultimately show ?thesis
    by (simp add: load_events_after_def)
qed

lemma commit_transition_Ok:
  assumes "commit_transition lib state events expected now store = (store', Ok p)"
  shows "\<exists>db. current_revision (st_tables store) = Ok expected \<and>
    insert_events lib (st_key store) (st_random_calls store) events now (st_tables store) = Ok (db, pt_events p) \<and>
    write_snapshot lib (st_key store) (st_random_calls store + length events) state expected now db
      = Ok (st_tables store', pt_snapshot p) \<and>
    st_key store' = st_key store"
  using assms by (auto simp: commit_transition_def transaction_Ok result_simps split: if_splits)

lemma commit_transition_durable:
  assumes "cipher_sound lib" and "state_reads_back lib state" and "\<forall>event \<in> set events. event_reads_back lib event"
    and "tables_wf (st_tables store)" and "commit_transition lib state events expected now store = (store', Ok p)"
  shows "load_snapshot lib store' = Ok (Some (pt_snapshot p)) \<and> sn_state (pt_snapshot p) = state \<and>
         unat (sn_revision (pt_snapshot p)) = unat expected + 1 \<and>
         load_events_after lib (word_of_int (db_last_sequence (st_tables store))) store' = Ok (pt_events p) \<and>
         map se_event (pt_events p) = events \<and>
         (\<forall>row \<le> db_last_sequence (st_tables store).
            fmlookup (db_event_log (st_tables store')) row = fmlookup (db_event_log (st_tables store)) row) \<and>
         tables_wf (st_tables store')"
proof -
  let ?n = "db_last_sequence (st_tables store)"
  obtain db where ins: "insert_events lib (st_key store) (st_random_calls store) events now (st_tables store) = Ok (db, pt_events p)"
    and wr: "write_snapshot lib (st_key store) (st_random_calls store + length events) state expected now db
      = Ok (st_tables store', pt_snapshot p)"
    and key: "st_key store' = st_key store"
    using commit_transition_Ok[OF assms(5)] by auto
  have n: "0 \<le> ?n" "?n < 2 ^ 63"
    using assms(4) by (auto simp: tables_wf_def)
  note I = insert_events_Ok[OF assms(1,3) n ins] and W = write_snapshot_Ok[OF assms(1,2) wr]
  have same: "db_event_log (st_tables store') = db_event_log db"
    using W by auto
  have "load_events_after lib (word_of_int ?n) store' = read_events lib (st_key store) (db_event_log db) (rows_after ?n (length events))"
    using load_events_after_rows[OF n, of "fmdom (db_event_log (st_tables store))" store' "length events" lib] I assms(4)
    by (auto simp: tables_wf_def same key)
  also have "\<dots> = Ok (pt_events p)"
    using I read_events_stored by metis
  finally have events: "load_events_after lib (word_of_int ?n) store' = Ok (pt_events p)" .
  have snap: "load_snapshot lib store' = Ok (Some (pt_snapshot p))"
    using W by (auto simp: load_snapshot_def key)
  have "tables_wf db"
    using I assms(4) by (blast intro: tables_wf_log)
  then have "tables_wf (st_tables store')"
    using W by (auto intro!: tables_wf_snapshot)
  then show ?thesis
    using I W events snap same by auto
qed

section \<open>Searching without the words\<close>

text \<open>The index as it would be without encryption: the messages themselves.\<close>

type_synonym plain_index = "(ChatId \<times> TgMessageId, TgMessage) fmap"

definition message_words :: "StorageLibrary \<Rightarrow> TgMessage \<Rightarrow> string list" where
  "message_words lib m = search_tokens lib (tg_message_search_text m) 512"

definition plain_upsert :: "TgMessage \<Rightarrow> plain_index \<Rightarrow> plain_index" where
  "plain_upsert m plain =
     (if tm_is_deleted m then fmdrop (tm_chat_id m, tm_id m) plain else fmupd (tm_chat_id m, tm_id m) m plain)"

definition newest_first :: "TgMessage \<Rightarrow> int \<times> int" where
  "newest_first m = (- sint (tm_date_unix_ms m), - sint (tg_message_num (tm_id m)))"

definition plain_search :: "StorageLibrary \<Rightarrow> string \<Rightarrow> ChatId option \<Rightarrow> nat \<Rightarrow> plain_index \<Rightarrow> TgMessage list" where
  "plain_search lib query chat limit plain =
     (let wanted = set (search_tokens lib query 64) in
      if wanted = {} then []
      else take (min limit 100) (sort_key newest_first
        (filter (\<lambda>m. in_scope chat (tm_chat_id m, tm_id m) \<and> wanted \<subseteq> set (message_words lib m)) (map_values plain))))"

definition represents :: "StorageLibrary \<Rightarrow> EncryptedSqliteStore \<Rightarrow> plain_index \<Rightarrow> bool" where
  "represents lib store plain \<longleftrightarrow>
     fmdom (db_message_index (st_tables store)) = fmdom plain \<and>
     (\<forall>k m. fmlookup plain k = Some m \<longrightarrow> k = (tm_chat_id m, tm_id m) \<and>
        (\<exists>payload. fmlookup (db_message_index (st_tables store)) k = Some (tm_date_unix_ms m, payload) \<and>
           decrypt_indexed_message lib store (fst k) (snd k) payload = Ok m)) \<and>
     (\<forall>d k. (d, k) |\<in>| db_search_tokens (st_tables store) \<longleftrightarrow>
        (\<exists>m. fmlookup plain k = Some m \<and> d \<in> token_digest lib (st_key store) ` set (message_words lib m)))"

lemma representsD:
  assumes "represents lib store plain" and "fmlookup plain k = Some m"
  shows "k = (tm_chat_id m, tm_id m)"
    and "\<exists>payload. fmlookup (db_message_index (st_tables store)) k = Some (tm_date_unix_ms m, payload) \<and>
           decrypt_indexed_message lib store (fst k) (snd k) payload = Ok m"
  using assms unfolding represents_def by blast+

lemma representsT:
  assumes "represents lib store plain" and "fmlookup plain k = Some m"
  shows "(d, k) |\<in>| db_search_tokens (st_tables store) \<longleftrightarrow> d \<in> token_digest lib (st_key store) ` set (message_words lib m)"
proof -
  have "(d, k) |\<in>| db_search_tokens (st_tables store) \<longleftrightarrow>
        (\<exists>m. fmlookup plain k = Some m \<and> d \<in> token_digest lib (st_key store) ` set (message_words lib m))"
    using assms(1) unfolding represents_def by blast
  then show ?thesis
    using assms(2) by simp
qed

lemma decrypt_indexed_message_key:
  "st_key store' = st_key store \<Longrightarrow> decrypt_indexed_message lib store' = decrypt_indexed_message lib store"
  by (intro ext) (simp add: decrypt_indexed_message_def)

lemma represents_deleted:
  assumes "represents lib store plain" and "st_tables store' = delete_index_row c m (st_tables store)" and "st_key store' = st_key store"
  shows "represents lib store' (fmdrop (c, m) plain)"
  using assms(1) unfolding represents_def decrypt_indexed_message_key[OF assms(3)] assms(2,3) delete_index_row_def
  by auto

lemma represents_upserted:
  assumes "cipher_sound lib" and "message_reads_back lib m" and "represents lib store plain"
    and "upsert_message_index lib m store = (store', Ok ())"
  shows "represents lib store' (plain_upsert m plain)"
proof (cases "tm_is_deleted m")
  case True
  then show ?thesis
    using assms(4) represents_deleted[OF assms(3), of store'] 
    by (auto simp: upsert_message_index_def Let_def transaction_Ok plain_upsert_def)
next
  case False
  let ?k = "(tm_chat_id m, tm_id m)"
  obtain plaintext payload where p: "sl_message_to_vec lib m = Some plaintext"
      "storage_encrypt lib (st_key store) (st_random_calls store) plaintext (message_associated_data (tm_chat_id m) (tm_id m)) = Ok payload"
    and db: "st_key store' = st_key store"
      "db_message_index (st_tables store') = fmupd ?k (tm_date_unix_ms m, payload) (db_message_index (st_tables store))"
      "db_search_tokens (st_tables store') = ffilter (\<lambda>(_, k). k \<noteq> ?k) (db_search_tokens (st_tables store)) |\<union>|
         fset_of_list (map (\<lambda>token. (token_digest lib (st_key store) token, ?k)) (message_words lib m))"
    using assms(4) False by (auto simp: upsert_message_index_def Let_def transaction_Ok message_words_def result_simps)
  have "decrypt_indexed_message lib store (tm_chat_id m) (tm_id m) payload = Ok m"
    using storage_decrypt_encrypt[OF assms(1) p(2)] p(1) assms(2)
    by (simp add: decrypt_indexed_message_def message_reads_back_def)
  then show ?thesis
    using assms(3) False unfolding represents_def plain_upsert_def decrypt_indexed_message_key[OF db(1)] db
    by (auto simp: fset_of_list_elem)
qed

lemma distinct_search_tokens: "distinct (search_tokens lib input n)"
  by (simp add: search_tokens_def sorted_list_of_fset.rep_eq split: prod.split)

lemma row_hits_count:
  assumes "represents lib store plain" and "fmlookup plain k = Some m" and "distinct words"
    and "inj_on (token_digest lib (st_key store)) (set words \<union> set (message_words lib m))"
  shows "fcard (row_hits (map (token_digest lib (st_key store)) words) (st_tables store) k) = length words
     \<longleftrightarrow> set words \<subseteq> set (message_words lib m)"
proof -
  let ?f = "token_digest lib (st_key store)"
  let ?hits = "set words \<inter> set (message_words lib m)"
  have "fset (row_hits (map ?f words) (st_tables store) k) = ?f ` ?hits"
    using representsT[OF assms(1,2)] assms(4) by (auto simp: row_hits_def fset_of_list.rep_eq inj_on_def)
  then have "fcard (row_hits (map ?f words) (st_tables store) k) = card (?f ` ?hits)"
    by (simp add: fcard.rep_eq)
  also have "\<dots> = card ?hits"
    by (rule card_image) (use assms(4) in \<open>auto simp: inj_on_def\<close>)
  also have "\<dots> = length words \<longleftrightarrow> ?hits = set words"
    using card_subset_eq[of "set words" ?hits] distinct_card[OF assms(3)] by auto
  finally show ?thesis
    by auto
qed

lemma insort_key_map:
  "\<forall>y \<in> insert x (set xs). f y = g (h y) \<Longrightarrow> map h (insort_key f x xs) = insort_key g (h x) (map h xs)"
  by (induction xs) auto

lemma sort_key_map:
  "\<forall>y \<in> set xs. f y = g (h y) \<Longrightarrow> map h (sort_key f xs) = sort_key g (map h xs)"
proof (induction xs)
  case (Cons x xs)
  then have "map h (insort_key f x (sort_key f xs)) = insort_key g (h x) (map h (sort_key f xs))"
    by (intro insort_key_map) simp
  then show ?case
    using Cons by simp
qed simp

lemma read_rows_represented:
  assumes "represents lib store plain" and "set ks \<subseteq> fset (fmdom plain)"
  shows "read_rows lib store ks = Ok (map (\<lambda>k. the (fmlookup plain k)) ks)"
  using assms(2)
proof (induction ks)
  case (Cons k ks)
  then obtain m where "fmlookup plain k = Some m"
    by (auto simp: fmlookup_dom_iff)
  then obtain payload where "fmlookup (db_message_index (st_tables store)) k = Some (tm_date_unix_ms m, payload)"
      "decrypt_indexed_message lib store (fst k) (snd k) payload = Ok m"
    using representsD(2)[OF assms(1)] by blast
  then show ?case
    using Cons \<open>fmlookup plain k = Some m\<close> by simp
qed simp

lemma tg_search_messages_represented:
  assumes "represents lib store plain"
    and "inj_on (token_digest lib (st_key store))
           (set (search_tokens lib query 64) \<union> (\<Union>m \<in> fmran' plain. set (message_words lib m)))"
  shows "tg_search_messages lib query chat limit store = Ok (plain_search lib query chat limit plain)"
proof -
  let ?words = "search_tokens lib query 64" and ?at = "\<lambda>k. the (fmlookup plain k)"
  let ?digests = "map (token_digest lib (st_key store)) ?words"
  let ?hit = "\<lambda>k. in_scope chat k \<and> fcard (row_hits ?digests (st_tables store) k) = length ?words"
  let ?fits = "\<lambda>m. in_scope chat (tm_chat_id m, tm_id m) \<and> set ?words \<subseteq> set (message_words lib m)"
  let ?rows = "filter ?hit (map_keys plain)"
  have keys: "map_keys (db_message_index (st_tables store)) = map_keys plain"
    using assms(1) by (simp add: represents_def map_keys_def)
  have hit: "?hit k \<longleftrightarrow> ?fits (?at k)" and key: "row_key (st_tables store) k = newest_first (?at k)"
    if k: "k \<in> set (map_keys plain)" for k
  proof -
    obtain m where m: "fmlookup plain k = Some m"
      using k by (auto simp: fmlookup_dom_iff)
    have "inj_on (token_digest lib (st_key store)) (set ?words \<union> set (message_words lib m))"
      by (rule inj_on_subset[OF assms(2)]) (use m in \<open>auto intro: fmran'I\<close>)
    then show "?hit k \<longleftrightarrow> ?fits (?at k)"
      using row_hits_count[OF assms(1) m distinct_search_tokens] representsD(1)[OF assms(1) m] m by simp
    show "row_key (st_tables store) k = newest_first (?at k)"
      using m representsD[OF assms(1) m] by (auto simp: row_key_def newest_first_def)
  qed
  have "?rows = filter (\<lambda>k. ?fits (?at k)) (map_keys plain)"
    using hit by (rule filter_cong[OF refl])
  then have "map ?at ?rows = filter ?fits (map_values plain)"
    by (simp add: map_values_def filter_map o_def)
  then have "map ?at (sort_key (row_key (st_tables store)) ?rows) = sort_key newest_first (filter ?fits (map_values plain))"
    using sort_key_map[of ?rows "row_key (st_tables store)" newest_first ?at] key by simp
  moreover have "read_rows lib store (search_rows (st_tables store) ?digests chat (length ?words) n)
      = Ok (take n (map ?at (sort_key (row_key (st_tables store)) ?rows)))" for n
    unfolding search_rows_def keys
    by (subst read_rows_represented[OF assms(1)]) (auto simp: take_map dest: in_set_takeD)
  ultimately show ?thesis
    by (auto simp: tg_search_messages_def plain_search_def Let_def)
qed

text \<open>
  The stores a client can reach from a database without an index, each with the messages that were
  put into it and not taken out again.
\<close>

inductive indexed :: "StorageLibrary \<Rightarrow> EncryptedSqliteStore \<Rightarrow> plain_index \<Rightarrow> bool" for lib where
  opened: "from_connection db key = Ok store \<Longrightarrow> db_user_version db \<in> {0, 1} \<Longrightarrow> indexed lib store fmempty"
| upserted: "indexed lib store plain \<Longrightarrow> message_reads_back lib m \<Longrightarrow>
    upsert_message_index lib m store = (store', Ok ()) \<Longrightarrow> indexed lib store' (plain_upsert m plain)"
| upsert_failed: "indexed lib store plain \<Longrightarrow> upsert_message_index lib m store = (store', Err e) \<Longrightarrow> indexed lib store' plain"
| removed: "indexed lib store plain \<Longrightarrow> remove_message_index c i store = (store', r) \<Longrightarrow> indexed lib store' (fmdrop (c, i) plain)"
| saved: "indexed lib store plain \<Longrightarrow> save_snapshot lib state expected now store = (store', r') \<Longrightarrow> indexed lib store' plain"
| committed: "indexed lib store plain \<Longrightarrow> commit_transition lib state events expected now store = (store', r'') \<Longrightarrow>
    indexed lib store' plain"
| appended: "indexed lib store plain \<Longrightarrow> append_event lib event now store = (store', r3) \<Longrightarrow> indexed lib store' plain"
| pruned: "indexed lib store plain \<Longrightarrow> prune_events_through sequence store = (store', r4) \<Longrightarrow> indexed lib store' plain"

definition same_index :: "EncryptedSqliteStore \<Rightarrow> EncryptedSqliteStore \<Rightarrow> bool" where
  "same_index store store' \<longleftrightarrow>
     st_key store' = st_key store \<and> db_message_index (st_tables store') = db_message_index (st_tables store) \<and>
     db_search_tokens (st_tables store') = db_search_tokens (st_tables store)"

lemma represents_same_index:
  assumes "same_index store store'" and "represents lib store plain"
  shows "represents lib store' plain"
proof -
  have key: "st_key store' = st_key store"
    using assms(1) by (simp add: same_index_def)
  show ?thesis
    using assms unfolding represents_def same_index_def decrypt_indexed_message_key[OF key] by simp
qed

lemma same_index_transaction:
  assumes "\<And>db x. work (st_tables store) = Ok (db, x) \<Longrightarrow>
      db_message_index db = db_message_index (st_tables store) \<and> db_search_tokens db = db_search_tokens (st_tables store)"
  shows "same_index store (fst (transaction n work store))"
  using assms by (auto simp: transaction_def same_index_def split: sum.splits)

lemma insert_event_index:
  "insert_event lib key call event now db = Ok (db', s) \<Longrightarrow>
     db_message_index db' = db_message_index db \<and> db_search_tokens db' = db_search_tokens db"
  by (auto simp: insert_event_def Let_def result_simps split: if_splits)

lemma insert_events_index:
  "insert_events lib key call events now db = Ok (db', stored) \<Longrightarrow>
     db_message_index db' = db_message_index db \<and> db_search_tokens db' = db_search_tokens db"
  by (induction events arbitrary: call db stored) (auto simp: result_simps dest!: insert_event_index)

lemma write_snapshot_index:
  "write_snapshot lib key call state current now db = Ok (db', sn) \<Longrightarrow>
     db_message_index db' = db_message_index db \<and> db_search_tokens db' = db_search_tokens db"
  by (auto simp: write_snapshot_def result_simps)

lemma same_index_save: "same_index store (fst (save_snapshot lib state expected now store))"
  unfolding save_snapshot_def
  by (rule same_index_transaction) (auto simp: result_simps split: if_splits dest!: write_snapshot_index)

lemma same_index_commit: "same_index store (fst (commit_transition lib state events expected now store))"
  unfolding commit_transition_def
  by (rule same_index_transaction)
    (auto simp: result_simps split: if_splits dest!: insert_events_index write_snapshot_index)

lemma same_index_append: "same_index store (fst (append_event lib event now store))"
  unfolding append_event_def by (rule same_index_transaction) (auto dest!: insert_event_index)

lemma same_index_prune: "same_index store (fst (prune_events_through sequence store))"
  by (auto simp: prune_events_through_def same_index_def Let_def split: sum.splits)

lemma same_index_failed: "upsert_message_index lib m store = (store', Err e) \<Longrightarrow> same_index store store'"
  by (auto simp: upsert_message_index_def transaction_Err same_index_def Let_def)

lemmas same_index_operations = same_index_save same_index_commit same_index_append same_index_prune

lemma indexed_represents:
  assumes "indexed lib store plain" and "cipher_sound lib"
  shows "represents lib store plain"
  using assms(1)
proof induction
  case (opened db key store)
  then show ?case
    by (auto simp: from_connection_def migrate_def represents_def SCHEMA_VERSION_def result_simps)
next
  case (upserted store plain m store')
  then show ?case
    by (rule_tac represents_upserted[OF assms(2)])
next
  case (removed store plain c i store' r)
  then show ?case
    by (auto simp: remove_message_index_def intro!: represents_deleted)
qed (metis same_index_operations same_index_failed represents_same_index fst_conv)+

section \<open>Properties\<close>

definition note_message :: TgMessage where
  "note_message =
     \<lparr>tm_id = TgMessageId 7, tm_chat_id = ChatId 1, tm_sender_user_id = UserId 2, tm_date_unix_ms = 5,
      tm_edit_date_unix_ms = None, tm_content = TgText (TgFormattedText_plain ''om''), tm_reply_to_message_id = None,
      tm_message_thread_id = None, tm_delivery_state = TgSent, tm_reactions = [],
      tm_is_outgoing = False, tm_is_pinned = False, tm_is_deleted = False\<rparr>"

definition note_library :: StorageLibrary where
  "note_library =
     \<lparr>sl_encrypt = (\<lambda>_ _ _ p. Some (0 # p)), sl_decrypt = (\<lambda>_ _ _ c. Some (tl c)), sl_hmac_sha256 = (\<lambda>_ b. b),
      sl_random = (\<lambda>_ _. 0), sl_state_to_vec = (\<lambda>s. if s = TelegramState_default then Some [] else None),
      sl_state_from_slice = (\<lambda>_. Some TelegramState_default),
      sl_event_to_vec = (\<lambda>_. None), sl_event_from_slice = (\<lambda>_. None),
      sl_message_to_vec = (\<lambda>_. Some []), sl_message_from_slice = (\<lambda>_. Some note_message),
      sl_lowercase = (\<lambda>c. c), sl_alphanumeric = (\<lambda>_. True)\<rparr>"

definition note_store :: EncryptedSqliteStore where
  "note_store =
     \<lparr>st_tables = \<lparr>db_user_version = 2, db_snapshot = None, db_event_log = fmempty, db_last_sequence = 0,
                   db_message_index = fmempty, db_search_tokens = {||}\<rparr>,
      st_key = replicate 32 7, st_random_calls = 0\<rparr>"

lemma note_library_sound: "cipher_sound note_library"
  by (simp add: cipher_sound_def note_library_def)

lemma note_opened: "from_connection (st_tables note_store\<lparr>db_user_version := 0\<rparr>) (replicate 32 7) = Ok note_store"
  by (simp add: from_connection_def migrate_def note_store_def SCHEMA_VERSION_def)

lemma note_upserted: "\<exists>store. upsert_message_index note_library note_message note_store = (store, Ok ())"
  by (simp add: upsert_message_index_def transaction_def storage_encrypt_def note_library_def note_message_def Let_def)

lemma note_words: "search_tokens note_library ''om'' n = take n [''om'']"
  by (simp add: search_tokens_def is_cjk_def note_library_def continuation_byte_def flush_cjk_def flush_word_def
      sorted_list_of_fset.rep_eq)

lemma note_digest: "inj (token_digest note_library key)"
  by (rule injI) (auto simp: token_digest_def blind_index_token_def note_library_def dest: arg_cong[where f = of_bytes])

text \<open>
  C40: a search of the encrypted index, whose tokens are only keyed digests, returns the messages that
  a search of the indexed messages themselves returns, in the same order: those in the given chat that
  contain every word of the query, newest first, after any sequence of operations on the store. The
  keyed digests of the words at hand are assumed to differ.
\<close>

theorem encrypted_search_is_plain_search:
  assumes "indexed lib store plain" and "cipher_sound lib"
    and "inj_on (token_digest lib (st_key store))
           (set (search_tokens lib query 64) \<union> (\<Union>m \<in> fmran' plain. set (message_words lib m)))"
  shows "tg_search_messages lib query chat limit store = Ok (plain_search lib query chat limit plain)"
  using tg_search_messages_represented[OF indexed_represents[OF assms(1,2)] assms(3)] .

theorem encrypted_search_is_plain_search_witness:
  "tg_search_messages note_library ''om'' (Some (ChatId 1)) 10
     (fst (upsert_message_index note_library note_message note_store)) = Ok [note_message]"
proof -
  obtain store where up: "upsert_message_index note_library note_message note_store = (store, Ok ())"
    using note_upserted by blast
  have "indexed note_library note_store fmempty"
    by (rule indexed.opened[OF note_opened]) simp
  then have "indexed note_library store (plain_upsert note_message fmempty)"
    by (rule indexed.upserted[OF _ _ up]) (simp add: message_reads_back_def note_library_def)
  then have "tg_search_messages note_library ''om'' (Some (ChatId 1)) 10 store
      = Ok (plain_search note_library ''om'' (Some (ChatId 1)) 10 (plain_upsert note_message fmempty))"
    by (rule encrypted_search_is_plain_search[OF _ note_library_sound inj_on_subset[OF note_digest]]) simp
  also have "plain_search note_library ''om'' (Some (ChatId 1)) 10 (plain_upsert note_message fmempty) = [note_message]"
    by (simp add: plain_search_def plain_upsert_def note_words message_words_def in_scope_def map_values_def map_keys_def
        tg_message_search_text_def note_message_def formatted_part_def TgFormattedText_plain_def sorted_list_of_fset.rep_eq)
  finally show ?thesis
    by (simp add: up)
qed

end
