(* ===== verification/Authorization.thy ===== *)
theory Authorization
  imports Bytes
begin

text \<open>
  The authorization of the Telegram client (\<open>telegram-protocol/src/auth.rs\<close>): a machine whose
  commands are checked against its state and whose state follows the server.
\<close>

section \<open>States, commands and events\<close>

datatype CodeDeliveryType =
    TelegramMessage | DeliverySms | DeliveryCall | DeliveryFlashCall | DeliveryMissedCall | DeliveryEmail
  | DeliveryFragment | FirebaseAndroid | FirebaseIos | DeliveryUnknown

datatype AuthorizationState =
    WaitParameters
  | WaitPhoneNumber
  | WaitCode (wc_phone_number: string) (wc_delivery_type: CodeDeliveryType) (wc_code_length: u8) (wc_timeout_seconds: "u32 option")
  | WaitOtherDeviceConfirmation (wo_link: string)
  | WaitRegistration (wr_terms_of_service_id: "string option")
  | WaitPassword (wp_password_hint: string) (wp_has_recovery_email: bool) (wp_recovery_email_pattern: "string option")
  | AuthReady
  | LoggingOut
  | AuthClosing
  | AuthClosed

datatype AuthCommand =
    ParametersAccepted
  | SubmitPhoneNumber string
  | RequestQrCode
  | SubmitCode string
  | SubmitRegistration string string
  | SubmitPassword string
  | RequestPasswordRecovery
  | LogoutCommand
  | CloseCommand
  | ApplyRemoteState AuthorizationState

datatype AuthEvent =
    ParametersConfigured
  | PhoneNumberSubmitted string
  | QrCodeRequested
  | CodeSubmitted
  | RegistrationSubmitted
  | PasswordSubmitted
  | PasswordRecoveryRequested
  | LogoutRequested
  | CloseRequested
  | AuthStateChanged AuthorizationState

datatype AuthError =
    InvalidTransition AuthorizationState string
  | InvalidPhoneNumber
  | InvalidCode
  | InvalidRegistrationName
  | InvalidPassword

record AuthorizationMachine =
  am_state :: AuthorizationState

definition AuthorizationMachine_default :: AuthorizationMachine where
  "AuthorizationMachine_default = \<lparr>am_state = WaitParameters\<rparr>"

definition from_state :: "AuthorizationState \<Rightarrow> AuthorizationMachine" where
  "from_state s = \<lparr>am_state = s\<rparr>"

section \<open>Deciding and applying\<close>

primrec command_name :: "AuthCommand \<Rightarrow> string" where
  "command_name ParametersAccepted = ''parametersAccepted''"
| "command_name (SubmitPhoneNumber _) = ''submitPhoneNumber''"
| "command_name RequestQrCode = ''requestQrCode''"
| "command_name (SubmitCode _) = ''submitCode''"
| "command_name (SubmitRegistration _ _) = ''submitRegistration''"
| "command_name (SubmitPassword _) = ''submitPassword''"
| "command_name RequestPasswordRecovery = ''requestPasswordRecovery''"
| "command_name LogoutCommand = ''logout''"
| "command_name CloseCommand = ''close''"
| "command_name (ApplyRemoteState _) = ''applyRemoteState''"

definition normalize_phone_number :: "string \<Rightarrow> (string, AuthError) result" where
  "normalize_phone_number value =
     (let trimmed = trim value;
          digits = filter is_ascii_digit trimmed
      in if take 1 trimmed \<noteq> ''+'' \<or> length digits < 6 \<or> 20 < length digits then Err InvalidPhoneNumber
         else Ok (''+'' @ digits))"

definition invalid_transition :: "AuthorizationMachine \<Rightarrow> AuthCommand \<Rightarrow> (AuthEvent, AuthError) result" where
  "invalid_transition m command = Err (InvalidTransition (am_state m) (command_name command))"

primrec decide_auth_event :: "AuthorizationMachine \<Rightarrow> AuthCommand \<Rightarrow> (AuthEvent, AuthError) result" where
  "decide_auth_event m ParametersAccepted =
     (if am_state m = WaitParameters then Ok ParametersConfigured
      else invalid_transition m ParametersAccepted)"
| "decide_auth_event m (SubmitPhoneNumber phone_number) =
     (if am_state m = WaitPhoneNumber then
        and_then (normalize_phone_number phone_number) (\<lambda>normalized. Ok (PhoneNumberSubmitted normalized))
      else invalid_transition m (SubmitPhoneNumber phone_number))"
| "decide_auth_event m RequestQrCode =
     (if am_state m = WaitPhoneNumber then Ok QrCodeRequested else invalid_transition m RequestQrCode)"
| "decide_auth_event m (SubmitCode code) =
     (if is_WaitCode (am_state m) then
        let code = trim code in
        if code = [] \<or> 16 < length code \<or> \<not> list_all is_ascii_alphanumeric code then Err InvalidCode
        else Ok CodeSubmitted
      else invalid_transition m (SubmitCode code))"
| "decide_auth_event m (SubmitRegistration first_name last_name) =
     (if is_WaitRegistration (am_state m) then
        let first_name = trim first_name; last_name = trim last_name in
        if first_name = [] \<or> 64 < length first_name \<or> 64 < length last_name then Err InvalidRegistrationName
        else Ok RegistrationSubmitted
      else invalid_transition m (SubmitRegistration first_name last_name))"
| "decide_auth_event m (SubmitPassword password) =
     (if is_WaitPassword (am_state m) then
        if password = [] then Err InvalidPassword else Ok PasswordSubmitted
      else invalid_transition m (SubmitPassword password))"
| "decide_auth_event m RequestPasswordRecovery =
     (if is_WaitPassword (am_state m) then Ok PasswordRecoveryRequested
      else invalid_transition m RequestPasswordRecovery)"
| "decide_auth_event m LogoutCommand =
     (if am_state m = AuthReady then Ok LogoutRequested else invalid_transition m LogoutCommand)"
| "decide_auth_event m CloseCommand =
     (if am_state m \<noteq> AuthClosing \<and> am_state m \<noteq> AuthClosed then Ok CloseRequested
      else invalid_transition m CloseCommand)"
| "decide_auth_event m (ApplyRemoteState s) = Ok (AuthStateChanged s)"

definition decide_auth :: "AuthorizationMachine \<Rightarrow> AuthCommand \<Rightarrow> (AuthEvent list, AuthError) result" where
  "decide_auth m command = and_then (decide_auth_event m command) (\<lambda>event. Ok [event])"

primrec apply_auth :: "AuthorizationMachine \<Rightarrow> AuthEvent \<Rightarrow> AuthorizationMachine" where
  "apply_auth m ParametersConfigured = m\<lparr>am_state := WaitPhoneNumber\<rparr>"
| "apply_auth m LogoutRequested = m\<lparr>am_state := LoggingOut\<rparr>"
| "apply_auth m CloseRequested = m\<lparr>am_state := AuthClosing\<rparr>"
| "apply_auth m (AuthStateChanged s) = m\<lparr>am_state := s\<rparr>"
| "apply_auth m (PhoneNumberSubmitted _) = m"
| "apply_auth m QrCodeRequested = m"
| "apply_auth m CodeSubmitted = m"
| "apply_auth m RegistrationSubmitted = m"
| "apply_auth m PasswordSubmitted = m"
| "apply_auth m PasswordRecoveryRequested = m"

definition execute_auth ::
  "AuthorizationMachine \<Rightarrow> AuthCommand \<Rightarrow> AuthorizationMachine \<times> (AuthEvent list, AuthError) result"
where
  "execute_auth m command =
     (case decide_auth m command of
        Inl e \<Rightarrow> (m, Err e)
      | Inr events \<Rightarrow> (foldl apply_auth m events, Ok events))"

section \<open>The machine follows the server\<close>

abbreviation auth_step :: "AuthorizationMachine \<Rightarrow> AuthCommand \<Rightarrow> AuthorizationMachine" where
  "auth_step m command \<equiv> fst (execute_auth m command)"

text \<open>The states a client reaches on its own.\<close>

definition local_state :: "AuthorizationState \<Rightarrow> bool" where
  "local_state s \<longleftrightarrow> s \<in> {WaitParameters, WaitPhoneNumber, LoggingOut, AuthClosing}"

lemma execute_auth_Err: "execute_auth m command = (m', Err e) \<Longrightarrow> m' = m"
  by (auto simp: execute_auth_def split: sum.splits)

lemma auth_step_event:
  "auth_step m command = (case decide_auth_event m command of Inl _ \<Rightarrow> m | Inr event \<Rightarrow> apply_auth m event)"
  by (simp add: execute_auth_def decide_auth_def split: sum.splits)

lemma decide_state_changed:
  "decide_auth_event m command = Ok (AuthStateChanged s) \<Longrightarrow> command = ApplyRemoteState s"
  by (cases command)
    (auto simp: invalid_transition_def Let_def result_simps split: if_splits)

lemma auth_step_cases:
  obtains "auth_step m command = m"
  | "local_state (am_state (auth_step m command))"
  | s where "command = ApplyRemoteState s" "am_state (auth_step m command) = s"
proof (cases "decide_auth_event m command")
  case (Inl e)
  then show ?thesis using that(1) by (simp add: auth_step_event)
next
  case (Inr event)
  then have step: "auth_step m command = apply_auth m event" by (simp add: auth_step_event)
  show ?thesis
  proof (cases event)
    case (AuthStateChanged s)
    then have "command = ApplyRemoteState s" using decide_state_changed Inr by simp
    then show ?thesis using that(3) [of s] AuthStateChanged step by simp
  qed (use that(1,2) step in \<open>simp_all add: local_state_def\<close>)
qed

text \<open>
  The state of the machine is the server's. Whatever a client does, a machine that has moved and is
  not in one of the four states a client reaches on its own is in a state the server sent, and has
  been in it ever since. In particular no phone number, code, name or password a client submits
  makes it ready.
\<close>

theorem authorization_follows_server:
  assumes "\<not> local_state (am_state (foldl auth_step m commands))" "foldl auth_step m commands \<noteq> m"
  shows "\<exists>before after s. commands = before @ ApplyRemoteState s # after
    \<and> (\<forall>k. am_state (foldl auth_step m (before @ ApplyRemoteState s # take k after)) = s)"
  using assms
proof (induction commands rule: rev_induct)
  case Nil
  then show ?case by simp
next
  case (snoc command commands)
  let ?m = "foldl auth_step m commands" and ?m' = "foldl auth_step m (commands @ [command])"
  show ?case
  proof (rule auth_step_cases [of ?m command])
    assume "auth_step ?m command = ?m"
    then have same: "?m' = ?m" by simp
    with snoc obtain before after s where commands: "commands = before @ ApplyRemoteState s # after"
      and kept: "\<And>k. am_state (foldl auth_step m (before @ ApplyRemoteState s # take k after)) = s"
      by auto
    have "am_state ?m = s" using kept [of "length after"] commands by simp
    have "am_state (foldl auth_step m (before @ ApplyRemoteState s # take k (after @ [command]))) = s" for k
    proof (cases "k \<le> length after")
      case True
      then show ?thesis using kept [of k] by simp
    next
      case False
      then have "before @ ApplyRemoteState s # take k (after @ [command]) = commands @ [command]"
        using commands by simp
      then show ?thesis using same \<open>am_state ?m = s\<close> by (simp only:)
    qed
    with commands show ?thesis by (intro exI [of _ before] exI [of _ "after @ [command]"] exI [of _ s]) simp
  next
    assume "local_state (am_state (auth_step ?m command))"
    with snoc.prems show ?thesis by simp
  next
    fix s
    assume "command = ApplyRemoteState s" "am_state (auth_step ?m command) = s"
    then show ?thesis by (intro exI [of _ commands] exI [of _ "[]"] exI [of _ s]) simp
  qed
qed

theorem authorization_follows_server_witness:
  "\<exists>before after s. [ParametersAccepted, SubmitPhoneNumber ''+861380'', ApplyRemoteState AuthReady, SubmitPassword ''x'']
      = before @ ApplyRemoteState s # after
    \<and> (\<forall>k. am_state (foldl auth_step AuthorizationMachine_default (before @ ApplyRemoteState s # take k after)) = s)"
  by (rule authorization_follows_server)
    (simp_all add: execute_auth_def decide_auth_def AuthorizationMachine_default_def normalize_phone_number_def
      trim_def ws1_def ws2_def ws3_def is_ascii_digit_def less_eq_char_def local_state_def invalid_transition_def)

section \<open>Phone numbers\<close>

lemma trim_clean:
  assumes "list_all is_ascii_digit ds"
  shows "trim (CHR ''+'' # ds) = CHR ''+'' # ds"
proof (rule trim_plain)
  show "plain_char (last (CHR ''+'' # ds))"
    using assms digit_plain by (cases "ds = []") (auto simp: plain_char_def list_all_iff)
qed (simp_all add: plain_char_def)

lemma ws_not_digit:
  "ws1 a \<Longrightarrow> \<not> is_ascii_digit a"
  "ws2 a b \<Longrightarrow> \<not> is_ascii_digit a \<and> \<not> is_ascii_digit b"
  "ws3 a b c \<Longrightarrow> \<not> is_ascii_digit a \<and> \<not> is_ascii_digit b \<and> \<not> is_ascii_digit c"
  by (auto simp: ws1_def ws2_def ws3_def is_ascii_digit_def less_eq_char_def)

lemma filter_trim_start: "filter is_ascii_digit (trim_start v) = filter is_ascii_digit v"
  by (induction v rule: trim_start.induct) (auto dest: ws_not_digit)

lemma filter_trim_rev: "filter is_ascii_digit (trim_rev v) = filter is_ascii_digit v"
  by (induction v rule: trim_rev.induct) (auto dest: ws_not_digit)

lemma filter_trim: "filter is_ascii_digit (trim v) = filter is_ascii_digit v"
  by (simp add: trim_def filter_trim_start filter_trim_rev flip: rev_filter)

text \<open>
  Phone numbers reach the server normalized: an accepted number is a plus sign and six to twenty
  digits, the digits the user typed in their order, and normalizing it again changes nothing.
\<close>

lemma phone_number_normalized:
  assumes "normalize_phone_number value = Ok n"
  shows "\<exists>ds. n = CHR ''+'' # ds \<and> ds = filter is_ascii_digit value \<and> 6 \<le> length ds \<and> length ds \<le> 20"
    and "normalize_phone_number n = Ok n"
proof -
  let ?ds = "filter is_ascii_digit (trim value)"
  have n: "n = CHR ''+'' # ?ds" "6 \<le> length ?ds" "length ?ds \<le> 20"
    using assms by (auto simp: normalize_phone_number_def Let_def split: if_splits)
  have "list_all is_ascii_digit ?ds" by (simp add: list_all_iff)
  moreover have "\<not> is_ascii_digit (CHR ''+'')" by (simp add: is_ascii_digit_def less_eq_char_def)
  then have "filter is_ascii_digit (CHR ''+'' # ?ds) = ?ds" by simp
  ultimately show "normalize_phone_number n = Ok n"
    using n by (simp add: normalize_phone_number_def trim_clean Let_def)
  have "?ds = filter is_ascii_digit value"
    by (rule filter_trim)
  with n show "\<exists>ds. n = CHR ''+'' # ds \<and> ds = filter is_ascii_digit value \<and> 6 \<le> length ds \<and> length ds \<le> 20" by auto
qed

end
