(* ===== verification/Telegram_Runtime.thy ===== *)
theory Telegram_Runtime
  imports Storage_Safety Telegram_Network Authorization
begin

text \<open>
  The runtime that the platforms call (\<open>telegram-runtime/src/runtime.rs\<close>): the registry of clients, each
  with an engine, an authorization machine, and perhaps a database and a connection, and the JSON
  requests that act on one of them. Requests run one after another, so the lock of the registry is
  never found poisoned. The databases are files that several clients may open; a path names a file. The
  text of a request is parsed by a parameter, as are the commands inside it, whose readers are derived;
  a reply is kept as its parts, and an error keeps its cause instead of the text made of it.
\<close>

section \<open>Requests as JSON\<close>

datatype (plugins only: code size) Json =
    JsonNull
  | JsonBool bool
  | JsonInt int
  | JsonFloat f64
  | JsonString string
  | JsonArray "Json list"
  | JsonObject "(string \<times> Json) list"

fun json_get :: "Json \<Rightarrow> string \<Rightarrow> Json option" where
  "json_get (JsonObject entries) field = map_of entries field"
| "json_get _ field = None"

fun as_str :: "Json \<Rightarrow> string option" where
  "as_str (JsonString s) = Some s"
| "as_str _ = None"

fun as_i64 :: "Json \<Rightarrow> int option" where
  "as_i64 (JsonInt n) = (if - (2 ^ 63) \<le> n \<and> n < 2 ^ 63 then Some n else None)"
| "as_i64 _ = None"

fun as_bool :: "Json \<Rightarrow> bool option" where
  "as_bool (JsonBool b) = Some b"
| "as_bool _ = None"

definition i32_try_from :: "int \<Rightarrow> i32 option" where
  "i32_try_from n = (if - (2 ^ 31) \<le> n \<and> n < 2 ^ 31 then Some (word_of_int n) else None)"

section \<open>Clients\<close>

datatype ProtocolCause =
    ProtocolRequest ApiRequestError
  | ProtocolSrp SrpError
  | ProtocolUpdate UpdateError
  | AuthorizationTruncated
  | UnexpectedAuthorization u32
  | SrpParametersOmitted

datatype (plugins only: code size) RuntimeError =
    InvalidJson
  | MissingRequestType
  | UnsupportedRequestType string
  | ClientNotFound u64
  | CoreFailed TgEngineError
  | AuthorizationFailed AuthError
  | NotAuthorized
  | StorageFailed StorageError
  | NetworkFailed NetworkError
  | InvalidParameter string
  | TransportNotConnected
  | ProtocolFailed ProtocolCause
  | AuthContextMissing
  | RemoteRpc i32 string

primrec runtime_code :: "RuntimeError \<Rightarrow> string" where
  "runtime_code InvalidJson = ''invalid_json''"
| "runtime_code MissingRequestType = ''missing_request_type''"
| "runtime_code (UnsupportedRequestType _) = ''unsupported_request_type''"
| "runtime_code (ClientNotFound _) = ''client_not_found''"
| "runtime_code (CoreFailed _) = ''core_command_failed''"
| "runtime_code (AuthorizationFailed _) = ''authorization_command_failed''"
| "runtime_code NotAuthorized = ''authorization_command_failed''"
| "runtime_code (StorageFailed _) = ''storage_failed''"
| "runtime_code (NetworkFailed _) = ''network_failed''"
| "runtime_code (InvalidParameter _) = ''invalid_parameter''"
| "runtime_code TransportNotConnected = ''transport_not_connected''"
| "runtime_code (ProtocolFailed _) = ''protocol_failed''"
| "runtime_code AuthContextMissing = ''auth_context_missing''"
| "runtime_code (RemoteRpc _ _) = ''telegram_rpc_error''"

record AuthContext =
  ac_phone_number :: string
  ac_phone_code_hash :: string
  ac_password_srp :: "PasswordSrpParameters option"

record PersistentClientStorage =
  ps_database_path :: string
  ps_key :: bytes
  ps_revision :: u64

record RuntimeClient =
  cl_core :: TelegramState
  cl_authorization :: AuthorizationMachine
  cl_persistence :: "PersistentClientStorage option"
  cl_transport :: "EstablishedSession option"
  cl_server_directory :: "DcDirectory option"
  cl_auth_context :: "AuthContext option"
  cl_update_state :: "UpdateState option"

definition RuntimeClient_default :: RuntimeClient where
  "RuntimeClient_default =
     \<lparr>cl_core = TelegramState_default, cl_authorization = AuthorizationMachine_default, cl_persistence = None,
      cl_transport = None, cl_server_directory = None, cl_auth_context = None, cl_update_state = None\<rparr>"

text \<open>The parameters of the runtime, and its state with that of the world it acts on.\<close>

record RuntimeEnv =
  rv_network :: NetworkEnv
  rv_storage :: StorageLibrary
  rv_hashes :: SrpHashes
  rv_parse :: "string \<Rightarrow> Json option"
  rv_core_command :: "Json \<Rightarrow> TgCommand option"
  rv_auth_command :: "Json \<Rightarrow> AuthCommand option"

record Runtime =
  rt_next_client_id :: u64
  rt_clients :: "(u64, RuntimeClient) fmap"
  rt_files :: "(string, StorageTables) fmap"
  rt_storage_calls :: nat
  rt_world :: World

type_synonym 'a run = "Runtime \<Rightarrow> Runtime \<times> ('a, RuntimeError) result"

text \<open>Opening a path for the first time creates an empty database.\<close>

definition empty_database :: StorageTables where
  "empty_database =
     \<lparr>db_user_version = 0, db_snapshot = None, db_event_log = fmempty, db_last_sequence = 0,
      db_message_index = fmempty, db_search_tokens = {||}\<rparr>"

definition database_at :: "Runtime \<Rightarrow> string \<Rightarrow> StorageTables" where
  "database_at rt path = (case fmlookup (rt_files rt) path of None \<Rightarrow> empty_database | Some db \<Rightarrow> db)"

definition on_database ::
  "string \<Rightarrow> bytes \<Rightarrow> (EncryptedSqliteStore \<Rightarrow> EncryptedSqliteStore \<times> ('a, StorageError) result) \<Rightarrow> 'a run"
where
  "on_database path key operation rt =
     (case operation \<lparr>st_tables = database_at rt path, st_key = key, st_random_calls = rt_storage_calls rt\<rparr> of
        (store, r) \<Rightarrow>
          (rt\<lparr>rt_files := fmupd path (st_tables store) (rt_files rt), rt_storage_calls := st_random_calls store\<rparr>,
           map_err StorageFailed r))"

text \<open>The clock of the platform; a time that does not fit is 0.\<close>

definition now_unix_ms :: "RuntimeEnv \<Rightarrow> i64 run" where
  "now_unix_ms env rt =
     (let w = rt_world rt in
      (rt\<lparr>rt_world := w\<lparr>wd_clock_calls := Suc (wd_clock_calls w)\<rparr>\<rparr>,
       Ok (case ne_clock (rv_network env) (wd_clock_calls w) of
             None \<Rightarrow> 0
           | Some (seconds, nanos) \<Rightarrow>
               let millis = unat seconds * 1000 + unat nanos div 1000000 in
               if millis < 2 ^ 63 then of_nat millis else 0)))"

section \<open>The registry\<close>

definition insert_client :: "RuntimeClient \<Rightarrow> u64 run" where
  "insert_client client rt =
     (rt\<lparr>rt_next_client_id := rt_next_client_id rt + 1,
         rt_clients := fmupd (rt_next_client_id rt) client (rt_clients rt)\<rparr>,
      Ok (rt_next_client_id rt))"

definition create_client :: "u64 run" where
  "create_client = insert_client RuntimeClient_default"

definition open_database :: "bytes \<Rightarrow> EncryptedSqliteStore \<Rightarrow> EncryptedSqliteStore \<times> (unit, StorageError) result" where
  "open_database key store =
     (case from_connection (st_tables store) key of
        Inl e \<Rightarrow> (store, Err e)
      | Inr opened \<Rightarrow> (store\<lparr>st_tables := st_tables opened\<rparr>, Ok ()))"

definition restored_client :: "string \<Rightarrow> bytes \<Rightarrow> StateSnapshot option \<Rightarrow> RuntimeClient" where
  "restored_client path key snapshot =
     (case snapshot of
        None \<Rightarrow> RuntimeClient_default\<lparr>cl_persistence := Some \<lparr>ps_database_path = path, ps_key = key, ps_revision = 0\<rparr>\<rparr>
      | Some sn \<Rightarrow> RuntimeClient_default\<lparr>cl_core := sn_state sn,
          cl_persistence := Some \<lparr>ps_database_path = path, ps_key = key, ps_revision = sn_revision sn\<rparr>\<rparr>)"

definition create_persistent_client :: "RuntimeEnv \<Rightarrow> string \<Rightarrow> bytes \<Rightarrow> u64 run" where
  "create_persistent_client env path storage_key =
     and_draw (draws (map_err StorageFailed (StorageKey_from_slice storage_key))) (\<lambda>key.
     and_draw (on_database path key (open_database key)) (\<lambda>_.
     and_draw (on_database path key (\<lambda>store. (store, load_snapshot (rv_storage env) store))) (\<lambda>snapshot.
     insert_client (restored_client path key snapshot))))"

definition close_client :: "u64 \<Rightarrow> unit run" where
  "close_client client_id rt =
     (if contains_key (rt_clients rt) client_id then (rt\<lparr>rt_clients := fmdrop client_id (rt_clients rt)\<rparr>, Ok ())
      else (rt, Err (ClientNotFound client_id)))"

text \<open>Work on a client under the lock of the registry.\<close>

definition on_client :: "u64 \<Rightarrow> (RuntimeClient \<Rightarrow> RuntimeClient \<times> ('a, RuntimeError) result) \<Rightarrow> 'a run" where
  "on_client client_id work rt =
     (case fmlookup (rt_clients rt) client_id of
        None \<Rightarrow> (rt, Err (ClientNotFound client_id))
      | Some client \<Rightarrow>
          (case work client of (client', r) \<Rightarrow> (rt\<lparr>rt_clients := fmupd client_id client' (rt_clients rt)\<rparr>, r)))"

definition the_client :: "u64 \<Rightarrow> RuntimeClient run" where
  "the_client client_id rt = (rt, ok_or (ClientNotFound client_id) (fmlookup (rt_clients rt) client_id))"

definition take_transport :: "u64 \<Rightarrow> EstablishedSession run" where
  "take_transport client_id =
     on_client client_id (\<lambda>client.
       (client\<lparr>cl_transport := None\<rparr>, ok_or TransportNotConnected (cl_transport client)))"

text \<open>
  The pattern of the requests that talk to the server: take the connection, use it without holding the
  lock, put it back, and only then look at the outcome.
\<close>

definition exchange ::
  "u64 \<Rightarrow> (session_state \<Rightarrow> session_state \<times> ('x, RuntimeError) result)
     \<Rightarrow> ('x \<Rightarrow> RuntimeClient \<Rightarrow> RuntimeClient \<times> ('a, RuntimeError) result) \<Rightarrow> 'a run"
where
  "exchange client_id operation finish =
     and_draw (take_transport client_id) (\<lambda>session rt.
       case operation (session, rt_world rt) of
         ((session', w), outcome) \<Rightarrow>
           on_client client_id (\<lambda>client.
             let client = client\<lparr>cl_transport := Some session'\<rparr> in
             case outcome of Inl e \<Rightarrow> (client, Err e) | Inr x \<Rightarrow> finish x client) (rt\<lparr>rt_world := w\<rparr>))"

definition invoke :: "RuntimeEnv \<Rightarrow> bytes \<Rightarrow> session_state \<Rightarrow> session_state \<times> (bytes, RuntimeError) result" where
  "invoke env body s =
     (case invoke_raw (rv_network env) body s of
        (s', r) \<Rightarrow> (s', and_then (map_err NetworkFailed r) (\<lambda>result. Ok (rr_body result))))"

definition by_request :: "('a, ApiRequestError) result \<Rightarrow> ('a, RuntimeError) result" where
  "by_request = map_err (\<lambda>e. ProtocolFailed (ProtocolRequest e))"

section \<open>Replies\<close>

datatype (plugins only: code size) RuntimeData =
    StatusData u64 bool bool "i32 option" "SocketAddr option" "u64 option" "i32 option" "nat option" "UpdateState option"
  | StateData TelegramState
  | AuthorizationStateData AuthorizationState
  | CoreResult "TgEvent list" TelegramState
  | AuthorizationResult "AuthEvent list" AuthorizationState
  | TransportReady i32 SocketAddr u64 i32 i64
  | ConnectionInitialized i32 i32 bool nat i32 i32
  | AuthenticationCodeSent "AuthEvent list" AuthorizationState SentCodeDelivery "NextCodeType option"
  | AuthorizationReady "AuthEvent list" AuthorizationState
  | AuthenticationPaymentRequired SentCodeResult AuthorizationState
  | AuthenticationPasswordRequired "AuthEvent list" AuthorizationState
  | AuthenticationRegistrationRequired "AuthEvent list" AuthorizationState
  | UpdateSyncStarted UpdateState

section \<open>Requests on the connection\<close>

definition positive_i32 :: "string \<Rightarrow> i32 option \<Rightarrow> (i32, RuntimeError) result" where
  "positive_i32 field value =
     (case value of None \<Rightarrow> Err (InvalidParameter field)
      | Some n \<Rightarrow> if 0 <s n then Ok n else Err (InvalidParameter field))"

definition required_string :: "Json \<Rightarrow> string \<Rightarrow> (string, RuntimeError) result" where
  "required_string request field =
     (case Option.bind (json_get request field) as_str of
        None \<Rightarrow> Err (InvalidParameter field)
      | Some value \<Rightarrow> if trim value = [] then Err (InvalidParameter field) else Ok value)"

definition optional_string :: "Json \<Rightarrow> string \<Rightarrow> string" where
  "optional_string request field = (case Option.bind (json_get request field) as_str of None \<Rightarrow> [] | Some value \<Rightarrow> value)"

definition required_api_id :: "Json \<Rightarrow> (i32, RuntimeError) result" where
  "required_api_id request =
     positive_i32 ''apiId'' (Option.bind (Option.bind (json_get request ''apiId'') as_i64) i32_try_from)"

definition bootstrap_parameters :: "Json \<Rightarrow> (i32 \<times> bool, RuntimeError) result" where
  "bootstrap_parameters request =
     (let dc_id = (case Option.bind (json_get request ''dcId'') as_i64 of None \<Rightarrow> 2 | Some n \<Rightarrow> n) in
      and_then (positive_i32 ''dcId'' (i32_try_from dc_id)) (\<lambda>dc_id.
      and_then (case json_get request ''testMode'' of
                  None \<Rightarrow> Ok False
                | Some v \<Rightarrow> ok_or (InvalidParameter ''testMode'') (as_bool v)) (\<lambda>test_mode.
      Ok (dc_id, test_mode))))"

definition on_world_of :: "(World \<Rightarrow> World \<times> ('a, NetworkError) result) \<Rightarrow> 'a run" where
  "on_world_of operation rt =
     (case operation (rt_world rt) of (w, r) \<Rightarrow> (rt\<lparr>rt_world := w\<rparr>, map_err NetworkFailed r))"

definition pinged :: "NetworkEnv \<Rightarrow> EstablishedSession \<Rightarrow> World \<Rightarrow> World \<times> (EstablishedSession \<times> PingResult, NetworkError) result" where
  "pinged env session w =
     (case ping env (session, w) of ((session', w'), r) \<Rightarrow> (w', and_then r (\<lambda>pong. Ok (session', pong))))"

definition bootstrap_transport :: "RuntimeEnv \<Rightarrow> u64 \<Rightarrow> Json \<Rightarrow> RuntimeData run" where
  "bootstrap_transport env client_id request =
     and_draw (the_client client_id) (\<lambda>_.
     and_draw (draws (bootstrap_parameters request)) (\<lambda>(dc_id, test_mode).
     and_draw (draws (map_err (\<lambda>e. NetworkFailed (NetDirectory e)) (telegram_defaults test_mode dc_id))) (\<lambda>directory.
     and_draw (on_world_of (establish_auth_key (rv_network env) directory dc_id NetworkConfig_default)) (\<lambda>session.
     and_draw (on_world_of (pinged (rv_network env) session)) (\<lambda>(session, pong).
     on_client client_id (\<lambda>client.
       (client\<lparr>cl_transport := Some session, cl_server_directory := None\<rparr>,
        Ok (TransportReady (ce_dc_id (es_endpoint session)) (ce_address (es_endpoint session))
              (AuthKey_id (ne_primitives (rv_network env)) (es_auth_key session)) (es_server_time session)
              (pr_response_message_id pong)))))))))"

definition init_connection_of :: "Json \<Rightarrow> (InitConnection, RuntimeError) result" where
  "init_connection_of request =
     and_then (required_api_id request) (\<lambda>api_id.
     and_then (required_string request ''deviceModel'') (\<lambda>device_model.
     and_then (required_string request ''systemVersion'') (\<lambda>system_version.
     and_then (required_string request ''appVersion'') (\<lambda>app_version.
     and_then (required_string request ''systemLangCode'') (\<lambda>system_lang_code.
     and_then (required_string request ''langCode'') (\<lambda>lang_code.
     Ok \<lparr>ic_api_id = api_id, ic_device_model = device_model, ic_system_version = system_version,
         ic_app_version = app_version, ic_system_lang_code = system_lang_code,
         ic_lang_pack = optional_string request ''langPack'', ic_lang_code = lang_code\<rparr>))))))"

definition initialize_connection :: "RuntimeEnv \<Rightarrow> u64 \<Rightarrow> Json \<Rightarrow> RuntimeData run" where
  "initialize_connection env client_id request =
     and_draw (draws (and_then (init_connection_of request) (\<lambda>c. by_request (build_init_connection_get_config c)))) (\<lambda>body.
     exchange client_id
       (and_draw (invoke env body) (\<lambda>answer. draws (by_request (parse_config_dc_directory_prefix answer))))
       (\<lambda>config client.
         let directory = cd_directory config in
         (client\<lparr>cl_server_directory := Some directory\<rparr>,
          Ok (ConnectionInitialized MTPROTO_LAYER (dir_this_dc directory) (dir_test_mode directory)
                (length (dir_endpoints directory)) (cd_date config) (cd_expires config)))))"

section \<open>Signing in\<close>

text \<open>The state of the authorization the server has told.\<close>

definition apply_remote ::
  "AuthorizationState \<Rightarrow> RuntimeClient \<Rightarrow> RuntimeClient \<times> (AuthEvent list, RuntimeError) result"
where
  "apply_remote state client =
     (case execute_auth (cl_authorization client) (ApplyRemoteState state) of
        (machine, r) \<Rightarrow> (client\<lparr>cl_authorization := machine\<rparr>, map_err AuthorizationFailed r))"

primrec delivery_kind :: "SentCodeDelivery \<Rightarrow> CodeDeliveryType \<times> i32" where
  "delivery_kind (DeliveryApp n) = (TelegramMessage, n)"
| "delivery_kind (Telegram_Api.DeliverySms n) = (Authorization.DeliverySms, n)"
| "delivery_kind (DeliverySmsWord _) = (Authorization.DeliverySms, 0)"
| "delivery_kind (DeliverySmsPhrase _) = (Authorization.DeliverySms, 0)"
| "delivery_kind (Telegram_Api.DeliveryCall n) = (Authorization.DeliveryCall, n)"
| "delivery_kind (Telegram_Api.DeliveryFlashCall _) = (Authorization.DeliveryFlashCall, 0)"
| "delivery_kind (Telegram_Api.DeliveryMissedCall _ n) = (Authorization.DeliveryMissedCall, n)"
| "delivery_kind (Telegram_Api.DeliveryEmail _ n) = (Authorization.DeliveryEmail, n)"
| "delivery_kind DeliverySetUpEmailRequired = (Authorization.DeliveryEmail, 0)"
| "delivery_kind (DeliveryFragmentSms _ n) = (DeliveryFragment, n)"
| "delivery_kind (DeliveryFirebaseSms n) = (FirebaseAndroid, n)"

definition delivery_state :: "SentCodeDelivery \<Rightarrow> CodeDeliveryType \<times> u8" where
  "delivery_state delivery =
     (case delivery_kind delivery of
        (kind, n) \<Rightarrow> (kind, if 0 \<le> sint n \<and> sint n < 256 then word_of_int (sint n) else 0))"

definition wait_code_state :: "string \<Rightarrow> SentCode \<Rightarrow> AuthorizationState" where
  "wait_code_state phone_number code =
     (case delivery_state (sc_delivery code) of
        (delivery_type, code_length) \<Rightarrow>
          WaitCode phone_number delivery_type code_length
            (case sc_timeout_seconds code of None \<Rightarrow> None | Some n \<Rightarrow> if 0 \<le> sint n then Some (word_of_int (sint n)) else None))"

definition code_sent ::
  "string \<Rightarrow> SentCodeResult \<Rightarrow> RuntimeClient \<Rightarrow> RuntimeClient \<times> (RuntimeData, RuntimeError) result"
where
  "code_sent phone_number result =
     (case result of
        SentCodeCode code \<Rightarrow>
          and_draw (apply_remote (wait_code_state phone_number code)) (\<lambda>events client.
            (client\<lparr>cl_auth_context := Some \<lparr>ac_phone_number = phone_number,
                ac_phone_code_hash = sc_phone_code_hash code, ac_password_srp = None\<rparr>\<rparr>,
             Ok (AuthenticationCodeSent events (wait_code_state phone_number code) (sc_delivery code) (sc_next_type code))))
      | SentCodeSuccess \<Rightarrow>
          and_draw (apply_remote AuthReady) (\<lambda>events client.
            (client\<lparr>cl_auth_context := None\<rparr>, Ok (AuthorizationReady events AuthReady)))
      | SentCodePaymentRequired _ _ _ _ _ _ _ \<Rightarrow>
          (\<lambda>client. (client, Ok (AuthenticationPaymentRequired result (am_state (cl_authorization client))))))"

definition send_authentication_code :: "RuntimeEnv \<Rightarrow> u64 \<Rightarrow> Json \<Rightarrow> RuntimeData run" where
  "send_authentication_code env client_id request =
     and_draw (draws (required_string request ''phoneNumber'')) (\<lambda>phone_number.
     and_draw (draws (required_api_id request)) (\<lambda>api_id.
     and_draw (draws (required_string request ''apiHash'')) (\<lambda>api_hash.
     and_draw (draws (by_request (build_auth_send_code phone_number api_id api_hash))) (\<lambda>body.
     exchange client_id
       (and_draw (invoke env body) (\<lambda>answer. draws (by_request (parse_auth_sent_code answer))))
       (code_sent phone_number)))))"

datatype SubmitCodeOutcome =
    SubmitReady
  | SubmitRegistrationNeeded
  | SubmitPasswordNeeded AccountPasswordState
  | SubmitRemoteError i32 string

definition AUTHORIZATION_CONSTRUCTOR :: u32 where
  "AUTHORIZATION_CONSTRUCTOR = 0x2ea2c0d4"

definition SIGN_UP_REQUIRED_CONSTRUCTOR :: u32 where
  "SIGN_UP_REQUIRED_CONSTRUCTOR = 0x44747e9a"

definition answer_constructor :: "bytes \<Rightarrow> (u32, RuntimeError) result" where
  "answer_constructor answer =
     (if length answer < 4 then Err (ProtocolFailed AuthorizationTruncated) else Ok (from_le (take 4 answer)))"

definition submit_code_outcome ::
  "RuntimeEnv \<Rightarrow> bytes \<Rightarrow> session_state \<Rightarrow> session_state \<times> (SubmitCodeOutcome, RuntimeError) result"
where
  "submit_code_outcome env body =
     and_draw (invoke env body) (\<lambda>answer.
     and_draw (draws (by_request (try_parse_rpc_error answer))) (\<lambda>rpc_error.
       case rpc_error of
         Some e \<Rightarrow>
           if re_message e = ''SESSION_PASSWORD_NEEDED'' then
             and_draw (invoke env build_account_get_password) (\<lambda>password.
             draws (and_then (by_request (parse_account_password_prefix password)) (\<lambda>state. Ok (SubmitPasswordNeeded state))))
           else draws (Ok (SubmitRemoteError (re_code e) (re_message e)))
       | None \<Rightarrow>
           draws (and_then (answer_constructor answer) (\<lambda>c.
             if c = AUTHORIZATION_CONSTRUCTOR then Ok SubmitReady
             else if c = SIGN_UP_REQUIRED_CONSTRUCTOR then Ok SubmitRegistrationNeeded
             else Err (ProtocolFailed (UnexpectedAuthorization c))))))"

definition password_required ::
  "AccountPasswordState \<Rightarrow> RuntimeClient \<Rightarrow> RuntimeClient \<times> (RuntimeData, RuntimeError) result"
where
  "password_required password client =
     (case (ap_srp password, cl_auth_context client) of
        (None, _) \<Rightarrow> (client, Err (ProtocolFailed SrpParametersOmitted))
      | (Some _, None) \<Rightarrow> (client, Err AuthContextMissing)
      | (Some srp, Some context) \<Rightarrow>
          let state = WaitPassword (case ap_hint password of None \<Rightarrow> [] | Some hint \<Rightarrow> hint) (ap_has_recovery password)
                        (ap_email_unconfirmed_pattern password)
          in and_draw (apply_remote state) (\<lambda>events client. (client, Ok (AuthenticationPasswordRequired events state)))
               (client\<lparr>cl_auth_context := Some (context\<lparr>ac_password_srp := Some srp\<rparr>)\<rparr>))"

definition signed_in :: "RuntimeClient \<Rightarrow> RuntimeClient \<times> (RuntimeData, RuntimeError) result" where
  "signed_in =
     and_draw (apply_remote AuthReady) (\<lambda>events client.
       (client\<lparr>cl_auth_context := None\<rparr>, Ok (AuthorizationReady events AuthReady)))"

primrec code_submitted :: "SubmitCodeOutcome \<Rightarrow> RuntimeClient \<Rightarrow> RuntimeClient \<times> (RuntimeData, RuntimeError) result" where
  "code_submitted (SubmitPasswordNeeded password) = password_required password"
| "code_submitted SubmitReady = signed_in"
| "code_submitted SubmitRegistrationNeeded =
     and_draw (apply_remote (WaitRegistration None)) (\<lambda>events client.
       (client, Ok (AuthenticationRegistrationRequired events (WaitRegistration None))))"
| "code_submitted (SubmitRemoteError code message) = (\<lambda>client. (client, Err (RemoteRpc code message)))"

definition the_context :: "u64 \<Rightarrow> AuthContext run" where
  "the_context client_id =
     and_draw (the_client client_id) (\<lambda>client. draws (ok_or AuthContextMissing (cl_auth_context client)))"

definition submit_authentication_code :: "RuntimeEnv \<Rightarrow> u64 \<Rightarrow> Json \<Rightarrow> RuntimeData run" where
  "submit_authentication_code env client_id request =
     and_draw (draws (required_string request ''code'')) (\<lambda>phone_code.
     and_draw (the_context client_id) (\<lambda>context.
     and_draw (draws (by_request (build_auth_sign_in (ac_phone_number context) (ac_phone_code_hash context) phone_code))) (\<lambda>body.
     exchange client_id (submit_code_outcome env body) code_submitted)))"

text \<open>The answer to a password or a registration must be an authorization.\<close>

definition expect_authorization ::
  "RuntimeEnv \<Rightarrow> bytes \<Rightarrow> session_state \<Rightarrow> session_state \<times> (unit, RuntimeError) result"
where
  "expect_authorization env body =
     and_draw (invoke env body) (\<lambda>answer.
     draws (and_then (by_request (try_parse_rpc_error answer)) (\<lambda>rpc_error.
       case rpc_error of
         Some e \<Rightarrow> Err (RemoteRpc (re_code e) (re_message e))
       | None \<Rightarrow> and_then (answer_constructor answer) (\<lambda>c.
           if c = AUTHORIZATION_CONSTRUCTOR then Ok () else Err (ProtocolFailed (UnexpectedAuthorization c))))))"

text \<open>The random exponent is drawn from the source whether or not the parameters pass the checks before it.\<close>

definition srp_proof :: "RuntimeEnv \<Rightarrow> string \<Rightarrow> PasswordSrpParameters \<Rightarrow> PasswordSrpProof run" where
  "srp_proof env password parameters rt =
     (case getrandom (rv_network env) (rt_world rt) 256 of
        (w, r) \<Rightarrow>
          (rt\<lparr>rt_world := w\<rparr>,
           map_err (\<lambda>e. ProtocolFailed (ProtocolSrp e))
             (compute_password_srp_proof (ne_big (rv_network env)) (rv_hashes env) password parameters r)))"

definition submit_authentication_password :: "RuntimeEnv \<Rightarrow> u64 \<Rightarrow> Json \<Rightarrow> RuntimeData run" where
  "submit_authentication_password env client_id request =
     and_draw (draws (required_string request ''password'')) (\<lambda>password.
     and_draw (the_client client_id) (\<lambda>client.
     and_draw (draws (ok_or AuthContextMissing (Option.bind (cl_auth_context client) ac_password_srp))) (\<lambda>parameters.
     and_draw (srp_proof env password parameters) (\<lambda>proven.
     and_draw (draws (by_request (build_auth_check_password proven))) (\<lambda>body.
     exchange client_id (expect_authorization env body) (\<lambda>_. signed_in))))))"

definition submit_registration :: "RuntimeEnv \<Rightarrow> u64 \<Rightarrow> Json \<Rightarrow> RuntimeData run" where
  "submit_registration env client_id request =
     and_draw (draws (required_string request ''firstName'')) (\<lambda>first_name.
     and_draw (the_context client_id) (\<lambda>context.
     and_draw (draws (by_request (build_auth_sign_up (ac_phone_number context) (ac_phone_code_hash context) first_name
                 (optional_string request ''lastName'')))) (\<lambda>body.
     exchange client_id (expect_authorization env body) (\<lambda>_. signed_in))))"

definition begin_update_sync :: "RuntimeEnv \<Rightarrow> u64 \<Rightarrow> RuntimeData run" where
  "begin_update_sync env client_id =
     and_draw (the_client client_id) (\<lambda>client.
     if am_state (cl_authorization client) \<noteq> AuthReady then draws (Err NotAuthorized)
     else
       exchange client_id
         (and_draw (invoke env build_updates_get_state) (\<lambda>answer.
          draws (map_err (\<lambda>e. ProtocolFailed (ProtocolUpdate e)) (parse_update_state answer))))
         (\<lambda>state client. (client\<lparr>cl_update_state := Some state\<rparr>, Ok (UpdateSyncStarted state))))"

section \<open>Requests on the state\<close>

definition status_of :: "RuntimeEnv \<Rightarrow> u64 \<Rightarrow> RuntimeClient \<Rightarrow> RuntimeData" where
  "status_of env client_id client =
     (let transport = cl_transport client in
      StatusData client_id (cl_persistence client \<noteq> None) (transport \<noteq> None)
        (map_option (\<lambda>s. ce_dc_id (es_endpoint s)) transport) (map_option (\<lambda>s. ce_address (es_endpoint s)) transport)
        (map_option (\<lambda>s. AuthKey_id (ne_primitives (rv_network env)) (es_auth_key s)) transport)
        (map_option es_server_time transport) (map_option (\<lambda>d. length (dir_endpoints d)) (cl_server_directory client))
        (cl_update_state client))"

definition persist_client ::
  "RuntimeEnv \<Rightarrow> RuntimeClient \<Rightarrow> TelegramState \<Rightarrow> TgEvent list \<Rightarrow> PersistentClientStorage option run"
where
  "persist_client env client next_core events =
     (case cl_persistence client of
        None \<Rightarrow> draws (Ok None)
      | Some p \<Rightarrow>
          and_draw (now_unix_ms env) (\<lambda>now.
          and_draw (on_database (ps_database_path p) (ps_key p)
              (commit_transition (rv_storage env) next_core events (ps_revision p) now)) (\<lambda>transition.
          draws (Ok (Some (p\<lparr>ps_revision := sn_revision (pt_snapshot transition)\<rparr>))))))"

definition execute_core_command :: "RuntimeEnv \<Rightarrow> u64 \<Rightarrow> Json \<Rightarrow> RuntimeData run" where
  "execute_core_command env client_id request =
     and_draw (the_client client_id) (\<lambda>client.
     and_draw (draws (ok_or MissingRequestType (json_get request ''command''))) (\<lambda>value.
     and_draw (draws (ok_or InvalidJson (rv_core_command env value))) (\<lambda>command.
     and_draw (draws (map_err CoreFailed (tg_decide (cl_core client) command))) (\<lambda>events.
     let next_core = foldl tg_apply (cl_core client) events in
     and_draw (persist_client env client next_core events) (\<lambda>persistence.
     on_client client_id (\<lambda>client.
       (client\<lparr>cl_core := next_core, cl_persistence := persistence\<rparr>, Ok (CoreResult events next_core))))))))"

definition execute_authorization_command :: "RuntimeEnv \<Rightarrow> u64 \<Rightarrow> Json \<Rightarrow> RuntimeData run" where
  "execute_authorization_command env client_id request =
     and_draw (the_client client_id) (\<lambda>_.
     and_draw (draws (ok_or MissingRequestType (json_get request ''command''))) (\<lambda>value.
     and_draw (draws (ok_or InvalidJson (rv_auth_command env value))) (\<lambda>command.
     on_client client_id (\<lambda>client.
       case execute_auth (cl_authorization client) command of
         (machine, r) \<Rightarrow>
           (client\<lparr>cl_authorization := machine\<rparr>,
            and_then (map_err AuthorizationFailed r) (\<lambda>events. Ok (AuthorizationResult events (am_state machine))))))))"

definition request_type_of :: "Json \<Rightarrow> (string, RuntimeError) result" where
  "request_type_of request =
     (case Option.bind (json_get request ''@type'') as_str of
        None \<Rightarrow> Err MissingRequestType
      | Some value \<Rightarrow> if trim value = [] then Err MissingRequestType else Ok value)"

definition execute_value :: "RuntimeEnv \<Rightarrow> u64 \<Rightarrow> Json \<Rightarrow> RuntimeData run" where
  "execute_value env client_id request =
     and_draw (draws (request_type_of request)) (\<lambda>request_type.
     if request_type = ''telegram.bootstrapTransport'' then bootstrap_transport env client_id request
     else if request_type = ''telegram.initializeConnection'' then initialize_connection env client_id request
     else if request_type = ''telegram.sendAuthenticationCode'' then send_authentication_code env client_id request
     else if request_type = ''telegram.submitAuthenticationCode'' then submit_authentication_code env client_id request
     else if request_type = ''telegram.submitAuthenticationPassword'' then submit_authentication_password env client_id request
     else if request_type = ''telegram.submitRegistration'' then submit_registration env client_id request
     else if request_type = ''telegram.beginUpdateSync'' then begin_update_sync env client_id
     else
       and_draw (the_client client_id) (\<lambda>client.
       if request_type = ''telegram.getStatus'' then draws (Ok (status_of env client_id client))
       else if request_type = ''telegram.getState'' then draws (Ok (StateData (cl_core client)))
       else if request_type = ''telegram.getAuthorizationState'' then
         draws (Ok (AuthorizationStateData (am_state (cl_authorization client))))
       else if request_type = ''telegram.executeCoreCommand'' then execute_core_command env client_id request
       else if request_type = ''telegram.executeAuthorizationCommand'' then execute_authorization_command env client_id request
       else draws (Err (UnsupportedRequestType request_type))))"

text \<open>The reply to a request: what it gives or its error, with the mark the caller put on the request.\<close>

record RuntimeReply =
  ry_result :: "(RuntimeData, RuntimeError) result"
  ry_extra :: "Json option"

definition execute_json :: "RuntimeEnv \<Rightarrow> u64 \<Rightarrow> string \<Rightarrow> Runtime \<Rightarrow> Runtime \<times> RuntimeReply" where
  "execute_json env client_id request_json rt =
     (case rv_parse env request_json of
        None \<Rightarrow> (rt, \<lparr>ry_result = Err InvalidJson, ry_extra = None\<rparr>)
      | Some request \<Rightarrow>
          (case execute_value env client_id request rt of
             (rt', r) \<Rightarrow> (rt', \<lparr>ry_result = r, ry_extra = json_get request ''@extra''\<rparr>)))"

end
