(* ===== verification/Runtime_Safety.thy ===== *)
theory Runtime_Safety
  imports Telegram_Runtime
begin

text \<open>
  What the runtime promises: a command of the engine that a client with a database accepted is what a
  client opened later on the same database starts with, a refused one changes nothing, and a request
  concerns only its client, whose connection it never loses.
\<close>

section \<open>Well-formed databases\<close>

lemma insert_event_wf:
  assumes "tables_wf db" and "insert_event lib key call event now db = Ok (db', s)"
  shows "tables_wf db'"
proof -
  let ?w = "word_of_int (db_last_sequence db + 1) :: u64"
  obtain payload where n: "db_last_sequence db + 1 < 2 ^ 63"
    and db: "db' = db\<lparr>db_event_log := fmupd (uint ?w) (payload, now) (db_event_log db), db_last_sequence := uint ?w\<rparr>"
    using assms(2) by (auto simp: insert_event_def Let_def to_i64_Ok_iff to_u64_Ok_iff result_simps split: if_splits)
  have w: "uint ?w = db_last_sequence db + 1"
    by (rule uint_of_nonneg) (use n assms(1) in \<open>simp_all add: tables_wf_def\<close>)
  show ?thesis
    by (rule tables_wf_log[OF assms(1), of _ 1]) (use n in \<open>simp_all only: db w, simp_all add: same_beside_log_def\<close>)
qed

lemma insert_events_wf:
  "tables_wf db \<Longrightarrow> insert_events lib key call events now db = Ok (db', stored) \<Longrightarrow> tables_wf db'"
proof (induction events arbitrary: call db stored)
  case (Cons event events)
  then obtain db1 s rest where "insert_event lib key call event now db = Ok (db1, s)"
    and "insert_events lib key (Suc call) events now db1 = Ok (db', rest)"
    by (auto simp: result_simps)
  then show ?case
    using Cons insert_event_wf by blast
qed simp

lemma write_snapshot_wf:
  assumes "tables_wf db" and "write_snapshot lib key call state current now db = Ok (db', sn)"
  shows "tables_wf db'"
  using assms by (auto simp: write_snapshot_def to_i64_Ok_iff checked_add_u64_Some_iff result_simps intro!: tables_wf_snapshot)

lemma commit_transition_wf:
  assumes "tables_wf (st_tables store)"
  shows "tables_wf (st_tables (fst (commit_transition lib state events expected now store)))"
proof (cases "snd (commit_transition lib state events expected now store)")
  case (Inl e)
  then show ?thesis
    using assms by (auto simp: commit_transition_def transaction_def split: sum.splits)
next
  case (Inr p)
  then have "commit_transition lib state events expected now store
      = (fst (commit_transition lib state events expected now store), Ok p)"
    by (simp add: prod_eq_iff)
  then show ?thesis
    using commit_transition_Ok assms insert_events_wf write_snapshot_wf by metis
qed

lemma open_database_wf:
  assumes "tables_wf (st_tables store) \<or> st_tables store = empty_database"
  shows "tables_wf (st_tables (fst (open_database key store)))" and "snd (open_database key store) = Ok ()"
    and "tables_wf (st_tables store) \<Longrightarrow> fst (open_database key store) = store"
  using assms
  by (auto simp: open_database_def from_connection_def migrate_def tables_wf_def SCHEMA_VERSION_def empty_database_def)

section \<open>Commands of the engine\<close>

lemmas run_defs = and_draw_def draws_def

lemma on_database_simps:
  assumes "operation \<lparr>st_tables = database_at rt path, st_key = key, st_random_calls = rt_storage_calls rt\<rparr> = (store, r)"
  shows "rt_clients (fst (on_database path key operation rt)) = rt_clients rt"
    and "database_at (fst (on_database path key operation rt)) path' = (if path' = path then st_tables store else database_at rt path')"
    and "snd (on_database path key operation rt) = map_err StorageFailed r"
  using assms by (simp_all add: on_database_def database_at_def)

lemma now_unix_ms_run: "\<exists>now w. now_unix_ms env rt = (rt\<lparr>rt_world := w\<rparr>, Ok now)"
  unfolding now_unix_ms_def Let_def by blast

lemma database_at_world [simp]:
  "database_at (rt\<lparr>rt_world := w\<rparr>) = database_at rt" "database_at (rt\<lparr>rt_clients := c\<rparr>) = database_at rt"
  by (simp_all add: database_at_def fun_eq_iff)

text \<open>What a commit of a client with a database comes to.\<close>

lemma persist_cases:
  assumes "cl_persistence client = Some p" and "persist_client env client core events rt = (rt', r)"
  obtains now store t where
    "commit_transition (rv_storage env) core events (ps_revision p) now
       \<lparr>st_tables = database_at rt (ps_database_path p), st_key = ps_key p, st_random_calls = rt_storage_calls rt\<rparr> = (store, t)"
    "rt_clients rt' = rt_clients rt"
    "\<forall>path. database_at rt' path = (if path = ps_database_path p then st_tables store else database_at rt path)"
    "r = and_then (map_err StorageFailed t) (\<lambda>t. Ok (Some (p\<lparr>ps_revision := sn_revision (pt_snapshot t)\<rparr>)))"
proof -
  obtain now w where now: "now_unix_ms env rt = (rt\<lparr>rt_world := w\<rparr>, Ok now)"
    using now_unix_ms_run by blast
  let ?rt = "rt\<lparr>rt_world := w\<rparr>"
  let ?op = "commit_transition (rv_storage env) core events (ps_revision p) now"
  obtain store t where c: "?op \<lparr>st_tables = database_at ?rt (ps_database_path p), st_key = ps_key p,
      st_random_calls = rt_storage_calls ?rt\<rparr> = (store, t)"
    by fastforce
  obtain rt1 r1 where d: "on_database (ps_database_path p) (ps_key p) ?op ?rt = (rt1, r1)"
    by fastforce
  have "rt' = rt1" "r = and_then r1 (\<lambda>t. Ok (Some (p\<lparr>ps_revision := sn_revision (pt_snapshot t)\<rparr>)))"
    using assms now d by (auto simp: persist_client_def and_draw_def split: sum.splits)
  then show ?thesis
    using that[of now store t] c on_database_simps[of ?op ?rt "ps_database_path p" "ps_key p" store t] d by simp
qed

lemma persist_keeps_clients: "rt_clients (fst (persist_client env client core events rt)) = rt_clients rt"
proof (cases "cl_persistence client")
  case (Some p)
  show ?thesis
    by (rule persist_cases[OF Some surjective_pairing[of "persist_client env client core events rt"]])
qed (simp add: persist_client_def)

text \<open>The events a request of the engine is decided to, before they are stored.\<close>

definition core_events :: "RuntimeEnv \<Rightarrow> Json \<Rightarrow> RuntimeClient \<Rightarrow> (TgEvent list, RuntimeError) result" where
  "core_events env request client =
     and_then (ok_or MissingRequestType (json_get request ''command'')) (\<lambda>value.
     and_then (ok_or InvalidJson (rv_core_command env value)) (\<lambda>command.
     map_err CoreFailed (tg_decide (cl_core client) command)))"

lemma execute_core_command_run:
  assumes "fmlookup (rt_clients rt) client_id = Some client"
  shows "execute_core_command env client_id request rt =
     (case core_events env request client of
        Inl e \<Rightarrow> (rt, Err e)
      | Inr events \<Rightarrow>
          let core = foldl tg_apply (cl_core client) events in
          case persist_client env client core events rt of
            (rt', Inl e) \<Rightarrow> (rt', Err e)
          | (rt', Inr persistence) \<Rightarrow>
              (rt'\<lparr>rt_clients := fmupd client_id (client\<lparr>cl_core := core, cl_persistence := persistence\<rparr>) (rt_clients rt)\<rparr>,
               Ok (CoreResult events core)))"
proof (cases "core_events env request client")
  case (Inl e)
  then show ?thesis
    using assms
    by (auto simp: execute_core_command_def core_events_def and_draw_def the_client_def and_then_def map_err_def ok_or_def
        split: option.splits sum.splits)
next
  case (Inr events)
  let ?core = "foldl tg_apply (cl_core client) events"
  obtain rt' r where p: "persist_client env client ?core events rt = (rt', r)"
    by fastforce
  have "rt_clients rt' = rt_clients rt"
    using persist_keeps_clients[of env client ?core events rt] p by simp
  moreover have "execute_core_command env client_id request rt =
      and_draw (persist_client env client ?core events) (\<lambda>persistence. on_client client_id (\<lambda>c.
        (c\<lparr>cl_core := ?core, cl_persistence := persistence\<rparr>, Ok (CoreResult events ?core)))) rt"
    using assms Inr
    by (auto simp: execute_core_command_def core_events_def and_draw_def[of "the_client client_id"] the_client_def result_simps Let_def)
  ultimately show ?thesis
    using assms p Inr by (cases r) (simp_all add: and_draw_def on_client_def Let_def)
qed

lemma persist_next: "rt_next_client_id (fst (persist_client env client core events rt)) = rt_next_client_id rt"
  by (auto simp: persist_client_def and_draw_def now_unix_ms_def on_database_def Let_def split: option.splits prod.splits sum.splits)

lemma core_command_Ok:
  assumes "fmlookup (rt_clients rt) client_id = Some client" and "execute_core_command env client_id request rt = (rt', Ok (CoreResult events state))"
  obtains persistence rt1 where
    "persist_client env client state events rt = (rt1, Ok persistence)"
    "rt' = rt1\<lparr>rt_clients := fmupd client_id (client\<lparr>cl_core := state, cl_persistence := persistence\<rparr>) (rt_clients rt)\<rparr>"
  using assms(2) unfolding execute_core_command_run[OF assms(1)]
  by (auto simp: Let_def split: sum.splits prod.splits)

lemma load_snapshot_cong:
  "st_tables store = st_tables store' \<Longrightarrow> st_key store = st_key store' \<Longrightarrow> load_snapshot lib store = load_snapshot lib store'"
  by (simp only: load_snapshot_def)

lemma create_persistent_client_restores:
  assumes "length key = 32" and "tables_wf (database_at rt path)" and "st_tables store = database_at rt path" and "st_key store = key"
    and "load_snapshot (rv_storage env) store = Ok snapshot"
  shows "\<exists>rt'. create_persistent_client env path key rt = (rt', Ok (rt_next_client_id rt)) \<and>
     fmlookup (rt_clients rt') (rt_next_client_id rt) = Some (restored_client path key snapshot)"
proof -
  let ?s = "\<lparr>st_tables = database_at rt path, st_key = key, st_random_calls = rt_storage_calls rt\<rparr>"
  have opened: "open_database key ?s = (?s, Ok ())"
    using open_database_wf[of ?s key] assms(2) by (simp add: prod_eq_iff)
  let ?rt = "fst (on_database path key (open_database key) rt)"
  have rt: "snd (on_database path key (open_database key) rt) = Ok ()" "database_at ?rt path = database_at rt path"
      "rt_next_client_id ?rt = rt_next_client_id rt"
    using on_database_simps[of "open_database key" rt path key ?s "Ok ()"] opened by (simp_all add: on_database_def)
  let ?load = "\<lambda>store. (store, load_snapshot (rv_storage env) store)"
  have "load_snapshot (rv_storage env) \<lparr>st_tables = database_at ?rt path, st_key = key, st_random_calls = n\<rparr> = Ok snapshot" for n
    unfolding rt(2) assms(5)[symmetric] by (rule load_snapshot_cong) (simp_all add: assms(3,4))
  then have "snd (on_database path key ?load ?rt) = Ok snapshot"
    by (simp add: on_database_def)
  moreover have "rt_next_client_id (fst (on_database path key ?load ?rt)) = rt_next_client_id rt"
    using rt(3) by (simp add: on_database_def)
  ultimately show ?thesis
    using assms(1) rt(1)
    by (auto simp: create_persistent_client_def StorageKey_from_slice_def and_draw_def insert_client_def split: prod.splits sum.splits)
qed

lemma core_command_restored:
  assumes "cipher_sound (rv_storage env)" and "fmlookup (rt_clients rt) client_id = Some client"
    and "cl_persistence client = Some p" and "length (ps_key p) = 32" and "tables_wf (database_at rt (ps_database_path p))"
    and "execute_core_command env client_id request rt = (rt', Ok (CoreResult events state))"
    and "state_reads_back (rv_storage env) state" and "\<forall>event \<in> set events. event_reads_back (rv_storage env) event"
  shows "\<exists>rt'' client' new.
     fmlookup (rt_clients rt') client_id = Some client' \<and> cl_core client' = state \<and>
     create_persistent_client env (ps_database_path p) (ps_key p) rt' = (rt'', Ok (rt_next_client_id rt')) \<and>
     fmlookup (rt_clients rt'') (rt_next_client_id rt') = Some new \<and>
     cl_core new = state \<and> cl_persistence new = cl_persistence client'"
proof -
  obtain persistence rt1 where per: "persist_client env client state events rt = (rt1, Ok persistence)"
    and rt': "rt' = rt1\<lparr>rt_clients := fmupd client_id (client\<lparr>cl_core := state, cl_persistence := persistence\<rparr>) (rt_clients rt)\<rparr>"
    by (rule core_command_Ok[OF assms(2,6)])
  obtain now store r where com': "commit_transition (rv_storage env) state events (ps_revision p) now
       \<lparr>st_tables = database_at rt (ps_database_path p), st_key = ps_key p, st_random_calls = rt_storage_calls rt\<rparr> = (store, r)"
    and db: "\<forall>path. database_at rt1 path = (if path = ps_database_path p then st_tables store else database_at rt path)"
    and "Ok persistence = and_then (map_err StorageFailed r) (\<lambda>t. Ok (Some (p\<lparr>ps_revision := sn_revision (pt_snapshot t)\<rparr>)))"
    by (rule persist_cases[OF assms(3) per])
  then obtain t where r: "r = Ok t" and per': "persistence = Some (p\<lparr>ps_revision := sn_revision (pt_snapshot t)\<rparr>)"
    by (cases r) auto
  note com = com'[unfolded r]
  have "tables_wf (st_tables \<lparr>st_tables = database_at rt (ps_database_path p), st_key = ps_key p, st_random_calls = rt_storage_calls rt\<rparr>)"
    using assms(5) by simp
  from commit_transition_durable[OF assms(1,7,8) this com]
  have wf: "tables_wf (st_tables store)" and load: "load_snapshot (rv_storage env) store = Ok (Some (pt_snapshot t))"
    and state: "sn_state (pt_snapshot t) = state"
    by blast+
  have key: "st_key store = ps_key p"
    using commit_transition_Ok[OF com] by auto
  have db': "st_tables store = database_at rt' (ps_database_path p)"
    using db by (simp add: rt')
  obtain rt'' where "create_persistent_client env (ps_database_path p) (ps_key p) rt' = (rt'', Ok (rt_next_client_id rt'))"
    "fmlookup (rt_clients rt'') (rt_next_client_id rt') = Some (restored_client (ps_database_path p) (ps_key p) (Some (pt_snapshot t)))"
    using create_persistent_client_restores[OF assms(4) wf[unfolded db'] db' key load] by blast
  moreover have "restored_client (ps_database_path p) (ps_key p) (Some (pt_snapshot t))
      = RuntimeClient_default\<lparr>cl_core := state, cl_persistence := persistence\<rparr>"
    by (simp add: restored_client_def per' state)
  moreover have "fmlookup (rt_clients rt') client_id = Some (client\<lparr>cl_core := state, cl_persistence := persistence\<rparr>)"
    by (simp add: rt')
  ultimately show ?thesis
    by force
qed

lemma refused_persist:
  assumes "persist_client env client core events rt = (rt', Err e)"
  shows "rt_clients rt' = rt_clients rt \<and> database_at rt' = database_at rt"
proof (cases "cl_persistence client")
  case (Some p)
  obtain now store r where com: "commit_transition (rv_storage env) core events (ps_revision p) now
     \<lparr>st_tables = database_at rt (ps_database_path p), st_key = ps_key p, st_random_calls = rt_storage_calls rt\<rparr> = (store, r)"
    and c: "rt_clients rt' = rt_clients rt"
    and db: "\<forall>path. database_at rt' path = (if path = ps_database_path p then st_tables store else database_at rt path)"
    and r: "Err e = and_then (map_err StorageFailed r) (\<lambda>t. Ok (Some (p\<lparr>ps_revision := sn_revision (pt_snapshot t)\<rparr>)))"
    by (rule persist_cases[OF Some assms])
  obtain e' where "r = Err e'"
    using r by (cases r) auto
  then have "st_tables store = database_at rt (ps_database_path p)"
    using com by (auto simp: commit_transition_def transaction_Err)
  then show ?thesis
    using c db by auto
qed (use assms in \<open>simp add: persist_client_def\<close>)

lemma and_draw_Err:
  "and_draw p f r = (r', Inl e) \<longleftrightarrow> p r = (r', Inl e) \<or> (\<exists>r1 x. p r = (r1, Inr x) \<and> f x r1 = (r', Inl e))"
  by (auto simp: and_draw_def split: prod.splits sum.splits)

lemma refused_core_command:
  assumes "execute_core_command env client_id request rt = (rt', Err e)"
  shows "rt_clients rt' = rt_clients rt \<and> database_at rt' = database_at rt"
proof (cases "fmlookup (rt_clients rt) client_id")
  case None
  then show ?thesis
    using assms by (auto simp: execute_core_command_def and_draw_def the_client_def)
next
  case (Some client)
  show ?thesis
    using assms refused_persist unfolding execute_core_command_run[OF Some]
    by (auto simp: Let_def split: sum.splits prod.splits)
qed

lemma committed_revision:
  assumes "commit_transition lib state events expected now store = (store', Ok t)"
  shows "current_revision (st_tables store') = Ok (expected + 1) \<and> expected < expected + 1"
proof -
  obtain db call where "write_snapshot lib (st_key store) call state expected now db = Ok (st_tables store', pt_snapshot t)"
    using commit_transition_Ok[OF assms] by blast
  then have row: "unat (expected + 1) = unat expected + 1" "unat (expected + 1) < 2 ^ 63"
    and "\<exists>payload. Some (uint (expected + 1), payload, now) = db_snapshot (st_tables store')"
    by (auto simp: write_snapshot_def to_i64_Ok_iff checked_add_u64_def result_simps unat_word_ariths
        split: if_splits dest!: arg_cong[of _ "st_tables store'" db_snapshot])
  then show ?thesis
    by (auto simp: current_revision_def to_u64_def word_less_nat_alt split: option.splits)
qed

lemma persisted_revision:
  assumes "cl_persistence client = Some p" and "persist_client env client core events rt = (rt', Ok q)"
  shows "current_revision (database_at rt' (ps_database_path p)) = Ok (ps_revision p + 1)"
    and "ps_revision p < ps_revision p + 1"
proof -
  let ?s = "\<lparr>st_tables = database_at rt (ps_database_path p), st_key = ps_key p, st_random_calls = rt_storage_calls rt\<rparr>"
  obtain now store r where com: "commit_transition (rv_storage env) core events (ps_revision p) now ?s = (store, r)"
    and "rt_clients rt' = rt_clients rt"
    and db: "\<forall>path. database_at rt' path = (if path = ps_database_path p then st_tables store else database_at rt path)"
    and "Ok q = and_then (map_err StorageFailed r) (\<lambda>t. Ok (Some (p\<lparr>ps_revision := sn_revision (pt_snapshot t)\<rparr>)))"
    by (rule persist_cases[OF assms])
  then obtain t where "r = Ok t"
    by (cases r) auto
  then show "current_revision (database_at rt' (ps_database_path p)) = Ok (ps_revision p + 1)"
    and "ps_revision p < ps_revision p + 1"
    using committed_revision com db by auto
qed

lemma stale_persist:
  assumes "cl_persistence client = Some p" and "persist_client env client core events rt = (rt', r)"
    and "current_revision (database_at rt (ps_database_path p)) = Ok actual" and "actual \<noteq> ps_revision p"
  shows "r = Err (StorageFailed (RevisionConflict (ps_revision p) actual))"
proof -
  let ?s = "\<lparr>st_tables = database_at rt (ps_database_path p), st_key = ps_key p, st_random_calls = rt_storage_calls rt\<rparr>"
  obtain now store t where "commit_transition (rv_storage env) core events (ps_revision p) now ?s = (store, t)"
    and "rt_clients rt' = rt_clients rt"
    and "\<forall>path. database_at rt' path = (if path = ps_database_path p then st_tables store else database_at rt path)"
    and "r = and_then (map_err StorageFailed t) (\<lambda>t. Ok (Some (p\<lparr>ps_revision := sn_revision (pt_snapshot t)\<rparr>)))"
    by (rule persist_cases[OF assms(1,2)])
  then show ?thesis
    using assms(3,4) by (auto simp: commit_transition_def transaction_def)
qed

section \<open>A request concerns its client\<close>

text \<open>
  The database and the key of a client never change, and it does not lose its connection.
\<close>

definition place :: "RuntimeClient \<Rightarrow> (string \<times> bytes) option" where
  "place client = map_option (\<lambda>p. (ps_database_path p, ps_key p)) (cl_persistence client)"

definition client_kept :: "RuntimeClient \<Rightarrow> RuntimeClient \<Rightarrow> bool" where
  "client_kept c c' \<longleftrightarrow> place c' = place c \<and> (cl_transport c \<noteq> None \<longrightarrow> cl_transport c' \<noteq> None)"

definition request_local :: "u64 \<Rightarrow> Runtime \<Rightarrow> Runtime \<Rightarrow> bool" where
  "request_local i rt rt' \<longleftrightarrow>
     rt_next_client_id rt' = rt_next_client_id rt \<and>
     (\<forall>j. j \<noteq> i \<longrightarrow> fmlookup (rt_clients rt') j = fmlookup (rt_clients rt) j) \<and>
     rel_option client_kept (fmlookup (rt_clients rt) i) (fmlookup (rt_clients rt') i) \<and>
     (\<forall>path. database_at rt' path \<noteq> database_at rt path \<longrightarrow>
        (\<exists>key. Option.bind (fmlookup (rt_clients rt) i) place = Some (path, key))) \<and>
     (\<forall>path. tables_wf (database_at rt path) \<longrightarrow> tables_wf (database_at rt' path))"

lemma client_kept_refl [simp]: "client_kept c c"
  by (simp add: client_kept_def)

lemma client_kept_trans: "client_kept a b \<Longrightarrow> client_kept b c \<Longrightarrow> client_kept a c"
  by (simp add: client_kept_def)

lemma request_local_refl: "request_local i rt rt"
  by (simp add: request_local_def option.rel_refl)

lemma request_local_trans:
  assumes "request_local i a b" and "request_local i b c"
  shows "request_local i a c"
proof -
  have "rel_option client_kept (fmlookup (rt_clients a) i) (fmlookup (rt_clients c) i)"
    using assms by (auto simp: request_local_def option_rel_Some1 option_rel_Some2 elim!: option.rel_cases intro: client_kept_trans)
  moreover have "Option.bind (fmlookup (rt_clients b) i) place = Option.bind (fmlookup (rt_clients a) i) place"
    using assms(1) by (auto simp: request_local_def client_kept_def elim!: option.rel_cases)
  ultimately show ?thesis
    using assms unfolding request_local_def by metis
qed

definition local_run :: "u64 \<Rightarrow> 'a run \<Rightarrow> bool" where
  "local_run i m \<longleftrightarrow> (\<forall>rt. request_local i rt (fst (m rt)))"

named_theorems local_intros

lemma local_draws [local_intros]: "local_run i (draws r)"
  by (simp add: local_run_def request_local_refl)

lemma local_and_draw [local_intros]:
  assumes "local_run i m" and "\<And>x. local_run i (f x)"
  shows "local_run i (and_draw m f)"
  unfolding local_run_def
proof
  fix rt
  obtain rt1 r where m: "m rt = (rt1, r)"
    by fastforce
  then have "request_local i rt rt1"
    using assms(1) by (metis local_run_def fst_conv)
  then show "request_local i rt (fst (and_draw m f rt))"
    using assms(2) m request_local_trans by (cases r) (auto simp: and_draw_def local_run_def)
qed

lemma local_the_client [local_intros]: "local_run i (the_client j)"
  by (simp add: local_run_def the_client_def request_local_refl)

lemma request_local_world: "request_local i rt (rt\<lparr>rt_world := w\<rparr>)"
  by (simp add: request_local_def option.rel_refl)

lemma local_on_world_of [local_intros]: "local_run i (on_world_of f)"
  by (auto simp: local_run_def on_world_of_def request_local_world split: prod.splits)

lemma local_srp_proof [local_intros]: "local_run i (srp_proof env password parameters)"
  by (auto simp: local_run_def srp_proof_def request_local_world split: prod.splits)

lemma request_local_update:
  assumes "fmlookup (rt_clients rt) i = Some c" and "client_kept c c'"
  shows "request_local i rt (rt\<lparr>rt_clients := fmupd i c' (rt_clients rt)\<rparr>)"
  using assms by (simp add: request_local_def)

lemma local_on_client [local_intros]:
  assumes "\<And>c. client_kept c (fst (work c))"
  shows "local_run i (on_client i work)"
  using assms request_local_update
  by (fastforce simp: local_run_def on_client_def request_local_refl split: option.splits prod.splits)

lemma local_exchange [local_intros]:
  assumes "\<And>x c. client_kept c (fst (finish x c))"
  shows "local_run i (exchange i operation finish)"
  unfolding local_run_def
proof
  fix rt
  show "request_local i rt (fst (exchange i operation finish rt))"
  proof (cases "fmlookup (rt_clients rt) i")
    case None
    then show ?thesis
      by (simp add: exchange_def take_transport_def and_draw_def on_client_def request_local_refl)
  next
    case (Some c)
    show ?thesis
    proof (cases "cl_transport c")
      case None
      then show ?thesis
        using Some by (simp add: exchange_def take_transport_def and_draw_def on_client_def request_local_update client_kept_def place_def)
    next
      case (Some session)
      obtain session' w outcome where o: "operation (session, rt_world rt) = ((session', w), outcome)"
        by (metis surj_pair)
      let ?c = "c\<lparr>cl_transport := Some session'\<rparr>"
      let ?r = "case outcome of Inl e \<Rightarrow> (?c, Err e) | Inr x \<Rightarrow> finish x ?c"
      have run: "fst (exchange i operation finish rt)
          = rt\<lparr>rt_clients := fmupd i (fst ?r) (rt_clients rt)\<rparr>\<lparr>rt_world := w\<rparr>"
        using \<open>fmlookup (rt_clients rt) i = Some c\<close> Some o
        by (auto simp: exchange_def take_transport_def and_draw_def on_client_def Let_def split: prod.splits sum.splits)
      have "client_kept ?c (fst ?r)"
        using assms by (cases outcome) auto
      then have "client_kept c (fst ?r)"
        by (auto simp: client_kept_def place_def)
      then show ?thesis
        unfolding run
        by (rule request_local_trans[OF request_local_update[OF \<open>fmlookup (rt_clients rt) i = Some c\<close>] request_local_world])
    qed
  qed
qed

lemma persist_local:
  assumes "fmlookup (rt_clients rt) i = Some c" and "persist_client env c core events rt = (rt', Ok q)"
  shows "request_local i rt (rt'\<lparr>rt_clients := fmupd i (c\<lparr>cl_core := core, cl_persistence := q\<rparr>) (rt_clients rt)\<rparr>)"
proof -
  have n: "rt_next_client_id rt' = rt_next_client_id rt"
    using persist_next[of env c core events rt] assms(2) by simp
  show ?thesis
  proof (cases "cl_persistence c")
    case None
    then have "rt' = rt \<and> q = None"
      using assms(2) by (auto simp: persist_client_def)
    then show ?thesis
      using assms(1) None by (simp add: request_local_def client_kept_def place_def)
  next
    case (Some p)
    let ?s = "\<lparr>st_tables = database_at rt (ps_database_path p), st_key = ps_key p, st_random_calls = rt_storage_calls rt\<rparr>"
    obtain now store r where
      com: "commit_transition (rv_storage env) core events (ps_revision p) now \<lparr>st_tables = database_at rt (ps_database_path p), st_key = ps_key p, st_random_calls = rt_storage_calls rt\<rparr> = (store, r)"
      and "rt_clients rt' = rt_clients rt"
      and db: "\<forall>path. database_at rt' path = (if path = ps_database_path p then st_tables store else database_at rt path)"
      and "Ok q = and_then (map_err StorageFailed r) (\<lambda>t. Ok (Some (p\<lparr>ps_revision := sn_revision (pt_snapshot t)\<rparr>)))"
      by (rule persist_cases[OF Some assms(2)])
    then have "map_option (\<lambda>p. (ps_database_path p, ps_key p)) q = Some (ps_database_path p, ps_key p)"
      by (cases r) auto
    moreover have "tables_wf (st_tables store)" if "tables_wf (database_at rt (ps_database_path p))"
      using commit_transition_wf[of ?s "rv_storage env" core events "ps_revision p" now] com that by simp
    ultimately show ?thesis
      using assms(1) Some db n by (simp add: request_local_def client_kept_def place_def)
  qed
qed

text \<open>The work on a client when the answer has come.\<close>

lemma apply_remote_kept [simp]: "client_kept c (fst (apply_remote state c))"
  by (simp add: apply_remote_def client_kept_def place_def split: prod.splits)

lemma kept_after_remote:
  assumes "\<And>events c. client_kept c (fst (f events c))"
  shows "client_kept c (fst (and_draw (apply_remote state) f c))"
proof -
  obtain c1 r where a: "apply_remote state c = (c1, r)"
    by fastforce
  then have "client_kept c c1"
    using apply_remote_kept[of c state] by simp
  then show ?thesis
    using a assms client_kept_trans by (cases r) (auto simp: and_draw_def)
qed

lemma fields_kept [simp]:
  "client_kept c (c\<lparr>cl_auth_context := x\<rparr>)" "client_kept c (c\<lparr>cl_server_directory := d\<rparr>)"
  "client_kept c (c\<lparr>cl_update_state := u\<rparr>)" "client_kept c (c\<lparr>cl_authorization := m\<rparr>)"
  "client_kept c (c\<lparr>cl_transport := Some session, cl_server_directory := d\<rparr>)"
  by (simp_all add: client_kept_def place_def)

lemma code_sent_kept: "client_kept c (fst (code_sent phone_number result c))"
  by (cases result) (auto simp: code_sent_def intro!: kept_after_remote)

lemma signed_in_kept: "client_kept c (fst (signed_in c))"
  by (auto simp: signed_in_def intro!: kept_after_remote)

lemma password_required_kept: "client_kept c (fst (password_required password c))"
proof (cases "ap_srp password = None \<or> cl_auth_context c = None")
  case True
  then show ?thesis
    by (auto simp: password_required_def split: option.splits)
next
  case False
  then obtain srp ctx where "ap_srp password = Some srp" "cl_auth_context c = Some ctx"
    by auto
  then show ?thesis
    by (auto simp: password_required_def Let_def intro!: client_kept_trans[OF fields_kept(1) kept_after_remote])
qed

lemma code_submitted_kept: "client_kept c (fst (code_submitted outcome c))"
  by (cases outcome) (auto simp: signed_in_kept password_required_kept intro!: kept_after_remote)

lemmas finishing_kept = code_sent_kept signed_in_kept code_submitted_kept

lemma local_core_command [local_intros]: "local_run i (execute_core_command env i request)"
  unfolding local_run_def
proof
  fix rt
  show "request_local i rt (fst (execute_core_command env i request rt))"
  proof (cases "fmlookup (rt_clients rt) i")
    case None
    then show ?thesis
      by (simp add: execute_core_command_def and_draw_def the_client_def request_local_refl)
  next
    case (Some c)
    have stored: "request_local i rt (rt'\<lparr>rt_clients := fmupd i (c\<lparr>cl_core := core, cl_persistence := q\<rparr>) (rt_clients rt)\<rparr>)"
      if "persist_client env c core events rt = (rt', Ok q)" for core events rt' q
      using persist_local[OF Some that] .
    have refused: "request_local i rt rt'" if "persist_client env c core events rt = (rt', Err e)" for core events rt' e
      using refused_persist[OF that] Some persist_next[of env c core events rt] that
      by (simp add: request_local_def)
    show ?thesis
      unfolding execute_core_command_run[OF Some]
      by (auto simp: Let_def request_local_refl stored refused split: sum.splits prod.splits)
  qed
qed

lemma local_authorization_command [local_intros]: "local_run i (execute_authorization_command env i request)"
  unfolding execute_authorization_command_def
  by (intro local_intros) (simp split: prod.splits)

lemma local_requests [local_intros]:
  "local_run i (initialize_connection env i request)" "local_run i (send_authentication_code env i request)"
  "local_run i (submit_authentication_code env i request)" "local_run i (submit_authentication_password env i request)"
  "local_run i (submit_registration env i request)" "local_run i (begin_update_sync env i)"
  "local_run i (bootstrap_transport env i request)"
  unfolding initialize_connection_def send_authentication_code_def submit_authentication_code_def
    submit_authentication_password_def submit_registration_def begin_update_sync_def bootstrap_transport_def the_context_def
  by (auto intro!: local_intros finishing_kept simp: Let_def split: prod.split)

lemma local_execute_value: "local_run i (execute_value env i request)"
  unfolding execute_value_def by (intro local_intros) (auto intro!: local_intros)

lemma request_local_json: "request_local i rt (fst (execute_json env i request rt))"
  using local_execute_value[of i env]
  by (auto simp: execute_json_def local_run_def request_local_refl split: option.splits prod.splits) (metis fst_conv)

section \<open>Reachable runtimes\<close>

definition runtime_ok :: "Runtime \<Rightarrow> bool" where
  "runtime_ok rt \<longleftrightarrow>
     (\<forall>path. tables_wf (database_at rt path) \<or> database_at rt path = empty_database) \<and>
     (\<forall>i c path key. fmlookup (rt_clients rt) i = Some c \<longrightarrow> place c = Some (path, key) \<longrightarrow>
        length key = 32 \<and> tables_wf (database_at rt path))"

text \<open>What a process can do from a start on well-formed databases.\<close>

inductive reachable_runtime :: "RuntimeEnv \<Rightarrow> Runtime \<Rightarrow> bool" for env where
  started: "rt_clients rt = fmempty \<Longrightarrow> fmpred (\<lambda>_. tables_wf) (rt_files rt) \<Longrightarrow> reachable_runtime env rt"
| created: "reachable_runtime env rt \<Longrightarrow> create_client rt = (rt', r) \<Longrightarrow> reachable_runtime env rt'"
| opened: "reachable_runtime env rt \<Longrightarrow> create_persistent_client env path key rt = (rt', r) \<Longrightarrow> reachable_runtime env rt'"
| closed: "reachable_runtime env rt \<Longrightarrow> close_client i rt = (rt', r') \<Longrightarrow> reachable_runtime env rt'"
| executed: "reachable_runtime env rt \<Longrightarrow> execute_json env i request rt = (rt', reply) \<Longrightarrow> reachable_runtime env rt'"

lemma runtime_ok_local:
  assumes "request_local i rt rt'" and "runtime_ok rt"
  shows "runtime_ok rt'"
proof -
  have client: "\<exists>c. fmlookup (rt_clients rt) j = Some c \<and> place c = place c'" if "fmlookup (rt_clients rt') j = Some c'" for j c'
    using assms(1) that by (cases "j = i") (auto simp: request_local_def client_kept_def option_rel_Some2)
  have "tables_wf (database_at rt' path) \<or> database_at rt' path = empty_database" for path
  proof (cases "database_at rt' path = database_at rt path")
    case False
    then obtain key c where "fmlookup (rt_clients rt) i = Some c" "place c = Some (path, key)"
      using assms(1) by (auto simp: request_local_def bind_eq_Some_conv)
    then show ?thesis
      using assms by (auto simp: request_local_def runtime_ok_def)
  qed (use assms(2) in \<open>simp add: runtime_ok_def\<close>)
  moreover have "length key = 32 \<and> tables_wf (database_at rt' path)"
    if c': "fmlookup (rt_clients rt') j = Some c'" "place c' = Some (path, key)" for j c' path key
  proof -
    obtain c where "fmlookup (rt_clients rt) j = Some c" "place c = Some (path, key)"
      using client[OF c'(1)] c'(2) by auto
    then show ?thesis
      using assms unfolding runtime_ok_def request_local_def by blast
  qed
  ultimately show ?thesis
    unfolding runtime_ok_def by blast
qed

lemma runtime_ok_insert:
  assumes "runtime_ok rt" and "\<And>path key. place c = Some (path, key) \<Longrightarrow> length key = 32 \<and> tables_wf (database_at rt path)"
  shows "runtime_ok (fst (insert_client c rt))"
  using assms by (auto simp: runtime_ok_def insert_client_def database_at_def)

lemma runtime_ok_database:
  assumes "runtime_ok rt" and "tables_wf (database_at rt path) \<or> database_at rt path = empty_database"
    and "\<And>store. tables_wf (st_tables store) \<or> st_tables store = empty_database \<Longrightarrow> tables_wf (st_tables (fst (operation store)))"
  shows "runtime_ok (fst (on_database path key operation rt)) \<and> tables_wf (database_at (fst (on_database path key operation rt)) path)"
proof -
  let ?s = "\<lparr>st_tables = database_at rt path, st_key = key, st_random_calls = rt_storage_calls rt\<rparr>"
  obtain store r where o: "operation ?s = (store, r)"
    by fastforce
  then have "tables_wf (st_tables store)"
    using assms(2) assms(3)[of ?s] by simp
  then show ?thesis
    using assms(1) on_database_simps[of operation rt path key store r] o by (auto simp: runtime_ok_def)
qed

lemma runtime_ok_open:
  assumes "runtime_ok rt"
  shows "runtime_ok (fst (create_persistent_client env path key rt))"
proof (cases "length key = 32")
  case True
  let ?rt1 = "fst (on_database path key (open_database key) rt)"
  let ?load = "\<lambda>store. (store, load_snapshot (rv_storage env) store)"
  let ?rt2 = "fst (on_database path key ?load ?rt1)"
  have 1: "runtime_ok ?rt1 \<and> tables_wf (database_at ?rt1 path)"
    using assms by (intro runtime_ok_database open_database_wf(1)) (auto simp: runtime_ok_def)
  have 2: "runtime_ok ?rt2 \<and> tables_wf (database_at ?rt2 path)"
  proof -
    have "database_at ?rt2 = database_at ?rt1" "rt_clients ?rt2 = rt_clients ?rt1"
      by (simp_all add: on_database_def database_at_def fun_eq_iff)
    then show ?thesis
      using 1 by (simp add: runtime_ok_def)
  qed
  have "runtime_ok (fst (insert_client (restored_client path key sn) ?rt2))" for sn
    using 2 True by (intro runtime_ok_insert) (auto simp: place_def restored_client_def split: option.splits)
  then show ?thesis
    using 1 2 True
    by (auto simp: create_persistent_client_def StorageKey_from_slice_def and_draw_def split: prod.splits sum.splits)
qed (use assms in \<open>simp add: create_persistent_client_def StorageKey_from_slice_def and_draw_def\<close>)

lemma reachable_runtime_ok:
  assumes "reachable_runtime env rt"
  shows "runtime_ok rt"
  using assms
proof induction
  case (started rt)
  then show ?case
    by (auto simp: runtime_ok_def database_at_def fmpred_iff split: option.splits)
next
  case (created rt rt' r)
  then show ?case
    using runtime_ok_insert[of rt RuntimeClient_default]
    by (simp add: create_client_def place_def RuntimeClient_default_def)
next
  case (opened rt path key rt' r)
  then show ?case
    using runtime_ok_open[of rt env path key] by simp
next
  case (closed rt i rt' r)
  then show ?case
    by (auto simp: close_client_def runtime_ok_def split: if_splits)
next
  case (executed rt i request rt' reply)
  then show ?case
    using request_local_json[of i rt env request] runtime_ok_local by auto
qed

section \<open>Properties\<close>

definition note_chat :: Chat where
  "note_chat = Chat_new (ChatId 1) PrivateChat ''t''"

definition note_core :: TelegramState where
  "note_core = tg_apply TelegramState_default (ChatUpserted note_chat)"

definition note_env :: RuntimeEnv where
  "note_env =
     \<lparr>rv_network = \<lparr>ne_crc = (\<lambda>_. 0), ne_primitives = demo_primitives, ne_big = plain_big,
        ne_clock = (\<lambda>_. Some (1, 0)), ne_random = (\<lambda>_. None), ne_connect = (\<lambda>_ _. Err IoTimedOut)\<rparr>,
      rv_storage = note_library\<lparr>sl_state_to_vec := (\<lambda>_. Some []), sl_state_from_slice := (\<lambda>_. Some note_core),
        sl_event_to_vec := (\<lambda>_. Some []), sl_event_from_slice := (\<lambda>_. Some (ChatUpserted note_chat))\<rparr>,
      rv_hashes = zero_hashes, rv_parse = (\<lambda>_. None), rv_core_command = (\<lambda>_. Some (UpsertChat note_chat)),
      rv_auth_command = (\<lambda>_. None)\<rparr>"

definition note_request :: Json where
  "note_request = JsonObject [(''command'', JsonNull)]"

definition note_start :: Runtime where
  "note_start =
     \<lparr>rt_next_client_id = 1, rt_clients = fmempty, rt_files = fmempty, rt_storage_calls = 0,
      rt_world = \<lparr>wd_clock_calls = 0, wd_random_calls = 0, wd_connect_calls = 0\<rparr>\<rparr>"

definition note_opened_runtime :: Runtime where
  "note_opened_runtime = fst (create_persistent_client note_env ''db'' (replicate 32 7) note_start)"

definition note_place :: PersistentClientStorage where
  "note_place = \<lparr>ps_database_path = ''db'', ps_key = replicate 32 7, ps_revision = 0\<rparr>"

lemma note_opened_run:
  "create_persistent_client note_env ''db'' (replicate 32 7) note_start = (note_opened_runtime, Ok 1)"
  "fmlookup (rt_clients note_opened_runtime) 1 = Some (RuntimeClient_default\<lparr>cl_persistence := Some note_place\<rparr>)"
  "database_at note_opened_runtime ''db'' = st_tables note_store"
  by (simp_all add: note_opened_runtime_def create_persistent_client_def StorageKey_from_slice_def and_draw_def on_database_def
      open_database_def from_connection_def migrate_def SCHEMA_VERSION_def empty_database_def database_at_def note_start_def
      load_snapshot_def insert_client_def restored_client_def note_place_def note_store_def)

lemma note_reachable: "reachable_runtime note_env note_opened_runtime"
  by (rule reachable_runtime.opened[OF reachable_runtime.started note_opened_run(1)]) (simp_all add: note_start_def)

lemma note_events: "core_events note_env note_request c = Ok [ChatUpserted note_chat]"
  by (simp add: core_events_def note_request_def note_env_def)

lemma note_accepted:
  assumes "fmlookup (rt_clients rt) 1 = Some (RuntimeClient_default\<lparr>cl_persistence := Some note_place\<rparr>)"
    and "database_at rt ''db'' = st_tables note_store"
  shows "\<exists>rt'. execute_core_command note_env 1 note_request rt = (rt', Ok (CoreResult [ChatUpserted note_chat] note_core))"
  unfolding execute_core_command_run[OF assms(1)] note_events
  using assms(2)
  by (simp add: Let_def persist_client_def note_place_def and_draw_def now_unix_ms_def on_database_def database_at_def
      commit_transition_def transaction_def current_revision_def note_store_def insert_event_def storage_encrypt_def
      write_snapshot_def note_env_def note_library_def to_i64_def to_u64_def checked_add_u64_def note_core_def
      RuntimeClient_default_def)

lemmas note_executed = note_accepted[OF note_opened_run(2,3)]

text \<open>
  C38: a command of the engine that a client with a database has accepted is durable: a client created
  next on that database, as after a restart, has the state that the command led to and the revision
  of the first client, so that both could go on. The values are assumed to be written as JSON that
  reads back.
\<close>

theorem core_command_durable:
  assumes "reachable_runtime env rt" and "cipher_sound (rv_storage env)" and "fmlookup (rt_clients rt) i = Some client"
    and "cl_persistence client = Some p"
    and "execute_core_command env i request rt = (rt', Ok (CoreResult events state))"
    and "state_reads_back (rv_storage env) state" and "list_all (event_reads_back (rv_storage env)) events"
  shows "\<exists>rt'' client' new.
     fmlookup (rt_clients rt') i = Some client' \<and> cl_core client' = state \<and>
     create_persistent_client env (ps_database_path p) (ps_key p) rt' = (rt'', Ok (rt_next_client_id rt')) \<and>
     fmlookup (rt_clients rt'') (rt_next_client_id rt') = Some new \<and>
     cl_core new = state \<and> cl_persistence new = cl_persistence client'"
proof -
  have "place client = Some (ps_database_path p, ps_key p)"
    using assms(4) by (simp add: place_def)
  then have "length (ps_key p) = 32 \<and> tables_wf (database_at rt (ps_database_path p))"
    using reachable_runtime_ok[OF assms(1)] assms(3) unfolding runtime_ok_def by blast
  then show ?thesis
    using core_command_restored[OF assms(2,3,4) _ _ assms(5,6)] assms(7) by (simp add: list_all_iff)
qed

theorem core_command_durable_witness:
  "\<exists>rt' rt'' new. execute_core_command note_env 1 note_request note_opened_runtime
       = (rt', Ok (CoreResult [ChatUpserted note_chat] note_core)) \<and>
     create_persistent_client note_env ''db'' (replicate 32 7) rt' = (rt'', Ok (rt_next_client_id rt')) \<and>
     fmlookup (rt_clients rt'') (rt_next_client_id rt') = Some new \<and> cl_core new = note_core"
proof -
  obtain rt' where run: "execute_core_command note_env 1 note_request note_opened_runtime
      = (rt', Ok (CoreResult [ChatUpserted note_chat] note_core))"
    using note_executed by blast
  have "cipher_sound (rv_storage note_env)" "state_reads_back (rv_storage note_env) note_core"
    "list_all (event_reads_back (rv_storage note_env)) [ChatUpserted note_chat]"
    by (simp_all add: cipher_sound_def state_reads_back_def event_reads_back_def note_env_def note_library_def)
  from core_command_durable[OF note_reachable this(1) note_opened_run(2) _ run this(2,3), of note_place]
  show ?thesis
    using run by (fastforce simp: note_place_def)
qed

text \<open>
  C8: no update of a shared database is lost. When two clients have the same database open and one
  has a command accepted, the other, whose revision was at most that of the first, is refused
  whatever it asks of its engine next: with the error of its own engine, or, where its engine accepts,
  with a conflict that names its revision and the one after that of the first. The refusal changes no
  client and no database, so what the first has written stays.
\<close>

theorem second_writer_refused:
  assumes clients: "fmlookup (rt_clients rt) i = Some a" "fmlookup (rt_clients rt) j = Some b" "i \<noteq> j"
    and places: "cl_persistence a = Some p" "cl_persistence b = Some q" "ps_database_path q = ps_database_path p"
    and behind: "ps_revision q \<le> ps_revision p"
    and run: "execute_core_command env i request rt = (rt', Ok (CoreResult events state))"
  shows "\<exists>rt''. execute_core_command env j request2 rt' =
       (rt'', Err (case core_events env request2 b of
                Inl e \<Rightarrow> e
              | Inr _ \<Rightarrow> StorageFailed (RevisionConflict (ps_revision q) (ps_revision p + 1)))) \<and>
     rt_clients rt'' = rt_clients rt' \<and> database_at rt'' = database_at rt'"
proof -
  obtain persistence rt1 where per: "persist_client env a state events rt = (rt1, Ok persistence)"
    and rt': "rt' = rt1\<lparr>rt_clients := fmupd i (a\<lparr>cl_core := state, cl_persistence := persistence\<rparr>) (rt_clients rt)\<rparr>"
    by (rule core_command_Ok[OF clients(1) run])
  note revision = persisted_revision[OF places(1) per]
  have now: "current_revision (database_at rt' (ps_database_path q)) = Ok (ps_revision p + 1)"
    using revision(1) places(3) by (simp add: rt' database_at_def)
  have other: "fmlookup (rt_clients rt') j = Some b"
    using clients by (simp add: rt')
  have "ps_revision p + 1 \<noteq> ps_revision q"
    using revision(2) behind by auto
  then have "snd (execute_core_command env j request2 rt') =
      Err (case core_events env request2 b of
         Inl e \<Rightarrow> e | Inr _ \<Rightarrow> StorageFailed (RevisionConflict (ps_revision q) (ps_revision p + 1)))"
    using stale_persist[OF places(2) _ now] unfolding execute_core_command_run[OF other]
    by (fastforce simp: Let_def split: sum.splits prod.splits)
  then show ?thesis
    using refused_core_command by (cases "execute_core_command env j request2 rt'") fastforce
qed

definition two_clients :: Runtime where
  "two_clients = fst (create_persistent_client note_env ''db'' (replicate 32 7) note_opened_runtime)"

lemma two_clients_run:
  "rt_clients two_clients = fmupd 2 (RuntimeClient_default\<lparr>cl_persistence := Some note_place\<rparr>) (rt_clients note_opened_runtime)"
  "database_at two_clients ''db'' = st_tables note_store"
  by (simp_all add: two_clients_def note_opened_runtime_def create_persistent_client_def StorageKey_from_slice_def
      and_draw_def on_database_def open_database_def from_connection_def migrate_def SCHEMA_VERSION_def empty_database_def
      database_at_def note_start_def load_snapshot_def insert_client_def restored_client_def note_place_def note_store_def)

theorem second_writer_refused_witness:
  "\<exists>rt' rt''. execute_core_command note_env 1 note_request two_clients
       = (rt', Ok (CoreResult [ChatUpserted note_chat] note_core)) \<and>
     execute_core_command note_env 2 note_request rt' = (rt'', Err (StorageFailed (RevisionConflict 0 1))) \<and>
     database_at rt'' = database_at rt'"
proof -
  let ?c = "RuntimeClient_default\<lparr>cl_persistence := Some note_place\<rparr>"
  have clients: "fmlookup (rt_clients two_clients) 1 = Some ?c" "fmlookup (rt_clients two_clients) 2 = Some ?c"
    "(1 :: u64) \<noteq> 2"
    by (simp_all add: two_clients_run note_opened_run(2))
  obtain rt' where run: "execute_core_command note_env 1 note_request two_clients
      = (rt', Ok (CoreResult [ChatUpserted note_chat] note_core))"
    using note_accepted[OF clients(1) two_clients_run(2)] by blast
  from second_writer_refused[OF clients _ _ refl order_refl run, where p = note_place and ?request2.0 = note_request] run
  show ?thesis
    by (force simp: note_events note_place_def)
qed

text \<open>
  C39: a request concerns its client only: every other client stays as it is, the client keeps its
  database and, if it had a connection, has one, whether the request succeeds or fails at whatever
  point, and no database but that of the client changes, which stays well formed.
\<close>

theorem request_concerns_its_client: "request_local i rt (fst (execute_json env i request rt))"
  by (rule request_local_json)

end
