(* ===== verification/Store_Disk.thy ===== *)
theory Store_Disk
  imports Store_Journal
begin

text \<open>
  The two stores of \<open>src/native/mahayana-messaging/src/store.rs\<close> on disk. The JSON file is its content and
  that of the temporary file that replaces it. The SQLite database is the record of its tables: rows of
  the journal stand in the order of their sequence, sequences are never used twice, and a transaction
  that fails leaves the tables as they were. Every operation opens the database and migrates it first;
  migrating twice changes nothing, so an operation that only reads is a function of the tables. JSON is a
  parameter, and failures of disk and database are not modelled but for the last sequence.
\<close>

section \<open>JSON\<close>

record StoreJson =
  jn_snapshot_to_vec :: "MessagingSnapshot \<Rightarrow> string option"
  jn_snapshot_from_slice :: "string \<Rightarrow> MessagingSnapshot option"
  jn_state_to_string :: "MessagingState \<Rightarrow> string option"
  jn_state_from_str :: "string \<Rightarrow> MessagingState option"
  jn_audience_to_string :: "ActorId list \<Rightarrow> string option"
  jn_audience_from_str :: "string \<Rightarrow> ActorId list option"
  jn_envelope_to_string :: "ServerEnvelope \<Rightarrow> string option"
  jn_envelope_from_str :: "string \<Rightarrow> ServerEnvelope option"

section \<open>The JSON file\<close>

record JsonFileStateStore =
  jf_file :: "string option"
  jf_temporary :: "string option"

definition json_load :: "StoreJson \<Rightarrow> JsonFileStateStore \<Rightarrow> (MessagingSnapshot option, StoreError) result" where
  "json_load lib j =
     (case jf_file j of
        None \<Rightarrow> Ok None
      | Some bytes \<Rightarrow>
          and_then (ok_or StoreJsonFailed (jn_snapshot_from_slice lib bytes)) (\<lambda>snapshot.
          and_then (validate_snapshot_schema (sn_schema_version snapshot)) (\<lambda>_.
          Ok (Some snapshot))))"

definition json_save ::
  "StoreJson \<Rightarrow> JsonFileStateStore \<Rightarrow> MessagingSnapshot \<Rightarrow> JsonFileStateStore \<times> (unit, StoreError) result"
where
  "json_save lib j snapshot =
     (case and_then (validate_snapshot_schema (sn_schema_version snapshot)) (\<lambda>_.
           ok_or StoreJsonFailed (jn_snapshot_to_vec lib snapshot)) of
        Inl e \<Rightarrow> (j, Err e)
      | Inr payload \<Rightarrow>
          let written = j\<lparr>jf_temporary := Some payload\<rparr> in
          (written\<lparr>jf_file := jf_temporary written, jf_temporary := None\<rparr>, Ok ()))"

text \<open>The journal is left to the default methods of the trait: none is kept.\<close>

definition JsonFileStore :: "StoreJson \<Rightarrow> JsonFileStateStore StateStore" where
  "JsonFileStore lib =
     \<lparr>st_load = json_load lib, st_save = json_save lib,
      st_save_with_events = (\<lambda>j snapshot _. json_save lib j snapshot),
      st_load_event_journal_after = (\<lambda>_ _ _. Ok None)\<rparr>"

section \<open>The SQLite database\<close>

definition MESSAGING_SQLITE_SCHEMA_VERSION :: u32 where
  "MESSAGING_SQLITE_SCHEMA_VERSION = 2"

record SnapshotRow =
  sr_schema_version :: u32
  sr_cursor :: string
  sr_saved_at_ms :: i64
  sr_state_json :: string

record JournalRow =
  jr_sequence :: int
  jr_cursor :: string
  jr_audience_json :: string
  jr_envelope_json :: string

record SqliteTables =
  sq_user_version :: u32
  sq_snapshot :: "SnapshotRow option"
  sq_journal :: "JournalRow list"
  sq_last_sequence :: int
  sq_floor_cursor :: "string option"

definition migrate_sqlite :: "SqliteTables \<Rightarrow> (SqliteTables, StoreError) result" where
  "migrate_sqlite db =
     (if MESSAGING_SQLITE_SCHEMA_VERSION < sq_user_version db
      then Err (UnsupportedSqliteSchema MESSAGING_SQLITE_SCHEMA_VERSION (sq_user_version db))
      else if sq_user_version db = 0 then
        Ok (db\<lparr>sq_floor_cursor := Some (case sq_floor_cursor db of None \<Rightarrow> ''0'' | Some c \<Rightarrow> c), sq_user_version := 2\<rparr>)
      else if sq_user_version db = 1 then
        Ok (db\<lparr>sq_floor_cursor := Some (case sq_snapshot db of None \<Rightarrow> ''0'' | Some row \<Rightarrow> sr_cursor row),
               sq_user_version := 2\<rparr>)
      else Ok db)"

definition load_sqlite_snapshot :: "StoreJson \<Rightarrow> SqliteTables \<Rightarrow> (MessagingSnapshot option, StoreError) result" where
  "load_sqlite_snapshot lib db =
     (case sq_snapshot db of
        None \<Rightarrow> Ok None
      | Some row \<Rightarrow>
          and_then (validate_snapshot_schema (sr_schema_version row)) (\<lambda>_.
          and_then (ok_or InvalidCursor (parse_u64 (sr_cursor row))) (\<lambda>cursor.
          and_then (ok_or StoreJsonFailed (jn_state_from_str lib (sr_state_json row))) (\<lambda>state.
          Ok (Some \<lparr>sn_schema_version = sr_schema_version row, sn_cursor = cursor,
                    sn_saved_at_ms = sr_saved_at_ms row, sn_state = state\<rparr>)))))"

definition sqlite_write_snapshot :: "StoreJson \<Rightarrow> MessagingSnapshot \<Rightarrow> SqliteTables \<Rightarrow> (SqliteTables, StoreError) result" where
  "sqlite_write_snapshot lib snapshot db =
     and_then (ok_or StoreJsonFailed (jn_state_to_string lib (sn_state snapshot))) (\<lambda>state_json.
     Ok (db\<lparr>sq_snapshot := Some \<lparr>sr_schema_version = sn_schema_version snapshot, sr_cursor = show_u64 (sn_cursor snapshot),
               sr_saved_at_ms = sn_saved_at_ms snapshot, sr_state_json = state_json\<rparr>\<rparr>))"

definition set_journal_floor :: "u64 \<Rightarrow> SqliteTables \<Rightarrow> SqliteTables" where
  "set_journal_floor cursor db = db\<lparr>sq_floor_cursor := Some (show_u64 cursor)\<rparr>"

definition insert_journal_row :: "StoreJson \<Rightarrow> JournalEntry \<Rightarrow> SqliteTables \<Rightarrow> (SqliteTables, StoreError) result" where
  "insert_journal_row lib event db =
     and_then (journal_cursor event) (\<lambda>cursor.
     and_then (ok_or StoreJsonFailed (jn_audience_to_string lib (je_audience event))) (\<lambda>audience_json.
     and_then (ok_or StoreJsonFailed (jn_envelope_to_string lib (je_envelope event))) (\<lambda>envelope_json.
     if 2 ^ 63 - 1 \<le> sq_last_sequence db then Err StoreSqliteFailed
     else
       let sequence = sq_last_sequence db + 1 in
       Ok (db\<lparr>sq_journal := sq_journal db @ [\<lparr>jr_sequence = sequence, jr_cursor = show_u64 cursor,
                 jr_audience_json = audience_json, jr_envelope_json = envelope_json\<rparr>],
              sq_last_sequence := sequence\<rparr>))))"

primrec insert_journal_rows :: "StoreJson \<Rightarrow> JournalEntry list \<Rightarrow> SqliteTables \<Rightarrow> (SqliteTables, StoreError) result" where
  "insert_journal_rows lib [] db = Ok db"
| "insert_journal_rows lib (event # events) db =
     and_then (insert_journal_row lib event db) (insert_journal_rows lib events)"

text \<open>\<open>MAX(sequence)\<close> of the rows with a cursor; there is one where it is asked for.\<close>

definition max_sequence_of :: "string \<Rightarrow> JournalRow list \<Rightarrow> int" where
  "max_sequence_of cursor rows = Max (set (map jr_sequence (filter (\<lambda>row. jr_cursor row = cursor) rows)))"

definition prune_sqlite_journal :: "SqliteTables \<Rightarrow> (SqliteTables, StoreError) result" where
  "prune_sqlite_journal db =
     (let rows = sq_journal db; count = length rows in
      if count \<le> MESSAGING_EVENT_JOURNAL_LIMIT then Ok db
      else
        let excess = count - MESSAGING_EVENT_JOURNAL_LIMIT;
            prune_cursor = jr_cursor (rows ! (excess - 1));
            max_sequence = max_sequence_of prune_cursor rows;
            pruned = db\<lparr>sq_journal := filter (\<lambda>row. max_sequence < jr_sequence row) rows\<rparr>
        in and_then (ok_or InvalidCursor (parse_u64 prune_cursor)) (\<lambda>cursor.
           Ok (set_journal_floor cursor pruned)))"

definition sqlite_load :: "StoreJson \<Rightarrow> SqliteTables \<Rightarrow> (MessagingSnapshot option, StoreError) result" where
  "sqlite_load lib db = and_then (migrate_sqlite db) (load_sqlite_snapshot lib)"

text \<open>A transaction on the migrated tables; when it fails only the migration stays.\<close>

definition sqlite_transaction ::
  "(SqliteTables \<Rightarrow> (SqliteTables, StoreError) result) \<Rightarrow> SqliteTables \<Rightarrow> SqliteTables \<times> (unit, StoreError) result"
where
  "sqlite_transaction work db =
     (case migrate_sqlite db of
        Inl e \<Rightarrow> (db, Err e)
      | Inr db \<Rightarrow> (case work db of Inl e \<Rightarrow> (db, Err e) | Inr db' \<Rightarrow> (db', Ok ())))"

definition sqlite_save ::
  "StoreJson \<Rightarrow> SqliteTables \<Rightarrow> MessagingSnapshot \<Rightarrow> SqliteTables \<times> (unit, StoreError) result"
where
  "sqlite_save lib db snapshot =
     (case validate_snapshot_schema (sn_schema_version snapshot) of
        Inl e \<Rightarrow> (db, Err e)
      | Inr _ \<Rightarrow>
          sqlite_transaction (\<lambda>db.
            and_then (sqlite_write_snapshot lib snapshot db) (\<lambda>db.
            Ok (if sq_journal db = [] then set_journal_floor (sn_cursor snapshot) db else db))) db)"

definition sqlite_save_with_events ::
  "StoreJson \<Rightarrow> SqliteTables \<Rightarrow> MessagingSnapshot \<Rightarrow> JournalEntry list \<Rightarrow> SqliteTables \<times> (unit, StoreError) result"
where
  "sqlite_save_with_events lib db snapshot events =
     (case validate_snapshot_schema (sn_schema_version snapshot) of
        Inl e \<Rightarrow> (db, Err e)
      | Inr _ \<Rightarrow>
          sqlite_transaction (\<lambda>db.
            and_then (sqlite_write_snapshot lib snapshot db) (\<lambda>db.
            and_then (insert_journal_rows lib events db)
            prune_sqlite_journal)) db)"

primrec read_journal_rows :: "StoreJson \<Rightarrow> JournalRow list \<Rightarrow> (JournalEntry list, StoreError) result" where
  "read_journal_rows lib [] = Ok []"
| "read_journal_rows lib (row # rows) =
     and_then (ok_or StoreJsonFailed (jn_audience_from_str lib (jr_audience_json row))) (\<lambda>audience.
     and_then (ok_or StoreJsonFailed (jn_envelope_from_str lib (jr_envelope_json row))) (\<lambda>envelope.
     and_then (read_journal_rows lib rows) (\<lambda>entries.
     Ok (\<lparr>je_envelope = envelope, je_audience = audience\<rparr> # entries))))"

definition sqlite_load_event_journal_after ::
  "StoreJson \<Rightarrow> SqliteTables \<Rightarrow> u64 \<Rightarrow> nat \<Rightarrow> (EventJournalSlice option, StoreError) result"
where
  "sqlite_load_event_journal_after lib db cursor cursor_group_limit =
     and_then (migrate_sqlite db) (\<lambda>db.
     and_then (ok_or StoreSqliteFailed (sq_floor_cursor db)) (\<lambda>value.
     and_then (ok_or InvalidCursor (parse_u64 value)) (\<lambda>floor_cursor.
     and_then (load_sqlite_snapshot lib db) (\<lambda>snapshot.
     let current_cursor = (case snapshot of None \<Rightarrow> 0 | Some s \<Rightarrow> sn_cursor s) in
     and_then (read_journal_rows lib (sq_journal db)) (\<lambda>entries.
     and_then (slice_journal entries floor_cursor current_cursor cursor cursor_group_limit) (\<lambda>slice.
     Ok (Some slice)))))))"

definition SqliteStore :: "StoreJson \<Rightarrow> SqliteTables StateStore" where
  "SqliteStore lib =
     \<lparr>st_load = sqlite_load lib, st_save = sqlite_save lib, st_save_with_events = sqlite_save_with_events lib,
      st_load_event_journal_after = sqlite_load_event_journal_after lib\<rparr>"

definition import_json_if_empty ::
  "StoreJson \<Rightarrow> SqliteTables \<Rightarrow> JsonFileStateStore \<Rightarrow> SqliteTables \<times> (bool, StoreError) result"
where
  "import_json_if_empty lib db legacy =
     (case sqlite_load lib db of
        Inl e \<Rightarrow> (db, Err e)
      | Inr (Some _) \<Rightarrow> (db, Ok False)
      | Inr None \<Rightarrow>
          (case json_load lib legacy of
             Inl e \<Rightarrow> (db, Err e)
           | Inr None \<Rightarrow> (db, Ok False)
           | Inr (Some snapshot) \<Rightarrow>
               (case sqlite_save lib db snapshot of (db', r) \<Rightarrow> (db', and_then r (\<lambda>_. Ok True)))))"

section \<open>The database implements the store in memory\<close>

lemma show_u64_inject [simp]: "show_u64 a = show_u64 b \<longleftrightarrow> a = b"
  using parse_show_u64 by (metis option.inject)

lemma show_u64_0 [simp]: "show_u64 0 = ''0''"
  by (simp add: show_u64_def show_nat.simps[of 0] digit_char_def char_of_def bit_simps)

definition snapshot_holds :: "StoreJson \<Rightarrow> SnapshotRow \<Rightarrow> MessagingSnapshot \<Rightarrow> bool" where
  "snapshot_holds lib row s \<longleftrightarrow>
     sn_schema_version s = MESSAGING_SNAPSHOT_SCHEMA_VERSION \<and> sr_schema_version row = sn_schema_version s \<and>
     sr_cursor row = show_u64 (sn_cursor s) \<and> sr_saved_at_ms row = sn_saved_at_ms s \<and>
     jn_state_from_str lib (sr_state_json row) = Some (sn_state s)"

definition row_holds :: "StoreJson \<Rightarrow> JournalRow \<Rightarrow> JournalEntry \<Rightarrow> bool" where
  "row_holds lib row entry \<longleftrightarrow>
     has_cursor entry \<and> jr_cursor row = show_u64 (entry_cursor entry) \<and>
     jn_audience_from_str lib (jr_audience_json row) = Some (je_audience entry) \<and>
     jn_envelope_from_str lib (jr_envelope_json row) = Some (je_envelope entry)"

definition sequences_ok :: "SqliteTables \<Rightarrow> bool" where
  "sequences_ok db \<longleftrightarrow>
     sorted_wrt (<) (map jr_sequence (sq_journal db)) \<and> (\<forall>row \<in> set (sq_journal db). jr_sequence row \<le> sq_last_sequence db)"

text \<open>The tables that represent a store in memory.\<close>

definition stored :: "StoreJson \<Rightarrow> SqliteTables \<Rightarrow> MemoryStateStore \<Rightarrow> bool" where
  "stored lib db m \<longleftrightarrow>
     sq_user_version db = MESSAGING_SQLITE_SCHEMA_VERSION \<and>
     rel_option (snapshot_holds lib) (sq_snapshot db) (mem_snapshot m) \<and>
     list_all2 (row_holds lib) (sq_journal db) (mem_journal m) \<and>
     sq_floor_cursor db = Some (show_u64 (mem_journal_floor_cursor m)) \<and> sequences_ok db"

text \<open>What is asked of JSON: the values at hand are written as text that reads back.\<close>

definition snapshot_written :: "StoreJson \<Rightarrow> MessagingSnapshot \<Rightarrow> bool" where
  "snapshot_written lib s \<longleftrightarrow>
     (\<exists>t. jn_state_to_string lib (sn_state s) = Some t \<and> jn_state_from_str lib t = Some (sn_state s))"

definition entry_written :: "StoreJson \<Rightarrow> JournalEntry \<Rightarrow> bool" where
  "entry_written lib e \<longleftrightarrow>
     (\<exists>t. jn_audience_to_string lib (je_audience e) = Some t \<and> jn_audience_from_str lib t = Some (je_audience e)) \<and>
     (\<exists>t. jn_envelope_to_string lib (je_envelope e) = Some t \<and> jn_envelope_from_str lib t = Some (je_envelope e))"

lemma migrate_current: "sq_user_version db = MESSAGING_SQLITE_SCHEMA_VERSION \<Longrightarrow> migrate_sqlite db = Ok db"
  by (simp add: migrate_sqlite_def MESSAGING_SQLITE_SCHEMA_VERSION_def)

lemma load_stored_snapshot:
  "rel_option (snapshot_holds lib) (sq_snapshot db) s \<Longrightarrow> load_sqlite_snapshot lib db = Ok s"
  by (auto simp: load_sqlite_snapshot_def snapshot_holds_def validate_snapshot_schema_def elim!: option.rel_cases)

lemma read_stored_rows: "list_all2 (row_holds lib) rows entries \<Longrightarrow> read_journal_rows lib rows = Ok entries"
  by (induction rule: list_all2_induct) (auto simp: row_holds_def)

lemma sqlite_load_stored: "stored lib db m \<Longrightarrow> sqlite_load lib db = memory_load m"
  using load_stored_snapshot[of lib db "mem_snapshot m"] by (simp add: stored_def sqlite_load_def migrate_current memory_load_def)

lemma sqlite_journal_stored:
  "stored lib db m \<Longrightarrow> sqlite_load_event_journal_after lib db r limit = memory_load_event_journal_after m r limit"
  using load_stored_snapshot[of lib db "mem_snapshot m"] read_stored_rows[of lib "sq_journal db" "mem_journal m"]
  by (simp add: stored_def sqlite_load_event_journal_after_def migrate_current memory_load_event_journal_after_def Let_def)

subsection \<open>Appending\<close>

lemma insert_journal_row_stored:
  assumes "journal_cursor e = Ok c" and "entry_written lib e" and "sq_last_sequence db + 1 < 2 ^ 63" and "sequences_ok db"
  shows "\<exists>row. insert_journal_row lib e db
      = Ok (db\<lparr>sq_journal := sq_journal db @ [row], sq_last_sequence := sq_last_sequence db + 1\<rparr>) \<and> row_holds lib row e
    \<and> sequences_ok (db\<lparr>sq_journal := sq_journal db @ [row], sq_last_sequence := sq_last_sequence db + 1\<rparr>)"
proof -
  obtain a t where "jn_audience_to_string lib (je_audience e) = Some a" "jn_audience_from_str lib a = Some (je_audience e)"
    "jn_envelope_to_string lib (je_envelope e) = Some t" "jn_envelope_from_str lib t = Some (je_envelope e)"
    using assms(2) by (auto simp: entry_written_def)
  then show ?thesis
    using assms(1,3,4)
    by (intro exI[of _ "\<lparr>jr_sequence = sq_last_sequence db + 1, jr_cursor = show_u64 c, jr_audience_json = a, jr_envelope_json = t\<rparr>"])
      (auto simp: insert_journal_row_def row_holds_def has_cursor_def entry_cursor_def sequences_ok_def sorted_wrt_append Let_def
        intro: order_less_le_trans)
qed

lemma insert_journal_rows_stored:
  assumes "\<forall>e \<in> set entries. journal_cursor e = Ok c \<and> entry_written lib e"
    and "sq_last_sequence db + int (length entries) < 2 ^ 63" and "sequences_ok db"
  shows "\<exists>rows db'. insert_journal_rows lib entries db = Ok db' \<and> sq_journal db' = sq_journal db @ rows \<and>
     list_all2 (row_holds lib) rows entries \<and> sequences_ok db' \<and> sq_user_version db' = sq_user_version db \<and>
     sq_snapshot db' = sq_snapshot db \<and> sq_floor_cursor db' = sq_floor_cursor db"
  using assms
proof (induction entries arbitrary: db)
  case (Cons e entries)
  obtain row where row: "insert_journal_row lib e db
      = Ok (db\<lparr>sq_journal := sq_journal db @ [row], sq_last_sequence := sq_last_sequence db + 1\<rparr>)" "row_holds lib row e"
    "sequences_ok (db\<lparr>sq_journal := sq_journal db @ [row], sq_last_sequence := sq_last_sequence db + 1\<rparr>)" (is "sequences_ok ?db")
    using insert_journal_row_stored[of e c lib db] Cons.prems by auto
  obtain rows db' where "insert_journal_rows lib entries ?db = Ok db'" "sq_journal db' = sq_journal ?db @ rows"
    "list_all2 (row_holds lib) rows entries" "sequences_ok db'" "sq_user_version db' = sq_user_version ?db"
    "sq_snapshot db' = sq_snapshot ?db" "sq_floor_cursor db' = sq_floor_cursor ?db"
    using Cons.IH[of ?db] Cons.prems row(3) by auto
  then show ?case
    using row by (intro exI[of _ "row # rows"] exI[of _ db']) simp
qed auto

subsection \<open>Pruning\<close>

lemma list_all2_filter:
  assumes "list_all2 R xs ys" and "\<And>i. i < length xs \<Longrightarrow> p (xs ! i) = q (ys ! i)"
  shows "list_all2 R (filter p xs) (filter q ys)"
  using assms
proof (induction rule: list_all2_induct)
  case (Cons x xs y ys)
  have "p x = q y" and "\<And>i. i < length xs \<Longrightarrow> p (xs ! i) = q (ys ! i)"
    using Cons.prems[of 0] Cons.prems[of "Suc _"] by auto
  then show ?case
    using Cons by auto
qed simp

lemma pruned_rows:
  assumes "list_all2 (row_holds lib) rows entries" and "ordered_journal entries" and "sorted_wrt (<) (map jr_sequence rows)"
    and "k < length rows" and "i < length rows"
  shows "max_sequence_of (jr_cursor (rows ! k)) rows < jr_sequence (rows ! i) \<longleftrightarrow> entry_cursor (entries ! k) < entry_cursor (entries ! i)"
proof -
  let ?seq = "\<lambda>i. jr_sequence (rows ! i)" and ?c = "\<lambda>i. entry_cursor (entries ! i)"
  let ?same = "{?seq j | j. j < length rows \<and> ?c j = ?c k}"
  have n: "length entries = length rows"
    using assms(1) by (simp add: list_all2_lengthD)
  have cur: "jr_cursor (rows ! j) = show_u64 (?c j)" if "j < length rows" for j
    using list_all2_nthD[OF assms(1) that] by (simp add: row_holds_def)
  have max_eq: "max_sequence_of (jr_cursor (rows ! k)) rows = Max ?same"
    unfolding max_sequence_of_def using cur assms(4) by (intro arg_cong[where f = Max]) (auto simp: set_conv_nth[of rows])
  have same: "finite ?same" "?same \<noteq> {}"
    using assms(4) by auto
  have seq: "?seq a < ?seq b" if "a < b" "b < length rows" for a b
    using sorted_wrt_nth_less[OF assms(3), of a b] that by simp
  have mono: "?c a \<le> ?c b" if "a \<le> b" "b < length rows" for a b
    using assms(2) that n sorted_nth_mono[of "map entry_cursor entries" a b] by (simp add: ordered_journal_def)
  have before: "a < b" if "?c a < ?c b" "a < length rows" "b < length rows" for a b
    using mono[of b a] that by (meson leD not_le_imp_less)
  have "?seq j < ?seq i" if "?c k < ?c i" "j < length rows" "?c j = ?c k" for j
    using before[of j i] seq[of j i] that assms(5) by simp
  then have up: "Max ?same < ?seq i" if "?c k < ?c i"
    using same that by auto
  have down: "?seq i \<le> Max ?same" if "\<not> ?c k < ?c i"
  proof (cases "?c i = ?c k")
    case True
    then show ?thesis
      using assms(5) same(1) by (intro Max_ge) auto
  next
    case False
    then have "?seq i < ?seq k"
      using before[of i k] seq[of i k] that assms(4,5) by simp
    moreover have "?seq k \<le> Max ?same"
      using assms(4) same(1) by (intro Max_ge) auto
    ultimately show ?thesis
      by simp
  qed
  show ?thesis
    unfolding max_eq using up down by (meson leD)
qed

lemma prune_stored:
  assumes "stored lib db m" and "ordered_journal (mem_journal m)"
  shows "\<exists>db' m'. prune_sqlite_journal db = Ok db' \<and> prune_journal m = (m', Ok ()) \<and> stored lib db' m'"
proof (cases "length (mem_journal m) \<le> MESSAGING_EVENT_JOURNAL_LIMIT")
  case True
  then show ?thesis
    using assms(1) list_all2_lengthD[of "row_holds lib" "sq_journal db" "mem_journal m"]
    by (auto simp: prune_sqlite_journal_def prune_journal_def stored_def)
next
  case False
  define k where "k = length (mem_journal m) - Suc MESSAGING_EVENT_JOURNAL_LIMIT"
  define c where "c = entry_cursor (mem_journal m ! k)"
  have rows: "list_all2 (row_holds lib) (sq_journal db) (mem_journal m)" and seqs: "sequences_ok db"
    using assms(1) by (auto simp: stored_def)
  have n: "length (sq_journal db) = length (mem_journal m)" and k: "k < length (sq_journal db)"
    using list_all2_lengthD[OF rows] False by (auto simp: k_def)
  have jc: "jr_cursor (sq_journal db ! k) = show_u64 c" and ec: "journal_cursor (mem_journal m ! k) = Ok c"
    using list_all2_nthD[OF rows k] by (simp_all add: row_holds_def c_def has_cursor_def)
  let ?db = "set_journal_floor c (db\<lparr>sq_journal := filter (\<lambda>row. max_sequence_of (show_u64 c) (sq_journal db) < jr_sequence row) (sq_journal db)\<rparr>)"
  let ?m = "m\<lparr>mem_journal := after_cursor c (mem_journal m), mem_journal_floor_cursor := c\<rparr>"
  have "prune_sqlite_journal db = Ok ?db"
    using False n by (simp add: prune_sqlite_journal_def Let_def k_def[symmetric] jc)
  moreover have "prune_journal m = (?m, Ok ())"
    using False by (simp add: prune_journal_def Let_def k_def[symmetric] ec dropWhile_after_cursor[OF assms(2)])
  moreover have "list_all2 (row_holds lib) (filter (\<lambda>row. max_sequence_of (show_u64 c) (sq_journal db) < jr_sequence row) (sq_journal db))
      (filter (\<lambda>e. c < entry_cursor e) (mem_journal m))"
    using pruned_rows[OF rows assms(2) _ k] seqs by (intro list_all2_filter[OF rows]) (simp add: sequences_ok_def jc c_def)
  then have "stored lib ?db ?m"
    using assms(1) by (auto simp: stored_def set_journal_floor_def after_cursor_def sequences_ok_def
        sorted_wrt_map intro: sorted_wrt_filter)
  ultimately show ?thesis
    by blast
qed

subsection \<open>Saving\<close>

lemma write_snapshot_stored:
  assumes "snapshot_written lib snapshot" and "sn_schema_version snapshot = MESSAGING_SNAPSHOT_SCHEMA_VERSION"
  shows "\<exists>row. sqlite_write_snapshot lib snapshot db = Ok (db\<lparr>sq_snapshot := Some row\<rparr>) \<and> snapshot_holds lib row snapshot"
  using assms by (auto simp: snapshot_written_def sqlite_write_snapshot_def snapshot_holds_def)

lemma save_with_events_stored:
  assumes "stored lib db m" and "implements_log lg m" and "next_save (mem_snapshot m) snapshot entries"
    and "snapshot_written lib snapshot" and "\<forall>e \<in> set entries. entry_written lib e"
    and "sq_last_sequence db + int (length entries) < 2 ^ 63"
  shows "\<exists>db' m'. sqlite_save_with_events lib db snapshot entries = (db', Ok ()) \<and>
     memory_save_with_events m snapshot entries = (m', Ok ()) \<and> stored lib db' m'"
proof -
  note nxt = assms(3)[unfolded next_save_def] and new = entries_ordered[of entries "sn_cursor snapshot"]
  obtain row where row: "sqlite_write_snapshot lib snapshot db = Ok (db\<lparr>sq_snapshot := Some row\<rparr>)" "snapshot_holds lib row snapshot"
    using write_snapshot_stored[OF assms(4)] nxt by auto
  let ?db = "db\<lparr>sq_snapshot := Some row\<rparr>"
  let ?m = "m\<lparr>mem_snapshot := Some snapshot, mem_journal := mem_journal m @ entries\<rparr>"
  obtain rows db1 where db1: "insert_journal_rows lib entries ?db = Ok db1" "sq_journal db1 = sq_journal db @ rows"
    "list_all2 (row_holds lib) rows entries" "sequences_ok db1" "sq_user_version db1 = sq_user_version db"
    "sq_snapshot db1 = Some row" "sq_floor_cursor db1 = sq_floor_cursor db"
    using insert_journal_rows_stored[of entries "sn_cursor snapshot" lib ?db] assms(1,5,6) nxt
    by (auto simp: stored_def sequences_ok_def)
  have "stored lib db1 ?m"
    using assms(1) db1 row(2) by (auto simp: stored_def intro: list_all2_appendI)
  moreover have "ordered_journal (mem_journal ?m)"
    using assms(2) nxt new by (auto simp: implements_log_def ordered_journal_append dest: order_trans)
  ultimately obtain db' m' where p: "prune_sqlite_journal db1 = Ok db'" "prune_journal ?m = (m', Ok ())" "stored lib db' m'"
    using prune_stored by blast
  have accepted: "try_all (\<lambda>event. and_then (journal_cursor event) (\<lambda>_. Ok ())) entries = Ok ()"
    using nxt by (simp add: try_all_Inr_iff)
  have "sqlite_save_with_events lib db snapshot entries = (db', Ok ())"
    using assms(1) nxt row(1) db1(1) p(1)
    by (simp add: sqlite_save_with_events_def validate_snapshot_schema_def sqlite_transaction_def stored_def migrate_current)
  moreover have "memory_save_with_events m snapshot entries = (m', Ok ())"
    using nxt p(2) accepted by (simp add: memory_save_with_events_def validate_snapshot_schema_def)
  ultimately show ?thesis
    using p(3) by blast
qed

lemma save_stored:
  assumes "stored lib db m" and "implements_log lg m" and "next_save (mem_snapshot m) snapshot []"
    and "snapshot_written lib snapshot"
  shows "\<exists>db' m'. sqlite_save lib db snapshot = (db', Ok ()) \<and> memory_save m snapshot = (m', Ok ()) \<and> stored lib db' m'"
proof -
  note nxt = assms(3)[unfolded next_save_def]
  obtain row where row: "sqlite_write_snapshot lib snapshot db = Ok (db\<lparr>sq_snapshot := Some row\<rparr>)" "snapshot_holds lib row snapshot"
    using write_snapshot_stored[OF assms(4)] nxt by auto
  have floor: "mem_journal_floor_cursor m \<le> sn_cursor snapshot"
    using assms(2) nxt by (auto simp: implements_log_def dest: order_trans)
  have empty: "sq_journal db = [] \<longleftrightarrow> mem_journal m = []"
    using assms(1) by (auto simp: stored_def)
  show ?thesis
    using assms(1) nxt row floor empty
    by (auto simp: sqlite_save_def memory_save_def validate_snapshot_schema_def sqlite_transaction_def stored_def migrate_current
        set_journal_floor_def sequences_ok_def max_absorb2)
qed

text \<open>A new database, and one of version 1, whose clients have to synchronize anew.\<close>

lemma new_database_stored:
  "\<exists>db. migrate_sqlite \<lparr>sq_user_version = 0, sq_snapshot = None, sq_journal = [], sq_last_sequence = 0, sq_floor_cursor = None\<rparr>
      = Ok db \<and> stored lib db MemoryStateStore_default"
  by (simp add: migrate_sqlite_def stored_def MESSAGING_SQLITE_SCHEMA_VERSION_def MemoryStateStore_default_def sequences_ok_def)

lemma version_1_stored:
  assumes "sq_user_version db = 1" and "sq_snapshot db = Some row" and "snapshot_holds lib row s" and "sq_journal db = []"
  shows "\<exists>db'. migrate_sqlite db = Ok db' \<and>
     stored lib db' \<lparr>mem_snapshot = Some s, mem_journal = [], mem_journal_floor_cursor = sn_cursor s\<rparr>"
  using assms by (auto simp: migrate_sqlite_def stored_def MESSAGING_SQLITE_SCHEMA_VERSION_def sequences_ok_def snapshot_holds_def)

lemma json_saved_loads:
  assumes "json_save lib j snapshot = (j', Ok ())"
    and "\<And>t. jn_snapshot_to_vec lib snapshot = Some t \<Longrightarrow> jn_snapshot_from_slice lib t = Some snapshot"
  shows "json_load lib j' = Ok (Some snapshot)"
  using assms
  by (auto simp: json_save_def json_load_def validate_snapshot_schema_def Let_def result_simps split: sum.splits if_splits)

text \<open>A snapshot is imported once: the next import finds it in the database.\<close>

lemma import_json_once:
  assumes "stored lib db MemoryStateStore_default" and "json_load lib legacy = Ok (Some snapshot)" and "snapshot_written lib snapshot"
  shows "\<exists>db'. import_json_if_empty lib db legacy = (db', Ok True) \<and> sqlite_load lib db' = Ok (Some snapshot) \<and>
     import_json_if_empty lib db' legacy = (db', Ok False)"
proof -
  have "sn_schema_version snapshot = MESSAGING_SNAPSHOT_SCHEMA_VERSION"
    using assms(2) by (auto simp: json_load_def validate_snapshot_schema_def result_simps split: option.splits if_splits)
  then have "next_save (mem_snapshot MemoryStateStore_default) snapshot []"
    by (simp add: next_save_def log_cursor_def MemoryStateStore_default_def)
  from save_stored[OF assms(1) empty_log this assms(3)] obtain db' m' where
    s: "sqlite_save lib db snapshot = (db', Ok ())" "memory_save MemoryStateStore_default snapshot = (m', Ok ())" "stored lib db' m'"
    by blast
  then have load: "sqlite_load lib db' = Ok (Some snapshot)"
    by (auto simp: sqlite_load_stored memory_load_def memory_save_def split: sum.splits)
  have "sqlite_load lib db = Ok None"
    using sqlite_load_stored[OF assms(1)] by (simp add: memory_load_def MemoryStateStore_default_def)
  then show ?thesis
    using s(1) load assms(2) by (simp add: import_json_if_empty_def)
qed

section \<open>Properties\<close>

text \<open>
  JSON takes only strings as keys of an object. The grants of mini apps are kept in a map whose keys are
  pairs, and \<open>serde_json\<close> refuses to write a state that holds one.
\<close>

definition json_refuses_pairs :: "StoreJson \<Rightarrow> bool" where
  "json_refuses_pairs lib \<longleftrightarrow> (\<forall>s. s_mini_app_grants s \<noteq> fmempty \<longrightarrow> jn_state_to_string lib s = None)"

lemma grants_not_saved:
  assumes "stored lib db m" and "json_refuses_pairs lib" and "s_mini_app_grants (sn_state snapshot) \<noteq> fmempty"
    and "sn_schema_version snapshot = MESSAGING_SNAPSHOT_SCHEMA_VERSION"
  shows "sqlite_save lib db snapshot = (db, Err StoreJsonFailed)"
    and "sqlite_save_with_events lib db snapshot entries = (db, Err StoreJsonFailed)"
  using assms
  by (simp_all add: sqlite_save_def sqlite_save_with_events_def validate_snapshot_schema_def sqlite_transaction_def
      sqlite_write_snapshot_def json_refuses_pairs_def stored_def migrate_current)

text \<open>
  C5: the SQLite store implements the store in memory, and so the log that is never cut, for every state
  that JSON can hold. Tables that represent a memory store load the same snapshot and give the same pages
  of the journal. Saving the next snapshot, with entries or without, succeeds on both and leaves tables that
  represent the new memory store, however many rows have to be pruned, provided that the state and the
  entries are written as JSON that reads back and that the sequence of the journal is not at its end. A
  state that holds a grant of a mini app is not one of these: since JSON refuses keys that are not strings,
  both saves fail and leave the tables as they were, while the memory store takes the snapshot.
\<close>

theorem sqlite_store_refines_memory:
  assumes "stored lib db m" and "implements_log lg m"
  shows "sqlite_load lib db = memory_load m
    \<and> sqlite_load_event_journal_after lib db r limit = memory_load_event_journal_after m r limit
    \<and> (next_save (mem_snapshot m) snapshot entries \<longrightarrow> snapshot_written lib snapshot \<longrightarrow> list_all (entry_written lib) entries \<longrightarrow>
       sq_last_sequence db + int (length entries) < 2 ^ 63 \<longrightarrow>
       (\<exists>db' m'. sqlite_save_with_events lib db snapshot entries = (db', Ok ()) \<and>
          memory_save_with_events m snapshot entries = (m', Ok ()) \<and> stored lib db' m'))
    \<and> (next_save (mem_snapshot m) snapshot [] \<longrightarrow> snapshot_written lib snapshot \<longrightarrow>
       (\<exists>db' m'. sqlite_save lib db snapshot = (db', Ok ()) \<and> memory_save m snapshot = (m', Ok ()) \<and> stored lib db' m'))
    \<and> (next_save (mem_snapshot m) snapshot entries \<longrightarrow> json_refuses_pairs lib \<longrightarrow>
       s_mini_app_grants (sn_state snapshot) \<noteq> fmempty \<longrightarrow>
       sqlite_save lib db snapshot = (db, Err StoreJsonFailed) \<and>
       sqlite_save_with_events lib db snapshot entries = (db, Err StoreJsonFailed) \<and>
       (\<exists>m'. memory_save_with_events m snapshot entries = (m', Ok ())))"
proof (intro conjI impI)
  assume n: "next_save (mem_snapshot m) snapshot entries" and "json_refuses_pairs lib"
    and "s_mini_app_grants (sn_state snapshot) \<noteq> fmempty"
  then show "sqlite_save lib db snapshot = (db, Err StoreJsonFailed)"
    "sqlite_save_with_events lib db snapshot entries = (db, Err StoreJsonFailed)"
    using grants_not_saved [OF assms(1)] by (simp_all add: next_save_def)
  show "\<exists>m'. memory_save_with_events m snapshot entries = (m', Ok ())"
    using memory_save_with_events_Ok [OF assms(2) n] by blast
qed (use sqlite_load_stored[OF assms(1)] sqlite_journal_stored[OF assms(1)] save_with_events_stored[OF assms]
    save_stored[OF assms] in \<open>auto simp: list_all_iff\<close>)

definition demo_json :: StoreJson where
  "demo_json =
     \<lparr>jn_snapshot_to_vec = (\<lambda>_. None), jn_snapshot_from_slice = (\<lambda>_. None),
      jn_state_to_string = (\<lambda>s. if s_mini_app_grants s = fmempty then Some ''s'' else None),
      jn_state_from_str = (\<lambda>_. Some MessagingState_default),
      jn_audience_to_string = (\<lambda>_. Some ''a''), jn_audience_from_str = (\<lambda>_. Some (je_audience demo_entry)),
      jn_envelope_to_string = (\<lambda>_. Some ''e''), jn_envelope_from_str = (\<lambda>_. Some (je_envelope demo_entry))\<rparr>"

definition demo_database :: SqliteTables where
  "demo_database =
     \<lparr>sq_user_version = 2, sq_snapshot = None, sq_journal = [], sq_last_sequence = 0, sq_floor_cursor = Some ''0''\<rparr>"

definition demo_granted :: MessagingSnapshot where
  "demo_granted = demo_snapshot\<lparr>sn_state := MessagingState_default
     \<lparr>s_mini_app_grants := fmupd (''app'', ActorId ''u'') \<lparr>mg_mini_app_id = ''app'', mg_actor_id = ActorId ''u'',
        mg_permissions = [], mg_granted_at_ms = 0, mg_expires_at_ms = None\<rparr> fmempty\<rparr>\<rparr>"

theorem sqlite_store_refines_memory_witness:
  "(\<exists>db' m'. sqlite_save_with_events demo_json demo_database demo_snapshot [demo_entry] = (db', Ok ()) \<and>
     memory_save_with_events MemoryStateStore_default demo_snapshot [demo_entry] = (m', Ok ()) \<and> stored demo_json db' m')
   \<and> sqlite_save_with_events demo_json demo_database demo_granted [demo_entry] = (demo_database, Err StoreJsonFailed)
   \<and> (\<exists>m'. memory_save_with_events MemoryStateStore_default demo_granted [demo_entry] = (m', Ok ()))"
proof -
  have st: "stored demo_json demo_database MemoryStateStore_default"
    by (simp add: stored_def demo_database_def MESSAGING_SQLITE_SCHEMA_VERSION_def MemoryStateStore_default_def sequences_ok_def)
  have "snapshot_written demo_json demo_snapshot" "list_all (entry_written demo_json) [demo_entry]"
    by (simp_all add: snapshot_written_def entry_written_def demo_json_def demo_snapshot_def MessagingSnapshot_new_def
        MessagingState_default_def)
  moreover have "sq_last_sequence demo_database + int (length [demo_entry]) < 2 ^ 63"
    by (simp add: demo_database_def)
  ultimately have saved: "\<exists>db' m'. sqlite_save_with_events demo_json demo_database demo_snapshot [demo_entry] = (db', Ok ()) \<and>
     memory_save_with_events MemoryStateStore_default demo_snapshot [demo_entry] = (m', Ok ()) \<and> stored demo_json db' m'"
    using sqlite_store_refines_memory[OF st empty_log, of 0 1 demo_snapshot "[demo_entry]"] demo_save by blast
  have "next_save (mem_snapshot MemoryStateStore_default) demo_granted [demo_entry]"
    using demo_save by (auto simp: next_save_def demo_granted_def)
  moreover have "json_refuses_pairs demo_json" by (simp add: json_refuses_pairs_def demo_json_def)
  moreover have "s_mini_app_grants (sn_state demo_granted) \<noteq> fmempty"
    by (simp add: demo_granted_def)
  ultimately show ?thesis
    using saved sqlite_store_refines_memory[OF st empty_log, of 0 1 demo_granted "[demo_entry]"] by blast
qed

end
