(* ===== verification/Spec2Isabelle.thy ===== *)
theory Spec2Isabelle
  imports Engine_Payments Engine_Community Engine_Services Service_Privacy Service_Sending Secret_Chat
    Media_Transfer Media_Cache Access Signaling Service_Calls Devices Notifications Privacy
    Transport Mtproto_Session Handshake_Exchange Network_Safety Telegram_Transfers Telegram_Delivery Runtime_Safety
    Store_Disk
begin

text \<open>
  A verification development for the native core of the Fabushi platform: the Rust crate
  \<open>src/native/mahayana-messaging\<close> with its event-sourced engine, the service that authorizes, journals
  and persists around it and the components both call, and the Rust crates of the Telegram client,
  \<open>src/native/telegram-protocol\<close>, \<open>telegram-network\<close>, \<open>telegram-core\<close>, \<open>telegram-media\<close>,
  \<open>telegram-storage\<close> and \<open>telegram-runtime\<close>.

  \<^bold>\<open>The program.\<close> The engine (\<open>engine.rs\<close>) keeps one \<open>MessagingState\<close>: tables of actors, conversations,
  messages, drafts, read cursors, poll votes, invoices, orders, stories, communities, bots and Mini
  Apps, and a wallet ledger. \<open>MessagingEngine::execute\<close> runs a \<open>Command\<close> in two steps: \<open>decide\<close> reads the
  state, checks the command and returns events or an error; \<open>apply\<close> writes one event into the state and
  cannot fail. The components the engine calls are the ledger (\<open>wallet.rs\<close>), the invoices
  (\<open>payment.rs\<close>), the communities (\<open>community.rs\<close>), retention of messages (\<open>retention.rs\<close>), stories
  (\<open>story.rs\<close>), bots (\<open>bot.rs\<close>) and Mini Apps (\<open>miniapp.rs\<close>); the engine clones the ledger, a community or
  the bot registry, runs the component's operation on the clone, and puts the result into an event.
  The service (\<open>service.rs\<close>) takes a \<open>ClientEnvelope\<close> of an authenticated actor, checks what the actor may
  ask for, deletes the messages whose time has passed, turns the command of the client into commands
  of the engine, executes them, turns the events into envelopes for clients with the audience of each,
  and saves a snapshot of the state with these envelopes as journal entries in a store (\<open>store.rs\<close>);
  clients that come back with a cursor get the entries after it. Blobs (\<open>blob_store.rs\<close>), search
  (\<open>search.rs\<close>) and signed settlements of payment providers (\<open>settlement.rs\<close>) go through the service too.
  Secret chats (\<open>secret_chat.rs\<close>) run at the clients: the server sees only their envelopes. Beside the
  engine stand the queue of media transfers (\<open>media.rs\<close>) and the media cache (\<open>media_cache.rs\<close>) of a
  client, access tokens (\<open>access.rs\<close>), device sessions (\<open>device.rs\<close>), rules of notifications and privacy
  (\<open>notification.rs\<close>, \<open>privacy.rs\<close>), calls with the hub that routes their signals (\<open>realtime.rs\<close>,
  \<open>signaling.rs\<close>) and service calls of Mini Apps (\<open>miniapp_service_call.rs\<close>).
  The Telegram client speaks MTProto in layers: the values of a message are written and read by the TL
  codec (\<open>tl.rs\<close>), messages are numbered by a session (\<open>session.rs\<close>, \<open>request.rs\<close>), encrypted under an
  authorization key (\<open>crypto.rs\<close>) and put into frames of one of four transports (\<open>transport.rs\<close>). The
  key comes from an exchange with a data center (\<open>handshake.rs\<close>, \<open>dc.rs\<close>); a user signs in through the
  authorization machine (\<open>auth.rs\<close>) and, where there is a password, its proof (\<open>srp.rs\<close>); requests and
  updates have their bodies in \<open>api.rs\<close> and \<open>updates.rs\<close>. The crate \<open>telegram-network\<close> puts these layers on
  a socket: it connects, exchanges the key, sends encrypted requests, acknowledges what it receives and
  looks for the answer in the messages of the server. The state of the client is a second event-sourced
  engine (\<open>telegram-core\<close>), and its uploads and downloads are a third one (\<open>telegram-media\<close>). An encrypted
  database (\<open>telegram-storage\<close>) keeps snapshots of that state, the log of its events and an index of messages
  that can be searched without storing their words. The runtime (\<open>telegram-runtime\<close>) holds the clients of a
  process, each with engine, authorization, connection and perhaps a database, and executes the requests
  of the platforms on them.

  \<^bold>\<open>How the code is modelled.\<close> A struct is a \<^verbatim>\<open>record\<close> (fields carry a short prefix of the struct), an enum a
  \<^verbatim>\<open>datatype\<close> with the source's variants, a method one definition. \<open>i64\<close>, \<open>u64\<close>, \<open>u32\<close>, \<open>u16\<close> and \<open>u8\<close> are machine
  words of that width and the checked, saturating and wrapping operations of Rust are written out over
  them; \<open>usize\<close> is a \<^typ>\<open>nat\<close> that saturates at \<open>2 ^ 64 - 1\<close>. A \<open>String\<close> is the list of its bytes in UTF-8, so \<open>len\<close> is
  the length of the list and the derived order is the lexicographic one; \<open>trim\<close> removes the white space
  of Unicode in its encodings of one, two and three bytes. Where the code calls \<open>to_uppercase\<close>, on
  currencies, the model changes the letters of ASCII; other letters of a currency would be changed by
  the code as well. An \<open>f64\<close> of a location is its 64 bits: the engine only stores it. Where the
  service compares the content of a repeated send, the code compares such a number as \<open>PartialEq\<close> does,
  which tells NaN from itself and does not tell \<open>-0.0\<close> from \<open>0.0\<close>; the model compares the bits. \<open>BTreeMap\<close> and
  \<open>BTreeSet\<close> are finite maps and finite sets, iterated in ascending order of the keys. \<open>Result\<close> is a sum
  whose left side is the error. A method that writes through \<open>&mut self\<close> and may fail returns the state it
  leaves behind beside its result, so partial writes before an error are part of the model. Code of
  other crates is a parameter: the tables of Unicode of the search (\<open>UnicodeTables\<close>), hash, base64 and
  these tables for the service (\<open>Externals\<close>), the JSON of the stores (\<open>StoreJson\<close>), the keyed hash of settlements, the ciphers, key agreement,
  random bytes and encodings of secret chats (\<open>SecretCrypto\<close>), the hash and the random bytes of access
  tokens, the checksum \<open>crc\<close> of frames, hashes and block cipher of MTProto (\<open>MtprotoPrimitives\<close>), big
  integers (\<open>BigLibrary\<close>), the hashes of the password (\<open>SrpHashes\<close>), the random source of the key
  exchange, the clock, the random bytes and the sockets of the network (\<open>NetworkEnv\<close>), the decoder of
  hexadecimal digests, cipher, keyed hash, JSON and the tables of Unicode of the database (\<open>StorageLibrary\<close>)
  and the readers of requests of the runtime (\<open>RuntimeEnv\<close>); what a theorem needs of them is a hypothesis such as \<open>crypto_laws\<close>, \<open>primitive_laws\<close> or
  \<open>big_laws\<close>, and a witness instantiates them with concrete functions. The trait \<open>MessagingStateStore\<close> is the record \<open>StateStore\<close> of its
  operations, passed to the service as Rust passes the type.

  \<^bold>\<open>Theories.\<close>
  \<^item> \<open>Prelude\<close>: results, integers, strings, finite maps and their lemmas; the collections
    \<open>result_simps\<close> and others that carry the proofs of the components.
  \<^item> \<open>Actors\<close>, \<open>Conversations\<close>, \<open>Messages\<close>, \<open>Retention\<close>, \<open>Payment\<close>, \<open>Wallet\<close>, \<open>Community\<close>, \<open>Story\<close>, \<open>Bots\<close>,
    \<open>Mini_Apps\<close>: one file of the crate each, with the lemmas on its operations. \<open>Wallet\<close> holds the
    invariant of the ledger and the theorems on transfers, refunds, repeated requests and errors.
  \<^item> \<open>Engine_State\<close>: commands, events, errors, the state and the look-ups of \<open>engine.rs\<close>.
  \<^item> \<open>Decide_Conversations\<close>, \<open>Decide_Messages\<close>, \<open>Decide_Community\<close>, \<open>Decide_Services\<close>: one definition
    \<open>decide_X\<close> for each arm \<open>Command::X\<close> of \<open>decide\<close>. The long arm of \<open>QueueMessage\<close> is a chain of checks
    \<open>queue_check_*\<close> in the order of the code.
  \<^item> \<open>Engine_Apply\<close>: one definition \<open>apply_X\<close> for each arm \<open>Event::X\<close> of \<open>apply\<close>, and the two dispatchers
    \<open>decide\<close> and \<open>apply_event\<close>.
  \<^item> \<open>Event_Sourcing\<close>: runs of commands. The locale \<open>event_sourced\<close> states what the clients of an engine
    rely on (a refused command writes nothing, an accepted one writes its events), the locale
    \<open>event_invariant\<close> how an invariant follows from a guarantee on the events of \<open>decide\<close>; both are
    interpreted on the messaging engine, the Telegram engine and the transfer queue.
  \<^item> \<open>Engine\<close>: \<open>execute\<close> and \<open>complete_paid_order\<close>.
  \<^item> \<open>Engine_Views\<close>: what \<open>apply\<close> does to one message, draft, cursor or mark.
  \<^item> \<open>Engine_Contract\<close>: what \<open>decide\<close> promises of every event it emits (\<open>event_ok\<close>), and that the tables
    stay keyed by identifiers (\<open>keys_ok\<close>).
  \<^item> \<open>Engine_Footprint\<close>: which tables a command can write; the locale \<open>framed\<close> turns the footprint into
    frame lemmas and is interpreted for nine tables.
  \<^item> \<open>Engine_Payments\<close>, \<open>Engine_Messages\<close>, \<open>Community_Paging\<close>, \<open>Engine_Community\<close>, \<open>Engine_Services\<close>: the
    properties of the whole engine, component by component.
  \<^item> \<open>Search\<close>, \<open>Blob_Store\<close>, \<open>Protocol\<close>, \<open>Store\<close>, \<open>Settlement\<close>: one file of the crate each. The files of
    the blob store are two finite maps, from paths to bytes and from paths to metadata.
  \<^item> \<open>Store_Journal\<close>: the memory store against an abstract log; the locale \<open>state_store\<close> states the contract
    of a store and is interpreted on the memory store.
  \<^item> \<open>Store_Disk\<close>: the JSON file and the SQLite database of \<open>store.rs\<close>, and that the database implements
    the memory store.
  \<^item> \<open>Service_Views\<close>, \<open>Service_Auth\<close>, \<open>Service\<close>: what \<open>service.rs\<close> shows an actor, what it lets the actor
    ask for and which engine commands it makes of it, and the handler \<open>handle\<close> with its state.
  \<^item> \<open>Service_Run\<close>: inside \<open>state_store\<close>, the outcome of every request (\<open>outcome_ok\<close>), the step relation
    \<open>service_step\<close> over requests and settlements, and the invariant \<open>service_ok\<close> of reachable services.
  \<^item> \<open>Service_Safety\<close>, \<open>Service_Privacy\<close>, \<open>Service_Sending\<close>: the properties of the service.
  \<^item> \<open>Secret_Chat\<close>: sessions of secret chats and their properties.
  \<^item> \<open>Media_Transfer\<close>, \<open>Media_Cache\<close>, \<open>Access\<close>, \<open>Signaling\<close>, \<open>Service_Calls\<close>, \<open>Devices\<close>, \<open>Notifications\<close>,
    \<open>Privacy\<close>: one component each, with its operations, the runs it can make and its properties.
    \<open>Signaling\<close> holds \<open>realtime.rs\<close> too; the channels of the standard library are queues with a flag
    for the receiver.
  \<^item> \<open>Bytes\<close>, \<open>Tl\<close>: integers as bytes, UTF-8, and the TL codec. The locale \<open>tl_codec\<close> states what a writing
    and a reading operation promise each other and is interpreted for every pair of the codec.
  \<^item> \<open>Transport\<close>: the four frame formats; the locale \<open>frame_stream\<close> states what the reader of a socket
    relies on and is interpreted on the codec.
  \<^item> \<open>Mtproto_Session\<close>, \<open>Authorization\<close>, \<open>Mtproto_Crypto\<close>, \<open>Datacenters\<close>: numbering of messages, the
    authorization machine, encryption with AES in IGE mode, and the directory of data centers.
  \<^item> \<open>Big_Numbers\<close>, \<open>Srp\<close>, \<open>Pq_Factoring\<close>: the interface to big integers and its laws, the proof of the
    password, and the test of primes with the search for factors over \<open>u64\<close>.
  \<^item> \<open>Handshake\<close>, \<open>Handshake_Safety\<close>: the key exchange as a state machine of the client with explicit
    random draws, and its properties over runs that record the answers received and the bodies sent.
  \<^item> \<open>Handshake_Exchange\<close>: a whole exchange with concrete primitives that establishes a key.
  \<^item> \<open>Telegram_Api\<close>: bodies of requests with their checks and the parsers of the answers and updates.
  \<^item> \<open>Telegram_Network\<close>, \<open>Network_Safety\<close>: the network layer over sockets and its properties. A socket is
    the list of what its reads return and the bytes written to it, with the faults of its writes.
  \<^item> \<open>Telegram_Core\<close>, \<open>Telegram_Delivery\<close>: the engine of the Telegram client and the delivery of messages.
  \<^item> \<open>Telegram_Transfers\<close>: the transfer queue of the Telegram client.
  \<^item> \<open>Telegram_Storage\<close>, \<open>Storage_Safety\<close>: the encrypted database as the record of its tables, with
    transactions that take effect as a whole or not at all, and its properties.
  \<^item> \<open>Telegram_Runtime\<close>, \<open>Runtime_Safety\<close>: the registry of clients, the databases they may share, every
    request with its replies and errors, the runtimes that can be reached and their properties.

  \<^bold>\<open>What is shown.\<close> Engine: every reachable state is keyed consistently (this theory);
  only settlements add money, checkouts and refunds move exact amounts and can be repeated without
  effect (a checkout whose ledger request a refund has used before moves nothing and is still paid), and the ledger of every reachable state is sound; no message is
  lost or overwritten, and slow mode, retention, polls and secret conversations behave as stated;
  owners are protected from everyone but owners, bans take effect in every table, administration is
  audited in a bounded log, and paging over members is complete. Service: stored messages keep
  their sender and new ones carry the authenticated actor, no request of a client makes money, a settlement is credited once, the state
  survives a restart, a refused request changes at most what maintenance and blobs change, a repeated
  send is answered without effect (secret content sent without protection is answered with a conflict), clients see only conversations open to them, in answers, search and
  journal, and the journal holds no invite tokens. Store: it implements an append-only log with a
  floor, in memory and, with the same answers for every state that JSON can hold, in SQLite; a state
  with a grant of a Mini App is refused there; and a client that follows the checkpoints
  receives every entry. Blobs: an upload in chunks
  stores the concatenated bytes. Secret chats: both sides agree on keys, what is encrypted is decrypted,
  no counter is accepted twice, the replay window implements a set of counters, and a backup restores
  the session. Client side: revoked access is final, the media cache keeps its budget and its eviction
  returns, a completed transfer is whole, signals reach exactly their audience, service calls ask for
  exposed tools only. Telegram client: what the TL writer accepts the reader reads back, and the reader
  stays inside its input and limits; frames are decoded as they were encoded however the stream is cut;
  padding of a frame is handed on with its payload and quick acknowledgements are skipped; message identifiers grow and none of the server is accepted twice; decryption returns a message
  exactly when the envelope is its encryption; the authorization follows the server; factors found
  multiply to the number of the server, both sides of the exchange compute one key, and the key
  that is established is the power of the value the server sent to the exponent drawn for the request
  that was sent, confirmed by an answer with both nonces and the digest of this key; the proof of the password is the one the server
  expects; a parsed directory holds exactly the endpoints it was sent; payloads are received in order;
  a request is answered only by bytes that this call received, that encrypt a message with the answer
  under the key of the session and name an envelope that this call wrote; requests wait exactly for the pending messages, an acknowledgement delivers once, and no
  message is lost; the transfer queue keeps its slots and a queued transfer can be carried out;
  a search over keyed digests finds what a search over the messages would find; a command that a client
  with a database accepted is there after a restart, a client of the same database that is behind is refused
  without effect, and a request concerns no client and no database but its own. A few theorems state behaviour of the code that its callers may not expect; the
  findings of the manifest list them.

  \<^bold>\<open>Bounds.\<close> Theorems on the numbering of the ledger count at most \<open>2 ^ 64 - 1\<close> entries, what a \<open>usize\<close> can
  count. The walk over the pages of a community takes fuel; one request more than there are members is
  proved to be enough. The walk of a client over the journal (\<open>catch_up\<close>) takes fuel; as many requests
  as there are entries, and one more, are proved to be enough. Sending the chunks of a transfer takes
  fuel; one step for every byte is proved to be enough. The eviction loop of the media cache is a partial
  function, proved to return on every cache whose entries stand under their own identifiers. The 128
  attempts of \<open>rsa_pad\<close>, the 1000000 steps of Pollard's method, the two attempts of a request and the 64
  messages read for each are bounds of the code itself. The loops over a socket and over nested
  containers are proved to end. All
  other functions are total without fuel.

  \<^bold>\<open>What is not modelled.\<close> Serialization, paths and failures of disks and of SQLite, the locks
  and sockets of the servers (\<open>gateway.rs\<close>, \<open>server.rs\<close>, \<open>signaling_server.rs\<close>), failures of the file
  system other than missing files, extensions and payment providers. Of the Telegram client: the parser
  of the TL schema used by the build and the table it generates, the C interface of
  \<open>telegram-runtime\<close> and the bindings of \<open>telegram-wasm\<close>; requests to the runtime that
  run at the same time; timeouts of sockets are failures of a read or a write.
\<close>

section \<open>The tables of the engine\<close>

text \<open>
  C20: identifiers stay consistent. After every run of commands from the empty state, every actor,
  conversation, folder, invoice, order, story, community, Mini App, grant and session stands in its
  table under its own identifier, and so do messages and drafts in theirs, under their conversation,
  actor and topic.
\<close>

theorem tables_consistent:
  "keys_ok (fst (run_commands execute MessagingState_default cs))"
  using keys.run_inv [OF keys_ok_default, of cs] by (simp add: engine.run_state)

end
